(* ===== verification/Prelude.thy ===== *)
theory Prelude imports Complex_Main "HOL-Library.AList" "HOL-Library.List_Lexorder" "HOL-Library.Char_ord" "HOL-Library.Product_Lexorder" "HOL-Library.Sublist" "HOL-Library.Multiset" begin

text \<open>
  Shared ground of the development: results of fallible code, Python dictionaries as
  association lists, stable selection by a key, and the text operations of Python's \<open>str\<close>
  that the modelled modules use.

  Text is a \<open>string\<close>, read as a sequence of code points below 256; a \<open>UUID\<close> is the text that
  \<open>str(uuid)\<close> returns, which is also what the code orders UUIDs by.
\<close>

named_theorems res_simps "rewrite rules for results of fallible code"
named_theorems sel_intros "facts on stable selection by a key"

type_synonym uuid = string

section \<open>Results of fallible code\<close>

text \<open>\<open>Inl e\<close> is an exception that propagates, \<open>Inr a\<close> a normal return.\<close>

fun bind_res :: "'e + 'a \<Rightarrow> ('a \<Rightarrow> 'e + 'b) \<Rightarrow> 'e + 'b" where
  "bind_res (Inl e) f = Inl e"
| "bind_res (Inr a) f = f a"

fun map_res :: "('a \<Rightarrow> 'e + 'b) \<Rightarrow> 'a list \<Rightarrow> 'e + 'b list" where
  "map_res f [] = Inr []"
| "map_res f (x # xs) =
     bind_res (f x) (\<lambda>y. bind_res (map_res f xs) (\<lambda>ys. Inr (y # ys)))"

lemma bind_res_Inr_iff [res_simps]:
  "bind_res m f = Inr y \<longleftrightarrow> (\<exists>x. m = Inr x \<and> f x = Inr y)"
  by (cases m) auto

lemma bind_res_Inl_iff [res_simps]:
  "bind_res m f = Inl e \<longleftrightarrow> m = Inl e \<or> (\<exists>x. m = Inr x \<and> f x = Inl e)"
  by (cases m) auto

lemma if_res_Inr_iff [res_simps]:
  "(if b then Inl e else m) = Inr y \<longleftrightarrow> \<not> b \<and> m = Inr y"
  by simp

lemma map_res_Inr_iff [res_simps]:
  "map_res f xs = Inr ys \<longleftrightarrow> list_all2 (\<lambda>x y. f x = Inr y) xs ys"
  by (induction xs arbitrary: ys) (auto simp: bind_res_Inr_iff list_all2_Cons1)

lemma list_all2_right: "list_all2 P xs ys \<Longrightarrow> y \<in> set ys \<Longrightarrow> \<exists>x \<in> set xs. P x y"
  by (induction rule: list_all2_induct) auto

lemma list_all2_left: "list_all2 P xs ys \<Longrightarrow> x \<in> set xs \<Longrightarrow> \<exists>y \<in> set ys. P x y"
  by (induction rule: list_all2_induct) auto

lemma map_res_total:
  "(\<And>x. x \<in> set xs \<Longrightarrow> \<exists>y. f x = Inr y) \<Longrightarrow> \<exists>ys. map_res f xs = Inr ys"
proof (induction xs)
  case (Cons x xs)
  from Cons.prems obtain y where "f x = Inr y" by fastforce
  moreover from Cons obtain ys where "map_res f xs = Inr ys" by fastforce
  ultimately show ?case by simp
qed simp

section \<open>Searching a list\<close>

lemma find_app: "find p (xs @ ys) = (case find p xs of None \<Rightarrow> find p ys | Some x \<Rightarrow> Some x)"
  by (induction xs) auto

lemma find_hd_filter: "find p xs = (case filter p xs of [] \<Rightarrow> None | x # _ \<Rightarrow> Some x)"
  by (induction xs) auto

section \<open>Dictionaries in insertion order\<close>

text \<open>
  A Python dict keeps the position of a key's first insertion and the value of its last
  one; \<^const>\<open>AList.update\<close> does the same. \<open>d.get(k)\<close> is \<^const>\<open>map_of\<close>.
\<close>

type_synonym ('k, 'v) dict = "('k \<times> 'v) list"

abbreviation dict_set :: "'k \<Rightarrow> 'v \<Rightarrow> ('k, 'v) dict \<Rightarrow> ('k, 'v) dict" where
  "dict_set \<equiv> AList.update"

definition dict_get :: "('k, 'v) dict \<Rightarrow> 'k \<Rightarrow> 'v option" where
  "dict_get d k = map_of d k"

lemma dict_get_set [simp]: "dict_get (dict_set k v d) = (dict_get d)(k \<mapsto> v)"
  by (simp add: dict_get_def update_conv' fun_eq_iff)

text \<open>\<open>{key(x): x for x in xs}\<close> and \<open>next(x for x in xs if p(x))\<close>.\<close>

definition first_match :: "('a \<Rightarrow> bool) \<Rightarrow> 'a list \<Rightarrow> 'a option" where
  "first_match p xs = find p xs"

lemma first_match_Some:
  "first_match p xs = Some x \<Longrightarrow> x \<in> set xs \<and> p x"
  by (auto simp: first_match_def find_Some_iff)

lemma first_match_exists:
  "x \<in> set xs \<Longrightarrow> p x \<Longrightarrow> \<exists>y. first_match p xs = Some y"
  by (cases "find p xs") (auto simp: first_match_def find_None_iff)

section \<open>Stable selection by a key\<close>

text \<open>\<open>sorted(xs, key=k)\<close> is \<open>sort_key k xs\<close>: both are stable.\<close>

lemma hd_sort_key_mem [sel_intros]: "xs \<noteq> [] \<Longrightarrow> hd (sort_key k xs) \<in> set xs"
  by (metis hd_in_set length_0_conv length_sort set_sort)

lemma hd_sort_key_le [sel_intros]:
  assumes "x \<in> set xs"
  shows "k (hd (sort_key k xs)) \<le> k x"
proof -
  obtain y ys where e: "sort_key k xs = y # ys"
    using assms by (metis list.exhaust empty_iff empty_set set_sort)
  have "sorted (map k (y # ys))" by (metis e sorted_sort_key)
  moreover have "x \<in> set (y # ys)" using assms by (metis e set_sort)
  ultimately show ?thesis by (auto simp: e)
qed

text \<open>
  The contract of a deterministic choice: it returns a member of least rank.  What follows
  for the modules that pick this way: the result depends on the set of alternatives only,
  and a member that beats all others is the one chosen.
\<close>

locale ranked_choice =
  fixes rank :: "'a \<Rightarrow> 'k::linorder"
    and pick :: "'a list \<Rightarrow> 'a"
  assumes pick_mem: "xs \<noteq> [] \<Longrightarrow> pick xs \<in> set xs"
    and pick_least: "x \<in> set xs \<Longrightarrow> rank (pick xs) \<le> rank x"
begin

lemma pick_unique:
  assumes "x \<in> set xs" and "\<And>y. y \<in> set xs \<Longrightarrow> y \<noteq> x \<Longrightarrow> rank x < rank y"
  shows "pick xs = x"
proof (rule ccontr)
  assume ne: "pick xs \<noteq> x"
  have "pick xs \<in> set xs" using assms(1) by (intro pick_mem) auto
  with assms(2) ne have "rank x < rank (pick xs)" by blast
  with pick_least [OF assms(1)] show False by simp
qed

lemma pick_set:
  assumes "set xs = set ys" and "xs \<noteq> []" and "inj_on rank (set xs)"
  shows "pick xs = pick ys"
proof -
  have ys: "ys \<noteq> []" using assms(1,2) by auto
  have m: "pick xs \<in> set xs" "pick ys \<in> set xs" using assms pick_mem ys by auto
  then have "rank (pick xs) \<le> rank (pick ys)" "rank (pick ys) \<le> rank (pick xs)"
    using assms(1) pick_least by auto
  with m assms(3) show ?thesis by (auto dest: inj_onD)
qed

lemma pick_subset:
  assumes "set ys \<subseteq> set xs" and "pick xs \<in> set ys" and "inj_on rank (set xs)"
  shows "pick ys = pick xs"
proof -
  have y: "pick ys \<in> set ys" using assms(2) by (intro pick_mem) auto
  then have "rank (pick xs) \<le> rank (pick ys)" using assms(1) by (intro pick_least) auto
  moreover have "rank (pick ys) \<le> rank (pick xs)" using assms(2) by (rule pick_least)
  moreover have "pick xs \<in> set xs" "pick ys \<in> set xs" using assms(1,2) y by auto
  ultimately show ?thesis using assms(3) by (auto dest: inj_onD)
qed

end

interpretation sorted_choice: ranked_choice k "\<lambda>xs. hd (sort_key k xs)" for k
  by unfold_locales (simp_all add: hd_sort_key_mem hd_sort_key_le)

lemma dict_set_fresh: "k \<notin> fst ` set d \<Longrightarrow> dict_set k v d = d @ [(k, v)]"
  by (induction d) auto

end
