(* ===== verification/PyText.thy ===== *)
theory PyText
  imports Prelude
begin

text \<open>
  The text operations of Python's standard library that the modelled modules call, on
  strings of code points below 256: \<open>str(int)\<close>, \<open>str.lower\<close>, \<open>str.upper\<close>, \<open>str.replace\<close>
  of one character, \<open>str.join\<close>, \<open>in\<close>, and \<open>json.dumps(d, sort_keys=True,
  separators=(",", ":"))\<close> of a flat dictionary of texts and nulls.  The encoding is
  injective, which is what the stable identifiers derived from it rest on.
\<close>

section \<open>Numbers\<close>

fun digit_char :: "int \<Rightarrow> char" where
  "digit_char d = char_of (48 + nat d)"

function dec_digits :: "int \<Rightarrow> string" where
  "dec_digits n = (if n < 10 then [digit_char n] else dec_digits (n div 10) @ [digit_char (n mod 10)])"
  by pat_completeness auto
termination
  by (relation "measure nat") auto

declare dec_digits.simps [simp del]

definition int_str :: "int \<Rightarrow> string" where
  "int_str n = (if n < 0 then CHR ''-'' # dec_digits (- n) else dec_digits n)"

fun digits_val :: "string \<Rightarrow> int" where
  "digits_val s = foldl (\<lambda>a c. 10 * a + (int (of_char c) - 48)) 0 s"

lemma dec_digits_val: "0 \<le> n \<Longrightarrow> digits_val (dec_digits n) = n"
proof (induction n rule: dec_digits.induct)
  case (1 n)
  then show ?case
    by (auto simp: dec_digits.simps [of n])
qed

lemma dec_digits_chars: "0 \<le> n \<Longrightarrow> c \<in> set (dec_digits n) \<Longrightarrow> 48 \<le> (of_char c :: nat) \<and> (of_char c :: nat) < 58"
proof (induction n rule: dec_digits.induct)
  case (1 n)
  then show ?case by (auto simp: dec_digits.simps [of n] split: if_splits)
qed

lemma int_str_inj: "int_str m = int_str n \<Longrightarrow> m = n"
proof -
  have minus: "CHR ''-'' \<notin> set (dec_digits k)" if "0 \<le> k" for k
    using dec_digits_chars [OF that, of "CHR ''-''"] by auto
  assume e: "int_str m = int_str n"
  show ?thesis
  proof (cases "m < 0 \<longleftrightarrow> n < 0")
    case True
    with e have "dec_digits \<bar>m\<bar> = dec_digits \<bar>n\<bar>" by (auto simp: int_str_def split: if_splits)
    then have "\<bar>m\<bar> = \<bar>n\<bar>" by (metis abs_ge_zero dec_digits_val)
    with True show ?thesis by linarith
  next
    case False
    with e have "CHR ''-'' \<in> set (dec_digits (if m < 0 then n else m))"
      by (auto simp: int_str_def split: if_splits) (metis list.set_intros(1))+
    with minus False show ?thesis by (auto split: if_splits)
  qed
qed

section \<open>Case, replacement, joining, containment\<close>

definition lower_char :: "char \<Rightarrow> char" where
  "lower_char c = (let n = of_char c :: nat
     in if 65 \<le> n \<and> n \<le> 90 \<or> 192 \<le> n \<and> n \<le> 222 \<and> n \<noteq> 215 then char_of (n + 32) else c)"

definition str_lower :: "string \<Rightarrow> string" where
  "str_lower = map lower_char"

definition upper_char :: "char \<Rightarrow> char" where
  "upper_char c = (let n = of_char c :: nat in if 97 \<le> n \<and> n \<le> 122 then char_of (n - 32) else c)"

text \<open>\<open>str.upper\<close> is applied to ASCII action keys only.\<close>

definition ascii_upper :: "string \<Rightarrow> string" where
  "ascii_upper = map upper_char"

definition replace_char :: "char \<Rightarrow> char \<Rightarrow> string \<Rightarrow> string" where
  "replace_char a b = map (\<lambda>c. if c = a then b else c)"

fun str_join :: "string \<Rightarrow> string list \<Rightarrow> string" where
  "str_join sep [] = []"
| "str_join sep [x] = x"
| "str_join sep (x # y # zs) = x @ sep @ str_join sep (y # zs)"

fun contains :: "string \<Rightarrow> string \<Rightarrow> bool" where
  "contains p [] = (p = [])"
| "contains p (c # s) = (prefix p (c # s) \<or> contains p s)"

lemma contains_iff_sublist: "contains p s \<longleftrightarrow> sublist p s"
  by (induction s) (auto simp: sublist_Cons_right)

section \<open>JSON of flat dictionaries\<close>

definition hex_digit :: "nat \<Rightarrow> char" where
  "hex_digit d = (if d < 10 then char_of (48 + d) else char_of (87 + d))"

definition json_char :: "char \<Rightarrow> string" where
  "json_char c = (let n = of_char c :: nat in
     if n = 34 \<or> n = 92 then [CHR 0x5C, c]
     else if n = 10 then [CHR 0x5C, CHR ''n'']
     else if n = 13 then [CHR 0x5C, CHR ''r'']
     else if n = 9 then [CHR 0x5C, CHR ''t'']
     else if n = 12 then [CHR 0x5C, CHR ''f'']
     else if n = 8 then [CHR 0x5C, CHR ''b'']
     else if 32 \<le> n \<and> n \<le> 126 then [c]
     else CHR 0x5C # ''u00'' @ [hex_digit (n div 16), hex_digit (n mod 16)])"

definition json_string :: "string \<Rightarrow> string" where
  "json_string s = CHR 0x22 # concat (map json_char s) @ [CHR 0x22]"

fun json_value :: "string option \<Rightarrow> string" where
  "json_value None = ''null''"
| "json_value (Some s) = json_string s"

definition json_member :: "string \<times> string option \<Rightarrow> string" where
  "json_member kv = json_string (fst kv) @ CHR '':'' # json_value (snd kv)"

definition json_dumps :: "(string, string option) dict \<Rightarrow> string" where
  "json_dumps d = CHR ''{'' # str_join '','' (map json_member (sort_key fst d)) @ ''}''"

text \<open>Reading one encoded character back.\<close>

definition hex_val :: "char \<Rightarrow> nat" where
  "hex_val c = (let n = of_char c :: nat in if n < 58 then n - 48 else n - 87)"

definition json_unescape :: "string \<Rightarrow> char \<times> string" where
  "json_unescape s = (case s of
       [] \<Rightarrow> (CHR 0x5C, [])
     | e # u \<Rightarrow>
         if e = CHR ''n'' then (char_of (10::nat), u)
         else if e = CHR ''r'' then (char_of (13::nat), u)
         else if e = CHR ''t'' then (char_of (9::nat), u)
         else if e = CHR ''f'' then (char_of (12::nat), u)
         else if e = CHR ''b'' then (char_of (8::nat), u)
         else if e = CHR ''u'' then (char_of (16 * hex_val (u ! 2) + hex_val (u ! 3)), drop 4 u)
         else (e, u))"

definition json_uncons :: "string \<Rightarrow> char \<times> string" where
  "json_uncons s = (case s of
       [] \<Rightarrow> (CHR 0x5C, [])
     | c # t \<Rightarrow> if c = CHR 0x5C then json_unescape t else (c, t))"

lemma hex_val_digit: "d < 16 \<Longrightarrow> hex_val (hex_digit d) = d"
  by (auto simp: hex_val_def hex_digit_def Let_def)

lemma char_of_code: "(of_char c :: nat) = n \<Longrightarrow> n < 256 \<Longrightarrow> c = char_of n"
  by auto

lemma char_of_quote: "char_of (34::nat) = CHR 0x22" "char_of (92::nat) = CHR 0x5C"
  by code_simp+

lemma json_uncons_char: "json_uncons (json_char c @ r) = (c, r)"
proof -
  define n where "n = (of_char c :: nat)"
  have c: "c = char_of n" and n: "n < 256" by (simp_all add: n_def)
  have h: "hex_val (hex_digit (n div 16)) = n div 16" "hex_val (hex_digit (n mod 16)) = n mod 16"
    using n by (auto intro: hex_val_digit)
  consider "n = 34" | "n = 92" | "n = 10" | "n = 13" | "n = 9" | "n = 12" | "n = 8"
    | "n \<notin> {34, 92, 10, 13, 9, 12, 8}" "32 \<le> n" "n \<le> 126"
    | "n \<notin> {34, 92, 10, 13, 9, 12, 8}" "\<not> (32 \<le> n \<and> n \<le> 126)"
    by blast
  then show ?thesis
  proof cases
    case 8
    then have "json_char c = [c]" by (simp add: json_char_def n_def)
    moreover have "c \<noteq> CHR 0x5C" using 8 by (auto simp: n_def)
    ultimately show ?thesis by (simp add: json_uncons_def)
  next
    case 9
    then have "json_char c = CHR 0x5C # ''u00'' @ [hex_digit (n div 16), hex_digit (n mod 16)]"
      by (auto simp: json_char_def n_def Let_def)
    then show ?thesis by (simp add: json_uncons_def json_unescape_def h c)
  qed (simp_all add: json_char_def json_uncons_def json_unescape_def c char_of_quote)
qed

lemma json_char_Cons: "\<exists>d u. json_char c = d # u \<and> d \<noteq> CHR 0x22"
proof -
  have "c \<noteq> CHR 0x22" if "(of_char c :: nat) \<noteq> 34" using that by auto
  then show ?thesis by (auto simp: json_char_def Let_def)
qed

lemma json_chars_inj:
  "concat (map json_char s) @ CHR 0x22 # r = concat (map json_char t) @ CHR 0x22 # r'
    \<Longrightarrow> s = t \<and> r = r'"
proof (induction s arbitrary: t)
  case Nil
  then show ?case
    using json_char_Cons [of "hd t"] by (cases t) auto
next
  case (Cons a s)
  show ?case
  proof (cases t)
    case Nil
    with Cons.prems json_char_Cons [of a] show ?thesis by auto
  next
    case t: (Cons b u)
    have "json_uncons (json_char a @ concat (map json_char s) @ CHR 0x22 # r)
        = json_uncons (json_char b @ concat (map json_char u) @ CHR 0x22 # r')"
      using Cons.prems by (simp add: t)
    with Cons.IH [of u] show ?thesis by (simp add: json_uncons_char t)
  qed
qed

lemma json_string_inj: "json_string s @ r = json_string t @ r' \<longleftrightarrow> s = t \<and> r = r'"
  using json_chars_inj [of s r t r'] by (auto simp: json_string_def)

lemma json_value_inj: "json_value v @ r = json_value w @ r' \<longleftrightarrow> v = w \<and> r = r'"
proof (cases v; cases w)
  fix a b assume "v = Some a" "w = Some b"
  then show ?thesis by (simp add: json_string_inj)
qed (auto simp: json_string_def)

lemma json_member_inj: "json_member x @ r = json_member y @ r' \<longleftrightarrow> x = y \<and> r = r'"
  by (cases x; cases y) (auto simp: json_member_def json_string_inj json_value_inj)

lemma json_member_Cons: "\<exists>u. json_member x = CHR 0x22 # u"
  by (simp add: json_member_def json_string_def)

lemma json_members_inj:
  "str_join '','' (map json_member xs) @ ''}'' = str_join '','' (map json_member ys) @ ''}''
    \<Longrightarrow> xs = ys"
proof (induction xs arbitrary: ys)
  case Nil
  then show ?case
    using json_member_Cons [of "hd ys"] by (cases ys rule: list.exhaust; cases "tl ys") auto
next
  case (Cons x xs)
  show ?case
  proof (cases ys)
    case Nil
    with Cons.prems json_member_Cons [of x] show ?thesis by (cases xs) auto
  next
    case ys: (Cons y zs)
    show ?thesis
    proof (cases xs; cases zs)
      fix a as b bs
      assume "xs = a # as" "zs = b # bs"
      with Cons.IH [of "b # bs"] Cons.prems ys show ?thesis by (simp add: json_member_inj)
    qed (use Cons.prems ys json_member_inj [of x "[]" y "[]"] in \<open>auto simp: json_member_inj\<close>)
  qed
qed

lemma json_dumps_inj: "json_dumps d = json_dumps e \<Longrightarrow> sort_key fst d = sort_key fst e"
  using json_members_inj by (auto simp: json_dumps_def)

end
