(* ===== verification/Float64.thy ===== *)
theory Float64
  imports Complex_Main
begin

text \<open>
  Python floats. A float is the rational number it denotes, and every operation rounds its exact
  result to binary64 with \<open>fl\<close>: nearest, ties to even, subnormals down to \<open>2 powi -1074\<close>.
  Literals are written as the rounding of their decimal, e.g. \<open>fl (55 / 100)\<close>. NaN, the
  infinities, overflow and the sign of zero are not modelled: every float of the modelled code
  is checked to lie in a small range or is a product or sum of few such numbers.

  The locale \<open>rounding\<close> states what the components use of a rounding (it is monotone, odd and
  exact at zero and one); \<open>fl\<close> and Python's \<open>round(x, n)\<close> are its two instances, so bounds are
  proved once for both.
\<close>

section \<open>Binary exponent\<close>

function ilg :: "int \<Rightarrow> int" where
  "ilg n = (if n < 2 then 0 else 1 + ilg (n div 2))"
  by pat_completeness auto
termination
  by (relation "measure nat") auto

declare ilg.simps [simp del]

lemma ilg_nonneg: "0 \<le> ilg n"
  by (induction n rule: ilg.induct) (auto simp: ilg.simps)

lemma ilg_bounds: "0 < n \<Longrightarrow> 2 ^ nat (ilg n) \<le> n \<and> n < 2 * 2 ^ nat (ilg n)"
proof (induction n rule: ilg.induct)
  case (1 n)
  show ?case
  proof (cases "n < 2")
    case True
    with "1.prems" show ?thesis by (simp add: ilg.simps [of n])
  next
    case False
    with "1.IH" have "2 ^ nat (ilg (n div 2)) \<le> n div 2 \<and> n div 2 < 2 * 2 ^ nat (ilg (n div 2))"
      by simp
    with False ilg_nonneg [of "n div 2"] show ?thesis
      by (auto simp: ilg.simps [of n] nat_add_distrib)
  qed
qed

lemma ilg_bounds_rat:
  assumes "0 < n"
  shows "2 powi ilg n \<le> (of_int n :: rat)" and "(of_int n :: rat) < 2 * 2 powi ilg n"
proof -
  have e: "(2::rat) powi ilg n = of_int (2 ^ nat (ilg n))" using ilg_nonneg [of n] by (simp add: power_int_def)
  have "2 ^ nat (ilg n) \<le> n" "n < 2 * 2 ^ nat (ilg n)" using ilg_bounds [OF assms] by auto
  then have "(of_int (2 ^ nat (ilg n)) :: rat) \<le> of_int n" "(of_int n :: rat) < of_int (2 * 2 ^ nat (ilg n))"
    by (simp_all only: of_int_le_iff of_int_less_iff)
  then show "2 powi ilg n \<le> (of_int n :: rat)" "(of_int n :: rat) < 2 * 2 powi ilg n"
    by (simp_all add: e)
qed

definition ilog2 :: "rat \<Rightarrow> int" where
  "ilog2 x = (case quotient_of x of (n, d) \<Rightarrow>
     (let e = ilg n - ilg d in if 2 powi e \<le> x then e else e - 1))"

lemma ilog2_bounds:
  assumes "0 < x"
  shows "2 powi ilog2 x \<le> x \<and> x < 2 * 2 powi ilog2 x"
proof -
  obtain n d where q: "quotient_of x = (n, d)" by (cases "quotient_of x")
  have d: "0 < d" using q by (rule quotient_of_denom_pos)
  have x: "x = of_int n / of_int d" using q by (rule quotient_of_div)
  have n: "0 < n" using assms d by (simp add: x zero_less_divide_iff)
  define A B where "A = (2::rat) powi ilg n" and "B = (2::rat) powi ilg d"
  define N D where "N = (of_int n :: rat)" and "D = (of_int d :: rat)"
  have N: "A \<le> N" "N < 2 * A" using ilg_bounds_rat [OF n] by (simp_all add: A_def N_def)
  have D: "B \<le> D" "D < 2 * B" using ilg_bounds_rat [OF d] by (simp_all add: B_def D_def)
  have pos: "0 < A" "0 < B" "0 < D" "0 < N" using d n by (simp_all add: A_def B_def D_def N_def)
  have e: "2 powi (ilg n - ilg d) = A / B" "2 powi (ilg n - ilg d - 1) = A / B / 2"
    by (simp_all add: power_int_diff A_def B_def)
  have X: "x = N / D" by (simp add: x N_def D_def)
  have "N * B < 2 * A * D"
    by (rule order.strict_trans2 [of _ "2 * A * B"])
      (use N D pos in \<open>auto intro: mult_strict_right_mono mult_left_mono\<close>)
  then have up: "N / D < 2 * (A / B)" using pos by (simp add: field_simps)
  have "A * D \<le> 2 * N * B"
    by (rule order.trans [of _ "A * (2 * B)"])
      (use N D pos in \<open>auto intro: mult_left_mono mult_right_mono\<close>)
  then have lo: "A / B / 2 \<le> N / D" using pos by (simp add: field_simps)
  have il: "ilog2 x = (if A / B \<le> x then ilg n - ilg d else ilg n - ilg d - 1)"
    by (simp add: ilog2_def q Let_def e)
  show ?thesis
    using up lo by (simp add: il e) (simp add: X)
qed

lemma powi2_less_iff [simp]: "(2::rat) powi a < 2 powi b \<longleftrightarrow> a < b"
  by (metis linorder_less_linear one_less_numeral_iff order.asym power_int_strict_increasing
      semiring_norm(76))

lemma powi2_le_iff [simp]: "(2::rat) powi a \<le> 2 powi b \<longleftrightarrow> a \<le> b"
  by (simp add: linorder_not_less [symmetric])

lemma ilog2_unique:
  assumes "2 powi e \<le> x" and "x < 2 * 2 powi e"
  shows "ilog2 x = e"
proof -
  have p: "0 < (2::rat) powi e" by simp
  have x: "0 < x" using assms(1) p by linarith
  have b: "2 powi ilog2 x \<le> x" "x < 2 * 2 powi ilog2 x" using ilog2_bounds [OF x] by auto
  have step: "2 * (2::rat) powi k = 2 powi (k + 1)" for k by (simp add: power_int_add)
  have "(2::rat) powi e < 2 powi (ilog2 x + 1)" using assms b step by (metis order.strict_trans1)
  moreover have "(2::rat) powi ilog2 x < 2 powi (e + 1)" using assms b step by (metis order.strict_trans1)
  ultimately show ?thesis by simp
qed

section \<open>Rounding to binary64\<close>

text \<open>Round to the nearest integer, ties to even.\<close>

definition rne :: "rat \<Rightarrow> int" where
  "rne x = (let f = floor x; d = x - of_int f
     in if d < 1 / 2 then f else if 1 / 2 < d then f + 1 else if even f then f else f + 1)"

lemma rne_cases:
  "rne x = floor x \<and> x - of_int (floor x) \<le> 1 / 2 \<or>
   rne x = floor x + 1 \<and> 1 / 2 \<le> x - of_int (floor x)"
proof (cases "x - of_int (floor x) < 1 / 2")
  case True
  then show ?thesis by (simp add: rne_def)
next
  case False
  then have ge: "1 / 2 \<le> x - of_int (floor x)" by (simp add: not_less)
  show ?thesis
  proof (cases "1 / 2 < x - of_int (floor x)")
    case True
    with False ge show ?thesis by (simp add: rne_def Let_def)
  next
    case eq: False
    with False ge show ?thesis by (simp add: rne_def Let_def)
  qed
qed

lemma rne_of_int [simp]: "rne (of_int n) = n"
  by (simp add: rne_def)

lemma rne_mono:
  assumes "x \<le> y"
  shows "rne x \<le> rne y"
proof (cases "floor x = floor y")
  case True
  with assms show ?thesis by (auto simp: rne_def Let_def)
next
  case False
  with assms have "floor x < floor y" by (meson floor_mono order_le_less)
  with rne_cases [of x] rne_cases [of y] show ?thesis by auto
qed

lemma rne_minus: "rne (- x) = - rne x"
proof (cases "x = of_int (floor x)")
  case True
  then show ?thesis by (metis of_int_minus rne_of_int)
next
  case False
  then have c: "floor (- x) = - floor x - 1"
    by (smt (verit) ceiling_altdef floor_minus of_int_floor_le)
  have e: "even (- floor x - 1) \<longleftrightarrow> odd (floor x)" by simp
  show ?thesis unfolding rne_def Let_def c using False by (auto simp: e)
qed

lemma rne_le_of_int: "x \<le> of_int n \<Longrightarrow> rne x \<le> n"
  using rne_mono [of x "of_int n"] by simp

lemma rne_ge_of_int: "of_int n \<le> x \<Longrightarrow> n \<le> rne x"
  using rne_mono [of "of_int n" x] by simp

lemma rne_0 [simp]: "rne 0 = 0"
  using rne_of_int [of 0] by simp

text \<open>The exponent of the last place of \<open>x\<close>, and the nearest double.\<close>

definition ulp_exp :: "rat \<Rightarrow> int" where
  "ulp_exp x = max (ilog2 \<bar>x\<bar> - 52) (- 1074)"

definition fl :: "rat \<Rightarrow> rat" where
  "fl x = (if x = 0 then 0
     else let q = ulp_exp x in of_int (rne (x / 2 powi q)) * 2 powi q)"

lemma fl_0 [simp]: "fl 0 = 0"
  by (simp add: fl_def)

lemma ulp_exp_minus [simp]: "ulp_exp (- x) = ulp_exp x"
  by (simp add: ulp_exp_def)

lemma fl_minus: "fl (- x) = - fl x"
  by (simp add: fl_def Let_def rne_minus)

lemma fl_nonneg: "0 \<le> x \<Longrightarrow> 0 \<le> fl x"
  using rne_ge_of_int [of 0] by (auto simp: fl_def Let_def)

lemma ilog2_mono:
  assumes "0 < x" and "x \<le> y"
  shows "ilog2 x \<le> ilog2 y"
proof -
  have "(2::rat) powi ilog2 x \<le> x" using ilog2_bounds [OF assms(1)] by simp
  also have "x < 2 powi (ilog2 y + 1)"
    using ilog2_bounds [of y] assms by (simp add: power_int_add)
  finally show ?thesis by simp
qed

lemma powi2_div: "(2::rat) powi a / 2 powi b = 2 powi (a - b)"
  by (simp add: power_int_diff)

lemma powi2_nonneg_int:
  assumes "0 \<le> k"
  shows "(2::rat) powi k = of_int (2 ^ nat k)"
  using assms by (simp add: power_int_def)

lemma fl_le_powi:
  assumes "0 < x" and "x \<le> 2 powi e" and "ulp_exp x \<le> e"
  shows "fl x \<le> 2 powi e"
proof -
  let ?q = "ulp_exp x"
  have "x / 2 powi ?q \<le> 2 powi e / 2 powi ?q" using assms by (intro divide_right_mono) auto
  also have "\<dots> = of_int (2 ^ nat (e - ?q))"
    using assms(3) powi2_nonneg_int [of "e - ?q"] by (simp add: powi2_div)
  finally have "rne (x / 2 powi ?q) \<le> 2 ^ nat (e - ?q)" by (rule rne_le_of_int)
  then have "(of_int (rne (x / 2 powi ?q)) :: rat) \<le> of_int (2 ^ nat (e - ?q))"
    by (simp only: of_int_le_iff)
  also have "\<dots> = 2 powi e / 2 powi ?q"
    using assms(3) powi2_nonneg_int [of "e - ?q"] by (simp add: powi2_div)
  finally have "of_int (rne (x / 2 powi ?q)) * 2 powi ?q \<le> (2::rat) powi e"
    by (simp add: pos_le_divide_eq)
  then show ?thesis using assms(1) by (simp add: fl_def Let_def)
qed

lemma fl_ge_powi:
  assumes "2 powi e \<le> x" and "ulp_exp x \<le> e"
  shows "2 powi e \<le> fl x"
proof -
  let ?q = "ulp_exp x"
  have x: "0 < x" using assms(1) by (rule order.strict_trans2 [rotated]) simp
  have "of_int (2 ^ nat (e - ?q)) = (2::rat) powi e / 2 powi ?q"
    using assms(2) powi2_nonneg_int [of "e - ?q"] by (simp add: powi2_div)
  also have "\<dots> \<le> x / 2 powi ?q" using assms by (intro divide_right_mono) auto
  finally have "2 ^ nat (e - ?q) \<le> rne (x / 2 powi ?q)" by (rule rne_ge_of_int)
  then have "(of_int (2 ^ nat (e - ?q)) :: rat) \<le> of_int (rne (x / 2 powi ?q))"
    by (simp only: of_int_le_iff)
  then have "(2::rat) powi e / 2 powi ?q \<le> of_int (rne (x / 2 powi ?q))"
    using assms(2) powi2_nonneg_int [of "e - ?q"] by (simp add: powi2_div)
  then have "(2::rat) powi e \<le> of_int (rne (x / 2 powi ?q)) * 2 powi ?q"
    by (simp add: pos_divide_le_eq)
  then show ?thesis using x by (simp add: fl_def Let_def)
qed

lemma fl_mono_pos:
  assumes x: "0 < x" and xy: "x \<le> y"
  shows "fl x \<le> fl y"
proof (cases "ulp_exp x = ulp_exp y")
  case True
  have "x / 2 powi ulp_exp x \<le> y / 2 powi ulp_exp x" using xy by (intro divide_right_mono) auto
  from rne_mono [OF this] x xy show ?thesis by (simp add: fl_def Let_def True)
next
  case False
  have m: "ilog2 x \<le> ilog2 y" using ilog2_mono [OF x xy] .
  with False x xy have qy: "ulp_exp y = ilog2 y - 52" and lt: "ilog2 x < ilog2 y"
    and qx: "ulp_exp x \<le> ilog2 y"
    by (auto simp: ulp_exp_def max_def split: if_splits)
  have "2 powi (ilog2 x + 1) \<le> (2::rat) powi ilog2 y" using lt by simp
  then have "x \<le> 2 powi ilog2 y"
    using ilog2_bounds [OF x] by (simp add: power_int_add)
  then have "fl x \<le> 2 powi ilog2 y" using x qx by (intro fl_le_powi)
  also have "\<dots> \<le> fl y" using ilog2_bounds [of y] x xy qy by (intro fl_ge_powi) auto
  finally show ?thesis .
qed

lemma fl_mono: "x \<le> y \<Longrightarrow> fl x \<le> fl y"
proof (cases "0 < x")
  case True
  then show "x \<le> y \<Longrightarrow> fl x \<le> fl y" by (rule fl_mono_pos)
next
  case False
  assume xy: "x \<le> y"
  show ?thesis
  proof (cases "0 \<le> y")
    case True
    have "fl x \<le> 0" using fl_nonneg [of "- x"] False by (simp add: fl_minus)
    also have "0 \<le> fl y" using True by (rule fl_nonneg)
    finally show ?thesis .
  next
    case neg: False
    then have "fl (- y) \<le> fl (- x)" using xy by (intro fl_mono_pos) auto
    then show ?thesis by (simp add: fl_minus)
  qed
qed

lemma fl_exact_pos:
  assumes m: "0 < m" "m < 2 ^ 53" and k: "- 1074 \<le> k"
  shows "fl (of_int m * 2 powi k) = of_int m * 2 powi k"
proof -
  let ?x = "of_int m * 2 powi k :: rat"
  have x: "0 < ?x" using m by simp
  have "(of_int m :: rat) < of_int (2 ^ 53)" using m by (simp only: of_int_less_iff)
  then have "?x < 2 powi 53 * 2 powi k" by simp
  then have "?x < 2 powi (53 + k)" by (simp add: power_int_add)
  moreover have "2 powi ilog2 ?x \<le> ?x" using ilog2_bounds [OF x] by simp
  ultimately have "ilog2 ?x < 53 + k" using powi2_less_iff by (meson order.strict_trans1)
  then have q: "ulp_exp ?x \<le> k" using k x by (simp add: ulp_exp_def)
  let ?q = "ulp_exp ?x"
  have "?x / 2 powi ?q = of_int m * 2 powi (k - ?q)" by (simp add: powi2_div [symmetric])
  also have "\<dots> = of_int (m * 2 ^ nat (k - ?q))"
    using q powi2_nonneg_int [of "k - ?q"] by simp
  finally have e: "?x / 2 powi ?q = of_int (m * 2 ^ nat (k - ?q))" .
  have "fl ?x = of_int (rne (?x / 2 powi ?q)) * 2 powi ?q" using x by (simp add: fl_def Let_def)
  also have "\<dots> = ?x / 2 powi ?q * 2 powi ?q" by (simp only: e rne_of_int)
  finally show ?thesis by simp
qed

lemma fl_exact:
  assumes "\<bar>m\<bar> \<le> 2 ^ 53" and k: "- 1074 \<le> k"
  shows "fl (of_int m * 2 powi k) = of_int m * 2 powi k"
proof -
  have pos: "fl (of_int n * 2 powi k) = of_int n * 2 powi k" if n: "0 < n" "n \<le> 2 ^ 53" for n
  proof (cases "n = 2 ^ 53")
    case True
    have "of_int n * 2 powi k = (of_int (2 ^ 52) * 2 powi (k + 1) :: rat)"
      by (simp add: True power_int_add)
    then show ?thesis using fl_exact_pos [of "2 ^ 52" "k + 1"] k by simp
  next
    case False
    with n k show ?thesis by (intro fl_exact_pos) auto
  qed
  consider "m = 0" | "0 < m" | "0 < - m" by linarith
  then show ?thesis
  proof cases
    case 1 then show ?thesis by simp
  next
    case 2 then show ?thesis using assms pos [of m] by simp
  next
    case 3 then show ?thesis using assms pos [of "- m"] by (simp add: fl_minus)
  qed
qed

lemma fl_of_int: "\<bar>n\<bar> \<le> 2 ^ 53 \<Longrightarrow> fl (of_int n) = of_int n"
  using fl_exact [of n 0] by simp

lemma fl_numeral [simp]: "(numeral w :: int) \<le> 2 ^ 53 \<Longrightarrow> fl (numeral w) = numeral w"
  using fl_of_int [of "numeral w"] by simp

lemma fl_1 [simp]: "fl 1 = 1"
  using fl_of_int [of 1] by simp

lemma fl_mantissa: "\<bar>rne (x / 2 powi ulp_exp x)\<bar> \<le> 2 ^ 53"
proof -
  have pos: "rne (y / 2 powi ulp_exp y) \<le> 2 ^ 53" if y: "0 < y" for y
  proof -
    have "y < 2 powi (ilog2 y + 1)" using ilog2_bounds [OF y] by (simp add: power_int_add)
    also have "\<dots> \<le> 2 powi (ulp_exp y + 53)" using y by (simp add: ulp_exp_def)
    finally have "y / 2 powi ulp_exp y \<le> of_int (2 ^ 53)"
      by (simp add: power_int_add pos_divide_le_eq mult.commute)
    then show ?thesis by (rule rne_le_of_int)
  qed
  have nn: "0 \<le> rne (y / 2 powi ulp_exp y)" if "0 < y" for y
    using that rne_ge_of_int [of 0 "y / 2 powi ulp_exp y"] by simp
  consider "x = 0" | "0 < x" | "0 < - x" by linarith
  then show ?thesis
  proof cases
    case 1 then show ?thesis by simp
  next
    case 2 then show ?thesis using pos [of x] nn [of x] by simp
  next
    case 3 then show ?thesis using pos [of "- x"] nn [of "- x"] by (simp add: rne_minus)
  qed
qed

lemma fl_idem [simp]: "fl (fl x) = fl x"
proof (cases "x = 0")
  case False
  then have "fl x = of_int (rne (x / 2 powi ulp_exp x)) * 2 powi ulp_exp x"
    by (simp add: fl_def Let_def)
  moreover have "- 1074 \<le> ulp_exp x" by (simp add: ulp_exp_def)
  ultimately show ?thesis using fl_exact [OF fl_mantissa] by simp
qed simp


section \<open>Laws of a rounding\<close>

locale rounding =
  fixes rnd :: "rat \<Rightarrow> rat"
  assumes monotone: "x \<le> y \<Longrightarrow> rnd x \<le> rnd y"
    and zero: "rnd 0 = 0"
    and one: "rnd 1 = 1"
    and odd: "rnd (- x) = - rnd x"
begin

lemma nonneg: "0 \<le> x \<Longrightarrow> 0 \<le> rnd x"
  using monotone [of 0 x] by (simp add: zero)

lemma nonpos: "x \<le> 0 \<Longrightarrow> rnd x \<le> 0"
  using monotone [of x 0] by (simp add: zero)

lemma at_most_one: "x \<le> 1 \<Longrightarrow> rnd x \<le> 1"
  using monotone [of x 1] by (simp add: one)

lemma in_unit: "0 \<le> x \<Longrightarrow> x \<le> 1 \<Longrightarrow> 0 \<le> rnd x \<and> rnd x \<le> 1"
  by (simp add: nonneg at_most_one)

lemma abs_commute: "\<bar>rnd x\<bar> = rnd \<bar>x\<bar>"
  using nonneg [of x] nonneg [of "- x"] by (cases "0 \<le> x") (auto simp: odd abs_if)

end

locale idem_rounding = rounding +
  assumes idem: "rnd (rnd x) = rnd x"
begin

lemma clamp_fixed: "rnd (min 1 (max 0 (rnd x))) = min 1 (max 0 (rnd x))"
  by (auto simp: min_def max_def zero one idem)

lemma le_iff_of_fixed: "rnd y = y \<Longrightarrow> x \<le> y \<Longrightarrow> rnd x \<le> y"
  using monotone [of x y] by simp

lemma ge_of_fixed: "rnd y = y \<Longrightarrow> y \<le> x \<Longrightarrow> y \<le> rnd x"
  using monotone [of y x] by simp

end

text \<open>Python's \<open>round(x, n)\<close>: the nearest decimal, ties to even, read back as a double.\<close>

definition py_round :: "rat \<Rightarrow> nat \<Rightarrow> rat" where
  "py_round x n = fl (of_int (rne (x * 10 ^ n)) / 10 ^ n)"

interpretation f64: idem_rounding fl
  by unfold_locales (simp_all add: fl_mono fl_minus)

interpretation dec: rounding "\<lambda>x. py_round x n"
proof unfold_locales
  show "py_round x n \<le> py_round y n" if "x \<le> y" for x y
  proof -
    have "rne (x * 10 ^ n) \<le> rne (y * 10 ^ n)" using that by (intro rne_mono mult_right_mono) auto
    then have "of_int (rne (x * 10 ^ n)) / 10 ^ n \<le> (of_int (rne (y * 10 ^ n)) / 10 ^ n :: rat)"
      by (intro divide_right_mono) auto
    then show ?thesis unfolding py_round_def by (rule fl_mono)
  qed
  show "py_round 1 n = 1"
    using rne_of_int [of "10 ^ n"] by (simp add: py_round_def)
qed (simp_all add: py_round_def fl_minus rne_minus)

section \<open>Float arithmetic\<close>

text \<open>The operators of Python floats; division has its ZeroDivisionError as \<open>None\<close>.\<close>

definition fadd :: "rat \<Rightarrow> rat \<Rightarrow> rat" where "fadd x y = fl (x + y)"
definition fsub :: "rat \<Rightarrow> rat \<Rightarrow> rat" where "fsub x y = fl (x - y)"
definition fmul :: "rat \<Rightarrow> rat \<Rightarrow> rat" where "fmul x y = fl (x * y)"
definition fdiv :: "rat \<Rightarrow> rat \<Rightarrow> rat option" where
  "fdiv x y = (if y = 0 then None else Some (fl (x / y)))"

text \<open>\<open>sum(xs)\<close> on Python 3.11, the version the repository pins: left to right, from zero.\<close>

definition fsum :: "rat list \<Rightarrow> rat" where
  "fsum xs = foldl fadd 0 xs"

lemma fadd_mono: "x \<le> x' \<Longrightarrow> y \<le> y' \<Longrightarrow> fadd x y \<le> fadd x' y'"
  by (simp add: fadd_def fl_mono add_mono)

lemma foldl_fadd_mono:
  "list_all2 (\<le>) xs ys \<Longrightarrow> a \<le> b \<Longrightarrow> foldl fadd a xs \<le> foldl fadd b ys"
  by (induction xs ys arbitrary: a b rule: list_all2_induct) (auto intro: fadd_mono)

lemma fsum_mono: "list_all2 (\<le>) xs ys \<Longrightarrow> fsum xs \<le> fsum ys"
  by (simp add: fsum_def foldl_fadd_mono)

lemma fsum_nonneg: "\<forall>x \<in> set xs. 0 \<le> x \<Longrightarrow> 0 \<le> fsum xs"
proof -
  assume "\<forall>x \<in> set xs. 0 \<le> x"
  then have "list_all2 (\<le>) (map (\<lambda>_. 0) xs) xs"
    by (induction xs) auto
  moreover have "fsum (map (\<lambda>_. 0) xs) = 0" for xs :: "rat list"
    by (induction xs) (auto simp: fsum_def fadd_def)
  ultimately show ?thesis by (metis fsum_mono)
qed

definition is_f64 :: "rat \<Rightarrow> bool" where
  "is_f64 x \<longleftrightarrow> fl x = x"

lemma is_f64_fl [simp]: "is_f64 (fl x)"
  by (simp add: is_f64_def)

lemma is_f64_0 [simp]: "is_f64 0" and is_f64_1 [simp]: "is_f64 1"
  by (simp_all add: is_f64_def)

text \<open>Every double is a multiple of the least subnormal, so distinct doubles never cancel.\<close>

definition least_subnormal :: rat where
  "least_subnormal = 2 powi (- 1074)"

lemma powi2_add: "(2::rat) powi (a + b) = 2 powi a * 2 powi b"
  by (simp add: power_int_add)

lemma least_subnormal_pos: "0 < least_subnormal"
  unfolding least_subnormal_def by (rule zero_less_power_int) (rule zero_less_numeral)

lemma powi2_least_subnormal: "(2::rat) powi q = 2 powi (q + 1074) * least_subnormal"
  unfolding least_subnormal_def powi2_add [symmetric]
  by (rule arg_cong [of _ _ "\<lambda>k. 2 powi k"]) presburger

lemma fl_least_subnormal: "fl least_subnormal = least_subnormal"
  using fl_exact [of 1 "- 1074"] unfolding least_subnormal_def by (simp only: of_int_1 mult_1) simp

lemma is_f64_multiple:
  assumes "is_f64 x"
  shows "\<exists>m. x = of_int m * least_subnormal"
proof (cases "x = 0")
  case False
  let ?q = "ulp_exp x"
  have q: "0 \<le> ?q + 1074" by (simp add: ulp_exp_def)
  obtain n where n: "x = of_int n * 2 powi ?q"
    using assms False by (auto simp: is_f64_def fl_def Let_def dest: sym)
  have "(2::rat) powi ?q = of_int (2 ^ nat (?q + 1074)) * least_subnormal"
    using powi2_least_subnormal [of ?q] powi2_nonneg_int [OF q] by (simp only:)
  with n have "x = of_int n * (of_int (2 ^ nat (?q + 1074)) * least_subnormal)" by (rule trans [OF _ arg_cong])
  then have "x = of_int (n * 2 ^ nat (?q + 1074)) * least_subnormal"
    by (simp only: of_int_mult mult.assoc)
  then show ?thesis by blast
qed (intro exI [of _ 0], simp)

lemma fsub_pos:
  assumes "is_f64 x" and "is_f64 y" and "x < y"
  shows "0 < fsub y x"
proof -
  obtain m n where m: "x = of_int m * least_subnormal" and n: "y = of_int n * least_subnormal"
    using assms is_f64_multiple by metis
  have u: "0 < least_subnormal" by (rule least_subnormal_pos)
  with assms(3) have "m < n" by (simp add: m n)
  then have "(1::rat) \<le> of_int (n - m)" by simp
  then have "1 * least_subnormal \<le> of_int (n - m) * least_subnormal"
    using u by (intro mult_right_mono) auto
  then have "least_subnormal \<le> y - x" by (simp add: m n left_diff_distrib)
  then have "fl least_subnormal \<le> fsub y x" unfolding fsub_def by (rule fl_mono)
  then show ?thesis using u by (simp add: fl_least_subnormal)
qed

end
