(* ===== verification/Contracts.thy ===== *)
theory Contracts
  imports PyText Float64
begin

text \<open>
  The canonical public contracts of \<open>app/contracts/adaptive.py\<close> and
  \<open>app/contracts/decisions.py\<close>: enumerations as datatypes, contract models as records with
  the source's fields in the source's order, and each pydantic validator as a boolean
  \<open>valid_...\<close> predicate.  A value of a contract model exists in the program only when its
  validators accept it.

  Contract models refuse naive datetimes, so an instant is an \<open>int\<close>: microseconds since
  the epoch, UTC.  A Python \<open>float\<close> is its rational value (see \<open>Float64\<close>).
\<close>

section \<open>Values of type \<open>Any\<close>\<close>

type_synonym time = int
type_synonym float64 = rat

text \<open>\<open>datetime.max\<close>, the last microsecond of the year 9999.\<close>

definition datetime_max :: time where
  "datetime_max = 253402300799999999"

text \<open>A \<open>datetime\<close> outside a contract model may lack its offset.\<close>

datatype pydatetime = Aware time | Naive time

datatype pyval =
    VNone
  | VBool bool
  | VInt int
  | VFloat float64
  | VStr string
  | VTime pydatetime
  | VList "pyval list"
  | VDict "(string \<times> pyval) list"

text \<open>
  What the model leaves open of Python's standard library: the name-based UUID
  (\<open>str(uuid5(NAMESPACE_URL, name))\<close>), \<open>str()\<close> of floats, datetimes and containers, and
  \<open>datetime.fromisoformat\<close> (\<open>None\<close> is its ValueError).
\<close>

record pyenv =
  uuid5 :: "string \<Rightarrow> uuid"
  repr_of :: "pyval \<Rightarrow> string"
  fromisoformat :: "string \<Rightarrow> pydatetime option"

fun truthy :: "pyval \<Rightarrow> bool" where
  "truthy VNone = False"
| "truthy (VBool b) = b"
| "truthy (VInt n) = (n \<noteq> 0)"
| "truthy (VFloat x) = (x \<noteq> 0)"
| "truthy (VStr s) = (s \<noteq> [])"
| "truthy (VTime _) = True"
| "truthy (VList xs) = (xs \<noteq> [])"
| "truthy (VDict d) = (d \<noteq> [])"

fun py_str :: "pyenv \<Rightarrow> pyval \<Rightarrow> string" where
  "py_str env VNone = ''None''"
| "py_str env (VBool b) = (if b then ''True'' else ''False'')"
| "py_str env (VInt n) = int_str n"
| "py_str env (VStr s) = s"
| "py_str env v = repr_of env v"

text \<open>\<open>isinstance(v, int)\<close> holds of booleans too.\<close>

fun as_int :: "pyval \<Rightarrow> int option" where
  "as_int (VInt n) = Some n"
| "as_int (VBool b) = Some (if b then 1 else 0)"
| "as_int _ = None"

text \<open>
  \<open>_number\<close>, repeated in \<open>stages.py\<close>, \<open>constraints.py\<close> and \<open>features.py\<close>: booleans are not
  numbers, integers become floats.
\<close>

fun number_of :: "pyval \<Rightarrow> float64 option" where
  "number_of (VInt n) = Some (fl (of_int n))"
| "number_of (VFloat x) = Some x"
| "number_of _ = None"

fun hashable :: "pyval \<Rightarrow> bool" where
  "hashable (VList _) = False"
| "hashable (VDict _) = False"
| "hashable _ = True"

section \<open>Enumerations\<close>

datatype availability = AVAILABLE | MISSING | STALE | LOW_CONFIDENCE | NOT_APPLICABLE

datatype strategy_family =
    SF_EXPLICIT_INSTRUCTION | SF_GUIDED_PRACTICE | SF_FADING_PRACTICE
  | SF_RETRIEVAL_PRACTICE | SF_ERROR_REMEDIATION | SF_TRANSFER_CHALLENGE

datatype interaction_move =
    DIRECT_INSTRUCTION | WORKED_EXAMPLE | SOCRATIC_PROBE | SELF_EXPLANATION_PROMPT
  | ORIENTATION_HINT | CONCEPTUAL_HINT | SUBGOAL_HINT | PARTIAL_STEP_MOVE
  | COMPLETION_PROBLEM | FADING_STEP | CORRECTNESS_FEEDBACK | PROCESS_FEEDBACK
  | RETRIEVAL_REQUEST | DELAYED_RETRIEVAL_REQUEST | TRANSFER_TASK
  | DIRECT_ANSWER_OVERRIDE | METACOGNITIVE_CHECK

datatype scaffold_control = SC_NONE | SC_LOW | SC_MEDIUM | SC_HIGH

datatype hint_specificity =
    HS_NONE | HS_ORIENTATION | HS_CONCEPTUAL_STRATEGIC | HS_SUBGOAL | HS_PARTIAL_STEP | HS_BOTTOM_OUT

datatype answer_exposure = AE_NONE | AE_PARTIAL | AE_COMPLETE

datatype assistance_state = INDEPENDENT | ASSISTED | ANSWER_EXPOSED

datatype error_type =
    KNOWLEDGE_GAP | CONCEPTUAL_MISCONCEPTION | METHOD_SELECTION | EXECUTION
  | RETRIEVAL_FAILURE | TRANSFER_FAILURE | EXPRESSION_FORMAT | ET_UNKNOWN

datatype teaching_stage =
    DIAGNOSE | TS_EXPLICIT_INSTRUCTION | TS_GUIDED_PRACTICE | TS_FADING_PRACTICE
  | TS_RETRIEVAL_PRACTICE | TS_DELAYED_RETRIEVAL | TS_ERROR_REMEDIATION | TS_TRANSFER_CHALLENGE

datatype validation_obligation = VO_NONE | INDEPENDENT_VALIDATION_REQUIRED

datatype contamination_status = CS_CLEAN | CS_POSSIBLE | CS_CONTAMINATED | CS_UNKNOWN

datatype attribution_scope =
    ACTION_DIRECT | EPISODE_ASSOCIATED | TRAJECTORY_ASSOCIATED
  | EXPERIMENTALLY_CAUSAL | UNATTRIBUTABLE

text \<open>The \<open>.value\<close> of the members whose text the code builds on.\<close>

fun scaffold_value :: "scaffold_control \<Rightarrow> string" where
  "scaffold_value SC_NONE = ''NONE''"
| "scaffold_value SC_LOW = ''LOW''"
| "scaffold_value SC_MEDIUM = ''MEDIUM''"
| "scaffold_value SC_HIGH = ''HIGH''"

fun stage_value :: "teaching_stage \<Rightarrow> string" where
  "stage_value DIAGNOSE = ''DIAGNOSE''"
| "stage_value TS_EXPLICIT_INSTRUCTION = ''EXPLICIT_INSTRUCTION''"
| "stage_value TS_GUIDED_PRACTICE = ''GUIDED_PRACTICE''"
| "stage_value TS_FADING_PRACTICE = ''FADING_PRACTICE''"
| "stage_value TS_RETRIEVAL_PRACTICE = ''RETRIEVAL_PRACTICE''"
| "stage_value TS_DELAYED_RETRIEVAL = ''DELAYED_RETRIEVAL''"
| "stage_value TS_ERROR_REMEDIATION = ''ERROR_REMEDIATION''"
| "stage_value TS_TRANSFER_CHALLENGE = ''TRANSFER_CHALLENGE''"

fun assistance_value :: "assistance_state \<Rightarrow> string" where
  "assistance_value INDEPENDENT = ''INDEPENDENT''"
| "assistance_value ASSISTED = ''ASSISTED''"
| "assistance_value ANSWER_EXPOSED = ''ANSWER_EXPOSED''"

section \<open>References and values with availability\<close>

datatype ver = VerS string | VerI int

fun ver_str :: "ver \<Rightarrow> string" where
  "ver_str (VerS s) = s"
| "ver_str (VerI n) = int_str n"

record versioned_ref =
  vr_type :: string
  vr_id :: string
  vr_version :: ver

abbreviation mk_ref :: "string \<Rightarrow> string \<Rightarrow> ver \<Rightarrow> versioned_ref" where
  "mk_ref t i v \<equiv> \<lparr>vr_type = t, vr_id = i, vr_version = v\<rparr>"

fun is_space :: "char \<Rightarrow> bool" where
  "is_space c = (of_char c \<in> {9, 10, 11, 12, 13, 28, 29, 30, 31, 32, 133, 160 :: nat})"

definition valid_ref :: "versioned_ref \<Rightarrow> bool" where
  "valid_ref r \<longleftrightarrow> vr_type r \<noteq> [] \<and>
     (case vr_version r of VerS s \<Rightarrow> \<not> list_all is_space s | VerI n \<Rightarrow> 0 \<le> n)"

record value_av =
  va_value :: pyval
  va_availability :: availability
  va_confidence :: "float64 option"
  va_refs :: "versioned_ref list"

definition unit_range :: "float64 option \<Rightarrow> bool" where
  "unit_range c = (case c of None \<Rightarrow> True | Some x \<Rightarrow> 0 \<le> x \<and> x \<le> 1)"

definition valid_value :: "value_av \<Rightarrow> bool" where
  "valid_value v \<longleftrightarrow>
     (va_availability v = AVAILABLE \<longrightarrow> va_value v \<noteq> VNone) \<and>
     (va_availability v \<in> {MISSING, NOT_APPLICABLE} \<longrightarrow> va_value v = VNone) \<and>
     unit_range (va_confidence v)"

record action_modifier =
  am_self_explanation :: bool
  am_metacognitive_reflection :: bool
  am_feedback_type :: "string option"
  am_representation_style :: "string option"
  am_transition_intent :: "string option"
  am_support_reason :: "string list"
  am_target_scope :: "string option"
  am_delivery_mode :: "string option"

definition default_modifier :: action_modifier where
  "default_modifier = \<lparr>am_self_explanation = False, am_metacognitive_reflection = False,
     am_feedback_type = None, am_representation_style = None, am_transition_intent = None,
     am_support_reason = [], am_target_scope = None, am_delivery_mode = None\<rparr>"

section \<open>Actual assistance, attempts and results\<close>

record assistance_snapshot =
  as_schema_version :: string
  as_scaffold :: scaffold_control
  as_hint :: hint_specificity
  as_exposure :: answer_exposure
  as_state :: assistance_state
  as_hint_events :: "uuid list"
  as_support_reason :: "string list"
  as_delivery_mode :: "string option"

text \<open>The state the validator expects for the three orthogonal axes.\<close>

definition expected_assistance ::
  "scaffold_control \<Rightarrow> hint_specificity \<Rightarrow> answer_exposure \<Rightarrow> assistance_state" where
  "expected_assistance sc hs ae =
     (if ae = AE_COMPLETE then ANSWER_EXPOSED
      else if sc \<noteq> SC_NONE \<or> hs \<noteq> HS_NONE \<or> ae \<noteq> AE_NONE then ASSISTED
      else INDEPENDENT)"

definition valid_snapshot :: "assistance_snapshot \<Rightarrow> bool" where
  "valid_snapshot a \<longleftrightarrow>
     as_state a = expected_assistance (as_scaffold a) (as_hint a) (as_exposure a)"

record diagnosis =
  dg_error_type :: error_type
  dg_confidence :: "float64 option"
  dg_evidence_refs :: "versioned_ref list"
  dg_misconception_refs :: "versioned_ref list"
  dg_alternatives :: "(string, pyval) dict list"
  dg_needs_probe :: bool
  dg_reason_codes :: "string list"

datatype assessment_type = AT_DIAGNOSTIC | AT_FORMATIVE | AT_SUMMATIVE | AT_REVIEW | AT_TRANSFER

record attempt_v03 =
  at_id :: uuid
  at_schema_version :: string
  at_user :: uuid
  at_session :: uuid
  at_item :: uuid
  at_item_version :: string
  at_type :: assessment_type
  at_started :: time
  at_first_response :: "time option"
  at_submitted :: time
  at_response_ms :: int
  at_raw :: pyval
  at_normalized :: pyval
  at_revisions :: int
  at_assistance :: assistance_snapshot
  at_idempotency_key :: string

datatype correctness = CORRECT | PARTIAL | INCORRECT | UNSCORABLE
datatype reviewer = ACCEPTED | REJECTED | NEEDS_REVIEW

record result_v03 =
  rs_id :: uuid
  rs_schema_version :: string
  rs_version :: int
  rs_attempt :: uuid
  rs_item :: uuid
  rs_item_version :: string
  rs_score :: float64
  rs_passed :: "bool option"
  rs_correctness :: correctness
  rs_rubric :: "(string, pyval) dict"
  rs_confidence :: float64
  rs_diagnosis :: diagnosis
  rs_assistance :: assistance_snapshot
  rs_evaluators :: "string list"
  rs_reviewer :: reviewer
  rs_created :: time
  rs_supersedes :: "uuid option"

section \<open>The frozen policy input\<close>

record teaching_context =
  ctx_id :: uuid
  ctx_schema_version :: string
  ctx_decision_time :: time
  ctx_fingerprint :: string
  ctx_objective_ref :: versioned_ref
  ctx_activity_ref :: versioned_ref
  ctx_activity_type :: value_av
  ctx_target_capability :: value_av
  ctx_current_task_ref :: "versioned_ref option"
  ctx_task_structure_refs :: "versioned_ref list"
  ctx_mastery_estimate_ref :: "versioned_ref option"
  ctx_mastery_confidence :: value_av
  ctx_prerequisite_state_refs :: "versioned_ref list"
  ctx_prerequisite_confidence :: value_av
  ctx_evidence_sufficiency :: value_av
  ctx_recent_result_ref :: "versioned_ref option"
  ctx_correctness_score :: value_av
  ctx_assessment_confidence :: value_av
  ctx_error_type :: value_av
  ctx_diagnostic_confidence :: value_av
  ctx_misconception_refs :: "versioned_ref list"
  ctx_alternative_hypotheses :: "(string, pyval) dict list"
  ctx_needs_probe :: value_av
  ctx_assistance_summary :: "(string, pyval) dict"
  ctx_scaffold_history :: "(string, pyval) dict list"
  ctx_hint_history :: "(string, pyval) dict list"
  ctx_exposure_history :: "(string, pyval) dict list"
  ctx_worked_example_exposure :: value_av
  ctx_independent_success :: "versioned_ref list"
  ctx_assisted_success :: "versioned_ref list"
  ctx_previous_action_ref :: "versioned_ref option"
  ctx_previous_outcome_refs :: "versioned_ref list"
  ctx_delayed_independent :: value_av
  ctx_review_context :: value_av
  ctx_transfer_evidence :: value_av
  ctx_transfer_novelty :: value_av
  ctx_direct_answer_request :: bool
  ctx_explanation_request :: bool
  ctx_time_budget :: value_av
  ctx_accessibility :: "(string, pyval) dict list"
  ctx_assignment_ref :: "versioned_ref option"
  ctx_experiment_opt_out :: bool
  ctx_source_refs :: "versioned_ref list"

record policy_bundle =
  pb_bundle_id :: string
  pb_schema_version :: string
  pb_policy_version :: string
  pb_hard_rule_set_version :: string
  pb_stage_mapper_version :: string
  pb_candidate_table_version :: string
  pb_feature_schema_version :: string
  pb_normalization_version :: string
  pb_weight_profile_version :: string
  pb_anti_oscillation_version :: string
  pb_tie_break_version :: string
  pb_fallback_profile_version :: string
  pb_subject_profile_version :: "string option"
  pb_content_digest :: string
  pb_published_at :: time

record teaching_action =
  ta_id :: uuid
  ta_schema_version :: string
  ta_objective_ref :: versioned_ref
  ta_activity_ref :: versioned_ref
  ta_family :: strategy_family
  ta_strategy_version :: string
  ta_stage :: teaching_stage
  ta_moves :: "interaction_move list"
  ta_modifiers :: action_modifier
  ta_scaffold :: scaffold_control
  ta_hint :: hint_specificity
  ta_exposure :: answer_exposure
  ta_evidence_requirements :: "string list"
  ta_expected_evidence :: "string option"
  ta_success_condition :: "(string, pyval) dict"
  ta_failure_condition :: "(string, pyval) dict"
  ta_max_attempts :: "int option"
  ta_time_budget :: "int option"
  ta_obligation :: validation_obligation
  ta_reason_codes :: "string list"
  ta_bundle_ref :: versioned_ref
  ta_context_ref :: versioned_ref
  ta_decision_id :: uuid
  ta_created_at :: time

definition valid_action :: "teaching_action \<Rightarrow> bool" where
  "valid_action a \<longleftrightarrow> ta_strategy_version a \<noteq> [] \<and> ta_reason_codes a \<noteq> [] \<and>
     (case ta_max_attempts a of None \<Rightarrow> True | Some n \<Rightarrow> 1 \<le> n) \<and>
     (case ta_time_budget a of None \<Rightarrow> True | Some n \<Rightarrow> 1 \<le> n)"

record experiment_assignment =
  ea_id :: uuid
  ea_schema_version :: string
  ea_experiment_id :: string
  ea_experiment_version :: string
  ea_unit_ref :: string
  ea_variant_id :: string
  ea_probability :: "float64 option"
  ea_assigned_at :: time
  ea_opt_out :: bool

record teaching_episode =
  te_id :: uuid
  te_schema_version :: string
  te_user :: uuid
  te_objective_ref :: versioned_ref
  te_action_refs :: "versioned_ref list"
  te_started :: time
  te_ended :: "time option"
  te_bundle_refs :: "versioned_ref list"

record learning_trajectory =
  lt_id :: uuid
  lt_schema_version :: string
  lt_user :: uuid
  lt_goal_ref :: versioned_ref
  lt_episode_refs :: "versioned_ref list"
  lt_started :: time
  lt_ended :: "time option"

record outcome_observation =
  oo_id :: uuid
  oo_schema_version :: string
  oo_type :: string
  oo_measurement :: versioned_ref
  oo_independence :: "bool option"
  oo_assistance :: "assistance_state option"
  oo_scaffold :: "scaffold_control option"
  oo_hint :: "hint_specificity option"
  oo_exposure :: "answer_exposure option"
  oo_delay_seconds :: "int option"
  oo_transfer_distance :: "string option"
  oo_novelty :: "string option"
  oo_score :: "float64 option"
  oo_success :: "bool option"
  oo_confidence :: "float64 option"
  oo_active_seconds :: "int option"
  oo_cost_seconds :: "int option"
  oo_hint_cost :: "float64 option"
  oo_contamination :: contamination_status
  oo_scope :: attribution_scope
  oo_episode_ref :: "versioned_ref option"
  oo_trajectory_ref :: "versioned_ref option"
  oo_experiment :: "versioned_ref option"
  oo_observed_at :: time

definition valid_outcome :: "outcome_observation \<Rightarrow> bool" where
  "valid_outcome obs \<longleftrightarrow> (oo_scope obs = EXPERIMENTALLY_CAUSAL \<longrightarrow> oo_experiment obs \<noteq> None)"

datatype dimension = RECALL | ROUTINE_APPLICATION | TRANSFER | EXPLANATION
datatype evidence_outcome = SUCCESS | PARTIAL_SUCCESS | FAILURE
datatype novelty = REPEATED | NEAR_VARIANT | FAR_VARIANT

record learner_evidence =
  le_id :: uuid
  le_schema_version :: string
  le_user :: uuid
  le_unit :: uuid
  le_attempt_ref :: versioned_ref
  le_result_ref :: versioned_ref
  le_accepted_at :: time
  le_dimension :: dimension
  le_outcome :: evidence_outcome
  le_score :: float64
  le_confidence :: float64
  le_state :: assistance_state
  le_delay_seconds :: int
  le_novelty :: novelty
  le_weight :: float64
  le_difficulty :: "float64 option"
  le_source_events :: "versioned_ref list"
  le_reason_codes :: "string list"
  le_algorithm :: string

definition valid_evidence :: "learner_evidence \<Rightarrow> bool" where
  "valid_evidence e \<longleftrightarrow> 0 \<le> le_confidence e \<and> le_confidence e \<le> 1 \<and> 0 \<le> le_delay_seconds e \<and>
     0 \<le> le_weight e \<and> le_source_events e \<noteq> [] \<and> le_reason_codes e \<noteq> [] \<and> le_algorithm e \<noteq> []"

section \<open>The decision trace\<close>

record hard_constraint_result =
  hc_rule_id :: string
  hc_rule_version :: string
  hc_parameters :: "(string, pyval) dict"
  hc_passed :: bool
  hc_reason_codes :: "string list"
  hc_forbidden :: "string list"
  hc_input_refs :: "versioned_ref list"

record hard_filtered_action =
  hf_action_ref :: string
  hf_reason_codes :: "string list"

record decision_feature =
  df_name :: string
  df_value :: "float64 option"
  df_availability :: availability
  df_confidence :: "float64 option"
  df_version :: string
  df_source_refs :: "versioned_ref list"

definition valid_feature :: "decision_feature \<Rightarrow> bool" where
  "valid_feature f \<longleftrightarrow> df_name f \<noteq> [] \<and> df_version f \<noteq> [] \<and> unit_range (df_confidence f) \<and>
     (df_availability f = AVAILABLE \<longrightarrow> df_value f \<noteq> None) \<and>
     (df_availability f \<in> {MISSING, NOT_APPLICABLE} \<longrightarrow> df_value f = None)"

datatype behavior_policy_type = BP_DETERMINISTIC | BP_STOCHASTIC_EXPERIMENTAL | BP_UNKNOWN
datatype replayability = RP_FULL | RP_PARTIAL | RP_NON_REPLAYABLE

end
