(* ===== verification/PolicyModels.thy ===== *)
theory PolicyModels
  imports Contracts
begin

text \<open>
  \<open>app/domains/teaching_policy/models.py\<close>: the typed policy models bound to an immutable
  policy bundle, the fail-closed policy errors, and the decision trace they fill.
\<close>

datatype policy_failure =
    INVALID_CONTEXT | EXPERIMENT_ASSIGNMENT_MISMATCH | UNSUPPORTED_CONFIGURATION
  | HARD_RULE_CONFLICT | NO_LEGAL_CANDIDATE | NORMALIZATION_FAILURE
  | TIE_BREAK_CONFIGURATION_FAILURE

text \<open>
  \<open>PolicyError\<close> is a \<open>PolicyDecisionError\<close> with its code and detail; the other constructors
  are Python's own exceptions on the paths that can raise them.
\<close>

datatype exn =
    PolicyError policy_failure string
  | TypeError
  | KeyError string
  | ValueError string
  | StopIteration
  | ZeroDivision

record normalization_range =
  nr_minimum :: float64
  nr_maximum :: float64

definition valid_range :: "normalization_range \<Rightarrow> bool" where
  "valid_range r \<longleftrightarrow> \<not> nr_maximum r \<le> nr_minimum r"

record policy_profile =
  pp_profile_id :: string
  pp_policy_version :: string
  pp_hard_rule_set_version :: string
  pp_stage_mapper_version :: string
  pp_candidate_table_version :: string
  pp_feature_schema_version :: string
  pp_normalization_version :: string
  pp_weight_profile_version :: string
  pp_tie_break_version :: string
  pp_fallback_profile_version :: string
  pp_content_digest :: string
  pp_failure_ceiling :: int
  pp_diagnostic_cutoff :: float64
  pp_mastery_threshold :: float64
  pp_prerequisite_cutoff :: float64
  pp_transfer_cutoff :: float64
  pp_harm_margin :: float64
  pp_minimum_dwell :: int
  pp_switch_margin :: float64
  pp_delay_seconds :: int
  pp_transition_priority :: "string list"
  pp_ranges :: "(string, normalization_range) dict"
  pp_weights :: "(string, float64) dict"
  pp_candidate_priority :: "string list"

definition valid_profile :: "policy_profile \<Rightarrow> bool" where
  "valid_profile p \<longleftrightarrow> 1 \<le> pp_failure_ceiling p \<and>
     unit_range (Some (pp_diagnostic_cutoff p)) \<and> unit_range (Some (pp_mastery_threshold p)) \<and>
     unit_range (Some (pp_prerequisite_cutoff p)) \<and> unit_range (Some (pp_transfer_cutoff p)) \<and>
     0 \<le> pp_harm_margin p \<and> 0 \<le> pp_minimum_dwell p \<and> 0 \<le> pp_switch_margin p \<and>
     0 \<le> pp_delay_seconds p \<and> pp_transition_priority p \<noteq> [] \<and> pp_candidate_priority p \<noteq> [] \<and>
     pp_feature_schema_version p \<noteq> [] \<and> list_all (valid_range \<circ> snd) (pp_ranges p)"

text \<open>\<open>PolicyRuntimeProfile.assert_matches\<close>: the ten pinned fields, compared in order.\<close>

definition profile_fields :: "policy_profile \<Rightarrow> policy_bundle \<Rightarrow> (string \<times> string \<times> string) list" where
  "profile_fields p b =
    [(''policy_version'', pp_policy_version p, pb_policy_version b),
     (''hard_rule_set_version'', pp_hard_rule_set_version p, pb_hard_rule_set_version b),
     (''stage_mapper_version'', pp_stage_mapper_version p, pb_stage_mapper_version b),
     (''candidate_table_version'', pp_candidate_table_version p, pb_candidate_table_version b),
     (''feature_schema_version'', pp_feature_schema_version p, pb_feature_schema_version b),
     (''normalization_version'', pp_normalization_version p, pb_normalization_version b),
     (''weight_profile_version'', pp_weight_profile_version p, pb_weight_profile_version b),
     (''tie_break_version'', pp_tie_break_version p, pb_tie_break_version b),
     (''fallback_profile_version'', pp_fallback_profile_version p, pb_fallback_profile_version b),
     (''content_digest'', pp_content_digest p, pb_content_digest b)]"

definition assert_matches :: "policy_profile \<Rightarrow> policy_bundle \<Rightarrow> exn + unit" where
  "assert_matches p b =
     (let mismatches = map fst (filter (\<lambda>(n, x, y). x \<noteq> y) (profile_fields p b))
      in if mismatches \<noteq> []
         then Inl (PolicyError UNSUPPORTED_CONFIGURATION
           (''runtime profile does not match exact bundle fields: '' @ str_join '','' mismatches))
         else Inr ())"

record candidate =
  tc_key :: string
  tc_family :: strategy_family
  tc_stages :: "teaching_stage list"
  tc_moves :: "interaction_move list"
  tc_modifiers :: action_modifier
  tc_scaffold :: scaffold_control
  tc_hint :: hint_specificity
  tc_exposure :: answer_exposure
  tc_evidence_requirements :: "string list"
  tc_expected_evidence :: "string option"
  tc_success_condition :: "(string, pyval) dict"
  tc_failure_condition :: "(string, pyval) dict"
  tc_max_attempts :: "int option"

record feature_set =
  fs_key :: string
  fs_features :: "decision_feature list"

record candidate_score =
  cs_key :: string
  cs_normalized :: "(string, float64 option) dict"
  cs_components :: "(string, float64) dict"
  cs_total :: float64

text \<open>
  One entry of \<open>DecisionTraceV03.candidate_scores\<close>: the score's dump extended with the
  features it was computed from and the pinned versions.
\<close>

record score_entry =
  se_score :: candidate_score
  se_features :: "decision_feature list"
  se_normalization_version :: string
  se_weight_profile_version :: string

text \<open>
  The signal kinds and the classified evidence of \<open>evidence.py\<close>; a trace stores the latter.
\<close>

datatype evidence_kind =
    ASSESSMENT_RESULT | INDEPENDENT_ATTEMPT | DIAGNOSTIC_PROBE | LEARNER_STATE_UPDATE
  | EXPLICIT_USER_REQUEST | PREREQUISITE_EVIDENCE | ASSISTANCE_EVENT | REVIEW_DELAY_TRANSITION
  | CHAT_TURN | WORDING_VARIATION | RERENDER | SAME_CONTEXT_REEVALUATION | WALL_CLOCK_DRIFT

record classified_evidence =
  ce_signal_id :: string
  ce_kind :: evidence_kind
  ce_material :: bool
  ce_reason :: string
  ce_ref :: "versioned_ref option"

text \<open>
  \<open>anti_oscillation_decision\<close>, a dictionary in the source.  Its \<open>fixed_decision_time\<close> is the
  ISO text of the instant kept here.
\<close>

record anti_oscillation =
  ao_profile_version :: string
  ao_switch :: bool
  ao_reason :: string
  ao_previous_key :: string
  ao_proposed_key :: string
  ao_evidence :: "classified_evidence list"
  ao_opportunities :: int
  ao_minimum_dwell :: int
  ao_score_delta :: float64
  ao_switch_margin :: float64
  ao_fixed_time :: pydatetime

record decision_trace =
  dt_decision_id :: uuid
  dt_decision_type :: string
  dt_owner_system :: string
  dt_decision_time :: time
  dt_context_ref :: "versioned_ref option"
  dt_context_schema_version :: "string option"
  dt_context_fingerprint :: "string option"
  dt_context_sources :: "versioned_ref list"
  dt_bundle_ref :: "versioned_ref option"
  dt_bundle_hash :: "string option"
  dt_policy_version :: "string option"
  dt_family :: "strategy_family option"
  dt_strategy_version :: "string option"
  dt_stage :: "teaching_stage option"
  dt_stage_mapper_version :: "string option"
  dt_available :: "candidate list"
  dt_constraints :: "hard_constraint_result list"
  dt_filtered :: "hard_filtered_action list"
  dt_features :: "decision_feature list"
  dt_scores :: "score_entry list"
  dt_selected_ref :: "versioned_ref option"
  dt_previous_ref :: "versioned_ref option"
  dt_transition_reasons :: "string list"
  dt_material_refs :: "versioned_ref list"
  dt_anti :: "anti_oscillation option"
  dt_tie_break :: "string option"
  dt_assignment_ref :: "versioned_ref option"
  dt_assignment_probability :: "float64 option"
  dt_behavior :: behavior_policy_type
  dt_propensity :: "float64 option"
  dt_algorithm :: "string \<times> string"
  dt_reason_codes :: "string list"
  dt_replayability :: replayability
  dt_replay_reasons :: "string list"
  dt_correlation :: string
  dt_trace_id :: string
  dt_created_at :: time

text \<open>\<open>DecisionTraceV03.enforce_probability_semantics\<close>.\<close>

definition valid_trace :: "decision_trace \<Rightarrow> bool" where
  "valid_trace t \<longleftrightarrow> dt_reason_codes t \<noteq> [] \<and> dt_trace_id t \<noteq> [] \<and>
     \<not> (dt_behavior t = BP_DETERMINISTIC \<and> dt_propensity t \<noteq> None)"

record policy_decision =
  pd_action :: teaching_action
  pd_trace :: decision_trace

datatype obligation_status = REQUIRED | SATISFIED

record validation_record =
  iv_id :: uuid
  iv_status :: obligation_status
  iv_created :: time
  iv_source_attempt :: versioned_ref
  iv_source_result :: versioned_ref
  iv_assistance :: assistance_state
  iv_satisfied_at :: "time option"
  iv_satisfying_attempt :: "versioned_ref option"
  iv_satisfying_result :: "versioned_ref option"
  iv_reason_codes :: "string list"

text \<open>\<open>IndependentValidationRecord.require_satisfaction_evidence\<close>.\<close>

definition valid_record :: "validation_record \<Rightarrow> bool" where
  "valid_record r \<longleftrightarrow> iv_reason_codes r \<noteq> [] \<and>
     (iv_status r = SATISFIED \<longrightarrow> iv_satisfying_attempt r \<noteq> None \<and>
        iv_satisfying_result r \<noteq> None \<and> iv_satisfied_at r \<noteq> None) \<and>
     (iv_status r = REQUIRED \<longrightarrow> iv_satisfying_attempt r = None \<and>
        iv_satisfying_result r = None \<and> iv_satisfied_at r = None)"

record sequential_state =
  sq_previous_action :: teaching_action
  sq_previous_trace :: decision_trace
  sq_opportunities :: int
  sq_observed_keys :: "string list"
  sq_obligation :: "validation_record option"

text \<open>\<open>SequentialPolicyState.require_exact_previous_trace\<close>.\<close>

definition valid_state :: "sequential_state \<Rightarrow> bool" where
  "valid_state s \<longleftrightarrow> 0 \<le> sq_opportunities s \<and>
     (case dt_selected_ref (sq_previous_trace s) of
        None \<Rightarrow> False
      | Some r \<Rightarrow> vr_id r = ta_id (sq_previous_action s) \<and>
          ver_str (vr_version r) = ta_schema_version (sq_previous_action s) \<and>
          dt_decision_id (sq_previous_trace s) = ta_decision_id (sq_previous_action s))"

record validated_input =
  vi_context_ref :: versioned_ref
  vi_bundle_ref :: versioned_ref

lemma assert_matches_iff:
  "assert_matches p b = Inr () \<longleftrightarrow> (\<forall>(n, x, y) \<in> set (profile_fields p b). x = y)"
  by (auto simp: assert_matches_def Let_def filter_empty_conv split_def)

lemma assert_matches_error:
  "assert_matches p b = Inl e \<Longrightarrow> \<exists>d. e = PolicyError UNSUPPORTED_CONFIGURATION d"
  by (auto simp: assert_matches_def Let_def split: if_splits)

end
