(* ===== verification/Candidates.thy ===== *)
theory Candidates
  imports PolicyModels
begin

text \<open>
  \<open>app/domains/teaching_policy/candidates.py\<close>: the closed candidate table of the six
  strategy families (one definition per entry, in the table's order), candidate generation
  for a stage under a set of forbidden keys, and the inverse lookup from an action to the
  key of the candidate it was made from.

  The locale \<open>candidate_source\<close> is the interface the decision kernel relies on.
\<close>

section \<open>The table\<close>

definition kind_is :: "string \<Rightarrow> (string, pyval) dict" where
  "kind_is k = [(''kind'', VStr k)]"

definition cand_explicit :: candidate where
  "cand_explicit = \<lparr>tc_key = ''explicit_instruction.core'', tc_family = SF_EXPLICIT_INSTRUCTION,
     tc_stages = [TS_EXPLICIT_INSTRUCTION], tc_moves = [DIRECT_INSTRUCTION, WORKED_EXAMPLE],
     tc_modifiers = default_modifier\<lparr>am_self_explanation := True\<rparr>,
     tc_scaffold = SC_HIGH, tc_hint = HS_CONCEPTUAL_STRATEGIC, tc_exposure = AE_PARTIAL,
     tc_evidence_requirements = [''guided_attempt''], tc_expected_evidence = Some ''assisted_attempt'',
     tc_success_condition = kind_is ''guided_attempt_completed'',
     tc_failure_condition = kind_is ''cannot_apply_explanation'', tc_max_attempts = Some 2\<rparr>"

definition cand_guided :: candidate where
  "cand_guided = \<lparr>tc_key = ''guided_practice.core'', tc_family = SF_GUIDED_PRACTICE,
     tc_stages = [DIAGNOSE, TS_GUIDED_PRACTICE], tc_moves = [SOCRATIC_PROBE, ORIENTATION_HINT],
     tc_modifiers = default_modifier\<lparr>am_self_explanation := True\<rparr>,
     tc_scaffold = SC_MEDIUM, tc_hint = HS_ORIENTATION, tc_exposure = AE_NONE,
     tc_evidence_requirements = [''learner_response''],
     tc_expected_evidence = Some ''diagnostic_or_guided_attempt'',
     tc_success_condition = kind_is ''learner_advances_with_bounded_support'',
     tc_failure_condition = kind_is ''no_progress_after_bounded_support'', tc_max_attempts = Some 2\<rparr>"

definition cand_fading :: candidate where
  "cand_fading = \<lparr>tc_key = ''fading_practice.core'', tc_family = SF_FADING_PRACTICE,
     tc_stages = [TS_FADING_PRACTICE], tc_moves = [COMPLETION_PROBLEM, FADING_STEP],
     tc_modifiers = default_modifier\<lparr>am_transition_intent := Some ''fade_support''\<rparr>,
     tc_scaffold = SC_LOW, tc_hint = HS_ORIENTATION, tc_exposure = AE_NONE,
     tc_evidence_requirements = [''independent_completion''],
     tc_expected_evidence = Some ''reduced_support_attempt'',
     tc_success_condition = kind_is ''reduced_support_success'',
     tc_failure_condition = kind_is ''support_needed_again'', tc_max_attempts = Some 2\<rparr>"

definition cand_retrieval :: candidate where
  "cand_retrieval = \<lparr>tc_key = ''retrieval_practice.core'', tc_family = SF_RETRIEVAL_PRACTICE,
     tc_stages = [TS_RETRIEVAL_PRACTICE, TS_DELAYED_RETRIEVAL], tc_moves = [RETRIEVAL_REQUEST],
     tc_modifiers = default_modifier,
     tc_scaffold = SC_NONE, tc_hint = HS_NONE, tc_exposure = AE_NONE,
     tc_evidence_requirements = [''independent_retrieval''],
     tc_expected_evidence = Some ''independent_attempt'',
     tc_success_condition = kind_is ''independent_retrieval_success'',
     tc_failure_condition = kind_is ''retrieval_failure'', tc_max_attempts = Some 1\<rparr>"

definition cand_remediation :: candidate where
  "cand_remediation = \<lparr>tc_key = ''error_remediation.core'', tc_family = SF_ERROR_REMEDIATION,
     tc_stages = [TS_ERROR_REMEDIATION], tc_moves = [SOCRATIC_PROBE, CONCEPTUAL_HINT, PROCESS_FEEDBACK],
     tc_modifiers = default_modifier\<lparr>am_support_reason := [''diagnosed_error'']\<rparr>,
     tc_scaffold = SC_HIGH, tc_hint = HS_CONCEPTUAL_STRATEGIC, tc_exposure = AE_NONE,
     tc_evidence_requirements = [''remediation_probe''],
     tc_expected_evidence = Some ''diagnostic_attempt'',
     tc_success_condition = kind_is ''error_hypothesis_resolved'',
     tc_failure_condition = kind_is ''error_persists_or_unknown'', tc_max_attempts = Some 2\<rparr>"

definition cand_transfer :: candidate where
  "cand_transfer = \<lparr>tc_key = ''transfer_challenge.core'', tc_family = SF_TRANSFER_CHALLENGE,
     tc_stages = [TS_TRANSFER_CHALLENGE], tc_moves = [TRANSFER_TASK, SELF_EXPLANATION_PROMPT],
     tc_modifiers = default_modifier\<lparr>am_self_explanation := True\<rparr>,
     tc_scaffold = SC_NONE, tc_hint = HS_NONE, tc_exposure = AE_NONE,
     tc_evidence_requirements = [''novel_transfer_attempt''],
     tc_expected_evidence = Some ''independent_transfer_attempt'',
     tc_success_condition = kind_is ''novel_transfer_success'',
     tc_failure_condition = kind_is ''transfer_failure'', tc_max_attempts = Some 1\<rparr>"

definition cand_direct :: candidate where
  "cand_direct = \<lparr>tc_key = ''direct_answer.bounded'', tc_family = SF_EXPLICIT_INSTRUCTION,
     tc_stages = [DIAGNOSE, TS_EXPLICIT_INSTRUCTION, TS_GUIDED_PRACTICE, TS_ERROR_REMEDIATION],
     tc_moves = [DIRECT_ANSWER_OVERRIDE],
     tc_modifiers = default_modifier\<lparr>am_transition_intent := Some ''explicit_user_request'',
       am_support_reason := [''user_direct_answer_request'']\<rparr>,
     tc_scaffold = SC_HIGH, tc_hint = HS_BOTTOM_OUT, tc_exposure = AE_COMPLETE,
     tc_evidence_requirements = [''fresh_independent_validation''],
     tc_expected_evidence = Some ''answer_exposed_attempt'',
     tc_success_condition = kind_is ''answer_delivered_then_validation_pending'',
     tc_failure_condition = kind_is ''unsafe_or_assessment_integrity_conflict'', tc_max_attempts = Some 1\<rparr>"

lemmas cand_defs = cand_explicit_def cand_guided_def cand_fading_def cand_retrieval_def
  cand_remediation_def cand_transfer_def cand_direct_def

definition candidate_table :: "candidate list" where
  "candidate_table = [cand_explicit, cand_guided, cand_fading, cand_retrieval, cand_remediation,
     cand_transfer, cand_direct]"

section \<open>Generation and lookup\<close>

definition generate_candidates :: "teaching_stage \<Rightarrow> string set \<Rightarrow> bool \<Rightarrow> candidate list" where
  "generate_candidates stage forbidden direct =
     filter (\<lambda>c. tc_key c \<notin> forbidden \<and> stage \<in> set (tc_stages c) \<and>
                 \<not> (tc_key c = ''direct_answer.bounded'' \<and> \<not> direct)) candidate_table"

definition matches_action :: "candidate \<Rightarrow> teaching_action \<Rightarrow> bool" where
  "matches_action c a \<longleftrightarrow> tc_family c = ta_family a \<and> tc_moves c = ta_moves a \<and>
     tc_scaffold c = ta_scaffold a \<and> tc_hint c = ta_hint a \<and> tc_exposure c = ta_exposure a"

definition candidate_key_for_action :: "teaching_action \<Rightarrow> string option" where
  "candidate_key_for_action a =
     map_option tc_key (first_match (\<lambda>c. matches_action c a) candidate_table)"

section \<open>Facts about the table\<close>

lemma candidate_keys [simp]:
  "tc_key cand_explicit = ''explicit_instruction.core''"
  "tc_key cand_guided = ''guided_practice.core''"
  "tc_key cand_fading = ''fading_practice.core''"
  "tc_key cand_retrieval = ''retrieval_practice.core''"
  "tc_key cand_remediation = ''error_remediation.core''"
  "tc_key cand_transfer = ''transfer_challenge.core''"
  "tc_key cand_direct = ''direct_answer.bounded''"
  by (simp_all add: cand_defs)

lemma candidate_stages [simp]:
  "tc_stages cand_explicit = [TS_EXPLICIT_INSTRUCTION]"
  "tc_stages cand_guided = [DIAGNOSE, TS_GUIDED_PRACTICE]"
  "tc_stages cand_fading = [TS_FADING_PRACTICE]"
  "tc_stages cand_retrieval = [TS_RETRIEVAL_PRACTICE, TS_DELAYED_RETRIEVAL]"
  "tc_stages cand_remediation = [TS_ERROR_REMEDIATION]"
  "tc_stages cand_transfer = [TS_TRANSFER_CHALLENGE]"
  "tc_stages cand_direct =
     [DIAGNOSE, TS_EXPLICIT_INSTRUCTION, TS_GUIDED_PRACTICE, TS_ERROR_REMEDIATION]"
  by (simp_all add: cand_defs)

lemma candidate_scaffolds [simp]:
  "tc_scaffold cand_explicit = SC_HIGH" "tc_scaffold cand_guided = SC_MEDIUM"
  "tc_scaffold cand_fading = SC_LOW" "tc_scaffold cand_retrieval = SC_NONE"
  "tc_scaffold cand_remediation = SC_HIGH" "tc_scaffold cand_transfer = SC_NONE"
  "tc_scaffold cand_direct = SC_HIGH"
  by (simp_all add: cand_defs)

lemma candidate_hints [simp]:
  "tc_hint cand_explicit = HS_CONCEPTUAL_STRATEGIC" "tc_hint cand_guided = HS_ORIENTATION"
  "tc_hint cand_fading = HS_ORIENTATION" "tc_hint cand_retrieval = HS_NONE"
  "tc_hint cand_remediation = HS_CONCEPTUAL_STRATEGIC" "tc_hint cand_transfer = HS_NONE"
  "tc_hint cand_direct = HS_BOTTOM_OUT"
  by (simp_all add: cand_defs)

lemma candidate_exposures [simp]:
  "tc_exposure cand_explicit = AE_PARTIAL" "tc_exposure cand_guided = AE_NONE"
  "tc_exposure cand_fading = AE_NONE" "tc_exposure cand_retrieval = AE_NONE"
  "tc_exposure cand_remediation = AE_NONE" "tc_exposure cand_transfer = AE_NONE"
  "tc_exposure cand_direct = AE_COMPLETE"
  by (simp_all add: cand_defs)

lemma candidate_families [simp]:
  "tc_family cand_explicit = SF_EXPLICIT_INSTRUCTION" "tc_family cand_guided = SF_GUIDED_PRACTICE"
  "tc_family cand_fading = SF_FADING_PRACTICE" "tc_family cand_retrieval = SF_RETRIEVAL_PRACTICE"
  "tc_family cand_remediation = SF_ERROR_REMEDIATION"
  "tc_family cand_transfer = SF_TRANSFER_CHALLENGE"
  "tc_family cand_direct = SF_EXPLICIT_INSTRUCTION"
  by (simp_all add: cand_defs)

lemma candidate_moves [simp]:
  "tc_moves cand_explicit = [DIRECT_INSTRUCTION, WORKED_EXAMPLE]"
  "tc_moves cand_guided = [SOCRATIC_PROBE, ORIENTATION_HINT]"
  "tc_moves cand_fading = [COMPLETION_PROBLEM, FADING_STEP]"
  "tc_moves cand_retrieval = [RETRIEVAL_REQUEST]"
  "tc_moves cand_remediation = [SOCRATIC_PROBE, CONCEPTUAL_HINT, PROCESS_FEEDBACK]"
  "tc_moves cand_transfer = [TRANSFER_TASK, SELF_EXPLANATION_PROMPT]"
  "tc_moves cand_direct = [DIRECT_ANSWER_OVERRIDE]"
  by (simp_all add: cand_defs)

lemma table_members:
  "c \<in> set candidate_table \<longleftrightarrow>
     c = cand_explicit \<or> c = cand_guided \<or> c = cand_fading \<or> c = cand_retrieval \<or>
     c = cand_remediation \<or> c = cand_transfer \<or> c = cand_direct"
  by (auto simp: candidate_table_def)

lemma table_keys:
  "map tc_key candidate_table =
    [''explicit_instruction.core'', ''guided_practice.core'', ''fading_practice.core'',
     ''retrieval_practice.core'', ''error_remediation.core'', ''transfer_challenge.core'',
     ''direct_answer.bounded'']"
  by (simp add: candidate_table_def)

lemma table_distinct: "distinct (map tc_key candidate_table)"
  unfolding table_keys by simp

lemma complete_exposure_only_direct:
  "c \<in> set candidate_table \<Longrightarrow> tc_exposure c = AE_COMPLETE \<longleftrightarrow> tc_key c = ''direct_answer.bounded''"
  by (auto simp: table_members)

section \<open>The interface of a candidate source\<close>

locale candidate_source =
  fixes table :: "'c list"
    and key :: "'c \<Rightarrow> 'k"
    and fits :: "'s \<Rightarrow> 'c \<Rightarrow> bool"
    and gen :: "'s \<Rightarrow> 'k set \<Rightarrow> bool \<Rightarrow> 'c list"
  assumes keys_distinct: "distinct (map key table)"
    and gen_legal: "c \<in> set (gen s F d) \<Longrightarrow> c \<in> set table \<and> key c \<notin> F \<and> fits s c"
    and gen_keys: "distinct (map key (gen s F d))"
begin

lemma key_identifies:
  "a \<in> set table \<Longrightarrow> b \<in> set table \<Longrightarrow> key a = key b \<Longrightarrow> a = b"
  using keys_distinct by (auto simp: distinct_map inj_on_def)

lemma generated_by_key:
  assumes "c \<in> set (gen s F d)"
  shows "find (\<lambda>x. key x = key c) (gen s F d) = Some c"
proof -
  obtain y where y: "find (\<lambda>x. key x = key c) (gen s F d) = Some y"
    using assms by (cases "find (\<lambda>x. key x = key c) (gen s F d)") (auto simp: find_None_iff)
  then have "y \<in> set (gen s F d)" "key y = key c" by (auto simp: find_Some_iff)
  then have "y = c" using assms gen_legal by (blast intro: key_identifies)
  then show ?thesis using y by simp
qed

lemma never_reintroduced:
  "key c \<in> F \<Longrightarrow> c \<notin> set (gen s F d)"
  using gen_legal by blast

end

interpretation table: candidate_source candidate_table tc_key
  "\<lambda>s c. s \<in> set (tc_stages c)" generate_candidates
proof unfold_locales
  show "distinct (map tc_key candidate_table)" by (rule table_distinct)
  show "distinct (map tc_key (generate_candidates s F d))" for s F d
    unfolding generate_candidates_def using table_distinct by (rule distinct_map_filter)
qed (auto simp: generate_candidates_def)

text \<open>The inverse lookup recovers the key of the candidate an action was made from.\<close>

lemma moves_identify:
  "x \<in> set candidate_table \<Longrightarrow> c \<in> set candidate_table \<Longrightarrow> tc_moves x = tc_moves c \<Longrightarrow> x = c"
  by (auto simp: table_members)

lemma matches_candidate_key:
  assumes c: "c \<in> set candidate_table" and m: "matches_action c a"
  shows "candidate_key_for_action a = Some (tc_key c)"
proof -
  obtain x where x: "first_match (\<lambda>x. matches_action x a) candidate_table = Some x"
    using first_match_exists [of c candidate_table "\<lambda>x. matches_action x a"] c m by blast
  have "x \<in> set candidate_table" "matches_action x a"
    using first_match_Some [OF x] by simp_all
  then have "x = c" using c m moves_identify by (simp add: matches_action_def)
  with x show ?thesis by (simp add: candidate_key_for_action_def)
qed

lemma candidate_key_in_table:
  "candidate_key_for_action a = Some k \<Longrightarrow>
     \<exists>c \<in> set candidate_table. tc_key c = k \<and> matches_action c a"
  by (auto simp: candidate_key_for_action_def dest: first_match_Some)

end
