(* ===== verification/Stages.thy ===== *)
theory Stages
  imports PolicyModels
begin

text \<open>
  \<open>app/domains/teaching_policy/stages.py\<close>: the teaching stage is derived from the frozen
  snapshot alone.  The only exception is Python's TypeError when the error value, of type
  \<open>Any\<close>, is an unhashable container tested for membership in a set.
\<close>

definition specific_error :: "pyval \<Rightarrow> exn + bool" where
  "specific_error v =
     (if hashable v then Inr (v \<noteq> VNone \<and> v \<noteq> VStr ''UNKNOWN'') else Inl TypeError)"

definition consecutive_failures :: "teaching_context \<Rightarrow> int option" where
  "consecutive_failures ctx =
     (case dict_get (ctx_assistance_summary ctx) ''consecutive_failures'' of
        None \<Rightarrow> Some 0 | Some v \<Rightarrow> as_int v)"

definition repeated_failure :: "teaching_context \<Rightarrow> policy_profile \<Rightarrow> bool" where
  "repeated_failure ctx p =
     (case consecutive_failures ctx of None \<Rightarrow> False | Some n \<Rightarrow> pp_failure_ceiling p \<le> n)"

definition reaches :: "float64 option \<Rightarrow> float64 \<Rightarrow> bool" where
  "reaches x cutoff = (case x of None \<Rightarrow> False | Some y \<Rightarrow> cutoff \<le> y)"

definition unsettled :: "value_av \<Rightarrow> bool" where
  "unsettled v \<longleftrightarrow> va_availability v \<in> {MISSING, STALE, LOW_CONFIDENCE}"

definition settled_stage :: "teaching_context \<Rightarrow> policy_profile \<Rightarrow> teaching_stage" where
  "settled_stage ctx p =
     (if va_availability (ctx_transfer_evidence ctx) = AVAILABLE \<and>
         reaches (number_of (va_value (ctx_transfer_novelty ctx))) (pp_transfer_cutoff p)
      then TS_TRANSFER_CHALLENGE
      else if va_availability (ctx_review_context ctx) = AVAILABLE
      then (if va_value (ctx_delayed_independent ctx) = VBool True
            then TS_DELAYED_RETRIEVAL else TS_RETRIEVAL_PRACTICE)
      else if reaches (number_of (va_value (ctx_mastery_confidence ctx))) (pp_mastery_threshold p)
      then TS_RETRIEVAL_PRACTICE
      else if ctx_independent_success ctx \<noteq> [] then TS_FADING_PRACTICE
      else if ctx_assisted_success ctx \<noteq> [] then TS_GUIDED_PRACTICE
      else TS_EXPLICIT_INSTRUCTION)"

definition derive_teaching_stage :: "teaching_context \<Rightarrow> policy_profile \<Rightarrow> exn + teaching_stage" where
  "derive_teaching_stage ctx p =
     (if list_ex unsettled
           [ctx_mastery_confidence ctx, ctx_evidence_sufficiency ctx, ctx_assessment_confidence ctx]
      then Inr DIAGNOSE
      else if repeated_failure ctx p
      then bind_res (specific_error (va_value (ctx_error_type ctx))) (\<lambda>specific.
             if specific \<and>
                reaches (number_of (va_value (ctx_diagnostic_confidence ctx))) (pp_diagnostic_cutoff p)
             then Inr TS_ERROR_REMEDIATION else Inr DIAGNOSE)
      else if va_value (ctx_needs_probe ctx) = VBool True \<or>
              number_of (va_value (ctx_diagnostic_confidence ctx)) = None
      then Inr DIAGNOSE
      else if \<not> reaches (number_of (va_value (ctx_diagnostic_confidence ctx))) (pp_diagnostic_cutoff p)
      then Inr DIAGNOSE
      else bind_res (specific_error (va_value (ctx_error_type ctx))) (\<lambda>specific.
             if specific then Inr TS_ERROR_REMEDIATION else Inr (settled_stage ctx p)))"

lemma derive_stage_total:
  "hashable (va_value (ctx_error_type ctx)) \<Longrightarrow> \<exists>s. derive_teaching_stage ctx p = Inr s"
  by (auto simp: derive_teaching_stage_def specific_error_def)

lemma derive_stage_error:
  "derive_teaching_stage ctx p = Inl e \<Longrightarrow> e = TypeError \<and> \<not> hashable (va_value (ctx_error_type ctx))"
  by (auto simp: derive_teaching_stage_def specific_error_def res_simps split: if_splits)

text \<open>Every stage beyond diagnosis rests on sufficient diagnostic confidence.\<close>

lemma stage_needs_diagnosis:
  assumes "derive_teaching_stage ctx p = Inr s" and "s \<noteq> DIAGNOSE"
  shows "reaches (number_of (va_value (ctx_diagnostic_confidence ctx))) (pp_diagnostic_cutoff p)"
    and "\<not> unsettled (ctx_mastery_confidence ctx)"
    and "\<not> unsettled (ctx_evidence_sufficiency ctx)"
    and "\<not> unsettled (ctx_assessment_confidence ctx)"
  using assms by (auto simp: derive_teaching_stage_def res_simps split: if_splits)

lemma stage_after_repeated_failure:
  "derive_teaching_stage ctx p = Inr s \<Longrightarrow> repeated_failure ctx p \<Longrightarrow>
     s = DIAGNOSE \<or> s = TS_ERROR_REMEDIATION"
  by (auto simp: derive_teaching_stage_def res_simps split: if_splits)

lemma stage_settled:
  "derive_teaching_stage ctx p = Inr s \<Longrightarrow> s \<notin> {DIAGNOSE, TS_ERROR_REMEDIATION} \<Longrightarrow>
     \<not> repeated_failure ctx p \<and> s = settled_stage ctx p"
  by (auto simp: derive_teaching_stage_def res_simps split: if_splits)

lemma settled_stage_fading:
  "settled_stage ctx p = TS_FADING_PRACTICE \<Longrightarrow> ctx_independent_success ctx \<noteq> []"
  by (auto simp: settled_stage_def split: if_splits)

lemma settled_stage_support:
  "settled_stage ctx p \<in> {TS_EXPLICIT_INSTRUCTION, TS_GUIDED_PRACTICE} \<Longrightarrow>
     ctx_independent_success ctx = []"
  by (auto simp: settled_stage_def split: if_splits)

lemma settled_stage_not_diagnose: "settled_stage ctx p \<notin> {DIAGNOSE, TS_ERROR_REMEDIATION}"
  by (auto simp: settled_stage_def)

end
