(* ===== verification/Constraints.thy ===== *)
theory Constraints
  imports Candidates Stages
begin

text \<open>
  \<open>app/domains/teaching_policy/constraints.py\<close>: the eleven hard-constraint families.  Each
  \<open>rule_...\<close> is one call of the local function \<open>record\<close> with its guard; the evaluation
  collects the results in that order and the reasons for which each key is forbidden.

  Sets of action keys are lists here; where the source sorts a set, the list is made
  duplicate-free and sorted.
\<close>

record rule_outcome =
  ro_rule_id :: string
  ro_passed :: bool
  ro_reason :: string
  ro_forbidden :: "string list"
  ro_parameters :: "(string, pyval) dict"

section \<open>The rules\<close>

definition assessment_markers :: "string list" where
  "assessment_markers = [''summative'', ''independent_assessment'', ''exam'']"

definition activity_text :: "pyenv \<Rightarrow> teaching_context \<Rightarrow> string" where
  "activity_text env ctx =
     (let v = va_value (ctx_activity_type ctx)
      in str_lower (if truthy v then py_str env v else []))"

definition is_independent_assessment :: "pyenv \<Rightarrow> teaching_context \<Rightarrow> bool" where
  "is_independent_assessment env ctx =
     list_ex (\<lambda>m. contains m (activity_text env ctx)) assessment_markers"

definition rule_assessment_integrity ::
  "pyenv \<Rightarrow> teaching_context \<Rightarrow> candidate list \<Rightarrow> rule_outcome" where
  "rule_assessment_integrity env ctx table =
     (let forbidden = (if is_independent_assessment env ctx
            then map tc_key (filter (\<lambda>c. tc_hint c \<noteq> HS_NONE \<or> tc_exposure c \<noteq> AE_NONE) table)
            else [])
      in \<lparr>ro_rule_id = ''SYS05-HC-ASSESSMENT-INTEGRITY'', ro_passed = (forbidden = []),
          ro_reason = (if forbidden \<noteq> [] then ''ASSESSMENT_INTEGRITY_ENFORCED''
                       else ''ASSESSMENT_INTEGRITY_CLEAR''),
          ro_forbidden = forbidden,
          ro_parameters = [(''independent_activity_markers'', VList (map VStr assessment_markers))]\<rparr>)"

definition rule_answer_exposure :: "teaching_context \<Rightarrow> candidate list \<Rightarrow> rule_outcome" where
  "rule_answer_exposure ctx table =
     (let forbidden = map tc_key
            (filter (\<lambda>c. tc_exposure c = AE_COMPLETE \<and> \<not> ctx_direct_answer_request ctx) table)
      in \<lparr>ro_rule_id = ''SYS05-HC-ANSWER-EXPOSURE-INTEGRITY'', ro_passed = (forbidden = []),
          ro_reason = (if forbidden \<noteq> [] then ''COMPLETE_EXPOSURE_REQUIRES_DIRECT_REQUEST''
                       else ''EXPOSURE_ENVELOPE_VALID''),
          ro_forbidden = forbidden,
          ro_parameters = [(''complete_exposure_requires_direct_request'', VBool True)]\<rparr>)"

definition prerequisite_unsafe :: "teaching_context \<Rightarrow> policy_profile \<Rightarrow> bool" where
  "prerequisite_unsafe ctx p \<longleftrightarrow>
     va_availability (ctx_prerequisite_confidence ctx) \<noteq> AVAILABLE \<or>
     \<not> reaches (number_of (va_value (ctx_prerequisite_confidence ctx))) (pp_prerequisite_cutoff p)"

definition rule_prerequisite_safety :: "teaching_context \<Rightarrow> policy_profile \<Rightarrow> rule_outcome" where
  "rule_prerequisite_safety ctx p =
     (let unsafe = prerequisite_unsafe ctx p
      in \<lparr>ro_rule_id = ''SYS05-HC-PREREQUISITE-SAFETY'', ro_passed = (\<not> unsafe),
          ro_reason = (if unsafe then ''PREREQUISITE_EVIDENCE_INSUFFICIENT'' else ''PREREQUISITE_SAFE''),
          ro_forbidden = (if unsafe then [''transfer_challenge.core''] else []),
          ro_parameters = [(''confidence_cutoff'', VFloat (pp_prerequisite_cutoff p))]\<rparr>)"

definition unsupported_keys :: "string list" where
  "unsupported_keys = [''fading_practice.core'', ''retrieval_practice.core'', ''transfer_challenge.core'']"

definition rule_failure_ceiling :: "teaching_context \<Rightarrow> policy_profile \<Rightarrow> rule_outcome" where
  "rule_failure_ceiling ctx p =
     (let repeated = repeated_failure ctx p
      in \<lparr>ro_rule_id = ''SYS05-HC-REPEATED-FAILURE-CEILING'', ro_passed = (\<not> repeated),
          ro_reason = (if repeated then ''FAILURE_CEILING_REQUIRES_EXIT_OR_REMEDIATION''
                       else ''FAILURE_CEILING_CLEAR''),
          ro_forbidden = (if repeated then unsupported_keys else []),
          ro_parameters = [(''failure_ceiling'', VInt (pp_failure_ceiling p))]\<rparr>)"

fun scaffold_rank :: "scaffold_control \<Rightarrow> nat" where
  "scaffold_rank SC_NONE = 0"
| "scaffold_rank SC_LOW = 1"
| "scaffold_rank SC_MEDIUM = 2"
| "scaffold_rank SC_HIGH = 3"

definition last_scaffold_rank :: "pyenv \<Rightarrow> teaching_context \<Rightarrow> nat" where
  "last_scaffold_rank env ctx =
     (let t = (case dict_get (ctx_assistance_summary ctx) ''last_scaffold_control'' of
                 None \<Rightarrow> ''NONE'' | Some v \<Rightarrow> py_str env v)
      in case find (\<lambda>s. scaffold_value s = t) [SC_NONE, SC_LOW, SC_MEDIUM, SC_HIGH] of
           None \<Rightarrow> 0 | Some s \<Rightarrow> scaffold_rank s)"

definition rule_independent_success ::
  "pyenv \<Rightarrow> teaching_context \<Rightarrow> candidate list \<Rightarrow> rule_outcome" where
  "rule_independent_success env ctx table =
     (let forbidden = map tc_key (filter (\<lambda>c. ctx_independent_success ctx \<noteq> [] \<and>
            last_scaffold_rank env ctx < scaffold_rank (tc_scaffold c)) table)
      in \<lparr>ro_rule_id = ''SYS05-HC-INDEPENDENT-SUCCESS'', ro_passed = (forbidden = []),
          ro_reason = (if forbidden \<noteq> [] then ''INDEPENDENT_SUCCESS_FORBIDS_SCAFFOLD_INCREASE''
                       else ''NO_UNSUPPORTED_SCAFFOLD_INCREASE''),
          ro_forbidden = forbidden,
          ro_parameters = [(''scaffold_order'',
            VList (map VStr [''NONE'', ''LOW'', ''MEDIUM'', ''HIGH'']))]\<rparr>)"

definition low_confidence :: "teaching_context \<Rightarrow> policy_profile \<Rightarrow> bool" where
  "low_confidence ctx p \<longleftrightarrow>
     va_availability (ctx_diagnostic_confidence ctx) \<noteq> AVAILABLE \<or>
     \<not> reaches (number_of (va_value (ctx_diagnostic_confidence ctx))) (pp_diagnostic_cutoff p)"

definition rule_low_confidence :: "teaching_context \<Rightarrow> policy_profile \<Rightarrow> rule_outcome" where
  "rule_low_confidence ctx p =
     (let low = low_confidence ctx p
      in \<lparr>ro_rule_id = ''SYS05-HC-LOW-CONFIDENCE-CONSERVATISM'', ro_passed = (\<not> low),
          ro_reason = (if low then ''LOW_CONFIDENCE_REQUIRES_CONSERVATIVE_PATH''
                       else ''CONFIDENCE_SUFFICIENT''),
          ro_forbidden = (if low then unsupported_keys else []),
          ro_parameters = [(''diagnostic_confidence_cutoff'', VFloat (pp_diagnostic_cutoff p))]\<rparr>)"

definition rule_objective_ownership :: rule_outcome where
  "rule_objective_ownership = \<lparr>ro_rule_id = ''SYS05-HC-OBJECTIVE-OWNERSHIP'', ro_passed = True,
     ro_reason = ''OBJECTIVE_REFS_READ_ONLY'', ro_forbidden = [], ro_parameters = []\<rparr>"

definition rule_model_override :: rule_outcome where
  "rule_model_override = \<lparr>ro_rule_id = ''SYS05-HC-MODEL-LLM-OVERRIDE'', ro_passed = True,
     ro_reason = ''NO_MODEL_OWNED_ACTION'', ro_forbidden = [], ro_parameters = []\<rparr>"

definition rule_unsupported_configuration :: rule_outcome where
  "rule_unsupported_configuration = \<lparr>ro_rule_id = ''SYS05-HC-UNSUPPORTED-CONFIGURATION'',
     ro_passed = True, ro_reason = ''CONFIGURATION_EXACTLY_PINNED'', ro_forbidden = [],
     ro_parameters = []\<rparr>"

definition unknown_priority_keys :: "policy_profile \<Rightarrow> candidate list \<Rightarrow> string list" where
  "unknown_priority_keys p table =
     filter (\<lambda>k. k \<notin> set (map tc_key table)) (remdups (pp_candidate_priority p))"

definition missing_priority_keys :: "policy_profile \<Rightarrow> candidate list \<Rightarrow> string list" where
  "missing_priority_keys p table =
     filter (\<lambda>k. k \<notin> set (pp_candidate_priority p)) (remdups (map tc_key table))"

definition priority_conflict :: "policy_profile \<Rightarrow> candidate list \<Rightarrow> bool" where
  "priority_conflict p table \<longleftrightarrow> unknown_priority_keys p table \<noteq> [] \<or>
     missing_priority_keys p table \<noteq> [] \<or>
     length (pp_candidate_priority p) \<noteq> length (remdups (pp_candidate_priority p))"

definition rule_priority_conflict :: "policy_profile \<Rightarrow> candidate list \<Rightarrow> rule_outcome" where
  "rule_priority_conflict p table =
     (let conflict = priority_conflict p table
      in \<lparr>ro_rule_id = ''SYS05-HC-HARD-RULE-CONFLICT'', ro_passed = (\<not> conflict),
          ro_reason = (if conflict then ''HARD_RULE_CONFIGURATION_CONFLICT'' else ''NO_HARD_RULE_CONFLICT''),
          ro_forbidden = (if conflict then remdups (map tc_key table) else []),
          ro_parameters =
            [(''unknown_priority_keys'', VList (map VStr (sort (unknown_priority_keys p table)))),
             (''missing_priority_keys'', VList (map VStr (sort (missing_priority_keys p table))))]\<rparr>)"

definition rule_direct_answer :: "teaching_context \<Rightarrow> rule_outcome" where
  "rule_direct_answer ctx =
     \<lparr>ro_rule_id = ''SYS05-HC-USER-DIRECT-ANSWER'', ro_passed = ctx_direct_answer_request ctx,
      ro_reason = (if ctx_direct_answer_request ctx then ''DIRECT_ANSWER_BOUNDED_REQUEST''
                   else ''NO_DIRECT_ANSWER_REQUEST''),
      ro_forbidden = (if ctx_direct_answer_request ctx then [] else [''direct_answer.bounded'']),
      ro_parameters = [(''bounded_override'', VBool True)]\<rparr>"

section \<open>The evaluation\<close>

definition hard_rules ::
  "pyenv \<Rightarrow> teaching_context \<Rightarrow> policy_profile \<Rightarrow> candidate list \<Rightarrow> rule_outcome list" where
  "hard_rules env ctx p table =
    [rule_assessment_integrity env ctx table, rule_answer_exposure ctx table,
     rule_prerequisite_safety ctx p, rule_failure_ceiling ctx p,
     rule_independent_success env ctx table, rule_low_confidence ctx p,
     rule_objective_ownership, rule_model_override, rule_unsupported_configuration,
     rule_priority_conflict p table, rule_direct_answer ctx]"

definition constraint_result :: "teaching_context \<Rightarrow> policy_profile \<Rightarrow> rule_outcome \<Rightarrow> hard_constraint_result" where
  "constraint_result ctx p r =
     \<lparr>hc_rule_id = ro_rule_id r, hc_rule_version = pp_hard_rule_set_version p,
      hc_parameters = ro_parameters r, hc_passed = ro_passed r, hc_reason_codes = [ro_reason r],
      hc_forbidden = sort (remdups (ro_forbidden r)), hc_input_refs = ctx_source_refs ctx\<rparr>"

definition forbidden_reasons :: "rule_outcome list \<Rightarrow> string \<Rightarrow> string list" where
  "forbidden_reasons rules k = map ro_reason (filter (\<lambda>r. k \<in> set (ro_forbidden r)) rules)"

definition forbidden_keys :: "rule_outcome list \<Rightarrow> string list" where
  "forbidden_keys rules = remdups (concat (map ro_forbidden rules))"

record hard_evaluation =
  he_results :: "hard_constraint_result list"
  he_filtered :: "hard_filtered_action list"
  he_forbidden :: "string list"

definition evaluate_hard_constraints ::
  "pyenv \<Rightarrow> teaching_context \<Rightarrow> policy_profile \<Rightarrow> candidate list \<Rightarrow> hard_evaluation" where
  "evaluate_hard_constraints env ctx p table =
     (let rules = hard_rules env ctx p table
      in \<lparr>he_results = map (constraint_result ctx p) rules,
          he_filtered = map (\<lambda>k. \<lparr>hf_action_ref = k,
             hf_reason_codes = sort (forbidden_reasons rules k)\<rparr>) (sort (forbidden_keys rules)),
          he_forbidden = forbidden_keys rules\<rparr>)"

lemmas rule_defs = rule_assessment_integrity_def rule_answer_exposure_def rule_prerequisite_safety_def
  rule_failure_ceiling_def rule_independent_success_def rule_low_confidence_def
  rule_objective_ownership_def rule_model_override_def rule_unsupported_configuration_def
  rule_priority_conflict_def rule_direct_answer_def

section \<open>What is forbidden\<close>

lemma he_forbidden_iff:
  "k \<in> set (he_forbidden (evaluate_hard_constraints env ctx p table)) \<longleftrightarrow>
     (\<exists>r \<in> set (hard_rules env ctx p table). k \<in> set (ro_forbidden r))"
  by (auto simp: evaluate_hard_constraints_def Let_def forbidden_keys_def)

lemma rule_passed_iff:
  "ro_passed (rule_assessment_integrity env ctx table) \<longleftrightarrow>
     ro_forbidden (rule_assessment_integrity env ctx table) = []"
  "ro_passed (rule_answer_exposure ctx table) \<longleftrightarrow> ro_forbidden (rule_answer_exposure ctx table) = []"
  "ro_passed (rule_prerequisite_safety ctx p) \<longleftrightarrow> ro_forbidden (rule_prerequisite_safety ctx p) = []"
  "ro_passed (rule_failure_ceiling ctx p) \<longleftrightarrow> ro_forbidden (rule_failure_ceiling ctx p) = []"
  "ro_passed (rule_independent_success env ctx table) \<longleftrightarrow>
     ro_forbidden (rule_independent_success env ctx table) = []"
  "ro_passed (rule_low_confidence ctx p) \<longleftrightarrow> ro_forbidden (rule_low_confidence ctx p) = []"
  "ro_passed rule_objective_ownership \<longleftrightarrow> ro_forbidden rule_objective_ownership = []"
  "ro_passed rule_model_override \<longleftrightarrow> ro_forbidden rule_model_override = []"
  "ro_passed rule_unsupported_configuration \<longleftrightarrow> ro_forbidden rule_unsupported_configuration = []"
  "ro_passed (rule_direct_answer ctx) \<longleftrightarrow> ro_forbidden (rule_direct_answer ctx) = []"
  by (simp_all add: rule_defs Let_def unsupported_keys_def)

lemma priority_conflict_passed_iff:
  "table \<noteq> [] \<Longrightarrow>
     ro_passed (rule_priority_conflict p table) \<longleftrightarrow> ro_forbidden (rule_priority_conflict p table) = []"
  by (simp add: rule_priority_conflict_def Let_def)

lemma rule_forbids_iff_failed:
  assumes "r \<in> set (hard_rules env ctx p table)" and "table \<noteq> []"
  shows "ro_passed r \<longleftrightarrow> ro_forbidden r = []"
proof -
  have "list_all (\<lambda>r. ro_passed r \<longleftrightarrow> ro_forbidden r = []) (hard_rules env ctx p table)"
    by (simp add: hard_rules_def rule_passed_iff priority_conflict_passed_iff [OF assms(2)])
  with assms(1) show ?thesis by (auto simp: list_all_iff)
qed

definition forbids ::
  "pyenv \<Rightarrow> teaching_context \<Rightarrow> policy_profile \<Rightarrow> candidate \<Rightarrow> bool" where
  "forbids env ctx p c \<longleftrightarrow>
     is_independent_assessment env ctx \<and> (tc_hint c \<noteq> HS_NONE \<or> tc_exposure c \<noteq> AE_NONE) \<or>
     tc_exposure c = AE_COMPLETE \<and> \<not> ctx_direct_answer_request ctx \<or>
     tc_key c = ''transfer_challenge.core'' \<and> prerequisite_unsafe ctx p \<or>
     tc_key c \<in> set unsupported_keys \<and> (repeated_failure ctx p \<or> low_confidence ctx p) \<or>
     ctx_independent_success ctx \<noteq> [] \<and>
       last_scaffold_rank env ctx < scaffold_rank (tc_scaffold c) \<or>
     priority_conflict p candidate_table"

lemma forbidden_iff_forbids:
  assumes c: "c \<in> set candidate_table"
  shows "tc_key c \<in> set (he_forbidden (evaluate_hard_constraints env ctx p candidate_table))
     \<longleftrightarrow> forbids env ctx p c"
proof -
  have key: "tc_key c \<in> tc_key ` {x \<in> set candidate_table. P x} \<longleftrightarrow> P c" for P
    using c table.key_identifies by fastforce
  have direct: "tc_key c = ''direct_answer.bounded'' \<longleftrightarrow> tc_exposure c = AE_COMPLETE"
    using complete_exposure_only_direct [OF c] by simp
  have mem: "tc_key c \<in> tc_key ` set candidate_table" using c by blast
  show ?thesis
    unfolding he_forbidden_iff
    by (simp add: hard_rules_def rule_defs Let_def key forbids_def direct mem unsupported_keys_def) blast
qed

end
