(* ===== verification/Features.thy ===== *)
theory Features
  imports Constraints
begin

text \<open>
  \<open>app/domains/teaching_policy/features.py\<close> and \<open>scoring.py\<close>: the nine soft features of a
  candidate, normalization by the fixed bounds of the profile, the weighted score and the
  stable selection of the best candidate.  \<open>default_profile\<close> is the shipped
  \<open>app/config/policy_profiles/v03-default.json\<close>.
\<close>

section \<open>The shipped profile\<close>

definition unit_bounds :: normalization_range where
  "unit_bounds = \<lparr>nr_minimum = 0, nr_maximum = 1\<rparr>"

definition feature_names :: "string list" where
  "feature_names = [''stage_fit'', ''diagnostic_value'', ''remediation_fit'', ''review_fit'',
     ''learning_value_proxy'', ''direct_request_fit'', ''hint_dependency_risk'',
     ''cognitive_load_penalty'', ''time_cost'']"

definition default_weights :: "(string, float64) dict" where
  "default_weights = [(''stage_fit'', 10), (''diagnostic_value'', 2), (''remediation_fit'', 2),
     (''review_fit'', 2), (''learning_value_proxy'', 1), (''direct_request_fit'', 20),
     (''hint_dependency_risk'', - 1), (''cognitive_load_penalty'', fl (- (5 / 10))),
     (''time_cost'', fl (- (2 / 10)))]"

definition default_profile :: policy_profile where
  "default_profile = \<lparr>
     pp_profile_id = ''askora-v03-default-1'', pp_policy_version = ''policy-1'',
     pp_hard_rule_set_version = ''hard-1'', pp_stage_mapper_version = ''stage-1'',
     pp_candidate_table_version = ''candidates-1'', pp_feature_schema_version = ''features-1'',
     pp_normalization_version = ''fixed-bounds-1'', pp_weight_profile_version = ''weights-1'',
     pp_tie_break_version = ''tie-1'', pp_fallback_profile_version = ''fallback-1'',
     pp_content_digest =
       ''sha256:a8ca56385d9c6f13ff7e10c4738f93baf034bf705f5ab537f2bcd2be2061898b'',
     pp_failure_ceiling = 3, pp_diagnostic_cutoff = fl (6 / 10), pp_mastery_threshold = fl (8 / 10),
     pp_prerequisite_cutoff = fl (7 / 10), pp_transfer_cutoff = fl (7 / 10),
     pp_harm_margin = fl (1 / 10), pp_minimum_dwell = 2, pp_switch_margin = fl (5 / 10),
     pp_delay_seconds = 3600,
     pp_transition_priority = [''HARD_CONSTRAINT'', ''REPEATED_FAILURE'', ''EXPLICIT_USER_REQUEST'',
       ''ASSESSMENT_RESULT'', ''INDEPENDENT_ATTEMPT'', ''DIAGNOSTIC_PROBE'',
       ''LEARNER_STATE_UPDATE'', ''PREREQUISITE_EVIDENCE'', ''ASSISTANCE_EVENT'',
       ''MEANINGFUL_REVIEW_DELAY''],
     pp_ranges = map (\<lambda>n. (n, unit_bounds)) feature_names,
     pp_weights = default_weights,
     pp_candidate_priority = [''error_remediation.core'', ''guided_practice.core'',
       ''explicit_instruction.core'', ''fading_practice.core'', ''retrieval_practice.core'',
       ''transfer_challenge.core'', ''direct_answer.bounded'']\<rparr>"

section \<open>Features of a candidate\<close>

fun family_proxy :: "strategy_family \<Rightarrow> float64" where
  "family_proxy SF_EXPLICIT_INSTRUCTION = fl (55 / 100)"
| "family_proxy SF_GUIDED_PRACTICE = fl (65 / 100)"
| "family_proxy SF_FADING_PRACTICE = fl (75 / 100)"
| "family_proxy SF_RETRIEVAL_PRACTICE = fl (9 / 10)"
| "family_proxy SF_ERROR_REMEDIATION = fl (7 / 10)"
| "family_proxy SF_TRANSFER_CHALLENGE = 1"

fun scaffold_cost :: "scaffold_control \<Rightarrow> float64" where
  "scaffold_cost SC_NONE = 0"
| "scaffold_cost SC_LOW = fl (25 / 100)"
| "scaffold_cost SC_MEDIUM = fl (6 / 10)"
| "scaffold_cost SC_HIGH = 1"

definition time_costs :: "(string, float64) dict" where
  "time_costs = [(''explicit_instruction.core'', fl (8 / 10)), (''guided_practice.core'', fl (6 / 10)),
     (''fading_practice.core'', fl (45 / 100)), (''retrieval_practice.core'', fl (3 / 10)),
     (''error_remediation.core'', fl (7 / 10)), (''transfer_challenge.core'', 1),
     (''direct_answer.bounded'', fl (2 / 10))]"

definition mk_feature :: "string \<Rightarrow> float64 option \<Rightarrow> availability \<Rightarrow> float64 option \<Rightarrow>
    teaching_context \<Rightarrow> policy_profile \<Rightarrow> decision_feature" where
  "mk_feature name v av conf ctx p =
     \<lparr>df_name = name, df_value = v, df_availability = av, df_confidence = conf,
      df_version = pp_feature_schema_version p, df_source_refs = ctx_source_refs ctx\<rparr>"

definition indicator_if :: "bool \<Rightarrow> float64" where
  "indicator_if b = (if b then 1 else 0)"

definition when_available :: "value_av \<Rightarrow> float64 \<Rightarrow> float64 option" where
  "when_available v x = (if va_availability v = AVAILABLE then Some x else None)"

definition dependency_risk :: "teaching_context \<Rightarrow> float64 option" where
  "dependency_risk ctx =
     (case dict_get (ctx_assistance_summary ctx) ''hint_dependency_risk'' of
        None \<Rightarrow> None | Some v \<Rightarrow> number_of v)"

definition candidate_features ::
  "teaching_context \<Rightarrow> teaching_stage \<Rightarrow> candidate \<Rightarrow> policy_profile \<Rightarrow> bool \<Rightarrow> float64 \<Rightarrow> decision_feature list" where
  "candidate_features ctx stage c p known_error time_cost =
     (let needs_probe = (va_value (ctx_needs_probe ctx) = VBool True);
          dependency = dependency_risk ctx;
          cost = scaffold_cost (tc_scaffold c)
      in [mk_feature ''stage_fit'' (Some (indicator_if (stage \<in> set (tc_stages c)))) AVAILABLE
            (Some 1) ctx p,
          mk_feature ''diagnostic_value''
            (when_available (ctx_needs_probe ctx) (indicator_if (needs_probe \<and>
               tc_family c \<in> {SF_GUIDED_PRACTICE, SF_ERROR_REMEDIATION})))
            (va_availability (ctx_needs_probe ctx)) (va_confidence (ctx_needs_probe ctx)) ctx p,
          mk_feature ''remediation_fit''
            (when_available (ctx_error_type ctx) (indicator_if (known_error \<and>
               tc_family c = SF_ERROR_REMEDIATION)))
            (va_availability (ctx_error_type ctx)) (va_confidence (ctx_diagnostic_confidence ctx)) ctx p,
          mk_feature ''review_fit''
            (when_available (ctx_review_context ctx)
               (indicator_if (tc_family c = SF_RETRIEVAL_PRACTICE)))
            (va_availability (ctx_review_context ctx)) (va_confidence (ctx_review_context ctx)) ctx p,
          mk_feature ''learning_value_proxy'' (Some (family_proxy (tc_family c))) AVAILABLE None ctx p,
          mk_feature ''direct_request_fit''
            (Some (indicator_if (ctx_direct_answer_request ctx \<and> tc_key c = ''direct_answer.bounded'')))
            AVAILABLE (Some 1) ctx p,
          mk_feature ''hint_dependency_risk'' (map_option (\<lambda>d. fmul d cost) dependency)
            (if dependency \<noteq> None then AVAILABLE else MISSING) None ctx p,
          mk_feature ''cognitive_load_penalty'' (Some cost) AVAILABLE None ctx p,
          mk_feature ''time_cost'' (Some time_cost) AVAILABLE None ctx p])"

definition build_candidate_features ::
  "teaching_context \<Rightarrow> teaching_stage \<Rightarrow> candidate \<Rightarrow> policy_profile \<Rightarrow> exn + feature_set" where
  "build_candidate_features ctx stage c p =
     bind_res (specific_error (va_value (ctx_error_type ctx))) (\<lambda>known_error.
       case dict_get time_costs (tc_key c) of
         None \<Rightarrow> Inl (KeyError (tc_key c))
       | Some time_cost \<Rightarrow>
           Inr \<lparr>fs_key = tc_key c,
                fs_features = candidate_features ctx stage c p known_error time_cost\<rparr>)"

text \<open>\<open>min(1.0, max(0.0, x))\<close> rounded to 12 decimals.\<close>

definition clamp_unit :: "float64 \<Rightarrow> float64" where
  "clamp_unit x = min 1 (max 0 x)"

definition normalize_feature :: "decision_feature \<Rightarrow> policy_profile \<Rightarrow> exn + float64 option" where
  "normalize_feature f p =
     (case df_value f of
        None \<Rightarrow> Inr None
      | Some v \<Rightarrow>
          (case dict_get (pp_ranges p) (df_name f) of
             None \<Rightarrow> Inl (PolicyError NORMALIZATION_FAILURE
               (''no fixed normalization range for '' @ df_name f))
           | Some b \<Rightarrow>
               (case fdiv (fsub v (nr_minimum b)) (fsub (nr_maximum b) (nr_minimum b)) of
                  None \<Rightarrow> Inl ZeroDivision
                | Some x \<Rightarrow> Inr (Some (py_round (clamp_unit x) 12)))))"

section \<open>Scoring\<close>

definition value_or_zero :: "float64 option \<Rightarrow> float64" where
  "value_or_zero v = (case v of None \<Rightarrow> 0 | Some x \<Rightarrow> x)"

text \<open>One pass of the loop body: normalize, look the weight up, store both.\<close>

fun score_features :: "policy_profile \<Rightarrow> decision_feature list \<Rightarrow>
    (string, float64 option) dict \<Rightarrow> (string, float64) dict \<Rightarrow>
    exn + (string, float64 option) dict \<times> (string, float64) dict" where
  "score_features p [] normalized components = Inr (normalized, components)"
| "score_features p (f # fs) normalized components =
     bind_res (normalize_feature f p) (\<lambda>v.
       case dict_get (pp_weights p) (df_name f) of
         None \<Rightarrow> Inl (PolicyError NORMALIZATION_FAILURE (''missing exact weight for '' @ df_name f))
       | Some w \<Rightarrow> score_features p fs (dict_set (df_name f) v normalized)
                    (dict_set (df_name f) (py_round (fmul (value_or_zero v) w) 12) components))"

definition score_candidate :: "feature_set \<Rightarrow> policy_profile \<Rightarrow> exn + candidate_score" where
  "score_candidate fs p =
     bind_res (score_features p (fs_features fs) [] []) (\<lambda>(normalized, components).
       Inr \<lparr>cs_key = fs_key fs, cs_normalized = normalized, cs_components = components,
            cs_total = py_round (fsum (map snd components)) 12\<rparr>)"

section \<open>Selection\<close>

text \<open>\<open>{key: index for index, key in enumerate(ps)}\<close>: the last index of a key wins.\<close>

definition priority_index :: "string list \<Rightarrow> string \<Rightarrow> nat option" where
  "priority_index ps k = map_of (rev (zip ps [0..<length ps])) k"

definition selection_key :: "policy_profile \<Rightarrow> candidate_score \<Rightarrow> float64 \<times> nat \<times> string" where
  "selection_key p s = (- cs_total s, the (priority_index (pp_candidate_priority p) (cs_key s)), cs_key s)"

definition select_stably ::
  "candidate_score list \<Rightarrow> policy_profile \<Rightarrow> exn + candidate_score \<times> string" where
  "select_stably scores p =
     (if scores = [] then Inl (PolicyError NO_LEGAL_CANDIDATE
        ''hard constraints and candidate table produced no legal candidate'')
      else let missing = sort (map cs_key
                (filter (\<lambda>s. priority_index (pp_candidate_priority p) (cs_key s) = None) scores))
        in if missing \<noteq> [] then Inl (PolicyError TIE_BREAK_CONFIGURATION_FAILURE
             (''candidate priority missing action keys: '' @ str_join '','' missing))
        else let selected = hd (sort_key (selection_key p) scores);
                 tied = filter (\<lambda>s. cs_total s = cs_total selected) scores
          in Inr (selected, pp_tie_break_version p @
               (if 1 < length tied then '':score_then_candidate_priority_then_action_key''
                else '':unique_max_score'')))"

section \<open>Features are well formed\<close>

lemma candidate_feature_names:
  "map df_name (candidate_features ctx stage c p known t) = feature_names"
  by (simp add: candidate_features_def mk_feature_def feature_names_def Let_def)

lemma feature_names_distinct: "distinct feature_names"
  by (simp add: feature_names_def)

lemma mk_feature_valid:
  "valid_feature (mk_feature n v av conf ctx p) \<longleftrightarrow> n \<noteq> [] \<and> pp_feature_schema_version p \<noteq> [] \<and>
     unit_range conf \<and> (av = AVAILABLE \<longrightarrow> v \<noteq> None) \<and>
     (av \<in> {MISSING, NOT_APPLICABLE} \<longrightarrow> v = None)"
  by (simp add: valid_feature_def mk_feature_def)

lemma when_available_sound:
  "va_availability v = AVAILABLE \<longleftrightarrow> when_available v x \<noteq> None"
  by (simp add: when_available_def)

lemma features_valid:
  assumes "pp_feature_schema_version p \<noteq> []"
    and "list_all valid_value [ctx_needs_probe ctx, ctx_diagnostic_confidence ctx, ctx_review_context ctx]"
  shows "list_all valid_feature (candidate_features ctx stage c p known t)"
  using assms
  by (auto simp: candidate_features_def Let_def mk_feature_valid when_available_def valid_value_def
      unit_range_def)

lemma table_time_cost:
  assumes "c \<in> set candidate_table"
  shows "\<exists>t. dict_get time_costs (tc_key c) = Some t"
  using assms by (auto simp: table_members time_costs_def dict_get_def)

lemma build_features_cases:
  assumes "c \<in> set candidate_table"
  shows "(\<exists>known t. specific_error (va_value (ctx_error_type ctx)) = Inr known \<and>
            dict_get time_costs (tc_key c) = Some t \<and>
            build_candidate_features ctx stage c p =
              Inr \<lparr>fs_key = tc_key c, fs_features = candidate_features ctx stage c p known t\<rparr>) \<or>
         build_candidate_features ctx stage c p = Inl TypeError \<and>
           \<not> hashable (va_value (ctx_error_type ctx))"
  using table_time_cost [OF assms]
  by (auto simp: build_candidate_features_def specific_error_def split: if_splits)

section \<open>Normalization\<close>

lemma clamp_unit_bounds: "0 \<le> clamp_unit x" "clamp_unit x \<le> 1"
  by (simp_all add: clamp_unit_def)

lemma clamp_unit_mono: "x \<le> y \<Longrightarrow> clamp_unit x \<le> clamp_unit y"
  by (auto simp: clamp_unit_def min_def max_def)

lemma normalized_unit:
  "normalize_feature f p = Inr (Some x) \<Longrightarrow> 0 \<le> x \<and> x \<le> 1"
  using dec.in_unit clamp_unit_bounds
  by (auto simp: normalize_feature_def split: option.splits)

definition f64_profile :: "policy_profile \<Rightarrow> bool" where
  "f64_profile p \<longleftrightarrow>
     list_all (\<lambda>(_, b). is_f64 (nr_minimum b) \<and> is_f64 (nr_maximum b)) (pp_ranges p)"

lemma range_width_pos:
  assumes "valid_profile p" and "f64_profile p" and "dict_get (pp_ranges p) n = Some b"
  shows "0 < fsub (nr_maximum b) (nr_minimum b)"
proof -
  have "(n, b) \<in> set (pp_ranges p)" using assms(3) by (auto simp: dict_get_def dest: map_of_SomeD)
  with assms(1,2) have "is_f64 (nr_minimum b)" "is_f64 (nr_maximum b)" "nr_minimum b < nr_maximum b"
    by (auto simp: valid_profile_def f64_profile_def list_all_iff valid_range_def)
  then show ?thesis by (rule fsub_pos)
qed

lemma normalize_total:
  assumes "valid_profile p" and "f64_profile p" and "df_name f \<in> fst ` set (pp_ranges p)"
  shows "\<exists>v. normalize_feature f p = Inr v"
proof (cases "df_value f")
  case (Some v)
  from assms(3) obtain b where b: "dict_get (pp_ranges p) (df_name f) = Some b"
    by (metis dict_get_def not_None_eq map_of_eq_None_iff)
  then have "fsub (nr_maximum b) (nr_minimum b) \<noteq> 0" using range_width_pos [OF assms(1,2)] by force
  then show ?thesis by (simp add: normalize_feature_def Some b fdiv_def)
qed (simp add: normalize_feature_def)

lemma normalize_mono:
  assumes "valid_profile p" and "f64_profile p" and "df_name f = df_name g"
    and "df_value f = Some v" and "df_value g = Some w" and "v \<le> w"
    and "normalize_feature f p = Inr (Some x)" and "normalize_feature g p = Inr (Some y)"
  shows "x \<le> y"
proof -
  obtain b where b: "dict_get (pp_ranges p) (df_name g) = Some b"
    using assms by (auto simp: normalize_feature_def split: option.splits)
  let ?w = "fsub (nr_maximum b) (nr_minimum b)"
  have w: "0 < ?w" using range_width_pos [OF assms(1,2) b] .
  have "fl (fsub v (nr_minimum b) / ?w) \<le> fl (fsub w (nr_minimum b) / ?w)"
    using w assms(6) by (intro fl_mono divide_right_mono) (auto simp: fsub_def intro: fl_mono)
  then have "py_round (clamp_unit (fl (fsub v (nr_minimum b) / ?w))) 12
      \<le> py_round (clamp_unit (fl (fsub w (nr_minimum b) / ?w))) 12"
    by (intro dec.monotone clamp_unit_mono)
  then show ?thesis using assms b w by (auto simp: normalize_feature_def fdiv_def)
qed

section \<open>The score is the rounded sum of its components\<close>

definition component :: "policy_profile \<Rightarrow> decision_feature \<Rightarrow> float64" where
  "component p f =
     py_round (fmul (value_or_zero (projr (normalize_feature f p)))
       (the (dict_get (pp_weights p) (df_name f)))) 12"

lemma score_features_Inr:
  assumes "score_features p fs n c = Inr (n', c')" and "distinct (map df_name fs)"
    and "\<forall>f \<in> set fs. df_name f \<notin> fst ` set n \<and> df_name f \<notin> fst ` set c"
  shows "n' = n @ map (\<lambda>f. (df_name f, projr (normalize_feature f p))) fs \<and>
         c' = c @ map (\<lambda>f. (df_name f, component p f)) fs"
  using assms
proof (induction p fs n c rule: score_features.induct)
  case (2 p f fs n c)
  from "2.prems"(1) obtain v w where v: "normalize_feature f p = Inr v"
    and w: "dict_get (pp_weights p) (df_name f) = Some w"
    and r: "score_features p fs (dict_set (df_name f) v n)
        (dict_set (df_name f) (py_round (fmul (value_or_zero v) w) 12) c) = Inr (n', c')"
    by (auto simp: res_simps split: option.splits)
  have fresh: "df_name f \<notin> fst ` set n" "df_name f \<notin> fst ` set c" using "2.prems"(3) by auto
  have other: "\<forall>g \<in> set fs. df_name g \<noteq> df_name f" using "2.prems"(2) by (auto simp: image_iff)
  from "2.IH" [OF w r] "2.prems" fresh v w other show ?case
    by (simp add: dict_set_fresh component_def)
qed auto

lemma score_features_total:
  assumes "\<And>f. f \<in> set fs \<Longrightarrow> \<exists>v. normalize_feature f p = Inr v"
    and "\<And>f. f \<in> set fs \<Longrightarrow> df_name f \<in> fst ` set (pp_weights p)"
  shows "\<exists>r. score_features p fs n c = Inr r"
  using assms
proof (induction p fs n c rule: score_features.induct)
  case (2 p f fs n c)
  obtain v where v: "normalize_feature f p = Inr v" using "2.prems"(1) by auto
  have "df_name f \<in> fst ` set (pp_weights p)" using "2.prems"(2) by auto
  then obtain w where w: "dict_get (pp_weights p) (df_name f) = Some w"
    by (metis dict_get_def not_None_eq map_of_eq_None_iff)
  from "2.IH" [OF w, of v] "2.prems" show ?case by (simp add: v w)
qed auto

lemma score_candidate_total:
  "\<exists>r. score_features p (fs_features fs) [] [] = Inr r \<Longrightarrow> \<exists>s. score_candidate fs p = Inr s"
  by (auto simp: score_candidate_def)

lemma score_candidate_Inr:
  assumes "score_candidate fs p = Inr s" and "distinct (map df_name (fs_features fs))"
  shows "cs_key s = fs_key fs"
    and "cs_components s = map (\<lambda>f. (df_name f, component p f)) (fs_features fs)"
    and "cs_total s = py_round (fsum (map (component p) (fs_features fs))) 12"
proof -
  obtain n c where r: "score_features p (fs_features fs) [] [] = Inr (n, c)"
    and s: "s = \<lparr>cs_key = fs_key fs, cs_normalized = n, cs_components = c,
              cs_total = py_round (fsum (map snd c)) 12\<rparr>"
    using assms(1) by (auto simp: score_candidate_def res_simps)
  from score_features_Inr [OF r assms(2)]
  have c: "c = map (\<lambda>f. (df_name f, component p f)) (fs_features fs)" by simp
  show "cs_key s = fs_key fs" "cs_components s = map (\<lambda>f. (df_name f, component p f)) (fs_features fs)"
    "cs_total s = py_round (fsum (map (component p) (fs_features fs))) 12"
    by (simp_all add: s c comp_def)
qed

lemma component_bounds:
  assumes "dict_get (pp_weights p) (df_name f) = Some w" and "normalize_feature f p = Inr v"
  shows "0 \<le> w \<Longrightarrow> 0 \<le> component p f \<and> component p f \<le> py_round (fl w) 12"
    and "w \<le> 0 \<Longrightarrow> py_round (fl w) 12 \<le> component p f \<and> component p f \<le> 0"
proof -
  let ?x = "value_or_zero v"
  have x: "0 \<le> ?x" "?x \<le> 1"
    using normalized_unit [of f p] assms(2) by (auto simp: value_or_zero_def split: option.splits)
  have e: "component p f = py_round (fl (?x * w)) 12" by (simp add: component_def assms fmul_def)
  have z: "py_round (fl 0) 12 = 0" by (simp add: dec.zero)
  show "0 \<le> w \<Longrightarrow> 0 \<le> component p f \<and> component p f \<le> py_round (fl w) 12"
  proof
    assume w: "0 \<le> w"
    show "0 \<le> component p f" unfolding e using x w by (intro dec.nonneg f64.nonneg) simp
    have "?x * w \<le> w" using x w by (simp add: mult_left_le_one_le)
    then show "component p f \<le> py_round (fl w) 12" unfolding e by (intro dec.monotone fl_mono)
  qed
  show "w \<le> 0 \<Longrightarrow> py_round (fl w) 12 \<le> component p f \<and> component p f \<le> 0"
  proof
    assume w: "w \<le> 0"
    have "w \<le> ?x * w" using mult_right_mono_neg [OF x(2) w] by simp
    then show "py_round (fl w) 12 \<le> component p f" unfolding e by (intro dec.monotone fl_mono)
    show "component p f \<le> 0" unfolding e
      using x w by (intro dec.nonpos f64.nonpos) (simp add: mult_nonneg_nonpos)
  qed
qed

section \<open>Selection\<close>

lemma priority_index_None: "priority_index ps k = None \<longleftrightarrow> k \<notin> set ps"
proof -
  have "fst ` set (zip ps [0..<length ps]) = set (map fst (zip ps [0..<length ps]))" by (simp only: set_map)
  then show ?thesis by (simp add: priority_index_def map_of_eq_None_iff)
qed

lemma select_total:
  assumes "scores \<noteq> []" and "\<And>s. s \<in> set scores \<Longrightarrow> cs_key s \<in> set (pp_candidate_priority p)"
  shows "\<exists>reason. select_stably scores p = Inr (hd (sort_key (selection_key p) scores), reason)"
proof -
  have "filter (\<lambda>s. priority_index (pp_candidate_priority p) (cs_key s) = None) scores = []"
    using assms(2) by (auto simp: filter_empty_conv priority_index_None)
  then show ?thesis using assms(1) by (simp add: select_stably_def Let_def)
qed

lemma select_Inr:
  assumes "select_stably scores p = Inr (s, reason)"
  shows "s = hd (sort_key (selection_key p) scores)" and "scores \<noteq> []"
    and "s \<in> set scores"
    and "\<And>t. t \<in> set scores \<Longrightarrow> selection_key p s \<le> selection_key p t"
proof -
  show e: "s = hd (sort_key (selection_key p) scores)" and n: "scores \<noteq> []"
    using assms by (auto simp: select_stably_def Let_def split: if_splits)
  show "s \<in> set scores" using n unfolding e by (rule hd_sort_key_mem)
  show "\<And>t. t \<in> set scores \<Longrightarrow> selection_key p s \<le> selection_key p t"
    unfolding e by (rule hd_sort_key_le)
qed

lemma selection_key_le_iff:
  "selection_key p s \<le> selection_key p t \<longleftrightarrow> cs_total t < cs_total s \<or>
     cs_total s = cs_total t \<and>
       (the (priority_index (pp_candidate_priority p) (cs_key s)),  cs_key s) \<le>
       (the (priority_index (pp_candidate_priority p) (cs_key t)),  cs_key t)"
  by (auto simp: selection_key_def less_eq_prod_def)

end
