(* ===== verification/Scoring.thy ===== *)
theory Scoring
  imports Features
begin

text \<open>
  What \<open>scoring.py\<close> promises: the selection is a maximum with a fixed tie-break, it does not
  depend on the order of the candidates, and under the shipped profile an explicit direct
  request outweighs every other feature.
\<close>

section \<open>Scores under the shipped profile\<close>

lemma default_ranges: "dict_get (pp_ranges default_profile) n = (if n \<in> set feature_names then Some unit_bounds else None)"
  by (simp add: default_profile_def dict_get_def map_of_map_restrict [of "\<lambda>_. unit_bounds", unfolded comp_def] restrict_map_def)

lemma default_normalize:
  "df_name f \<in> set feature_names \<Longrightarrow>
     normalize_feature f default_profile =
       Inr (map_option (\<lambda>v. py_round (clamp_unit (fl (fl v))) 12) (df_value f))"
  by (cases "df_value f")
     (simp_all add: normalize_feature_def default_ranges unit_bounds_def fdiv_def fsub_def)

lemma default_scored:
  assumes "map df_name (fs_features fs) = feature_names"
  shows "\<exists>s. score_candidate fs default_profile = Inr s"
proof (intro score_candidate_total score_features_total)
  fix f assume "f \<in> set (fs_features fs)"
  then have n: "df_name f \<in> set feature_names" using assms by (metis image_eqI set_map)
  show "\<exists>v. normalize_feature f default_profile = Inr v" using default_normalize [OF n] by blast
  show "df_name f \<in> fst ` set (pp_weights default_profile)"
    using n by (simp add: feature_names_def default_profile_def default_weights_def)
qed

definition low_component :: "float64 \<Rightarrow> float64" where
  "low_component w = (if 0 \<le> w then 0 else py_round (fl w) 12)"
definition high_component :: "float64 \<Rightarrow> float64" where
  "high_component w = (if 0 \<le> w then py_round (fl w) 12 else 0)"

lemma component_range:
  assumes "dict_get (pp_weights p) (df_name f) = Some w" and "normalize_feature f p = Inr v"
  shows "low_component w \<le> component p f" and "component p f \<le> high_component w"
  using component_bounds [OF assms] by (auto simp: low_component_def high_component_def)

lemma default_component_range:
  assumes "(df_name f, w) \<in> set default_weights"
  shows "low_component w \<le> component default_profile f" and "component default_profile f \<le> high_component w"
proof -
  have d: "distinct (map fst default_weights)" by (simp add: default_weights_def)
  have g: "dict_get (pp_weights default_profile) (df_name f) = Some w"
    using map_of_is_SomeI [OF d assms] by (simp add: default_profile_def dict_get_def)
  have "df_name f \<in> set feature_names"
    using assms by (auto simp: default_weights_def feature_names_def)
  from component_range [OF g default_normalize [OF this]]
  show "low_component w \<le> component default_profile f" "component default_profile f \<le> high_component w" .
qed

text \<open>Compare the components with the table of weights, entry by entry.\<close>

lemma default_components_all2:
  assumes names: "map df_name fs = feature_names"
    and entry: "\<And>f w. f \<in> set fs \<Longrightarrow> (df_name f, w) \<in> set default_weights \<Longrightarrow>
      R (g (df_name f) w) (component default_profile f)"
  shows "list_all2 R (map (\<lambda>(n, w). g n w) default_weights) (map (component default_profile) fs)"
proof (rule list_all2_all_nthI)
  have fn: "feature_names = map fst default_weights" by (simp add: feature_names_def default_weights_def)
  show len: "length (map (\<lambda>(n, w). g n w) default_weights) = length (map (component default_profile) fs)"
    using names fn by (metis length_map)
  fix i assume i: "i < length (map (\<lambda>(n, w). g n w) default_weights)"
  then have "df_name (fs ! i) = fst (default_weights ! i)" using names fn len by (metis length_map nth_map)
  with i len entry [of "fs ! i" "snd (default_weights ! i)"] nth_mem [of i default_weights]
  show "R (map (\<lambda>(n, w). g n w) default_weights ! i) (map (component default_profile) fs ! i)"
    by (auto simp: split_def)
qed

lemma default_total_eq:
  assumes "score_candidate fs default_profile = Inr s" and "map df_name (fs_features fs) = feature_names"
  shows "cs_total s = py_round (fsum (map (component default_profile) (fs_features fs))) 12"
  using assms by (intro score_candidate_Inr(3)) (auto simp: feature_names_distinct)

lemma default_total_ge:
  assumes "score_candidate fs default_profile = Inr s" and names: "map df_name (fs_features fs) = feature_names"
    and "\<And>f w. f \<in> set (fs_features fs) \<Longrightarrow> (df_name f, w) \<in> set default_weights \<Longrightarrow>
      g (df_name f) w \<le> component default_profile f"
  shows "py_round (fsum (map (\<lambda>(n, w). g n w) default_weights)) 12 \<le> cs_total s"
  unfolding default_total_eq [OF assms(1) names]
  by (intro dec.monotone fsum_mono default_components_all2 names assms(3))

lemma default_total_le:
  assumes "score_candidate fs default_profile = Inr s" and names: "map df_name (fs_features fs) = feature_names"
    and "\<And>f w. f \<in> set (fs_features fs) \<Longrightarrow> (df_name f, w) \<in> set default_weights \<Longrightarrow>
      component default_profile f \<le> g (df_name f) w"
  shows "cs_total s \<le> py_round (fsum (map (\<lambda>(n, w). g n w) default_weights)) 12"
proof -
  have "list_all2 (\<lambda>x y. y \<le> x) (map (\<lambda>(n, w). g n w) default_weights)
      (map (component default_profile) (fs_features fs))"
    by (intro default_components_all2 names assms(3))
  then have "list_all2 (\<le>) (map (component default_profile) (fs_features fs))
      (map (\<lambda>(n, w). g n w) default_weights)"
    by (auto simp: list_all2_conv_all_nth)
  then show ?thesis unfolding default_total_eq [OF assms(1) names] by (intro dec.monotone fsum_mono)
qed

lemma component_at:
  assumes "(df_name f, w) \<in> set default_weights" and "df_value f = Some v"
  shows "component default_profile f = py_round (fmul (py_round (clamp_unit (fl (fl v))) 12) w) 12"
proof -
  have d: "distinct (map fst default_weights)" by (simp add: default_weights_def)
  have g: "dict_get (pp_weights default_profile) (df_name f) = Some w"
    using map_of_is_SomeI [OF d assms(1)] by (simp add: default_profile_def dict_get_def)
  have "df_name f \<in> set feature_names"
    using assms(1) by (auto simp: default_weights_def feature_names_def)
  from default_normalize [OF this] assms(2) g show ?thesis
    by (simp add: component_def value_or_zero_def)
qed

text \<open>
  A direct request outweighs every other feature: the weight of \<open>direct_request_fit\<close> exceeds
  what all the others can add or take away.
\<close>

lemma direct_total_low:
  assumes "ctx_direct_answer_request ctx"
    and fs: "fs_features fs = candidate_features ctx stage cand_direct default_profile known t"
    and s: "score_candidate fs default_profile = Inr s"
  shows "18 \<le> cs_total s"
proof -
  let ?g = "\<lambda>n w. if n = ''direct_request_fit'' then 20 else low_component w"
  have at: "component default_profile f = 20"
    if "f \<in> set (fs_features fs)" "df_name f = ''direct_request_fit''" for f
  proof -
    have v: "df_value f = Some 1"
      using that assms(1,2) by (auto simp: candidate_features_def mk_feature_def Let_def indicator_if_def)
    have w: "(df_name f, 20) \<in> set default_weights" by (simp add: that(2) default_weights_def)
    have "py_round (fmul (py_round (clamp_unit (fl (fl 1))) 12) 20) 12 = 20" by code_simp
    with component_at [OF w v] show ?thesis by simp
  qed
  have "py_round (fsum (map (\<lambda>(n, w). ?g n w) default_weights)) 12 \<le> cs_total s"
    by (rule default_total_ge [OF s])
      (use at default_component_range(1) in \<open>auto simp: fs candidate_feature_names\<close>)
  moreover have "18 \<le> py_round (fsum (map (\<lambda>(n, w). ?g n w) default_weights)) 12" by code_simp
  ultimately show ?thesis by simp
qed

lemma other_total_high:
  assumes "tc_key c \<noteq> ''direct_answer.bounded''"
    and fs: "fs_features fs = candidate_features ctx stage c default_profile known t"
    and s: "score_candidate fs default_profile = Inr s"
  shows "cs_total s \<le> 17"
proof -
  let ?g = "\<lambda>n w. if n = ''direct_request_fit'' then 0 else high_component w"
  have at: "component default_profile f = 0"
    if "f \<in> set (fs_features fs)" "df_name f = ''direct_request_fit''" for f
  proof -
    have v: "df_value f = Some 0"
      using that assms(1,2) by (auto simp: candidate_features_def mk_feature_def Let_def indicator_if_def)
    have w: "(df_name f, 20) \<in> set default_weights" by (simp add: that(2) default_weights_def)
    have "py_round (fmul (py_round (clamp_unit (fl (fl 0))) 12) 20) 12 = 0" by code_simp
    with component_at [OF w v] show ?thesis by simp
  qed
  have "cs_total s \<le> py_round (fsum (map (\<lambda>(n, w). ?g n w) default_weights)) 12"
    by (rule default_total_le [OF s])
      (use at default_component_range(2) in \<open>auto simp: fs candidate_feature_names\<close>)
  moreover have "py_round (fsum (map (\<lambda>(n, w). ?g n w) default_weights)) 12 = 17" by code_simp
  ultimately show ?thesis by simp
qed

section \<open>Properties of scoring and selection\<close>

text \<open>The selected score is one of the given ones; every other score is lower,
  or equal and behind it in the profile's candidate priority, then in the order of the keys.
  The recorded reason says whether the maximum was shared.\<close>

theorem select_stably_best:
  assumes "select_stably scores p = Inr (s, reason)"
  shows "s \<in> set scores \<and>
    (\<forall>t \<in> set scores. cs_total t < cs_total s \<or> cs_total t = cs_total s \<and>
       (the (priority_index (pp_candidate_priority p) (cs_key s)), cs_key s) \<le>
       (the (priority_index (pp_candidate_priority p) (cs_key t)), cs_key t)) \<and>
    (reason = pp_tie_break_version p @ '':unique_max_score'' \<longleftrightarrow>
       length (filter (\<lambda>t. cs_total t = cs_total s) scores) = 1)"
proof (intro conjI ballI)
  show "s \<in> set scores" by (rule select_Inr(3) [OF assms])
  show "cs_total t < cs_total s \<or> cs_total t = cs_total s \<and>
       (the (priority_index (pp_candidate_priority p) (cs_key s)), cs_key s) \<le>
       (the (priority_index (pp_candidate_priority p) (cs_key t)), cs_key t)"
    if "t \<in> set scores" for t
    using select_Inr(4) [OF assms that] unfolding selection_key_le_iff by (auto simp: eq_commute)
  let ?n = "length (filter (\<lambda>t. cs_total t = cs_total s) scores)"
  have "0 < ?n" using select_Inr(3) [OF assms] by (auto simp: length_greater_0_conv filter_empty_conv)
  then have n: "?n = 1 \<longleftrightarrow> \<not> 1 < ?n" by linarith
  have "reason = pp_tie_break_version p @
      (if 1 < ?n then '':score_then_candidate_priority_then_action_key'' else '':unique_max_score'')"
    using assms by (auto simp: select_stably_def Let_def split: if_splits)
  then show "reason = pp_tie_break_version p @ '':unique_max_score'' \<longleftrightarrow> ?n = 1"
    unfolding n by (cases "1 < ?n") simp_all
qed

definition demo_score :: "string \<Rightarrow> float64 \<Rightarrow> candidate_score" where
  "demo_score k x = \<lparr>cs_key = k, cs_normalized = [], cs_components = [], cs_total = x\<rparr>"

definition demo_scores :: "candidate_score list" where
  "demo_scores = [demo_score ''guided_practice.core'' 3, demo_score ''error_remediation.core'' 3,
     demo_score ''explicit_instruction.core'' 1]"

lemma demo_selection:
  "select_stably demo_scores default_profile =
     Inr (demo_score ''error_remediation.core'' 3,
       ''tie-1:score_then_candidate_priority_then_action_key'')"
  by code_simp

theorem select_stably_best_witness:
  "demo_score ''error_remediation.core'' 3 \<in> set demo_scores \<and>
   ''tie-1:score_then_candidate_priority_then_action_key'' \<noteq>
     pp_tie_break_version default_profile @ '':unique_max_score''"
  using select_stably_best [OF demo_selection] by (simp add: default_profile_def)

text \<open>The selection, its reason and its errors depend on the scores only, not on the
  order in which the candidates were generated.\<close>

theorem select_stably_order_independent:
  assumes "mset scores = mset scores'" and "distinct (map cs_key scores)"
  shows "select_stably scores p = select_stably scores' p"
proof -
  have perm: "mset (filter P scores) = mset (filter P scores')" for P
    using assms(1) by (simp add: mset_filter)
  have missing: "sort (map cs_key (filter P scores)) = sort (map cs_key (filter P scores'))" for P
    using perm [of P] by (metis mset_map properties_for_sort mset_sort sorted_sort)
  have len: "length (filter P scores) = length (filter P scores')" for P
    using perm [of P] by (metis size_mset)
  have "inj_on (selection_key p) (set scores)"
    using assms(2) by (auto simp: distinct_map inj_on_def selection_key_def)
  then have "hd (sort_key (selection_key p) scores) = hd (sort_key (selection_key p) scores')"
    if "scores \<noteq> []"
    using that assms(1) by (intro sorted_choice.pick_set) (auto dest: mset_eq_setD)
  moreover have "scores = [] \<longleftrightarrow> scores' = []" using assms(1) by auto
  ultimately show ?thesis unfolding select_stably_def Let_def missing len by (simp add: len)
qed

theorem select_stably_order_independent_witness:
  "select_stably (rev demo_scores) default_profile =
     Inr (demo_score ''error_remediation.core'' 3,
       ''tie-1:score_then_candidate_priority_then_action_key'')"
  using select_stably_order_independent [of demo_scores "rev demo_scores" default_profile] demo_selection
  by (simp add: demo_scores_def demo_score_def)

end
