(* ===== verification/Kernel.thy ===== *)
theory Kernel
  imports Scoring
begin

text \<open>
  \<open>app/domains/teaching_policy/validation.py\<close> and \<open>kernel.py\<close>: the exact-snapshot check of the
  input and \<open>TeachingPolicyKernel.decide\<close>, the deterministic single decision.
\<close>

section \<open>Exact-snapshot validation\<close>

definition ref_key :: "versioned_ref \<Rightarrow> string \<times> string \<times> string" where
  "ref_key r = (vr_type r, vr_id r, ver_str (vr_version r))"

definition ref_text :: "versioned_ref \<Rightarrow> string" where
  "ref_text r = vr_type r @ '':'' @ vr_id r @ ''@'' @ ver_str (vr_version r)"

definition value_fields :: "teaching_context \<Rightarrow> value_av list" where
  "value_fields ctx = [ctx_activity_type ctx, ctx_target_capability ctx, ctx_mastery_confidence ctx,
     ctx_prerequisite_confidence ctx, ctx_evidence_sufficiency ctx, ctx_correctness_score ctx,
     ctx_assessment_confidence ctx, ctx_error_type ctx, ctx_diagnostic_confidence ctx,
     ctx_needs_probe ctx, ctx_worked_example_exposure ctx, ctx_delayed_independent ctx,
     ctx_review_context ctx, ctx_transfer_evidence ctx, ctx_transfer_novelty ctx, ctx_time_budget ctx]"

definition optional_refs :: "teaching_context \<Rightarrow> versioned_ref option list" where
  "optional_refs ctx = [ctx_current_task_ref ctx, ctx_mastery_estimate_ref ctx,
     ctx_recent_result_ref ctx, ctx_previous_action_ref ctx, ctx_assignment_ref ctx]"

definition required_refs :: "teaching_context \<Rightarrow> versioned_ref list" where
  "required_refs ctx = [ctx_objective_ref ctx, ctx_activity_ref ctx] @
     List.map_filter id (optional_refs ctx) @
     ctx_task_structure_refs ctx @ ctx_prerequisite_state_refs ctx @ ctx_misconception_refs ctx @
     ctx_independent_success ctx @ ctx_assisted_success ctx @ ctx_previous_outcome_refs ctx @
     concat (map va_refs (value_fields ctx))"

definition missing_refs :: "teaching_context \<Rightarrow> versioned_ref list" where
  "missing_refs ctx =
     filter (\<lambda>r. ref_key r \<notin> ref_key ` set (ctx_source_refs ctx)) (required_refs ctx)"

definition assignment_matches :: "versioned_ref \<Rightarrow> experiment_assignment \<Rightarrow> bool" where
  "assignment_matches r a \<longleftrightarrow> vr_type r = ''experiment_assignment'' \<and> vr_id r = ea_id a \<and>
     ver_str (vr_version r) = ea_schema_version a"

definition validate_policy_input ::
  "teaching_context \<Rightarrow> policy_bundle \<Rightarrow> policy_profile \<Rightarrow> experiment_assignment option \<Rightarrow>
   exn + validated_input" where
  "validate_policy_input ctx b p assignment =
     bind_res (assert_matches p b) (\<lambda>_.
       if missing_refs ctx \<noteq> [] then Inl (PolicyError INVALID_CONTEXT
         (''context source_refs do not pin required exact refs: '' @
          str_join '','' (map ref_text (missing_refs ctx))))
       else if (ctx_assignment_ref ctx = None) \<noteq> (assignment = None)
       then Inl (PolicyError EXPERIMENT_ASSIGNMENT_MISMATCH
         ''context assignment ref and exact assignment must be provided together'')
       else if (case (ctx_assignment_ref ctx, assignment) of
                  (Some r, Some a) \<Rightarrow> \<not> assignment_matches r a | _ \<Rightarrow> False)
       then Inl (PolicyError EXPERIMENT_ASSIGNMENT_MISMATCH
         ''assignment identity/version does not match TeachingContext exact ref'')
       else Inr \<lparr>vi_context_ref = mk_ref ''teaching_context'' (ctx_id ctx) (VerS (ctx_schema_version ctx)),
                 vi_bundle_ref = mk_ref ''policy_bundle'' (pb_bundle_id b) (VerS (pb_policy_version b))\<rparr>)"

section \<open>Stable identifiers\<close>

definition stable_uuid :: "pyenv \<Rightarrow> string \<Rightarrow> (string, string option) dict \<Rightarrow> uuid" where
  "stable_uuid env kind payload =
     uuid5 env (''askora:v0.3:'' @ kind @ '':'' @ json_dumps payload)"

definition semantic_key ::
  "teaching_context \<Rightarrow> policy_bundle \<Rightarrow> experiment_assignment option \<Rightarrow> string \<Rightarrow>
   (string, string option) dict" where
  "semantic_key ctx b assignment selected =
    [(''context_id'', Some (ctx_id ctx)), (''context_fingerprint'', Some (ctx_fingerprint ctx)),
     (''bundle_id'', Some (pb_bundle_id b)), (''bundle_version'', Some (pb_policy_version b)),
     (''bundle_digest'', Some (pb_content_digest b)),
     (''assignment_id'', map_option ea_id assignment), (''selected'', Some selected)]"

section \<open>The decision\<close>

definition assisted_envelope :: "candidate \<Rightarrow> bool" where
  "assisted_envelope c \<longleftrightarrow> tc_scaffold c \<noteq> SC_NONE \<or> tc_hint c \<noteq> HS_NONE \<or> tc_exposure c \<noteq> AE_NONE"

definition obligation_of :: "candidate \<Rightarrow> validation_obligation" where
  "obligation_of c = (if assisted_envelope c then INDEPENDENT_VALIDATION_REQUIRED else VO_NONE)"

definition decision_reasons :: "teaching_stage \<Rightarrow> candidate \<Rightarrow> string list" where
  "decision_reasons stage c =
    [''B3_DETERMINISTIC_SELECTION'', ''STAGE_'' @ stage_value stage,
     ''CANDIDATE_'' @ replace_char CHR ''.'' CHR ''_'' (ascii_upper (tc_key c))]"

definition make_action :: "teaching_context \<Rightarrow> policy_bundle \<Rightarrow> validated_input \<Rightarrow> teaching_stage \<Rightarrow>
    candidate \<Rightarrow> uuid \<Rightarrow> uuid \<Rightarrow> teaching_action" where
  "make_action ctx b vi stage c decision_id action_id =
     \<lparr>ta_id = action_id, ta_schema_version = ''3.0'', ta_objective_ref = ctx_objective_ref ctx,
      ta_activity_ref = ctx_activity_ref ctx, ta_family = tc_family c,
      ta_strategy_version = pb_candidate_table_version b, ta_stage = stage, ta_moves = tc_moves c,
      ta_modifiers = tc_modifiers c, ta_scaffold = tc_scaffold c, ta_hint = tc_hint c,
      ta_exposure = tc_exposure c, ta_evidence_requirements = tc_evidence_requirements c,
      ta_expected_evidence = tc_expected_evidence c, ta_success_condition = tc_success_condition c,
      ta_failure_condition = tc_failure_condition c, ta_max_attempts = tc_max_attempts c,
      ta_time_budget = None, ta_obligation = obligation_of c,
      ta_reason_codes = decision_reasons stage c, ta_bundle_ref = vi_bundle_ref vi,
      ta_context_ref = vi_context_ref vi, ta_decision_id = decision_id,
      ta_created_at = ctx_decision_time ctx\<rparr>"

definition flat_feature :: "string \<Rightarrow> decision_feature \<Rightarrow> decision_feature" where
  "flat_feature k f = f\<lparr>df_name := k @ '':'' @ df_name f\<rparr>"

definition flat_features :: "feature_set list \<Rightarrow> decision_feature list" where
  "flat_features sets = concat (map (\<lambda>s. map (flat_feature (fs_key s)) (fs_features s)) sets)"

definition score_entries ::
  "policy_bundle \<Rightarrow> candidate_score list \<Rightarrow> feature_set list \<Rightarrow> score_entry list" where
  "score_entries b scores sets =
     map (\<lambda>(s, f). \<lparr>se_score = s, se_features = fs_features f,
        se_normalization_version = pb_normalization_version b,
        se_weight_profile_version = pb_weight_profile_version b\<rparr>) (zip scores sets)"

definition kernel_algorithm :: "string \<times> string" where
  "kernel_algorithm = (''askora.teaching_policy.b3'', ''exec009.1'')"

definition make_trace :: "teaching_context \<Rightarrow> policy_bundle \<Rightarrow> experiment_assignment option \<Rightarrow>
    validated_input \<Rightarrow> hard_evaluation \<Rightarrow> teaching_stage \<Rightarrow> candidate list \<Rightarrow> feature_set list \<Rightarrow>
    candidate_score list \<Rightarrow> candidate \<Rightarrow> string \<Rightarrow> teaching_action \<Rightarrow> decision_trace" where
  "make_trace ctx b assignment vi hard stage candidates sets scores c tie a =
     \<lparr>dt_decision_id = ta_decision_id a, dt_decision_type = ''teaching_action_selection'',
      dt_owner_system = ''teaching_policy'', dt_decision_time = ctx_decision_time ctx,
      dt_context_ref = Some (vi_context_ref vi),
      dt_context_schema_version = Some (ctx_schema_version ctx),
      dt_context_fingerprint = Some (ctx_fingerprint ctx), dt_context_sources = ctx_source_refs ctx,
      dt_bundle_ref = Some (vi_bundle_ref vi), dt_bundle_hash = Some (pb_content_digest b),
      dt_policy_version = Some (pb_policy_version b), dt_family = Some (tc_family c),
      dt_strategy_version = Some (pb_candidate_table_version b), dt_stage = Some stage,
      dt_stage_mapper_version = Some (pb_stage_mapper_version b), dt_available = candidates,
      dt_constraints = he_results hard, dt_filtered = he_filtered hard,
      dt_features = flat_features sets, dt_scores = score_entries b scores sets,
      dt_selected_ref = Some (mk_ref ''teaching_action'' (ta_id a) (VerS (ta_schema_version a))),
      dt_previous_ref = ctx_previous_action_ref ctx,
      dt_transition_reasons = [''EXEC009_SINGLE_DECISION_KERNEL''],
      dt_material_refs = ctx_previous_outcome_refs ctx, dt_anti = None, dt_tie_break = Some tie,
      dt_assignment_ref = ctx_assignment_ref ctx,
      dt_assignment_probability = (case assignment of None \<Rightarrow> None | Some a \<Rightarrow> ea_probability a),
      dt_behavior = BP_DETERMINISTIC, dt_propensity = None, dt_algorithm = kernel_algorithm,
      dt_reason_codes = decision_reasons stage c, dt_replayability = RP_FULL,
      dt_replay_reasons = [''EXACT_CONTEXT_AND_POLICY_PROFILE''], dt_correlation = ctx_id ctx,
      dt_trace_id = ''policy:'' @ ta_decision_id a, dt_created_at = ctx_decision_time ctx\<rparr>"

definition conflict_rules_failed :: "hard_evaluation \<Rightarrow> bool" where
  "conflict_rules_failed hard =
     list_all (\<lambda>r. \<not> hc_passed r)
       (filter (\<lambda>r. hc_rule_id r = ''SYS05-HC-HARD-RULE-CONFLICT'') (he_results hard))"

definition decide :: "pyenv \<Rightarrow> teaching_context \<Rightarrow> policy_bundle \<Rightarrow> policy_profile \<Rightarrow>
    experiment_assignment option \<Rightarrow> exn + policy_decision" where
  "decide env ctx b p assignment =
     bind_res (validate_policy_input ctx b p assignment) (\<lambda>vi.
     let hard = evaluate_hard_constraints env ctx p candidate_table
     in if conflict_rules_failed hard
     then Inl (PolicyError HARD_RULE_CONFLICT
       ''candidate priority/configuration conflicts with the closed candidate table'')
     else bind_res (derive_teaching_stage ctx p) (\<lambda>stage.
     let candidates = generate_candidates stage (set (he_forbidden hard)) (ctx_direct_answer_request ctx)
     in if candidates = [] then Inl (PolicyError NO_LEGAL_CANDIDATE
       (''no candidate survives hard constraints for stage '' @ stage_value stage))
     else bind_res (map_res (\<lambda>c. build_candidate_features ctx stage c p) candidates) (\<lambda>sets.
     bind_res (map_res (\<lambda>s. score_candidate s p) sets) (\<lambda>scores.
     bind_res (select_stably scores p) (\<lambda>(best, tie).
     case first_match (\<lambda>c. tc_key c = cs_key best) candidates of
       None \<Rightarrow> Inl StopIteration
     | Some c \<Rightarrow>
         let payload = semantic_key ctx b assignment (tc_key c);
             decision_id = stable_uuid env ''decision'' payload;
             action_id = stable_uuid env ''action''
               (dict_set ''decision_id'' (Some decision_id) payload);
             a = make_action ctx b vi stage c decision_id action_id
         in Inr \<lparr>pd_action = a,
              pd_trace = make_trace ctx b assignment vi hard stage candidates sets scores c tie a\<rparr>)))))"

section \<open>What a returned decision is made of\<close>

definition legal_candidates ::
  "pyenv \<Rightarrow> teaching_context \<Rightarrow> policy_profile \<Rightarrow> teaching_stage \<Rightarrow> candidate list" where
  "legal_candidates env ctx p stage =
     generate_candidates stage (set (he_forbidden (evaluate_hard_constraints env ctx p candidate_table)))
       (ctx_direct_answer_request ctx)"

lemma legal_candidates_iff:
  "c \<in> set (legal_candidates env ctx p stage) \<longleftrightarrow>
     c \<in> set candidate_table \<and> stage \<in> set (tc_stages c) \<and> \<not> forbids env ctx p c"
proof (cases "c \<in> set candidate_table")
  case True
  have "tc_key c = ''direct_answer.bounded'' \<Longrightarrow> \<not> forbids env ctx p c \<Longrightarrow> ctx_direct_answer_request ctx"
    using complete_exposure_only_direct [OF True] by (auto simp: forbids_def)
  then show ?thesis
    using True forbidden_iff_forbids [OF True]
    by (auto simp: legal_candidates_def generate_candidates_def)
qed (auto simp: legal_candidates_def generate_candidates_def)

lemma legal_in_table: "c \<in> set (legal_candidates env ctx p stage) \<Longrightarrow> c \<in> set candidate_table"
  by (simp add: legal_candidates_iff)

lemma legal_candidate_by_key:
  assumes "c \<in> set (legal_candidates env ctx p stage)"
  shows "first_match (\<lambda>x. tc_key x = tc_key c) (legal_candidates env ctx p stage) = Some c"
  using table.generated_by_key [OF assms [unfolded legal_candidates_def]]
  by (simp add: first_match_def legal_candidates_def)

lemma conflict_rules_failed_iff:
  "conflict_rules_failed (evaluate_hard_constraints env ctx p candidate_table) \<longleftrightarrow>
     priority_conflict p candidate_table"
  by (simp add: conflict_rules_failed_def evaluate_hard_constraints_def hard_rules_def rule_defs
      Let_def constraint_result_def)

definition scored :: "teaching_context \<Rightarrow> teaching_stage \<Rightarrow> policy_profile \<Rightarrow> candidate \<Rightarrow> feature_set \<Rightarrow>
    candidate_score \<Rightarrow> bool" where
  "scored ctx stage p c f s \<longleftrightarrow>
     build_candidate_features ctx stage c p = Inr f \<and> score_candidate f p = Inr s"

lemma scored_key:
  assumes "scored ctx stage p c f s" and "c \<in> set candidate_table"
  shows "cs_key s = tc_key c"
proof -
  obtain known t where f: "f = \<lparr>fs_key = tc_key c, fs_features = candidate_features ctx stage c p known t\<rparr>"
    using assms build_features_cases [OF assms(2), of ctx stage p] by (auto simp: scored_def)
  have "score_candidate f p = Inr s" using assms(1) by (simp add: scored_def)
  then have "cs_key s = fs_key f"
    by (rule score_candidate_Inr(1)) (simp add: f candidate_feature_names feature_names_distinct)
  then show ?thesis by (simp add: f)
qed

lemma decide_elim:
  assumes "decide env ctx b p asg = Inr d"
  obtains vi stage sets scores best tie c where
    "validate_policy_input ctx b p asg = Inr vi"
    "\<not> priority_conflict p candidate_table"
    "derive_teaching_stage ctx p = Inr stage"
    "list_all2 (\<lambda>c f. build_candidate_features ctx stage c p = Inr f) (legal_candidates env ctx p stage) sets"
    "list_all2 (\<lambda>f s. score_candidate f p = Inr s) sets scores"
    "select_stably scores p = Inr (best, tie)"
    "c \<in> set (legal_candidates env ctx p stage)" "tc_key c = cs_key best"
    "pd_action d = make_action ctx b vi stage c
       (stable_uuid env ''decision'' (semantic_key ctx b asg (tc_key c)))
       (stable_uuid env ''action'' (dict_set ''decision_id''
          (Some (stable_uuid env ''decision'' (semantic_key ctx b asg (tc_key c))))
          (semantic_key ctx b asg (tc_key c))))"
    "pd_trace d = make_trace ctx b asg vi (evaluate_hard_constraints env ctx p candidate_table) stage
       (legal_candidates env ctx p stage) sets scores c tie (pd_action d)"
proof -
  from assms obtain vi stage sets scores best tie c where
    "validate_policy_input ctx b p asg = Inr vi"
    "\<not> priority_conflict p candidate_table"
    "derive_teaching_stage ctx p = Inr stage"
    "list_all2 (\<lambda>c f. build_candidate_features ctx stage c p = Inr f) (legal_candidates env ctx p stage) sets"
    "list_all2 (\<lambda>f s. score_candidate f p = Inr s) sets scores"
    "select_stably scores p = Inr (best, tie)"
    and c: "first_match (\<lambda>c. tc_key c = cs_key best) (legal_candidates env ctx p stage) = Some c"
    and d: "d = (let payload = semantic_key ctx b asg (tc_key c);
             decision_id = stable_uuid env ''decision'' payload;
             action_id = stable_uuid env ''action'' (dict_set ''decision_id'' (Some decision_id) payload);
             a = make_action ctx b vi stage c decision_id action_id
         in \<lparr>pd_action = a, pd_trace = make_trace ctx b asg vi
               (evaluate_hard_constraints env ctx p candidate_table) stage
               (legal_candidates env ctx p stage) sets scores c tie a\<rparr>)"
    unfolding decide_def Let_def conflict_rules_failed_iff legal_candidates_def [symmetric] res_simps
      if_res_Inr_iff
    by (fastforce simp: res_simps split: option.splits)
  moreover have "c \<in> set (legal_candidates env ctx p stage)" "tc_key c = cs_key best"
    using first_match_Some [OF c] by simp_all
  ultimately show thesis by (intro that [of vi stage sets scores best tie c]) (simp_all add: d Let_def)
qed

lemma scored_pipeline:
  assumes "list_all2 (\<lambda>c f. build_candidate_features ctx stage c p = Inr f) cs sets"
    and "list_all2 (\<lambda>f s. score_candidate f p = Inr s) sets scores"
  shows "length sets = length cs" and "length scores = length cs"
    and "i < length cs \<Longrightarrow> scored ctx stage p (cs ! i) (sets ! i) (scores ! i)"
  using assms by (auto simp: list_all2_conv_all_nth scored_def)

lemma pipeline_keys:
  assumes "list_all2 (\<lambda>c f. build_candidate_features ctx stage c p = Inr f) cs sets"
    and "list_all2 (\<lambda>f s. score_candidate f p = Inr s) sets scores"
    and "set cs \<subseteq> set candidate_table"
  shows "map cs_key scores = map tc_key cs"
proof (rule nth_equalityI)
  show l: "length (map cs_key scores) = length (map tc_key cs)" using scored_pipeline(2) [OF assms(1,2)] by simp
  fix i assume "i < length (map cs_key scores)"
  then have i: "i < length cs" using l by simp
  then have "cs ! i \<in> set candidate_table" using assms(3) nth_mem by blast
  with scored_key [OF scored_pipeline(3) [OF assms(1,2) i]] i l
  show "map cs_key scores ! i = map tc_key cs ! i" by simp
qed

lemma pipeline_score_of:
  assumes "list_all2 (\<lambda>c f. build_candidate_features ctx stage c p = Inr f) cs sets"
    and "list_all2 (\<lambda>f s. score_candidate f p = Inr s) sets scores" and "c \<in> set cs"
  obtains f s where "s \<in> set scores" "scored ctx stage p c f s"
  using assms scored_pipeline [OF assms(1,2)] by (metis in_set_conv_nth)


section \<open>When a decision is returned\<close>

text \<open>The profile prices every feature: a range and a weight for each of the nine names.\<close>

definition prices_features :: "policy_profile \<Rightarrow> bool" where
  "prices_features p \<longleftrightarrow> set feature_names \<subseteq> fst ` set (pp_ranges p) \<and>
     set feature_names \<subseteq> fst ` set (pp_weights p)"

definition sound_profile :: "policy_profile \<Rightarrow> bool" where
  "sound_profile p \<longleftrightarrow> valid_profile p \<and> f64_profile p \<and> prices_features p"

lemma candidate_scored:
  assumes "sound_profile p" and c: "c \<in> set candidate_table"
    and "hashable (va_value (ctx_error_type ctx))"
  shows "\<exists>f s. scored ctx stage p c f s"
proof -
  obtain known t where f: "build_candidate_features ctx stage c p =
      Inr \<lparr>fs_key = tc_key c, fs_features = candidate_features ctx stage c p known t\<rparr>"
    using build_features_cases [OF c, of ctx stage p] assms(3) by auto
  let ?f = "\<lparr>fs_key = tc_key c, fs_features = candidate_features ctx stage c p known t\<rparr>"
  have mem: "df_name x \<in> set feature_names" if "x \<in> set (fs_features ?f)" for x
    using that candidate_feature_names [of ctx stage c p known t] by (metis feature_set.select_convs(2) image_eqI set_map)
  have "\<exists>s. score_candidate ?f p = Inr s"
    using assms(1) mem unfolding sound_profile_def prices_features_def
    by (intro score_candidate_total score_features_total normalize_total) auto
  with f show ?thesis by (auto simp: scored_def)
qed

lemma priority_covers:
  assumes "\<not> priority_conflict p candidate_table" and "c \<in> set candidate_table"
  shows "tc_key c \<in> set (pp_candidate_priority p)"
  using assms by (auto simp: priority_conflict_def missing_priority_keys_def filter_empty_conv)

lemma decide_continue:
  assumes "validate_policy_input ctx b p asg = Inr vi" and "\<not> priority_conflict p candidate_table"
    and "derive_teaching_stage ctx p = Inr stage" and "legal_candidates env ctx p stage \<noteq> []"
    and "sound_profile p" and "hashable (va_value (ctx_error_type ctx))"
  shows "\<exists>d. decide env ctx b p asg = Inr d"
proof -
  let ?cs = "legal_candidates env ctx p stage"
  have sc: "\<exists>f s. scored ctx stage p c f s" if "c \<in> set ?cs" for c
    by (rule candidate_scored [OF assms(5) legal_in_table [OF that] assms(6)])
  obtain sets where sets: "map_res (\<lambda>c. build_candidate_features ctx stage c p) ?cs = Inr sets"
    using map_res_total [of ?cs "\<lambda>c. build_candidate_features ctx stage c p"] sc
    by (auto simp: scored_def)
  then have l1: "list_all2 (\<lambda>c f. build_candidate_features ctx stage c p = Inr f) ?cs sets"
    by (simp add: map_res_Inr_iff)
  have "\<exists>s. score_candidate f p = Inr s" if f: "f \<in> set sets" for f
  proof -
    obtain c where c: "c \<in> set ?cs" "build_candidate_features ctx stage c p = Inr f"
      using list_all2_right [OF l1 f] by auto
    with sc [OF c(1)] show ?thesis by (auto simp: scored_def)
  qed
  then obtain scores where scores: "map_res (\<lambda>f. score_candidate f p) sets = Inr scores"
    using map_res_total [of sets "\<lambda>f. score_candidate f p"] by auto
  then have l2: "list_all2 (\<lambda>f s. score_candidate f p = Inr s) sets scores"
    by (simp add: map_res_Inr_iff)
  have sub: "set ?cs \<subseteq> set candidate_table" by (rule subsetI) (rule legal_in_table)
  have keys: "map cs_key scores = map tc_key ?cs" by (rule pipeline_keys [OF l1 l2 sub])
  have keyset: "cs_key ` set scores = tc_key ` set ?cs" using keys by (metis set_map)
  have ne: "scores \<noteq> []" using assms(4) keys by auto
  obtain tie where sel: "select_stably scores p = Inr (hd (sort_key (selection_key p) scores), tie)"
  proof -
    have "cs_key s \<in> set (pp_candidate_priority p)" if "s \<in> set scores" for s
    proof -
      from that keyset have "cs_key s \<in> tc_key ` set ?cs" by blast
      then obtain c where "c \<in> set ?cs" "cs_key s = tc_key c" by auto
      with priority_covers [OF assms(2) legal_in_table] show ?thesis by simp
    qed
    from select_total [OF ne this] that show thesis by auto
  qed
  have "cs_key (hd (sort_key (selection_key p) scores)) \<in> tc_key ` set ?cs"
    unfolding keyset [symmetric] using select_Inr(3) [OF sel] by (rule imageI)
  then obtain c where c: "c \<in> set ?cs" "cs_key (hd (sort_key (selection_key p) scores)) = tc_key c" by auto
  show ?thesis
    unfolding decide_def Let_def conflict_rules_failed_iff legal_candidates_def [symmetric]
    using assms(1-4) sets scores sel legal_candidate_by_key [OF c(1)] c(2) by simp
qed

lemma decide_features_error:
  assumes "map_res (\<lambda>c. build_candidate_features ctx stage c p) (legal_candidates env ctx p stage) = Inl e"
  shows "e = TypeError \<and> \<not> hashable (va_value (ctx_error_type ctx))"
proof -
  have "e = TypeError \<and> \<not> hashable (va_value (ctx_error_type ctx))"
    if "map_res (\<lambda>c. build_candidate_features ctx stage c p) cs = Inl e" "set cs \<subseteq> set candidate_table" for cs
    using that
  proof (induction cs)
    case (Cons c cs)
    then show ?case using build_features_cases [of c ctx stage p] by (auto simp: res_simps)
  qed simp
  from this [OF assms] show ?thesis by (auto dest: legal_in_table)
qed

end
