(* ===== verification/Evidence.thy ===== *)
theory Evidence
  imports Kernel
begin

text \<open>
  \<open>app/domains/teaching_policy/evidence.py\<close>: which signals are material evidence.  A signal
  that names no exact reference, a chat turn, a re-render or the passing of time alone never
  is; a review delay is once the profile's delay has elapsed.
\<close>

fun kind_value :: "evidence_kind \<Rightarrow> string" where
  "kind_value ASSESSMENT_RESULT = ''ASSESSMENT_RESULT''"
| "kind_value INDEPENDENT_ATTEMPT = ''INDEPENDENT_ATTEMPT''"
| "kind_value DIAGNOSTIC_PROBE = ''DIAGNOSTIC_PROBE''"
| "kind_value LEARNER_STATE_UPDATE = ''LEARNER_STATE_UPDATE''"
| "kind_value EXPLICIT_USER_REQUEST = ''EXPLICIT_USER_REQUEST''"
| "kind_value PREREQUISITE_EVIDENCE = ''PREREQUISITE_EVIDENCE''"
| "kind_value ASSISTANCE_EVENT = ''ASSISTANCE_EVENT''"
| "kind_value REVIEW_DELAY_TRANSITION = ''REVIEW_DELAY_TRANSITION''"
| "kind_value CHAT_TURN = ''CHAT_TURN''"
| "kind_value WORDING_VARIATION = ''WORDING_VARIATION''"
| "kind_value RERENDER = ''RERENDER''"
| "kind_value SAME_CONTEXT_REEVALUATION = ''SAME_CONTEXT_REEVALUATION''"
| "kind_value WALL_CLOCK_DRIFT = ''WALL_CLOCK_DRIFT''"

definition material_kinds :: "evidence_kind set" where
  "material_kinds = {ASSESSMENT_RESULT, INDEPENDENT_ATTEMPT, DIAGNOSTIC_PROBE,
     LEARNER_STATE_UPDATE, EXPLICIT_USER_REQUEST, PREREQUISITE_EVIDENCE, ASSISTANCE_EVENT}"

record evidence_signal =
  es_signal_id :: string
  es_kind :: evidence_kind
  es_ref :: "versioned_ref option"
  es_occurred_at :: time
  es_attributes :: "(string, pyval) dict"

text \<open>\<open>(now - started_at).total_seconds()\<close>, or \<open>-1\<close> unless both instants carry an offset.\<close>

definition total_seconds :: "int \<Rightarrow> float64" where
  "total_seconds us = fl (of_int us / 10 ^ 6)"

definition elapsed_seconds :: "pydatetime \<Rightarrow> pyval option \<Rightarrow> float64" where
  "elapsed_seconds now started =
     (case (started, now) of
        (Some (VTime (Aware s)), Aware n) \<Rightarrow> total_seconds (n - s)
      | _ \<Rightarrow> - 1)"

text \<open>The attribute, with an ISO text parsed; a text that is no date raises ValueError.\<close>

definition delay_started :: "pyenv \<Rightarrow> evidence_signal \<Rightarrow> exn + pyval option" where
  "delay_started env s =
     (case dict_get (es_attributes s) ''delay_started_at'' of
        Some (VStr t) \<Rightarrow>
          (case fromisoformat env t of
             None \<Rightarrow> Inl (ValueError ''Invalid isoformat string'')
           | Some d \<Rightarrow> Inr (Some (VTime d)))
      | v \<Rightarrow> Inr v)"

definition classified_as :: "evidence_signal \<Rightarrow> bool \<Rightarrow> string \<Rightarrow> classified_evidence" where
  "classified_as s material reason =
     \<lparr>ce_signal_id = es_signal_id s, ce_kind = es_kind s, ce_material = material,
      ce_reason = reason, ce_ref = es_ref s\<rparr>"

definition classify_signal ::
  "pyenv \<Rightarrow> policy_profile \<Rightarrow> pydatetime \<Rightarrow> evidence_signal \<Rightarrow> exn + classified_evidence" where
  "classify_signal env p now s =
     (if es_kind s \<in> material_kinds
      then Inr (if es_ref s \<noteq> None then classified_as s True ''MATERIAL_EXACT_EVIDENCE''
                else classified_as s False ''NON_MATERIAL_MISSING_EXACT_REF'')
      else if es_kind s = REVIEW_DELAY_TRANSITION
      then bind_res (delay_started env s) (\<lambda>started.
        Inr (if es_ref s \<noteq> None \<and> of_int (pp_delay_seconds p) \<le> elapsed_seconds now started
             then classified_as s True ''MATERIAL_MEANINGFUL_REVIEW_DELAY''
             else classified_as s False ''NON_MATERIAL_DELAY_WINDOW_NOT_MET''))
      else Inr (classified_as s False (''NON_MATERIAL_'' @ kind_value (es_kind s))))"

definition classify_material_evidence ::
  "pyenv \<Rightarrow> evidence_signal list \<Rightarrow> policy_profile \<Rightarrow> pydatetime \<Rightarrow> exn + classified_evidence list" where
  "classify_material_evidence env signals p now = map_res (classify_signal env p now) signals"

definition distinct_material_opportunities :: "classified_evidence list \<Rightarrow> nat" where
  "distinct_material_opportunities classified =
     length (remdups (List.map_filter (\<lambda>i. case ce_ref i of
        Some r \<Rightarrow> if ce_material i then Some (kind_value (ce_kind i), ref_key r) else None
      | None \<Rightarrow> None) classified))"

section \<open>What material evidence is\<close>

lemma classify_material_has_ref:
  "classify_signal env p now s = Inr c \<Longrightarrow> ce_material c \<Longrightarrow> ce_ref c \<noteq> None"
  by (auto simp: classify_signal_def classified_as_def res_simps split: if_splits)

lemma classify_keeps_signal:
  "classify_signal env p now s = Inr c \<Longrightarrow>
     ce_signal_id c = es_signal_id s \<and> ce_kind c = es_kind s \<and> ce_ref c = es_ref s"
  by (auto simp: classify_signal_def classified_as_def res_simps split: if_splits)

lemma classify_error:
  "classify_signal env p now s = Inl e \<Longrightarrow> es_kind s = REVIEW_DELAY_TRANSITION \<and>
     e = ValueError ''Invalid isoformat string''"
  by (auto simp: classify_signal_def delay_started_def res_simps
      split: if_splits option.splits pyval.splits)

lemma non_material_kind:
  "es_kind s \<in> {CHAT_TURN, WORDING_VARIATION, RERENDER, SAME_CONTEXT_REEVALUATION, WALL_CLOCK_DRIFT}
   \<Longrightarrow> classify_signal env p now s =
     Inr (classified_as s False (''NON_MATERIAL_'' @ kind_value (es_kind s)))"
  by (auto simp: classify_signal_def material_kinds_def)

text \<open>A signal counts as material evidence exactly when it names an exact
  reference and is either of one of the seven evidence kinds or a review delay whose start,
  given with its offset, lies at least the profile's delay before the decision.\<close>

theorem classify_material_iff:
  assumes "classify_signal env p now s = Inr c" and "0 \<le> pp_delay_seconds p"
  shows "ce_material c \<longleftrightarrow> es_ref s \<noteq> None \<and>
    (es_kind s \<in> material_kinds \<or>
     es_kind s = REVIEW_DELAY_TRANSITION \<and>
       (\<exists>t n. delay_started env s = Inr (Some (VTime (Aware t))) \<and> now = Aware n \<and>
          of_int (pp_delay_seconds p) \<le> total_seconds (n - t)))"
proof (cases "es_kind s = REVIEW_DELAY_TRANSITION")
  case True
  then have nk: "es_kind s \<notin> material_kinds" by (simp add: material_kinds_def)
  obtain started where st: "delay_started env s = Inr started"
    using assms(1) True nk by (auto simp: classify_signal_def res_simps)
  have "of_int (pp_delay_seconds p) \<le> elapsed_seconds now started \<longleftrightarrow>
      (\<exists>t n. started = Some (VTime (Aware t)) \<and> now = Aware n \<and>
         of_int (pp_delay_seconds p) \<le> total_seconds (n - t))"
  proof -
    have neg: "\<not> (rat_of_int (pp_delay_seconds p) \<le> - 1)"
    proof -
      have "(0 :: rat) \<le> of_int (pp_delay_seconds p)" using assms(2) by simp
      then show ?thesis by linarith
    qed
    show ?thesis
      by (auto simp: elapsed_seconds_def neg split: option.splits pyval.splits pydatetime.splits)
  qed
  with True nk st assms(1) show ?thesis
    by (auto simp: classify_signal_def classified_as_def split: if_splits)
next
  case False
  with assms(1) show ?thesis by (auto simp: classify_signal_def classified_as_def split: if_splits)
qed

definition demo_delay :: "string \<Rightarrow> evidence_signal" where
  "demo_delay start = \<lparr>es_signal_id = ''s1'', es_kind = REVIEW_DELAY_TRANSITION,
     es_ref = Some (mk_ref ''review'' ''r1'' (VerI 1)), es_occurred_at = 0,
     es_attributes = [(''delay_started_at'', VStr start)]\<rparr>"

definition clock_env :: pyenv where
  "clock_env = \<lparr>uuid5 = id, repr_of = (\<lambda>_. []), fromisoformat = (\<lambda>s. if s = ''T0'' then Some (Aware 0) else None)\<rparr>"

theorem classify_material_iff_witness:
  "\<exists>c. classify_signal clock_env default_profile (Aware 3600000000) (demo_delay ''T0'') = Inr c \<and> ce_material c"
proof -
  have t: "total_seconds 3600000000 = 3600" by code_simp
  have st: "delay_started clock_env (demo_delay ''T0'') = Inr (Some (VTime (Aware 0)))"
    by (simp add: delay_started_def demo_delay_def clock_env_def dict_get_def)
  have d: "pp_delay_seconds default_profile = 3600" by (simp add: default_profile_def)
  have k: "es_kind (demo_delay ''T0'') = REVIEW_DELAY_TRANSITION" by (simp add: demo_delay_def)
  obtain c where c: "classify_signal clock_env default_profile (Aware 3600000000) (demo_delay ''T0'') = Inr c"
    by (simp add: classify_signal_def st k material_kinds_def)
  have "0 \<le> pp_delay_seconds default_profile" by (simp add: d)
  from classify_material_iff [OF c this] c st d t show ?thesis
    by (auto simp: demo_delay_def)
qed

end
