(* ===== verification/Decisions.thy ===== *)
theory Decisions
  imports Kernel
begin

text \<open>
  The properties of \<open>TeachingPolicyKernel.decide\<close>: which candidate it may select, when it
  returns and which error it fails closed with, what its trace and identifiers say, and a
  concrete input on which each statement is exercised.
\<close>

section \<open>A concrete decision\<close>

definition demo_env :: pyenv where
  "demo_env = \<lparr>uuid5 = id, repr_of = (\<lambda>_. ''''), fromisoformat = (\<lambda>_. None)\<rparr>"

definition known_value :: "pyval \<Rightarrow> value_av" where
  "known_value v = \<lparr>va_value = v, va_availability = AVAILABLE, va_confidence = Some 1, va_refs = []\<rparr>"

definition missing_value :: value_av where
  "missing_value = \<lparr>va_value = VNone, va_availability = MISSING, va_confidence = None, va_refs = []\<rparr>"

definition demo_objective :: versioned_ref where
  "demo_objective = mk_ref ''learning_objective'' ''o1'' (VerI 1)"
definition demo_activity :: versioned_ref where
  "demo_activity = mk_ref ''learning_activity'' ''a1'' (VerI 1)"

definition demo_ctx :: teaching_context where
  "demo_ctx = \<lparr>ctx_id = ''c1'', ctx_schema_version = ''3.0'', ctx_decision_time = 0,
     ctx_fingerprint = ''f1'', ctx_objective_ref = demo_objective, ctx_activity_ref = demo_activity,
     ctx_activity_type = known_value (VStr ''lesson''),
     ctx_target_capability = known_value (VStr ''apply''), ctx_current_task_ref = None,
     ctx_task_structure_refs = [], ctx_mastery_estimate_ref = None,
     ctx_mastery_confidence = known_value (VFloat (1 / 4)), ctx_prerequisite_state_refs = [],
     ctx_prerequisite_confidence = known_value (VInt 1),
     ctx_evidence_sufficiency = known_value (VInt 1), ctx_recent_result_ref = None,
     ctx_correctness_score = known_value (VFloat (1 / 2)),
     ctx_assessment_confidence = known_value (VInt 1),
     ctx_error_type = known_value (VStr ''UNKNOWN''),
     ctx_diagnostic_confidence = known_value (VInt 1), ctx_misconception_refs = [],
     ctx_alternative_hypotheses = [], ctx_needs_probe = known_value (VBool False),
     ctx_assistance_summary = [(''consecutive_failures'', VInt 0)], ctx_scaffold_history = [],
     ctx_hint_history = [], ctx_exposure_history = [],
     ctx_worked_example_exposure = known_value (VBool False), ctx_independent_success = [],
     ctx_assisted_success = [], ctx_previous_action_ref = None, ctx_previous_outcome_refs = [],
     ctx_delayed_independent = known_value (VBool False), ctx_review_context = missing_value,
     ctx_transfer_evidence = missing_value, ctx_transfer_novelty = missing_value,
     ctx_direct_answer_request = False, ctx_explanation_request = False,
     ctx_time_budget = known_value (VInt 600), ctx_accessibility = [], ctx_assignment_ref = None,
     ctx_experiment_opt_out = False, ctx_source_refs = [demo_objective, demo_activity]\<rparr>"

definition demo_bundle :: policy_bundle where
  "demo_bundle = \<lparr>pb_bundle_id = ''b1'', pb_schema_version = ''3.0'', pb_policy_version = ''policy-1'',
     pb_hard_rule_set_version = ''hard-1'', pb_stage_mapper_version = ''stage-1'',
     pb_candidate_table_version = ''candidates-1'', pb_feature_schema_version = ''features-1'',
     pb_normalization_version = ''fixed-bounds-1'', pb_weight_profile_version = ''weights-1'',
     pb_anti_oscillation_version = ''anti-1'', pb_tie_break_version = ''tie-1'',
     pb_fallback_profile_version = ''fallback-1'', pb_subject_profile_version = None,
     pb_content_digest =
       ''sha256:a8ca56385d9c6f13ff7e10c4738f93baf034bf705f5ab537f2bcd2be2061898b'',
     pb_published_at = 0\<rparr>"

lemma legal_candidates_filter:
  "legal_candidates env ctx p stage =
     filter (\<lambda>c. stage \<in> set (tc_stages c) \<and> \<not> forbids env ctx p c) candidate_table"
proof -
  have "filter (\<lambda>c. c \<in> set (legal_candidates env ctx p stage)) candidate_table =
      legal_candidates env ctx p stage"
    unfolding legal_candidates_def generate_candidates_def by (rule filter_cong) auto
  then show ?thesis by (simp add: legal_candidates_iff cong: filter_cong)
qed

lemma default_no_conflict: "\<not> priority_conflict default_profile candidate_table"
  by (simp add: priority_conflict_def unknown_priority_keys_def missing_priority_keys_def table_keys
      default_profile_def set_map [symmetric] del: set_map)

lemma default_valid: "valid_profile default_profile"
  by code_simp

lemma default_sound: "sound_profile default_profile"
proof -
  have "f64_profile default_profile"
    by (simp add: f64_profile_def default_profile_def unit_bounds_def list_all_iff)
  moreover have "prices_features default_profile"
    by (simp add: prices_features_def default_profile_def feature_names_def default_weights_def)
  ultimately show ?thesis by (simp add: sound_profile_def default_valid)
qed

lemma demo_activity_text: "activity_text demo_env demo_ctx = ''lesson''"
  unfolding activity_text_def Let_def demo_ctx_def known_value_def
  by (simp add: str_lower_def lower_char_def)

lemma demo_validated:
  "validate_policy_input demo_ctx demo_bundle default_profile None =
     Inr \<lparr>vi_context_ref = mk_ref ''teaching_context'' ''c1'' (VerS ''3.0''),
          vi_bundle_ref = mk_ref ''policy_bundle'' ''b1'' (VerS ''policy-1'')\<rparr>"
  by code_simp


lemma demo_stage: "derive_teaching_stage demo_ctx default_profile = Inr TS_EXPLICIT_INSTRUCTION"
  by code_simp

lemma demo_explicit_legal: "\<not> forbids demo_env demo_ctx default_profile cand_explicit"
  using default_no_conflict
  by (simp add: forbids_def is_independent_assessment_def demo_activity_text assessment_markers_def
      unsupported_keys_def) (simp add: demo_ctx_def)

lemma demo_decides: "\<exists>d. decide demo_env demo_ctx demo_bundle default_profile None = Inr d"
proof (rule decide_continue [OF demo_validated default_no_conflict demo_stage _ default_sound])
  have "cand_explicit \<in> set (legal_candidates demo_env demo_ctx default_profile TS_EXPLICIT_INSTRUCTION)"
    using demo_explicit_legal by (simp add: legal_candidates_iff table_members)
  then show "legal_candidates demo_env demo_ctx default_profile TS_EXPLICIT_INSTRUCTION \<noteq> []" by auto
  show "hashable (va_value (ctx_error_type demo_ctx))" by (simp add: demo_ctx_def known_value_def)
qed

section \<open>Only legal candidates are selected\<close>

lemma make_action_matches: "matches_action c (make_action ctx b vi stage c i j)"
  by (simp add: matches_action_def make_action_def)

lemma decided_candidate:
  assumes "decide env ctx b p asg = Inr d"
  obtains c where "c \<in> set (legal_candidates env ctx p (ta_stage (pd_action d)))"
    "matches_action c (pd_action d)" "candidate_key_for_action (pd_action d) = Some (tc_key c)"
    "derive_teaching_stage ctx p = Inr (ta_stage (pd_action d))"
    "ta_obligation (pd_action d) = obligation_of c"
    "ta_decision_id (pd_action d) = stable_uuid env ''decision'' (semantic_key ctx b asg (tc_key c))"
  using assms
proof (rule decide_elim)
  fix vi stage sets scores best tie c
  assume *: "derive_teaching_stage ctx p = Inr stage" "c \<in> set (legal_candidates env ctx p stage)"
    "pd_action d = make_action ctx b vi stage c
       (stable_uuid env ''decision'' (semantic_key ctx b asg (tc_key c)))
       (stable_uuid env ''action'' (dict_set ''decision_id''
          (Some (stable_uuid env ''decision'' (semantic_key ctx b asg (tc_key c))))
          (semantic_key ctx b asg (tc_key c))))"
  have s: "ta_stage (pd_action d) = stage" and m: "matches_action c (pd_action d)"
    and o: "ta_obligation (pd_action d) = obligation_of c"
    and i: "ta_decision_id (pd_action d) = stable_uuid env ''decision'' (semantic_key ctx b asg (tc_key c))"
    by (simp_all only: *(3) make_action_matches) (simp_all add: make_action_def)
  show thesis
    using * s m o i matches_candidate_key [OF legal_in_table [OF *(2)] m] by (intro that [of c]) simp_all
qed

text \<open>C2: an action is made from a candidate of the closed table that fits the derived
  stage and that no hard constraint forbids; the action carries the candidate's moves, scaffold,
  hint and exposure unchanged, so its key can be recovered.\<close>

theorem decide_selects_legal:
  assumes "decide env ctx b p asg = Inr d"
  shows "\<exists>c \<in> set candidate_table. matches_action c (pd_action d) \<and>
    candidate_key_for_action (pd_action d) = Some (tc_key c) \<and>
    derive_teaching_stage ctx p = Inr (ta_stage (pd_action d)) \<and>
    ta_stage (pd_action d) \<in> set (tc_stages c) \<and> \<not> forbids env ctx p c"
  using assms by (rule decided_candidate) (auto simp: legal_candidates_iff)

theorem decide_selects_legal_witness:
  "\<exists>d. decide demo_env demo_ctx demo_bundle default_profile None = Inr d \<and>
     (\<exists>c \<in> set candidate_table. matches_action c (pd_action d) \<and> \<not> forbids demo_env demo_ctx default_profile c)"
  using demo_decides decide_selects_legal [of demo_env demo_ctx demo_bundle default_profile None] by blast

lemma assessment_integrity:
  assumes "decide env ctx b p asg = Inr d" and "is_independent_assessment env ctx"
  shows "ta_hint (pd_action d) = HS_NONE \<and> ta_exposure (pd_action d) = AE_NONE \<and>
    ta_scaffold (pd_action d) = SC_NONE \<and>
    ta_stage (pd_action d) \<in> {TS_RETRIEVAL_PRACTICE, TS_DELAYED_RETRIEVAL, TS_TRANSFER_CHALLENGE}"
  using assms(1)
proof (rule decided_candidate)
  fix c assume c: "c \<in> set (legal_candidates env ctx p (ta_stage (pd_action d)))"
    and m: "matches_action c (pd_action d)"
  from c assms(2) have "tc_hint c = HS_NONE" "tc_exposure c = AE_NONE" "c \<in> set candidate_table"
    "ta_stage (pd_action d) \<in> set (tc_stages c)"
    by (auto simp: legal_candidates_iff forbids_def)
  with m show ?thesis by (auto simp: table_members matches_action_def)
qed

text \<open>During an independent assessment no hint is given and nothing of the
  answer is exposed, whatever the profile and whatever the learner requests.\<close>

theorem decide_assessment_integrity:
  assumes "decide env ctx b p asg = Inr d" and "is_independent_assessment env ctx"
  shows "ta_hint (pd_action d) = HS_NONE \<and> ta_exposure (pd_action d) = AE_NONE \<and>
    ta_scaffold (pd_action d) = SC_NONE \<and>
    ta_stage (pd_action d) \<in> {TS_RETRIEVAL_PRACTICE, TS_DELAYED_RETRIEVAL, TS_TRANSFER_CHALLENGE}"
  using assms by (rule assessment_integrity)

definition exam_ctx :: teaching_context where
  "exam_ctx = demo_ctx\<lparr>ctx_activity_type := known_value (VStr ''Final EXAM''),
     ctx_mastery_confidence := known_value (VInt 1), ctx_direct_answer_request := True\<rparr>"

lemma exam_decides: "\<exists>d. decide demo_env exam_ctx demo_bundle default_profile None = Inr d"
proof (rule decide_continue)
  show "validate_policy_input exam_ctx demo_bundle default_profile None =
      Inr \<lparr>vi_context_ref = mk_ref ''teaching_context'' ''c1'' (VerS ''3.0''),
          vi_bundle_ref = mk_ref ''policy_bundle'' ''b1'' (VerS ''policy-1'')\<rparr>"
    by code_simp
  show "derive_teaching_stage exam_ctx default_profile = Inr TS_RETRIEVAL_PRACTICE" by code_simp
  have "\<not> forbids demo_env exam_ctx default_profile cand_retrieval"
  proof -
    have "\<not> repeated_failure exam_ctx default_profile" "\<not> low_confidence exam_ctx default_profile"
      by code_simp code_simp
    then show ?thesis
      using default_no_conflict by (simp add: forbids_def)
  qed
  then have "cand_retrieval \<in> set (legal_candidates demo_env exam_ctx default_profile TS_RETRIEVAL_PRACTICE)"
    by (simp add: legal_candidates_iff table_members)
  then show "legal_candidates demo_env exam_ctx default_profile TS_RETRIEVAL_PRACTICE \<noteq> []" by auto
  show "hashable (va_value (ctx_error_type exam_ctx))" by (simp add: exam_ctx_def demo_ctx_def known_value_def)
qed (simp_all add: default_no_conflict default_sound)

lemma exam_assessment: "is_independent_assessment demo_env exam_ctx"
proof -
  have "activity_text demo_env exam_ctx = ''final exam''"
  proof -
    have "str_lower ''Final EXAM'' = ''final exam''" by code_simp
    then show ?thesis unfolding activity_text_def Let_def exam_ctx_def known_value_def by simp
  qed
  then show ?thesis by (simp add: is_independent_assessment_def assessment_markers_def)
qed

theorem decide_assessment_integrity_witness:
  "\<exists>d. decide demo_env exam_ctx demo_bundle default_profile None = Inr d \<and>
     ta_exposure (pd_action d) = AE_NONE"
  using exam_decides decide_assessment_integrity [OF _ exam_assessment] by blast

text \<open>A complete answer is exposed only on the learner's direct request, and every
  action that offers any assistance carries the obligation of an independent validation.\<close>

theorem decide_exposure_and_obligation:
  assumes "decide env ctx b p asg = Inr d"
  shows "(ta_exposure (pd_action d) = AE_COMPLETE \<longrightarrow> ctx_direct_answer_request ctx) \<and>
    (ta_obligation (pd_action d) = INDEPENDENT_VALIDATION_REQUIRED \<longleftrightarrow>
      expected_assistance (ta_scaffold (pd_action d)) (ta_hint (pd_action d)) (ta_exposure (pd_action d))
        \<noteq> INDEPENDENT)"
  using assms
proof (rule decided_candidate)
  fix c assume c: "c \<in> set (legal_candidates env ctx p (ta_stage (pd_action d)))"
    and m: "matches_action c (pd_action d)" and o: "ta_obligation (pd_action d) = obligation_of c"
  have "tc_exposure c = AE_COMPLETE \<Longrightarrow> ctx_direct_answer_request ctx"
    using c by (auto simp: legal_candidates_iff forbids_def)
  with m o show ?thesis
    by (auto simp: matches_action_def obligation_of_def assisted_envelope_def expected_assistance_def)
qed

theorem decide_exposure_and_obligation_witness:
  "\<exists>d. decide demo_env demo_ctx demo_bundle default_profile None = Inr d \<and>
     ta_exposure (pd_action d) \<noteq> AE_COMPLETE"
proof -
  obtain d where d: "decide demo_env demo_ctx demo_bundle default_profile None = Inr d"
    using demo_decides by blast
  have "\<not> ctx_direct_answer_request demo_ctx" by (simp add: demo_ctx_def)
  with decide_exposure_and_obligation [OF d] d show ?thesis by blast
qed

section \<open>When a decision is returned, and how it fails\<close>

definition assignment_consistent :: "teaching_context \<Rightarrow> experiment_assignment option \<Rightarrow> bool" where
  "assignment_consistent ctx asg \<longleftrightarrow>
     (case (ctx_assignment_ref ctx, asg) of
        (None, None) \<Rightarrow> True | (Some r, Some a) \<Rightarrow> assignment_matches r a | _ \<Rightarrow> False)"


lemma validate_error:
  assumes "validate_policy_input ctx b p asg = Inl e"
  shows "(\<exists>m. e = PolicyError UNSUPPORTED_CONFIGURATION m \<and> assert_matches p b \<noteq> Inr ()) \<or>
    (\<exists>m. e = PolicyError INVALID_CONTEXT m \<and> missing_refs ctx \<noteq> []) \<or>
    (\<exists>m. e = PolicyError EXPERIMENT_ASSIGNMENT_MISMATCH m \<and> \<not> assignment_consistent ctx asg)"
proof (cases "assert_matches p b")
  case (Inl e')
  with assert_matches_error [OF Inl] assms show ?thesis by (auto simp: validate_policy_input_def)
next
  case (Inr u)
  with assms show ?thesis
    by (auto simp: validate_policy_input_def assignment_consistent_def split: if_splits option.splits)
qed

lemma decide_Inl_cases:
  assumes "sound_profile p" and "decide env ctx b p asg = Inl e"
  shows "validate_policy_input ctx b p asg = Inl e \<or>
    (\<exists>m. e = PolicyError HARD_RULE_CONFLICT m \<and> priority_conflict p candidate_table) \<or>
    e = TypeError \<and> \<not> hashable (va_value (ctx_error_type ctx)) \<or>
    (\<exists>m stage. e = PolicyError NO_LEGAL_CANDIDATE m \<and> derive_teaching_stage ctx p = Inr stage \<and>
       legal_candidates env ctx p stage = [])"
proof (cases "validate_policy_input ctx b p asg")
  case (Inl e')
  with assms(2) show ?thesis by (simp add: decide_def)
next
  case v: (Inr vi)
  show ?thesis
  proof (cases "priority_conflict p candidate_table")
    case True
    with v assms(2) show ?thesis by (auto simp: decide_def Let_def conflict_rules_failed_iff)
  next
    case np: False
    show ?thesis
    proof (cases "derive_teaching_stage ctx p")
      case (Inl e')
      with v np assms(2) derive_stage_error [OF Inl] show ?thesis
        by (simp add: decide_def Let_def conflict_rules_failed_iff)
    next
      case st: (Inr stage)
      show ?thesis
      proof (cases "legal_candidates env ctx p stage = []")
        case True
        with v np st assms(2) show ?thesis
          by (auto simp: decide_def Let_def conflict_rules_failed_iff legal_candidates_def)
      next
        case ne: False
        then have "\<not> hashable (va_value (ctx_error_type ctx))"
          using decide_continue [OF v np st ne assms(1), of] assms(2) by auto
        moreover from this ne obtain e' where
          "map_res (\<lambda>c. build_candidate_features ctx stage c p) (legal_candidates env ctx p stage) = Inl e'"
          by (cases "legal_candidates env ctx p stage")
             (auto simp: build_candidate_features_def specific_error_def)
        moreover from this have "e' = TypeError" using decide_features_error by blast
        ultimately show ?thesis using v np st ne assms(2)
          by (simp add: decide_def Let_def conflict_rules_failed_iff legal_candidates_def [symmetric])
      qed
    qed
  qed
qed

lemma no_legal_iff:
  "legal_candidates env ctx p stage = [] \<longleftrightarrow>
     (\<forall>c \<in> set candidate_table. stage \<in> set (tc_stages c) \<longrightarrow> forbids env ctx p c)"
  by (auto simp: legal_candidates_filter filter_empty_conv)



text \<open>Every failure is one of five policy errors, raised for the cause it names, or
  Python's TypeError for an error value that cannot be a set member; no other exception
  escapes, and nothing is returned in its place.\<close>

theorem decide_fail_closed:
  assumes "sound_profile p" and "decide env ctx b p asg = Inl e"
  shows "case e of
      PolicyError UNSUPPORTED_CONFIGURATION _ \<Rightarrow> assert_matches p b \<noteq> Inr ()
    | PolicyError INVALID_CONTEXT _ \<Rightarrow> missing_refs ctx \<noteq> []
    | PolicyError EXPERIMENT_ASSIGNMENT_MISMATCH _ \<Rightarrow> \<not> assignment_consistent ctx asg
    | PolicyError HARD_RULE_CONFLICT _ \<Rightarrow> priority_conflict p candidate_table
    | PolicyError NO_LEGAL_CANDIDATE _ \<Rightarrow> (\<exists>stage. derive_teaching_stage ctx p = Inr stage \<and>
        (\<forall>c \<in> set candidate_table. stage \<in> set (tc_stages c) \<longrightarrow> forbids env ctx p c))
    | TypeError \<Rightarrow> \<not> hashable (va_value (ctx_error_type ctx))
    | _ \<Rightarrow> False"
  using decide_Inl_cases [OF assms]
proof (elim disjE)
  assume "validate_policy_input ctx b p asg = Inl e"
  from validate_error [OF this] show ?thesis by (elim disjE exE conjE) simp_all
qed (auto simp: no_legal_iff)

definition unpinned_ctx :: teaching_context where
  "unpinned_ctx = demo_ctx\<lparr>ctx_source_refs := [demo_objective]\<rparr>"

lemma unpinned_fails:
  "\<exists>m. decide demo_env unpinned_ctx demo_bundle default_profile None = Inl (PolicyError INVALID_CONTEXT m)"
proof -
  have "\<exists>m. validate_policy_input unpinned_ctx demo_bundle default_profile None = Inl (PolicyError INVALID_CONTEXT m)"
  proof -
    have "assert_matches default_profile demo_bundle = Inr ()" by code_simp
    moreover have "demo_activity \<in> set (missing_refs unpinned_ctx)"
      by (simp add: missing_refs_def required_refs_def unpinned_ctx_def ref_key_def demo_objective_def
          demo_activity_def) (simp add: demo_ctx_def demo_activity_def)
    ultimately show ?thesis by (auto simp: validate_policy_input_def)
  qed
  then show ?thesis by (auto simp: decide_def)
qed

theorem decide_fail_closed_witness: "missing_refs unpinned_ctx \<noteq> []"
  using unpinned_fails decide_fail_closed [OF default_sound, of demo_env unpinned_ctx demo_bundle None]
  by fastforce

text \<open>C4: after an independent success, a learner whose last scaffold is recorded as NONE, or not
  recorded at all, gets no decision in any stage but retrieval and transfer: every candidate
  of the other five stages, the fading candidate included, would raise the scaffold.\<close>

theorem independent_success_dead_end:
  assumes "ctx_independent_success ctx \<noteq> []"
    and "last_scaffold_rank env ctx = 0" and "derive_teaching_stage ctx p = Inr stage"
    and "stage \<notin> {TS_RETRIEVAL_PRACTICE, TS_DELAYED_RETRIEVAL, TS_TRANSFER_CHALLENGE}"
  shows "\<exists>e. decide env ctx b p asg = Inl e"
proof -
  have "legal_candidates env ctx p stage = []"
    unfolding no_legal_iff using assms(1,2,4) by (auto simp: table_members forbids_def)
  then have "\<nexists>d. decide env ctx b p asg = Inr d"
    using assms(3) by (auto elim!: decided_candidate)
  then show ?thesis by (cases "decide env ctx b p asg") auto
qed

definition faded_ctx :: teaching_context where
  "faded_ctx = demo_ctx\<lparr>ctx_independent_success := [demo_objective]\<rparr>"

lemma faded_stage: "derive_teaching_stage faded_ctx default_profile = Inr TS_FADING_PRACTICE"
  by code_simp

theorem independent_success_dead_end_witness:
  "derive_teaching_stage faded_ctx default_profile = Inr TS_FADING_PRACTICE \<and>
   (\<exists>e. decide demo_env faded_ctx demo_bundle default_profile None = Inl e)"
proof -
  have "ctx_independent_success faded_ctx \<noteq> []" by (simp add: faded_ctx_def)
  moreover have "last_scaffold_rank demo_env faded_ctx = 0"
    by (simp add: last_scaffold_rank_def faded_ctx_def demo_ctx_def dict_get_def)
  ultimately show ?thesis
    using independent_success_dead_end [OF _ _ faded_stage] faded_stage by auto
qed

section \<open>Support after failures, no support after success\<close>

text \<open>After repeated failure, or without sufficient diagnostic confidence, the selected
  action keeps at least a medium scaffold and requires a later independent validation; after
  an independent success it never raises the scaffold above the last recorded one.\<close>

theorem decide_scaffold_safety:
  assumes "decide env ctx b p asg = Inr d"
  shows "(repeated_failure ctx p \<or> low_confidence ctx p \<longrightarrow>
      ta_scaffold (pd_action d) \<in> {SC_MEDIUM, SC_HIGH} \<and>
      ta_obligation (pd_action d) = INDEPENDENT_VALIDATION_REQUIRED) \<and>
    (ctx_independent_success ctx \<noteq> [] \<longrightarrow>
      scaffold_rank (ta_scaffold (pd_action d)) \<le> last_scaffold_rank env ctx)"
  using assms
proof (rule decided_candidate)
  fix c assume c: "c \<in> set (legal_candidates env ctx p (ta_stage (pd_action d)))"
    and m: "matches_action c (pd_action d)" and o: "ta_obligation (pd_action d) = obligation_of c"
  have l: "c \<in> set candidate_table" "\<not> forbids env ctx p c" using c by (auto simp: legal_candidates_iff)
  have s: "ta_scaffold (pd_action d) = tc_scaffold c" using m by (simp add: matches_action_def)
  have "scaffold_rank (tc_scaffold c) \<le> last_scaffold_rank env ctx" if "ctx_independent_success ctx \<noteq> []"
    using l(2) that by (simp add: forbids_def not_less)
  moreover have "tc_key c \<notin> set unsupported_keys" if "repeated_failure ctx p \<or> low_confidence ctx p"
    using l(2) that by (auto simp: forbids_def)
  moreover have "tc_scaffold c \<in> {SC_MEDIUM, SC_HIGH} \<and> obligation_of c = INDEPENDENT_VALIDATION_REQUIRED"
    if "tc_key c \<notin> set unsupported_keys"
    using l(1) that by (auto simp: table_members unsupported_keys_def obligation_of_def assisted_envelope_def)
  ultimately show ?thesis unfolding s o by blast
qed

definition failed_ctx :: teaching_context where
  "failed_ctx = demo_ctx\<lparr>ctx_assistance_summary := [(''consecutive_failures'', VInt 3)]\<rparr>"

lemma failed_decides: "\<exists>d. decide demo_env failed_ctx demo_bundle default_profile None = Inr d"
proof (rule decide_continue)
  show "validate_policy_input failed_ctx demo_bundle default_profile None =
      Inr \<lparr>vi_context_ref = mk_ref ''teaching_context'' ''c1'' (VerS ''3.0''),
          vi_bundle_ref = mk_ref ''policy_bundle'' ''b1'' (VerS ''policy-1'')\<rparr>"
    by code_simp
  show "derive_teaching_stage failed_ctx default_profile = Inr DIAGNOSE" by code_simp
  have "activity_text demo_env failed_ctx = ''lesson''"
    using demo_activity_text by (simp add: activity_text_def failed_ctx_def)
  then have "\<not> forbids demo_env failed_ctx default_profile cand_guided"
    using default_no_conflict
    by (simp add: forbids_def is_independent_assessment_def assessment_markers_def unsupported_keys_def)
       (simp add: failed_ctx_def demo_ctx_def)
  then have "cand_guided \<in> set (legal_candidates demo_env failed_ctx default_profile DIAGNOSE)"
    by (simp add: legal_candidates_iff table_members)
  then show "legal_candidates demo_env failed_ctx default_profile DIAGNOSE \<noteq> []" by auto
  show "hashable (va_value (ctx_error_type failed_ctx))" by (simp add: failed_ctx_def demo_ctx_def known_value_def)
qed (simp_all add: default_no_conflict default_sound)

theorem decide_scaffold_safety_witness:
  "\<exists>d. decide demo_env failed_ctx demo_bundle default_profile None = Inr d \<and>
     ta_scaffold (pd_action d) \<in> {SC_MEDIUM, SC_HIGH}"
proof -
  obtain d where d: "decide demo_env failed_ctx demo_bundle default_profile None = Inr d"
    using failed_decides by blast
  have "repeated_failure failed_ctx default_profile" by code_simp
  with decide_scaffold_safety [OF d] d show ?thesis by blast
qed

lemma scored_features:
  assumes "scored ctx stage p c f s" and "c \<in> set candidate_table"
  shows "\<exists>known t. fs_features f = candidate_features ctx stage c p known t"
proof -
  obtain known t where f: "f = \<lparr>fs_key = tc_key c, fs_features = candidate_features ctx stage c p known t\<rparr>"
    using assms build_features_cases [OF assms(2), of ctx stage p] by (auto simp: scored_def)
  have "fs_features f = candidate_features ctx stage c p known t" by (simp add: f)
  then show ?thesis by (intro exI)
qed

section \<open>The direct request\<close>

text \<open>Under the shipped profile a direct request is honoured whenever the bounded direct
  answer fits the stage and is not forbidden: no combination of the other features can
  outweigh it.  The answer given this way must be followed by an independent validation.\<close>

theorem decide_honours_direct_request:
  assumes "decide env ctx b default_profile asg = Inr d" and "ctx_direct_answer_request ctx"
    and "ta_stage (pd_action d) \<in> set (tc_stages cand_direct)"
    and "\<not> forbids env ctx default_profile cand_direct"
  shows "candidate_key_for_action (pd_action d) = Some ''direct_answer.bounded'' \<and>
    ta_exposure (pd_action d) = AE_COMPLETE \<and>
    ta_obligation (pd_action d) = INDEPENDENT_VALIDATION_REQUIRED"
  using assms(1)
proof (rule decide_elim)
  fix vi stage sets scores best tie c
  assume l1: "list_all2 (\<lambda>c f. build_candidate_features ctx stage c default_profile = Inr f)
      (legal_candidates env ctx default_profile stage) sets"
    and l2: "list_all2 (\<lambda>f s. score_candidate f default_profile = Inr s) sets scores"
    and sel: "select_stably scores default_profile = Inr (best, tie)"
    and c: "c \<in> set (legal_candidates env ctx default_profile stage)" "tc_key c = cs_key best"
    and a: "pd_action d = make_action ctx b vi stage c
       (stable_uuid env ''decision'' (semantic_key ctx b asg (tc_key c)))
       (stable_uuid env ''action'' (dict_set ''decision_id''
          (Some (stable_uuid env ''decision'' (semantic_key ctx b asg (tc_key c))))
          (semantic_key ctx b asg (tc_key c))))"
  have stage: "ta_stage (pd_action d) = stage" by (simp add: a make_action_def)
  have "cand_direct \<in> set (legal_candidates env ctx default_profile stage)"
    using assms(3,4) stage by (simp add: legal_candidates_iff table_members)
  then obtain f s where s: "s \<in> set scores" "scored ctx stage default_profile cand_direct f s"
    by (rule pipeline_score_of [OF l1 l2])
  have "18 \<le> cs_total s"
    using scored_features [OF s(2)] s(2) direct_total_low [OF assms(2)] by (auto simp: table_members scored_def)
  moreover have "cs_total s \<le> cs_total best"
    using select_Inr(4) [OF sel s(1)] by (auto simp: selection_key_le_iff)
  ultimately have high: "18 \<le> cs_total best" by simp
  obtain i where i: "i < length scores" "scores ! i = best"
    using select_Inr(3) [OF sel] by (auto simp: in_set_conv_nth)
  let ?x = "legal_candidates env ctx default_profile stage ! i"
  have x: "?x \<in> set (legal_candidates env ctx default_profile stage)"
    using i scored_pipeline(2) [OF l1 l2] by simp
  have sc: "scored ctx stage default_profile ?x (sets ! i) best"
    using scored_pipeline(3) [OF l1 l2, of i] i scored_pipeline(2) [OF l1 l2] by simp
  have "tc_key ?x = ''direct_answer.bounded''"
  proof (rule ccontr)
    assume "tc_key ?x \<noteq> ''direct_answer.bounded''"
    then have "cs_total best \<le> 17"
      using scored_features [OF sc legal_in_table [OF x]] sc other_total_high by (auto simp: scored_def)
    with high show False by simp
  qed
  then have key: "tc_key c = ''direct_answer.bounded''"
    using scored_key [OF sc legal_in_table [OF x]] c(2) by simp
  then have "c = cand_direct" using legal_in_table [OF c(1)] by (auto simp: table_members)
  then show ?thesis
    using a matches_candidate_key [OF legal_in_table [OF c(1)], of "pd_action d"] key
    by (simp add: make_action_matches) (simp add: make_action_def obligation_of_def assisted_envelope_def)
qed

definition direct_ctx :: teaching_context where
  "direct_ctx = demo_ctx\<lparr>ctx_direct_answer_request := True\<rparr>"

lemma direct_legal: "\<not> forbids demo_env direct_ctx default_profile cand_direct"
proof -
  have "activity_text demo_env direct_ctx = ''lesson''"
    using demo_activity_text by (simp add: activity_text_def direct_ctx_def)
  then show ?thesis
    using default_no_conflict
    by (simp add: forbids_def is_independent_assessment_def assessment_markers_def unsupported_keys_def)
       (simp add: direct_ctx_def demo_ctx_def)
qed

lemma direct_stage: "derive_teaching_stage direct_ctx default_profile = Inr TS_EXPLICIT_INSTRUCTION"
  by code_simp

lemma direct_decides: "\<exists>d. decide demo_env direct_ctx demo_bundle default_profile None = Inr d"
proof (rule decide_continue [OF _ default_no_conflict direct_stage _ default_sound])
  show "validate_policy_input direct_ctx demo_bundle default_profile None =
      Inr \<lparr>vi_context_ref = mk_ref ''teaching_context'' ''c1'' (VerS ''3.0''),
          vi_bundle_ref = mk_ref ''policy_bundle'' ''b1'' (VerS ''policy-1'')\<rparr>"
    by code_simp
  have "cand_direct \<in> set (legal_candidates demo_env direct_ctx default_profile TS_EXPLICIT_INSTRUCTION)"
    using direct_legal by (simp add: legal_candidates_iff table_members)
  then show "legal_candidates demo_env direct_ctx default_profile TS_EXPLICIT_INSTRUCTION \<noteq> []" by auto
  show "hashable (va_value (ctx_error_type direct_ctx))" by (simp add: direct_ctx_def demo_ctx_def known_value_def)
qed

theorem decide_honours_direct_request_witness:
  "\<exists>d. decide demo_env direct_ctx demo_bundle default_profile None = Inr d \<and>
     ta_exposure (pd_action d) = AE_COMPLETE"
proof -
  obtain d where d: "decide demo_env direct_ctx demo_bundle default_profile None = Inr d"
    using direct_decides by blast
  from d have "ta_stage (pd_action d) = TS_EXPLICIT_INSTRUCTION"
    using direct_stage by (auto elim!: decided_candidate)
  moreover have "ctx_direct_answer_request direct_ctx" by (simp add: direct_ctx_def)
  ultimately show ?thesis
    using decide_honours_direct_request [OF d _ _ direct_legal] d by auto
qed

section \<open>Identifiers and the trace\<close>

lemma payload_entry:
  assumes "json_dumps d = json_dumps e"
  shows "set d = set e"
  using json_dumps_inj [OF assms] by (metis set_sort)

lemma stable_uuid_inj:
  assumes "inj (uuid5 env)" and "stable_uuid env kind d = stable_uuid env kind e"
  shows "json_dumps d = json_dumps e"
proof -
  have u: "uuid5 env x = uuid5 env y \<longleftrightarrow> x = y" for x y using assms(1) by (rule inj_eq)
  show ?thesis using assms(2) unfolding stable_uuid_def u by (simp only: same_append_eq)
qed

text \<open>If name-based UUIDs do not collide, one decision id stands for one context snapshot,
  one exact policy bundle, one assignment and one selected candidate.\<close>

theorem decision_id_identifies:
  assumes "inj (uuid5 env)" and "decide env ctx b p asg = Inr d" and "decide env ctx' b' p' asg' = Inr d'"
    and "ta_decision_id (pd_action d) = ta_decision_id (pd_action d')"
  shows "ctx_id ctx = ctx_id ctx' \<and> ctx_fingerprint ctx = ctx_fingerprint ctx' \<and>
    pb_bundle_id b = pb_bundle_id b' \<and> pb_policy_version b = pb_policy_version b' \<and>
    pb_content_digest b = pb_content_digest b' \<and> map_option ea_id asg = map_option ea_id asg' \<and>
    candidate_key_for_action (pd_action d) = candidate_key_for_action (pd_action d')"
proof -
  obtain c :: candidate where c: "candidate_key_for_action (pd_action d) = Some (tc_key c)"
    "ta_decision_id (pd_action d) = stable_uuid env ''decision'' (semantic_key ctx b asg (tc_key c))"
    using assms(2) by (rule decided_candidate) (rule that)
  obtain c' :: candidate where c': "candidate_key_for_action (pd_action d') = Some (tc_key c')"
    "ta_decision_id (pd_action d') = stable_uuid env ''decision'' (semantic_key ctx' b' asg' (tc_key c'))"
    using assms(3) by (rule decided_candidate) (rule that)
  let ?k = "semantic_key ctx b asg (tc_key c)" and ?k' = "semantic_key ctx' b' asg' (tc_key c')"
  have "stable_uuid env ''decision'' ?k = stable_uuid env ''decision'' ?k'" using c(2) c'(2) assms(4) by simp
  then have "json_dumps ?k = json_dumps ?k'" by (rule stable_uuid_inj [OF assms(1)])
  then have same: "set ?k = set ?k'" by (rule payload_entry)
  have entry: "v = v'" if "(n, v) \<in> set ?k" "(n, v') \<in> set ?k'" for n v v'
  proof -
    have d: "distinct (map fst ?k')" by (simp add: semantic_key_def)
    have "(n, v) \<in> set ?k'" using that(1) unfolding same .
    from eq_key_imp_eq_value [OF d this that(2)] show ?thesis .
  qed
  have "Some (ctx_id ctx) = Some (ctx_id ctx')"
    by (rule entry [of "''context_id''"]) (simp_all add: semantic_key_def)
  moreover have "Some (ctx_fingerprint ctx) = Some (ctx_fingerprint ctx')"
    by (rule entry [of "''context_fingerprint''"]) (simp_all add: semantic_key_def)
  moreover have "Some (pb_bundle_id b) = Some (pb_bundle_id b')"
    by (rule entry [of "''bundle_id''"]) (simp_all add: semantic_key_def)
  moreover have "Some (pb_policy_version b) = Some (pb_policy_version b')"
    by (rule entry [of "''bundle_version''"]) (simp_all add: semantic_key_def)
  moreover have "Some (pb_content_digest b) = Some (pb_content_digest b')"
    by (rule entry [of "''bundle_digest''"]) (simp_all add: semantic_key_def)
  moreover have "map_option ea_id asg = map_option ea_id asg'"
    by (rule entry [of "''assignment_id''"]) (simp_all add: semantic_key_def)
  moreover have "Some (tc_key c) = Some (tc_key c')"
    by (rule entry [of "''selected''"]) (simp_all add: semantic_key_def)
  ultimately show ?thesis unfolding c(1) c'(1) by simp
qed

text \<open>The same snapshot under another id.\<close>

definition twin_ctx :: teaching_context where
  "twin_ctx = demo_ctx\<lparr>ctx_id := ''c2''\<rparr>"

lemma twin_decides: "\<exists>d. decide demo_env twin_ctx demo_bundle default_profile None = Inr d"
proof (rule decide_continue [OF _ default_no_conflict _ _ default_sound])
  show "validate_policy_input twin_ctx demo_bundle default_profile None =
      Inr \<lparr>vi_context_ref = mk_ref ''teaching_context'' ''c2'' (VerS ''3.0''),
          vi_bundle_ref = mk_ref ''policy_bundle'' ''b1'' (VerS ''policy-1'')\<rparr>"
    by code_simp
  show "derive_teaching_stage twin_ctx default_profile = Inr TS_EXPLICIT_INSTRUCTION" by code_simp
  have "activity_text demo_env twin_ctx = ''lesson''"
    using demo_activity_text by (simp add: activity_text_def twin_ctx_def)
  then have "\<not> forbids demo_env twin_ctx default_profile cand_explicit"
    using default_no_conflict
    by (simp add: forbids_def is_independent_assessment_def assessment_markers_def unsupported_keys_def)
       (simp add: twin_ctx_def demo_ctx_def)
  then have "cand_explicit \<in> set (legal_candidates demo_env twin_ctx default_profile TS_EXPLICIT_INSTRUCTION)"
    by (simp add: legal_candidates_iff table_members)
  then show "legal_candidates demo_env twin_ctx default_profile TS_EXPLICIT_INSTRUCTION \<noteq> []" by auto
  show "hashable (va_value (ctx_error_type twin_ctx))" by (simp add: twin_ctx_def demo_ctx_def known_value_def)
qed

theorem decision_id_identifies_witness:
  "\<exists>d d'. decide demo_env demo_ctx demo_bundle default_profile None = Inr d \<and>
     decide demo_env twin_ctx demo_bundle default_profile None = Inr d' \<and>
     ta_decision_id (pd_action d) \<noteq> ta_decision_id (pd_action d')"
proof -
  have i: "inj (uuid5 demo_env)" by (simp add: demo_env_def)
  obtain d where d: "decide demo_env demo_ctx demo_bundle default_profile None = Inr d"
    using demo_decides by blast
  obtain d' where d': "decide demo_env twin_ctx demo_bundle default_profile None = Inr d'"
    using twin_decides by blast
  have "ctx_id demo_ctx \<noteq> ctx_id twin_ctx" by (simp add: twin_ctx_def demo_ctx_def)
  with decision_id_identifies [OF i d d'] d d' show ?thesis by blast
qed

text \<open>The trace is the decision's own account: it is well formed, it selects the returned
  action and can seed the sequential state, it lists all eleven rule families, exactly the
  forbidden keys in sorted order, exactly the legal candidates, and one score for each of
  them, none above the score of the selected candidate.\<close>

theorem decide_trace_faithful:
  assumes "decide env ctx b p asg = Inr d" and "pb_candidate_table_version b \<noteq> []"
  shows "valid_trace (pd_trace d) \<and> valid_action (pd_action d) \<and>
    valid_state \<lparr>sq_previous_action = pd_action d, sq_previous_trace = pd_trace d, sq_opportunities = 0,
      sq_observed_keys = [], sq_obligation = None\<rparr> \<and>
    length (dt_constraints (pd_trace d)) = 11 \<and>
    map hf_action_ref (dt_filtered (pd_trace d)) =
      sort (he_forbidden (evaluate_hard_constraints env ctx p candidate_table)) \<and>
    dt_available (pd_trace d) = legal_candidates env ctx p (ta_stage (pd_action d)) \<and>
    map (cs_key \<circ> se_score) (dt_scores (pd_trace d)) = map tc_key (dt_available (pd_trace d)) \<and>
    (\<exists>e \<in> set (dt_scores (pd_trace d)).
      candidate_key_for_action (pd_action d) = Some (cs_key (se_score e)) \<and>
      (\<forall>e' \<in> set (dt_scores (pd_trace d)). cs_total (se_score e') \<le> cs_total (se_score e)))"
  using assms(1)
proof (rule decide_elim)
  fix vi stage sets scores best tie c
  let ?cs = "legal_candidates env ctx p stage"
  assume l1: "list_all2 (\<lambda>c f. build_candidate_features ctx stage c p = Inr f) ?cs sets"
    and l2: "list_all2 (\<lambda>f s. score_candidate f p = Inr s) sets scores"
    and sel: "select_stably scores p = Inr (best, tie)"
    and c: "c \<in> set ?cs" "tc_key c = cs_key best"
    and a: "pd_action d = make_action ctx b vi stage c
       (stable_uuid env ''decision'' (semantic_key ctx b asg (tc_key c)))
       (stable_uuid env ''action'' (dict_set ''decision_id''
          (Some (stable_uuid env ''decision'' (semantic_key ctx b asg (tc_key c))))
          (semantic_key ctx b asg (tc_key c))))"
    and t: "pd_trace d = make_trace ctx b asg vi (evaluate_hard_constraints env ctx p candidate_table)
       stage ?cs sets scores c tie (pd_action d)"
  have len: "length scores = length sets" using scored_pipeline(1,2) [OF l1 l2] by simp
  have scores: "map se_score (dt_scores (pd_trace d)) = scores"
    using len by (simp add: t make_trace_def score_entries_def comp_def split_def)
  then have keys: "map (cs_key \<circ> se_score) (dt_scores (pd_trace d)) = map tc_key ?cs"
    using pipeline_keys [OF l1 l2] legal_in_table by (metis map_map subsetI)
  have mem: "best \<in> se_score ` set (dt_scores (pd_trace d))"
    using select_Inr(3) [OF sel] scores by (metis set_map)
  have le: "cs_total (se_score e') \<le> cs_total best" if "e' \<in> set (dt_scores (pd_trace d))" for e'
  proof -
    have "se_score e' \<in> set scores" using that scores by (metis image_eqI set_map)
    from select_Inr(4) [OF sel this] show ?thesis by (auto simp: selection_key_le_iff)
  qed
  have key: "candidate_key_for_action (pd_action d) = Some (cs_key best)"
    using matches_candidate_key [OF legal_in_table [OF c(1)], of "pd_action d"] c(2) a
    by (simp add: make_action_matches)
  have attempts: "case tc_max_attempts c of None \<Rightarrow> True | Some n \<Rightarrow> 1 \<le> n"
    using legal_in_table [OF c(1)] by (auto simp: table_members cand_defs)
  have "valid_trace (pd_trace d)" by (simp add: t make_trace_def valid_trace_def decision_reasons_def)
  moreover have "valid_action (pd_action d)"
    using attempts assms(2) by (simp add: a make_action_def valid_action_def decision_reasons_def)
  moreover have "valid_state \<lparr>sq_previous_action = pd_action d, sq_previous_trace = pd_trace d,
      sq_opportunities = 0, sq_observed_keys = [], sq_obligation = None\<rparr>"
    by (simp add: valid_state_def t make_trace_def)
  moreover have "length (dt_constraints (pd_trace d)) = 11"
    by (simp add: t make_trace_def evaluate_hard_constraints_def hard_rules_def Let_def)
  moreover have "map hf_action_ref (dt_filtered (pd_trace d)) =
      sort (he_forbidden (evaluate_hard_constraints env ctx p candidate_table))"
    by (simp add: t make_trace_def evaluate_hard_constraints_def Let_def comp_def)
  moreover have "dt_available (pd_trace d) = legal_candidates env ctx p (ta_stage (pd_action d))"
    by (simp add: t make_trace_def) (simp add: a make_action_def)
  moreover have "dt_available (pd_trace d) = ?cs" by (simp add: t make_trace_def)
  moreover have "\<exists>e \<in> set (dt_scores (pd_trace d)).
      candidate_key_for_action (pd_action d) = Some (cs_key (se_score e)) \<and>
      (\<forall>e' \<in> set (dt_scores (pd_trace d)). cs_total (se_score e') \<le> cs_total (se_score e))"
    using mem key le by auto
  ultimately show ?thesis using keys by simp
qed

theorem decide_trace_faithful_witness:
  "\<exists>d. decide demo_env demo_ctx demo_bundle default_profile None = Inr d \<and>
     length (dt_constraints (pd_trace d)) = 11"
proof -
  have "pb_candidate_table_version demo_bundle \<noteq> []" by (simp add: demo_bundle_def)
  with demo_decides decide_trace_faithful show ?thesis by blast
qed

end
