(* ===== verification/Sequential.thy ===== *)
theory Sequential
  imports Evidence Decisions
begin

text \<open>
  \<open>app/domains/teaching_policy/sequential.py\<close>: the anti-oscillation layer over the kernel.
  It holds the previous action or switches to the proposed one, keeps the evidence
  opportunities since the last switch, and records its reasons in the trace.  The injected
  time source is the argument \<open>now\<close>.
\<close>

section \<open>Definitions\<close>

fun signal_priority_name :: "evidence_kind \<Rightarrow> string option" where
  "signal_priority_name ASSESSMENT_RESULT = Some ''ASSESSMENT_RESULT''"
| "signal_priority_name INDEPENDENT_ATTEMPT = Some ''INDEPENDENT_ATTEMPT''"
| "signal_priority_name DIAGNOSTIC_PROBE = Some ''DIAGNOSTIC_PROBE''"
| "signal_priority_name LEARNER_STATE_UPDATE = Some ''LEARNER_STATE_UPDATE''"
| "signal_priority_name EXPLICIT_USER_REQUEST = Some ''EXPLICIT_USER_REQUEST''"
| "signal_priority_name PREREQUISITE_EVIDENCE = Some ''PREREQUISITE_EVIDENCE''"
| "signal_priority_name ASSISTANCE_EVENT = Some ''ASSISTANCE_EVENT''"
| "signal_priority_name REVIEW_DELAY_TRANSITION = Some ''MEANINGFUL_REVIEW_DELAY''"
| "signal_priority_name _ = None"

definition seq_uuid :: "pyenv \<Rightarrow> string \<Rightarrow> (string, string option) dict \<Rightarrow> uuid" where
  "seq_uuid env kind payload =
     uuid5 env (''askora:v0.3:sequential:'' @ kind @ '':'' @ json_dumps payload)"

definition priority_reason :: "classified_evidence list \<Rightarrow> policy_profile \<Rightarrow> string" where
  "priority_reason classified p =
     (let present = List.map_filter (\<lambda>i. if ce_material i then signal_priority_name (ce_kind i) else None)
            classified
      in case first_match (\<lambda>n. n \<in> set present) (pp_transition_priority p) of
           None \<Rightarrow> ''TRANSITION_MATERIAL_EVIDENCE'' | Some n \<Rightarrow> ''TRANSITION_'' @ n)"

definition exact_previous_ref :: "teaching_context \<Rightarrow> teaching_action \<Rightarrow> exn + unit" where
  "exact_previous_ref ctx a =
     (if (case ctx_previous_action_ref ctx of None \<Rightarrow> False
          | Some r \<Rightarrow> vr_type r = ''teaching_action'' \<and> vr_id r = ta_id a \<and>
              ver_str (vr_version r) = ta_schema_version a)
      then Inr ()
      else Inl (PolicyError INVALID_CONTEXT
        ''sequential decision requires exact previous TeachingAction ref''))"

definition material_key :: "classified_evidence \<Rightarrow> string option" where
  "material_key i = (case ce_ref i of
     Some r \<Rightarrow> if ce_material i
       then Some (str_join '':'' [kind_value (ce_kind i), vr_type r, vr_id r, ver_str (vr_version r)])
       else None
   | None \<Rightarrow> None)"

definition material_keys :: "classified_evidence list \<Rightarrow> string list" where
  "material_keys classified = remdups (List.map_filter material_key classified)"

definition material_refs :: "classified_evidence list \<Rightarrow> versioned_ref list" where
  "material_refs classified =
     List.map_filter (\<lambda>i. if ce_material i then ce_ref i else None) classified"

definition new_keys :: "sequential_state \<Rightarrow> classified_evidence list \<Rightarrow> string list" where
  "new_keys st classified = filter (\<lambda>k. k \<notin> set (sq_observed_keys st)) (material_keys classified)"

definition total_opportunities :: "sequential_state \<Rightarrow> classified_evidence list \<Rightarrow> int" where
  "total_opportunities st classified = sq_opportunities st + int (length (new_keys st classified))"

definition failures_repeated :: "teaching_context \<Rightarrow> policy_profile \<Rightarrow> bool" where
  "failures_repeated ctx p =
     (case dict_get (ctx_assistance_summary ctx) ''consecutive_failures'' of
        None \<Rightarrow> False
      | Some v \<Rightarrow> (case as_int v of None \<Rightarrow> False | Some n \<Rightarrow> pp_failure_ceiling p \<le> n))"

definition explicit_request :: "classified_evidence list \<Rightarrow> bool" where
  "explicit_request = list_ex (\<lambda>i. ce_material i \<and> ce_kind i = EXPLICIT_USER_REQUEST)"

definition candidate_total ::
  "teaching_context \<Rightarrow> teaching_stage \<Rightarrow> string \<Rightarrow> policy_profile \<Rightarrow> exn + float64" where
  "candidate_total ctx stage k p =
     (case first_match (\<lambda>c. tc_key c = k) candidate_table of
        None \<Rightarrow> Inl StopIteration
      | Some c \<Rightarrow> bind_res (build_candidate_features ctx stage c p) (\<lambda>f.
          bind_res (score_candidate f p) (\<lambda>s. Inr (cs_total s))))"

definition trace_total :: "decision_trace \<Rightarrow> string \<Rightarrow> exn + float64" where
  "trace_total t k =
     (case first_match (\<lambda>e. cs_key (se_score e) = k) (dt_scores t) of
        None \<Rightarrow> Inl StopIteration | Some e \<Rightarrow> Inr (cs_total (se_score e)))"

text \<open>The chain of guards: forced transitions first, then evidence, dwell and hysteresis.\<close>

definition transition_choice ::
  "policy_profile \<Rightarrow> classified_evidence list \<Rightarrow> bool \<Rightarrow> bool \<Rightarrow> bool \<Rightarrow> int \<Rightarrow> float64 \<Rightarrow> bool \<times> string" where
  "transition_choice p classified forbidden repeated same seen delta =
     (if forbidden then (True,
        if repeated then ''TRANSITION_HARD_CONSTRAINT_REPEATED_FAILURE_OVERRIDE''
        else ''TRANSITION_HARD_CONSTRAINT_PRECEDENCE'')
      else if repeated then (\<not> same, ''TRANSITION_REPEATED_FAILURE_OVERRIDE'')
      else if \<not> list_ex ce_material classified then (False, ''HOLD_NO_MATERIAL_EVIDENCE'')
      else if explicit_request classified then (\<not> same, ''TRANSITION_EXPLICIT_USER_REQUEST'')
      else if seen < pp_minimum_dwell p then (False, ''HOLD_MINIMUM_DWELL_EVIDENCE_OPPORTUNITY'')
      else if same then (False, ''HOLD_SAME_LEGAL_CANDIDATE'')
      else if delta < pp_switch_margin p then (False, ''HOLD_HYSTERESIS_SWITCH_MARGIN'')
      else (True, priority_reason classified p))"

definition held_payload ::
  "teaching_context \<Rightarrow> policy_bundle \<Rightarrow> string \<Rightarrow> string \<Rightarrow> (string, string option) dict" where
  "held_payload ctx b previous_key reason =
    [(''context'', Some (ctx_id ctx)), (''fingerprint'', Some (ctx_fingerprint ctx)),
     (''bundle'', Some (pb_bundle_id b)), (''version'', Some (pb_policy_version b)),
     (''held'', Some previous_key), (''reason'', Some reason)]"

definition obligation_required :: "sequential_state \<Rightarrow> bool" where
  "obligation_required st =
     (case sq_obligation st of None \<Rightarrow> False | Some r \<Rightarrow> iv_status r = REQUIRED)"

definition held_action :: "policy_decision \<Rightarrow> teaching_context \<Rightarrow> policy_bundle \<Rightarrow> sequential_state \<Rightarrow>
    teaching_stage \<Rightarrow> string \<Rightarrow> uuid \<Rightarrow> uuid \<Rightarrow> teaching_action" where
  "held_action proposed ctx b st stage reason decision_id action_id =
     (let previous = sq_previous_action st
      in previous\<lparr>ta_id := action_id, ta_objective_ref := ctx_objective_ref ctx,
           ta_activity_ref := ctx_activity_ref ctx,
           ta_strategy_version := pb_candidate_table_version b, ta_stage := stage,
           ta_obligation := (if obligation_required st then INDEPENDENT_VALIDATION_REQUIRED
                             else ta_obligation previous),
           ta_reason_codes := ta_reason_codes previous @ [reason],
           ta_bundle_ref := ta_bundle_ref (pd_action proposed),
           ta_context_ref := ta_context_ref (pd_action proposed),
           ta_decision_id := decision_id, ta_created_at := ctx_decision_time ctx\<rparr>)"

definition held_trace :: "policy_decision \<Rightarrow> policy_bundle \<Rightarrow> policy_profile \<Rightarrow> candidate \<Rightarrow> feature_set \<Rightarrow>
    candidate_score \<Rightarrow> anti_oscillation \<Rightarrow> string \<Rightarrow> teaching_action \<Rightarrow> decision_trace" where
  "held_trace proposed b p entry fs score anti reason a =
     (let t = pd_trace proposed; k = tc_key entry
      in t\<lparr>dt_decision_id := ta_decision_id a, dt_family := Some (ta_family a),
           dt_available := dt_available t @
             (if list_ex (\<lambda>c. tc_key c = k) (dt_available t) then [] else [entry]),
           dt_features := dt_features t @
             (if list_ex (\<lambda>f. prefix (k @ '':'') (df_name f)) (dt_features t) then []
              else map (flat_feature k) (fs_features fs)),
           dt_scores := dt_scores t @
             (if list_ex (\<lambda>e. cs_key (se_score e) = k) (dt_scores t) then []
              else score_entries b [score] [fs]),
           dt_selected_ref := Some (mk_ref ''teaching_action'' (ta_id a) (VerS (ta_schema_version a))),
           dt_transition_reasons := [reason], dt_anti := Some anti,
           dt_tie_break := Some (pp_tie_break_version p @ '':anti_oscillation_hold_previous_legal''),
           dt_reason_codes := dt_reason_codes t @ [reason],
           dt_trace_id := ''policy:'' @ ta_decision_id a\<rparr>)"

definition held_decision :: "pyenv \<Rightarrow> policy_decision \<Rightarrow> teaching_context \<Rightarrow> policy_bundle \<Rightarrow>
    policy_profile \<Rightarrow> sequential_state \<Rightarrow> string \<Rightarrow> anti_oscillation \<Rightarrow> string \<Rightarrow> exn + policy_decision" where
  "held_decision env proposed ctx b p st previous_key anti reason =
     (let payload = held_payload ctx b previous_key reason;
          decision_id = seq_uuid env ''decision'' payload;
          action_id = seq_uuid env ''action'' (dict_set ''decision'' (Some decision_id) payload)
      in case dt_stage (pd_trace proposed) of
           None \<Rightarrow> Inl (PolicyError UNSUPPORTED_CONFIGURATION
             ''proposed policy trace is missing derived TeachingStage'')
         | Some stage \<Rightarrow>
             (case first_match (\<lambda>c. tc_key c = previous_key) candidate_table of
                None \<Rightarrow> Inl StopIteration
              | Some entry \<Rightarrow>
                  bind_res (build_candidate_features ctx stage entry p) (\<lambda>fs.
                  bind_res (score_candidate fs p) (\<lambda>score.
                    let a = held_action proposed ctx b st stage reason decision_id action_id
                    in Inr \<lparr>pd_action = a,
                            pd_trace = held_trace proposed b p entry fs score anti reason a\<rparr>))))"

record sequential_decision =
  sd_decision :: policy_decision
  sd_next :: sequential_state
  sd_reason :: string

definition with_material :: "versioned_ref list \<Rightarrow> policy_decision \<Rightarrow> policy_decision" where
  "with_material refs d = d\<lparr>pd_trace := (pd_trace d)\<lparr>dt_material_refs := refs\<rparr>\<rparr>"

definition switched_decision ::
  "policy_decision \<Rightarrow> anti_oscillation \<Rightarrow> string \<Rightarrow> policy_decision" where
  "switched_decision proposed anti reason =
     proposed\<lparr>pd_trace := (pd_trace proposed)\<lparr>dt_transition_reasons := [reason], dt_anti := Some anti,
        dt_reason_codes := dt_reason_codes (pd_trace proposed) @ [reason]\<rparr>\<rparr>"

definition next_state :: "sequential_state \<Rightarrow> bool \<Rightarrow> classified_evidence list \<Rightarrow> policy_decision \<Rightarrow>
    sequential_state" where
  "next_state st switch classified d =
     \<lparr>sq_previous_action = pd_action d, sq_previous_trace = pd_trace d,
      sq_opportunities = (if switch then 0 else total_opportunities st classified),
      sq_observed_keys = (if switch then []
        else sort (remdups (sq_observed_keys st @ material_keys classified))),
      sq_obligation = sq_obligation st\<rparr>"

definition anti_record :: "policy_bundle \<Rightarrow> policy_profile \<Rightarrow> bool \<Rightarrow> string \<Rightarrow> string \<Rightarrow> string \<Rightarrow>
    classified_evidence list \<Rightarrow> int \<Rightarrow> float64 \<Rightarrow> pydatetime \<Rightarrow> anti_oscillation" where
  "anti_record b p switch reason pk nk classified seen delta now =
     \<lparr>ao_profile_version = pb_anti_oscillation_version b, ao_switch = switch, ao_reason = reason,
      ao_previous_key = pk, ao_proposed_key = nk, ao_evidence = classified, ao_opportunities = seen,
      ao_minimum_dwell = pp_minimum_dwell p, ao_score_delta = delta,
      ao_switch_margin = pp_switch_margin p, ao_fixed_time = now\<rparr>"

text \<open>The part of \<open>decide\<close> after the exact previous action and the kernel's proposal are known.\<close>

definition transition :: "pyenv \<Rightarrow> pydatetime \<Rightarrow> teaching_context \<Rightarrow> policy_bundle \<Rightarrow> policy_profile \<Rightarrow>
    sequential_state \<Rightarrow> evidence_signal list \<Rightarrow> policy_decision \<Rightarrow> string \<Rightarrow> string \<Rightarrow> teaching_stage \<Rightarrow>
    exn + sequential_decision" where
  "transition env now ctx b p st signals proposed pk nk stage =
     bind_res (classify_material_evidence env signals p now) (\<lambda>classified.
     bind_res (candidate_total ctx stage pk p) (\<lambda>previous_score.
     bind_res (trace_total (pd_trace proposed) nk) (\<lambda>proposed_score.
       let seen = total_opportunities st classified;
           delta = py_round (fsub proposed_score previous_score) 12;
           forbidden = pk \<in> hf_action_ref ` set (dt_filtered (pd_trace proposed));
           (switch, reason) = transition_choice p classified forbidden (failures_repeated ctx p)
             (nk = pk) seen delta;
           anti = anti_record b p switch reason pk nk classified seen delta now
       in bind_res (if switch then Inr (switched_decision proposed anti reason)
                    else held_decision env proposed ctx b p st pk anti reason) (\<lambda>d.
            let d' = with_material (material_refs classified) d
            in Inr \<lparr>sd_decision = d', sd_next = next_state st switch classified d',
                    sd_reason = reason\<rparr>))))"

definition seq_decide :: "pyenv \<Rightarrow> pydatetime \<Rightarrow> teaching_context \<Rightarrow> policy_bundle \<Rightarrow> policy_profile \<Rightarrow>
    sequential_state \<Rightarrow> evidence_signal list \<Rightarrow> experiment_assignment option \<Rightarrow>
    exn + sequential_decision" where
  "seq_decide env now ctx b p st signals asg =
     bind_res (exact_previous_ref ctx (sq_previous_action st)) (\<lambda>_.
     bind_res (decide env ctx b p asg) (\<lambda>proposed.
       case (candidate_key_for_action (sq_previous_action st), candidate_key_for_action (pd_action proposed)) of
         (Some pk, Some nk) \<Rightarrow>
           (case dt_stage (pd_trace proposed) of
              None \<Rightarrow> Inl (PolicyError UNSUPPORTED_CONFIGURATION
                ''proposed policy trace is missing derived TeachingStage'')
            | Some stage \<Rightarrow> transition env now ctx b p st signals proposed pk nk stage)
       | _ \<Rightarrow> Inl (PolicyError UNSUPPORTED_CONFIGURATION
           ''previous/proposed action is outside the closed candidate table'')))"

section \<open>The proposal\<close>

lemma proposal_facts:
  assumes "decide env ctx b p asg = Inr d"
  shows "dt_stage (pd_trace d) = Some (ta_stage (pd_action d))"
    and "hf_action_ref ` set (dt_filtered (pd_trace d)) =
      set (he_forbidden (evaluate_hard_constraints env ctx p candidate_table))"
    and "valid_trace (pd_trace d)"
    and "dt_selected_ref (pd_trace d) =
      Some (mk_ref ''teaching_action'' (ta_id (pd_action d)) (VerS (ta_schema_version (pd_action d))))"
    and "dt_decision_id (pd_trace d) = ta_decision_id (pd_action d)"
    and "ta_strategy_version (pd_action d) = pb_candidate_table_version b"
    and "pb_candidate_table_version b \<noteq> [] \<Longrightarrow> valid_action (pd_action d)"
    and "dt_behavior (pd_trace d) = BP_DETERMINISTIC"
    and "ta_created_at (pd_action d) = ctx_decision_time ctx"
  using assms
proof -
  from assms show "dt_stage (pd_trace d) = Some (ta_stage (pd_action d))"
    by (rule decide_elim) (simp add: make_trace_def, simp add: make_action_def)
  from assms show "hf_action_ref ` set (dt_filtered (pd_trace d)) =
      set (he_forbidden (evaluate_hard_constraints env ctx p candidate_table))"
    by (rule decide_elim)
       (simp add: make_trace_def evaluate_hard_constraints_def Let_def image_image)
  from assms show "valid_trace (pd_trace d)"
    by (rule decide_elim) (simp add: make_trace_def valid_trace_def decision_reasons_def)
  from assms show "dt_selected_ref (pd_trace d) =
      Some (mk_ref ''teaching_action'' (ta_id (pd_action d)) (VerS (ta_schema_version (pd_action d))))"
    by (rule decide_elim) (simp add: make_trace_def)
  from assms show "dt_decision_id (pd_trace d) = ta_decision_id (pd_action d)"
    by (rule decide_elim) (simp add: make_trace_def)
  from assms show "ta_strategy_version (pd_action d) = pb_candidate_table_version b"
    by (rule decide_elim) (simp add: make_action_def)
  from assms show "dt_behavior (pd_trace d) = BP_DETERMINISTIC"
    by (rule decide_elim) (simp add: make_trace_def)
  from assms show "ta_created_at (pd_action d) = ctx_decision_time ctx"
    by (rule decide_elim) (simp add: make_action_def)
  show "valid_action (pd_action d)" if v: "pb_candidate_table_version b \<noteq> []"
    using assms
  proof (rule decide_elim)
    fix vi stage sets scores best tie c
    assume c: "c \<in> set (legal_candidates env ctx p stage)"
      and a: "pd_action d = make_action ctx b vi stage c
       (stable_uuid env ''decision'' (semantic_key ctx b asg (tc_key c)))
       (stable_uuid env ''action'' (dict_set ''decision_id''
          (Some (stable_uuid env ''decision'' (semantic_key ctx b asg (tc_key c))))
          (semantic_key ctx b asg (tc_key c))))"
    have "case tc_max_attempts c of None \<Rightarrow> True | Some n \<Rightarrow> 1 \<le> n"
      using legal_in_table [OF c] by (auto simp: table_members cand_defs)
    then show ?thesis using v by (simp add: a make_action_def valid_action_def decision_reasons_def)
  qed
qed

lemma matches_action_cong:
  assumes "ta_family a = ta_family b" "ta_moves a = ta_moves b" "ta_scaffold a = ta_scaffold b"
    "ta_hint a = ta_hint b" "ta_exposure a = ta_exposure b"
  shows "matches_action c a \<longleftrightarrow> matches_action c b"
    and "candidate_key_for_action a = candidate_key_for_action b"
  using assms by (simp_all add: matches_action_def candidate_key_for_action_def)

lemma held_action_keeps:
  "matches_action c (held_action proposed ctx b st stage reason i j) \<longleftrightarrow>
     matches_action c (sq_previous_action st)"
  "candidate_key_for_action (held_action proposed ctx b st stage reason i j) =
     candidate_key_for_action (sq_previous_action st)"
  by (rule matches_action_cong; simp add: held_action_def Let_def)+

section \<open>Elimination\<close>

lemma held_elim:
  assumes "held_decision env proposed ctx b p st pk anti reason = Inr d"
  obtains stage entry fs score i j where
    "dt_stage (pd_trace proposed) = Some stage" "tc_key entry = pk" "entry \<in> set candidate_table"
    "build_candidate_features ctx stage entry p = Inr fs" "score_candidate fs p = Inr score"
    "pd_action d = held_action proposed ctx b st stage reason i j"
    "pd_trace d = held_trace proposed b p entry fs score anti reason (pd_action d)"
  using assms
  by (auto simp: held_decision_def Let_def res_simps split: option.splits dest!: first_match_Some)

lemma seq_elim:
  assumes "seq_decide env now ctx b p st signals asg = Inr r"
  obtains proposed pk nk classified s1 s2 d where
    "exact_previous_ref ctx (sq_previous_action st) = Inr ()"
    "decide env ctx b p asg = Inr proposed"
    "candidate_key_for_action (sq_previous_action st) = Some pk"
    "candidate_key_for_action (pd_action proposed) = Some nk"
    "classify_material_evidence env signals p now = Inr classified"
    "candidate_total ctx (ta_stage (pd_action proposed)) pk p = Inr s1"
    "trace_total (pd_trace proposed) nk = Inr s2"
    "transition_choice p classified
        (pk \<in> set (he_forbidden (evaluate_hard_constraints env ctx p candidate_table)))
        (failures_repeated ctx p) (nk = pk) (total_opportunities st classified)
        (py_round (fsub s2 s1) 12) = (ao_switch (the (dt_anti (pd_trace d))), sd_reason r)"
    "dt_anti (pd_trace d) = Some (anti_record b p (ao_switch (the (dt_anti (pd_trace d)))) (sd_reason r) pk nk
        classified (total_opportunities st classified) (py_round (fsub s2 s1) 12) now)"
    "ao_switch (the (dt_anti (pd_trace d))) \<Longrightarrow>
       d = switched_decision proposed (the (dt_anti (pd_trace d))) (sd_reason r)"
    "\<not> ao_switch (the (dt_anti (pd_trace d))) \<Longrightarrow>
       held_decision env proposed ctx b p st pk (the (dt_anti (pd_trace d))) (sd_reason r) = Inr d"
    "sd_decision r = with_material (material_refs classified) d"
    "sd_next r = next_state st (ao_switch (the (dt_anti (pd_trace d)))) classified (sd_decision r)"
proof -
  from assms obtain proposed pk nk where
    1: "exact_previous_ref ctx (sq_previous_action st) = Inr ()"
    "decide env ctx b p asg = Inr proposed"
    "candidate_key_for_action (sq_previous_action st) = Some pk"
    "candidate_key_for_action (pd_action proposed) = Some nk"
    and t: "transition env now ctx b p st signals proposed pk nk (ta_stage (pd_action proposed)) = Inr r"
    by (auto simp: seq_decide_def res_simps proposal_facts(1) split: option.splits)
  let ?forb = "pk \<in> set (he_forbidden (evaluate_hard_constraints env ctx p candidate_table))"
  from t obtain classified s1 s2 where
    2: "classify_material_evidence env signals p now = Inr classified"
    "candidate_total ctx (ta_stage (pd_action proposed)) pk p = Inr s1"
    "trace_total (pd_trace proposed) nk = Inr s2"
    by (auto simp: transition_def res_simps)
  let ?delta = "py_round (fsub s2 s1) 12" and ?seen = "total_opportunities st classified"
  obtain switch reason where ch: "transition_choice p classified ?forb (failures_repeated ctx p)
      (nk = pk) ?seen ?delta = (switch, reason)" by fastforce
  let ?anti = "anti_record b p switch reason pk nk classified ?seen ?delta now"
  from t 2 ch obtain d where
    d: "(if switch then Inr (switched_decision proposed ?anti reason)
         else held_decision env proposed ctx b p st pk ?anti reason) = Inr d"
    and r: "sd_decision r = with_material (material_refs classified) d" "sd_reason r = reason"
      "sd_next r = next_state st switch classified (sd_decision r)"
    by (auto simp: transition_def res_simps Let_def proposal_facts(2) [OF 1(2)])
  have anti: "dt_anti (pd_trace d) = Some ?anti"
  proof (cases switch)
    case True
    with d show ?thesis by (auto simp: switched_decision_def)
  next
    case False
    with d have "held_decision env proposed ctx b p st pk ?anti reason = Inr d" by simp
    then show ?thesis by (rule held_elim) (simp add: held_trace_def Let_def)
  qed
  then have sw: "ao_switch (the (dt_anti (pd_trace d))) = switch" by (simp add: anti_record_def)
  show thesis
    by (rule that [OF 1 2]) (use ch anti sw r d in \<open>auto split: if_splits\<close>)
qed

lemma with_material_simps [simp]:
  "pd_action (with_material refs d) = pd_action d"
  "dt_selected_ref (pd_trace (with_material refs d)) = dt_selected_ref (pd_trace d)"
  "dt_decision_id (pd_trace (with_material refs d)) = dt_decision_id (pd_trace d)"
  "dt_anti (pd_trace (with_material refs d)) = dt_anti (pd_trace d)"
  "valid_trace (pd_trace (with_material refs d)) = valid_trace (pd_trace d)"
  "dt_behavior (pd_trace (with_material refs d)) = dt_behavior (pd_trace d)"
  "dt_propensity (pd_trace (with_material refs d)) = dt_propensity (pd_trace d)"
  by (simp_all add: with_material_def valid_trace_def)

definition switched :: "sequential_decision \<Rightarrow> bool" where
  "switched r \<longleftrightarrow> (case dt_anti (pd_trace (sd_decision r)) of None \<Rightarrow> False | Some a \<Rightarrow> ao_switch a)"

text \<open>A step in the terms the properties need: what was proposed, and whether it was taken.\<close>

lemma seq_step:
  assumes "seq_decide env now ctx b p st signals asg = Inr r"
  obtains proposed pk nk classified s1 s2 where
    "decide env ctx b p asg = Inr proposed"
    "candidate_key_for_action (sq_previous_action st) = Some pk"
    "candidate_key_for_action (pd_action proposed) = Some nk"
    "classify_material_evidence env signals p now = Inr classified"
    "candidate_total ctx (ta_stage (pd_action proposed)) pk p = Inr s1"
    "trace_total (pd_trace proposed) nk = Inr s2"
    "transition_choice p classified
        (pk \<in> set (he_forbidden (evaluate_hard_constraints env ctx p candidate_table)))
        (failures_repeated ctx p) (nk = pk) (total_opportunities st classified)
        (py_round (fsub s2 s1) 12) = (switched r, sd_reason r)"
    "switched r \<Longrightarrow> pd_action (sd_decision r) = pd_action proposed"
    "\<not> switched r \<Longrightarrow> (\<exists>stage i j. pd_action (sd_decision r) =
        held_action proposed ctx b st stage (sd_reason r) i j)"
    "sd_next r = next_state st (switched r) classified (sd_decision r)"
    "dt_anti (pd_trace (sd_decision r)) = Some (anti_record b p (switched r) (sd_reason r) pk nk
        classified (total_opportunities st classified) (py_round (fsub s2 s1) 12) now)"
  using assms
proof (rule seq_elim)
  fix proposed pk nk classified s1 s2 d
  assume *: "decide env ctx b p asg = Inr proposed"
    "candidate_key_for_action (sq_previous_action st) = Some pk"
    "candidate_key_for_action (pd_action proposed) = Some nk"
    "classify_material_evidence env signals p now = Inr classified"
    "candidate_total ctx (ta_stage (pd_action proposed)) pk p = Inr s1"
    "trace_total (pd_trace proposed) nk = Inr s2"
    "transition_choice p classified
        (pk \<in> set (he_forbidden (evaluate_hard_constraints env ctx p candidate_table)))
        (failures_repeated ctx p) (nk = pk) (total_opportunities st classified)
        (py_round (fsub s2 s1) 12) = (ao_switch (the (dt_anti (pd_trace d))), sd_reason r)"
    and anti: "dt_anti (pd_trace d) = Some (anti_record b p (ao_switch (the (dt_anti (pd_trace d)))) (sd_reason r)
        pk nk classified (total_opportunities st classified) (py_round (fsub s2 s1) 12) now)"
    and sw: "ao_switch (the (dt_anti (pd_trace d))) \<Longrightarrow>
       d = switched_decision proposed (the (dt_anti (pd_trace d))) (sd_reason r)"
    and hold: "\<not> ao_switch (the (dt_anti (pd_trace d))) \<Longrightarrow>
       held_decision env proposed ctx b p st pk (the (dt_anti (pd_trace d))) (sd_reason r) = Inr d"
    and r: "sd_decision r = with_material (material_refs classified) d"
    and n: "sd_next r = next_state st (ao_switch (the (dt_anti (pd_trace d)))) classified (sd_decision r)"
  have s: "switched r = ao_switch (the (dt_anti (pd_trace d)))"
    using anti by (cases "dt_anti (pd_trace d)") (auto simp: switched_def r)
  have a1: "pd_action (sd_decision r) = pd_action proposed" if "switched r"
    using sw that arg_cong [of _ _ pd_action] by (metis r s switched_decision_def policy_decision.simps
        policy_decision.select_convs(1) policy_decision.surjective policy_decision.update_convs(2) with_material_simps(1))
  have a2: "\<exists>stage i j. pd_action (sd_decision r) = held_action proposed ctx b st stage (sd_reason r) i j"
    if "\<not> switched r"
  proof -
    have "held_decision env proposed ctx b p st pk (the (dt_anti (pd_trace d))) (sd_reason r) = Inr d"
      using hold that s by simp
    then show ?thesis by (rule held_elim) (auto simp: r)
  qed
  show thesis
    by (rule that [OF *(1-6)]) (use * a1 a2 n anti s in \<open>auto simp: r\<close>)
qed

end
