(* ===== verification/Turns.thy ===== *)
theory Turns
  imports Sequential
begin

text \<open>
  The properties of one sequential turn and of the states a learner's policy can reach: safety
  of the executed action, when a strategy is held or left, when a turn returns, and the state
  invariant by rule induction over the turns.
\<close>

section \<open>Counting evidence\<close>

lemma material_keys_distinct: "distinct (material_keys cs)"
  by (simp add: material_keys_def)

lemma observed_length:
  assumes "distinct obs"
  shows "length (remdups (obs @ material_keys cs)) =
    length obs + length (filter (\<lambda>k. k \<notin> set obs) (material_keys cs))"
proof -
  have "set (remdups (obs @ material_keys cs)) =
      set obs \<union> set (filter (\<lambda>k. k \<notin> set obs) (material_keys cs))" by auto
  then have "card (set (remdups (obs @ material_keys cs))) =
      card (set obs) + card (set (filter (\<lambda>k. k \<notin> set obs) (material_keys cs)))"
    by (simp only:) (rule card_Un_disjoint, auto)
  then show ?thesis
    using assms distinct_card [OF distinct_filter [OF material_keys_distinct [of cs]], of "\<lambda>k. k \<notin> set obs"]
    by (simp add: distinct_card length_remdups_card_conv)
qed

lemma no_material_keys: "\<not> list_ex ce_material cs \<Longrightarrow> material_keys cs = []"
  by (induction cs) (auto simp: material_keys_def map_filter_simps material_key_def split: option.splits)

lemma classify_all_non_material:
  assumes "classify_material_evidence env signals p now = Inr classified"
    and "\<forall>s \<in> set signals. es_kind s \<in> {CHAT_TURN, WORDING_VARIATION, RERENDER, SAME_CONTEXT_REEVALUATION, WALL_CLOCK_DRIFT}"
  shows "\<not> list_ex ce_material classified"
proof
  assume "list_ex ce_material classified"
  then obtain c where c: "c \<in> set classified" "ce_material c" by (auto simp: list_ex_iff)
  have l: "list_all2 (\<lambda>s c. classify_signal env p now s = Inr c) signals classified"
    using assms(1) by (simp add: classify_material_evidence_def map_res_Inr_iff)
  obtain s where s: "s \<in> set signals" "classify_signal env p now s = Inr c"
    using list_all2_right [OF l c(1)] by auto
  from non_material_kind [of s env p now] assms(2) s c(2) show False
    by (auto simp: classified_as_def)
qed

section \<open>Safety of every turn\<close>

text \<open>C5: whether the previous action is held or the proposed one taken, the executed
  action is a candidate of the closed table that no hard constraint of the current context
  forbids.\<close>

theorem seq_never_forbidden:
  assumes "seq_decide env now ctx b p st signals asg = Inr r"
  shows "\<exists>c \<in> set candidate_table. matches_action c (pd_action (sd_decision r)) \<and>
    candidate_key_for_action (pd_action (sd_decision r)) = Some (tc_key c) \<and> \<not> forbids env ctx p c"
  using assms
proof (rule seq_step)
  fix proposed pk nk classified s1 s2
  assume d: "decide env ctx b p asg = Inr proposed"
    and pk: "candidate_key_for_action (sq_previous_action st) = Some pk"
    and ch: "transition_choice p classified
        (pk \<in> set (he_forbidden (evaluate_hard_constraints env ctx p candidate_table)))
        (failures_repeated ctx p) (nk = pk) (total_opportunities st classified)
        (py_round (fsub s2 s1) 12) = (switched r, sd_reason r)"
    and sw: "switched r \<Longrightarrow> pd_action (sd_decision r) = pd_action proposed"
    and hold: "\<not> switched r \<Longrightarrow> (\<exists>stage i j. pd_action (sd_decision r) =
        held_action proposed ctx b st stage (sd_reason r) i j)"
  show ?thesis
  proof (cases "switched r")
    case True
    from d have "\<exists>c \<in> set candidate_table. matches_action c (pd_action proposed) \<and>
        candidate_key_for_action (pd_action proposed) = Some (tc_key c) \<and> \<not> forbids env ctx p c"
      by (rule decided_candidate) (auto simp: legal_candidates_iff)
    with sw [OF True] show ?thesis by simp
  next
    case False
    then obtain stage i j where a: "pd_action (sd_decision r) =
        held_action proposed ctx b st stage (sd_reason r) i j" using hold by blast
    obtain c where c: "c \<in> set candidate_table" "tc_key c = pk" "matches_action c (sq_previous_action st)"
      using candidate_key_in_table [OF pk] by blast
    have "pk \<notin> set (he_forbidden (evaluate_hard_constraints env ctx p candidate_table))"
      using ch False by (auto simp: transition_choice_def)
    with forbidden_iff_forbids [OF c(1)] have "\<not> forbids env ctx p c" by (simp add: c(2))
    with c pk show ?thesis by (auto simp: a held_action_keeps)
  qed
qed

text \<open>Chat turns, wording variations, re-renders, re-evaluations of the same context
  and the passing of time never change the teaching strategy: unless the previous action has
  become forbidden or the learner failed repeatedly, it is held, and no opportunity is counted.\<close>

theorem seq_holds_without_evidence:
  assumes "seq_decide env now ctx b p st signals asg = Inr r"
    and "\<forall>s \<in> set signals. es_kind s \<in>
      {CHAT_TURN, WORDING_VARIATION, RERENDER, SAME_CONTEXT_REEVALUATION, WALL_CLOCK_DRIFT}"
    and "\<not> failures_repeated ctx p"
    and "c \<in> set candidate_table" and "matches_action c (sq_previous_action st)" and "\<not> forbids env ctx p c"
  shows "\<not> switched r \<and> sd_reason r = ''HOLD_NO_MATERIAL_EVIDENCE'' \<and>
    matches_action c (pd_action (sd_decision r)) \<and>
    sq_opportunities (sd_next r) = sq_opportunities st \<and>
    set (sq_observed_keys (sd_next r)) = set (sq_observed_keys st)"
  using assms(1)
proof (rule seq_step)
  fix proposed pk nk classified s1 s2
  assume pk: "candidate_key_for_action (sq_previous_action st) = Some pk"
    and cl: "classify_material_evidence env signals p now = Inr classified"
    and ch: "transition_choice p classified
        (pk \<in> set (he_forbidden (evaluate_hard_constraints env ctx p candidate_table)))
        (failures_repeated ctx p) (nk = pk) (total_opportunities st classified)
        (py_round (fsub s2 s1) 12) = (switched r, sd_reason r)"
    and hold: "\<not> switched r \<Longrightarrow> (\<exists>stage i j. pd_action (sd_decision r) =
        held_action proposed ctx b st stage (sd_reason r) i j)"
    and n: "sd_next r = next_state st (switched r) classified (sd_decision r)"
  have "pk = tc_key c" using matches_candidate_key [OF assms(4,5)] pk by simp
  then have "pk \<notin> set (he_forbidden (evaluate_hard_constraints env ctx p candidate_table))"
    using forbidden_iff_forbids [OF assms(4)] assms(6) by simp
  moreover have nm: "\<not> list_ex ce_material classified" by (rule classify_all_non_material [OF cl assms(2)])
  ultimately have s: "\<not> switched r" "sd_reason r = ''HOLD_NO_MATERIAL_EVIDENCE''"
    using ch assms(3) by (auto simp: transition_choice_def)
  from hold [OF s(1)] assms(5) have "matches_action c (pd_action (sd_decision r))"
    by (auto simp: held_action_keeps)
  with s n show ?thesis
    by (simp add: next_state_def total_opportunities_def new_keys_def no_material_keys [OF nm])
qed

text \<open>C6: a switch that is neither forced by a hard constraint or repeated failure nor
  explicitly requested needs material evidence among the signals of that very turn, rests on at least
  the profile's number of evidence opportunities since the last transition, those of the turn included,
  and on a score advantage of at least its margin; it leaves the previous strategy and starts counting
  opportunities anew.\<close>

theorem seq_voluntary_switch:
  assumes "seq_decide env now ctx b p st signals asg = Inr r" and "switched r"
    and "classify_material_evidence env signals p now = Inr classified"
    and "c \<in> set candidate_table" and "matches_action c (sq_previous_action st)" and "\<not> forbids env ctx p c"
    and "\<not> failures_repeated ctx p" and "\<not> explicit_request classified"
  shows "list_ex ce_material classified \<and>
    pp_minimum_dwell p \<le> sq_opportunities st + int (length (new_keys st classified)) \<and>
    (\<exists>a. dt_anti (pd_trace (sd_decision r)) = Some a \<and> pp_switch_margin p \<le> ao_score_delta a) \<and>
    candidate_key_for_action (pd_action (sd_decision r)) \<noteq> Some (tc_key c) \<and>
    sq_opportunities (sd_next r) = 0"
  using assms(1)
proof (rule seq_step)
  fix proposed pk nk classified' s1 s2
  assume pk: "candidate_key_for_action (sq_previous_action st) = Some pk"
    and nk: "candidate_key_for_action (pd_action proposed) = Some nk"
    and cl: "classify_material_evidence env signals p now = Inr classified'"
    and ch: "transition_choice p classified'
        (pk \<in> set (he_forbidden (evaluate_hard_constraints env ctx p candidate_table)))
        (failures_repeated ctx p) (nk = pk) (total_opportunities st classified')
        (py_round (fsub s2 s1) 12) = (switched r, sd_reason r)"
    and sw: "switched r \<Longrightarrow> pd_action (sd_decision r) = pd_action proposed"
    and n: "sd_next r = next_state st (switched r) classified' (sd_decision r)"
    and anti: "dt_anti (pd_trace (sd_decision r)) = Some (anti_record b p (switched r) (sd_reason r) pk nk
        classified' (total_opportunities st classified') (py_round (fsub s2 s1) 12) now)"
  have c: "classified' = classified" using cl assms(3) by simp
  have pc: "pk = tc_key c" using matches_candidate_key [OF assms(4,5)] pk by simp
  then have nf: "pk \<notin> set (he_forbidden (evaluate_hard_constraints env ctx p candidate_table))"
    using forbidden_iff_forbids [OF assms(4)] assms(6) by simp
  have "list_ex ce_material classified" "\<not> total_opportunities st classified < pp_minimum_dwell p" "nk \<noteq> pk"
    "\<not> py_round (fsub s2 s1) 12 < pp_switch_margin p"
    using ch assms(2,7,8) nf c by (auto simp: transition_choice_def split: if_splits)
  with sw [OF assms(2)] n anti nk assms(2) show ?thesis
    by (simp add: c total_opportunities_def anti_record_def next_state_def pc not_less)
qed


section \<open>A turn returns\<close>

lemma proposal_score:
  assumes "decide env ctx b p asg = Inr d" and "candidate_key_for_action (pd_action d) = Some k"
  shows "\<exists>s. trace_total (pd_trace d) k = Inr s"
  using assms(1)
proof (rule decide_elim)
  fix vi stage sets scores best tie c
  let ?cs = "legal_candidates env ctx p stage"
  assume l1: "list_all2 (\<lambda>c f. build_candidate_features ctx stage c p = Inr f) ?cs sets"
    and l2: "list_all2 (\<lambda>f s. score_candidate f p = Inr s) sets scores"
    and sel: "select_stably scores p = Inr (best, tie)"
    and c: "c \<in> set ?cs" "tc_key c = cs_key best"
    and a: "pd_action d = make_action ctx b vi stage c
       (stable_uuid env ''decision'' (semantic_key ctx b asg (tc_key c)))
       (stable_uuid env ''action'' (dict_set ''decision_id''
          (Some (stable_uuid env ''decision'' (semantic_key ctx b asg (tc_key c))))
          (semantic_key ctx b asg (tc_key c))))"
    and t: "pd_trace d = make_trace ctx b asg vi (evaluate_hard_constraints env ctx p candidate_table)
       stage ?cs sets scores c tie (pd_action d)"
  have "length scores = length sets" using scored_pipeline(1,2) [OF l1 l2] by simp
  then have scores: "map se_score (dt_scores (pd_trace d)) = scores"
    by (simp add: t make_trace_def score_entries_def comp_def split_def)
  have "k = cs_key best"
    using matches_candidate_key [OF legal_in_table [OF c(1)], of "pd_action d"] assms(2) c(2) a
    by (simp add: make_action_matches)
  moreover have "best \<in> se_score ` set (dt_scores (pd_trace d))"
    using select_Inr(3) [OF sel] scores by (metis set_map)
  ultimately obtain e where "e \<in> set (dt_scores (pd_trace d))" "cs_key (se_score e) = k" by auto
  then obtain e' where "first_match (\<lambda>e. cs_key (se_score e) = k) (dt_scores (pd_trace d)) = Some e'"
    using first_match_exists [of e _ "\<lambda>e. cs_key (se_score e) = k"] by auto
  then show ?thesis by (simp add: trace_total_def)
qed

lemma table_by_key:
  "c \<in> set candidate_table \<Longrightarrow> first_match (\<lambda>x. tc_key x = tc_key c) candidate_table = Some c"
proof -
  assume c: "c \<in> set candidate_table"
  obtain y where y: "first_match (\<lambda>x. tc_key x = tc_key c) candidate_table = Some y"
    using first_match_exists [OF c, of "\<lambda>x. tc_key x = tc_key c"] by auto
  from first_match_Some [OF y] have "y = c" using c table.key_identifies by auto
  with y show ?thesis by simp
qed

lemma candidate_total_returns:
  assumes "sound_profile p" and "c \<in> set candidate_table" and "hashable (va_value (ctx_error_type ctx))"
  shows "\<exists>s. candidate_total ctx stage (tc_key c) p = Inr s"
  using candidate_scored [OF assms, of stage] table_by_key [OF assms(2)]
  by (auto simp: candidate_total_def scored_def)

lemma held_returns:
  assumes "sound_profile p" and "c \<in> set candidate_table" and "hashable (va_value (ctx_error_type ctx))"
    and "dt_stage (pd_trace proposed) = Some stage"
  shows "\<exists>d. held_decision env proposed ctx b p st (tc_key c) anti reason = Inr d"
  using candidate_scored [OF assms(1-3), of stage] table_by_key [OF assms(2)] assms(4)
  by (auto simp: held_decision_def scored_def Let_def)

lemma seq_continue:
  assumes "sound_profile p" and "decide env ctx b p asg = Inr proposed"
    and "exact_previous_ref ctx (sq_previous_action st) = Inr ()"
    and "c \<in> set candidate_table" and "matches_action c (sq_previous_action st)"
    and "classify_material_evidence env signals p now = Inr classified"
  shows "\<exists>r. seq_decide env now ctx b p st signals asg = Inr r"
proof -
  have h: "hashable (va_value (ctx_error_type ctx))"
    using assms(2)
  proof (rule decide_elim)
    fix stage sets c
    assume l: "list_all2 (\<lambda>c f. build_candidate_features ctx stage c p = Inr f)
        (legal_candidates env ctx p stage) sets" and c: "c \<in> set (legal_candidates env ctx p stage)"
    from list_all2_left [OF l c] show ?thesis
      by (auto simp: build_candidate_features_def specific_error_def split: if_splits)
  qed
  obtain c' :: candidate where nk: "candidate_key_for_action (pd_action proposed) = Some (tc_key c')"
    using assms(2) by (rule decided_candidate) (rule that)
  note pk = matches_candidate_key [OF assms(4,5)]
  let ?stage = "ta_stage (pd_action proposed)"
  obtain s1 where s1: "candidate_total ctx ?stage (tc_key c) p = Inr s1"
    using candidate_total_returns [OF assms(1,4) h] by blast
  obtain s2 where s2: "trace_total (pd_trace proposed) (tc_key c') = Inr s2"
    using proposal_score [OF assms(2) nk] by blast
  let ?delta = "py_round (fsub s2 s1) 12" and ?seen = "total_opportunities st classified"
  let ?forb = "tc_key c \<in> hf_action_ref ` set (dt_filtered (pd_trace proposed))"
  obtain switch reason where ch: "transition_choice p classified ?forb (failures_repeated ctx p)
      (tc_key c' = tc_key c) ?seen ?delta = (switch, reason)" by fastforce
  let ?anti = "anti_record b p switch reason (tc_key c) (tc_key c') classified ?seen ?delta now"
  obtain d where "(if switch then Inr (switched_decision proposed ?anti reason)
      else held_decision env proposed ctx b p st (tc_key c) ?anti reason) = Inr d"
    using held_returns [OF assms(1,4) h proposal_facts(1) [OF assms(2)], of env b st ?anti reason]
    by (cases switch) auto
  then have "\<exists>r. transition env now ctx b p st signals proposed (tc_key c) (tc_key c') ?stage = Inr r"
    using assms(6) s1 s2 ch by (simp add: transition_def Let_def)
  then show ?thesis
    using assms(2,3) pk nk proposal_facts(1) [OF assms(2)]
    by (simp add: seq_decide_def)
qed

text \<open>A turn returns exactly when the context names the exact previous action, the
  kernel decides, the previous action is of the closed table and every delay start is a
  readable instant.\<close>

theorem seq_returns_iff:
  assumes "sound_profile p"
  shows "(\<exists>r. seq_decide env now ctx b p st signals asg = Inr r) \<longleftrightarrow>
    exact_previous_ref ctx (sq_previous_action st) = Inr () \<and>
    (\<exists>d. decide env ctx b p asg = Inr d) \<and>
    candidate_key_for_action (sq_previous_action st) \<noteq> None \<and>
    (\<exists>classified. classify_material_evidence env signals p now = Inr classified)"
proof
  assume "\<exists>r. seq_decide env now ctx b p st signals asg = Inr r"
  then obtain r where "seq_decide env now ctx b p st signals asg = Inr r" by blast
  then show "exact_previous_ref ctx (sq_previous_action st) = Inr () \<and>
    (\<exists>d. decide env ctx b p asg = Inr d) \<and>
    candidate_key_for_action (sq_previous_action st) \<noteq> None \<and>
    (\<exists>classified. classify_material_evidence env signals p now = Inr classified)"
    by (rule seq_elim) simp
next
  assume *: "exact_previous_ref ctx (sq_previous_action st) = Inr () \<and>
    (\<exists>d. decide env ctx b p asg = Inr d) \<and>
    candidate_key_for_action (sq_previous_action st) \<noteq> None \<and>
    (\<exists>classified. classify_material_evidence env signals p now = Inr classified)"
  then obtain d classified k where 1: "decide env ctx b p asg = Inr d"
    "classify_material_evidence env signals p now = Inr classified"
    "candidate_key_for_action (sq_previous_action st) = Some k" by auto
  obtain c where c: "c \<in> set candidate_table" "matches_action c (sq_previous_action st)"
    using candidate_key_in_table [OF 1(3)] by blast
  show "\<exists>r. seq_decide env now ctx b p st signals asg = Inr r"
    using * by (intro seq_continue [OF assms 1(1) _ c 1(2)]) simp
qed

section \<open>A concrete turn\<close>

text \<open>The state after a first decision, and the context of the following turn.\<close>

definition first_state :: "policy_decision \<Rightarrow> sequential_state" where
  "first_state d = \<lparr>sq_previous_action = pd_action d, sq_previous_trace = pd_trace d,
     sq_opportunities = 0, sq_observed_keys = [], sq_obligation = None\<rparr>"

definition action_ref :: "teaching_action \<Rightarrow> versioned_ref" where
  "action_ref a = mk_ref ''teaching_action'' (ta_id a) (VerS (ta_schema_version a))"

definition follow_ctx :: "teaching_action \<Rightarrow> teaching_context" where
  "follow_ctx a = demo_ctx\<lparr>ctx_previous_action_ref := Some (action_ref a),
     ctx_source_refs := [demo_objective, demo_activity, action_ref a]\<rparr>"

definition demo_chat :: evidence_signal where
  "demo_chat = \<lparr>es_signal_id = ''chat'', es_kind = CHAT_TURN, es_ref = None, es_occurred_at = 0,
     es_attributes = []\<rparr>"

lemma follow_decides: "\<exists>d. decide demo_env (follow_ctx a) demo_bundle default_profile None = Inr d"
proof (rule decide_continue [OF _ default_no_conflict _ _ default_sound])
  have "assert_matches default_profile demo_bundle = Inr ()" by code_simp
  moreover have "missing_refs (follow_ctx a) = []"
    by (simp add: missing_refs_def required_refs_def optional_refs_def value_fields_def follow_ctx_def
        map_filter_simps) (simp add: demo_ctx_def known_value_def missing_value_def)
  moreover have "ctx_assignment_ref (follow_ctx a) = None" by (simp add: follow_ctx_def demo_ctx_def)
  ultimately show "validate_policy_input (follow_ctx a) demo_bundle default_profile None =
      Inr \<lparr>vi_context_ref = mk_ref ''teaching_context'' (ctx_id (follow_ctx a)) (VerS (ctx_schema_version (follow_ctx a))),
           vi_bundle_ref = mk_ref ''policy_bundle'' (pb_bundle_id demo_bundle) (VerS (pb_policy_version demo_bundle))\<rparr>"
    by (simp add: validate_policy_input_def)
  show "derive_teaching_stage (follow_ctx a) default_profile = Inr TS_EXPLICIT_INSTRUCTION"
    by code_simp
  have "activity_text demo_env (follow_ctx a) = ''lesson''"
    using demo_activity_text by (simp add: activity_text_def follow_ctx_def)
  then have "\<not> forbids demo_env (follow_ctx a) default_profile cand_explicit"
    using default_no_conflict
    by (simp add: forbids_def is_independent_assessment_def assessment_markers_def unsupported_keys_def)
       (simp add: follow_ctx_def demo_ctx_def)
  then have "cand_explicit \<in> set (legal_candidates demo_env (follow_ctx a) default_profile TS_EXPLICIT_INSTRUCTION)"
    by (simp add: legal_candidates_iff table_members)
  then show "legal_candidates demo_env (follow_ctx a) default_profile TS_EXPLICIT_INSTRUCTION \<noteq> []" by auto
  show "hashable (va_value (ctx_error_type (follow_ctx a)))" by (simp add: follow_ctx_def demo_ctx_def known_value_def)
qed

lemma demo_selects_explicit:
  assumes "decide demo_env demo_ctx demo_bundle default_profile None = Inr d"
  shows "matches_action cand_explicit (pd_action d)"
  using assms
proof (rule decided_candidate)
  fix c :: candidate
  assume c: "c \<in> set (legal_candidates demo_env demo_ctx default_profile (ta_stage (pd_action d)))"
    "matches_action c (pd_action d)"
    "derive_teaching_stage demo_ctx default_profile = Inr (ta_stage (pd_action d))"
  then have "TS_EXPLICIT_INSTRUCTION \<in> set (tc_stages c)" "c \<in> set candidate_table"
    "\<not> forbids demo_env demo_ctx default_profile c"
    by (auto simp: demo_stage legal_candidates_iff)
  moreover have "forbids demo_env demo_ctx default_profile cand_direct"
    by (simp add: forbids_def) (simp add: demo_ctx_def)
  ultimately have "c = cand_explicit" by (auto simp: table_members)
  with c(2) show ?thesis by simp
qed

lemma chat_classified:
  "classify_material_evidence demo_env [demo_chat] default_profile (Aware 0) =
     Inr [classified_as demo_chat False ''NON_MATERIAL_CHAT_TURN'']"
  by (simp add: classify_material_evidence_def classify_signal_def demo_chat_def material_kinds_def)

definition chat_turn :: "policy_decision \<Rightarrow> exn + sequential_decision" where
  "chat_turn d = seq_decide demo_env (Aware 0) (follow_ctx (pd_action d)) demo_bundle default_profile
     (first_state d) [demo_chat] None"

lemma follow_previous: "exact_previous_ref (follow_ctx a) a = Inr ()"
  by (simp add: follow_ctx_def exact_previous_ref_def action_ref_def)

lemma explicit_in_table: "cand_explicit \<in> set candidate_table"
  by (simp add: table_members)

lemma first_previous [simp]: "sq_previous_action (first_state d) = pd_action d"
  by (simp add: first_state_def)

lemma chat_turn_returns:
  "\<exists>d r. decide demo_env demo_ctx demo_bundle default_profile None = Inr d \<and> chat_turn d = Inr r"
proof -
  obtain d where d: "decide demo_env demo_ctx demo_bundle default_profile None = Inr d"
    using demo_decides by blast
  obtain d' where d': "decide demo_env (follow_ctx (pd_action d)) demo_bundle default_profile None = Inr d'"
    using follow_decides by blast
  have m: "matches_action cand_explicit (sq_previous_action (first_state d))"
    using demo_selects_explicit [OF d] by simp
  show ?thesis
    using d seq_continue [OF default_sound d' _ explicit_in_table m chat_classified] follow_previous
    by (auto simp: chat_turn_def)
qed

theorem seq_never_forbidden_witness:
  "\<exists>d r. chat_turn d = Inr r \<and>
     (\<exists>c \<in> set candidate_table. matches_action c (pd_action (sd_decision r)) \<and>
        \<not> forbids demo_env (follow_ctx (pd_action d)) default_profile c)"
  using chat_turn_returns seq_never_forbidden unfolding chat_turn_def by blast

lemma follow_not_forbidden: "\<not> forbids demo_env (follow_ctx a) default_profile cand_explicit"
proof -
  have "activity_text demo_env (follow_ctx a) = ''lesson''"
    using demo_activity_text by (simp add: activity_text_def follow_ctx_def)
  then show ?thesis
    using default_no_conflict
    by (simp add: forbids_def is_independent_assessment_def assessment_markers_def unsupported_keys_def)
       (simp add: follow_ctx_def demo_ctx_def)
qed

lemma follow_no_failures: "\<not> failures_repeated (follow_ctx a) default_profile"
  by (simp add: failures_repeated_def follow_ctx_def demo_ctx_def dict_get_def default_profile_def)

theorem seq_holds_without_evidence_witness:
  "\<exists>d r. chat_turn d = Inr r \<and> \<not> switched r \<and> sd_reason r = ''HOLD_NO_MATERIAL_EVIDENCE''"
proof -
  obtain d r where d: "decide demo_env demo_ctx demo_bundle default_profile None = Inr d"
    and r: "chat_turn d = Inr r" using chat_turn_returns by blast
  have m: "matches_action cand_explicit (sq_previous_action (first_state d))"
    using demo_selects_explicit [OF d] by simp
  have "\<forall>s \<in> set [demo_chat]. es_kind s \<in>
      {CHAT_TURN, WORDING_VARIATION, RERENDER, SAME_CONTEXT_REEVALUATION, WALL_CLOCK_DRIFT}"
    by (simp add: demo_chat_def)
  from seq_holds_without_evidence [OF r [unfolded chat_turn_def] this follow_no_failures
      explicit_in_table m follow_not_forbidden] r
  show ?thesis by blast
qed

theorem seq_returns_iff_witness:
  "\<exists>d r. decide demo_env demo_ctx demo_bundle default_profile None = Inr d \<and> chat_turn d = Inr r"
proof -
  obtain d where d: "decide demo_env demo_ctx demo_bundle default_profile None = Inr d"
    using demo_decides by blast
  have "candidate_key_for_action (pd_action d) = Some (tc_key cand_explicit)"
    by (rule matches_candidate_key [OF explicit_in_table demo_selects_explicit [OF d]])
  then show ?thesis
    using seq_returns_iff [OF default_sound, of demo_env "Aware 0" "follow_ctx (pd_action d)" demo_bundle
        "first_state d" "[demo_chat]" None] d follow_decides chat_classified follow_previous
    by (auto simp: chat_turn_def)
qed

section \<open>Stage fit decides under the shipped profile\<close>

lemma stage_fit_component:
  assumes "f \<in> set (candidate_features ctx stage c default_profile known t)" and "df_name f = ''stage_fit''"
  shows "component default_profile f = (if stage \<in> set (tc_stages c) then 10 else 0)"
proof -
  have v: "df_value f = Some (indicator_if (stage \<in> set (tc_stages c)))"
    using assms by (auto simp: candidate_features_def mk_feature_def Let_def)
  have w: "(df_name f, 10) \<in> set default_weights" by (simp add: assms(2) default_weights_def)
  have e: "py_round (fmul (py_round (clamp_unit (fl (fl 1))) 12) 10) 12 = 10"
    "py_round (fmul (py_round (clamp_unit (fl (fl 0))) 12) 10) 12 = 0" by code_simp code_simp
  from component_at [OF w v] e show ?thesis by (simp add: indicator_if_def)
qed

lemma direct_fit_component:
  assumes "f \<in> set (candidate_features ctx stage c default_profile known t)"
    and "df_name f = ''direct_request_fit''" and "tc_key c \<noteq> ''direct_answer.bounded''"
  shows "component default_profile f = 0"
proof -
  have v: "df_value f = Some 0"
    using assms by (auto simp: candidate_features_def mk_feature_def Let_def indicator_if_def)
  have w: "(df_name f, 20) \<in> set default_weights" by (simp add: assms(2) default_weights_def)
  have "py_round (fmul (py_round (clamp_unit (fl (fl 0))) 12) 20) 12 = 0" by code_simp
  with component_at [OF w v] show ?thesis by simp
qed

lemma in_stage_total:
  assumes "stage \<in> set (tc_stages c)"
    and fs: "fs_features fs = candidate_features ctx stage c default_profile known t"
    and s: "score_candidate fs default_profile = Inr s"
  shows "8 \<le> cs_total s"
proof -
  let ?g = "\<lambda>n w. if n = ''stage_fit'' then 10 else low_component w"
  have "py_round (fsum (map (\<lambda>(n, w). ?g n w) default_weights)) 12 \<le> cs_total s"
    by (rule default_total_ge [OF s])
      (use stage_fit_component default_component_range(1) assms(1) in \<open>auto simp: fs candidate_feature_names\<close>)
  moreover have "8 \<le> py_round (fsum (map (\<lambda>(n, w). ?g n w) default_weights)) 12" by code_simp
  ultimately show ?thesis by simp
qed

lemma out_of_stage_total:
  assumes "stage \<notin> set (tc_stages c)" and "tc_key c \<noteq> ''direct_answer.bounded''"
    and fs: "fs_features fs = candidate_features ctx stage c default_profile known t"
    and s: "score_candidate fs default_profile = Inr s"
  shows "cs_total s \<le> 7"
proof -
  let ?g = "\<lambda>n w. if n = ''stage_fit'' \<or> n = ''direct_request_fit'' then 0 else high_component w"
  have "cs_total s \<le> py_round (fsum (map (\<lambda>(n, w). ?g n w) default_weights)) 12"
    by (rule default_total_le [OF s])
      (use stage_fit_component direct_fit_component assms(1,2) default_component_range(2)
        in \<open>auto simp: fs candidate_feature_names\<close>)
  moreover have "py_round (fsum (map (\<lambda>(n, w). ?g n w) default_weights)) 12 = 7" by code_simp
  ultimately show ?thesis by simp
qed

lemma candidate_total_scored:
  assumes "candidate_total ctx stage (tc_key c) p = Inr x" and "c \<in> set candidate_table"
  obtains fs known t s where "fs_features fs = candidate_features ctx stage c p known t"
    "score_candidate fs p = Inr s" "cs_total s = x"
proof -
  from assms table_by_key [OF assms(2)] obtain fs s where "scored ctx stage p c fs s" "cs_total s = x"
    by (auto simp: candidate_total_def res_simps scored_def)
  moreover from this scored_features [OF _ assms(2)] obtain known t where
    "fs_features fs = candidate_features ctx stage c p known t" by blast
  ultimately show thesis by (intro that) (auto simp: scored_def)
qed

lemma stage_margin:
  assumes "8 \<le> x" and "y \<le> 7"
  shows "pp_switch_margin default_profile \<le> py_round (fsub x y) 12"
proof -
  have "pp_switch_margin default_profile \<le> py_round (fl 1) 12" by code_simp
  also have "\<dots> \<le> py_round (fsub x y) 12"
    unfolding fsub_def using assms by (intro dec.monotone fl_mono) simp
  finally show ?thesis .
qed

lemma proposal_total:
  assumes "decide env ctx b p asg = Inr d" and "candidate_key_for_action (pd_action d) = Some k"
  shows "trace_total (pd_trace d) k = candidate_total ctx (ta_stage (pd_action d)) k p"
  using assms(1)
proof (rule decide_elim)
  fix vi stage sets scores best tie c
  let ?cs = "legal_candidates env ctx p stage"
  assume l1: "list_all2 (\<lambda>c f. build_candidate_features ctx stage c p = Inr f) ?cs sets"
    and l2: "list_all2 (\<lambda>f s. score_candidate f p = Inr s) sets scores"
    and a: "pd_action d = make_action ctx b vi stage c
       (stable_uuid env ''decision'' (semantic_key ctx b asg (tc_key c)))
       (stable_uuid env ''action'' (dict_set ''decision_id''
          (Some (stable_uuid env ''decision'' (semantic_key ctx b asg (tc_key c))))
          (semantic_key ctx b asg (tc_key c))))"
    and t: "pd_trace d = make_trace ctx b asg vi (evaluate_hard_constraints env ctx p candidate_table)
       stage ?cs sets scores c tie (pd_action d)"
  have stage: "ta_stage (pd_action d) = stage" by (simp add: a make_action_def)
  have "length scores = length sets" using scored_pipeline(1,2) [OF l1 l2] by simp
  then have scores: "map se_score (dt_scores (pd_trace d)) = scores"
    by (simp add: t make_trace_def score_entries_def comp_def split_def)
  obtain e where e: "first_match (\<lambda>e. cs_key (se_score e) = k) (dt_scores (pd_trace d)) = Some e"
    using proposal_score [OF assms] by (auto simp: trace_total_def split: option.splits)
  from first_match_Some [OF e] have "se_score e \<in> set scores" and key: "cs_key (se_score e) = k"
    by (auto simp flip: scores)
  then obtain i where i: "i < length scores" "scores ! i = se_score e" by (auto simp: in_set_conv_nth)
  let ?x = "?cs ! i"
  have x: "?x \<in> set ?cs" using i scored_pipeline(2) [OF l1 l2] by simp
  have sc: "scored ctx stage p ?x (sets ! i) (se_score e)"
    using scored_pipeline(3) [OF l1 l2, of i] i scored_pipeline(2) [OF l1 l2] by simp
  have "tc_key ?x = k" using scored_key [OF sc legal_in_table [OF x]] key by simp
  with table_by_key [OF legal_in_table [OF x]] sc e show ?thesis
    by (simp add: trace_total_def candidate_total_def scored_def stage)
qed

lemma stage_advantage:
  assumes "decide env ctx b default_profile asg = Inr d"
    and "candidate_key_for_action (pd_action d) = Some nk"
    and "candidate_total ctx (ta_stage (pd_action d)) (tc_key c) default_profile = Inr s1"
    and "trace_total (pd_trace d) nk = Inr s2" and "c \<in> set candidate_table"
    and "ta_stage (pd_action d) \<notin> set (tc_stages c)" and "tc_key c \<noteq> ''direct_answer.bounded''"
  shows "pp_switch_margin default_profile \<le> py_round (fsub s2 s1) 12"
proof -
  obtain c' :: candidate where c': "c' \<in> set (legal_candidates env ctx default_profile (ta_stage (pd_action d)))"
    "candidate_key_for_action (pd_action d) = Some (tc_key c')"
    using assms(1) by (rule decided_candidate) (rule that)
  have t: "ta_stage (pd_action d) \<in> set (tc_stages c')" "c' \<in> set candidate_table"
    using c'(1) by (auto simp: legal_candidates_iff)
  have "candidate_total ctx (ta_stage (pd_action d)) (tc_key c') default_profile = Inr s2"
    using proposal_total [OF assms(1,2)] assms(2,4) c'(2) by simp
  then have "8 \<le> s2" by (rule candidate_total_scored [OF _ t(2)]) (use in_stage_total [OF t(1)] in auto)
  moreover from assms(3) have "s1 \<le> 7"
    by (rule candidate_total_scored [OF _ assms(5)]) (use out_of_stage_total [OF assms(6,7)] in auto)
  ultimately show ?thesis by (rule stage_margin)
qed

section \<open>A concrete switch\<close>

text \<open>The learner has succeeded with assistance since; two assessment results were observed.\<close>

definition guided_ctx :: "teaching_action \<Rightarrow> teaching_context" where
  "guided_ctx a = (follow_ctx a)\<lparr>ctx_assisted_success := [demo_objective]\<rparr>"

definition demo_result :: "string \<Rightarrow> evidence_signal" where
  "demo_result i = \<lparr>es_signal_id = i, es_kind = ASSESSMENT_RESULT,
     es_ref = Some (mk_ref ''assessment_result'' i (VerI 1)), es_occurred_at = 0, es_attributes = []\<rparr>"

definition demo_evidence :: "classified_evidence list" where
  "demo_evidence = [classified_as (demo_result ''r1'') True ''MATERIAL_EXACT_EVIDENCE'',
     classified_as (demo_result ''r2'') True ''MATERIAL_EXACT_EVIDENCE'']"

lemma results_classified:
  "classify_material_evidence demo_env [demo_result ''r1'', demo_result ''r2''] default_profile (Aware 0) =
     Inr demo_evidence"
  by (simp add: classify_material_evidence_def classify_signal_def demo_result_def material_kinds_def demo_evidence_def)

lemma guided_legal:
  "forbids demo_env (guided_ctx a) default_profile cand_direct"
  "\<not> forbids demo_env (guided_ctx a) default_profile cand_guided"
  "\<not> forbids demo_env (guided_ctx a) default_profile cand_explicit"
proof -
  have "activity_text demo_env (guided_ctx a) = ''lesson''"
    using demo_activity_text by (simp add: activity_text_def guided_ctx_def follow_ctx_def)
  then have ni: "\<not> is_independent_assessment demo_env (guided_ctx a)"
    by (simp add: is_independent_assessment_def assessment_markers_def)
  show "forbids demo_env (guided_ctx a) default_profile cand_direct"
    by (simp add: forbids_def) (simp add: guided_ctx_def follow_ctx_def demo_ctx_def)
  show "\<not> forbids demo_env (guided_ctx a) default_profile cand_guided"
    "\<not> forbids demo_env (guided_ctx a) default_profile cand_explicit"
    using default_no_conflict ni
    by (simp_all add: forbids_def unsupported_keys_def)
       (simp_all add: guided_ctx_def follow_ctx_def demo_ctx_def)
qed

lemma guided_stage: "derive_teaching_stage (guided_ctx a) default_profile = Inr TS_GUIDED_PRACTICE"
  by code_simp

lemma guided_decides: "\<exists>d. decide demo_env (guided_ctx a) demo_bundle default_profile None = Inr d"
proof (rule decide_continue [OF _ default_no_conflict guided_stage _ default_sound])
  have "assert_matches default_profile demo_bundle = Inr ()" by code_simp
  moreover have "missing_refs (guided_ctx a) = []"
    by (simp add: missing_refs_def required_refs_def optional_refs_def value_fields_def guided_ctx_def
        follow_ctx_def map_filter_simps) (simp add: demo_ctx_def known_value_def missing_value_def)
  moreover have "ctx_assignment_ref (guided_ctx a) = None" by (simp add: guided_ctx_def follow_ctx_def demo_ctx_def)
  ultimately show "validate_policy_input (guided_ctx a) demo_bundle default_profile None =
      Inr \<lparr>vi_context_ref = mk_ref ''teaching_context'' (ctx_id (guided_ctx a)) (VerS (ctx_schema_version (guided_ctx a))),
           vi_bundle_ref = mk_ref ''policy_bundle'' (pb_bundle_id demo_bundle) (VerS (pb_policy_version demo_bundle))\<rparr>"
    by (simp add: validate_policy_input_def)
  have "cand_guided \<in> set (legal_candidates demo_env (guided_ctx a) default_profile TS_GUIDED_PRACTICE)"
    using guided_legal by (simp add: legal_candidates_iff table_members)
  then show "legal_candidates demo_env (guided_ctx a) default_profile TS_GUIDED_PRACTICE \<noteq> []" by auto
  show "hashable (va_value (ctx_error_type (guided_ctx a)))"
    by (simp add: guided_ctx_def follow_ctx_def demo_ctx_def known_value_def)
qed

lemma guided_selected:
  assumes "decide demo_env (guided_ctx a) demo_bundle default_profile None = Inr d"
  shows "candidate_key_for_action (pd_action d) = Some ''guided_practice.core''"
    and "ta_stage (pd_action d) = TS_GUIDED_PRACTICE"
  using assms
proof (atomize (full), rule decided_candidate)
  fix c :: candidate
  assume c: "c \<in> set (legal_candidates demo_env (guided_ctx a) default_profile (ta_stage (pd_action d)))"
    "candidate_key_for_action (pd_action d) = Some (tc_key c)"
    and s: "derive_teaching_stage (guided_ctx a) default_profile = Inr (ta_stage (pd_action d))"
  have st: "ta_stage (pd_action d) = TS_GUIDED_PRACTICE" using s guided_stage [of a] by simp
  with c have "TS_GUIDED_PRACTICE \<in> set (tc_stages c)" "c \<in> set candidate_table"
    "\<not> forbids demo_env (guided_ctx a) default_profile c"
    by (auto simp: legal_candidates_iff)
  with guided_legal(1) [of a] have "c = cand_guided" by (auto simp: table_members)
  with c st show "candidate_key_for_action (pd_action d) = Some ''guided_practice.core'' \<and>
      ta_stage (pd_action d) = TS_GUIDED_PRACTICE" by simp
qed

definition guided_turn :: "policy_decision \<Rightarrow> exn + sequential_decision" where
  "guided_turn d = seq_decide demo_env (Aware 0) (guided_ctx (pd_action d)) demo_bundle default_profile
     (first_state d) [demo_result ''r1'', demo_result ''r2''] None"

lemma guided_no_failures: "\<not> failures_repeated (guided_ctx a) default_profile"
  by (simp add: failures_repeated_def guided_ctx_def follow_ctx_def demo_ctx_def dict_get_def default_profile_def)

lemma guided_keys: "new_keys (first_state d) demo_evidence = [''ASSESSMENT_RESULT:assessment_result:r1:1'',
    ''ASSESSMENT_RESULT:assessment_result:r2:1'']"
proof -
  have "int_str 1 = ''1''" by code_simp
  then show ?thesis
    by (simp add: new_keys_def first_state_def material_keys_def demo_evidence_def map_filter_simps
        material_key_def classified_as_def demo_result_def)
qed

lemma guided_turn_switches:
  "\<exists>d r. decide demo_env demo_ctx demo_bundle default_profile None = Inr d \<and> guided_turn d = Inr r \<and> switched r"
proof -
  obtain d where d: "decide demo_env demo_ctx demo_bundle default_profile None = Inr d"
    using demo_decides by blast
  obtain d' where d': "decide demo_env (guided_ctx (pd_action d)) demo_bundle default_profile None = Inr d'"
    using guided_decides by blast
  have m: "matches_action cand_explicit (sq_previous_action (first_state d))"
    using demo_selects_explicit [OF d] by simp
  have prev: "exact_previous_ref (guided_ctx (pd_action d)) (sq_previous_action (first_state d)) = Inr ()"
    using follow_previous [of "pd_action d"] by (simp add: exact_previous_ref_def guided_ctx_def)
  obtain r where r: "guided_turn d = Inr r"
    using seq_continue [OF default_sound d' prev explicit_in_table m results_classified]
    by (auto simp: guided_turn_def)
  from r have "switched r"
    unfolding guided_turn_def
  proof (rule seq_step)
    fix proposed pk nk classified s1 s2
    assume *: "decide demo_env (guided_ctx (pd_action d)) demo_bundle default_profile None = Inr proposed"
      "candidate_key_for_action (sq_previous_action (first_state d)) = Some pk"
      "candidate_key_for_action (pd_action proposed) = Some nk"
      "classify_material_evidence demo_env [demo_result ''r1'', demo_result ''r2''] default_profile (Aware 0) = Inr classified"
      "candidate_total (guided_ctx (pd_action d)) (ta_stage (pd_action proposed)) pk default_profile = Inr s1"
      "trace_total (pd_trace proposed) nk = Inr s2"
      and ch: "transition_choice default_profile classified
        (pk \<in> set (he_forbidden (evaluate_hard_constraints demo_env (guided_ctx (pd_action d)) default_profile candidate_table)))
        (failures_repeated (guided_ctx (pd_action d)) default_profile) (nk = pk)
        (total_opportunities (first_state d) classified) (py_round (fsub s2 s1) 12) = (switched r, sd_reason r)"
    have cl: "classified = demo_evidence" using *(4) results_classified by simp
    have pk: "pk = tc_key cand_explicit" using matches_candidate_key [OF explicit_in_table m] *(2) by simp
    have nk: "nk = ''guided_practice.core''" and st: "ta_stage (pd_action proposed) = TS_GUIDED_PRACTICE"
      using guided_selected [OF *(1)] *(3) by simp_all
    have nf: "pk \<notin> set (he_forbidden (evaluate_hard_constraints demo_env (guided_ctx (pd_action d)) default_profile candidate_table))"
      using forbidden_iff_forbids [OF explicit_in_table] guided_legal(3) by (simp add: pk)
    have ne: "nk \<noteq> pk" by (simp add: nk pk)
    have mat: "list_ex ce_material classified" "\<not> explicit_request classified"
      by (simp_all add: cl demo_evidence_def classified_as_def explicit_request_def demo_result_def)
    have dwell: "\<not> total_opportunities (first_state d) classified < pp_minimum_dwell default_profile"
      by (simp add: total_opportunities_def cl guided_keys) (simp add: first_state_def default_profile_def)
    have delta: "\<not> py_round (fsub s2 s1) 12 < pp_switch_margin default_profile"
      using stage_advantage [OF *(1,3) *(5) [unfolded pk] *(6) explicit_in_table] by (simp add: st not_less)
    show "switched r"
      using ch nf guided_no_failures ne mat dwell delta by (simp add: transition_choice_def)
  qed
  with d r show ?thesis by blast
qed

theorem seq_voluntary_switch_witness:
  "\<exists>d r. guided_turn d = Inr r \<and> switched r \<and>
     candidate_key_for_action (pd_action (sd_decision r)) \<noteq> Some ''explicit_instruction.core''"
proof -
  obtain d r where d: "decide demo_env demo_ctx demo_bundle default_profile None = Inr d"
    and r: "guided_turn d = Inr r" and s: "switched r" using guided_turn_switches by blast
  have m: "matches_action cand_explicit (sq_previous_action (first_state d))"
    using demo_selects_explicit [OF d] by simp
  have "\<not> explicit_request demo_evidence"
    by (simp add: demo_evidence_def classified_as_def explicit_request_def demo_result_def)
  from seq_voluntary_switch [OF r [unfolded guided_turn_def] s results_classified explicit_in_table m
      guided_legal(3) guided_no_failures this] r s
  show ?thesis by auto
qed

section \<open>Progress: a strategy that left its stage\<close>

text \<open>Under the shipped profile hysteresis never keeps a strategy that no longer fits
  the derived stage: once the minimum number of evidence opportunities is reached, the layer
  switches to a candidate of the stage.\<close>

theorem seq_leaves_unfit_stage:
  assumes "seq_decide env now ctx b default_profile st signals asg = Inr r"
    and "classify_material_evidence env signals default_profile now = Inr classified"
    and "list_ex ce_material classified"
    and "2 \<le> sq_opportunities st + int (length (new_keys st classified))"
    and "c \<in> set candidate_table" and "matches_action c (sq_previous_action st)"
    and "tc_key c \<noteq> ''direct_answer.bounded''"
    and "derive_teaching_stage ctx default_profile = Inr stage" and "stage \<notin> set (tc_stages c)"
  shows "switched r \<and> ta_stage (pd_action (sd_decision r)) = stage \<and>
    (\<exists>c' \<in> set candidate_table. matches_action c' (pd_action (sd_decision r)) \<and> stage \<in> set (tc_stages c'))"
  using assms(1)
proof (rule seq_step)
  fix proposed pk nk classified' s1 s2
  assume *: "decide env ctx b default_profile asg = Inr proposed"
      "candidate_key_for_action (sq_previous_action st) = Some pk"
      "candidate_key_for_action (pd_action proposed) = Some nk"
      "classify_material_evidence env signals default_profile now = Inr classified'"
      "candidate_total ctx (ta_stage (pd_action proposed)) pk default_profile = Inr s1"
      "trace_total (pd_trace proposed) nk = Inr s2"
    and ch: "transition_choice default_profile classified'
        (pk \<in> set (he_forbidden (evaluate_hard_constraints env ctx default_profile candidate_table)))
        (failures_repeated ctx default_profile) (nk = pk) (total_opportunities st classified')
        (py_round (fsub s2 s1) 12) = (switched r, sd_reason r)"
    and sw: "switched r \<Longrightarrow> pd_action (sd_decision r) = pd_action proposed"
  obtain c' :: candidate where c': "c' \<in> set (legal_candidates env ctx default_profile (ta_stage (pd_action proposed)))"
    "matches_action c' (pd_action proposed)" "candidate_key_for_action (pd_action proposed) = Some (tc_key c')"
    "derive_teaching_stage ctx default_profile = Inr (ta_stage (pd_action proposed))"
    using *(1) by (rule decided_candidate) (rule that)
  have st: "ta_stage (pd_action proposed) = stage" using c'(4) assms(8) by simp
  have t: "c' \<in> set candidate_table" "stage \<in> set (tc_stages c')"
    using c'(1) by (auto simp: legal_candidates_iff st)
  have pk: "pk = tc_key c" using matches_candidate_key [OF assms(5,6)] *(2) by simp
  have nk: "nk = tc_key c'" using c'(3) *(3) by simp
  have ne: "nk \<noteq> pk"
    using t assms(5,9) table.key_identifies [OF t(1) assms(5)] by (auto simp: pk nk)
  have cl: "classified' = classified" using *(4) assms(2) by simp
  have margin: "\<not> py_round (fsub s2 s1) 12 < pp_switch_margin default_profile"
    using stage_advantage [OF *(1,3) *(5) [unfolded pk] *(6) assms(5)] assms(7,9) by (simp add: st not_less)
  have "pp_minimum_dwell default_profile = 2" by (simp add: default_profile_def)
  then have dwell: "\<not> total_opportunities st classified' < pp_minimum_dwell default_profile"
    using assms(4) by (simp add: total_opportunities_def cl)
  have "switched r"
    using ch ne margin dwell assms(3) by (simp add: transition_choice_def cl split: if_splits)
  with sw st t c'(2) show ?thesis by auto
qed

theorem seq_leaves_unfit_stage_witness:
  "\<exists>d r. guided_turn d = Inr r \<and> ta_stage (pd_action (sd_decision r)) = TS_GUIDED_PRACTICE"
proof -
  obtain d r where d: "decide demo_env demo_ctx demo_bundle default_profile None = Inr d"
    and r: "guided_turn d = Inr r" using guided_turn_switches by blast
  have m: "matches_action cand_explicit (sq_previous_action (first_state d))"
    using demo_selects_explicit [OF d] by simp
  have mat: "list_ex ce_material demo_evidence" by (simp add: demo_evidence_def classified_as_def)
  have "2 \<le> sq_opportunities (first_state d) + int (length (new_keys (first_state d) demo_evidence))"
    by (simp add: guided_keys) (simp add: first_state_def)
  from seq_leaves_unfit_stage [OF r [unfolded guided_turn_def] results_classified mat this explicit_in_table m
      _ guided_stage] r
  show ?thesis by auto
qed

section \<open>The state invariant\<close>

definition good_state :: "sequential_state \<Rightarrow> bool" where
  "good_state st \<longleftrightarrow> valid_state st \<and> valid_trace (sq_previous_trace st) \<and>
     valid_action (sq_previous_action st) \<and> candidate_key_for_action (sq_previous_action st) \<noteq> None \<and>
     distinct (sq_observed_keys st) \<and> sq_opportunities st = int (length (sq_observed_keys st))"

lemma next_state_counts:
  assumes "distinct (sq_observed_keys st)" and "sq_opportunities st = int (length (sq_observed_keys st))"
  shows "distinct (sq_observed_keys (next_state st sw cs d))"
    and "sq_opportunities (next_state st sw cs d) = int (length (sq_observed_keys (next_state st sw cs d)))"
  using assms observed_length [OF assms(1), of cs]
  by (simp_all add: next_state_def total_opportunities_def new_keys_def distinct_sort)

lemma held_trace_valid:
  "valid_trace (pd_trace proposed) \<Longrightarrow> valid_trace (held_trace proposed b p e fs s anti reason a)"
  by (simp add: valid_trace_def held_trace_def Let_def)

lemma held_action_valid:
  "valid_action (sq_previous_action st) \<Longrightarrow> pb_candidate_table_version b \<noteq> [] \<Longrightarrow>
     valid_action (held_action proposed ctx b st stage reason i j)"
  by (simp add: valid_action_def held_action_def Let_def)

lemma seq_step_selects:
  assumes "seq_decide env now ctx b p st signals asg = Inr r"
  shows "dt_selected_ref (pd_trace (sd_decision r)) = Some (action_ref (pd_action (sd_decision r))) \<and>
    dt_decision_id (pd_trace (sd_decision r)) = ta_decision_id (pd_action (sd_decision r)) \<and>
    valid_trace (pd_trace (sd_decision r))"
  using assms
proof (rule seq_elim)
  fix proposed pk nk classified d
  assume p: "decide env ctx b p asg = Inr proposed"
    and sw: "ao_switch (the (dt_anti (pd_trace d))) \<Longrightarrow>
       d = switched_decision proposed (the (dt_anti (pd_trace d))) (sd_reason r)"
    and hold: "\<not> ao_switch (the (dt_anti (pd_trace d))) \<Longrightarrow>
       held_decision env proposed ctx b p st pk (the (dt_anti (pd_trace d))) (sd_reason r) = Inr d"
    and r: "sd_decision r = with_material (material_refs classified) d"
  have "dt_selected_ref (pd_trace d) = Some (action_ref (pd_action d)) \<and>
      dt_decision_id (pd_trace d) = ta_decision_id (pd_action d) \<and> valid_trace (pd_trace d)"
  proof (cases "ao_switch (the (dt_anti (pd_trace d)))")
    case True
    obtain anti where "d = switched_decision proposed anti (sd_reason r)" using sw [OF True] by blast
    then show ?thesis using proposal_facts(3-5) [OF p]
      by (simp add: switched_decision_def action_ref_def valid_trace_def)
  next
    case False
    from hold [OF False] show ?thesis
    proof (rule held_elim)
      fix stage entry fs score i j
      assume a: "pd_action d = held_action proposed ctx b st stage (sd_reason r) i j"
        and t: "pd_trace d = held_trace proposed b p entry fs score (the (dt_anti (pd_trace d))) (sd_reason r) (pd_action d)"
      have "valid_trace (pd_trace d)" by (subst t) (rule held_trace_valid [OF proposal_facts(3) [OF p]])
      moreover have "dt_selected_ref (pd_trace d) = Some (action_ref (pd_action d))"
        by (subst t) (simp add: held_trace_def Let_def action_ref_def)
      moreover have "dt_decision_id (pd_trace d) = ta_decision_id (pd_action d)"
        by (subst t) (simp add: held_trace_def Let_def)
      ultimately show ?thesis by blast
    qed
  qed
  with r show ?thesis by simp
qed

lemma good_state_step:
  assumes "good_state st" and "seq_decide env now ctx b p st signals asg = Inr r"
    and "pb_candidate_table_version b \<noteq> []"
  shows "good_state (sd_next r)"
  using assms(2)
proof (rule seq_step)
  fix proposed pk nk classified s1 s2
  assume p: "decide env ctx b p asg = Inr proposed"
    and pk: "candidate_key_for_action (sq_previous_action st) = Some pk"
    and nk: "candidate_key_for_action (pd_action proposed) = Some nk"
    and sw: "switched r \<Longrightarrow> pd_action (sd_decision r) = pd_action proposed"
    and hold: "\<not> switched r \<Longrightarrow> (\<exists>stage i j. pd_action (sd_decision r) =
        held_action proposed ctx b st stage (sd_reason r) i j)"
    and n: "sd_next r = next_state st (switched r) classified (sd_decision r)"
  have k: "candidate_key_for_action (pd_action (sd_decision r)) \<noteq> None \<and> valid_action (pd_action (sd_decision r))"
  proof (cases "switched r")
    case True
    with sw nk proposal_facts(7) [OF p assms(3)] show ?thesis by simp
  next
    case False
    with hold pk assms(1,3) show ?thesis
      by (auto simp: held_action_keeps good_state_def intro: held_action_valid)
  qed
  have c: "distinct (sq_observed_keys (sd_next r))"
    "sq_opportunities (sd_next r) = int (length (sq_observed_keys (sd_next r)))"
    unfolding n using next_state_counts assms(1) by (simp_all add: good_state_def)
  have "sq_previous_action (sd_next r) = pd_action (sd_decision r)"
    "sq_previous_trace (sd_next r) = pd_trace (sd_decision r)"
    by (simp_all add: n next_state_def)
  with k c seq_step_selects [OF assms(2)] show ?thesis
    by (simp add: good_state_def valid_state_def action_ref_def)
qed

text \<open>States a learner's policy can be in: a first decision, any number of turns under any
  contexts, bundles and profiles, and any change of the obligation by its own owner.\<close>

inductive policy_state :: "pyenv \<Rightarrow> sequential_state \<Rightarrow> bool" for env where
  first: "policy_state env (first_state d)"
    if "decide env ctx b p asg = Inr d" "pb_candidate_table_version b \<noteq> []"
| turn: "policy_state env (sd_next r)"
    if "policy_state env st" "seq_decide env now ctx b p st signals asg = Inr r"
      "pb_candidate_table_version b \<noteq> []"
| owner: "policy_state env (st\<lparr>sq_obligation := ob\<rparr>)" if "policy_state env st"

lemma good_first_state:
  assumes "decide env ctx b p asg = Inr d" and "pb_candidate_table_version b \<noteq> []"
  shows "good_state (first_state d)"
proof -
  obtain c :: candidate where "candidate_key_for_action (pd_action d) = Some (tc_key c)"
    using assms(1) by (rule decided_candidate) (rule that)
  with proposal_facts [OF assms(1)] assms(2) show ?thesis
    by (simp add: good_state_def valid_state_def first_state_def)
qed

text \<open>C8: in every reachable state the previous trace selects exactly the previous
  action, both are well formed, the action belongs to the closed table, and the number of
  evidence opportunities is the number of distinct evidence keys observed since the last
  switch.\<close>

theorem policy_state_invariant:
  assumes "policy_state env st"
  shows "valid_state st \<and> valid_trace (sq_previous_trace st) \<and> valid_action (sq_previous_action st) \<and>
    candidate_key_for_action (sq_previous_action st) \<noteq> None \<and> distinct (sq_observed_keys st) \<and>
    sq_opportunities st = int (length (sq_observed_keys st))"
proof -
  from assms have "good_state st"
  proof (induction rule: policy_state.induct)
    case (first ctx b p asg d)
    then show ?case by (rule good_first_state)
  next
    case (turn st now ctx b p signals asg r)
    then show ?case by (blast intro: good_state_step)
  next
    case (owner st ob)
    then show ?case by (auto simp: good_state_def valid_state_def split: option.splits)
  qed
  then show ?thesis by (simp add: good_state_def)
qed

lemma demo_bundle_version: "pb_candidate_table_version demo_bundle \<noteq> []"
  by (simp add: demo_bundle_def)

theorem policy_state_invariant_witness:
  "\<exists>d r. chat_turn d = Inr r \<and> policy_state demo_env (sd_next r) \<and> valid_state (sd_next r)"
proof -
  obtain d r where d: "decide demo_env demo_ctx demo_bundle default_profile None = Inr d"
    and r: "chat_turn d = Inr r" using chat_turn_returns by blast
  have "policy_state demo_env (sd_next r)"
    using policy_state.turn [OF policy_state.first [OF d demo_bundle_version] r [unfolded chat_turn_def] demo_bundle_version] .
  with policy_state_invariant r show ?thesis by blast
qed

end
