(* ===== verification/Continuity.thy ===== *)
theory Continuity
  imports Turns
begin

text \<open>
  What holds across turns: voluntary switches are paid for with evidence, and evidence counts
  once while a strategy is held.
\<close>

section \<open>Bounded oscillation\<close>

definition voluntary :: "pyenv \<Rightarrow> teaching_context \<Rightarrow> policy_profile \<Rightarrow> sequential_state \<Rightarrow>
    classified_evidence list \<Rightarrow> bool" where
  "voluntary env ctx p st classified \<longleftrightarrow>
     (\<exists>k. candidate_key_for_action (sq_previous_action st) = Some k \<and>
        k \<notin> set (he_forbidden (evaluate_hard_constraints env ctx p candidate_table))) \<and>
     \<not> failures_repeated ctx p \<and> \<not> explicit_request classified"

text \<open>\<open>run env p st n m st'\<close>: some turns lead from \<open>st\<close> to \<open>st'\<close>, with \<open>n\<close> voluntary switches and
  \<open>m\<close> evidence opportunities counted on the way.\<close>

inductive run :: "pyenv \<Rightarrow> policy_profile \<Rightarrow> sequential_state \<Rightarrow> nat \<Rightarrow> nat \<Rightarrow> sequential_state \<Rightarrow> bool"
  for env p st where
  start: "run env p st 0 0 st"
| turn: "run env p st (if switched r \<and> voluntary env ctx p st' classified then Suc n else n)
      (m + length (new_keys st' classified)) (sd_next r)"
    if "run env p st n m st'" "seq_decide env now ctx b p st' signals asg = Inr r"
      "classify_material_evidence env signals p now = Inr classified"

lemma voluntary_switch_dwell:
  assumes "seq_decide env now ctx b p st signals asg = Inr r" and "switched r"
    and "classify_material_evidence env signals p now = Inr classified"
    and "voluntary env ctx p st classified"
  shows "pp_minimum_dwell p \<le> total_opportunities st classified"
  using assms(1)
proof (rule seq_step)
  fix proposed pk nk classified' s1 s2
  assume pk: "candidate_key_for_action (sq_previous_action st) = Some pk"
    and cl: "classify_material_evidence env signals p now = Inr classified'"
    and ch: "transition_choice p classified'
        (pk \<in> set (he_forbidden (evaluate_hard_constraints env ctx p candidate_table)))
        (failures_repeated ctx p) (nk = pk) (total_opportunities st classified')
        (py_round (fsub s2 s1) 12) = (switched r, sd_reason r)"
  have "classified' = classified" using cl assms(3) by simp
  with ch assms(2,4) pk show ?thesis
    by (auto simp: transition_choice_def voluntary_def split: if_splits)
qed

lemma seq_next_opportunities:
  assumes "seq_decide env now ctx b p st signals asg = Inr r"
    and "classify_material_evidence env signals p now = Inr classified"
  shows "sq_opportunities (sd_next r) = (if switched r then 0 else total_opportunities st classified)"
    and "set (sq_observed_keys (sd_next r)) =
      (if switched r then {} else set (sq_observed_keys st) \<union> set (material_keys classified))"
  using assms(1)
proof (atomize (full), rule seq_step)
  fix proposed pk nk classified' s1 s2
  assume cl: "classify_material_evidence env signals p now = Inr classified'"
    and n: "sd_next r = next_state st (switched r) classified' (sd_decision r)"
  have "classified' = classified" using cl assms(2) by simp
  with n show "sq_opportunities (sd_next r) = (if switched r then 0 else total_opportunities st classified) \<and>
      set (sq_observed_keys (sd_next r)) =
      (if switched r then {} else set (sq_observed_keys st) \<union> set (material_keys classified))"
    by (simp add: next_state_def)
qed

text \<open>C7: over any run, the voluntary switches cost at least the minimum dwell each: their
  number times the dwell, with what is pending at the end, never exceeds the evidence opportunities counted
  by the turns of the run plus those pending at its start. Each turn counts the material keys not observed
  since the last switch; a switch forgets the observed keys, so the same evidence may be counted again
  after it.\<close>

theorem switches_bounded_by_evidence:
  assumes "run env p st n m st'" and "0 \<le> sq_opportunities st"
  shows "pp_minimum_dwell p * int n + sq_opportunities st' \<le> int m + sq_opportunities st \<and>
    0 \<le> sq_opportunities st'"
  using assms
proof (induction rule: run.induct)
  case start
  then show ?case by simp
next
  case (turn n m st' now ctx b signals asg r classified)
  let ?k = "length (new_keys st' classified)"
  note nx = seq_next_opportunities(1) [OF turn.hyps(2,3)]
  show ?case
  proof (cases "switched r \<and> voluntary env ctx p st' classified")
    case True
    then have "pp_minimum_dwell p \<le> sq_opportunities st' + int ?k"
      using voluntary_switch_dwell [OF turn.hyps(2) _ turn.hyps(3)] by (simp add: total_opportunities_def)
    with True nx turn.IH turn.prems show ?thesis by (simp add: algebra_simps)
  next
    case False
    then show ?thesis using nx turn.IH turn.prems by (auto simp: total_opportunities_def)
  qed
qed

theorem switches_bounded_by_evidence_witness:
  "\<exists>d r. guided_turn d = Inr r \<and> run demo_env default_profile (first_state d) 1 2 (sd_next r)"
proof -
  obtain d r where d: "decide demo_env demo_ctx demo_bundle default_profile None = Inr d"
    and r: "guided_turn d = Inr r" and s: "switched r" using guided_turn_switches by blast
  have m: "matches_action cand_explicit (sq_previous_action (first_state d))"
    using demo_selects_explicit [OF d] by simp
  have "voluntary demo_env (guided_ctx (pd_action d)) default_profile (first_state d) demo_evidence"
    using matches_candidate_key [OF explicit_in_table m] forbidden_iff_forbids [OF explicit_in_table]
      guided_legal(3) guided_no_failures
    by (simp add: voluntary_def explicit_request_def demo_evidence_def classified_as_def demo_result_def)
  then have run: "run demo_env default_profile (first_state d) 1 2 (sd_next r)"
    using run.turn [OF run.start r [unfolded guided_turn_def] results_classified] s guided_keys [of d]
    by (simp add: numeral_2_eq_2)
  have "0 \<le> sq_opportunities (first_state d)" by (simp add: first_state_def)
  from switches_bounded_by_evidence [OF run this] run r show ?thesis by blast
qed

text \<open>Presenting evidence again that a held turn has already counted adds nothing: the
  opportunities stay as they are, however often it is repeated.\<close>

theorem replayed_evidence_counts_once:
  assumes "seq_decide env now ctx b p st signals asg = Inr r" and "\<not> switched r"
    and "classify_material_evidence env signals p now = Inr classified"
  shows "new_keys (sd_next r) classified = [] \<and>
    total_opportunities (sd_next r) classified = sq_opportunities (sd_next r)"
proof -
  have "new_keys (sd_next r) classified = []"
    using seq_next_opportunities(2) [OF assms(1,3)] assms(2) by (simp add: new_keys_def filter_empty_conv)
  then show ?thesis by (simp add: total_opportunities_def)
qed

theorem replayed_evidence_counts_once_witness:
  "\<exists>d r. chat_turn d = Inr r \<and>
     total_opportunities (sd_next r) [classified_as demo_chat False ''NON_MATERIAL_CHAT_TURN''] =
       sq_opportunities (sd_next r)"
proof -
  obtain d r where d: "decide demo_env demo_ctx demo_bundle default_profile None = Inr d"
    and r: "chat_turn d = Inr r" using chat_turn_returns by blast
  have "\<not> switched r"
  proof -
    have f: "candidate_key_for_action (sq_previous_action (first_state d)) = Some (tc_key cand_explicit)"
      using matches_candidate_key [OF explicit_in_table] demo_selects_explicit [OF d] by simp
    from r [unfolded chat_turn_def] show ?thesis
    proof (rule seq_step)
      fix proposed pk nk classified s1 s2
      assume pk: "candidate_key_for_action (sq_previous_action (first_state d)) = Some pk"
        and cl: "classify_material_evidence demo_env [demo_chat] default_profile (Aware 0) = Inr classified"
        and ch: "transition_choice default_profile classified
          (pk \<in> set (he_forbidden (evaluate_hard_constraints demo_env (follow_ctx (pd_action d)) default_profile candidate_table)))
          (failures_repeated (follow_ctx (pd_action d)) default_profile) (nk = pk)
          (total_opportunities (first_state d) classified) (py_round (fsub s2 s1) 12) = (switched r, sd_reason r)"
      have "pk = tc_key cand_explicit" using pk f by simp
      then have "pk \<notin> set (he_forbidden (evaluate_hard_constraints demo_env (follow_ctx (pd_action d)) default_profile candidate_table))"
        using forbidden_iff_forbids [OF explicit_in_table] follow_not_forbidden by simp
      moreover have "classified = [classified_as demo_chat False ''NON_MATERIAL_CHAT_TURN'']"
        using cl chat_classified by simp
      ultimately show ?thesis using ch follow_no_failures [of "pd_action d"]
        by (simp add: transition_choice_def classified_as_def)
    qed
  qed
  with replayed_evidence_counts_once [OF r [unfolded chat_turn_def] _ chat_classified] r show ?thesis by blast
qed

end
