(* ===== verification/Facade.thy ===== *)
theory Facade
  imports Continuity
begin

text \<open>
  The policy half of \<open>app/orchestration/learning_facade.py\<close>: how a canonical turn is routed to
  the kernel or to the sequential layer, which evidence signals are built from the frozen
  context, and how the sequential state is reconstructed from the previous decision trace when
  the request does not carry it.

  The anti-oscillation payload of a trace is the one the sequential layer writes, so the
  guards of the reconstruction against payloads of another shape never fire here.
\<close>

section \<open>Reconstruction of the sequential state\<close>

definition observed_key :: "classified_evidence \<Rightarrow> string option" where
  "observed_key i = (case ce_ref i of None \<Rightarrow> None
     | Some r \<Rightarrow> Some (kind_value (ce_kind i) @ '':'' @ vr_type r @ '':'' @ vr_id r @ '':'' @
         ver_str (vr_version r)))"

definition reconstruct_state :: "teaching_action \<Rightarrow> decision_trace \<Rightarrow> sequential_state" where
  "reconstruct_state a t =
     (let evidence = (case dt_anti t of None \<Rightarrow> [] | Some ao \<Rightarrow> ao_evidence ao);
          baseline = (case dt_anti t of None \<Rightarrow> 0 | Some ao \<Rightarrow> ao_opportunities ao)
      in \<lparr>sq_previous_action = a, sq_previous_trace = t, sq_opportunities = baseline,
          sq_observed_keys = sort (remdups (List.map_filter observed_key evidence)),
          sq_obligation = None\<rparr>)"

section \<open>Evidence signals of a turn\<close>

definition context_signal ::
  "teaching_context \<Rightarrow> string \<Rightarrow> evidence_kind \<Rightarrow> versioned_ref \<Rightarrow> string \<Rightarrow> evidence_signal" where
  "context_signal ctx i k r source = \<lparr>es_signal_id = i, es_kind = k, es_ref = Some r,
     es_occurred_at = ctx_decision_time ctx, es_attributes = [(''source'', VStr source)]\<rparr>"

definition fact_signals :: "teaching_context \<Rightarrow> evidence_signal list" where
  "fact_signals ctx =
    (let f = ctx_fingerprint ctx; origin = ''teaching_context_v03''
     in (case ctx_recent_result_ref ctx of None \<Rightarrow> []
         | Some r \<Rightarrow> [context_signal ctx (''assessment:'' @ f) ASSESSMENT_RESULT r origin]) @
        (case first_match (\<lambda>r. vr_type r = ''LearnerState'') (ctx_source_refs ctx) of None \<Rightarrow> []
         | Some r \<Rightarrow> [context_signal ctx (''learner-state:'' @ f) LEARNER_STATE_UPDATE r origin]) @
        map (\<lambda>r. context_signal ctx (''assisted:'' @ f @ '':'' @ vr_id r) ASSISTANCE_EVENT r origin)
          (ctx_assisted_success ctx) @
        map (\<lambda>r. context_signal ctx (''independent:'' @ f @ '':'' @ vr_id r) INDEPENDENT_ATTEMPT r origin)
          (ctx_independent_success ctx) @
        (if ctx_direct_answer_request ctx
         then [context_signal ctx (''user-request:'' @ f) EXPLICIT_USER_REQUEST (ctx_objective_ref ctx) origin]
         else []) @
        (if va_value (ctx_error_type ctx) = VStr ''UNKNOWN''
         then [context_signal ctx (''probe:'' @ f) DIAGNOSTIC_PROBE (ctx_objective_ref ctx) origin]
         else []))"

definition build_evidence_signals :: "teaching_context \<Rightarrow> evidence_signal list" where
  "build_evidence_signals ctx =
     (if fact_signals ctx = []
      then [context_signal ctx (''chat:'' @ ctx_fingerprint ctx) CHAT_TURN (ctx_objective_ref ctx) ''default'']
      else fact_signals ctx)"

section \<open>Routing of a turn\<close>

record turn_request =
  tr_context :: teaching_context
  tr_bundle :: policy_bundle
  tr_profile :: policy_profile
  tr_state :: "sequential_state option"
  tr_previous_action :: "teaching_action option"
  tr_previous_trace :: "decision_trace option"
  tr_assignment :: "experiment_assignment option"

record turn_policy =
  tp_decision :: policy_decision
  tp_state :: "sequential_state option"
  tp_reason :: "string option"

definition prior_state :: "turn_request \<Rightarrow> exn + sequential_state" where
  "prior_state q =
     (case tr_state q of
        Some st \<Rightarrow> Inr st
      | None \<Rightarrow>
          (case (tr_previous_action q, tr_previous_trace q) of
             (Some a, Some t) \<Rightarrow> Inr (reconstruct_state a t)
           | _ \<Rightarrow> Inl (ValueError
               ''Sequential decision requires previous TeachingAction and DecisionTrace'')))"

definition decide_turn :: "pyenv \<Rightarrow> turn_request \<Rightarrow> exn + turn_policy" where
  "decide_turn env q =
     (let ctx = tr_context q
      in if ctx_previous_action_ref ctx \<noteq> None
         then bind_res (prior_state q) (\<lambda>st.
              bind_res (seq_decide env (Aware (ctx_decision_time ctx)) ctx (tr_bundle q) (tr_profile q) st
                  (build_evidence_signals ctx) (tr_assignment q)) (\<lambda>r.
                Inr \<lparr>tp_decision = sd_decision r, tp_state = Some (sd_next r), tp_reason = Some (sd_reason r)\<rparr>))
         else bind_res (decide env ctx (tr_bundle q) (tr_profile q) (tr_assignment q)) (\<lambda>d.
                Inr \<lparr>tp_decision = d, tp_state = None, tp_reason = None\<rparr>))"

lemma observed_key_material:
  "ce_material i \<Longrightarrow> observed_key i = material_key i"
  by (cases "ce_ref i") (simp_all add: observed_key_def material_key_def)

lemma context_signal_simps [simp]:
  "es_kind (context_signal ctx i k r source) = k" "es_ref (context_signal ctx i k r source) = Some r"
  by (simp_all add: context_signal_def)

lemma context_signals_material:
  assumes "fact_signals ctx \<noteq> []" and "classify_material_evidence env (build_evidence_signals ctx) p now = Inr cs"
  shows "list_all ce_material cs" and "cs \<noteq> []"
proof -
  have sig: "build_evidence_signals ctx = fact_signals ctx" using assms(1) by (simp add: build_evidence_signals_def)
  have all: "list_all2 (\<lambda>s c. classify_signal env p now s = Inr c) (fact_signals ctx) cs"
    using assms(2) by (simp add: sig classify_material_evidence_def map_res_Inr_iff)
  have mat: "es_kind s \<in> material_kinds \<and> es_ref s \<noteq> None" if "s \<in> set (fact_signals ctx)" for s
    using that
    by (auto simp: fact_signals_def Let_def material_kinds_def split: option.splits if_splits) metis+
  have "ce_material c" if c: "c \<in> set cs" for c
    using list_all2_right [OF all c] mat by (auto simp: classify_signal_def classified_as_def)
  then show "list_all ce_material cs" by (simp add: list_all_iff)
  show "cs \<noteq> []" using all assms(1) by auto
qed

text \<open>A context that names a previous action is never decided by a first-turn
  bootstrap: the turn fails, or its decision comes from the sequential layer with a transition
  reason and a next state; only a context without one goes to the kernel.\<close>

theorem turn_routing_fail_closed:
  assumes "decide_turn env q = Inr t"
  shows "(tp_reason t = None \<longleftrightarrow> ctx_previous_action_ref (tr_context q) = None) \<and>
    (tp_state t = None \<longleftrightarrow> tp_reason t = None) \<and>
    (tp_reason t = None \<longrightarrow>
       decide env (tr_context q) (tr_bundle q) (tr_profile q) (tr_assignment q) = Inr (tp_decision t)) \<and>
    (\<forall>r. ctx_previous_action_ref (tr_context q) = Some r \<longrightarrow>
       tr_state q \<noteq> None \<or> tr_previous_action q \<noteq> None \<and> tr_previous_trace q \<noteq> None)"
  using assms
  by (auto simp: decide_turn_def Let_def prior_state_def res_simps split: if_splits option.splits)

definition first_request :: turn_request where
  "first_request = \<lparr>tr_context = demo_ctx, tr_bundle = demo_bundle, tr_profile = default_profile,
     tr_state = None, tr_previous_action = None, tr_previous_trace = None, tr_assignment = None\<rparr>"

theorem turn_routing_fail_closed_witness:
  "\<exists>t. decide_turn demo_env first_request = Inr t \<and> tp_reason t = None"
proof -
  have n: "ctx_previous_action_ref (tr_context first_request) = None"
    by (simp add: first_request_def demo_ctx_def)
  obtain d where "decide demo_env demo_ctx demo_bundle default_profile None = Inr d"
    using demo_decides by blast
  then obtain t where t: "decide_turn demo_env first_request = Inr t"
    using n by (auto simp: decide_turn_def Let_def first_request_def)
  with turn_routing_fail_closed [OF t] n show ?thesis by blast
qed

section \<open>What the reconstruction loses\<close>

text \<open>C9: the reconstruction agrees with the sequential layer's own next state only as
  far as the count goes, and only after a held turn.  After a voluntary switch the layer starts
  again from zero, while the reconstructed state still carries the opportunities that paid for
  that switch, so the minimum dwell can never hold back the next one; and the validation
  obligation is gone in either case.\<close>

theorem reconstruction_loses_dwell:
  assumes "seq_decide env now ctx b p st signals asg = Inr r"
    and "classify_material_evidence env signals p now = Inr classified"
  shows "(\<not> switched r \<longrightarrow>
      sq_opportunities (reconstruct_state (pd_action (sd_decision r)) (pd_trace (sd_decision r))) =
      sq_opportunities (sd_next r)) \<and>
    (switched r \<and> voluntary env ctx p st classified \<longrightarrow>
      sq_opportunities (sd_next r) = 0 \<and>
      (\<forall>classified'. pp_minimum_dwell p \<le> total_opportunities
        (reconstruct_state (pd_action (sd_decision r)) (pd_trace (sd_decision r))) classified')) \<and>
    sq_obligation (reconstruct_state (pd_action (sd_decision r)) (pd_trace (sd_decision r))) = None"
proof -
  have anti: "sq_opportunities (reconstruct_state (pd_action (sd_decision r)) (pd_trace (sd_decision r))) =
      total_opportunities st classified"
    using assms(1)
  proof (rule seq_step)
    fix proposed pk nk classified' s1 s2
    assume cl: "classify_material_evidence env signals p now = Inr classified'"
      and a: "dt_anti (pd_trace (sd_decision r)) = Some (anti_record b p (switched r) (sd_reason r) pk nk
        classified' (total_opportunities st classified') (py_round (fsub s2 s1) 12) now)"
    have "classified' = classified" using cl assms(2) by simp
    with a show ?thesis by (simp add: reconstruct_state_def anti_record_def)
  qed
  note nx = seq_next_opportunities(1) [OF assms]
  have "pp_minimum_dwell p \<le> total_opportunities
        (reconstruct_state (pd_action (sd_decision r)) (pd_trace (sd_decision r))) classified'"
    if "switched r" "voluntary env ctx p st classified" for classified'
    using voluntary_switch_dwell [OF assms(1) that(1) assms(2) that(2)] anti
    by (simp add: total_opportunities_def)
  moreover have "sq_obligation (reconstruct_state (pd_action (sd_decision r)) (pd_trace (sd_decision r))) = None"
    by (simp add: reconstruct_state_def Let_def)
  ultimately show ?thesis using nx anti by auto
qed

theorem reconstruction_loses_dwell_witness:
  "\<exists>d r. guided_turn d = Inr r \<and> sq_opportunities (sd_next r) = 0 \<and>
     2 \<le> total_opportunities (reconstruct_state (pd_action (sd_decision r)) (pd_trace (sd_decision r))) []"
proof -
  obtain d r where d: "decide demo_env demo_ctx demo_bundle default_profile None = Inr d"
    and r: "guided_turn d = Inr r" and s: "switched r" using guided_turn_switches by blast
  have m: "matches_action cand_explicit (sq_previous_action (first_state d))"
    using demo_selects_explicit [OF d] by simp
  have v: "voluntary demo_env (guided_ctx (pd_action d)) default_profile (first_state d) demo_evidence"
    using matches_candidate_key [OF explicit_in_table m] forbidden_iff_forbids [OF explicit_in_table]
      guided_legal(3) guided_no_failures
    by (simp add: voluntary_def explicit_request_def demo_evidence_def classified_as_def demo_result_def)
  have "pp_minimum_dwell default_profile = 2" by (simp add: default_profile_def)
  with reconstruction_loses_dwell [OF r [unfolded guided_turn_def] results_classified] s v r
  show ?thesis by (metis (no_types))
qed

end
