(* ===== verification/Obligation.thy ===== *)
theory Obligation
  imports Facade
begin

text \<open>
  \<open>app/domains/teaching_policy/validation_obligation.py\<close>: the obligation of an independent
  validation is created by an assisted or answer-exposed success and satisfied only by a fresh
  independent one.
\<close>

definition attempt_ref :: "attempt_v03 \<Rightarrow> versioned_ref" where
  "attempt_ref a = mk_ref ''assessment_attempt'' (at_id a) (VerS (at_schema_version a))"

definition result_ref :: "result_v03 \<Rightarrow> versioned_ref" where
  "result_ref r = mk_ref ''assessment_result'' (rs_id r) (VerI (rs_version r))"

definition accepted_pass :: "result_v03 \<Rightarrow> bool" where
  "accepted_pass r \<longleftrightarrow> rs_passed r = Some True \<and> rs_reviewer r = ACCEPTED"

definition experienced :: "attempt_v03 \<Rightarrow> result_v03 \<Rightarrow> assistance_state set" where
  "experienced a r = {as_state (at_assistance a), as_state (rs_assistance r)}"

definition independent_success :: "attempt_v03 \<Rightarrow> result_v03 \<Rightarrow> bool" where
  "independent_success a r \<longleftrightarrow> accepted_pass r \<and>
     as_state (at_assistance a) = INDEPENDENT \<and> as_state (rs_assistance r) = INDEPENDENT"

definition exposed_success :: "attempt_v03 \<Rightarrow> result_v03 \<Rightarrow> bool" where
  "exposed_success a r \<longleftrightarrow> accepted_pass r \<and> experienced a r \<inter> {ASSISTED, ANSWER_EXPOSED} \<noteq> {}"

definition fresh_attempt :: "validation_record \<Rightarrow> attempt_v03 \<Rightarrow> bool" where
  "fresh_attempt c a \<longleftrightarrow> iv_created c < at_submitted a \<and> vr_id (attempt_ref a) \<noteq> vr_id (iv_source_attempt c)"

definition satisfy_record :: "validation_record \<Rightarrow> attempt_v03 \<Rightarrow> result_v03 \<Rightarrow> validation_record" where
  "satisfy_record c a r = c\<lparr>iv_status := SATISFIED, iv_satisfied_at := Some (rs_created r),
     iv_satisfying_attempt := Some (attempt_ref a), iv_satisfying_result := Some (result_ref r),
     iv_reason_codes := iv_reason_codes c @ [''FRESH_INDEPENDENT_VALIDATION_ACCEPTED'']\<rparr>"

definition required_record :: "pyenv \<Rightarrow> attempt_v03 \<Rightarrow> result_v03 \<Rightarrow> validation_record" where
  "required_record env a r =
     (let state = (if ANSWER_EXPOSED \<in> experienced a r then ANSWER_EXPOSED else ASSISTED)
      in \<lparr>iv_id = uuid5 env (''askora:validation:'' @ at_id a @ '':'' @ rs_id r @ '':'' @ assistance_value state),
          iv_status = REQUIRED, iv_created = rs_created r, iv_source_attempt = attempt_ref a,
          iv_source_result = result_ref r, iv_assistance = state, iv_satisfied_at = None,
          iv_satisfying_attempt = None, iv_satisfying_result = None,
          iv_reason_codes = [assistance_value state @ ''_SUCCESS_REQUIRES_INDEPENDENT_VALIDATION'']\<rparr>)"

definition advance_validation_obligation ::
  "pyenv \<Rightarrow> validation_record option \<Rightarrow> attempt_v03 \<Rightarrow> result_v03 \<Rightarrow> validation_record option" where
  "advance_validation_obligation env current a r =
     (if rs_attempt r \<noteq> at_id a then current
      else case current of
        Some c \<Rightarrow>
          if iv_status c = REQUIRED \<and> independent_success a r \<and> fresh_attempt c a
          then Some (satisfy_record c a r) else current
      | None \<Rightarrow> if exposed_success a r then Some (required_record env a r) else None)"

definition advance_all ::
  "pyenv \<Rightarrow> validation_record option \<Rightarrow> (attempt_v03 \<times> result_v03) list \<Rightarrow> validation_record option" where
  "advance_all env = foldl (\<lambda>c e. advance_validation_obligation env c (fst e) (snd e))"

section \<open>Machines with absorbing states\<close>

locale absorbing_machine =
  fixes step :: "'s \<Rightarrow> 'e \<Rightarrow> 's"
    and absorbed :: "'s \<Rightarrow> bool"
  assumes absorb: "absorbed s \<Longrightarrow> step s e = s"
begin

lemma stays: "absorbed s \<Longrightarrow> foldl step s es = s"
  by (induction es) (simp_all add: absorb)

lemma entered:
  assumes "absorbed (foldl step s es)" and "\<not> absorbed s"
  shows "\<exists>es1 e es2. es = es1 @ e # es2 \<and> \<not> absorbed (foldl step s es1) \<and>
    absorbed (step (foldl step s es1) e) \<and> foldl step s es = step (foldl step s es1) e"
  using assms(1)
proof (induction es rule: rev_induct)
  case Nil
  with assms(2) show ?case by simp
next
  case (snoc e es)
  show ?case
  proof (cases "absorbed (foldl step s es)")
    case True
    with snoc.IH obtain es1 x es2 where *: "es = es1 @ x # es2" "\<not> absorbed (foldl step s es1)"
      "absorbed (step (foldl step s es1) x)" "foldl step s es = step (foldl step s es1) x" by blast
    have "foldl step s (es @ [e]) = step (foldl step s es1) x" using True *(4) by (simp add: absorb)
    with * show ?thesis by (metis append_Cons append_assoc)
  next
    case False
    with snoc.prems show ?thesis by (intro exI [of _ es] exI [of _ e] exI [of _ "[]"]) simp
  qed
qed

end

interpretation satisfaction: absorbing_machine
  "\<lambda>c e. advance_validation_obligation env c (fst e) (snd e)"
  "\<lambda>c. \<exists>r. c = Some r \<and> iv_status r = SATISFIED" for env
  by unfold_locales (auto simp: advance_validation_obligation_def)

section \<open>Creation and satisfaction\<close>

lemma advance_created:
  "advance_validation_obligation env None a r = Some c \<Longrightarrow>
     exposed_success a r \<and> rs_attempt r = at_id a \<and> c = required_record env a r"
  by (auto simp: advance_validation_obligation_def split: if_splits)

lemma advance_satisfied:
  assumes "advance_validation_obligation env (Some c) a r = Some c'" and "iv_status c = REQUIRED"
    and "iv_status c' = SATISFIED"
  shows "independent_success a r \<and> fresh_attempt c a \<and> rs_attempt r = at_id a \<and> c' = satisfy_record c a r"
  using assms by (auto simp: advance_validation_obligation_def split: if_splits)

lemma obligation_status_exhaust: "iv_status c = REQUIRED \<or> iv_status c = SATISFIED"
  by (cases "iv_status c") auto

lemma advance_required_source:
  assumes "advance_all env None es = Some c" and "iv_status c = REQUIRED"
  shows "\<exists>es1 a r es2. es = es1 @ (a, r) # es2 \<and> exposed_success a r \<and> c = required_record env a r"
  using assms
proof (induction es arbitrary: c rule: rev_induct)
  case Nil
  then show ?case by (simp add: advance_all_def)
next
  case (snoc e es)
  obtain a r where e: "e = (a, r)" by (cases e)
  have step: "advance_validation_obligation env (advance_all env None es) a r = Some c"
    using snoc.prems(1) by (simp add: advance_all_def e)
  show ?case
  proof (cases "advance_all env None es")
    case None
    with step advance_created [of env a r c] show ?thesis
      by (intro exI [of _ es] exI [of _ a] exI [of _ r] exI [of _ "[]"]) (simp add: e)
  next
    case (Some d)
    then have "c = d" using step snoc.prems(2)
      by (auto simp: advance_validation_obligation_def satisfy_record_def split: if_splits)
    with snoc.IH [OF Some] snoc.prems(2) show ?thesis by (metis append_Cons append_assoc)
  qed
qed

text \<open>C10: an obligation is satisfied only by a history in which an assisted or
  answer-exposed accepted success created it and, later, an accepted independent success in
  another attempt, submitted after the obligation was created, satisfied it; the record names
  exactly these two.\<close>

theorem obligation_satisfied_history:
  assumes "advance_all env None es = Some c" and "iv_status c = SATISFIED"
  shows "\<exists>es1 a1 r1 es2 a2 r2 es3. es = es1 @ (a1, r1) # es2 @ (a2, r2) # es3 \<and>
    exposed_success a1 r1 \<and> independent_success a2 r2 \<and>
    rs_created r1 < at_submitted a2 \<and> at_id a2 \<noteq> at_id a1 \<and>
    iv_source_attempt c = attempt_ref a1 \<and> iv_satisfying_attempt c = Some (attempt_ref a2) \<and>
    iv_satisfying_result c = Some (result_ref r2)"
proof -
  let ?step = "\<lambda>c e. advance_validation_obligation env c (fst e) (snd e)"
  have "\<exists>r. foldl ?step None es = Some r \<and> iv_status r = SATISFIED"
    using assms by (simp add: advance_all_def)
  from satisfaction.entered [OF this] obtain fs e es3 where es: "es = fs @ e # es3"
    and ns': "\<not> (\<exists>r. foldl ?step None fs = Some r \<and> iv_status r = SATISFIED)"
    and st': "foldl ?step None es = ?step (foldl ?step None fs) e" by auto
  have ns: "\<not> (\<exists>r. advance_all env None fs = Some r \<and> iv_status r = SATISFIED)"
    using ns' by (simp only: advance_all_def not_False_eq_True)
  have st: "advance_validation_obligation env (advance_all env None fs) (fst e) (snd e) = Some c"
    using st' assms(1) by (simp add: advance_all_def)
  obtain a2 r2 where e: "e = (a2, r2)" by (cases e)
  obtain d where d: "advance_all env None fs = Some d"
  proof (cases "advance_all env None fs")
    case None
    with st assms(2) advance_created [of env a2 r2 c] have False
      by (auto simp: e required_record_def Let_def)
    then show thesis ..
  qed auto
  have rq: "iv_status d = REQUIRED" using ns d obligation_status_exhaust by blast
  from advance_satisfied [of env d a2 r2 c] st d rq assms(2)
  have s: "independent_success a2 r2" "fresh_attempt d a2" "c = satisfy_record d a2 r2" by (simp_all add: e)
  obtain es1 a1 r1 es2 where c: "fs = es1 @ (a1, r1) # es2" "exposed_success a1 r1" "d = required_record env a1 r1"
    using advance_required_source [OF d rq] by blast
  have "es = es1 @ (a1, r1) # es2 @ (a2, r2) # es3" by (simp add: es c(1) e)
  moreover have "rs_created r1 < at_submitted a2 \<and> at_id a2 \<noteq> at_id a1"
    using s(2) by (simp add: c(3) fresh_attempt_def required_record_def Let_def attempt_ref_def)
  moreover have "iv_source_attempt c = attempt_ref a1"
    by (simp add: s(3) c(3) satisfy_record_def required_record_def Let_def)
  moreover have "iv_satisfying_attempt c = Some (attempt_ref a2)" "iv_satisfying_result c = Some (result_ref r2)"
    by (simp_all add: s(3) satisfy_record_def)
  ultimately show ?thesis using s(1) c(2)
    by (intro exI [of _ es1] exI [of _ a1] exI [of _ r1] exI [of _ es2] exI [of _ a2] exI [of _ r2] exI [of _ es3]) simp
qed

definition demo_snapshot :: "scaffold_control \<Rightarrow> answer_exposure \<Rightarrow> assistance_snapshot" where
  "demo_snapshot sc ae = \<lparr>as_schema_version = ''3.0'', as_scaffold = sc, as_hint = HS_NONE,
     as_exposure = ae, as_state = expected_assistance sc HS_NONE ae, as_hint_events = [],
     as_support_reason = [], as_delivery_mode = None\<rparr>"

definition demo_attempt :: "uuid \<Rightarrow> time \<Rightarrow> assistance_snapshot \<Rightarrow> attempt_v03" where
  "demo_attempt i t s = \<lparr>at_id = i, at_schema_version = ''3.0'', at_user = ''u'', at_session = ''s'',
     at_item = ''i'', at_item_version = ''1'', at_type = AT_FORMATIVE, at_started = t - 60000000,
     at_first_response = Some t, at_submitted = t, at_response_ms = 60000, at_raw = VNone,
     at_normalized = VNone, at_revisions = 0, at_assistance = s, at_idempotency_key = i\<rparr>"

definition demo_diagnosis :: diagnosis where
  "demo_diagnosis = \<lparr>dg_error_type = ET_UNKNOWN, dg_confidence = None, dg_evidence_refs = [],
     dg_misconception_refs = [], dg_alternatives = [], dg_needs_probe = False, dg_reason_codes = []\<rparr>"

definition demo_pass :: "uuid \<Rightarrow> attempt_v03 \<Rightarrow> result_v03" where
  "demo_pass i a = \<lparr>rs_id = i, rs_schema_version = ''3.0'', rs_version = 1, rs_attempt = at_id a,
     rs_item = at_item a, rs_item_version = ''1'', rs_score = 1, rs_passed = Some True,
     rs_correctness = CORRECT, rs_rubric = [], rs_confidence = 1, rs_diagnosis = demo_diagnosis,
     rs_assistance = at_assistance a, rs_evaluators = [''v1''], rs_reviewer = ACCEPTED,
     rs_created = at_submitted a, rs_supersedes = None\<rparr>"

definition demo_event :: "uuid \<Rightarrow> time \<Rightarrow> scaffold_control \<Rightarrow> answer_exposure \<Rightarrow> attempt_v03 \<times> result_v03" where
  "demo_event i t sc ae =
     (let a = demo_attempt i t (demo_snapshot sc ae) in (a, demo_pass (''r'' @ i) a))"

lemma demo_obligation:
  "\<exists>c. advance_all demo_env None [demo_event ''a1'' 0 SC_HIGH AE_COMPLETE, demo_event ''a2'' 5 SC_NONE AE_NONE]
     = Some c \<and> iv_status c = SATISFIED"
  by (simp add: advance_all_def demo_event_def Let_def demo_attempt_def demo_pass_def demo_snapshot_def
      expected_assistance_def advance_validation_obligation_def exposed_success_def independent_success_def
      accepted_pass_def experienced_def fresh_attempt_def required_record_def satisfy_record_def attempt_ref_def)

theorem obligation_satisfied_history_witness:
  "\<exists>es1 a1 r1 es2 a2 r2 es3.
     [demo_event ''a1'' 0 SC_HIGH AE_COMPLETE, demo_event ''a2'' 5 SC_NONE AE_NONE] =
       es1 @ (a1, r1) # es2 @ (a2, r2) # es3 \<and> exposed_success a1 r1 \<and> independent_success a2 r2"
  using demo_obligation obligation_satisfied_history by blast

text \<open>C11: A recorded obligation goes through any history of attempts and results in one
  of two ways. It stays exactly as it is, or it is satisfied once, by an accepted independent success in a
  fresh attempt of the history, with the result being that attempt's own; its identity, source and creation
  time stay, and it stays a valid record. Assisted successes, failures and foreign results never change it.
  A satisfied obligation never changes again: a later assisted success does not require a new one, where the
  quality specification asks for one.\<close>

theorem obligation_never_lost:
  assumes "valid_record c"
  shows "\<exists>c'. advance_all env (Some c) es = Some c' \<and> valid_record c' \<and>
    (c' = c \<or> iv_status c = REQUIRED \<and>
      (\<exists>(a, r) \<in> set es. independent_success a r \<and> fresh_attempt c a \<and> rs_attempt r = at_id a \<and>
        c' = satisfy_record c a r)) \<and>
    iv_id c' = iv_id c \<and> iv_source_attempt c' = iv_source_attempt c \<and> iv_created c' = iv_created c \<and>
    (iv_status c = SATISFIED \<longrightarrow> c' = c)"
proof (induction es rule: rev_induct)
  case Nil
  with assms show ?case by (simp add: advance_all_def)
next
  case (snoc e es)
  obtain a r where e: "e = (a, r)" by (cases e)
  from snoc obtain d where d: "advance_all env (Some c) es = Some d" "valid_record d"
    and h: "d = c \<or> iv_status c = REQUIRED \<and> (\<exists>(a, r) \<in> set es. independent_success a r \<and> fresh_attempt c a \<and>
        rs_attempt r = at_id a \<and> d = satisfy_record c a r)"
    and k: "iv_id d = iv_id c" "iv_source_attempt d = iv_source_attempt c" "iv_created d = iv_created c"
      "iv_status c = SATISFIED \<longrightarrow> d = c" by blast
  have next_is: "advance_all env (Some c) (es @ [e]) = advance_validation_obligation env (Some d) a r"
    using d(1) by (simp add: advance_all_def e)
  consider "advance_validation_obligation env (Some d) a r = Some d"
    | "iv_status d = REQUIRED" "independent_success a r" "fresh_attempt d a" "rs_attempt r = at_id a"
      "advance_validation_obligation env (Some d) a r = Some (satisfy_record d a r)"
    by (cases "rs_attempt r = at_id a \<and> iv_status d = REQUIRED \<and> independent_success a r \<and> fresh_attempt d a")
      (auto simp: advance_validation_obligation_def)
  then show ?case
  proof cases
    case 1
    with d(2) h k show ?thesis by (intro exI [of _ d]) (auto simp: next_is)
  next
    case 2
    then have dc: "d = c" using h by (auto simp: satisfy_record_def)
    with 2 have "iv_status c = REQUIRED" "(a, r) \<in> set (es @ [e])" by (simp_all add: e)
    with 2 show ?thesis
      by (intro exI [of _ "satisfy_record c a r"])
        (auto simp: next_is dc valid_record_def satisfy_record_def)
  qed
qed

definition demo_required :: validation_record where
  "demo_required = required_record demo_env (fst (demo_event ''a1'' 0 SC_HIGH AE_COMPLETE))
     (snd (demo_event ''a1'' 0 SC_HIGH AE_COMPLETE))"

theorem obligation_never_lost_witness:
  "\<exists>c'. advance_all demo_env (Some demo_required) [demo_event ''a2'' 5 SC_HIGH AE_COMPLETE] = Some c' \<and>
     valid_record c' \<and> iv_id c' = iv_id demo_required"
proof -
  have "valid_record demo_required" by (simp add: demo_required_def required_record_def valid_record_def Let_def)
  from obligation_never_lost [OF this] show ?thesis by blast
qed

end
