(* ===== verification/Outcome.thy ===== *)
theory Outcome
  imports Obligation
begin

text \<open>
  \<open>app/domains/teaching_policy/outcome_evaluation.py\<close> and \<open>opve.py\<close>: which attribution an
  observed outcome may claim, the tier of a metric, and the offline contract check of a
  decision.  Every refusal is a ValueError with the code the source raises.
\<close>

section \<open>Metric tiers\<close>

datatype metric_tier_kind = PRIMARY_LEARNING | PROCESS_EXPERIENCE

definition primary_outcomes :: "string set" where
  "primary_outcomes = {''NO_HINT_INDEPENDENT_SUCCESS'', ''DELAYED_INDEPENDENT_PERFORMANCE'',
     ''INDEPENDENT_TRANSFER'', ''UNIT_TIME_CAPABILITY_GAIN''}"

definition process_metrics :: "string set" where
  "process_metrics = {''ENGAGEMENT'', ''CONVERSATION_TURNS'', ''LIKES'', ''HINT_COUNT'', ''TOKENS'',
     ''SESSION_DURATION''}"

definition metric_tier :: "string \<Rightarrow> exn + metric_tier_kind" where
  "metric_tier m =
     (if m \<in> primary_outcomes then Inr PRIMARY_LEARNING
      else if m \<in> process_metrics then Inr PROCESS_EXPERIENCE
      else Inl (ValueError (''UNKNOWN_OUTCOME_METRIC:'' @ m)))"

section \<open>Attribution\<close>

record experiment_eligibility =
  ee_assignment :: versioned_ref
  ee_plan :: versioned_ref
  ee_integrity :: bool
  ee_unit_eligible :: bool
  ee_pre_registered :: bool
  ee_reason_codes :: "string list"

record attribution_profile =
  ap_version :: string
  ap_delay_seconds :: int

record validated_outcome =
  vo_outcome :: outcome_observation
  vo_version :: string
  vo_reason_codes :: "string list"

definition guard :: "bool \<Rightarrow> string \<Rightarrow> exn + unit" where
  "guard ok code = (if ok then Inr () else Inl (ValueError code))"

lemma guard_Inr [res_simps]: "guard ok code = Inr u \<longleftrightarrow> ok"
  by (simp add: guard_def)

definition ref_names :: "versioned_ref \<Rightarrow> uuid \<Rightarrow> string \<Rightarrow> bool" where
  "ref_names r i v \<longleftrightarrow> vr_id r = i \<and> ver_str (vr_version r) = v"

definition episode_matches :: "outcome_observation \<Rightarrow> teaching_episode option \<Rightarrow> bool" where
  "episode_matches ob ep = (case (ep, oo_episode_ref ob) of
     (Some e, Some r) \<Rightarrow> ref_names r (te_id e) (te_schema_version e) | _ \<Rightarrow> True)"

definition trajectory_matches :: "outcome_observation \<Rightarrow> learning_trajectory option \<Rightarrow> bool" where
  "trajectory_matches ob tr = (case (tr, oo_trajectory_ref ob) of
     (Some t, Some r) \<Rightarrow> ref_names r (lt_id t) (lt_schema_version t) | _ \<Rightarrow> True)"

definition delayed :: "outcome_observation \<Rightarrow> attribution_profile \<Rightarrow> bool" where
  "delayed ob p = (case oo_delay_seconds ob of None \<Rightarrow> False | Some s \<Rightarrow> ap_delay_seconds p \<le> s)"

definition assignment_associated ::
  "outcome_observation \<Rightarrow> experiment_assignment \<Rightarrow> experiment_eligibility \<Rightarrow> bool" where
  "assignment_associated ob a el = (case oo_experiment ob of None \<Rightarrow> False
     | Some r \<Rightarrow> vr_id r = ea_id a \<and> ee_assignment el = r)"

definition identified :: "experiment_eligibility \<Rightarrow> bool" where
  "identified el \<longleftrightarrow> ee_integrity el \<and> ee_unit_eligible el \<and> ee_pre_registered el"

text \<open>The branch of the attribution scope, with the reason it appends.\<close>

definition scope_reason :: "outcome_observation \<Rightarrow> attribution_profile \<Rightarrow> teaching_episode option \<Rightarrow>
    learning_trajectory option \<Rightarrow> experiment_assignment option \<Rightarrow> experiment_eligibility option \<Rightarrow>
    exn + string" where
  "scope_reason ob p ep tr asg el =
     (case oo_scope ob of
        ACTION_DIRECT \<Rightarrow>
          (case (ep, oo_episode_ref ob) of
             (Some e, Some _) \<Rightarrow>
               bind_res (guard (length (te_action_refs e) = 1) ''ACTION_DIRECT_REQUIRES_SINGLE_ACTION_EPISODE'') (\<lambda>_.
               bind_res (guard (\<not> delayed ob p) ''DELAYED_OUTCOME_CANNOT_DEFAULT_LAST_TOUCH'') (\<lambda>_.
                 Inr ''ACTION_DIRECT_SINGLE_ACTION_BOUNDARY''))
           | _ \<Rightarrow> Inl (ValueError ''ACTION_DIRECT_REQUIRES_EPISODE''))
      | EPISODE_ASSOCIATED \<Rightarrow>
          bind_res (guard (ep \<noteq> None \<and> oo_episode_ref ob \<noteq> None) ''EPISODE_ASSOCIATION_REQUIRES_EXACT_EPISODE'')
            (\<lambda>_. Inr ''EPISODE_ASSOCIATION_ONLY_NOT_CAUSAL'')
      | TRAJECTORY_ASSOCIATED \<Rightarrow>
          bind_res (guard (tr \<noteq> None \<and> oo_trajectory_ref ob \<noteq> None)
              ''TRAJECTORY_ASSOCIATION_REQUIRES_EXACT_TRAJECTORY'')
            (\<lambda>_. Inr ''TRAJECTORY_ASSOCIATION_ONLY_NOT_CAUSAL'')
      | EXPERIMENTALLY_CAUSAL \<Rightarrow>
          (case (asg, el) of
             (Some a, Some e) \<Rightarrow>
               bind_res (guard (assignment_associated ob a e) ''CAUSAL_ATTRIBUTION_ASSIGNMENT_MISMATCH'') (\<lambda>_.
               bind_res (guard (identified e) ''CAUSAL_ATTRIBUTION_IDENTIFICATION_NOT_MET'') (\<lambda>_.
                 Inr ''EXPERIMENT_IDENTIFICATION_EVIDENCE_VERIFIED''))
           | _ \<Rightarrow> Inl (ValueError ''CAUSAL_ATTRIBUTION_REQUIRES_EXPERIMENT_ELIGIBILITY''))
      | UNATTRIBUTABLE \<Rightarrow> Inr ''OUTCOME_UNATTRIBUTABLE'')"

definition assistance_given :: "outcome_observation \<Rightarrow> bool list" where
  "assistance_given ob = [oo_assistance ob \<noteq> None, oo_scaffold ob \<noteq> None, oo_hint ob \<noteq> None,
     oo_exposure ob \<noteq> None]"

definition validate_outcome :: "outcome_observation \<Rightarrow> attribution_profile \<Rightarrow> teaching_episode option \<Rightarrow>
    learning_trajectory option \<Rightarrow> experiment_assignment option \<Rightarrow> experiment_eligibility option \<Rightarrow>
    exn + validated_outcome" where
  "validate_outcome ob p ep tr asg el =
     bind_res (guard (episode_matches ob ep) ''OUTCOME_EPISODE_REF_MISMATCH'') (\<lambda>_.
     bind_res (guard (trajectory_matches ob tr) ''OUTCOME_TRAJECTORY_REF_MISMATCH'') (\<lambda>_.
     bind_res (scope_reason ob p ep tr asg el) (\<lambda>reason.
     bind_res (guard (\<not> (list_ex id (assistance_given ob) \<and> list_ex Not (assistance_given ob)))
         ''OUTCOME_ACTUAL_ASSISTANCE_AXES_INCOMPLETE'') (\<lambda>_.
       Inr \<lparr>vo_outcome = ob, vo_version = ap_version p, vo_reason_codes = [ap_version p, reason]\<rparr>))))"

text \<open>A causal claim is accepted only with an assignment the outcome is
  associated with and a fully verified identification; a direct claim on one action only inside
  a single-action episode and before the meaningful delay.  No other claim is called causal or
  direct, and no claim is accepted with a partial account of the assistance given.\<close>

theorem attribution_is_earned:
  assumes "validate_outcome ob p ep tr asg el = Inr v"
  shows "(''EXPERIMENT_IDENTIFICATION_EVIDENCE_VERIFIED'' \<in> set (tl (vo_reason_codes v)) \<longleftrightarrow>
      oo_scope ob = EXPERIMENTALLY_CAUSAL) \<and>
    (oo_scope ob = EXPERIMENTALLY_CAUSAL \<longrightarrow> (\<exists>a e r. asg = Some a \<and> el = Some e \<and>
      oo_experiment ob = Some r \<and> vr_id r = ea_id a \<and> ee_assignment e = r \<and>
      ee_integrity e \<and> ee_unit_eligible e \<and> ee_pre_registered e)) \<and>
    (oo_scope ob = ACTION_DIRECT \<longrightarrow> (\<exists>e r. ep = Some e \<and> oo_episode_ref ob = Some r \<and>
      vr_id r = te_id e \<and> length (te_action_refs e) = 1 \<and>
      (\<forall>s. oo_delay_seconds ob = Some s \<longrightarrow> s < ap_delay_seconds p))) \<and>
    (list_all id (assistance_given ob) \<or> list_all Not (assistance_given ob))"
proof -
  obtain reason where em: "episode_matches ob ep" and sr: "scope_reason ob p ep tr asg el = Inr reason"
    and ax: "\<not> (list_ex id (assistance_given ob) \<and> list_ex Not (assistance_given ob))"
    and v: "vo_reason_codes v = [ap_version p, reason]"
    using assms by (auto simp: validate_outcome_def res_simps)
  have "''EXPERIMENT_IDENTIFICATION_EVIDENCE_VERIFIED'' = reason \<longleftrightarrow> oo_scope ob = EXPERIMENTALLY_CAUSAL"
    using sr by (auto simp: scope_reason_def res_simps split: attribution_scope.splits option.splits)
  moreover have "oo_scope ob = EXPERIMENTALLY_CAUSAL \<longrightarrow> (\<exists>a e r. asg = Some a \<and> el = Some e \<and>
      oo_experiment ob = Some r \<and> vr_id r = ea_id a \<and> ee_assignment e = r \<and>
      ee_integrity e \<and> ee_unit_eligible e \<and> ee_pre_registered e)"
    using sr by (auto simp: scope_reason_def res_simps assignment_associated_def identified_def split: option.splits)
  moreover have "oo_scope ob = ACTION_DIRECT \<longrightarrow> (\<exists>e r. ep = Some e \<and> oo_episode_ref ob = Some r \<and>
      vr_id r = te_id e \<and> length (te_action_refs e) = 1 \<and>
      (\<forall>s. oo_delay_seconds ob = Some s \<longrightarrow> s < ap_delay_seconds p))"
    using sr em
    by (auto simp: scope_reason_def res_simps episode_matches_def ref_names_def delayed_def split: option.splits)
  moreover have "list_all id (assistance_given ob) \<or> list_all Not (assistance_given ob)"
    using ax by (auto simp: list_all_iff list_ex_iff)
  ultimately show ?thesis by (simp add: v)
qed

definition demo_outcome :: outcome_observation where
  "demo_outcome = \<lparr>oo_id = ''o1'', oo_schema_version = ''3.0'', oo_type = ''INDEPENDENT_TRANSFER'',
     oo_measurement = mk_ref ''assessment_result'' ''r1'' (VerI 1), oo_independence = Some True,
     oo_assistance = Some INDEPENDENT, oo_scaffold = Some SC_NONE, oo_hint = Some HS_NONE,
     oo_exposure = Some AE_NONE, oo_delay_seconds = Some 60, oo_transfer_distance = None,
     oo_novelty = None, oo_score = Some 1, oo_success = Some True, oo_confidence = Some 1,
     oo_active_seconds = None, oo_cost_seconds = None, oo_hint_cost = None,
     oo_contamination = CS_CLEAN, oo_scope = ACTION_DIRECT,
     oo_episode_ref = Some (mk_ref ''teaching_episode'' ''e1'' (VerS ''3.0'')),
     oo_trajectory_ref = None, oo_experiment = None, oo_observed_at = 0\<rparr>"

definition demo_episode :: teaching_episode where
  "demo_episode = \<lparr>te_id = ''e1'', te_schema_version = ''3.0'', te_user = ''u'',
     te_objective_ref = demo_objective, te_action_refs = [demo_activity], te_started = 0,
     te_ended = None, te_bundle_refs = []\<rparr>"

definition demo_attribution :: attribution_profile where
  "demo_attribution = \<lparr>ap_version = ''attr-1'', ap_delay_seconds = 3600\<rparr>"

theorem attribution_is_earned_witness:
  "\<exists>v. validate_outcome demo_outcome demo_attribution (Some demo_episode) None None None = Inr v \<and>
     length (te_action_refs demo_episode) = 1"
proof -
  obtain v where v: "validate_outcome demo_outcome demo_attribution (Some demo_episode) None None None = Inr v"
    by (simp add: validate_outcome_def guard_def scope_reason_def demo_outcome_def demo_episode_def
        demo_attribution_def episode_matches_def trajectory_matches_def ref_names_def delayed_def assistance_given_def)
  have "oo_scope demo_outcome = ACTION_DIRECT" by (simp add: demo_outcome_def)
  with attribution_is_earned [OF v] v show ?thesis by auto
qed

section \<open>The offline contract check\<close>

definition verify_decision_contract :: "teaching_action \<Rightarrow> decision_trace \<Rightarrow> bool" where
  "verify_decision_contract a t \<longleftrightarrow> dt_behavior t = BP_DETERMINISTIC \<and> dt_propensity t = None \<and>
     (case dt_selected_ref t of None \<Rightarrow> False | Some r \<Rightarrow> vr_id r = ta_id a)"

definition acceptable_action_gate :: "strategy_family \<Rightarrow> strategy_family set \<Rightarrow> bool" where
  "acceptable_action_gate selected acceptable \<longleftrightarrow> selected \<in> acceptable"

lemma seq_step_deterministic:
  assumes "seq_decide env now ctx b p st signals asg = Inr r"
  shows "dt_behavior (pd_trace (sd_decision r)) = BP_DETERMINISTIC"
  using assms
proof (rule seq_elim)
  fix proposed pk classified d
  assume p: "decide env ctx b p asg = Inr proposed"
    and sw: "ao_switch (the (dt_anti (pd_trace d))) \<Longrightarrow>
       d = switched_decision proposed (the (dt_anti (pd_trace d))) (sd_reason r)"
    and hold: "\<not> ao_switch (the (dt_anti (pd_trace d))) \<Longrightarrow>
       held_decision env proposed ctx b p st pk (the (dt_anti (pd_trace d))) (sd_reason r) = Inr d"
    and r: "sd_decision r = with_material (material_refs classified) d"
  have "dt_behavior (pd_trace d) = BP_DETERMINISTIC"
  proof (cases "ao_switch (the (dt_anti (pd_trace d)))")
    case True
    obtain anti where "d = switched_decision proposed anti (sd_reason r)" using sw [OF True] by blast
    then show ?thesis using proposal_facts(8) [OF p] by (simp add: switched_decision_def)
  next
    case False
    from hold [OF False] show ?thesis
    proof (rule held_elim)
      fix entry fs score
      assume t: "pd_trace d = held_trace proposed b p entry fs score (the (dt_anti (pd_trace d))) (sd_reason r) (pd_action d)"
      show ?thesis by (subst t) (simp add: held_trace_def Let_def proposal_facts(8) [OF p])
    qed
  qed
  with r show ?thesis by simp
qed

text \<open>Every decision of a turn, of the kernel or of the sequential layer, passes the offline
  contract check: it is deterministic, claims no propensity and its trace selects its action.\<close>

theorem turn_passes_contract_check:
  assumes "decide_turn env q = Inr t"
  shows "verify_decision_contract (pd_action (tp_decision t)) (pd_trace (tp_decision t))"
proof (cases "ctx_previous_action_ref (tr_context q)")
  case None
  then have d: "decide env (tr_context q) (tr_bundle q) (tr_profile q) (tr_assignment q) = Inr (tp_decision t)"
    using assms by (auto simp: decide_turn_def Let_def res_simps)
  show ?thesis using proposal_facts(3,4,8) [OF d] by (simp add: verify_decision_contract_def valid_trace_def)
next
  case (Some r)
  then obtain st x where s: "seq_decide env (Aware (ctx_decision_time (tr_context q))) (tr_context q) (tr_bundle q)
      (tr_profile q) st (build_evidence_signals (tr_context q)) (tr_assignment q) = Inr x"
    and t: "tp_decision t = sd_decision x"
    using assms by (auto simp: decide_turn_def Let_def res_simps)
  show ?thesis using seq_step_selects [OF s] seq_step_deterministic [OF s]
    by (simp add: verify_decision_contract_def valid_trace_def action_ref_def t)
qed

theorem turn_passes_contract_check_witness:
  "\<exists>t. decide_turn demo_env first_request = Inr t \<and>
     verify_decision_contract (pd_action (tp_decision t)) (pd_trace (tp_decision t))"
proof -
  have n: "ctx_previous_action_ref (tr_context first_request) = None"
    by (simp add: first_request_def demo_ctx_def)
  obtain d where "decide demo_env demo_ctx demo_bundle default_profile None = Inr d"
    using demo_decides by blast
  then obtain t where t: "decide_turn demo_env first_request = Inr t"
    using n by (auto simp: decide_turn_def Let_def first_request_def)
  with turn_passes_contract_check [OF t] show ?thesis by blast
qed

end
