(* ===== verification/Ranking.thy ===== *)
theory Ranking
  imports PolicyModels
begin

text \<open>
  \<open>app/domains/retrieval/evidence_service.py\<close>: the one hybrid ranking that every retrieval path
  runs after its own hard filters. Duplicates are removed by normalized content, a lexical and a
  dense order are fused by reciprocal ranks, and the first \<open>max_items\<close> are selected.

  Tokens are lists of code points, so that the CJK branch of the tokenizer is the source's;
  \<open>math.sqrt\<close>, the dense scorer and the optional reranker are parameters. The fusion constant
  \<open>rrf_k\<close> is a natural number (the program only uses its default, 60).

  The locale \<open>ranker\<close> is what retrieval relies on: selected candidates come from the input and
  are at most \<open>max_items\<close> many.
\<close>

section \<open>Tokens\<close>

definition is_cjk :: "nat \<Rightarrow> bool" where
  "is_cjk n \<longleftrightarrow> 0x4e00 \<le> n \<and> n \<le> 0x9fff"

definition is_alnum :: "nat \<Rightarrow> bool" where
  "is_alnum n \<longleftrightarrow> 97 \<le> n \<and> n \<le> 122 \<or> 48 \<le> n \<and> n \<le> 57"

text \<open>\<open>re.findall(r"[a-z0-9]+|[\<dots>]", text)\<close>: maximal runs, and single CJK characters.\<close>

fun words :: "nat list \<Rightarrow> nat list \<Rightarrow> nat list list" where
  "words run [] = (if run = [] then [] else [run])"
| "words run (n # ns) =
     (if is_alnum n then words (run @ [n]) ns
      else (if run = [] then [] else [run]) @ (if is_cjk n then [[n]] else []) @ words [] ns)"

fun bigrams :: "nat list \<Rightarrow> nat list list" where
  "bigrams (a # b # ns) = [a, b] # bigrams (b # ns)"
| "bigrams _ = []"

definition tokens :: "nat list \<Rightarrow> nat list list" where
  "tokens lowered = words [] lowered @ bigrams (filter is_cjk lowered)"

definition text_tokens :: "string \<Rightarrow> nat list list" where
  "text_tokens s = tokens (map of_char (str_lower s))"

text \<open>\<open>Counter(xs)\<close> keeps the first insertion of each key.\<close>

definition counter :: "'a list \<Rightarrow> ('a, nat) dict" where
  "counter xs = map (\<lambda>x. (x, count_list xs x)) (rev (remdups (rev xs)))"

section \<open>Scores\<close>

definition of_nat_f :: "nat \<Rightarrow> float64" where
  "of_nat_f n = fl (of_nat n)"

definition saturation :: "nat \<Rightarrow> nat \<Rightarrow> float64 option" where
  "saturation n len =
     fdiv (fmul (of_nat_f n) (fl (22 / 10)))
       (fadd (of_nat_f n) (fmul (fl (12 / 10))
         (fadd (fl (1 / 4)) (fl (fmul (fl (3 / 4)) (of_nat_f len) / 100)))))"

text \<open>The divisor is positive, so the division of a token that occurs never fails.\<close>

definition lexical_score :: "string \<Rightarrow> string \<Rightarrow> float64" where
  "lexical_score query content =
     (let qs = counter (text_tokens query); cs = counter (text_tokens content) in
      if qs = [] \<or> cs = [] then 0
      else let len = sum_list (map snd cs); occ = (\<lambda>t. case dict_get cs t of None \<Rightarrow> 0 | Some n \<Rightarrow> n) in
        fsum (map (\<lambda>t. the (saturation (occ t) len)) (filter (\<lambda>t. occ t \<noteq> 0) (map fst qs))))"

definition dense_cosine :: "(float64 \<Rightarrow> float64) \<Rightarrow> string \<Rightarrow> string \<Rightarrow> float64" where
  "dense_cosine sqrt_f query content =
     (let left = counter (text_tokens query); right = counter (text_tokens content) in
      if left = [] \<or> right = [] then 0
      else let dot = sum_list (map (\<lambda>(t, v). v * (case dict_get right t of None \<Rightarrow> 0 | Some n \<Rightarrow> n)) left);
          norm = (\<lambda>d. sqrt_f (of_nat_f (sum_list (map (\<lambda>(t, v). v * v) d))))
        in if norm left \<noteq> 0 \<and> norm right \<noteq> 0
           then the (fdiv (of_nat_f dot) (fmul (norm left) (norm right))) else 0)"

section \<open>Fused ranking\<close>

record 'c hybrid_retriever =
  hr_dense :: "string \<Rightarrow> string \<Rightarrow> float64 option"
  hr_reranker :: "(string \<Rightarrow> 'c list \<Rightarrow> 'c list option) option"
  hr_rrf_k :: nat

definition default_retriever :: "(float64 \<Rightarrow> float64) \<Rightarrow> 'c hybrid_retriever" where
  "default_retriever sqrt_f = \<lparr>hr_dense = (\<lambda>q t. Some (dense_cosine sqrt_f q t)),
     hr_reranker = None, hr_rrf_k = 60\<rparr>"

record rank_trace =
  rk_lexical :: "nat option"
  rk_dense :: "nat option"
  rk_score :: float64
  rk_selected :: bool
  rk_reasons :: "string list"

record 'c rank_result =
  rr_selected :: "'c list"
  rr_trace :: "(uuid, rank_trace) dict"
  rr_degraded :: "string list"

definition new_trace :: rank_trace where
  "new_trace = \<lparr>rk_lexical = None, rk_dense = None, rk_score = 0, rk_selected = False, rk_reasons = []\<rparr>"

text \<open>Mutation of the object a dictionary holds under a key.\<close>

definition mutate :: "'k \<Rightarrow> ('v \<Rightarrow> 'v) \<Rightarrow> ('k, 'v) dict \<Rightarrow> ('k, 'v) dict" where
  "mutate k f d = map (\<lambda>(k', v). (k', if k' = k then f v else v)) d"


fun split_words :: "string \<Rightarrow> string \<Rightarrow> string list" where
  "split_words run [] = (if run = [] then [] else [run])"
| "split_words run (c # s) =
     (if is_space c then (if run = [] then [] else [run]) @ split_words [] s
      else split_words (run @ [c]) s)"

definition content_key :: "string \<Rightarrow> string" where
  "content_key s = str_join '' '' (split_words [] (str_lower s))"

fun dedup :: "('c \<Rightarrow> string) \<Rightarrow> string list \<Rightarrow> 'c list \<Rightarrow> 'c list \<times> 'c list" where
  "dedup body seen [] = ([], [])"
| "dedup body seen (c # cs) =
     (let key = content_key (body c) in
      if key \<in> set seen then (let (keep, drop) = dedup body seen cs in (keep, c # drop))
      else (let (keep, drop) = dedup body (key # seen) cs in (c # keep, drop)))"

definition order_by_score :: "('c \<Rightarrow> uuid) \<Rightarrow> ('c \<Rightarrow> float64) \<Rightarrow> 'c list \<Rightarrow> 'c list" where
  "order_by_score cid score cs =
     map snd (filter (\<lambda>p. 0 < fst p)
       (sort_key (\<lambda>p. (- fst p, cid (snd p))) (map (\<lambda>c. (score c, c)) cs)))"

definition rank_all :: "('c \<Rightarrow> uuid) \<Rightarrow> (nat \<Rightarrow> rank_trace \<Rightarrow> rank_trace) \<Rightarrow> 'c list \<Rightarrow>
    (uuid, rank_trace) dict \<Rightarrow> (uuid, rank_trace) dict" where
  "rank_all cid f ranked d =
     fold (\<lambda>(r, c). mutate (cid c) (f r)) (zip [1..<Suc (length ranked)] ranked) d"

definition reciprocal :: "nat \<Rightarrow> nat option \<Rightarrow> float64 \<Rightarrow> float64" where
  "reciprocal k r s = (case r of None \<Rightarrow> s | Some n \<Rightarrow> fadd s (fl (1 / of_nat_f (k + n))))"

definition rrf_score :: "nat \<Rightarrow> rank_trace \<Rightarrow> float64" where
  "rrf_score k t = reciprocal k (rk_dense t) (reciprocal k (rk_lexical t) (rk_score t))"

definition trace_score :: "(uuid, rank_trace) dict \<Rightarrow> uuid \<Rightarrow> float64" where
  "trace_score d i = (case dict_get d i of None \<Rightarrow> 0 | Some t \<Rightarrow> rk_score t)"

text \<open>Python's \<open>xs[:m]\<close>, where a negative bound counts from the end.\<close>

definition py_take :: "int \<Rightarrow> 'a list \<Rightarrow> 'a list" where
  "py_take m xs = (if 0 \<le> m then take (nat m) xs else take (length xs - nat (- m)) xs)"

definition dense_order :: "'c hybrid_retriever \<Rightarrow> ('c \<Rightarrow> uuid) \<Rightarrow> ('c \<Rightarrow> string) \<Rightarrow> string \<Rightarrow> 'c list \<Rightarrow>
    'c list \<times> string list" where
  "dense_order h cid body query cs =
     (if list_all (\<lambda>c. hr_dense h query (body c) \<noteq> None) cs
      then (order_by_score cid (\<lambda>c. the (hr_dense h query (body c))) cs, [])
      else ([], [''RETRIEVAL_DENSE_UNAVAILABLE_LEXICAL_ONLY'']))"

definition rerank :: "'c hybrid_retriever \<Rightarrow> string \<Rightarrow> 'c list \<Rightarrow> 'c list \<times> string list" where
  "rerank h query ranked =
     (case hr_reranker h of
        None \<Rightarrow> (ranked, [])
      | Some f \<Rightarrow> if ranked = [] then (ranked, [])
          else case f query ranked of
              Some r \<Rightarrow> (r, [])
            | None \<Rightarrow> (ranked, [''RETRIEVAL_RERANKER_UNAVAILABLE_RRF_USED'']))"

definition final_trace :: "uuid set \<Rightarrow> uuid \<Rightarrow> rank_trace \<Rightarrow> rank_trace" where
  "final_trace chosen i t =
     (if i \<in> chosen then t\<lparr>rk_selected := True, rk_reasons := rk_reasons t @ [''RETRIEVAL_SELECTED_RRF'']\<rparr>
      else if rk_reasons t = []
        then t\<lparr>rk_reasons := [''RETRIEVAL_NOT_SELECTED_BUDGET_OR_RELEVANCE'']\<rparr> else t)"

text \<open>
  \<open>rank_fused\<close> is the method up to the reranker: the deduplicated candidates that some order
  ranks, by falling fused score, with the trace and the degradation so far.
\<close>

definition rank_fused :: "'c hybrid_retriever \<Rightarrow> ('c \<Rightarrow> uuid) \<Rightarrow> ('c \<Rightarrow> string) \<Rightarrow> string \<Rightarrow> 'c list \<Rightarrow>
    'c list \<times> (uuid, rank_trace) dict \<times> string list" where
  "rank_fused h cid body query cs =
     (let empty = foldl (\<lambda>d c. dict_set (cid c) new_trace d) [] cs;
          (keep, dropped) = dedup body [] cs;
          tr0 = fold (\<lambda>c. mutate (cid c) (\<lambda>t. t\<lparr>rk_reasons := rk_reasons t @ [''RETRIEVAL_DUPLICATE'']\<rparr>)) dropped empty;
          lexical = order_by_score cid (\<lambda>c. lexical_score query (body c)) keep;
          (dense, degraded) = dense_order h cid body query keep;
          tr1 = rank_all cid (\<lambda>r t. t\<lparr>rk_lexical := Some r\<rparr>) lexical tr0;
          tr2 = rank_all cid (\<lambda>r t. t\<lparr>rk_dense := Some r\<rparr>) dense tr1;
          ids = set (map cid (lexical @ dense));
          tr3 = map (\<lambda>(i, t). (i, if i \<in> ids then t\<lparr>rk_score := rrf_score (hr_rrf_k h) t\<rparr> else t)) tr2
      in (sort_key (\<lambda>c. (- trace_score tr3 (cid c), cid c)) (filter (\<lambda>c. cid c \<in> ids) keep),
          tr3, degraded))"

definition rank_candidates :: "'c hybrid_retriever \<Rightarrow> ('c \<Rightarrow> uuid) \<Rightarrow> ('c \<Rightarrow> string) \<Rightarrow> string \<Rightarrow> 'c list \<Rightarrow>
    int \<Rightarrow> 'c rank_result" where
  "rank_candidates h cid body query cs max_items =
     (let (fused, tr, degraded) = rank_fused h cid body query cs;
          (ranked, more) = rerank h query fused;
          selected = py_take max_items ranked
      in \<lparr>rr_selected = selected,
          rr_trace = fold (\<lambda>c. mutate (cid c) (final_trace (set (map cid selected)) (cid c))) cs tr,
          rr_degraded = degraded @ more\<rparr>)"

section \<open>What a ranking keeps\<close>

lemma dedup_keep_Nil: "fst (dedup body seen []) = []"
  by simp

lemma dedup_keep_Cons: "fst (dedup body seen (c # cs)) =
    (if content_key (body c) \<in> set seen then fst (dedup body seen cs)
     else c # fst (dedup body (content_key (body c) # seen) cs))"
  by (simp add: Let_def split: prod.splits)

lemmas dedup_keep = dedup_keep_Nil dedup_keep_Cons

lemma dedup_subset: "set (fst (dedup body seen cs)) \<subseteq> set cs"
  by (induction cs arbitrary: seen) (auto simp: dedup_keep simp del: dedup.simps)

lemma dedup_keys: "c \<in> set (fst (dedup body seen cs)) \<Longrightarrow> content_key (body c) \<notin> set seen"
proof (induction cs arbitrary: seen)
  case (Cons a cs)
  show ?case
    using Cons.IH [of seen] Cons.IH [of "content_key (body a) # seen"] Cons.prems
    by (auto simp: dedup_keep simp del: dedup.simps split: if_splits)
qed simp

lemma dedup_distinct: "distinct (map (\<lambda>c. content_key (body c)) (fst (dedup body seen cs)))"
proof (induction cs arbitrary: seen)
  case (Cons c cs)
  have "content_key (body c) \<noteq> content_key (body d)"
    if "d \<in> set (fst (dedup body (content_key (body c) # seen) cs))" for d
    using dedup_keys [OF that] by auto
  with Cons.IH show ?case by (auto simp: dedup_keep simp del: dedup.simps)
qed simp

lemma order_by_score_set: "set (order_by_score cid f cs) = {c \<in> set cs. 0 < f c}"
  by (force simp: order_by_score_def)

lemma order_by_score_nonempty:
  "order_by_score cid f cs = [] \<longleftrightarrow> (\<forall>c \<in> set cs. f c \<le> 0)"
proof -
  have "order_by_score cid f cs = [] \<longleftrightarrow> {c \<in> set cs. 0 < f c} = {}"
    by (simp only: order_by_score_set [symmetric, of cs f cid] set_empty)
  then show ?thesis by (auto simp: not_less)
qed

lemma py_take_subset: "set (py_take m xs) \<subseteq> set xs"
  by (auto simp: py_take_def dest: in_set_takeD)

lemma py_take_length: "0 \<le> m \<Longrightarrow> length (py_take m xs) \<le> nat m"
  by (simp add: py_take_def)

lemma py_take_distinct: "distinct (map f xs) \<Longrightarrow> distinct (map f (py_take m xs))"
  by (auto simp: py_take_def take_map [symmetric] distinct_take)

lemma py_take_sorted: "sorted (map f xs) \<Longrightarrow> sorted (map f (py_take m xs))"
  by (auto simp: py_take_def take_map [symmetric] sorted_wrt_take)

lemma rank_fused_facts:
  assumes "rank_fused h cid body query cs = (ranked, tr, degraded)"
  shows "set ranked \<subseteq> set cs" and "distinct (map (\<lambda>c. content_key (body c)) ranked)"
    and "sorted (map (\<lambda>c. (- trace_score tr (cid c), cid c)) ranked)"
proof -
  define keep where "keep = fst (dedup body [] cs)"
  obtain P where r: "ranked = sort_key (\<lambda>c. (- trace_score tr (cid c), cid c)) (filter P keep)"
    using assms by (auto simp: rank_fused_def Let_def keep_def split: prod.splits)
  show "set ranked \<subseteq> set cs"
    using dedup_subset [of body "[]" cs] by (auto simp: r keep_def)
  have "distinct (map (\<lambda>c. content_key (body c)) (filter P keep))"
    using dedup_distinct [of body "[]" cs] by (simp add: keep_def distinct_map_filter)
  then have i: "inj_on (\<lambda>c. content_key (body c)) (set (filter P keep))" and "distinct (filter P keep)"
    by (simp_all only: distinct_map)
  then have "distinct ranked" by (simp add: r distinct_sort)
  with i show "distinct (map (\<lambda>c. content_key (body c)) ranked)"
    by (simp add: distinct_map r)
  show "sorted (map (\<lambda>c. (- trace_score tr (cid c), cid c)) ranked)"
    by (simp only: r sorted_sort_key)
qed

text \<open>A reranker is sound when it returns members of the list it was given.\<close>

definition sound_reranker :: "'c hybrid_retriever \<Rightarrow> bool" where
  "sound_reranker h \<longleftrightarrow> (\<forall>f query xs ys. hr_reranker h = Some f \<longrightarrow> f query xs = Some ys \<longrightarrow> set ys \<subseteq> set xs)"

lemma sound_default [simp]: "sound_reranker (default_retriever s)"
  by (simp add: sound_reranker_def default_retriever_def)

lemma rerank_subset: "sound_reranker h \<Longrightarrow> set (fst (rerank h query xs)) \<subseteq> set xs"
  unfolding rerank_def sound_reranker_def by (auto split: option.splits)

lemma rank_selected_subset:
  assumes "sound_reranker h"
  shows "set (rr_selected (rank_candidates h cid body query cs m)) \<subseteq> set cs"
proof -
  obtain ranked tr degraded where f: "rank_fused h cid body query cs = (ranked, tr, degraded)"
    by (metis prod_cases3)
  have "set (fst (rerank h query ranked)) \<subseteq> set cs"
    using rerank_subset [OF assms, of query ranked] rank_fused_facts(1) [OF f] by blast
  then show ?thesis
    using py_take_subset [of m "fst (rerank h query ranked)"]
    by (auto simp: rank_candidates_def f Let_def split: prod.splits)
qed

lemma rank_selected_length:
  "0 \<le> m \<Longrightarrow> length (rr_selected (rank_candidates h cid body query cs m)) \<le> nat m"
  by (auto simp: rank_candidates_def Let_def py_take_length split: prod.splits)

lemma rank_selected_nonempty:
  assumes "hr_reranker h = None" and "cs \<noteq> []" and "0 < m"
    and "\<forall>c \<in> set cs. \<exists>x > 0. hr_dense h query (body c) = Some x"
  shows "rr_selected (rank_candidates h cid body query cs m) \<noteq> []"
proof -
  define keep where "keep = fst (dedup body [] cs)"
  obtain c where c: "c \<in> set keep"
    using assms(2) by (cases cs) (auto simp: keep_def dedup_keep simp del: dedup.simps)
  have sub: "set keep \<subseteq> set cs" by (simp add: keep_def dedup_subset)
  with c assms(4) obtain x where x: "hr_dense h query (body c) = Some x" "0 < x" by blast
  have all: "list_all (\<lambda>c. hr_dense h query (body c) \<noteq> None) keep"
    using sub assms(4) by (fastforce simp: list_all_iff)
  define dense where "dense = order_by_score cid (\<lambda>c. the (hr_dense h query (body c))) keep"
  have d: "dense_order h cid body query keep = (dense, [])"
    using all by (simp add: dense_order_def dense_def)
  have "c \<in> set dense" using c x by (simp add: dense_def order_by_score_set)
  obtain dropped where dd: "dedup body [] cs = (keep, dropped)"
    by (cases "dedup body [] cs") (simp add: keep_def)
  obtain lexical and k :: "_ \<Rightarrow> float64 \<times> uuid" where k: "fst (rank_fused h cid body query cs)
      = sort_key k (filter (\<lambda>c. cid c \<in> set (map cid (lexical @ dense))) keep)"
    unfolding rank_fused_def dd Let_def prod.case d fst_conv by blast
  have "c \<in> set (fst (rank_fused h cid body query cs))"
    using \<open>c \<in> set dense\<close> c by (simp add: k)
  moreover have "rr_selected (rank_candidates h cid body query cs m)
      = py_take m (fst (rank_fused h cid body query cs))"
    by (simp add: rank_candidates_def rerank_def assms(1) Let_def split: prod.splits)
  ultimately show ?thesis using assms(3) by (auto simp: py_take_def)
qed

section \<open>The interface of a ranking\<close>

locale ranker =
  fixes pick :: "string \<Rightarrow> 'c list \<Rightarrow> int \<Rightarrow> 'c list"
  assumes pick_from_input: "set (pick query cs m) \<subseteq> set cs"
    and pick_bounded: "0 \<le> m \<Longrightarrow> length (pick query cs m) \<le> nat m"
begin

lemma picked_from_filtered: "c \<in> set (pick query (filter P cs) m) \<Longrightarrow> c \<in> set cs \<and> P c"
  using pick_from_input by fastforce

lemma nothing_from_nothing: "pick query [] m = []"
  using pick_from_input [of query "[]" m] by simp

lemma nothing_for_zero: "pick query cs 0 = []"
  using pick_bounded [of 0 query cs] by simp

end

text \<open>The shipped configuration, without a reranker, is a ranker.\<close>

interpretation default_ranker: ranker
  "\<lambda>query cs m. rr_selected (rank_candidates (default_retriever s) cid body query cs m)" for s cid body
  by unfold_locales (simp_all add: rank_selected_subset rank_selected_length)

text \<open>Without a reranker the selected candidates are input candidates, pairwise
  different in normalized content, at most \<open>max_items\<close> many, and in falling order of the fused
  score with ties in the order of the chunk ids.\<close>

theorem rank_candidates_ordered:
  assumes "hr_reranker h = None" and "0 \<le> m"
  shows "set (rr_selected (rank_candidates h cid body query cs m)) \<subseteq> set cs
    \<and> length (rr_selected (rank_candidates h cid body query cs m)) \<le> nat m
    \<and> distinct (map (\<lambda>c. content_key (body c)) (rr_selected (rank_candidates h cid body query cs m)))
    \<and> sorted (map (\<lambda>c. (- trace_score (fst (snd (rank_fused h cid body query cs))) (cid c), cid c))
        (rr_selected (rank_candidates h cid body query cs m)))"
proof -
  obtain ranked tr degraded where f: "rank_fused h cid body query cs = (ranked, tr, degraded)"
    by (metis prod_cases3)
  have sel: "rr_selected (rank_candidates h cid body query cs m) = py_take m ranked"
    by (simp add: rank_candidates_def f rerank_def assms(1) Let_def)
  have "sound_reranker h" by (simp add: sound_reranker_def assms(1))
  with f sel show ?thesis
    using rank_selected_subset [of h cid body query cs m] py_take_length [OF assms(2), of ranked]
      py_take_distinct [OF rank_fused_facts(2) [OF f]] py_take_sorted [OF rank_fused_facts(3) [OF f]]
    by simp
qed

text \<open>Three passages, two of them the same up to case and spacing.\<close>

definition demo_passages :: "(uuid \<times> string) list" where
  "demo_passages = [(''p1'', ''Energy  levels''), (''p2'', ''energy levels''), (''p3'', ''orbital shapes'')]"

definition demo_hybrid :: "(uuid \<times> string) hybrid_retriever" where
  "demo_hybrid = \<lparr>hr_dense = (\<lambda>q t. Some 0), hr_reranker = None, hr_rrf_k = 60\<rparr>"

theorem rank_candidates_ordered_witness:
  "set (rr_selected (rank_candidates demo_hybrid fst snd ''energy'' demo_passages 5)) \<subseteq> set demo_passages
    \<and> length (rr_selected (rank_candidates demo_hybrid fst snd ''energy'' demo_passages 5)) \<le> nat 5
    \<and> distinct (map (\<lambda>c. content_key (snd c))
        (rr_selected (rank_candidates demo_hybrid fst snd ''energy'' demo_passages 5)))
    \<and> sorted (map (\<lambda>c. (- trace_score
          (fst (snd (rank_fused demo_hybrid fst snd ''energy'' demo_passages))) (fst c), fst c))
        (rr_selected (rank_candidates demo_hybrid fst snd ''energy'' demo_passages 5)))"
  by (rule rank_candidates_ordered) (simp_all add: demo_hybrid_def)

end
