(* ===== verification/Outbox.thy ===== *)
theory Outbox
  imports Contracts
begin

text \<open>
  \<open>app/infrastructure/outbox.py\<close>: the transactional outbox and its recoverable worker. The table
  \<open>outbox_tasks\<close> is a list of rows in insertion order. A call that reads and then writes takes the
  table as its read saw it (\<open>seen\<close>) and the table at its write (\<open>tab\<close>): the two differ when another
  transaction committed in between. Clock readings and generated row ids are arguments.
\<close>

section \<open>Rows\<close>

datatype outbox_status = PENDING | PROCESSING | RETRY | COMPLETED | DEAD_LETTER

datatype outbox_error = NAIVE_NEXT_ATTEMPT | INTEGRITY | TASK_NOT_FOUND | BACKOFF_OVERFLOW

record outbox_task =
  ot_id :: uuid
  ot_type :: string
  ot_schema :: string
  ot_payload :: pyval
  ot_status :: outbox_status
  ot_key :: string
  ot_attempts :: int
  ot_next :: time
  ot_error :: "string option"
  ot_created :: time
  ot_updated :: time

record task_request =
  tq_type :: string
  tq_schema :: string
  tq_payload :: pyval
  tq_key :: string
  tq_next :: "pydatetime option"

definition task_by_key :: "outbox_task list \<Rightarrow> string \<Rightarrow> outbox_task option" where
  "task_by_key tab k = find (\<lambda>r. ot_key r = k) tab"

definition task_by_id :: "outbox_task list \<Rightarrow> uuid \<Rightarrow> outbox_task option" where
  "task_by_id tab i = find (\<lambda>r. ot_id r = i) tab"

section \<open>The repository\<close>

definition new_row :: "uuid \<Rightarrow> time \<Rightarrow> time \<Rightarrow> task_request \<Rightarrow> outbox_task" where
  "new_row fresh clock due q =
    \<lparr>ot_id = fresh, ot_type = tq_type q, ot_schema = tq_schema q, ot_payload = tq_payload q,
     ot_status = PENDING, ot_key = tq_key q, ot_attempts = 0, ot_next = due, ot_error = None,
     ot_created = clock, ot_updated = clock\<rparr>"

text \<open>The insert violates the primary key or the unique idempotency key: the savepoint is rolled
  back and the row that won is returned, or the error propagates when there is none.\<close>

definition insert_row :: "outbox_task list \<Rightarrow> outbox_task \<Rightarrow> outbox_error + outbox_task list \<times> outbox_task" where
  "insert_row tab row =
     (if list_ex (\<lambda>r. ot_id r = ot_id row \<or> ot_key r = ot_key row) tab
      then (case task_by_key tab (ot_key row) of None \<Rightarrow> Inl INTEGRITY | Some t \<Rightarrow> Inr (tab, t))
      else Inr (tab @ [row], row))"

definition enqueue :: "outbox_task list \<Rightarrow> outbox_task list \<Rightarrow> uuid \<Rightarrow> time \<Rightarrow> task_request \<Rightarrow>
    outbox_error + outbox_task list \<times> outbox_task" where
  "enqueue seen tab fresh clock q =
     (case task_by_key seen (tq_key q) of
        Some t \<Rightarrow> Inr (tab, t)
      | None \<Rightarrow>
          (case (case tq_next q of None \<Rightarrow> Aware clock | Some d \<Rightarrow> d) of
             Naive _ \<Rightarrow> Inl NAIVE_NEXT_ATTEMPT
           | Aware due \<Rightarrow> insert_row tab (new_row fresh clock due q)))"

definition claimable :: "string list \<Rightarrow> time \<Rightarrow> outbox_task \<Rightarrow> bool" where
  "claimable types now r \<longleftrightarrow> ot_status r \<in> {PENDING, RETRY} \<and> ot_next r \<le> now \<and>
     (types = [] \<or> ot_type r \<in> set types)"

definition list_pending :: "outbox_task list \<Rightarrow> time \<Rightarrow> outbox_task list" where
  "list_pending tab now = sort_key (\<lambda>r. (ot_next r, ot_created r)) (filter (claimable [] now) tab)"

definition select_due :: "outbox_task list \<Rightarrow> string list \<Rightarrow> time \<Rightarrow> uuid option" where
  "select_due seen types now =
     (case sort_key (\<lambda>r. (ot_next r, ot_created r)) (filter (claimable types now) seen) of
        [] \<Rightarrow> None
      | r # _ \<Rightarrow> Some (ot_id r))"

definition claim_guard :: "uuid \<Rightarrow> time \<Rightarrow> outbox_task \<Rightarrow> bool" where
  "claim_guard i now r \<longleftrightarrow> ot_id r = i \<and> ot_status r \<in> {PENDING, RETRY} \<and> ot_next r \<le> now"

definition claimed_row :: "time \<Rightarrow> outbox_task \<Rightarrow> outbox_task" where
  "claimed_row now r = r\<lparr>ot_status := PROCESSING, ot_attempts := ot_attempts r + 1, ot_updated := now\<rparr>"

text \<open>\<open>UPDATE ... WHERE p SET f\<close>.\<close>

definition update_where :: "(outbox_task \<Rightarrow> bool) \<Rightarrow> (outbox_task \<Rightarrow> outbox_task) \<Rightarrow> outbox_task list \<Rightarrow> outbox_task list" where
  "update_where p f tab = map (\<lambda>r. if p r then f r else r) tab"

definition claim_next :: "outbox_task list \<Rightarrow> outbox_task list \<Rightarrow> string list \<Rightarrow> time \<Rightarrow>
    outbox_task list \<times> outbox_task option" where
  "claim_next seen tab types now =
     (case select_due seen types now of
        None \<Rightarrow> (tab, None)
      | Some i \<Rightarrow>
          (let tab' = update_where (claim_guard i now) (claimed_row now) tab
           in (tab', if length (filter (claim_guard i now) tab) \<noteq> 1 then None else task_by_id tab' i)))"

definition completed_row :: "time \<Rightarrow> outbox_task \<Rightarrow> outbox_task" where
  "completed_row now r = r\<lparr>ot_status := COMPLETED, ot_error := None, ot_updated := now\<rparr>"

definition failed_row :: "string \<Rightarrow> bool \<Rightarrow> time option \<Rightarrow> time \<Rightarrow> outbox_task \<Rightarrow> outbox_task" where
  "failed_row err dead next_at now r =
     r\<lparr>ot_status := (if dead then DEAD_LETTER else RETRY), ot_error := Some (take 4000 err),
       ot_next := (case next_at of None \<Rightarrow> ot_next r | Some t \<Rightarrow> t), ot_updated := now\<rparr>"

definition with_row :: "uuid \<Rightarrow> (outbox_task \<Rightarrow> outbox_task) \<Rightarrow> outbox_task list \<Rightarrow> outbox_error + outbox_task list" where
  "with_row i f tab =
     (if task_by_id tab i = None then Inl TASK_NOT_FOUND else Inr (update_where (\<lambda>r. ot_id r = i) f tab))"

definition mark_completed :: "uuid \<Rightarrow> time \<Rightarrow> outbox_task list \<Rightarrow> outbox_error + outbox_task list" where
  "mark_completed i now tab = with_row i (completed_row now) tab"

definition mark_failed :: "uuid \<Rightarrow> string \<Rightarrow> bool \<Rightarrow> time option \<Rightarrow> time \<Rightarrow> outbox_task list \<Rightarrow>
    outbox_error + outbox_task list" where
  "mark_failed i err dead next_at now tab = with_row i (failed_row err dead next_at now) tab"

definition stale :: "time \<Rightarrow> outbox_task \<Rightarrow> bool" where
  "stale before r \<longleftrightarrow> ot_status r = PROCESSING \<and> ot_updated r \<le> before"

definition recover_stale :: "time \<Rightarrow> time \<Rightarrow> outbox_task list \<Rightarrow> outbox_task list \<times> nat" where
  "recover_stale before now tab =
     (update_where (stale before)
        (\<lambda>r. r\<lparr>ot_status := RETRY, ot_next := now, ot_error := Some ''OUTBOX_STALE_CLAIM_RECOVERED'', ot_updated := now\<rparr>) tab,
      length (filter (stale before) tab))"

section \<open>The worker\<close>

datatype handler_outcome = HANDLED | PERMANENT_ERROR string | TRANSIENT_ERROR string string

type_synonym handlers = "string \<Rightarrow> (outbox_task \<Rightarrow> handler_outcome) option"

record worker =
  wk_max_attempts :: int
  wk_base_seconds :: int

definition default_worker :: worker where
  "default_worker = \<lparr>wk_max_attempts = 5, wk_base_seconds = 5\<rparr>"

definition major_version :: "string \<Rightarrow> string" where
  "major_version v = takeWhile (\<lambda>c. c \<noteq> CHR ''.'') v"

text \<open>The failure of a claimed task, and whether it is permanent.\<close>

definition task_failure :: "handlers \<Rightarrow> outbox_task \<Rightarrow> (string \<times> bool) option" where
  "task_failure hs t =
     (case hs (ot_type t) of
        None \<Rightarrow> Some (''OUTBOX_HANDLER_NOT_FOUND:'' @ ot_type t, True)
      | Some h \<Rightarrow>
          if major_version (ot_schema t) \<noteq> ''1''
          then Some (''OUTBOX_UNSUPPORTED_SCHEMA_VERSION:'' @ ot_schema t, True)
          else (case h t of
                  HANDLED \<Rightarrow> None
                | PERMANENT_ERROR m \<Rightarrow> Some (''OUTBOX_PERMANENT_ERROR:'' @ m, True)
                | TRANSIENT_ERROR c m \<Rightarrow> Some (''OUTBOX_TRANSIENT_ERROR:'' @ c @ '':'' @ m, False)))"

definition backoff_seconds :: "worker \<Rightarrow> outbox_task \<Rightarrow> int" where
  "backoff_seconds cfg t = wk_base_seconds cfg * 2 ^ nat (max (ot_attempts t - 1) 0)"

definition report :: "worker \<Rightarrow> time \<Rightarrow> outbox_task \<Rightarrow> (string \<times> bool) option \<Rightarrow> outbox_task list \<Rightarrow>
    outbox_error + outbox_task list" where
  "report cfg now t failure tab =
     (case failure of
        None \<Rightarrow> mark_completed (ot_id t) now tab
      | Some (err, permanent) \<Rightarrow>
          (let due = now + backoff_seconds cfg t * 1000000
           in if datetime_max < due then Inl BACKOFF_OVERFLOW
              else mark_failed (ot_id t) err (permanent \<or> wk_max_attempts cfg \<le> ot_attempts t) (Some due) now tab))"

definition run_once :: "worker \<Rightarrow> handlers \<Rightarrow> time \<Rightarrow> outbox_task list \<Rightarrow> outbox_error + outbox_task list \<times> bool" where
  "run_once cfg hs now tab =
     (case claim_next tab tab [] now of
        (tab', None) \<Rightarrow> Inr (tab', False)
      | (tab', Some t) \<Rightarrow> bind_res (report cfg now t (task_failure hs t) tab') (\<lambda>tab''. Inr (tab'', True)))"

definition recover_stale_claims :: "time \<Rightarrow> time \<Rightarrow> outbox_task list \<Rightarrow> outbox_task list \<times> nat" where
  "recover_stale_claims lease now tab = recover_stale (now - lease) now tab"

definition lease_timeout :: time where
  "lease_timeout = 300000000"

section \<open>Several workers\<close>

text \<open>
  The transactions of any number of workers and producers, in the order they commit. A claim stays
  with its worker until the worker reports or dies; the claims are the tasks as \<open>claim_next\<close> returned
  them. A report whose transaction fails is a worker that raised.
\<close>

record outbox_world =
  ow_rows :: "outbox_task list"
  ow_claims :: "outbox_task list"

datatype outbox_event =
    Enqueue "outbox_task list" uuid time task_request
  | Claim "outbox_task list" time
  | Report nat time "(string \<times> bool) option"
  | Crash nat
  | Recover time time

definition drop_at :: "nat \<Rightarrow> 'a list \<Rightarrow> 'a list" where
  "drop_at n xs = take n xs @ drop (Suc n) xs"

fun outbox_exec :: "worker \<Rightarrow> outbox_event \<Rightarrow> outbox_world \<Rightarrow> outbox_world" where
  "outbox_exec cfg (Enqueue seen fresh clock q) w =
     (case enqueue seen (ow_rows w) fresh clock q of Inl _ \<Rightarrow> w | Inr (tab, _) \<Rightarrow> w\<lparr>ow_rows := tab\<rparr>)"
| "outbox_exec cfg (Claim seen now) w =
     (case claim_next seen (ow_rows w) [] now of
        (tab, None) \<Rightarrow> w\<lparr>ow_rows := tab\<rparr>
      | (tab, Some t) \<Rightarrow> w\<lparr>ow_rows := tab, ow_claims := ow_claims w @ [t]\<rparr>)"
| "outbox_exec cfg (Report n now failure) w =
     (if n < length (ow_claims w) then
        (case report cfg now (ow_claims w ! n) failure (ow_rows w) of
           Inl _ \<Rightarrow> w\<lparr>ow_claims := drop_at n (ow_claims w)\<rparr>
         | Inr tab \<Rightarrow> \<lparr>ow_rows = tab, ow_claims = drop_at n (ow_claims w)\<rparr>)
      else w)"
| "outbox_exec cfg (Crash n) w = w\<lparr>ow_claims := drop_at n (ow_claims w)\<rparr>"
| "outbox_exec cfg (Recover lease now) w = w\<lparr>ow_rows := fst (recover_stale_claims lease now (ow_rows w))\<rparr>"

inductive outbox_reach :: "worker \<Rightarrow> (outbox_event \<Rightarrow> bool) \<Rightarrow> outbox_world \<Rightarrow> bool"
  for cfg allowed where
  start: "outbox_reach cfg allowed \<lparr>ow_rows = [], ow_claims = []\<rparr>"
| step: "outbox_reach cfg allowed w \<Longrightarrow> allowed e \<Longrightarrow> outbox_reach cfg allowed (outbox_exec cfg e w)"

fun is_recover :: "outbox_event \<Rightarrow> bool" where
  "is_recover (Recover _ _) = True"
| "is_recover _ = False"

section \<open>Row updates\<close>

lemma update_where_keeps [simp]:
  assumes "\<And>r. k (f r) = k r"
  shows "map k (update_where p f tab) = map k tab"
  using assms by (simp add: update_where_def)

lemma row_edits [simp]:
  "ot_id (claimed_row now r) = ot_id r" "ot_key (claimed_row now r) = ot_key r"
  "ot_attempts (claimed_row now r) = ot_attempts r + 1" "ot_status (claimed_row now r) = PROCESSING"
  "ot_id (completed_row now r) = ot_id r" "ot_key (completed_row now r) = ot_key r"
  "ot_attempts (completed_row now r) = ot_attempts r" "ot_status (completed_row now r) = COMPLETED"
  "ot_id (failed_row err dead nx now r) = ot_id r" "ot_key (failed_row err dead nx now r) = ot_key r"
  "ot_attempts (failed_row err dead nx now r) = ot_attempts r"
  "ot_status (failed_row err dead nx now r) = (if dead then DEAD_LETTER else RETRY)"
  by (simp_all add: claimed_row_def completed_row_def failed_row_def)

lemma update_where_iff: "r' \<in> set (update_where p f tab) \<longleftrightarrow> (\<exists>r \<in> set tab. r' = (if p r then f r else r))"
  by (auto simp: update_where_def)

lemma row_unique: "distinct (map k tab) \<Longrightarrow> r \<in> set tab \<Longrightarrow> r' \<in> set tab \<Longrightarrow> k r = k r' \<Longrightarrow> r = r'"
  by (metis distinct_map inj_onD)

lemma find_mem: "find p xs = Some x \<Longrightarrow> x \<in> set xs \<and> p x"
  by (auto simp: find_Some_iff)

lemma find_unique:
  assumes "distinct (map k xs)" and "x \<in> set xs"
  shows "find (\<lambda>y. k y = k x) xs = Some x"
proof (cases "find (\<lambda>y. k y = k x) xs")
  case None
  with assms(2) show ?thesis by (auto simp: find_None_iff)
next
  case (Some y)
  with find_mem [OF Some] assms row_unique show ?thesis by metis
qed

lemma insert_row_cases:
  assumes "insert_row tab row = Inr (tab', t)"
  shows "tab' = tab \<and> t \<in> set tab \<and> ot_key t = ot_key row \<or>
    tab' = tab @ [row] \<and> t = row \<and> ot_id row \<notin> ot_id ` set tab \<and> ot_key row \<notin> ot_key ` set tab"
  using assms by (auto simp: insert_row_def task_by_key_def list_ex_iff dest!: find_mem split: if_splits option.splits)

lemma enqueue_cases:
  assumes "enqueue seen tab fresh clock q = Inr (tab', t)"
  obtains "tab' = tab" | due where "tab' = tab @ [new_row fresh clock due q]" and "t = new_row fresh clock due q"
    and "fresh \<notin> ot_id ` set tab" and "tq_key q \<notin> ot_key ` set tab"
proof -
  have "tab' = tab \<or> (\<exists>due. tab' = tab @ [new_row fresh clock due q] \<and> t = new_row fresh clock due q
      \<and> fresh \<notin> ot_id ` set tab \<and> tq_key q \<notin> ot_key ` set tab)"
    using assms
    by (auto simp: enqueue_def new_row_def dest!: insert_row_cases split: option.splits pydatetime.splits)
  then show ?thesis using that by blast
qed

lemma claim_next_cases:
  assumes "claim_next seen tab types now = (tab', r)"
  obtains "tab' = tab" and "r = None"
  | i where "tab' = update_where (claim_guard i now) (claimed_row now) tab"
    and "r = None \<or> length (filter (claim_guard i now) tab) = 1 \<and> r = task_by_id tab' i"
proof -
  have "tab' = tab \<and> r = None \<or> (\<exists>i. tab' = update_where (claim_guard i now) (claimed_row now) tab
      \<and> (r = None \<or> length (filter (claim_guard i now) tab) = 1 \<and> r = task_by_id tab' i))"
    using assms by (auto simp: claim_next_def Let_def split: option.splits if_splits)
  then show ?thesis using that by blast
qed

lemma claim_next_Some:
  assumes "claim_next seen tab types now = (tab', Some t)" and "distinct (map ot_id tab)"
  obtains r where "r \<in> set tab" and "ot_status r \<in> {PENDING, RETRY}" and "ot_next r \<le> now"
    and "t = claimed_row now r" and "tab' = update_where (\<lambda>x. ot_id x = ot_id r) (claimed_row now) tab"
proof -
  obtain i where tab': "tab' = update_where (claim_guard i now) (claimed_row now) tab"
    and one: "length (filter (claim_guard i now) tab) = 1" and t: "task_by_id tab' i = Some t"
    using assms(1) by (rule claim_next_cases) auto
  then obtain r where r: "r \<in> set tab" "claim_guard i now r"
    by (metis filter_empty_conv length_0_conv zero_neq_one)
  have "claim_guard i now x \<longleftrightarrow> ot_id x = ot_id r" if "x \<in> set tab" for x
    using r that row_unique [OF assms(2)] by (auto simp: claim_guard_def)
  then have same: "tab' = update_where (\<lambda>x. ot_id x = ot_id r) (claimed_row now) tab"
    by (auto simp: tab' update_where_def)
  then have "distinct (map ot_id tab')" "claimed_row now r \<in> set tab'"
    using assms(2) r(1) by (auto simp: update_where_iff)
  from find_unique [OF this] t r(2) have "t = claimed_row now r"
    by (auto simp: task_by_id_def claim_guard_def)
  with r same show ?thesis by (intro that [of r]) (auto simp: claim_guard_def)
qed

lemma report_cases:
  assumes "report cfg now t failure tab = Inr tab'"
  obtains f where "tab' = update_where (\<lambda>r. ot_id r = ot_id t) f tab"
    and "\<And>r. ot_id (f r) = ot_id r" and "\<And>r. ot_key (f r) = ot_key r" and "\<And>r. ot_attempts (f r) = ot_attempts r"
    and "\<And>r. ot_status (f r) \<in> {COMPLETED, DEAD_LETTER, RETRY}"
    and "\<And>r. ot_status (f r) = RETRY \<Longrightarrow> ot_attempts t < wk_max_attempts cfg"
proof -
  have "\<exists>f. tab' = update_where (\<lambda>r. ot_id r = ot_id t) f tab \<and>
      (\<forall>r. ot_id (f r) = ot_id r \<and> ot_key (f r) = ot_key r \<and> ot_attempts (f r) = ot_attempts r \<and>
        ot_status (f r) \<in> {COMPLETED, DEAD_LETTER, RETRY} \<and>
        (ot_status (f r) = RETRY \<longrightarrow> ot_attempts t < wk_max_attempts cfg))"
    using assms
    by (fastforce simp: report_def mark_completed_def mark_failed_def with_row_def Let_def
        split: option.splits prod.splits if_splits)
  then show ?thesis using that by blast
qed

section \<open>What holds of every reachable table\<close>

definition sane_row :: "outbox_task \<Rightarrow> bool" where
  "sane_row r \<longleftrightarrow> 0 \<le> ot_attempts r \<and> (ot_status r = PENDING \<longleftrightarrow> ot_attempts r = 0)"

definition sane_table :: "outbox_task list \<Rightarrow> bool" where
  "sane_table tab \<longleftrightarrow> distinct (map ot_id tab) \<and> distinct (map ot_key tab) \<and> list_all sane_row tab"

lemma sane_edit:
  assumes "sane_table tab" and "\<And>r. ot_id (f r) = ot_id r" and "\<And>r. ot_key (f r) = ot_key r"
    and "\<And>r. r \<in> set tab \<Longrightarrow> p r \<Longrightarrow> sane_row r \<Longrightarrow> sane_row (f r)"
  shows "sane_table (update_where p f tab)"
  using assms by (auto simp: sane_table_def list_all_iff update_where_iff)

lemma sane_enqueue:
  assumes "sane_table tab" and "enqueue seen tab fresh clock q = Inr (tab', t)"
  shows "sane_table tab'"
  using assms(2) by (rule enqueue_cases) (use assms(1) in \<open>auto simp: sane_table_def sane_row_def new_row_def\<close>)

lemma sane_claim:
  assumes "sane_table tab" and "claim_next seen tab types now = (tab', r)"
  shows "sane_table tab'"
  using assms(2)
  by (rule claim_next_cases) (use assms(1) in \<open>auto intro!: sane_edit simp: sane_row_def\<close>)

lemma drop_at_subset: "set (drop_at n xs) \<subseteq> set xs"
  by (auto simp: drop_at_def dest: in_set_takeD in_set_dropD)

text \<open>Every claim has a row, claimed at least once.\<close>

definition claims_live :: "outbox_task list \<Rightarrow> outbox_task list \<Rightarrow> bool" where
  "claims_live cs tab \<longleftrightarrow> (\<forall>t \<in> set cs. \<exists>r \<in> set tab. ot_id r = ot_id t \<and> 1 \<le> ot_attempts r)"

lemma claims_live_mono: "claims_live cs tab \<Longrightarrow> set cs' \<subseteq> set cs \<Longrightarrow> set tab \<subseteq> set tab' \<Longrightarrow> claims_live cs' tab'"
  by (fastforce simp: claims_live_def)

lemma claims_live_edit:
  assumes "claims_live cs tab" and f: "\<And>r. ot_id (f r) = ot_id r" "\<And>r. ot_attempts r \<le> ot_attempts (f r)"
  shows "claims_live cs (update_where p f tab)"
  unfolding claims_live_def
proof
  fix t assume "t \<in> set cs"
  with assms(1) obtain r where r: "r \<in> set tab" "ot_id r = ot_id t" "1 \<le> ot_attempts r"
    by (auto simp: claims_live_def)
  with f(1) order_trans [OF r(3) f(2)]
  show "\<exists>r \<in> set (update_where p f tab). ot_id r = ot_id t \<and> 1 \<le> ot_attempts r"
    by (intro bexI [of _ "if p r then f r else r"]) (auto simp: update_where_iff)
qed

lemma claims_live_claim: "claims_live cs tab \<Longrightarrow> claim_next seen tab types now = (tab', r) \<Longrightarrow> claims_live cs tab'"
  by (erule claim_next_cases) (simp_all add: claims_live_edit)

definition world_sane :: "outbox_world \<Rightarrow> bool" where
  "world_sane w \<longleftrightarrow> sane_table (ow_rows w) \<and> claims_live (ow_claims w) (ow_rows w)"

lemma world_sane_report:
  assumes w: "world_sane w" and n: "n < length (ow_claims w)"
    and r: "report cfg now (ow_claims w ! n) failure (ow_rows w) = Inr tab"
  shows "world_sane \<lparr>ow_rows = tab, ow_claims = drop_at n (ow_claims w)\<rparr>"
proof -
  let ?t = "ow_claims w ! n"
  obtain f where tab: "tab = update_where (\<lambda>r. ot_id r = ot_id ?t) f (ow_rows w)"
    and f: "\<And>r. ot_id (f r) = ot_id r" "\<And>r. ot_key (f r) = ot_key r" "\<And>r. ot_attempts (f r) = ot_attempts r"
      "\<And>r. ot_status (f r) \<in> {COMPLETED, DEAD_LETTER, RETRY}"
    using r by (rule report_cases) (rule that, assumption)
  have np: "ot_status (f r) \<noteq> PENDING" for r using f(4) [of r] by auto
  obtain r0 where r0: "r0 \<in> set (ow_rows w)" "ot_id r0 = ot_id ?t" "1 \<le> ot_attempts r0"
    using w nth_mem [OF n] by (auto simp: world_sane_def claims_live_def)
  have "1 \<le> ot_attempts r" if "r \<in> set (ow_rows w)" "ot_id r = ot_id ?t" for r
    using that r0 w row_unique [of ot_id "ow_rows w" r r0] by (auto simp: world_sane_def sane_table_def)
  then have "sane_row (f r)" if "r \<in> set (ow_rows w)" "ot_id r = ot_id ?t" for r
    using that np [of r] by (fastforce simp: sane_row_def f(3))
  with w f(1,2) have "sane_table tab"
    unfolding tab by (intro sane_edit) (auto simp: world_sane_def)
  moreover have "claims_live (ow_claims w) tab"
    unfolding tab using w f(1,3) by (intro claims_live_edit) (auto simp: world_sane_def)
  ultimately show ?thesis
    using claims_live_mono [OF _ drop_at_subset subset_refl] by (simp add: world_sane_def)
qed

lemma world_sane_claim:
  assumes w: "world_sane w" and c: "claim_next seen (ow_rows w) [] now = (tab, r)"
  shows "world_sane (w\<lparr>ow_rows := tab, ow_claims := ow_claims w @ (case r of None \<Rightarrow> [] | Some t \<Rightarrow> [t])\<rparr>)"
proof -
  have old: "claims_live (ow_claims w) tab" using w claims_live_claim [OF _ c] by (simp add: world_sane_def)
  have s: "sane_table tab" using sane_claim [OF _ c] w by (simp add: world_sane_def)
  show ?thesis
  proof (cases r)
    case None
    with old s show ?thesis by (simp add: world_sane_def)
  next
    case (Some t)
    have d: "distinct (map ot_id (ow_rows w))" using w by (simp add: world_sane_def sane_table_def)
    obtain r0 where r0: "r0 \<in> set (ow_rows w)" "t = claimed_row now r0"
      "tab = update_where (\<lambda>x. ot_id x = ot_id r0) (claimed_row now) (ow_rows w)"
      using c unfolding Some by (rule claim_next_Some [OF _ d]) (rule that)
    then have "t \<in> set tab" by (auto simp: update_where_iff)
    moreover have "1 \<le> ot_attempts t"
      using r0(1,2) w by (auto simp: world_sane_def sane_table_def list_all_iff sane_row_def)
    ultimately have "claims_live [t] tab" by (auto simp: claims_live_def)
    with old s Some show ?thesis by (auto simp: world_sane_def claims_live_def)
  qed
qed

lemma world_sane_recover: "world_sane w \<Longrightarrow> world_sane (outbox_exec cfg (Recover lease now) w)"
  by (auto simp: world_sane_def recover_stale_claims_def recover_stale_def sane_row_def stale_def
      intro!: sane_edit claims_live_edit)

lemma world_sane_enqueue: "world_sane w \<Longrightarrow> world_sane (outbox_exec cfg (Enqueue seen fresh clock q) w)"
proof (cases "enqueue seen (ow_rows w) fresh clock q")
  case (Inr p)
  assume w: "world_sane w"
  obtain tab t where p: "p = (tab, t)" by fastforce
  with w Inr have "sane_table tab" using sane_enqueue by (auto simp: world_sane_def)
  moreover have "set (ow_rows w) \<subseteq> set tab" using Inr p by (auto elim!: enqueue_cases)
  ultimately show ?thesis using w Inr p claims_live_mono [OF _ subset_refl] by (auto simp: world_sane_def)
qed simp

lemma world_sane_exec: "world_sane w \<Longrightarrow> world_sane (outbox_exec cfg e w)"
proof (cases e)
  case (Claim seen now)
  assume w: "world_sane w"
  obtain tab r where c: "claim_next seen (ow_rows w) [] now = (tab, r)" by fastforce
  from world_sane_claim [OF w c] show ?thesis by (auto simp: Claim c split: option.splits)
next
  case (Report n now failure)
  assume w: "world_sane w"
  then have "world_sane (w\<lparr>ow_claims := drop_at n (ow_claims w)\<rparr>)"
    using claims_live_mono [OF _ drop_at_subset subset_refl] by (simp add: world_sane_def)
  then show ?thesis using w world_sane_report [OF w] by (simp add: Report split: sum.splits)
next
  case (Crash n)
  assume "world_sane w"
  then show ?thesis using claims_live_mono [OF _ drop_at_subset subset_refl] by (simp add: Crash world_sane_def)
qed (use world_sane_enqueue world_sane_recover in blast)+

lemma reach_world_sane: "outbox_reach cfg allowed w \<Longrightarrow> world_sane w"
proof (induction rule: outbox_reach.induct)
  case start
  show ?case by (simp add: world_sane_def sane_table_def claims_live_def)
qed (rule world_sane_exec)

text \<open>However producers, workers, crashes and recoveries interleave, row ids and
  idempotency keys stay unique, a row is pending exactly while it was never claimed, and the row
  behind every claim exists.\<close>

theorem outbox_table_sane:
  assumes "outbox_reach cfg allowed w"
  shows "distinct (map ot_id (ow_rows w)) \<and> distinct (map ot_key (ow_rows w)) \<and>
    list_all (\<lambda>r. ot_status r = PENDING \<longleftrightarrow> ot_attempts r = 0) (ow_rows w) \<and>
    set (map ot_id (ow_claims w)) \<subseteq> set (map ot_id (ow_rows w))"
  using reach_world_sane [OF assms]
  by (auto simp: world_sane_def sane_table_def sane_row_def claims_live_def list_all_iff) (metis image_eqI)

section \<open>A bounded number of attempts\<close>

abbreviation attempt_limit :: "worker \<Rightarrow> int" where
  "attempt_limit cfg \<equiv> max 1 (wk_max_attempts cfg)"

text \<open>Without recovery a claim is exclusive: its row is processing and counts as many attempts as
  the worker believes.\<close>

definition bounded_row :: "worker \<Rightarrow> outbox_task \<Rightarrow> bool" where
  "bounded_row cfg r \<longleftrightarrow> ot_attempts r \<le> attempt_limit cfg \<and>
     (ot_status r = RETRY \<longrightarrow> ot_attempts r < attempt_limit cfg)"

definition held :: "outbox_task \<Rightarrow> outbox_task \<Rightarrow> bool" where
  "held t r \<longleftrightarrow> ot_id r = ot_id t \<and> ot_status r = PROCESSING \<and> ot_attempts r = ot_attempts t"

definition claims_held :: "outbox_task list \<Rightarrow> outbox_task list \<Rightarrow> bool" where
  "claims_held cs tab \<longleftrightarrow> distinct (map ot_id cs) \<and> (\<forall>t \<in> set cs. \<exists>r \<in> set tab. held t r)"

lemma claims_held_other:
  assumes "claims_held cs tab" and "\<And>t. t \<in> set cs \<Longrightarrow> ot_id t \<noteq> i"
  shows "claims_held cs (update_where (\<lambda>r. ot_id r = i) f tab)"
  unfolding claims_held_def
proof (intro conjI ballI)
  show "distinct (map ot_id cs)" using assms(1) by (simp add: claims_held_def)
next
  fix t assume t: "t \<in> set cs"
  with assms(1) obtain r where r: "r \<in> set tab" "held t r" by (auto simp: claims_held_def)
  moreover from this assms(2) [OF t] have "r \<in> set (update_where (\<lambda>r. ot_id r = i) f tab)"
    unfolding update_where_iff by (intro bexI [of _ r]) (auto simp: held_def)
  ultimately show "\<exists>r \<in> set (update_where (\<lambda>r. ot_id r = i) f tab). held t r" by blast
qed

lemma drop_at_distinct:
  assumes "distinct (map k xs)" and "n < length xs"
  shows "distinct (map k (drop_at n xs)) \<and> (\<forall>x \<in> set (drop_at n xs). k x \<noteq> k (xs ! n))"
proof -
  have "xs = take n xs @ xs ! n # drop (Suc n) xs" using assms(2) by (rule id_take_nth_drop)
  then obtain ys x zs where e: "xs = ys @ x # zs" and n: "n = length ys" "xs ! n = x"
    using assms(2) by (metis length_take min.absorb2 less_imp_le)
  have "drop_at n xs = ys @ zs" by (simp add: drop_at_def e n(1))
  with assms(1) n(2) show ?thesis by (auto simp: e) (metis image_eqI)+
qed

lemma drop_at_held: "claims_held cs tab \<Longrightarrow> claims_held (drop_at n cs) tab"
proof (cases "n < length cs")
  case True
  assume "claims_held cs tab"
  with drop_at_distinct [OF _ True] drop_at_subset [of n cs] show ?thesis
    unfolding claims_held_def by (metis in_mono)
next
  case False
  assume "claims_held cs tab"
  with False show ?thesis by (simp add: drop_at_def)
qed

definition world_bounded :: "worker \<Rightarrow> outbox_world \<Rightarrow> bool" where
  "world_bounded cfg w \<longleftrightarrow> list_all (bounded_row cfg) (ow_rows w) \<and> claims_held (ow_claims w) (ow_rows w)"

lemma bounded_claim:
  assumes b: "world_bounded cfg w" and s: "sane_table (ow_rows w)"
    and c: "claim_next seen (ow_rows w) [] now = (tab, Some t)"
  shows "world_bounded cfg (w\<lparr>ow_rows := tab, ow_claims := ow_claims w @ [t]\<rparr>)"
proof -
  have d: "distinct (map ot_id (ow_rows w))" using s by (simp add: sane_table_def)
  obtain r where r: "r \<in> set (ow_rows w)" "ot_status r \<in> {PENDING, RETRY}" "t = claimed_row now r"
    and tab: "tab = update_where (\<lambda>x. ot_id x = ot_id r) (claimed_row now) (ow_rows w)"
    using c by (rule claim_next_Some [OF _ d]) (rule that)
  have same: "x = r" if "x \<in> set (ow_rows w)" "ot_id x = ot_id r" for x
    using that r(1) row_unique [OF d] by blast
  have "ot_attempts r < attempt_limit cfg"
    using b s r(1,2) by (auto simp: world_bounded_def list_all_iff bounded_row_def sane_table_def sane_row_def)
  then have "list_all (bounded_row cfg) tab"
    using b same by (fastforce simp: tab world_bounded_def list_all_iff update_where_iff bounded_row_def)
  moreover have other: "ot_id u \<noteq> ot_id r" if "u \<in> set (ow_claims w)" for u
  proof
    assume "ot_id u = ot_id r"
    with b that same have "held u r" unfolding world_bounded_def claims_held_def held_def by metis
    with r(2) show False by (auto simp: held_def)
  qed
  then have "claims_held (ow_claims w) tab"
    unfolding tab using b by (intro claims_held_other) (auto simp: world_bounded_def)
  moreover have "t \<in> set tab" "held t t" using r by (auto simp: tab update_where_iff held_def)
  moreover have "ot_id t \<notin> ot_id ` set (ow_claims w)" using other by (force simp: r(3))
  ultimately show ?thesis by (auto simp: world_bounded_def claims_held_def)
qed

lemma bounded_report:
  assumes b: "world_bounded cfg w" and s: "sane_table (ow_rows w)" and n: "n < length (ow_claims w)"
    and rep: "report cfg now (ow_claims w ! n) failure (ow_rows w) = Inr tab"
  shows "world_bounded cfg \<lparr>ow_rows = tab, ow_claims = drop_at n (ow_claims w)\<rparr>"
proof -
  let ?t = "ow_claims w ! n"
  obtain f where tab: "tab = update_where (\<lambda>r. ot_id r = ot_id ?t) f (ow_rows w)"
    and f: "\<And>r. ot_id (f r) = ot_id r" "\<And>r. ot_attempts (f r) = ot_attempts r"
      "\<And>r. ot_status (f r) = RETRY \<Longrightarrow> ot_attempts ?t < wk_max_attempts cfg"
    using rep by (rule report_cases) (rule that, assumption)
  obtain r0 where r0: "r0 \<in> set (ow_rows w)" "held ?t r0"
    using b nth_mem [OF n] by (auto simp: world_bounded_def claims_held_def)
  have "r = r0" if "r \<in> set (ow_rows w)" "ot_id r = ot_id ?t" for r
    using that r0 s row_unique by (metis held_def sane_table_def)
  then have "bounded_row cfg (f r)" if "r \<in> set (ow_rows w)" "ot_id r = ot_id ?t" for r
    using that r0 b f(3) [of r] by (auto simp: world_bounded_def list_all_iff bounded_row_def f(2) held_def)
  then have "list_all (bounded_row cfg) tab"
    using b by (auto simp: tab world_bounded_def list_all_iff update_where_iff)
  moreover have "claims_held (drop_at n (ow_claims w)) tab"
    unfolding tab using b drop_at_distinct [of ot_id, OF _ n]
    by (intro claims_held_other drop_at_held) (auto simp: world_bounded_def claims_held_def)
  ultimately show ?thesis by (simp add: world_bounded_def)
qed

lemma bounded_claim_none:
  assumes "claim_next seen tab types now = (tab', None)" and "distinct (map ot_id tab)"
  shows "tab' = tab"
proof -
  consider "tab' = tab" | i where "select_due seen types now = Some i"
    using assms(1) by (auto simp: claim_next_def split: option.splits)
  then show ?thesis
  proof cases
    case (2 i)
    let ?g = "claim_guard i now"
    have tab': "tab' = update_where ?g (claimed_row now) tab"
      using assms(1) 2 by (simp add: claim_next_def Let_def)
    show ?thesis
    proof (cases "length (filter ?g tab) = 1")
      case True
      then obtain r where r: "r \<in> set tab" "?g r"
        by (metis filter_empty_conv length_0_conv zero_neq_one)
      then have "claimed_row now r \<in> set tab'" "ot_id (claimed_row now r) = i"
        by (auto simp: tab' update_where_iff claim_guard_def)
      then have "task_by_id tab' i \<noteq> None" by (auto simp: task_by_id_def find_None_iff)
      with assms(1) 2 True tab' show ?thesis by (simp add: claim_next_def Let_def)
    next
      case False
      have "filter ?g tab = []"
      proof (rule ccontr)
        assume "filter ?g tab \<noteq> []"
        then obtain r rs where e: "filter ?g tab = r # rs" by (cases "filter ?g tab") auto
        have "rs = []"
        proof (rule ccontr)
          assume "rs \<noteq> []"
          then obtain r' where r': "r' \<in> set rs" by (cases rs) auto
          have "distinct (map ot_id (filter ?g tab))" using assms(2) by (rule distinct_map_filter)
          with e r' have "ot_id r \<noteq> ot_id r'" by (auto simp: image_iff)
          moreover have "set (r # rs) \<subseteq> {x. ?g x}" using e by (metis filter_is_subset mem_Collect_eq set_filter subsetI)
          then have "?g r" "?g r'" using r' by auto
          then have "ot_id r = ot_id r'" by (simp add: claim_guard_def)
          ultimately show False by simp
        qed
        with e False show False by simp
      qed
      then show ?thesis by (simp add: tab' update_where_def filter_empty_conv map_idI)
    qed
  qed
qed

lemma bounded_exec:
  assumes b: "world_bounded cfg w" and s: "world_sane w" and e: "\<not> is_recover e"
  shows "world_bounded cfg (outbox_exec cfg e w)"
proof (cases e)
  case (Enqueue seen fresh clock q)
  show ?thesis
  proof (cases "enqueue seen (ow_rows w) fresh clock q")
    case (Inr p)
    obtain tab t where p: "p = (tab, t)" by fastforce
    have "tab = ow_rows w \<or> (\<exists>due. tab = ow_rows w @ [new_row fresh clock due q])"
      using Inr p by (auto elim!: enqueue_cases)
    moreover have "bounded_row cfg (new_row fresh clock due q)" for due
      by (simp add: bounded_row_def new_row_def)
    ultimately show ?thesis using b
      by (auto simp: Enqueue Inr p world_bounded_def claims_held_def)
  qed (use b Enqueue in simp)
next
  case (Claim seen now)
  obtain tab r where c: "claim_next seen (ow_rows w) [] now = (tab, r)" by fastforce
  have st: "sane_table (ow_rows w)" using s by (simp add: world_sane_def)
  show ?thesis
  proof (cases r)
    case None
    with bounded_claim_none c st have "tab = ow_rows w" by (auto simp: sane_table_def)
    with None b show ?thesis by (simp add: Claim c)
  next
    case (Some t)
    with bounded_claim [OF b st] c show ?thesis by (simp add: Claim)
  qed
next
  case (Report n now failure)
  have st: "sane_table (ow_rows w)" using s by (simp add: world_sane_def)
  have "world_bounded cfg (w\<lparr>ow_claims := drop_at n (ow_claims w)\<rparr>)"
    using b drop_at_held by (simp add: world_bounded_def)
  then show ?thesis using b bounded_report [OF b st] by (simp add: Report split: sum.splits)
next
  case (Crash n)
  then show ?thesis using b drop_at_held by (simp add: world_bounded_def)
qed (use e in simp)

lemma reach_bounded: "outbox_reach cfg (\<lambda>e. \<not> is_recover e) w \<Longrightarrow> world_bounded cfg w"
proof (induction rule: outbox_reach.induct)
  case start
  show ?case by (simp add: world_bounded_def claims_held_def)
next
  case (step w e)
  from step.IH reach_world_sane [OF step.hyps(1)] step.hyps(2) show ?case by (rule bounded_exec)
qed

section \<open>Counting the starts\<close>

text \<open>A task is started when a claim returns it: its handler then runs. The starts of a task are counted
  along the run itself, apart from the counter the table keeps.\<close>

abbreviation empty_outbox :: outbox_world where
  "empty_outbox \<equiv> \<lparr>ow_rows = [], ow_claims = []\<rparr>"

definition run_outbox :: "worker \<Rightarrow> outbox_event list \<Rightarrow> outbox_world" where
  "run_outbox cfg es = foldl (\<lambda>w e. outbox_exec cfg e w) empty_outbox es"

fun started_by :: "outbox_event \<Rightarrow> outbox_world \<Rightarrow> uuid option" where
  "started_by (Claim seen now) w = map_option ot_id (snd (claim_next seen (ow_rows w) [] now))"
| "started_by _ w = None"

fun starts_from :: "worker \<Rightarrow> uuid \<Rightarrow> outbox_event list \<Rightarrow> outbox_world \<Rightarrow> nat" where
  "starts_from cfg i [] w = 0"
| "starts_from cfg i (e # es) w =
     (if started_by e w = Some i then 1 else 0) + starts_from cfg i es (outbox_exec cfg e w)"

abbreviation starts :: "worker \<Rightarrow> uuid \<Rightarrow> outbox_event list \<Rightarrow> nat" where
  "starts cfg i es \<equiv> starts_from cfg i es empty_outbox"

lemma starts_from_snoc: "starts_from cfg i (es @ [e]) w =
    starts_from cfg i es w + (if started_by e (foldl (\<lambda>w e. outbox_exec cfg e w) w es) = Some i then 1 else 0)"
  by (induction es arbitrary: w) auto

lemma starts_snoc: "starts cfg i (es @ [e]) = starts cfg i es + (if started_by e (run_outbox cfg es) = Some i then 1 else 0)"
  by (simp add: starts_from_snoc run_outbox_def)

lemma run_outbox_snoc: "run_outbox cfg (es @ [e]) = outbox_exec cfg e (run_outbox cfg es)"
  by (simp add: run_outbox_def)

lemma run_outbox_reach: "list_all allowed es \<Longrightarrow> outbox_reach cfg allowed (run_outbox cfg es)"
proof (induction es rule: rev_induct)
  case Nil
  show ?case by (simp add: run_outbox_def outbox_reach.start)
next
  case (snoc e es)
  then show ?case by (simp add: run_outbox_snoc outbox_reach.step)
qed

text \<open>The counter of a row agrees with a count, and only tasks with a row were counted.\<close>

definition counts :: "(uuid \<Rightarrow> nat) \<Rightarrow> outbox_task list \<Rightarrow> bool" where
  "counts f tab \<longleftrightarrow> (\<forall>r \<in> set tab. ot_attempts r = int (f (ot_id r))) \<and> (\<forall>i. i \<notin> ot_id ` set tab \<longrightarrow> f i = 0)"

lemma ids_edit: "(\<And>r. ot_id (g r) = ot_id r) \<Longrightarrow> ot_id ` set (update_where p g tab) = ot_id ` set tab"
  by (metis list.set_map update_where_keeps)

lemma counts_edit:
  assumes "counts f tab" and "\<And>r. ot_id (g r) = ot_id r" and "\<And>r. ot_attempts (g r) = ot_attempts r"
  shows "counts f (update_where p g tab)"
  using assms ids_edit [OF assms(2)] by (auto simp: counts_def update_where_iff)

lemma counts_claim:
  assumes f: "counts f tab" and "distinct (map ot_id tab)" and c: "claim_next seen tab types now = (tab', Some t)"
  shows "counts (\<lambda>i. f i + (if ot_id t = i then 1 else 0)) tab'"
proof -
  obtain r where r: "r \<in> set tab" "t = claimed_row now r"
    and tab': "tab' = update_where (\<lambda>x. ot_id x = ot_id r) (claimed_row now) tab"
    using c by (rule claim_next_Some [OF _ assms(2)]) (rule that)
  have ids: "ot_id ` set tab' = ot_id ` set tab" unfolding tab' by (rule ids_edit) simp
  have "ot_attempts x = int (f (ot_id x) + (if ot_id t = ot_id x then 1 else 0))" if x: "x \<in> set tab'" for x
  proof -
    obtain y where y: "y \<in> set tab" "x = (if ot_id y = ot_id r then claimed_row now y else y)"
      using x unfolding tab' update_where_iff by blast
    have "ot_attempts y = int (f (ot_id y))" using f y(1) by (simp add: counts_def)
    with y(2) r(2) show ?thesis by auto
  qed
  moreover have "f i + (if ot_id t = i then 1 else 0) = 0" if "i \<notin> ot_id ` set tab'" for i
    using f that r by (auto simp: counts_def ids)
  ultimately show ?thesis by (simp add: counts_def)
qed

lemma counts_exec:
  assumes f: "counts f (ow_rows w)" and w: "world_sane w"
  shows "counts (\<lambda>i. f i + (if started_by e w = Some i then 1 else 0)) (ow_rows (outbox_exec cfg e w))"
proof (cases e)
  case (Enqueue seen fresh clock q)
  show ?thesis
  proof (cases "enqueue seen (ow_rows w) fresh clock q")
    case (Inr p)
    obtain tab t where p: "p = (tab, t)" by fastforce
    have "tab = ow_rows w \<or> (\<exists>due. tab = ow_rows w @ [new_row fresh clock due q] \<and> fresh \<notin> ot_id ` set (ow_rows w))"
      using Inr p by (auto elim!: enqueue_cases)
    with f show ?thesis by (auto simp: Enqueue Inr p counts_def new_row_def)
  qed (use f Enqueue in simp)
next
  case (Claim seen now)
  obtain tab r where c: "claim_next seen (ow_rows w) [] now = (tab, r)" by fastforce
  have d: "distinct (map ot_id (ow_rows w))" using w by (simp add: world_sane_def sane_table_def)
  show ?thesis
  proof (cases r)
    case None
    with bounded_claim_none c d have "tab = ow_rows w" by blast
    with None f c show ?thesis by (simp add: Claim)
  next
    case (Some t)
    with counts_claim [OF f d] c show ?thesis by (simp add: Claim)
  qed
next
  case (Report n now failure)
  then show ?thesis using f by (auto split: sum.splits elim!: report_cases intro: counts_edit)
next
  case (Recover lease now)
  then show ?thesis using f by (auto simp: recover_stale_claims_def recover_stale_def intro!: counts_edit)
qed (use f in simp)

lemma run_counts: "counts (\<lambda>i. starts cfg i es) (ow_rows (run_outbox cfg es))"
proof (induction es rule: rev_induct)
  case Nil
  show ?case by (simp add: counts_def run_outbox_def)
next
  case (snoc e es)
  have "world_sane (run_outbox cfg es)"
    using reach_world_sane [OF run_outbox_reach [of "\<lambda>_. True" es cfg]] by (simp add: list_all_iff)
  from counts_exec [OF snoc.IH this] show ?case by (simp add: starts_snoc run_outbox_snoc)
qed

text \<open>C38: Over any run of producers, workers and crashes in which no stale claim is recovered,
  no task is started more often than the worker's limit (its maximum of attempts, at least one), where a start is a claim that returned the task; the
  attempts of a row are exactly the starts of its task; and a task that may still run was started less often
  than the limit. With recovery the limit is gone (\<open>poison_task_runs_without_limit\<close>).\<close>

theorem outbox_starts_bounded:
  assumes "list_all (\<lambda>e. \<not> is_recover e) es"
  shows "int (starts cfg i es) \<le> attempt_limit cfg \<and>
    (\<forall>r \<in> set (ow_rows (run_outbox cfg es)). ot_attempts r = int (starts cfg (ot_id r) es) \<and>
      (ot_status r \<in> {PENDING, RETRY} \<longrightarrow> int (starts cfg (ot_id r) es) < attempt_limit cfg))"
proof -
  have rows: "ot_attempts r = int (starts cfg (ot_id r) es)" "ot_attempts r \<le> attempt_limit cfg"
    "ot_status r \<in> {PENDING, RETRY} \<longrightarrow> ot_attempts r < attempt_limit cfg" if "r \<in> set (ow_rows (run_outbox cfg es))" for r
    using that run_counts [of cfg es] reach_bounded [OF run_outbox_reach [OF assms, of cfg]]
      reach_world_sane [OF run_outbox_reach [OF assms, of cfg]]
    by (auto simp: counts_def world_bounded_def list_all_iff bounded_row_def world_sane_def sane_table_def sane_row_def)
  moreover have "int (starts cfg i es) \<le> attempt_limit cfg"
  proof (cases "i \<in> ot_id ` set (ow_rows (run_outbox cfg es))")
    case True
    with rows(1,2) show ?thesis by force
  next
    case False
    with run_counts [of cfg es] show ?thesis by (simp add: counts_def)
  qed
  ultimately show ?thesis by auto
qed

text \<open>Two workers never hold the same task from two consecutive claims, even
  when both selected it from the same snapshot of the table.\<close>

theorem claims_exclusive:
  assumes "distinct (map ot_id tab)"
    and "claim_next seen tab types now = (tab', Some t)" and "claim_next seen' tab' types' now' = (tab'', Some t')"
  shows "ot_id t' \<noteq> ot_id t"
proof -
  obtain r where r: "r \<in> set tab" "t = claimed_row now r"
    and tab': "tab' = update_where (\<lambda>x. ot_id x = ot_id r) (claimed_row now) tab"
    using assms(2) by (rule claim_next_Some [OF _ assms(1)]) (rule that)
  have d: "distinct (map ot_id tab')" using assms(1) by (simp add: tab')
  obtain r' where r': "r' \<in> set tab'" "ot_status r' \<in> {PENDING, RETRY}" "t' = claimed_row now' r'"
    using assms(3) by (rule claim_next_Some [OF _ d]) (rule that)
  show ?thesis
  proof
    assume "ot_id t' = ot_id t"
    with r r' have "ot_id r' = ot_id r" by simp
    moreover from r'(1) obtain x where "r' = (if ot_id x = ot_id r then claimed_row now x else x)"
      unfolding tab' update_where_iff by blast
    ultimately have "ot_status r' = PROCESSING" by (metis row_edits(4))
    with r'(2) show False by simp
  qed
qed

text \<open>Enqueueing a key that is known changes nothing and returns the task
  recorded under it, whatever the request says otherwise; a new key adds one pending row.\<close>

theorem enqueue_idempotent:
  assumes "enqueue tab tab fresh clock q = Inr (tab', t)"
  shows "task_by_key tab' (tq_key q) = Some t \<and> (\<exists>rows. tab' = tab @ rows \<and> length rows \<le> 1) \<and>
    (\<forall>fresh2 clock2 q2. tq_key q2 = tq_key q \<longrightarrow> enqueue tab' tab' fresh2 clock2 q2 = Inr (tab', t))"
proof -
  have "task_by_key tab' (tq_key q) = Some t \<and> (\<exists>rows. tab' = tab @ rows \<and> length rows \<le> 1)"
  proof (cases "task_by_key tab (tq_key q)")
    case (Some t0)
    with assms show ?thesis by (simp add: enqueue_def)
  next
    case None
    then have new: "\<forall>r \<in> set tab. ot_key r \<noteq> tq_key q" by (auto simp: task_by_key_def find_None_iff)
    obtain due where row: "insert_row tab (new_row fresh clock due q) = Inr (tab', t)"
      using assms None by (auto simp: enqueue_def split: pydatetime.splits)
    with new have "tab' = tab @ [new_row fresh clock due q]" "t = new_row fresh clock due q"
      by (auto simp: new_row_def dest!: insert_row_cases)
    with new show ?thesis by (auto simp: task_by_key_def find_app new_row_def find_None_iff split: option.splits dest!: find_mem)
  qed
  then show ?thesis by (auto simp: enqueue_def)
qed

section \<open>The worker comes to rest\<close>

text \<open>What the open rows can still cost: the runs of the worker before each is settled.\<close>

definition row_work :: "worker \<Rightarrow> outbox_task \<Rightarrow> nat" where
  "row_work cfg r = (if ot_status r \<in> {PENDING, RETRY} then max 1 (nat (wk_max_attempts cfg - ot_attempts r)) else 0)"

definition open_work :: "worker \<Rightarrow> outbox_task list \<Rightarrow> nat" where
  "open_work cfg tab = sum_list (map (row_work cfg) tab)"

text \<open>The worker runs at the given times, with handlers that may behave differently each time, until
  a run finds nothing to do or raises; the number of tasks it ran.\<close>

fun busy_runs :: "worker \<Rightarrow> (time \<times> handlers) list \<Rightarrow> outbox_task list \<Rightarrow> nat" where
  "busy_runs cfg [] tab = 0"
| "busy_runs cfg ((now, hs) # rest) tab =
     (case run_once cfg hs now tab of
        Inr (tab', True) \<Rightarrow> Suc (busy_runs cfg rest tab')
      | _ \<Rightarrow> 0)"

lemma sum_list_update_one:
  assumes "distinct (map k tab)" and "r \<in> set tab" and "g (f r) < (g r :: nat)"
  shows "sum_list (map g (map (\<lambda>x. if k x = k r then f x else x) tab)) < sum_list (map g tab)"
  using assms
proof (induction tab)
  case (Cons x xs)
  show ?case
  proof (cases "x = r")
    case True
    with Cons.prems have "map (\<lambda>x. if k x = k r then f x else x) xs = xs" by (intro map_idI) (auto simp: image_iff)
    with True Cons.prems(3) show ?thesis by simp
  next
    case False
    then have "k x \<noteq> k r" using Cons.prems(1,2) by (auto simp: image_iff)
    with False Cons show ?thesis by simp
  qed
qed simp

lemma run_once_True:
  assumes "run_once cfg hs now tab = Inr (tab', True)" and "distinct (map ot_id tab)"
  shows "open_work cfg tab' < open_work cfg tab \<and> distinct (map ot_id tab')"
proof -
  obtain tab1 t where c: "claim_next tab tab [] now = (tab1, Some t)"
    and rep: "report cfg now t (task_failure hs t) tab1 = Inr tab'"
    using assms(1) by (auto simp: run_once_def bind_res_Inr_iff split: option.splits prod.splits)
  obtain r where r: "r \<in> set tab" "ot_status r \<in> {PENDING, RETRY}" "t = claimed_row now r"
    and tab1: "tab1 = update_where (\<lambda>x. ot_id x = ot_id r) (claimed_row now) tab"
    using c by (rule claim_next_Some [OF _ assms(2)]) (rule that)
  obtain f where tab': "tab' = update_where (\<lambda>r. ot_id r = ot_id t) f tab1"
    and f: "\<And>r. ot_id (f r) = ot_id r" "\<And>r. ot_attempts (f r) = ot_attempts r"
      "\<And>r. ot_status (f r) \<in> {COMPLETED, DEAD_LETTER, RETRY}"
      "\<And>r. ot_status (f r) = RETRY \<Longrightarrow> ot_attempts t < wk_max_attempts cfg"
    using rep by (rule report_cases) (rule that, assumption)
  define g where "g = (\<lambda>x. f (claimed_row now x))"
  have e: "tab' = map (\<lambda>x. if ot_id x = ot_id r then g x else x) tab"
    by (simp add: tab' tab1 r(3) update_where_def g_def)
  have "row_work cfg (g r) < row_work cfg r"
    using r(2,3) f(2) [of "claimed_row now r"] f(3) [of "claimed_row now r"] f(4) [of "claimed_row now r"]
    by (auto simp: row_work_def g_def)
  then have "open_work cfg tab' < open_work cfg tab"
    unfolding open_work_def e using assms(2) r(1) by (intro sum_list_update_one) auto
  moreover have "map ot_id tab' = map ot_id tab" by (simp add: e g_def f(1))
  ultimately show ?thesis using assms(2) by simp
qed

text \<open>C39: a worker alone comes to rest. Whatever its handlers do and whenever it runs, the
  runs that find a task are at most the attempts its open rows have left, so each task is settled,
  retried within its limit, or dead-lettered.\<close>

theorem worker_comes_to_rest:
  assumes "distinct (map ot_id tab)"
  shows "busy_runs cfg runs tab \<le> open_work cfg tab"
  using assms
proof (induction cfg runs tab rule: busy_runs.induct)
  case (2 cfg now hs rest tab)
  show ?case
  proof (cases "run_once cfg hs now tab")
    case (Inr p)
    then obtain tab' b where p: "run_once cfg hs now tab = Inr (tab', b)" by (cases p) auto
    show ?thesis
    proof (cases b)
      case True
      with run_once_True p "2.prems" have "open_work cfg tab' < open_work cfg tab" "distinct (map ot_id tab')" by auto
      with "2.IH" [OF p refl] True p show ?thesis by auto
    qed (use p in simp)
  qed simp
qed simp

section \<open>What recovery gives up\<close>

definition demo_request :: task_request where
  "demo_request = \<lparr>tq_type = ''mail'', tq_schema = ''1.0'', tq_payload = VNone, tq_key = ''k'', tq_next = None\<rparr>"

definition demo_row :: outbox_task where
  "demo_row = new_row ''t1'' 0 0 demo_request"

abbreviation run_events :: "outbox_event list \<Rightarrow> outbox_world" where
  "run_events es \<equiv> foldl (\<lambda>w e. outbox_exec default_worker e w) \<lparr>ow_rows = [], ow_claims = []\<rparr> es"

lemma reach_events: "list_all allowed es \<Longrightarrow> outbox_reach default_worker allowed (run_events es)"
proof (induction es rule: rev_induct)
  case Nil
  show ?case by (simp add: outbox_reach.start)
next
  case (snoc e es)
  then show ?case by (simp add: outbox_reach.step)
qed

abbreviation demo_enqueue :: outbox_event where
  "demo_enqueue \<equiv> Enqueue [] ''t1'' 0 demo_request"

lemma demo_enqueued: "enqueue [] [] ''t1'' 0 demo_request = Inr ([demo_row], demo_row)"
  by (simp add: enqueue_def insert_row_def task_by_key_def demo_row_def demo_request_def)

lemma demo_claimed: "claim_next [demo_row] [demo_row] [] 0 = ([claimed_row 0 demo_row], Some (claimed_row 0 demo_row))"
  by (simp add: claim_next_def select_due_def claimable_def update_where_def claim_guard_def task_by_id_def
      demo_row_def new_row_def demo_request_def claimed_row_def)

theorem outbox_table_sane_witness:
  "distinct (map ot_id [claimed_row 0 demo_row]) \<and> distinct (map ot_key [claimed_row 0 demo_row]) \<and>
    list_all (\<lambda>r. ot_status r = PENDING \<longleftrightarrow> ot_attempts r = 0) [claimed_row 0 demo_row] \<and>
    set (map ot_id [claimed_row 0 demo_row]) \<subseteq> set (map ot_id [claimed_row 0 demo_row])"
  using outbox_table_sane [OF reach_events [of "\<lambda>_. True" "[demo_enqueue, Claim [demo_row] 0]"]]
  by (simp add: demo_enqueued demo_claimed)

text \<open>One claim: the task was started once.\<close>

theorem outbox_starts_bounded_witness:
  "starts default_worker ''t1'' [demo_enqueue, Claim [demo_row] 0] = 1 \<and> int 1 \<le> attempt_limit default_worker \<and>
    ot_attempts (claimed_row 0 demo_row) = 1"
proof -
  have one: "starts default_worker ''t1'' [demo_enqueue, Claim [demo_row] 0] = 1"
    by (simp add: demo_enqueued demo_claimed) (simp add: demo_row_def new_row_def claimed_row_def)
  have rows: "ow_rows (run_outbox default_worker [demo_enqueue, Claim [demo_row] 0]) = [claimed_row 0 demo_row]"
    by (simp add: run_outbox_def demo_enqueued demo_claimed)
  have i: "ot_id (claimed_row 0 demo_row) = ''t1''" by (simp add: demo_row_def new_row_def claimed_row_def)
  show ?thesis
    using outbox_starts_bounded [of "[demo_enqueue, Claim [demo_row] 0]" default_worker "''t1''"] one i
    unfolding rows by simp
qed

definition other_row :: outbox_task where
  "other_row = demo_row\<lparr>ot_id := ''t2'', ot_key := ''k2''\<rparr>"

theorem claims_exclusive_witness:
  "claim_next [demo_row] [demo_row, other_row] [] 0 = ([claimed_row 0 demo_row, other_row], Some (claimed_row 0 demo_row)) \<and>
    ot_id (claimed_row 0 other_row) \<noteq> ot_id (claimed_row 0 demo_row)"
proof -
  have 1: "claim_next [demo_row] [demo_row, other_row] [] 0 = ([claimed_row 0 demo_row, other_row], Some (claimed_row 0 demo_row))"
    and 2: "claim_next [other_row] [claimed_row 0 demo_row, other_row] [] 0
      = ([claimed_row 0 demo_row, claimed_row 0 other_row], Some (claimed_row 0 other_row))"
    by (simp_all add: claim_next_def select_due_def claimable_def update_where_def claim_guard_def task_by_id_def
        demo_row_def new_row_def demo_request_def claimed_row_def other_row_def)
  have "distinct (map ot_id [demo_row, other_row])" by (simp add: demo_row_def new_row_def other_row_def)
  from claims_exclusive [OF this 1 2] 1 show ?thesis by simp
qed

theorem enqueue_idempotent_witness:
  "task_by_key [demo_row] ''k'' = Some demo_row \<and> (\<exists>rows. [demo_row] = [] @ rows \<and> length rows \<le> 1) \<and>
    (\<forall>fresh2 clock2 q2. tq_key q2 = ''k'' \<longrightarrow> enqueue [demo_row] [demo_row] fresh2 clock2 q2 = Inr ([demo_row], demo_row))"
  using enqueue_idempotent [OF demo_enqueued] by (simp add: demo_request_def)

theorem worker_comes_to_rest_witness:
  "busy_runs default_worker [(0, \<lambda>_. None)] [demo_row] \<le> 5"
  using worker_comes_to_rest [of "[demo_row]" default_worker "[(0, \<lambda>_. None)]"]
  by (simp add: open_work_def row_work_def demo_row_def new_row_def default_worker_def)

text \<open>A report does not look at the row it settles. A worker whose claim was
  recovered as stale and that fails late takes a task that another worker has completed back to
  retry, and it runs again.\<close>

theorem completed_task_resurrected:
  "\<exists>w. outbox_reach default_worker (\<lambda>_. True) w \<and> map ot_status (ow_rows w) = [COMPLETED] \<and>
    map ot_status (ow_rows (outbox_exec default_worker
      (Report 0 301000000 (Some (''OUTBOX_TRANSIENT_ERROR:TimeoutError:'', False))) w)) = [RETRY]"
proof -
  let ?r = "demo_row\<lparr>ot_status := RETRY, ot_attempts := 1, ot_next := 300000000,
      ot_error := Some ''OUTBOX_STALE_CLAIM_RECOVERED'', ot_updated := 300000000\<rparr>"
  let ?es = "[demo_enqueue, Claim [demo_row] 0, Recover lease_timeout 300000000, Claim [?r] 300000000, Report 1 300000001 None]"
  have c: "claim_next [?r] [?r] [] 300000000 = ([claimed_row 300000000 ?r], Some (claimed_row 300000000 ?r))"
    by (simp add: claim_next_def select_due_def claimable_def update_where_def claim_guard_def task_by_id_def
        demo_row_def new_row_def demo_request_def claimed_row_def)
  have r: "recover_stale_claims lease_timeout 300000000 [claimed_row 0 demo_row] = ([?r], 1)"
    by (simp add: recover_stale_claims_def recover_stale_def stale_def lease_timeout_def update_where_def
        demo_row_def new_row_def claimed_row_def)
  have w: "run_events ?es = \<lparr>ow_rows = [completed_row 300000001 (claimed_row 300000000 ?r)], ow_claims = [claimed_row 0 demo_row]\<rparr>"
    by (simp add: demo_enqueued demo_claimed r c report_def mark_completed_def with_row_def task_by_id_def
        update_where_def drop_at_def)
  have "outbox_reach default_worker (\<lambda>_. True) (run_events ?es)" by (rule reach_events) simp
  then show ?thesis unfolding w
    by (intro exI conjI) (assumption, simp, simp add: report_def mark_failed_def with_row_def task_by_id_def
        update_where_def default_worker_def backoff_seconds_def datetime_max_def claimed_row_def completed_row_def
        failed_row_def demo_row_def new_row_def)
qed

text \<open>A task that kills its worker is claimed without limit: recovery never looks at the number of
  attempts.\<close>

definition poisoned :: "int \<Rightarrow> time \<Rightarrow> outbox_task" where
  "poisoned n t = demo_row\<lparr>ot_status := RETRY, ot_attempts := n, ot_next := t,
      ot_error := Some ''OUTBOX_STALE_CLAIM_RECOVERED'', ot_updated := t\<rparr>"

lemma poisoned_again:
  "foldl (\<lambda>w e. outbox_exec default_worker e w) \<lparr>ow_rows = [poisoned n t], ow_claims = []\<rparr>
      [Claim [poisoned n t] t, Crash 0, Recover lease_timeout (t + lease_timeout)]
    = \<lparr>ow_rows = [poisoned (n + 1) (t + lease_timeout)], ow_claims = []\<rparr>"
  by (simp add: poisoned_def claim_next_def select_due_def claimable_def update_where_def claim_guard_def task_by_id_def
      demo_row_def new_row_def demo_request_def claimed_row_def drop_at_def recover_stale_claims_def recover_stale_def stale_def)

lemma poisoned_reachable: "outbox_reach default_worker (\<lambda>_. True) \<lparr>ow_rows = [poisoned (1 + int n) (lease_timeout * (1 + int n))], ow_claims = []\<rparr>"
proof (induction n)
  case 0
  have "run_events [demo_enqueue, Claim [demo_row] 0, Crash 0, Recover lease_timeout lease_timeout]
      = \<lparr>ow_rows = [poisoned 1 lease_timeout], ow_claims = []\<rparr>"
    by (simp add: demo_enqueued demo_claimed drop_at_def recover_stale_claims_def recover_stale_def stale_def update_where_def
        poisoned_def) (simp add: claimed_row_def demo_row_def new_row_def)
  with reach_events [of "\<lambda>_. True" "[demo_enqueue, Claim [demo_row] 0, Crash 0, Recover lease_timeout lease_timeout]"]
  show ?case by simp
next
  case (Suc n)
  let ?w = "\<lparr>ow_rows = [poisoned (1 + int n) (lease_timeout * (1 + int n))], ow_claims = []\<rparr>"
  have "outbox_reach default_worker (\<lambda>_. True) (foldl (\<lambda>w e. outbox_exec default_worker e w) ?w
      [Claim [poisoned (1 + int n) (lease_timeout * (1 + int n))] (lease_timeout * (1 + int n)), Crash 0,
       Recover lease_timeout (lease_timeout * (1 + int n) + lease_timeout)])"
    using Suc.IH by (simp del: outbox_exec.simps add: outbox_reach.step)
  then show ?case unfolding poisoned_again by (simp add: algebra_simps)
qed

text \<open>With recovery the limit is gone. For every number a table is reachable in which
  the worker's only task has been started more often than that and is due to run again; and once
  it has been started forty times, even a permanent failure cannot be recorded, because the
  backoff leaves the calendar.\<close>

theorem poison_task_runs_without_limit:
  "(\<forall>n. \<exists>w r. outbox_reach default_worker (\<lambda>_. True) w \<and> ow_rows w = [r] \<and> n < ot_attempts r \<and> ot_status r = RETRY)
    \<and> (\<forall>t now failure tab. 40 \<le> ot_attempts t \<longrightarrow> 0 \<le> now \<longrightarrow>
        report default_worker now t (Some failure) tab = Inl BACKOFF_OVERFLOW)"
proof (intro conjI allI impI)
  fix n :: int
  show "\<exists>w r. outbox_reach default_worker (\<lambda>_. True) w \<and> ow_rows w = [r] \<and> n < ot_attempts r \<and> ot_status r = RETRY"
    using poisoned_reachable [of "nat n"]
    by (intro exI conjI) (assumption, simp, simp add: poisoned_def, simp add: poisoned_def)
next
  fix t :: outbox_task and now :: time and failure tab
  assume "40 \<le> ot_attempts t" and now: "0 \<le> now"
  then have "(2::int) ^ 39 \<le> 2 ^ nat (max (ot_attempts t - 1) 0)" by (intro power_increasing) auto
  with now show "report default_worker now t (Some failure) tab = Inl BACKOFF_OVERFLOW"
    by (auto simp: report_def backoff_seconds_def default_worker_def datetime_max_def Let_def split: prod.splits)
qed

text \<open>The second half on a task started forty times.\<close>

theorem poison_task_runs_without_limit_witness:
  "report default_worker 0 (poisoned 40 0) (Some (''OUTBOX_PERMANENT_ERROR:x'', True)) [] = Inl BACKOFF_OVERFLOW"
  using poison_task_runs_without_limit by (simp add: poisoned_def)

end
