(* ===== verification/Ledger.thy ===== *)
theory Ledger
  imports Outbox PolicyModels "HOL-Library.List_Lexorder" "HOL-Library.Char_ord" "HOL-Library.Product_Lexorder" "HOL-Library.Sublist"
begin

text \<open>
  The append-only ledgers: \<open>app/contracts/events.py\<close>, the v1 part of \<open>app/contracts/decisions.py\<close>,
  the two repositories of \<open>app/infrastructure/ledger.py\<close> and the v0.3 writers of the same two tables
  in \<open>app/infrastructure/adaptive_records.py\<close>, with the constraints of \<open>app/models/ledger.py\<close>.

  A table is the list of its rows in insertion order. The v1 and the v0.3 writer share each table: a
  row is \<open>EventV1\<close>/\<open>EventV3\<close> (\<open>TraceV1\<close>/\<open>TraceV3\<close>), which is what \<open>schema_version\<close> and
  \<open>v03_payload\<close> record. An append takes the table as its read saw it (\<open>seen\<close>) and as it is at the
  insert (\<open>tab\<close>). Instants are compared as instants.
\<close>

section \<open>Learning events\<close>

datatype actor_type = ACTOR_LEARNER | ACTOR_SYSTEM | ACTOR_MODEL | ACTOR_REVIEWER

record event_actor =
  ac_type :: actor_type
  ac_id :: string
  ac_device :: "string option"

record event_context =
  ec_user :: uuid
  ec_session :: "uuid option"
  ec_goal :: "uuid option"
  ec_units :: "uuid list"
  ec_attempt :: "uuid option"
  ec_contents :: "uuid list"

datatype event_source = SRC_UI | SRC_API | SRC_ORCHESTRATOR | SRC_WORKER | SRC_MIGRATION | SRC_DOMAIN

record event_provenance =
  ev_source :: event_source
  ev_provider :: "string option"
  ev_model :: "string option"
  ev_snapshot :: "string option"
  ev_prompt :: "string option"
  ev_prompt_version :: "string option"
  ev_policy :: "string option"
  ev_projection :: "string option"
  ev_algorithm :: "string option"

record event_provenance_v03 = event_provenance +
  ev_bundle :: "versioned_ref option"

record event_trace =
  tx_trace :: string
  tx_span :: "string option"

datatype classification = CLASS_PUBLIC | CLASS_PERSONAL | CLASS_SENSITIVE
datatype retention = RETAIN_CORE | RETAIN_DIAGNOSTIC | RETAIN_TEMPORARY

record event_privacy =
  px_class :: classification
  px_external :: bool
  px_retention :: retention

text \<open>The two envelopes differ in the provenance and in two fields the later one adds.\<close>

record 'p envelope =
  lv_id :: uuid
  lv_type :: string
  lv_aggregate_type :: string
  lv_aggregate_id :: string
  lv_aggregate_version :: int
  lv_sequence :: int
  lv_occurred :: time
  lv_recorded :: time
  lv_key :: string
  lv_correlation :: uuid
  lv_causation :: "uuid option"
  lv_actor :: event_actor
  lv_context :: event_context
  lv_payload :: pyval
  lv_provenance :: 'p
  lv_trace :: event_trace
  lv_privacy :: event_privacy

type_synonym event_v1 = "event_provenance envelope"

datatype owner_system = SYS01 | SYS02 | SYS03 | SYS04 | SYS05 | SYS06 | SYS07 | SYS08

record event_v03 = "event_provenance_v03 envelope" +
  lv_schema :: string
  lv_producer :: owner_system

definition valid_envelope :: "('p, 'm) envelope_scheme \<Rightarrow> bool" where
  "valid_envelope e \<longleftrightarrow> lv_type e \<noteq> [] \<and> lv_aggregate_type e \<noteq> [] \<and> 1 \<le> lv_aggregate_version e \<and>
     1 \<le> lv_sequence e \<and> lv_key e \<noteq> []"

definition valid_event_v03 :: "event_v03 \<Rightarrow> bool" where
  "valid_event_v03 e \<longleftrightarrow> valid_envelope e \<and> take 2 (lv_schema e) = ''3.''"

datatype event_row = EventV1 event_v1 | EventV3 event_v03

fun row_event_id :: "event_row \<Rightarrow> uuid" where
  "row_event_id (EventV1 e) = lv_id e"
| "row_event_id (EventV3 e) = lv_id e"

fun row_event_key :: "event_row \<Rightarrow> string" where
  "row_event_key (EventV1 e) = lv_key e"
| "row_event_key (EventV3 e) = lv_key e"

fun row_aggregate :: "event_row \<Rightarrow> string \<times> string \<times> int" where
  "row_aggregate (EventV1 e) = (lv_aggregate_type e, lv_aggregate_id e, lv_aggregate_version e)"
| "row_aggregate (EventV3 e) = (lv_aggregate_type e, lv_aggregate_id e, lv_aggregate_version e)"

fun as_event_v1 :: "event_row \<Rightarrow> event_v1 option" where
  "as_event_v1 (EventV1 e) = Some e"
| "as_event_v1 (EventV3 _) = None"

fun as_event_v03 :: "event_row \<Rightarrow> event_v03 option" where
  "as_event_v03 (EventV1 _) = None"
| "as_event_v03 (EventV3 e) = Some e"

text \<open>The primary key and the two unique constraints of \<open>learning_events\<close>.\<close>

definition event_clash :: "event_row \<Rightarrow> event_row \<Rightarrow> bool" where
  "event_clash r s \<longleftrightarrow> row_event_id r = row_event_id s \<or> row_event_key r = row_event_key s \<or>
     row_aggregate r = row_aggregate s"

datatype ledger_error =
    AGGREGATE_VERSION_CONFLICT
  | KEY_OF_ANOTHER_SCHEMA
  | SEMANTIC_OVERWRITE
  | LEDGER_INTEGRITY
  | INPUT_TOO_LONG string int int
  | DECISION_ID_CONFLICT
  | DECISION_OF_ANOTHER_SCHEMA

subsection \<open>\<open>LearningEventRepository\<close>\<close>

definition get_event :: "event_row list \<Rightarrow> uuid \<Rightarrow> event_v1 option" where
  "get_event tab i = (case find (\<lambda>r. row_event_id r = i) tab of None \<Rightarrow> None | Some r \<Rightarrow> as_event_v1 r)"

definition event_by_key :: "event_row list \<Rightarrow> string \<Rightarrow> event_v1 option" where
  "event_by_key tab k = find (\<lambda>e. lv_key e = k) (List.map_filter as_event_v1 tab)"

definition insert_event :: "event_row list \<Rightarrow> event_row \<Rightarrow> event_row list option" where
  "insert_event tab r = (if list_ex (event_clash r) tab then None else Some (tab @ [r]))"

definition append_event :: "event_row list \<Rightarrow> event_row list \<Rightarrow> event_v1 \<Rightarrow>
    ledger_error + event_row list \<times> event_v1" where
  "append_event seen tab e =
     (case event_by_key seen (lv_key e) of
        Some x \<Rightarrow> Inr (tab, x)
      | None \<Rightarrow>
          (case insert_event tab (EventV1 e) of
             Some tab' \<Rightarrow> Inr (tab', e)
           | None \<Rightarrow>
               (case event_by_key tab (lv_key e) of
                  Some x \<Rightarrow> Inr (tab, x)
                | None \<Rightarrow> Inl AGGREGATE_VERSION_CONFLICT)))"

definition query_events :: "event_row list \<Rightarrow> string option \<Rightarrow> uuid option \<Rightarrow> nat \<Rightarrow> event_v1 list" where
  "query_events tab etype correlation limit =
     take limit (sort_key (\<lambda>e. (lv_recorded e, lv_id e))
       (filter (\<lambda>e. (etype = None \<or> etype = Some (lv_type e)) \<and>
                     (correlation = None \<or> correlation = Some (lv_correlation e)))
         (List.map_filter as_event_v1 tab)))"

definition replay :: "event_row list \<Rightarrow> string \<Rightarrow> string \<Rightarrow> int \<Rightarrow> event_v1 list" where
  "replay tab atype aid after =
     sort_key (\<lambda>e. (lv_sequence e, lv_aggregate_version e, lv_id e))
       (filter (\<lambda>e. lv_aggregate_type e = atype \<and> lv_aggregate_id e = aid \<and> after < lv_sequence e)
         (List.map_filter as_event_v1 tab))"

subsection \<open>\<open>LearningEventV03Repository\<close>\<close>

definition append_event_v03 :: "event_row list \<Rightarrow> event_row list \<Rightarrow> event_v03 \<Rightarrow>
    ledger_error + event_row list \<times> event_v03" where
  "append_event_v03 seen tab e =
     (case find (\<lambda>r. row_event_key r = lv_key e) seen of
        Some r \<Rightarrow>
          (case as_event_v03 r of
             None \<Rightarrow> Inl KEY_OF_ANOTHER_SCHEMA
           | Some x \<Rightarrow>
               if lv_schema x \<noteq> lv_schema e then Inl KEY_OF_ANOTHER_SCHEMA
               else if x \<noteq> e then Inl SEMANTIC_OVERWRITE
               else Inr (tab, x))
      | None \<Rightarrow>
          (case insert_event tab (EventV3 e) of
             None \<Rightarrow> Inl LEDGER_INTEGRITY
           | Some tab' \<Rightarrow> Inr (tab', e)))"

definition get_event_v03 :: "event_row list \<Rightarrow> uuid \<Rightarrow> event_v03 option" where
  "get_event_v03 tab i = (case find (\<lambda>r. row_event_id r = i) tab of None \<Rightarrow> None | Some r \<Rightarrow> as_event_v03 r)"

section \<open>Decision traces\<close>

record decision_input =
  di_type :: string
  di_id :: string
  di_version :: "ver option"

record decision_algorithm =
  ag_id :: string
  ag_version :: string
  ag_inferences :: "uuid list"
  ag_prompts :: "string list"

record decision_experiment =
  ex_id :: "string option"
  ex_variant :: "string option"
  ex_propensity :: "float64 option"

datatype trace_owner =
    CONTENT_KNOWLEDGE | RETRIEVAL | LEARNER_MODEL | ASSESSMENT_OWNER | TEACHING_POLICY
  | LEARNING_PLANNER | REVIEW_SCHEDULER | AI_ORCHESTRATION

record trace_v1 =
  d1_id :: uuid
  d1_type :: string
  d1_owner :: trace_owner
  d1_inputs :: "decision_input list"
  d1_candidates :: "(string, pyval) dict list"
  d1_selected :: "(string, pyval) dict"
  d1_constraints :: "(string, pyval) dict list"
  d1_reasons :: "string list"
  d1_confidence :: "float64 option"
  d1_algorithm :: decision_algorithm
  d1_experiment :: decision_experiment
  d1_created :: time
  d1_correlation :: uuid
  d1_trace :: string

definition valid_trace_v1 :: "trace_v1 \<Rightarrow> bool" where
  "valid_trace_v1 t \<longleftrightarrow> d1_type t \<noteq> [] \<and> d1_reasons t \<noteq> [] \<and> unit_range (d1_confidence t) \<and>
     unit_range (ex_propensity (d1_experiment t))"

datatype trace_row = TraceV1 trace_v1 | TraceV3 decision_trace

fun row_decision_id :: "trace_row \<Rightarrow> uuid" where
  "row_decision_id (TraceV1 t) = d1_id t"
| "row_decision_id (TraceV3 t) = dt_decision_id t"

fun as_trace_v1 :: "trace_row \<Rightarrow> trace_v1 option" where
  "as_trace_v1 (TraceV1 t) = Some t"
| "as_trace_v1 (TraceV3 _) = None"

fun as_trace_v03 :: "trace_row \<Rightarrow> decision_trace option" where
  "as_trace_v03 (TraceV1 _) = None"
| "as_trace_v03 (TraceV3 t) = Some t"

text \<open>\<open>DecisionTraceInputRecord\<close>, the searchable index of what a decision read.\<close>

record input_row =
  ir_decision :: uuid
  ir_type :: string
  ir_entity :: string
  ir_version :: "string option"

record decision_ledger =
  dl_rows :: "trace_row list"
  dl_inputs :: "input_row list"

definition MAX_ENTITY_TYPE :: int where "MAX_ENTITY_TYPE = 100"
definition MAX_ENTITY_ID :: int where "MAX_ENTITY_ID = 255"
definition MAX_ENTITY_VERSION :: int where "MAX_ENTITY_VERSION = 255"

subsection \<open>\<open>DecisionTraceRepository\<close>\<close>

definition validate_length :: "string \<Rightarrow> string \<Rightarrow> int \<Rightarrow> ledger_error + unit" where
  "validate_length field s limit =
     (if limit < int (length s) then Inl (INPUT_TOO_LONG field (int (length s)) limit) else Inr ())"

definition indexed_input :: "uuid \<Rightarrow> decision_input \<Rightarrow> ledger_error + input_row" where
  "indexed_input i x =
     bind_res (validate_length ''entity_type'' (di_type x) MAX_ENTITY_TYPE) (\<lambda>_.
     bind_res (validate_length ''entity_id'' (di_id x) MAX_ENTITY_ID) (\<lambda>_.
     bind_res (case di_version x of
                 None \<Rightarrow> Inr ()
               | Some v \<Rightarrow> validate_length ''entity_version'' (ver_str v) MAX_ENTITY_VERSION) (\<lambda>_.
     Inr \<lparr>ir_decision = i, ir_type = di_type x, ir_entity = di_id x,
          ir_version = map_option ver_str (di_version x)\<rparr>)))"

definition get_decision :: "trace_row list \<Rightarrow> uuid \<Rightarrow> trace_v1 option" where
  "get_decision rows i = (case find (\<lambda>r. row_decision_id r = i) rows of None \<Rightarrow> None | Some r \<Rightarrow> as_trace_v1 r)"

definition insert_trace :: "decision_ledger \<Rightarrow> trace_row \<Rightarrow> input_row list \<Rightarrow> decision_ledger option" where
  "insert_trace db r ins =
     (if list_ex (\<lambda>s. row_decision_id s = row_decision_id r) (dl_rows db) then None
      else Some (db\<lparr>dl_rows := dl_rows db @ [r], dl_inputs := dl_inputs db @ ins\<rparr>))"

definition append_decision :: "trace_row list \<Rightarrow> decision_ledger \<Rightarrow> trace_v1 \<Rightarrow>
    ledger_error + decision_ledger \<times> trace_v1" where
  "append_decision seen db t =
     (case get_decision seen (d1_id t) of
        Some x \<Rightarrow> Inr (db, x)
      | None \<Rightarrow>
          bind_res (map_res (indexed_input (d1_id t)) (d1_inputs t)) (\<lambda>ins.
            case insert_trace db (TraceV1 t) ins of
              Some db' \<Rightarrow> Inr (db', t)
            | None \<Rightarrow>
                (case get_decision (dl_rows db) (d1_id t) of
                   Some x \<Rightarrow> Inr (db, x)
                 | None \<Rightarrow> Inl DECISION_ID_CONFLICT)))"

record trace_query =
  tf_trace :: "string option"
  tf_correlation :: "string option"
  tf_entity_type :: "string option"
  tf_entity_id :: "string option"
  tf_entity_version :: "ver option"
  tf_decision_type :: "string option"
  tf_algorithm_version :: "string option"
  tf_limit :: nat

definition trace_filter :: "trace_query \<Rightarrow> trace_v1 \<Rightarrow> bool" where
  "trace_filter q t \<longleftrightarrow>
     (tf_trace q = None \<or> tf_trace q = Some (d1_trace t)) \<and>
     (tf_correlation q = None \<or> tf_correlation q = Some (d1_correlation t)) \<and>
     (tf_decision_type q = None \<or> tf_decision_type q = Some (d1_type t)) \<and>
     (tf_algorithm_version q = None \<or> tf_algorithm_version q = Some (ag_version (d1_algorithm t)))"

definition input_filter :: "trace_query \<Rightarrow> string \<Rightarrow> input_row \<Rightarrow> bool" where
  "input_filter q entity x \<longleftrightarrow> ir_entity x = entity \<and>
     (tf_entity_type q = None \<or> tf_entity_type q = Some (ir_type x)) \<and>
     (case tf_entity_version q of None \<Rightarrow> True | Some v \<Rightarrow> ir_version x = Some (ver_str v))"

text \<open>With an entity the statement joins the index: a trace appears once for each of its inputs that
  match. The limit is applied to those rows, the duplicates are dropped afterwards.\<close>

definition joined :: "decision_ledger \<Rightarrow> trace_query \<Rightarrow> trace_v1 list" where
  "joined db q =
     (let ts = List.map_filter as_trace_v1 (dl_rows db)
      in case tf_entity_id q of
           None \<Rightarrow> ts
         | Some x \<Rightarrow>
             concat (map (\<lambda>t. map (\<lambda>_. t) (filter (\<lambda>r. ir_decision r = d1_id t \<and> input_filter q x r) (dl_inputs db))) ts))"

fun unique_seen :: "trace_v1 list \<Rightarrow> trace_v1 list \<Rightarrow> trace_v1 list" where
  "unique_seen acc [] = []"
| "unique_seen acc (t # ts) = (if t \<in> set acc then unique_seen acc ts else t # unique_seen (t # acc) ts)"

definition query_decisions :: "decision_ledger \<Rightarrow> trace_query \<Rightarrow> trace_v1 list" where
  "query_decisions db q =
     unique_seen [] (take (tf_limit q)
       (sort_key (\<lambda>t. (d1_created t, d1_id t)) (filter (trace_filter q) (joined db q))))"

subsection \<open>\<open>DecisionTraceV03Repository\<close>\<close>

definition get_decision_v03 :: "trace_row list \<Rightarrow> uuid \<Rightarrow> decision_trace option" where
  "get_decision_v03 rows i =
     (case find (\<lambda>r. row_decision_id r = i) rows of None \<Rightarrow> None | Some r \<Rightarrow> as_trace_v03 r)"

definition source_input :: "uuid \<Rightarrow> versioned_ref \<Rightarrow> input_row" where
  "source_input i r = \<lparr>ir_decision = i, ir_type = vr_type r, ir_entity = vr_id r,
     ir_version = Some (ver_str (vr_version r))\<rparr>"

definition append_decision_v03 :: "trace_row list \<Rightarrow> decision_ledger \<Rightarrow> decision_trace \<Rightarrow>
    ledger_error + decision_ledger \<times> decision_trace" where
  "append_decision_v03 seen db t =
     (case find (\<lambda>r. row_decision_id r = dt_decision_id t) seen of
        Some r \<Rightarrow>
          (case as_trace_v03 r of
             None \<Rightarrow> Inl DECISION_OF_ANOTHER_SCHEMA
           | Some x \<Rightarrow> if x \<noteq> t then Inl SEMANTIC_OVERWRITE else Inr (db, x))
      | None \<Rightarrow>
          (case insert_trace db (TraceV3 t) (map (source_input (dt_decision_id t)) (dt_context_sources t)) of
             None \<Rightarrow> Inl LEDGER_INTEGRITY
           | Some db' \<Rightarrow> Inr (db', t)))"

definition query_by_context :: "trace_row list \<Rightarrow> string \<Rightarrow> decision_trace list" where
  "query_by_context rows c =
     sort_key (\<lambda>t. (dt_created_at t, dt_decision_id t))
       (filter (\<lambda>t. map_option vr_id (dt_context_ref t) = Some c) (List.map_filter as_trace_v03 rows))"

section \<open>Tables that only grow\<close>

text \<open>
  The contract of an append-only table, over the transitions \<open>step\<close> of its writers: a transition
  leaves the rows alone or adds one whose key is new. What follows for every history: rows stay in
  place, keys stay unique, and a lookup that found a row finds it for ever.
\<close>

locale append_only =
  fixes step :: "'s \<Rightarrow> 's \<Rightarrow> bool"
    and rows :: "'s \<Rightarrow> 'r list"
    and key :: "'r \<Rightarrow> 'k"
  assumes grows: "step s s' \<Longrightarrow> rows s' = rows s \<or> (\<exists>r. rows s' = rows s @ [r] \<and> key r \<notin> key ` set (rows s))"
begin

lemma reach_prefix: "step\<^sup>*\<^sup>* s s' \<Longrightarrow> prefix (rows s) (rows s')"
proof (induction rule: rtranclp_induct)
  case (step s' s'')
  from grows [OF step.hyps(2)] step.IH show ?case by (auto intro: prefix_order.trans)
qed simp

lemma reach_distinct: "step\<^sup>*\<^sup>* s s' \<Longrightarrow> distinct (map key (rows s)) \<Longrightarrow> distinct (map key (rows s'))"
proof (induction rule: rtranclp_induct)
  case (step s' s'')
  from grows [OF step.hyps(2)] step.IH [OF step.prems] show ?case by auto
qed simp

lemma reach_mem: "step\<^sup>*\<^sup>* s s' \<Longrightarrow> r \<in> set (rows s) \<Longrightarrow> r \<in> set (rows s')"
  by (meson reach_prefix set_mono_prefix subsetD)

lemma reach_find:
  assumes "step\<^sup>*\<^sup>* s s'" and "find p (rows s) = Some r"
  shows "find p (rows s') = Some r"
proof -
  from reach_prefix [OF assms(1)] obtain zs where "rows s' = rows s @ zs" by (auto simp: prefix_def)
  moreover have "find p (xs @ ys) = Some r" if "find p xs = Some r" for xs ys
    using that by (induction xs) (auto split: if_splits)
  ultimately show ?thesis using assms(2) by simp
qed

lemma reach_find_mem:
  assumes "step\<^sup>*\<^sup>* s s'" and "distinct (map key (rows s'))" and "r \<in> set (rows s)"
  shows "find (\<lambda>x. key x = key r) (rows s') = Some r"
proof -
  from reach_mem [OF assms(1,3)] have m: "r \<in> set (rows s')" .
  then obtain x where x: "find (\<lambda>x. key x = key r) (rows s') = Some x"
    by (cases "find (\<lambda>x. key x = key r) (rows s')") (auto simp: find_None_iff)
  then have "x \<in> set (rows s')" "key x = key r" by (auto simp: find_Some_iff)
  with assms(2) m have "x = r" by (meson distinct_map inj_onD)
  with x show ?thesis by simp
qed

end

section \<open>What the event ledger promises\<close>

text \<open>A transition is a successful append of either writer, whose read saw an earlier table; an error
  rolls the transaction back.\<close>

inductive event_step :: "event_row list \<Rightarrow> event_row list \<Rightarrow> bool" where
  v1: "append_event (take n tab) tab e = Inr (tab', x) \<Longrightarrow> event_step tab tab'"
| v03: "append_event_v03 (take n tab) tab e = Inr (tab', y) \<Longrightarrow> event_step tab tab'"

lemma insert_event_Some: "insert_event tab r = Some tab' \<longleftrightarrow> tab' = tab @ [r] \<and> (\<forall>s \<in> set tab. \<not> event_clash r s)"
  by (auto simp: insert_event_def list_ex_iff)

lemma insert_event_key: "r \<in> set tab \<Longrightarrow> row_event_key r = row_event_key s \<Longrightarrow> insert_event tab s = None"
  by (simp add: insert_event_def list_ex_iff event_clash_def) metis

lemma append_event_table:
  "append_event seen tab e = Inr (tab', x) \<Longrightarrow> tab' = tab \<or> insert_event tab (EventV1 e) = Some tab' \<and> x = e"
  by (auto simp: append_event_def split: option.splits)

lemma append_event_v03_table:
  "append_event_v03 seen tab e = Inr (tab', x) \<Longrightarrow> (tab' = tab \<or> insert_event tab (EventV3 e) = Some tab') \<and> x = e"
  by (auto simp: append_event_v03_def split: option.splits if_splits)

lemma event_step_cases:
  "event_step tab tab' \<Longrightarrow> tab' = tab \<or> (\<exists>r. tab' = tab @ [r] \<and> (\<forall>s \<in> set tab. \<not> event_clash r s))"
  by (erule event_step.cases) (auto dest!: append_event_table append_event_v03_table simp: insert_event_Some)

interpretation event_ids: append_only event_step "\<lambda>tab. tab" row_event_id
  by unfold_locales (drule event_step_cases, auto simp: event_clash_def)

interpretation event_keys: append_only event_step "\<lambda>tab. tab" row_event_key
  by unfold_locales (drule event_step_cases, auto simp: event_clash_def)

interpretation event_versions: append_only event_step "\<lambda>tab. tab" row_aggregate
  by unfold_locales (drule event_step_cases, auto simp: event_clash_def)

lemma as_event_v1_Some: "as_event_v1 r = Some e \<longleftrightarrow> r = EventV1 e"
  by (cases r) auto

lemma set_map_filter_as_event_v1: "e \<in> set (List.map_filter as_event_v1 tab) \<longleftrightarrow> EventV1 e \<in> set tab"
  by (induction tab) (auto simp: List.map_filter_simps as_event_v1_Some split: option.splits)

lemma replay_set: "e \<in> set (replay tab t a n) \<longleftrightarrow>
    EventV1 e \<in> set tab \<and> lv_aggregate_type e = t \<and> lv_aggregate_id e = a \<and> n < lv_sequence e"
  by (auto simp: replay_def set_map_filter_as_event_v1)

lemma sort_key_first: "sorted (map f (sort_key (\<lambda>x. (f x, g x)) xs))"
proof -
  have "sorted (map (\<lambda>x. (f x, g x)) (sort_key (\<lambda>x. (f x, g x)) xs))" by (rule sorted_sort_key)
  then show ?thesis by (auto simp: sorted_map less_eq_prod_def elim!: sorted_wrt_mono_rel [rotated])
qed

lemma replay_sorted: "sorted (map lv_sequence (replay tab t a n))"
  unfolding replay_def by (rule sort_key_first)

lemma event_by_key_Some: "event_by_key tab k = Some e \<Longrightarrow> EventV1 e \<in> set tab \<and> lv_key e = k"
  by (metis (mono_tags, lifting) event_by_key_def find_Some_iff nth_mem set_map_filter_as_event_v1)

lemma event_by_key_unique:
  assumes "distinct (map row_event_key tab)" and "EventV1 e \<in> set tab"
  shows "event_by_key tab (lv_key e) = Some e"
proof (cases "event_by_key tab (lv_key e)")
  case None
  with assms(2) show ?thesis by (auto simp: event_by_key_def find_None_iff set_map_filter_as_event_v1)
next
  case (Some x)
  from event_by_key_Some [OF this] have x: "EventV1 x \<in> set tab" "lv_key x = lv_key e" by auto
  moreover have "inj_on row_event_key (set tab)" using assms(1) by (simp add: distinct_map)
  ultimately have "EventV1 x = EventV1 e" using assms(2) by (intro inj_onD [of row_event_key]) auto
  with Some show ?thesis by simp
qed

lemma take_distinct: "distinct (map f xs) \<Longrightarrow> distinct (map f (take n xs))"
  by (metis distinct_take take_map)

text \<open>C36: Whatever appends of both schema versions are interleaved, with reads as stale as they
  come, the event ledger never holds two rows with one event id, one idempotency key or one version
  of an aggregate, every row that is in it stays in place, and a replay comes in the order of the sequence.
  An event of either version is found by its id for ever, and an event of version 1 is in the replay of its
  aggregate from every sequence number below its own.\<close>

theorem ledger_history:
  assumes "event_step\<^sup>*\<^sup>* [] tab" and "event_step\<^sup>*\<^sup>* tab tab'"
  shows "distinct (map row_event_id tab') \<and> distinct (map row_event_key tab') \<and> distinct (map row_aggregate tab') \<and>
    prefix tab tab' \<and> sorted (map lv_sequence (replay tab' t a m)) \<and>
    (\<forall>e. EventV1 e \<in> set tab \<longrightarrow> get_event tab' (lv_id e) = Some e \<and>
       (\<forall>n < lv_sequence e. e \<in> set (replay tab' (lv_aggregate_type e) (lv_aggregate_id e) n))) \<and>
    (\<forall>x. EventV3 x \<in> set tab \<longrightarrow> get_event_v03 tab' (lv_id x) = Some x)"
proof -
  have r: "event_step\<^sup>*\<^sup>* [] tab'" using assms(1,2) by (rule rtranclp_trans)
  have d: "distinct (map row_event_id tab')" "distinct (map row_event_key tab')" "distinct (map row_aggregate tab')"
    using event_ids.reach_distinct [OF r] event_keys.reach_distinct [OF r] event_versions.reach_distinct [OF r] by auto
  have p: "prefix tab tab'" using assms(2) by (rule event_ids.reach_prefix)
  have f: "find (\<lambda>x. row_event_id x = row_event_id r) tab' = Some r" if "r \<in> set tab" for r
    using assms(2) d(1) that by (rule event_ids.reach_find_mem)
  have "get_event tab' (lv_id e) = Some e" if "EventV1 e \<in> set tab" for e
    using f [OF that] by (simp add: get_event_def)
  moreover have "get_event_v03 tab' (lv_id x) = Some x" if "EventV3 x \<in> set tab" for x
    using f [OF that] by (simp add: get_event_v03_def)
  moreover have "e \<in> set (replay tab' (lv_aggregate_type e) (lv_aggregate_id e) n)" if "EventV1 e \<in> set tab" "n < lv_sequence e" for e n
    using event_ids.reach_mem [OF assms(2) that(1)] that(2) by (simp add: replay_set)
  ultimately show ?thesis using d p replay_sorted by blast
qed

text \<open>Redelivery: an append that succeeded is answered, in every later state and for every event under
  the same key, by the event of the first append; the ledger does not change.\<close>

lemma append_event_recorded:
  assumes "distinct (map row_event_key tab)" and "append_event seen tab e = Inr (tab', x)" and "\<exists>n. seen = take n tab"
  shows "EventV1 x \<in> set tab' \<and> lv_key x = lv_key e"
proof (cases "event_by_key seen (lv_key e)")
  case None
  with assms(2) show ?thesis
    by (auto simp: append_event_def insert_event_Some split: option.splits dest: event_by_key_Some)
next
  case (Some y)
  from event_by_key_Some [OF this] assms(3) have "EventV1 y \<in> set tab" "lv_key y = lv_key e"
    by (auto dest: in_set_takeD)
  with assms(2) Some show ?thesis by (simp add: append_event_def)
qed

lemma append_event_again:
  assumes "event_step\<^sup>*\<^sup>* [] tab" and "EventV1 x \<in> set tab" and "lv_key e = lv_key x"
  shows "append_event (take n tab) tab e = Inr (tab, x)"
proof -
  have d: "distinct (map row_event_key tab)" using event_keys.reach_distinct [OF assms(1)] by simp
  have k: "event_by_key tab (lv_key e) = Some x" using event_by_key_unique [OF d assms(2)] assms(3) by simp
  show ?thesis
  proof (cases "event_by_key (take n tab) (lv_key e)")
    case None
    have "insert_event tab (EventV1 e) = None"
      using insert_event_key [OF assms(2), of "EventV1 e"] assms(3) by simp
    with None k show ?thesis by (simp add: append_event_def)
  next
    case (Some y)
    from event_by_key_Some [OF this] have "EventV1 y \<in> set tab" "lv_key y = lv_key e" by (auto dest: in_set_takeD)
    with event_by_key_unique [OF d] k have "y = x" by (metis option.inject)
    with Some show ?thesis by (simp add: append_event_def)
  qed
qed

text \<open>Appending is idempotent by key across time and concurrency: once an append answered with
  an event, every later append under that key, of whatever content and with whatever stale read,
  answers with that event and leaves the ledger as it is.\<close>

theorem ledger_retry:
  assumes "event_step\<^sup>*\<^sup>* [] tab" and "append_event (take n tab) tab e = Inr (tab', x)"
    and "event_step\<^sup>*\<^sup>* tab' tab''" and "lv_key e' = lv_key e"
  shows "append_event (take m tab'') tab'' e' = Inr (tab'', x)"
proof -
  have d: "distinct (map row_event_key tab)" using event_keys.reach_distinct [OF assms(1)] by simp
  have "event_step tab tab'" using assms(2) by (rule event_step.v1)
  then have r: "event_step\<^sup>*\<^sup>* [] tab''" using assms(1,3) by (meson converse_rtranclp_into_rtranclp rtranclp_trans)
  from append_event_recorded [OF d assms(2)] have x: "EventV1 x \<in> set tab'" "lv_key x = lv_key e" by auto
  from event_ids.reach_mem [OF assms(3) x(1)] show ?thesis
    using append_event_again [OF r] x(2) assms(4) by simp
qed

text \<open>The v0.3 writer compares contents, and the key namespace is one: a key that an event of the other
  schema owns is refused by both writers, by the v1 writer under the name of a version conflict.\<close>

lemma append_event_v03_known:
  assumes "find (\<lambda>r. row_event_key r = lv_key e) seen = Some (EventV3 x)"
  shows "append_event_v03 seen tab e =
    (if x = e then Inr (tab, e)
     else if lv_schema x = lv_schema e then Inl SEMANTIC_OVERWRITE else Inl KEY_OF_ANOTHER_SCHEMA)"
  using assms by (auto simp: append_event_v03_def)

text \<open>An idempotency key belongs to one schema version. When an event of v0.3 holds the
  key, the v1 writer raises the conflict it reports for an occupied aggregate version, even if the
  aggregate version is free; when an event of v1 holds it, the v0.3 writer raises its own conflict.
  Neither returns the other's event and neither writes.\<close>

theorem ledger_cross_schema:
  assumes "event_step\<^sup>*\<^sup>* [] tab"
  shows "(EventV3 y \<in> set tab \<longrightarrow> lv_key e = lv_key y \<longrightarrow> append_event (take n tab) tab e = Inl AGGREGATE_VERSION_CONFLICT) \<and>
    (EventV1 x \<in> set tab \<longrightarrow> lv_key f = lv_key x \<longrightarrow> append_event_v03 tab tab f = Inl KEY_OF_ANOTHER_SCHEMA)"
proof (intro conjI impI)
  have inj: "inj_on row_event_key (set tab)" using event_keys.reach_distinct [OF assms] by (simp add: distinct_map)
  {
    assume y: "EventV3 y \<in> set tab" "lv_key e = lv_key y"
    have none: "event_by_key (take k tab) (lv_key e) = None" for k
    proof (rule ccontr)
      assume "event_by_key (take k tab) (lv_key e) \<noteq> None"
      then obtain z where "EventV1 z \<in> set tab" "lv_key z = lv_key y"
        using y(2) by (metis event_by_key_Some in_set_takeD not_None_eq)
      with y(1) inj have "EventV1 z = EventV3 y" by (intro inj_onD [of row_event_key]) auto
      then show False by simp
    qed
    have "insert_event tab (EventV1 e) = None"
      using insert_event_key [OF y(1), of "EventV1 e"] y(2) by simp
    with none [of n] none [of "length tab"] show "append_event (take n tab) tab e = Inl AGGREGATE_VERSION_CONFLICT"
      by (simp add: append_event_def)
  next
    assume x: "EventV1 x \<in> set tab" "lv_key f = lv_key x"
    then obtain r where r: "find (\<lambda>r. row_event_key r = lv_key f) tab = Some r"
      by (cases "find (\<lambda>r. row_event_key r = lv_key f) tab") (auto simp: find_None_iff)
    then have "r \<in> set tab" "row_event_key r = lv_key x" using x(2) by (auto simp: find_Some_iff)
    with x(1) inj have "r = EventV1 x" by (intro inj_onD [of row_event_key]) auto
    with r show "append_event_v03 tab tab f = Inl KEY_OF_ANOTHER_SCHEMA" by (simp add: append_event_v03_def)
  }
qed

section \<open>What the decision ledger promises\<close>

inductive decision_step :: "decision_ledger \<Rightarrow> decision_ledger \<Rightarrow> bool" where
  v1: "append_decision (take n (dl_rows db)) db t = Inr (db', x) \<Longrightarrow> decision_step db db'"
| v03: "append_decision_v03 (take n (dl_rows db)) db u = Inr (db', y) \<Longrightarrow> decision_step db db'"

lemma insert_trace_Some: "insert_trace db r ins = Some db' \<longleftrightarrow>
    db' = db\<lparr>dl_rows := dl_rows db @ [r], dl_inputs := dl_inputs db @ ins\<rparr> \<and>
    (\<forall>s \<in> set (dl_rows db). row_decision_id s \<noteq> row_decision_id r)"
  by (auto simp: insert_trace_def list_ex_iff)

lemma append_decision_ledger:
  "append_decision seen db t = Inr (db', x) \<Longrightarrow> db' = db \<or> x = t \<and> get_decision seen (d1_id t) = None \<and>
     (\<exists>ins. map_res (indexed_input (d1_id t)) (d1_inputs t) = Inr ins \<and> insert_trace db (TraceV1 t) ins = Some db')"
  by (auto simp: append_decision_def res_simps split: option.splits)

lemma append_decision_v03_ledger:
  "append_decision_v03 seen db t = Inr (db', x) \<Longrightarrow> x = t \<and> (db' = db \<or>
     insert_trace db (TraceV3 t) (map (source_input (dt_decision_id t)) (dt_context_sources t)) = Some db')"
  by (auto simp: append_decision_v03_def split: option.splits if_splits)

lemma decision_step_cases:
  "decision_step db db' \<Longrightarrow> db' = db \<or>
    (\<exists>r ins. insert_trace db r ins = Some db' \<and> (\<forall>i \<in> set ins. ir_decision i = row_decision_id r))"
proof (erule decision_step.cases, goal_cases)
  case (1 n db t db' x)
  have "ir_decision y = i" if "indexed_input i z = Inr y" for i z y
    using that by (auto simp: indexed_input_def res_simps)
  then have "\<forall>y \<in> set ins. ir_decision y = d1_id t" if "map_res (indexed_input (d1_id t)) (d1_inputs t) = Inr ins" for ins
    using that by (auto simp: map_res_Inr_iff dest: list_all2_right)
  with append_decision_ledger [OF 1(3)] 1(1,2) show ?case by fastforce
next
  case (2 n db u db' y)
  from append_decision_v03_ledger [OF 2(3)] 2(1,2) show ?case by (auto simp: source_input_def intro!: exI)
qed

interpretation decision_ids: append_only decision_step dl_rows row_decision_id
proof
  fix db db'
  assume "decision_step db db'"
  from decision_step_cases [OF this] consider "db' = db" | r ins where "insert_trace db r ins = Some db'" by blast
  then show "dl_rows db' = dl_rows db \<or> (\<exists>r. dl_rows db' = dl_rows db @ [r] \<and> row_decision_id r \<notin> row_decision_id ` set (dl_rows db))"
    by cases (auto simp: insert_trace_Some image_iff intro!: exI)
qed

text \<open>The index is exact: what is stored for a decision of v1 is what it lists as inputs.\<close>

fun index_of :: "trace_row \<Rightarrow> input_row list" where
  "index_of (TraceV1 t) = map (\<lambda>x. \<lparr>ir_decision = d1_id t, ir_type = di_type x, ir_entity = di_id x,
     ir_version = map_option ver_str (di_version x)\<rparr>) (d1_inputs t)"
| "index_of (TraceV3 t) = map (source_input (dt_decision_id t)) (dt_context_sources t)"

definition index_exact :: "decision_ledger \<Rightarrow> bool" where
  "index_exact db \<longleftrightarrow> dl_inputs db = concat (map index_of (dl_rows db))"

lemma indexed_input_value: "indexed_input i x = Inr y \<Longrightarrow> y = \<lparr>ir_decision = i, ir_type = di_type x,
    ir_entity = di_id x, ir_version = map_option ver_str (di_version x)\<rparr>"
  by (auto simp: indexed_input_def res_simps)

lemma map_indexed_input: "map_res (indexed_input (d1_id t)) (d1_inputs t) = Inr ins \<Longrightarrow> ins = index_of (TraceV1 t)"
proof -
  assume "map_res (indexed_input (d1_id t)) (d1_inputs t) = Inr ins"
  then have "list_all2 (\<lambda>x y. indexed_input (d1_id t) x = Inr y) (d1_inputs t) ins" by (simp add: map_res_Inr_iff)
  then have "ins = map (\<lambda>x. \<lparr>ir_decision = d1_id t, ir_type = di_type x, ir_entity = di_id x,
     ir_version = map_option ver_str (di_version x)\<rparr>) (d1_inputs t)"
    by (induction rule: list_all2_induct) (auto dest: indexed_input_value)
  then show ?thesis by simp
qed

lemma decision_step_exact: "decision_step db db' \<Longrightarrow> index_exact db \<Longrightarrow> index_exact db'"
proof (erule decision_step.cases, goal_cases)
  case (1 n db t db' x)
  with append_decision_ledger [OF 1(4)] map_indexed_input show ?case
    by (auto simp: insert_trace_Some index_exact_def)
next
  case (2 n db u db' y)
  with append_decision_v03_ledger [OF 2(4)] show ?case by (auto simp: insert_trace_Some index_exact_def)
qed

lemma decision_reach_exact: "decision_step\<^sup>*\<^sup>* db db' \<Longrightarrow> index_exact db \<Longrightarrow> index_exact db'"
  by (induction rule: rtranclp_induct) (auto intro: decision_step_exact)

lemma as_trace_v1_Some: "as_trace_v1 r = Some t \<longleftrightarrow> r = TraceV1 t"
  by (cases r) auto

lemma set_map_filter_as_trace_v1: "t \<in> set (List.map_filter as_trace_v1 rows) \<longleftrightarrow> TraceV1 t \<in> set rows"
  by (induction rows) (auto simp: List.map_filter_simps as_trace_v1_Some split: option.splits)

lemma set_unique_seen: "set (unique_seen acc ts) = set ts - set acc"
  by (induction ts arbitrary: acc) auto

lemma distinct_unique_seen: "distinct (unique_seen acc ts)"
  by (induction ts arbitrary: acc) (auto simp: set_unique_seen)

lemma index_of_decision: "x \<in> set (index_of r) \<Longrightarrow> ir_decision x = row_decision_id r"
  by (cases r) (auto simp: source_input_def)

lemma index_rows_of:
  assumes "index_exact db" and "distinct (map row_decision_id (dl_rows db))" and "TraceV1 t \<in> set (dl_rows db)"
  shows "x \<in> set (dl_inputs db) \<and> ir_decision x = d1_id t \<longleftrightarrow> x \<in> set (index_of (TraceV1 t))"
proof
  assume x: "x \<in> set (dl_inputs db) \<and> ir_decision x = d1_id t"
  then obtain r where r: "r \<in> set (dl_rows db)" "x \<in> set (index_of r)" using assms(1) by (auto simp: index_exact_def)
  from index_of_decision [OF r(2)] have "ir_decision x = row_decision_id r" .
  with x have "row_decision_id r = row_decision_id (TraceV1 t)" by simp
  with r(1) assms(2,3) have "r = TraceV1 t" by (auto simp: distinct_map intro: inj_onD [of row_decision_id])
  with r(2) show "x \<in> set (index_of (TraceV1 t))" by simp
next
  assume x: "x \<in> set (index_of (TraceV1 t))"
  with assms(3) have "x \<in> set (concat (map index_of (dl_rows db)))" unfolding set_concat set_map by blast
  with assms(1) index_of_decision [OF x] show "x \<in> set (dl_inputs db) \<and> ir_decision x = d1_id t"
    by (simp add: index_exact_def)
qed

definition input_matches :: "trace_query \<Rightarrow> string \<Rightarrow> decision_input \<Rightarrow> bool" where
  "input_matches q entity i \<longleftrightarrow> di_id i = entity \<and>
     (tf_entity_type q = None \<or> tf_entity_type q = Some (di_type i)) \<and>
     (case tf_entity_version q of None \<Rightarrow> True | Some v \<Rightarrow> map_option ver_str (di_version i) = Some (ver_str v))"

lemma joined_set:
  assumes "index_exact db" and "distinct (map row_decision_id (dl_rows db))" and "tf_entity_id q = Some x"
  shows "t \<in> set (joined db q) \<longleftrightarrow> TraceV1 t \<in> set (dl_rows db) \<and> (\<exists>i \<in> set (d1_inputs t). input_matches q x i)"
proof -
  have "t \<in> set (joined db q) \<longleftrightarrow> TraceV1 t \<in> set (dl_rows db) \<and>
      (\<exists>r \<in> set (dl_inputs db). ir_decision r = d1_id t \<and> input_filter q x r)"
    using assms(3) by (auto simp: joined_def set_map_filter_as_trace_v1)
  also have "\<dots> \<longleftrightarrow> TraceV1 t \<in> set (dl_rows db) \<and> (\<exists>r \<in> set (index_of (TraceV1 t)). input_filter q x r)"
    using index_rows_of [OF assms(1,2)] by blast
  also have "(\<exists>r \<in> set (index_of (TraceV1 t)). input_filter q x r) \<longleftrightarrow> (\<exists>i \<in> set (d1_inputs t). input_matches q x i)"
    by (simp add: input_filter_def input_matches_def split: option.splits)
  finally show ?thesis .
qed

text \<open>In every ledger the two decision writers can reach, ids are unique, a decision of v1 is
  found by its id, and the query by entity returns each decision at most once and exactly those of v1
  that list an input of that entity, type and version and pass the other filters, provided the limit
  is at least the number of matching inputs.\<close>

theorem decision_query:
  assumes "decision_step\<^sup>*\<^sup>* \<lparr>dl_rows = [], dl_inputs = []\<rparr> db" and "tf_entity_id q = Some x"
    and "length (filter (trace_filter q) (joined db q)) \<le> tf_limit q"
  shows "distinct (map row_decision_id (dl_rows db)) \<and>
    (TraceV1 t \<in> set (dl_rows db) \<longrightarrow> get_decision (dl_rows db) (d1_id t) = Some t) \<and>
    distinct (query_decisions db q) \<and>
    (t \<in> set (query_decisions db q) \<longleftrightarrow>
       TraceV1 t \<in> set (dl_rows db) \<and> trace_filter q t \<and> (\<exists>i \<in> set (d1_inputs t). input_matches q x i))"
proof (intro conjI impI)
  show d: "distinct (map row_decision_id (dl_rows db))" using decision_ids.reach_distinct [OF assms(1)] by simp
  have e: "index_exact db" using decision_reach_exact [OF assms(1)] by (simp add: index_exact_def)
  show "get_decision (dl_rows db) (d1_id t) = Some t" if "TraceV1 t \<in> set (dl_rows db)"
    using decision_ids.reach_find_mem [OF rtranclp.rtrancl_refl d that] by (simp add: get_decision_def)
  show "distinct (query_decisions db q)" by (simp add: query_decisions_def distinct_unique_seen)
  have "set (query_decisions db q) = set (filter (trace_filter q) (joined db q))"
    using assms(3) by (simp add: query_decisions_def set_unique_seen)
  then show "t \<in> set (query_decisions db q) \<longleftrightarrow>
       TraceV1 t \<in> set (dl_rows db) \<and> trace_filter q t \<and> (\<exists>i \<in> set (d1_inputs t). input_matches q x i)"
    by (auto simp: joined_set [OF e d assms(2)])
qed

text \<open>The proviso is needed: the limit counts joined rows, so a decision that reads one entity in two
  versions takes two places.\<close>

definition sample_trace :: "uuid \<Rightarrow> decision_input list \<Rightarrow> time \<Rightarrow> trace_v1" where
  "sample_trace i ins now = \<lparr>d1_id = i, d1_type = ''plan'', d1_owner = LEARNING_PLANNER, d1_inputs = ins,
     d1_candidates = [], d1_selected = [], d1_constraints = [], d1_reasons = [''R''], d1_confidence = None,
     d1_algorithm = \<lparr>ag_id = ''a'', ag_version = ''1'', ag_inferences = [], ag_prompts = []\<rparr>,
     d1_experiment = \<lparr>ex_id = None, ex_variant = None, ex_propensity = None\<rparr>, d1_created = now,
     d1_correlation = ''c'', d1_trace = ''t''\<rparr>"

definition sample_input :: "string \<Rightarrow> decision_input" where
  "sample_input v = \<lparr>di_type = ''Goal'', di_id = ''g'', di_version = Some (VerS v)\<rparr>"

definition entity_query :: "string \<Rightarrow> nat \<Rightarrow> trace_query" where
  "entity_query x n = \<lparr>tf_trace = None, tf_correlation = None, tf_entity_type = None, tf_entity_id = Some x,
     tf_entity_version = None, tf_decision_type = None, tf_algorithm_version = None, tf_limit = n\<rparr>"

lemma query_limit_counts_inputs:
  "\<exists>db t u. decision_step\<^sup>*\<^sup>* \<lparr>dl_rows = [], dl_inputs = []\<rparr> db \<and> t \<noteq> u \<and>
     set (query_decisions db (entity_query ''g'' 3)) = {t, u} \<and> query_decisions db (entity_query ''g'' 2) = [t]"
proof -
  let ?t = "sample_trace ''1'' [sample_input ''1'', sample_input ''2''] 0"
  let ?u = "sample_trace ''2'' [sample_input ''1''] 1"
  let ?e = "\<lparr>dl_rows = [], dl_inputs = []\<rparr>"
  let ?db = "\<lparr>dl_rows = [TraceV1 ?t], dl_inputs = index_of (TraceV1 ?t)\<rparr>"
  let ?db' = "\<lparr>dl_rows = [TraceV1 ?t, TraceV1 ?u], dl_inputs = index_of (TraceV1 ?t) @ index_of (TraceV1 ?u)\<rparr>"
  have "append_decision (take 0 (dl_rows ?e)) ?e ?t = Inr (?db, ?t)" by code_simp
  then have 1: "decision_step ?e ?db" by (rule decision_step.v1)
  have "append_decision (take 1 (dl_rows ?db)) ?db ?u = Inr (?db', ?u)" by code_simp
  then have 2: "decision_step ?db ?db'" by (rule decision_step.v1)
  have q: "query_decisions ?db' (entity_query ''g'' 3) = [?t, ?u]" "query_decisions ?db' (entity_query ''g'' 2) = [?t]"
    by code_simp+
  have "?t \<noteq> ?u" by (simp add: sample_trace_def)
  moreover have "set (query_decisions ?db' (entity_query ''g'' 3)) = {?t, ?u}" unfolding q(1) by simp
  moreover have "decision_step\<^sup>*\<^sup>* ?e ?db'" using 1 2 by (meson converse_rtranclp_into_rtranclp rtranclp.rtrancl_refl)
  ultimately show ?thesis using q(2) by blast
qed

section \<open>A concrete ledger\<close>

definition sample_event :: event_v1 where
  "sample_event = \<lparr>lv_id = ''e1'', lv_type = ''attempt.submitted'', lv_aggregate_type = ''Attempt'', lv_aggregate_id = ''a'',
     lv_aggregate_version = 1, lv_sequence = 1, lv_occurred = 10, lv_recorded = 11, lv_key = ''k1'',
     lv_correlation = ''c'', lv_causation = None,
     lv_actor = \<lparr>ac_type = ACTOR_LEARNER, ac_id = ''u'', ac_device = None\<rparr>,
     lv_context = \<lparr>ec_user = ''u'', ec_session = None, ec_goal = None, ec_units = [], ec_attempt = None, ec_contents = []\<rparr>,
     lv_payload = VDict [],
     lv_provenance = \<lparr>ev_source = SRC_API, ev_provider = None, ev_model = None, ev_snapshot = None, ev_prompt = None,
       ev_prompt_version = None, ev_policy = None, ev_projection = None, ev_algorithm = None\<rparr>,
     lv_trace = \<lparr>tx_trace = ''t'', tx_span = None\<rparr>,
     lv_privacy = \<lparr>px_class = CLASS_PERSONAL, px_external = False, px_retention = RETAIN_CORE\<rparr>\<rparr>"

lemma sample_append: "append_event (take 0 []) [] sample_event = Inr ([EventV1 sample_event], sample_event)"
  by (simp add: append_event_def event_by_key_def insert_event_def List.map_filter_simps)

lemma sample_reach: "event_step\<^sup>*\<^sup>* [] [EventV1 sample_event]"
  using event_step.v1 [OF sample_append] by blast

theorem ledger_history_witness:
  "get_event [EventV1 sample_event] ''e1'' = Some sample_event \<and>
   sample_event \<in> set (replay [EventV1 sample_event] ''Attempt'' ''a'' 0)"
  using ledger_history [OF sample_reach rtranclp.rtrancl_refl, of "[]" "[]" 0]
  by (simp add: sample_event_def)

theorem ledger_retry_witness:
  "append_event [] [EventV1 sample_event] (sample_event\<lparr>lv_id := ''e2''\<rparr>) = Inr ([EventV1 sample_event], sample_event)"
  using ledger_retry [OF rtranclp.rtrancl_refl sample_append rtranclp.rtrancl_refl, of "sample_event\<lparr>lv_id := ''e2''\<rparr>" 0]
  by simp

lemma sample_decision:
  "append_decision (take 0 (dl_rows \<lparr>dl_rows = [], dl_inputs = []\<rparr>)) \<lparr>dl_rows = [], dl_inputs = []\<rparr> (sample_trace ''1'' [sample_input ''1''] 0) =
     Inr (\<lparr>dl_rows = [TraceV1 (sample_trace ''1'' [sample_input ''1''] 0)],
           dl_inputs = index_of (TraceV1 (sample_trace ''1'' [sample_input ''1''] 0))\<rparr>, sample_trace ''1'' [sample_input ''1''] 0)"
  by code_simp

theorem decision_query_witness:
  "sample_trace ''1'' [sample_input ''1''] 0 \<in> set (query_decisions
     \<lparr>dl_rows = [TraceV1 (sample_trace ''1'' [sample_input ''1''] 0)],
      dl_inputs = index_of (TraceV1 (sample_trace ''1'' [sample_input ''1''] 0))\<rparr> (entity_query ''g'' 1))"
proof -
  let ?t = "sample_trace ''1'' [sample_input ''1''] 0"
  let ?db = "\<lparr>dl_rows = [TraceV1 ?t], dl_inputs = index_of (TraceV1 ?t)\<rparr>"
  have "decision_step\<^sup>*\<^sup>* \<lparr>dl_rows = [], dl_inputs = []\<rparr> ?db" using decision_step.v1 [OF sample_decision] by blast
  moreover have "length (filter (trace_filter (entity_query ''g'' 1)) (joined ?db (entity_query ''g'' 1))) \<le> tf_limit (entity_query ''g'' 1)"
    by code_simp
  moreover have "tf_entity_id (entity_query ''g'' 1) = Some ''g''" by (simp add: entity_query_def)
  moreover have "trace_filter (entity_query ''g'' 1) ?t" "input_matches (entity_query ''g'' 1) ''g'' (sample_input ''1'')" by code_simp+
  ultimately show ?thesis using decision_query [of ?db "entity_query ''g'' 1" "''g''" ?t]
    by (auto simp: sample_trace_def)
qed

end
