(* ===== verification/Retrieval.thy ===== *)
theory Retrieval
  imports Ranking
begin

text \<open>
  The evidence contracts of \<open>app/contracts/adaptive.py\<close> and
  \<open>app/domains/retrieval/adaptive_evidence_service.py\<close>: which candidates may reach the learner
  under a teaching action, and the bundle and trace built from the ranked ones. The trace is
  keyed by chunk id and its entries are shared by candidates with the same id, as in the source:
  a reason recorded for one of them also excludes those after it.

  The cache identity (a digest of a JSON payload) is not modelled.
\<close>

section \<open>Evidence contracts\<close>

datatype allowed_use = LEARNER_VISIBLE | GRADER_ONLY | INTERNAL_ONLY

definition pedagogical_roles :: "string list" where
  "pedagogical_roles = [''definition'', ''example'', ''counterexample'', ''prerequisite'', ''hint'',
     ''rubric'', ''solution'', ''context'']"

record evidence_item =
  ei_id :: uuid
  ei_spans :: "uuid list"
  ei_units :: "uuid list"
  ei_role :: string
  ei_content :: string
  ei_relevance :: "float64 option"
  ei_confidence :: "float64 option"
  ei_exposure :: answer_exposure
  ei_use :: allowed_use

definition valid_item :: "evidence_item \<Rightarrow> bool" where
  "valid_item e \<longleftrightarrow> ei_spans e \<noteq> [] \<and> ei_role e \<in> set pedagogical_roles \<and> unit_range (ei_confidence e)"

record evidence_bundle =
  eb_id :: uuid
  eb_schema_version :: string
  eb_request :: uuid
  eb_action_ref :: versioned_ref
  eb_scope :: "(string, pyval) dict"
  eb_index_versions :: "(string, string) dict"
  eb_items :: "evidence_item list"
  eb_conflicts :: "(string, pyval) dict list"
  eb_missing_roles :: "string list"
  eb_missing_reasons :: "string list"
  eb_confidence :: "float64 option"
  eb_trace_id :: uuid

definition valid_bundle :: "evidence_bundle \<Rightarrow> bool" where
  "valid_bundle b \<longleftrightarrow> list_all valid_item (eb_items b) \<and> unit_range (eb_confidence b)"

section \<open>Candidates and trace\<close>

fun exposure_rank :: "answer_exposure \<Rightarrow> nat" where
  "exposure_rank AE_NONE = 0"
| "exposure_rank AE_PARTIAL = 1"
| "exposure_rank AE_COMPLETE = 2"

record retrieval_candidate =
  rc_chunk :: uuid
  rc_document :: uuid
  rc_revision :: uuid
  rc_spans :: "uuid list"
  rc_units :: "uuid list"
  rc_content :: string
  rc_role :: string
  rc_exposure :: "answer_exposure option"
  rc_use :: allowed_use
  rc_confidence :: "float64 option"
  rc_unit_refs :: "string list"
  rc_relation_refs :: "string list"
  rc_hierarchy_refs :: "string list"
  rc_publication :: string
  rc_canonical :: bool
  rc_projections :: "(string, string) dict"

record retrieval_trace_item =
  rt_chunk :: string
  rt_evidence :: "string option"
  rt_revision :: string
  rt_spans :: "string list"
  rt_unit_refs :: "string list"
  rt_relation_refs :: "string list"
  rt_hierarchy_refs :: "string list"
  rt_projections :: "(string, string) dict"
  rt_score :: float64
  rt_selected :: bool
  rt_reasons :: "string list"

record retrieval_trace =
  tr_id :: uuid
  tr_request :: uuid
  tr_table :: "retrieval_trace_item list"
  tr_reasons :: "string list"

record build_result =
  br_bundle :: evidence_bundle
  br_trace :: retrieval_trace

definition trace_item_of :: "retrieval_candidate \<Rightarrow> retrieval_trace_item" where
  "trace_item_of c = \<lparr>rt_chunk = rc_chunk c, rt_evidence = None, rt_revision = rc_revision c,
     rt_spans = rc_spans c, rt_unit_refs = rc_unit_refs c, rt_relation_refs = rc_relation_refs c,
     rt_hierarchy_refs = rc_hierarchy_refs c, rt_projections = rc_projections c, rt_score = 0,
     rt_selected = False, rt_reasons = []\<rparr>"

section \<open>Source scope\<close>

text \<open>
  \<open>None\<close> is an unrestricted scope. A restriction that is not a list of ids admits nothing.
\<close>

definition allowed_documents :: "pyenv \<Rightarrow> (string, pyval) dict \<Rightarrow> string list option" where
  "allowed_documents env scope =
     (case dict_get scope ''document_ids'' of
        None \<Rightarrow> None
      | Some VNone \<Rightarrow> None
      | Some (VList vs) \<Rightarrow> Some (map (py_str env) vs)
      | Some _ \<Rightarrow> Some [])"

definition required_revisions :: "pyenv \<Rightarrow> (string, pyval) dict \<Rightarrow> (string, string) dict" where
  "required_revisions env scope =
     (case dict_get scope ''revision_ids'' of
        Some (VDict d) \<Rightarrow> foldl (\<lambda>m (k, v). dict_set k (py_str env v) m) [] d
      | _ \<Rightarrow> [])"

section \<open>Eligibility\<close>

definition scope_denied :: "string list option \<Rightarrow> retrieval_candidate \<Rightarrow> bool" where
  "scope_denied docs c = (case docs of None \<Rightarrow> False | Some ds \<Rightarrow> rc_document c \<notin> set ds)"

definition revision_stale :: "(string, string) dict \<Rightarrow> retrieval_candidate \<Rightarrow> bool" where
  "revision_stale revs c = (case dict_get revs (rc_document c) of
     None \<Rightarrow> False | Some r \<Rightarrow> r \<noteq> [] \<and> rc_revision c \<noteq> r)"

definition index_stale :: "(string, string) dict \<Rightarrow> retrieval_candidate \<Rightarrow> bool" where
  "index_stale versions c = list_ex (\<lambda>(k, v). dict_get versions k \<noteq> Some v) (rc_projections c)"

definition denials :: "pyenv \<Rightarrow> (string, pyval) dict \<Rightarrow> (string, string) dict \<Rightarrow> answer_exposure \<Rightarrow>
    retrieval_candidate \<Rightarrow> string list" where
  "denials env scope versions limit c =
     map snd (filter fst
      [(scope_denied (allowed_documents env scope) c, ''V03_RETRIEVAL_SOURCE_SCOPE_DENIED''),
       (revision_stale (required_revisions env scope) c, ''V03_RETRIEVAL_REVISION_STALE''),
       (\<not> rc_canonical c, ''V03_RETRIEVAL_CANONICAL_ELIGIBILITY_DENIED''),
       (rc_publication c \<noteq> ''published'' \<or> rc_units c = [], ''V03_RETRIEVAL_UNPUBLISHED_KNOWLEDGE''),
       (index_stale versions c, ''V03_RETRIEVAL_INDEX_STALE''),
       (rc_use c \<noteq> LEARNER_VISIBLE, ''V03_RETRIEVAL_VISIBILITY_DENIED''),
       (rc_spans c = [], ''V03_RETRIEVAL_CITATION_INVALID''),
       (rc_exposure c = None, ''V03_RETRIEVAL_EXPOSURE_UNCERTAIN_TIGHTENED''),
       (case rc_exposure c of None \<Rightarrow> False | Some e \<Rightarrow> exposure_rank limit < exposure_rank e,
        ''V03_RETRIEVAL_EXPOSURE_LIMIT'')])"

definition reasons_at :: "(uuid, retrieval_trace_item) dict \<Rightarrow> uuid \<Rightarrow> string list" where
  "reasons_at d i = (case dict_get d i of None \<Rightarrow> [] | Some t \<Rightarrow> rt_reasons t)"

definition add_reasons :: "string list \<Rightarrow> retrieval_trace_item \<Rightarrow> retrieval_trace_item" where
  "add_reasons rs t = t\<lparr>rt_reasons := rt_reasons t @ rs\<rparr>"

fun screen :: "(retrieval_candidate \<Rightarrow> string list) \<Rightarrow> (uuid, retrieval_trace_item) dict \<Rightarrow>
    retrieval_candidate list \<Rightarrow> (uuid, retrieval_trace_item) dict \<times> retrieval_candidate list" where
  "screen deny d [] = (d, [])"
| "screen deny d (c # cs) =
     (let d' = mutate (rc_chunk c) (add_reasons (deny c)) d;
          (d'', keep) = screen deny d' cs
      in (d'', if reasons_at d' (rc_chunk c) = [] then c # keep else keep))"

section \<open>The bundle\<close>

definition evidence_id :: "pyenv \<Rightarrow> uuid \<Rightarrow> retrieval_candidate \<Rightarrow> uuid" where
  "evidence_id env request c = uuid5 env (''askora:v03:evidence:'' @ request @ '':'' @ rc_chunk c)"

definition relevance_of :: "float64 \<Rightarrow> float64" where
  "relevance_of rrf = min 1 (fmul rrf 30)"

definition record_ranking :: "pyenv \<Rightarrow> uuid \<Rightarrow> (uuid, rank_trace) dict \<Rightarrow> retrieval_candidate \<Rightarrow>
    retrieval_trace_item \<Rightarrow> retrieval_trace_item" where
  "record_ranking env request ranks c t =
     (case dict_get ranks (rc_chunk c) of
        None \<Rightarrow> t
      | Some r \<Rightarrow> t\<lparr>rt_score := relevance_of (rk_score r), rt_selected := rk_selected r,
          rt_reasons := rt_reasons t @ rk_reasons r,
          rt_evidence := (if rk_selected r then Some (evidence_id env request c) else rt_evidence t)\<rparr>)"

definition make_item :: "pyenv \<Rightarrow> uuid \<Rightarrow> (uuid, retrieval_trace_item) dict \<Rightarrow> retrieval_candidate \<Rightarrow> evidence_item" where
  "make_item env request d c =
    \<lparr>ei_id = evidence_id env request c, ei_spans = rc_spans c, ei_units = rc_units c,
     ei_role = (if rc_role c \<in> set pedagogical_roles then rc_role c else ''context''),
     ei_content = rc_content c,
     ei_relevance = Some (case dict_get d (rc_chunk c) of None \<Rightarrow> 0 | Some t \<Rightarrow> rt_score t),
     ei_confidence = rc_confidence c,
     ei_exposure = (case rc_exposure c of None \<Rightarrow> AE_NONE | Some e \<Rightarrow> e), ei_use = rc_use c\<rparr>"

definition item_confidence :: "evidence_item \<Rightarrow> float64" where
  "item_confidence e = (case ei_confidence e of None \<Rightarrow> 0 | Some x \<Rightarrow> x)"

definition bundle_confidence :: "evidence_item list \<Rightarrow> float64 option" where
  "bundle_confidence items =
     (if items = [] then None
      else fdiv (fsum (map item_confidence items)) (of_nat_f (length items)))"

definition required_roles :: "teaching_action \<Rightarrow> string set" where
  "required_roles a = set (ta_evidence_requirements a) \<inter> set pedagogical_roles"

definition missing_roles :: "teaching_action \<Rightarrow> retrieval_candidate list \<Rightarrow> string list" where
  "missing_roles a selected =
     sort (remdups (filter (\<lambda>r. r \<in> set pedagogical_roles \<and> r \<notin> rc_role ` set selected)
       (ta_evidence_requirements a)))"

definition missing_reasons :: "retrieval_candidate list \<Rightarrow> string list \<Rightarrow> string list" where
  "missing_reasons selected missing =
     (if selected = [] then [''V03_RETRIEVAL_NO_VERIFIED_EVIDENCE''] else []) @
     (if missing \<noteq> [] then [''V03_RETRIEVAL_REQUIRED_ROLE_MISSING''] else [])"

definition teaching_action_ref :: "teaching_action \<Rightarrow> versioned_ref" where
  "teaching_action_ref a = mk_ref ''teaching_action'' (ta_id a) (VerS (ta_schema_version a))"

definition retrieval_algorithm :: string where
  "retrieval_algorithm = ''hybrid-rrf-tightening/2.0''"

definition make_bundle :: "pyenv \<Rightarrow> uuid \<Rightarrow> teaching_action \<Rightarrow> (string, pyval) dict \<Rightarrow> (string, string) dict \<Rightarrow>
    (uuid, retrieval_trace_item) dict \<Rightarrow> retrieval_candidate list \<Rightarrow> evidence_bundle" where
  "make_bundle env request a scope versions d selected =
     (let items = map (make_item env request d) selected; missing = missing_roles a selected in
      \<lparr>eb_id = uuid5 env (''askora:v03:evidence-bundle:'' @ request @ '':'' @ ta_id a @ '':''
           @ str_join '':'' (map ei_id items)),
       eb_schema_version = ''3.0'', eb_request = request, eb_action_ref = teaching_action_ref a,
       eb_scope = scope, eb_index_versions = versions, eb_items = items, eb_conflicts = [],
       eb_missing_roles = missing, eb_missing_reasons = missing_reasons selected missing,
       eb_confidence = bundle_confidence items,
       eb_trace_id = uuid5 env (''askora:v03:retrieval-trace:'' @ request @ '':'' @ ta_id a @ '':''
           @ retrieval_algorithm)\<rparr>)"

text \<open>\<open>AdaptiveEvidenceRetriever.build\<close>; a bundle its contract refuses is a ValidationError.\<close>

definition screened :: "pyenv \<Rightarrow> teaching_action \<Rightarrow> (string, pyval) dict \<Rightarrow> (string, string) dict \<Rightarrow>
    retrieval_candidate list \<Rightarrow> (uuid, retrieval_trace_item) dict \<times> retrieval_candidate list" where
  "screened env a scope versions cs =
     screen (denials env scope versions (ta_exposure a))
       (foldl (\<lambda>d c. dict_set (rc_chunk c) (trace_item_of c) d) [] cs) cs"

definition build_evidence :: "pyenv \<Rightarrow> retrieval_candidate hybrid_retriever \<Rightarrow> uuid \<Rightarrow> teaching_action \<Rightarrow>
    string \<Rightarrow> retrieval_candidate list \<Rightarrow> (string, pyval) dict \<Rightarrow> (string, string) dict \<Rightarrow> int \<Rightarrow>
    exn + build_result" where
  "build_evidence env h request a query cs scope versions max_items =
     (let (d, eligible) = screened env a scope versions cs;
          ranking = rank_candidates h rc_chunk rc_content query eligible max_items;
          table = fold (\<lambda>c. mutate (rc_chunk c) (record_ranking env request (rr_trace ranking) c)) eligible d;
          b = make_bundle env request a scope versions table (rr_selected ranking)
      in if valid_bundle b
         then Inr \<lparr>br_bundle = b, br_trace = \<lparr>tr_id = eb_trace_id b, tr_request = request,
             tr_table = map snd table, tr_reasons = retrieval_algorithm # rr_degraded ranking\<rparr>\<rparr>
         else Inl (ValueError ''EVIDENCE_BUNDLE_VALIDATION''))"

section \<open>Screening\<close>

lemma dict_get_mutate: "dict_get (mutate k f d) i = (if i = k then map_option f (dict_get d i) else dict_get d i)"
  by (induction d) (auto simp: mutate_def dict_get_def)

lemma mutate_keys [simp]: "fst ` set (mutate k f d) = fst ` set d"
  by (force simp: mutate_def)

lemma dict_get_key: "k \<in> fst ` set d \<longleftrightarrow> (\<exists>v. dict_get d k = Some v)"
  by (simp add: dict_get_def map_of_eq_None_iff [symmetric] not_None_eq [symmetric] del: not_None_eq)
    (metis map_of_eq_None_iff not_None_eq)

lemma reasons_at_add:
  "k \<in> fst ` set d \<Longrightarrow> reasons_at (mutate k (add_reasons rs) d) i
     = (if i = k then reasons_at d i @ rs else reasons_at d i)"
  by (auto simp: reasons_at_def dict_get_mutate dict_get_key add_reasons_def)

lemma screen_keep:
  assumes "rc_chunk ` set cs \<subseteq> fst ` set d" and "c \<in> set (snd (screen deny d cs))"
  shows "c \<in> set cs \<and> deny c = []"
  using assms
proof (induction cs arbitrary: d)
  case (Cons a cs)
  let ?d = "mutate (rc_chunk a) (add_reasons (deny a)) d"
  have "rc_chunk ` set cs \<subseteq> fst ` set ?d" using Cons.prems(1) by (simp add: image_subset_iff)
  note IH = Cons.IH [OF this]
  have a: "deny a = []" if "reasons_at ?d (rc_chunk a) = []"
    using that Cons.prems(1) by (simp add: reasons_at_add)
  show ?case
    using Cons.prems(2) IH a by (auto simp: Let_def split: prod.splits if_splits)
qed simp

lemma screen_complete:
  assumes "rc_chunk ` set cs \<subseteq> fst ` set d" and "distinct (map rc_chunk cs)"
    and "\<forall>c \<in> set cs. reasons_at d (rc_chunk c) = []"
  shows "snd (screen deny d cs) = filter (\<lambda>c. deny c = []) cs"
  using assms
proof (induction cs arbitrary: d)
  case (Cons a cs)
  let ?d = "mutate (rc_chunk a) (add_reasons (deny a)) d"
  have k: "rc_chunk a \<in> fst ` set d" using Cons.prems(1) by simp
  have ne: "rc_chunk c \<noteq> rc_chunk a" if "c \<in> set cs" for c
    using Cons.prems(2) that by (metis distinct.simps(2) image_eqI list.set_map list.simps(9))
  have "snd (screen deny ?d cs) = filter (\<lambda>c. deny c = []) cs"
    using Cons.prems by (intro Cons.IH) (auto simp: reasons_at_add [OF k] dest: ne)
  moreover have "reasons_at ?d (rc_chunk a) = deny a"
    using Cons.prems(3) by (simp add: reasons_at_add [OF k])
  ultimately show ?case by (cases "screen deny ?d cs") (simp add: Let_def)
qed simp

lemma trace_table_keys:
  "fst ` set (foldl (\<lambda>d c. dict_set (rc_chunk c) (trace_item_of c) d) d0 cs)
     = fst ` set d0 \<union> rc_chunk ` set cs"
  by (induction cs arbitrary: d0) (auto simp: dom_update)

lemma eligible_admitted:
  "c \<in> set (snd (screened env a scope versions cs))
    \<Longrightarrow> c \<in> set cs \<and> denials env scope versions (ta_exposure a) c = []"
  unfolding screened_def by (rule screen_keep) (simp_all add: trace_table_keys)

lemma trace_table_unmarked:
  "\<forall>i. reasons_at d0 i = [] \<Longrightarrow> reasons_at (foldl (\<lambda>d c. dict_set (rc_chunk c) (trace_item_of c) d) d0 cs) i = []"
proof (induction cs arbitrary: d0)
  case (Cons c cs)
  have "\<forall>i. reasons_at (dict_set (rc_chunk c) (trace_item_of c) d0) i = []"
    using Cons.prems by (simp add: reasons_at_def trace_item_of_def)
  from Cons.IH [OF this] show ?case by simp
qed simp

lemma eligible_all:
  assumes "distinct (map rc_chunk cs)"
  shows "snd (screened env a scope versions cs)
    = filter (\<lambda>c. denials env scope versions (ta_exposure a) c = []) cs"
proof -
  have "\<forall>i. reasons_at [] i = []" by (simp add: reasons_at_def dict_get_def)
  from trace_table_unmarked [OF this] assms show ?thesis
    unfolding screened_def by (intro screen_complete) (simp_all add: trace_table_keys)
qed

definition admissible :: "pyenv \<Rightarrow> (string, pyval) dict \<Rightarrow> (string, string) dict \<Rightarrow> answer_exposure \<Rightarrow>
    retrieval_candidate \<Rightarrow> bool" where
  "admissible env scope versions limit c \<longleftrightarrow>
     \<not> scope_denied (allowed_documents env scope) c \<and>
     \<not> revision_stale (required_revisions env scope) c \<and> rc_canonical c \<and>
     rc_publication c = ''published'' \<and> rc_units c \<noteq> [] \<and> \<not> index_stale versions c \<and>
     rc_use c = LEARNER_VISIBLE \<and> rc_spans c \<noteq> [] \<and>
     (\<exists>e. rc_exposure c = Some e \<and> exposure_rank e \<le> exposure_rank limit)"

lemma denials_none: "denials env scope versions limit c = [] \<longleftrightarrow> admissible env scope versions limit c"
  by (cases "rc_exposure c") (auto simp: denials_def admissible_def filter_empty_conv)

lemma build_elim:
  assumes "build_evidence env h request a query cs scope versions m = Inr r"
  obtains d eligible table ranking where
    "screened env a scope versions cs = (d, eligible)"
    and "ranking = rank_candidates h rc_chunk rc_content query eligible m"
    and "br_bundle r = make_bundle env request a scope versions table (rr_selected ranking)"
    and "valid_bundle (br_bundle r)"
    and "tr_table (br_trace r) = map snd table"
    and "table = fold (\<lambda>c. mutate (rc_chunk c) (record_ranking env request (rr_trace ranking) c)) eligible d"
  using assms by (auto simp: build_evidence_def Let_def split: prod.splits if_splits)

lemma bundle_items:
  "eb_items (make_bundle env request a scope versions d cs) = map (make_item env request d) cs"
  by (simp add: make_bundle_def Let_def)

lemma selected_admissible:
  assumes "sound_reranker h"
    and "screened env a scope versions cs = (d, eligible)"
    and "c \<in> set (rr_selected (rank_candidates h rc_chunk rc_content query eligible m))"
  shows "c \<in> set cs \<and> admissible env scope versions (ta_exposure a) c"
proof -
  have "c \<in> set (snd (screened env a scope versions cs))"
    using rank_selected_subset [OF assms(1)] assms(2,3) by (metis snd_conv subsetD)
  with eligible_admitted show ?thesis by (simp add: denials_none)
qed

lemma built_item_origin:
  assumes "sound_reranker h" and "build_evidence env h request a query cs scope versions m = Inr r"
    and "e \<in> set (eb_items (br_bundle r))"
  shows "\<exists>c \<in> set cs. admissible env scope versions (ta_exposure a) c \<and> rc_exposure c = Some (ei_exposure e)
    \<and> ei_id e = evidence_id env request c \<and> ei_content e = rc_content c \<and> ei_spans e = rc_spans c
    \<and> ei_units e = rc_units c \<and> ei_use e = LEARNER_VISIBLE"
proof -
  obtain d eligible table ranking where s: "screened env a scope versions cs = (d, eligible)"
    and rk: "ranking = rank_candidates h rc_chunk rc_content query eligible m"
    and b: "br_bundle r = make_bundle env request a scope versions table (rr_selected ranking)"
    using assms(2) by (rule build_elim)
  obtain c where c: "c \<in> set (rr_selected ranking)" and e: "e = make_item env request table c"
    using assms(3) by (auto simp: b bundle_items)
  have "c \<in> set cs \<and> admissible env scope versions (ta_exposure a) c"
    using selected_admissible [OF assms(1) s] c rk by blast
  then show ?thesis by (auto simp: e make_item_def admissible_def)
qed

section \<open>Properties of a built bundle\<close>

text \<open>Nothing reaches a bundle that the source scope, a pinned revision,
  canonical eligibility, publication, index freshness, visibility, citation or the answer
  exposure of the teaching action excludes, and every item shows its candidate's content, spans,
  units and exposure unchanged.\<close>

theorem retrieval_admits_only_eligible:
  assumes "sound_reranker h" and "build_evidence env h request a query cs scope versions m = Inr r"
  shows "eb_action_ref (br_bundle r) = teaching_action_ref a
    \<and> (\<forall>e \<in> set (eb_items (br_bundle r)). \<exists>c \<in> set cs.
      admissible env scope versions (ta_exposure a) c
      \<and> exposure_rank (ei_exposure e) \<le> exposure_rank (ta_exposure a)
      \<and> rc_exposure c = Some (ei_exposure e) \<and> ei_content e = rc_content c
      \<and> ei_spans e = rc_spans c \<and> ei_units e = rc_units c \<and> ei_use e = LEARNER_VISIBLE)"
proof -
  have "eb_action_ref (br_bundle r) = teaching_action_ref a"
    using assms(2) by (rule build_elim) (simp add: make_bundle_def Let_def)
  then show ?thesis using built_item_origin [OF assms] by (fastforce simp: admissible_def)
qed

lemma fsum_ones: "k + n \<le> 2 ^ 53 \<Longrightarrow> foldl fadd (of_nat k) (replicate n 1) = of_nat (k + n)"
proof (induction n arbitrary: k)
  case (Suc n)
  have "Suc k \<le> 2 ^ 53" using Suc.prems by simp
  then have "int (Suc k) \<le> int (2 ^ 53)" by (simp only: of_nat_le_iff)
  then have "int (Suc k) \<le> 2 ^ 53" by simp
  then have "fl (of_int (int (Suc k))) = of_int (int (Suc k))" by (intro fl_of_int) simp
  then have "fadd (of_nat k) 1 = of_nat (Suc k)" by (simp add: fadd_def add.commute)
  then show ?case using Suc.IH [of "Suc k"] Suc.prems by simp
qed simp

lemma mean_in_unit:
  assumes "\<forall>x \<in> set xs. 0 \<le> x \<and> x \<le> 1" and "xs \<noteq> []" and "length xs \<le> 2 ^ 53"
  shows "\<exists>y. fdiv (fsum xs) (of_nat_f (length xs)) = Some y \<and> 0 \<le> y \<and> y \<le> 1"
proof -
  have n: "of_nat_f (length xs) = of_nat (length xs)"
    using fl_of_int [of "int (length xs)"] assms(3) by (simp add: of_nat_f_def) 
  have "list_all2 (\<le>) xs (replicate (length xs) 1)"
    using assms(1) by (auto simp: list_all2_conv_all_nth)
  from fsum_mono [OF this] have "fsum xs \<le> of_nat (length xs)"
    using fsum_ones [of 0 "length xs"] assms(3) by (simp add: fsum_def)
  moreover have "0 \<le> fsum xs" using assms(1) by (intro fsum_nonneg) auto
  moreover have "0 < (of_nat (length xs) :: rat)" using assms(2) by simp
  ultimately have "0 \<le> fl (fsum xs / of_nat (length xs)) \<and> fl (fsum xs / of_nat (length xs)) \<le> 1"
    by (intro f64.in_unit) simp_all
  then show ?thesis using assms(2) by (simp add: fdiv_def n)
qed

lemma bundle_confidence_unit:
  assumes "\<forall>e \<in> set items. unit_range (ei_confidence e)" and "length items \<le> 2 ^ 53"
  shows "unit_range (bundle_confidence items)"
proof (cases "items = []")
  case False
  have "\<forall>x \<in> set (map item_confidence items). 0 \<le> x \<and> x \<le> 1"
    using assms(1) by (auto simp: item_confidence_def unit_range_def split: option.splits)
  from mean_in_unit [OF this] assms(2) False show ?thesis
    by (auto simp: bundle_confidence_def unit_range_def)
qed (simp add: bundle_confidence_def unit_range_def)

lemma build_returns:
  assumes "sound_reranker h" and "0 \<le> m" and "m \<le> 2 ^ 53"
  shows "(\<exists>r. build_evidence env h request a query cs scope versions m = Inr r)
    \<longleftrightarrow> (\<forall>c \<in> set (rr_selected (rank_candidates h rc_chunk rc_content query
            (snd (screened env a scope versions cs)) m)). unit_range (rc_confidence c))"
proof -
  obtain d eligible where s: "screened env a scope versions cs = (d, eligible)" by fastforce
  define sel where "sel = rr_selected (rank_candidates h rc_chunk rc_content query eligible m)"
  have len: "length sel \<le> 2 ^ 53"
    using rank_selected_length [OF assms(2), of h rc_chunk rc_content query eligible] assms(3)
    by (simp add: sel_def)
  have adm: "rc_spans c \<noteq> []" if "c \<in> set sel" for c
    using selected_admissible [OF assms(1) s] that by (auto simp: sel_def admissible_def)
  have "valid_bundle (make_bundle env request a scope versions t sel)
      \<longleftrightarrow> (\<forall>c \<in> set sel. unit_range (rc_confidence c))" for t
  proof
    assume "valid_bundle (make_bundle env request a scope versions t sel)"
    then show "\<forall>c \<in> set sel. unit_range (rc_confidence c)"
      by (auto simp: valid_bundle_def bundle_items list_all_iff valid_item_def make_item_def)
  next
    assume c: "\<forall>c \<in> set sel. unit_range (rc_confidence c)"
    have "list_all valid_item (map (make_item env request t) sel)"
      using c adm by (auto simp: list_all_iff valid_item_def make_item_def pedagogical_roles_def)
    moreover have "unit_range (bundle_confidence (map (make_item env request t) sel))"
      using c len by (intro bundle_confidence_unit) (simp_all add: make_item_def)
    ultimately show "valid_bundle (make_bundle env request a scope versions t sel)"
      by (simp add: valid_bundle_def make_bundle_def Let_def)
  qed
  then show ?thesis by (auto simp: build_evidence_def s sel_def Let_def)
qed

text \<open>Building a bundle fails only when the recorded confidence of a selected
  candidate is outside the unit interval; citations, roles and the confidence of the bundle are
  always within their contracts.\<close>

theorem retrieval_returns_iff:
  assumes "sound_reranker h" and "0 \<le> m" and "m \<le> 2 ^ 53"
  shows "(\<exists>r. build_evidence env h request a query cs scope versions m = Inr r)
    \<longleftrightarrow> (\<forall>c \<in> set (rr_selected (rank_candidates h rc_chunk rc_content query
            (snd (screened env a scope versions cs)) m)). unit_range (rc_confidence c))"
  using assms by (rule build_returns)

text \<open>No required pedagogical role goes missing in silence: each is the role
  of an item or is listed as missing, the bundle gives a reason when a role or all evidence is
  missing, and only then.\<close>

theorem retrieval_reports_missing:
  assumes "build_evidence env h request a query cs scope versions m = Inr r"
  shows "required_roles a \<subseteq> set (eb_missing_roles (br_bundle r)) \<union> ei_role ` set (eb_items (br_bundle r))
    \<and> set (eb_missing_roles (br_bundle r)) \<subseteq> required_roles a
    \<and> (eb_missing_reasons (br_bundle r) \<noteq> []
        \<longleftrightarrow> eb_items (br_bundle r) = [] \<or> eb_missing_roles (br_bundle r) \<noteq> [])"
proof -
  obtain table and ranking :: "retrieval_candidate rank_result" where b: "br_bundle r = make_bundle env request a scope versions table (rr_selected ranking)"
    using assms by (rule build_elim) (rule that, assumption)
  let ?sel = "rr_selected ranking"
  have missing: "eb_missing_roles (br_bundle r) = missing_roles a ?sel"
    and reasons: "eb_missing_reasons (br_bundle r) = missing_reasons ?sel (missing_roles a ?sel)"
    and items: "eb_items (br_bundle r) = map (make_item env request table) ?sel"
    by (simp_all add: b make_bundle_def Let_def)
  have mem: "set (missing_roles a ?sel) = required_roles a - rc_role ` set ?sel"
    by (auto simp: missing_roles_def required_roles_def)
  have "x \<in> ei_role ` set (map (make_item env request table) ?sel)"
    if "x \<in> required_roles a" "x \<in> rc_role ` set ?sel" for x
  proof -
    from that obtain c where "c \<in> set ?sel" "x = ei_role (make_item env request table c)"
      by (auto simp: required_roles_def make_item_def)
    then show ?thesis by auto
  qed
  then have "required_roles a \<subseteq> set (missing_roles a ?sel) \<union> ei_role ` set (map (make_item env request table) ?sel)"
    unfolding mem by blast
  then show ?thesis unfolding missing reasons items by (auto simp: mem missing_reasons_def)
qed

lemma build_total:
  assumes "sound_reranker h" and "0 \<le> m" and "m \<le> 2 ^ 53"
    and "\<forall>c \<in> set cs. unit_range (rc_confidence c)"
  shows "\<exists>r. build_evidence env h request a query cs scope versions m = Inr r"
proof -
  obtain d eligible where s: "screened env a scope versions cs = (d, eligible)" by fastforce
  from s have "\<forall>c \<in> set (rr_selected (rank_candidates h rc_chunk rc_content query eligible m)). unit_range (rc_confidence c)"
    using selected_admissible [OF assms(1) s] assms(4) by blast
  then show ?thesis using s build_returns [OF assms(1-3)] by simp
qed

lemma build_nonempty:
  assumes "hr_reranker h = None" and "0 < m" and "\<forall>c \<in> set cs. \<exists>x > 0. hr_dense h query (rc_content c) = Some x"
    and "distinct (map rc_chunk cs)" and "c \<in> set cs" and "admissible env scope versions (ta_exposure a) c"
    and "build_evidence env h request a query cs scope versions m = Inr r"
  shows "eb_items (br_bundle r) \<noteq> []"
proof -
  obtain d eligible and ranking :: "retrieval_candidate rank_result" and table
    where s: "screened env a scope versions cs = (d, eligible)"
    and rk: "ranking = rank_candidates h rc_chunk rc_content query eligible m"
    and b: "br_bundle r = make_bundle env request a scope versions table (rr_selected ranking)"
    using assms(7) by (rule build_elim) (rule that)
  have e: "eligible = filter (\<lambda>c. denials env scope versions (ta_exposure a) c = []) cs"
    using eligible_all [OF assms(4)] s by (metis snd_conv)
  have "eligible \<noteq> []" using assms(5,6) by (auto simp: e denials_none filter_empty_conv)
  moreover have "\<forall>c \<in> set eligible. \<exists>x > 0. hr_dense h query (rc_content c) = Some x"
    using assms(3) by (auto simp: e)
  ultimately have "rr_selected ranking \<noteq> []"
    unfolding rk using assms(1,2) by (intro rank_selected_nonempty) auto
  then show ?thesis by (simp add: b bundle_items)
qed

section \<open>A small library of passages\<close>

definition plain_env :: pyenv where
  "plain_env = \<lparr>uuid5 = (\<lambda>s. s), repr_of = (\<lambda>_. []), fromisoformat = (\<lambda>_. None)\<rparr>"

definition flat_retriever :: "retrieval_candidate hybrid_retriever" where
  "flat_retriever = \<lparr>hr_dense = (\<lambda>q t. Some 1), hr_reranker = None, hr_rrf_k = 60\<rparr>"

definition lesson :: "answer_exposure \<Rightarrow> teaching_action" where
  "lesson limit =
    \<lparr>ta_id = ''action-1'', ta_schema_version = ''3.0'',
     ta_objective_ref = mk_ref ''objective'' ''o1'' (VerI 1), ta_activity_ref = mk_ref ''activity'' ''a1'' (VerI 1),
     ta_family = SF_GUIDED_PRACTICE, ta_strategy_version = ''table/1'', ta_stage = TS_GUIDED_PRACTICE,
     ta_moves = [SOCRATIC_PROBE], ta_modifiers = default_modifier, ta_scaffold = SC_MEDIUM,
     ta_hint = HS_SUBGOAL, ta_exposure = limit, ta_evidence_requirements = [''example'', ''rubric''],
     ta_expected_evidence = None, ta_success_condition = [], ta_failure_condition = [],
     ta_max_attempts = None, ta_time_budget = None, ta_obligation = VO_NONE, ta_reason_codes = [''R''],
     ta_bundle_ref = mk_ref ''policy_bundle'' ''b1'' (VerI 1), ta_context_ref = mk_ref ''context'' ''c1'' (VerI 1),
     ta_decision_id = ''decision-1'', ta_created_at = 0\<rparr>"

definition passage :: "uuid \<Rightarrow> answer_exposure \<Rightarrow> retrieval_candidate" where
  "passage i e =
    \<lparr>rc_chunk = i, rc_document = ''doc'', rc_revision = ''rev2'', rc_spans = [''span''], rc_units = [''unit''],
     rc_content = ''passage '' @ i, rc_role = ''example'', rc_exposure = Some e, rc_use = LEARNER_VISIBLE,
     rc_confidence = Some 1, rc_unit_refs = [], rc_relation_refs = [], rc_hierarchy_refs = [],
     rc_publication = ''published'', rc_canonical = True, rc_projections = [(''dense'', ''7'')]\<rparr>"

definition shelf :: "retrieval_candidate list" where
  "shelf = [passage ''p1'' AE_PARTIAL, passage ''p2'' AE_COMPLETE, (passage ''p3'' AE_NONE)\<lparr>rc_revision := ''rev1''\<rparr>]"

definition shelf_scope :: "(string, pyval) dict" where
  "shelf_scope = [(''document_ids'', VList [VStr ''doc'']), (''revision_ids'', VDict [(''doc'', VStr ''rev2'')])]"

lemma plain_inj: "inj (uuid5 plain_env)"
  by (simp add: plain_env_def)

lemma flat_sound: "sound_reranker flat_retriever"
  by (simp add: sound_reranker_def flat_retriever_def)

lemma shelf_distinct: "distinct (map rc_chunk shelf)"
  by (simp add: shelf_def passage_def)

lemma shelf_confidences: "\<forall>c \<in> set shelf. unit_range (rc_confidence c)"
  by (simp add: shelf_def passage_def unit_range_def)

lemma shelf_admissible:
  "admissible plain_env shelf_scope [(''dense'', ''7'')] AE_PARTIAL (passage ''p1'' AE_PARTIAL)"
  unfolding denials_none [symmetric] by code_simp

lemma shelf_built:
  "\<exists>r. build_evidence plain_env flat_retriever ''req'' (lesson AE_PARTIAL) ''q'' shelf shelf_scope
      [(''dense'', ''7'')] 5 = Inr r \<and> eb_items (br_bundle r) \<noteq> []"
proof -
  obtain r where r: "build_evidence plain_env flat_retriever ''req'' (lesson AE_PARTIAL) ''q'' shelf shelf_scope
      [(''dense'', ''7'')] 5 = Inr r"
    using build_total [OF flat_sound _ _ shelf_confidences, of 5] by fastforce
  have x: "\<forall>c \<in> set shelf. \<exists>x > 0. hr_dense flat_retriever ''q'' (rc_content c) = Some x"
    by (simp add: flat_retriever_def)
  have m: "passage ''p1'' AE_PARTIAL \<in> set shelf" by (simp add: shelf_def)
  have l: "ta_exposure (lesson AE_PARTIAL) = AE_PARTIAL" by (simp add: lesson_def)
  have n: "hr_reranker flat_retriever = None" by (simp add: flat_retriever_def)
  have "eb_items (br_bundle r) \<noteq> []"
    by (rule build_nonempty [OF n _ x shelf_distinct m _ r]) (simp_all add: l shelf_admissible)
  with r show ?thesis by blast
qed

theorem retrieval_admits_only_eligible_witness:
  "\<exists>r. build_evidence plain_env flat_retriever ''req'' (lesson AE_PARTIAL) ''q'' shelf shelf_scope
      [(''dense'', ''7'')] 5 = Inr r \<and> eb_items (br_bundle r) \<noteq> []
    \<and> (\<forall>e \<in> set (eb_items (br_bundle r)). ei_exposure e \<noteq> AE_COMPLETE)"
proof -
  obtain r where r: "build_evidence plain_env flat_retriever ''req'' (lesson AE_PARTIAL) ''q'' shelf shelf_scope
      [(''dense'', ''7'')] 5 = Inr r" "eb_items (br_bundle r) \<noteq> []"
    using shelf_built by blast
  have l: "exposure_rank (ta_exposure (lesson AE_PARTIAL)) = 1" by (simp add: lesson_def)
  have "ei_exposure e \<noteq> AE_COMPLETE" if "e \<in> set (eb_items (br_bundle r))" for e
    using conjunct2 [OF retrieval_admits_only_eligible [OF flat_sound r(1)]] that l
    by fastforce
  with r show ?thesis by blast
qed

theorem retrieval_returns_iff_witness:
  "(\<exists>r. build_evidence plain_env flat_retriever ''req'' (lesson AE_PARTIAL) ''q'' shelf shelf_scope
      [(''dense'', ''7'')] 5 = Inr r)
    \<longleftrightarrow> (\<forall>c \<in> set (rr_selected (rank_candidates flat_retriever rc_chunk rc_content ''q''
          (snd (screened plain_env (lesson AE_PARTIAL) shelf_scope [(''dense'', ''7'')] shelf)) 5)).
          unit_range (rc_confidence c))"
  by (rule retrieval_returns_iff [OF flat_sound]) simp_all

theorem retrieval_reports_missing_witness:
  "\<exists>r. build_evidence plain_env flat_retriever ''req'' (lesson AE_PARTIAL) ''q'' shelf shelf_scope
      [(''dense'', ''7'')] 5 = Inr r
    \<and> {''example'', ''rubric''} \<subseteq> set (eb_missing_roles (br_bundle r)) \<union> ei_role ` set (eb_items (br_bundle r))"
proof -
  obtain r where r: "build_evidence plain_env flat_retriever ''req'' (lesson AE_PARTIAL) ''q'' shelf shelf_scope
      [(''dense'', ''7'')] 5 = Inr r"
    using shelf_built by blast
  have "required_roles (lesson AE_PARTIAL) = {''example'', ''rubric''}"
    by (auto simp: required_roles_def lesson_def pedagogical_roles_def)
  with retrieval_reports_missing [OF r] r show ?thesis by auto
qed

end
