(* ===== verification/Execution.thy ===== *)
theory Execution
  imports Retrieval
begin

text \<open>
  \<open>app/orchestration/adaptive_execution.py\<close> and \<open>app/contracts/model_execution.py\<close>: an untrusted
  renderer proposes a response, and the execution service accepts it only inside the envelope of
  the teaching action and the evidence bundle; otherwise it answers with a fixed fallback.

  A renderer (a model call) is an arbitrary function that may also raise. The fixed Chinese texts
  are constructors of \<open>reply_text\<close>.
\<close>

datatype reply_text =
    Rendered string
  | MISSING_SOURCE_TEXT
  | TRY_FIRST_TEXT
  | BOUNDARY_FALLBACK_TEXT

datatype execution_mode = REAL_MODEL | LOCAL_FALLBACK

record model_execution =
  me_schema_version :: string
  me_mode :: execution_mode
  me_provider :: "string option"
  me_model :: "string option"
  me_prompt_version :: string
  me_inference :: uuid
  me_latency_ms :: int
  me_input_tokens :: int
  me_output_tokens :: int
  me_total_tokens :: int

definition named :: "string option \<Rightarrow> bool" where
  "named s = (case s of None \<Rightarrow> False | Some t \<Rightarrow> t \<noteq> [])"

definition valid_execution :: "model_execution \<Rightarrow> bool" where
  "valid_execution m \<longleftrightarrow>
     (me_mode m = REAL_MODEL \<longrightarrow> named (me_provider m) \<and> named (me_model m) \<and>
        \<not> contains ''mock'' (str_lower (the (me_model m)))) \<and>
     me_prompt_version m \<noteq> [] \<and> 0 \<le> me_latency_ms m \<and> 0 \<le> me_input_tokens m \<and>
     0 \<le> me_output_tokens m \<and> 0 \<le> me_total_tokens m"

fun scaffold_order :: "scaffold_control \<Rightarrow> nat" where
  "scaffold_order SC_NONE = 0"
| "scaffold_order SC_LOW = 1"
| "scaffold_order SC_MEDIUM = 2"
| "scaffold_order SC_HIGH = 3"

fun hint_order :: "hint_specificity \<Rightarrow> nat" where
  "hint_order HS_NONE = 0"
| "hint_order HS_ORIENTATION = 1"
| "hint_order HS_CONCEPTUAL_STRATEGIC = 2"
| "hint_order HS_SUBGOAL = 3"
| "hint_order HS_PARTIAL_STEP = 4"
| "hint_order HS_BOTTOM_OUT = 5"

record render_proposal =
  rp_id :: uuid
  rp_version :: string
  rp_text :: reply_text
  rp_family :: strategy_family
  rp_moves :: "interaction_move list"
  rp_modifiers :: action_modifier
  rp_scaffold :: scaffold_control
  rp_hint :: hint_specificity
  rp_exposure :: answer_exposure
  rp_state :: assistance_state
  rp_used :: "uuid list"
  rp_tools :: "string list"
  rp_override :: bool
  rp_model :: "model_execution option"

record render_request =
  rq_text :: string
  rq_action :: teaching_action
  rq_bundle :: evidence_bundle
  rq_subject :: string
  rq_capability :: "string option"
  rq_inference :: "uuid option"

record assistance_event =
  av_action_ref :: versioned_ref
  av_response_ref :: versioned_ref
  av_assistance :: assistance_snapshot
  av_reasons :: "string list"

record execution_result =
  er_id :: uuid
  er_version :: string
  er_text :: reply_text
  er_action_ref :: versioned_ref
  er_assistance :: assistance_snapshot
  er_event :: assistance_event
  er_used :: "uuid list"
  er_reasons :: "string list"
  er_fallback :: bool
  er_model :: "model_execution option"

type_synonym renderer = "render_request \<Rightarrow> exn + render_proposal"

section \<open>The template renderer\<close>

definition template_version :: string where
  "template_version = ''template-renderer/1.0''"

definition template_model :: "pyenv \<Rightarrow> render_request \<Rightarrow> model_execution" where
  "template_model env rq =
    \<lparr>me_schema_version = ''1.0'', me_mode = LOCAL_FALLBACK, me_provider = None, me_model = None,
     me_prompt_version = template_version,
     me_inference = (case rq_inference rq of
         Some i \<Rightarrow> i
       | None \<Rightarrow> uuid5 env (''askora:template-render:'' @ ta_id (rq_action rq) @ '':''
           @ eb_id (rq_bundle rq) @ '':'' @ rq_text rq)),
     me_latency_ms = 0, me_input_tokens = 0, me_output_tokens = 0, me_total_tokens = 0\<rparr>"

definition template_content :: "render_request \<Rightarrow> reply_text \<times> answer_exposure \<times> uuid list \<times> scaffold_control" where
  "template_content rq =
     (if eb_missing_reasons (rq_bundle rq) \<noteq> [] then (MISSING_SOURCE_TEXT, AE_NONE, [], SC_NONE)
      else case eb_items (rq_bundle rq) of
          e # _ \<Rightarrow> (Rendered (ei_content e), ei_exposure e, [ei_id e],
            if scaffold_order SC_LOW \<le> scaffold_order (ta_scaffold (rq_action rq)) then SC_LOW else SC_NONE)
        | [] \<Rightarrow> (TRY_FIRST_TEXT, AE_NONE, [], SC_NONE))"

definition template_render :: "pyenv \<Rightarrow> render_request \<Rightarrow> render_proposal" where
  "template_render env rq =
     (let a = rq_action rq; (content, exposure, used, scaffold) = template_content rq in
      \<lparr>rp_id = uuid5 env (''askora:v03:render:'' @ ta_id a @ '':'' @ eb_id (rq_bundle rq) @ '':'' @ rq_text rq),
       rp_version = template_version, rp_text = content, rp_family = ta_family a, rp_moves = ta_moves a,
       rp_modifiers = ta_modifiers a, rp_scaffold = scaffold, rp_hint = HS_NONE, rp_exposure = exposure,
       rp_state = expected_assistance scaffold HS_NONE exposure, rp_used = used, rp_tools = [],
       rp_override = False, rp_model = Some (template_model env rq)\<rparr>)"

section \<open>The execution service\<close>

text \<open>\<open>{item.evidence_id: item for item in items}\<close>: the last item of an id.\<close>

definition item_by_id :: "evidence_item list \<Rightarrow> uuid \<Rightarrow> evidence_item option" where
  "item_by_id items i = find (\<lambda>e. ei_id e = i) (rev items)"

definition used_exposure :: "evidence_item list \<Rightarrow> uuid list \<Rightarrow> nat" where
  "used_exposure items used =
     fold max (map (exposure_rank \<circ> ei_exposure) (List.map_filter (item_by_id items) used)) 0"

definition violations :: "string set \<Rightarrow> teaching_action \<Rightarrow> evidence_bundle \<Rightarrow> render_proposal \<Rightarrow> string list" where
  "violations tools a b p =
     map snd (filter fst
      [(rp_override p, ''SYS08_ACTION_OVERRIDE_DENIED''),
       (rp_family p \<noteq> ta_family a, ''SYS08_STRATEGY_OVERRIDE_DENIED''),
       (list_ex (\<lambda>m. m \<notin> set (ta_moves a)) (rp_moves p), ''SYS08_INTERACTION_MOVE_EXPANSION_DENIED''),
       (rp_modifiers p \<noteq> ta_modifiers a, ''SYS08_ACTION_MODIFIER_OVERRIDE_DENIED''),
       (scaffold_order (ta_scaffold a) < scaffold_order (rp_scaffold p), ''SYS08_SCAFFOLD_EXPANSION_DENIED''),
       (hint_order (ta_hint a) < hint_order (rp_hint p), ''SYS08_HINT_EXPANSION_DENIED''),
       (exposure_rank (ta_exposure a) < exposure_rank (rp_exposure p), ''SYS08_ANSWER_EXPOSURE_EXPANSION_DENIED''),
       (list_ex (\<lambda>t. t \<notin> tools) (rp_tools p), ''SYS08_UNAUTHORIZED_TOOL_DENIED''),
       (list_ex (\<lambda>i. item_by_id (eb_items b) i = None) (rp_used p), ''SYS08_UNVERIFIED_EVIDENCE_DENIED''),
       (exposure_rank (rp_exposure p) < used_exposure (eb_items b) (rp_used p),
        ''SYS08_ACTUAL_EXPOSURE_UNDERREPORTED''),
       (expected_assistance (rp_scaffold p) (rp_hint p) (rp_exposure p) \<noteq> rp_state p,
        ''SYS08_ASSISTANCE_STATE_MISMATCH'')])"

definition fallback_version :: string where
  "fallback_version = ''policy-tightening-fallback/1.0''"

text \<open>What is delivered: the proposal itself, or the fallback with every axis closed.\<close>

definition fallback_proposal :: "pyenv \<Rightarrow> teaching_action \<Rightarrow> string list \<Rightarrow> render_proposal \<Rightarrow> render_proposal" where
  "fallback_proposal env a reasons p = p\<lparr>
     rp_id := uuid5 env (''askora:v03:safe-fallback:'' @ ta_id a @ '':'' @ str_join '':'' (sort reasons)),
     rp_version := fallback_version, rp_text := BOUNDARY_FALLBACK_TEXT,
     rp_scaffold := SC_NONE, rp_hint := HS_NONE, rp_exposure := AE_NONE, rp_state := INDEPENDENT,
     rp_used := [], rp_model := map_option (\<lambda>m. m\<lparr>me_mode := LOCAL_FALLBACK\<rparr>) (rp_model p)\<rparr>"

definition recorded_assistance :: "string list \<Rightarrow> render_proposal \<Rightarrow> assistance_snapshot" where
  "recorded_assistance reasons p =
    \<lparr>as_schema_version = ''3.0'', as_scaffold = rp_scaffold p, as_hint = rp_hint p,
     as_exposure = rp_exposure p, as_state = rp_state p, as_hint_events = [],
     as_support_reason = reasons, as_delivery_mode = Some ''adaptive_renderer''\<rparr>"

definition response_ref :: "render_proposal \<Rightarrow> versioned_ref" where
  "response_ref p = mk_ref ''rendered_response'' (rp_id p) (VerS (rp_version p))"

definition result_of :: "teaching_action \<Rightarrow> string list \<Rightarrow> bool \<Rightarrow> render_proposal \<Rightarrow> execution_result" where
  "result_of a reasons fallback p =
    \<lparr>er_id = rp_id p, er_version = rp_version p, er_text = rp_text p,
     er_action_ref = teaching_action_ref a, er_assistance = recorded_assistance reasons p,
     er_event = \<lparr>av_action_ref = teaching_action_ref a, av_response_ref = response_ref p,
       av_assistance = recorded_assistance reasons p, av_reasons = reasons\<rparr>,
     er_used = rp_used p, er_reasons = reasons, er_fallback = fallback, er_model = rp_model p\<rparr>"

definition deliver :: "teaching_action \<Rightarrow> string list \<Rightarrow> bool \<Rightarrow> render_proposal \<Rightarrow> exn + execution_result" where
  "deliver a reasons fallback p =
     (if valid_ref (response_ref p) then Inr (result_of a reasons fallback p)
      else Inl (ValueError ''VERSIONED_REF''))"

definition execute :: "pyenv \<Rightarrow> string set \<Rightarrow> renderer \<Rightarrow> render_request \<Rightarrow> exn + execution_result" where
  "execute env tools render rq =
     (if vr_id (eb_action_ref (rq_bundle rq)) \<noteq> ta_id (rq_action rq)
      then Inl (ValueError ''SYS08_EVIDENCE_ACTION_REF_MISMATCH'')
      else bind_res (render rq) (\<lambda>p.
        let a = rq_action rq; reasons = violations tools a (rq_bundle rq) p in
        if reasons \<noteq> []
        then deliver a (reasons @ [''SYS08_TIGHTENING_FALLBACK_APPLIED'']) True
               (fallback_proposal env a reasons p)
        else deliver a [''SYS08_POLICY_ENVELOPE_VALIDATED''] False p))"

section \<open>The envelope as a specification\<close>

text \<open>A proposal conforms when it stays inside the action's envelope and tells the truth.\<close>

definition conforms :: "string set \<Rightarrow> teaching_action \<Rightarrow> evidence_bundle \<Rightarrow> render_proposal \<Rightarrow> bool" where
  "conforms tools a b p \<longleftrightarrow>
     \<not> rp_override p \<and> rp_family p = ta_family a \<and> set (rp_moves p) \<subseteq> set (ta_moves a) \<and>
     rp_modifiers p = ta_modifiers a \<and> scaffold_order (rp_scaffold p) \<le> scaffold_order (ta_scaffold a) \<and>
     hint_order (rp_hint p) \<le> hint_order (ta_hint a) \<and>
     exposure_rank (rp_exposure p) \<le> exposure_rank (ta_exposure a) \<and> set (rp_tools p) \<subseteq> tools \<and>
     (\<forall>i \<in> set (rp_used p). \<exists>e. item_by_id (eb_items b) i = Some e
        \<and> exposure_rank (ei_exposure e) \<le> exposure_rank (rp_exposure p)) \<and>
     rp_state p = expected_assistance (rp_scaffold p) (rp_hint p) (rp_exposure p)"

lemma fold_max_le: "fold max xs (a::nat) \<le> n \<longleftrightarrow> a \<le> n \<and> (\<forall>x \<in> set xs. x \<le> n)"
  by (induction xs arbitrary: a) auto

lemma used_exposure_le:
  "used_exposure items used \<le> n \<longleftrightarrow>
    (\<forall>i \<in> set used. \<forall>e. item_by_id items i = Some e \<longrightarrow> exposure_rank (ei_exposure e) \<le> n)"
proof -
  have "set (List.map_filter (item_by_id items) used) = {e. \<exists>i \<in> set used. item_by_id items i = Some e}"
    by (induction used) (auto simp: List.map_filter_simps split: option.splits)
  then show ?thesis by (auto simp: used_exposure_def fold_max_le)
qed

lemma violations_none: "violations tools a b p = [] \<longleftrightarrow> conforms tools a b p"
proof -
  have "violations tools a b p = [] \<longleftrightarrow>
     \<not> rp_override p \<and> rp_family p = ta_family a \<and> set (rp_moves p) \<subseteq> set (ta_moves a) \<and>
     rp_modifiers p = ta_modifiers a \<and> scaffold_order (rp_scaffold p) \<le> scaffold_order (ta_scaffold a) \<and>
     hint_order (rp_hint p) \<le> hint_order (ta_hint a) \<and>
     exposure_rank (rp_exposure p) \<le> exposure_rank (ta_exposure a) \<and> set (rp_tools p) \<subseteq> tools \<and>
     (\<forall>i \<in> set (rp_used p). item_by_id (eb_items b) i \<noteq> None) \<and>
     used_exposure (eb_items b) (rp_used p) \<le> exposure_rank (rp_exposure p) \<and>
     rp_state p = expected_assistance (rp_scaffold p) (rp_hint p) (rp_exposure p)"
    by (auto simp: violations_def filter_empty_conv list_ex_iff not_less)
  also have "\<dots> \<longleftrightarrow> conforms tools a b p"
    unfolding conforms_def used_exposure_le by fastforce
  finally show ?thesis .
qed

lemma deliver_Inr:
  "deliver a reasons fb p = Inr r \<longleftrightarrow> \<not> list_all is_space (rp_version p) \<and> r = result_of a reasons fb p"
  by (auto simp: deliver_def valid_ref_def response_ref_def)

lemma execute_elim:
  assumes "execute env tools render rq = Inr r"
  obtains p where "render rq = Inr p" and "vr_id (eb_action_ref (rq_bundle rq)) = ta_id (rq_action rq)"
    and "conforms tools (rq_action rq) (rq_bundle rq) p"
    and "deliver (rq_action rq) [''SYS08_POLICY_ENVELOPE_VALIDATED''] False p = Inr r"
  | p where "render rq = Inr p" and "vr_id (eb_action_ref (rq_bundle rq)) = ta_id (rq_action rq)"
    and "\<not> conforms tools (rq_action rq) (rq_bundle rq) p"
    and "deliver (rq_action rq)
           (violations tools (rq_action rq) (rq_bundle rq) p @ [''SYS08_TIGHTENING_FALLBACK_APPLIED'']) True
           (fallback_proposal env (rq_action rq) (violations tools (rq_action rq) (rq_bundle rq) p) p) = Inr r"
  using assms by (auto simp: execute_def Let_def res_simps violations_none split: if_splits)

section \<open>Properties\<close>

definition within_envelope :: "teaching_action \<Rightarrow> assistance_snapshot \<Rightarrow> bool" where
  "within_envelope a s \<longleftrightarrow> scaffold_order (as_scaffold s) \<le> scaffold_order (ta_scaffold a) \<and>
     hint_order (as_hint s) \<le> hint_order (ta_hint a) \<and>
     exposure_rank (as_exposure s) \<le> exposure_rank (ta_exposure a)"

lemma result_conforming:
  assumes "conforms tools a b p"
  shows "within_envelope a (er_assistance (result_of a reasons fb p))
    \<and> valid_snapshot (er_assistance (result_of a reasons fb p))
    \<and> (\<forall>i \<in> set (rp_used p). \<exists>e. item_by_id (eb_items b) i = Some e
        \<and> exposure_rank (ei_exposure e) \<le> exposure_rank (rp_exposure p))"
  using assms
  by (simp add: conforms_def result_of_def recorded_assistance_def within_envelope_def valid_snapshot_def)

lemma result_fallback:
  "within_envelope a (er_assistance (result_of a reasons fb (fallback_proposal env a rs p)))
   \<and> valid_snapshot (er_assistance (result_of a reasons fb (fallback_proposal env a rs p)))"
  by (simp add: result_of_def recorded_assistance_def fallback_proposal_def within_envelope_def
      valid_snapshot_def expected_assistance_def)

lemma execute_tight:
  assumes "execute env tools render rq = Inr r"
  shows "within_envelope (rq_action rq) (er_assistance r) \<and> valid_snapshot (er_assistance r)
    \<and> (\<forall>i \<in> set (er_used r). \<exists>e. item_by_id (eb_items (rq_bundle rq)) i = Some e
        \<and> exposure_rank (ei_exposure e) \<le> exposure_rank (as_exposure (er_assistance r)))
    \<and> av_assistance (er_event r) = er_assistance r
    \<and> av_action_ref (er_event r) = teaching_action_ref (rq_action rq)"
  using assms
proof (rule execute_elim)
  fix p assume c: "conforms tools (rq_action rq) (rq_bundle rq) p"
    and "deliver (rq_action rq) [''SYS08_POLICY_ENVELOPE_VALIDATED''] False p = Inr r"
  then have r: "r = result_of (rq_action rq) [''SYS08_POLICY_ENVELOPE_VALIDATED''] False p"
    by (simp add: deliver_Inr)
  have "er_used r = rp_used p" "as_exposure (er_assistance r) = rp_exposure p"
    "av_assistance (er_event r) = er_assistance r"
    "av_action_ref (er_event r) = teaching_action_ref (rq_action rq)"
    by (simp_all add: r result_of_def recorded_assistance_def)
  with result_conforming [OF c] show ?thesis by (simp add: r)
next
  fix p
  let ?vs = "violations tools (rq_action rq) (rq_bundle rq) p"
  assume "deliver (rq_action rq) (?vs @ [''SYS08_TIGHTENING_FALLBACK_APPLIED'']) True
      (fallback_proposal env (rq_action rq) ?vs p) = Inr r"
  then have r: "r = result_of (rq_action rq) (?vs @ [''SYS08_TIGHTENING_FALLBACK_APPLIED'']) True
      (fallback_proposal env (rq_action rq) ?vs p)"
    by (simp add: deliver_Inr)
  have "er_used r = []" "av_assistance (er_event r) = er_assistance r"
    "av_action_ref (er_event r) = teaching_action_ref (rq_action rq)"
    by (simp_all add: r result_of_def fallback_proposal_def)
  with result_fallback show ?thesis by (simp add: r)
qed

text \<open>C13: whatever the renderer proposes, the assistance recorded and delivered is within
  the scaffold, hint and exposure of the teaching action, its state is the one its axes imply, it
  uses only evidence of the bundle and reports at least the exposure of what it used, and the
  event carries the same facts against the same action.\<close>

theorem execution_tightens:
  assumes "execute env tools render rq = Inr r"
  shows "within_envelope (rq_action rq) (er_assistance r) \<and> valid_snapshot (er_assistance r)
    \<and> (\<forall>i \<in> set (er_used r). \<exists>e. item_by_id (eb_items (rq_bundle rq)) i = Some e
        \<and> exposure_rank (ei_exposure e) \<le> exposure_rank (as_exposure (er_assistance r)))
    \<and> av_assistance (er_event r) = er_assistance r
    \<and> av_action_ref (er_event r) = teaching_action_ref (rq_action rq)"
  using assms by (rule execute_tight)

lemma execute_cases_lemma:
  assumes "render rq = Inr p" and "execute env tools render rq = Inr r"
  shows "er_fallback r \<longleftrightarrow> \<not> conforms tools (rq_action rq) (rq_bundle rq) p"
    and "\<not> er_fallback r \<Longrightarrow> er_text r = rp_text p \<and> er_used r = rp_used p \<and> er_id r = rp_id p
        \<and> as_scaffold (er_assistance r) = rp_scaffold p \<and> as_hint (er_assistance r) = rp_hint p
        \<and> as_exposure (er_assistance r) = rp_exposure p"
    and "er_fallback r \<Longrightarrow> er_text r = BOUNDARY_FALLBACK_TEXT \<and> er_used r = []
        \<and> as_state (er_assistance r) = INDEPENDENT"
  using assms(2)
  by (rule execute_elim;
      use assms(1) in \<open>auto simp: deliver_Inr result_of_def recorded_assistance_def fallback_proposal_def\<close>)+

text \<open>The fallback replaces a proposal exactly when the proposal leaves the
  envelope; a conforming proposal is delivered as it is, a rejected one leaves no trace of its
  text or evidence.\<close>

theorem execution_falls_back_iff:
  assumes "render rq = Inr p" and "execute env tools render rq = Inr r"
  shows "if conforms tools (rq_action rq) (rq_bundle rq) p
    then \<not> er_fallback r \<and> er_text r = rp_text p \<and> er_used r = rp_used p \<and> er_id r = rp_id p
        \<and> as_scaffold (er_assistance r) = rp_scaffold p \<and> as_hint (er_assistance r) = rp_hint p
        \<and> as_exposure (er_assistance r) = rp_exposure p
    else er_fallback r \<and> er_text r = BOUNDARY_FALLBACK_TEXT \<and> er_used r = []
        \<and> as_state (er_assistance r) = INDEPENDENT"
  using execute_cases_lemma [OF assms] by auto

lemma execute_returns:
  "(\<exists>r. execute env tools render rq = Inr r) \<longleftrightarrow>
     vr_id (eb_action_ref (rq_bundle rq)) = ta_id (rq_action rq) \<and>
     (\<exists>p. render rq = Inr p \<and>
       (conforms tools (rq_action rq) (rq_bundle rq) p \<longrightarrow> \<not> list_all is_space (rp_version p)))"
proof -
  have "\<not> list_all is_space fallback_version" by code_simp
  then show ?thesis
    by (cases "render rq")
      (auto simp: execute_def Let_def deliver_Inr violations_none fallback_proposal_def)
qed

text \<open>The service answers exactly when the bundle was built for the action, the
  renderer returned, and an accepted response names a version; every rejected proposal is answered
  by the fallback, never by an error.\<close>

theorem execution_returns_iff:
  "(\<exists>r. execute env tools render rq = Inr r) \<longleftrightarrow>
     vr_id (eb_action_ref (rq_bundle rq)) = ta_id (rq_action rq) \<and>
     (\<exists>p. render rq = Inr p \<and>
       (conforms tools (rq_action rq) (rq_bundle rq) p \<longrightarrow> \<not> list_all is_space (rp_version p)))"
  by (rule execute_returns)

section \<open>The template renderer on retrieved evidence\<close>

lemma item_by_id_mem: "item_by_id items i = Some e \<Longrightarrow> e \<in> set items \<and> ei_id e = i"
  by (auto simp: item_by_id_def find_Some_iff in_set_conv_nth) (metis length_rev nth_mem set_rev in_set_conv_nth)

lemma item_by_id_present: "e \<in> set items \<Longrightarrow> \<exists>e'. item_by_id items (ei_id e) = Some e'"
  by (cases "item_by_id items (ei_id e)") (auto simp: item_by_id_def find_None_iff)

text \<open>Evidence ids identify candidates when name-based UUIDs do not collide.\<close>

lemma built_item_exposure_unique:
  assumes "sound_reranker h" and "build_evidence env h request a query cs scope versions m = Inr r"
    and "inj (uuid5 env)" and "distinct (map rc_chunk cs)"
    and "e \<in> set (eb_items (br_bundle r))" and "e' \<in> set (eb_items (br_bundle r))" and "ei_id e = ei_id e'"
  shows "ei_exposure e = ei_exposure e'"
proof -
  obtain c c' where c: "c \<in> set cs" "rc_exposure c = Some (ei_exposure e)" "ei_id e = evidence_id env request c"
    and c': "c' \<in> set cs" "rc_exposure c' = Some (ei_exposure e')" "ei_id e' = evidence_id env request c'"
    using built_item_origin [OF assms(1,2)] assms(5,6) by meson
  have "evidence_id env request c = evidence_id env request c'" using c c' assms(7) by simp
  then have "rc_chunk c = rc_chunk c'"
    unfolding evidence_id_def inj_eq [OF assms(3)] by simp
  with assms(4) c(1) c'(1) have "c = c'" by (simp add: distinct_map inj_on_def)
  with c c' show ?thesis by simp
qed

lemma template_conforms:
  assumes "sound_reranker h" and "build_evidence env h request a query cs scope versions m = Inr b"
    and "inj (uuid5 env)" and "distinct (map rc_chunk cs)"
    and "rq_action rq = a" and "rq_bundle rq = br_bundle b"
  shows "conforms tools a (br_bundle b) (template_render env rq)"
proof (cases "eb_missing_reasons (br_bundle b) = [] \<and> eb_items (br_bundle b) \<noteq> []")
  case False
  then have "template_content rq \<in> {(MISSING_SOURCE_TEXT, AE_NONE, [], SC_NONE), (TRY_FIRST_TEXT, AE_NONE, [], SC_NONE)}"
    by (auto simp: template_content_def assms(6))
  then show ?thesis
    by (auto simp: conforms_def template_render_def assms(5,6) Let_def split: prod.splits)
next
  case True
  then obtain e es where items: "eb_items (br_bundle b) = e # es" by (cases "eb_items (br_bundle b)") auto
  obtain e' where e': "item_by_id (eb_items (br_bundle b)) (ei_id e) = Some e'"
    using item_by_id_present [of e] items by force
  then have same: "ei_exposure e' = ei_exposure e"
    using built_item_exposure_unique [OF assms(1-4), of e' e] item_by_id_mem [OF e'] items by simp
  obtain c where "admissible env scope versions (ta_exposure a) c" "rc_exposure c = Some (ei_exposure e)"
    using built_item_origin [OF assms(1,2), of e] items by auto
  then have le: "exposure_rank (ei_exposure e) \<le> exposure_rank (ta_exposure a)"
    by (simp add: admissible_def)
  have content: "template_content rq = (Rendered (ei_content e), ei_exposure e, [ei_id e],
      if scaffold_order SC_LOW \<le> scaffold_order (ta_scaffold a) then SC_LOW else SC_NONE)"
    using True by (simp add: template_content_def assms(5,6) items)
  show ?thesis
    using e' same le by (simp add: conforms_def template_render_def content assms(5,6))
qed

text \<open>On a bundle retrieved for the action, the local template renderer always
  stays inside the envelope: the service delivers its text and never falls back, provided chunk
  ids are distinct and name-based UUIDs do not collide.\<close>

theorem template_never_falls_back:
  assumes "sound_reranker h" and "build_evidence env h request a query cs scope versions m = Inr b"
    and "inj (uuid5 env)" and "distinct (map rc_chunk cs)"
    and "rq_action rq = a" and "rq_bundle rq = br_bundle b"
  shows "\<exists>r. execute env tools (\<lambda>rq. Inr (template_render env rq)) rq = Inr r \<and> \<not> er_fallback r
    \<and> er_text r = rp_text (template_render env rq)"
proof -
  have c: "conforms tools a (br_bundle b) (template_render env rq)"
    using assms by (rule template_conforms)
  have ref: "eb_action_ref (br_bundle b) = teaching_action_ref a"
    using assms(2) by (rule build_elim) (simp add: make_bundle_def Let_def)
  have "\<not> list_all is_space template_version" by code_simp
  then have "\<not> list_all is_space (rp_version (template_render env rq))"
    by (simp add: template_render_def Let_def split: prod.splits)
  with c ref obtain r where r: "execute env tools (\<lambda>rq. Inr (template_render env rq)) rq = Inr r"
    using execute_returns [of env tools "\<lambda>rq. Inr (template_render env rq)" rq] assms(5,6)
    by (auto simp: teaching_action_ref_def)
  from execute_cases_lemma [OF _ this] c assms(5,6) r show ?thesis by auto
qed

section \<open>Witnesses\<close>

text \<open>A renderer that answers completely although the lesson only allows partial exposure.\<close>

definition pushy :: renderer where
  "pushy rq = Inr ((template_render plain_env rq)\<lparr>rp_text := Rendered ''42'', rp_exposure := AE_COMPLETE,
     rp_state := ANSWER_EXPOSED\<rparr>)"

definition lesson_request :: "evidence_bundle \<Rightarrow> render_request" where
  "lesson_request b = \<lparr>rq_text = ''why?'', rq_action = lesson AE_PARTIAL, rq_bundle = b,
     rq_subject = ''general'', rq_capability = None, rq_inference = None\<rparr>"

definition empty_bundle :: evidence_bundle where
  "empty_bundle = make_bundle plain_env ''req'' (lesson AE_PARTIAL) [] [] [] []"

lemma pushy_does_not_conform: "\<not> conforms {} (lesson AE_PARTIAL) b (projr (pushy (lesson_request b)))"
  by (simp add: conforms_def pushy_def lesson_def)

lemma pushy_executed: "\<exists>r. execute plain_env {} pushy (lesson_request empty_bundle) = Inr r"
proof -
  have a: "rq_action (lesson_request empty_bundle) = lesson AE_PARTIAL"
    and b: "rq_bundle (lesson_request empty_bundle) = empty_bundle" by (simp_all add: lesson_request_def)
  have "pushy (lesson_request empty_bundle) = Inr (projr (pushy (lesson_request empty_bundle)))"
    by (simp add: pushy_def)
  moreover have "vr_id (eb_action_ref empty_bundle) = ta_id (lesson AE_PARTIAL)"
    by (simp add: empty_bundle_def make_bundle_def Let_def teaching_action_ref_def)
  ultimately show ?thesis
    unfolding execute_returns a b using pushy_does_not_conform [of empty_bundle] by blast
qed

theorem execution_tightens_witness:
  "\<exists>r. execute plain_env {} pushy (lesson_request empty_bundle) = Inr r
    \<and> within_envelope (lesson AE_PARTIAL) (er_assistance r)"
  using pushy_executed execution_tightens [of plain_env "{}" pushy "lesson_request empty_bundle"]
  by (metis lesson_request_def render_request.select_convs(2))

theorem execution_returns_iff_witness:
  "\<exists>r. execute plain_env {} pushy (lesson_request empty_bundle) = Inr r"
proof -
  have "vr_id (eb_action_ref (rq_bundle (lesson_request empty_bundle))) = ta_id (rq_action (lesson_request empty_bundle))"
    by (simp add: lesson_request_def empty_bundle_def make_bundle_def Let_def teaching_action_ref_def)
  moreover have "pushy (lesson_request empty_bundle) = Inr (projr (pushy (lesson_request empty_bundle)))"
    by (simp add: pushy_def)
  moreover have "\<not> conforms {} (rq_action (lesson_request empty_bundle)) (rq_bundle (lesson_request empty_bundle))
      (projr (pushy (lesson_request empty_bundle)))"
    using pushy_does_not_conform [of empty_bundle] by (simp add: lesson_request_def)
  ultimately show ?thesis
    using execution_returns_iff [of plain_env "{}" pushy "lesson_request empty_bundle"] by blast
qed

theorem execution_falls_back_iff_witness:
  "\<exists>r. execute plain_env {} pushy (lesson_request empty_bundle) = Inr r
    \<and> er_fallback r \<and> er_text r = BOUNDARY_FALLBACK_TEXT"
proof -
  obtain r where r: "execute plain_env {} pushy (lesson_request empty_bundle) = Inr r"
    using pushy_executed by blast
  have p: "pushy (lesson_request empty_bundle) = Inr (projr (pushy (lesson_request empty_bundle)))"
    by (simp add: pushy_def)
  have "\<not> conforms {} (rq_action (lesson_request empty_bundle)) (rq_bundle (lesson_request empty_bundle))
      (projr (pushy (lesson_request empty_bundle)))"
    using pushy_does_not_conform [of empty_bundle] by (simp add: lesson_request_def)
  with execution_falls_back_iff [of pushy, OF p r] r show ?thesis by simp
qed

theorem template_never_falls_back_witness:
  "\<exists>b r. build_evidence plain_env flat_retriever ''req'' (lesson AE_PARTIAL) ''q'' shelf shelf_scope
        [(''dense'', ''7'')] 5 = Inr b
    \<and> execute plain_env {} (\<lambda>rq. Inr (template_render plain_env rq)) (lesson_request (br_bundle b)) = Inr r
    \<and> \<not> er_fallback r"
proof -
  obtain b where b: "build_evidence plain_env flat_retriever ''req'' (lesson AE_PARTIAL) ''q'' shelf shelf_scope
      [(''dense'', ''7'')] 5 = Inr b"
    using shelf_built by blast
  from template_never_falls_back [OF flat_sound b plain_inj shelf_distinct, of "lesson_request (br_bundle b)" "{}"] b
  show ?thesis by (auto simp: lesson_request_def)
qed

end
