(* ===== verification/Assessment.thy ===== *)
theory Assessment
  imports Obligation Execution
begin

text \<open>
  \<open>app/domains/assessment/service.py\<close>, \<open>app/domains/assessment/adaptive_service.py\<close> and the
  contracts of \<open>app/contracts/assessment.py\<close> and \<open>app/contracts/learning.py\<close> they fill: the
  deterministic exact grader of both generations. An answer is correct when it equals the key
  after white space and case are normalized; the assistance recorded at submission decides how
  independent the attempt was.

  \<open>str.casefold\<close> is a parameter \<open>cfold\<close> (the Unicode folding table); the clock is an argument.
\<close>

section \<open>Contracts\<close>

datatype item_status = ACTIVE | RETIRED
datatype assistance_class = AC_NONE | AC_HINT | AC_WORKED_STEP | AC_FULL_SOLUTION
datatype independence = IND_INDEPENDENT | IND_ASSISTED | IND_ANSWER_EXPOSED
datatype attempt_status = SUBMITTED | SCORED | SCORING_FAILED

record assessment_item =
  ai_id :: uuid
  ai_version :: string
  ai_unit :: uuid
  ai_multiple_choice :: bool
  ai_prompt :: string
  ai_options :: "string list"
  ai_answer_key :: string
  ai_difficulty :: float64
  ai_status :: item_status

record assistance_v1 =
  a1_hint_level :: int
  a1_class :: assistance_class
  a1_source_visible :: bool
  a1_answer_visible :: bool
  a1_revision :: int
  a1_response_ms :: int

record response_revision =
  rv_revision :: int
  rv_raw :: pyval
  rv_normalized :: string
  rv_submitted :: time

record attempt_v1 =
  t1_id :: uuid
  t1_user :: uuid
  t1_item :: uuid
  t1_item_version :: string
  t1_raw :: pyval
  t1_normalized :: string
  t1_revisions :: "response_revision list"
  t1_assistance :: assistance_v1
  t1_status :: attempt_status
  t1_submitted :: time
  t1_idempotency_key :: string

record result_v1 =
  r1_id :: uuid
  r1_version :: int
  r1_attempt :: uuid
  r1_item :: uuid
  r1_item_version :: string
  r1_score :: float64
  r1_passed :: "bool option"
  r1_correctness :: correctness
  r1_rubric :: "(string, pyval) dict"
  r1_error_type :: "string option"
  r1_misconceptions :: "(string, pyval) dict list"
  r1_independence :: independence
  r1_confidence :: float64
  r1_evaluators :: "string list"
  r1_reason_codes :: "string list"
  r1_reviewer :: reviewer
  r1_created :: time
  r1_supersedes :: "uuid option"

datatype scoring_error =
    ASSESSMENT_ITEM_NOT_ACTIVE | ASSESSMENT_RESPONSE_REVISION_CONFLICT
  | ASSESSMENT_ITEM_VERSION_MISMATCH | ASSESSMENT_SCORING_UNAVAILABLE

section \<open>Normalization\<close>

text \<open>Stripping and collapsing white space keeps the words, one space apart.\<close>

definition normalize_answer :: "pyenv \<Rightarrow> (string \<Rightarrow> string) \<Rightarrow> pyval \<Rightarrow> string" where
  "normalize_answer env cfold v = cfold (str_join '' '' (split_words [] (py_str env v)))"

section \<open>The v1 scoring service\<close>

definition submit_attempt :: "pyenv \<Rightarrow> (string \<Rightarrow> string) \<Rightarrow> assessment_item \<Rightarrow> uuid \<Rightarrow> pyval \<Rightarrow> assistance_v1 \<Rightarrow>
    string \<Rightarrow> time \<Rightarrow> uuid option \<Rightarrow> scoring_error + attempt_v1" where
  "submit_attempt env cfold item user response assistance key stamp workspace =
     (if ai_status item \<noteq> ACTIVE then Inl ASSESSMENT_ITEM_NOT_ACTIVE
      else let scope = (case workspace of None \<Rightarrow> [] | Some w \<Rightarrow> w @ '':'') in
        Inr \<lparr>t1_id = uuid5 env (''askora:attempt:'' @ scope @ user @ '':'' @ key), t1_user = user,
          t1_item = ai_id item, t1_item_version = ai_version item, t1_raw = response,
          t1_normalized = normalize_answer env cfold response,
          t1_revisions = [\<lparr>rv_revision = a1_revision assistance, rv_raw = response,
            rv_normalized = normalize_answer env cfold response, rv_submitted = stamp\<rparr>],
          t1_assistance = assistance, t1_status = SUBMITTED, t1_submitted = stamp,
          t1_idempotency_key = key\<rparr>)"

definition revise_attempt :: "pyenv \<Rightarrow> (string \<Rightarrow> string) \<Rightarrow> attempt_v1 \<Rightarrow> pyval \<Rightarrow> assistance_v1 \<Rightarrow> time \<Rightarrow>
    scoring_error + attempt_v1" where
  "revise_attempt env cfold t response assistance stamp =
     (let expected = int (length (t1_revisions t)) + 1; normalized = normalize_answer env cfold response in
      if a1_revision assistance \<noteq> expected then Inl ASSESSMENT_RESPONSE_REVISION_CONFLICT
      else Inr (t\<lparr>t1_raw := response, t1_normalized := normalized,
        t1_revisions := t1_revisions t @ [\<lparr>rv_revision = expected, rv_raw = response,
          rv_normalized = normalized, rv_submitted = stamp\<rparr>],
        t1_assistance := assistance, t1_submitted := stamp\<rparr>))"

definition independence_of :: "assistance_v1 \<Rightarrow> independence" where
  "independence_of a =
     (if a1_answer_visible a \<or> a1_class a = AC_FULL_SOLUTION then IND_ANSWER_EXPOSED
      else if a1_class a = AC_NONE then IND_INDEPENDENT else IND_ASSISTED)"

definition matches_key :: "pyenv \<Rightarrow> (string \<Rightarrow> string) \<Rightarrow> assessment_item \<Rightarrow> attempt_v1 \<Rightarrow> bool" where
  "matches_key env cfold item t \<longleftrightarrow> t1_normalized t = normalize_answer env cfold (VStr (ai_answer_key item))"

definition mark :: "bool \<Rightarrow> float64" where
  "mark correct = (if correct then 1 else 0)"

text \<open>\<open>probe\<close> is the infrastructure check; \<open>Some False\<close> is one that raises.\<close>

definition score_attempt :: "pyenv \<Rightarrow> (string \<Rightarrow> string) \<Rightarrow> assessment_item \<Rightarrow> attempt_v1 \<Rightarrow> int \<Rightarrow>
    uuid option \<Rightarrow> time \<Rightarrow> bool option \<Rightarrow> scoring_error + result_v1" where
  "score_attempt env cfold item t version supersedes now probe =
     (if t1_item t \<noteq> ai_id item \<or> t1_item_version t \<noteq> ai_version item then Inl ASSESSMENT_ITEM_VERSION_MISMATCH
      else if probe = Some False then Inl ASSESSMENT_SCORING_UNAVAILABLE
      else let correct = matches_key env cfold item t in
        Inr \<lparr>r1_id = uuid5 env (''askora:assessment-result:'' @ t1_id t @ '':'' @ int_str version),
          r1_version = version, r1_attempt = t1_id t, r1_item = ai_id item, r1_item_version = ai_version item,
          r1_score = mark correct, r1_passed = Some correct,
          r1_correctness = (if correct then CORRECT else INCORRECT),
          r1_rubric = [(''exact_match'', VFloat (mark correct))],
          r1_error_type = (if correct then None else Some ''unknown''),
          r1_misconceptions = [], r1_independence = independence_of (t1_assistance t), r1_confidence = 1,
          r1_evaluators = [''deterministic-exact/1.0''], r1_reason_codes = [''DETERMINISTIC_EXACT_MATCH''],
          r1_reviewer = ACCEPTED, r1_created = now, r1_supersedes = supersedes\<rparr>)"

section \<open>The v0.3 assessment service\<close>

record assessment_link =
  al_action_ref :: versioned_ref
  al_response_ref :: versioned_ref
  al_obligation :: validation_obligation
  al_obligation_id :: "uuid option"

record assessment_record =
  ar_attempt :: attempt_v03
  ar_result :: result_v03
  ar_link :: assessment_link

record assessment_input =
  in_user :: uuid
  in_session :: uuid
  in_item :: uuid
  in_item_version :: string
  in_type :: assessment_type
  in_response :: pyval
  in_expected :: pyval
  in_action :: teaching_action
  in_assistance :: assistance_snapshot
  in_action_ref :: versioned_ref
  in_response_ref :: versioned_ref
  in_started :: time
  in_submitted :: time
  in_key :: string
  in_confidence :: float64
  in_error_type :: error_type
  in_diagnostic_confidence :: "float64 option"
  in_obligation_id :: "uuid option"

definition py_trunc :: "rat \<Rightarrow> int" where
  "py_trunc x = (if x < 0 then - floor (- x) else floor x)"

definition response_ms :: "time \<Rightarrow> time \<Rightarrow> int" where
  "response_ms started submitted = max 0 (py_trunc (fmul (total_seconds (submitted - started)) 1000))"

definition evaluator_version :: string where
  "evaluator_version = ''v03-deterministic-exact/1.0''"

definition make_attempt :: "pyenv \<Rightarrow> (string \<Rightarrow> string) \<Rightarrow> assessment_input \<Rightarrow> attempt_v03" where
  "make_attempt env cfold i =
    \<lparr>at_id = uuid5 env (''askora:v03:attempt:'' @ in_user i @ '':'' @ in_session i @ '':'' @ in_key i),
     at_schema_version = ''3.0'', at_user = in_user i, at_session = in_session i, at_item = in_item i,
     at_item_version = in_item_version i, at_type = in_type i, at_started = in_started i,
     at_first_response = Some (in_submitted i), at_submitted = in_submitted i,
     at_response_ms = response_ms (in_started i) (in_submitted i), at_raw = in_response i,
     at_normalized = VStr (normalize_answer env cfold (in_response i)), at_revisions = 0,
     at_assistance = in_assistance i, at_idempotency_key = in_key i\<rparr>"

definition answers_match :: "pyenv \<Rightarrow> (string \<Rightarrow> string) \<Rightarrow> assessment_input \<Rightarrow> bool" where
  "answers_match env cfold i \<longleftrightarrow> normalize_answer env cfold (in_response i) = normalize_answer env cfold (in_expected i)"

definition make_diagnosis :: "bool \<Rightarrow> assessment_input \<Rightarrow> diagnosis" where
  "make_diagnosis correct i =
    \<lparr>dg_error_type = (if correct then ET_UNKNOWN else in_error_type i),
     dg_confidence = in_diagnostic_confidence i, dg_evidence_refs = [], dg_misconception_refs = [],
     dg_alternatives = [], dg_needs_probe = (\<not> correct \<and> in_error_type i = ET_UNKNOWN),
     dg_reason_codes = [if correct then ''CORRECT_NO_ERROR_ATTRIBUTION'' else ''V03_DETERMINISTIC_DIAGNOSIS_INPUT'']\<rparr>"

definition make_result :: "pyenv \<Rightarrow> (string \<Rightarrow> string) \<Rightarrow> assessment_input \<Rightarrow> result_v03" where
  "make_result env cfold i =
     (let correct = answers_match env cfold i; attempt_id = at_id (make_attempt env cfold i) in
      \<lparr>rs_id = uuid5 env (''askora:v03:assessment-result:'' @ attempt_id @ '':1:'' @ evaluator_version),
       rs_schema_version = ''3.0'', rs_version = 1, rs_attempt = attempt_id, rs_item = in_item i,
       rs_item_version = in_item_version i, rs_score = mark correct, rs_passed = Some correct,
       rs_correctness = (if correct then CORRECT else INCORRECT),
       rs_rubric = [(''exact_match'', VFloat (mark correct))], rs_confidence = in_confidence i,
       rs_diagnosis = make_diagnosis correct i, rs_assistance = in_assistance i,
       rs_evaluators = [evaluator_version], rs_reviewer = ACCEPTED, rs_created = in_submitted i,
       rs_supersedes = None\<rparr>)"

text \<open>What the contract models refuse of the caller's values.\<close>

definition valid_input :: "assessment_input \<Rightarrow> bool" where
  "valid_input i \<longleftrightarrow> in_item_version i \<noteq> [] \<and> in_key i \<noteq> [] \<and> unit_range (Some (in_confidence i)) \<and>
     unit_range (in_diagnostic_confidence i)"

definition assess_exact :: "pyenv \<Rightarrow> (string \<Rightarrow> string) \<Rightarrow> assessment_input \<Rightarrow> exn + assessment_record" where
  "assess_exact env cfold i =
     (if vr_id (in_action_ref i) \<noteq> ta_id (in_action i)
      then Inl (ValueError ''SYS04_EXECUTION_ACTION_REF_MISMATCH'')
      else if \<not> valid_input i then Inl (ValueError ''ASSESSMENT_VALIDATION'')
      else Inr \<lparr>ar_attempt = make_attempt env cfold i, ar_result = make_result env cfold i,
        ar_link = \<lparr>al_action_ref = in_action_ref i, al_response_ref = in_response_ref i,
          al_obligation = ta_obligation (in_action i), al_obligation_id = in_obligation_id i\<rparr>\<rparr>)"

section \<open>Revisions\<close>

text \<open>The attempts a learner can bring about: a first submission, then accepted revisions.\<close>

inductive attempted :: "pyenv \<Rightarrow> (string \<Rightarrow> string) \<Rightarrow> assessment_item \<Rightarrow> attempt_v1 \<Rightarrow> bool" for env cfold item where
  first: "submit_attempt env cfold item user response assistance key stamp workspace = Inr t
    \<Longrightarrow> a1_revision assistance = 1 \<Longrightarrow> attempted env cfold item t"
| revised: "attempted env cfold item t \<Longrightarrow> revise_attempt env cfold t response assistance stamp = Inr t'
    \<Longrightarrow> attempted env cfold item t'"

inductive_cases attempted_cases [elim]: "attempted env cfold item t"

lemma submit_facts:
  "submit_attempt env cfold item user response assistance key stamp workspace = Inr t \<Longrightarrow>
    ai_status item = ACTIVE \<and> t1_item t = ai_id item \<and> t1_item_version t = ai_version item
    \<and> map rv_revision (t1_revisions t) = [a1_revision assistance]
    \<and> rv_raw (last (t1_revisions t)) = t1_raw t \<and> rv_normalized (last (t1_revisions t)) = t1_normalized t
    \<and> t1_normalized t = normalize_answer env cfold (t1_raw t) \<and> t1_status t = SUBMITTED"
  by (auto simp: submit_attempt_def Let_def split: if_splits)

lemma revise_facts:
  "revise_attempt env cfold t response assistance stamp = Inr t' \<Longrightarrow>
    a1_revision assistance = int (length (t1_revisions t)) + 1
    \<and> t1_revisions t' = t1_revisions t @ [last (t1_revisions t')]
    \<and> rv_revision (last (t1_revisions t')) = int (length (t1_revisions t)) + 1
    \<and> rv_raw (last (t1_revisions t')) = t1_raw t' \<and> rv_normalized (last (t1_revisions t')) = t1_normalized t'
    \<and> t1_normalized t' = normalize_answer env cfold (t1_raw t')
    \<and> t1_item t' = t1_item t \<and> t1_item_version t' = t1_item_version t \<and> t1_id t' = t1_id t"
  by (auto simp: revise_attempt_def Let_def split: if_splits)

lemma upto_snoc: "[1..int n] @ [int n + 1] = [1..int n + 1]"
  by (simp add: upto_rec2)

text \<open>However a learner revises, the revisions of an attempt are numbered one after the
  other, the attempt shows the last of them, normalized, and it stays an attempt at the exact item
  version that was active when it was submitted.\<close>

theorem revisions_are_consecutive:
  assumes "attempted env cfold item t"
  shows "map rv_revision (t1_revisions t) = [1..int (length (t1_revisions t))]
    \<and> rv_raw (last (t1_revisions t)) = t1_raw t
    \<and> t1_normalized t = normalize_answer env cfold (t1_raw t)
    \<and> t1_item t = ai_id item \<and> t1_item_version t = ai_version item \<and> ai_status item = ACTIVE"
  using assms
proof induction
  case (first user response assistance key stamp workspace t)
  note f = submit_facts [OF first(1)]
  then have "length (t1_revisions t) = 1" by (metis length_map list.size(3,4) One_nat_def add_0)
  with f first(2) show ?case by simp
next
  case (revised t response assistance stamp t')
  note f = revise_facts [OF revised(2)]
  obtain x where x: "t1_revisions t' = t1_revisions t @ [x]" "rv_revision x = int (length (t1_revisions t)) + 1"
    "rv_raw x = t1_raw t'"
    using f by metis
  have "map rv_revision (t1_revisions t') = [1..int (length (t1_revisions t'))]"
    using revised.IH x upto_snoc [of "length (t1_revisions t)"] by (simp add: add.commute)
  with f x revised.IH show ?case by simp
qed

section \<open>Grading\<close>

lemma assess_facts:
  assumes "assess_exact env cfold i = Inr rec"
  shows "ar_attempt rec = make_attempt env cfold i \<and> ar_result rec = make_result env cfold i
    \<and> vr_id (in_action_ref i) = ta_id (in_action i) \<and> valid_input i
    \<and> al_obligation (ar_link rec) = ta_obligation (in_action i)"
  using assms by (auto simp: assess_exact_def split: if_splits)

lemma made_success:
  "independent_success (make_attempt env cfold i) (make_result env cfold i)
     \<longleftrightarrow> answers_match env cfold i \<and> as_state (in_assistance i) = INDEPENDENT"
  "exposed_success (make_attempt env cfold i) (make_result env cfold i)
     \<longleftrightarrow> answers_match env cfold i \<and> as_state (in_assistance i) \<noteq> INDEPENDENT"
  "rs_attempt (make_result env cfold i) = at_id (make_attempt env cfold i)"
  by (cases "as_state (in_assistance i)";
      auto simp: independent_success_def exposed_success_def experienced_def accepted_pass_def
        make_attempt_def make_result_def Let_def)+

text \<open>The grader returns exactly when the action reference and the caller's values are
  acceptable; a response passes exactly when it equals the expected answer after normalization,
  the recorded time is never negative, attempt and result carry the actual assistance, so a pass
  counts as independent success without help and as an exposed one with help.\<close>

theorem assessment_grades:
  shows "((\<exists>rec. assess_exact env cfold i = Inr rec) \<longleftrightarrow>
      vr_id (in_action_ref i) = ta_id (in_action i) \<and> valid_input i)
    \<and> (\<forall>rec. assess_exact env cfold i = Inr rec \<longrightarrow>
      (rs_passed (ar_result rec) = Some (answers_match env cfold i))
      \<and> (rs_correctness (ar_result rec) = (if answers_match env cfold i then CORRECT else INCORRECT))
      \<and> 0 \<le> at_response_ms (ar_attempt rec)
      \<and> at_assistance (ar_attempt rec) = in_assistance i \<and> rs_assistance (ar_result rec) = in_assistance i
      \<and> (independent_success (ar_attempt rec) (ar_result rec)
          \<longleftrightarrow> answers_match env cfold i \<and> as_state (in_assistance i) = INDEPENDENT)
      \<and> (exposed_success (ar_attempt rec) (ar_result rec)
          \<longleftrightarrow> answers_match env cfold i \<and> as_state (in_assistance i) \<noteq> INDEPENDENT))"
proof -
  have "(\<exists>rec. assess_exact env cfold i = Inr rec) \<longleftrightarrow>
      vr_id (in_action_ref i) = ta_id (in_action i) \<and> valid_input i"
    by (auto simp: assess_exact_def)
  note grade = this
  have "rs_passed (make_result env cfold i) = Some (answers_match env cfold i)"
    "rs_correctness (make_result env cfold i) = (if answers_match env cfold i then CORRECT else INCORRECT)"
    "0 \<le> at_response_ms (make_attempt env cfold i)"
    "at_assistance (make_attempt env cfold i) = in_assistance i"
    "rs_assistance (make_result env cfold i) = in_assistance i"
    by (simp_all add: make_result_def make_attempt_def Let_def response_ms_def)
  note made = this made_success(1,2) [of env cfold i]
  show ?thesis
  proof (intro conjI allI impI)
    fix rec assume "assess_exact env cfold i = Inr rec"
    note f = assess_facts [OF this]
    then have a: "ar_attempt rec = make_attempt env cfold i" and r: "ar_result rec = make_result env cfold i"
      by simp_all
    show "rs_passed (ar_result rec) = Some (answers_match env cfold i)"
      "rs_correctness (ar_result rec) = (if answers_match env cfold i then CORRECT else INCORRECT)"
      "0 \<le> at_response_ms (ar_attempt rec)" "at_assistance (ar_attempt rec) = in_assistance i"
      "rs_assistance (ar_result rec) = in_assistance i"
      "independent_success (ar_attempt rec) (ar_result rec)
        \<longleftrightarrow> answers_match env cfold i \<and> as_state (in_assistance i) = INDEPENDENT"
      "exposed_success (ar_attempt rec) (ar_result rec)
        \<longleftrightarrow> answers_match env cfold i \<and> as_state (in_assistance i) \<noteq> INDEPENDENT"
      unfolding a r by (rule made)+
  qed (rule grade)
qed

lemma score_facts:
  "score_attempt env cfold item t version supersedes now probe = Inr r \<Longrightarrow>
    t1_item t = ai_id item \<and> t1_item_version t = ai_version item \<and> probe \<noteq> Some False
    \<and> r1_passed r = Some (matches_key env cfold item t) \<and> r1_attempt r = t1_id t
    \<and> r1_correctness r = (if matches_key env cfold item t then CORRECT else INCORRECT)
    \<and> r1_independence r = independence_of (t1_assistance t) \<and> r1_item_version r = t1_item_version t
    \<and> r1_reviewer r = ACCEPTED \<and> r1_confidence r = 1"
  by (auto simp: score_attempt_def Let_def split: if_splits)

text \<open>Scoring an attempt either measures it against the key of its own item version or
  fails as an error; an unavailable grader never marks a learner wrong, and an attempt with the
  answer in sight is never measured as independent.\<close>

theorem scoring_is_sound:
  "(case score_attempt env cfold item t version supersedes now probe of
      Inl e \<Rightarrow> e = ASSESSMENT_ITEM_VERSION_MISMATCH \<and> (t1_item t \<noteq> ai_id item \<or> t1_item_version t \<noteq> ai_version item)
        \<or> e = ASSESSMENT_SCORING_UNAVAILABLE \<and> probe = Some False
    | Inr r \<Rightarrow> t1_item t = ai_id item \<and> t1_item_version t = ai_version item \<and> probe \<noteq> Some False
        \<and> r1_passed r = Some (matches_key env cfold item t)
        \<and> r1_correctness r = (if matches_key env cfold item t then CORRECT else INCORRECT)
        \<and> (r1_independence r = IND_INDEPENDENT \<longleftrightarrow>
            \<not> a1_answer_visible (t1_assistance t) \<and> a1_class (t1_assistance t) = AC_NONE))"
proof (cases "score_attempt env cfold item t version supersedes now probe")
  case (Inl e)
  then show ?thesis by (auto simp: score_attempt_def Let_def split: if_splits)
next
  case (Inr r)
  note f = score_facts [OF Inr]
  have "r1_independence r = IND_INDEPENDENT \<longleftrightarrow>
      \<not> a1_answer_visible (t1_assistance t) \<and> a1_class (t1_assistance t) = AC_NONE"
    using f by (simp add: independence_of_def)
  with f Inr show ?thesis by simp
qed

section \<open>Witnesses\<close>

definition quiz_item :: assessment_item where
  "quiz_item = \<lparr>ai_id = ''item'', ai_version = ''1'', ai_unit = ''unit'', ai_multiple_choice = False,
     ai_prompt = ''2+2?'', ai_options = [], ai_answer_key = ''four'', ai_difficulty = 1, ai_status = ACTIVE\<rparr>"

definition unaided :: "int \<Rightarrow> assistance_v1" where
  "unaided n = \<lparr>a1_hint_level = 0, a1_class = AC_NONE, a1_source_visible = False,
     a1_answer_visible = False, a1_revision = n, a1_response_ms = 900\<rparr>"

theorem revisions_are_consecutive_witness:
  "\<exists>t. attempted plain_env str_lower quiz_item t \<and> map rv_revision (t1_revisions t) = [1..2]
    \<and> t1_normalized t = ''four''"
proof -
  obtain t where t: "submit_attempt plain_env str_lower quiz_item ''ann'' (VStr ''five'') (unaided 1) ''k'' 10 None = Inr t"
    by (simp add: submit_attempt_def quiz_item_def Let_def)
  have "length (t1_revisions t) = 1"
    using t by (auto simp: submit_attempt_def quiz_item_def Let_def)
  then obtain t' where t': "revise_attempt plain_env str_lower t (VStr '' Four '') (unaided 2) 20 = Inr t'"
    by (simp add: revise_attempt_def unaided_def Let_def)
  have "attempted plain_env str_lower quiz_item t"
    by (rule attempted.first [OF t]) (simp add: unaided_def)
  then have a: "attempted plain_env str_lower quiz_item t'" using t' by (rule attempted.revised)
  have "length (t1_revisions t') = 2" "t1_raw t' = VStr '' Four ''"
    using t' \<open>length (t1_revisions t) = 1\<close> by (auto simp: revise_attempt_def Let_def split: if_splits)
  moreover have "normalize_answer plain_env str_lower (VStr '' Four '') = ''four''" by code_simp
  ultimately show ?thesis using revisions_are_consecutive [OF a] a by auto
qed

theorem assessment_grades_witness:
  "\<exists>rec. assess_exact plain_env str_lower
      \<lparr>in_user = ''ann'', in_session = ''s'', in_item = ''item'', in_item_version = ''1'', in_type = AT_FORMATIVE,
       in_response = VStr ''  FOUR'', in_expected = VStr ''four'', in_action = lesson AE_NONE,
       in_assistance = demo_snapshot SC_LOW AE_NONE, in_action_ref = teaching_action_ref (lesson AE_NONE),
       in_response_ref = mk_ref ''rendered_response'' ''r1'' (VerI 1), in_started = 0, in_submitted = 7000000,
       in_key = ''k'', in_confidence = 1, in_error_type = ET_UNKNOWN, in_diagnostic_confidence = None,
       in_obligation_id = None\<rparr> = Inr rec \<and> exposed_success (ar_attempt rec) (ar_result rec)"
  (is "\<exists>rec. assess_exact _ _ ?i = Inr rec \<and> _")
proof -
  have "vr_id (in_action_ref ?i) = ta_id (in_action ?i) \<and> valid_input ?i"
    by (simp add: teaching_action_ref_def valid_input_def unit_range_def)
  then obtain rec where rec: "assess_exact plain_env str_lower ?i = Inr rec"
    using assessment_grades [of plain_env str_lower ?i] by blast
  have "normalize_answer plain_env str_lower (VStr ''  FOUR'') = normalize_answer plain_env str_lower (VStr ''four'')"
    by code_simp
  then have "answers_match plain_env str_lower ?i \<and> as_state (in_assistance ?i) \<noteq> INDEPENDENT"
    by (simp add: answers_match_def demo_snapshot_def expected_assistance_def)
  with rec assessment_grades [of plain_env str_lower ?i] show ?thesis by blast
qed

end
