(* ===== verification/AdaptiveRecords.thy ===== *)
theory AdaptiveRecords
  imports Ledger Assessment Decisions
begin

text \<open>
  \<open>app/infrastructure/adaptive_records.py\<close>: \<open>AdaptiveContractRepository\<close>, the store of the immutable
  v0.3 contracts, and \<open>AssessmentRecordV03Repository\<close>, which shares its two tables with the v1
  assessment repository (\<open>app/models/adaptive.py\<close>, \<open>app/models/assessment.py\<close>).

  A table of contracts is the list of their payloads: the other columns are copies of fields of the
  payload. A save takes the database its reads saw (\<open>seen\<close>) and the one its insert meets (\<open>db\<close>); an
  error leaves the database as it is, because the caller's transaction is rolled back.
\<close>

section \<open>Rows written once\<close>

datatype store_error = NOT_FOUND string | EXACT_REF string | OVERWRITE string | ROW_CONFLICT

text \<open>The shape of every save: an existing row of the same id must hold the same payload.\<close>

definition by_id :: "('a \<Rightarrow> uuid) \<Rightarrow> 'a list \<Rightarrow> uuid \<Rightarrow> 'a option" where
  "by_id key tab i = find (\<lambda>r. key r = i) tab"

definition put_once :: "('a \<Rightarrow> uuid) \<Rightarrow> string \<Rightarrow> 'a list \<Rightarrow> 'a list \<Rightarrow> 'a \<Rightarrow> store_error + 'a list \<times> 'a" where
  "put_once key what seen tab x =
     (case by_id key seen (key x) of
        Some r \<Rightarrow> if r \<noteq> x then Inl (OVERWRITE what) else Inr (tab, r)
      | None \<Rightarrow> if key x \<in> key ` set tab then Inl ROW_CONFLICT else Inr (tab @ [x], x))"

record bundle_activation =
  ba_id :: uuid
  ba_bundle :: versioned_ref
  ba_activated :: time
  ba_supersedes :: "uuid option"
  ba_reasons :: "string list"

text \<open>\<open>PolicyBundleActivationRecord\<close> keeps the bundle's id only.\<close>

record activation_row =
  aw_id :: uuid
  aw_bundle :: string
  aw_activated :: time
  aw_supersedes :: "uuid option"
  aw_reasons :: "string list"

text \<open>The shared assessment tables: a v0.3 row has no workspace.\<close>

datatype attempt_payload = AttemptV1 attempt_v1 | AttemptV3 attempt_v03
datatype result_payload = ResultV1 result_v1 | ResultV3 result_v03

record attempt_row =
  ax_id :: uuid
  ax_key :: string
  ax_user :: uuid
  ax_workspace :: "uuid option"
  ax_item :: uuid
  ax_item_version :: string
  ax_payload :: attempt_payload

record result_row =
  rx_id :: uuid
  rx_attempt :: uuid
  rx_workspace :: "uuid option"
  rx_version :: int
  rx_supersedes :: "uuid option"
  rx_payload :: result_payload

record adaptive_db =
  ad_contexts :: "teaching_context list"
  ad_bundles :: "policy_bundle list"
  ad_activations :: "activation_row list"
  ad_actions :: "teaching_action list"
  ad_assignments :: "experiment_assignment list"
  ad_episodes :: "teaching_episode list"
  ad_trajectories :: "learning_trajectory list"
  ad_outcomes :: "outcome_observation list"
  ad_attempts :: "attempt_row list"
  ad_results :: "result_row list"

section \<open>\<open>AdaptiveContractRepository\<close>\<close>

definition save_context :: "adaptive_db \<Rightarrow> adaptive_db \<Rightarrow> teaching_context \<Rightarrow> store_error + adaptive_db \<times> teaching_context" where
  "save_context seen db c =
     bind_res (put_once ctx_id ''teaching context'' (ad_contexts seen) (ad_contexts db) c)
       (\<lambda>(t, x). Inr (db\<lparr>ad_contexts := t\<rparr>, x))"

definition publish_policy_bundle :: "adaptive_db \<Rightarrow> adaptive_db \<Rightarrow> policy_bundle \<Rightarrow> store_error + adaptive_db \<times> policy_bundle" where
  "publish_policy_bundle seen db b =
     bind_res (put_once pb_bundle_id ''policy bundle'' (ad_bundles seen) (ad_bundles db) b)
       (\<lambda>(t, x). Inr (db\<lparr>ad_bundles := t\<rparr>, x))"

definition save_experiment_assignment :: "adaptive_db \<Rightarrow> adaptive_db \<Rightarrow> experiment_assignment \<Rightarrow>
    store_error + adaptive_db \<times> experiment_assignment" where
  "save_experiment_assignment seen db a =
     bind_res (put_once ea_id ''experiment assignment'' (ad_assignments seen) (ad_assignments db) a)
       (\<lambda>(t, x). Inr (db\<lparr>ad_assignments := t\<rparr>, x))"

definition save_action :: "adaptive_db \<Rightarrow> adaptive_db \<Rightarrow> teaching_action \<Rightarrow> store_error + adaptive_db \<times> teaching_action" where
  "save_action seen db a =
     (case by_id ctx_id (ad_contexts seen) (vr_id (ta_context_ref a)) of
        None \<Rightarrow> Inl (NOT_FOUND ''teaching context'')
      | Some c \<Rightarrow>
         (case by_id pb_bundle_id (ad_bundles seen) (vr_id (ta_bundle_ref a)) of
            None \<Rightarrow> Inl (NOT_FOUND ''policy bundle'')
          | Some b \<Rightarrow>
             if ver_str (vr_version (ta_context_ref a)) \<noteq> ctx_schema_version c
             then Inl (EXACT_REF ''TEACHING_CONTEXT_EXACT_VERSION_MISMATCH'')
             else if ver_str (vr_version (ta_bundle_ref a)) \<noteq> pb_policy_version b
             then Inl (EXACT_REF ''POLICY_BUNDLE_EXACT_VERSION_MISMATCH'')
             else bind_res (put_once ta_id ''teaching action'' (ad_actions seen) (ad_actions db) a)
                    (\<lambda>(t, x). Inr (db\<lparr>ad_actions := t\<rparr>, x))))"

definition get_action :: "adaptive_db \<Rightarrow> uuid \<Rightarrow> teaching_action option" where
  "get_action db i = by_id ta_id (ad_actions db) i"

definition activation_of :: "policy_bundle \<Rightarrow> activation_row \<Rightarrow> bundle_activation" where
  "activation_of b r = \<lparr>ba_id = aw_id r, ba_bundle = mk_ref ''PolicyBundle'' (aw_bundle r) (VerS (pb_policy_version b)),
     ba_activated = aw_activated r, ba_supersedes = aw_supersedes r, ba_reasons = aw_reasons r\<rparr>"

definition activation_row_of :: "bundle_activation \<Rightarrow> activation_row" where
  "activation_row_of a = \<lparr>aw_id = ba_id a, aw_bundle = vr_id (ba_bundle a), aw_activated = ba_activated a,
     aw_supersedes = ba_supersedes a, aw_reasons = ba_reasons a\<rparr>"

definition activate_policy_bundle :: "adaptive_db \<Rightarrow> adaptive_db \<Rightarrow> bundle_activation \<Rightarrow>
    store_error + adaptive_db \<times> bundle_activation" where
  "activate_policy_bundle seen db a =
     (case by_id pb_bundle_id (ad_bundles seen) (vr_id (ba_bundle a)) of
        None \<Rightarrow> Inl (NOT_FOUND ''policy bundle'')
      | Some b \<Rightarrow>
          if ver_str (vr_version (ba_bundle a)) \<noteq> pb_policy_version b
          then Inl (EXACT_REF ''POLICY_BUNDLE_EXACT_VERSION_MISMATCH'')
          else case by_id aw_id (ad_activations seen) (ba_id a) of
              Some r \<Rightarrow> Inr (db, activation_of b r)
            | None \<Rightarrow>
                if ba_id a \<in> aw_id ` set (ad_activations db)
                   \<or> (case ba_supersedes a of None \<Rightarrow> False
                      | Some s \<Rightarrow> s \<noteq> ba_id a \<and> s \<notin> aw_id ` set (ad_activations db))
                then Inl ROW_CONFLICT
                else Inr (db\<lparr>ad_activations := ad_activations db @ [activation_row_of a]\<rparr>, a))"

text \<open>Every reference must be of the version that its target has.\<close>

definition action_exact :: "adaptive_db \<Rightarrow> versioned_ref \<Rightarrow> bool" where
  "action_exact db r \<longleftrightarrow> (case by_id ta_id (ad_actions db) (vr_id r) of
     None \<Rightarrow> False | Some a \<Rightarrow> ver_str (vr_version r) = ta_schema_version a)"

definition context_exact :: "adaptive_db \<Rightarrow> versioned_ref \<Rightarrow> bool" where
  "context_exact db r \<longleftrightarrow> (case by_id ctx_id (ad_contexts db) (vr_id r) of
     None \<Rightarrow> False | Some c \<Rightarrow> ver_str (vr_version r) = ctx_schema_version c)"

definition bundle_exact :: "adaptive_db \<Rightarrow> versioned_ref \<Rightarrow> bool" where
  "bundle_exact db r \<longleftrightarrow> (case by_id pb_bundle_id (ad_bundles db) (vr_id r) of
     None \<Rightarrow> False | Some b \<Rightarrow> ver_str (vr_version r) = pb_policy_version b)"

definition episode_exact :: "adaptive_db \<Rightarrow> versioned_ref \<Rightarrow> bool" where
  "episode_exact db r \<longleftrightarrow> (case by_id te_id (ad_episodes db) (vr_id r) of
     None \<Rightarrow> False | Some e \<Rightarrow> ver_str (vr_version r) = te_schema_version e)"

definition trajectory_exact :: "adaptive_db \<Rightarrow> versioned_ref \<Rightarrow> bool" where
  "trajectory_exact db r \<longleftrightarrow> (case by_id lt_id (ad_trajectories db) (vr_id r) of
     None \<Rightarrow> False | Some t \<Rightarrow> ver_str (vr_version r) = lt_schema_version t)"

definition assignment_exact :: "adaptive_db \<Rightarrow> versioned_ref \<Rightarrow> bool" where
  "assignment_exact db r \<longleftrightarrow> (case by_id ea_id (ad_assignments db) (vr_id r) of
     None \<Rightarrow> False | Some a \<Rightarrow> ver_str (vr_version r) = ea_schema_version a)"

definition save_episode :: "adaptive_db \<Rightarrow> adaptive_db \<Rightarrow> teaching_episode \<Rightarrow> store_error + adaptive_db \<times> teaching_episode" where
  "save_episode seen db e =
     (if \<not> list_all (action_exact seen) (te_action_refs e) then Inl (EXACT_REF ''TEACHING_EPISODE_ACTION_EXACT_REF_INVALID'')
      else if \<not> list_all (bundle_exact seen) (te_bundle_refs e) then Inl (EXACT_REF ''TEACHING_EPISODE_POLICY_EXACT_REF_INVALID'')
      else bind_res (put_once te_id ''teaching episode'' (ad_episodes seen) (ad_episodes db) e)
             (\<lambda>(t, x). Inr (db\<lparr>ad_episodes := t\<rparr>, x)))"

definition save_trajectory :: "adaptive_db \<Rightarrow> adaptive_db \<Rightarrow> learning_trajectory \<Rightarrow> store_error + adaptive_db \<times> learning_trajectory" where
  "save_trajectory seen db t =
     (if \<not> list_all (episode_exact seen) (lt_episode_refs t) then Inl (EXACT_REF ''LEARNING_TRAJECTORY_EPISODE_EXACT_REF_INVALID'')
      else bind_res (put_once lt_id ''learning trajectory'' (ad_trajectories seen) (ad_trajectories db) t)
             (\<lambda>(u, x). Inr (db\<lparr>ad_trajectories := u\<rparr>, x)))"

definition opt_exact :: "(versioned_ref \<Rightarrow> bool) \<Rightarrow> versioned_ref option \<Rightarrow> bool" where
  "opt_exact p r = (case r of None \<Rightarrow> True | Some x \<Rightarrow> p x)"

definition single_action :: "adaptive_db \<Rightarrow> versioned_ref option \<Rightarrow> bool" where
  "single_action db r \<longleftrightarrow> (case r of None \<Rightarrow> False
     | Some x \<Rightarrow> (case by_id te_id (ad_episodes db) (vr_id x) of None \<Rightarrow> False | Some e \<Rightarrow> length (te_action_refs e) = 1))"

definition save_outcome :: "adaptive_db \<Rightarrow> adaptive_db \<Rightarrow> outcome_observation \<Rightarrow> store_error + adaptive_db \<times> outcome_observation" where
  "save_outcome seen db obs =
     (if \<not> opt_exact (episode_exact seen) (oo_episode_ref obs) then Inl (EXACT_REF ''OUTCOME_EPISODE_EXACT_REF_INVALID'')
      else if \<not> opt_exact (trajectory_exact seen) (oo_trajectory_ref obs) then Inl (EXACT_REF ''OUTCOME_TRAJECTORY_EXACT_REF_INVALID'')
      else if \<not> opt_exact (assignment_exact seen) (oo_experiment obs) then Inl (EXACT_REF ''OUTCOME_EXPERIMENT_EXACT_REF_INVALID'')
      else if oo_scope obs = ACTION_DIRECT \<and> \<not> single_action seen (oo_episode_ref obs)
      then Inl (EXACT_REF ''ACTION_DIRECT_REQUIRES_SINGLE_ACTION_EPISODE'')
      else bind_res (put_once oo_id ''outcome observation'' (ad_outcomes seen) (ad_outcomes db) obs)
             (\<lambda>(t, x). Inr (db\<lparr>ad_outcomes := t\<rparr>, x)))"

definition get_outcome :: "adaptive_db \<Rightarrow> uuid \<Rightarrow> outcome_observation option" where
  "get_outcome db i = by_id oo_id (ad_outcomes db) i"

section \<open>\<open>AssessmentRecordV03Repository\<close>\<close>

text \<open>The lookup by key ignores the workspace, so it also meets rows of v1; the unique constraint on
  workspace and key does not bind rows whose workspace is null.\<close>

definition attempt_row_v03 :: "attempt_v03 \<Rightarrow> attempt_row" where
  "attempt_row_v03 a = \<lparr>ax_id = at_id a, ax_key = at_idempotency_key a, ax_user = at_user a, ax_workspace = None,
     ax_item = at_item a, ax_item_version = at_item_version a, ax_payload = AttemptV3 a\<rparr>"

definition result_row_v03 :: "result_v03 \<Rightarrow> result_row" where
  "result_row_v03 r = \<lparr>rx_id = rs_id r, rx_attempt = rs_attempt r, rx_workspace = None, rx_version = rs_version r,
     rx_supersedes = rs_supersedes r, rx_payload = ResultV3 r\<rparr>"

definition save_attempt_v03 :: "adaptive_db \<Rightarrow> adaptive_db \<Rightarrow> attempt_v03 \<Rightarrow> store_error + adaptive_db \<times> attempt_v03" where
  "save_attempt_v03 seen db a =
     (case find (\<lambda>r. ax_key r = at_idempotency_key a) (ad_attempts seen) of
        Some r \<Rightarrow> if ax_payload r \<noteq> AttemptV3 a then Inl (OVERWRITE ''assessment attempt'') else Inr (db, a)
      | None \<Rightarrow>
          if at_id a \<in> ax_id ` set (ad_attempts db) then Inl ROW_CONFLICT
          else Inr (db\<lparr>ad_attempts := ad_attempts db @ [attempt_row_v03 a]\<rparr>, a))"

definition result_clash :: "result_row list \<Rightarrow> uuid \<Rightarrow> uuid \<Rightarrow> int \<Rightarrow> bool" where
  "result_clash tab i a v \<longleftrightarrow> list_ex (\<lambda>r. rx_id r = i \<or> rx_attempt r = a \<and> rx_version r = v) tab"

definition save_result_v03 :: "adaptive_db \<Rightarrow> adaptive_db \<Rightarrow> result_v03 \<Rightarrow> store_error + adaptive_db \<times> result_v03" where
  "save_result_v03 seen db r =
     (case by_id rx_id (ad_results seen) (rs_id r) of
        Some x \<Rightarrow> if rx_payload x \<noteq> ResultV3 r then Inl (OVERWRITE ''assessment result'') else Inr (db, r)
      | None \<Rightarrow>
          if result_clash (ad_results db) (rs_id r) (rs_attempt r) (rs_version r) then Inl ROW_CONFLICT
          else Inr (db\<lparr>ad_results := ad_results db @ [result_row_v03 r]\<rparr>, r))"

section \<open>Transitions of the store\<close>

definition grown :: "('a \<Rightarrow> uuid) \<Rightarrow> 'a list \<Rightarrow> 'a list \<Rightarrow> bool" where
  "grown key t t' \<longleftrightarrow> t' = t \<or> (\<exists>x. t' = t @ [x] \<and> key x \<notin> key ` set t)"

lemma grown_refl [simp]: "grown key t t"
  by (simp add: grown_def)

lemma put_once_facts:
  assumes "put_once key what seen tab x = Inr (tab', y)" and "prefix seen tab"
  shows "y = x \<and> grown key tab tab' \<and> x \<in> set tab' \<and> set tab' \<subseteq> insert x (set tab)"
proof (cases "by_id key seen (key x)")
  case None
  with assms(1) show ?thesis by (auto simp: put_once_def grown_def split: if_splits)
next
  case (Some r)
  then have "r \<in> set seen" by (auto simp: by_id_def find_Some_iff)
  then have "r \<in> set tab" using assms(2) by (meson set_mono_prefix subsetD)
  with assms(1) Some show ?thesis by (auto simp: put_once_def split: if_splits)
qed

lemma by_id_prefix: "prefix t t' \<Longrightarrow> by_id key t i = Some x \<Longrightarrow> by_id key t' i = Some x"
proof -
  have "find p (xs @ ys) = Some x" if "find p xs = Some x" for p :: "'a \<Rightarrow> bool" and xs ys
    using that by (induction xs) (auto split: if_splits)
  then show "prefix t t' \<Longrightarrow> by_id key t i = Some x \<Longrightarrow> by_id key t' i = Some x"
    by (auto simp: by_id_def prefix_def)
qed

text \<open>What an earlier read may have seen.\<close>

definition older :: "adaptive_db \<Rightarrow> adaptive_db \<Rightarrow> bool" where
  "older s db \<longleftrightarrow> prefix (ad_contexts s) (ad_contexts db) \<and> prefix (ad_bundles s) (ad_bundles db) \<and>
     prefix (ad_activations s) (ad_activations db) \<and> prefix (ad_actions s) (ad_actions db) \<and>
     prefix (ad_assignments s) (ad_assignments db) \<and> prefix (ad_episodes s) (ad_episodes db) \<and>
     prefix (ad_trajectories s) (ad_trajectories db) \<and> prefix (ad_outcomes s) (ad_outcomes db) \<and>
     prefix (ad_attempts s) (ad_attempts db) \<and> prefix (ad_results s) (ad_results db)"

lemma older_refl [simp]: "older db db"
  by (simp add: older_def)

inductive adaptive_step :: "adaptive_db \<Rightarrow> adaptive_db \<Rightarrow> bool" where
  context_step: "older s db \<Longrightarrow> save_context s db c = Inr (db', r1) \<Longrightarrow> adaptive_step db db'"
| bundle_step: "older s db \<Longrightarrow> publish_policy_bundle s db b = Inr (db', r2) \<Longrightarrow> adaptive_step db db'"
| activation_step: "older s db \<Longrightarrow> activate_policy_bundle s db v = Inr (db', r3) \<Longrightarrow> adaptive_step db db'"
| action_step: "older s db \<Longrightarrow> save_action s db a = Inr (db', r4) \<Longrightarrow> adaptive_step db db'"
| assignment_step: "older s db \<Longrightarrow> save_experiment_assignment s db g = Inr (db', r5) \<Longrightarrow> adaptive_step db db'"
| episode_step: "older s db \<Longrightarrow> save_episode s db e = Inr (db', r6) \<Longrightarrow> adaptive_step db db'"
| trajectory_step: "older s db \<Longrightarrow> save_trajectory s db t = Inr (db', r7) \<Longrightarrow> adaptive_step db db'"
| outcome_step: "older s db \<Longrightarrow> save_outcome s db obs = Inr (db', r8) \<Longrightarrow> adaptive_step db db'"
| attempt_step: "older s db \<Longrightarrow> save_attempt_v03 s db p = Inr (db', r9) \<Longrightarrow> adaptive_step db db'"
| result_step: "older s db \<Longrightarrow> save_result_v03 s db q = Inr (db', r10) \<Longrightarrow> adaptive_step db db'"

lemma put_field:
  assumes "bind_res (put_once key what seen tab x) (\<lambda>(t, x). Inr (f t, x)) = Inr (d, y)" and "prefix seen tab"
  shows "y = x \<and> (\<exists>t. d = f t \<and> grown key tab t \<and> set t \<subseteq> insert x (set tab))"
proof -
  from assms(1) obtain t where t: "put_once key what seen tab x = Inr (t, y)" "d = f t"
    by (cases "put_once key what seen tab x") auto
  from put_once_facts [OF t(1) assms(2)] t(2) show ?thesis by blast
qed

lemma older_simps:
  "older s db \<Longrightarrow> prefix (ad_contexts s) (ad_contexts db)" "older s db \<Longrightarrow> prefix (ad_bundles s) (ad_bundles db)"
  "older s db \<Longrightarrow> prefix (ad_actions s) (ad_actions db)" "older s db \<Longrightarrow> prefix (ad_assignments s) (ad_assignments db)"
  "older s db \<Longrightarrow> prefix (ad_episodes s) (ad_episodes db)" "older s db \<Longrightarrow> prefix (ad_trajectories s) (ad_trajectories db)"
  "older s db \<Longrightarrow> prefix (ad_outcomes s) (ad_outcomes db)"
  by (simp_all add: older_def)

lemma save_context_facts:
  assumes "older s db" and "save_context s db c = Inr (db', x)"
  shows "x = c \<and> (\<exists>t. db' = db\<lparr>ad_contexts := t\<rparr> \<and> grown ctx_id (ad_contexts db) t \<and> set t \<subseteq> insert c (set (ad_contexts db)))"
  by (rule put_field [OF assms(2) [unfolded save_context_def] older_simps(1) [OF assms(1)]])

lemma publish_facts:
  assumes "older s db" and "publish_policy_bundle s db b = Inr (db', x)"
  shows "x = b \<and> (\<exists>t. db' = db\<lparr>ad_bundles := t\<rparr> \<and> grown pb_bundle_id (ad_bundles db) t \<and> set t \<subseteq> insert b (set (ad_bundles db)))"
  by (rule put_field [OF assms(2) [unfolded publish_policy_bundle_def] older_simps(2) [OF assms(1)]])

lemma assignment_facts:
  assumes "older s db" and "save_experiment_assignment s db g = Inr (db', x)"
  shows "x = g \<and> (\<exists>t. db' = db\<lparr>ad_assignments := t\<rparr> \<and> grown ea_id (ad_assignments db) t \<and> set t \<subseteq> insert g (set (ad_assignments db)))"
  by (rule put_field [OF assms(2) [unfolded save_experiment_assignment_def] older_simps(4) [OF assms(1)]])

lemma activation_facts:
  assumes "activate_policy_bundle s db v = Inr (db', x)"
  shows "\<exists>t. db' = db\<lparr>ad_activations := t\<rparr> \<and> grown aw_id (ad_activations db) t"
proof -
  have "db' = db \<or> (db' = db\<lparr>ad_activations := ad_activations db @ [activation_row_of v]\<rparr> \<and> ba_id v \<notin> aw_id ` set (ad_activations db))"
    using assms by (auto simp: activate_policy_bundle_def split: option.splits if_splits)
  then show ?thesis by (auto simp: grown_def activation_row_of_def intro: exI [of _ "ad_activations db"])
qed

lemma action_facts:
  assumes "older s db" and "save_action s db a = Inr (db', x)"
  shows "context_exact s (ta_context_ref a) \<and> bundle_exact s (ta_bundle_ref a) \<and> x = a \<and>
    (\<exists>t. db' = db\<lparr>ad_actions := t\<rparr> \<and> grown ta_id (ad_actions db) t \<and> set t \<subseteq> insert a (set (ad_actions db)))"
proof -
  from assms(2) have e: "context_exact s (ta_context_ref a)" "bundle_exact s (ta_bundle_ref a)"
    and p: "bind_res (put_once ta_id ''teaching action'' (ad_actions s) (ad_actions db) a)
                    (\<lambda>(t, x). Inr (db\<lparr>ad_actions := t\<rparr>, x)) = Inr (db', x)"
    by (auto simp: save_action_def context_exact_def bundle_exact_def split: option.splits if_splits)
  from e put_field [OF p older_simps(3) [OF assms(1)]] show ?thesis by blast
qed

lemma episode_facts:
  assumes "older s db" and "save_episode s db e = Inr (db', x)"
  shows "list_all (action_exact s) (te_action_refs e) \<and> list_all (bundle_exact s) (te_bundle_refs e) \<and> x = e \<and>
    (\<exists>t. db' = db\<lparr>ad_episodes := t\<rparr> \<and> grown te_id (ad_episodes db) t \<and> set t \<subseteq> insert e (set (ad_episodes db)))"
proof -
  from assms(2) have e: "list_all (action_exact s) (te_action_refs e)" "list_all (bundle_exact s) (te_bundle_refs e)"
    and p: "bind_res (put_once te_id ''teaching episode'' (ad_episodes s) (ad_episodes db) e)
             (\<lambda>(t, x). Inr (db\<lparr>ad_episodes := t\<rparr>, x)) = Inr (db', x)"
    by (simp_all add: save_episode_def split: if_splits)
  from e put_field [OF p older_simps(5) [OF assms(1)]] show ?thesis by blast
qed

lemma trajectory_facts:
  assumes "older s db" and "save_trajectory s db e = Inr (db', x)"
  shows "list_all (episode_exact s) (lt_episode_refs e) \<and> x = e \<and>
    (\<exists>t. db' = db\<lparr>ad_trajectories := t\<rparr> \<and> grown lt_id (ad_trajectories db) t \<and> set t \<subseteq> insert e (set (ad_trajectories db)))"
proof -
  from assms(2) have e: "list_all (episode_exact s) (lt_episode_refs e)"
    and p: "bind_res (put_once lt_id ''learning trajectory'' (ad_trajectories s) (ad_trajectories db) e)
             (\<lambda>(t, x). Inr (db\<lparr>ad_trajectories := t\<rparr>, x)) = Inr (db', x)"
    by (simp_all add: save_trajectory_def split: if_splits)
  from e put_field [OF p older_simps(6) [OF assms(1)]] show ?thesis by blast
qed

definition outcome_exact :: "adaptive_db \<Rightarrow> outcome_observation \<Rightarrow> bool" where
  "outcome_exact db obs \<longleftrightarrow> opt_exact (episode_exact db) (oo_episode_ref obs) \<and>
     opt_exact (trajectory_exact db) (oo_trajectory_ref obs) \<and> opt_exact (assignment_exact db) (oo_experiment obs) \<and>
     (oo_scope obs = ACTION_DIRECT \<longrightarrow> single_action db (oo_episode_ref obs))"

lemma outcome_facts:
  assumes "older s db" and "save_outcome s db e = Inr (db', x)"
  shows "outcome_exact s e \<and> x = e \<and>
    (\<exists>t. db' = db\<lparr>ad_outcomes := t\<rparr> \<and> grown oo_id (ad_outcomes db) t \<and> set t \<subseteq> insert e (set (ad_outcomes db)))"
proof -
  from assms(2) have e: "outcome_exact s e"
    and p: "bind_res (put_once oo_id ''outcome observation'' (ad_outcomes s) (ad_outcomes db) e)
             (\<lambda>(t, x). Inr (db\<lparr>ad_outcomes := t\<rparr>, x)) = Inr (db', x)"
    by (simp_all add: save_outcome_def outcome_exact_def split: if_splits)
  from e put_field [OF p older_simps(7) [OF assms(1)]] show ?thesis by blast
qed

lemma attempt_facts:
  assumes "save_attempt_v03 s db p = Inr (db', x)"
  shows "x = p \<and> (\<exists>t. db' = db\<lparr>ad_attempts := t\<rparr> \<and> grown ax_id (ad_attempts db) t)"
proof -
  have "x = p \<and> (db' = db \<or> at_id p \<notin> ax_id ` set (ad_attempts db) \<and>
     db' = db\<lparr>ad_attempts := ad_attempts db @ [attempt_row_v03 p]\<rparr>)"
    using assms by (auto simp: save_attempt_v03_def split: option.splits if_splits)
  then show ?thesis by (auto simp: grown_def attempt_row_v03_def intro: exI [of _ "ad_attempts db"])
qed

lemma result_facts:
  assumes "save_result_v03 s db q = Inr (db', x)"
  shows "x = q \<and> (\<exists>t. db' = db\<lparr>ad_results := t\<rparr> \<and> grown rx_id (ad_results db) t)"
proof -
  have "x = q \<and> (db' = db \<or> \<not> result_clash (ad_results db) (rs_id q) (rs_attempt q) (rs_version q) \<and>
     db' = db\<lparr>ad_results := ad_results db @ [result_row_v03 q]\<rparr>)"
    using assms by (auto simp: save_result_v03_def split: option.splits if_splits)
  moreover have "rs_id q \<notin> rx_id ` set (ad_results db)"
    if "\<not> result_clash (ad_results db) (rs_id q) (rs_attempt q) (rs_version q)"
    using that by (auto simp: result_clash_def list_ex_iff)
  ultimately show ?thesis by (auto simp: grown_def result_row_v03_def intro: exI [of _ "ad_results db"])
qed

definition all_grown :: "adaptive_db \<Rightarrow> adaptive_db \<Rightarrow> bool" where
  "all_grown d d' \<longleftrightarrow> grown ctx_id (ad_contexts d) (ad_contexts d') \<and> grown pb_bundle_id (ad_bundles d) (ad_bundles d') \<and>
     grown aw_id (ad_activations d) (ad_activations d') \<and> grown ta_id (ad_actions d) (ad_actions d') \<and>
     grown ea_id (ad_assignments d) (ad_assignments d') \<and> grown te_id (ad_episodes d) (ad_episodes d') \<and>
     grown lt_id (ad_trajectories d) (ad_trajectories d') \<and> grown oo_id (ad_outcomes d) (ad_outcomes d') \<and>
     grown ax_id (ad_attempts d) (ad_attempts d') \<and> grown rx_id (ad_results d) (ad_results d')"

lemma adaptive_step_grown: "adaptive_step db db' \<Longrightarrow> all_grown db db'"
proof (induction rule: adaptive_step.induct)
  case (context_step s db c db' r) from save_context_facts [OF this] show ?case by (auto simp: all_grown_def)
next
  case (bundle_step s db c db' r) from publish_facts [OF this] show ?case by (auto simp: all_grown_def)
next
  case (activation_step s db c db' r) from activation_facts [OF this(2)] show ?case by (auto simp: all_grown_def)
next
  case (action_step s db c db' r) from action_facts [OF this] show ?case by (auto simp: all_grown_def)
next
  case (assignment_step s db c db' r) from assignment_facts [OF this] show ?case by (auto simp: all_grown_def)
next
  case (episode_step s db c db' r) from episode_facts [OF this] show ?case by (auto simp: all_grown_def)
next
  case (trajectory_step s db c db' r) from trajectory_facts [OF this] show ?case by (auto simp: all_grown_def)
next
  case (outcome_step s db c db' r) from outcome_facts [OF this] show ?case by (auto simp: all_grown_def)
next
  case (attempt_step s db c db' r) from attempt_facts [OF this(2)] show ?case by (auto simp: all_grown_def)
next
  case (result_step s db c db' r) from result_facts [OF this(2)] show ?case by (auto simp: all_grown_def)
qed

section \<open>What the store promises\<close>

interpretation contexts: append_only adaptive_step ad_contexts ctx_id
  by unfold_locales (drule adaptive_step_grown, simp add: all_grown_def grown_def)
interpretation bundles: append_only adaptive_step ad_bundles pb_bundle_id
  by unfold_locales (drule adaptive_step_grown, simp add: all_grown_def grown_def)
interpretation activations: append_only adaptive_step ad_activations aw_id
  by unfold_locales (drule adaptive_step_grown, simp add: all_grown_def grown_def)
interpretation actions: append_only adaptive_step ad_actions ta_id
  by unfold_locales (drule adaptive_step_grown, simp add: all_grown_def grown_def)
interpretation assignments: append_only adaptive_step ad_assignments ea_id
  by unfold_locales (drule adaptive_step_grown, simp add: all_grown_def grown_def)
interpretation episodes: append_only adaptive_step ad_episodes te_id
  by unfold_locales (drule adaptive_step_grown, simp add: all_grown_def grown_def)
interpretation trajectories: append_only adaptive_step ad_trajectories lt_id
  by unfold_locales (drule adaptive_step_grown, simp add: all_grown_def grown_def)
interpretation outcomes: append_only adaptive_step ad_outcomes oo_id
  by unfold_locales (drule adaptive_step_grown, simp add: all_grown_def grown_def)
interpretation attempts: append_only adaptive_step ad_attempts ax_id
  by unfold_locales (drule adaptive_step_grown, simp add: all_grown_def grown_def)
interpretation results: append_only adaptive_step ad_results rx_id
  by unfold_locales (drule adaptive_step_grown, simp add: all_grown_def grown_def)

lemma reach_older: "adaptive_step\<^sup>*\<^sup>* db db' \<Longrightarrow> older db db'"
proof -
  assume r: "adaptive_step\<^sup>*\<^sup>* db db'"
  show ?thesis unfolding older_def
    using contexts.reach_prefix [OF r] bundles.reach_prefix [OF r] activations.reach_prefix [OF r]
      actions.reach_prefix [OF r] assignments.reach_prefix [OF r] episodes.reach_prefix [OF r]
      trajectories.reach_prefix [OF r] outcomes.reach_prefix [OF r] attempts.reach_prefix [OF r] results.reach_prefix [OF r]
    by simp
qed

lemma adaptive_step_older: "adaptive_step db db' \<Longrightarrow> older db db'"
  by (rule reach_older) (rule r_into_rtranclp)

text \<open>A reference that was exact stays exact.\<close>

lemma exact_older:
  assumes "older s db"
  shows "context_exact s r \<Longrightarrow> context_exact db r" and "bundle_exact s r \<Longrightarrow> bundle_exact db r"
    and "action_exact s r \<Longrightarrow> action_exact db r" and "episode_exact s r \<Longrightarrow> episode_exact db r"
    and "trajectory_exact s r \<Longrightarrow> trajectory_exact db r" and "assignment_exact s r \<Longrightarrow> assignment_exact db r"
proof -
  note p = older_simps [OF assms]
  show "context_exact s r \<Longrightarrow> context_exact db r"
    using by_id_prefix [OF p(1)] by (fastforce simp: context_exact_def split: option.splits)
  show "bundle_exact s r \<Longrightarrow> bundle_exact db r"
    using by_id_prefix [OF p(2)] by (fastforce simp: bundle_exact_def split: option.splits)
  show "action_exact s r \<Longrightarrow> action_exact db r"
    using by_id_prefix [OF p(3)] by (fastforce simp: action_exact_def split: option.splits)
  show "assignment_exact s r \<Longrightarrow> assignment_exact db r"
    using by_id_prefix [OF p(4)] by (fastforce simp: assignment_exact_def split: option.splits)
  show "episode_exact s r \<Longrightarrow> episode_exact db r"
    using by_id_prefix [OF p(5)] by (fastforce simp: episode_exact_def split: option.splits)
  show "trajectory_exact s r \<Longrightarrow> trajectory_exact db r"
    using by_id_prefix [OF p(6)] by (fastforce simp: trajectory_exact_def split: option.splits)
qed

lemma single_action_older: "older s db \<Longrightarrow> single_action s r \<Longrightarrow> single_action db r"
  using by_id_prefix [OF older_simps(5)] by (fastforce simp: single_action_def split: option.splits)

lemma opt_exact_mono: "opt_exact p r \<Longrightarrow> (\<And>x. p x \<Longrightarrow> q x) \<Longrightarrow> opt_exact q r"
  by (cases r) (auto simp: opt_exact_def)

lemma outcome_exact_older: "older s db \<Longrightarrow> outcome_exact s obs \<Longrightarrow> outcome_exact db obs"
  unfolding outcome_exact_def
  by (meson exact_older(4,5,6) single_action_older opt_exact_mono)

definition refs_exact :: "adaptive_db \<Rightarrow> bool" where
  "refs_exact db \<longleftrightarrow>
     (\<forall>a \<in> set (ad_actions db). context_exact db (ta_context_ref a) \<and> bundle_exact db (ta_bundle_ref a)) \<and>
     (\<forall>e \<in> set (ad_episodes db). list_all (action_exact db) (te_action_refs e) \<and> list_all (bundle_exact db) (te_bundle_refs e)) \<and>
     (\<forall>t \<in> set (ad_trajectories db). list_all (episode_exact db) (lt_episode_refs t)) \<and>
     (\<forall>obs \<in> set (ad_outcomes db). outcome_exact db obs)"

lemma refs_exact_older:
  assumes o: "older db db'"
    and a: "\<And>a. a \<in> set (ad_actions db') \<Longrightarrow> a \<in> set (ad_actions db) \<or> context_exact db (ta_context_ref a) \<and> bundle_exact db (ta_bundle_ref a)"
    and e: "\<And>e. e \<in> set (ad_episodes db') \<Longrightarrow> e \<in> set (ad_episodes db) \<or>
      list_all (action_exact db) (te_action_refs e) \<and> list_all (bundle_exact db) (te_bundle_refs e)"
    and t: "\<And>t. t \<in> set (ad_trajectories db') \<Longrightarrow> t \<in> set (ad_trajectories db) \<or> list_all (episode_exact db) (lt_episode_refs t)"
    and u: "\<And>obs. obs \<in> set (ad_outcomes db') \<Longrightarrow> obs \<in> set (ad_outcomes db) \<or> outcome_exact db obs"
    and r: "refs_exact db"
  shows "refs_exact db'"
  unfolding refs_exact_def
proof (intro conjI ballI)
  fix x assume x: "x \<in> set (ad_actions db')"
  from a [OF x] r have "context_exact db (ta_context_ref x) \<and> bundle_exact db (ta_bundle_ref x)" by (auto simp: refs_exact_def)
  then show "context_exact db' (ta_context_ref x)" "bundle_exact db' (ta_bundle_ref x)" using exact_older [OF o] by auto
next
  fix x assume x: "x \<in> set (ad_episodes db')"
  from e [OF x] r have "list_all (action_exact db) (te_action_refs x) \<and> list_all (bundle_exact db) (te_bundle_refs x)"
    by (auto simp: refs_exact_def)
  then show "list_all (action_exact db') (te_action_refs x)" "list_all (bundle_exact db') (te_bundle_refs x)"
    using exact_older [OF o] by (auto simp: list_all_iff)
next
  fix x assume x: "x \<in> set (ad_trajectories db')"
  from t [OF x] r have "list_all (episode_exact db) (lt_episode_refs x)" by (auto simp: refs_exact_def)
  then show "list_all (episode_exact db') (lt_episode_refs x)" using exact_older [OF o] by (auto simp: list_all_iff)
next
  fix x assume x: "x \<in> set (ad_outcomes db')"
  from u [OF x] r have "outcome_exact db x" by (auto simp: refs_exact_def)
  then show "outcome_exact db' x" by (rule outcome_exact_older [OF o])
qed

lemma adaptive_step_refs: "adaptive_step db db' \<Longrightarrow> refs_exact db \<Longrightarrow> refs_exact db'"
proof (rule refs_exact_older [of db], goal_cases)
  case 1 then show ?case by (simp add: adaptive_step_older)
next
  case (2 a)
  from 2(1) show ?case
  proof cases
    case (action_step s x r)
    from action_facts [OF this] exact_older [OF action_step(1)] 2(3) show ?thesis by auto
  qed (use 2(3) in \<open>auto dest: save_context_facts publish_facts activation_facts assignment_facts episode_facts
      trajectory_facts outcome_facts attempt_facts result_facts\<close>)
next
  case (3 e)
  from 3(1) show ?case
  proof cases
    case (episode_step s x r)
    from episode_facts [OF this] exact_older [OF episode_step(1)] 3(3) show ?thesis by (auto simp: list_all_iff)
  qed (use 3(3) in \<open>auto dest: save_context_facts publish_facts activation_facts assignment_facts action_facts
      trajectory_facts outcome_facts attempt_facts result_facts\<close>)
next
  case (4 t)
  from 4(1) show ?case
  proof cases
    case (trajectory_step s x r)
    from trajectory_facts [OF this] exact_older [OF trajectory_step(1)] 4(3) show ?thesis by (auto simp: list_all_iff)
  qed (use 4(3) in \<open>auto dest: save_context_facts publish_facts activation_facts assignment_facts action_facts
      episode_facts outcome_facts attempt_facts result_facts\<close>)
next
  case (5 u)
  from 5(1) show ?case
  proof cases
    case (outcome_step s x r)
    from outcome_facts [OF this] outcome_exact_older [OF outcome_step(1)] 5(3) show ?thesis by auto
  qed (use 5(3) in \<open>auto dest: save_context_facts publish_facts activation_facts assignment_facts action_facts
      episode_facts trajectory_facts attempt_facts result_facts\<close>)
qed

definition empty_adaptive :: adaptive_db where
  "empty_adaptive = \<lparr>ad_contexts = [], ad_bundles = [], ad_activations = [], ad_actions = [], ad_assignments = [],
     ad_episodes = [], ad_trajectories = [], ad_outcomes = [], ad_attempts = [], ad_results = []\<rparr>"

lemma reach_refs: "adaptive_step\<^sup>*\<^sup>* empty_adaptive db \<Longrightarrow> refs_exact db"
proof (induction rule: rtranclp_induct)
  case base then show ?case by (simp add: refs_exact_def empty_adaptive_def)
next
  case (step db db') from step(2,3) show ?case by (rule adaptive_step_refs)
qed

lemma by_id_key: "by_id key t i = Some x \<Longrightarrow> key x = i"
  by (auto simp: by_id_def find_Some_iff)

lemma put_once_known:
  "by_id key t (key x) = Some r \<Longrightarrow> put_once key what t t x = (if r = x then Inr (t, x) else Inl (OVERWRITE what))"
  by (simp add: put_once_def)

text \<open>A stored action is saved again without a change, and no other action takes its id.\<close>

lemma stored_action_kept:
  assumes refs: "refs_exact db" and g: "get_action db i = Some a"
  shows "save_action db db a = Inr (db, a) \<and> (\<forall>b. ta_id b = i \<and> b \<noteq> a \<longrightarrow> (\<exists>e. save_action db db b = Inl e))"
proof (intro conjI allI impI)
  have i: "ta_id a = i" using g by_id_key by (auto simp: get_action_def)
  have "a \<in> set (ad_actions db)" using g by (auto simp: get_action_def by_id_def find_Some_iff)
  with refs have "context_exact db (ta_context_ref a)" "bundle_exact db (ta_bundle_ref a)" by (auto simp: refs_exact_def)
  then show "save_action db db a = Inr (db, a)"
    using g i put_once_known [of ta_id "ad_actions db" a a]
    by (auto simp: save_action_def context_exact_def bundle_exact_def get_action_def split: option.splits)
next
  fix b assume "ta_id b = i \<and> b \<noteq> a"
  then show "\<exists>e. save_action db db b = Inl e"
    using g put_once_known [of ta_id "ad_actions db" b a]
    by (auto simp: save_action_def get_action_def split: option.splits)
qed

text \<open>C37: Whatever saves of the v0.3 contracts are interleaved, with stale reads: ids are unique in
  each of the ten tables, and no row ever changes or goes away. These references name a stored record and its version:
  the context and the policy bundle of an action, the actions and bundles of an episode, the episodes of a trajectory,
  and the episode, trajectory and assignment an outcome is attributed to, a direct attribution being to an episode of
  one action. (The store checks no other reference: not the measurement of an outcome, nor those of activations,
  attempts and results.) A stored action is found by its id for ever, saving it again changes nothing and saving another
  action under its id is refused.\<close>

theorem adaptive_store:
  assumes "adaptive_step\<^sup>*\<^sup>* empty_adaptive db" and "adaptive_step\<^sup>*\<^sup>* db db'"
  shows "(distinct (map ctx_id (ad_contexts db')) \<and> distinct (map pb_bundle_id (ad_bundles db')) \<and>
      distinct (map aw_id (ad_activations db')) \<and> distinct (map ta_id (ad_actions db')) \<and>
      distinct (map ea_id (ad_assignments db')) \<and> distinct (map te_id (ad_episodes db')) \<and>
      distinct (map lt_id (ad_trajectories db')) \<and> distinct (map oo_id (ad_outcomes db')) \<and>
      distinct (map ax_id (ad_attempts db')) \<and> distinct (map rx_id (ad_results db'))) \<and>
    (prefix (ad_contexts db) (ad_contexts db') \<and> prefix (ad_bundles db) (ad_bundles db') \<and>
      prefix (ad_activations db) (ad_activations db') \<and> prefix (ad_actions db) (ad_actions db') \<and>
      prefix (ad_assignments db) (ad_assignments db') \<and> prefix (ad_episodes db) (ad_episodes db') \<and>
      prefix (ad_trajectories db) (ad_trajectories db') \<and> prefix (ad_outcomes db) (ad_outcomes db') \<and>
      prefix (ad_attempts db) (ad_attempts db') \<and> prefix (ad_results db) (ad_results db')) \<and>
    refs_exact db' \<and>
    (\<forall>i a. get_action db i = Some a \<longrightarrow> get_action db' i = Some a \<and> save_action db' db' a = Inr (db', a) \<and>
       (\<forall>b. ta_id b = i \<and> b \<noteq> a \<longrightarrow> (\<exists>e. save_action db' db' b = Inl e)))"
proof -
  have r: "adaptive_step\<^sup>*\<^sup>* empty_adaptive db'" using assms(1,2) by (rule rtranclp_trans)
  have refs: "refs_exact db'" using r by (rule reach_refs)
  have "get_action db' i = Some a \<and> save_action db' db' a = Inr (db', a) \<and>
      (\<forall>b. ta_id b = i \<and> b \<noteq> a \<longrightarrow> (\<exists>e. save_action db' db' b = Inl e))" if k: "get_action db i = Some a" for i a
  proof -
    have g: "get_action db' i = Some a" using actions.reach_find [OF assms(2)] k by (simp add: get_action_def by_id_def)
    from stored_action_kept [OF refs g] g show ?thesis by blast
  qed
  then show ?thesis
    using contexts.reach_distinct [OF r] bundles.reach_distinct [OF r] activations.reach_distinct [OF r]
      actions.reach_distinct [OF r] assignments.reach_distinct [OF r] episodes.reach_distinct [OF r]
      trajectories.reach_distinct [OF r] outcomes.reach_distinct [OF r] attempts.reach_distinct [OF r]
      results.reach_distinct [OF r] refs reach_older [OF assms(2)]
    by (simp add: empty_adaptive_def older_def)
qed

text \<open>Activations are the exception: a second activation under a used id is answered by the first one,
  whatever it says, and under the version of the bundle that was asked for.\<close>

lemma activation_known:
  assumes "by_id pb_bundle_id (ad_bundles db) (vr_id (ba_bundle a)) = Some b"
    and "ver_str (vr_version (ba_bundle a)) = pb_policy_version b"
    and "by_id aw_id (ad_activations db) (ba_id a) = Some r"
  shows "activate_policy_bundle db db a = Inr (db, activation_of b r)"
  using assms by (simp add: activate_policy_bundle_def)

definition sample_bundle :: "string \<Rightarrow> string \<Rightarrow> policy_bundle" where
  "sample_bundle i v = \<lparr>pb_bundle_id = i, pb_schema_version = ''3.0'', pb_policy_version = v, pb_hard_rule_set_version = [],
     pb_stage_mapper_version = [], pb_candidate_table_version = [], pb_feature_schema_version = [],
     pb_normalization_version = [], pb_weight_profile_version = [], pb_anti_oscillation_version = [],
     pb_tie_break_version = [], pb_fallback_profile_version = [], pb_subject_profile_version = None,
     pb_content_digest = [], pb_published_at = 0\<rparr>"

definition sample_activation :: "uuid \<Rightarrow> string \<Rightarrow> string \<Rightarrow> bundle_activation" where
  "sample_activation i b v = \<lparr>ba_id = i, ba_bundle = mk_ref ''PolicyBundle'' b (VerS v), ba_activated = 0,
     ba_supersedes = None, ba_reasons = []\<rparr>"

lemma activation_overwrite_accepted:
  "\<exists>db a x. adaptive_step\<^sup>*\<^sup>* empty_adaptive db \<and> activate_policy_bundle db db a = Inr (db, x) \<and>
     vr_id (ba_bundle x) = ''b1'' \<and> vr_version (ba_bundle x) = VerS ''v2'' \<and> \<not> bundle_exact db (ba_bundle x)"
proof -
  let ?b1 = "sample_bundle ''b1'' ''v1''" and ?b2 = "sample_bundle ''b2'' ''v2''"
  let ?a = "sample_activation ''1'' ''b1'' ''v1''" and ?c = "sample_activation ''1'' ''b2'' ''v2''"
  let ?d1 = "empty_adaptive\<lparr>ad_bundles := [?b1]\<rparr>" and ?d2 = "empty_adaptive\<lparr>ad_bundles := [?b1, ?b2]\<rparr>"
  let ?d3 = "?d2\<lparr>ad_activations := [activation_row_of ?a]\<rparr>"
  have "publish_policy_bundle empty_adaptive empty_adaptive ?b1 = Inr (?d1, ?b1)" by code_simp
  then have 1: "adaptive_step empty_adaptive ?d1" by (rule bundle_step [OF older_refl])
  have "publish_policy_bundle ?d1 ?d1 ?b2 = Inr (?d2, ?b2)" by code_simp
  then have 2: "adaptive_step ?d1 ?d2" by (rule bundle_step [OF older_refl])
  have "activate_policy_bundle ?d2 ?d2 ?a = Inr (?d3, ?a)" by code_simp
  then have 3: "adaptive_step ?d2 ?d3" by (rule activation_step [OF older_refl])
  from 1 2 3 have r: "adaptive_step\<^sup>*\<^sup>* empty_adaptive ?d3" by (meson converse_rtranclp_into_rtranclp rtranclp.rtrancl_refl)
  let ?x = "activation_of ?b2 (activation_row_of ?a)"
  have "activate_policy_bundle ?d3 ?d3 ?c = Inr (?d3, ?x)" by code_simp
  moreover have "vr_id (ba_bundle ?x) = ''b1''" "vr_version (ba_bundle ?x) = VerS ''v2''" by code_simp+
  moreover have "\<not> bundle_exact ?d3 (ba_bundle ?x)" by code_simp
  ultimately show ?thesis using r by blast
qed

definition stored_action :: teaching_action where
  "stored_action = (lesson AE_NONE)\<lparr>ta_context_ref := mk_ref ''TeachingContext'' ''c1'' (VerS ''3.0''),
     ta_bundle_ref := mk_ref ''PolicyBundle'' ''b1'' (VerS ''policy-1'')\<rparr>"

definition stored_db :: adaptive_db where
  "stored_db = empty_adaptive\<lparr>ad_contexts := [demo_ctx], ad_bundles := [demo_bundle], ad_actions := [stored_action]\<rparr>"

lemma stored_reach: "adaptive_step\<^sup>*\<^sup>* empty_adaptive stored_db"
proof -
  let ?d1 = "empty_adaptive\<lparr>ad_contexts := [demo_ctx]\<rparr>" and ?d2 = "empty_adaptive\<lparr>ad_contexts := [demo_ctx], ad_bundles := [demo_bundle]\<rparr>"
  have "save_context empty_adaptive empty_adaptive demo_ctx = Inr (?d1, demo_ctx)"
    by (simp add: save_context_def put_once_def by_id_def empty_adaptive_def)
  then have 1: "adaptive_step empty_adaptive ?d1" by (rule context_step [OF older_refl])
  have "publish_policy_bundle ?d1 ?d1 demo_bundle = Inr (?d2, demo_bundle)"
    by (simp add: publish_policy_bundle_def put_once_def by_id_def empty_adaptive_def)
  then have 2: "adaptive_step ?d1 ?d2" by (rule bundle_step [OF older_refl])
  have "save_action ?d2 ?d2 stored_action = Inr (stored_db, stored_action)"
    by (simp add: save_action_def put_once_def by_id_def empty_adaptive_def stored_db_def stored_action_def demo_ctx_def demo_bundle_def)
  then have 3: "adaptive_step ?d2 stored_db" by (rule action_step [OF older_refl])
  from 1 2 3 show ?thesis by (meson converse_rtranclp_into_rtranclp rtranclp.rtrancl_refl)
qed

theorem adaptive_store_witness:
  "get_action stored_db (ta_id stored_action) = Some stored_action \<and> refs_exact stored_db \<and>
   (\<exists>e. save_action stored_db stored_db (stored_action\<lparr>ta_max_attempts := Some 7\<rparr>) = Inl e)"
proof -
  have g: "get_action stored_db (ta_id stored_action) = Some stored_action"
    by (simp add: get_action_def stored_db_def by_id_def)
  have "stored_action\<lparr>ta_max_attempts := Some 7\<rparr> \<noteq> stored_action" by (simp add: stored_action_def lesson_def)
  moreover have "ta_id (stored_action\<lparr>ta_max_attempts := Some 7\<rparr>) = ta_id stored_action" by simp
  ultimately show ?thesis using adaptive_store [OF stored_reach rtranclp.rtrancl_refl] g by blast
qed

end
