(* ===== verification/Learner.thy ===== *)
theory Learner
  imports Assessment
begin

text \<open>
  \<open>app/domains/learner_model\<close>: which assessment results become learner evidence
  (\<open>adaptive_eligibility.py\<close> and \<open>EvidenceEligibility\<close>), the weighted BKT projection of the
  accepted evidence to a mastery estimate (\<open>projector.py\<close>) and the aggregate learner state
  (\<open>state_projector.py\<close>), with the contracts of \<open>app/contracts/learning.py\<close> they fill.
\<close>

section \<open>Contracts\<close>

record evidence_v1 =
  e1_id :: uuid
  e1_user :: uuid
  e1_unit :: uuid
  e1_attempt :: "uuid option"
  e1_result :: "uuid option"
  e1_accepted_at :: time
  e1_dimension :: dimension
  e1_outcome :: evidence_outcome
  e1_score :: float64
  e1_confidence :: float64
  e1_independence :: independence
  e1_delay_seconds :: int
  e1_novelty :: novelty
  e1_weight :: float64
  e1_difficulty :: "float64 option"
  e1_source_events :: "uuid list"
  e1_reason_codes :: "string list"

definition valid_evidence_v1 :: "evidence_v1 \<Rightarrow> bool" where
  "valid_evidence_v1 e \<longleftrightarrow> unit_range (Some (e1_confidence e)) \<and> 0 \<le> e1_delay_seconds e \<and> 0 \<le> e1_weight e"

record mastery_estimate =
  mm_id :: uuid
  mm_version :: int
  mm_user :: uuid
  mm_unit :: uuid
  mm_competence :: "float64 option"
  mm_confidence :: float64
  mm_independent_successes :: nat
  mm_hint_dependency :: float64
  mm_last_independent :: "time option"
  mm_delayed_recalls :: nat
  mm_transfers :: nat
  mm_misconceptions :: "uuid list"
  mm_evidence_count :: nat
  mm_effective_weight :: float64
  mm_algorithm :: string
  mm_algorithm_version :: string
  mm_sources :: "uuid list"
  mm_created :: time

definition valid_mastery :: "mastery_estimate \<Rightarrow> bool" where
  "valid_mastery e \<longleftrightarrow> 1 \<le> mm_version e \<and> unit_range (mm_competence e) \<and>
     unit_range (Some (mm_confidence e)) \<and> 0 \<le> mm_hint_dependency e \<and> 0 \<le> mm_effective_weight e"

section \<open>Eligibility of v0.3 results\<close>

record eligibility_profile =
  ep_version :: string
  ep_minimum_confidence :: float64
  ep_independence :: "(assistance_state, float64) dict"
  ep_novelty :: "(novelty, float64) dict"

definition weight_of :: "eligibility_profile \<Rightarrow> assistance_state \<Rightarrow> float64" where
  "weight_of p s = (case dict_get (ep_independence p) s of None \<Rightarrow> 0 | Some w \<Rightarrow> w)"

definition valid_eligibility :: "eligibility_profile \<Rightarrow> bool" where
  "valid_eligibility p \<longleftrightarrow> ep_version p \<noteq> [] \<and> unit_range (Some (ep_minimum_confidence p)) \<and>
     fst ` set (ep_independence p) = {INDEPENDENT, ASSISTED, ANSWER_EXPOSED} \<and>
     weight_of p ANSWER_EXPOSED = 0 \<and> weight_of p ASSISTED \<le> weight_of p INDEPENDENT \<and>
     0 \<le> weight_of p ASSISTED"

fun assistance_rank :: "assistance_state \<Rightarrow> nat" where
  "assistance_rank INDEPENDENT = 0"
| "assistance_rank ASSISTED = 1"
| "assistance_rank ANSWER_EXPOSED = 2"

text \<open>\<open>max(states, key=rank)\<close>: the first of the greatest.\<close>

fun most_assisted :: "assistance_state list \<Rightarrow> assistance_state \<Rightarrow> assistance_state" where
  "most_assisted [] s = s"
| "most_assisted (x # xs) s = most_assisted xs (if assistance_rank s < assistance_rank x then x else s)"

record eligibility_input =
  eg_result :: result_v03
  eg_attempt :: attempt_v03
  eg_actual :: "assistance_snapshot option"
  eg_unit :: uuid
  eg_dimension :: dimension
  eg_novelty :: novelty
  eg_delay :: int
  eg_events :: "versioned_ref list"
  eg_difficulty :: "float64 option"

record eligibility_decision =
  ed_accepted :: bool
  ed_reasons :: "string list"
  ed_evidence :: "learner_evidence option"

definition rejected :: "string \<Rightarrow> eligibility_decision" where
  "rejected reason = \<lparr>ed_accepted = False, ed_reasons = [reason], ed_evidence = None\<rparr>"

definition states_of :: "eligibility_input \<Rightarrow> assistance_snapshot \<Rightarrow> assistance_state list" where
  "states_of i actual = [as_state actual, as_state (at_assistance (eg_attempt i)), as_state (rs_assistance (eg_result i))]"

definition effective_state :: "eligibility_input \<Rightarrow> assistance_snapshot \<Rightarrow> assistance_state" where
  "effective_state i actual = most_assisted (tl (states_of i actual)) (hd (states_of i actual))"

definition eligibility_reasons :: "eligibility_profile \<Rightarrow> eligibility_input \<Rightarrow> assistance_snapshot \<Rightarrow> string list" where
  "eligibility_reasons p i actual = [ep_version p] @
     (if card (set (states_of i actual)) > 1 then [''V03_ASSISTANCE_MISMATCH_CONSERVATIVE_MAX''] else []) @
     [case effective_state i actual of
        ANSWER_EXPOSED \<Rightarrow> ''V03_ANSWER_EXPOSED_ZERO_INDEPENDENT_WEIGHT''
      | ASSISTED \<Rightarrow> ''V03_ASSISTED_EVIDENCE_DISCOUNTED''
      | INDEPENDENT \<Rightarrow> ''V03_INDEPENDENT_EVIDENCE'']"

definition outcome_of :: "correctness \<Rightarrow> evidence_outcome" where
  "outcome_of c = (case c of CORRECT \<Rightarrow> SUCCESS | PARTIAL \<Rightarrow> PARTIAL_SUCCESS | _ \<Rightarrow> FAILURE)"

definition make_evidence :: "pyenv \<Rightarrow> eligibility_profile \<Rightarrow> eligibility_input \<Rightarrow> assistance_snapshot \<Rightarrow> float64 \<Rightarrow>
    learner_evidence" where
  "make_evidence env p i actual weight =
     (let r = eg_result i; a = eg_attempt i in
      \<lparr>le_id = uuid5 env (''askora:v03:learner-evidence:'' @ rs_id r), le_schema_version = ''3.0'',
       le_user = at_user a, le_unit = eg_unit i, le_attempt_ref = attempt_ref a, le_result_ref = result_ref r,
       le_accepted_at = rs_created r, le_dimension = eg_dimension i, le_outcome = outcome_of (rs_correctness r),
       le_score = rs_score r, le_confidence = rs_confidence r, le_state = effective_state i actual,
       le_delay_seconds = eg_delay i, le_novelty = eg_novelty i, le_weight = weight,
       le_difficulty = eg_difficulty i, le_source_events = eg_events i,
       le_reason_codes = eligibility_reasons p i actual, le_algorithm = ep_version p\<rparr>)"

definition decide_eligibility :: "pyenv \<Rightarrow> eligibility_profile \<Rightarrow> eligibility_input \<Rightarrow> exn + eligibility_decision" where
  "decide_eligibility env p i =
     (let r = eg_result i; a = eg_attempt i in
      case eg_actual i of
        None \<Rightarrow> Inr (rejected ''V03_ASSISTANCE_UNKNOWN_CONSERVATIVE_REJECT'')
      | Some actual \<Rightarrow>
        if rs_attempt r \<noteq> at_id a \<or> rs_item_version r \<noteq> at_item_version a
        then Inr (rejected ''V03_ATTEMPT_RESULT_MISMATCH'')
        else if rs_reviewer r \<noteq> ACCEPTED \<or> rs_correctness r = UNSCORABLE
        then Inr (rejected ''V03_ASSESSMENT_NOT_ELIGIBLE'')
        else if rs_confidence r < ep_minimum_confidence p
        then Inr (rejected ''V03_ASSESSMENT_CONFIDENCE_TOO_LOW'')
        else if eg_events i = [] then Inr (rejected ''V03_MISSING_AUDIT_EVENT'')
        else case (dict_get (ep_independence p) (effective_state i actual), dict_get (ep_novelty p) (eg_novelty i)) of
            (Some iw, Some nw) \<Rightarrow>
              let e = make_evidence env p i actual (fmul (fmul iw nw) (rs_confidence r)) in
              if valid_evidence e
              then Inr \<lparr>ed_accepted = True, ed_reasons = eligibility_reasons p i actual, ed_evidence = Some e\<rparr>
              else Inl (ValueError ''LEARNER_EVIDENCE_VALIDATION'')
          | _ \<Rightarrow> Inr (rejected ''V03_ELIGIBILITY_PROFILE_INCOMPLETE''))"

section \<open>Eligibility of v1 results\<close>

fun independence_weight :: "independence \<Rightarrow> float64" where
  "independence_weight IND_INDEPENDENT = 1"
| "independence_weight IND_ASSISTED = fl (35 / 100)"
| "independence_weight IND_ANSWER_EXPOSED = 0"

fun novelty_weight :: "novelty \<Rightarrow> float64" where
  "novelty_weight REPEATED = fl (5 / 10)"
| "novelty_weight NEAR_VARIANT = fl (8 / 10)"
| "novelty_weight FAR_VARIANT = 1"

fun independence_reason :: "independence \<Rightarrow> string" where
  "independence_reason IND_ANSWER_EXPOSED = ''ANSWER_EXPOSED_ZERO_WEIGHT''"
| "independence_reason IND_ASSISTED = ''ASSISTED_EVIDENCE_DISCOUNTED''"
| "independence_reason IND_INDEPENDENT = ''INDEPENDENT_EVIDENCE''"

definition eligibility_v1_version :: string where
  "eligibility_v1_version = ''evidence-eligibility/1.0''"

definition make_evidence_v1 :: "pyenv \<Rightarrow> result_v1 \<Rightarrow> attempt_v1 \<Rightarrow> uuid \<Rightarrow> dimension \<Rightarrow> novelty \<Rightarrow> int \<Rightarrow>
    uuid list \<Rightarrow> float64 option \<Rightarrow> evidence_v1" where
  "make_evidence_v1 env r a kunit dimn nov delay events difficulty =
    \<lparr>e1_id = uuid5 env (''askora:evidence:'' @ r1_id r), e1_user = t1_user a, e1_unit = kunit,
     e1_attempt = Some (t1_id a), e1_result = Some (r1_id r), e1_accepted_at = r1_created r,
     e1_dimension = dimn, e1_outcome = outcome_of (r1_correctness r), e1_score = r1_score r,
     e1_confidence = r1_confidence r, e1_independence = r1_independence r, e1_delay_seconds = delay,
     e1_novelty = nov,
     e1_weight = fmul (fmul (independence_weight (r1_independence r)) (novelty_weight nov)) (r1_confidence r),
     e1_difficulty = difficulty, e1_source_events = events,
     e1_reason_codes = [eligibility_v1_version, independence_reason (r1_independence r)]\<rparr>"

text \<open>A rejection is \<open>Inr (Inl reason)\<close>, an accepted result \<open>Inr (Inr evidence)\<close>.\<close>

definition decide_eligibility_v1 :: "pyenv \<Rightarrow> result_v1 \<Rightarrow> attempt_v1 \<Rightarrow> uuid \<Rightarrow> dimension \<Rightarrow> novelty \<Rightarrow> int \<Rightarrow>
    uuid list \<Rightarrow> float64 option \<Rightarrow> exn + string + evidence_v1" where
  "decide_eligibility_v1 env r a kunit dimn nov delay events difficulty =
     (if r1_attempt r \<noteq> t1_id a \<or> r1_item_version r \<noteq> t1_item_version a
      then Inr (Inl ''ITEM_OR_ATTEMPT_VERSION_MISMATCH'')
      else if r1_reviewer r \<noteq> ACCEPTED then Inr (Inl ''ASSESSMENT_NOT_ACCEPTED'')
      else if r1_correctness r = UNSCORABLE then Inr (Inl ''ASSESSMENT_UNSCORABLE'')
      else if r1_confidence r < 1 / 2 then Inr (Inl ''ASSESSMENT_CONFIDENCE_TOO_LOW'')
      else if events = [] then Inr (Inl ''MISSING_AUDIT_EVENT'')
      else let e = make_evidence_v1 env r a kunit dimn nov delay events difficulty in
        if valid_evidence_v1 e then Inr (Inr e) else Inl (ValueError ''LEARNER_EVIDENCE_VALIDATION''))"

section \<open>The weighted BKT projector\<close>

text \<open>\<open>LearnerEvidence | LearnerEvidenceV03\<close> and the attributes the projector reads of either.\<close>

datatype evidence = Legacy evidence_v1 | Canonical learner_evidence

fun ev_id :: "evidence \<Rightarrow> uuid" where
  "ev_id (Legacy e) = e1_id e" | "ev_id (Canonical e) = le_id e"

fun ev_accepted_at :: "evidence \<Rightarrow> time" where
  "ev_accepted_at (Legacy e) = e1_accepted_at e" | "ev_accepted_at (Canonical e) = le_accepted_at e"

fun ev_outcome :: "evidence \<Rightarrow> evidence_outcome" where
  "ev_outcome (Legacy e) = e1_outcome e" | "ev_outcome (Canonical e) = le_outcome e"

fun ev_weight :: "evidence \<Rightarrow> float64" where
  "ev_weight (Legacy e) = e1_weight e" | "ev_weight (Canonical e) = le_weight e"

fun ev_delay :: "evidence \<Rightarrow> int" where
  "ev_delay (Legacy e) = e1_delay_seconds e" | "ev_delay (Canonical e) = le_delay_seconds e"

fun ev_dimension :: "evidence \<Rightarrow> dimension" where
  "ev_dimension (Legacy e) = e1_dimension e" | "ev_dimension (Canonical e) = le_dimension e"

fun ev_independent :: "evidence \<Rightarrow> bool" where
  "ev_independent (Legacy e) = (e1_independence e = IND_INDEPENDENT)"
| "ev_independent (Canonical e) = (le_state e = INDEPENDENT)"

definition p_init :: float64 where "p_init = fl (30 / 100)"
definition p_transit :: float64 where "p_transit = fl (15 / 100)"
definition p_slip :: float64 where "p_slip = fl (10 / 100)"
definition p_guess :: float64 where "p_guess = fl (20 / 100)"

fun likelihoods :: "evidence_outcome \<Rightarrow> float64 \<times> float64" where
  "likelihoods SUCCESS = (fsub 1 p_slip, p_guess)"
| "likelihoods FAILURE = (p_slip, fsub 1 p_guess)"
| "likelihoods PARTIAL_SUCCESS = (1 / 2, 1 / 2)"

definition bkt_observed :: "float64 \<Rightarrow> evidence_outcome \<Rightarrow> float64" where
  "bkt_observed p outcome =
     (let (mastered, unmastered) = likelihoods outcome;
          denominator = fadd (fmul p mastered) (fmul (fsub 1 p) unmastered)
      in case fdiv (fmul p mastered) denominator of None \<Rightarrow> p | Some x \<Rightarrow> x)"

definition bkt_step :: "float64 \<Rightarrow> evidence \<Rightarrow> float64" where
  "bkt_step p e =
     (let weighted = fadd p (fmul (ev_weight e) (fsub (bkt_observed p (ev_outcome e)) p));
          learned = fadd weighted (fmul (fmul (fsub 1 weighted) p_transit) (ev_weight e))
      in min 1 (max 0 learned))"

definition ordered_evidence :: "uuid set \<Rightarrow> evidence list \<Rightarrow> evidence list" where
  "ordered_evidence invalidated es =
     sort_key (\<lambda>e. (ev_accepted_at e, ev_id e)) (filter (\<lambda>e. ev_id e \<notin> invalidated) es)"

definition effective_weight :: "evidence list \<Rightarrow> float64" where
  "effective_weight es = foldl (\<lambda>w e. fadd w (ev_weight e)) 0 es"

definition competence :: "evidence list \<Rightarrow> float64" where
  "competence es = foldl bkt_step p_init es"

text \<open>\<open>max\<close> of instants, with the default given.\<close>

definition latest :: "time \<Rightarrow> time list \<Rightarrow> time" where
  "latest d ts = (if ts = [] then d else fold max (tl ts) (hd ts))"

definition bkt_version :: string where "bkt_version = ''1.0''"

definition estimate_of :: "pyenv \<Rightarrow> uuid \<Rightarrow> uuid \<Rightarrow> int \<Rightarrow> evidence list \<Rightarrow> mastery_estimate option" where
  "estimate_of env user kunit version ordered =
     (let weight = effective_weight ordered;
          successes = filter (\<lambda>e. ev_outcome e = SUCCESS) ordered;
          independent = filter ev_independent successes;
          assisted_weight = fsum (map ev_weight (filter (\<lambda>e. \<not> ev_independent e) ordered));
          ids = map ev_id ordered
      in case fdiv weight (fadd weight 2) of
           None \<Rightarrow> None
         | Some confidence \<Rightarrow> Some
            \<lparr>mm_id = uuid5 env (''askora:mastery:'' @ str_join '':'' ([user, kunit, int_str version, bkt_version] @ ids)),
             mm_version = version, mm_user = user, mm_unit = kunit,
             mm_competence = Some (competence ordered), mm_confidence = confidence,
             mm_independent_successes = length independent,
             mm_hint_dependency = (case fdiv assisted_weight weight of None \<Rightarrow> 0 | Some x \<Rightarrow> x),
             mm_last_independent = (if independent = [] then None else Some (latest 0 (map ev_accepted_at independent))),
             mm_delayed_recalls = length (filter (\<lambda>e. 86400 \<le> ev_delay e) successes),
             mm_transfers = length (filter (\<lambda>e. ev_dimension e = TRANSFER) successes),
             mm_misconceptions = [], mm_evidence_count = length ordered, mm_effective_weight = weight,
             mm_algorithm = ''weighted-bkt'', mm_algorithm_version = bkt_version, mm_sources = ids,
             mm_created = latest 0 (map ev_accepted_at ordered)\<rparr>)"

text \<open>\<open>WeightedBKTProjector.project\<close>: division by zero, or an estimate its contract refuses.\<close>

definition project_mastery :: "pyenv \<Rightarrow> uuid \<Rightarrow> uuid \<Rightarrow> evidence list \<Rightarrow> int \<Rightarrow> uuid set \<Rightarrow> exn + mastery_estimate" where
  "project_mastery env user kunit es version invalidated =
     (case estimate_of env user kunit version (ordered_evidence invalidated es) of
        None \<Rightarrow> Inl ZeroDivision
      | Some m \<Rightarrow> if valid_mastery m then Inr m else Inl (ValueError ''MASTERY_VALIDATION''))"

section \<open>The aggregate learner state\<close>

text \<open>\<open>ls_hypotheses\<close> is \<open>active_misconception_hypotheses\<close>, a tuple of dictionaries; the projection leaves it at
  its default.\<close>

record learner_state =
  ls_id :: uuid
  ls_schema_version :: string
  ls_version :: int
  ls_user :: uuid
  ls_estimate_ids :: "uuid list"
  ls_estimate_refs :: "versioned_ref list"
  ls_hypotheses :: "(string, pyval) dict list"
  ls_unit_count :: nat
  ls_evidence_count :: nat
  ls_uncertain :: "uuid list"
  ls_sequence :: int
  ls_algorithm :: string
  ls_created :: time

definition min_current_confidence :: float64 where
  "min_current_confidence = 1 / 4"

definition uncertain :: "mastery_estimate \<Rightarrow> bool" where
  "uncertain m \<longleftrightarrow> mm_competence m = None \<or> mm_confidence m < min_current_confidence"

definition project_state :: "pyenv \<Rightarrow> uuid \<Rightarrow> uuid \<Rightarrow> mastery_estimate list \<Rightarrow> int \<Rightarrow> int \<Rightarrow> time \<Rightarrow> learner_state" where
  "project_state env user workspace estimates version sequence created =
     (let ordered = sort_key (\<lambda>m. (mm_unit m, mm_version m)) (filter (\<lambda>m. mm_user m = user) estimates) in
      \<lparr>ls_id = uuid5 env (''askora:learner-state:'' @ user @ '':'' @ workspace), ls_schema_version = ''1.0'',
       ls_version = version, ls_user = user, ls_estimate_ids = map mm_id ordered,
       ls_estimate_refs = map (\<lambda>m. mk_ref ''MasteryEstimate'' (mm_id m) (VerI (mm_version m))) ordered,
       ls_hypotheses = [],
       ls_unit_count = length ordered, ls_evidence_count = sum_list (map mm_evidence_count ordered),
       ls_uncertain = map mm_unit (filter uncertain ordered), ls_sequence = sequence,
       ls_algorithm = ''learner-state-aggregate-v1'', ls_created = created\<rparr>)"

section \<open>Eligibility\<close>

lemma most_assisted_facts:
  "most_assisted xs s \<in> insert s (set xs)
   \<and> (\<forall>x \<in> insert s (set xs). assistance_rank x \<le> assistance_rank (most_assisted xs s))"
proof (induction xs arbitrary: s)
  case (Cons x xs)
  show ?case
    using Cons.IH [of x] Cons.IH [of s]
    by (cases "assistance_rank s < assistance_rank x") (auto intro: order.trans less_imp_le)
qed simp

lemma effective_state_facts:
  "effective_state i actual \<in> set (states_of i actual)"
  "s \<in> set (states_of i actual) \<Longrightarrow> assistance_rank s \<le> assistance_rank (effective_state i actual)"
proof -
  have set: "insert (hd (states_of i actual)) (set (tl (states_of i actual))) = set (states_of i actual)"
    by (auto simp: states_of_def)
  note m = most_assisted_facts [of "tl (states_of i actual)" "hd (states_of i actual)", unfolded set]
  show "effective_state i actual \<in> set (states_of i actual)"
    and "s \<in> set (states_of i actual) \<Longrightarrow> assistance_rank s \<le> assistance_rank (effective_state i actual)"
    using m unfolding effective_state_def by blast+
qed

lemma most_exposed: "assistance_rank ANSWER_EXPOSED \<le> assistance_rank s \<longleftrightarrow> s = ANSWER_EXPOSED"
  by (cases s) auto

lemma eligibility_accepted:
  assumes "decide_eligibility env p i = Inr d" and "ed_evidence d = Some e"
  obtains actual iw nw where "eg_actual i = Some actual"
    and "rs_attempt (eg_result i) = at_id (eg_attempt i)" and "rs_reviewer (eg_result i) = ACCEPTED"
    and "rs_correctness (eg_result i) \<noteq> UNSCORABLE" and "ep_minimum_confidence p \<le> rs_confidence (eg_result i)"
    and "dict_get (ep_independence p) (effective_state i actual) = Some iw"
    and "dict_get (ep_novelty p) (eg_novelty i) = Some nw"
    and "e = make_evidence env p i actual (fmul (fmul iw nw) (rs_confidence (eg_result i)))"
    and "valid_evidence e"
  using assms
  by (auto simp: decide_eligibility_def rejected_def Let_def split: option.splits if_splits)

lemma make_evidence_simps [simp]:
  "le_state (make_evidence env p i actual w) = effective_state i actual"
  "le_weight (make_evidence env p i actual w) = w"
  "le_outcome (make_evidence env p i actual w) = outcome_of (rs_correctness (eg_result i))"
  "le_confidence (make_evidence env p i actual w) = rs_confidence (eg_result i)"
  "le_source_events (make_evidence env p i actual w) = eg_events i"
  by (simp_all add: make_evidence_def Let_def)

lemma exposed_weight_zero:
  assumes "valid_eligibility p" and "dict_get (ep_independence p) ANSWER_EXPOSED = Some iw"
  shows "fmul (fmul iw nw) c = 0"
  using assms by (simp add: valid_eligibility_def weight_of_def fmul_def)

text \<open>C16: accepted evidence carries the most assisted of the three recorded states, so
  help that any of them knows of is never forgotten; answer-exposed evidence has no weight; and
  only accepted, scorable results of the same attempt with an audit event are accepted.\<close>

theorem eligibility_is_conservative:
  assumes "valid_eligibility p" and "decide_eligibility env p i = Inr d" and "ed_evidence d = Some e"
  shows "valid_evidence e
    \<and> (\<exists>actual. eg_actual i = Some actual \<and> le_state e \<in> set (states_of i actual)
        \<and> (\<forall>s \<in> set (states_of i actual). assistance_rank s \<le> assistance_rank (le_state e)))
    \<and> (le_state e = ANSWER_EXPOSED \<longrightarrow> le_weight e = 0)
    \<and> rs_attempt (eg_result i) = at_id (eg_attempt i) \<and> rs_reviewer (eg_result i) = ACCEPTED
    \<and> rs_correctness (eg_result i) \<noteq> UNSCORABLE \<and> le_source_events e \<noteq> []"
  using assms(2,3)
proof (rule eligibility_accepted)
  fix actual iw nw
  assume a: "eg_actual i = Some actual" "rs_attempt (eg_result i) = at_id (eg_attempt i)"
    "rs_reviewer (eg_result i) = ACCEPTED" "rs_correctness (eg_result i) \<noteq> UNSCORABLE"
    and iw: "dict_get (ep_independence p) (effective_state i actual) = Some iw"
    and e: "e = make_evidence env p i actual (fmul (fmul iw nw) (rs_confidence (eg_result i)))"
    and v: "valid_evidence e"
  have "le_weight e = 0" if "le_state e = ANSWER_EXPOSED"
    using that iw exposed_weight_zero [OF assms(1), of iw] by (simp add: e)
  moreover have "le_source_events e \<noteq> []" using v by (simp add: valid_evidence_def)
  ultimately show ?thesis
    using a v effective_state_facts(1) [of i actual] effective_state_facts(2) [of _ i actual] by (auto simp: e)
qed

section \<open>Ordering of evidence\<close>

lemma sort_key_perm:
  assumes "mset xs = mset ys" and "inj_on k (set xs)"
  shows "sort_key k xs = sort_key k ys"
proof -
  have "sort (map k xs) = map k (sort_key k ys)"
    by (rule properties_for_sort) (simp_all only: mset_map mset_sort assms(1) sorted_sort_key)
  moreover have "sort (map k xs) = map k (sort_key k xs)"
    by (rule properties_for_sort) (simp_all only: mset_map mset_sort sorted_sort_key)
  ultimately have "map k (sort_key k xs) = map k (sort_key k ys)" by simp
  moreover have "set xs = set ys" using assms(1) by (rule mset_eq_setD)
  ultimately show ?thesis
    using assms(2) by (intro map_inj_on [of k]) simp_all
qed

lemma ordered_evidence_perm:
  assumes "mset es = mset fs" and "inj_on ev_id (set es)"
  shows "ordered_evidence gone es = ordered_evidence gone fs"
  unfolding ordered_evidence_def
  by (rule sort_key_perm) (use assms in \<open>auto simp: inj_on_def mset_filter\<close>)

lemma ordered_evidence_filter:
  "filter P (ordered_evidence gone es) = ordered_evidence gone (filter P es)"
  by (simp add: ordered_evidence_def filter_sort conj_commute)

lemma ordered_evidence_set: "set (ordered_evidence gone es) = {e \<in> set es. ev_id e \<notin> gone}"
  by (auto simp: ordered_evidence_def)

section \<open>Bounds of the projection\<close>

lemma bkt_step_unit: "0 \<le> bkt_step p e \<and> bkt_step p e \<le> 1 \<and> is_f64 (bkt_step p e)"
  unfolding bkt_step_def Let_def fadd_def is_f64_def f64.clamp_fixed by auto

lemma p_init_unit: "0 \<le> p_init \<and> p_init \<le> 1 \<and> is_f64 p_init"
  using f64.in_unit [of "30 / 100"] by (simp add: p_init_def)

lemma competence_from:
  "0 \<le> p \<and> p \<le> 1 \<and> is_f64 p \<Longrightarrow>
    0 \<le> foldl bkt_step p es \<and> foldl bkt_step p es \<le> 1 \<and> is_f64 (foldl bkt_step p es)"
  by (induction es arbitrary: p) (simp_all add: bkt_step_unit)

lemma competence_unit: "0 \<le> competence es \<and> competence es \<le> 1"
  using competence_from [OF p_init_unit] by (simp add: competence_def)

lemma effective_weight_from:
  "0 \<le> w \<and> is_f64 w \<Longrightarrow> \<forall>e \<in> set es. 0 \<le> ev_weight e \<Longrightarrow>
    0 \<le> foldl (\<lambda>w e. fadd w (ev_weight e)) w es \<and> is_f64 (foldl (\<lambda>w e. fadd w (ev_weight e)) w es)"
  by (induction es arbitrary: w) (simp_all add: fadd_def fl_nonneg)

lemma effective_weight_nonneg:
  "\<forall>e \<in> set es. 0 \<le> ev_weight e \<Longrightarrow> 0 \<le> effective_weight es \<and> is_f64 (effective_weight es)"
  unfolding effective_weight_def by (rule effective_weight_from) simp_all

lemma confidence_unit:
  assumes "0 \<le> w" and "is_f64 w"
  shows "\<exists>c. fdiv w (fadd w 2) = Some c \<and> 0 \<le> c \<and> c \<le> 1"
proof -
  have "fl 2 \<le> fl (w + 2)" using assms(1) by (intro fl_mono) simp
  then have two: "2 \<le> fadd w 2" by (simp add: fadd_def)
  have "fl w \<le> fl (w + 2)" by (intro fl_mono) simp
  then have "w \<le> fadd w 2" using assms(2) by (simp add: fadd_def is_f64_def)
  with two assms(1) have "0 \<le> w / fadd w 2" "w / fadd w 2 \<le> 1" by simp_all
  then have "0 \<le> fl (w / fadd w 2) \<and> fl (w / fadd w 2) \<le> 1" by (rule f64.in_unit)
  with two show ?thesis by (simp add: fdiv_def)
qed

lemma fdiv_nonneg: "0 \<le> x \<Longrightarrow> 0 \<le> y \<Longrightarrow> fdiv x y = Some z \<Longrightarrow> 0 \<le> z"
  by (auto simp: fdiv_def fl_nonneg split: if_splits)

lemma estimate_fields:
  assumes "estimate_of env user kunit version es = Some m"
  shows "mm_competence m = Some (competence es)" and "mm_effective_weight m = effective_weight es"
    and "fdiv (effective_weight es) (fadd (effective_weight es) 2) = Some (mm_confidence m)"
    and "mm_hint_dependency m = (case fdiv (fsum (map ev_weight (filter (\<lambda>e. \<not> ev_independent e) es)))
          (effective_weight es) of None \<Rightarrow> 0 | Some x \<Rightarrow> x)"
    and "mm_version m = version"
    and "mm_sources m = map ev_id es" and "mm_evidence_count m = length es"
    and "mm_delayed_recalls m = length (filter (\<lambda>e. ev_outcome e = SUCCESS \<and> 86400 \<le> ev_delay e) es)"
    and "mm_transfers m = length (filter (\<lambda>e. ev_outcome e = SUCCESS \<and> ev_dimension e = TRANSFER) es)"
    and "mm_independent_successes m = length (filter (\<lambda>e. ev_outcome e = SUCCESS \<and> ev_independent e) es)"
  using assms by (auto simp: estimate_of_def Let_def conj_commute split: option.splits)

lemma estimate_valid:
  assumes "\<forall>e \<in> set es. 0 \<le> ev_weight e" and "1 \<le> version"
  shows "\<exists>m. estimate_of env user kunit version es = Some m \<and> valid_mastery m"
proof -
  have w: "0 \<le> effective_weight es" "is_f64 (effective_weight es)"
    using effective_weight_nonneg [OF assms(1)] by simp_all
  obtain c where c: "fdiv (effective_weight es) (fadd (effective_weight es) 2) = Some c" "0 \<le> c" "c \<le> 1"
    using confidence_unit [OF w] by blast
  have "0 \<le> fsum (map ev_weight (filter (\<lambda>e. \<not> ev_independent e) es))"
    using assms(1) by (intro fsum_nonneg) auto
  then have h: "0 \<le> (case fdiv (fsum (map ev_weight (filter (\<lambda>e. \<not> ev_independent e) es))) (effective_weight es) of
      None \<Rightarrow> 0 | Some x \<Rightarrow> x)"
    using fdiv_nonneg [OF _ w(1)] by (simp split: option.splits)
  obtain m where m: "estimate_of env user kunit version es = Some m"
    by (simp add: estimate_of_def Let_def c(1))
  note f = estimate_fields [OF m]
  have "mm_confidence m = c" using f(3) c(1) by simp
  with f(1,2,4,5) have "valid_mastery m"
    using assms(2) c(2,3) w(1) h competence_unit [of es] by (simp add: valid_mastery_def unit_range_def)
  with m show ?thesis by blast
qed

lemma project_total:
  assumes "\<forall>e \<in> set es. 0 \<le> ev_weight e" and "1 \<le> version"
  shows "\<exists>m. project_mastery env user kunit es version gone = Inr m
    \<and> estimate_of env user kunit version (ordered_evidence gone es) = Some m"
proof -
  have "\<forall>e \<in> set (ordered_evidence gone es). 0 \<le> ev_weight e"
    using assms(1) by (simp add: ordered_evidence_set)
  from estimate_valid [OF this assms(2), of env user kunit] show ?thesis by (auto simp: project_mastery_def)
qed

lemma project_elim:
  "project_mastery env user kunit es version gone = Inr m \<Longrightarrow>
    estimate_of env user kunit version (ordered_evidence gone es) = Some m \<and> valid_mastery m"
  by (auto simp: project_mastery_def split: option.splits if_splits)

text \<open>For evidence of non-negative weight the projection never fails: there is no
  division by zero, the competence and the confidence are in the unit interval and the counts are
  consistent, for any number, order and weight of evidence items.\<close>

theorem mastery_within_bounds:
  assumes "\<forall>e \<in> set es. 0 \<le> ev_weight e" and "1 \<le> version"
  shows "\<exists>m p. project_mastery env user kunit es version gone = Inr m
    \<and> mm_competence m = Some p \<and> 0 \<le> p \<and> p \<le> 1 \<and> 0 \<le> mm_confidence m \<and> mm_confidence m \<le> 1
    \<and> 0 \<le> mm_hint_dependency m
    \<and> mm_evidence_count m = length (filter (\<lambda>e. ev_id e \<notin> gone) es)
    \<and> set (mm_sources m) = ev_id ` set es - gone
    \<and> mm_independent_successes m \<le> mm_evidence_count m"
proof -
  obtain m where m: "project_mastery env user kunit es version gone = Inr m"
    "estimate_of env user kunit version (ordered_evidence gone es) = Some m"
    using project_total [OF assms] by blast
  note f = estimate_fields [OF m(2)] and v = project_elim [OF m(1)]
  have "length (ordered_evidence gone es) = length (filter (\<lambda>e. ev_id e \<notin> gone) es)"
    by (simp add: ordered_evidence_def)
  moreover have "ev_id ` set (ordered_evidence gone es) = ev_id ` set es - gone"
    by (auto simp: ordered_evidence_set)
  moreover have "mm_independent_successes m \<le> mm_evidence_count m"
    by (simp only: f(7,10) length_filter_le)
  ultimately show ?thesis
    using m(1) v f(1,6,7) competence_unit [of "ordered_evidence gone es"]
    by (auto simp: valid_mastery_def unit_range_def)
qed

section \<open>Replay and zero weight\<close>

text \<open>C17: the estimate depends on which evidence there is and not on the order it is
  replayed in, and invalidated evidence has no part in it.\<close>

theorem mastery_replay_deterministic:
  assumes "mset (filter (\<lambda>e. ev_id e \<notin> gone) es) = mset fs" and "inj_on ev_id (set fs)"
  shows "project_mastery env user kunit es version gone = project_mastery env user kunit fs version {}"
proof -
  have "ordered_evidence gone es = ordered_evidence {} (filter (\<lambda>e. ev_id e \<notin> gone) es)"
    by (simp add: ordered_evidence_def)
  also have "\<dots> = ordered_evidence {} fs"
    using assms(2) mset_eq_setD [OF assms(1)] by (intro ordered_evidence_perm assms(1)) simp
  finally show ?thesis by (simp add: project_mastery_def)
qed

lemma fadd_zero: "is_f64 x \<Longrightarrow> fadd x 0 = x"
  by (simp add: fadd_def is_f64_def)

lemma bkt_step_zero:
  assumes "ev_weight e = 0" and "0 \<le> p \<and> p \<le> 1 \<and> is_f64 p"
  shows "bkt_step p e = p"
  using assms by (simp add: bkt_step_def Let_def fmul_def fadd_zero)

lemma competence_filter:
  "0 \<le> p \<and> p \<le> 1 \<and> is_f64 p \<Longrightarrow>
    foldl bkt_step p (filter (\<lambda>e. ev_weight e \<noteq> 0) es) = foldl bkt_step p es"
proof (induction es arbitrary: p)
  case (Cons e es)
  then show ?case by (cases "ev_weight e = 0") (simp_all add: bkt_step_zero bkt_step_unit)
qed simp

lemma weight_filter:
  "is_f64 w \<Longrightarrow> foldl (\<lambda>w e. fadd w (ev_weight e)) w (filter (\<lambda>e. ev_weight e \<noteq> 0) es)
     = foldl (\<lambda>w e. fadd w (ev_weight e)) w es"
  by (induction es arbitrary: w) (auto simp: fadd_zero fadd_def is_f64_def)

lemma fsum_filter:
  "fsum (map ev_weight (filter (\<lambda>e. ev_weight e \<noteq> 0) es)) = fsum (map ev_weight es)"
proof -
  have "is_f64 w \<Longrightarrow> foldl fadd w (map ev_weight (filter (\<lambda>e. ev_weight e \<noteq> 0) es)) = foldl fadd w (map ev_weight es)" for w
    by (induction es arbitrary: w) (auto simp: fadd_zero fadd_def is_f64_def)
  from this [of 0] show ?thesis by (simp add: fsum_def)
qed

lemma neutral_without_weight:
  assumes "project_mastery env user kunit es version gone = Inr m"
    and "project_mastery env user kunit (filter (\<lambda>e. ev_weight e \<noteq> 0) es) version gone = Inr n"
  shows "mm_competence m = mm_competence n \<and> mm_confidence m = mm_confidence n
    \<and> mm_effective_weight m = mm_effective_weight n \<and> mm_hint_dependency m = mm_hint_dependency n"
proof -
  define xs where "xs = ordered_evidence gone es"
  have m: "estimate_of env user kunit version xs = Some m"
    using project_elim [OF assms(1)] by (simp add: xs_def)
  have n: "estimate_of env user kunit version (filter (\<lambda>e. ev_weight e \<noteq> 0) xs) = Some n"
    using project_elim [OF assms(2)] by (simp add: xs_def ordered_evidence_filter)
  have c: "competence (filter (\<lambda>e. ev_weight e \<noteq> 0) xs) = competence xs"
    unfolding competence_def by (rule competence_filter [OF p_init_unit])
  have w: "effective_weight (filter (\<lambda>e. ev_weight e \<noteq> 0) xs) = effective_weight xs"
    unfolding effective_weight_def by (rule weight_filter) simp
  have a: "fsum (map ev_weight (filter (\<lambda>e. \<not> ev_independent e) (filter (\<lambda>e. ev_weight e \<noteq> 0) xs)))
      = fsum (map ev_weight (filter (\<lambda>e. \<not> ev_independent e) xs))"
    using fsum_filter [of "filter (\<lambda>e. \<not> ev_independent e) xs"] by (simp add: conj_commute)
  note fm = estimate_fields [OF m] and fn = estimate_fields [OF n, unfolded c w a]
  from fm(3) fn(3) have "mm_confidence m = mm_confidence n" by simp
  with fm fn show ?thesis by simp
qed

lemma counted_more:
  "length (filter P (ordered_evidence gone (e # es)))
     = length (filter P (ordered_evidence gone es)) + (if P e \<and> ev_id e \<notin> gone then 1 else 0)"
  by (simp add: ordered_evidence_def filter_sort conj_commute)

text \<open>A success after the answer was exposed leaves the competence, the
  confidence, the effective weight and the hint dependency of an estimate exactly as they were,
  and is not an independent success; but the counts of delayed recalls and transfers go up as if
  it were one.\<close>

theorem exposed_success_moves_no_estimate:
  assumes "valid_eligibility p" and "decide_eligibility env p i = Inr d" and "ed_evidence d = Some e"
    and "le_state e = ANSWER_EXPOSED" and "le_outcome e = SUCCESS" and "86400 \<le> le_delay_seconds e"
    and "project_mastery env user kunit (Canonical e # es) version {} = Inr m"
    and "project_mastery env user kunit es version {} = Inr n"
    and "\<forall>x \<in> set es. 0 \<le> ev_weight x" and "1 \<le> version"
  shows "mm_competence m = mm_competence n \<and> mm_confidence m = mm_confidence n
    \<and> mm_effective_weight m = mm_effective_weight n \<and> mm_hint_dependency m = mm_hint_dependency n
    \<and> mm_independent_successes m = mm_independent_successes n
    \<and> mm_delayed_recalls m = mm_delayed_recalls n + 1"
proof -
  obtain iw nw actual where iw: "dict_get (ep_independence p) (effective_state i actual) = Some iw"
    and e: "e = make_evidence env p i actual (fmul (fmul iw nw) (rs_confidence (eg_result i)))"
    using assms(2,3) by (rule eligibility_accepted) (rule that)
  have "ev_weight (Canonical e) = 0"
    using exposed_weight_zero [OF assms(1), of iw] iw assms(4) by (simp add: e)
  then have w: "filter (\<lambda>e. ev_weight e \<noteq> 0) (Canonical e # es) = filter (\<lambda>e. ev_weight e \<noteq> 0) es"
    by simp
  have "\<forall>x \<in> set (filter (\<lambda>e. ev_weight e \<noteq> 0) es). 0 \<le> ev_weight x" using assms(9) by simp
  from project_total [OF this assms(10), of env user kunit "{}"] obtain k where
    k: "project_mastery env user kunit (filter (\<lambda>e. ev_weight e \<noteq> 0) es) version {} = Inr k" by blast
  have "project_mastery env user kunit (filter (\<lambda>e. ev_weight e \<noteq> 0) (Canonical e # es)) version {} = Inr k"
    unfolding w by (rule k)
  note nm = neutral_without_weight [OF assms(7) this] and nn = neutral_without_weight [OF assms(8) k]
  note fm = estimate_fields [OF conjunct1 [OF project_elim [OF assms(7)]]]
    and fn = estimate_fields [OF conjunct1 [OF project_elim [OF assms(8)]]]
  have "mm_independent_successes m = mm_independent_successes n" "mm_delayed_recalls m = mm_delayed_recalls n + 1"
    unfolding fm(8,10) fn(8,10) counted_more using assms(4-6) by simp_all
  with nm nn show ?thesis by simp
qed

section \<open>Witnesses\<close>

definition school_profile :: eligibility_profile where
  "school_profile = \<lparr>ep_version = ''eligibility/3'', ep_minimum_confidence = 1 / 2,
     ep_independence = [(INDEPENDENT, 1), (ASSISTED, 1 / 4), (ANSWER_EXPOSED, 0)],
     ep_novelty = [(REPEATED, 1 / 2), (NEAR_VARIANT, 3 / 4), (FAR_VARIANT, 1)]\<rparr>"

definition exposed_input :: eligibility_input where
  "exposed_input = (let ev = demo_event ''t1'' 5 SC_NONE AE_NONE in
    \<lparr>eg_result = snd ev, eg_attempt = fst ev, eg_actual = Some (demo_snapshot SC_NONE AE_COMPLETE),
     eg_unit = ''unit'', eg_dimension = RECALL, eg_novelty = FAR_VARIANT, eg_delay = 90000,
     eg_events = [mk_ref ''event'' ''e1'' (VerI 1)], eg_difficulty = None\<rparr>)"

definition independent_legacy :: "uuid \<Rightarrow> time \<Rightarrow> evidence" where
  "independent_legacy i t = Legacy \<lparr>e1_id = i, e1_user = ''ann'', e1_unit = ''unit'', e1_attempt = None,
     e1_result = None, e1_accepted_at = t, e1_dimension = RECALL, e1_outcome = SUCCESS, e1_score = 1,
     e1_confidence = 1, e1_independence = IND_INDEPENDENT, e1_delay_seconds = 0, e1_novelty = FAR_VARIANT,
     e1_weight = 1, e1_difficulty = None, e1_source_events = [''ev''], e1_reason_codes = [''R'']\<rparr>"

lemma school_valid: "valid_eligibility school_profile"
  by (simp add: school_profile_def valid_eligibility_def weight_of_def unit_range_def dict_get_def)

lemma exposed_decided:
  "\<exists>d e. decide_eligibility plain_env school_profile exposed_input = Inr d \<and> ed_evidence d = Some e
    \<and> le_state e = ANSWER_EXPOSED \<and> le_outcome e = SUCCESS \<and> 86400 \<le> le_delay_seconds e"
proof -
  have s: "effective_state exposed_input (demo_snapshot SC_NONE AE_COMPLETE) = ANSWER_EXPOSED"
    by code_simp
  show ?thesis
    using s by (simp add: decide_eligibility_def exposed_input_def demo_event_def demo_pass_def demo_attempt_def
        school_profile_def dict_get_def fmul_def valid_evidence_def make_evidence_def Let_def outcome_of_def
        eligibility_reasons_def)
qed

theorem eligibility_is_conservative_witness:
  "\<exists>d e. decide_eligibility plain_env school_profile exposed_input = Inr d \<and> ed_evidence d = Some e
    \<and> le_weight e = 0"
  using exposed_decided eligibility_is_conservative [OF school_valid] by blast

theorem mastery_within_bounds_witness:
  "\<exists>m. project_mastery plain_env ''ann'' ''unit'' [independent_legacy ''e2'' 2, independent_legacy ''e1'' 1] 1 {} = Inr m
    \<and> mm_evidence_count m = 2"
proof -
  let ?es = "[independent_legacy ''e2'' 2, independent_legacy ''e1'' 1]"
  have "\<forall>e \<in> set ?es. 0 \<le> ev_weight e" by (simp add: independent_legacy_def)
  from mastery_within_bounds [OF this, of 1 plain_env "''ann''" "''unit''" "{}"] obtain m where
    "project_mastery plain_env ''ann'' ''unit'' ?es 1 {} = Inr m"
    and "mm_evidence_count m = length (filter (\<lambda>e. ev_id e \<notin> {}) ?es)"
    by fastforce
  then show ?thesis by simp
qed

theorem mastery_replay_deterministic_witness:
  "project_mastery plain_env ''ann'' ''unit''
      [independent_legacy ''e2'' 2, independent_legacy ''e3'' 3, independent_legacy ''e1'' 1] 1 {''e3''}
    = project_mastery plain_env ''ann'' ''unit'' [independent_legacy ''e1'' 1, independent_legacy ''e2'' 2] 1 {}"
  by (rule mastery_replay_deterministic) (auto simp: independent_legacy_def inj_on_def)

theorem exposed_success_moves_no_estimate_witness:
  "\<exists>e m n. project_mastery plain_env ''ann'' ''unit'' [Canonical e, independent_legacy ''e1'' 1] 1 {} = Inr m
    \<and> project_mastery plain_env ''ann'' ''unit'' [independent_legacy ''e1'' 1] 1 {} = Inr n
    \<and> le_state e = ANSWER_EXPOSED \<and> mm_competence m = mm_competence n
    \<and> mm_delayed_recalls m = mm_delayed_recalls n + 1"
proof -
  obtain d e where e: "decide_eligibility plain_env school_profile exposed_input = Inr d" "ed_evidence d = Some e"
    "le_state e = ANSWER_EXPOSED" "le_outcome e = SUCCESS" "86400 \<le> le_delay_seconds e"
    using exposed_decided by blast
  have w: "0 \<le> le_weight e"
    using e(1,2) by (rule eligibility_accepted) (simp add: valid_evidence_def)
  have es: "\<forall>x \<in> set [independent_legacy ''e1'' 1]. 0 \<le> ev_weight x" by (simp add: independent_legacy_def)
  with w have "\<forall>x \<in> set [Canonical e, independent_legacy ''e1'' 1]. 0 \<le> ev_weight x" by simp
  from project_total [OF this, of 1] obtain m where
    m: "project_mastery plain_env ''ann'' ''unit'' [Canonical e, independent_legacy ''e1'' 1] 1 {} = Inr m" by fastforce
  from project_total [OF es, of 1] obtain n where
    n: "project_mastery plain_env ''ann'' ''unit'' [independent_legacy ''e1'' 1] 1 {} = Inr n" by fastforce
  from exposed_success_moves_no_estimate [OF school_valid e m n es] m n e(3) show ?thesis by auto
qed

end
