(* ===== verification/Scheduler.thy ===== *)
theory Scheduler
  imports Learner
begin

text \<open>
  \<open>app/domains/review_scheduler/scheduler.py\<close> and its contracts: how a review observation moves
  the stability, the difficulty and the next due time of a knowledge unit, and the projection of a
  schedule to a due candidate.

  \<open>math.exp\<close> and \<open>math.log\<close> of the C library are parameters (\<open>libm\<close>); \<open>sound_libm\<close> states what the
  scheduler relies on. A due time after the year 9999 is Python's OverflowError.
\<close>

record libm =
  lm_exp :: "float64 \<Rightarrow> float64"
  lm_log :: "float64 \<Rightarrow> float64"

datatype schedule_error = DATE_OVERFLOW | SCHEDULE_VALIDATION

section \<open>Contracts\<close>

record review_observation =
  ro_id :: uuid
  ro_user :: uuid
  ro_unit :: uuid
  ro_observed_at :: time
  ro_reviewed_at :: time
  ro_retrieval_required :: bool
  ro_independence :: independence
  ro_hint_level :: int
  ro_answer_seen :: bool
  ro_confidence :: float64
  ro_outcome :: evidence_outcome
  ro_delay_seconds :: int
  ro_source_evidence :: uuid
  ro_source_events :: "uuid list"

definition valid_observation :: "review_observation \<Rightarrow> bool" where
  "valid_observation b \<longleftrightarrow> 0 \<le> ro_hint_level b \<and> 0 \<le> ro_confidence b \<and> ro_confidence b \<le> 1 \<and>
     is_f64 (ro_confidence b) \<and> 0 \<le> ro_delay_seconds b"

record review_schedule =
  sd_id :: uuid
  sd_version :: int
  sd_user :: uuid
  sd_unit :: uuid
  sd_model :: string
  sd_model_version :: string
  sd_difficulty :: "float64 option"
  sd_stability :: "float64 option"
  sd_retrievability :: "float64 option"
  sd_retention :: float64
  sd_last_valid :: "time option"
  sd_next_due :: "time option"
  sd_priority :: float64
  sd_quality :: float64
  sd_source_events :: "uuid list"
  sd_created :: time

definition valid_schedule :: "review_schedule \<Rightarrow> bool" where
  "valid_schedule s \<longleftrightarrow> 1 \<le> sd_version s \<and> unit_range (sd_retrievability s) \<and>
     unit_range (Some (sd_retention s)) \<and> unit_range (Some (sd_quality s))"

record schedule_decision =
  sk_schedule :: review_schedule
  sk_reasons :: "string list"
  sk_prior :: "float64 \<times> float64"
  sk_new :: "float64 \<times> float64"

definition observation_from_evidence :: "pyenv \<Rightarrow> evidence_v1 \<Rightarrow> review_observation" where
  "observation_from_evidence env e =
    \<lparr>ro_id = uuid5 env (''askora:review-observation:'' @ e1_id e), ro_user = e1_user e, ro_unit = e1_unit e,
     ro_observed_at = e1_accepted_at e, ro_reviewed_at = e1_accepted_at e,
     ro_retrieval_required = (e1_dimension e \<in> {RECALL, ROUTINE_APPLICATION}),
     ro_independence = e1_independence e,
     ro_hint_level = (if e1_independence e = IND_INDEPENDENT then 0 else 1),
     ro_answer_seen = (e1_independence e = IND_ANSWER_EXPOSED), ro_confidence = e1_confidence e,
     ro_outcome = e1_outcome e, ro_delay_seconds = e1_delay_seconds e, ro_source_evidence = e1_id e,
     ro_source_events = e1_source_events e\<rparr>"

section \<open>Parameters of the memory model\<close>

record memory_params =
  mp_initial :: float64
  mp_success :: float64
  mp_failure :: float64
  mp_assisted :: float64

definition default_params :: memory_params where
  "default_params = \<lparr>mp_initial = 1, mp_success = fl (18 / 10), mp_failure = fl (45 / 100), mp_assisted = fl (112 / 100)\<rparr>"

definition fallback_params :: memory_params where
  "fallback_params = \<lparr>mp_initial = 1, mp_success = fl (15 / 10), mp_failure = fl (5 / 10), mp_assisted = fl (105 / 100)\<rparr>"

fun py_number :: "pyval \<Rightarrow> float64 option" where
  "py_number (VInt n) = Some (fl (of_int n))"
| "py_number (VFloat x) = Some x"
| "py_number (VBool b) = Some (if b then 1 else 0)"
| "py_number _ = None"

definition param_keys :: "string set" where
  "param_keys = {''initial_stability'', ''success_growth'', ''failure_decay'', ''assisted_growth''}"

definition positive_number :: "pyval \<Rightarrow> bool" where
  "positive_number v = (case py_number v of None \<Rightarrow> False | Some x \<Rightarrow> 0 < x)"

definition param_at :: "(string, pyval) dict \<Rightarrow> string \<Rightarrow> float64" where
  "param_at d k = (case dict_get d k of None \<Rightarrow> 0 | Some v \<Rightarrow> (case py_number v of None \<Rightarrow> 0 | Some x \<Rightarrow> x))"

text \<open>The parameters used, and whether the memory model fell back. No or empty parameters are the
  default; wrong keys, values that are not numbers and values that are not positive fall back.\<close>

definition resolve_params :: "(string, pyval) dict option \<Rightarrow> memory_params \<times> bool" where
  "resolve_params ps =
     (case ps of
        None \<Rightarrow> (default_params, False)
      | Some d \<Rightarrow>
          if d = [] then (default_params, False)
          else if fst ` set d = param_keys \<and> list_all (positive_number \<circ> snd) d
          then (\<lparr>mp_initial = param_at d ''initial_stability'', mp_success = param_at d ''success_growth'',
                 mp_failure = param_at d ''failure_decay'', mp_assisted = param_at d ''assisted_growth''\<rparr>, False)
          else (fallback_params, True))"

section \<open>The update\<close>

definition clamp_retention :: "float64 \<Rightarrow> float64" where
  "clamp_retention r = min (fl (95 / 100)) (max (fl (75 / 100)) r)"

definition prior_or :: "float64 option \<Rightarrow> float64 \<Rightarrow> float64" where
  "prior_or v d = (case v of None \<Rightarrow> d | Some x \<Rightarrow> if x = 0 then d else x)"

definition valid_independent :: "review_observation \<Rightarrow> bool" where
  "valid_independent b \<longleftrightarrow> ro_retrieval_required b \<and> ro_independence b = IND_INDEPENDENT \<and>
     \<not> ro_answer_seen b \<and> ro_hint_level b = 0 \<and> 1 / 2 \<le> ro_confidence b"

definition delay_factor :: "review_observation \<Rightarrow> float64" where
  "delay_factor b = fadd 1 (fmul (min (fl (of_int (ro_delay_seconds b) / 604800)) 1) (fl (25 / 100)))"

text \<open>Stability, difficulty, quality and reason, branch by branch.\<close>

definition memory_update :: "memory_params \<Rightarrow> review_observation \<Rightarrow> float64 \<Rightarrow> float64 \<Rightarrow>
    float64 \<times> float64 \<times> float64 \<times> string" where
  "memory_update p b s d =
     (if ro_outcome b = FAILURE
      then (max (1 / 4) (fmul s (mp_failure p)), min 10 (fadd d (fl (7 / 10))), ro_confidence b,
            ''RETRIEVAL_FAILURE_SHORTENED'')
      else if ro_outcome b = SUCCESS \<and> valid_independent b
      then (fmul (fmul s (mp_success p)) (delay_factor b), max 1 (fsub d (fl (3 / 10))), ro_confidence b,
            ''INDEPENDENT_RECALL_EXTENDED'')
      else if ro_independence b = IND_ANSWER_EXPOSED \<or> ro_answer_seen b
      then (max (1 / 4) (fmul s (fl (8 / 10))), min 10 (fadd d (fl (2 / 10))), 0,
            ''ANSWER_EXPOSED_NOT_VALID_RECALL'')
      else (fmul s (mp_assisted p), d, fmul (ro_confidence b) (fl (35 / 100)), ''ASSISTED_RECALL_DISCOUNTED''))"

definition interval_days :: "libm \<Rightarrow> float64 \<Rightarrow> float64 \<Rightarrow> float64" where
  "interval_days m stability retention = max (1 / 4) (fmul (fmul (- stability) (lm_log m retention)) 10)"

text \<open>\<open>timedelta(days=x)\<close> for a positive float, in microseconds: whole days are exact, the fraction
  of a day is a float product rounded half to even.\<close>

definition days_us :: "float64 \<Rightarrow> int" where
  "days_us x = floor x * 86400000000 + rne (fl ((x - of_int (floor x)) * 86400000000))"

definition retrievability :: "libm \<Rightarrow> review_observation \<Rightarrow> float64 \<Rightarrow> float64" where
  "retrievability m b stability =
     lm_exp m (fl (- max (fl (of_int (ro_delay_seconds b) / 86400)) 0 / max stability (fl (1 / 100))))"

definition make_schedule :: "pyenv \<Rightarrow> libm \<Rightarrow> review_observation \<Rightarrow> review_schedule option \<Rightarrow> int \<Rightarrow> uuid \<Rightarrow>
    float64 \<Rightarrow> bool \<Rightarrow> float64 \<times> float64 \<times> float64 \<times> string \<Rightarrow> time \<Rightarrow> review_schedule" where
  "make_schedule env m b prior version workspace retention fallback upd due =
     (case upd of (stability, difficulty, quality, reason) \<Rightarrow>
      let r = retrievability m b stability in
      \<lparr>sd_id = uuid5 env (''askora:review-schedule:'' @ workspace @ '':'' @ ro_user b @ '':'' @ ro_unit b),
       sd_version = version, sd_user = ro_user b, sd_unit = ro_unit b,
       sd_model = (if fallback then ''simple-exponential'' else ''fsrs-compatible-exponential''),
       sd_model_version = ''1.0'', sd_difficulty = Some difficulty, sd_stability = Some stability,
       sd_retrievability = Some r, sd_retention = retention,
       sd_last_valid = (if valid_independent b then Some (ro_reviewed_at b)
                        else (case prior of None \<Rightarrow> None | Some p \<Rightarrow> sd_last_valid p)),
       sd_next_due = Some due, sd_priority = max 0 (fsub 1 r), sd_quality = quality,
       sd_source_events = sort (remdups ((case prior of None \<Rightarrow> [] | Some p \<Rightarrow> sd_source_events p) @ ro_source_events b)),
       sd_created = ro_observed_at b\<rparr>)"

definition update_review :: "pyenv \<Rightarrow> libm \<Rightarrow> review_observation \<Rightarrow> review_schedule option \<Rightarrow> int \<Rightarrow> uuid \<Rightarrow>
    float64 \<Rightarrow> (string, pyval) dict option \<Rightarrow> schedule_error + schedule_decision" where
  "update_review env m b prior version workspace desired ps =
     (let retention = clamp_retention desired;
          (params, fallback) = resolve_params ps;
          s = prior_or (Option.bind prior sd_stability) (mp_initial params);
          d = prior_or (Option.bind prior sd_difficulty) 5;
          upd = memory_update params b s d;
          due = ro_observed_at b + days_us (interval_days m (fst upd) retention);
          sched = make_schedule env m b prior version workspace retention fallback upd due
      in if datetime_max < due then Inl DATE_OVERFLOW
         else if \<not> valid_schedule sched then Inl SCHEDULE_VALIDATION
         else Inr \<lparr>sk_schedule = sched,
           sk_reasons = ''REVIEW_OBSERVATION_APPLIED'' #
             (if retention \<noteq> desired then [''DESIRED_RETENTION_CLAMPED''] else []) @
             (if fallback then [''MEMORY_MODEL_FALLBACK''] else []) @ [snd (snd (snd upd))],
           sk_prior = (s, d), sk_new = (fst upd, fst (snd upd))\<rparr>)"

section \<open>Due candidates\<close>

datatype due_status = NOT_DUE | DUE | OVERDUE

record due_candidate =
  du_schedule :: uuid
  du_version :: int
  du_user :: uuid
  du_unit :: uuid
  du_status :: due_status
  du_recommended :: "time option"
  du_projected :: time
  du_urgency :: float64

definition project_due :: "review_schedule \<Rightarrow> time \<Rightarrow> due_candidate" where
  "project_due s now =
     (let (status, urgency) =
        (case sd_next_due s of
           None \<Rightarrow> (NOT_DUE, 0)
         | Some due \<Rightarrow>
             if now < due then (NOT_DUE, 0)
             else let over = max 0 (total_seconds (now - due)) in
               (if 86400 \<le> over then OVERDUE else DUE, fadd 1 (fl (over / 86400))))
      in \<lparr>du_schedule = sd_id s, du_version = sd_version s, du_user = sd_user s, du_unit = sd_unit s,
          du_status = status, du_recommended = sd_next_due s, du_projected = now, du_urgency = urgency\<rparr>)"

section \<open>What an update guarantees\<close>

text \<open>The C library's \<open>exp\<close> of a non-positive number is in the unit interval, and its \<open>log\<close> of a
  retention target is negative and at least one twentieth away from zero.\<close>

definition sound_libm :: "libm \<Rightarrow> bool" where
  "sound_libm m \<longleftrightarrow> (\<forall>x \<le> 0. 0 \<le> lm_exp m x \<and> lm_exp m x \<le> 1) \<and>
     (\<forall>r. fl (75 / 100) \<le> r \<longrightarrow> r \<le> fl (95 / 100) \<longrightarrow> lm_log m r \<le> - 1 / 20)"

lemma fl_of_nonneg_f64: "is_f64 x \<Longrightarrow> fl x = x"
  by (simp add: is_f64_def)

lemma fmul_shrinks: "0 \<le> s \<Longrightarrow> is_f64 s \<Longrightarrow> x \<le> 1 \<Longrightarrow> fmul s x \<le> s"
  using fl_mono [of "s * x" s] mult_left_le [of x s] by (simp add: fmul_def is_f64_def)

lemma fmul_grows: "0 \<le> s \<Longrightarrow> is_f64 s \<Longrightarrow> 1 \<le> x \<Longrightarrow> s \<le> fmul s x"
  using fl_mono [of s "s * x"] mult_left_mono [of 1 x s] by (simp add: fmul_def is_f64_def)

lemma fmul_f64 [simp]: "is_f64 (fmul x y)"
  by (simp add: fmul_def)

lemma fmul_nonneg: "0 \<le> x \<Longrightarrow> 0 \<le> y \<Longrightarrow> 0 \<le> fmul x y"
  by (simp add: fmul_def fl_nonneg)

lemma fl_le_one: "x \<le> 1 \<Longrightarrow> fl x \<le> 1"
  by (rule f64.at_most_one)

lemma fl_ge_one: "1 \<le> x \<Longrightarrow> 1 \<le> fl x"
  using fl_mono [of 1 x] by simp

lemma retention_range: "fl (75 / 100) \<le> clamp_retention r \<and> clamp_retention r \<le> fl (95 / 100)"
proof -
  have "fl (75 / 100) \<le> fl (95 / 100)" by (intro fl_mono) simp
  then show ?thesis by (simp add: clamp_retention_def)
qed

lemma retention_unit: "0 \<le> clamp_retention r \<and> clamp_retention r \<le> 1"
proof -
  have "0 \<le> fl (75 / 100)" "fl (95 / 100) \<le> 1" by (simp_all add: fl_nonneg fl_le_one)
  with retention_range [of r] show ?thesis by linarith
qed

lemma delay_factor_ge: "0 \<le> ro_delay_seconds b \<Longrightarrow> 1 \<le> delay_factor b"
proof -
  assume "0 \<le> ro_delay_seconds b"
  then have "0 \<le> fl (of_int (ro_delay_seconds b) / 604800)" by (intro fl_nonneg) simp
  then have "0 \<le> fmul (min (fl (of_int (ro_delay_seconds b) / 604800)) 1) (fl (25 / 100))"
    by (intro fmul_nonneg fl_nonneg) simp_all
  then show ?thesis by (simp add: delay_factor_def fadd_def fl_ge_one)
qed

lemma retrievability_unit:
  assumes "sound_libm m"
  shows "0 \<le> retrievability m b s \<and> retrievability m b s \<le> 1"
proof -
  define e where "e = max (fl (of_int (ro_delay_seconds b) / 86400)) 0"
  have "fl 0 < fl (1 / 100) \<or> fl 0 = fl (1 / 100)" using fl_mono [of 0 "1 / 100"] by auto
  then have "0 \<le> max s (fl (1 / 100))" by auto
  moreover have "0 \<le> e" by (simp add: e_def)
  ultimately have "- e / max s (fl (1 / 100)) \<le> 0" by simp
  then have "fl (- e / max s (fl (1 / 100))) \<le> 0" by (rule f64.nonpos)
  with assms show ?thesis by (simp add: retrievability_def e_def sound_libm_def)
qed

lemma memory_quality:
  assumes "valid_observation b" and "memory_update p b s d = (s', d', q, reason)"
  shows "0 \<le> q \<and> q \<le> 1"
proof -
  have c: "0 \<le> ro_confidence b" "ro_confidence b \<le> 1" "is_f64 (ro_confidence b)"
    using assms(1) by (simp_all add: valid_observation_def)
  have "fmul (ro_confidence b) (fl (35 / 100)) \<le> ro_confidence b"
    using c by (intro fmul_shrinks fl_le_one) simp_all
  moreover have "0 \<le> fmul (ro_confidence b) (fl (35 / 100))" using c by (intro fmul_nonneg fl_nonneg) simp_all
  ultimately show ?thesis using assms(2) c by (auto simp: memory_update_def split: if_splits)
qed

lemma memory_difficulty:
  assumes "1 \<le> d" and "d \<le> 10" and "memory_update p b s d = (s', d', q, reason)"
  shows "1 \<le> d' \<and> d' \<le> 10"
proof -
  have up: "1 \<le> fadd d (fl x)" if "0 \<le> x" for x
    using assms(1) fl_nonneg [OF that] by (simp add: fadd_def fl_ge_one)
  have "fl (d - fl (3 / 10)) \<le> fl 10" using assms(2) fl_nonneg [of "3 / 10"] by (intro fl_mono) simp
  then have "fsub d (fl (3 / 10)) \<le> 10" by (simp add: fsub_def)
  then show ?thesis using assms up [of "7 / 10"] up [of "2 / 10"]
    by (auto simp: memory_update_def split: if_splits)
qed

lemma days_us_floor: "floor x * 86400000000 \<le> days_us x"
proof -
  have "of_int 0 \<le> fl ((x - of_int (floor x)) * 86400000000)"
    using of_int_floor_le [of x] by (simp add: fl_nonneg)
  then have "0 \<le> rne (fl ((x - of_int (floor x)) * 86400000000))" by (rule rne_ge_of_int)
  then show ?thesis by (simp add: days_us_def)
qed

lemma days_us_quarter:
  assumes "1 / 4 \<le> x"
  shows "21600000000 \<le> days_us x"
proof (cases "x < 1")
  case True
  have f: "floor x = 0" using assms True by (simp add: floor_eq_iff)
  have "fl 21600000000 \<le> fl (x * 86400000000)" using assms by (intro fl_mono) simp
  then have "(of_int 21600000000 :: rat) \<le> fl (x * 86400000000)" by simp
  then have "21600000000 \<le> rne (fl (x * 86400000000))" by (rule rne_ge_of_int)
  then show ?thesis by (simp add: days_us_def f)
next
  case False
  then have "1 \<le> floor x" by (simp add: le_floor_iff)
  then show ?thesis using days_us_floor [of x] by linarith
qed

lemma update_elim:
  assumes "update_review env m b prior version workspace desired ps = Inr k"
  obtains s d s' d' q reason where
    "s = prior_or (Option.bind prior sd_stability) (mp_initial (fst (resolve_params ps)))"
    and "d = prior_or (Option.bind prior sd_difficulty) 5"
    and "memory_update (fst (resolve_params ps)) b s d = (s', d', q, reason)"
    and "sk_prior k = (s, d)" and "sk_new k = (s', d')"
    and "sk_schedule k = make_schedule env m b prior version workspace (clamp_retention desired)
          (snd (resolve_params ps)) (s', d', q, reason)
          (ro_observed_at b + days_us (interval_days m s' (clamp_retention desired)))"
    and "ro_observed_at b + days_us (interval_days m s' (clamp_retention desired)) \<le> datetime_max"
proof -
  obtain params fallback where r: "resolve_params ps = (params, fallback)" by fastforce
  let ?s = "prior_or (Option.bind prior sd_stability) (mp_initial params)"
  let ?d = "prior_or (Option.bind prior sd_difficulty) 5"
  obtain s' d' q reason where u: "memory_update params b ?s ?d = (s', d', q, reason)"
    by (metis prod_cases4)
  from assms show ?thesis
    by (intro that [of ?s ?d s' d' q reason])
      (auto simp: update_review_def r u Let_def not_less split: if_splits)
qed

lemma make_schedule_simps [simp]:
  "sd_version (make_schedule env m b prior v w r f (s, d, q, reason) due) = v"
  "sd_retention (make_schedule env m b prior v w r f (s, d, q, reason) due) = r"
  "sd_quality (make_schedule env m b prior v w r f (s, d, q, reason) due) = q"
  "sd_stability (make_schedule env m b prior v w r f (s, d, q, reason) due) = Some s"
  "sd_difficulty (make_schedule env m b prior v w r f (s, d, q, reason) due) = Some d"
  "sd_next_due (make_schedule env m b prior v w r f (s, d, q, reason) due) = Some due"
  "sd_retrievability (make_schedule env m b prior v w r f (s, d, q, reason) due) = Some (retrievability m b s)"
  "sd_last_valid (make_schedule env m b prior v w r f (s, d, q, reason) due)
     = (if valid_independent b then Some (ro_reviewed_at b) else Option.bind prior sd_last_valid)"
  "sd_user (make_schedule env m b prior v w r f (s, d, q, reason) due) = ro_user b"
  "sd_unit (make_schedule env m b prior v w r f (s, d, q, reason) due) = ro_unit b"
  "sd_id (make_schedule env m b prior v w r f (s, d, q, reason) due)
     = uuid5 env (''askora:review-schedule:'' @ w @ '':'' @ ro_user b @ '':'' @ ro_unit b)"
  by (simp_all add: make_schedule_def Let_def split: option.splits)

lemma made_schedule_valid:
  assumes "sound_libm m" and "valid_observation b" and "1 \<le> v"
    and "memory_update p b s d = (s', d', q, reason)"
  shows "valid_schedule (make_schedule env m b prior v w (clamp_retention r) f (s', d', q, reason) due)"
  using retrievability_unit [OF assms(1)] memory_quality [OF assms(2,4)] retention_unit [of r] assms(3)
  by (simp add: valid_schedule_def unit_range_def)

lemma update_Inl:
  assumes "sound_libm m" and "valid_observation b" and "1 \<le> v"
    and "update_review env m b prior v w desired ps = Inl e"
  shows "e = DATE_OVERFLOW"
proof -
  obtain params fallback where r: "resolve_params ps = (params, fallback)" by fastforce
  obtain s' d' q reason where u: "memory_update params b
      (prior_or (Option.bind prior sd_stability) (mp_initial params))
      (prior_or (Option.bind prior sd_difficulty) 5) = (s', d', q, reason)"
    by (metis prod_cases4)
  show ?thesis
    using assms(4) made_schedule_valid [OF assms(1-3) u] by (simp add: update_review_def r u Let_def split: if_splits)
qed

definition sound_prior :: "review_schedule option \<Rightarrow> bool" where
  "sound_prior prior \<longleftrightarrow> (case Option.bind prior sd_difficulty of None \<Rightarrow> True | Some d \<Rightarrow> d = 0 \<or> 1 \<le> d \<and> d \<le> 10)"

text \<open>An update either overflows the calendar or yields a schedule within its
  contract: due no earlier than six hours after the observation, difficulty between one and ten
  whenever it was before, retention within its clamp, retrievability and quality in the unit
  interval.\<close>

theorem review_update_bounds:
  assumes "sound_libm m" and "valid_observation b" and "1 \<le> version" and "sound_prior prior"
  shows "case update_review env m b prior version workspace desired ps of
      Inl e \<Rightarrow> e = DATE_OVERFLOW
    | Inr k \<Rightarrow> valid_schedule (sk_schedule k) \<and> sound_prior (Some (sk_schedule k))
        \<and> (\<exists>due. sd_next_due (sk_schedule k) = Some due \<and> ro_observed_at b + 21600000000 \<le> due \<and> due \<le> datetime_max)
        \<and> fl (75 / 100) \<le> sd_retention (sk_schedule k) \<and> sd_retention (sk_schedule k) \<le> fl (95 / 100)"
proof (cases "update_review env m b prior version workspace desired ps")
  case (Inl e)
  with update_Inl [OF assms(1-3)] show ?thesis by simp
next
  case (Inr k)
  then obtain s d s' d' q reason where d: "d = prior_or (Option.bind prior sd_difficulty) 5"
    and u: "memory_update (fst (resolve_params ps)) b s d = (s', d', q, reason)"
    and k: "sk_schedule k = make_schedule env m b prior version workspace (clamp_retention desired)
          (snd (resolve_params ps)) (s', d', q, reason)
          (ro_observed_at b + days_us (interval_days m s' (clamp_retention desired)))"
    and le: "ro_observed_at b + days_us (interval_days m s' (clamp_retention desired)) \<le> datetime_max"
    by (rule update_elim) (rule that)
  have "1 \<le> d \<and> d \<le> 10"
    using assms(4) by (auto simp: d prior_or_def sound_prior_def split: option.splits)
  with memory_difficulty [OF _ _ u] have "1 \<le> d' \<and> d' \<le> 10" by simp
  moreover have "21600000000 \<le> days_us (interval_days m s' (clamp_retention desired))"
    by (rule days_us_quarter) (simp add: interval_days_def)
  ultimately show ?thesis
    using le made_schedule_valid [OF assms(1-3) u] retention_range [of desired]
    by (simp add: Inr k sound_prior_def)
qed

definition demo_libm :: libm where
  "demo_libm = \<lparr>lm_exp = (\<lambda>_. 1 / 2), lm_log = (\<lambda>_. - 1 / 10)\<rparr>"

lemma demo_libm_sound: "sound_libm demo_libm"
  by (simp add: sound_libm_def demo_libm_def)

definition demo_recall :: review_observation where
  "demo_recall = \<lparr>ro_id = ''o1'', ro_user = ''u1'', ro_unit = ''k1'', ro_observed_at = 0, ro_reviewed_at = 0,
     ro_retrieval_required = True, ro_independence = IND_INDEPENDENT, ro_hint_level = 0,
     ro_answer_seen = False, ro_confidence = 1, ro_outcome = SUCCESS, ro_delay_seconds = 0,
     ro_source_evidence = ''e1'', ro_source_events = [''x'']\<rparr>"

lemma demo_recall_valid: "valid_observation demo_recall" and demo_recall_independent: "valid_independent demo_recall"
  by (simp_all add: demo_recall_def valid_observation_def valid_independent_def)

theorem review_update_bounds_witness:
  "case update_review plain_env demo_libm demo_recall None 1 ''w'' (9 / 10) None of
      Inl e \<Rightarrow> e = DATE_OVERFLOW
    | Inr k \<Rightarrow> valid_schedule (sk_schedule k) \<and> sound_prior (Some (sk_schedule k))
        \<and> (\<exists>due. sd_next_due (sk_schedule k) = Some due \<and> ro_observed_at demo_recall + 21600000000 \<le> due \<and> due \<le> datetime_max)
        \<and> fl (75 / 100) \<le> sd_retention (sk_schedule k) \<and> sd_retention (sk_schedule k) \<le> fl (95 / 100)"
  by (rule review_update_bounds) (simp_all add: demo_libm_sound demo_recall_valid sound_prior_def)

text \<open>With the shipped memory model a failed or answer-exposed review never
  lengthens the memory beyond the floor of a quarter day, an independent success never shortens
  it, and only an unaided retrieval moves the time of the last valid retrieval.\<close>

theorem review_update_stability:
  assumes "update_review env m b prior version workspace desired None = Inr k" and "sk_prior k = (s, d)"
    and "sk_new k = (s', d')" and "0 \<le> s" and "is_f64 s" and "valid_observation b"
  shows "(ro_outcome b = FAILURE \<or> ro_independence b = IND_ANSWER_EXPOSED \<or> ro_answer_seen b \<longrightarrow> s' \<le> max (1 / 4) s)
    \<and> (ro_outcome b = SUCCESS \<and> valid_independent b \<longrightarrow> s \<le> s')
    \<and> sd_last_valid (sk_schedule k)
        = (if valid_independent b then Some (ro_reviewed_at b) else Option.bind prior sd_last_valid)"
proof -
  obtain q reason where u: "memory_update default_params b s d = (s', d', q, reason)"
    and k: "sd_last_valid (sk_schedule k)
        = (if valid_independent b then Some (ro_reviewed_at b) else Option.bind prior sd_last_valid)"
    using assms(1) by (rule update_elim) (use assms(2,3) in \<open>simp add: resolve_params_def that\<close>)
  have shrink: "fmul s (mp_failure default_params) \<le> s" "fmul s (fl (8 / 10)) \<le> s"
    using assms(4,5) by (auto intro!: fmul_shrinks fl_le_one simp: default_params_def)
  have g: "1 \<le> mp_success default_params" by (simp add: default_params_def fl_ge_one)
  have "s \<le> fmul s (mp_success default_params)" using assms(4,5) g by (rule fmul_grows)
  moreover from this have "fmul s (mp_success default_params)
      \<le> fmul (fmul s (mp_success default_params)) (delay_factor b)"
    using assms(4,6) by (intro fmul_grows delay_factor_ge) (auto simp: valid_observation_def)
  ultimately have grow: "s \<le> fmul (fmul s (mp_success default_params)) (delay_factor b)" by linarith
  show ?thesis
    using u k shrink grow by (auto simp: memory_update_def valid_independent_def split: if_splits)
qed

text \<open>A failed review of an untouched unit, followed through.\<close>

definition demo_failure :: review_observation where
  "demo_failure = demo_recall\<lparr>ro_outcome := FAILURE\<rparr>"

lemma demo_failure_valid: "valid_observation demo_failure"
  using demo_recall_valid by (simp add: demo_failure_def valid_observation_def)

lemma days_us_ceiling: "days_us x \<le> (floor x + 1) * 86400000000"
proof -
  have "x - of_int (floor x) \<le> 1" by linarith
  then have "fl ((x - of_int (floor x)) * 86400000000) \<le> fl 86400000000" by (intro fl_mono) simp
  then have "fl ((x - of_int (floor x)) * 86400000000) \<le> of_int 86400000000" by simp
  then have "rne (fl ((x - of_int (floor x)) * 86400000000)) \<le> 86400000000" by (rule rne_le_of_int)
  then show ?thesis by (simp add: days_us_def)
qed

lemma failing_update:
  assumes "ro_outcome b = FAILURE" and "valid_observation b" and "ro_observed_at b = 0" and "1 \<le> v"
    and s: "s = prior_or (Option.bind prior sd_stability) 1" and "s \<le> 1"
  obtains k s' where "update_review env demo_libm b prior v w (9 / 10) None = Inr k"
    and "sk_prior k = (s, prior_or (Option.bind prior sd_difficulty) 5)"
    and "sd_stability (sk_schedule k) = Some s'" and "fst (sk_new k) = s'" and "1 / 4 \<le> s'" and "s' \<le> 1"
proof -
  let ?u = "memory_update default_params b s (prior_or (Option.bind prior sd_difficulty) 5)"
  define x where "x = interval_days demo_libm (fst ?u) (clamp_retention (9 / 10))"
  have "fl (45 / 100) \<le> 1" "0 \<le> fl (45 / 100)" by (simp_all add: fl_le_one fl_nonneg)
  then have "s * fl (45 / 100) \<le> 1" using assms(6) mult_right_mono [of s 1 "fl (45 / 100)"] by linarith
  then have "fmul s (fl (45 / 100)) \<le> 1" unfolding fmul_def by (rule fl_le_one)
  then have u: "fst ?u \<le> 1" "1 / 4 \<le> fst ?u" by (simp_all add: memory_update_def assms(1) default_params_def)
  then have "fl (fst ?u / 10) \<le> 1" by (intro fl_le_one) simp
  then have "fl (fl (fst ?u / 10) * 10) \<le> fl 10" by (intro fl_mono) simp
  then have "x \<le> 10" by (simp add: x_def interval_days_def demo_libm_def fmul_def)
  then have "floor x \<le> 10" by linarith
  then have "(floor x + 1) * 86400000000 \<le> 11 * 86400000000" by (intro mult_right_mono) simp_all
  then have "days_us x \<le> 11 * 86400000000" by (rule order_trans [OF days_us_ceiling])
  then have "\<not> datetime_max < ro_observed_at b + days_us x" by (simp add: assms(3) datetime_max_def)
  moreover have "valid_schedule (make_schedule env demo_libm b prior v w (clamp_retention (9 / 10)) False
      (fst ?u, fst (snd ?u), fst (snd (snd ?u)), snd (snd (snd ?u))) (ro_observed_at b + days_us x))"
    by (rule made_schedule_valid [OF demo_libm_sound assms(2,4)]) (simp_all add: prod_eq_iff)
  moreover have "sd_stability (make_schedule env demo_libm b prior v w (clamp_retention (9 / 10)) False
      (fst ?u, fst (snd ?u), fst (snd (snd ?u)), snd (snd (snd ?u))) (ro_observed_at b + days_us x)) = Some (fst ?u)"
    by (rule make_schedule_simps(4))
  ultimately have "\<exists>k. update_review env demo_libm b prior v w (9 / 10) None = Inr k
      \<and> sk_prior k = (s, prior_or (Option.bind prior sd_difficulty) 5)
      \<and> sd_stability (sk_schedule k) = Some (fst ?u) \<and> fst (sk_new k) = fst ?u"
    by (simp add: update_review_def resolve_params_def x_def Let_def default_params_def s)
  then show ?thesis using that u by blast
qed

lemma demo_failure_update:
  obtains k s' where "update_review plain_env demo_libm demo_failure None 1 ''w'' (9 / 10) None = Inr k"
    and "sk_prior k = (1, 5)" and "fst (sk_new k) = s'"
proof -
  have f: "ro_outcome demo_failure = FAILURE" "ro_observed_at demo_failure = 0"
    by (simp_all add: demo_failure_def demo_recall_def)
  show ?thesis
    by (rule failing_update [OF f(1) demo_failure_valid f(2), of 1 1 None plain_env "''w''"])
      (simp_all add: prior_or_def that)
qed

theorem review_update_stability_witness:
  "\<exists>k s'. update_review plain_env demo_libm demo_failure None 1 ''w'' (9 / 10) None = Inr k
    \<and> fst (sk_new k) = s' \<and> s' \<le> 1 \<and> sd_last_valid (sk_schedule k) = Some 0"
proof -
  obtain k s' where k: "update_review plain_env demo_libm demo_failure None 1 ''w'' (9 / 10) None = Inr k"
    "sk_prior k = (1, 5)" "fst (sk_new k) = s'" by (rule demo_failure_update)
  then have "sk_new k = (s', snd (sk_new k))" by (simp add: prod_eq_iff)
  from review_update_stability [OF k(1,2) this _ _ demo_failure_valid]
  have "s' \<le> max (1 / 4) 1" "sd_last_valid (sk_schedule k) = Some 0"
    by (simp_all add: demo_failure_def demo_recall_def valid_independent_def)
  with k show ?thesis by auto
qed

section \<open>Stability without an upper bound\<close>

text \<open>An unaided success multiplies the stability by at least seven quarters. Measured in
  sixty-fourths and rounded down that is \<open>grow_64\<close>, exact in binary64.\<close>

definition grow_64 :: "int \<Rightarrow> int" where
  "grow_64 c = c * 7 div 4"

definition unaided_success :: "review_observation \<Rightarrow> bool" where
  "unaided_success b \<longleftrightarrow> ro_outcome b = SUCCESS \<and> valid_independent b"

lemma success_growth_ge: "7 / 4 \<le> mp_success default_params"
proof -
  have "fl (7 / 4) \<le> fl (18 / 10)" by (intro fl_mono) simp
  moreover have "fl (7 / 4) = 7 / 4" using fl_exact [of 7 "-2"] by simp
  ultimately show ?thesis by (simp add: default_params_def)
qed

lemma exact_64: "0 \<le> c \<Longrightarrow> c \<le> 2 ^ 53 \<Longrightarrow> fl (of_int c / 64) = of_int c / 64"
  using fl_exact [of c "-6"] by simp

lemma stability_grows:
  assumes "of_int c / 64 \<le> s" and "0 \<le> c" and "grow_64 c \<le> 2 ^ 53" and "unaided_success b" and "valid_observation b"
    and u: "memory_update default_params b s d = (s', d', q, reason)"
  shows "of_int (grow_64 c) / 64 \<le> s'"
proof -
  have "0 \<le> (of_int c :: rat) / 64" using assms(2) by simp
  then have s0: "0 \<le> s" using assms(1) by linarith
  have d1: "1 \<le> delay_factor b" using assms(5) by (intro delay_factor_ge) (simp add: valid_observation_def)
  have s': "s' = fmul (fmul s (mp_success default_params)) (delay_factor b)"
    using u assms(4) by (auto simp: memory_update_def unaided_success_def split: if_splits)
  have "of_int (grow_64 c * 4) \<le> (of_int (c * 7) :: rat)"
    by (simp only: of_int_le_iff grow_64_def)
  then have "of_int (grow_64 c) / 64 \<le> of_int c / 64 * (7 / 4 :: rat)" by simp
  also have "\<dots> \<le> s * mp_success default_params"
    using assms(1) s0 success_growth_ge by (intro mult_mono) auto
  finally have "fl (of_int (grow_64 c) / 64) \<le> fmul s (mp_success default_params)"
    unfolding fmul_def by (rule fl_mono)
  moreover have "0 \<le> grow_64 c" using assms(2) by (simp add: grow_64_def)
  ultimately have 1: "of_int (grow_64 c) / 64 \<le> fmul s (mp_success default_params)"
    using exact_64 assms(3) by metis
  have "fmul s (mp_success default_params) \<le> s'"
    unfolding s' using s0 success_growth_ge d1 by (intro fmul_grows fmul_nonneg) auto
  with 1 show ?thesis by linarith
qed

lemma long_interval:
  assumes "sound_libm m" and "8388608 \<le> s"
  shows "datetime_max < days_us (interval_days m s (clamp_retention r))"
proof -
  define l where "l = - lm_log m (clamp_retention r)"
  have "lm_log m (clamp_retention r) \<le> - 1 / 20"
    using assms(1) retention_range [of r] by (simp only: sound_libm_def)
  then have l: "1 / 20 \<le> l" by (simp add: l_def)
  have "8388608 * (3 / 64) \<le> s * l" using l assms(2) by (intro mult_mono) auto
  then have "fl 393216 \<le> fl (s * l)" by (intro fl_mono) simp
  then have "393216 * 10 \<le> fl (s * l) * 10" by simp
  then have "fl 3932160 \<le> fmul (fl (s * l)) 10" unfolding fmul_def by (intro fl_mono) simp
  then have "3932160 \<le> interval_days m s (clamp_retention r)"
    by (simp add: interval_days_def fmul_def l_def)
  then have "3932160 \<le> floor (interval_days m s (clamp_retention r))" by (simp add: le_floor_iff)
  then show ?thesis
    unfolding datetime_max_def using days_us_floor [of "interval_days m s (clamp_retention r)"] by linarith
qed

lemma update_overflows:
  assumes "sound_libm m" and "valid_observation b" and "1 \<le> v" and "0 \<le> ro_observed_at b" and "unaided_success b"
    and "of_int c / 64 \<le> prior_or (Option.bind prior sd_stability) 1"
    and "0 \<le> c" and "536870912 \<le> grow_64 c" and "grow_64 c \<le> 2 ^ 53"
  shows "update_review env m b prior v w desired None = Inl DATE_OVERFLOW"
proof (cases "update_review env m b prior v w desired None")
  case (Inl e)
  with update_Inl [OF assms(1-3)] show ?thesis by simp
next
  case (Inr k)
  then obtain s d s' d' q reason where s: "s = prior_or (Option.bind prior sd_stability) (mp_initial (fst (resolve_params None)))"
    and u: "memory_update (fst (resolve_params None)) b s d = (s', d', q, reason)"
    and le: "ro_observed_at b + days_us (interval_days m s' (clamp_retention desired)) \<le> datetime_max"
    by (rule update_elim) (rule that)
  have "of_int c / 64 \<le> s" using assms(6) by (simp add: s resolve_params_def default_params_def)
  from stability_grows [OF this assms(7,9,5,2)] u have "of_int (grow_64 c) / 64 \<le> s'"
    by (simp add: resolve_params_def)
  moreover have "(536870912 :: rat) \<le> of_int (grow_64 c)" using assms(8) by (metis of_int_le_iff of_int_numeral)
  ultimately have "8388608 \<le> s'" by linarith
  from long_interval [OF assms(1) this, of desired] le assms(4) show ?thesis by simp
qed

lemma update_grows:
  assumes "update_review env m b prior v w desired None = Inr k" and "valid_observation b" and "unaided_success b"
    and "of_int c / 64 \<le> prior_or (Option.bind prior sd_stability) 1" and "0 < grow_64 c"
    and "0 \<le> c" and "grow_64 c \<le> 2 ^ 53"
  shows "of_int (grow_64 c) / 64 \<le> prior_or (sd_stability (sk_schedule k)) 1"
proof -
  obtain s d s' d' q reason where s: "s = prior_or (Option.bind prior sd_stability) (mp_initial (fst (resolve_params None)))"
    and u: "memory_update (fst (resolve_params None)) b s d = (s', d', q, reason)"
    and k: "sk_schedule k = make_schedule env m b prior v w (clamp_retention desired)
          (snd (resolve_params None)) (s', d', q, reason)
          (ro_observed_at b + days_us (interval_days m s' (clamp_retention desired)))"
    using assms(1) by (rule update_elim) (rule that)
  have "of_int c / 64 \<le> s" using assms(4) by (simp add: s resolve_params_def default_params_def)
  from stability_grows [OF this assms(6,7,3,2)] u have "of_int (grow_64 c) / 64 \<le> s'"
    by (simp add: resolve_params_def)
  moreover have "0 < (of_int (grow_64 c) :: rat) / 64" using assms(5) by simp
  ultimately show ?thesis by (simp add: k prior_or_def)
qed

end
