(* ===== verification/Planner.thy ===== *)
theory Planner
  imports Scheduler
begin

text \<open>
  \<open>app/domains/learning_planner/planner.py\<close>: the daily plan. Candidates are the due reviews and, per
  target of the goal, the repair of its hard prerequisites or else work on the target itself; a
  greedy pass fills the time budget in order of priority.
\<close>

section \<open>Contracts\<close>

datatype activity_type =
    LEARN_NEW | PREREQUISITE_REMEDIATION | DIAGNOSTIC | PRACTICE | DELAYED_REVIEW | TRANSFER_CHECK
  | METACOGNITIVE_REVIEW

fun activity_name :: "activity_type \<Rightarrow> string" where
  "activity_name LEARN_NEW = ''learn_new''"
| "activity_name PREREQUISITE_REMEDIATION = ''prerequisite_remediation''"
| "activity_name DIAGNOSTIC = ''diagnostic''"
| "activity_name PRACTICE = ''practice''"
| "activity_name DELAYED_REVIEW = ''delayed_review''"
| "activity_name TRANSFER_CHECK = ''transfer_check''"
| "activity_name METACOGNITIVE_REVIEW = ''metacognitive_review''"

datatype activity_status = PLANNED | AVAILABLE_NOW | ACTIVE | DONE | SKIPPED | ACTIVITY_SUPERSEDED

record learning_activity =
  la_id :: uuid
  la_plan :: uuid
  la_plan_version :: int
  la_objective :: uuid
  la_type :: activity_type
  la_units :: "uuid list"
  la_minutes :: int
  la_priority :: float64
  la_reasons :: "string list"
  la_status :: activity_status

datatype plan_status = PLAN_ACTIVE | PLAN_SUPERSEDED | PLAN_COMPLETED | PLAN_PAUSED

record learning_plan =
  lp_id :: uuid
  lp_version :: int
  lp_goal :: uuid
  lp_budget :: int
  lp_objectives :: "uuid list"
  lp_activities :: "uuid list"
  lp_planner :: string
  lp_learner_state :: int
  lp_graph :: string
  lp_reviews :: "string option"
  lp_reasons :: "string list"
  lp_status :: plan_status

record confirmed_goal =
  cg_id :: uuid
  cg_objective :: uuid
  cg_targets :: "uuid list"
  cg_confirmed :: time

section \<open>Candidates\<close>

datatype mastery_bucket = MB_UNKNOWN | MB_LOW | MB_DEVELOPING | MB_MASTERED

definition mastery_bucket :: "float64 option \<Rightarrow> mastery_bucket" where
  "mastery_bucket v =
     (case v of
        None \<Rightarrow> MB_UNKNOWN
      | Some x \<Rightarrow> if x < fl (70 / 100) then MB_LOW else if x < fl (85 / 100) then MB_DEVELOPING else MB_MASTERED)"

record plan_candidate =
  pc_kind :: activity_type
  pc_unit :: uuid
  pc_minutes :: int
  pc_priority :: float64
  pc_reasons :: "string list"

definition goal_weight :: float64 where "goal_weight = 1"
definition gap_weight :: float64 where "gap_weight = fl (8 / 10)"
definition urgency_weight :: float64 where "urgency_weight = fl (9 / 10)"
definition uncertainty_weight :: float64 where "uncertainty_weight = fl (7 / 10)"
definition prerequisite_weight :: float64 where "prerequisite_weight = fl (11 / 10)"

fun activity_minutes :: "activity_type \<Rightarrow> int" where
  "activity_minutes DIAGNOSTIC = 5"
| "activity_minutes PREREQUISITE_REMEDIATION = 12"
| "activity_minutes LEARN_NEW = 15"
| "activity_minutes DELAYED_REVIEW = 8"
| "activity_minutes TRANSFER_CHECK = 10"
| "activity_minutes _ = 0"

definition mk_candidate :: "activity_type \<Rightarrow> uuid \<Rightarrow> float64 \<Rightarrow> string list \<Rightarrow> plan_candidate" where
  "mk_candidate k u p rs = \<lparr>pc_kind = k, pc_unit = u, pc_minutes = activity_minutes k, pc_priority = p, pc_reasons = rs\<rparr>"

definition is_due :: "due_candidate \<Rightarrow> bool" where
  "is_due d \<longleftrightarrow> du_status d \<in> {DUE, OVERDUE}"

definition review_candidates :: "due_candidate list \<Rightarrow> plan_candidate list" where
  "review_candidates ds = map (\<lambda>d. mk_candidate DELAYED_REVIEW (du_unit d) (fmul urgency_weight (du_urgency d))
     [if du_status d = OVERDUE then ''PLAN_REVIEW_OVERDUE'' else ''PLAN_REVIEW_DUE'']) (filter is_due ds)"

type_synonym mastery_map = "(uuid, float64 option) dict"
type_synonym prerequisite_map = "(uuid, uuid list) dict"

definition mastery_at :: "mastery_map \<Rightarrow> uuid \<Rightarrow> float64 option" where
  "mastery_at m u = (case dict_get m u of None \<Rightarrow> None | Some v \<Rightarrow> v)"

definition prerequisites_of :: "prerequisite_map \<Rightarrow> uuid \<Rightarrow> uuid list" where
  "prerequisites_of ps u = sort (case dict_get ps u of None \<Rightarrow> [] | Some xs \<Rightarrow> xs)"

definition unknown_of :: "prerequisite_map \<Rightarrow> mastery_map \<Rightarrow> uuid \<Rightarrow> uuid list" where
  "unknown_of ps m t = filter (\<lambda>p. mastery_bucket (mastery_at m p) = MB_UNKNOWN) (prerequisites_of ps t)"

definition unmet_of :: "prerequisite_map \<Rightarrow> mastery_map \<Rightarrow> uuid \<Rightarrow> uuid list" where
  "unmet_of ps m t = filter (\<lambda>p. mastery_bucket (mastery_at m p) \<in> {MB_LOW, MB_DEVELOPING}) (prerequisites_of ps t)"

definition own_candidate :: "mastery_map \<Rightarrow> uuid \<Rightarrow> plan_candidate" where
  "own_candidate m t =
     (case mastery_bucket (mastery_at m t) of
        MB_UNKNOWN \<Rightarrow> mk_candidate DIAGNOSTIC t (fadd goal_weight uncertainty_weight) [''PLAN_TARGET_STATE_UNKNOWN'']
      | MB_MASTERED \<Rightarrow> mk_candidate TRANSFER_CHECK t goal_weight [''PLAN_TRANSFER_EVIDENCE_NEEDED'']
      | _ \<Rightarrow> mk_candidate LEARN_NEW t (fadd goal_weight gap_weight) [''PLAN_MASTERY_GAP''])"

definition target_candidates :: "prerequisite_map \<Rightarrow> mastery_map \<Rightarrow> uuid \<Rightarrow> plan_candidate list" where
  "target_candidates ps m t =
     (if unknown_of ps m t \<noteq> []
      then map (\<lambda>p. mk_candidate DIAGNOSTIC p (fadd prerequisite_weight uncertainty_weight)
             [''PLAN_PREREQUISITE_UNKNOWN'', ''PLAN_DIAGNOSTIC_REQUIRED'']) (unknown_of ps m t)
      else if unmet_of ps m t \<noteq> []
      then map (\<lambda>p. mk_candidate PREREQUISITE_REMEDIATION p (fadd prerequisite_weight gap_weight)
             [''PLAN_HARD_PREREQUISITE_UNMET'']) (unmet_of ps m t)
      else [own_candidate m t])"

definition candidate_order :: "plan_candidate \<Rightarrow> float64 \<times> string \<times> uuid" where
  "candidate_order c = (- pc_priority c, activity_name (pc_kind c), pc_unit c)"

definition plan_candidates :: "confirmed_goal \<Rightarrow> prerequisite_map \<Rightarrow> mastery_map \<Rightarrow> due_candidate list \<Rightarrow> plan_candidate list" where
  "plan_candidates g ps m ds = sort_key candidate_order
     (review_candidates ds @ concat (map (target_candidates ps m) (sort (cg_targets g))))"

section \<open>Selection\<close>

abbreviation identity_of :: "plan_candidate \<Rightarrow> activity_type \<times> uuid" where
  "identity_of c \<equiv> (pc_kind c, pc_unit c)"

fun fill_budget :: "int \<Rightarrow> (activity_type \<times> uuid) list \<Rightarrow> plan_candidate list \<Rightarrow> plan_candidate list" where
  "fill_budget left seen [] = []"
| "fill_budget left seen (c # cs) =
     (if identity_of c \<in> set seen \<or> left < pc_minutes c
      then fill_budget left seen cs
      else c # fill_budget (left - pc_minutes c) (identity_of c # seen) cs)"

definition select_activities :: "int \<Rightarrow> plan_candidate list \<Rightarrow> plan_candidate list" where
  "select_activities budget cs =
     (let chosen = fill_budget (max 0 budget) [] cs
      in if chosen = [] \<and> cs \<noteq> []
         then [hd (sort_key (\<lambda>c. (pc_minutes c, - pc_priority c)) cs)]
         else chosen)"

section \<open>The plan\<close>

record plan_trace_item =
  pt_kind :: activity_type
  pt_unit :: uuid
  pt_priority :: float64
  pt_minutes :: int
  pt_selected :: bool

record planner_decision =
  pd_plan :: learning_plan
  pd_activities :: "learning_activity list"
  pd_trace :: "plan_trace_item list"

datatype plan_error = PLAN_VALIDATION

definition planner_version :: string where
  "planner_version = ''heuristic-greedy/1.0''"

definition plan_identity :: "pyenv \<Rightarrow> confirmed_goal \<Rightarrow> uuid" where
  "plan_identity env g = uuid5 env (''askora:learning-plan:'' @ cg_id g)"

definition activity_of :: "pyenv \<Rightarrow> confirmed_goal \<Rightarrow> int \<Rightarrow> plan_candidate \<Rightarrow> learning_activity" where
  "activity_of env g version c =
    \<lparr>la_id = uuid5 env (''askora:activity:'' @ plan_identity env g @ '':'' @ int_str version @ '':'' @
        activity_name (pc_kind c) @ '':'' @ pc_unit c),
     la_plan = plan_identity env g, la_plan_version = version, la_objective = cg_objective g,
     la_type = pc_kind c, la_units = [pc_unit c], la_minutes = pc_minutes c, la_priority = pc_priority c,
     la_reasons = pc_reasons c, la_status = PLANNED\<rparr>"

definition review_versions :: "due_candidate list \<Rightarrow> string option" where
  "review_versions ds =
     (let vs = sort (remdups (map (\<lambda>d. du_schedule d @ '':'' @ int_str (du_version d)) (filter is_due ds)))
      in if vs = [] then None else Some (str_join '','' vs))"

definition make_plan :: "pyenv \<Rightarrow> confirmed_goal \<Rightarrow> due_candidate list \<Rightarrow> int \<Rightarrow> int \<Rightarrow> string \<Rightarrow> int \<Rightarrow>
    string list \<Rightarrow> learning_activity list \<Rightarrow> learning_plan" where
  "make_plan env g ds budget learner_state graph version reasons acts =
    \<lparr>lp_id = plan_identity env g, lp_version = version, lp_goal = cg_id g, lp_budget = budget,
     lp_objectives = [cg_objective g], lp_activities = map la_id acts, lp_planner = planner_version,
     lp_learner_state = learner_state, lp_graph = graph, lp_reviews = review_versions ds,
     lp_reasons = (if reasons = [] then [''PLAN_INITIAL_GENERATION''] else reasons), lp_status = PLAN_ACTIVE\<rparr>"

definition trace_of :: "plan_candidate list \<Rightarrow> plan_candidate \<Rightarrow> plan_trace_item" where
  "trace_of chosen c = \<lparr>pt_kind = pc_kind c, pt_unit = pc_unit c, pt_priority = pc_priority c,
     pt_minutes = pc_minutes c, pt_selected = (c \<in> set chosen)\<rparr>"

text \<open>The field bounds of the two contracts that a plan can violate: its version, and the learner
  state version it was made from.\<close>

definition generate_plan :: "pyenv \<Rightarrow> confirmed_goal \<Rightarrow> prerequisite_map \<Rightarrow> mastery_map \<Rightarrow> due_candidate list \<Rightarrow>
    int \<Rightarrow> int \<Rightarrow> string \<Rightarrow> int \<Rightarrow> string list \<Rightarrow> plan_error + planner_decision" where
  "generate_plan env g ps m ds budget learner_state graph version reasons =
     (let cs = plan_candidates g ps m ds;
          chosen = select_activities budget cs;
          acts = map (activity_of env g version) chosen
      in if version < 1 \<or> learner_state < 0 then Inl PLAN_VALIDATION
         else Inr \<lparr>pd_plan = make_plan env g ds budget learner_state graph version reasons acts,
                   pd_activities = acts, pd_trace = map (trace_of chosen) cs\<rparr>)"

definition changed_mastery :: "float64 option \<Rightarrow> float64 option \<Rightarrow> bool" where
  "changed_mastery before after =
     (case (before, after) of
        (Some b, Some a) \<Rightarrow> fl (5 / 100) \<le> \<bar>fsub b a\<bar>
      | _ \<Rightarrow> before \<noteq> after)"

definition is_material_change :: "mastery_map \<Rightarrow> mastery_map \<Rightarrow> bool" where
  "is_material_change prior new =
     list_ex (\<lambda>k. changed_mastery (mastery_at prior k) (mastery_at new k)) (map fst prior @ map fst new)"

section \<open>What a plan contains\<close>

lemma fill_budget_total: "0 \<le> left \<Longrightarrow> sum_list (map pc_minutes (fill_budget left seen cs)) \<le> left"
  by (induction left seen cs rule: fill_budget.induct) auto

lemma fill_budget_subset: "set (fill_budget left seen cs) \<subseteq> set cs"
  by (induction left seen cs rule: fill_budget.induct) auto

lemma fill_budget_distinct:
  "distinct (map identity_of (fill_budget left seen cs)) \<and> set seen \<inter> identity_of ` set (fill_budget left seen cs) = {}"
  by (induction left seen cs rule: fill_budget.induct) auto

text \<open>A candidate that the greedy pass leaves out repeats a chosen one or does not fit beside the
  chosen ones that rank before it.\<close>

lemma fill_budget_maximal:
  assumes "cs = xs @ c # ys"
  shows "c \<in> set (fill_budget left seen cs) \<or>
    identity_of c \<in> set seen \<union> identity_of ` set (fill_budget left seen xs) \<or>
    left - sum_list (map pc_minutes (fill_budget left seen xs)) < pc_minutes c"
  using assms
proof (induction left seen cs arbitrary: xs rule: fill_budget.induct)
  case (2 left seen d cs)
  show ?case
  proof (cases xs)
    case Nil
    with "2.prems" show ?thesis by auto
  next
    case (Cons x xs')
    with "2.prems" have "d = x" "cs = xs' @ c # ys" by auto
    then show ?thesis using "2.IH" Cons by (cases "identity_of d \<in> set seen \<or> left < pc_minutes d") auto
  qed
qed simp

lemma fill_budget_empty: "fill_budget left [] cs = [] \<Longrightarrow> x \<in> set cs \<Longrightarrow> left < pc_minutes x"
  by (induction cs) (auto split: if_splits)

lemma select_subset: "set (select_activities budget cs) \<subseteq> set cs"
  using fill_budget_subset [of "max 0 budget" "[]" cs] hd_sort_key_mem [of cs]
  by (auto simp: select_activities_def Let_def)

lemma select_nonempty: "select_activities budget cs = [] \<longleftrightarrow> cs = []"
  by (auto simp: select_activities_def Let_def)

definition ready :: "prerequisite_map \<Rightarrow> mastery_map \<Rightarrow> uuid \<Rightarrow> bool" where
  "ready ps m t \<longleftrightarrow> list_all (\<lambda>p. mastery_bucket (mastery_at m p) = MB_MASTERED) (prerequisites_of ps t)"

lemma ready_iff: "ready ps m t \<longleftrightarrow> unknown_of ps m t = [] \<and> unmet_of ps m t = []"
proof -
  have "b = MB_MASTERED \<longleftrightarrow> b \<noteq> MB_UNKNOWN \<and> b \<notin> {MB_LOW, MB_DEVELOPING}" for b by (cases b) auto
  then show ?thesis by (auto simp: ready_def unknown_of_def unmet_of_def filter_empty_conv list_all_iff)
qed

lemma target_candidates_nonempty: "target_candidates ps m t \<noteq> []"
  by (simp add: target_candidates_def)

lemma plan_candidates_empty: "plan_candidates g ps m ds = [] \<longleftrightarrow> cg_targets g = [] \<and> filter is_due ds = []"
proof -
  have "sort_key candidate_order xs = [] \<longleftrightarrow> xs = []" for xs by (metis length_0_conv length_sort)
  moreover have "sort (cg_targets g) = [] \<longleftrightarrow> cg_targets g = []" by (metis length_0_conv length_sort)
  moreover have "concat (map (target_candidates ps m) ts) = [] \<longleftrightarrow> ts = []" for ts
    by (cases ts) (simp_all add: target_candidates_nonempty)
  ultimately show ?thesis unfolding plan_candidates_def review_candidates_def by simp blast
qed

definition justified :: "prerequisite_map \<Rightarrow> mastery_map \<Rightarrow> due_candidate list \<Rightarrow> uuid list \<Rightarrow> activity_type \<Rightarrow> uuid \<Rightarrow> bool" where
  "justified ps m ds targets k u =
     (case k of
        LEARN_NEW \<Rightarrow> u \<in> set targets \<and> ready ps m u \<and> mastery_bucket (mastery_at m u) \<in> {MB_LOW, MB_DEVELOPING}
      | TRANSFER_CHECK \<Rightarrow> u \<in> set targets \<and> ready ps m u \<and> mastery_bucket (mastery_at m u) = MB_MASTERED
      | DIAGNOSTIC \<Rightarrow> mastery_bucket (mastery_at m u) = MB_UNKNOWN \<and>
          (u \<in> set targets \<and> ready ps m u \<or> list_ex (\<lambda>t. u \<in> set (prerequisites_of ps t)) targets)
      | PREREQUISITE_REMEDIATION \<Rightarrow> mastery_bucket (mastery_at m u) \<in> {MB_LOW, MB_DEVELOPING} \<and>
          list_ex (\<lambda>t. u \<in> set (prerequisites_of ps t) \<and> unknown_of ps m t = []) targets
      | DELAYED_REVIEW \<Rightarrow> list_ex (\<lambda>d. is_due d \<and> du_unit d = u) ds
      | _ \<Rightarrow> False)"

lemma target_candidates_justified:
  assumes "t \<in> set targets" and "c \<in> set (target_candidates ps m t)"
  shows "justified ps m ds targets (pc_kind c) (pc_unit c)"
proof -
  consider (unknown) "unknown_of ps m t \<noteq> []" | (unmet) "unknown_of ps m t = []" "unmet_of ps m t \<noteq> []"
    | (own) "ready ps m t" by (auto simp: ready_iff)
  then show ?thesis
  proof cases
    case own
    with assms show ?thesis
      by (cases "mastery_bucket (mastery_at m t)")
        (simp_all add: ready_iff target_candidates_def own_candidate_def justified_def mk_candidate_def)
  qed (use assms in \<open>auto simp: target_candidates_def justified_def mk_candidate_def unknown_of_def unmet_of_def
        list_ex_iff\<close>)
qed

lemma plan_candidates_justified:
  assumes "c \<in> set (plan_candidates g ps m ds)"
  shows "justified ps m ds (cg_targets g) (pc_kind c) (pc_unit c)"
proof -
  consider "c \<in> set (review_candidates ds)" | t where "t \<in> set (cg_targets g)" "c \<in> set (target_candidates ps m t)"
    using assms by (auto simp: plan_candidates_def)
  then show ?thesis
  proof cases
    case 1
    then show ?thesis by (auto simp: review_candidates_def mk_candidate_def justified_def list_ex_iff)
  qed (rule target_candidates_justified)
qed

lemma generate_plan_elim:
  assumes "generate_plan env g ps m ds budget learner_state graph version reasons = Inr d"
  obtains chosen where "chosen = select_activities budget (plan_candidates g ps m ds)"
    and "pd_activities d = map (activity_of env g version) chosen"
    and "pd_plan d = make_plan env g ds budget learner_state graph version reasons (pd_activities d)"
    and "1 \<le> version" and "0 \<le> learner_state"
  using assms by (auto simp: generate_plan_def Let_def split: if_splits)

lemma activity_fields [simp]:
  "la_type (activity_of env g v c) = pc_kind c" "la_units (activity_of env g v c) = [pc_unit c]"
  "la_minutes (activity_of env g v c) = pc_minutes c"
  by (simp_all add: activity_of_def)

text \<open>C34: every activity of a plan is warranted by the learner's state. New learning and
  transfer are planned only for a target of the goal whose hard prerequisites are all mastered, a
  diagnostic only for an unknown target or prerequisite, remediation only for a prerequisite known
  to be unmet, and a review only for a unit that is due.\<close>

theorem plan_respects_prerequisites:
  assumes "generate_plan env g ps m ds budget learner_state graph version reasons = Inr d"
    and "a \<in> set (pd_activities d)"
  shows "\<exists>u. la_units a = [u] \<and> justified ps m ds (cg_targets g) (la_type a) u"
proof -
  obtain chosen where c: "chosen = select_activities budget (plan_candidates g ps m ds)"
    and a: "pd_activities d = map (activity_of env g version) chosen"
    using assms(1) by (rule generate_plan_elim)
  with assms(2) obtain x where x: "x \<in> set chosen" "a = activity_of env g version x" by auto
  with c select_subset have "x \<in> set (plan_candidates g ps m ds)" by auto
  from plan_candidates_justified [OF this] x(2) show ?thesis by simp
qed

lemma select_budget:
  "sum_list (map pc_minutes (select_activities budget cs)) \<le> max 0 budget \<or>
    (\<exists>c. select_activities budget cs = [c] \<and> (\<forall>x \<in> set cs. max 0 budget < pc_minutes x \<and> pc_minutes c \<le> pc_minutes x))"
proof (cases "fill_budget (max 0 budget) [] cs = [] \<and> cs \<noteq> []")
  case True
  let ?k = "\<lambda>c. (pc_minutes c, - pc_priority c)"
  have "max 0 budget < pc_minutes x" if "x \<in> set cs" for x
    using fill_budget_empty [OF _ that] True by blast
  moreover have "pc_minutes (hd (sort_key ?k cs)) \<le> pc_minutes x" if "x \<in> set cs" for x
    using hd_sort_key_le [OF that, of ?k] by (auto simp: less_eq_prod_def)
  ultimately show ?thesis using True by (simp add: select_activities_def)
next
  case False
  with fill_budget_total [of "max 0 budget" "[]" cs] show ?thesis by (auto simp: select_activities_def Let_def)
qed

lemma select_distinct: "distinct (map identity_of (select_activities budget cs))"
  using fill_budget_distinct [of "max 0 budget" "[]" cs] by (simp add: select_activities_def Let_def)

text \<open>A plan repeats no activity and stays within the time budget, unless nothing fits:
  then it is the single shortest candidate. It is empty only for a goal without targets and a
  learner without due reviews.\<close>

theorem plan_within_budget:
  assumes "generate_plan env g ps m ds budget learner_state graph version reasons = Inr d"
  shows "distinct (map (\<lambda>a. (la_type a, la_units a)) (pd_activities d)) \<and>
    (sum_list (map la_minutes (pd_activities d)) \<le> max 0 budget \<or>
      (\<exists>a. pd_activities d = [a] \<and> list_all (\<lambda>c. max 0 budget < pc_minutes c \<and> la_minutes a \<le> pc_minutes c)
        (plan_candidates g ps m ds))) \<and>
    (pd_activities d = [] \<longleftrightarrow> cg_targets g = [] \<and> filter is_due ds = [])"
proof -
  let ?cs = "plan_candidates g ps m ds"
  have a: "pd_activities d = map (activity_of env g version) (select_activities budget ?cs)"
    using assms by (rule generate_plan_elim) simp
  have "distinct (map (\<lambda>c. (pc_kind c, [pc_unit c])) (select_activities budget ?cs))"
    using select_distinct [of budget ?cs] by (simp add: distinct_map inj_on_def)
  moreover have "sum_list (map pc_minutes (select_activities budget ?cs)) \<le> max 0 budget \<or>
      (\<exists>a. pd_activities d = [a] \<and> list_all (\<lambda>c. max 0 budget < pc_minutes c \<and> la_minutes a \<le> pc_minutes c) ?cs)"
    using select_budget [of budget ?cs] by (auto simp: a list_all_iff)
  ultimately show ?thesis
    by (simp add: a comp_def select_nonempty plan_candidates_empty)
qed

section \<open>A plan for a learner who misses a prerequisite\<close>

definition demo_goal :: confirmed_goal where
  "demo_goal = \<lparr>cg_id = ''g'', cg_objective = ''o'', cg_targets = [''t''], cg_confirmed = 0\<rparr>"

lemma demo_chosen: "select_activities 10 (plan_candidates demo_goal [(''t'', [''p''])] [] [])
    = [mk_candidate DIAGNOSTIC ''p'' (fadd prerequisite_weight uncertainty_weight)
        [''PLAN_PREREQUISITE_UNKNOWN'', ''PLAN_DIAGNOSTIC_REQUIRED'']]"
  by (simp add: plan_candidates_def demo_goal_def review_candidates_def target_candidates_def unknown_of_def
      prerequisites_of_def dict_get_def mastery_at_def mastery_bucket_def select_activities_def mk_candidate_def)

definition demo_plan :: planner_decision where
  "demo_plan = (case generate_plan plain_env demo_goal [(''t'', [''p''])] [] [] 10 1 ''kg'' 1 [] of Inr d \<Rightarrow> d)"

lemma demo_plan_made: "generate_plan plain_env demo_goal [(''t'', [''p''])] [] [] 10 1 ''kg'' 1 [] = Inr demo_plan"
  by (simp add: demo_plan_def generate_plan_def Let_def)

lemma demo_activities: "map (\<lambda>a. (la_type a, la_units a)) (pd_activities demo_plan) = [(DIAGNOSTIC, [''p''])]"
  using demo_plan_made by (rule generate_plan_elim) (simp add: demo_chosen mk_candidate_def)

theorem plan_respects_prerequisites_witness:
  "\<exists>a. a \<in> set (pd_activities demo_plan) \<and> (\<exists>u. la_units a = [u] \<and> justified [(''t'', [''p''])] [] [] [''t''] (la_type a) u)"
proof -
  obtain a where a: "a \<in> set (pd_activities demo_plan)" using demo_activities by (cases "pd_activities demo_plan") auto
  from plan_respects_prerequisites [OF demo_plan_made this] a show ?thesis
    by (auto simp: demo_goal_def)
qed

theorem plan_within_budget_witness:
  "distinct (map (\<lambda>a. (la_type a, la_units a)) (pd_activities demo_plan)) \<and> pd_activities demo_plan \<noteq> []"
  using plan_within_budget [OF demo_plan_made] by (simp add: demo_goal_def)

text \<open>Mastery that did not move is no reason to plan again.\<close>

lemma unchanged_mastery: "\<not> is_material_change m m"
proof -
  have "\<not> fl (5 / 100) \<le> 0"
  proof
    assume "fl (5 / 100) \<le> 0"
    moreover have "fl (1 / 32) \<le> fl (5 / 100)" by (intro fl_mono) simp
    moreover have "fl (1 / 32) = 1 / 32" using fl_exact [of 1 "- 5"] by simp
    ultimately show False by simp
  qed
  then show ?thesis by (auto simp: is_material_change_def list_ex_iff changed_mastery_def fsub_def split: option.splits)
qed

end
