(* ===== verification/Diagnostic.thy ===== *)
theory Diagnostic
  imports Planner
begin

text \<open>
  \<open>app/domains/learning_planner/diagnostic.py\<close> and the contract \<open>DiagnosticNeedV1\<close>: which hard
  prerequisite of a target to assess next. A Python set of units is a duplicate-free list; what the
  code reads from a set does not depend on its order, except where it sorts.
\<close>

section \<open>Contracts\<close>

record prerequisite_edge =
  pe_prerequisite :: uuid
  pe_target :: uuid
  pe_relation :: versioned_ref

datatype need_status = NEED_ACTIVE | NEED_RESOLVED | NEED_BLOCKED | NEED_STOPPED

datatype stop_reason =
    ALL_DECISION_RELEVANT_PREREQUISITES_RESOLVED | TARGET_READY | REMEDIATION_REQUIRED
  | DIAGNOSTIC_BUDGET_EXHAUSTED | NO_VALID_ASSESSMENT_ITEM | LOW_CONFIDENCE_REQUIRES_REVIEW
  | USER_STOPPED | SYSTEM_BLOCKED

record diagnostic_need =
  dn_id :: uuid
  dn_version :: int
  dn_user :: uuid
  dn_mapping :: versioned_ref
  dn_subgraph :: versioned_ref
  dn_target :: uuid
  dn_prerequisites :: "uuid list"
  dn_edges :: "prerequisite_edge list"
  dn_unknown :: "uuid list"
  dn_unmet :: "uuid list"
  dn_sufficient :: "uuid list"
  dn_reasons :: "string list"
  dn_planner :: string
  dn_diagnostic_planner :: string
  dn_budget_policy :: string
  dn_max_attempts :: int
  dn_attempts :: int
  dn_learner_state :: int
  dn_graphs :: "string list"
  dn_current :: "uuid option"
  dn_item :: "versioned_ref option"
  dn_results :: "versioned_ref list"
  dn_status :: need_status
  dn_stop :: "stop_reason option"
  dn_created :: time
  dn_supersedes :: "int option"

datatype need_error =
    NEED_FIELDS | OUTSIDE_SCOPE | NOT_DISJOINT | OVER_BUDGET | ACTIVE_WITHOUT_UNIT | STOP_WITHOUT_REASON
  | ITEM_WITHOUT_UNIT

text \<open>Field bounds first, then the model validator in its order.\<close>

definition need_fields_ok :: "diagnostic_need \<Rightarrow> bool" where
  "need_fields_ok n \<longleftrightarrow> 1 \<le> dn_version n \<and> dn_reasons n \<noteq> [] \<and> dn_planner n \<noteq> [] \<and>
     dn_diagnostic_planner n \<noteq> [] \<and> dn_budget_policy n \<noteq> [] \<and> 1 \<le> dn_max_attempts n \<and>
     0 \<le> dn_attempts n \<and> 1 \<le> dn_learner_state n \<and>
     (case dn_supersedes n of None \<Rightarrow> True | Some v \<Rightarrow> 1 \<le> v)"

definition overlaps :: "uuid list \<Rightarrow> uuid list \<Rightarrow> bool" where
  "overlaps xs ys \<longleftrightarrow> set xs \<inter> set ys \<noteq> {}"

definition check_need :: "diagnostic_need \<Rightarrow> need_error + diagnostic_need" where
  "check_need n =
     (let parts = [dn_unknown n, dn_unmet n, dn_sufficient n]
      in if \<not> need_fields_ok n then Inl NEED_FIELDS
         else if \<not> list_all (\<lambda>p. set p \<subseteq> set (dn_prerequisites n)) parts then Inl OUTSIDE_SCOPE
         else if overlaps (dn_unmet n) (dn_unknown n) \<or> overlaps (dn_sufficient n) (dn_unknown n)
           \<or> overlaps (dn_sufficient n) (dn_unmet n) then Inl NOT_DISJOINT
         else if dn_max_attempts n < dn_attempts n then Inl OVER_BUDGET
         else if dn_status n = NEED_ACTIVE \<and> (dn_stop n \<noteq> None \<or> dn_current n = None) then Inl ACTIVE_WITHOUT_UNIT
         else if dn_status n \<noteq> NEED_ACTIVE \<and> dn_stop n = None then Inl STOP_WITHOUT_REASON
         else if dn_item n \<noteq> None \<and> dn_current n = None then Inl ITEM_WITHOUT_UNIT
         else Inr n)"

section \<open>Classification\<close>

datatype evidence_class = EC_UNKNOWN | EC_UNMET | EC_SUFFICIENT

type_synonym estimate_map = "(uuid, mastery_estimate option) dict"

definition diagnostic_confidence :: float64 where
  "diagnostic_confidence = 1 / 4"

definition ready_competence :: float64 where
  "ready_competence = fl (70 / 100)"

definition classify :: "mastery_estimate option \<Rightarrow> evidence_class" where
  "classify e =
     (case e of
        None \<Rightarrow> EC_UNKNOWN
      | Some m \<Rightarrow>
          (case mm_competence m of
             None \<Rightarrow> EC_UNKNOWN
           | Some c \<Rightarrow>
               if mm_confidence m < diagnostic_confidence \<or> mm_evidence_count m = 0 then EC_UNKNOWN
               else if ready_competence \<le> c \<and> 0 < mm_independent_successes m then EC_SUFFICIENT
               else EC_UNMET))"

definition class_at :: "estimate_map \<Rightarrow> uuid \<Rightarrow> evidence_class" where
  "class_at m u = classify (case dict_get m u of None \<Rightarrow> None | Some e \<Rightarrow> e)"

definition units_in :: "evidence_class \<Rightarrow> uuid list \<Rightarrow> estimate_map \<Rightarrow> uuid list" where
  "units_in c ps m = remdups (filter (\<lambda>u. class_at m u = c) ps)"

section \<open>The prerequisite graph\<close>

definition children_of :: "prerequisite_edge list \<Rightarrow> uuid \<Rightarrow> uuid list" where
  "children_of es t = sort (remdups (map pe_prerequisite (filter (\<lambda>e. pe_target e = t) es)))"

text \<open>The worklist of \<open>_first_unresolved_descendants\<close>. Every unit that joins the queue is unmet, so
  the units still to visit shrink with each one visited.\<close>

function first_found :: "(uuid \<Rightarrow> uuid list) \<Rightarrow> uuid list \<Rightarrow> uuid list \<Rightarrow> uuid list \<Rightarrow> uuid list \<Rightarrow> uuid list" where
  "first_found ch unknown unmet visited [] = []"
| "first_found ch unknown unmet visited (u # queue) =
     (if u \<in> set visited then first_found ch unknown unmet visited queue
      else let found = filter (\<lambda>x. x \<in> set unknown) (ch u)
           in if found \<noteq> [] then found
              else first_found ch unknown unmet (u # visited) (queue @ filter (\<lambda>x. x \<in> set unmet) (ch u)))"
  by pat_completeness auto
termination
proof (relation "measures [\<lambda>(ch, unknown, unmet, visited, queue). card (set unmet \<union> set queue - set visited),
    \<lambda>(ch, unknown, unmet, visited, queue). length queue]", goal_cases)
  case (2 ch unknown unmet visited u queue)
  then have "set unmet \<union> set queue - set visited = set unmet \<union> set (u # queue) - set visited" by auto
  then show ?case by simp
next
  case (3 ch unknown unmet visited u queue found)
  let ?new = "set unmet \<union> set (queue @ filter (\<lambda>x. x \<in> set unmet) (ch u)) - set (u # visited)"
  let ?old = "set unmet \<union> set (u # queue) - set visited"
  have "?new \<subseteq> ?old" "u \<in> ?old" "u \<notin> ?new" using 3 by auto
  then have "?new \<subset> ?old" by blast
  then have "card ?new < card ?old" by (intro psubset_card_mono) simp_all
  then show ?case by simp
qed simp

definition unresolved_descendants :: "(uuid \<Rightarrow> uuid list) \<Rightarrow> uuid list \<Rightarrow> uuid list \<Rightarrow> uuid \<Rightarrow> uuid list" where
  "unresolved_descendants ch unknown unmet start =
     (let direct = filter (\<lambda>x. x \<in> set unknown) (ch start)
      in if direct \<noteq> [] then direct
         else first_found ch unknown unmet [] (filter (\<lambda>x. x \<in> set unmet) (ch start)))"

definition downstream_value :: "prerequisite_edge list \<Rightarrow> uuid \<Rightarrow> int" where
  "downstream_value es u = int (length (filter (\<lambda>e. pe_prerequisite e = u) es))"

definition select_unit :: "prerequisite_edge list \<Rightarrow> uuid list \<Rightarrow> uuid" where
  "select_unit es cs = hd (sort_key (\<lambda>u. (- downstream_value es u, u)) cs)"

section \<open>The decision\<close>

definition diagnostic_candidates :: "(uuid \<Rightarrow> uuid list) \<Rightarrow> uuid list \<Rightarrow> uuid list \<Rightarrow> uuid \<Rightarrow> uuid list" where
  "diagnostic_candidates ch unknown unmet target = remdups (concat (map (\<lambda>d.
      if d \<in> set unknown then [d]
      else if d \<in> set unmet then unresolved_descendants ch unknown unmet d
      else []) (ch target)))"

definition remediation_required :: "(uuid \<Rightarrow> uuid list) \<Rightarrow> uuid list \<Rightarrow> uuid list \<Rightarrow> uuid \<Rightarrow> bool" where
  "remediation_required ch unknown unmet target = list_ex (\<lambda>d.
      d \<notin> set unknown \<and> d \<in> set unmet \<and> unresolved_descendants ch unknown unmet d = []) (ch target)"

definition needs_remediation :: "(uuid \<Rightarrow> uuid list) \<Rightarrow> uuid list \<Rightarrow> uuid list \<Rightarrow> uuid \<Rightarrow> bool" where
  "needs_remediation ch unknown unmet target \<longleftrightarrow>
     remediation_required ch unknown unmet target \<or> list_ex (\<lambda>d. d \<in> set unmet) (ch target)"

definition diagnostic_planner_version :: string where
  "diagnostic_planner_version = ''graph-adaptive-diagnostic-v1''"

definition budget_policy_version :: string where
  "budget_policy_version = ''diagnostic-budget-v1''"

definition decide_need :: "prerequisite_edge list \<Rightarrow> uuid list \<Rightarrow> uuid list \<Rightarrow> uuid list \<Rightarrow> uuid \<Rightarrow> int \<Rightarrow> int \<Rightarrow>
    need_status \<times> stop_reason option \<times> uuid option \<times> string list" where
  "decide_need es ps unknown unmet target max_attempts attempts =
     (let ch = children_of es;
          cs = diagnostic_candidates ch unknown unmet target
      in if ps = [] then (NEED_RESOLVED, Some TARGET_READY, None, [''DIAGNOSTIC_TARGET_HAS_NO_HARD_PREREQUISITE''])
         else if cs = [] then
           (if needs_remediation ch unknown unmet target
            then (NEED_STOPPED, Some REMEDIATION_REQUIRED, None, [''DIAGNOSTIC_DIRECT_PREREQUISITE_UNMET''])
            else (NEED_RESOLVED, Some ALL_DECISION_RELEVANT_PREREQUISITES_RESOLVED, None,
                  [''DIAGNOSTIC_DIRECT_PREREQUISITES_HAVE_CURRENT_EVIDENCE'']))
         else if max_attempts \<le> attempts
         then (NEED_STOPPED, Some DIAGNOSTIC_BUDGET_EXHAUSTED, None, [''DIAGNOSTIC_UNKNOWN_PRESERVED_AT_BUDGET_STOP''])
         else (NEED_ACTIVE, None, Some (select_unit es cs),
               [''DIAGNOSTIC_HIGH_VALUE_PREREQUISITE_SELECTED'', ''DIAGNOSTIC_ITEM_REQUIRED'']))"

record need_request =
  nr_user :: uuid
  nr_mapping :: versioned_ref
  nr_subgraph :: versioned_ref
  nr_target :: uuid
  nr_prerequisites :: "uuid list"
  nr_edges :: "prerequisite_edge list"
  nr_mastery :: estimate_map
  nr_learner_state :: int
  nr_graphs :: "string list"
  nr_planner :: string
  nr_max_attempts :: int
  nr_attempts :: int
  nr_version :: int
  nr_created :: time
  nr_results :: "versioned_ref list"
  nr_supersedes :: "int option"

definition need_identity :: "pyenv \<Rightarrow> need_request \<Rightarrow> uuid" where
  "need_identity env q = uuid5 env (''askora:diagnostic-need:'' @ nr_user q @ '':'' @ vr_id (nr_mapping q) @ '':'' @
     ver_str (vr_version (nr_mapping q)) @ '':'' @ nr_target q)"

definition make_need :: "pyenv \<Rightarrow> need_request \<Rightarrow> diagnostic_need" where
  "make_need env q =
     (let unknown = units_in EC_UNKNOWN (nr_prerequisites q) (nr_mastery q);
          unmet = units_in EC_UNMET (nr_prerequisites q) (nr_mastery q)
      in case decide_need (nr_edges q) (nr_prerequisites q) unknown unmet (nr_target q) (nr_max_attempts q) (nr_attempts q) of
           (status, stop, current, reasons) \<Rightarrow>
      \<lparr>dn_id = need_identity env q, dn_version = nr_version q, dn_user = nr_user q, dn_mapping = nr_mapping q,
       dn_subgraph = nr_subgraph q, dn_target = nr_target q,
       dn_prerequisites = sort (remdups (nr_prerequisites q)),
       dn_edges = sort_key (\<lambda>e. vr_id (pe_relation e)) (nr_edges q),
       dn_unknown = sort unknown, dn_unmet = sort unmet,
       dn_sufficient = sort (units_in EC_SUFFICIENT (nr_prerequisites q) (nr_mastery q)),
       dn_reasons = [diagnostic_planner_version, budget_policy_version, ''diagnostic-current-evidence-v1'',
         ''DIAGNOSTIC_DECISION_RELEVANT_ONLY''] @ reasons,
       dn_planner = nr_planner q, dn_diagnostic_planner = diagnostic_planner_version,
       dn_budget_policy = budget_policy_version, dn_max_attempts = nr_max_attempts q, dn_attempts = nr_attempts q,
       dn_learner_state = nr_learner_state q, dn_graphs = nr_graphs q, dn_current = current, dn_item = None,
       dn_results = nr_results q, dn_status = status, dn_stop = stop, dn_created = nr_created q,
       dn_supersedes = nr_supersedes q\<rparr>)"

definition build_need :: "pyenv \<Rightarrow> need_request \<Rightarrow> need_error + diagnostic_need" where
  "build_need env q = check_need (make_need env q)"

section \<open>The search against reachability\<close>

text \<open>The abstract question: does a chain of unmet prerequisites lead from a unit to one whose
  prerequisites include an unknown one?\<close>

inductive unmet_path :: "(uuid \<Rightarrow> uuid list) \<Rightarrow> uuid list \<Rightarrow> uuid \<Rightarrow> uuid \<Rightarrow> bool" for ch unmet where
  here: "unmet_path ch unmet u u"
| down: "v \<in> set (ch u) \<Longrightarrow> v \<in> set unmet \<Longrightarrow> unmet_path ch unmet v w \<Longrightarrow> unmet_path ch unmet u w"

definition reaches_unknown :: "(uuid \<Rightarrow> uuid list) \<Rightarrow> uuid list \<Rightarrow> uuid list \<Rightarrow> uuid \<Rightarrow> bool" where
  "reaches_unknown ch unknown unmet u \<longleftrightarrow> (\<exists>v. unmet_path ch unmet u v \<and> set (ch v) \<inter> set unknown \<noteq> {})"

lemma first_found_sound:
  "x \<in> set (first_found ch unknown unmet visited queue) \<Longrightarrow>
    x \<in> set unknown \<and> (\<exists>u \<in> set queue. \<exists>v. unmet_path ch unmet u v \<and> x \<in> set (ch v))"
proof (induction ch unknown unmet visited queue rule: first_found.induct)
  case (2 ch unknown unmet visited u queue)
  show ?case
  proof (cases "u \<in> set visited")
    case True
    with 2 show ?thesis by auto
  next
    case False
    let ?found = "filter (\<lambda>x. x \<in> set unknown) (ch u)"
    show ?thesis
    proof (cases "?found = []")
      case True
      with "2.prems" False "2.IH"(2) [OF False refl] obtain s v where
        "x \<in> set unknown" "s \<in> set (queue @ filter (\<lambda>x. x \<in> set unmet) (ch u))"
        "unmet_path ch unmet s v" "x \<in> set (ch v)" by (simp del: filter_empty_conv) blast
      then show ?thesis by (auto intro: unmet_path.down)
    next
      case found: False
      with "2.prems" False have "x \<in> set ?found" by (simp del: filter_empty_conv)
      then show ?thesis by (auto intro: unmet_path.here)
    qed
  qed
qed simp

text \<open>A set of units that unmet edges do not leave and that has no unknown prerequisite.\<close>

definition settled :: "(uuid \<Rightarrow> uuid list) \<Rightarrow> uuid list \<Rightarrow> uuid list \<Rightarrow> uuid set \<Rightarrow> uuid set \<Rightarrow> bool" where
  "settled ch unknown unmet V W \<longleftrightarrow>
     (\<forall>v \<in> V. set (ch v) \<inter> set unknown = {} \<and> set (ch v) \<inter> set unmet \<subseteq> W)"

lemma first_found_complete:
  "first_found ch unknown unmet visited queue = [] \<Longrightarrow> settled ch unknown unmet (set visited) (set visited \<union> set queue) \<Longrightarrow>
    \<exists>V. set visited \<union> set queue \<subseteq> V \<and> settled ch unknown unmet V V"
proof (induction ch unknown unmet visited queue rule: first_found.induct)
  case (1 ch unknown unmet visited)
  then show ?case by (intro exI [of _ "set visited"]) simp
next
  case (2 ch unknown unmet visited u queue)
  show ?case
  proof (cases "u \<in> set visited")
    case True
    with 2 show ?thesis by (auto simp: insert_absorb)
  next
    case False
    let ?next = "filter (\<lambda>x. x \<in> set unmet) (ch u)"
    have none: "filter (\<lambda>x. x \<in> set unknown) (ch u) = []"
      and rest: "first_found ch unknown unmet (u # visited) (queue @ ?next) = []"
      using "2.prems"(1) False by (auto simp del: filter_empty_conv simp: Let_def split: if_splits)
    have "settled ch unknown unmet (set (u # visited)) (set (u # visited) \<union> set (queue @ ?next))"
      using "2.prems"(2) none by (fastforce simp: settled_def filter_empty_conv)
    with "2.IH"(2) [OF False refl] none rest obtain V where
      "set (u # visited) \<union> set (queue @ ?next) \<subseteq> V" "settled ch unknown unmet V V" by blast
    then show ?thesis by (intro exI [of _ V]) auto
  qed
qed

lemma settled_path: "unmet_path ch unmet u v \<Longrightarrow> settled ch unknown unmet V V \<Longrightarrow> u \<in> V \<Longrightarrow> v \<in> V"
  by (induction rule: unmet_path.induct) (auto simp: settled_def)

lemma unresolved_sound:
  assumes "x \<in> set (unresolved_descendants ch unknown unmet u)"
  shows "x \<in> set unknown \<and> (\<exists>v. unmet_path ch unmet u v \<and> x \<in> set (ch v))"
proof (cases "filter (\<lambda>x. x \<in> set unknown) (ch u) = []")
  case True
  with assms have "x \<in> set (first_found ch unknown unmet [] (filter (\<lambda>x. x \<in> set unmet) (ch u)))"
    by (simp add: unresolved_descendants_def del: filter_empty_conv)
  from first_found_sound [OF this] show ?thesis by (auto intro: unmet_path.down)
next
  case False
  with assms show ?thesis
    by (auto simp: unresolved_descendants_def simp del: filter_empty_conv intro: unmet_path.here)
qed

lemma unresolved_complete:
  assumes "unresolved_descendants ch unknown unmet u = []"
  shows "\<not> reaches_unknown ch unknown unmet u"
proof -
  let ?next = "filter (\<lambda>x. x \<in> set unmet) (ch u)"
  have none: "set (ch u) \<inter> set unknown = {}" and "first_found ch unknown unmet [] ?next = []"
    using assms by (auto simp: unresolved_descendants_def Let_def filter_empty_conv split: if_splits)
  with first_found_complete [of ch unknown unmet "[]" ?next] obtain V where
    V: "set ?next \<subseteq> V" "settled ch unknown unmet V V" by (auto simp: settled_def)
  then have "settled ch unknown unmet (insert u V) (insert u V)"
    using none by (fastforce simp: settled_def)
  note closed = this
  show ?thesis
  proof
    assume "reaches_unknown ch unknown unmet u"
    then obtain v where v: "unmet_path ch unmet u v" "set (ch v) \<inter> set unknown \<noteq> {}"
      by (auto simp: reaches_unknown_def)
    from settled_path [OF v(1) closed] have "v \<in> insert u V" by simp
    with closed v(2) show False unfolding settled_def by blast
  qed
qed

lemma search_meets: "unresolved_descendants ch unknown unmet u \<noteq> [] \<longleftrightarrow> reaches_unknown ch unknown unmet u"
proof
  assume "unresolved_descendants ch unknown unmet u \<noteq> []"
  then obtain x where "x \<in> set (unresolved_descendants ch unknown unmet u)" by (meson list.set_sel(1))
  from unresolved_sound [OF this] show "reaches_unknown ch unknown unmet u" by (auto simp: reaches_unknown_def)
qed (use unresolved_complete in blast)

text \<open>C35: the worklist search finds unknown prerequisites below a unit exactly when
  a chain of unmet prerequisites leads to one, and every unit it returns is unknown and reached by
  such a chain. It ends on every graph, cyclic ones included.\<close>

theorem search_meets_reachability:
  "(unresolved_descendants ch unknown unmet u \<noteq> [] \<longleftrightarrow> reaches_unknown ch unknown unmet u) \<and>
    set (unresolved_descendants ch unknown unmet u)
      \<subseteq> {x. x \<in> set unknown \<and> (\<exists>v. unmet_path ch unmet u v \<and> x \<in> set (ch v))}"
  using search_meets unresolved_sound by blast

section \<open>What a need says\<close>

definition relevant_unknown :: "need_request \<Rightarrow> bool" where
  "relevant_unknown q =
     (let unknown = units_in EC_UNKNOWN (nr_prerequisites q) (nr_mastery q);
          unmet = units_in EC_UNMET (nr_prerequisites q) (nr_mastery q);
          ch = children_of (nr_edges q)
      in (\<exists>d \<in> set (ch (nr_target q)). d \<in> set unknown \<or> d \<in> set unmet \<and> reaches_unknown ch unknown unmet d))"

definition direct_unmet :: "need_request \<Rightarrow> bool" where
  "direct_unmet q \<longleftrightarrow>
     (\<exists>d \<in> set (children_of (nr_edges q) (nr_target q)). d \<in> set (nr_prerequisites q) \<and> class_at (nr_mastery q) d = EC_UNMET)"

lemma units_in_iff [simp]: "u \<in> set (units_in c ps m) \<longleftrightarrow> u \<in> set ps \<and> class_at m u = c"
  by (auto simp: units_in_def)

lemma candidates_iff:
  "diagnostic_candidates ch unknown unmet t \<noteq> [] \<longleftrightarrow>
    (\<exists>d \<in> set (ch t). d \<in> set unknown \<or> d \<in> set unmet \<and> reaches_unknown ch unknown unmet d)"
proof -
  have "diagnostic_candidates ch unknown unmet t \<noteq> [] \<longleftrightarrow>
    (\<exists>d \<in> set (ch t). d \<in> set unknown \<or> d \<in> set unmet \<and> unresolved_descendants ch unknown unmet d \<noteq> [])"
    unfolding diagnostic_candidates_def remdups_eq_nil_iff concat_eq_Nil_conv set_map ball_simps by (auto split: if_splits)
  then show ?thesis using search_meets by simp
qed

lemma candidate_sound:
  assumes "u \<in> set (diagnostic_candidates ch unknown unmet t)"
  shows "u \<in> set unknown \<and> (\<exists>d v. d \<in> set (ch t) \<and> (u = d \<or> d \<in> set unmet \<and> unmet_path ch unmet d v \<and> u \<in> set (ch v)))"
proof -
  obtain d where d: "d \<in> set (ch t)"
    and u: "u \<in> set (if d \<in> set unknown then [d] else if d \<in> set unmet then unresolved_descendants ch unknown unmet d else [])"
    using assms by (auto simp: diagnostic_candidates_def)
  show ?thesis
  proof (cases "d \<in> set unknown")
    case True
    with d u show ?thesis by auto
  next
    case False
    with u have "d \<in> set unmet" "u \<in> set (unresolved_descendants ch unknown unmet d)" by (auto split: if_splits)
    with unresolved_sound d show ?thesis by blast
  qed
qed

lemma make_need_simps [simp]:
  "dn_version (make_need env q) = nr_version q" "dn_planner (make_need env q) = nr_planner q"
  "dn_diagnostic_planner (make_need env q) = diagnostic_planner_version"
  "dn_budget_policy (make_need env q) = budget_policy_version"
  "dn_reasons (make_need env q) \<noteq> []" "dn_max_attempts (make_need env q) = nr_max_attempts q"
  "dn_attempts (make_need env q) = nr_attempts q" "dn_learner_state (make_need env q) = nr_learner_state q"
  "dn_supersedes (make_need env q) = nr_supersedes q" "dn_item (make_need env q) = None"
  "dn_prerequisites (make_need env q) = sort (remdups (nr_prerequisites q))"
  "dn_unknown (make_need env q) = sort (units_in EC_UNKNOWN (nr_prerequisites q) (nr_mastery q))"
  "dn_unmet (make_need env q) = sort (units_in EC_UNMET (nr_prerequisites q) (nr_mastery q))"
  "dn_sufficient (make_need env q) = sort (units_in EC_SUFFICIENT (nr_prerequisites q) (nr_mastery q))"
  by (simp_all add: make_need_def Let_def split: prod.splits)

text \<open>How a request is decided: one of four outcomes, by what is unknown and relevant, by what is
  unmet, and by the attempts left.\<close>

lemma make_need_cases:
  obtains (ready) "nr_prerequisites q = []" and "dn_status (make_need env q) = NEED_RESOLVED"
      and "dn_stop (make_need env q) = Some TARGET_READY" and "dn_current (make_need env q) = None"
  | (settled_all) "nr_prerequisites q \<noteq> []" and "\<not> relevant_unknown q" and "\<not> direct_unmet q"
      and "dn_status (make_need env q) = NEED_RESOLVED"
      and "dn_stop (make_need env q) = Some ALL_DECISION_RELEVANT_PREREQUISITES_RESOLVED"
      and "dn_current (make_need env q) = None"
  | (remediate) "nr_prerequisites q \<noteq> []" and "\<not> relevant_unknown q" and "direct_unmet q"
      and "dn_status (make_need env q) = NEED_STOPPED" and "dn_stop (make_need env q) = Some REMEDIATION_REQUIRED"
      and "dn_current (make_need env q) = None"
  | (exhausted) "nr_prerequisites q \<noteq> []" and "relevant_unknown q" and "nr_max_attempts q \<le> nr_attempts q"
      and "dn_status (make_need env q) = NEED_STOPPED" and "dn_stop (make_need env q) = Some DIAGNOSTIC_BUDGET_EXHAUSTED"
      and "dn_current (make_need env q) = None"
  | (active) u where "nr_prerequisites q \<noteq> []" and "relevant_unknown q" and "nr_attempts q < nr_max_attempts q"
      and "dn_status (make_need env q) = NEED_ACTIVE" and "dn_stop (make_need env q) = None"
      and "dn_current (make_need env q) = Some u"
      and "u = select_unit (nr_edges q) (diagnostic_candidates (children_of (nr_edges q))
          (units_in EC_UNKNOWN (nr_prerequisites q) (nr_mastery q))
          (units_in EC_UNMET (nr_prerequisites q) (nr_mastery q)) (nr_target q))"
proof -
  let ?unknown = "units_in EC_UNKNOWN (nr_prerequisites q) (nr_mastery q)"
  let ?unmet = "units_in EC_UNMET (nr_prerequisites q) (nr_mastery q)"
  let ?ch = "children_of (nr_edges q)"
  let ?cs = "diagnostic_candidates ?ch ?unknown ?unmet (nr_target q)"
  have rel: "?cs \<noteq> [] \<longleftrightarrow> relevant_unknown q"
    unfolding candidates_iff relevant_unknown_def Let_def by simp
  have rem: "needs_remediation ?ch ?unknown ?unmet (nr_target q) \<longleftrightarrow> direct_unmet q"
    by (auto simp: needs_remediation_def remediation_required_def list_ex_iff direct_unmet_def)
  note unfolded = make_need_def decide_need_def Let_def rem
  consider "nr_prerequisites q = []" | "nr_prerequisites q \<noteq> []" "?cs = []" "\<not> direct_unmet q"
    | "nr_prerequisites q \<noteq> []" "?cs = []" "direct_unmet q"
    | "nr_prerequisites q \<noteq> []" "?cs \<noteq> []" "nr_max_attempts q \<le> nr_attempts q"
    | "nr_prerequisites q \<noteq> []" "?cs \<noteq> []" "nr_attempts q < nr_max_attempts q" by linarith
  then show ?thesis
  proof cases
    case 1
    show ?thesis by (rule ready) (simp_all add: 1 unfolded)
  next
    case 2
    show ?thesis by (rule settled_all) (use 2 rel in \<open>simp_all add: unfolded\<close>)
  next
    case 3
    show ?thesis by (rule remediate) (use 3 rel in \<open>simp_all add: unfolded\<close>)
  next
    case 4
    show ?thesis by (rule exhausted) (use 4 rel in \<open>simp_all add: unfolded\<close>)
  next
    case 5
    show ?thesis by (rule active [OF _ _ _ _ _ _ refl]) (use 5 rel in \<open>simp_all add: unfolded\<close>)
  qed
qed

text \<open>A need is active exactly while an unknown prerequisite matters and attempts
  are left; it stops on the budget only with unknowns left, asks for remediation only when nothing
  unknown matters and a direct prerequisite is unmet, and is resolved only when neither is the case.\<close>

theorem diagnostic_outcome:
  assumes "build_need env q = Inr n"
  shows "(dn_status n = NEED_ACTIVE \<longleftrightarrow> nr_prerequisites q \<noteq> [] \<and> relevant_unknown q \<and> nr_attempts q < nr_max_attempts q) \<and>
    (dn_stop n = Some DIAGNOSTIC_BUDGET_EXHAUSTED \<longleftrightarrow> nr_prerequisites q \<noteq> [] \<and> relevant_unknown q \<and> nr_attempts q = nr_max_attempts q) \<and>
    (dn_stop n = Some REMEDIATION_REQUIRED \<longleftrightarrow> nr_prerequisites q \<noteq> [] \<and> \<not> relevant_unknown q \<and> direct_unmet q) \<and>
    (dn_status n = NEED_RESOLVED \<longleftrightarrow> nr_prerequisites q = [] \<or> \<not> relevant_unknown q \<and> \<not> direct_unmet q)"
proof -
  have n: "n = make_need env q" and b: "nr_attempts q \<le> nr_max_attempts q"
    using assms by (auto simp: build_need_def check_need_def Let_def split: if_splits)
  have none: "\<not> direct_unmet q" if "nr_prerequisites q = []" using that by (simp add: direct_unmet_def)
  show ?thesis unfolding n
    by (rule make_need_cases [of q env]) (use b none in \<open>auto\<close>)
qed

text \<open>The unit a need asks about is a prerequisite in scope without current
  evidence, a direct one or one below a direct unmet prerequisite through unmet ones, and no other
  such candidate has more edges depending on it.\<close>

theorem diagnostic_asks_what_matters:
  assumes "build_need env q = Inr n" and "dn_current n = Some u"
  shows "u \<in> set (nr_prerequisites q) \<and> class_at (nr_mastery q) u = EC_UNKNOWN \<and> dn_status n = NEED_ACTIVE \<and>
    (\<exists>d \<in> set (children_of (nr_edges q) (nr_target q)). u = d \<or>
      class_at (nr_mastery q) d = EC_UNMET \<and>
      (\<exists>v. unmet_path (children_of (nr_edges q)) (units_in EC_UNMET (nr_prerequisites q) (nr_mastery q)) d v \<and>
        u \<in> set (children_of (nr_edges q) v))) \<and>
    (\<forall>d \<in> set (children_of (nr_edges q) (nr_target q)). d \<in> set (nr_prerequisites q) \<longrightarrow> class_at (nr_mastery q) d = EC_UNKNOWN \<longrightarrow>
      downstream_value (nr_edges q) d \<le> downstream_value (nr_edges q) u)"
proof -
  let ?unknown = "units_in EC_UNKNOWN (nr_prerequisites q) (nr_mastery q)"
  let ?unmet = "units_in EC_UNMET (nr_prerequisites q) (nr_mastery q)"
  let ?ch = "children_of (nr_edges q)"
  let ?cs = "diagnostic_candidates ?ch ?unknown ?unmet (nr_target q)"
  have n: "n = make_need env q"
    using assms by (auto simp: build_need_def check_need_def Let_def split: if_splits)
  have u: "relevant_unknown q" "u = select_unit (nr_edges q) ?cs" "dn_status n = NEED_ACTIVE"
    using assms(2) unfolding n by (rule_tac make_need_cases [of q env]; simp)+
  have "?cs \<noteq> []" using u(1) unfolding candidates_iff relevant_unknown_def Let_def by simp
  then have "u \<in> set ?cs" unfolding u(2) select_unit_def by (rule hd_sort_key_mem)
  from candidate_sound [OF this] have 1: "u \<in> set ?unknown"
    and 2: "\<exists>d v. d \<in> set (?ch (nr_target q)) \<and> (u = d \<or> d \<in> set ?unmet \<and> unmet_path ?ch ?unmet d v \<and> u \<in> set (?ch v))"
    by blast+
  have "downstream_value (nr_edges q) d \<le> downstream_value (nr_edges q) u"
    if "d \<in> set (?ch (nr_target q))" "d \<in> set ?unknown" for d
  proof -
    have "d \<in> set ?cs" using that by (force simp: diagnostic_candidates_def)
    from hd_sort_key_le [OF this, of "\<lambda>u. (- downstream_value (nr_edges q) u, u)"] show ?thesis
      by (auto simp: u(2) select_unit_def less_eq_prod_def)
  qed
  with 1 2 u(3) show ?thesis by (auto simp: Bex_def)
qed

definition request_fields_ok :: "need_request \<Rightarrow> bool" where
  "request_fields_ok q \<longleftrightarrow> 1 \<le> nr_version q \<and> nr_planner q \<noteq> [] \<and> 1 \<le> nr_max_attempts q \<and> 0 \<le> nr_attempts q \<and>
     1 \<le> nr_learner_state q \<and> (case nr_supersedes q of None \<Rightarrow> True | Some v \<Rightarrow> 1 \<le> v)"

lemma diagnostic_need_well_typed_raw:
  "build_need env q =
    (if \<not> request_fields_ok q then Inl NEED_FIELDS
     else if nr_max_attempts q < nr_attempts q then Inl OVER_BUDGET
     else Inr (make_need env q))"
proof -
  have f: "need_fields_ok (make_need env q) \<longleftrightarrow> request_fields_ok q"
    by (auto simp: need_fields_ok_def request_fields_ok_def diagnostic_planner_version_def budget_policy_version_def)
  have s: "(dn_status (make_need env q) = NEED_ACTIVE \<longrightarrow> dn_stop (make_need env q) = None \<and> dn_current (make_need env q) \<noteq> None)
      \<and> (dn_status (make_need env q) \<noteq> NEED_ACTIVE \<longrightarrow> dn_stop (make_need env q) \<noteq> None)"
    by (rule make_need_cases [of q env]) auto
  have p: "\<not> overlaps (dn_unmet (make_need env q)) (dn_unknown (make_need env q))"
    "\<not> overlaps (dn_sufficient (make_need env q)) (dn_unknown (make_need env q))"
    "\<not> overlaps (dn_sufficient (make_need env q)) (dn_unmet (make_need env q))"
    by (auto simp: overlaps_def)
  have scope: "list_all (\<lambda>p. set p \<subseteq> set (dn_prerequisites (make_need env q)))
      [dn_unknown (make_need env q), dn_unmet (make_need env q), dn_sufficient (make_need env q)]"
    by auto
  show ?thesis unfolding build_need_def check_need_def Let_def using f s p scope by auto
qed

text \<open>C40: every need the planner builds meets the contract's partition and stop
  rules. The contract refuses it only for a field out of bounds, or for more attempts than the
  budget allows.\<close>

theorem diagnostic_need_well_typed:
  "build_need env q =
    (if \<not> request_fields_ok q then Inl NEED_FIELDS
     else if nr_max_attempts q < nr_attempts q then Inl OVER_BUDGET
     else Inr (make_need env q))"
  by (rule diagnostic_need_well_typed_raw)

section \<open>A target with one unknown prerequisite\<close>

definition demo_need_request :: need_request where
  "demo_need_request = \<lparr>nr_user = ''u'', nr_mapping = mk_ref ''GoalKnowledgeMapping'' ''m'' (VerI 1),
     nr_subgraph = mk_ref ''GoalSubgraph'' ''s'' (VerI 1), nr_target = ''t'', nr_prerequisites = [''p''],
     nr_edges = [\<lparr>pe_prerequisite = ''p'', pe_target = ''t'', pe_relation = mk_ref ''Relation'' ''r'' (VerI 1)\<rparr>],
     nr_mastery = [], nr_learner_state = 1, nr_graphs = [''kg''], nr_planner = ''heuristic-greedy/1.0'',
     nr_max_attempts = 3, nr_attempts = 0, nr_version = 1, nr_created = 0, nr_results = [], nr_supersedes = None\<rparr>"

lemma demo_need_built: "build_need plain_env demo_need_request = Inr (make_need plain_env demo_need_request)"
  unfolding diagnostic_need_well_typed_raw by (simp add: request_fields_ok_def demo_need_request_def)

lemma demo_children: "children_of (nr_edges demo_need_request) ''t'' = [''p'']"
  by (simp add: demo_need_request_def children_of_def)

lemma demo_unknown: "units_in EC_UNKNOWN (nr_prerequisites demo_need_request) (nr_mastery demo_need_request) = [''p'']"
  by (simp add: demo_need_request_def units_in_def class_at_def dict_get_def classify_def)

lemma demo_relevant: "relevant_unknown demo_need_request"
  unfolding relevant_unknown_def Let_def demo_unknown using demo_children
  by (intro bexI [of _ "''p''"]) (simp_all add: demo_need_request_def)

theorem diagnostic_outcome_witness: "dn_status (make_need plain_env demo_need_request) = NEED_ACTIVE"
  using diagnostic_outcome [OF demo_need_built] demo_relevant by (simp add: demo_need_request_def)

lemma demo_current: "\<exists>u. dn_current (make_need plain_env demo_need_request) = Some u"
  by (rule make_need_cases [of demo_need_request plain_env])
    (use demo_relevant in \<open>simp_all add: demo_need_request_def\<close>)

theorem diagnostic_asks_what_matters_witness:
  "\<exists>u. dn_current (make_need plain_env demo_need_request) = Some u \<and>
    u \<in> set (nr_prerequisites demo_need_request) \<and> class_at (nr_mastery demo_need_request) u = EC_UNKNOWN"
proof -
  obtain u where "dn_current (make_need plain_env demo_need_request) = Some u" using demo_current by blast
  with diagnostic_asks_what_matters [OF demo_need_built this] show ?thesis by blast
qed

end
