(* ===== verification/Streams.thy ===== *)
theory Streams
  imports Prelude
begin

text \<open>
  Append-only version streams, the shape of most tables of the application: rows of one entity carry
  consecutive versions, and a write names an idempotency key. What the repositories share, and the
  contract \<open>version_store\<close> that each of them meets.
\<close>

section \<open>The row of the highest version\<close>

text \<open>\<open>ORDER BY version DESC LIMIT 1\<close>; rows of one entity never share a version.\<close>

definition latest_by :: "('r \<Rightarrow> int) \<Rightarrow> 'r list \<Rightarrow> 'r option" where
  "latest_by v rows = (case sort_key (\<lambda>r. - v r) rows of [] \<Rightarrow> None | r # _ \<Rightarrow> Some r)"

lemma latest_by_None [simp]: "latest_by v rows = None \<longleftrightarrow> rows = []"
proof -
  have "sort_key (\<lambda>r. - v r) rows = [] \<longleftrightarrow> rows = []" by (metis length_0_conv length_sort)
  then show ?thesis by (auto simp: latest_by_def split: list.splits)
qed

lemma latest_by_Some: "latest_by v rows = Some r \<Longrightarrow> r \<in> set rows \<and> (\<forall>x \<in> set rows. v x \<le> v r)"
proof -
  assume "latest_by v rows = Some r"
  then have ne: "rows \<noteq> []" and r: "r = hd (sort_key (\<lambda>r. - v r) rows)"
    by (auto simp: latest_by_def split: list.splits)
  with hd_sort_key_mem [OF ne] hd_sort_key_le [of _ rows "\<lambda>r. - v r"] show ?thesis by fastforce
qed

lemma latest_by_eq:
  assumes "r \<in> set rows" and "\<And>x. x \<in> set rows \<Longrightarrow> x \<noteq> r \<Longrightarrow> v x < v r"
  shows "latest_by v rows = Some r"
proof (cases "latest_by v rows")
  case None
  with assms(1) show ?thesis by simp
next
  case (Some x)
  from latest_by_Some [OF this] assms have "x = r" by fastforce
  with Some show ?thesis by simp
qed

lemma latest_by_snoc:
  assumes "\<And>x. x \<in> set rows \<Longrightarrow> v x < v r"
  shows "latest_by v (rows @ [r]) = Some r"
  using assms by (intro latest_by_eq) auto

text \<open>Rows of smaller versions behind it do not change the latest.\<close>

lemma latest_by_find:
  assumes "latest_by v rows = Some r"
  shows "find (\<lambda>x. v x = v r) rows = Some r"
proof -
  let ?k = "\<lambda>x. - v x"
  from assms obtain ys where ys: "sort_key ?k rows = r # ys" by (auto simp: latest_by_def split: list.splits)
  have "filter (\<lambda>x. ?k x = ?k r) rows = filter (\<lambda>x. ?k x = ?k r) (sort_key ?k rows)" by (rule sort_key_stable [symmetric])
  then have "filter (\<lambda>x. v x = v r) rows = r # filter (\<lambda>x. v x = v r) ys" by (simp add: ys)
  then show ?thesis by (simp add: find_hd_filter)
qed

lemma latest_by_append_older:
  assumes "latest_by v rows = Some r" and "\<forall>x \<in> set extra. v x < v r"
  shows "latest_by v (rows @ extra) = Some r"
proof -
  obtain x where x: "latest_by v (rows @ extra) = Some x"
    using latest_by_Some [OF assms(1)] by (cases "latest_by v (rows @ extra)") auto
  have m: "r \<in> set rows" "\<forall>y \<in> set rows. v y \<le> v r" using latest_by_Some [OF assms(1)] by auto
  from latest_by_Some [OF x] m(1) have "x \<in> set rows \<union> set extra" "v r \<le> v x" by auto
  with m(2) assms(2) have "v x = v r" by fastforce
  then have "find (\<lambda>y. v y = v r) (rows @ extra) = Some x" using latest_by_find [OF x] by simp
  moreover have "find (\<lambda>y. v y = v r) (rows @ extra) = Some r" using latest_by_find [OF assms(1)] by (simp add: find_app)
  ultimately show ?thesis using x by simp
qed

text \<open>\<open>SELECT max(version)\<close>, and the version after it.\<close>

definition version_after :: "('r \<Rightarrow> int) \<Rightarrow> 'r list \<Rightarrow> int" where
  "version_after v rows = (if rows = [] then 1 else Max (v ` set rows) + 1)"

lemma version_after_above: "r \<in> set rows \<Longrightarrow> v r < version_after v rows"
proof -
  assume r: "r \<in> set rows"
  then have "v r \<le> Max (v ` set rows)" by (intro Max_ge) auto
  with r show ?thesis by (auto simp: version_after_def)
qed

lemma version_after_latest: "latest_by v rows = Some r \<Longrightarrow> version_after v rows = v r + 1"
proof -
  assume "latest_by v rows = Some r"
  from latest_by_Some [OF this] have "Max (v ` set rows) = v r" "rows \<noteq> []"
    by (auto intro!: Max_eqI)
  then show ?thesis by (simp add: version_after_def)
qed

section \<open>Streams with idempotent writes\<close>

record 'a stream_row =
  sw_id :: uuid
  sw_version :: int
  sw_key :: string
  sw_payload :: 'a

definition stream_by_key :: "'a stream_row list \<Rightarrow> string \<Rightarrow> 'a option" where
  "stream_by_key rows k = map_option sw_payload (find (\<lambda>r. sw_key r = k) rows)"

definition stream_at :: "'a stream_row list \<Rightarrow> uuid \<Rightarrow> int \<Rightarrow> 'a option" where
  "stream_at rows i v = map_option sw_payload (find (\<lambda>r. sw_id r = i \<and> sw_version r = v) rows)"

definition stream_next :: "'a stream_row list \<Rightarrow> uuid \<Rightarrow> int" where
  "stream_next rows i = version_after sw_version (filter (\<lambda>r. sw_id r = i) rows)"

definition stream_latest :: "'a stream_row list \<Rightarrow> uuid \<Rightarrow> 'a option" where
  "stream_latest rows i = map_option sw_payload (latest_by sw_version (filter (\<lambda>r. sw_id r = i) rows))"

text \<open>The write: a known key returns what it wrote, a known version what it holds, else a new row.\<close>

definition stream_save :: "'a stream_row list \<Rightarrow> uuid \<Rightarrow> int \<Rightarrow> string \<Rightarrow> 'a \<Rightarrow> 'a stream_row list \<times> 'a" where
  "stream_save rows i v k p =
     (case stream_by_key rows k of
        Some q \<Rightarrow> (rows, q)
      | None \<Rightarrow>
          (case stream_at rows i v of
             Some q \<Rightarrow> (rows, q)
           | None \<Rightarrow> (rows @ [\<lparr>sw_id = i, sw_version = v, sw_key = k, sw_payload = p\<rparr>], p)))"

lemma find_map_None: "map_option f (find p xs) = None \<longleftrightarrow> (\<forall>x \<in> set xs. \<not> p x)"
  by (auto simp: find_None_iff)

lemma find_snoc: "find p (xs @ [x]) = (case find p xs of None \<Rightarrow> (if p x then Some x else None) | Some y \<Rightarrow> Some y)"
  by (induction xs) auto

lemma stream_next_free: "stream_at rows i (stream_next rows i) = None"
proof -
  have "sw_version r < stream_next rows i" if "r \<in> set rows" "sw_id r = i" for r
    unfolding stream_next_def using that by (intro version_after_above) simp
  then show ?thesis unfolding stream_at_def find_map_None by fastforce
qed

lemma stream_save_next:
  assumes "stream_by_key rows k = None" and "v = stream_next rows i"
  shows "stream_save rows i v k p = (rows @ [\<lparr>sw_id = i, sw_version = v, sw_key = k, sw_payload = p\<rparr>], p)"
  using assms stream_next_free [of rows i] by (simp add: stream_save_def)

lemma stream_save_next_latest:
  assumes "stream_by_key rows k = None" and "v = stream_next rows i"
  shows "stream_latest (fst (stream_save rows i v k p)) i = Some p"
proof -
  let ?r = "\<lparr>sw_id = i, sw_version = v, sw_key = k, sw_payload = p\<rparr>"
  have "sw_version r < sw_version ?r" if "r \<in> set (filter (\<lambda>r. sw_id r = i) rows)" for r
    using version_after_above [OF that, of sw_version] assms(2) by (simp add: stream_next_def)
  then have "latest_by sw_version (filter (\<lambda>r. sw_id r = i) rows @ [?r]) = Some ?r" by (rule latest_by_snoc)
  then show ?thesis unfolding stream_save_next [OF assms] stream_latest_def by simp
qed

text \<open>
  The contract of a repository of versioned entities, as the workflows use it: a key is written once
  and from then on returns what it wrote; a write at the next version is the latest afterwards and
  leaves what other keys wrote alone.
\<close>

locale version_store =
  fixes by_key :: "'s \<Rightarrow> string \<Rightarrow> 'a option"
    and next_version :: "'s \<Rightarrow> uuid \<Rightarrow> int"
    and save :: "'s \<Rightarrow> 'a \<Rightarrow> string \<Rightarrow> 's \<times> 'a"
    and latest :: "'s \<Rightarrow> uuid \<Rightarrow> 'a option"
    and ident :: "'a \<Rightarrow> uuid"
    and version_of :: "'a \<Rightarrow> int"
    and ok :: "'s \<Rightarrow> bool"
  assumes save_known: "by_key s k = Some q \<Longrightarrow> save s p k = (s, q)"
    and save_returns: "by_key s k = None \<Longrightarrow> version_of p = next_version s (ident p) \<Longrightarrow> snd (save s p k) = p"
    and save_recorded: "by_key s k = None \<Longrightarrow> version_of p = next_version s (ident p) \<Longrightarrow> by_key (fst (save s p k)) k = Some p"
    and save_latest: "by_key s k = None \<Longrightarrow> version_of p = next_version s (ident p) \<Longrightarrow>
      latest (fst (save s p k)) (ident p) = Some p"
    and save_keeps: "by_key s k' = Some q \<Longrightarrow> by_key (fst (save s p k)) k' = Some q"
    and next_after_latest: "ok s \<Longrightarrow> latest s i = Some p \<Longrightarrow> next_version s i = version_of p + 1"
    and save_ok: "ok s \<Longrightarrow> ok (fst (save s p k))"
begin

text \<open>A command that looks its key up, else builds the next version and saves it.\<close>

lemma command_idempotent:
  assumes "by_key s k = None" and "version_of p = next_version s (ident p)" and "save s p k = (s', q)"
  shows "q = p \<and> by_key s' k = Some p \<and> save s' p' k = (s', p)"
  using assms save_returns [OF assms(1,2)] save_recorded [OF assms(1,2)] save_known by auto

lemma consecutive_versions:
  assumes "ok s" and "by_key s k = None" and "version_of p = next_version s (ident p)"
  shows "next_version (fst (save s p k)) (ident p) = version_of p + 1"
  using save_ok [OF assms(1)] save_latest [OF assms(2,3)] by (rule next_after_latest)

end

text \<open>Streams meet the contract, for any identity and version read from the payload.\<close>

definition stream_ok :: "('a \<Rightarrow> uuid) \<Rightarrow> ('a \<Rightarrow> int) \<Rightarrow> 'a stream_row list \<Rightarrow> bool" where
  "stream_ok ident vers rows \<longleftrightarrow>
     (\<forall>r \<in> set rows. sw_id r = ident (sw_payload r) \<and> sw_version r = vers (sw_payload r))"

definition stream_write :: "('a \<Rightarrow> uuid) \<Rightarrow> ('a \<Rightarrow> int) \<Rightarrow> 'a stream_row list \<Rightarrow> 'a \<Rightarrow> string \<Rightarrow> 'a stream_row list \<times> 'a" where
  "stream_write ident vers rows p k = stream_save rows (ident p) (vers p) k p"

lemma stream_save_keeps: "stream_by_key rows k' = Some q \<Longrightarrow> stream_by_key (fst (stream_save rows i v k p)) k' = Some q"
  by (auto simp: stream_save_def stream_by_key_def find_snoc split: option.splits)

lemma stream_latest_next:
  assumes "stream_ok ident vers rows" and "stream_latest rows i = Some p"
  shows "stream_next rows i = vers p + 1"
proof -
  obtain r where r: "latest_by sw_version (filter (\<lambda>r. sw_id r = i) rows) = Some r" "sw_payload r = p"
    using assms(2) by (auto simp: stream_latest_def)
  with latest_by_Some [OF r(1)] assms(1) have "sw_version r = vers p" by (auto simp: stream_ok_def)
  with version_after_latest [OF r(1)] show ?thesis by (simp add: stream_next_def)
qed

lemma stream_save_known: "stream_by_key rows k = Some q \<Longrightarrow> stream_save rows i v k p = (rows, q)"
  by (simp add: stream_save_def)

lemma stream_save_recorded:
  assumes "stream_by_key rows k = None" and "v = stream_next rows i"
  shows "stream_by_key (fst (stream_save rows i v k p)) k = Some p"
  using assms(1) unfolding stream_save_next [OF assms] stream_by_key_def by (simp add: find_snoc)

lemma stream_save_returns:
  "stream_by_key rows k = None \<Longrightarrow> v = stream_next rows i \<Longrightarrow> snd (stream_save rows i v k p) = p"
  by (simp add: stream_save_next)

lemma stream_ok_write: "stream_ok ident vers s \<Longrightarrow> stream_ok ident vers (fst (stream_write ident vers s p k))"
  by (auto simp: stream_write_def stream_save_def stream_ok_def split: option.splits)

interpretation streams: version_store stream_by_key stream_next "stream_write ident vers" stream_latest ident vers
    "stream_ok ident vers" for ident vers
proof unfold_locales
qed (simp_all only: stream_write_def stream_save_known stream_save_recorded stream_save_next_latest stream_save_keeps
    stream_latest_next stream_ok_write [unfolded stream_write_def] stream_save_returns)

end
