(* ===== verification/PlanningRecords.thy ===== *)
theory PlanningRecords
  imports Diagnostic Outbox Streams
begin

text \<open>
  The planning contracts (\<open>app/contracts/planning.py\<close>, \<open>app/contracts/activity_lifecycle.py\<close>) and the
  repositories over them (\<open>app/infrastructure/planning_records.py\<close> and the activity states of
  \<open>app/infrastructure/activity_lifecycle.py\<close>). The tables are lists in insertion order. A primary key
  written as \<open>"{id}:{version}"\<close> is the pair: a UUID holds no colon. Reading a payload back validates
  what was validated when it was made, and is the identity.
\<close>

section \<open>Goals, mappings, subgraphs and inferences\<close>

datatype goal_status = GOAL_CANDIDATE | GOAL_CONFIRMED | GOAL_ACTIVE | GOAL_ACHIEVED | GOAL_PAUSED | GOAL_ARCHIVED

record learning_goal =
  lg_id :: uuid
  lg_schema :: string
  lg_version :: int
  lg_user :: uuid
  lg_title :: string
  lg_topic :: string
  lg_capabilities :: "string list"
  lg_context :: "string option"
  lg_criteria :: "string list"
  lg_documents :: "uuid list"
  lg_deadline :: "time option"
  lg_weekly_minutes :: "int option"
  lg_status :: goal_status
  lg_confirmed_by_user :: bool
  lg_created :: time
  lg_confirmed_at :: "time option"
  lg_supersedes :: "int option"
  lg_inferences :: "uuid list"
  lg_reasons :: "string list"

definition at_least :: "int \<Rightarrow> int option \<Rightarrow> bool" where
  "at_least n v = (case v of None \<Rightarrow> True | Some x \<Rightarrow> n \<le> x)"

definition text_between :: "nat \<Rightarrow> nat \<Rightarrow> string \<Rightarrow> bool" where
  "text_between a b s \<longleftrightarrow> a \<le> length s \<and> length s \<le> b"

text \<open>The pattern \<open>^1\.\<close>.\<close>

definition schema_one :: "string \<Rightarrow> bool" where
  "schema_one s \<longleftrightarrow> take 2 s = ''1.''"

definition goal_fields_ok :: "learning_goal \<Rightarrow> bool" where
  "goal_fields_ok g \<longleftrightarrow> schema_one (lg_schema g) \<and> 1 \<le> lg_version g \<and> text_between 1 200 (lg_title g) \<and>
     text_between 1 200 (lg_topic g) \<and> lg_capabilities g \<noteq> [] \<and>
     (case lg_context g of None \<Rightarrow> True | Some c \<Rightarrow> length c \<le> 500) \<and> lg_criteria g \<noteq> [] \<and>
     at_least 1 (lg_weekly_minutes g) \<and> at_least 1 (lg_supersedes g) \<and> lg_reasons g \<noteq> []"

definition confirmation_ok :: "learning_goal \<Rightarrow> bool" where
  "confirmation_ok g \<longleftrightarrow>
     (lg_status g \<in> {GOAL_CONFIRMED, GOAL_ACTIVE} \<longrightarrow> lg_confirmed_at g \<noteq> None \<and>
        (lg_confirmed_by_user g \<or> ''GOAL_SYSTEM_ADOPTED_FROM_MATERIAL'' \<in> set (lg_reasons g))) \<and>
     \<not> (lg_status g = GOAL_CANDIDATE \<and> lg_confirmed_by_user g)"

definition valid_goal :: "learning_goal \<Rightarrow> bool" where
  "valid_goal g \<longleftrightarrow> goal_fields_ok g \<and> confirmation_ok g"

datatype inference_status = INF_SUCCEEDED | INF_UNAVAILABLE | INF_INVALID

record goal_inference =
  gi_id :: uuid
  gi_schema :: string
  gi_goal :: uuid
  gi_digest :: string
  gi_provider :: "string option"
  gi_model :: "string option"
  gi_snapshot :: "string option"
  gi_prompt :: string
  gi_output_schema :: string
  gi_result :: "pyval option"
  gi_status :: inference_status
  gi_reasons :: "string list"
  gi_created :: time

definition valid_inference :: "goal_inference \<Rightarrow> bool" where
  "valid_inference i \<longleftrightarrow> schema_one (gi_schema i) \<and> length (gi_digest i) = 64 \<and> gi_reasons i \<noteq> []"

record target_evidence =
  te_unit :: uuid
  te_unit_ref :: string
  te_document :: uuid
  te_revision :: uuid
  te_spans :: "uuid list"
  te_ranks :: "(string, int) dict"
  te_score :: float64
  te_reasons :: "string list"

definition valid_target_evidence :: "target_evidence \<Rightarrow> bool" where
  "valid_target_evidence e \<longleftrightarrow> te_unit_ref e \<noteq> [] \<and> te_spans e \<noteq> [] \<and> 0 \<le> te_score e \<and> te_reasons e \<noteq> []"

datatype mapping_status = MAP_CANDIDATE | MAP_CONFIRMED | MAP_BLOCKED | MAP_SUPERSEDED

record goal_mapping =
  gm_id :: uuid
  gm_schema :: string
  gm_version :: int
  gm_goal :: uuid
  gm_goal_version :: int
  gm_documents :: "uuid list"
  gm_graphs :: "string list"
  gm_candidates :: "uuid list"
  gm_selected :: "uuid list"
  gm_excluded :: "uuid list"
  gm_evidence :: "target_evidence list"
  gm_confidence :: "float64 option"
  gm_reasons :: "string list"
  gm_mapper :: string
  gm_inferences :: "uuid list"
  gm_status :: mapping_status
  gm_question :: "string option"
  gm_created :: time

definition mapping_fields_ok :: "goal_mapping \<Rightarrow> bool" where
  "mapping_fields_ok m \<longleftrightarrow> schema_one (gm_schema m) \<and> 1 \<le> gm_version m \<and> 1 \<le> gm_goal_version m \<and>
     list_all valid_target_evidence (gm_evidence m) \<and> unit_range (gm_confidence m) \<and> gm_reasons m \<noteq> []"

definition executable_mapping :: "goal_mapping \<Rightarrow> bool" where
  "executable_mapping m \<longleftrightarrow> set (gm_selected m) \<subseteq> te_unit ` set (gm_evidence m) \<and>
     (gm_status m = MAP_CONFIRMED \<longrightarrow> gm_selected m \<noteq> []) \<and>
     (gm_status m = MAP_BLOCKED \<longrightarrow> gm_question m \<notin> {None, Some []})"

definition valid_mapping :: "goal_mapping \<Rightarrow> bool" where
  "valid_mapping m \<longleftrightarrow> mapping_fields_ok m \<and> executable_mapping m"

record goal_subgraph =
  gs_id :: uuid
  gs_schema :: string
  gs_version :: int
  gs_mapping :: versioned_ref
  gs_targets :: "uuid list"
  gs_prerequisites :: "uuid list"
  gs_relations :: "versioned_ref list"
  gs_graphs :: "string list"
  gs_closure :: string
  gs_reasons :: "string list"
  gs_created :: time

definition valid_subgraph :: "goal_subgraph \<Rightarrow> bool" where
  "valid_subgraph s \<longleftrightarrow> schema_one (gs_schema s) \<and> 1 \<le> gs_version s \<and> gs_reasons s \<noteq> []"

section \<open>Goal repository\<close>

type_synonym goal_table = "learning_goal stream_row list"
type_synonym mapping_table = "goal_mapping stream_row list"
type_synonym need_table = "diagnostic_need stream_row list"

definition save_goal :: "goal_table \<Rightarrow> learning_goal \<Rightarrow> string \<Rightarrow> goal_table \<times> learning_goal" where
  "save_goal rows g k = stream_write lg_id lg_version rows g k"

definition owned :: "('a \<Rightarrow> uuid) \<Rightarrow> uuid \<Rightarrow> 'a stream_row list \<Rightarrow> 'a stream_row list" where
  "owned user u rows = filter (\<lambda>r. user (sw_payload r) = u) rows"

definition find_goal_by_idempotency :: "goal_table \<Rightarrow> string \<Rightarrow> learning_goal option" where
  "find_goal_by_idempotency rows k = stream_by_key rows k"

definition latest_goal :: "goal_table \<Rightarrow> uuid \<Rightarrow> uuid \<Rightarrow> learning_goal option" where
  "latest_goal rows goal user = stream_latest (owned lg_user user rows) goal"

definition get_goal_version :: "goal_table \<Rightarrow> uuid \<Rightarrow> int \<Rightarrow> uuid \<Rightarrow> learning_goal option" where
  "get_goal_version rows goal version user = stream_at (owned lg_user user rows) goal version"

definition next_goal_version :: "goal_table \<Rightarrow> uuid \<Rightarrow> int" where
  "next_goal_version rows goal = stream_next rows goal"

text \<open>Mappings are versioned per goal, and keyed by mapping id and version.\<close>

definition find_mapping_by_idempotency :: "mapping_table \<Rightarrow> string \<Rightarrow> goal_mapping option" where
  "find_mapping_by_idempotency rows k = stream_by_key rows k"

definition next_mapping_version :: "mapping_table \<Rightarrow> uuid \<Rightarrow> int" where
  "next_mapping_version rows goal = version_after sw_version (filter (\<lambda>r. gm_goal (sw_payload r) = goal) rows)"

definition save_mapping :: "mapping_table \<Rightarrow> goal_mapping \<Rightarrow> string \<Rightarrow> mapping_table \<times> goal_mapping" where
  "save_mapping rows m k = stream_write gm_id gm_version rows m k"

definition latest_mapping :: "mapping_table \<Rightarrow> uuid \<Rightarrow> goal_mapping option" where
  "latest_mapping rows goal = map_option sw_payload (latest_by sw_version (filter (\<lambda>r. gm_goal (sw_payload r) = goal) rows))"

definition get_mapping_version :: "mapping_table \<Rightarrow> uuid \<Rightarrow> int \<Rightarrow> goal_mapping option" where
  "get_mapping_version rows m v = stream_at rows m v"

definition save_subgraph :: "goal_subgraph list \<Rightarrow> goal_subgraph \<Rightarrow> goal_subgraph list \<times> goal_subgraph" where
  "save_subgraph rows s =
     (case find (\<lambda>r. gs_id r = gs_id s \<and> gs_version r = gs_version s) rows of
        Some r \<Rightarrow> (rows, r) | None \<Rightarrow> (rows @ [s], s))"

definition get_subgraph :: "goal_subgraph list \<Rightarrow> uuid \<Rightarrow> int \<Rightarrow> goal_subgraph option" where
  "get_subgraph rows i v = find (\<lambda>r. gs_id r = i \<and> gs_version r = v) rows"

definition latest_subgraph_for_mapping :: "goal_subgraph list \<Rightarrow> uuid \<Rightarrow> goal_subgraph option" where
  "latest_subgraph_for_mapping rows m = latest_by gs_version (filter (\<lambda>r. vr_id (gs_mapping r) = m) rows)"

definition save_inference :: "goal_inference list \<Rightarrow> goal_inference \<Rightarrow> goal_inference list \<times> goal_inference" where
  "save_inference rows i =
     (case find (\<lambda>r. gi_id r = gi_id i) rows of Some r \<Rightarrow> (rows, r) | None \<Rightarrow> (rows @ [i], i))"

definition get_inference :: "goal_inference list \<Rightarrow> uuid \<Rightarrow> goal_inference option" where
  "get_inference rows i = find (\<lambda>r. gi_id r = i) rows"

section \<open>Diagnostic needs\<close>

definition find_need_by_idempotency :: "need_table \<Rightarrow> string \<Rightarrow> diagnostic_need option" where
  "find_need_by_idempotency rows k = stream_by_key rows k"

definition next_need_version :: "need_table \<Rightarrow> uuid \<Rightarrow> int" where
  "next_need_version rows i = stream_next rows i"

definition save_need :: "need_table \<Rightarrow> diagnostic_need \<Rightarrow> string \<Rightarrow> need_table \<times> diagnostic_need" where
  "save_need rows n k = stream_write dn_id dn_version rows n k"

definition latest_need :: "need_table \<Rightarrow> uuid \<Rightarrow> uuid \<Rightarrow> diagnostic_need option" where
  "latest_need rows i user = stream_latest (owned dn_user user rows) i"

definition latest_need_for_mapping :: "need_table \<Rightarrow> uuid \<Rightarrow> uuid \<Rightarrow> diagnostic_need option" where
  "latest_need_for_mapping rows m user = map_option sw_payload
     (latest_by sw_version (filter (\<lambda>r. vr_id (dn_mapping (sw_payload r)) = m) (owned dn_user user rows)))"

definition get_need :: "need_table \<Rightarrow> uuid \<Rightarrow> int \<Rightarrow> uuid \<Rightarrow> diagnostic_need option" where
  "get_need rows i v user = stream_at (owned dn_user user rows) i v"

text \<open>Goals and needs meet the contract of a version store.\<close>

interpretation goals: version_store find_goal_by_idempotency next_goal_version save_goal stream_latest lg_id lg_version
    "stream_ok lg_id lg_version"
  unfolding find_goal_by_idempotency_def [abs_def] next_goal_version_def [abs_def] save_goal_def [abs_def]
  by (rule streams.version_store_axioms)

interpretation needs: version_store find_need_by_idempotency next_need_version save_need stream_latest dn_id dn_version
    "stream_ok dn_id dn_version"
  unfolding find_need_by_idempotency_def [abs_def] next_need_version_def [abs_def] save_need_def [abs_def]
  by (rule streams.version_store_axioms)

section \<open>Observations and schedules\<close>

record observation_row =
  ob_observation :: review_observation
  ob_workspace :: uuid
  ob_invalidated :: "time option"

record schedule_row =
  sr_schedule :: review_schedule
  sr_workspace :: uuid

definition has_observation :: "observation_row list \<Rightarrow> uuid \<Rightarrow> bool" where
  "has_observation rows i = list_ex (\<lambda>r. ro_id (ob_observation r) = i) rows"

definition save_observation :: "observation_row list \<Rightarrow> review_observation \<Rightarrow> uuid \<Rightarrow> observation_row list" where
  "save_observation rows b w =
     (if has_observation rows (ro_id b) then rows
      else rows @ [\<lparr>ob_observation = b, ob_workspace = w, ob_invalidated = None\<rparr>])"

definition invalidate_observation :: "observation_row list \<Rightarrow> uuid \<Rightarrow> time \<Rightarrow> observation_row list option" where
  "invalidate_observation rows i now =
     (if has_observation rows i
      then Some (map (\<lambda>r. if ro_id (ob_observation r) = i then r\<lparr>ob_invalidated := Some now\<rparr> else r) rows)
      else None)"

definition valid_row :: "uuid \<Rightarrow> uuid \<Rightarrow> uuid \<Rightarrow> observation_row \<Rightarrow> bool" where
  "valid_row user u w r \<longleftrightarrow> ro_user (ob_observation r) = user \<and> ob_workspace r = w \<and>
     ro_unit (ob_observation r) = u \<and> ob_invalidated r = None"

definition list_valid_observations :: "observation_row list \<Rightarrow> uuid \<Rightarrow> uuid \<Rightarrow> uuid \<Rightarrow> review_observation list" where
  "list_valid_observations rows user u w =
     sort_key (\<lambda>b. (ro_reviewed_at b, ro_id b)) (map ob_observation (filter (valid_row user u w) rows))"

definition schedule_of :: "uuid \<Rightarrow> uuid \<Rightarrow> uuid \<Rightarrow> schedule_row \<Rightarrow> bool" where
  "schedule_of user u w r \<longleftrightarrow> sd_user (sr_schedule r) = user \<and> sr_workspace r = w \<and> sd_unit (sr_schedule r) = u"

definition latest_schedule :: "schedule_row list \<Rightarrow> uuid \<Rightarrow> uuid \<Rightarrow> uuid \<Rightarrow> review_schedule option" where
  "latest_schedule rows user u w =
     map_option sr_schedule (latest_by (sd_version \<circ> sr_schedule) (filter (schedule_of user u w) rows))"

definition save_schedule :: "schedule_row list \<Rightarrow> review_schedule \<Rightarrow> uuid \<Rightarrow> schedule_row list \<times> review_schedule" where
  "save_schedule rows s w =
     (case find (\<lambda>r. sd_id (sr_schedule r) = sd_id s \<and> sd_version (sr_schedule r) = sd_version s) rows of
        Some r \<Rightarrow> (rows, sr_schedule r)
      | None \<Rightarrow> (rows @ [\<lparr>sr_schedule = s, sr_workspace = w\<rparr>], s))"

fun first_per :: "('r \<Rightarrow> 'k) \<Rightarrow> 'r list \<Rightarrow> 'r list" where
  "first_per k [] = []"
| "first_per k (r # rs) = r # first_per k (filter (\<lambda>x. k x \<noteq> k r) rs)"

definition list_latest_for_user :: "schedule_row list \<Rightarrow> uuid \<Rightarrow> uuid \<Rightarrow> review_schedule list" where
  "list_latest_for_user rows user w = map sr_schedule (first_per (sd_unit \<circ> sr_schedule)
     (sort_key (\<lambda>r. (sd_unit (sr_schedule r), - sd_version (sr_schedule r)))
       (filter (\<lambda>r. sd_user (sr_schedule r) = user \<and> sr_workspace r = w) rows)))"

section \<open>Activity states\<close>

datatype actor = SYSTEM_ACTOR | LEARNER_ACTOR

record activity_state =
  st_activity :: uuid
  st_version :: int
  st_plan :: uuid
  st_plan_version :: int
  st_status :: activity_status
  st_previous :: "activity_status option"
  st_reason :: string
  st_sources :: "versioned_ref list"
  st_actor :: actor
  st_started :: "time option"
  st_completed :: "time option"
  st_correlation :: uuid
  st_created :: time

definition latest_state :: "activity_state list \<Rightarrow> uuid \<Rightarrow> activity_state option" where
  "latest_state rows a = latest_by st_version (filter (\<lambda>r. st_activity r = a) rows)"

definition initialize_state :: "activity_state list \<Rightarrow> uuid \<Rightarrow> uuid \<Rightarrow> int \<Rightarrow> activity_status \<Rightarrow> uuid \<Rightarrow> time \<Rightarrow>
    activity_state list \<times> activity_state" where
  "initialize_state rows a plan version status correlation now =
     (case latest_state rows a of
        Some s \<Rightarrow> (rows, s)
      | None \<Rightarrow>
          (let s = \<lparr>st_activity = a, st_version = 1, st_plan = plan, st_plan_version = version, st_status = status,
             st_previous = None, st_reason = ''ACTIVITY_CREATED_FROM_PLAN'', st_sources = [], st_actor = SYSTEM_ACTOR,
             st_started = None, st_completed = None, st_correlation = correlation, st_created = now\<rparr>
           in (rows @ [s], s)))"

section \<open>Plans\<close>

record plan_row =
  pr_plan :: learning_plan
  pr_key :: string
  pr_status :: plan_status
  pr_superseded_by :: "int option"

record plan_tables =
  tp_plans :: "plan_row list"
  tp_activities :: "learning_activity list"
  tp_states :: "activity_state list"

datatype plan_store_error = PLAN_INTEGRITY

definition to_plan :: "plan_row \<Rightarrow> learning_plan" where
  "to_plan r = (pr_plan r)\<lparr>lp_status := pr_status r\<rparr>"

definition find_plan_by_idempotency :: "plan_row list \<Rightarrow> string \<Rightarrow> learning_plan option" where
  "find_plan_by_idempotency rows k = map_option to_plan (find (\<lambda>r. pr_key r = k) rows)"

definition next_plan_version :: "plan_row list \<Rightarrow> uuid \<Rightarrow> int" where
  "next_plan_version rows goal = version_after (lp_version \<circ> pr_plan) (filter (\<lambda>r. lp_goal (pr_plan r) = goal) rows)"

definition open_plan :: "uuid \<Rightarrow> plan_row \<Rightarrow> bool" where
  "open_plan goal r \<longleftrightarrow> lp_goal (pr_plan r) = goal \<and> pr_status r \<in> {PLAN_ACTIVE, PLAN_PAUSED}"

definition same_plan_row :: "learning_plan \<Rightarrow> plan_row \<Rightarrow> bool" where
  "same_plan_row p r \<longleftrightarrow> lp_id (pr_plan r) = lp_id p \<and> lp_version (pr_plan r) = lp_version p"

text \<open>The latest open plan of the goal is superseded by a newer one.\<close>

definition supersede :: "plan_row list \<Rightarrow> learning_plan \<Rightarrow> plan_row list" where
  "supersede rows p =
     (case latest_by (lp_version \<circ> pr_plan) (filter (open_plan (lp_goal p)) rows) of
        None \<Rightarrow> rows
      | Some old \<Rightarrow>
          if lp_version (pr_plan old) < lp_version p
          then map (\<lambda>r. if same_plan_row (pr_plan old) r
                         then r\<lparr>pr_status := PLAN_SUPERSEDED, pr_superseded_by := Some (lp_version p)\<rparr> else r) rows
          else rows)"

definition add_states :: "pyenv \<Rightarrow> learning_plan \<Rightarrow> time \<Rightarrow> learning_activity list \<Rightarrow> activity_state list \<Rightarrow> activity_state list" where
  "add_states env p now acts rows = foldl (\<lambda>rs a. fst (initialize_state rs (la_id a) (la_plan a) (la_plan_version a)
     (la_status a) (uuid5 env (''askora:plan:'' @ lp_id p @ '':v'' @ int_str (lp_version p) @ '':activity-lifecycle'')) now))
     rows acts"

definition plan_row_of :: "learning_plan \<Rightarrow> string \<Rightarrow> plan_row" where
  "plan_row_of p k = \<lparr>pr_plan = p, pr_key = k, pr_status = lp_status p, pr_superseded_by = None\<rparr>"

definition save_plan :: "pyenv \<Rightarrow> plan_tables \<Rightarrow> planner_decision \<Rightarrow> string \<Rightarrow> time \<Rightarrow>
    plan_store_error + plan_tables \<times> learning_plan" where
  "save_plan env t d k now =
     (let p = pd_plan d; rows = supersede (tp_plans t) p
      in case find (same_plan_row p) rows of
           Some r \<Rightarrow> Inr (t\<lparr>tp_plans := rows\<rparr>, to_plan r)
         | None \<Rightarrow>
             if list_ex (\<lambda>r. pr_key r = k) rows \<or>
                \<not> distinct (map la_id (tp_activities t @ pd_activities d))
             then Inl PLAN_INTEGRITY
             else Inr (t\<lparr>tp_plans := rows @ [plan_row_of p k],
                         tp_activities := tp_activities t @ pd_activities d,
                         tp_states := add_states env p now (pd_activities d) (tp_states t)\<rparr>, p))"

definition list_plan_versions :: "plan_row list \<Rightarrow> uuid \<Rightarrow> learning_plan list" where
  "list_plan_versions rows goal =
     map to_plan (sort_key (lp_version \<circ> pr_plan) (filter (\<lambda>r. lp_goal (pr_plan r) = goal) rows))"

definition plan_activities :: "learning_activity list \<Rightarrow> uuid \<Rightarrow> int \<Rightarrow> learning_activity list" where
  "plan_activities acts p v =
     sort_key (\<lambda>a. (- la_priority a, la_id a)) (filter (\<lambda>a. la_plan a = p \<and> la_plan_version a = v) acts)"

end
