(* ===== verification/ReviewFlow.thy ===== *)
theory ReviewFlow
  imports PlanningRecords
begin

text \<open>
  \<open>app/orchestration/review_planning.py\<close>: the application that applies a review observation, makes a
  plan, and recomputes a schedule after an observation is invalidated. Its three ports (Python
  \<open>Protocol\<close>s) are records of operations on one database state. \<open>review_store\<close> is the contract of the
  review port; the tables of \<open>PlanningRecords\<close> and \<open>Outbox\<close> meet it.

  In an outbox payload an instant stands for its ISO text.
\<close>

section \<open>Ports\<close>

record 's review_port =
  rp_latest :: "'s \<Rightarrow> uuid \<Rightarrow> uuid \<Rightarrow> uuid \<Rightarrow> review_schedule option"
  rp_has :: "'s \<Rightarrow> uuid \<Rightarrow> bool"
  rp_save_observation :: "'s \<Rightarrow> review_observation \<Rightarrow> uuid \<Rightarrow> 's"
  rp_save :: "'s \<Rightarrow> review_schedule \<Rightarrow> uuid \<Rightarrow> 's \<times> review_schedule"
  rp_list_latest :: "'s \<Rightarrow> uuid \<Rightarrow> uuid \<Rightarrow> review_schedule list"
  rp_invalidate :: "'s \<Rightarrow> uuid \<Rightarrow> time \<Rightarrow> 's option"
  rp_list_valid :: "'s \<Rightarrow> uuid \<Rightarrow> uuid \<Rightarrow> uuid \<Rightarrow> review_observation list"

record 's plan_port =
  pp_find :: "'s \<Rightarrow> string \<Rightarrow> learning_plan option"
  pp_next :: "'s \<Rightarrow> uuid \<Rightarrow> int"
  pp_save :: "'s \<Rightarrow> planner_decision \<Rightarrow> string \<Rightarrow> time \<Rightarrow> plan_store_error + 's \<times> learning_plan"

type_synonym 's outbox_port = "'s \<Rightarrow> uuid \<Rightarrow> time \<Rightarrow> task_request \<Rightarrow> outbox_error + 's \<times> outbox_task"

datatype flow_error =
    OBSERVATION_WITHOUT_SCHEDULE | SCHEDULE_NOT_FOUND | NO_VALID_OBSERVATION | OBSERVATION_NOT_FOUND | REPLAY_EMPTY
  | SCHEDULER schedule_error | PLANNER plan_error | PLAN_STORE plan_store_error | OUTBOX outbox_error

text \<open>The clock and the row id of the one task a call may enqueue.\<close>

record call =
  ca_now :: time
  ca_task :: uuid

section \<open>Payloads\<close>

definition opt_json :: "('a \<Rightarrow> pyval) \<Rightarrow> 'a option \<Rightarrow> pyval" where
  "opt_json f v = (case v of None \<Rightarrow> VNone | Some x \<Rightarrow> f x)"

abbreviation time_json :: "time \<Rightarrow> pyval" where
  "time_json t \<equiv> VTime (Aware t)"

definition schedule_json :: "review_schedule \<Rightarrow> pyval" where
  "schedule_json s = VDict
    [(''schedule_id'', VStr (sd_id s)), (''version'', VInt (sd_version s)), (''user_id'', VStr (sd_user s)),
     (''knowledge_unit_id'', VStr (sd_unit s)), (''memory_model'', VStr (sd_model s)),
     (''model_version'', VStr (sd_model_version s)), (''difficulty'', opt_json VFloat (sd_difficulty s)),
     (''stability'', opt_json VFloat (sd_stability s)), (''retrievability'', opt_json VFloat (sd_retrievability s)),
     (''desired_retention'', VFloat (sd_retention s)), (''last_valid_retrieval_at'', opt_json time_json (sd_last_valid s)),
     (''next_due_at'', opt_json time_json (sd_next_due s)), (''review_priority'', VFloat (sd_priority s)),
     (''evidence_quality'', VFloat (sd_quality s)), (''source_event_ids'', VList (map VStr (sd_source_events s))),
     (''created_at'', time_json (sd_created s))]"

definition due_task :: "review_schedule \<Rightarrow> (string \<times> pyval) list \<Rightarrow> task_request" where
  "due_task s extra =
    \<lparr>tq_type = ''review.due.check'', tq_schema = ''1.0'', tq_payload = VDict ((''schedule'', schedule_json s) # extra),
     tq_key = ''review-due:'' @ sd_id s @ '':'' @ int_str (sd_version s),
     tq_next = map_option Aware (sd_next_due s)\<rparr>"

definition applied_task :: "review_schedule \<Rightarrow> string list \<Rightarrow> review_observation \<Rightarrow> string \<Rightarrow> task_request" where
  "applied_task s reasons b correlation = due_task s
    [(''reason_codes'', VList (map VStr reasons)), (''actual_reviewed_at'', time_json (ro_reviewed_at b)),
     (''correlation_id'', VStr correlation)]"

definition recomputed_task :: "review_schedule \<Rightarrow> string list \<Rightarrow> task_request" where
  "recomputed_task s reasons = due_task s
    [(''reason_codes'', VList (map VStr (''REVIEW_OBSERVATION_INVALIDATED'' # reasons)))]"

fun activity_status_name :: "activity_status \<Rightarrow> string" where
  "activity_status_name PLANNED = ''planned''"
| "activity_status_name AVAILABLE_NOW = ''available''"
| "activity_status_name ACTIVE = ''active''"
| "activity_status_name DONE = ''completed''"
| "activity_status_name SKIPPED = ''skipped''"
| "activity_status_name ACTIVITY_SUPERSEDED = ''superseded''"

definition activity_json :: "learning_activity \<Rightarrow> pyval" where
  "activity_json a = VDict
    [(''activity_id'', VStr (la_id a)), (''plan_id'', VStr (la_plan a)), (''plan_version'', VInt (la_plan_version a)),
     (''objective_id'', VStr (la_objective a)), (''type'', VStr (activity_name (la_type a))),
     (''knowledge_unit_ids'', VList (map VStr (la_units a))), (''estimated_duration_minutes'', VInt (la_minutes a)),
     (''priority'', VFloat (la_priority a)), (''reason_codes'', VList (map VStr (la_reasons a))),
     (''status'', VStr (activity_status_name (la_status a)))]"

fun plan_status_name :: "plan_status \<Rightarrow> string" where
  "plan_status_name PLAN_ACTIVE = ''active''"
| "plan_status_name PLAN_SUPERSEDED = ''superseded''"
| "plan_status_name PLAN_COMPLETED = ''completed''"
| "plan_status_name PLAN_PAUSED = ''paused''"

definition weights_json :: pyval where
  "weights_json = VDict [(''goal_relevance'', VFloat goal_weight), (''mastery_gap'', VFloat gap_weight),
     (''review_urgency'', VFloat urgency_weight), (''uncertainty'', VFloat uncertainty_weight),
     (''prerequisite'', VFloat prerequisite_weight)]"

definition plan_json :: "learning_plan \<Rightarrow> pyval" where
  "plan_json p = VDict
    [(''plan_id'', VStr (lp_id p)), (''version'', VInt (lp_version p)), (''learning_goal_id'', VStr (lp_goal p)),
     (''planning_horizon'', VDict [(''kind'', VStr ''daily''), (''time_budget_minutes'', VInt (lp_budget p))]),
     (''objective_ids'', VList (map VStr (lp_objectives p))), (''activity_ids'', VList (map VStr (lp_activities p))),
     (''constraints'', VDict [(''hard_prerequisites'', VBool True), (''time_budget_minutes'', VInt (lp_budget p))]),
     (''assumptions'', VDict [(''planner_version'', VStr (lp_planner p)), (''weights'', weights_json)]),
     (''created_from_learner_state_version'', VInt (lp_learner_state p)),
     (''knowledge_graph_version'', VStr (lp_graph p)), (''review_schedule_version'', opt_json VStr (lp_reviews p)),
     (''reason_codes'', VList (map VStr (lp_reasons p))), (''status'', VStr (plan_status_name (lp_status p)))]"

definition trace_json :: "plan_trace_item \<Rightarrow> pyval" where
  "trace_json t = VDict
    [(''kind'', VStr (activity_name (pt_kind t))), (''knowledge_unit_id'', VStr (pt_unit t)),
     (''priority'', VFloat (pt_priority t)), (''duration'', VInt (pt_minutes t)), (''selected'', VBool (pt_selected t))]"

definition plan_task :: "learning_plan \<Rightarrow> planner_decision \<Rightarrow> string \<Rightarrow> task_request" where
  "plan_task p d correlation =
    \<lparr>tq_type = ''learning.plan.generated'', tq_schema = ''1.0'',
     tq_payload = VDict [(''plan'', plan_json p),
       (''activities'', VList (map activity_json (pd_activities d))),
       (''scoring_trace'', VList (map trace_json (pd_trace d))), (''correlation_id'', VStr correlation)],
     tq_key = ''learning-plan:'' @ lp_id p @ '':'' @ int_str (lp_version p), tq_next = None\<rparr>"

section \<open>The application\<close>

definition version_following :: "review_schedule option \<Rightarrow> int" where
  "version_following prior = (case prior of None \<Rightarrow> 1 | Some p \<Rightarrow> sd_version p + 1)"

definition put_on_outbox :: "'s outbox_port \<Rightarrow> call \<Rightarrow> task_request \<Rightarrow> 's \<Rightarrow> flow_error + 's" where
  "put_on_outbox ob c q st =
     (case ob st (ca_task c) (ca_now c) q of Inl e \<Rightarrow> Inl (OUTBOX e) | Inr (st', _) \<Rightarrow> Inr st')"

definition apply_review_observation :: "pyenv \<Rightarrow> libm \<Rightarrow> 's review_port \<Rightarrow> 's outbox_port \<Rightarrow> call \<Rightarrow>
    review_observation \<Rightarrow> uuid \<Rightarrow> float64 \<Rightarrow> (string, pyval) dict option \<Rightarrow> string \<Rightarrow> 's \<Rightarrow>
    flow_error + 's \<times> review_schedule" where
  "apply_review_observation env m rp ob c b w desired ps correlation st =
     (let prior = rp_latest rp st (ro_user b) (ro_unit b) w
      in if rp_has rp st (ro_id b)
         then (case prior of None \<Rightarrow> Inl OBSERVATION_WITHOUT_SCHEDULE | Some p \<Rightarrow> Inr (st, p))
         else (case update_review env m b prior (version_following prior) w desired ps of
                 Inl e \<Rightarrow> Inl (SCHEDULER e)
               | Inr k \<Rightarrow>
                   (let st1 = rp_save_observation rp st b w;
                        (st2, s) = rp_save rp st1 (sk_schedule k) w
                    in bind_res (put_on_outbox ob c (applied_task s (sk_reasons k) b correlation) st2)
                         (\<lambda>st3. Inr (st3, s)))))"

text \<open>The replay: every observation updates the schedule of the one before, from none.\<close>

fun replay_observations :: "pyenv \<Rightarrow> libm \<Rightarrow> uuid \<Rightarrow> float64 \<Rightarrow> review_schedule option \<Rightarrow> string list \<Rightarrow> int \<Rightarrow>
    review_observation list \<Rightarrow> schedule_error + review_schedule option \<times> string list" where
  "replay_observations env m w desired prior reasons i [] = Inr (prior, reasons)"
| "replay_observations env m w desired prior reasons i (b # bs) =
     (case update_review env m b prior i w desired None of
        Inl e \<Rightarrow> Inl e
      | Inr k \<Rightarrow> replay_observations env m w desired (Some (sk_schedule k)) (sk_reasons k) (i + 1) bs)"

definition recompute_after_invalidation :: "pyenv \<Rightarrow> libm \<Rightarrow> 's review_port \<Rightarrow> 's outbox_port \<Rightarrow> call \<Rightarrow>
    uuid \<Rightarrow> uuid \<Rightarrow> uuid \<Rightarrow> uuid \<Rightarrow> float64 \<Rightarrow> 's \<Rightarrow> flow_error + 's \<times> review_schedule" where
  "recompute_after_invalidation env m rp ob c i user u w desired st =
     (case rp_latest rp st user u w of
        None \<Rightarrow> Inl SCHEDULE_NOT_FOUND
      | Some old \<Rightarrow>
          (case rp_invalidate rp st i (ca_now c) of
             None \<Rightarrow> Inl OBSERVATION_NOT_FOUND
           | Some st1 \<Rightarrow>
               (let bs = rp_list_valid rp st1 user u w
                in if bs = [] then Inl NO_VALID_OBSERVATION
                   else (case replay_observations env m w desired None [] 1 bs of
                           Inl e \<Rightarrow> Inl (SCHEDULER e)
                         | Inr (None, _) \<Rightarrow> Inl REPLAY_EMPTY
                         | Inr (Some r, reasons) \<Rightarrow>
                             (let (st2, s) = rp_save rp st1 (r\<lparr>sd_version := sd_version old + 1\<rparr>) w
                              in bind_res (put_on_outbox ob c (recomputed_task s reasons) st2)
                                   (\<lambda>st3. Inr (st3, s)))))))"

record plan_request =
  pq_goal :: confirmed_goal
  pq_user :: uuid
  pq_workspace :: uuid
  pq_prerequisites :: prerequisite_map
  pq_mastery :: mastery_map
  pq_budget :: int
  pq_learner_state :: int
  pq_graph :: string
  pq_at :: time
  pq_key :: string
  pq_reasons :: "string list"
  pq_correlation :: string

definition make_plan_for :: "pyenv \<Rightarrow> 's review_port \<Rightarrow> 's plan_port \<Rightarrow> 's outbox_port \<Rightarrow> call \<Rightarrow> plan_request \<Rightarrow> 's \<Rightarrow>
    flow_error + 's \<times> learning_plan" where
  "make_plan_for env rp pp ob c q st =
     (case pp_find pp st (pq_key q) of
        Some p \<Rightarrow> Inr (st, p)
      | None \<Rightarrow>
          (let due = map (\<lambda>s. project_due s (pq_at q)) (rp_list_latest rp st (pq_user q) (pq_workspace q));
               version = pp_next pp st (cg_id (pq_goal q))
           in case generate_plan env (pq_goal q) (pq_prerequisites q) (pq_mastery q) due (pq_budget q)
                (pq_learner_state q) (pq_graph q) version (pq_reasons q) of
                Inl e \<Rightarrow> Inl (PLANNER e)
              | Inr d \<Rightarrow>
                  (case pp_save pp st d (pq_key q) (ca_now c) of
                     Inl e \<Rightarrow> Inl (PLAN_STORE e)
                   | Inr (st1, p) \<Rightarrow>
                       bind_res (put_on_outbox ob c (plan_task p d (pq_correlation q)) st1) (\<lambda>st2. Inr (st2, p)))))"

section \<open>The tables behind the ports\<close>

record planning_db =
  db_observations :: "observation_row list"
  db_schedules :: "schedule_row list"
  db_plans :: plan_tables
  db_outbox :: "outbox_task list"

definition review_tables :: "planning_db review_port" where
  "review_tables =
    \<lparr>rp_latest = (\<lambda>db. latest_schedule (db_schedules db)),
     rp_has = (\<lambda>db. has_observation (db_observations db)),
     rp_save_observation = (\<lambda>db b w. db\<lparr>db_observations := save_observation (db_observations db) b w\<rparr>),
     rp_save = (\<lambda>db s w. (db\<lparr>db_schedules := fst (save_schedule (db_schedules db) s w)\<rparr>,
        snd (save_schedule (db_schedules db) s w))),
     rp_list_latest = (\<lambda>db. list_latest_for_user (db_schedules db)),
     rp_invalidate = (\<lambda>db i now. map_option (\<lambda>rows. db\<lparr>db_observations := rows\<rparr>)
        (invalidate_observation (db_observations db) i now)),
     rp_list_valid = (\<lambda>db. list_valid_observations (db_observations db))\<rparr>"

definition plan_tables_port :: "pyenv \<Rightarrow> planning_db plan_port" where
  "plan_tables_port env =
    \<lparr>pp_find = (\<lambda>db. find_plan_by_idempotency (tp_plans (db_plans db))),
     pp_next = (\<lambda>db. next_plan_version (tp_plans (db_plans db))),
     pp_save = (\<lambda>db d k now. map_sum id (\<lambda>(t, p). (db\<lparr>db_plans := t\<rparr>, p)) (save_plan env (db_plans db) d k now))\<rparr>"

definition outbox_table :: "planning_db outbox_port" where
  "outbox_table db fresh clock q =
     map_sum id (\<lambda>(rows, t). (db\<lparr>db_outbox := rows\<rparr>, t)) (enqueue (db_outbox db) (db_outbox db) fresh clock q)"

section \<open>What the application relies on\<close>

definition schedule_identity :: "pyenv \<Rightarrow> uuid \<Rightarrow> uuid \<Rightarrow> uuid \<Rightarrow> uuid" where
  "schedule_identity env w user u = uuid5 env (''askora:review-schedule:'' @ w @ '':'' @ user @ '':'' @ u)"

definition no_colon :: "string \<Rightarrow> bool" where
  "no_colon s \<longleftrightarrow> CHR '':'' \<notin> set s"

abbreviation plain_names :: "uuid \<Rightarrow> uuid \<Rightarrow> uuid \<Rightarrow> bool" where
  "plain_names user u w \<equiv> no_colon user \<and> no_colon u \<and> no_colon w"

text \<open>The contract of the review port and the outbox on one database. \<open>ok\<close> is the invariant of the
  database; names are UUIDs, so they hold no colon.\<close>

locale review_store =
  fixes env :: pyenv and rp :: "'s review_port" and ob :: "'s outbox_port" and ok :: "'s \<Rightarrow> bool"
  assumes has_observed: "rp_has rp (rp_save_observation rp s b w) i \<longleftrightarrow> i = ro_id b \<or> rp_has rp s i"
    and latest_observed: "rp_latest rp (rp_save_observation rp s b w) = rp_latest rp s"
    and ok_observed: "ok s \<Longrightarrow> ok (rp_save_observation rp s b w)"
    and has_saved: "rp_has rp (fst (rp_save rp s x w)) = rp_has rp s"
    and ok_saved: "ok s \<Longrightarrow> plain_names (sd_user x) (sd_unit x) w \<Longrightarrow>
      sd_id x = schedule_identity env w (sd_user x) (sd_unit x) \<Longrightarrow> ok (fst (rp_save rp s x w))"
    and save_next: "ok s \<Longrightarrow> plain_names (sd_user x) (sd_unit x) w \<Longrightarrow>
      sd_id x = schedule_identity env w (sd_user x) (sd_unit x) \<Longrightarrow>
      sd_version x = version_following (rp_latest rp s (sd_user x) (sd_unit x) w) \<Longrightarrow>
      snd (rp_save rp s x w) = x \<and> rp_latest rp (fst (rp_save rp s x w)) (sd_user x) (sd_unit x) w = Some x"
    and enqueued: "ob s f n q = Inr (s', t) \<Longrightarrow> rp_has rp s' = rp_has rp s \<and> rp_latest rp s' = rp_latest rp s \<and> (ok s \<longrightarrow> ok s')"
begin

lemma apply_fresh:
  assumes "ok st" and "plain_names (ro_user b) (ro_unit b) w" and "\<not> rp_has rp st (ro_id b)"
    and "apply_review_observation env m rp ob c b w desired ps correlation st = Inr (st', s)"
  obtains k where "update_review env m b (rp_latest rp st (ro_user b) (ro_unit b) w)
        (version_following (rp_latest rp st (ro_user b) (ro_unit b) w)) w desired ps = Inr k"
    and "s = sk_schedule k" and "rp_latest rp st' (ro_user b) (ro_unit b) w = Some s"
    and "\<And>i. rp_has rp st' i \<longleftrightarrow> i = ro_id b \<or> rp_has rp st i" and "ok st'"
proof -
  let ?prior = "rp_latest rp st (ro_user b) (ro_unit b) w"
  let ?st1 = "rp_save_observation rp st b w"
  obtain k where k: "update_review env m b ?prior (version_following ?prior) w desired ps = Inr k"
  proof (cases "update_review env m b ?prior (version_following ?prior) w desired ps")
    case (Inl e)
    with assms(4) show ?thesis by (simp add: apply_review_observation_def Let_def assms(3))
  qed (rule that)
  have "bind_res (put_on_outbox ob c (applied_task (snd (rp_save rp ?st1 (sk_schedule k) w)) (sk_reasons k) b correlation)
        (fst (rp_save rp ?st1 (sk_schedule k) w))) (\<lambda>st3. Inr (st3, snd (rp_save rp ?st1 (sk_schedule k) w))) = Inr (st', s)"
    using assms(4) by (simp only: apply_review_observation_def Let_def case_prod_unfold assms(3) if_False k sum.case)
  then have o: "put_on_outbox ob c (applied_task (snd (rp_save rp ?st1 (sk_schedule k) w)) (sk_reasons k) b correlation)
        (fst (rp_save rp ?st1 (sk_schedule k) w)) = Inr st'"
    and s: "s = snd (rp_save rp ?st1 (sk_schedule k) w)"
    by (auto simp: bind_res_Inr_iff)
  obtain s0 d s' d' q reason where sched: "sk_schedule k = make_schedule env m b ?prior (version_following ?prior) w
      (clamp_retention desired) (snd (resolve_params ps)) (s', d', q, reason)
      (ro_observed_at b + days_us (interval_days m s' (clamp_retention desired)))"
    using k by (rule update_elim) (rule that)
  have id: "sd_user (sk_schedule k) = ro_user b" "sd_unit (sk_schedule k) = ro_unit b"
    "sd_id (sk_schedule k) = schedule_identity env w (ro_user b) (ro_unit b)"
    "sd_version (sk_schedule k) = version_following ?prior"
    by (simp_all add: sched schedule_identity_def)
  have ok1: "ok ?st1" using assms(1) by (rule ok_observed)
  have saved: "snd (rp_save rp ?st1 (sk_schedule k) w) = sk_schedule k
      \<and> rp_latest rp (fst (rp_save rp ?st1 (sk_schedule k) w)) (ro_user b) (ro_unit b) w = Some (sk_schedule k)"
    using save_next [OF ok1, of "sk_schedule k" w] assms(2) by (simp add: id latest_observed)
  obtain t where enq: "ob (fst (rp_save rp ?st1 (sk_schedule k) w)) (ca_task c) (ca_now c)
      (applied_task (snd (rp_save rp ?st1 (sk_schedule k) w)) (sk_reasons k) b correlation) = Inr (st', t)"
    using o by (auto simp: put_on_outbox_def split: sum.splits prod.splits)
  have "ok (fst (rp_save rp ?st1 (sk_schedule k) w))" using ok_saved [OF ok1] assms(2) id by simp
  with enqueued [OF enq] show ?thesis
    using saved s by (intro that [OF k]) (auto simp: has_saved has_observed)
qed

lemma apply_idempotent:
  assumes "ok st" and "plain_names (ro_user b) (ro_unit b) w"
    and "apply_review_observation env m rp ob c b w desired ps correlation st = Inr (st', s)"
  shows "apply_review_observation env m rp ob c2 b w desired2 ps2 correlation2 st' = Inr (st', s)"
proof (cases "rp_has rp st (ro_id b)")
  case True
  with assms(3) have "st' = st" "rp_latest rp st (ro_user b) (ro_unit b) w = Some s"
    by (auto simp: apply_review_observation_def Let_def split: option.splits)
  with True show ?thesis by (simp add: apply_review_observation_def)
next
  case False
  obtain k where "rp_latest rp st' (ro_user b) (ro_unit b) w = Some s"
    "\<And>i. rp_has rp st' i \<longleftrightarrow> i = ro_id b \<or> rp_has rp st i"
    using assms(1,2) False assms(3) by (rule apply_fresh) (rule that)
  then show ?thesis by (simp add: apply_review_observation_def)
qed

end

text \<open>A sequence of observations of one unit, each with its call.\<close>

fun apply_all :: "pyenv \<Rightarrow> libm \<Rightarrow> 's review_port \<Rightarrow> 's outbox_port \<Rightarrow> uuid \<Rightarrow> float64 \<Rightarrow>
    (call \<times> review_observation) list \<Rightarrow> 's \<Rightarrow> flow_error + 's" where
  "apply_all env m rp ob w desired [] st = Inr st"
| "apply_all env m rp ob w desired ((c, b) # rest) st =
     bind_res (apply_review_observation env m rp ob c b w desired None [] st)
       (\<lambda>(st', _). apply_all env m rp ob w desired rest st')"

context review_store
begin

lemma apply_all_is_replay:
  assumes "ok st" and "plain_names user u w"
    and "list_all (\<lambda>(c, b). ro_user b = user \<and> ro_unit b = u \<and> \<not> rp_has rp st (ro_id b)) bs"
    and "distinct (map (ro_id \<circ> snd) bs)"
    and "apply_all env m rp ob w desired bs st = Inr st'"
  shows "ok st' \<and> (\<forall>i. rp_has rp st' i \<longleftrightarrow> rp_has rp st i \<or> i \<in> set (map (ro_id \<circ> snd) bs)) \<and>
    (\<exists>reasons. replay_observations env m w desired (rp_latest rp st user u w) r0
        (version_following (rp_latest rp st user u w)) (map snd bs) = Inr (rp_latest rp st' user u w, reasons))"
  using assms
proof (induction bs arbitrary: st r0)
  case Nil
  then show ?case by simp
next
  case (Cons cb rest)
  obtain c b where cb: "cb = (c, b)" by fastforce
  obtain st1 s where a: "apply_review_observation env m rp ob c b w desired None [] st = Inr (st1, s)"
    and rest: "apply_all env m rp ob w desired rest st1 = Inr st'"
    using Cons.prems(5) by (auto simp: cb bind_res_Inr_iff)
  have b: "ro_user b = user" "ro_unit b = u" "\<not> rp_has rp st (ro_id b)" using Cons.prems(3) by (auto simp: cb)
  obtain k where k: "update_review env m b (rp_latest rp st user u w) (version_following (rp_latest rp st user u w)) w desired None = Inr k"
    and s: "s = sk_schedule k" "rp_latest rp st1 user u w = Some s"
    and has: "\<And>i. rp_has rp st1 i \<longleftrightarrow> i = ro_id b \<or> rp_has rp st i" and ok1: "ok st1"
    using Cons.prems(1) _ b(3) a by (rule apply_fresh) (use Cons.prems(2) b(1,2) in \<open>auto intro: that\<close>)
  have fresh: "list_all (\<lambda>(c, b). ro_user b = user \<and> ro_unit b = u \<and> \<not> rp_has rp st1 (ro_id b)) rest"
    using Cons.prems(3,4) has by (fastforce simp: cb list_all_iff image_iff)
  have v: "sd_version s = version_following (rp_latest rp st user u w)"
    using k by (rule update_elim) (simp add: s(1))
  have "distinct (map (ro_id \<circ> snd) rest)" using Cons.prems(4) by (simp add: comp_def)
  from Cons.IH [OF ok1 Cons.prems(2) fresh this rest] show ?case
    using has k s v by (auto simp: cb version_following_def)
qed

end

section \<open>The tables meet the contract\<close>

lemma split_at_colon:
  "no_colon a \<Longrightarrow> no_colon a' \<Longrightarrow> a @ CHR '':'' # b = a' @ CHR '':'' # b' \<Longrightarrow> a = a' \<and> b = b'"
proof (induction a arbitrary: a')
  case Nil
  then show ?case by (cases a') (auto simp: no_colon_def)
next
  case (Cons x a)
  then show ?case by (cases a') (auto simp: no_colon_def)
qed

lemma schedule_identity_inj:
  assumes "inj (uuid5 env)" and "plain_names user u w" and "plain_names user' u' w'"
    and "schedule_identity env w user u = schedule_identity env w' user' u'"
  shows "user = user' \<and> u = u' \<and> w = w'"
proof -
  have "w @ CHR '':'' # user @ CHR '':'' # u = w' @ CHR '':'' # user' @ CHR '':'' # u'"
    using assms(1,4) by (auto simp: schedule_identity_def dest: injD)
  with split_at_colon assms(2,3) show ?thesis by metis
qed

definition schedule_row_ok :: "pyenv \<Rightarrow> schedule_row \<Rightarrow> bool" where
  "schedule_row_ok env r \<longleftrightarrow> plain_names (sd_user (sr_schedule r)) (sd_unit (sr_schedule r)) (sr_workspace r) \<and>
     sd_id (sr_schedule r) = schedule_identity env (sr_workspace r) (sd_user (sr_schedule r)) (sd_unit (sr_schedule r))"

definition review_ok :: "pyenv \<Rightarrow> planning_db \<Rightarrow> bool" where
  "review_ok env db \<longleftrightarrow> inj (uuid5 env) \<and> list_all (schedule_row_ok env) (db_schedules db)"

lemma latest_schedule_version:
  assumes "r \<in> set rows" and "schedule_of user u w r"
  shows "sd_version (sr_schedule r) < version_following (latest_schedule rows user u w)"
proof (cases "latest_by (sd_version \<circ> sr_schedule) (filter (schedule_of user u w) rows)")
  case None
  with assms show ?thesis by (auto simp: filter_empty_conv)
next
  case (Some x)
  with latest_by_Some [OF Some] assms show ?thesis by (auto simp: latest_schedule_def version_following_def)
qed

lemma save_schedule_next:
  assumes inj: "inj (uuid5 env)" and rows: "list_all (schedule_row_ok env) rows"
    and n: "plain_names (sd_user x) (sd_unit x) w" and i: "sd_id x = schedule_identity env w (sd_user x) (sd_unit x)"
    and v: "sd_version x = version_following (latest_schedule rows (sd_user x) (sd_unit x) w)"
  shows "snd (save_schedule rows x w) = x \<and>
    latest_schedule (fst (save_schedule rows x w)) (sd_user x) (sd_unit x) w = Some x"
proof -
  let ?new = "\<lparr>sr_schedule = x, sr_workspace = w\<rparr>"
  have free: "sd_version (sr_schedule r) \<noteq> sd_version x" if r: "r \<in> set rows" "sd_id (sr_schedule r) = sd_id x" for r
  proof -
    have "schedule_row_ok env r" using rows r(1) by (simp add: list_all_iff)
    then have r': "plain_names (sd_user (sr_schedule r)) (sd_unit (sr_schedule r)) (sr_workspace r)"
      "schedule_identity env (sr_workspace r) (sd_user (sr_schedule r)) (sd_unit (sr_schedule r))
        = schedule_identity env w (sd_user x) (sd_unit x)"
      using i r(2) unfolding schedule_row_ok_def by argo+
    have "schedule_of (sd_user x) (sd_unit x) w r"
      unfolding schedule_of_def using schedule_identity_inj [OF inj r'(1) n r'(2)] by blast
    from latest_schedule_version [OF r(1) this] v show ?thesis by simp
  qed
  then have "find (\<lambda>r. sd_id (sr_schedule r) = sd_id x \<and> sd_version (sr_schedule r) = sd_version x) rows = None"
    by (auto simp: find_None_iff)
  then have e: "save_schedule rows x w = (rows @ [?new], x)" by (simp add: save_schedule_def)
  have "latest_by (sd_version \<circ> sr_schedule) (filter (schedule_of (sd_user x) (sd_unit x) w) rows @ [?new]) = Some ?new"
    using latest_schedule_version v by (intro latest_by_snoc) simp
  then show ?thesis by (simp add: e latest_schedule_def schedule_of_def)
qed

lemma review_tables_simps [simp]:
  "rp_latest review_tables db = latest_schedule (db_schedules db)"
  "rp_has review_tables db = has_observation (db_observations db)"
  "rp_save_observation review_tables db b w = db\<lparr>db_observations := save_observation (db_observations db) b w\<rparr>"
  "rp_save review_tables db s w = (db\<lparr>db_schedules := fst (save_schedule (db_schedules db) s w)\<rparr>,
     snd (save_schedule (db_schedules db) s w))"
  "rp_list_latest review_tables db = list_latest_for_user (db_schedules db)"
  "rp_invalidate review_tables db i now = map_option (\<lambda>rows. db\<lparr>db_observations := rows\<rparr>)
     (invalidate_observation (db_observations db) i now)"
  "rp_list_valid review_tables db = list_valid_observations (db_observations db)"
  by (simp_all add: review_tables_def)

lemma outbox_table_frame:
  assumes "outbox_table db f n q = Inr (db', t)"
  shows "\<exists>rows. db' = db\<lparr>db_outbox := rows\<rparr>"
  using assms by (cases "enqueue (db_outbox db) (db_outbox db) f n q") (auto simp: outbox_table_def)

interpretation tables: review_store env review_tables outbox_table "review_ok env" for env
proof unfold_locales
  show "review_ok env (fst (rp_save review_tables s x w))" if "review_ok env s"
    "plain_names (sd_user x) (sd_unit x) w" "sd_id x = schedule_identity env w (sd_user x) (sd_unit x)" for s x w
    using that by (auto simp: review_ok_def save_schedule_def schedule_row_ok_def split: option.splits)
  show "snd (rp_save review_tables s x w) = x \<and>
      rp_latest review_tables (fst (rp_save review_tables s x w)) (sd_user x) (sd_unit x) w = Some x"
    if "review_ok env s" "plain_names (sd_user x) (sd_unit x) w"
      "sd_id x = schedule_identity env w (sd_user x) (sd_unit x)"
      "sd_version x = version_following (rp_latest review_tables s (sd_user x) (sd_unit x) w)" for s x w
    using save_schedule_next [of env "db_schedules s" x w] that by (simp add: review_ok_def)
  show "rp_has review_tables s' = rp_has review_tables s \<and> rp_latest review_tables s' = rp_latest review_tables s \<and>
      (review_ok env s \<longrightarrow> review_ok env s')" if "outbox_table s f n q = Inr (s', t)" for s f n q s' t
    using outbox_table_frame [OF that] by (auto simp: review_ok_def)
qed (auto simp: has_observation_def save_observation_def review_ok_def)

text \<open>Delivering an observation twice is delivering it once: the second delivery
  returns the schedule of the first and leaves the database as it is, whatever retention,
  parameters or time it comes with.\<close>

theorem observation_applied_once:
  assumes "review_ok env db" and "plain_names (ro_user b) (ro_unit b) w"
    and "apply_review_observation env m review_tables outbox_table c b w desired ps correlation db = Inr (db', s)"
  shows "apply_review_observation env m review_tables outbox_table c2 b w desired2 ps2 correlation2 db' = Inr (db', s)"
  using assms by (rule tables.apply_idempotent)

lemma schedule_replay_raw:
  assumes "review_ok env db" and "plain_names user u w" and "latest_schedule (db_schedules db) user u w = None"
    and "list_all (\<lambda>(c, b). ro_user b = user \<and> ro_unit b = u \<and> \<not> has_observation (db_observations db) (ro_id b)) bs"
    and "distinct (map (ro_id \<circ> snd) bs)"
    and "apply_all env m review_tables outbox_table w desired bs db = Inr db'"
  shows "\<exists>reasons. replay_observations env m w desired None [] 1 (map snd bs)
    = Inr (latest_schedule (db_schedules db') user u w, reasons)"
proof -
  have "list_all (\<lambda>(c, b). ro_user b = user \<and> ro_unit b = u \<and> \<not> rp_has review_tables db (ro_id b)) bs"
    using assms(4) by simp
  from tables.apply_all_is_replay [OF assms(1,2) this assms(5,6), of "[]"] assms(3) show ?thesis
    by (simp add: version_following_def)
qed

text \<open>C32: however many new observations of a unit without a schedule have been applied one by one, with
  the default parameters and one desired retention, its schedule is their replay from none in the order they were
  applied. Only observations that arrive in the order of their reviews are replayed so by the recomputation, which
  sorts them: a late one is applied on top of the latest schedule, and the versions it affects are not recomputed.\<close>

theorem schedule_is_replay:
  assumes "review_ok env db" and "plain_names user u w" and "latest_schedule (db_schedules db) user u w = None"
    and "list_all (\<lambda>(c, b). ro_user b = user \<and> ro_unit b = u \<and> \<not> has_observation (db_observations db) (ro_id b)) bs"
    and "distinct (map (ro_id \<circ> snd) bs)"
    and "apply_all env m review_tables outbox_table w desired bs db = Inr db'"
  shows "\<exists>reasons. replay_observations env m w desired None [] 1 (map snd bs)
    = Inr (latest_schedule (db_schedules db') user u w, reasons)"
  using assms by (rule schedule_replay_raw)

section \<open>Undoing an observation\<close>

lemma apply_observations:
  assumes "apply_review_observation env m review_tables outbox_table c b w desired ps correlation db = Inr (db', s)"
  shows "db_observations db' = save_observation (db_observations db) b w"
proof (cases "has_observation (db_observations db) (ro_id b)")
  case True
  with assms show ?thesis
    by (auto simp: apply_review_observation_def Let_def save_observation_def split: option.splits)
next
  case False
  let ?prior = "latest_schedule (db_schedules db) (ro_user b) (ro_unit b) w"
  show ?thesis
  proof (cases "update_review env m b ?prior (version_following ?prior) w desired ps")
    case (Inl e)
    with assms False show ?thesis by (simp add: apply_review_observation_def Let_def)
  next
    case (Inr k)
    let ?st2 = "fst (rp_save review_tables (rp_save_observation review_tables db b w) (sk_schedule k) w)"
    obtain q where "put_on_outbox outbox_table c q ?st2 = Inr db'"
      using assms False Inr by (auto simp: apply_review_observation_def Let_def bind_res_Inr_iff)
    then obtain t where "outbox_table ?st2 (ca_task c) (ca_now c) q = Inr (db', t)"
      by (auto simp: put_on_outbox_def split: sum.splits prod.splits)
    from outbox_table_frame [OF this] show ?thesis by auto
  qed
qed

lemma apply_all_observations:
  assumes "apply_all env m review_tables outbox_table w desired bs db = Inr db'"
    and "list_all (\<lambda>(c, b). \<not> has_observation (db_observations db) (ro_id b)) bs" and "distinct (map (ro_id \<circ> snd) bs)"
  shows "db_observations db' = db_observations db @
    map (\<lambda>(c, b). \<lparr>ob_observation = b, ob_workspace = w, ob_invalidated = None\<rparr>) bs"
  using assms
proof (induction bs arbitrary: db)
  case (Cons cb rest)
  obtain c b where cb: "cb = (c, b)" by fastforce
  obtain db1 s where a: "apply_review_observation env m review_tables outbox_table c b w desired None [] db = Inr (db1, s)"
    and rest: "apply_all env m review_tables outbox_table w desired rest db1 = Inr db'"
    using Cons.prems(1) by (auto simp: cb bind_res_Inr_iff)
  have db1: "db_observations db1 = db_observations db @ [\<lparr>ob_observation = b, ob_workspace = w, ob_invalidated = None\<rparr>]"
    using apply_observations [OF a] Cons.prems(2) by (simp add: cb save_observation_def)
  have "list_all (\<lambda>(c, b). \<not> has_observation (db_observations db1) (ro_id b)) rest"
    using Cons.prems(2,3) by (fastforce simp: cb db1 has_observation_def list_all_iff image_iff)
  moreover have "distinct (map (ro_id \<circ> snd) rest)" using Cons.prems(3) by (simp add: comp_def)
  ultimately show ?case using Cons.IH [OF rest] by (simp add: cb db1 comp_def)
qed simp

definition review_order :: "review_observation \<Rightarrow> time \<times> uuid" where
  "review_order b = (ro_reviewed_at b, ro_id b)"

lemma valid_after_undo:
  assumes "sorted (map review_order bs)" and "list_all (\<lambda>b. ro_user b = user \<and> ro_unit b = u) bs"
    and "ro_id b \<notin> ro_id ` set bs"
  shows "list_valid_observations (map (\<lambda>r. if ro_id (ob_observation r) = ro_id b then r\<lparr>ob_invalidated := Some now\<rparr> else r)
      (map (\<lambda>b. \<lparr>ob_observation = b, ob_workspace = w, ob_invalidated = None\<rparr>) (bs @ [b]))) user u w = bs"
proof -
  let ?row = "\<lambda>b. \<lparr>ob_observation = b, ob_workspace = w, ob_invalidated = None\<rparr>"
  let ?mark = "\<lambda>r. if ro_id (ob_observation r) = ro_id b then r\<lparr>ob_invalidated := Some now\<rparr> else r"
  have same: "map ?mark (map ?row bs) = map ?row bs" using assms(3) by (auto simp: image_iff)
  have "map ?mark (map ?row (bs @ [b])) = map ?row bs @ [(?row b)\<lparr>ob_invalidated := Some now\<rparr>]"
    unfolding map_append same by simp
  moreover have "filter (valid_row user u w) (map ?row bs) = map ?row bs"
    using assms(2) by (auto simp: valid_row_def list_all_iff filter_id_conv)
  ultimately have "map ob_observation (filter (valid_row user u w) (map ?mark (map ?row (bs @ [b])))) = bs"
    by (simp only: filter_append map_append) (simp add: valid_row_def comp_def)
  moreover have "sort_key review_order bs = bs" using assms(1) by (rule sort_key_id_if_sorted)
  ultimately show ?thesis by (simp add: list_valid_observations_def review_order_def [abs_def])
qed

lemma recompute_elim:
  assumes "recompute_after_invalidation env m rp ob c i user u w desired st = Inr (st', s)"
  obtains old st1 r reasons where "rp_latest rp st user u w = Some old" and "rp_invalidate rp st i (ca_now c) = Some st1"
    and "replay_observations env m w desired None [] 1 (rp_list_valid rp st1 user u w) = Inr (Some r, reasons)"
    and "s = snd (rp_save rp st1 (r\<lparr>sd_version := sd_version old + 1\<rparr>) w)"
    and "put_on_outbox ob c (recomputed_task s reasons) (fst (rp_save rp st1 (r\<lparr>sd_version := sd_version old + 1\<rparr>) w)) = Inr st'"
proof -
  obtain old where old: "rp_latest rp st user u w = Some old"
    using assms by (cases "rp_latest rp st user u w") (auto simp: recompute_after_invalidation_def)
  obtain st1 where st1: "rp_invalidate rp st i (ca_now c) = Some st1"
    using assms old by (cases "rp_invalidate rp st i (ca_now c)") (auto simp: recompute_after_invalidation_def)
  let ?replay = "replay_observations env m w desired None [] 1 (rp_list_valid rp st1 user u w)"
  have ne: "rp_list_valid rp st1 user u w \<noteq> []"
    using assms by (auto simp: recompute_after_invalidation_def old st1 Let_def)
  obtain r reasons where r: "?replay = Inr (Some r, reasons)"
  proof (cases ?replay)
    case (Inl e)
    with assms ne show ?thesis by (simp add: recompute_after_invalidation_def old st1 Let_def)
  next
    case (Inr p)
    obtain o' reasons where p: "p = (o', reasons)" by fastforce
    show ?thesis
    proof (cases o')
      case None
      with assms ne Inr p show ?thesis by (simp add: recompute_after_invalidation_def old st1 Let_def)
    qed (use Inr p that in simp)
  qed
  have "bind_res (put_on_outbox ob c (recomputed_task (snd (rp_save rp st1 (r\<lparr>sd_version := sd_version old + 1\<rparr>) w)) reasons)
        (fst (rp_save rp st1 (r\<lparr>sd_version := sd_version old + 1\<rparr>) w)))
      (\<lambda>st3. Inr (st3, snd (rp_save rp st1 (r\<lparr>sd_version := sd_version old + 1\<rparr>) w))) = Inr (st', s)"
    using assms by (simp only: recompute_after_invalidation_def Let_def case_prod_unfold old st1 option.case ne if_False r
        sum.case prod.sel)
  then show ?thesis by (intro that [OF old st1 r]) (auto simp: bind_res_Inr_iff)
qed

lemma latest_schedule_member:
  assumes "latest_schedule rows user u w = Some s"
  shows "\<exists>r \<in> set rows. sr_schedule r = s \<and> schedule_of user u w r"
proof -
  obtain r where r: "latest_by (sd_version \<circ> sr_schedule) (filter (schedule_of user u w) rows) = Some r" "sr_schedule r = s"
    using assms by (auto simp: latest_schedule_def)
  with latest_by_Some [OF r(1)] show ?thesis by auto
qed

text \<open>C33: invalidating an observation undoes it, provided everything came in order. From an empty
  table of observations and no schedule of the unit, after the observations of a unit have been applied in the order of their reviews and with the
  default parameters, applying one more, reviewed at whatever time, and invalidating it leads back to the schedule
  there was before, under a new version. After a delivery out of order it does not: the recomputation replays in the
  order of the reviews.\<close>

theorem invalidation_undoes_observation:
  assumes ok: "review_ok env db" and n: "plain_names user u w"
    and fresh: "db_observations db = []" "latest_schedule (db_schedules db) user u w = None"
    and bs: "list_all (\<lambda>(c, b). ro_user b = user \<and> ro_unit b = u) bs" "ro_user b = user" "ro_unit b = u"
    and d: "distinct (map (ro_id \<circ> snd) bs)" "ro_id b \<notin> set (map (ro_id \<circ> snd) bs)"
    and order: "sorted (map (review_order \<circ> snd) bs)"
    and a: "apply_all env m review_tables outbox_table w desired bs db = Inr db1"
    and b: "apply_review_observation env m review_tables outbox_table c b w desired None correlation db1 = Inr (db2, s2)"
    and r: "recompute_after_invalidation env m review_tables outbox_table c3 (ro_id b) user u w desired db2 = Inr (db3, s3)"
  shows "\<exists>s1. latest_schedule (db_schedules db1) user u w = Some s1 \<and> s3 = s1\<lparr>sd_version := sd_version s1 + 2\<rparr> \<and>
    latest_schedule (db_schedules db3) user u w = Some s3"
proof -
  have nh: "list_all (\<lambda>(c, b). \<not> has_observation (db_observations db) (ro_id b)) bs"
    by (auto simp: fresh has_observation_def list_all_iff)
  have bs': "list_all (\<lambda>(c, b). ro_user b = user \<and> ro_unit b = u \<and> \<not> rp_has review_tables db (ro_id b)) bs"
    using bs(1) nh by (auto simp: list_all_iff)
  have ok1: "review_ok env db1"
    using tables.apply_all_is_replay [OF ok n bs' d(1) a] by blast
  obtain reasons1 where replay1: "replay_observations env m w desired None [] 1 (map snd bs)
      = Inr (latest_schedule (db_schedules db1) user u w, reasons1)"
    using tables.apply_all_is_replay [OF ok n bs' d(1) a, of "[]"] fresh(2) by (auto simp: version_following_def)
  have obs1: "db_observations db1 = map (\<lambda>b. \<lparr>ob_observation = b, ob_workspace = w, ob_invalidated = None\<rparr>) (map snd bs)"
    using apply_all_observations [OF a nh d(1)] by (simp add: fresh comp_def case_prod_unfold)
  have nb: "\<not> has_observation (db_observations db1) (ro_id b)"
    using d(2) by (force simp: obs1 has_observation_def list_ex_iff)
  obtain k where k: "update_review env m b (latest_schedule (db_schedules db1) user u w)
        (version_following (latest_schedule (db_schedules db1) user u w)) w desired None = Inr k"
    and s2: "s2 = sk_schedule k" "latest_schedule (db_schedules db2) user u w = Some s2" and ok2: "review_ok env db2"
    using ok1 _ _ b by (rule tables.apply_fresh) (use n bs(2,3) nb in \<open>auto intro: that\<close>)
  have v2: "sd_version s2 = version_following (latest_schedule (db_schedules db1) user u w)"
    using k by (rule update_elim) (simp add: s2(1))
  have obs2: "db_observations db2 = map (\<lambda>b. \<lparr>ob_observation = b, ob_workspace = w, ob_invalidated = None\<rparr>) (map snd bs @ [b])"
    using apply_observations [OF b] nb by (simp add: save_observation_def obs1)
  obtain old st1 r0 reasons where old: "rp_latest review_tables db2 user u w = Some old"
    and st1: "rp_invalidate review_tables db2 (ro_id b) (ca_now c3) = Some st1"
    and r0: "replay_observations env m w desired None [] 1 (rp_list_valid review_tables st1 user u w) = Inr (Some r0, reasons)"
    and s3: "s3 = snd (rp_save review_tables st1 (r0\<lparr>sd_version := sd_version old + 1\<rparr>) w)"
    and out: "put_on_outbox outbox_table c3 (recomputed_task s3 reasons)
        (fst (rp_save review_tables st1 (r0\<lparr>sd_version := sd_version old + 1\<rparr>) w)) = Inr db3"
    using r by (rule recompute_elim) (rule that)
  have o2: "old = s2" using old s2(2) by simp
  have st1': "st1 = db2\<lparr>db_observations := map (\<lambda>r. if ro_id (ob_observation r) = ro_id b
      then r\<lparr>ob_invalidated := Some (ca_now c3)\<rparr> else r) (db_observations db2)\<rparr>"
    using st1 by (auto simp: invalidate_observation_def split: if_splits)
  have o1: "db_observations st1 = map (\<lambda>r. if ro_id (ob_observation r) = ro_id b
      then r\<lparr>ob_invalidated := Some (ca_now c3)\<rparr> else r) (db_observations db2)" by (simp add: st1')
  have "list_valid_observations (db_observations st1) user u w = map snd bs"
    unfolding o1 obs2
    by (rule valid_after_undo) (use order bs(1) d(2) in \<open>auto simp: list_all_iff comp_def\<close>)
  then have s1: "latest_schedule (db_schedules db1) user u w = Some r0" using r0 replay1 by simp
  let ?x = "r0\<lparr>sd_version := sd_version s2 + 1\<rparr>"
  obtain row where row: "row \<in> set (db_schedules db1)" "sr_schedule row = r0" "schedule_of user u w row"
    using latest_schedule_member [OF s1] by blast
  with ok1 have "schedule_row_ok env row" by (simp add: review_ok_def list_all_iff)
  with row have id: "sd_user r0 = user" "sd_unit r0 = u" "sd_id r0 = schedule_identity env w user u"
    by (auto simp: schedule_row_ok_def schedule_of_def)
  have saved: "snd (save_schedule (db_schedules st1) ?x w) = ?x \<and>
      latest_schedule (fst (save_schedule (db_schedules st1) ?x w)) user u w = Some ?x"
    using save_schedule_next [of env "db_schedules st1" ?x w] ok2 n s2(2) id
    by (simp add: review_ok_def st1' version_following_def)
  have "s3 = ?x" using s3 saved by (simp add: o2)
  moreover have "sd_version s2 = sd_version r0 + 1" using v2 s1 by (simp add: version_following_def)
  moreover obtain t where "outbox_table (fst (rp_save review_tables st1 (r0\<lparr>sd_version := sd_version old + 1\<rparr>) w)) (ca_task c3)
      (ca_now c3) (recomputed_task s3 reasons) = Inr (db3, t)"
    using out by (auto simp: put_on_outbox_def split: sum.splits prod.splits)
  then have "db_schedules db3 = fst (save_schedule (db_schedules st1) ?x w)"
    using outbox_table_frame by (fastforce simp: o2)
  ultimately show ?thesis using saved s1 by auto
qed

section \<open>A schedule that leaves the calendar\<close>

lemma replay_append:
  "replay_observations env m w desired prior reasons i (xs @ ys) =
    bind_res (replay_observations env m w desired prior reasons i xs)
      (\<lambda>(p, rs). replay_observations env m w desired p rs (i + int (length xs)) ys)"
  by (induction xs arbitrary: prior reasons i) (auto split: sum.splits simp: algebra_simps)

lemma replay_overflows:
  assumes "sound_libm m" and "list_all (\<lambda>b. valid_observation b \<and> unaided_success b \<and> 0 \<le> ro_observed_at b) bs" and "1 \<le> i"
    and "64 \<le> c" and "c < 536870912" and "536870912 \<le> (grow_64 ^^ length bs) c"
    and "of_int c / 64 \<le> prior_or (Option.bind prior sd_stability) 1"
  shows "replay_observations env m w desired prior reasons i bs = Inl DATE_OVERFLOW"
  using assms
proof (induction bs arbitrary: prior reasons i c)
  case (Cons b bs)
  have b: "valid_observation b" "unaided_success b" "0 \<le> ro_observed_at b" using Cons.prems(2) by auto
  have g: "64 \<le> grow_64 c" "grow_64 c \<le> 2 ^ 53" using Cons.prems(4,5) by (auto simp: grow_64_def)
  have c0: "0 \<le> c" using Cons.prems(4) by simp
  show ?case
  proof (cases "536870912 \<le> grow_64 c")
    case True
    from update_overflows [OF Cons.prems(1) b(1) Cons.prems(3) b(3,2) Cons.prems(7) c0 True g(2)] show ?thesis by simp
  next
    case False
    show ?thesis
    proof (cases "update_review env m b prior i w desired None")
      case (Inl e)
      with update_Inl [OF Cons.prems(1) b(1) Cons.prems(3)] show ?thesis by simp
    next
      case (Inr k)
      have "0 < grow_64 c" using g(1) by simp
      from update_grows [OF Inr b(1,2) Cons.prems(7) this c0 g(2)]
      have "of_int (grow_64 c) / 64 \<le> prior_or (Option.bind (Some (sk_schedule k)) sd_stability) 1" by simp
      moreover have "536870912 \<le> (grow_64 ^^ length bs) (grow_64 c)" using Cons.prems(6) by (simp add: funpow_swap1)
      ultimately show ?thesis
        using Cons.IH [OF Cons.prems(1) _ _ g(1), of "i + 1" "Some (sk_schedule k)" "sk_reasons k"] Cons.prems(2,3) False Inr
        by simp
    qed
  qed
qed simp

lemma thirty_growths: "536870912 \<le> (grow_64 ^^ 30) 64"
  by code_simp

text \<open>Nothing bounds the stability from above. Thirty unaided successes in a row on
  one unit, however close together, make the due time leave the calendar: the update raises
  OverflowError, and so does every replay of that history, so that no schedule of it can be
  computed any more.\<close>

theorem thirty_successes_overflow:
  assumes "sound_libm m" and "30 \<le> length bs"
    and "list_all (\<lambda>b. valid_observation b \<and> unaided_success b \<and> 0 \<le> ro_observed_at b) bs"
  shows "replay_observations env m w desired None reasons 1 bs = Inl DATE_OVERFLOW"
proof -
  have bs: "bs = take 30 bs @ drop 30 bs" by simp
  have "list_all (\<lambda>b. valid_observation b \<and> unaided_success b \<and> 0 \<le> ro_observed_at b) (take 30 bs)"
    using assms(3) by (auto simp: list_all_iff dest: in_set_takeD)
  then have "replay_observations env m w desired None reasons 1 (take 30 bs) = Inl DATE_OVERFLOW"
    using thirty_growths assms(1,2) by (intro replay_overflows [where c = 64]) (auto simp: prior_or_def min_absorb2)
  then show ?thesis by (subst bs) (simp only: replay_append bind_res.simps)
qed

section \<open>Two failed reviews, followed through\<close>

lemma enqueue_fresh:
  assumes "fresh \<notin> ot_id ` set tab" and "tq_next q = map_option Aware due"
  shows "\<exists>tab' t. enqueue tab tab fresh clock q = Inr (tab', t) \<and> ot_id ` set tab' \<subseteq> insert fresh (ot_id ` set tab)"
proof (cases "task_by_key tab (tq_key q)")
  case (Some t)
  then show ?thesis by (auto simp: enqueue_def)
next
  case None
  then have "\<not> list_ex (\<lambda>r. ot_id r = fresh \<or> ot_key r = tq_key q) tab"
    using assms(1) by (auto simp: task_by_key_def find_None_iff list_ex_iff)
  then show ?thesis using None assms(2)
    by (cases due) (auto simp: enqueue_def insert_row_def new_row_def)
qed

lemma outbox_fresh:
  assumes "ca_task c \<notin> ot_id ` set (db_outbox db)" and "tq_next q = map_option Aware due"
  obtains db' where "put_on_outbox outbox_table c q db = Inr db'"
    and "ot_id ` set (db_outbox db') \<subseteq> insert (ca_task c) (ot_id ` set (db_outbox db))"
proof -
  obtain tab' t where e: "enqueue (db_outbox db) (db_outbox db) (ca_task c) (ca_now c) q = Inr (tab', t)"
    and i: "ot_id ` set tab' \<subseteq> insert (ca_task c) (ot_id ` set (db_outbox db))"
    using enqueue_fresh [OF assms] by blast
  from e have "put_on_outbox outbox_table c q db = Inr (db\<lparr>db_outbox := tab'\<rparr>)"
    by (simp add: put_on_outbox_def outbox_table_def)
  then show ?thesis by (rule that) (simp add: i)
qed

lemma failing_apply:
  assumes b: "ro_outcome b = FAILURE" "valid_observation b" "ro_observed_at b = 0"
    and h: "\<not> has_observation (db_observations db) (ro_id b)" and c: "ca_task c \<notin> ot_id ` set (db_outbox db)"
    and p: "prior_or (Option.bind (latest_schedule (db_schedules db) (ro_user b) (ro_unit b) w) sd_stability) 1 \<le> 1"
      "1 \<le> version_following (latest_schedule (db_schedules db) (ro_user b) (ro_unit b) w)"
    and ok: "review_ok plain_env db" "plain_names (ro_user b) (ro_unit b) w"
  obtains db' s s' where "apply_review_observation plain_env demo_libm review_tables outbox_table c b w (9 / 10) None [] db = Inr (db', s)"
    and "latest_schedule (db_schedules db') (ro_user b) (ro_unit b) w = Some s"
    and "sd_stability s = Some s'" and "1 / 4 \<le> s'" and "s' \<le> 1" and "review_ok plain_env db'"
    and "sd_version s = version_following (latest_schedule (db_schedules db) (ro_user b) (ro_unit b) w)"
    and "ot_id ` set (db_outbox db') \<subseteq> insert (ca_task c) (ot_id ` set (db_outbox db))"
proof -
  let ?prior = "latest_schedule (db_schedules db) (ro_user b) (ro_unit b) w"
  obtain k s' where k: "update_review plain_env demo_libm b ?prior (version_following ?prior) w (9 / 10) None = Inr k"
    and s': "sd_stability (sk_schedule k) = Some s'" "1 / 4 \<le> s'" "s' \<le> 1"
    using b p(2) refl p(1) by (rule failing_update) (rule that)
  let ?st2 = "db\<lparr>db_observations := save_observation (db_observations db) b w,
      db_schedules := fst (save_schedule (db_schedules db) (sk_schedule k) w)\<rparr>"
  let ?q = "applied_task (snd (save_schedule (db_schedules db) (sk_schedule k) w)) (sk_reasons k) b []"
  have "ca_task c \<notin> ot_id ` set (db_outbox ?st2)" using c by simp
  moreover have "tq_next ?q = map_option Aware (sd_next_due (snd (save_schedule (db_schedules db) (sk_schedule k) w)))"
    by (simp add: applied_task_def due_task_def)
  ultimately obtain db' where db': "put_on_outbox outbox_table c ?q ?st2 = Inr db'"
    and i: "ot_id ` set (db_outbox db') \<subseteq> insert (ca_task c) (ot_id ` set (db_outbox ?st2))"
    by (rule outbox_fresh) (rule that)
  have a: "apply_review_observation plain_env demo_libm review_tables outbox_table c b w (9 / 10) None [] db
      = Inr (db', snd (save_schedule (db_schedules db) (sk_schedule k) w))"
    using db' by (simp add: apply_review_observation_def h k)
  obtain k' where k': "update_review plain_env demo_libm b ?prior (version_following ?prior) w (9 / 10) None = Inr k'"
    "snd (save_schedule (db_schedules db) (sk_schedule k) w) = sk_schedule k'"
    "latest_schedule (db_schedules db') (ro_user b) (ro_unit b) w = Some (sk_schedule k')" "review_ok plain_env db'"
    using ok _ a by (rule tables.apply_fresh) (use h in \<open>auto intro: that\<close>)
  with k have e: "k' = k" by simp
  have "sd_version (sk_schedule k) = version_following ?prior" using k by (rule update_elim) simp
  with k' e a s' i show ?thesis by (intro that [of db' "sk_schedule k" s']) simp_all
qed

definition demo_call :: "uuid \<Rightarrow> call" where
  "demo_call i = \<lparr>ca_now = 0, ca_task = i\<rparr>"

definition empty_db :: planning_db where
  "empty_db = \<lparr>db_observations = [], db_schedules = [],
     db_plans = \<lparr>tp_plans = [], tp_activities = [], tp_states = []\<rparr>, db_outbox = []\<rparr>"

definition second_failure :: review_observation where
  "second_failure = demo_failure\<lparr>ro_id := ''o2'', ro_reviewed_at := 1\<rparr>"

lemma demo_facts:
  "ro_outcome demo_failure = FAILURE" "ro_observed_at demo_failure = 0" "ro_user demo_failure = ''u1''"
  "ro_unit demo_failure = ''k1''" "ro_id demo_failure = ''o1''" "ro_outcome second_failure = FAILURE"
  "ro_observed_at second_failure = 0" "ro_user second_failure = ''u1''" "ro_unit second_failure = ''k1''"
  "ro_id second_failure = ''o2''" "valid_observation second_failure"
  using demo_failure_valid by (simp_all add: demo_failure_def demo_recall_def second_failure_def valid_observation_def)

lemma demo_names: "plain_names ''u1'' ''k1'' ''w''"
  by (simp add: no_colon_def)

lemma empty_ok: "review_ok plain_env empty_db"
  by (simp add: review_ok_def plain_env_def empty_db_def inj_def)

lemma empty_latest: "latest_schedule (db_schedules empty_db) user u w = None"
  by (simp add: empty_db_def latest_schedule_def)

lemma demo_first:
  obtains db1 s1 v1 where "apply_review_observation plain_env demo_libm review_tables outbox_table (demo_call ''t1'') demo_failure ''w'' (9 / 10) None [] empty_db = Inr (db1, s1)"
    and "latest_schedule (db_schedules db1) ''u1'' ''k1'' ''w'' = Some s1" and "sd_stability s1 = Some v1" and "1 / 4 \<le> v1"
    and "v1 \<le> 1" and "review_ok plain_env db1" and "sd_version s1 = 1" and "ot_id ` set (db_outbox db1) \<subseteq> {''t1''}"
proof -
  note f = failing_apply [of demo_failure empty_db "demo_call ''t1''" "''w''"]
  show ?thesis
    by (rule f) (simp_all add: demo_facts demo_failure_valid empty_latest demo_names empty_ok version_following_def prior_or_def,
        simp_all add: empty_db_def has_observation_def demo_call_def that)
qed

theorem observation_applied_once_witness:
  "\<exists>db' s. apply_review_observation plain_env demo_libm review_tables outbox_table (demo_call ''t1'') demo_failure ''w'' (9 / 10) None [] empty_db
      = Inr (db', s) \<and>
    apply_review_observation plain_env demo_libm review_tables outbox_table (demo_call ''t9'') demo_failure ''w'' (1 / 2) (Some []) [] db'
      = Inr (db', s)"
proof -
  obtain db1 s1 where a: "apply_review_observation plain_env demo_libm review_tables outbox_table (demo_call ''t1'') demo_failure ''w'' (9 / 10) None [] empty_db
      = Inr (db1, s1)" by (rule demo_first)
  have "plain_names (ro_user demo_failure) (ro_unit demo_failure) ''w''" using demo_names by (simp add: demo_facts)
  from a observation_applied_once [OF empty_ok this a] show ?thesis by blast
qed

lemma demo_all:
  assumes "apply_review_observation plain_env demo_libm review_tables outbox_table (demo_call ''t1'') demo_failure ''w'' (9 / 10) None [] empty_db
      = Inr (db1, s1)"
  shows "apply_all plain_env demo_libm review_tables outbox_table ''w'' (9 / 10) [(demo_call ''t1'', demo_failure)] empty_db = Inr db1"
  using assms by simp

lemma demo_list: "list_all (\<lambda>(c, b). ro_user b = ''u1'' \<and> ro_unit b = ''k1'' \<and> \<not> has_observation (db_observations empty_db) (ro_id b))
    [(demo_call ''t1'', demo_failure)]"
  by (simp add: demo_facts empty_db_def has_observation_def)

theorem schedule_is_replay_witness:
  "\<exists>(db1 :: planning_db) s1 reasons. latest_schedule (db_schedules db1) ''u1'' ''k1'' ''w'' = Some s1 \<and>
    replay_observations plain_env demo_libm ''w'' (9 / 10) None [] 1 [demo_failure] = Inr (Some s1, reasons)"
proof -
  obtain db1 s1 where a: "apply_review_observation plain_env demo_libm review_tables outbox_table (demo_call ''t1'') demo_failure ''w'' (9 / 10) None [] empty_db
      = Inr (db1, s1)" and l: "latest_schedule (db_schedules db1) ''u1'' ''k1'' ''w'' = Some s1" by (rule demo_first)
  have "distinct (map (ro_id \<circ> snd) [(demo_call ''t1'', demo_failure)])" by simp
  from schedule_is_replay [OF empty_ok demo_names empty_latest demo_list this demo_all [OF a]] l
  obtain reasons where "replay_observations plain_env demo_libm ''w'' (9 / 10) None [] 1 [demo_failure] = Inr (Some s1, reasons)"
    by (auto simp del: replay_observations.simps)
  with l show ?thesis by (intro exI conjI)
qed

theorem thirty_successes_overflow_witness:
  "replay_observations plain_env demo_libm ''w'' (9 / 10) None [] 1 (replicate 30 demo_recall) = Inl DATE_OVERFLOW"
proof (rule thirty_successes_overflow [OF demo_libm_sound])
  have "ro_outcome demo_recall = SUCCESS" "ro_observed_at demo_recall = 0" by (simp_all add: demo_recall_def)
  then show "list_all (\<lambda>b. valid_observation b \<and> unaided_success b \<and> 0 \<le> ro_observed_at b) (replicate 30 demo_recall)"
    using demo_recall_valid demo_recall_independent by (simp add: list_all_iff unaided_success_def)
qed simp

lemma recompute_runs:
  assumes "rp_latest rp st user u w = Some old" and "rp_invalidate rp st i (ca_now c) = Some st1" and "rp_list_valid rp st1 user u w = b # bs"
    and "replay_observations env m w desired None [] 1 (b # bs) = Inr (Some r, reasons)"
    and "put_on_outbox ob c (recomputed_task (snd (rp_save rp st1 (r\<lparr>sd_version := sd_version old + 1\<rparr>) w)) reasons)
      (fst (rp_save rp st1 (r\<lparr>sd_version := sd_version old + 1\<rparr>) w)) = Inr st2"
  shows "recompute_after_invalidation env m rp ob c i user u w desired st
    = Inr (st2, snd (rp_save rp st1 (r\<lparr>sd_version := sd_version old + 1\<rparr>) w))"
  using assms(5) by (simp only: recompute_after_invalidation_def Let_def case_prod_unfold assms(1-4) option.case list.simps if_False
      sum.case prod.sel bind_res.simps)

theorem invalidation_undoes_observation_witness:
  "\<exists>db1 db2 db3 s1 s2 s3.
    apply_review_observation plain_env demo_libm review_tables outbox_table (demo_call ''t2'') second_failure ''w'' (9 / 10) None [] db1 = Inr (db2, s2) \<and>
    recompute_after_invalidation plain_env demo_libm review_tables outbox_table (demo_call ''t3'') ''o2'' ''u1'' ''k1'' ''w'' (9 / 10) db2 = Inr (db3, s3) \<and>
    latest_schedule (db_schedules db1) ''u1'' ''k1'' ''w'' = Some s1 \<and> s3 = s1\<lparr>sd_version := sd_version s1 + 2\<rparr>"
proof -
  let ?bs = "[(demo_call ''t1'', demo_failure)]"
  obtain db1 s1 v1 where a: "apply_review_observation plain_env demo_libm review_tables outbox_table (demo_call ''t1'') demo_failure ''w'' (9 / 10) None [] empty_db
      = Inr (db1, s1)" and l1: "latest_schedule (db_schedules db1) ''u1'' ''k1'' ''w'' = Some s1" and v1: "sd_stability s1 = Some v1" "1 / 4 \<le> v1" "v1 \<le> 1"
    and ok1: "review_ok plain_env db1" and n1: "sd_version s1 = 1" and o1: "ot_id ` set (db_outbox db1) \<subseteq> {''t1''}" by (rule demo_first)
  note all1 = demo_all [OF a]
  have nh: "list_all (\<lambda>(c, b). \<not> has_observation (db_observations empty_db) (ro_id b)) ?bs"
    by (simp add: empty_db_def has_observation_def)
  have obs1: "db_observations db1 = [\<lparr>ob_observation = demo_failure, ob_workspace = ''w'', ob_invalidated = None\<rparr>]"
    using apply_all_observations [OF all1 nh] by (simp add: empty_db_def)
  have p2: "\<not> has_observation (db_observations db1) (ro_id second_failure)"
    "ca_task (demo_call ''t2'') \<notin> ot_id ` set (db_outbox db1)"
    "prior_or (Option.bind (latest_schedule (db_schedules db1) (ro_user second_failure) (ro_unit second_failure) ''w'') sd_stability) 1 \<le> 1"
    "1 \<le> version_following (latest_schedule (db_schedules db1) (ro_user second_failure) (ro_unit second_failure) ''w'')"
    "plain_names (ro_user second_failure) (ro_unit second_failure) ''w''"
    using o1 v1 demo_names by (auto simp: obs1 has_observation_def demo_facts demo_call_def l1 prior_or_def version_following_def n1)
  obtain db2 s2 where b: "apply_review_observation plain_env demo_libm review_tables outbox_table (demo_call ''t2'') second_failure ''w'' (9 / 10) None [] db1 = Inr (db2, s2)"
    and l2': "latest_schedule (db_schedules db2) (ro_user second_failure) (ro_unit second_failure) ''w'' = Some s2"
    and o2': "ot_id ` set (db_outbox db2) \<subseteq> insert (ca_task (demo_call ''t2'')) (ot_id ` set (db_outbox db1))"
    using demo_facts(6,11,7) p2(1-4) ok1 p2(5) by (rule failing_apply) (rule that)
  have l2: "latest_schedule (db_schedules db2) ''u1'' ''k1'' ''w'' = Some s2" using l2' by (simp add: demo_facts)
  have o2: "ot_id ` set (db_outbox db2) \<subseteq> {''t1'', ''t2''}" 
    by (rule subset_trans [OF o2']) (use o1 in \<open>auto simp: demo_call_def\<close>)
  have obs2: "db_observations db2 = map (\<lambda>b. \<lparr>ob_observation = b, ob_workspace = ''w'', ob_invalidated = None\<rparr>) ([demo_failure] @ [second_failure])"
    using apply_observations [OF b] by (simp add: save_observation_def obs1 has_observation_def demo_facts)
  let ?st1 = "db2\<lparr>db_observations := map (\<lambda>r. if ro_id (ob_observation r) = ro_id second_failure
      then r\<lparr>ob_invalidated := Some 0\<rparr> else r) (db_observations db2)\<rparr>"
  have valid: "list_valid_observations (db_observations ?st1) ''u1'' ''k1'' ''w'' = [demo_failure]"
    using valid_after_undo [of "[demo_failure]" "''u1''" "''k1''" second_failure 0 "''w''"] by (simp add: demo_facts obs2)
  obtain reasons where rep: "replay_observations plain_env demo_libm ''w'' (9 / 10) None [] 1 [demo_failure] = Inr (Some s1, reasons)"
    using schedule_replay_raw [OF empty_ok demo_names empty_latest demo_list _ all1] l1 by auto
  let ?x = "s1\<lparr>sd_version := sd_version s2 + 1\<rparr>"
  let ?st2 = "fst (rp_save review_tables ?st1 ?x ''w'')"
  have "ca_task (demo_call ''t3'') \<notin> ot_id ` set (db_outbox ?st2)" using o2 by (auto simp: demo_call_def)
  moreover have "tq_next (recomputed_task (snd (rp_save review_tables ?st1 ?x ''w'')) reasons)
      = map_option Aware (sd_next_due (snd (rp_save review_tables ?st1 ?x ''w'')))"
    by (simp add: recomputed_task_def due_task_def)
  ultimately obtain db3 where out: "put_on_outbox outbox_table (demo_call ''t3'') (recomputed_task (snd (rp_save review_tables ?st1 ?x ''w'')) reasons) ?st2 = Inr db3"
    by (rule outbox_fresh) (rule that)
  have lat: "rp_latest review_tables db2 ''u1'' ''k1'' ''w'' = Some s2" using l2 by simp
  have "has_observation (db_observations db2) (ro_id second_failure)" by (simp add: obs2 has_observation_def)
  then have inv: "rp_invalidate review_tables db2 ''o2'' (ca_now (demo_call ''t3'')) = Some ?st1"
    by (simp add: invalidate_observation_def demo_facts(10) demo_call_def)
  have valid': "rp_list_valid review_tables ?st1 ''u1'' ''k1'' ''w'' = [demo_failure]"
    using valid by (simp only: review_tables_simps)
  have r: "recompute_after_invalidation plain_env demo_libm review_tables outbox_table (demo_call ''t3'') ''o2'' ''u1'' ''k1'' ''w'' (9 / 10) db2
      = Inr (db3, snd (rp_save review_tables ?st1 ?x ''w''))"
    by (rule recompute_runs [OF lat inv valid' rep out])
  have p: "db_observations empty_db = []" "list_all (\<lambda>(c, b). ro_user b = ''u1'' \<and> ro_unit b = ''k1'') ?bs"
    "distinct (map (ro_id \<circ> snd) ?bs)" "ro_id second_failure \<notin> set (map (ro_id \<circ> snd) ?bs)" "sorted (map (review_order \<circ> snd) ?bs)"
    by (simp_all add: empty_db_def demo_facts)
  from invalidation_undoes_observation [OF empty_ok demo_names p(1) empty_latest p(2) demo_facts(8,9) p(3-5) all1 b r [folded demo_facts(10)]] b r
  show ?thesis by blast
qed

end
