(* ===== verification/LearnerRecords.thy ===== *)
theory LearnerRecords
  imports AdaptiveRecords ReviewFlow
begin

text \<open>
  The durable learner truth: the v1 assessment repository and \<open>LearnerModelRepository\<close> of
  \<open>app/infrastructure/learning_records.py\<close>, \<open>CanonicalLearnerProjectorService\<close>
  (\<open>app/services/kt/canonical_projector.py\<close>), which turns an assessment result into evidence and a new
  mastery version, and \<open>DiagnosticLearnerStateService\<close>
  (\<open>app/domains/learner_model/diagnostic_state.py\<close>), which keeps the aggregate learner state.

  Every row belongs to a workspace. A row's columns other than the workspace, the status and the
  timestamps are copies of fields of its payload. The calls of one learner are taken one after the
  other: each reads and writes the same database, and an error leaves it as it is (the caller's
  transaction is rolled back). The clock and the id of a new outbox row come with the call.
\<close>

section \<open>Rows\<close>

datatype evidence_body = EvidenceAccepted evidence_v1 | EvidenceRejected uuid

record evidence_row =
  vx_id :: uuid
  vx_result :: uuid
  vx_user :: uuid
  vx_workspace :: uuid
  vx_unit :: uuid
  vx_reasons :: "string list"
  vx_body :: evidence_body
  vx_invalidated :: "time option"
  vx_created :: time

record mastery_row =
  mx_workspace :: uuid
  mx_estimate :: mastery_estimate

record state_row =
  lx_id :: string
  lx_workspace :: uuid
  lx_state :: learner_state

record learner_db =
  ln_attempts :: "attempt_row list"
  ln_results :: "result_row list"
  ln_evidence :: "evidence_row list"
  ln_mastery :: "mastery_row list"
  ln_states :: "state_row list"
  ln_dialogs :: "(uuid \<times> float64) list"
  ln_outbox :: "outbox_task list"

datatype learner_error =
    RESULT_ID_REQUIRED | RESULT_ALREADY_REJECTED | EVIDENCE_NOT_FOUND | LEARNER_INTEGRITY
  | DIALOG_NOT_FOUND | PAYLOAD_OF_ANOTHER_SCHEMA | LEARNER_EXN exn | LEARNER_OUTBOX outbox_error

section \<open>\<open>AssessmentRecordRepository\<close>\<close>

definition save_attempt_v1 :: "learner_db \<Rightarrow> attempt_v1 \<Rightarrow> uuid \<Rightarrow> learner_error + learner_db \<times> attempt_v1" where
  "save_attempt_v1 db a w =
     (case find (\<lambda>r. ax_key r = t1_idempotency_key a \<and> ax_workspace r = Some w) (ln_attempts db) of
        Some r \<Rightarrow> (case ax_payload r of AttemptV1 x \<Rightarrow> Inr (db, x) | AttemptV3 _ \<Rightarrow> Inl PAYLOAD_OF_ANOTHER_SCHEMA)
      | None \<Rightarrow>
          if t1_id a \<in> ax_id ` set (ln_attempts db) then Inl LEARNER_INTEGRITY
          else Inr (db\<lparr>ln_attempts := ln_attempts db @
                 [\<lparr>ax_id = t1_id a, ax_key = t1_idempotency_key a, ax_user = t1_user a, ax_workspace = Some w,
                   ax_item = t1_item a, ax_item_version = t1_item_version a, ax_payload = AttemptV1 a\<rparr>]\<rparr>, a))"

definition save_result_v1 :: "learner_db \<Rightarrow> result_v1 \<Rightarrow> uuid \<Rightarrow> learner_error + learner_db \<times> result_v1" where
  "save_result_v1 db r w =
     (case by_id rx_id (ln_results db) (r1_id r) of
        Some x \<Rightarrow> (case rx_payload x of ResultV1 y \<Rightarrow> Inr (db, y) | ResultV3 _ \<Rightarrow> Inl PAYLOAD_OF_ANOTHER_SCHEMA)
      | None \<Rightarrow>
          if result_clash (ln_results db) (r1_id r) (r1_attempt r) (r1_version r) then Inl LEARNER_INTEGRITY
          else Inr (db\<lparr>ln_results := ln_results db @
                 [\<lparr>rx_id = r1_id r, rx_attempt = r1_attempt r, rx_workspace = Some w, rx_version = r1_version r,
                   rx_supersedes = r1_supersedes r, rx_payload = ResultV1 r\<rparr>]\<rparr>, r))"

section \<open>\<open>LearnerModelRepository\<close>\<close>

definition evidence_of_result :: "learner_db \<Rightarrow> uuid \<Rightarrow> uuid \<Rightarrow> evidence_row option" where
  "evidence_of_result db r w = find (\<lambda>x. vx_result x = r \<and> vx_workspace x = w) (ln_evidence db)"

definition insert_evidence :: "learner_db \<Rightarrow> evidence_row \<Rightarrow> learner_error + learner_db" where
  "insert_evidence db x =
     (if vx_id x \<in> vx_id ` set (ln_evidence db) then Inl LEARNER_INTEGRITY
      else Inr (db\<lparr>ln_evidence := ln_evidence db @ [x]\<rparr>))"

definition evidence_row_of :: "evidence_v1 \<Rightarrow> uuid \<Rightarrow> uuid \<Rightarrow> time \<Rightarrow> evidence_row" where
  "evidence_row_of e r w now =
    \<lparr>vx_id = e1_id e, vx_result = r, vx_user = e1_user e, vx_workspace = w, vx_unit = e1_unit e,
     vx_reasons = e1_reason_codes e, vx_body = EvidenceAccepted e, vx_invalidated = None, vx_created = now\<rparr>"

definition save_evidence :: "learner_db \<Rightarrow> evidence_v1 \<Rightarrow> uuid \<Rightarrow> time \<Rightarrow> learner_error + learner_db \<times> evidence_v1" where
  "save_evidence db e w now =
     (case e1_result e of
        None \<Rightarrow> Inl RESULT_ID_REQUIRED
      | Some r \<Rightarrow>
         (case evidence_of_result db r w of
            Some x \<Rightarrow> (case vx_body x of EvidenceAccepted y \<Rightarrow> Inr (db, y) | EvidenceRejected _ \<Rightarrow> Inl RESULT_ALREADY_REJECTED)
          | None \<Rightarrow> bind_res (insert_evidence db (evidence_row_of e r w now)) (\<lambda>db'. Inr (db', e))))"

definition rejection_row :: "pyenv \<Rightarrow> result_v1 \<Rightarrow> attempt_v1 \<Rightarrow> uuid \<Rightarrow> uuid \<Rightarrow> string list \<Rightarrow> time \<Rightarrow> evidence_row" where
  "rejection_row env r a u w reasons now =
    \<lparr>vx_id = uuid5 env (''askora:evidence-rejection:'' @ r1_id r), vx_result = r1_id r, vx_user = t1_user a,
     vx_workspace = w, vx_unit = u, vx_reasons = reasons, vx_body = EvidenceRejected (t1_id a),
     vx_invalidated = None, vx_created = now\<rparr>"

definition save_rejection :: "pyenv \<Rightarrow> learner_db \<Rightarrow> result_v1 \<Rightarrow> attempt_v1 \<Rightarrow> uuid \<Rightarrow> uuid \<Rightarrow> string list \<Rightarrow> time \<Rightarrow>
    learner_error + learner_db" where
  "save_rejection env db r a u w reasons now =
     (case evidence_of_result db (r1_id r) w of
        Some _ \<Rightarrow> Inr db
      | None \<Rightarrow> insert_evidence db (rejection_row env r a u w reasons now))"

fun accepted_body :: "evidence_body \<Rightarrow> evidence_v1 option" where
  "accepted_body (EvidenceAccepted e) = Some e"
| "accepted_body (EvidenceRejected _) = None"

definition counted_row :: "uuid \<Rightarrow> uuid \<Rightarrow> uuid \<Rightarrow> evidence_row \<Rightarrow> bool" where
  "counted_row user u w x \<longleftrightarrow> vx_user x = user \<and> vx_workspace x = w \<and> vx_unit x = u \<and>
     accepted_body (vx_body x) \<noteq> None \<and> vx_invalidated x = None"

definition list_evidence :: "learner_db \<Rightarrow> uuid \<Rightarrow> uuid \<Rightarrow> uuid \<Rightarrow> evidence_v1 list" where
  "list_evidence db user u w =
     List.map_filter (\<lambda>x. accepted_body (vx_body x))
       (sort_key (\<lambda>x. (vx_created x, vx_id x)) (filter (counted_row user u w) (ln_evidence db)))"

definition latest_evidence_across_units :: "learner_db \<Rightarrow> uuid \<Rightarrow> uuid list \<Rightarrow> uuid \<Rightarrow> evidence_v1 option" where
  "latest_evidence_across_units db user units w =
     (if units = [] then None
      else case rev (sort_key (\<lambda>x. (vx_created x, vx_id x))
             (filter (\<lambda>x. list_ex (\<lambda>u. counted_row user u w x) units) (ln_evidence db))) of
             [] \<Rightarrow> None
           | x # _ \<Rightarrow> accepted_body (vx_body x))"

definition invalidate_evidence :: "learner_db \<Rightarrow> uuid \<Rightarrow> uuid \<Rightarrow> time \<Rightarrow> learner_error + learner_db" where
  "invalidate_evidence db i w now =
     (if \<not> list_ex (\<lambda>x. vx_id x = i \<and> vx_workspace x = w) (ln_evidence db) then Inl EVIDENCE_NOT_FOUND
      else Inr (db\<lparr>ln_evidence := map (\<lambda>x. if vx_id x = i then x\<lparr>vx_invalidated := Some now\<rparr> else x) (ln_evidence db)\<rparr>))"

definition mastery_stream :: "learner_db \<Rightarrow> uuid \<Rightarrow> uuid \<Rightarrow> uuid \<Rightarrow> mastery_estimate list" where
  "mastery_stream db user u w =
     map mx_estimate (filter (\<lambda>x. mx_workspace x = w \<and> mm_user (mx_estimate x) = user \<and> mm_unit (mx_estimate x) = u) (ln_mastery db))"

definition next_version :: "learner_db \<Rightarrow> uuid \<Rightarrow> uuid \<Rightarrow> uuid \<Rightarrow> int" where
  "next_version db user u w = version_after mm_version (mastery_stream db user u w)"

text \<open>Primary key, and the unique version in a workspace, of \<open>canonical_mastery_estimate_versions\<close>.\<close>

definition save_mastery :: "learner_db \<Rightarrow> mastery_estimate \<Rightarrow> uuid \<Rightarrow> learner_error + learner_db \<times> mastery_estimate" where
  "save_mastery db m w =
     (case find (\<lambda>x. mm_id (mx_estimate x) = mm_id m) (ln_mastery db) of
        Some x \<Rightarrow> Inr (db, mx_estimate x)
      | None \<Rightarrow>
          if mm_version m \<in> mm_version ` set (mastery_stream db (mm_user m) (mm_unit m) w) then Inl LEARNER_INTEGRITY
          else Inr (db\<lparr>ln_mastery := ln_mastery db @ [\<lparr>mx_workspace = w, mx_estimate = m\<rparr>]\<rparr>, m))"

definition latest_mastery :: "learner_db \<Rightarrow> uuid \<Rightarrow> uuid \<Rightarrow> uuid \<Rightarrow> mastery_estimate option" where
  "latest_mastery db user u w = latest_by mm_version (mastery_stream db user u w)"

text \<open>\<open>ORDER BY unit, version DESC\<close> and \<open>setdefault\<close>: the first row of each unit is its latest.\<close>

fun setdefault_by :: "('a \<Rightarrow> uuid) \<Rightarrow> uuid list \<Rightarrow> 'a list \<Rightarrow> 'a list" where
  "setdefault_by key have_keys [] = []"
| "setdefault_by key have_keys (x # xs) =
     (if key x \<in> set have_keys then setdefault_by key have_keys xs
      else x # setdefault_by key (key x # have_keys) xs)"

definition latest_per_unit :: "mastery_estimate list \<Rightarrow> mastery_estimate list" where
  "latest_per_unit ms = setdefault_by mm_unit [] (sort_key (\<lambda>m. (mm_unit m, - mm_version m)) ms)"

definition workspace_mastery :: "learner_db \<Rightarrow> uuid \<Rightarrow> uuid \<Rightarrow> mastery_estimate list" where
  "workspace_mastery db user w =
     map mx_estimate (filter (\<lambda>x. mx_workspace x = w \<and> mm_user (mx_estimate x) = user) (ln_mastery db))"

definition list_latest_mastery :: "learner_db \<Rightarrow> uuid \<Rightarrow> uuid list \<Rightarrow> uuid \<Rightarrow> mastery_estimate list" where
  "list_latest_mastery db user units w =
     (if units = [] then [] else latest_per_unit (filter (\<lambda>m. mm_unit m \<in> set units) (workspace_mastery db user w)))"

definition list_all_latest_mastery :: "learner_db \<Rightarrow> uuid \<Rightarrow> uuid \<Rightarrow> mastery_estimate list" where
  "list_all_latest_mastery db user w = latest_per_unit (workspace_mastery db user w)"

definition mastery_for_source_result :: "learner_db \<Rightarrow> uuid \<Rightarrow> uuid \<Rightarrow> uuid \<Rightarrow> uuid \<Rightarrow> mastery_estimate option" where
  "mastery_for_source_result db r user u w =
     (case find (\<lambda>x. vx_result x = r \<and> vx_user x = user \<and> vx_workspace x = w \<and> vx_unit x = u \<and>
                     accepted_body (vx_body x) \<noteq> None) (ln_evidence db) of
        None \<Rightarrow> None
      | Some x \<Rightarrow>
         (case latest_mastery db user u w of
            None \<Rightarrow> None
          | Some m \<Rightarrow> if vx_id x \<in> set (mm_sources m) then Some m else None))"

definition state_stream :: "learner_db \<Rightarrow> uuid \<Rightarrow> uuid \<Rightarrow> learner_state list" where
  "state_stream db user w = map lx_state (filter (\<lambda>x. lx_workspace x = w \<and> ls_user (lx_state x) = user) (ln_states db))"

definition next_learner_state_version :: "learner_db \<Rightarrow> uuid \<Rightarrow> uuid \<Rightarrow> int" where
  "next_learner_state_version db user w = version_after ls_version (state_stream db user w)"

definition state_key :: "learner_state \<Rightarrow> string" where
  "state_key s = ls_id s @ '':'' @ int_str (ls_version s)"

definition save_learner_state :: "learner_db \<Rightarrow> learner_state \<Rightarrow> uuid \<Rightarrow> learner_error + learner_db \<times> learner_state" where
  "save_learner_state db s w =
     (case find (\<lambda>x. lx_id x = state_key s) (ln_states db) of
        Some x \<Rightarrow> Inr (db, lx_state x)
      | None \<Rightarrow>
          if (ls_id s, ls_version s) \<in> (\<lambda>x. (ls_id (lx_state x), ls_version (lx_state x))) ` set (ln_states db)
          then Inl LEARNER_INTEGRITY
          else Inr (db\<lparr>ln_states := ln_states db @ [\<lparr>lx_id = state_key s, lx_workspace = w, lx_state = s\<rparr>]\<rparr>, s))"

definition latest_learner_state :: "learner_db \<Rightarrow> uuid \<Rightarrow> uuid \<Rightarrow> learner_state option" where
  "latest_learner_state db user w = latest_by ls_version (state_stream db user w)"

definition get_learner_state :: "learner_db \<Rightarrow> uuid \<Rightarrow> int \<Rightarrow> uuid \<Rightarrow> uuid \<Rightarrow> learner_state option" where
  "get_learner_state db i v user w =
     find (\<lambda>s. ls_id s = i \<and> ls_version s = v) (state_stream db user w)"

definition sync_legacy_dialog_projection :: "learner_db \<Rightarrow> uuid \<Rightarrow> mastery_estimate \<Rightarrow> learner_error + learner_db" where
  "sync_legacy_dialog_projection db d m =
     (if d \<notin> fst ` set (ln_dialogs db) then Inl DIALOG_NOT_FOUND
      else Inr (db\<lparr>ln_dialogs := map (\<lambda>(i, p). (i, if i = d then (case mm_competence m of None \<Rightarrow> 0 | Some c \<Rightarrow> c) else p))
                   (ln_dialogs db)\<rparr>))"

section \<open>\<open>CanonicalLearnerProjectorService\<close>\<close>

definition estimate_json :: "mastery_estimate \<Rightarrow> pyval" where
  "estimate_json m = VDict
    [(''estimate_id'', VStr (mm_id m)), (''version'', VInt (mm_version m)), (''user_id'', VStr (mm_user m)),
     (''knowledge_unit_id'', VStr (mm_unit m)), (''competence_probability'', opt_json VFloat (mm_competence m)),
     (''confidence'', VFloat (mm_confidence m)), (''independent_success_count'', VInt (int (mm_independent_successes m))),
     (''hint_dependency_score'', VFloat (mm_hint_dependency m)),
     (''last_independent_success_at'', opt_json time_json (mm_last_independent m)),
     (''delayed_recall_evidence_count'', VInt (int (mm_delayed_recalls m))),
     (''transfer_evidence_count'', VInt (int (mm_transfers m))),
     (''active_misconception_ids'', VList (map VStr (mm_misconceptions m))),
     (''evidence_count'', VInt (int (mm_evidence_count m))),
     (''effective_evidence_weight'', VFloat (mm_effective_weight m)), (''algorithm_id'', VStr (mm_algorithm m)),
     (''algorithm_version'', VStr (mm_algorithm_version m)), (''source_evidence_ids'', VList (map VStr (mm_sources m))),
     (''created_at'', time_json (mm_created m))]"

definition mastery_task :: "mastery_estimate \<Rightarrow> string \<Rightarrow> task_request" where
  "mastery_task m correlation =
    \<lparr>tq_type = ''learner.mastery.updated'', tq_schema = ''1.0'',
     tq_payload = VDict [(''estimate'', estimate_json m), (''correlation_id'', VStr correlation)],
     tq_key = ''mastery-updated:'' @ mm_id m, tq_next = None\<rparr>"

definition rejection_task :: "result_v1 \<Rightarrow> attempt_v1 \<Rightarrow> string list \<Rightarrow> string \<Rightarrow> task_request" where
  "rejection_task r a reasons correlation =
    \<lparr>tq_type = ''learner.evidence.rejected'', tq_schema = ''1.0'',
     tq_payload = VDict [(''attempt_id'', VStr (t1_id a)), (''result_id'', VStr (r1_id r)),
       (''reason_codes'', VList (map VStr reasons)), (''correlation_id'', VStr correlation)],
     tq_key = ''evidence-rejected:'' @ r1_id r, tq_next = None\<rparr>"

definition learner_enqueue :: "call \<Rightarrow> task_request \<Rightarrow> learner_db \<Rightarrow> learner_error + learner_db" where
  "learner_enqueue c q db =
     (case enqueue (ln_outbox db) (ln_outbox db) (ca_task c) (ca_now c) q of
        Inl e \<Rightarrow> Inl (LEARNER_OUTBOX e)
      | Inr (t, _) \<Rightarrow> Inr (db\<lparr>ln_outbox := t\<rparr>))"

record projection_request =
  pj_result :: result_v1
  pj_attempt :: attempt_v1
  pj_unit :: uuid
  pj_workspace :: uuid
  pj_events :: "uuid list"
  pj_dimension :: dimension
  pj_novelty :: novelty
  pj_delay :: int
  pj_difficulty :: "float64 option"
  pj_correlation :: string

text \<open>The next mastery version of a stream, over the evidence that is valid now.\<close>

definition project_stream :: "pyenv \<Rightarrow> learner_db \<Rightarrow> uuid \<Rightarrow> uuid \<Rightarrow> uuid \<Rightarrow> learner_error + learner_db \<times> mastery_estimate" where
  "project_stream env db user u w =
     (case project_mastery env user u (map Legacy (list_evidence db user u w)) (next_version db user u w) {} of
        Inl e \<Rightarrow> Inl (LEARNER_EXN e)
      | Inr m \<Rightarrow> save_mastery db m w)"

definition project_assessment :: "pyenv \<Rightarrow> call \<Rightarrow> projection_request \<Rightarrow> learner_db \<Rightarrow>
    learner_error + learner_db \<times> mastery_estimate option" where
  "project_assessment env c q db =
     (let r = pj_result q; a = pj_attempt q; w = pj_workspace q in
      case mastery_for_source_result db (r1_id r) (t1_user a) (pj_unit q) w of
        Some m \<Rightarrow> Inr (db, Some m)
      | None \<Rightarrow>
         (case decide_eligibility_v1 env r a (pj_unit q) (pj_dimension q) (pj_novelty q) (pj_delay q) (pj_events q) (pj_difficulty q) of
            Inl e \<Rightarrow> Inl (LEARNER_EXN e)
          | Inr (Inl reason) \<Rightarrow>
              bind_res (save_rejection env db r a (pj_unit q) w [reason] (ca_now c)) (\<lambda>db1.
              bind_res (learner_enqueue c (rejection_task r a [reason] (pj_correlation q)) db1) (\<lambda>db2.
              Inr (db2, None)))
          | Inr (Inr e) \<Rightarrow>
              bind_res (save_evidence db e w (ca_now c)) (\<lambda>(db1, x).
              bind_res (project_stream env db1 (e1_user x) (e1_unit x) w) (\<lambda>(db2, m).
              bind_res (learner_enqueue c (mastery_task m (pj_correlation q)) db2) (\<lambda>db3.
              Inr (db3, Some m))))))"

definition recompute_mastery :: "pyenv \<Rightarrow> time \<Rightarrow> uuid \<Rightarrow> uuid \<Rightarrow> uuid \<Rightarrow> uuid \<Rightarrow> learner_db \<Rightarrow>
    learner_error + learner_db \<times> mastery_estimate" where
  "recompute_mastery env now user u w i db =
     bind_res (invalidate_evidence db i w now) (\<lambda>db1. project_stream env db1 user u w)"

section \<open>\<open>DiagnosticLearnerStateService\<close>\<close>

definition ensure_state :: "pyenv \<Rightarrow> uuid \<Rightarrow> uuid \<Rightarrow> mastery_estimate list \<Rightarrow> time \<Rightarrow> learner_db \<Rightarrow>
    learner_error + learner_db \<times> learner_state" where
  "ensure_state env user w estimates created db =
     (let ids = map mm_id (sort_key mm_unit estimates);
          fresh = project_state env user w estimates (next_learner_state_version db user w)
                    (sum_list (map (int \<circ> mm_evidence_count) estimates)) created
      in case latest_learner_state db user w of
           Some s \<Rightarrow> if ls_estimate_ids s = ids then Inr (db, s) else save_learner_state db fresh w
         | None \<Rightarrow> save_learner_state db fresh w)"

definition current_state :: "pyenv \<Rightarrow> uuid \<Rightarrow> uuid \<Rightarrow> uuid list \<Rightarrow> time \<Rightarrow> learner_db \<Rightarrow>
    learner_error + learner_db \<times> learner_state \<times> mastery_estimate list" where
  "current_state env user w units created db =
     (let all_estimates = list_all_latest_mastery db user w
      in bind_res (ensure_state env user w all_estimates created db) (\<lambda>(db1, s).
           Inr (db1, s, filter (\<lambda>m. mm_unit m \<in> set units) all_estimates)))"

definition diagnostic_request :: "result_v1 \<Rightarrow> attempt_v1 \<Rightarrow> uuid \<Rightarrow> uuid \<Rightarrow> uuid \<Rightarrow> float64 option \<Rightarrow> string \<Rightarrow> projection_request" where
  "diagnostic_request r a u w event difficulty correlation =
    \<lparr>pj_result = r, pj_attempt = a, pj_unit = u, pj_workspace = w, pj_events = [event],
     pj_dimension = ROUTINE_APPLICATION, pj_novelty = FAR_VARIANT, pj_delay = 0, pj_difficulty = difficulty,
     pj_correlation = correlation\<rparr>"

definition project_diagnostic :: "pyenv \<Rightarrow> call \<Rightarrow> result_v1 \<Rightarrow> attempt_v1 \<Rightarrow> uuid \<Rightarrow> uuid \<Rightarrow> uuid \<Rightarrow> float64 option \<Rightarrow>
    string \<Rightarrow> uuid list \<Rightarrow> time \<Rightarrow> learner_db \<Rightarrow>
    learner_error + learner_db \<times> mastery_estimate option \<times> learner_state \<times> mastery_estimate list" where
  "project_diagnostic env c r a u w event difficulty correlation units created db =
     bind_res (case mastery_for_source_result db (r1_id r) (t1_user a) u w of
                 Some m \<Rightarrow> Inr (db, Some m)
               | None \<Rightarrow> project_assessment env c (diagnostic_request r a u w event difficulty correlation) db)
       (\<lambda>(db1, m). bind_res (current_state env (t1_user a) w units created db1) (\<lambda>(db2, s, ms). Inr (db2, m, s, ms)))"

definition get_state :: "pyenv \<Rightarrow> uuid \<Rightarrow> int \<Rightarrow> uuid \<Rightarrow> learner_db \<Rightarrow> learner_state option" where
  "get_state env user v w db =
     get_learner_state db (uuid5 env (''askora:learner-state:'' @ user @ '':'' @ w)) v user w"

end
