(* ===== verification/LearnerTruth.thy ===== *)
theory LearnerTruth
  imports LearnerRecords
begin

text \<open>
  What \<open>LearnerRecords\<close> promises: the mastery of a stream (learner, knowledge unit, workspace) is the
  projection of exactly the evidence that is valid in it, versions are consecutive, redelivery is
  idempotent, workspaces do not see each other and the aggregate state is stable.
\<close>

section \<open>Keys\<close>

text \<open>The identifiers the keys are built of are UUIDs: they contain no colon. A UUID of a name is taken
  to determine the name.\<close>

definition uuid_env :: "pyenv \<Rightarrow> bool" where
  "uuid_env env \<longleftrightarrow> inj (uuid5 env) \<and> (\<forall>s. no_colon (uuid5 env s))"

lemma plain_int_str: "no_colon (int_str n)"
proof -
  have "CHR '':'' \<notin> set (dec_digits k)" if "0 \<le> k" for k
    using dec_digits_chars [OF that, of "CHR '':''"] by auto
  then show ?thesis by (auto simp: no_colon_def int_str_def)
qed

lemma colon_join_inj:
  assumes "list_all no_colon (x # xs)" and "list_all no_colon (y # ys)"
    and "str_join '':'' (x # xs) = str_join '':'' (y # ys)"
  shows "x # xs = y # ys"
  using assms
proof (induction xs arbitrary: x y ys)
  case Nil then show ?case by (cases ys) (auto simp: no_colon_def)
next
  case (Cons x' xs)
  note IH = Cons.IH and prems = Cons.prems
  show ?case
  proof (cases ys)
    case Nil with prems show ?thesis by (auto simp: no_colon_def)
  next
    case (Cons y' zs)
    with prems(3) have "x @ CHR '':'' # str_join '':'' (x' # xs) = y @ CHR '':'' # str_join '':'' (y' # zs)" by simp
    with prems(1,2) split_at_colon [of x y] have "x = y" "str_join '':'' (x' # xs) = str_join '':'' (y' # zs)" by auto
    with IH [of x' y' zs] prems Cons show ?thesis by simp
  qed
qed

text \<open>The id of an estimate is a function of what it was computed from; the workspace is not part of it.\<close>

definition estimate_id :: "pyenv \<Rightarrow> mastery_estimate \<Rightarrow> uuid" where
  "estimate_id env m =
     uuid5 env (''askora:mastery:'' @ str_join '':'' ([mm_user m, mm_unit m, int_str (mm_version m), bkt_version] @ mm_sources m))"

lemma estimate_of_id:
  "estimate_of env user u v es = Some m \<Longrightarrow> mm_id m = estimate_id env m \<and> mm_user m = user \<and> mm_unit m = u \<and>
     mm_version m = v \<and> mm_sources m = map ev_id es"
  by (auto simp: estimate_of_def estimate_id_def Let_def split: option.splits)

lemma project_mastery_id:
  "project_mastery env user u es v {} = Inr m \<Longrightarrow> mm_id m = estimate_id env m \<and> mm_user m = user \<and> mm_unit m = u \<and>
     mm_version m = v \<and> set (mm_sources m) = ev_id ` set es"
  by (auto dest!: project_elim estimate_of_id simp: ordered_evidence_set)

lemma estimate_id_inj:
  assumes "uuid_env env" and "estimate_id env m = estimate_id env n"
    and "list_all no_colon ([mm_user m, mm_unit m] @ mm_sources m)" and "list_all no_colon ([mm_user n, mm_unit n] @ mm_sources n)"
  shows "mm_user m = mm_user n \<and> mm_unit m = mm_unit n \<and> mm_version m = mm_version n \<and> mm_sources m = mm_sources n"
proof -
  have b: "no_colon bkt_version" by (simp add: no_colon_def bkt_version_def)
  from assms(1,2) have "''askora:mastery:'' @ str_join '':'' ([mm_user m, mm_unit m, int_str (mm_version m), bkt_version] @ mm_sources m) =
      ''askora:mastery:'' @ str_join '':'' ([mm_user n, mm_unit n, int_str (mm_version n), bkt_version] @ mm_sources n)"
    unfolding estimate_id_def uuid_env_def inj_def by blast
  then have "mm_user m # ([mm_unit m, int_str (mm_version m), bkt_version] @ mm_sources m) =
      mm_user n # ([mm_unit n, int_str (mm_version n), bkt_version] @ mm_sources n)"
    using assms(3,4) b plain_int_str by (intro colon_join_inj) simp_all
  then show ?thesis using int_str_inj by auto
qed

section \<open>Streams of evidence and mastery\<close>

lemma set_map_filter_Some: "y \<in> set (List.map_filter f xs) \<longleftrightarrow> (\<exists>x \<in> set xs. f x = Some y)"
  by (induction xs) (auto simp: List.map_filter_simps split: option.splits)

lemma list_evidence_set: "e \<in> set (list_evidence db user u w) \<longleftrightarrow>
    (\<exists>x \<in> set (ln_evidence db). counted_row user u w x \<and> vx_body x = EvidenceAccepted e)"
proof -
  have "accepted_body b = Some e \<longleftrightarrow> b = EvidenceAccepted e" for b by (cases b) auto
  then show ?thesis by (auto simp: list_evidence_def set_map_filter_Some)
qed

lemma list_evidence_cong:
  "filter (counted_row user u w) (ln_evidence db') = filter (counted_row user u w) (ln_evidence db) \<Longrightarrow>
     list_evidence db' user u w = list_evidence db user u w"
  by (simp add: list_evidence_def)

text \<open>What the tables satisfy by themselves.\<close>

definition evidence_wf :: "learner_db \<Rightarrow> bool" where
  "evidence_wf db \<longleftrightarrow> distinct (map vx_id (ln_evidence db)) \<and>
     distinct (map (\<lambda>x. (vx_workspace x, vx_result x)) (ln_evidence db)) \<and>
     (\<forall>x \<in> set (ln_evidence db). \<forall>e. vx_body x = EvidenceAccepted e \<longrightarrow>
        e1_id e = vx_id x \<and> e1_user e = vx_user x \<and> e1_unit e = vx_unit x \<and>
        no_colon (vx_id x) \<and> no_colon (vx_user x) \<and> no_colon (vx_unit x))"

definition sources_wf :: "learner_db \<Rightarrow> mastery_row \<Rightarrow> bool" where
  "sources_wf db y \<longleftrightarrow> (\<forall>s \<in> set (mm_sources (mx_estimate y)). \<exists>x \<in> set (ln_evidence db).
      vx_id x = s \<and> vx_workspace x = mx_workspace y \<and> no_colon s)"

definition mastery_wf :: "pyenv \<Rightarrow> learner_db \<Rightarrow> bool" where
  "mastery_wf env db \<longleftrightarrow>
     (\<forall>y \<in> set (ln_mastery db). mm_id (mx_estimate y) = estimate_id env (mx_estimate y) \<and>
        no_colon (mm_user (mx_estimate y)) \<and> no_colon (mm_unit (mx_estimate y)) \<and> sources_wf db y) \<and>
     (\<forall>user u w. map mm_version (mastery_stream db user u w) = map int [1..<Suc (length (mastery_stream db user u w))])"

text \<open>The truth: where there is valid evidence, the latest mastery is its projection.\<close>

definition stream_true :: "pyenv \<Rightarrow> learner_db \<Rightarrow> uuid \<Rightarrow> uuid \<Rightarrow> uuid \<Rightarrow> bool" where
  "stream_true env db user u w \<longleftrightarrow> (list_evidence db user u w \<noteq> [] \<longrightarrow>
     (\<exists>m. latest_mastery db user u w = Some m \<and>
        project_mastery env user u (map Legacy (list_evidence db user u w)) (mm_version m) {} = Inr m))"

lemma consecutive_next:
  assumes "map mm_version ms = map int [1..<Suc (length ms)]"
  shows "version_after mm_version ms = int (Suc (length ms))"
proof (cases "ms = []")
  case False
  have "mm_version ` set ms = int ` {1..<Suc (length ms)}" using arg_cong [OF assms, of set] by (simp only: set_map set_upt)
  moreover have "Max (int ` {1..<Suc (length ms)}) = int (length ms)"
    using False by (intro Max_eqI) (auto simp: Suc_le_eq)
  ultimately show ?thesis using False by (simp add: version_after_def)
qed (simp add: version_after_def)

lemma consecutive_snoc:
  assumes "map mm_version ms = map int [1..<Suc (length ms)]" and "mm_version m = version_after mm_version ms"
  shows "map mm_version (ms @ [m]) = map int [1..<Suc (length (ms @ [m]))]"
  using assms consecutive_next [OF assms(1)] by simp

section \<open>One more version of a stream\<close>

lemma save_mastery_new:
  assumes "mastery_wf env db" and "mm_version m = next_version db (mm_user m) (mm_unit m) w"
    and "save_mastery db m w = Inr (db', m')"
  shows "db' = db \<and> (\<exists>y \<in> set (ln_mastery db). mm_id (mx_estimate y) = mm_id m \<and> m' = mx_estimate y) \<or>
    db' = db\<lparr>ln_mastery := ln_mastery db @ [\<lparr>mx_workspace = w, mx_estimate = m\<rparr>]\<rparr> \<and> m' = m"
  using assms(3) by (auto simp: save_mastery_def find_Some_iff split: option.splits if_splits)

lemma mastery_stream_snoc:
  "mastery_stream (db\<lparr>ln_mastery := ln_mastery db @ [\<lparr>mx_workspace = w, mx_estimate = m\<rparr>]\<rparr>) user u w' =
     (if w' = w \<and> mm_user m = user \<and> mm_unit m = u then mastery_stream db user u w' @ [m] else mastery_stream db user u w')"
  by (auto simp: mastery_stream_def)

lemma list_evidence_mastery [simp]: "list_evidence (db\<lparr>ln_mastery := ms\<rparr>) user u w = list_evidence db user u w"
  by (simp add: list_evidence_def)

lemma sources_wf_mastery [simp]: "sources_wf (db\<lparr>ln_mastery := ms\<rparr>) y = sources_wf db y"
  by (simp add: sources_wf_def)

lemma no_collision:
  assumes env: "uuid_env env" and ev: "evidence_wf db" and ma: "mastery_wf env db"
    and m: "project_mastery env user u (map Legacy (list_evidence db user u w)) (next_version db user u w) {} = Inr m"
    and ne: "list_evidence db user u w \<noteq> []" and y: "y \<in> set (ln_mastery db)"
  shows "mm_id (mx_estimate y) \<noteq> mm_id m"
proof
  assume "mm_id (mx_estimate y) = mm_id m"
  with ma y project_mastery_id [OF m] have i: "estimate_id env (mx_estimate y) = estimate_id env m" by (simp add: mastery_wf_def)
  have src: "set (mm_sources m) = e1_id ` set (list_evidence db user u w)"
    using project_mastery_id [OF m] by (simp add: image_image)
  from ne obtain e where e: "e \<in> set (list_evidence db user u w)" by fastforce
  have row: "\<exists>x \<in> set (ln_evidence db). vx_id x = e1_id f \<and> vx_workspace x = w \<and> no_colon (e1_id f) \<and> no_colon user \<and> no_colon u"
    if "f \<in> set (list_evidence db user u w)" for f
    using that ev by (fastforce simp: list_evidence_set evidence_wf_def counted_row_def)
  have pl: "list_all no_colon ([mm_user m, mm_unit m] @ mm_sources m)"
    using row [OF e] row src project_mastery_id [OF m] by (auto simp: list_all_iff)
  have "list_all no_colon ([mm_user (mx_estimate y), mm_unit (mx_estimate y)] @ mm_sources (mx_estimate y))"
    using ma y by (auto simp: mastery_wf_def sources_wf_def list_all_iff)
  from estimate_id_inj [OF env i this pl] have same: "mm_user (mx_estimate y) = user" "mm_unit (mx_estimate y) = u"
    "mm_version (mx_estimate y) = next_version db user u w" "mm_sources (mx_estimate y) = mm_sources m"
    using project_mastery_id [OF m] by auto
  from e src same(4) have "e1_id e \<in> set (mm_sources (mx_estimate y))" by auto
  with ma y obtain x where x: "x \<in> set (ln_evidence db)" "vx_id x = e1_id e" "vx_workspace x = mx_workspace y"
    by (fastforce simp: mastery_wf_def sources_wf_def)
  from row [OF e] obtain z where z: "z \<in> set (ln_evidence db)" "vx_id z = e1_id e" "vx_workspace z = w" by auto
  have "x = z" using ev x(1,2) z(1,2) by (auto simp: evidence_wf_def distinct_map intro: inj_onD [of vx_id])
  with x z have "mx_workspace y = w" by simp
  with y same have "mx_estimate y \<in> set (mastery_stream db user u w)" by (auto simp: mastery_stream_def)
  from version_after_above [OF this, of mm_version] same(3) show False by (simp add: next_version_def)
qed

lemma project_stream_facts:
  assumes env: "uuid_env env" and ev: "evidence_wf db" and ma: "mastery_wf env db" and pl: "no_colon user" "no_colon u"
    and p: "project_stream env db user u w = Inr (db', m)"
  shows "evidence_wf db' \<and> mastery_wf env db' \<and> stream_true env db' user u w \<and>
    (\<forall>v. list_evidence db' user u v = list_evidence db user u v) \<and> ln_evidence db' = ln_evidence db \<and>
    (\<exists>ms. db' = db\<lparr>ln_mastery := ms\<rparr>) \<and>
    (\<forall>user' u' w'. (user', u', w') \<noteq> (user, u, w) \<longrightarrow> mastery_stream db' user' u' w' = mastery_stream db user' u' w') \<and>
    (list_evidence db user u w \<noteq> [] \<longrightarrow> latest_mastery db' user u w = Some m \<and> mm_version m = next_version db user u w)"
proof -
  let ?l = "list_evidence db user u w"
  from p obtain n where n: "project_mastery env user u (map Legacy ?l) (next_version db user u w) {} = Inr n"
    and s: "save_mastery db n w = Inr (db', m)"
    by (auto simp: project_stream_def split: sum.splits)
  note f = project_mastery_id [OF n]
  have v: "mm_version n = next_version db (mm_user n) (mm_unit n) w" using f by simp
  from save_mastery_new [OF ma v s] consider
      (old) y where "db' = db" "y \<in> set (ln_mastery db)" "mm_id (mx_estimate y) = mm_id n" "m = mx_estimate y"
    | (new) "db' = db\<lparr>ln_mastery := ln_mastery db @ [\<lparr>mx_workspace = w, mx_estimate = n\<rparr>]\<rparr>" "m = n" by blast
  then show ?thesis
  proof cases
    case old
    with no_collision [OF env ev ma n] have "?l = []" by auto
    with old ev ma show ?thesis by (auto simp: stream_true_def intro!: exI [of _ "ln_mastery db"])
  next
    case new
    have above: "mm_version r < mm_version n" if "r \<in> set (mastery_stream db user u w)" for r
      using version_after_above [OF that, of mm_version] f by (simp add: next_version_def)
    have stream: "mastery_stream db' user u w = mastery_stream db user u w @ [n]"
      using new f by (simp add: mastery_stream_snoc)
    have latest: "latest_mastery db' user u w = Some n"
      unfolding latest_mastery_def stream using above by (rule latest_by_snoc)
    have src: "sources_wf db \<lparr>mx_workspace = w, mx_estimate = n\<rparr>"
      using f ev by (fastforce simp: sources_wf_def list_evidence_set counted_row_def evidence_wf_def image_image)
    have cons: "map mm_version (mastery_stream db' a b c) = map int [1..<Suc (length (mastery_stream db' a b c))]" for a b c
    proof (cases "c = w \<and> mm_user n = a \<and> mm_unit n = b")
      case True
      then have "mastery_stream db' a b c = mastery_stream db a b c @ [n]" using new by (simp add: mastery_stream_snoc)
      moreover have "map mm_version (mastery_stream db a b c @ [n]) =
          map int [1..<Suc (length (mastery_stream db a b c @ [n]))]"
        using ma v True by (intro consecutive_snoc) (auto simp: mastery_wf_def next_version_def)
      ultimately show ?thesis by simp
    next
      case False
      then have "mastery_stream db' a b c = mastery_stream db a b c" using new by (auto simp: mastery_stream_snoc)
      with ma show ?thesis by (simp add: mastery_wf_def)
    qed
    have "mastery_wf env db'"
      unfolding mastery_wf_def using cons ma src f pl new(1) by (auto simp: mastery_wf_def)
    moreover have "stream_true env db' user u w"
      using latest n f new by (auto simp: stream_true_def)
    ultimately show ?thesis using new ev latest f by (auto simp: evidence_wf_def mastery_stream_snoc)
  qed
qed

section \<open>Evidence comes in\<close>

definition learner_ok :: "pyenv \<Rightarrow> learner_db \<Rightarrow> bool" where
  "learner_ok env db \<longleftrightarrow> evidence_wf db \<and> mastery_wf env db \<and> (\<forall>user u w. stream_true env db user u w)"

lemma mastery_wf_evidence:
  assumes "mastery_wf env db" and "ln_mastery db' = ln_mastery db"
    and "\<And>x. x \<in> set (ln_evidence db) \<Longrightarrow> \<exists>y \<in> set (ln_evidence db'). vx_id y = vx_id x \<and> vx_workspace y = vx_workspace x"
  shows "mastery_wf env db'"
proof -
  have "mastery_stream db' user u w = mastery_stream db user u w" for user u w
    using assms(2) by (simp add: mastery_stream_def)
  moreover have "sources_wf db' y" if "sources_wf db y" for y
    using that assms(3) unfolding sources_wf_def by (metis (no_types, lifting))
  ultimately show ?thesis using assms(1,2) by (simp add: mastery_wf_def)
qed

lemma insert_evidence_facts:
  assumes "insert_evidence db x = Inr db'" and "evidence_wf db" and "mastery_wf env db"
    and "evidence_of_result db (vx_result x) (vx_workspace x) = None"
    and "\<And>e. vx_body x = EvidenceAccepted e \<Longrightarrow> e1_id e = vx_id x \<and> e1_user e = vx_user x \<and> e1_unit e = vx_unit x \<and>
        no_colon (vx_id x) \<and> no_colon (vx_user x) \<and> no_colon (vx_unit x)"
  shows "evidence_wf db' \<and> mastery_wf env db' \<and> db' = db\<lparr>ln_evidence := ln_evidence db @ [x]\<rparr>"
proof -
  from assms(1) have db': "db' = db\<lparr>ln_evidence := ln_evidence db @ [x]\<rparr>" and i: "vx_id x \<notin> vx_id ` set (ln_evidence db)"
    by (auto simp: insert_evidence_def split: if_splits)
  have "(vx_workspace x, vx_result x) \<notin> (\<lambda>x. (vx_workspace x, vx_result x)) ` set (ln_evidence db)"
    using assms(4) by (auto simp: evidence_of_result_def find_None_iff)
  with i assms(2,5) db' have "evidence_wf db'" by (auto simp: evidence_wf_def)
  moreover have "mastery_wf env db'" by (rule mastery_wf_evidence [OF assms(3)]) (auto simp: db')
  ultimately show ?thesis using db' by simp
qed

lemma list_evidence_snoc:
  "list_evidence (db\<lparr>ln_evidence := ln_evidence db @ [x]\<rparr>) user u w = list_evidence db user u w" if "\<not> counted_row user u w x"
  using that by (intro list_evidence_cong) simp

lemma stream_true_cong:
  "list_evidence db' user u w = list_evidence db user u w \<Longrightarrow> mastery_stream db' user u w = mastery_stream db user u w \<Longrightarrow>
     stream_true env db' user u w = stream_true env db user u w"
  by (simp add: stream_true_def latest_mastery_def)

lemma eligible_fields:
  assumes "decide_eligibility_v1 env r a u dimn nov delay events difficulty = Inr (Inr e)"
  shows "e1_id e = uuid5 env (''askora:evidence:'' @ r1_id r) \<and> e1_user e = t1_user a \<and> e1_unit e = u \<and>
    e1_result e = Some (r1_id r) \<and> valid_evidence_v1 e"
  using assms by (auto simp: decide_eligibility_v1_def make_evidence_v1_def Let_def split: if_splits)

lemma save_evidence_facts:
  assumes env: "uuid_env env" and ok: "learner_ok env db" and pl: "no_colon (t1_user a)" "no_colon u"
    and d: "decide_eligibility_v1 env r a u dimn nov delay events difficulty = Inr (Inr e)"
    and s: "save_evidence db e w now = Inr (db', x)"
  shows "evidence_wf db' \<and> mastery_wf env db' \<and> no_colon (e1_user x) \<and> no_colon (e1_unit x) \<and>
    (\<forall>user' u' w'. (user', u', w') \<noteq> (e1_user x, e1_unit x, w) \<longrightarrow>
       list_evidence db' user' u' w' = list_evidence db user' u' w') \<and>
    (\<forall>user' u' w'. mastery_stream db' user' u' w' = mastery_stream db user' u' w') \<and>
    (\<exists>es. db' = db\<lparr>ln_evidence := es\<rparr>)"
proof -
  note f = eligible_fields [OF d]
  have res: "e1_result e = Some (r1_id r)" using f by simp
  consider (old) y where "db' = db" "y \<in> set (ln_evidence db)" "vx_body y = EvidenceAccepted x"
    | (new) "evidence_of_result db (r1_id r) w = None" "insert_evidence db (evidence_row_of e (r1_id r) w now) = Inr db'" "x = e"
  proof (cases "evidence_of_result db (r1_id r) w")
    case None
    have "bind_res (insert_evidence db (evidence_row_of e (r1_id r) w now)) (\<lambda>d. Inr (d, e)) = Inr (db', x)"
      using s None unfolding save_evidence_def res by simp
    then have "insert_evidence db (evidence_row_of e (r1_id r) w now) = Inr db'" "x = e" by (auto simp: bind_res_Inr_iff)
    with None show ?thesis by (rule that(2))
  next
    case (Some y)
    then have "y \<in> set (ln_evidence db)" unfolding evidence_of_result_def by (rule find_mem [THEN conjunct1])
    moreover have "db' = db" "vx_body y = EvidenceAccepted x"
      using s Some unfolding save_evidence_def res by (auto split: evidence_body.splits)
    ultimately show ?thesis by (intro that(1))
  qed
  then show ?thesis
  proof cases
    case old
    then show ?thesis using ok by (auto simp: learner_ok_def evidence_wf_def intro!: exI [of _ "ln_evidence db"])
  next
    case new
    have k: "evidence_wf db' \<and> mastery_wf env db' \<and>
        db' = db\<lparr>ln_evidence := ln_evidence db @ [evidence_row_of e (r1_id r) w now]\<rparr>"
    proof (rule insert_evidence_facts [OF new(2)])
      show "evidence_wf db" "mastery_wf env db" using ok by (auto simp: learner_ok_def)
    qed (use new f pl env in \<open>auto simp: evidence_row_of_def uuid_env_def\<close>)
    have "list_evidence db' user' u' w' = list_evidence db user' u' w'"
      if "(user', u', w') \<noteq> (e1_user e, e1_unit e, w)" for user' u' w'
      using k that by (simp, intro list_evidence_snoc) (auto simp: counted_row_def evidence_row_of_def)
    with k new f pl show ?thesis by (auto simp: mastery_stream_def)
  qed
qed

lemma learner_ok_outbox: "learner_ok env (db\<lparr>ln_outbox := t\<rparr>) = learner_ok env db"
proof -
  let ?d = "db\<lparr>ln_outbox := t\<rparr>"
  have l: "list_evidence ?d user u w = list_evidence db user u w" for user u w by (simp add: list_evidence_def)
  have m: "mastery_stream ?d user u w = mastery_stream db user u w" for user u w by (simp add: mastery_stream_def)
  have "sources_wf ?d y = sources_wf db y" for y by (simp add: sources_wf_def)
  then show ?thesis
    by (simp add: learner_ok_def evidence_wf_def mastery_wf_def m stream_true_cong [OF l m])
qed

lemma learner_enqueue_Inr: "learner_enqueue c q db = Inr db' \<longleftrightarrow>
    (\<exists>t r. enqueue (ln_outbox db) (ln_outbox db) (ca_task c) (ca_now c) q = Inr (t, r) \<and> db' = db\<lparr>ln_outbox := t\<rparr>)"
  by (auto simp: learner_enqueue_def split: sum.splits)

lemma save_rejection_facts:
  assumes "uuid_env env" and "learner_ok env db" and "save_rejection env db r a u w reasons now = Inr db'"
  shows "learner_ok env db' \<and> (\<forall>user' u' w'. list_evidence db' user' u' w' = list_evidence db user' u' w') \<and>
    (\<exists>es. db' = db\<lparr>ln_evidence := es\<rparr>)"
proof (cases "evidence_of_result db (r1_id r) w")
  case None
  let ?x = "rejection_row env r a u w reasons now"
  from assms(3) None have i: "insert_evidence db ?x = Inr db'" by (simp add: save_rejection_def)
  have "evidence_of_result db (vx_result ?x) (vx_workspace ?x) = None" "\<And>e. vx_body ?x \<noteq> EvidenceAccepted e"
    using None by (simp_all add: rejection_row_def)
  moreover have "evidence_wf db" "mastery_wf env db" using assms(2) by (simp_all add: learner_ok_def)
  ultimately have k: "evidence_wf db' \<and> mastery_wf env db' \<and> db' = db\<lparr>ln_evidence := ln_evidence db @ [?x]\<rparr>"
    by (intro insert_evidence_facts [OF i]) blast+
  have l: "list_evidence db' user' u' w' = list_evidence db user' u' w'" for user' u' w'
    using k by (simp, intro list_evidence_snoc) (simp add: counted_row_def rejection_row_def)
  have m: "mastery_stream db' user' u' w' = mastery_stream db user' u' w'" for user' u' w'
    using k by (simp add: mastery_stream_def)
  have "\<forall>user u w. stream_true env db' user u w"
    using assms(2) stream_true_cong [OF l m] by (simp add: learner_ok_def)
  with k l show ?thesis unfolding learner_ok_def by blast
next
  case (Some y)
  with assms(2,3) show ?thesis by (auto simp: save_rejection_def intro!: exI [of _ "ln_evidence db"])
qed

text \<open>One result is projected: the invariant is kept and only the result's workspace is written.\<close>

lemma project_assessment_facts:
  assumes env: "uuid_env env" and ok: "learner_ok env db"
    and pl: "no_colon (t1_user (pj_attempt q))" "no_colon (pj_unit q)"
    and p: "project_assessment env c q db = Inr (db', res)"
  shows "learner_ok env db'"
    and "w' \<noteq> pj_workspace q \<Longrightarrow> list_evidence db' user' u' w' = list_evidence db user' u' w' \<and>
      mastery_stream db' user' u' w' = mastery_stream db user' u' w'"
    and "ln_states db' = ln_states db"
proof -
  let ?r = "pj_result q" and ?a = "pj_attempt q" and ?w = "pj_workspace q"
  let ?goal = "learner_ok env db' \<and> ln_states db' = ln_states db \<and>
      (w' \<noteq> ?w \<longrightarrow> list_evidence db' user' u' w' = list_evidence db user' u' w' \<and>
         mastery_stream db' user' u' w' = mastery_stream db user' u' w')"
  let ?d = "decide_eligibility_v1 env ?r ?a (pj_unit q) (pj_dimension q) (pj_novelty q) (pj_delay q) (pj_events q) (pj_difficulty q)"
  from p consider
      (known) "db' = db"
    | (rejected) reason db1 t where "save_rejection env db ?r ?a (pj_unit q) ?w [reason] (ca_now c) = Inr db1" "db' = db1\<lparr>ln_outbox := t\<rparr>"
    | (accepted) e db1 x db2 m t where "?d = Inr (Inr e)" "save_evidence db e ?w (ca_now c) = Inr (db1, x)"
        "project_stream env db1 (e1_user x) (e1_unit x) ?w = Inr (db2, m)" "db' = db2\<lparr>ln_outbox := t\<rparr>"
    by (fastforce simp: project_assessment_def Let_def res_simps learner_enqueue_Inr split: option.splits sum.splits)
  then have ?goal
  proof cases
    case known with ok show ?thesis by simp
  next
    case rejected
    from save_rejection_facts [OF env ok rejected(1)] rejected(2) show ?thesis
      by (auto simp: learner_ok_outbox list_evidence_def mastery_stream_def)
  next
    case accepted
    note s = save_evidence_facts [OF env ok pl accepted(1,2)]
    have f: "evidence_wf db1" "mastery_wf env db1" "no_colon (e1_user x)" "no_colon (e1_unit x)" using s by auto
    note t = project_stream_facts [OF env f accepted(3)]
    have true: "stream_true env db2 a b d" for a b d
    proof (cases "(a, b, d) = (e1_user x, e1_unit x, ?w)")
      case True with t show ?thesis by auto
    next
      case False
      then have "list_evidence db2 a b d = list_evidence db a b d" "mastery_stream db2 a b d = mastery_stream db a b d"
        using s t by (auto simp: list_evidence_def)
      with ok show ?thesis by (simp add: learner_ok_def stream_true_cong [of db2 a b d db])
    qed
    have "learner_ok env db'" unfolding accepted(4) learner_ok_outbox using true t by (auto simp: learner_ok_def)
    moreover have "ln_states db' = ln_states db" using s t accepted(4) by auto
    moreover have "list_evidence db' user' u' w' = list_evidence db user' u' w' \<and>
         mastery_stream db' user' u' w' = mastery_stream db user' u' w'" if "w' \<noteq> ?w"
      using that s t accepted(4) by (auto simp: list_evidence_def mastery_stream_def)
    ultimately show ?thesis by blast
  qed
  then show "learner_ok env db'" "ln_states db' = ln_states db"
    and "w' \<noteq> ?w \<Longrightarrow> list_evidence db' user' u' w' = list_evidence db user' u' w' \<and>
      mastery_stream db' user' u' w' = mastery_stream db user' u' w'" by auto
qed

section \<open>Evidence goes out\<close>

definition owned_by :: "learner_db \<Rightarrow> uuid \<Rightarrow> uuid \<Rightarrow> uuid \<Rightarrow> uuid \<Rightarrow> bool" where
  "owned_by db i user u w \<longleftrightarrow> (\<exists>x \<in> set (ln_evidence db). vx_id x = i \<and> vx_user x = user \<and> vx_unit x = u \<and> vx_workspace x = w)"

lemma filter_map_same:
  assumes "\<And>x. x \<in> set xs \<Longrightarrow> f x = x \<or> \<not> P x \<and> \<not> P (f x)"
  shows "filter P (map f xs) = filter P xs"
  using assms
proof (induction xs)
  case (Cons x xs)
  have x: "f x = x \<or> \<not> P x \<and> \<not> P (f x)" by (rule Cons.prems) simp
  have "filter P (map f xs) = filter P xs" by (rule Cons.IH) (rule Cons.prems, simp)
  with x show ?case by (cases "P x") auto
qed simp

lemma invalidate_facts:
  assumes ev: "evidence_wf db" and ma: "mastery_wf env db" and o: "owned_by db i user u w"
    and inv: "invalidate_evidence db i w now = Inr db'"
  shows "evidence_wf db' \<and> mastery_wf env db' \<and>
    (\<forall>user' u' w'. (user', u', w') \<noteq> (user, u, w) \<longrightarrow> list_evidence db' user' u' w' = list_evidence db user' u' w') \<and>
    (\<forall>user' u' w'. mastery_stream db' user' u' w' = mastery_stream db user' u' w') \<and>
    (\<exists>es. db' = db\<lparr>ln_evidence := es\<rparr>) \<and> (\<forall>e \<in> set (list_evidence db' user u w). e1_id e \<noteq> i)"
proof -
  let ?f = "\<lambda>x. if vx_id x = i then x\<lparr>vx_invalidated := Some now\<rparr> else x"
  from inv have db': "db' = db\<lparr>ln_evidence := map ?f (ln_evidence db)\<rparr>"
    by (auto simp: invalidate_evidence_def split: if_splits)
  have k: "map vx_id (map ?f xs) = map vx_id xs"
    "map (\<lambda>x. (vx_workspace x, vx_result x)) (map ?f xs) = map (\<lambda>x. (vx_workspace x, vx_result x)) xs" for xs
    by (simp_all add: comp_def if_distrib cong: if_cong)
  have wf: "evidence_wf db'" using ev unfolding evidence_wf_def db' by (simp add: k del: map_map) (auto simp: k)
  have m: "mastery_wf env db'"
  proof (rule mastery_wf_evidence [OF ma])
    fix x assume "x \<in> set (ln_evidence db)"
    then have "?f x \<in> set (ln_evidence db')" "vx_id (?f x) = vx_id x \<and> vx_workspace (?f x) = vx_workspace x"
      by (simp_all add: db')
    then show "\<exists>y \<in> set (ln_evidence db'). vx_id y = vx_id x \<and> vx_workspace y = vx_workspace x" by blast
  qed (simp add: db')
  have l: "list_evidence db' user' u' w' = list_evidence db user' u' w'" if ne: "(user', u', w') \<noteq> (user, u, w)" for user' u' w'
  proof (rule list_evidence_cong)
    have "?f x = x \<or> \<not> counted_row user' u' w' x \<and> \<not> counted_row user' u' w' (?f x)" if x: "x \<in> set (ln_evidence db)" for x
    proof (cases "vx_id x = i")
      case True
      from o obtain z where z: "z \<in> set (ln_evidence db)" "vx_id z = i" "vx_user z = user" "vx_unit z = u" "vx_workspace z = w"
        by (auto simp: owned_by_def)
      have "x = z" using ev x z(1,2) True by (auto simp: evidence_wf_def distinct_map intro: inj_onD [of vx_id])
      with z ne show ?thesis by (auto simp: counted_row_def)
    qed simp
    then have "filter (counted_row user' u' w') (map ?f (ln_evidence db)) = filter (counted_row user' u' w') (ln_evidence db)"
      by (rule filter_map_same)
    then show "filter (counted_row user' u' w') (ln_evidence db') = filter (counted_row user' u' w') (ln_evidence db)"
      by (simp add: db')
  qed
  have gone: "e1_id e \<noteq> i" if e: "e \<in> set (list_evidence db' user u w)" for e
  proof -
    from e obtain y where y: "y \<in> set (ln_evidence db')" "counted_row user u w y" "vx_body y = EvidenceAccepted e"
      by (auto simp: list_evidence_set)
    with wf have "e1_id e = vx_id y" by (simp add: evidence_wf_def)
    moreover from y(1) obtain x where "y = ?f x"
    proof -
      have "ln_evidence db' = map ?f (ln_evidence db)" by (simp add: db')
      with y(1) have "y \<in> ?f ` set (ln_evidence db)" by (simp only: set_map)
      then show ?thesis using that by (rule imageE)
    qed
    ultimately show ?thesis using y(2) by (auto simp: counted_row_def split: if_splits)
  qed
  show ?thesis using wf m l gone db' by (auto simp: mastery_stream_def)
qed

lemma recompute_facts:
  assumes env: "uuid_env env" and ok: "learner_ok env db" and pl: "no_colon user" "no_colon u" and o: "owned_by db i user u w"
    and p: "recompute_mastery env now user u w i db = Inr (db', m)"
  shows "learner_ok env db' \<and> ln_states db' = ln_states db \<and> (\<forall>e \<in> set (list_evidence db' user u w). e1_id e \<noteq> i) \<and>
    (w' \<noteq> w \<longrightarrow> list_evidence db' user' u' w' = list_evidence db user' u' w' \<and>
         mastery_stream db' user' u' w' = mastery_stream db user' u' w')"
proof -
  from p obtain db1 where i: "invalidate_evidence db i w now = Inr db1" and s: "project_stream env db1 user u w = Inr (db', m)"
    by (auto simp: recompute_mastery_def res_simps)
  have wf: "evidence_wf db" "mastery_wf env db" using ok by (simp_all add: learner_ok_def)
  note f = invalidate_facts [OF wf o i]
  then have g: "evidence_wf db1" "mastery_wf env db1" by blast+
  note t = project_stream_facts [OF env g pl s]
  have true: "stream_true env db' a b d" for a b d
  proof (cases "(a, b, d) = (user, u, w)")
    case True with t show ?thesis by auto
  next
    case False
    then have "list_evidence db' a b d = list_evidence db a b d" "mastery_stream db' a b d = mastery_stream db a b d"
      using f t by (auto simp: list_evidence_def)
    with ok show ?thesis by (simp add: learner_ok_def stream_true_cong [of db' a b d db])
  qed
  moreover have "list_evidence db' x y w = list_evidence db1 x y w" for x y using t by (auto simp: list_evidence_def)
  moreover have "list_evidence db' user' u' w' = list_evidence db user' u' w' \<and>
         mastery_stream db' user' u' w' = mastery_stream db user' u' w'" if "w' \<noteq> w"
    using that f t by (auto simp: list_evidence_def mastery_stream_def)
  moreover have "ln_states db' = ln_states db" using f t by auto
  ultimately show ?thesis using f t unfolding learner_ok_def by auto
qed

section \<open>The aggregate state\<close>

lemma sort_key_pair:
  assumes "\<And>x. x \<in> set xs \<Longrightarrow> f x = (c, g x)"
  shows "sort_key f xs = sort_key g xs"
proof -
  have i: "insort_key f x ys = insort_key g x ys" if "f x = (c, g x)" "\<And>y. y \<in> set ys \<Longrightarrow> f y = (c, g y)" for x ys
    using that by (induction ys) auto
  show ?thesis using assms
  proof (induction xs)
    case (Cons x xs)
    then have "sort_key f xs = sort_key g xs" by simp
    with i [of x "sort_key g xs"] Cons.prems show ?case by simp
  qed simp
qed

lemma setdefault_by_mem:
  "x \<in> set (setdefault_by key seen xs) \<longleftrightarrow> key x \<notin> set seen \<and> find (\<lambda>y. key y = key x) xs = Some x"
proof (induction xs arbitrary: seen)
  case (Cons y ys)
  then show ?case by (cases "key y \<in> set seen") auto
qed simp

lemma setdefault_by_sorted:
  "sorted (map key xs) \<Longrightarrow> sorted (map key (setdefault_by key seen xs)) \<and> distinct (map key (setdefault_by key seen xs))"
  by (induction xs arbitrary: seen) (auto simp: setdefault_by_mem find_Some_iff intro: nth_mem)

lemma latest_per_unit_mem:
  "m \<in> set (latest_per_unit ms) \<longleftrightarrow> latest_by mm_version (filter (\<lambda>x. mm_unit x = mm_unit m) ms) = Some m"
proof -
  let ?k = "\<lambda>m. (mm_unit m, - mm_version m)" and ?p = "\<lambda>x. mm_unit x = mm_unit m"
  have "filter ?p (sort_key ?k ms) = sort_key ?k (filter ?p ms)" by (simp add: filter_sort)
  also have "\<dots> = sort_key (\<lambda>m. - mm_version m) (filter ?p ms)" by (rule sort_key_pair) auto
  finally show ?thesis by (simp add: latest_per_unit_def setdefault_by_mem find_hd_filter latest_by_def)
qed

lemma latest_per_unit_order:
  "sorted (map mm_unit (latest_per_unit ms)) \<and> distinct (map mm_unit (latest_per_unit ms))"
  unfolding latest_per_unit_def by (rule setdefault_by_sorted) (rule sort_key_first)

lemma latest_mastery_listed:
  "m \<in> set (list_all_latest_mastery db user w) \<longleftrightarrow> latest_mastery db user (mm_unit m) w = Some m"
proof -
  have "filter (\<lambda>x. mm_unit x = u) (workspace_mastery db user w) = mastery_stream db user u w" for u
    by (simp add: workspace_mastery_def mastery_stream_def filter_map comp_def conj_ac)
  then show ?thesis by (simp add: list_all_latest_mastery_def latest_per_unit_mem latest_mastery_def)
qed

lemma listed_user: "m \<in> set (list_all_latest_mastery db user w) \<Longrightarrow> mm_user m = user"
  by (auto simp: latest_mastery_listed latest_mastery_def mastery_stream_def dest!: latest_by_Some)

definition states_wf :: "pyenv \<Rightarrow> learner_db \<Rightarrow> bool" where
  "states_wf env db \<longleftrightarrow> (\<forall>x \<in> set (ln_states db). lx_id x = state_key (lx_state x) \<and> no_colon (ls_user (lx_state x)) \<and>
     no_colon (lx_workspace x) \<and>
     ls_id (lx_state x) = uuid5 env (''askora:learner-state:'' @ ls_user (lx_state x) @ '':'' @ lx_workspace x))"

lemma state_key_inj:
  assumes "no_colon (ls_id s)" and "no_colon (ls_id t)" and "state_key s = state_key t"
  shows "ls_id s = ls_id t \<and> ls_version s = ls_version t"
  using split_at_colon [OF assms(1,2)] assms(3) int_str_inj by (auto simp: state_key_def)

lemma save_state_facts:
  assumes env: "uuid_env env" and wf: "states_wf env db" and pl: "no_colon user" "no_colon w"
    and f: "fresh = project_state env user w ms (next_learner_state_version db user w) n created"
    and s: "save_learner_state db fresh w = Inr (db', s)"
  shows "s = fresh \<and> states_wf env db' \<and> latest_learner_state db' user w = Some s \<and>
    (\<exists>ss. db' = db\<lparr>ln_states := ss\<rparr>) \<and>
    (\<forall>user' w'. (user', w') \<noteq> (user, w) \<longrightarrow> state_stream db' user' w' = state_stream db user' w')"
proof -
  have fr: "ls_user fresh = user" "ls_version fresh = next_learner_state_version db user w"
    "ls_id fresh = uuid5 env (''askora:learner-state:'' @ user @ '':'' @ w)"
    by (simp_all add: f project_state_def Let_def)
  have none: "find (\<lambda>x. lx_id x = state_key fresh) (ln_states db) = None"
  proof (rule ccontr)
    assume "find (\<lambda>x. lx_id x = state_key fresh) (ln_states db) \<noteq> None"
    then obtain x where x: "x \<in> set (ln_states db)" "lx_id x = state_key fresh" by (auto simp: find_None_iff)
    with wf have k: "state_key (lx_state x) = state_key fresh"
      "ls_id (lx_state x) = uuid5 env (''askora:learner-state:'' @ ls_user (lx_state x) @ '':'' @ lx_workspace x)"
      "no_colon (ls_user (lx_state x))" "no_colon (lx_workspace x)" by (auto simp: states_wf_def)
    have "no_colon (ls_id (lx_state x))" "no_colon (ls_id fresh)" using k(2) fr(3) env by (simp_all add: uuid_env_def)
    from state_key_inj [OF this k(1)] have same: "ls_id (lx_state x) = ls_id fresh" "ls_version (lx_state x) = ls_version fresh" by auto
    have "''askora:learner-state:'' @ ls_user (lx_state x) @ '':'' @ lx_workspace x = ''askora:learner-state:'' @ user @ '':'' @ w"
    proof (rule injD [of "uuid5 env"])
      show "inj (uuid5 env)" using env by (simp add: uuid_env_def)
    qed (rule same(1) [unfolded k(2) fr(3)])
    with split_at_colon [OF k(3) pl(1)] have "ls_user (lx_state x) = user" "lx_workspace x = w" by auto
    with x(1) have "lx_state x \<in> set (state_stream db user w)" by (auto simp: state_stream_def)
    from version_after_above [OF this, of ls_version] same(2) fr(2) show False by (simp add: next_learner_state_version_def)
  qed
  with s have r: "db' = db\<lparr>ln_states := ln_states db @ [\<lparr>lx_id = state_key fresh, lx_workspace = w, lx_state = fresh\<rparr>]\<rparr>" "s = fresh"
    by (auto simp: save_learner_state_def split: if_splits)
  have stream: "state_stream db' user w = state_stream db user w @ [fresh]" using r fr by (simp add: state_stream_def)
  have "ls_version x < ls_version fresh" if "x \<in> set (state_stream db user w)" for x
    using version_after_above [OF that, of ls_version] fr(2) by (simp add: next_learner_state_version_def)
  then have "latest_learner_state db' user w = Some fresh"
    unfolding latest_learner_state_def stream by (rule latest_by_snoc)
  moreover have "states_wf env db'" using wf r fr pl by (auto simp: states_wf_def)
  ultimately show ?thesis using r fr by (auto simp: state_stream_def)
qed

lemma ensure_state_facts:
  assumes env: "uuid_env env" and wf: "states_wf env db" and pl: "no_colon user" "no_colon w"
    and ms: "ms = list_all_latest_mastery db user w"
    and e: "ensure_state env user w ms created db = Inr (db', s)"
  shows "states_wf env db' \<and> latest_learner_state db' user w = Some s \<and> ls_estimate_ids s = map mm_id ms \<and>
    (\<exists>ss. db' = db\<lparr>ln_states := ss\<rparr>)"
proof -
  let ?k = "\<lambda>m. (mm_unit m, mm_version m)"
  have o: "sorted (map mm_unit ms)" "distinct (map mm_unit ms)"
    using latest_per_unit_order by (auto simp: ms list_all_latest_mastery_def)
  have "sorted (map ?k ms)" using o
    by (induction ms) (auto simp: less_eq_prod_def order_le_less)
  then have k: "sort_key ?k ms = ms" "sort_key mm_unit ms = ms" using o(1) by (simp_all add: sort_key_id_if_sorted)
  have u: "filter (\<lambda>m. mm_user m = user) ms = ms" using listed_user by (auto simp: ms filter_id_conv)
  have fresh: "ls_estimate_ids (project_state env user w ms v n created) = map mm_id ms" for v n
    by (simp add: project_state_def Let_def k u)
  from e consider (same) "db' = db" "latest_learner_state db user w = Some s" "ls_estimate_ids s = map mm_id ms"
    | (new) "save_learner_state db (project_state env user w ms (next_learner_state_version db user w)
        (sum_list (map (int \<circ> mm_evidence_count) ms)) created) w = Inr (db', s)"
    by (auto simp: ensure_state_def Let_def k split: option.splits if_splits)
  then show ?thesis
  proof cases
    case same with wf show ?thesis by (auto intro!: exI [of _ "ln_states db"])
  next
    case new
    from save_state_facts [OF env wf pl refl new] fresh show ?thesis by auto
  qed
qed

lemma current_state_facts:
  assumes "uuid_env env" and "states_wf env db" and "no_colon user" "no_colon w"
    and "current_state env user w units created db = Inr (db', s, ms)"
  shows "states_wf env db' \<and> latest_learner_state db' user w = Some s \<and>
    ls_estimate_ids s = map mm_id (list_all_latest_mastery db user w) \<and>
    ms = filter (\<lambda>m. mm_unit m \<in> set units) (list_all_latest_mastery db user w) \<and> (\<exists>ss. db' = db\<lparr>ln_states := ss\<rparr>)"
proof -
  from assms(5) have "ensure_state env user w (list_all_latest_mastery db user w) created db = Inr (db', s)"
    and "ms = filter (\<lambda>m. mm_unit m \<in> set units) (list_all_latest_mastery db user w)"
    by (auto simp: current_state_def Let_def res_simps)
  with ensure_state_facts [OF assms(1-4) refl this(1)] show ?thesis by blast
qed

section \<open>What the learner records promise\<close>

inductive learner_step :: "pyenv \<Rightarrow> learner_db \<Rightarrow> learner_db \<Rightarrow> bool" for env where
  projected: "no_colon (t1_user (pj_attempt q)) \<Longrightarrow> no_colon (pj_unit q) \<Longrightarrow>
    project_assessment env c q db = Inr (db', res) \<Longrightarrow> learner_step env db db'"
| recomputed: "no_colon user \<Longrightarrow> no_colon u \<Longrightarrow> owned_by db i user u w \<Longrightarrow>
    recompute_mastery env now user u w i db = Inr (db', m) \<Longrightarrow> learner_step env db db'"
| aggregated: "no_colon user \<Longrightarrow> no_colon w \<Longrightarrow>
    current_state env user w units created db = Inr (db', r) \<Longrightarrow> learner_step env db db'"

definition empty_learner :: learner_db where
  "empty_learner = \<lparr>ln_attempts = [], ln_results = [], ln_evidence = [], ln_mastery = [], ln_states = [], ln_dialogs = [], ln_outbox = []\<rparr>"

lemma learner_ok_states: "learner_ok env (db\<lparr>ln_states := ss\<rparr>) = learner_ok env db"
proof -
  let ?d = "db\<lparr>ln_states := ss\<rparr>"
  have l: "list_evidence ?d user u w = list_evidence db user u w" for user u w by (simp add: list_evidence_def)
  have m: "mastery_stream ?d user u w = mastery_stream db user u w" for user u w by (simp add: mastery_stream_def)
  have "sources_wf ?d y = sources_wf db y" for y by (simp add: sources_wf_def)
  then show ?thesis
    by (simp add: learner_ok_def evidence_wf_def mastery_wf_def m stream_true_cong [OF l m])
qed

lemma learner_step_ok:
  assumes "learner_step env db db'" and "uuid_env env" and "learner_ok env db" and "states_wf env db"
  shows "learner_ok env db' \<and> states_wf env db'"
  using assms(1)
proof cases
  case (projected q c res)
  from project_assessment_facts [OF assms(2,3) projected] assms(4) show ?thesis by (simp add: states_wf_def)
next
  case (recomputed user u i w now m)
  from recompute_facts [OF assms(2,3) recomputed] assms(4) show ?thesis by (simp add: states_wf_def)
next
  case (aggregated user w units created r)
  obtain s ms where "r = (s, ms)" by fastforce
  with aggregated current_state_facts [OF assms(2,4)] assms(3) show ?thesis by (fastforce simp: learner_ok_states)
qed

lemma learner_reach_ok:
  assumes "(learner_step env)\<^sup>*\<^sup>* empty_learner db" and "uuid_env env"
  shows "learner_ok env db \<and> states_wf env db"
  using assms(1)
proof (induction rule: rtranclp_induct)
  case base
  show ?case by (auto simp: learner_ok_def evidence_wf_def mastery_wf_def stream_true_def states_wf_def empty_learner_def
      mastery_stream_def list_evidence_def List.map_filter_simps)
next
  case (step db db') with learner_step_ok [OF step(2) assms(2)] show ?case by blast
qed

text \<open>Durable learner truth is a function of the evidence. In every state the projector, the
  recomputation after an invalidation and the aggregation can reach, the mastery versions of a stream
  are 1, 2, 3, ..., and where a stream has valid evidence its latest mastery is what the weighted BKT
  projector computes from exactly that evidence: nothing invalidated, nothing of another learner, unit
  or workspace, nothing forgotten.\<close>

lemma learner_truth_core:
  assumes "uuid_env env" and "(learner_step env)\<^sup>*\<^sup>* empty_learner db" and "list_evidence db user u w \<noteq> []"
  shows "\<exists>m. latest_mastery db user u w = Some m \<and>
    project_mastery env user u (map Legacy (list_evidence db user u w)) (mm_version m) {} = Inr m \<and>
    mm_version m = int (length (mastery_stream db user u w)) \<and>
    map mm_version (mastery_stream db user u w) = map int [1..<Suc (length (mastery_stream db user u w))] \<and>
    (\<forall>s. s \<in> set (mm_sources m) \<longleftrightarrow> (\<exists>x \<in> set (ln_evidence db). vx_id x = s \<and> counted_row user u w x))"
proof -
  from learner_reach_ok [OF assms(2,1)] have ok: "learner_ok env db" by simp
  with assms(3) obtain m where m: "latest_mastery db user u w = Some m"
    "project_mastery env user u (map Legacy (list_evidence db user u w)) (mm_version m) {} = Inr m"
    by (fastforce simp: learner_ok_def stream_true_def)
  have v: "map mm_version (mastery_stream db user u w) = map int [1..<Suc (length (mastery_stream db user u w))]"
    using ok by (simp add: learner_ok_def mastery_wf_def)
  have "mm_version m + 1 = int (length (mastery_stream db user u w)) + 1"
    using version_after_latest [OF m(1) [unfolded latest_mastery_def]] consecutive_next [OF v] by simp
  moreover have "s \<in> set (mm_sources m) \<longleftrightarrow> (\<exists>x \<in> set (ln_evidence db). vx_id x = s \<and> counted_row user u w x)" for s
  proof -
    have "set (mm_sources m) = e1_id ` set (list_evidence db user u w)"
      using project_mastery_id [OF m(2)] by (simp add: image_image)
    moreover have "s \<in> e1_id ` set (list_evidence db user u w) \<longleftrightarrow> (\<exists>x \<in> set (ln_evidence db). vx_id x = s \<and> counted_row user u w x)"
    proof
      assume "s \<in> e1_id ` set (list_evidence db user u w)"
      then obtain e x where "s = e1_id e" "x \<in> set (ln_evidence db)" "counted_row user u w x" "vx_body x = EvidenceAccepted e"
        by (auto simp: list_evidence_set)
      moreover from this ok have "e1_id e = vx_id x" by (simp add: learner_ok_def evidence_wf_def)
      ultimately show "\<exists>x \<in> set (ln_evidence db). vx_id x = s \<and> counted_row user u w x" by auto
    next
      assume "\<exists>x \<in> set (ln_evidence db). vx_id x = s \<and> counted_row user u w x"
      then obtain x where x: "x \<in> set (ln_evidence db)" "vx_id x = s" "counted_row user u w x" by blast
      then obtain e where e: "vx_body x = EvidenceAccepted e" by (cases "vx_body x") (auto simp: counted_row_def)
      with x ok have "e1_id e = s" by (simp add: learner_ok_def evidence_wf_def)
      moreover have "e \<in> set (list_evidence db user u w)" using x e by (auto simp: list_evidence_set)
      ultimately show "s \<in> e1_id ` set (list_evidence db user u w)" by blast
    qed
    ultimately show ?thesis by simp
  qed
  ultimately show ?thesis using m v by auto
qed

text \<open>Redelivery of a result whose evidence still counts.\<close>

lemma known_result:
  assumes env: "uuid_env env" and r: "(learner_step env)\<^sup>*\<^sup>* empty_learner db"
    and x: "x \<in> set (ln_evidence db)" "counted_row user u w x"
  shows "mastery_for_source_result db (vx_result x) user u w = latest_mastery db user u w \<and> latest_mastery db user u w \<noteq> None"
proof -
  from learner_reach_ok [OF r env] have ok: "learner_ok env db" by simp
  let ?p = "\<lambda>y. vx_result y = vx_result x \<and> vx_user y = user \<and> vx_workspace y = w \<and> vx_unit y = u \<and> accepted_body (vx_body y) \<noteq> None"
  obtain y where y: "find ?p (ln_evidence db) = Some y"
    using x by (cases "find ?p (ln_evidence db)") (auto simp: find_None_iff counted_row_def)
  with find_mem [OF y] x have "y \<in> set (ln_evidence db)" "(vx_workspace y, vx_result y) = (vx_workspace x, vx_result x)"
    by (auto simp: counted_row_def)
  then have "y = x" using ok x(1) by (auto simp: learner_ok_def evidence_wf_def distinct_map intro!: inj_onD [of "\<lambda>x. (vx_workspace x, vx_result x)"])
  obtain e where e: "vx_body x = EvidenceAccepted e" using x(2) by (cases "vx_body x") (auto simp: counted_row_def)
  then have "e \<in> set (list_evidence db user u w)" using x by (auto simp: list_evidence_set)
  then have ne: "list_evidence db user u w \<noteq> []" by auto
  from learner_truth_core [OF env r ne] obtain m where m: "latest_mastery db user u w = Some m"
    "\<forall>s. s \<in> set (mm_sources m) \<longleftrightarrow> (\<exists>x \<in> set (ln_evidence db). vx_id x = s \<and> counted_row user u w x)" by blast
  with x have "vx_id x \<in> set (mm_sources m)" by blast
  with y m(1) \<open>y = x\<close> show ?thesis by (simp add: mastery_for_source_result_def)
qed

text \<open>C14: Durable learner truth is a function of the evidence. In every state the projector, the
  recomputation after an invalidation and the aggregation can reach, the mastery versions of a stream
  of a stream with valid evidence are 1, 2, 3, ..., and its latest mastery is what the weighted BKT
  projector computes from exactly that evidence: nothing invalidated, nothing of another learner, unit
  or workspace, nothing forgotten. A stream whose evidence was all invalidated is outside the claim: there
  the recomputation of an empty stream can return an older estimate (\<open>recomputation_collides\<close>).\<close>

theorem learner_truth:
  assumes "uuid_env env" and "(learner_step env)\<^sup>*\<^sup>* empty_learner db" and "list_evidence db user u w \<noteq> []"
  shows "\<exists>m. latest_mastery db user u w = Some m \<and>
    project_mastery env user u (map Legacy (list_evidence db user u w)) (mm_version m) {} = Inr m \<and>
    mm_version m = int (length (mastery_stream db user u w)) \<and>
    map mm_version (mastery_stream db user u w) = map int [1..<Suc (length (mastery_stream db user u w))] \<and>
    (\<forall>s. s \<in> set (mm_sources m) \<longleftrightarrow> (\<exists>x \<in> set (ln_evidence db). vx_id x = s \<and> counted_row user u w x))"
  by (rule learner_truth_core [OF assms])

text \<open>A result is projected once. As long as its evidence counts, redelivering the result, with
  whatever content, returns the latest mastery of the stream and changes nothing: no row, no version,
  no task.\<close>

theorem result_projected_once:
  assumes "uuid_env env" and "(learner_step env)\<^sup>*\<^sup>* empty_learner db"
    and "x \<in> set (ln_evidence db)" and "counted_row (t1_user (pj_attempt q)) (pj_unit q) (pj_workspace q) x"
    and "r1_id (pj_result q) = vx_result x"
  shows "\<exists>m. project_assessment env c q db = Inr (db, Some m) \<and>
    latest_mastery db (t1_user (pj_attempt q)) (pj_unit q) (pj_workspace q) = Some m"
  using known_result [OF assms(1-4)] assms(5) by (auto simp: project_assessment_def Let_def)

text \<open>The commands that act in one workspace. A recomputation names the stream the invalidated evidence
  belongs to.\<close>

inductive workspace_step :: "pyenv \<Rightarrow> uuid \<Rightarrow> learner_db \<Rightarrow> learner_db \<Rightarrow> bool" for env w where
  projected_in: "no_colon (t1_user (pj_attempt q)) \<Longrightarrow> no_colon (pj_unit q) \<Longrightarrow> pj_workspace q = w \<Longrightarrow>
    project_assessment env c q db = Inr (db', res) \<Longrightarrow> workspace_step env w db db'"
| recomputed_in: "no_colon user \<Longrightarrow> no_colon u \<Longrightarrow> owned_by db i user u w \<Longrightarrow>
    recompute_mastery env now user u w i db = Inr (db', m) \<Longrightarrow> workspace_step env w db db'"
| aggregated_in: "no_colon user \<Longrightarrow> no_colon w \<Longrightarrow>
    current_state env user w units created db = Inr (db', st) \<Longrightarrow> workspace_step env w db db'"
| diagnosed_in: "no_colon (t1_user a) \<Longrightarrow> no_colon u \<Longrightarrow> no_colon w \<Longrightarrow>
    project_diagnostic env c r a u w event difficulty correlation units created db = Inr (db', d) \<Longrightarrow> workspace_step env w db db'"

text \<open>What the streams of another workspace see of a step: nothing.\<close>

definition same_streams :: "uuid \<Rightarrow> learner_db \<Rightarrow> learner_db \<Rightarrow> bool" where
  "same_streams w' db db' \<longleftrightarrow> (\<forall>user u. list_evidence db' user u w' = list_evidence db user u w' \<and>
     mastery_stream db' user u w' = mastery_stream db user u w' \<and> state_stream db' user w' = state_stream db user w')"

lemma same_streams_trans: "same_streams w db1 db2 \<Longrightarrow> same_streams w db2 db3 \<Longrightarrow> same_streams w db1 db3"
  by (simp add: same_streams_def)

lemma project_assessment_elsewhere:
  assumes "uuid_env env" and "learner_ok env db"
    and "no_colon (t1_user (pj_attempt q))" "no_colon (pj_unit q)"
    and "project_assessment env c q db = Inr (db', res)" and "w' \<noteq> pj_workspace q"
  shows "same_streams w' db db'"
  using project_assessment_facts(2,3) [OF assms(1-5)] assms(6) by (simp add: same_streams_def state_stream_def)

lemma recompute_elsewhere:
  assumes "uuid_env env" and "learner_ok env db" and "no_colon user" "no_colon u" and "owned_by db i user u w"
    and "recompute_mastery env now user u w i db = Inr (db', m)" and "w' \<noteq> w"
  shows "same_streams w' db db'"
  using recompute_facts [OF assms(1-6)] assms(7) by (simp add: same_streams_def state_stream_def)

lemma current_state_elsewhere:
  assumes env: "uuid_env env" and wf: "states_wf env db" and pl: "no_colon user" "no_colon w"
    and s: "current_state env user w units created db = Inr (db', st)" and w: "w' \<noteq> w"
  shows "same_streams w' db db'"
proof (cases "db' = db")
  case False
  obtain x where "ensure_state env user w (list_all_latest_mastery db user w) created db = Inr (db', x)"
    using s by (auto simp: current_state_def Let_def res_simps)
  with False have "save_learner_state db (project_state env user w (list_all_latest_mastery db user w)
      (next_learner_state_version db user w)
      (sum_list (map (int \<circ> mm_evidence_count) (list_all_latest_mastery db user w))) created) w = Inr (db', x)"
    by (auto simp: ensure_state_def Let_def split: option.splits if_splits)
  from save_state_facts [OF env wf pl refl this] w show ?thesis
    by (auto simp: same_streams_def list_evidence_def mastery_stream_def)
qed (simp add: same_streams_def)

lemma diagnostic_parts:
  assumes "project_diagnostic env c r a u w event difficulty correlation units created db = Inr (db', d)"
  obtains db1 m st where "db1 = db \<or> project_assessment env c (diagnostic_request r a u w event difficulty correlation) db = Inr (db1, m)"
    and "current_state env (t1_user a) w units created db1 = Inr (db', st)"
  using assms that by (auto simp: project_diagnostic_def res_simps split: option.splits)

lemma workspace_step_parts:
  assumes "workspace_step env w db db'" and env: "uuid_env env" and ok: "learner_ok env db" "states_wf env db"
    and w: "w' \<noteq> w"
  shows "learner_ok env db' \<and> states_wf env db' \<and> same_streams w' db db'"
  using assms(1)
proof cases
  case (projected_in q c res)
  from learner_step_ok [OF learner_step.projected [OF projected_in(1,2,4)] env ok]
    project_assessment_elsewhere [OF env ok(1) projected_in(1,2,4)] projected_in(3) w show ?thesis by blast
next
  case (recomputed_in user u i now m)
  from learner_step_ok [OF learner_step.recomputed [OF recomputed_in] env ok]
    recompute_elsewhere [OF env ok(1) recomputed_in w] show ?thesis by blast
next
  case (aggregated_in user units created st)
  from learner_step_ok [OF learner_step.aggregated [OF aggregated_in] env ok]
    current_state_elsewhere [OF env ok(2) aggregated_in w] show ?thesis by blast
next
  case (diagnosed_in a u c r event difficulty correlation units created d)
  let ?q = "diagnostic_request r a u w event difficulty correlation"
  have q: "pj_attempt ?q = a" "pj_unit ?q = u" "pj_workspace ?q = w" by (simp_all add: diagnostic_request_def)
  obtain db1 m st where p: "db1 = db \<or> project_assessment env c ?q db = Inr (db1, m)"
    and s: "current_state env (t1_user a) w units created db1 = Inr (db', st)"
    using diagnosed_in(4) by (rule diagnostic_parts) (rule that)
  have 1: "learner_ok env db1 \<and> states_wf env db1 \<and> same_streams w' db db1"
    using p
  proof
    assume "db1 = db"
    with ok show ?thesis by (simp add: same_streams_def)
  next
    assume p: "project_assessment env c ?q db = Inr (db1, m)"
    from learner_step_ok [OF learner_step.projected [OF _ _ p] env ok]
      project_assessment_elsewhere [OF env ok(1) _ _ p] diagnosed_in(1,2) w show ?thesis by (simp add: q)
  qed
  then have ok1: "learner_ok env db1" "states_wf env db1" by auto
  from learner_step_ok [OF learner_step.aggregated [OF diagnosed_in(1,3) s] env ok1]
    current_state_elsewhere [OF env ok1(2) diagnosed_in(1,3) s w] 1 show ?thesis
    by (blast intro: same_streams_trans)
qed

text \<open>C15: However often one workspace projects assessments and diagnostics, invalidates
  evidence and recomputes its stream, and asks for its aggregate states, the valid evidence, the mastery
  versions and the learner states of every other workspace stay as they are, for every learner and unit.\<close>

theorem workspace_isolation:
  assumes "uuid_env env" and "(learner_step env)\<^sup>*\<^sup>* empty_learner db"
    and "(workspace_step env w)\<^sup>*\<^sup>* db db'" and "w' \<noteq> w"
  shows "list_evidence db' user u w' = list_evidence db user u w' \<and>
    mastery_stream db' user u w' = mastery_stream db user u w' \<and>
    state_stream db' user w' = state_stream db user w'"
proof -
  from learner_reach_ok [OF assms(2,1)] have ok: "learner_ok env db" "states_wf env db" by auto
  from assms(3) have "learner_ok env db' \<and> states_wf env db' \<and> same_streams w' db db'"
  proof (induction rule: rtranclp_induct)
    case base
    with ok show ?case by (simp add: same_streams_def)
  next
    case (step db1 db2)
    with workspace_step_parts [OF step.hyps(2) assms(1) _ _ assms(4)] show ?case
      by (blast intro: same_streams_trans)
  qed
  then show ?thesis by (simp add: same_streams_def)
qed

text \<open>The aggregate learner state lists exactly the latest mastery of every unit of the
  workspace, is the latest state once it is returned, and asking again, at whatever time and for
  whatever units, returns the same state and writes nothing.\<close>

theorem state_stable:
  assumes "uuid_env env" and "(learner_step env)\<^sup>*\<^sup>* empty_learner db" and "no_colon user" and "no_colon w"
    and "current_state env user w units created db = Inr (db', s, ms)"
  shows "latest_learner_state db' user w = Some s \<and>
    (\<forall>i. i \<in> set (ls_estimate_ids s) \<longleftrightarrow> (\<exists>m. mm_id m = i \<and> latest_mastery db user (mm_unit m) w = Some m)) \<and>
    (\<exists>ms'. current_state env user w units' created' db' = Inr (db', s, ms'))"
proof -
  from learner_reach_ok [OF assms(2,1)] have wf: "states_wf env db" by auto
  note f = current_state_facts [OF assms(1) wf assms(3,4,5)]
  then obtain ss where ss: "db' = db\<lparr>ln_states := ss\<rparr>" by blast
  have l: "list_all_latest_mastery db' user w = list_all_latest_mastery db user w"
    by (simp add: ss list_all_latest_mastery_def workspace_mastery_def)
  have "map mm_id (sort_key mm_unit (list_all_latest_mastery db' user w)) = ls_estimate_ids s"
    unfolding l using f latest_per_unit_order by (simp add: list_all_latest_mastery_def sort_key_id_if_sorted)
  then have "current_state env user w units' created' db' =
      Inr (db', s, filter (\<lambda>m. mm_unit m \<in> set units') (list_all_latest_mastery db' user w))"
    using f by (simp add: current_state_def ensure_state_def Let_def)
  moreover have "i \<in> set (ls_estimate_ids s) \<longleftrightarrow> (\<exists>m. mm_id m = i \<and> latest_mastery db user (mm_unit m) w = Some m)" for i
  proof -
    have "i \<in> set (ls_estimate_ids s) \<longleftrightarrow> (\<exists>m \<in> set (list_all_latest_mastery db user w). mm_id m = i)" using f by auto
    then show ?thesis by (auto simp: latest_mastery_listed)
  qed
  ultimately show ?thesis using f by blast
qed

section \<open>Where the records fall short\<close>

text \<open>After an invalidation a redelivery is not idempotent: the row of the evidence is still found, its
  id is no longer a source, and every redelivery appends one more version.\<close>

lemma redelivery_after_invalidation:
  assumes env: "uuid_env env" and r: "(learner_step env)\<^sup>*\<^sup>* empty_learner db"
    and x: "x \<in> set (ln_evidence db)" "vx_result x = r1_id (pj_result q)" "vx_user x = t1_user (pj_attempt q)"
      "vx_unit x = pj_unit q" "vx_workspace x = pj_workspace q" "vx_body x = EvidenceAccepted y" "vx_invalidated x = Some t"
    and pl: "no_colon (t1_user (pj_attempt q))" "no_colon (pj_unit q)"
    and ne: "list_evidence db (t1_user (pj_attempt q)) (pj_unit q) (pj_workspace q) \<noteq> []"
    and p: "project_assessment env c q db = Inr (db', Some m)"
  shows "mm_version m = next_version db (t1_user (pj_attempt q)) (pj_unit q) (pj_workspace q) \<and>
    latest_mastery db' (t1_user (pj_attempt q)) (pj_unit q) (pj_workspace q) = Some m"
proof -
  let ?u = "t1_user (pj_attempt q)" and ?k = "pj_unit q" and ?w = "pj_workspace q" and ?r = "r1_id (pj_result q)"
  from learner_reach_ok [OF r env] have ok: "learner_ok env db" "evidence_wf db" "mastery_wf env db"
    by (auto simp: learner_ok_def)
  have uniq: "z = x" if "z \<in> set (ln_evidence db)" "vx_result z = ?r" "vx_workspace z = ?w" for z
    using that x ok(2) by (auto simp: evidence_wf_def distinct_map intro!: inj_onD [of "\<lambda>x. (vx_workspace x, vx_result x)"])
  from learner_truth_core [OF env r ne] obtain n where n: "latest_mastery db ?u ?k ?w = Some n"
    "\<forall>s. s \<in> set (mm_sources n) \<longleftrightarrow> (\<exists>x \<in> set (ln_evidence db). vx_id x = s \<and> counted_row ?u ?k ?w x)" by blast
  have "vx_id x \<notin> set (mm_sources n)"
  proof
    assume "vx_id x \<in> set (mm_sources n)"
    with n obtain z where z: "z \<in> set (ln_evidence db)" "vx_id z = vx_id x" "counted_row ?u ?k ?w z" by blast
    with x(1) ok(2) have "z = x" by (auto simp: evidence_wf_def distinct_map intro!: inj_onD [of vx_id])
    with z x(7) show False by (simp add: counted_row_def)
  qed
  then have none: "mastery_for_source_result db ?r ?u ?k ?w = None"
    using n(1) uniq by (auto simp: mastery_for_source_result_def split: option.splits dest!: find_mem)
  have found: "evidence_of_result db ?r ?w = Some x"
  proof (cases "evidence_of_result db ?r ?w")
    case None with x show ?thesis by (auto simp: evidence_of_result_def find_None_iff)
  next
    case (Some z)
    with uniq show ?thesis by (auto simp: evidence_of_result_def dest!: find_mem)
  qed
  from p none obtain e db1 z db2 tk where s: "decide_eligibility_v1 env (pj_result q) (pj_attempt q) ?k (pj_dimension q) (pj_novelty q)
      (pj_delay q) (pj_events q) (pj_difficulty q) = Inr (Inr e)"
    "save_evidence db e ?w (ca_now c) = Inr (db1, z)" "project_stream env db1 (e1_user z) (e1_unit z) ?w = Inr (db2, m)"
    "db' = db2\<lparr>ln_outbox := tk\<rparr>"
    by (fastforce simp: project_assessment_def Let_def res_simps learner_enqueue_Inr split: sum.splits)
  have "db1 = db" "z = y" using s(2) eligible_fields [OF s(1)] found x(6) by (auto simp: save_evidence_def)
  moreover have "e1_user y = ?u" "e1_unit y = ?k" using ok(2) x by (auto simp: evidence_wf_def)
  ultimately have "project_stream env db ?u ?k ?w = Inr (db2, m)" using s(3) by simp
  from project_stream_facts [OF env ok(2,3) pl this] ne s(4) show ?thesis by (auto simp: latest_mastery_def mastery_stream_def)
qed

text \<open>The id of an estimate does not name the workspace. When the last valid evidence of a stream goes and
  another workspace already holds the estimate without evidence of the same learner, unit and version,
  the recomputation finds that row, writes nothing, and the stream keeps the mastery that cites the
  invalidated evidence.\<close>

lemma recomputation_collides:
  assumes env: "uuid_env env" and r: "(learner_step env)\<^sup>*\<^sup>* empty_learner db"
    and o: "owned_by db i user u w" and only: "\<And>e. e \<in> set (list_evidence db user u w) \<Longrightarrow> e1_id e = i"
    and y: "y \<in> set (ln_mastery db)" "mm_user (mx_estimate y) = user" "mm_unit (mx_estimate y) = u"
      "mm_sources (mx_estimate y) = []" "mm_version (mx_estimate y) = next_version db user u w"
    and p: "recompute_mastery env now user u w i db = Inr (db', m)"
  shows "ln_mastery db' = ln_mastery db \<and> list_evidence db' user u w = [] \<and>
    latest_mastery db' user u w = latest_mastery db user u w"
proof -
  from learner_reach_ok [OF r env] have ok: "evidence_wf db" "mastery_wf env db" by (auto simp: learner_ok_def)
  from p obtain db1 where inv: "invalidate_evidence db i w now = Inr db1" and s: "project_stream env db1 user u w = Inr (db', m)"
    by (auto simp: recompute_mastery_def res_simps)
  note f = invalidate_facts [OF ok o inv]
  have ln: "ln_mastery db1 = ln_mastery db" using f by auto
  have v: "next_version db1 user u w = next_version db user u w" using f by (simp add: next_version_def)
  have "list_evidence db1 user u w = []"
  proof (rule ccontr)
    assume "list_evidence db1 user u w \<noteq> []"
    then obtain e where e: "e \<in> set (list_evidence db1 user u w)" by fastforce
    then obtain z where z: "z \<in> set (ln_evidence db1)" "counted_row user u w z" "vx_body z = EvidenceAccepted e"
      by (auto simp: list_evidence_set)
    from inv z(1) have "z \<in> set (ln_evidence db) \<or> vx_invalidated z = Some now"
      by (auto simp: invalidate_evidence_def split: if_splits)
    with z(2) have "z \<in> set (ln_evidence db)" by (auto simp: counted_row_def)
    with z(2,3) have "e \<in> set (list_evidence db user u w)" by (auto simp: list_evidence_set)
    with only f e show False by blast
  qed
  note l = this
  from s l obtain n where n: "project_mastery env user u [] (next_version db user u w) {} = Inr n"
    and sv: "save_mastery db1 n w = Inr (db', m)" by (auto simp: project_stream_def v split: sum.splits)
  have "mm_id (mx_estimate y) = mm_id n"
    using ok(2) y project_mastery_id [OF n] by (simp add: mastery_wf_def estimate_id_def)
  then have "find (\<lambda>x. mm_id (mx_estimate x) = mm_id n) (ln_mastery db1) \<noteq> None"
    using y(1) ln by (auto simp: find_None_iff)
  with sv have "db' = db1" by (auto simp: save_mastery_def split: if_splits)
  with l ln f show ?thesis by (simp add: latest_mastery_def)
qed

section \<open>Witnesses\<close>

text \<open>An environment whose UUIDs are injective and free of colons.\<close>

fun hex_char :: "char \<Rightarrow> string" where
  "hex_char c = [char_of (65 + (of_char c :: nat) div 16), char_of (65 + (of_char c :: nat) mod 16)]"

fun hex_encode :: "string \<Rightarrow> string" where
  "hex_encode [] = []"
| "hex_encode (c # s) = hex_char c @ hex_encode s"

definition hex_env :: pyenv where
  "hex_env = \<lparr>uuid5 = hex_encode, repr_of = (\<lambda>_. []), fromisoformat = (\<lambda>_. None)\<rparr>"

lemma hex_char_inj: "hex_char c = hex_char d \<Longrightarrow> c = d"
proof -
  let ?c = "of_char c :: nat" and ?d = "of_char d :: nat"
  assume "hex_char c = hex_char d"
  then have "(char_of (65 + ?c div 16) :: char) = char_of (65 + ?d div 16)" "(char_of (65 + ?c mod 16) :: char) = char_of (65 + ?d mod 16)"
    by auto
  then have e: "(65 + ?c div 16) mod 256 = (65 + ?d div 16) mod 256" "(65 + ?c mod 16) mod 256 = (65 + ?d mod 16) mod 256"
    by (metis of_char_of)+
  have b: "?c < 256" "?d < 256" by (metis of_char_eqI of_char_of mod_less_divisor zero_less_numeral char_of_char)+
  then have "?c div 16 < 16" "?d div 16 < 16" by (simp_all add: less_mult_imp_div_less)
  moreover have "?c mod 16 < 16" "?d mod 16 < 16" by simp_all
  ultimately have "?c div 16 = ?d div 16" "?c mod 16 = ?d mod 16" using e by simp_all
  then have "?c = ?d" by (metis div_mult_mod_eq)
  then show ?thesis by simp
qed

lemma hex_encode_inj: "hex_encode s = hex_encode t \<Longrightarrow> s = t"
proof (induction s arbitrary: t)
  case Nil then show ?case by (cases t) auto
next
  case (Cons c s)
  then obtain d t' where t: "t = d # t'" by (cases t) auto
  with Cons.prems have "hex_char c = hex_char d" "hex_encode s = hex_encode t'" by auto
  with Cons.IH t hex_char_inj show ?case by blast
qed

lemma hex_plain: "no_colon (hex_encode s)"
proof (induction s)
  case (Cons c s)
  have "(char_of n :: char) \<noteq> CHR '':''" if "65 \<le> n" "n < 256" for n :: nat
  proof
    assume "(char_of n :: char) = CHR '':''"
    then have "(of_char (char_of n :: char) :: nat) = of_char (CHR '':'')" by simp
    with that show False by simp
  qed
  note ne = this
  have "(of_char c :: nat) < 256" by (metis of_char_of mod_less_divisor zero_less_numeral char_of_char)
  then have "(of_char c :: nat) div 16 < 16" by (simp add: less_mult_imp_div_less)
  then have "(char_of (65 + (of_char c :: nat) div 16) :: char) \<noteq> CHR '':''" by (intro ne) auto
  moreover have "(of_char c :: nat) mod 16 < 16" by simp
  then have "(char_of (65 + (of_char c :: nat) mod 16) :: char) \<noteq> CHR '':''" by (intro ne) auto
  ultimately show ?case using Cons by (auto simp: no_colon_def)
qed (simp add: no_colon_def)

lemma hex_uuid: "uuid_env hex_env"
  using hex_encode_inj hex_plain by (auto simp: uuid_env_def hex_env_def inj_def)

definition quiz_result :: result_v1 where
  "quiz_result = \<lparr>r1_id = ''r1'', r1_version = 1, r1_attempt = ''t1'', r1_item = ''i1'', r1_item_version = ''1'', r1_score = 1,
     r1_passed = Some True, r1_correctness = CORRECT, r1_rubric = [], r1_error_type = None, r1_misconceptions = [],
     r1_independence = IND_INDEPENDENT, r1_confidence = 1, r1_evaluators = [''exact''], r1_reason_codes = [],
     r1_reviewer = ACCEPTED, r1_created = 7, r1_supersedes = None\<rparr>"

definition quiz_attempt :: attempt_v1 where
  "quiz_attempt = \<lparr>t1_id = ''t1'', t1_user = ''ann'', t1_item = ''i1'', t1_item_version = ''1'', t1_raw = VStr ''x'',
     t1_normalized = ''x'', t1_revisions = [], t1_assistance = unaided 1, t1_status = SCORED, t1_submitted = 6,
     t1_idempotency_key = ''k''\<rparr>"

definition quiz_request :: projection_request where
  "quiz_request = diagnostic_request quiz_result quiz_attempt ''unit'' ''w'' ''ev'' None ''c''"

definition quiz_call :: call where "quiz_call = \<lparr>ca_now = 9, ca_task = ''task''\<rparr>"

definition quiz_evidence :: evidence_v1 where
  "quiz_evidence = make_evidence_v1 hex_env quiz_result quiz_attempt ''unit'' ROUTINE_APPLICATION FAR_VARIANT 0 [''ev''] None"

lemma quiz_weight: "0 \<le> e1_weight quiz_evidence"
  by (simp add: quiz_evidence_def make_evidence_v1_def quiz_result_def fmul_def)

lemma quiz_eligible:
  "decide_eligibility_v1 hex_env quiz_result quiz_attempt ''unit'' ROUTINE_APPLICATION FAR_VARIANT 0 [''ev''] None = Inr (Inr quiz_evidence)"
  using quiz_weight
  by (simp add: decide_eligibility_v1_def quiz_evidence_def [symmetric] valid_evidence_v1_def unit_range_def)
    (simp add: quiz_result_def quiz_attempt_def quiz_evidence_def make_evidence_v1_def)

definition quiz_row :: evidence_row where "quiz_row = evidence_row_of quiz_evidence ''r1'' ''w'' 9"

lemma quiz_fields: "e1_user quiz_evidence = ''ann''" "e1_unit quiz_evidence = ''unit''" "e1_result quiz_evidence = Some ''r1''"
  by (simp_all add: quiz_evidence_def make_evidence_v1_def quiz_result_def quiz_attempt_def)

lemma quiz_counted: "counted_row ''ann'' ''unit'' ''w'' quiz_row"
  by (simp add: counted_row_def quiz_row_def evidence_row_of_def quiz_fields)

lemma quiz_projected:
  "\<exists>db m. project_assessment hex_env quiz_call quiz_request empty_learner = Inr (db, Some m) \<and>
     (learner_step hex_env)\<^sup>*\<^sup>* empty_learner db \<and> ln_evidence db = [quiz_row]"
proof -
  let ?db1 = "empty_learner\<lparr>ln_evidence := [quiz_row]\<rparr>"
  have q: "pj_result quiz_request = quiz_result" "pj_attempt quiz_request = quiz_attempt" "pj_unit quiz_request = ''unit''"
    "pj_workspace quiz_request = ''w''" "pj_dimension quiz_request = ROUTINE_APPLICATION" "pj_novelty quiz_request = FAR_VARIANT"
    "pj_delay quiz_request = 0" "pj_events quiz_request = [''ev'']" "pj_difficulty quiz_request = None"
    by (simp_all add: quiz_request_def diagnostic_request_def)
  have none: "mastery_for_source_result empty_learner (r1_id quiz_result) (t1_user quiz_attempt) ''unit'' ''w'' = None"
    by (simp add: mastery_for_source_result_def empty_learner_def)
  have save: "save_evidence empty_learner quiz_evidence ''w'' (ca_now quiz_call) = Inr (?db1, quiz_evidence)"
    by (simp add: save_evidence_def quiz_fields evidence_of_result_def insert_evidence_def empty_learner_def quiz_row_def quiz_call_def)
  have l: "list_evidence ?db1 ''ann'' ''unit'' ''w'' = [quiz_evidence]"
    using quiz_counted by (simp add: list_evidence_def List.map_filter_simps quiz_row_def evidence_row_of_def)
  have v: "next_version ?db1 ''ann'' ''unit'' ''w'' = 1"
    by (simp add: next_version_def mastery_stream_def empty_learner_def version_after_def)
  have "\<forall>e \<in> set (map Legacy [quiz_evidence]). 0 \<le> ev_weight e" using quiz_weight by simp
  from project_total [OF this, of 1 hex_env "''ann''" "''unit''" "{}"] obtain m where
    m: "project_mastery hex_env ''ann'' ''unit'' (map Legacy [quiz_evidence]) 1 {} = Inr m" by auto
  let ?db2 = "?db1\<lparr>ln_mastery := [\<lparr>mx_workspace = ''w'', mx_estimate = m\<rparr>]\<rparr>"
  have "save_mastery ?db1 m ''w'' = Inr (?db2, m)"
    by (simp add: save_mastery_def empty_learner_def mastery_stream_def)
  then have ps: "project_stream hex_env ?db1 (e1_user quiz_evidence) (e1_unit quiz_evidence) ''w'' = Inr (?db2, m)"
    using l v m by (simp add: project_stream_def quiz_fields)
  obtain t where t: "learner_enqueue quiz_call (mastery_task m (pj_correlation quiz_request)) ?db2 = Inr (?db2\<lparr>ln_outbox := t\<rparr>)"
    by (simp add: learner_enqueue_def enqueue_def insert_row_def task_by_key_def mastery_task_def empty_learner_def)
  have p: "project_assessment hex_env quiz_call quiz_request empty_learner = Inr (?db2\<lparr>ln_outbox := t\<rparr>, Some m)"
    unfolding project_assessment_def Let_def q none quiz_eligible option.case sum.case save bind_res.simps prod.case ps t ..
  have "no_colon (t1_user (pj_attempt quiz_request))" "no_colon (pj_unit quiz_request)"
    by (simp_all add: q quiz_attempt_def no_colon_def)
  from learner_step.projected [OF this p] p show ?thesis by (intro exI [of _ "?db2\<lparr>ln_outbox := t\<rparr>"] exI [of _ m]) simp
qed

theorem learner_truth_witness:
  "\<exists>db m. latest_mastery db ''ann'' ''unit'' ''w'' = Some m \<and> mm_version m = int (length (mastery_stream db ''ann'' ''unit'' ''w'')) \<and>
     vx_id quiz_row \<in> set (mm_sources m)"
proof -
  from quiz_projected obtain db where r: "(learner_step hex_env)\<^sup>*\<^sup>* empty_learner db" "ln_evidence db = [quiz_row]" by blast
  have "list_evidence db ''ann'' ''unit'' ''w'' = [quiz_evidence]"
    using r(2) quiz_counted by (simp add: list_evidence_def List.map_filter_simps quiz_row_def evidence_row_of_def)
  then have "list_evidence db ''ann'' ''unit'' ''w'' \<noteq> []" by simp
  from learner_truth [OF hex_uuid r(1) this] r(2) quiz_counted show ?thesis by auto
qed

theorem result_projected_once_witness:
  "\<exists>db m. ln_evidence db = [quiz_row] \<and> project_assessment hex_env quiz_call quiz_request db = Inr (db, Some m)"
proof -
  from quiz_projected obtain db where r: "(learner_step hex_env)\<^sup>*\<^sup>* empty_learner db" "ln_evidence db = [quiz_row]" by blast
  have x: "quiz_row \<in> set (ln_evidence db)" using r(2) by simp
  have c: "counted_row (t1_user (pj_attempt quiz_request)) (pj_unit quiz_request) (pj_workspace quiz_request) quiz_row"
    using quiz_counted by (simp add: quiz_request_def diagnostic_request_def quiz_attempt_def)
  have "r1_id (pj_result quiz_request) = vx_result quiz_row"
    by (simp add: quiz_request_def diagnostic_request_def quiz_result_def quiz_row_def evidence_row_of_def)
  from result_projected_once [OF hex_uuid r(1) x c this] r(2) show ?thesis by blast
qed

lemma first_state_returned:
  assumes "ln_states db = []"
  shows "\<exists>db' s ms. current_state env user w units created db = Inr (db', s, ms)"
proof -
  have "latest_learner_state db user w = None" using assms by (simp add: latest_learner_state_def state_stream_def)
  then show ?thesis using assms by (simp add: current_state_def ensure_state_def Let_def save_learner_state_def)
qed

theorem state_stable_witness:
  "\<exists>db s ms ms'. current_state hex_env ''ann'' ''w'' [] 0 empty_learner = Inr (db, s, ms) \<and>
     current_state hex_env ''ann'' ''w'' [''unit''] 5 db = Inr (db, s, ms')"
proof -
  from first_state_returned [of empty_learner hex_env "''ann''" "''w''" "[]" 0] obtain db s ms where
    s: "current_state hex_env ''ann'' ''w'' [] 0 empty_learner = Inr (db, s, ms)" by (auto simp: empty_learner_def)
  have pl: "no_colon ''ann''" "no_colon ''w''" by (simp_all add: no_colon_def)
  from state_stable [OF hex_uuid rtranclp.rtrancl_refl pl s, of "[''unit'']" 5] s show ?thesis by blast
qed

theorem workspace_isolation_witness:
  "\<exists>db m s ms. project_diagnostic hex_env quiz_call quiz_result quiz_attempt ''unit'' ''w'' ''ev'' None ''c'' [] 0 empty_learner = Inr (db, m, s, ms) \<and>
     mastery_stream db ''ann'' ''unit'' ''v'' = []"
proof -
  from quiz_projected obtain db1 m where p: "project_assessment hex_env quiz_call quiz_request empty_learner = Inr (db1, Some m)"
    and r: "(learner_step hex_env)\<^sup>*\<^sup>* empty_learner db1" by blast
  have pl: "no_colon (t1_user quiz_attempt)" "no_colon ''unit''" "no_colon ''w''" by (simp_all add: no_colon_def quiz_attempt_def)
  have "ln_states db1 = []"
    using project_assessment_facts(3) [OF hex_uuid _ _ _ p] learner_reach_ok [OF rtranclp.rtrancl_refl hex_uuid] pl
    by (simp add: quiz_request_def diagnostic_request_def empty_learner_def)
  from first_state_returned [OF this] obtain db s ms where
    c: "current_state hex_env (t1_user quiz_attempt) ''w'' [] 0 db1 = Inr (db, s, ms)" by blast
  have "mastery_for_source_result empty_learner (r1_id quiz_result) (t1_user quiz_attempt) ''unit'' ''w'' = None"
    by (simp add: mastery_for_source_result_def empty_learner_def)
  with p c have d: "project_diagnostic hex_env quiz_call quiz_result quiz_attempt ''unit'' ''w'' ''ev'' None ''c'' [] 0 empty_learner
      = Inr (db, Some m, s, ms)"
    by (simp add: project_diagnostic_def quiz_request_def)
  have w: "''v'' \<noteq> ''w''" by simp
  have "(workspace_step hex_env ''w'')\<^sup>*\<^sup>* empty_learner db"
    by (rule r_into_rtranclp, rule workspace_step.diagnosed_in [OF pl d])
  from workspace_isolation [OF hex_uuid rtranclp.rtrancl_refl this w, of "''ann''" "''unit''"] d
  show ?thesis by (auto simp: mastery_stream_def empty_learner_def)
qed

end
