(* ===== verification/PlanFlow.thy ===== *)
theory PlanFlow
  imports ReviewFlow
begin

text \<open>
  What \<open>ReviewPlanningApplication.generate_plan\<close> keeps of the plan tables: one open plan per goal, the
  one of the highest version, and one plan per idempotency key.
\<close>

section \<open>The invariant of the plan table\<close>

text \<open>An open plan has the highest version of its goal, and a plan's id is the name of its goal.\<close>

definition plan_rows_ok :: "pyenv \<Rightarrow> plan_row list \<Rightarrow> bool" where
  "plan_rows_ok env rows \<longleftrightarrow>
     list_all (\<lambda>r. lp_id (pr_plan r) = uuid5 env (''askora:learning-plan:'' @ lp_goal (pr_plan r))) rows \<and>
     distinct (map (\<lambda>r. (lp_id (pr_plan r), lp_version (pr_plan r))) rows) \<and>
     (\<forall>r \<in> set rows. \<forall>x \<in> set rows. open_plan (lp_goal (pr_plan r)) r \<longrightarrow> lp_goal (pr_plan x) = lp_goal (pr_plan r) \<longrightarrow>
        lp_version (pr_plan x) \<le> lp_version (pr_plan r))"

definition plans_ok :: "pyenv \<Rightarrow> planning_db \<Rightarrow> bool" where
  "plans_ok env db \<longleftrightarrow> inj (uuid5 env) \<and> plan_rows_ok env (tp_plans (db_plans db))"

lemma map_pr_plan_supersede [simp]: "map pr_plan (supersede rows p) = map pr_plan rows"
  by (auto simp: supersede_def split: option.splits)

lemma map_pr_key_supersede [simp]: "map pr_key (supersede rows p) = map pr_key rows"
  by (auto simp: supersede_def split: option.splits)

lemma supersede_row:
  assumes "r \<in> set (supersede rows p)"
  shows "\<exists>x \<in> set rows. pr_plan r = pr_plan x \<and> pr_key r = pr_key x \<and> (r = x \<or> pr_status r = PLAN_SUPERSEDED)"
  using assms by (auto simp: supersede_def split: option.splits if_splits)

lemma supersede_set_plans: "pr_plan ` set (supersede rows p) = pr_plan ` set rows"
  using map_pr_plan_supersede by (metis list.set_map)

lemma supersede_ok: "plan_rows_ok env rows \<Longrightarrow> plan_rows_ok env (supersede rows p)"
proof -
  assume ok: "plan_rows_ok env rows"
  have ids: "list_all (\<lambda>r. lp_id (pr_plan r) = uuid5 env (''askora:learning-plan:'' @ lp_goal (pr_plan r))) (supersede rows p)"
    using ok by (auto simp: plan_rows_ok_def list_all_iff dest!: supersede_row)
  have "map (\<lambda>q. (lp_id q, lp_version q)) (map pr_plan (supersede rows p)) = map (\<lambda>q. (lp_id q, lp_version q)) (map pr_plan rows)"
    by (simp only: map_pr_plan_supersede)
  then have "map (\<lambda>r. (lp_id (pr_plan r), lp_version (pr_plan r))) (supersede rows p)
      = map (\<lambda>r. (lp_id (pr_plan r), lp_version (pr_plan r))) rows" unfolding map_map comp_def .
  then have d: "distinct (map (\<lambda>r. (lp_id (pr_plan r), lp_version (pr_plan r))) (supersede rows p))"
    using ok by (simp add: plan_rows_ok_def)
  have "lp_version (pr_plan x) \<le> lp_version (pr_plan r)"
    if "r \<in> set (supersede rows p)" "x \<in> set (supersede rows p)" "open_plan (lp_goal (pr_plan r)) r"
      "lp_goal (pr_plan x) = lp_goal (pr_plan r)" for r x
  proof -
    note m = that
    have "r \<in> set rows" using supersede_row [OF m(1)] m(3) by (auto simp: open_plan_def)
    moreover obtain x' where "x' \<in> set rows" "pr_plan x = pr_plan x'" using supersede_row [OF m(2)] by blast
    ultimately show ?thesis using ok m(3,4) by (auto simp: plan_rows_ok_def)
  qed
  with ids d show ?thesis by (simp add: plan_rows_ok_def)
qed

text \<open>A plan of the next version leaves no other plan of its goal open.\<close>

lemma supersede_closes:
  assumes ok: "plan_rows_ok env rows" and v: "lp_version p = next_plan_version rows (lp_goal p)"
    and r: "r \<in> set (supersede rows p)"
  shows "\<not> open_plan (lp_goal p) r"
proof
  assume o: "open_plan (lp_goal p) r"
  obtain x where x: "x \<in> set rows" "pr_plan r = pr_plan x" "r = x"
    using supersede_row [OF r] o by (auto simp: open_plan_def)
  let ?open = "filter (open_plan (lp_goal p)) rows"
  have "x \<in> set ?open" using x o by simp
  then obtain old where old: "latest_by (lp_version \<circ> pr_plan) ?open = Some old"
    by (cases "latest_by (lp_version \<circ> pr_plan) ?open") (auto simp: filter_empty_conv)
  note l = latest_by_Some [OF old]
  have "lp_version (pr_plan old) = lp_version (pr_plan x)"
  proof (rule antisym)
    show "lp_version (pr_plan x) \<le> lp_version (pr_plan old)" using l \<open>x \<in> set ?open\<close> by auto
    show "lp_version (pr_plan old) \<le> lp_version (pr_plan x)"
      using ok l x(1,3) o by (auto simp: plan_rows_ok_def open_plan_def)
  qed
  moreover have "lp_id (pr_plan old) = lp_id (pr_plan x)"
    using ok l x(1,3) o by (auto simp: plan_rows_ok_def open_plan_def list_all_iff)
  moreover have "lp_version (pr_plan old) < lp_version p"
    unfolding v next_plan_version_def using l version_after_above [of old _ "lp_version \<circ> pr_plan"]
    by (auto simp: open_plan_def)
  ultimately have "supersede rows p = map (\<lambda>r. if same_plan_row (pr_plan old) r
      then r\<lparr>pr_status := PLAN_SUPERSEDED, pr_superseded_by := Some (lp_version p)\<rparr> else r) rows"
    and "same_plan_row (pr_plan old) x"
    by (simp_all add: supersede_def old same_plan_row_def)
  with r x(3) have "pr_status r = PLAN_SUPERSEDED \<or> \<not> same_plan_row (pr_plan old) r" by (auto simp: same_plan_row_def)
  with \<open>same_plan_row (pr_plan old) x\<close> x(3) o show False by (simp add: open_plan_def)
qed

lemma next_plan_free:
  assumes "inj (uuid5 env)" and "plan_rows_ok env rows" and "lp_id p = uuid5 env (''askora:learning-plan:'' @ lp_goal p)"
    and "lp_version p = next_plan_version rows (lp_goal p)"
  shows "find (same_plan_row p) (supersede rows p) = None"
proof -
  have "\<not> same_plan_row p r" if "r \<in> set rows" for r
  proof
    assume s: "same_plan_row p r"
    have "lp_id (pr_plan r) = uuid5 env (''askora:learning-plan:'' @ lp_goal (pr_plan r))"
      using assms(2) that by (simp add: plan_rows_ok_def list_all_iff)
    with s assms(1,3) have "lp_goal (pr_plan r) = lp_goal p" by (auto simp: same_plan_row_def dest: injD)
    then have "lp_version (pr_plan r) < lp_version p"
      unfolding assms(4) next_plan_version_def using that version_after_above [of r _ "lp_version \<circ> pr_plan"] by auto
    with s show False by (simp add: same_plan_row_def)
  qed
  then show ?thesis using supersede_row by (fastforce simp: find_None_iff same_plan_row_def)
qed

lemma saved_rows_ok:
  assumes ok: "plan_rows_ok env rows" and i: "inj (uuid5 env)" and p: "lp_id p = uuid5 env (''askora:learning-plan:'' @ lp_goal p)"
    and v: "lp_version p = next_plan_version rows (lp_goal p)"
  shows "plan_rows_ok env (supersede rows p @ [plan_row_of p k])"
proof -
  let ?s = "supersede rows p"
  have s: "plan_rows_ok env ?s" using ok by (rule supersede_ok)
  have "find (same_plan_row p) ?s = None" using i ok p v by (rule next_plan_free)
  then have new: "\<forall>r \<in> set ?s. (lp_id (pr_plan r), lp_version (pr_plan r)) \<noteq> (lp_id p, lp_version p)"
    by (auto simp: find_None_iff same_plan_row_def)
  have above: "lp_version (pr_plan x) \<le> lp_version p" if "x \<in> set ?s" "lp_goal (pr_plan x) = lp_goal p" for x
  proof -
    note x = that
    obtain y where "y \<in> set rows" "pr_plan x = pr_plan y" using supersede_row [OF x(1)] by blast
    with x(2) version_after_above [of y "filter (\<lambda>r. lp_goal (pr_plan r) = lp_goal p) rows" "lp_version \<circ> pr_plan"]
    show ?thesis by (simp add: v next_plan_version_def)
  qed
  have closed: "\<not> open_plan (lp_goal p) r" if "r \<in> set ?s" for r using ok v that by (rule supersede_closes)
  show ?thesis
    using s new above closed p by (auto simp: plan_rows_ok_def plan_row_of_def open_plan_def) 
qed

section \<open>The flow\<close>

lemma plan_port_simps [simp]:
  "pp_find (plan_tables_port env) db = find_plan_by_idempotency (tp_plans (db_plans db))"
  "pp_next (plan_tables_port env) db = next_plan_version (tp_plans (db_plans db))"
  "pp_save (plan_tables_port env) db d k now =
     map_sum id (\<lambda>(t, p). (db\<lparr>db_plans := t\<rparr>, p)) (save_plan env (db_plans db) d k now)"
  by (simp_all add: plan_tables_port_def)

lemma make_plan_fresh:
  assumes ok: "plans_ok env db" and none: "find_plan_by_idempotency (tp_plans (db_plans db)) (pq_key q) = None"
    and m: "make_plan_for env review_tables (plan_tables_port env) outbox_table c q db = Inr (db', p)"
  shows "tp_plans (db_plans db') = supersede (tp_plans (db_plans db)) p @ [plan_row_of p (pq_key q)] \<and>
    lp_id p = uuid5 env (''askora:learning-plan:'' @ lp_goal p) \<and> lp_goal p = cg_id (pq_goal q) \<and>
    lp_version p = next_plan_version (tp_plans (db_plans db)) (lp_goal p) \<and> lp_status p = PLAN_ACTIVE"
proof -
  let ?rows = "tp_plans (db_plans db)"
  let ?due = "map (\<lambda>s. project_due s (pq_at q)) (list_latest_for_user (db_schedules db) (pq_user q) (pq_workspace q))"
  let ?gen = "generate_plan env (pq_goal q) (pq_prerequisites q) (pq_mastery q) ?due (pq_budget q) (pq_learner_state q) (pq_graph q)
      (next_plan_version ?rows (cg_id (pq_goal q))) (pq_reasons q)"
  obtain d where d: "?gen = Inr d"
    using m none by (cases ?gen) (simp_all add: make_plan_for_def Let_def)
  obtain t p' where s: "save_plan env (db_plans db) d (pq_key q) (ca_now c) = Inr (t, p')"
  proof (cases "save_plan env (db_plans db) d (pq_key q) (ca_now c)")
    case (Inl e)
    with m none d show ?thesis by (simp add: make_plan_for_def Let_def)
  next
    case (Inr x)
    with that show ?thesis by (cases x) simp
  qed
  have o: "put_on_outbox outbox_table c (plan_task p' d (pq_correlation q)) (db\<lparr>db_plans := t\<rparr>) = Inr db'" and p: "p' = p"
    using m none d s by (auto simp: make_plan_for_def Let_def bind_res_Inr_iff)
  obtain x where "outbox_table (db\<lparr>db_plans := t\<rparr>) (ca_task c) (ca_now c) (plan_task p' d (pq_correlation q)) = Inr (db', x)"
    using o by (auto simp: put_on_outbox_def split: sum.splits prod.splits)
  from outbox_table_frame [OF this] have db': "db_plans db' = t" by auto
  obtain acts where plan: "pd_plan d = make_plan env (pq_goal q) ?due (pq_budget q) (pq_learner_state q) (pq_graph q)
      (next_plan_version ?rows (cg_id (pq_goal q))) (pq_reasons q) acts"
    using d by (rule generate_plan_elim) (rule that)
  then have facts: "lp_id (pd_plan d) = uuid5 env (''askora:learning-plan:'' @ lp_goal (pd_plan d))"
    "lp_goal (pd_plan d) = cg_id (pq_goal q)" "lp_status (pd_plan d) = PLAN_ACTIVE"
    "lp_version (pd_plan d) = next_plan_version ?rows (lp_goal (pd_plan d))"
    by (simp_all add: make_plan_def plan_identity_def)
  have "find (same_plan_row (pd_plan d)) (supersede ?rows (pd_plan d)) = None"
    using ok facts(1,4) by (intro next_plan_free) (auto simp: plans_ok_def)
  then have "tp_plans t = supersede ?rows (pd_plan d) @ [plan_row_of (pd_plan d) (pq_key q)]" "p' = pd_plan d"
    using s by (auto simp: save_plan_def Let_def split: if_splits)
  then show ?thesis using facts db' p by simp
qed

lemma plans_kept:
  assumes ok: "plans_ok env db" and m: "make_plan_for env review_tables (plan_tables_port env) outbox_table c q db = Inr (db', p)"
  shows "plans_ok env db' \<and> find_plan_by_idempotency (tp_plans (db_plans db')) (pq_key q) = Some p"
proof (cases "find_plan_by_idempotency (tp_plans (db_plans db)) (pq_key q)")
  case (Some p0)
  with m have "db' = db" "p = p0" by (simp_all add: make_plan_for_def)
  with ok Some show ?thesis by simp
next
  case None
  note f = make_plan_fresh [OF ok None m]
  let ?rows = "tp_plans (db_plans db)"
  have "plan_rows_ok env (tp_plans (db_plans db'))"
    using f ok saved_rows_ok [of env ?rows p "pq_key q"] by (auto simp: plans_ok_def)
  moreover have "find (\<lambda>r. pr_key r = pq_key q) (supersede ?rows p) = None"
    using None supersede_row by (fastforce simp: find_plan_by_idempotency_def find_None_iff)
  then have "find_plan_by_idempotency (tp_plans (db_plans db')) (pq_key q) = Some (to_plan (plan_row_of p (pq_key q)))"
    using f by (simp add: find_plan_by_idempotency_def find_snoc plan_row_of_def)
  then have "find_plan_by_idempotency (tp_plans (db_plans db')) (pq_key q) = Some p"
    using f by (simp add: to_plan_def plan_row_of_def)
  ultimately show ?thesis using ok by (simp add: plans_ok_def)
qed

lemma one_open:
  assumes "plan_rows_ok env rows"
  shows "length (filter (open_plan g) rows) \<le> 1"
proof -
  let ?k = "\<lambda>r. (lp_id (pr_plan r), lp_version (pr_plan r))"
  have same: "?k r = ?k x" if "r \<in> set rows" "x \<in> set rows" "open_plan g r" "open_plan g x" for r x
    using assms that by (auto simp: plan_rows_ok_def open_plan_def list_all_iff intro: antisym)
  have d: "distinct (map ?k (filter (open_plan g) rows))"
    using assms by (auto simp: plan_rows_ok_def intro: distinct_map_filter)
  show ?thesis
  proof (cases "filter (open_plan g) rows")
    case (Cons r rs)
    have m: "set (r # rs) = {x \<in> set rows. open_plan g x}" using Cons by (metis set_filter)
    have "rs = []"
    proof (cases rs)
      case (Cons x xs)
      with m have "?k r = ?k x" by (intro same) auto
      with d \<open>filter (open_plan g) rows = r # rs\<close> Cons show ?thesis by simp
    qed
    with Cons show ?thesis by simp
  qed simp
qed

text \<open>Making a plan keeps the tables in order. Per goal at most one plan is open, whatever
  was asked before, and asking again under the same key, for whatever goal and budget, returns the
  plan that was made and changes nothing.\<close>

theorem plan_made_once:
  assumes "plans_ok env db" and "make_plan_for env review_tables (plan_tables_port env) outbox_table c q db = Inr (db', p)"
  shows "plans_ok env db' \<and> (\<forall>g. length (filter (open_plan g) (tp_plans (db_plans db'))) \<le> 1) \<and>
    (\<forall>c2 q2. pq_key q2 = pq_key q \<longrightarrow>
      make_plan_for env review_tables (plan_tables_port env) outbox_table c2 q2 db' = Inr (db', p))"
  using plans_kept [OF assms] one_open by (auto simp: make_plan_for_def plans_ok_def)

definition demo_plan_request :: plan_request where
  "demo_plan_request = \<lparr>pq_goal = demo_goal, pq_user = ''u1'', pq_workspace = ''w'', pq_prerequisites = [(''t'', [''p''])],
     pq_mastery = [], pq_budget = 10, pq_learner_state = 1, pq_graph = ''kg'', pq_at = 0, pq_key = ''k'',
     pq_reasons = [], pq_correlation = []\<rparr>"

lemma make_plan_runs:
  assumes "pp_find pp st (pq_key q) = None"
    and "generate_plan env (pq_goal q) (pq_prerequisites q) (pq_mastery q)
      (map (\<lambda>s. project_due s (pq_at q)) (rp_list_latest rp st (pq_user q) (pq_workspace q))) (pq_budget q)
      (pq_learner_state q) (pq_graph q) (pp_next pp st (cg_id (pq_goal q))) (pq_reasons q) = Inr d"
    and "pp_save pp st d (pq_key q) (ca_now c) = Inr (st1, p)"
    and "put_on_outbox ob c (plan_task p d (pq_correlation q)) st1 = Inr st2"
  shows "make_plan_for env rp pp ob c q st = Inr (st2, p)"
  by (simp only: make_plan_for_def Let_def assms option.case sum.case prod.case bind_res.simps)

lemma demo_plan_runs:
  "\<exists>db' p. make_plan_for plain_env review_tables (plan_tables_port plain_env) outbox_table (demo_call ''t1'') demo_plan_request empty_db
    = Inr (db', p)"
proof -
  have g: "generate_plan plain_env demo_goal [(''t'', [''p''])] [] [] 10 1 ''kg'' 1 [] = Inr demo_plan" by (rule demo_plan_made)
  have n: "next_plan_version [] goal = 1" for goal by (simp add: next_plan_version_def version_after_def)
  have acts: "length (pd_activities demo_plan) = 1"
    using arg_cong [OF demo_activities, of length] by simp
  then have "distinct (map la_id (pd_activities demo_plan))" by (cases "pd_activities demo_plan") auto
  moreover have "supersede [] q = []" for q by (simp add: supersede_def latest_by_def)
  ultimately have "\<exists>x. save_plan plain_env (db_plans empty_db) demo_plan ''k'' 0 = Inr x"
    unfolding save_plan_def Let_def empty_db_def by simp
  then obtain t p where s: "save_plan plain_env (db_plans empty_db) demo_plan ''k'' 0 = Inr (t, p)" by force
  have "ca_task (demo_call ''t1'') \<notin> ot_id ` set (db_outbox (empty_db\<lparr>db_plans := t\<rparr>))" by (simp add: empty_db_def)
  moreover have "tq_next (plan_task p demo_plan []) = map_option Aware None" by (simp add: plan_task_def)
  ultimately obtain db' where o: "put_on_outbox outbox_table (demo_call ''t1'') (plan_task p demo_plan []) (empty_db\<lparr>db_plans := t\<rparr>) = Inr db'"
    by (rule outbox_fresh) (rule that)
  have f: "pp_find (plan_tables_port plain_env) empty_db (pq_key demo_plan_request) = None"
    by (simp add: find_plan_by_idempotency_def empty_db_def)
  have e: "rp_list_latest review_tables empty_db (pq_user demo_plan_request) (pq_workspace demo_plan_request) = []"
    "pp_next (plan_tables_port plain_env) empty_db (cg_id (pq_goal demo_plan_request)) = 1"
    by (simp_all add: empty_db_def list_latest_for_user_def n)
  have gen: "generate_plan plain_env (pq_goal demo_plan_request) (pq_prerequisites demo_plan_request) (pq_mastery demo_plan_request)
      (map (\<lambda>s. project_due s (pq_at demo_plan_request)) []) (pq_budget demo_plan_request) (pq_learner_state demo_plan_request)
      (pq_graph demo_plan_request) 1 (pq_reasons demo_plan_request) = Inr demo_plan"
    using g by (simp add: demo_plan_request_def)
  have sv: "pp_save (plan_tables_port plain_env) empty_db demo_plan (pq_key demo_plan_request) (ca_now (demo_call ''t1''))
      = Inr (empty_db\<lparr>db_plans := t\<rparr>, p)"
    using s by (simp add: demo_plan_request_def demo_call_def)
  have co: "pq_correlation demo_plan_request = []" by (simp add: demo_plan_request_def)
  have "make_plan_for plain_env review_tables (plan_tables_port plain_env) outbox_table (demo_call ''t1'') demo_plan_request empty_db
      = Inr (db', p)"
    by (rule make_plan_runs [OF f _ sv]) (simp_all only: e gen co o)
  then show ?thesis by blast
qed

theorem plan_made_once_witness:
  "\<exists>db' p. plans_ok plain_env db' \<and>
    make_plan_for plain_env review_tables (plan_tables_port plain_env) outbox_table (demo_call ''t2'') demo_plan_request db' = Inr (db', p)"
proof -
  obtain db' p where m: "make_plan_for plain_env review_tables (plan_tables_port plain_env) outbox_table (demo_call ''t1'') demo_plan_request empty_db
      = Inr (db', p)" using demo_plan_runs by blast
  have "plans_ok plain_env empty_db" by (simp add: plans_ok_def plan_rows_ok_def plain_env_def empty_db_def inj_def)
  from plan_made_once [OF this m] show ?thesis by blast
qed

end
