(* ===== verification/ActivityFlow.thy ===== *)
theory ActivityFlow
  imports Ledger PlanFlow
begin

text \<open>
  The lifecycle of a learning activity: \<open>ActivityLifecycleService\<close>
  (\<open>app/services/activity_lifecycle.py\<close>), the receipts and state reads of
  \<open>app/infrastructure/activity_lifecycle.py\<close>, and the contracts of
  \<open>app/contracts/activity_lifecycle.py\<close>.

  A command reads a snapshot of the database (\<open>seen\<close>) and writes to the database as it is then
  (\<open>db\<close>); a write that collides with a version or a receipt another transaction stored rolls the whole
  transaction back, and the command looks for the winner's receipt in the up to 20 snapshots \<open>later\<close>.
  The database record is extensible: the goal management adds its tables to it. What
  \<open>GoalManagementService.apply_pending_at_boundary\<close> does when an activity is completed is the argument
  \<open>boundary\<close>; SHA-256 over the canonical JSON of a command is the argument \<open>hsh\<close>. The display title of
  an activity, a function of its type, is left out of the response.
\<close>

section \<open>Contracts\<close>

datatype goal_state_status = GS_CONFIRMED | GS_ACTIVE | GS_PAUSED | GS_ACHIEVED | GS_ARCHIVED

record goal_state =
  gv_goal :: uuid
  gv_version :: int
  gv_status :: goal_state_status
  gv_definition :: int
  gv_mapping :: "versioned_ref option"
  gv_plan :: "versioned_ref option"
  gv_previous :: "goal_state_status option"
  gv_reasons :: "string list"
  gv_correlation :: uuid
  gv_created :: time

record start_command =
  sc_activity :: uuid
  sc_expected :: int
  sc_key :: string

record complete_command =
  cc_activity :: uuid
  cc_expected :: int
  cc_refs :: "versioned_ref list"
  cc_key :: string

record execution_capability =
  xe_start :: bool
  xe_resume :: bool
  xe_complete :: bool
  xe_route :: string
  xe_reasons :: "string list"

record activity_response =
  rz_state :: activity_state
  rz_goal :: uuid
  rz_type :: activity_type
  rz_minutes :: int
  rz_units :: "uuid list"
  rz_execution :: execution_capability
  rz_next :: "versioned_ref option"
  rz_plan_status :: plan_status
  rz_correlation :: string

record command_receipt =
  qx_id :: uuid
  qx_user :: uuid
  qx_activity :: uuid
  qx_command :: string
  qx_key :: string
  qx_digest :: string
  qx_response :: activity_response

record transcript_turn =
  tt_user :: uuid
  tt_activity :: uuid
  tt_turn :: string
  tt_number :: int

section \<open>The database\<close>

record goal_state_row =
  gv_user :: uuid
  gv_state :: goal_state

record activity_db =
  ab_goals :: goal_table
  ab_goal_states :: "goal_state_row list"
  ab_tables :: plan_tables
  ab_receipts :: "command_receipt list"
  ab_events :: "event_row list"
  ab_outbox :: "outbox_task list"
  ab_turns :: "transcript_turn list"

datatype activity_error =
    ACTIVITY_NOT_FOUND | ACTIVITY_IDEMPOTENCY_CONFLICT | ACTIVITY_STATE_VERSION_CONFLICT
  | ACTIVITY_STALE_OR_SUPERSEDED | ACTIVITY_NOT_AVAILABLE | ACTIVITY_NOT_ACTIVE
  | ACTIVITY_COMPLETION_EVIDENCE_REQUIRED | LEGACY_ACTIVITY_STATE_UNMIGRATED
  | ACTIVITY_KEY_ERROR | ACTIVITY_STOP_ITERATION | ACTIVITY_LEDGER ledger_error | ACTIVITY_OUTBOX outbox_error
  | ACTIVITY_INTEGRITY | BOUNDARY_ERROR string

text \<open>Who calls, when, and the ids of the outbox rows the call may create.\<close>

record activity_call =
  ak_user :: string
  ak_owner :: uuid
  ak_correlation :: uuid
  ak_now :: time
  ak_fresh :: "nat \<Rightarrow> uuid"

section \<open>Repository reads and writes\<close>

definition goal_state_of :: "('m) activity_db_scheme \<Rightarrow> uuid \<Rightarrow> uuid \<Rightarrow> goal_state option" where
  "goal_state_of db goal user =
     latest_by gv_version (map gv_state (filter (\<lambda>r. gv_goal (gv_state r) = goal \<and> gv_user r = user) (ab_goal_states db)))"

definition plan_state :: "activity_state list \<Rightarrow> uuid \<Rightarrow> int \<Rightarrow> uuid \<Rightarrow> activity_state option" where
  "plan_state rows p v a = latest_by st_version (filter (\<lambda>r. st_plan r = p \<and> st_plan_version r = v \<and> st_activity r = a) rows)"

text \<open>\<open>latest_for_plan\<close>: the activities that have a state, in the order of their ids.\<close>

definition states_of_plan :: "activity_state list \<Rightarrow> uuid \<Rightarrow> int \<Rightarrow> uuid list" where
  "states_of_plan rows p v =
     remdups (sort (map st_activity (filter (\<lambda>r. st_plan r = p \<and> st_plan_version r = v) rows)))"

definition append_state :: "activity_state list \<Rightarrow> activity_state \<Rightarrow> activity_state list option" where
  "append_state rows s =
     (if list_ex (\<lambda>r. st_activity r = st_activity s \<and> st_version r = st_version s) rows then None else Some (rows @ [s]))"

definition get_receipt :: "command_receipt list \<Rightarrow> uuid \<Rightarrow> string \<Rightarrow> command_receipt option" where
  "get_receipt rows user k = find (\<lambda>r. qx_user r = user \<and> qx_key r = k) rows"

definition append_receipt :: "command_receipt list \<Rightarrow> command_receipt \<Rightarrow> command_receipt list option" where
  "append_receipt rows r =
     (if list_ex (\<lambda>x. qx_id x = qx_id r \<or> qx_user x = qx_user r \<and> qx_key x = qx_key r) rows then None else Some (rows @ [r]))"

abbreviation with_states :: "('m) activity_db_scheme \<Rightarrow> activity_state list \<Rightarrow> ('m) activity_db_scheme" where
  "with_states db rows \<equiv> db\<lparr>ab_tables := (ab_tables db)\<lparr>tp_states := rows\<rparr>\<rparr>"

section \<open>Digests\<close>

definition ref_json :: "versioned_ref \<Rightarrow> pyval" where
  "ref_json r = VDict [(''entity_type'', VStr (vr_type r)), (''entity_id'', VStr (vr_id r)),
     (''version'', case vr_version r of VerS s \<Rightarrow> VStr s | VerI n \<Rightarrow> VInt n)]"

definition select_json :: "uuid \<Rightarrow> pyval" where
  "select_json goal = VDict [(''command'', VStr ''SelectNextLearningActivity''), (''goal_id'', VStr goal)]"

definition start_json :: "start_command \<Rightarrow> pyval" where
  "start_json c = VDict [(''schema_version'', VStr ''1.0''), (''activity_id'', VStr (sc_activity c)),
     (''expected_state_version'', VInt (sc_expected c)), (''idempotency_key'', VStr (sc_key c))]"

definition complete_json :: "complete_command \<Rightarrow> pyval" where
  "complete_json c = VDict [(''schema_version'', VStr ''1.0''), (''activity_id'', VStr (cc_activity c)),
     (''expected_state_version'', VInt (cc_expected c)), (''completion_intent'', VStr ''learner_finished''),
     (''transcript_turn_refs'', VList (map ref_json (cc_refs c))), (''idempotency_key'', VStr (cc_key c))]"

section \<open>Receipts and conflicts\<close>

definition replay_receipt :: "('m) activity_db_scheme \<Rightarrow> uuid \<Rightarrow> string \<Rightarrow> string \<Rightarrow> activity_error + activity_response option" where
  "replay_receipt db user k digest =
     (case get_receipt (ab_receipts db) user k of
        None \<Rightarrow> Inr None
      | Some r \<Rightarrow> if qx_digest r \<noteq> digest then Inl ACTIVITY_IDEMPOTENCY_CONFLICT else Inr (Some (qx_response r)))"

fun replay_after :: "('m) activity_db_scheme list \<Rightarrow> uuid \<Rightarrow> string \<Rightarrow> string \<Rightarrow> activity_error + activity_response option" where
  "replay_after [] user k digest = Inr None"
| "replay_after (db # dbs) user k digest =
     bind_res (replay_receipt db user k digest) (\<lambda>x. case x of Some r \<Rightarrow> Inr (Some r) | None \<Rightarrow> replay_after dbs user k digest)"

definition conflict_or_replay :: "('m) activity_db_scheme list \<Rightarrow> uuid \<Rightarrow> string \<Rightarrow> string \<Rightarrow> activity_error + activity_response" where
  "conflict_or_replay later user k digest =
     bind_res (replay_after (take 20 later) user k digest)
       (\<lambda>x. case x of Some r \<Rightarrow> Inr r | None \<Rightarrow> Inl ACTIVITY_STATE_VERSION_CONFLICT)"

text \<open>\<open>_append_state_or_replay\<close>: the database with the state, or the response to replay.\<close>

definition append_state_or_replay :: "('m) activity_db_scheme \<Rightarrow> ('m) activity_db_scheme list \<Rightarrow> activity_state \<Rightarrow> uuid \<Rightarrow> string \<Rightarrow> string \<Rightarrow>
    activity_error + ('m) activity_db_scheme + activity_response" where
  "append_state_or_replay db later s user k digest =
     (case append_state (tp_states (ab_tables db)) s of
        Some rows \<Rightarrow> Inr (Inl (with_states db rows))
      | None \<Rightarrow> bind_res (conflict_or_replay later user k digest) (\<lambda>r. Inr (Inr r)))"

text \<open>\<open>_receipt\<close>: \<open>orig\<close> is the database without the writes of this transaction.\<close>

definition write_receipt :: "pyenv \<Rightarrow> ('m) activity_db_scheme \<Rightarrow> ('m) activity_db_scheme \<Rightarrow> uuid \<Rightarrow> uuid \<Rightarrow> string \<Rightarrow> string \<Rightarrow> string \<Rightarrow>
    activity_response \<Rightarrow> activity_error + ('m) activity_db_scheme \<times> activity_response" where
  "write_receipt env orig db user act command k digest r =
     (case append_receipt (ab_receipts db)
        \<lparr>qx_id = uuid5 env (''askora:activity-receipt:'' @ user @ '':'' @ k), qx_user = user, qx_activity = act,
         qx_command = command, qx_key = k, qx_digest = digest, qx_response = r\<rparr> of
        Some rows \<Rightarrow> Inr (db\<lparr>ab_receipts := rows\<rparr>, r)
      | None \<Rightarrow> bind_res (replay_receipt orig user k digest)
          (\<lambda>x. case x of Some y \<Rightarrow> Inr (orig, y) | None \<Rightarrow> Inl ACTIVITY_IDEMPOTENCY_CONFLICT))"

section \<open>Context\<close>

record activity_context =
  xc_goal :: learning_goal
  xc_plan :: learning_plan
  xc_activity :: learning_activity

definition activity_by_id :: "('m) activity_db_scheme \<Rightarrow> uuid \<Rightarrow> learning_activity option" where
  "activity_by_id db i = find (\<lambda>a. la_id a = i) (tp_activities (ab_tables db))"

definition plan_row_at :: "('m) activity_db_scheme \<Rightarrow> uuid \<Rightarrow> int \<Rightarrow> plan_row option" where
  "plan_row_at db p v = find (\<lambda>r. lp_id (pr_plan r) = p \<and> lp_version (pr_plan r) = v) (tp_plans (ab_tables db))"

definition activity_context_of :: "('m) activity_db_scheme \<Rightarrow> uuid \<Rightarrow> uuid \<Rightarrow> activity_error + activity_context" where
  "activity_context_of db owner i =
     (case activity_by_id db i of
        None \<Rightarrow> Inl ACTIVITY_NOT_FOUND
      | Some a \<Rightarrow>
         (case plan_row_at db (la_plan a) (la_plan_version a) of
            None \<Rightarrow> Inl ACTIVITY_NOT_FOUND
          | Some r \<Rightarrow>
             (case latest_goal (ab_goals db) (lp_goal (pr_plan r)) owner of
                None \<Rightarrow> Inl ACTIVITY_NOT_FOUND
              | Some g \<Rightarrow> Inr \<lparr>xc_goal = g, xc_plan = to_plan r, xc_activity = a\<rparr>)))"

definition require_state :: "('m) activity_db_scheme \<Rightarrow> uuid \<Rightarrow> activity_error + activity_state" where
  "require_state db a =
     (case latest_state (tp_states (ab_tables db)) a of None \<Rightarrow> Inl LEGACY_ACTIVITY_STATE_UNMIGRATED | Some s \<Rightarrow> Inr s)"

definition require_current_plan :: "activity_context \<Rightarrow> activity_error + unit" where
  "require_current_plan c = (if lp_status (xc_plan c) \<noteq> PLAN_ACTIVE then Inl ACTIVITY_STALE_OR_SUPERSEDED else Inr ())"

definition require_goal_active :: "('m) activity_db_scheme \<Rightarrow> uuid \<Rightarrow> uuid \<Rightarrow> activity_error + unit" where
  "require_goal_active db owner goal =
     (case goal_state_of db goal owner of
        None \<Rightarrow> Inr ()
      | Some s \<Rightarrow> if gv_status s = GS_ACTIVE then Inr ()
                  else if gv_status s = GS_PAUSED then Inl ACTIVITY_NOT_AVAILABLE
                  else Inl ACTIVITY_STALE_OR_SUPERSEDED)"

definition ordered_definitions :: "('m) activity_db_scheme \<Rightarrow> learning_plan \<Rightarrow> learning_activity list" where
  "ordered_definitions db p =
     List.map_filter (\<lambda>i. find (\<lambda>a. la_id a = i \<and> la_plan a = lp_id p \<and> la_plan_version a = lp_version p)
       (tp_activities (ab_tables db))) (lp_activities p)"

definition transcript_completable :: "activity_type \<Rightarrow> bool" where
  "transcript_completable t \<longleftrightarrow> t \<in> {LEARN_NEW, PREREQUISITE_REMEDIATION, PRACTICE, METACOGNITIVE_REVIEW}"

definition response_reasons :: "activity_context \<Rightarrow> activity_state \<Rightarrow> string list" where
  "response_reasons c s =
     (if lp_status (xc_plan c) \<noteq> PLAN_ACTIVE \<or> st_status s = ACTIVITY_SUPERSEDED then [''ACTIVITY_STALE_OR_SUPERSEDED'']
      else if st_status s = PLANNED then [''ACTIVITY_NOT_AVAILABLE'']
      else if st_status s = ACTIVE \<and> \<not> transcript_completable (la_type (xc_activity c))
      then [''ACTIVITY_COMPLETION_EVIDENCE_REQUIRED''] else [])"

definition make_response :: "activity_context \<Rightarrow> activity_state \<Rightarrow> uuid \<Rightarrow> versioned_ref option \<Rightarrow> activity_response" where
  "make_response c s correlation next_ref =
     (let a = xc_activity c; live = (lp_status (xc_plan c) = PLAN_ACTIVE) in
      \<lparr>rz_state = s, rz_goal = lg_id (xc_goal c), rz_type = la_type a, rz_minutes = la_minutes a, rz_units = la_units a,
       rz_execution = \<lparr>xe_start = (live \<and> st_status s = AVAILABLE_NOW), xe_resume = (live \<and> st_status s = ACTIVE),
         xe_complete = (live \<and> st_status s = ACTIVE \<and> transcript_completable (la_type a)),
         xe_route = ''/learn/'' @ st_activity s, xe_reasons = response_reasons c s\<rparr>,
       rz_next = next_ref, rz_plan_status = lp_status (xc_plan c), rz_correlation = correlation\<rparr>)"

definition next_state :: "activity_state \<Rightarrow> activity_status \<Rightarrow> string \<Rightarrow> actor \<Rightarrow> uuid \<Rightarrow> time \<Rightarrow> time option \<Rightarrow> time option \<Rightarrow>
    versioned_ref list \<Rightarrow> activity_state" where
  "next_state prior status reason actor correlation created started completed refs =
     \<lparr>st_activity = st_activity prior, st_version = st_version prior + 1, st_plan = st_plan prior,
      st_plan_version = st_plan_version prior, st_status = status, st_previous = Some (st_status prior), st_reason = reason,
      st_sources = refs, st_actor = actor, st_started = started, st_completed = completed, st_correlation = correlation,
      st_created = created\<rparr>"

section \<open>Events\<close>

definition transition_event :: "pyenv \<Rightarrow> activity_call \<Rightarrow> activity_context \<Rightarrow> activity_state \<Rightarrow> string \<Rightarrow> event_v1" where
  "transition_event env k c s etype =
    \<lparr>lv_id = uuid5 env (''askora:sys06:'' @ st_activity s @ '':lifecycle:v'' @ int_str (st_version s) @ '':'' @ etype),
     lv_type = etype, lv_aggregate_type = ''LearningActivityLifecycle'', lv_aggregate_id = st_activity s,
     lv_aggregate_version = st_version s, lv_sequence = st_version s, lv_occurred = st_created s, lv_recorded = st_created s,
     lv_key = ''sys06-activity-lifecycle:'' @ st_activity s @ '':v'' @ int_str (st_version s),
     lv_correlation = st_correlation s, lv_causation = None,
     lv_actor = \<lparr>ac_type = (case st_actor s of SYSTEM_ACTOR \<Rightarrow> ACTOR_SYSTEM | LEARNER_ACTOR \<Rightarrow> ACTOR_LEARNER),
       ac_id = ak_user k, ac_device = None\<rparr>,
     lv_context = \<lparr>ec_user = ak_owner k, ec_session = None, ec_goal = Some (lg_id (xc_goal c)),
       ec_units = la_units (xc_activity c), ec_attempt = None, ec_contents = []\<rparr>,
     lv_payload = VDict
       [(''activity_ref'', VStr (''learning_activity:'' @ st_activity s @ '':v'' @ int_str (st_plan_version s))),
        (''plan_ref'', VStr (''learning_plan:'' @ st_plan s @ '':v'' @ int_str (st_plan_version s))),
        (''goal_ref'', VStr (''learning_goal:'' @ lg_id (xc_goal c) @ '':v'' @ int_str (lg_version (xc_goal c)))),
        (''previous_status'', opt_json (VStr \<circ> activity_status_name) (st_previous s)),
        (''new_status'', VStr (activity_status_name (st_status s))), (''lifecycle_version'', VInt (st_version s)),
        (''reason'', VStr (st_reason s)), (''source_refs'', VList (map ref_json (st_sources s)))],
     lv_provenance = \<lparr>ev_source = SRC_DOMAIN, ev_provider = None, ev_model = None, ev_snapshot = None, ev_prompt = None,
       ev_prompt_version = None, ev_policy = None, ev_projection = None, ev_algorithm = Some ''sys06-activity-v1''\<rparr>,
     lv_trace = \<lparr>tx_trace = ''activity-lifecycle:'' @ st_correlation s, tx_span = None\<rparr>,
     lv_privacy = \<lparr>px_class = CLASS_PERSONAL, px_external = False, px_retention = RETAIN_CORE\<rparr>\<rparr>"

definition lifecycle_task :: "event_v1 \<Rightarrow> activity_state \<Rightarrow> task_request" where
  "lifecycle_task e s =
    \<lparr>tq_type = ''sys06.activity.lifecycle.event'', tq_schema = ''1.0'',
     tq_payload = VDict [(''event_id'', VStr (lv_id e)), (''event_type'', VStr (lv_type e))],
     tq_key = ''outbox:sys06-activity-lifecycle:'' @ st_activity s @ '':v'' @ int_str (st_version s),
     tq_next = Some (Aware (st_created s))\<rparr>"

definition publish_transition :: "pyenv \<Rightarrow> activity_call \<Rightarrow> nat \<Rightarrow> activity_context \<Rightarrow> activity_state \<Rightarrow> string \<Rightarrow> ('m) activity_db_scheme \<Rightarrow>
    activity_error + ('m) activity_db_scheme" where
  "publish_transition env k n c s etype db =
     (let e = transition_event env k c s etype in
      case append_event (ab_events db) (ab_events db) e of
        Inl x \<Rightarrow> Inl (ACTIVITY_LEDGER x)
      | Inr (evs, _) \<Rightarrow>
         (case enqueue (ab_outbox db) (ab_outbox db) (ak_fresh k n) (ak_now k) (lifecycle_task e s) of
            Inl x \<Rightarrow> Inl (ACTIVITY_OUTBOX x)
          | Inr (tab, _) \<Rightarrow> Inr (db\<lparr>ab_events := evs, ab_outbox := tab\<rparr>)))"

section \<open>Reading an activity\<close>

text \<open>The first activity of the list whose state satisfies \<open>p\<close>; a missing state is skipped
  (\<open>states.get\<close>) or raises \<open>KeyError\<close> (\<open>states[...]\<close>).\<close>

definition activity_ref :: "learning_activity \<Rightarrow> versioned_ref" where
  "activity_ref a = mk_ref ''LearningActivity'' (la_id a) (VerI (la_plan_version a))"

fun first_with :: "(uuid \<Rightarrow> activity_state option) \<Rightarrow> (activity_status \<Rightarrow> bool) \<Rightarrow> learning_activity list \<Rightarrow>
    activity_error + learning_activity option" where
  "first_with st p [] = Inr None"
| "first_with st p (a # as) =
     (case st (la_id a) of
        None \<Rightarrow> Inl ACTIVITY_KEY_ERROR
      | Some s \<Rightarrow> if p (st_status s) then Inr (Some a) else first_with st p as)"

text \<open>What follows the first occurrence of an activity in the plan.\<close>

definition after_activity :: "uuid \<Rightarrow> learning_activity list \<Rightarrow> learning_activity list option" where
  "after_activity i ds = (case dropWhile (\<lambda>a. la_id a \<noteq> i) ds of [] \<Rightarrow> None | _ # rest \<Rightarrow> Some rest)"

definition next_executable_ref :: "('m) activity_db_scheme \<Rightarrow> activity_context \<Rightarrow> activity_state \<Rightarrow> versioned_ref option" where
  "next_executable_ref db c s =
     (if st_status s \<noteq> DONE then None
      else case after_activity (st_activity s) (ordered_definitions db (xc_plan c)) of
             None \<Rightarrow> None
           | Some rest \<Rightarrow> map_option activity_ref (find (\<lambda>a.
               case plan_state (tp_states (ab_tables db)) (lp_id (xc_plan c)) (lp_version (xc_plan c)) (la_id a) of
                 None \<Rightarrow> False | Some t \<Rightarrow> st_status t \<in> {AVAILABLE_NOW, ACTIVE}) rest))"

definition get_activity :: "('m) activity_db_scheme \<Rightarrow> activity_call \<Rightarrow> uuid \<Rightarrow> activity_error + activity_response" where
  "get_activity db k i =
     bind_res (activity_context_of db (ak_owner k) i) (\<lambda>c.
     bind_res (require_state db i) (\<lambda>s.
     Inr (make_response c s (ak_correlation k) (next_executable_ref db c s))))"

section \<open>Commands\<close>

definition active_plan_of :: "('m) activity_db_scheme \<Rightarrow> uuid \<Rightarrow> plan_row option" where
  "active_plan_of db goal =
     latest_by (lp_version \<circ> pr_plan) (filter (\<lambda>r. lp_goal (pr_plan r) = goal \<and> pr_status r = PLAN_ACTIVE) (tp_plans (ab_tables db)))"

definition replay_select_next :: "(pyval \<Rightarrow> string) \<Rightarrow> ('m) activity_db_scheme \<Rightarrow> activity_call \<Rightarrow> uuid \<Rightarrow> string \<Rightarrow>
    activity_error + activity_response option" where
  "replay_select_next hsh db k goal key = replay_receipt db (ak_owner k) key (hsh (select_json goal))"

definition select_next :: "pyenv \<Rightarrow> (pyval \<Rightarrow> string) \<Rightarrow> ('m) activity_db_scheme \<Rightarrow> ('m) activity_db_scheme \<Rightarrow>
    ('m) activity_db_scheme list \<Rightarrow> activity_call \<Rightarrow> uuid \<Rightarrow> string \<Rightarrow>
    activity_error + ('m) activity_db_scheme \<times> activity_response" where
  "select_next env hsh seen db later k goal key =
     (let digest = hsh (select_json goal); owner = ak_owner k in
      bind_res (replay_receipt seen owner key digest) (\<lambda>known.
      case known of Some r \<Rightarrow> Inr (db, r) | None \<Rightarrow>
      (case latest_goal (ab_goals seen) goal owner of None \<Rightarrow> Inl ACTIVITY_NOT_FOUND | Some g \<Rightarrow>
       bind_res (require_goal_active seen owner goal) (\<lambda>_.
       case active_plan_of seen (lg_id g) of None \<Rightarrow> Inl ACTIVITY_STALE_OR_SUPERSEDED | Some row \<Rightarrow>
       (let p = to_plan row; ds = ordered_definitions seen p;
            rows = tp_states (ab_tables seen); st = plan_state rows (lp_id p) (lp_version p)
        in if length (states_of_plan rows (lp_id p) (lp_version p)) \<noteq> length ds then Inl LEGACY_ACTIVITY_STATE_UNMIGRATED
           else bind_res (first_with st (\<lambda>x. x \<in> {AVAILABLE_NOW, ACTIVE}) ds) (\<lambda>current.
             case current of
               Some a \<Rightarrow>
                (case st (la_id a) of None \<Rightarrow> Inl ACTIVITY_KEY_ERROR | Some s \<Rightarrow>
                 write_receipt env db db owner (la_id a) ''SelectNextLearningActivity'' key digest
                   (make_response \<lparr>xc_goal = g, xc_plan = p, xc_activity = a\<rparr> s (ak_correlation k) None))
             | None \<Rightarrow>
                bind_res (first_with st (\<lambda>x. x = PLANNED) ds) (\<lambda>planned.
                case planned of None \<Rightarrow> Inl ACTIVITY_NOT_AVAILABLE | Some a \<Rightarrow>
                (case st (la_id a) of None \<Rightarrow> Inl ACTIVITY_KEY_ERROR | Some prior \<Rightarrow>
                 (let s = next_state prior AVAILABLE_NOW ''SELECT_NEXT_LEARNING_ACTIVITY'' SYSTEM_ACTOR (ak_correlation k)
                            (ak_now k) None None [];
                      c = \<lparr>xc_goal = g, xc_plan = p, xc_activity = a\<rparr>
                  in bind_res (append_state_or_replay db later s owner key digest) (\<lambda>w.
                     case w of Inr r \<Rightarrow> Inr (db, r) | Inl db1 \<Rightarrow>
                       bind_res (publish_transition env k 0 c s ''ActivityAvailable'' db1) (\<lambda>db2.
                       write_receipt env db db2 owner (la_id a) ''SelectNextLearningActivity'' key digest
                         (make_response c s (ak_correlation k) None))))))))))))"

definition start_activity :: "pyenv \<Rightarrow> (pyval \<Rightarrow> string) \<Rightarrow> ('m) activity_db_scheme \<Rightarrow> ('m) activity_db_scheme \<Rightarrow>
    ('m) activity_db_scheme list \<Rightarrow> activity_call \<Rightarrow> start_command \<Rightarrow>
    activity_error + ('m) activity_db_scheme \<times> activity_response" where
  "start_activity env hsh seen db later k cmd =
     (let digest = hsh (start_json cmd); owner = ak_owner k; key = sc_key cmd in
      bind_res (replay_receipt seen owner key digest) (\<lambda>known.
      case known of Some r \<Rightarrow> Inr (db, r) | None \<Rightarrow>
      bind_res (activity_context_of seen owner (sc_activity cmd)) (\<lambda>c.
      bind_res (require_goal_active seen owner (lg_id (xc_goal c))) (\<lambda>_.
      bind_res (require_state seen (sc_activity cmd)) (\<lambda>prior.
      bind_res (require_current_plan c) (\<lambda>_.
      if st_version prior \<noteq> sc_expected cmd then map_sum id (\<lambda>r. (db, r)) (conflict_or_replay later owner key digest)
      else if st_status prior \<noteq> AVAILABLE_NOW
      then Inl (if st_status prior = ACTIVITY_SUPERSEDED then ACTIVITY_STALE_OR_SUPERSEDED else ACTIVITY_NOT_AVAILABLE)
      else (let s = next_state prior ACTIVE ''LEARNER_STARTED_ACTIVITY'' LEARNER_ACTOR (ak_correlation k) (ak_now k)
                      (Some (ak_now k)) None []
            in bind_res (append_state_or_replay db later s owner key digest) (\<lambda>w.
               case w of Inr r \<Rightarrow> Inr (db, r) | Inl db1 \<Rightarrow>
                 bind_res (publish_transition env k 0 c s ''ActivityStarted'' db1) (\<lambda>db2.
                 write_receipt env db db2 owner (sc_activity cmd) ''StartLearningActivityV1'' key digest
                   (make_response c s (ak_correlation k) None))))))))))"

text \<open>\<open>int(str)\<close>: optional white space and sign, then digits with single underscores between them.\<close>

fun digit_groups :: "bool \<Rightarrow> string \<Rightarrow> bool" where
  "digit_groups after_digit [] = after_digit"
| "digit_groups after_digit (c # cs) =
     (if 48 \<le> (of_char c :: nat) \<and> (of_char c :: nat) < 58 then digit_groups True cs
      else c = CHR ''_'' \<and> after_digit \<and> cs \<noteq> [] \<and> hd cs \<noteq> CHR ''_'' \<and> digit_groups False cs)"

definition py_int :: "string \<Rightarrow> int option" where
  "py_int s =
     (let t = dropWhile is_space (rev (dropWhile is_space (rev s)));
          neg = (take 1 t = ''-''); body = (if take 1 t \<in> {''-'', ''+''} then tl t else t)
      in if body = [] \<or> \<not> digit_groups False body then None
         else Some ((if neg then -1 else 1) * digits_val (filter (\<lambda>c. c \<noteq> CHR ''_'') body)))"

definition ref_number :: "ver \<Rightarrow> int option" where
  "ref_number v = (case v of VerI n \<Rightarrow> Some n | VerS s \<Rightarrow> py_int s)"

definition transcript_ref_ok :: "('m) activity_db_scheme \<Rightarrow> uuid \<Rightarrow> uuid \<Rightarrow> versioned_ref \<Rightarrow> bool" where
  "transcript_ref_ok db owner act r \<longleftrightarrow> vr_type r = ''BookLearningTranscriptTurn'' \<and>
     (case ref_number (vr_version r) of None \<Rightarrow> False | Some n \<Rightarrow>
        list_ex (\<lambda>t. tt_user t = owner \<and> tt_activity t = act \<and> tt_turn t = vr_id r \<and> tt_number t = n) (ab_turns db))"

definition validate_transcript_refs :: "('m) activity_db_scheme \<Rightarrow> uuid \<Rightarrow> uuid \<Rightarrow> versioned_ref list \<Rightarrow> activity_error + unit" where
  "validate_transcript_refs db owner act refs =
     (if refs = [] \<or> \<not> list_all (transcript_ref_ok db owner act) refs then Inl ACTIVITY_COMPLETION_EVIDENCE_REQUIRED else Inr ())"

definition set_plan_status :: "('m) activity_db_scheme \<Rightarrow> learning_plan \<Rightarrow> plan_status \<Rightarrow> ('m) activity_db_scheme" where
  "set_plan_status db p status = db\<lparr>ab_tables := (ab_tables db)\<lparr>tp_plans :=
     map (\<lambda>r. if same_plan_row p r then r\<lparr>pr_status := status\<rparr> else r) (tp_plans (ab_tables db))\<rparr>\<rparr>"

text \<open>The activities that are neither finished nor the completed one; \<open>None\<close> is the \<open>KeyError\<close> of a
  definition without a state.\<close>

definition unfinished :: "activity_status \<Rightarrow> bool" where
  "unfinished x \<longleftrightarrow> x \<notin> {DONE, SKIPPED, ACTIVITY_SUPERSEDED}"

definition remaining_after :: "(uuid \<Rightarrow> activity_state option) \<Rightarrow> uuid \<Rightarrow> learning_activity list \<Rightarrow>
    activity_error + learning_activity list" where
  "remaining_after st i ds =
     (if list_ex (\<lambda>a. st (la_id a) = None) ds then Inl ACTIVITY_KEY_ERROR
      else Inr (filter (\<lambda>a. unfinished (st_status (the (st (la_id a)))) \<and> la_id a \<noteq> i) ds))"

text \<open>The part of \<open>complete\<close> after the boundary found no plan to apply: the next planned activity of the
  plan becomes available, or the plan is completed when nothing remains.\<close>

definition advance_plan :: "pyenv \<Rightarrow> activity_call \<Rightarrow> activity_context \<Rightarrow> activity_state \<Rightarrow> ('m) activity_db_scheme \<Rightarrow>
    activity_error + ('m) activity_db_scheme \<times> activity_context \<times> versioned_ref option" where
  "advance_plan env k c done db =
     (let p = xc_plan c; ds = ordered_definitions db p;
          st = plan_state (tp_states (ab_tables db)) (lp_id p) (lp_version p)
      in case after_activity (la_id (xc_activity c)) ds of
           None \<Rightarrow> Inl ACTIVITY_STOP_ITERATION
         | Some rest \<Rightarrow>
             bind_res (first_with st (\<lambda>x. x = PLANNED) rest) (\<lambda>planned.
             case planned of
               Some a \<Rightarrow>
                (case st (la_id a) of None \<Rightarrow> Inl ACTIVITY_KEY_ERROR | Some prior \<Rightarrow>
                 (let s = next_state prior AVAILABLE_NOW ''PREVIOUS_ACTIVITY_COMPLETED'' SYSTEM_ACTOR (ak_correlation k)
                            (ak_now k) None None [mk_ref ''LearningActivityState'' (st_activity done) (VerI (st_version done))]
                  in case append_state (tp_states (ab_tables db)) s of
                       None \<Rightarrow> Inl ACTIVITY_INTEGRITY
                     | Some rows \<Rightarrow>
                         bind_res (publish_transition env k 1 (c\<lparr>xc_activity := a\<rparr>) s ''ActivityAvailable'' (with_states db rows))
                           (\<lambda>db'. Inr (db', c, Some (activity_ref a)))))
             | None \<Rightarrow>
                bind_res (remaining_after st (la_id (xc_activity c)) ds) (\<lambda>remaining.
                if remaining = []
                then Inr (set_plan_status db p PLAN_COMPLETED, c\<lparr>xc_plan := p\<lparr>lp_status := PLAN_COMPLETED\<rparr>\<rparr>, None)
                else Inr (db, c, None))))"

definition complete_activity :: "pyenv \<Rightarrow> (pyval \<Rightarrow> string) \<Rightarrow>
    (activity_call \<Rightarrow> uuid \<Rightarrow> ('m) activity_db_scheme \<Rightarrow> activity_error + ('m) activity_db_scheme \<times> versioned_ref option) \<Rightarrow>
    ('m) activity_db_scheme \<Rightarrow> ('m) activity_db_scheme \<Rightarrow> ('m) activity_db_scheme list \<Rightarrow> activity_call \<Rightarrow> complete_command \<Rightarrow>
    activity_error + ('m) activity_db_scheme \<times> activity_response" where
  "complete_activity env hsh boundary seen db later k cmd =
     (let digest = hsh (complete_json cmd); owner = ak_owner k; key = cc_key cmd; i = cc_activity cmd in
      bind_res (replay_receipt seen owner key digest) (\<lambda>known.
      case known of Some r \<Rightarrow> Inr (db, r) | None \<Rightarrow>
      bind_res (activity_context_of seen owner i) (\<lambda>c.
      bind_res (require_goal_active seen owner (lg_id (xc_goal c))) (\<lambda>_.
      bind_res (require_state seen i) (\<lambda>prior.
      bind_res (require_current_plan c) (\<lambda>_.
      if st_version prior \<noteq> cc_expected cmd then map_sum id (\<lambda>r. (db, r)) (conflict_or_replay later owner key digest)
      else if st_status prior \<noteq> ACTIVE
      then Inl (if st_status prior = ACTIVITY_SUPERSEDED then ACTIVITY_STALE_OR_SUPERSEDED else ACTIVITY_NOT_ACTIVE)
      else if \<not> transcript_completable (la_type (xc_activity c)) then Inl ACTIVITY_COMPLETION_EVIDENCE_REQUIRED
      else bind_res (validate_transcript_refs seen owner i (cc_refs cmd)) (\<lambda>_.
        (let s = next_state prior DONE ''LEARNER_FINISHED_TRANSCRIPT_BACKED_ACTIVITY'' LEARNER_ACTOR (ak_correlation k)
                   (ak_now k) (st_started prior) (Some (ak_now k)) (cc_refs cmd)
         in bind_res (append_state_or_replay db later s owner key digest) (\<lambda>w.
            case w of Inr r \<Rightarrow> Inr (db, r) | Inl db1 \<Rightarrow>
              bind_res (publish_transition env k 0 c s ''ActivityCompleted'' db1) (\<lambda>db2.
              bind_res (boundary k i db2) (\<lambda>(db3, replanned).
              bind_res (case replanned of Some r \<Rightarrow> Inr (db3, c, Some r) | None \<Rightarrow> advance_plan env k c s db3) (\<lambda>(db4, c', next_ref).
              write_receipt env db db4 owner i ''CompleteLearningActivityV1'' key digest
                (make_response c' s (ak_correlation k) next_ref)))))))))))))"

end
