(* ===== verification/ActivityLaws.thy ===== *)
theory ActivityLaws
  imports ActivityFlow
begin

text \<open>
  What the activity lifecycle promises: the history of every activity runs through planned, available,
  active and completed one version at a time, at most one activity of a plan is open, commands are
  idempotent and of two concurrent commands on a state one wins.
\<close>

section \<open>What a command writes\<close>

lemma publish_elim_activity:
  assumes "publish_transition env k n c s etype db = Inr db'"
  obtains evs tab where "db' = db\<lparr>ab_events := evs, ab_outbox := tab\<rparr>"
    and "\<exists>e. append_event (ab_events db) (ab_events db) (transition_event env k c s etype) = Inr (evs, e)"
    and "\<exists>t. enqueue (ab_outbox db) (ab_outbox db) (ak_fresh k n) (ak_now k) (lifecycle_task (transition_event env k c s etype) s) = Inr (tab, t)"
proof -
  let ?e = "transition_event env k c s etype"
  obtain evs e where e: "append_event (ab_events db) (ab_events db) ?e = Inr (evs, e)"
    using assms by (cases "append_event (ab_events db) (ab_events db) ?e") (auto simp: publish_transition_def Let_def)
  obtain tab t where t: "enqueue (ab_outbox db) (ab_outbox db) (ak_fresh k n) (ak_now k) (lifecycle_task ?e s) = Inr (tab, t)"
    using assms e by (cases "enqueue (ab_outbox db) (ab_outbox db) (ak_fresh k n) (ak_now k) (lifecycle_task ?e s)")
      (auto simp: publish_transition_def Let_def)
  from assms e t have "db' = db\<lparr>ab_events := evs, ab_outbox := tab\<rparr>" by (simp add: publish_transition_def Let_def)
  with e t that show ?thesis by blast
qed

definition receipt_of :: "pyenv \<Rightarrow> uuid \<Rightarrow> uuid \<Rightarrow> string \<Rightarrow> string \<Rightarrow> string \<Rightarrow> activity_response \<Rightarrow> command_receipt" where
  "receipt_of env user act command k digest r =
    \<lparr>qx_id = uuid5 env (''askora:activity-receipt:'' @ user @ '':'' @ k), qx_user = user, qx_activity = act,
     qx_command = command, qx_key = k, qx_digest = digest, qx_response = r\<rparr>"

lemma write_receipt_elim:
  assumes "write_receipt env orig db user act command k digest r = Inr (db', x)"
  obtains (replayed) "db' = orig" and "replay_receipt orig user k digest = Inr (Some x)"
  | (written) rows where "db' = db\<lparr>ab_receipts := rows\<rparr>" and "x = r" and
      "rows = ab_receipts db @ [receipt_of env user act command k digest r]"
      "get_receipt rows user k = Some (receipt_of env user act command k digest r)"
proof -
  let ?r = "receipt_of env user act command k digest r"
  show ?thesis
  proof (cases "append_receipt (ab_receipts db) ?r")
    case None
    with assms obtain y where "replay_receipt orig user k digest = Inr (Some y)" "db' = orig" "x = y"
      unfolding write_receipt_def receipt_of_def by (auto simp: res_simps split: option.splits)
    then show ?thesis using that(1) by blast
  next
    case (Some rows)
    then have rows: "rows = ab_receipts db @ [?r]" and n: "\<forall>y \<in> set (ab_receipts db). \<not> (qx_user y = user \<and> qx_key y = k)"
      by (auto simp: append_receipt_def list_ex_iff receipt_of_def split: if_splits)
    then have "find (\<lambda>y. qx_user y = user \<and> qx_key y = k) (ab_receipts db) = None" by (auto simp: find_None_iff)
    then have "get_receipt rows user k = Some ?r" by (simp add: get_receipt_def rows find_snoc receipt_of_def)
    moreover have "db' = db\<lparr>ab_receipts := rows\<rparr>" "x = r"
      using assms Some unfolding write_receipt_def receipt_of_def by simp_all
    ultimately show ?thesis using that(2) rows by blast
  qed
qed

lemma append_state_Some: "append_state rows s = Some rows' \<longleftrightarrow> rows' = rows @ [s] \<and>
    (\<forall>r \<in> set rows. st_activity r = st_activity s \<longrightarrow> st_version r \<noteq> st_version s)"
  by (auto simp: append_state_def list_ex_iff)

lemma append_or_replay_Inl: "append_state_or_replay db later s user k digest = Inr (Inl db') \<longleftrightarrow>
    (\<exists>rows. append_state (tp_states (ab_tables db)) s = Some rows \<and> db' = with_states db rows)"
  by (auto simp: append_state_or_replay_def res_simps split: option.splits)

lemma append_or_replay_Inr: "append_state_or_replay db later s user k digest = Inr (Inr r) \<longleftrightarrow>
    append_state (tp_states (ab_tables db)) s = None \<and> conflict_or_replay later user k digest = Inr r"
  by (auto simp: append_state_or_replay_def res_simps split: option.splits)

lemma map_sum_Inr: "map_sum id f m = Inr x \<longleftrightarrow> (\<exists>y. m = Inr y \<and> x = f y)"
  by (cases m) auto

definition starting :: "activity_call \<Rightarrow> activity_state \<Rightarrow> activity_state" where
  "starting k prior = next_state prior ACTIVE ''LEARNER_STARTED_ACTIVITY'' LEARNER_ACTOR (ak_correlation k) (ak_now k)
     (Some (ak_now k)) None []"

text \<open>A start either replays and writes nothing, or all its guards held in the snapshot and the state, the
  event, the task and the receipt are written together.\<close>

lemma start_elim:
  assumes "start_activity env hsh seen db later k cmd = Inr (db', r)"
  obtains (replayed) "db' = db"
  | (started) c prior evs tab where
      "replay_receipt seen (ak_owner k) (sc_key cmd) (hsh (start_json cmd)) = Inr None"
      "activity_context_of seen (ak_owner k) (sc_activity cmd) = Inr c" "lp_status (xc_plan c) = PLAN_ACTIVE"
      "latest_state (tp_states (ab_tables seen)) (sc_activity cmd) = Some prior" "st_status prior = AVAILABLE_NOW"
      "st_version prior = sc_expected cmd"
      "append_state (tp_states (ab_tables db)) (starting k prior) = Some (tp_states (ab_tables db) @ [starting k prior])"
      "r = make_response c (starting k prior) (ak_correlation k) None"
      "db' = (with_states db (tp_states (ab_tables db) @ [starting k prior]))\<lparr>ab_events := evs, ab_outbox := tab,
         ab_receipts := ab_receipts db @ [receipt_of env (ak_owner k) (sc_activity cmd) ''StartLearningActivityV1'' (sc_key cmd)
           (hsh (start_json cmd)) r]\<rparr>"
      "get_receipt (ab_receipts db') (ak_owner k) (sc_key cmd) = Some (receipt_of env (ak_owner k) (sc_activity cmd)
         ''StartLearningActivityV1'' (sc_key cmd) (hsh (start_json cmd)) r)"
proof (cases "replay_receipt seen (ak_owner k) (sc_key cmd) (hsh (start_json cmd))")
  case (Inl e)
  with assms show ?thesis by (simp add: start_activity_def Let_def)
next
  case (Inr known)
  show ?thesis
  proof (cases known)
    case (Some x)
    with Inr assms have "db' = db" by (simp add: start_activity_def Let_def)
    then show ?thesis by (rule replayed)
  next
    case None
    from assms Inr None obtain c prior where c: "activity_context_of seen (ak_owner k) (sc_activity cmd) = Inr c"
      "lp_status (xc_plan c) = PLAN_ACTIVE" "require_state seen (sc_activity cmd) = Inr prior"
      and rest: "(if st_version prior \<noteq> sc_expected cmd then map_sum id (\<lambda>r. (db, r)) (conflict_or_replay later (ak_owner k) (sc_key cmd) (hsh (start_json cmd)))
        else if st_status prior \<noteq> AVAILABLE_NOW
        then Inl (if st_status prior = ACTIVITY_SUPERSEDED then ACTIVITY_STALE_OR_SUPERSEDED else ACTIVITY_NOT_AVAILABLE)
        else bind_res (append_state_or_replay db later (starting k prior) (ak_owner k) (sc_key cmd) (hsh (start_json cmd))) (\<lambda>w.
               case w of Inr r \<Rightarrow> Inr (db, r) | Inl db1 \<Rightarrow>
                 bind_res (publish_transition env k 0 c (starting k prior) ''ActivityStarted'' db1) (\<lambda>db2.
                 write_receipt env db db2 (ak_owner k) (sc_activity cmd) ''StartLearningActivityV1'' (sc_key cmd) (hsh (start_json cmd))
                   (make_response c (starting k prior) (ak_correlation k) None)))) = Inr (db', r)"
      by (auto simp: start_activity_def Let_def res_simps require_current_plan_def starting_def split: if_splits)
    show ?thesis
    proof (cases "st_version prior = sc_expected cmd \<and> st_status prior = AVAILABLE_NOW")
      case False
      with rest have "db' = db" by (auto simp: map_sum_Inr split: if_splits)
      then show ?thesis by (rule replayed)
    next
      case True
      with rest obtain w where w: "append_state_or_replay db later (starting k prior) (ak_owner k) (sc_key cmd) (hsh (start_json cmd)) = Inr w"
        and k: "(case w of Inr r \<Rightarrow> Inr (db, r) | Inl db1 \<Rightarrow>
                 bind_res (publish_transition env k 0 c (starting k prior) ''ActivityStarted'' db1) (\<lambda>db2.
                 write_receipt env db db2 (ak_owner k) (sc_activity cmd) ''StartLearningActivityV1'' (sc_key cmd) (hsh (start_json cmd))
                   (make_response c (starting k prior) (ak_correlation k) None))) = Inr (db', r)"
        by (auto simp: res_simps)
      show ?thesis
      proof (cases w)
        case (Inr x)
        with k have "db' = db" by simp
        then show ?thesis by (rule replayed)
      next
        case (Inl db1)
        with w obtain rows where a: "append_state (tp_states (ab_tables db)) (starting k prior) = Some rows" "db1 = with_states db rows"
          by (auto simp: append_or_replay_Inl)
        from a(1) have rows: "rows = tp_states (ab_tables db) @ [starting k prior]" by (simp add: append_state_Some)
        from k Inl obtain db2 where p: "publish_transition env k 0 c (starting k prior) ''ActivityStarted'' db1 = Inr db2"
          and wr: "write_receipt env db db2 (ak_owner k) (sc_activity cmd) ''StartLearningActivityV1'' (sc_key cmd) (hsh (start_json cmd))
                   (make_response c (starting k prior) (ak_correlation k) None) = Inr (db', r)"
          by (auto simp: res_simps)
        from p obtain evs tab where db2: "db2 = db1\<lparr>ab_events := evs, ab_outbox := tab\<rparr>" by (rule publish_elim_activity)
        have st: "latest_state (tp_states (ab_tables seen)) (sc_activity cmd) = Some prior"
          using c(3) by (auto simp: require_state_def split: option.splits)
        from wr show ?thesis
        proof (cases rule: write_receipt_elim)
          case replayed
          show ?thesis by (rule that(1)) (rule replayed(1))
        next
          case (written rows')
          show ?thesis
            by (rule that(2) [OF Inr [unfolded None] c(1,2) st]) (use True a rows db2 written in simp_all)
        qed
      qed
    qed
  qed
qed

lemma first_with_Some:
  "first_with st p ds = Inr (Some a) \<Longrightarrow> a \<in> set ds \<and> (\<exists>s. st (la_id a) = Some s \<and> p (st_status s))"
  by (induction ds) (auto split: option.splits if_splits)

lemma first_with_None:
  "first_with st p ds = Inr None \<Longrightarrow> a \<in> set ds \<Longrightarrow> \<exists>s. st (la_id a) = Some s \<and> \<not> p (st_status s)"
  by (induction ds) (auto split: option.splits if_splits)

definition making_available :: "activity_call \<Rightarrow> string \<Rightarrow> versioned_ref list \<Rightarrow> activity_state \<Rightarrow> activity_state" where
  "making_available k reason refs prior = next_state prior AVAILABLE_NOW reason SYSTEM_ACTOR (ak_correlation k) (ak_now k) None None refs"

definition completing :: "activity_call \<Rightarrow> versioned_ref list \<Rightarrow> activity_state \<Rightarrow> activity_state" where
  "completing k refs prior = next_state prior DONE ''LEARNER_FINISHED_TRANSCRIPT_BACKED_ACTIVITY'' LEARNER_ACTOR (ak_correlation k)
     (ak_now k) (st_started prior) (Some (ak_now k)) refs"

abbreviation state_in_plan :: "('m) activity_db_scheme \<Rightarrow> learning_plan \<Rightarrow> uuid \<Rightarrow> activity_state option" where
  "state_in_plan db p a \<equiv> plan_state (tp_states (ab_tables db)) (lp_id p) (lp_version p) a"

lemma advance_elim:
  assumes "advance_plan env k c done db = Inr (db', c', nref)"
  obtains (opened) rest a prior evs tab refs where
      "after_activity (la_id (xc_activity c)) (ordered_definitions db (xc_plan c)) = Some rest"
      "first_with (state_in_plan db (xc_plan c)) (\<lambda>x. x = PLANNED) rest = Inr (Some a)" "c' = c" "nref = Some (activity_ref a)" "a \<in> set (ordered_definitions db (xc_plan c))"
      "state_in_plan db (xc_plan c) (la_id a) = Some prior" "st_status prior = PLANNED"
      "append_state (tp_states (ab_tables db)) (making_available k ''PREVIOUS_ACTIVITY_COMPLETED'' refs prior) =
         Some (tp_states (ab_tables db) @ [making_available k ''PREVIOUS_ACTIVITY_COMPLETED'' refs prior])"
      "db' = (with_states db (tp_states (ab_tables db) @ [making_available k ''PREVIOUS_ACTIVITY_COMPLETED'' refs prior]))
         \<lparr>ab_events := evs, ab_outbox := tab\<rparr>"
  | (finished) "c' = c\<lparr>xc_plan := (xc_plan c)\<lparr>lp_status := PLAN_COMPLETED\<rparr>\<rparr>" "nref = None"
      "db' = set_plan_status db (xc_plan c) PLAN_COMPLETED"
      "\<forall>a \<in> set (ordered_definitions db (xc_plan c)). la_id a = la_id (xc_activity c) \<or>
         (\<exists>s. state_in_plan db (xc_plan c) (la_id a) = Some s \<and> \<not> unfinished (st_status s))"
  | (stuck) rest a s where
      "after_activity (la_id (xc_activity c)) (ordered_definitions db (xc_plan c)) = Some rest"
      "first_with (state_in_plan db (xc_plan c)) (\<lambda>x. x = PLANNED) rest = Inr None" "c' = c" "nref = None" "db' = db" "a \<in> set (ordered_definitions db (xc_plan c))"
      "state_in_plan db (xc_plan c) (la_id a) = Some s" "unfinished (st_status s)" "la_id a \<noteq> la_id (xc_activity c)"
proof -
  let ?p = "xc_plan c" and ?i = "la_id (xc_activity c)"
  let ?ds = "ordered_definitions db ?p" and ?st = "state_in_plan db ?p"
  obtain rest where rest: "after_activity ?i ?ds = Some rest"
    using assms by (cases "after_activity ?i ?ds") (auto simp: advance_plan_def Let_def)
  then have sub: "set rest \<subseteq> set ?ds"
    by (auto simp: after_activity_def split: list.splits dest: set_dropWhileD) (metis list.set_intros(2) set_dropWhileD)
  obtain planned where planned: "first_with ?st (\<lambda>x. x = PLANNED) rest = Inr planned"
    using assms rest by (cases "first_with ?st (\<lambda>x. x = PLANNED) rest") (auto simp: advance_plan_def Let_def)
  show ?thesis
  proof (cases planned)
    case (Some a)
    from first_with_Some [OF planned [unfolded Some]] obtain prior where a: "a \<in> set rest" "?st (la_id a) = Some prior" "st_status prior = PLANNED"
      by blast
    let ?refs = "[mk_ref ''LearningActivityState'' (st_activity done) (VerI (st_version done))]"
    let ?s = "making_available k ''PREVIOUS_ACTIVITY_COMPLETED'' ?refs prior"
    have r: "(case append_state (tp_states (ab_tables db)) ?s of None \<Rightarrow> Inl ACTIVITY_INTEGRITY
        | Some rows \<Rightarrow> bind_res (publish_transition env k 1 (c\<lparr>xc_activity := a\<rparr>) ?s ''ActivityAvailable'' (with_states db rows))
                           (\<lambda>db'. Inr (db', c, Some (activity_ref a)))) = Inr (db', c', nref)"
      using assms rest planned Some a(2) unfolding making_available_def by (simp add: advance_plan_def Let_def)
    then obtain rows where w: "append_state (tp_states (ab_tables db)) ?s = Some rows"
      by (cases "append_state (tp_states (ab_tables db)) ?s") auto
    then have rows: "rows = tp_states (ab_tables db) @ [?s]" by (simp add: append_state_Some)
    have e: "publish_transition env k 1 (c\<lparr>xc_activity := a\<rparr>) ?s ''ActivityAvailable'' (with_states db rows) = Inr db'"
      "c' = c" "nref = Some (activity_ref a)" using r unfolding w by (auto simp: bind_res_Inr_iff)
    from e(1) obtain evs tab where "db' = (with_states db rows)\<lparr>ab_events := evs, ab_outbox := tab\<rparr>" by (rule publish_elim_activity)
    then show ?thesis
      by (intro that(1) [OF rest planned [unfolded Some] e(2,3) _ a(2,3), of ?refs tab evs]) (use a sub w rows in \<open>simp_all add: subset_iff\<close>)
  next
    case None
    obtain remaining where rem: "remaining_after ?st ?i ?ds = Inr remaining"
      using assms rest planned None by (cases "remaining_after ?st ?i ?ds") (auto simp: advance_plan_def Let_def)
    then have all: "\<forall>a \<in> set ?ds. \<exists>s. ?st (la_id a) = Some s"
      and rr: "remaining = filter (\<lambda>a. unfinished (st_status (the (?st (la_id a)))) \<and> la_id a \<noteq> ?i) ?ds"
      by (auto simp: remaining_after_def list_ex_iff split: if_splits)
    show ?thesis
    proof (cases remaining)
      case Nil
      have "(set_plan_status db ?p PLAN_COMPLETED, c\<lparr>xc_plan := ?p\<lparr>lp_status := PLAN_COMPLETED\<rparr>\<rparr>, None) = (db', c', nref)"
        using assms rest planned None rem Nil by (simp add: advance_plan_def Let_def)
      moreover have "\<forall>a \<in> set ?ds. la_id a = ?i \<or> (\<exists>s. ?st (la_id a) = Some s \<and> \<not> unfinished (st_status s))"
        using all rr Nil by (fastforce simp: filter_empty_conv)
      ultimately show ?thesis using that(2) by blast
    next
      case (Cons a as)
      have "(db, c, None) = (db', c', nref)"
        using assms rest planned None rem Cons by (simp add: advance_plan_def Let_def)
      moreover have "a \<in> set remaining" using Cons by simp
      then have "a \<in> set ?ds" "unfinished (st_status (the (?st (la_id a))))" "la_id a \<noteq> ?i" using rr by auto
      moreover from all this(1) obtain s where "?st (la_id a) = Some s" by blast
      ultimately show ?thesis using that(3) [OF rest planned [unfolded None], of a s] by simp
    qed
  qed
qed

text \<open>Without goal management nothing waits at the boundary of an activity.\<close>

definition no_pending :: "activity_call \<Rightarrow> uuid \<Rightarrow> ('m) activity_db_scheme \<Rightarrow> activity_error + ('m) activity_db_scheme \<times> versioned_ref option" where
  "no_pending k i db = Inr (db, None)"

lemma complete_elim:
  assumes "complete_activity env hsh boundary seen db later k cmd = Inr (db', r)"
  obtains (replayed) "db' = db"
  | (completed) c prior evs tab db3 replanned db4 c' nref where
      "replay_receipt seen (ak_owner k) (cc_key cmd) (hsh (complete_json cmd)) = Inr None"
      "activity_context_of seen (ak_owner k) (cc_activity cmd) = Inr c" "lp_status (xc_plan c) = PLAN_ACTIVE"
      "require_goal_active seen (ak_owner k) (lg_id (xc_goal c)) = Inr ()"
      "latest_state (tp_states (ab_tables seen)) (cc_activity cmd) = Some prior" "st_status prior = ACTIVE"
      "st_version prior = cc_expected cmd" "transcript_completable (la_type (xc_activity c))"
      "validate_transcript_refs seen (ak_owner k) (cc_activity cmd) (cc_refs cmd) = Inr ()"
      "append_state (tp_states (ab_tables db)) (completing k (cc_refs cmd) prior) =
         Some (tp_states (ab_tables db) @ [completing k (cc_refs cmd) prior])"
      "boundary k (cc_activity cmd) ((with_states db (tp_states (ab_tables db) @ [completing k (cc_refs cmd) prior]))
         \<lparr>ab_events := evs, ab_outbox := tab\<rparr>) = Inr (db3, replanned)"
      "(case replanned of Some r \<Rightarrow> Inr (db3, c, Some r) | None \<Rightarrow> advance_plan env k c (completing k (cc_refs cmd) prior) db3)
         = Inr (db4, c', nref)"
      "db' = db4\<lparr>ab_receipts := ab_receipts db4 @ [receipt_of env (ak_owner k) (cc_activity cmd) ''CompleteLearningActivityV1''
         (cc_key cmd) (hsh (complete_json cmd)) r]\<rparr>"
      "r = make_response c' (completing k (cc_refs cmd) prior) (ak_correlation k) nref"
      "get_receipt (ab_receipts db') (ak_owner k) (cc_key cmd) = Some (receipt_of env (ak_owner k) (cc_activity cmd)
         ''CompleteLearningActivityV1'' (cc_key cmd) (hsh (complete_json cmd)) r)"
proof (cases "replay_receipt seen (ak_owner k) (cc_key cmd) (hsh (complete_json cmd))")
  case (Inl e)
  with assms show ?thesis by (simp add: complete_activity_def Let_def)
next
  case (Inr known)
  let ?hsh = "hsh (complete_json cmd)" and ?i = "cc_activity cmd"
  show ?thesis
  proof (cases known)
    case (Some x)
    with Inr assms have "db' = db" by (simp add: complete_activity_def Let_def)
    then show ?thesis by (rule replayed)
  next
    case None
    let ?fin = "\<lambda>c s w. case w of Inr r \<Rightarrow> Inr (db, r) | Inl db1 \<Rightarrow>
              bind_res (publish_transition env k 0 c s ''ActivityCompleted'' db1) (\<lambda>db2.
              bind_res (boundary k ?i db2) (\<lambda>(db3, replanned).
              bind_res (case replanned of Some r \<Rightarrow> Inr (db3, c, Some r) | None \<Rightarrow> advance_plan env k c s db3) (\<lambda>(db4, c', next_ref).
              write_receipt env db db4 (ak_owner k) ?i ''CompleteLearningActivityV1'' (cc_key cmd) ?hsh
                (make_response c' s (ak_correlation k) next_ref))))"
    from assms Inr None obtain c prior where c: "activity_context_of seen (ak_owner k) ?i = Inr c"
      "lp_status (xc_plan c) = PLAN_ACTIVE" "require_goal_active seen (ak_owner k) (lg_id (xc_goal c)) = Inr ()"
      "require_state seen ?i = Inr prior"
      and rest: "(if st_version prior \<noteq> cc_expected cmd then map_sum id (\<lambda>r. (db, r)) (conflict_or_replay later (ak_owner k) (cc_key cmd) ?hsh)
        else if st_status prior \<noteq> ACTIVE
        then Inl (if st_status prior = ACTIVITY_SUPERSEDED then ACTIVITY_STALE_OR_SUPERSEDED else ACTIVITY_NOT_ACTIVE)
        else if \<not> transcript_completable (la_type (xc_activity c)) then Inl ACTIVITY_COMPLETION_EVIDENCE_REQUIRED
        else bind_res (validate_transcript_refs seen (ak_owner k) ?i (cc_refs cmd)) (\<lambda>_.
           bind_res (append_state_or_replay db later (completing k (cc_refs cmd) prior) (ak_owner k) (cc_key cmd) ?hsh)
             (?fin c (completing k (cc_refs cmd) prior)))) = Inr (db', r)"
      unfolding completing_def by (auto simp: complete_activity_def Let_def res_simps require_current_plan_def split: if_splits)
    let ?s = "completing k (cc_refs cmd) prior"
    show ?thesis
    proof (cases "st_version prior = cc_expected cmd \<and> st_status prior = ACTIVE \<and> transcript_completable (la_type (xc_activity c))")
      case False
      with rest have "db' = db" by (auto simp: map_sum_Inr split: if_splits)
      then show ?thesis by (rule replayed)
    next
      case True
      with rest obtain w where v: "validate_transcript_refs seen (ak_owner k) ?i (cc_refs cmd) = Inr ()"
        and w: "append_state_or_replay db later ?s (ak_owner k) (cc_key cmd) ?hsh = Inr w"
        and f: "?fin c ?s w = Inr (db', r)"
        by (auto simp: bind_res_Inr_iff)
      show ?thesis
      proof (cases w)
        case (Inr x)
        with f have "db' = db" by simp
        then show ?thesis by (rule replayed)
      next
        case (Inl db1)
        with w obtain rows where a: "append_state (tp_states (ab_tables db)) ?s = Some rows" "db1 = with_states db rows"
          by (auto simp: append_or_replay_Inl)
        from a(1) have rows: "rows = tp_states (ab_tables db) @ [?s]" by (simp add: append_state_Some)
        from f Inl obtain db2 db3 replanned db4 c' nref where p: "publish_transition env k 0 c ?s ''ActivityCompleted'' db1 = Inr db2"
          and b: "boundary k ?i db2 = Inr (db3, replanned)"
          and ad: "(case replanned of Some r \<Rightarrow> Inr (db3, c, Some r) | None \<Rightarrow> advance_plan env k c ?s db3) = Inr (db4, c', nref)"
          and wr: "write_receipt env db db4 (ak_owner k) ?i ''CompleteLearningActivityV1'' (cc_key cmd) ?hsh
                   (make_response c' ?s (ak_correlation k) nref) = Inr (db', r)"
          by (auto simp: bind_res_Inr_iff)
        from p obtain evs tab where db2: "db2 = db1\<lparr>ab_events := evs, ab_outbox := tab\<rparr>" by (rule publish_elim_activity)
        have st: "latest_state (tp_states (ab_tables seen)) ?i = Some prior"
          using c(4) by (auto simp: require_state_def split: option.splits)
        from wr show ?thesis
        proof (cases rule: write_receipt_elim)
          case replayed
          show ?thesis by (rule that(1)) (rule replayed(1))
        next
          case (written rows')
          show ?thesis
            by (rule that(2) [OF Inr [unfolded None] c(1-3) st _ _ _ v _ b [unfolded db2 a(2) rows] ad])
              (use True a rows written in simp_all)
        qed
      qed
    qed
  qed
qed

lemma select_elim:
  assumes "select_next env hsh seen db later k goal key = Inr (db', r)"
  obtains (replayed) "db' = db"
  | (answered) rows where "db' = db\<lparr>ab_receipts := rows\<rparr>"
  | (selected) g row a prior evs tab rcs where
      "latest_goal (ab_goals seen) goal (ak_owner k) = Some g" "active_plan_of seen (lg_id g) = Some row"
      "length (states_of_plan (tp_states (ab_tables seen)) (lp_id (to_plan row)) (lp_version (to_plan row))) =
         length (ordered_definitions seen (to_plan row))"
      "first_with (state_in_plan seen (to_plan row)) (\<lambda>x. x \<in> {AVAILABLE_NOW, ACTIVE}) (ordered_definitions seen (to_plan row)) = Inr None"
      "first_with (state_in_plan seen (to_plan row)) (\<lambda>x. x = PLANNED) (ordered_definitions seen (to_plan row)) = Inr (Some a)"
      "state_in_plan seen (to_plan row) (la_id a) = Some prior"
      "append_state (tp_states (ab_tables db)) (making_available k ''SELECT_NEXT_LEARNING_ACTIVITY'' [] prior) =
         Some (tp_states (ab_tables db) @ [making_available k ''SELECT_NEXT_LEARNING_ACTIVITY'' [] prior])"
      "db' = (with_states db (tp_states (ab_tables db) @ [making_available k ''SELECT_NEXT_LEARNING_ACTIVITY'' [] prior]))
         \<lparr>ab_events := evs, ab_outbox := tab, ab_receipts := rcs\<rparr>"
proof (cases "replay_receipt seen (ak_owner k) key (hsh (select_json goal))")
  case (Inl e)
  with assms show ?thesis by (simp add: select_next_def Let_def)
next
  case (Inr known)
  let ?h = "hsh (select_json goal)" and ?o = "ak_owner k"
  show ?thesis
  proof (cases known)
    case (Some x)
    with Inr assms have "db' = db" by (simp add: select_next_def Let_def)
    then show ?thesis by (rule replayed)
  next
    case None
    from assms Inr None obtain g where g: "latest_goal (ab_goals seen) goal ?o = Some g"
      by (cases "latest_goal (ab_goals seen) goal ?o") (simp_all add: select_next_def Let_def)
    from assms Inr None g obtain row where row: "active_plan_of seen (lg_id g) = Some row"
      by (cases "active_plan_of seen (lg_id g)") (auto simp: select_next_def Let_def bind_res_Inr_iff)
    let ?p = "to_plan row"
    let ?ds = "ordered_definitions seen ?p" and ?st = "state_in_plan seen ?p"
    have body: "(if length (states_of_plan (tp_states (ab_tables seen)) (lp_id ?p) (lp_version ?p)) \<noteq> length ?ds then Inl LEGACY_ACTIVITY_STATE_UNMIGRATED
       else bind_res (first_with ?st (\<lambda>x. x \<in> {AVAILABLE_NOW, ACTIVE}) ?ds) (\<lambda>current.
             case current of
               Some a \<Rightarrow>
                (case ?st (la_id a) of None \<Rightarrow> Inl ACTIVITY_KEY_ERROR | Some s \<Rightarrow>
                 write_receipt env db db ?o (la_id a) ''SelectNextLearningActivity'' key ?h
                   (make_response \<lparr>xc_goal = g, xc_plan = ?p, xc_activity = a\<rparr> s (ak_correlation k) None))
             | None \<Rightarrow>
                bind_res (first_with ?st (\<lambda>x. x = PLANNED) ?ds) (\<lambda>planned.
                case planned of None \<Rightarrow> Inl ACTIVITY_NOT_AVAILABLE | Some a \<Rightarrow>
                (case ?st (la_id a) of None \<Rightarrow> Inl ACTIVITY_KEY_ERROR | Some prior \<Rightarrow>
                 bind_res (append_state_or_replay db later (making_available k ''SELECT_NEXT_LEARNING_ACTIVITY'' [] prior) ?o key ?h) (\<lambda>w.
                     case w of Inr r \<Rightarrow> Inr (db, r) | Inl db1 \<Rightarrow>
                       bind_res (publish_transition env k 0 \<lparr>xc_goal = g, xc_plan = ?p, xc_activity = a\<rparr>
                           (making_available k ''SELECT_NEXT_LEARNING_ACTIVITY'' [] prior) ''ActivityAvailable'' db1) (\<lambda>db2.
                       write_receipt env db db2 ?o (la_id a) ''SelectNextLearningActivity'' key ?h
                         (make_response \<lparr>xc_goal = g, xc_plan = ?p, xc_activity = a\<rparr>
                            (making_available k ''SELECT_NEXT_LEARNING_ACTIVITY'' [] prior) (ak_correlation k) None))))))) = Inr (db', r)"
      using assms unfolding select_next_def Let_def making_available_def using Inr None g row by (auto simp: bind_res_Inr_iff)
    then have len: "length (states_of_plan (tp_states (ab_tables seen)) (lp_id ?p) (lp_version ?p)) = length ?ds"
      by (simp split: if_splits)
    from body len obtain current where cur: "first_with ?st (\<lambda>x. x \<in> {AVAILABLE_NOW, ACTIVE}) ?ds = Inr current"
      by (cases "first_with ?st (\<lambda>x. x \<in> {AVAILABLE_NOW, ACTIVE}) ?ds") simp_all
    show ?thesis
    proof (cases current)
      case (Some a)
      from first_with_Some [OF cur [unfolded Some]] obtain s where "?st (la_id a) = Some s" by blast
      with body len cur Some have wr: "write_receipt env db db ?o (la_id a) ''SelectNextLearningActivity'' key ?h
          (make_response \<lparr>xc_goal = g, xc_plan = ?p, xc_activity = a\<rparr> s (ak_correlation k) None) = Inr (db', r)"
        by simp
      then show ?thesis by (cases rule: write_receipt_elim) (use replayed answered in blast)+
    next
      case None
      from body len cur None obtain planned where pl: "first_with ?st (\<lambda>x. x = PLANNED) ?ds = Inr planned"
        by (cases "first_with ?st (\<lambda>x. x = PLANNED) ?ds") simp_all
      from body len cur None pl obtain a where a: "planned = Some a" by (cases planned) simp_all
      from first_with_Some [OF pl [unfolded a]] obtain prior where prior: "?st (la_id a) = Some prior" by blast
      let ?s = "making_available k ''SELECT_NEXT_LEARNING_ACTIVITY'' [] prior"
      let ?c = "\<lparr>xc_goal = g, xc_plan = ?p, xc_activity = a\<rparr>"
      from body len cur None pl a prior obtain w where w: "append_state_or_replay db later ?s ?o key ?h = Inr w"
        and f: "(case w of Inr r \<Rightarrow> Inr (db, r) | Inl db1 \<Rightarrow>
                       bind_res (publish_transition env k 0 ?c ?s ''ActivityAvailable'' db1) (\<lambda>db2.
                       write_receipt env db db2 ?o (la_id a) ''SelectNextLearningActivity'' key ?h
                         (make_response ?c ?s (ak_correlation k) None))) = Inr (db', r)"
        by (auto simp: bind_res_Inr_iff)
      show ?thesis
      proof (cases w)
        case (Inr x)
        with f have "db' = db" by simp
        then show ?thesis by (rule replayed)
      next
        case (Inl db1)
        with w obtain rows where ap: "append_state (tp_states (ab_tables db)) ?s = Some rows" "db1 = with_states db rows"
          by (auto simp: append_or_replay_Inl)
        from ap(1) have rows: "rows = tp_states (ab_tables db) @ [?s]" by (simp add: append_state_Some)
        from f Inl obtain db2 where p: "publish_transition env k 0 ?c ?s ''ActivityAvailable'' db1 = Inr db2"
          and wr: "write_receipt env db db2 ?o (la_id a) ''SelectNextLearningActivity'' key ?h
                   (make_response ?c ?s (ak_correlation k) None) = Inr (db', r)"
          by (auto simp: bind_res_Inr_iff)
        from p obtain evs tab where db2: "db2 = db1\<lparr>ab_events := evs, ab_outbox := tab\<rparr>" by (rule publish_elim_activity)
        from wr show ?thesis
        proof (cases rule: write_receipt_elim)
          case replayed
          show ?thesis by (rule that(1)) (rule replayed(1))
        next
          case (written rows')
          show ?thesis
            by (rule that(3) [OF g row len cur [unfolded None] pl [unfolded a] prior])
              (use ap rows db2 written in simp_all)
        qed
      qed
    qed
  qed
qed

section \<open>The history of an activity\<close>

definition moves :: "activity_state list \<Rightarrow> uuid \<Rightarrow> activity_state list" where
  "moves rows a = filter (\<lambda>r. st_activity r = a) rows"

definition lifecycle :: "(int \<times> activity_status \<times> activity_status option) list" where
  "lifecycle = [(1, PLANNED, None), (2, AVAILABLE_NOW, Some PLANNED), (3, ACTIVE, Some AVAILABLE_NOW), (4, DONE, Some ACTIVE)]"

definition history_ok :: "activity_state list \<Rightarrow> bool" where
  "history_ok ms \<longleftrightarrow> map (\<lambda>s. (st_version s, st_status s, st_previous s)) ms = take (length ms) lifecycle"

fun follows :: "activity_status \<Rightarrow> activity_status \<Rightarrow> bool" where
  "follows PLANNED x = (x = AVAILABLE_NOW)"
| "follows AVAILABLE_NOW x = (x = ACTIVE)"
| "follows ACTIVE x = (x = DONE)"
| "follows _ x = False"

lemma history_lengths: "history_ok ms \<Longrightarrow> length ms \<in> {0, 1, 2, 3, 4}"
proof -
  assume "history_ok ms"
  then have "length (map (\<lambda>s. (st_version s, st_status s, st_previous s)) ms) = length (take (length ms) lifecycle)"
    by (simp only: history_ok_def)
  then have "length ms \<le> 4" by (simp add: lifecycle_def)
  then show ?thesis unfolding insert_iff empty_iff by arith
qed

lemma history_shapes:
  assumes "history_ok ms"
  obtains "ms = []" | a where "ms = [a]" | a b where "ms = [a, b]" | a b c where "ms = [a, b, c]"
  | a b c d where "ms = [a, b, c, d]"
  using history_lengths [OF assms] by (auto simp: length_Suc_conv numeral_eq_Suc)

lemma history_append:
  assumes "history_ok ms" and "prior \<in> set ms" and "\<forall>r \<in> set ms. st_version r \<noteq> st_version s"
    and "st_version s = st_version prior + 1" and "st_previous s = Some (st_status prior)" and "follows (st_status prior) (st_status s)"
  shows "history_ok (ms @ [s]) \<and> prior = last ms"
  using assms(1) by (cases rule: history_shapes) (use assms in \<open>auto simp: history_ok_def lifecycle_def\<close>)

lemma history_latest:
  assumes "history_ok (moves rows a)"
  shows "latest_state rows a = (if moves rows a = [] then None else Some (last (moves rows a)))"
proof (cases "moves rows a = []")
  case False
  have "\<forall>x \<in> set (moves rows a). x \<noteq> last (moves rows a) \<longrightarrow> st_version x < st_version (last (moves rows a))"
    using assms by (cases rule: history_shapes) (use assms in \<open>auto simp: history_ok_def lifecycle_def\<close>)
  then have "latest_by st_version (moves rows a) = Some (last (moves rows a))"
    using False by (intro latest_by_eq) auto
  with False show ?thesis by (simp add: latest_state_def moves_def)
qed (simp add: latest_state_def moves_def)

definition status_of :: "activity_state list \<Rightarrow> uuid \<Rightarrow> activity_status" where
  "status_of rows a = st_status (last (moves rows a))"

definition of_plan :: "learning_activity \<Rightarrow> activity_state \<Rightarrow> bool" where
  "of_plan a s \<longleftrightarrow> la_id a = st_activity s \<and> la_plan a = st_plan s \<and> la_plan_version a = st_plan_version s"

definition states_ok :: "learning_activity list \<Rightarrow> activity_state list \<Rightarrow> bool" where
  "states_ok acts rows \<longleftrightarrow> (\<forall>a. history_ok (moves rows a)) \<and> distinct (map la_id acts) \<and>
     (\<forall>s \<in> set rows. \<exists>a \<in> set acts. of_plan a s) \<and> (\<forall>a \<in> set acts. moves rows (la_id a) \<noteq> [])"

lemma moves_append: "moves (rows @ [s]) a = (if st_activity s = a then moves rows a @ [s] else moves rows a)"
  by (simp add: moves_def)

lemma states_append:
  assumes ok: "states_ok acts rows" and prior: "prior \<in> set rows" and s: "append_state rows s = Some rows'"
    and m: "st_activity s = st_activity prior" "st_plan s = st_plan prior" "st_plan_version s = st_plan_version prior"
      "st_version s = st_version prior + 1" "st_previous s = Some (st_status prior)" "follows (st_status prior) (st_status s)"
  shows "states_ok acts rows' \<and> status_of rows' = (status_of rows)(st_activity prior := st_status s) \<and>
    status_of rows (st_activity prior) = st_status prior"
proof -
  from s have rows': "rows' = rows @ [s]" and new: "\<forall>r \<in> set rows. st_activity r = st_activity s \<longrightarrow> st_version r \<noteq> st_version s"
    by (auto simp: append_state_Some)
  let ?ms = "moves rows (st_activity prior)"
  have h: "history_ok ?ms" using ok by (simp add: states_ok_def)
  have a: "history_ok (?ms @ [s]) \<and> prior = last ?ms"
    using h _ _ m(4-6) by (rule history_append) (use prior new m(1) in \<open>auto simp: moves_def\<close>)
  obtain act where "act \<in> set acts" "of_plan act prior" using ok prior by (auto simp: states_ok_def)
  then have "\<exists>a \<in> set acts. of_plan a s" using m by (auto simp: of_plan_def)
  with ok a m(1) have "states_ok acts rows'" by (auto simp: states_ok_def rows' moves_append)
  moreover have "status_of rows' = (status_of rows)(st_activity prior := st_status s)"
    using m(1) by (auto simp: status_of_def rows' moves_append)
  moreover have "status_of rows (st_activity prior) = st_status prior" using a by (simp add: status_of_def)
  ultimately show ?thesis by blast
qed

section \<open>The order of a plan\<close>

fun in_order :: "activity_status list \<Rightarrow> bool" where
  "in_order [] = True"
| "in_order (x # xs) = (if x = DONE then in_order xs
     else x \<in> {PLANNED, AVAILABLE_NOW, ACTIVE} \<and> list_all (\<lambda>y. y = PLANNED) xs)"

definition is_open :: "activity_status \<Rightarrow> bool" where
  "is_open x \<longleftrightarrow> x = AVAILABLE_NOW \<or> x = ACTIVE"

lemma map_upd_same: "i \<notin> set ids \<Longrightarrow> map (f(i := x)) ids = map f ids"
  by (induction ids) auto

lemma in_order_planned: "list_all (\<lambda>y. y = PLANNED) xs \<Longrightarrow> in_order xs"
  by (cases xs) auto

lemma in_order_forward:
  assumes "in_order (map f ids)" and "distinct ids" and "is_open (f i)" and "x \<in> {AVAILABLE_NOW, ACTIVE, DONE}"
  shows "in_order (map (f(i := x)) ids)"
  using assms by (induction ids) (auto simp: is_open_def map_upd_same list_all_iff intro!: in_order_planned)

lemma in_order_next:
  assumes "in_order (map f ids)" and "distinct ids" and "\<forall>j \<in> set ids. \<not> is_open (f j)"
    and "find (\<lambda>j. f j = PLANNED) ids = Some i"
  shows "in_order (map (f(i := AVAILABLE_NOW)) ids)"
proof -
  have "f i = PLANNED" using assms(4) by (rule find_mem [THEN conjunct2])
  with assms show ?thesis
    by (induction ids) (auto simp: is_open_def map_upd_same list_all_iff split: if_splits)
qed

lemma in_order_one_open:
  assumes "in_order (map f ids)" and "i \<in> set ids" "j \<in> set ids" "is_open (f i)" "is_open (f j)"
  shows "i = j"
  using assms by (induction ids) (auto simp: is_open_def list_all_iff split: if_splits)

text \<open>Before an activity that is not planned everything is done; after an open one everything is planned.\<close>

lemma in_order_before: "in_order (xs @ ys) \<Longrightarrow> \<not> list_all (\<lambda>y. y = PLANNED) ys \<Longrightarrow> list_all (\<lambda>y. y = DONE) xs"
  by (induction xs) (auto split: if_splits)

lemma in_order_rest: "in_order (xs @ ys) \<Longrightarrow> list_all (\<lambda>y. y = DONE) xs \<Longrightarrow> in_order ys"
  by (induction xs) auto

lemma in_order_around:
  assumes "in_order (xs @ x # ys)" and "is_open x"
  shows "list_all (\<lambda>y. y = DONE) xs \<and> list_all (\<lambda>y. y = PLANNED) ys"
proof -
  have d: "list_all (\<lambda>y. y = DONE) xs" using assms by (intro in_order_before [of xs "x # ys"]) (auto simp: is_open_def)
  have "in_order (x # ys)" using assms(1) d by (rule in_order_rest)
  with d assms(2) show ?thesis by (auto simp: is_open_def)
qed

section \<open>Plans, activities and states together\<close>

abbreviation plan_key :: "plan_row \<Rightarrow> uuid \<times> int" where
  "plan_key r \<equiv> (lp_id (pr_plan r), lp_version (pr_plan r))"

abbreviation activity_plan :: "learning_activity \<Rightarrow> uuid \<times> int" where
  "activity_plan a \<equiv> (la_plan a, la_plan_version a)"

definition line_ok :: "learning_activity list \<Rightarrow> activity_state list \<Rightarrow> plan_row \<Rightarrow> bool" where
  "line_ok acts rows r \<longleftrightarrow> distinct (lp_activities (pr_plan r)) \<and>
     set (lp_activities (pr_plan r)) = la_id ` {a \<in> set acts. activity_plan a = plan_key r} \<and>
     in_order (map (status_of rows) (lp_activities (pr_plan r)))"

definition lines_ok :: "plan_row list \<Rightarrow> learning_activity list \<Rightarrow> activity_state list \<Rightarrow> bool" where
  "lines_ok plans acts rows \<longleftrightarrow> distinct (map plan_key plans) \<and>
     (\<forall>a \<in> set acts. \<exists>r \<in> set plans. plan_key r = activity_plan a) \<and> (\<forall>r \<in> set plans. line_ok acts rows r)"

definition life_ok :: "('m) activity_db_scheme \<Rightarrow> bool" where
  "life_ok db \<longleftrightarrow> states_ok (tp_activities (ab_tables db)) (tp_states (ab_tables db)) \<and>
     lines_ok (tp_plans (ab_tables db)) (tp_activities (ab_tables db)) (tp_states (ab_tables db))"

lemma map_filter_inverse: "(\<And>i. i \<in> set ids \<Longrightarrow> \<exists>a. f i = Some a \<and> g a = i) \<Longrightarrow> map g (List.map_filter f ids) = ids"
  by (induction ids) (fastforce simp: List.map_filter_simps)+

lemma activity_unique: "distinct (map la_id acts) \<Longrightarrow> a \<in> set acts \<Longrightarrow> b \<in> set acts \<Longrightarrow> la_id a = la_id b \<Longrightarrow> a = b"
  by (simp add: distinct_map inj_on_def)

lemma ordered_ids:
  assumes ok: "line_ok (tp_activities (ab_tables db)) rows r" and p: "lp_id p = lp_id (pr_plan r)" "lp_version p = lp_version (pr_plan r)"
      "lp_activities p = lp_activities (pr_plan r)"
  shows "map la_id (ordered_definitions db p) = lp_activities p \<and>
    (\<forall>a \<in> set (ordered_definitions db p). a \<in> set (tp_activities (ab_tables db)) \<and> activity_plan a = plan_key r)"
proof
  let ?f = "\<lambda>i. find (\<lambda>a. la_id a = i \<and> la_plan a = lp_id p \<and> la_plan_version a = lp_version p) (tp_activities (ab_tables db))"
  have "\<exists>a. ?f i = Some a \<and> la_id a = i" if i: "i \<in> set (lp_activities p)" for i
  proof -
    obtain a where "a \<in> set (tp_activities (ab_tables db))" "la_id a = i" "la_plan a = lp_id p" "la_plan_version a = lp_version p"
      using i ok p by (auto simp: line_ok_def)
    then have "?f i \<noteq> None" by (auto simp: find_None_iff)
    then show ?thesis using find_mem by fastforce
  qed
  then show "map la_id (ordered_definitions db p) = lp_activities p"
    unfolding ordered_definitions_def by (rule map_filter_inverse)
  show "\<forall>a \<in> set (ordered_definitions db p). a \<in> set (tp_activities (ab_tables db)) \<and> activity_plan a = plan_key r"
    unfolding ordered_definitions_def using find_mem p by (fastforce simp: List.map_filter_def)
qed

lemma plan_state_status:
  assumes ok: "states_ok acts rows" and a: "a \<in> set acts" "activity_plan a = (p, v)"
  shows "\<exists>s \<in> set rows. plan_state rows p v (la_id a) = Some s \<and> latest_state rows (la_id a) = Some s \<and>
    st_activity s = la_id a \<and> st_status s = status_of rows (la_id a)"
proof -
  have d: "distinct (map la_id acts)" using ok by (simp add: states_ok_def)
  have "st_plan r = p \<and> st_plan_version r = v" if r: "r \<in> set rows" "st_activity r = la_id a" for r
  proof -
    obtain b where b: "b \<in> set acts" "of_plan b r" using ok r by (auto simp: states_ok_def)
    then have "b = a" using d a r by (intro activity_unique) (auto simp: of_plan_def)
    with b a r show ?thesis by (simp add: of_plan_def)
  qed
  then have "filter (\<lambda>r. st_plan r = p \<and> st_plan_version r = v \<and> st_activity r = la_id a) rows = moves rows (la_id a)"
    unfolding moves_def by (intro filter_cong) auto
  then have "plan_state rows p v (la_id a) = latest_state rows (la_id a)"
    by (simp add: plan_state_def latest_state_def moves_def)
  moreover have ne: "moves rows (la_id a) \<noteq> []" and "history_ok (moves rows (la_id a))" using ok a by (auto simp: states_ok_def)
  then have "latest_state rows (la_id a) = Some (last (moves rows (la_id a)))" by (simp add: history_latest)
  moreover from last_in_set [OF ne] have "last (moves rows (la_id a)) \<in> set rows" "st_activity (last (moves rows (la_id a))) = la_id a"
    by (auto simp: moves_def)
  ultimately show ?thesis by (auto simp: status_of_def)
qed

lemma first_with_find:
  assumes "\<And>a. a \<in> set ds \<Longrightarrow> \<exists>s. st (la_id a) = Some s \<and> st_status s = f (la_id a)"
  shows "first_with st p ds = Inr (find (\<lambda>a. p (f (la_id a))) ds)"
  using assms by (induction ds) fastforce+

lemma lines_forward:
  assumes "lines_ok plans acts rows" and "status_of rows' = (status_of rows)(i := x)" and "is_open (status_of rows i)"
    and "x \<in> {AVAILABLE_NOW, ACTIVE, DONE}"
  shows "lines_ok plans acts rows'"
proof -
  have "line_ok acts rows' r" if "line_ok acts rows r" for r
    using that assms(2-4) in_order_forward [of "status_of rows" "lp_activities (pr_plan r)" i x] unfolding line_ok_def by simp
  with assms(1) show ?thesis unfolding lines_ok_def by blast
qed

lemma lines_next:
  assumes ok: "lines_ok plans acts rows" and d: "distinct (map la_id acts)" and s: "status_of rows' = (status_of rows)(i := AVAILABLE_NOW)"
    and r: "r \<in> set plans" and closed: "\<forall>j \<in> set (lp_activities (pr_plan r)). \<not> is_open (status_of rows j)"
    and i: "find (\<lambda>j. status_of rows j = PLANNED) (lp_activities (pr_plan r)) = Some i"
  shows "lines_ok plans acts rows'"
proof -
  have "in_order (map (status_of rows') (lp_activities (pr_plan q)))" if q: "q \<in> set plans" for q
  proof (cases "q = r")
    case True
    have "distinct (lp_activities (pr_plan r)) \<and> in_order (map (status_of rows) (lp_activities (pr_plan r)))"
      using ok r by (simp add: lines_ok_def line_ok_def)
    then have "in_order (map ((status_of rows)(i := AVAILABLE_NOW)) (lp_activities (pr_plan r)))"
      using closed i by (intro in_order_next) simp_all
    with True show ?thesis by (simp only: s)
  next
    case False
    have k: "plan_key q \<noteq> plan_key r" using ok q r False by (auto simp: lines_ok_def distinct_map inj_on_def)
    have m: "set (lp_activities (pr_plan x)) = la_id ` {a \<in> set acts. activity_plan a = plan_key x}" if "x \<in> set plans" for x
      using ok that by (simp add: lines_ok_def line_ok_def)
    have "i \<in> set (lp_activities (pr_plan r))" using find_mem [OF i] by simp
    then obtain a where a: "a \<in> set acts" "la_id a = i" "activity_plan a = plan_key r" using m [OF r] by auto
    have "i \<notin> set (lp_activities (pr_plan q))"
    proof
      assume "i \<in> set (lp_activities (pr_plan q))"
      then obtain b where b: "b \<in> set acts" "la_id b = i" "activity_plan b = plan_key q" using m [OF q] by auto
      moreover from b a have "a = b" by (intro activity_unique [OF d]) simp_all
      ultimately show False using a k by simp
    qed
    then have e: "map (status_of rows') (lp_activities (pr_plan q)) = map (status_of rows) (lp_activities (pr_plan q))"
      by (simp only: s map_upd_same simp_thms)
    have "in_order (map (status_of rows) (lp_activities (pr_plan q)))" using ok q by (simp add: lines_ok_def line_ok_def)
    then show ?thesis unfolding e .
  qed
  with ok show ?thesis unfolding lines_ok_def line_ok_def by blast
qed

section \<open>What the commands preserve\<close>

text \<open>A snapshot: what another transaction may have read before the rows of \<open>db\<close> were complete.\<close>

definition snapshot :: "('m) activity_db_scheme \<Rightarrow> ('m) activity_db_scheme \<Rightarrow> bool" where
  "snapshot seen db \<longleftrightarrow> set (tp_states (ab_tables seen)) \<subseteq> set (tp_states (ab_tables db)) \<and>
     set (tp_activities (ab_tables seen)) \<subseteq> set (tp_activities (ab_tables db)) \<and>
     pr_plan ` set (tp_plans (ab_tables seen)) \<subseteq> pr_plan ` set (tp_plans (ab_tables db))"

lemma snapshot_refl: "snapshot db db"
  by (simp add: snapshot_def)

lemma snapshot_trans: "snapshot a b \<Longrightarrow> snapshot b c \<Longrightarrow> snapshot a c"
  unfolding snapshot_def by (meson order_trans)

lemma latest_state_mem: "latest_state rows a = Some s \<Longrightarrow> s \<in> set rows \<and> st_activity s = a"
  using latest_by_Some [of st_version "filter (\<lambda>r. st_activity r = a) rows" s] by (simp add: latest_state_def)

text \<open>A transition of an open activity keeps every plan in order.\<close>

lemma life_forward:
  assumes ok: "life_ok db" and prior: "prior \<in> set (tp_states (ab_tables db))"
    and ap: "append_state (tp_states (ab_tables db)) s = Some rows'"
    and m: "st_activity s = st_activity prior" "st_plan s = st_plan prior" "st_plan_version s = st_plan_version prior"
      "st_version s = st_version prior + 1" "st_previous s = Some (st_status prior)" "follows (st_status prior) (st_status s)"
    and o: "is_open (st_status prior)"
  shows "life_ok (with_states db rows') \<and>
    status_of rows' = (status_of (tp_states (ab_tables db)))(st_activity prior := st_status s) \<and>
    status_of (tp_states (ab_tables db)) (st_activity prior) = st_status prior"
proof -
  let ?t = "ab_tables db"
  have sok: "states_ok (tp_activities ?t) (tp_states ?t)" and lok: "lines_ok (tp_plans ?t) (tp_activities ?t) (tp_states ?t)"
    using ok by (simp_all add: life_ok_def)
  note s = states_append [OF sok prior ap m]
  have x: "st_status s \<in> {AVAILABLE_NOW, ACTIVE, DONE}" using m(6) o by (auto simp: is_open_def)
  have "lines_ok (tp_plans ?t) (tp_activities ?t) rows'"
    by (rule lines_forward [OF lok, where i = "st_activity prior" and x = "st_status s"]) (use s o x in simp_all)
  with s show ?thesis by (simp add: life_ok_def)
qed

text \<open>Opening the first planned activity of a plan with no open activity keeps every plan in order.\<close>

lemma life_open:
  assumes ok: "life_ok db" and r: "r \<in> set (tp_plans (ab_tables db))" and p: "lp_id p = lp_id (pr_plan r)"
      "lp_version p = lp_version (pr_plan r)" "lp_activities p = lp_activities (pr_plan r)"
    and closed: "\<forall>j \<in> set (lp_activities p). \<not> is_open (status_of (tp_states (ab_tables db)) j)"
    and a: "find (\<lambda>a. status_of (tp_states (ab_tables db)) (la_id a) = PLANNED) (ordered_definitions db p) = Some a"
    and prior: "state_in_plan db p (la_id a) = Some prior"
    and ap: "append_state (tp_states (ab_tables db)) (making_available k reason refs prior) = Some rows'"
  shows "life_ok (with_states db rows') \<and> la_id a \<in> set (lp_activities p) \<and>
    status_of rows' = (status_of (tp_states (ab_tables db)))(la_id a := AVAILABLE_NOW)"
proof -
  let ?t = "ab_tables db" and ?s = "making_available k reason refs prior"
  have sok: "states_ok (tp_activities ?t) (tp_states ?t)" and lok: "lines_ok (tp_plans ?t) (tp_activities ?t) (tp_states ?t)"
    using ok by (simp_all add: life_ok_def)
  have line: "line_ok (tp_activities ?t) (tp_states ?t) r" using lok r by (simp add: lines_ok_def)
  note ids = ordered_ids [OF line p]
  have a': "a \<in> set (ordered_definitions db p)" "status_of (tp_states ?t) (la_id a) = PLANNED" using find_mem [OF a] by simp_all
  with ids p obtain s where s: "s \<in> set (tp_states ?t)" "plan_state (tp_states ?t) (lp_id p) (lp_version p) (la_id a) = Some s"
      "st_activity s = la_id a" "st_status s = status_of (tp_states ?t) (la_id a)"
    using plan_state_status [OF sok, of a "lp_id p" "lp_version p"] by auto
  with prior a'(2) have prior': "prior \<in> set (tp_states ?t)" "st_activity prior = la_id a" "st_status prior = PLANNED" by simp_all
  have st: "states_ok (tp_activities ?t) rows' \<and> status_of rows' = (status_of (tp_states ?t))(st_activity prior := st_status ?s) \<and>
      status_of (tp_states ?t) (st_activity prior) = st_status prior"
    by (rule states_append [OF sok prior'(1) ap]) (simp_all add: making_available_def next_state_def prior'(3))
  have find_map: "find q (map f xs) = map_option f (find (q \<circ> f) xs)" for q :: "uuid \<Rightarrow> bool" and f :: "learning_activity \<Rightarrow> uuid" and xs
    by (induction xs) auto
  have "find (\<lambda>j. status_of (tp_states ?t) j = PLANNED) (map la_id (ordered_definitions db p)) = Some (la_id a)"
    unfolding find_map by (simp add: comp_def a)
  then have f: "find (\<lambda>j. status_of (tp_states ?t) j = PLANNED) (lp_activities (pr_plan r)) = Some (la_id a)"
    using ids p by simp
  have s2: "status_of rows' = (status_of (tp_states ?t))(la_id a := AVAILABLE_NOW)"
    using st prior' by (simp add: making_available_def next_state_def)
  have "lines_ok (tp_plans ?t) (tp_activities ?t) rows'"
    using lok _ s2 r _ f by (rule lines_next) (use sok closed p in \<open>simp_all add: states_ok_def\<close>)
  moreover have "la_id a \<in> set (lp_activities p)" using find_mem [OF f] p by simp
  ultimately show ?thesis using st s2 by (simp add: life_ok_def)
qed

lemma context_facts:
  assumes snap: "snapshot seen db" and c: "activity_context_of seen owner i = Inr c"
  shows "\<exists>r \<in> set (tp_plans (ab_tables db)). lp_id (xc_plan c) = lp_id (pr_plan r) \<and> lp_version (xc_plan c) = lp_version (pr_plan r) \<and>
    lp_activities (xc_plan c) = lp_activities (pr_plan r) \<and> activity_plan (xc_activity c) = plan_key r \<and>
    xc_activity c \<in> set (tp_activities (ab_tables db)) \<and> la_id (xc_activity c) = i"
proof -
  obtain a q where a: "activity_by_id seen i = Some a" and q: "plan_row_at seen (la_plan a) (la_plan_version a) = Some q"
    and c': "xc_plan c = to_plan q" "xc_activity c = a"
    using c by (auto simp: activity_context_of_def split: option.splits)
  have am: "a \<in> set (tp_activities (ab_tables seen)) \<and> la_id a = i" using a find_mem unfolding activity_by_id_def by fast
  have qm: "q \<in> set (tp_plans (ab_tables seen)) \<and> lp_id (pr_plan q) = la_plan a \<and> lp_version (pr_plan q) = la_plan_version a"
    using q find_mem unfolding plan_row_at_def by fast
  then have "pr_plan q \<in> pr_plan ` set (tp_plans (ab_tables db))" using snap unfolding snapshot_def by (meson imageI subsetD)
  then obtain r where r: "r \<in> set (tp_plans (ab_tables db))" "pr_plan r = pr_plan q" by auto
  have "a \<in> set (tp_activities (ab_tables db))" using am snap by (auto simp: snapshot_def)
  with am qm r c' show ?thesis by (intro bexI [of _ r]) (auto simp: to_plan_def)
qed

lemma snapshot_states: "snapshot db (with_states db (tp_states (ab_tables db) @ ss))"
  by (simp add: snapshot_def)

lemma start_life:
  assumes ok: "life_ok db" and snap: "snapshot seen db" and go: "start_activity env hsh seen db later k cmd = Inr (db', r)"
  shows "life_ok db' \<and> snapshot db db'"
  using go
proof (cases rule: start_elim)
  case replayed
  with ok snapshot_refl show ?thesis by simp
next
  case (started c prior evs tab)
  have "prior \<in> set (tp_states (ab_tables db))"
    using latest_state_mem [OF started(4)] snap by (auto simp: snapshot_def)
  from life_forward [OF ok this started(7)]
  have "life_ok (with_states db (tp_states (ab_tables db) @ [starting k prior]))"
    using started(5) by (simp add: starting_def next_state_def is_open_def)
  then show ?thesis unfolding started(9) by (auto simp: life_ok_def snapshot_def)
qed

text \<open>What completing an activity does to its plan: everything before it is done, and the next activity
  becomes available or the plan is completed.\<close>

definition advanced :: "('m) activity_db_scheme \<Rightarrow> learning_plan \<Rightarrow> uuid \<Rightarrow> versioned_ref option \<Rightarrow> bool" where
  "advanced db p i nref \<longleftrightarrow> status_of (tp_states (ab_tables db)) i = DONE \<and>
     (case nref of
        Some r \<Rightarrow> (\<exists>xs ys. lp_activities p = xs @ i # vr_id r # ys \<and> status_of (tp_states (ab_tables db)) (vr_id r) = AVAILABLE_NOW)
      | None \<Rightarrow> list_all (\<lambda>j. status_of (tp_states (ab_tables db)) j = DONE) (lp_activities p) \<and>
          list_all (\<lambda>r. same_plan_row p r \<longrightarrow> pr_status r = PLAN_COMPLETED) (tp_plans (ab_tables db)))"

text \<open>The status of a plan plays no part in the order of its activities.\<close>

lemma lines_of_plans: "lines_ok ps acts rows \<longleftrightarrow>
    (let qs = map pr_plan ps in distinct (map (\<lambda>q. (lp_id q, lp_version q)) qs) \<and>
     (\<forall>a \<in> set acts. \<exists>q \<in> set qs. (lp_id q, lp_version q) = activity_plan a) \<and>
     (\<forall>q \<in> set qs. distinct (lp_activities q) \<and>
       set (lp_activities q) = la_id ` {a \<in> set acts. activity_plan a = (lp_id q, lp_version q)} \<and>
       in_order (map (status_of rows) (lp_activities q))))"
  by (simp add: lines_ok_def line_ok_def Let_def comp_def)

lemma set_status_plans: "map pr_plan (tp_plans (ab_tables (set_plan_status db p s))) = map pr_plan (tp_plans (ab_tables db))"
  by (simp add: set_plan_status_def)

lemma set_status_frame: "tp_states (ab_tables (set_plan_status db p s)) = tp_states (ab_tables db)"
  "tp_activities (ab_tables (set_plan_status db p s)) = tp_activities (ab_tables db)"
  by (simp_all add: set_plan_status_def)

lemma set_status_life: "life_ok (set_plan_status db p s) = life_ok db"
  unfolding life_ok_def lines_of_plans set_status_plans set_status_frame by simp

lemma set_status_snapshot: "snapshot db (set_plan_status db p s)"
proof -
  have "pr_plan ` set (tp_plans (ab_tables (set_plan_status db p s))) = pr_plan ` set (tp_plans (ab_tables db))"
    using arg_cong [OF set_status_plans [of db p s], of set] by simp
  then show ?thesis by (simp add: snapshot_def set_status_frame)
qed

lemma after_split:
  assumes "after_activity i ds = Some rest"
  obtains xs x where "ds = xs @ x # rest" "la_id x = i"
proof -
  let ?q = "\<lambda>a. la_id a \<noteq> i"
  obtain x where x: "dropWhile ?q ds = x # rest" using assms by (auto simp: after_activity_def split: list.splits)
  have "ds = takeWhile ?q ds @ x # rest" using takeWhile_dropWhile_id [of ?q ds] x by simp
  moreover have "la_id x = i" using hd_dropWhile [of ?q ds] x by simp
  ultimately show ?thesis by (rule that)
qed

lemma mk_ref_id [simp]: "vr_id (activity_ref a) = la_id a"
  by (simp add: activity_ref_def)

lemma advance_life:
  assumes ok: "life_ok db" and r: "r \<in> set (tp_plans (ab_tables db))" and p: "lp_id (xc_plan c) = lp_id (pr_plan r)"
      "lp_version (xc_plan c) = lp_version (pr_plan r)" "lp_activities (xc_plan c) = lp_activities (pr_plan r)"
    and f: "in_order (map f (lp_activities (xc_plan c)))" "is_open (f (la_id (xc_activity c)))"
    and g: "status_of (tp_states (ab_tables db)) = f(la_id (xc_activity c) := DONE)"
    and go: "advance_plan env k c s db = Inr (db', c', nref)"
  shows "life_ok db' \<and> snapshot db db' \<and> advanced db' (xc_plan c) (la_id (xc_activity c)) nref"
proof -
  let ?t = "ab_tables db" and ?p = "xc_plan c" and ?i = "la_id (xc_activity c)"
  let ?ds = "ordered_definitions db ?p" and ?g = "status_of (tp_states ?t)"
  have sok: "states_ok (tp_activities ?t) (tp_states ?t)" and line: "line_ok (tp_activities ?t) (tp_states ?t) r"
    using ok r by (simp_all add: life_ok_def lines_ok_def)
  note ids = ordered_ids [OF line p]
  have d: "distinct (lp_activities ?p)" using line p by (simp add: line_ok_def)
  have st: "\<exists>s. state_in_plan db ?p (la_id a) = Some s \<and> st_status s = ?g (la_id a)" if "a \<in> set ?ds" for a
    using plan_state_status [OF sok, of a "lp_id ?p" "lp_version ?p"] ids that p by auto
  have fw: "first_with (state_in_plan db ?p) (\<lambda>x. x = PLANNED) rest = Inr (find (\<lambda>a. ?g (la_id a) = PLANNED) rest)"
    if "set rest \<subseteq> set ?ds" for rest
    using that st by (intro first_with_find) auto
  have split: "\<exists>xs x. ?ds = xs @ x # rest \<and> la_id x = ?i \<and> (\<forall>a \<in> set xs. ?g (la_id a) = DONE) \<and> (\<forall>a \<in> set rest. ?g (la_id a) = PLANNED)"
    if aft: "after_activity ?i ?ds = Some rest" for rest
  proof -
    obtain xs x where x: "?ds = xs @ x # rest" "la_id x = ?i" using aft by (rule after_split)
    then have l: "lp_activities ?p = map la_id xs @ ?i # map la_id rest" using ids by (metis list.simps(9) map_append)
    with f have "list_all (\<lambda>y. y = DONE) (map f (map la_id xs)) \<and> list_all (\<lambda>y. y = PLANNED) (map f (map la_id rest))"
      using in_order_around [of "map f (map la_id xs)" "f ?i" "map f (map la_id rest)"] by simp
    moreover have "\<forall>a \<in> set xs \<union> set rest. la_id a \<noteq> ?i" using d l by (auto simp: image_iff)
    ultimately have "\<forall>a \<in> set xs. ?g (la_id a) = DONE" "\<forall>a \<in> set rest. ?g (la_id a) = PLANNED"
      by (auto simp: g list_all_iff)
    with x show ?thesis by blast
  qed
  have gi: "?g ?i = DONE" by (simp add: g)
  from go show ?thesis
  proof (cases rule: advance_elim)
    case (opened rest a prior evs tab refs)
    obtain xs x where x: "?ds = xs @ x # rest" "la_id x = ?i" and before: "\<forall>a \<in> set xs. ?g (la_id a) = DONE"
      and after: "\<forall>a \<in> set rest. ?g (la_id a) = PLANNED"
      using split [OF opened(1)] by blast
    have "set rest \<subseteq> set ?ds" using x by auto
    then have "find (\<lambda>a. ?g (la_id a) = PLANNED) rest = Some a" using opened(2) fw [of rest] by simp
    with after obtain ys where rest: "rest = a # ys" by (cases rest) auto
    have find: "find (\<lambda>a. ?g (la_id a) = PLANNED) ?ds = Some a"
    proof -
      have "find (\<lambda>a. ?g (la_id a) = PLANNED) xs = None" using before by (auto simp: find_None_iff)
      then show ?thesis unfolding x(1) rest using after gi x(2) rest by (induction xs) (auto split: if_splits)
    qed
    have l: "lp_activities ?p = map la_id xs @ ?i # la_id a # map la_id ys"
      using ids x rest by (metis list.simps(9) map_append)
    have "\<forall>j \<in> set (lp_activities ?p). ?g j \<in> {DONE, PLANNED}" using l before after rest gi by auto
    then have "\<forall>j \<in> set (lp_activities ?p). \<not> is_open (?g j)" by (auto simp: is_open_def)
    note o = life_open [OF ok r p this find opened(6,8)]
    have "advanced db' ?p ?i nref"
      using o l gi d unfolding advanced_def opened(9) opened(4) by auto
    moreover have "life_ok db' \<and> snapshot db db'" using o unfolding opened(9) by (auto simp: life_ok_def snapshot_def)
    ultimately show ?thesis by blast
  next
    case finished
    obtain rest where "after_activity ?i ?ds = Some rest"
      using go by (cases "after_activity ?i ?ds") (auto simp: advance_plan_def Let_def)
    from split [OF this] obtain xs x where x: "?ds = xs @ x # rest" "la_id x = ?i" and before: "\<forall>a \<in> set xs. ?g (la_id a) = DONE"
      and after: "\<forall>a \<in> set rest. ?g (la_id a) = PLANNED" by blast
    have l: "lp_activities ?p = map la_id xs @ ?i # map la_id rest" using ids x by (metis list.simps(9) map_append)
    have "rest = []"
    proof (cases rest)
      case (Cons a as)
      then have a: "a \<in> set ?ds" "?g (la_id a) = PLANNED" "la_id a \<noteq> ?i" using x after l d by auto
      with finished(4) st [OF a(1)] show ?thesis by (auto simp: unfinished_def)
    qed
    with l before gi have "list_all (\<lambda>j. ?g j = DONE) (lp_activities ?p)" by (simp add: list_all_iff)
    then have "advanced db' ?p ?i nref"
      unfolding finished advanced_def using gi by (auto simp: set_plan_status_def list_all_iff same_plan_row_def)
    with ok set_status_life set_status_snapshot show ?thesis unfolding finished by blast
  next
    case (stuck rest a s)
    obtain xs x where x: "?ds = xs @ x # rest" "la_id x = ?i" and before: "\<forall>a \<in> set xs. ?g (la_id a) = DONE"
      and after: "\<forall>a \<in> set rest. ?g (la_id a) = PLANNED"
      using split [OF stuck(1)] by blast
    have "set rest \<subseteq> set ?ds" using x by auto
    then have "find (\<lambda>a. ?g (la_id a) = PLANNED) rest = None" using stuck(2) fw [of rest] by simp
    then have "a \<in> set xs" using after stuck(6) x stuck(9) by (cases rest) auto
    with before st [OF stuck(6)] stuck(7,8) show ?thesis by (auto simp: unfinished_def)
  qed
qed

lemma complete_life:
  assumes ok: "life_ok db" and snap: "snapshot seen db"
    and go: "complete_activity env hsh no_pending seen db later k cmd = Inr (db', r)"
  shows "life_ok db' \<and> snapshot db db' \<and>
    (db' = db \<or> (\<exists>c. activity_context_of seen (ak_owner k) (cc_activity cmd) = Inr c \<and> advanced db' (xc_plan c) (cc_activity cmd) (rz_next r)))"
  using go
proof (cases rule: complete_elim)
  case replayed
  with ok snapshot_refl show ?thesis by simp
next
  case (completed c prior evs tab db3 replanned db4 c' nref)
  let ?s = "completing k (cc_refs cmd) prior" and ?T = "tp_states (ab_tables db)"
  let ?db1 = "(with_states db (?T @ [?s]))\<lparr>ab_events := evs, ab_outbox := tab\<rparr>"
  have prior: "prior \<in> set ?T" and i: "st_activity prior = cc_activity cmd"
    using latest_state_mem [OF completed(5)] snap by (auto simp: snapshot_def)
  have fwd: "life_ok (with_states db (?T @ [?s])) \<and> status_of (?T @ [?s]) = (status_of ?T)(st_activity prior := st_status ?s) \<and>
      status_of ?T (st_activity prior) = st_status prior"
    using ok prior completed(10) by (rule life_forward) (use completed(6) in \<open>simp_all add: completing_def next_state_def is_open_def\<close>)
  then have ok1: "life_ok ?db1" by (simp add: life_ok_def)
  have db3: "db3 = ?db1" "replanned = None" using completed(11) by (simp_all add: no_pending_def)
  obtain q where q: "q \<in> set (tp_plans (ab_tables db))" "lp_id (xc_plan c) = lp_id (pr_plan q)"
      "lp_version (xc_plan c) = lp_version (pr_plan q)" "lp_activities (xc_plan c) = lp_activities (pr_plan q)"
    and act: "la_id (xc_activity c) = cc_activity cmd"
    using context_facts [OF snap completed(2)] by blast
  have line: "line_ok (tp_activities (ab_tables db)) ?T q" using ok q(1) by (simp add: life_ok_def lines_ok_def)
  have g: "status_of (tp_states (ab_tables ?db1)) = (status_of ?T)(la_id (xc_activity c) := DONE)"
    using fwd act i by (simp add: completing_def next_state_def)
  have ord: "in_order (map (status_of ?T) (lp_activities (xc_plan c)))" using line q(4) by (simp add: line_ok_def)
  have op: "is_open (status_of ?T (la_id (xc_activity c)))" using fwd act i completed(6) by (simp add: is_open_def)
  have "life_ok db4 \<and> snapshot ?db1 db4 \<and> advanced db4 (xc_plan c) (la_id (xc_activity c)) nref"
    using completed(12) unfolding db3 by (intro advance_life [OF ok1 _ q(2-4) ord op g]) (use q(1) in simp_all)
  moreover have "snapshot db ?db1" by (auto simp: snapshot_def)
  moreover have "rz_next r = nref" unfolding completed(14) by (simp add: make_response_def Let_def)
  ultimately have "life_ok db4 \<and> snapshot db db4 \<and> advanced db4 (xc_plan c) (cc_activity cmd) (rz_next r)"
    using snapshot_trans act by metis
  moreover have "life_ok db' = life_ok db4" "snapshot db db' = snapshot db db4" "\<And>p i n. advanced db' p i n = advanced db4 p i n"
    unfolding completed(13) by (simp_all add: life_ok_def snapshot_def advanced_def cong: option.case_cong)
  ultimately show ?thesis using completed(2) by simp
qed

lemma select_life:
  assumes ok: "life_ok db" and go: "select_next env hsh db db later k goal key = Inr (db', r)"
  shows "life_ok db' \<and> snapshot db db'"
  using go
proof (cases rule: select_elim)
  case replayed
  with ok snapshot_refl show ?thesis by simp
next
  case (answered rows)
  with ok show ?thesis by (simp add: life_ok_def snapshot_def)
next
  case (selected g row a prior evs tab rcs)
  let ?p = "to_plan row" and ?T = "tp_states (ab_tables db)"
  have row: "row \<in> set (tp_plans (ab_tables db))"
    using latest_by_Some [OF selected(2) [unfolded active_plan_of_def]] by auto
  have p: "lp_id ?p = lp_id (pr_plan row)" "lp_version ?p = lp_version (pr_plan row)" "lp_activities ?p = lp_activities (pr_plan row)"
    by (simp_all add: to_plan_def)
  have sok: "states_ok (tp_activities (ab_tables db)) ?T" and line: "line_ok (tp_activities (ab_tables db)) ?T row"
    using ok row by (simp_all add: life_ok_def lines_ok_def)
  note ids = ordered_ids [OF line p]
  have st: "\<exists>s. state_in_plan db ?p (la_id a) = Some s \<and> st_status s = status_of ?T (la_id a)" if "a \<in> set (ordered_definitions db ?p)" for a
    using plan_state_status [OF sok, of a "lp_id ?p" "lp_version ?p"] ids that p by auto
  have fw: "first_with (state_in_plan db ?p) q (ordered_definitions db ?p) = Inr (find (\<lambda>a. q (status_of ?T (la_id a))) (ordered_definitions db ?p))" for q
    using st by (rule first_with_find)
  have none: "\<not> is_open (status_of ?T (la_id a))" if "a \<in> set (ordered_definitions db ?p)" for a
    using selected(4) that unfolding fw by (auto simp: find_None_iff is_open_def)
  have "\<forall>j \<in> set (lp_activities ?p). \<not> is_open (status_of ?T j)"
    using none ids by (metis (no_types, lifting) imageE set_map)
  moreover have "find (\<lambda>a. status_of ?T (la_id a) = PLANNED) (ordered_definitions db ?p) = Some a"
    using selected(5) unfolding fw by simp
  ultimately have "life_ok (with_states db (?T @ [making_available k ''SELECT_NEXT_LEARNING_ACTIVITY'' [] prior]))"
    using life_open [OF ok row p _ _ selected(6,7)] by simp
  then show ?thesis unfolding selected(8) by (auto simp: life_ok_def snapshot_def)
qed

text \<open>What the planner hands over, and what saving it does.\<close>

definition decision_wf :: "planner_decision \<Rightarrow> bool" where
  "decision_wf d \<longleftrightarrow> lp_activities (pd_plan d) = map la_id (pd_activities d) \<and>
     list_all (\<lambda>a. la_status a = PLANNED \<and> activity_plan a = (lp_id (pd_plan d), lp_version (pd_plan d))) (pd_activities d)"

lemma planner_wf:
  assumes "generate_plan env g ps m ds budget learner_state graph version reasons = Inr d"
  shows "decision_wf d"
  using assms by (rule generate_plan_elim) (auto simp: decision_wf_def make_plan_def activity_of_def list_all_iff)

definition first_state :: "uuid \<Rightarrow> time \<Rightarrow> learning_activity \<Rightarrow> activity_state" where
  "first_state corr now a = \<lparr>st_activity = la_id a, st_version = 1, st_plan = la_plan a, st_plan_version = la_plan_version a,
     st_status = la_status a, st_previous = None, st_reason = ''ACTIVITY_CREATED_FROM_PLAN'', st_sources = [], st_actor = SYSTEM_ACTOR,
     st_started = None, st_completed = None, st_correlation = corr, st_created = now\<rparr>"

lemma no_moves: "states_ok acts rows \<Longrightarrow> i \<notin> la_id ` set acts \<Longrightarrow> moves rows i = []"
  unfolding states_ok_def moves_def of_plan_def filter_empty_conv by (metis image_eqI)

lemma latest_none: "latest_state rows a = None \<longleftrightarrow> moves rows a = []"
  by (simp add: latest_state_def moves_def)

lemma add_states_fresh:
  assumes "distinct (map la_id as)" and "\<forall>a \<in> set as. moves rows (la_id a) = []"
  shows "add_states env p now as rows = rows @ map (first_state (uuid5 env (''askora:plan:'' @ lp_id p @ '':v'' @ int_str (lp_version p) @
    '':activity-lifecycle'')) now) as"
  using assms
proof (induction as arbitrary: rows)
  case (Cons a as)
  let ?c = "uuid5 env (''askora:plan:'' @ lp_id p @ '':v'' @ int_str (lp_version p) @ '':activity-lifecycle'')"
  have "initialize_state rows (la_id a) (la_plan a) (la_plan_version a) (la_status a) ?c now = (rows @ [first_state ?c now a], first_state ?c now a)"
    using Cons.prems latest_none [of rows "la_id a"] by (simp add: initialize_state_def first_state_def Let_def)
  moreover have "\<forall>b \<in> set as. moves (rows @ [first_state ?c now a]) (la_id b) = []"
    using Cons.prems by (auto simp: moves_append first_state_def image_iff)
  ultimately show ?case using Cons.IH [of "rows @ [first_state ?c now a]"] Cons.prems by (simp add: add_states_def)
qed (simp add: add_states_def)

lemma states_first:
  assumes ok: "states_ok acts rows" and a: "la_id a \<notin> la_id ` set acts" "la_status a = PLANNED"
  shows "states_ok (acts @ [a]) (rows @ [first_state c now a])"
proof -
  have none: "moves rows (la_id a) = []" using ok a(1) by (rule no_moves)
  have "history_ok (moves (rows @ [first_state c now a]) x)" for x
    using ok none a(2) by (auto simp: states_ok_def moves_append first_state_def history_ok_def lifecycle_def)
  moreover have "of_plan a (first_state c now a)" by (simp add: of_plan_def first_state_def)
  moreover have "moves (rows @ [first_state c now a]) (la_id x) \<noteq> []" if "x \<in> set (acts @ [a])" for x
    using that ok by (auto simp: states_ok_def moves_append first_state_def)
  ultimately show ?thesis using ok a(1) by (auto simp: states_ok_def)
qed

lemma states_firsts:
  assumes "states_ok acts rows" and "distinct (map la_id (acts @ as))" and "list_all (\<lambda>a. la_status a = PLANNED) as"
  shows "states_ok (acts @ as) (rows @ map (first_state c now) as)"
  using assms
proof (induction as rule: rev_induct)
  case (snoc a as)
  then have "states_ok (acts @ as) (rows @ map (first_state c now) as)" by simp
  moreover have "la_id a \<notin> la_id ` set (acts @ as)" using snoc.prems by auto
  ultimately have "states_ok ((acts @ as) @ [a]) ((rows @ map (first_state c now) as) @ [first_state c now a])"
    using snoc.prems by (intro states_first) simp_all
  then show ?case by simp
qed simp

lemma moves_firsts: "i \<notin> la_id ` set as \<Longrightarrow> moves (rows @ map (first_state c now) as) i = moves rows i"
  by (auto simp: moves_def filter_empty_conv first_state_def)

lemma status_first:
  assumes "moves rows (la_id a) = []" and "a \<in> set as" and "list_all (\<lambda>a. la_status a = PLANNED) as"
  shows "status_of (rows @ map (first_state c now) as) (la_id a) = PLANNED"
proof -
  let ?ms = "moves (rows @ map (first_state c now) as) (la_id a)"
  have "?ms = moves (map (first_state c now) as) (la_id a)" using assms(1) by (simp add: moves_def)
  moreover have "first_state c now a \<in> set (moves (map (first_state c now) as) (la_id a))"
    using assms(2) by (auto simp: moves_def first_state_def)
  ultimately have "first_state c now a \<in> set ?ms" "set ?ms \<subseteq> first_state c now ` set as" by (simp_all add: moves_def filter_is_subset)
  then have "?ms \<noteq> []" "set ?ms \<subseteq> first_state c now ` set as" by auto
  then have "last ?ms \<in> first_state c now ` set as" using last_in_set by blast
  then show ?thesis using assms(3) by (auto simp: status_of_def first_state_def list_all_iff)
qed

lemma save_life:
  fixes db :: "('m) activity_db_scheme"
  assumes ok: "life_ok db" and d: "decision_wf d" and go: "save_plan env (ab_tables db) d key now = Inr (t, p)"
  shows "life_ok (db\<lparr>ab_tables := t\<rparr>) \<and> snapshot db (db\<lparr>ab_tables := t\<rparr>)"
proof -
  let ?q = "pd_plan d" and ?A = "pd_activities d" and ?t = "ab_tables db"
  let ?rows = "supersede (tp_plans ?t) ?q"
  have sok: "states_ok (tp_activities ?t) (tp_states ?t)" and lok: "lines_ok (tp_plans ?t) (tp_activities ?t) (tp_states ?t)"
    using ok by (simp_all add: life_ok_def)
  have lok': "lines_ok ?rows (tp_activities ?t) (tp_states ?t)" using lok unfolding lines_of_plans map_pr_plan_supersede .
  have plans: "pr_plan ` set (tp_plans ?t) = pr_plan ` set ?rows" using supersede_set_plans by blast
  show ?thesis
  proof (cases "find (same_plan_row ?q) ?rows")
    case (Some r)
    with go have "t = ?t\<lparr>tp_plans := ?rows\<rparr>" by (simp add: save_plan_def)
    with sok lok' plans show ?thesis by (simp add: life_ok_def snapshot_def)
  next
    case None
    define c where "c = uuid5 env (''askora:plan:'' @ lp_id ?q @ '':v'' @ int_str (lp_version ?q) @ '':activity-lifecycle'')"
    from go None have dist: "distinct (map la_id (tp_activities ?t @ ?A))"
      and t: "t = ?t\<lparr>tp_plans := ?rows @ [plan_row_of ?q key], tp_activities := tp_activities ?t @ ?A,
         tp_states := add_states env ?q now ?A (tp_states ?t)\<rparr>"
      by (auto simp: save_plan_def Let_def split: if_splits)
    have fresh: "\<forall>a \<in> set ?A. moves (tp_states ?t) (la_id a) = []"
      using no_moves [OF sok] dist by auto
    have states: "add_states env ?q now ?A (tp_states ?t) = tp_states ?t @ map (first_state c now) ?A"
      unfolding c_def by (rule add_states_fresh) (use dist fresh in auto)
    let ?S = "tp_states ?t @ map (first_state c now) ?A" and ?B = "tp_activities ?t @ ?A"
    have planned: "list_all (\<lambda>a. la_status a = PLANNED) ?A" and mine: "\<forall>a \<in> set ?A. activity_plan a = (lp_id ?q, lp_version ?q)"
      and acts: "lp_activities ?q = map la_id ?A"
      using d by (auto simp: decision_wf_def list_all_iff)
    have "states_ok ?B ?S" using sok dist planned by (rule states_firsts)
    moreover have "lines_ok (?rows @ [plan_row_of ?q key]) ?B ?S"
    proof -
      have new: "plan_key r \<noteq> (lp_id ?q, lp_version ?q)" if "r \<in> set ?rows" for r
        using None that by (auto simp: find_None_iff same_plan_row_def)
      have old: "line_ok ?B ?S r" if r: "r \<in> set ?rows" for r
      proof -
        have l: "line_ok (tp_activities ?t) (tp_states ?t) r" using lok' r by (simp add: lines_ok_def)
        have same: "{a \<in> set ?B. activity_plan a = plan_key r} = {a \<in> set (tp_activities ?t). activity_plan a = plan_key r}"
          using new [OF r] mine by auto
        have "i \<notin> la_id ` set ?A" if "i \<in> set (lp_activities (pr_plan r))" for i
          using that l dist by (auto simp: line_ok_def)
        then have "map (status_of ?S) (lp_activities (pr_plan r)) = map (status_of (tp_states ?t)) (lp_activities (pr_plan r))"
          using moves_firsts by (auto simp: status_of_def)
        with l same show ?thesis unfolding line_ok_def by metis
      qed
      have "{a \<in> set ?B. activity_plan a = (lp_id ?q, lp_version ?q)} = set ?A"
      proof -
        have "activity_plan a \<noteq> (lp_id ?q, lp_version ?q)" if a: "a \<in> set (tp_activities ?t)" for a
        proof -
          obtain r where "r \<in> set ?rows" "plan_key r = activity_plan a" using lok' a by (auto simp: lines_ok_def)
          with new show ?thesis by metis
        qed
        with mine show ?thesis by auto
      qed
      moreover have "list_all (\<lambda>y. y = PLANNED) (map (status_of ?S) (map la_id ?A))"
        using status_first [OF _ _ planned] fresh by (auto simp: list_all_iff)
      then have "in_order (map (status_of ?S) (map la_id ?A))" by (rule in_order_planned)
      ultimately have "line_ok ?B ?S (plan_row_of ?q key)" using dist by (simp add: line_ok_def plan_row_of_def acts)
      moreover have "distinct (map plan_key (?rows @ [plan_row_of ?q key]))"
      proof -
        have "(lp_id ?q, lp_version ?q) \<notin> plan_key ` set ?rows"
        proof
          assume "(lp_id ?q, lp_version ?q) \<in> plan_key ` set ?rows"
          then obtain r where "(lp_id ?q, lp_version ?q) = plan_key r" "r \<in> set ?rows" by (rule imageE)
          with new [of r] show False by simp
        qed
        then show ?thesis using lok' by (simp add: lines_ok_def plan_row_of_def)
      qed
      moreover have "\<exists>r \<in> set (?rows @ [plan_row_of ?q key]). plan_key r = activity_plan a" if "a \<in> set ?B" for a
        using that lok' mine by (auto simp: lines_ok_def plan_row_of_def)
      ultimately show ?thesis using old unfolding lines_ok_def by auto
    qed
    ultimately show ?thesis unfolding t states using plans by (auto simp: life_ok_def snapshot_def)
  qed
qed

section \<open>Histories of the database\<close>

text \<open>The databases that follow each other, newest first. A start or a completion may have read any
  earlier one; choosing the next activity locks the activities of the plan and reads the newest.\<close>

inductive activity_log :: "pyenv \<Rightarrow> (pyval \<Rightarrow> string) \<Rightarrow> activity_db list \<Rightarrow> bool" for env hsh where
  log_begin: "tp_plans (ab_tables db) = [] \<Longrightarrow> tp_activities (ab_tables db) = [] \<Longrightarrow> tp_states (ab_tables db) = [] \<Longrightarrow>
    activity_log env hsh [db]"
| log_plan: "activity_log env hsh (db # h) \<Longrightarrow> decision_wf d \<Longrightarrow> save_plan env (ab_tables db) d key now = Inr (t, p) \<Longrightarrow>
    activity_log env hsh (db\<lparr>ab_tables := t\<rparr> # db # h)"
| log_select: "activity_log env hsh (db # h) \<Longrightarrow> select_next env hsh db db later k goal key = Inr (db', r) \<Longrightarrow>
    activity_log env hsh (db' # db # h)"
| log_start: "activity_log env hsh (db # h) \<Longrightarrow> seen \<in> set (db # h) \<Longrightarrow> start_activity env hsh seen db later k sc = Inr (db', r) \<Longrightarrow>
    activity_log env hsh (db' # db # h)"
| log_complete: "activity_log env hsh (db # h) \<Longrightarrow> seen \<in> set (db # h) \<Longrightarrow>
    complete_activity env hsh no_pending seen db later k cc = Inr (db', r) \<Longrightarrow> activity_log env hsh (db' # db # h)"

inductive_cases log_nil: "activity_log env hsh []"

lemma life_empty: "tp_plans (ab_tables db) = [] \<Longrightarrow> tp_activities (ab_tables db) = [] \<Longrightarrow> tp_states (ab_tables db) = [] \<Longrightarrow> life_ok db"
  by (simp add: life_ok_def states_ok_def lines_ok_def moves_def history_ok_def)

lemma log_invariant:
  assumes "activity_log env hsh h"
  shows "h \<noteq> [] \<and> life_ok (hd h) \<and> (\<forall>x \<in> set h. snapshot x (hd h))"
proof -
  have step: "db' # db # h \<noteq> [] \<and> life_ok (hd (db' # db # h)) \<and> (\<forall>x \<in> set (db' # db # h). snapshot x (hd (db' # db # h)))"
    if "life_ok db' \<and> snapshot db db'" "\<forall>x \<in> set (db # h). snapshot x db" for db db' :: activity_db and h
    using that snapshot_trans snapshot_refl by (metis list.distinct(1) list.sel(1) set_ConsD)
  from assms show ?thesis
  proof (induction rule: activity_log.induct)
    case (log_begin db)
    then show ?case by (simp add: life_empty snapshot_refl)
  next
    case (log_plan db h d key now t p)
    then show ?case using save_life [OF _ log_plan(2,3)] by (intro step) auto
  next
    case (log_select db h later k goal key db' r)
    then show ?case using select_life [OF _ log_select(2)] by (intro step) auto
  next
    case (log_start db h seen later k sc db' r)
    then show ?case using start_life [OF _ _ log_start(3)] by (intro step) auto
  next
    case (log_complete db h seen later k cc db' r)
    then show ?case using complete_life [OF _ _ log_complete(3)] by (intro step) auto
  qed
qed

text \<open>C30: In every history of plan saves and commands of the activity service in which no draft of
  goal management waits for a boundary and none supersedes an activity, whatever the plans, the callers and the age of
  their reading of the database: the states of every activity are, one version at a time, planned,
  available, active, done; and in the order of its plan the activities that are done come first, then at most
  one that is available or active, then the planned ones.\<close>

theorem activity_machine:
  assumes "activity_log env hsh (db # h)"
  shows "(\<forall>a. history_ok (moves (tp_states (ab_tables db)) a)) \<and>
    (\<forall>r \<in> set (tp_plans (ab_tables db)). in_order (map (status_of (tp_states (ab_tables db))) (lp_activities (pr_plan r))))"
  using log_invariant [OF assms] by (simp add: life_ok_def states_ok_def lines_ok_def line_ok_def)

text \<open>C31: In such a history, completing an activity when no approved draft waits for the boundary
  never strands its plan. It is done then, and either the response names the activity that follows it in the plan and
  that one is available, or every activity of the plan is done and the plan is completed.\<close>

theorem activity_progress:
  assumes "activity_log env hsh (db # h)" and "seen \<in> set (db # h)"
    and "complete_activity env hsh no_pending seen db later k cmd = Inr (db', r)" and "db' \<noteq> db"
  shows "\<exists>c. activity_context_of seen (ak_owner k) (cc_activity cmd) = Inr c \<and> advanced db' (xc_plan c) (cc_activity cmd) (rz_next r)"
  using complete_life [OF _ _ assms(3)] log_invariant [OF assms(1)] assms(2,4) by auto

text \<open>A completion is written only for an active activity of an active plan whose type can
  be completed by a conversation, and only when it names at least one turn and every turn it names is a turn of
  this learner in this activity. A diagnostic, a delayed review and a transfer check are never completed so.\<close>

theorem activity_evidence:
  assumes "complete_activity env hsh boundary seen db later k cmd = Inr (db', r)" and "db' \<noteq> db"
  shows "\<exists>c. activity_context_of seen (ak_owner k) (cc_activity cmd) = Inr c \<and> lp_status (xc_plan c) = PLAN_ACTIVE \<and>
    map_option st_status (latest_state (tp_states (ab_tables seen)) (cc_activity cmd)) = Some ACTIVE \<and>
    la_type (xc_activity c) \<notin> {DIAGNOSTIC, DELAYED_REVIEW, TRANSFER_CHECK} \<and> cc_refs cmd \<noteq> [] \<and>
    (\<forall>ref \<in> set (cc_refs cmd). \<exists>t \<in> set (ab_turns seen). tt_user t = ak_owner k \<and> tt_activity t = cc_activity cmd \<and>
       tt_turn t = vr_id ref \<and> ref_number (vr_version ref) = Some (tt_number t)) \<and>
    st_sources (rz_state r) = cc_refs cmd"
  using assms(1)
proof (cases rule: complete_elim)
  case replayed
  with assms(2) show ?thesis by simp
next
  case (completed c prior evs tab db3 replanned db4 c' nref)
  have refs: "cc_refs cmd \<noteq> [] \<and> (\<forall>ref \<in> set (cc_refs cmd). transcript_ref_ok seen (ak_owner k) (cc_activity cmd) ref)"
    using completed(9) by (auto simp: validate_transcript_refs_def list_all_iff split: if_splits)
  have turn: "\<exists>t \<in> set (ab_turns seen). tt_user t = ak_owner k \<and> tt_activity t = cc_activity cmd \<and>
      tt_turn t = vr_id ref \<and> ref_number (vr_version ref) = Some (tt_number t)"
    if "transcript_ref_ok seen (ak_owner k) (cc_activity cmd) ref" for ref
    using that by (auto simp: transcript_ref_ok_def list_ex_iff split: option.splits)
  have "st_sources (rz_state r) = cc_refs cmd"
    unfolding completed(14) by (simp add: make_response_def Let_def completing_def next_state_def)
  then show ?thesis
    using completed(2,3,5,6,8) refs turn by (intro exI [of _ c]) (auto simp: transcript_completable_def)
qed

text \<open>A completion that was written is answered for good. The same command under the same key
  gets the same response and writes nothing, however the database has grown since; another command under that key
  is refused.\<close>

theorem activity_retry:
  assumes "complete_activity env hsh boundary seen db later k cmd = Inr (db', r)" and "db' \<noteq> db"
    and "ak_owner k2 = ak_owner k" and "cc_key cmd2 = cc_key cmd"
    and "ab_receipts db2 = ab_receipts db' @ rest"
  shows "complete_activity env hsh boundary2 db2 db3 later2 k2 cmd2 =
    (if hsh (complete_json cmd2) = hsh (complete_json cmd) then Inr (db3, r) else Inl ACTIVITY_IDEMPOTENCY_CONFLICT)"
  using assms(1)
proof (cases rule: complete_elim)
  case replayed
  with assms(2) show ?thesis by simp
next
  case (completed c prior evs tab db3' replanned db4 c' nref)
  have "get_receipt (ab_receipts db2) (ak_owner k) (cc_key cmd) = get_receipt (ab_receipts db') (ak_owner k) (cc_key cmd)"
    using completed(15) unfolding assms(5) get_receipt_def by (simp add: find_app)
  with completed(15) have "get_receipt (ab_receipts db2) (ak_owner k2) (cc_key cmd2) =
      Some (receipt_of env (ak_owner k) (cc_activity cmd) ''CompleteLearningActivityV1'' (cc_key cmd) (hsh (complete_json cmd)) r)"
    using assms(3,4) by simp
  then show ?thesis by (simp add: complete_activity_def Let_def replay_receipt_def receipt_of_def)
qed

text \<open>When two starts of one activity have read the same version, the one that comes second to
  the write fails with the version conflict and leaves the database as it is.\<close>

theorem activity_race:
  assumes "start_activity env hsh seen db later k cmd = Inr (db', r)" and "db' \<noteq> db"
    and "ak_owner k2 = ak_owner k" and "sc_activity cmd2 = sc_activity cmd" and "sc_expected cmd2 = sc_expected cmd"
    and "replay_receipt seen (ak_owner k2) (sc_key cmd2) (hsh (start_json cmd2)) = Inr None"
    and "replay_after (take 20 later2) (ak_owner k2) (sc_key cmd2) (hsh (start_json cmd2)) = Inr None"
    and "set (tp_states (ab_tables db')) \<subseteq> set (tp_states (ab_tables db2))"
  shows "start_activity env hsh seen db2 later2 k2 cmd2 = Inl ACTIVITY_STATE_VERSION_CONFLICT"
  using assms(1)
proof (cases rule: start_elim)
  case replayed
  with assms(2) show ?thesis by simp
next
  case (started c prior evs tab)
  have goal: "require_goal_active seen (ak_owner k) (lg_id (xc_goal c)) = Inr ()"
    using assms(1) started(1,2) by (auto simp: start_activity_def Let_def bind_res_Inr_iff)
  have m: "starting k prior \<in> set (tp_states (ab_tables db2))" using assms(8) unfolding started(9) by auto
  have "st_activity (starting k prior) = st_activity (starting k2 prior) \<and> st_version (starting k prior) = st_version (starting k2 prior)"
    by (simp add: starting_def next_state_def)
  with m have "append_state (tp_states (ab_tables db2)) (starting k2 prior) = None"
    unfolding append_state_def list_ex_iff by auto
  then have "append_state_or_replay db2 later2 (starting k2 prior) (ak_owner k2) (sc_key cmd2) (hsh (start_json cmd2)) =
      Inl ACTIVITY_STATE_VERSION_CONFLICT"
    using assms(7) by (simp add: append_state_or_replay_def conflict_or_replay_def)
  then show ?thesis
    using assms(3-6) started(2-6) goal unfolding starting_def
    by (simp add: start_activity_def Let_def require_state_def require_current_plan_def)
qed

section \<open>A plan of one activity, from its planning to its completion\<close>

definition life_goal :: learning_goal where
  "life_goal = \<lparr>lg_id = ''g'', lg_schema = ''1.0'', lg_version = 1, lg_user = ''u'', lg_title = ''t'', lg_topic = ''t'',
     lg_capabilities = [''c''], lg_context = None, lg_criteria = [''c''], lg_documents = [], lg_deadline = None,
     lg_weekly_minutes = None, lg_status = GOAL_ACTIVE, lg_confirmed_by_user = True, lg_created = 0, lg_confirmed_at = Some 0,
     lg_supersedes = None, lg_inferences = [], lg_reasons = [''r'']\<rparr>"

definition life_decision :: planner_decision where
  "life_decision = \<lparr>pd_plan = \<lparr>lp_id = ''p'', lp_version = 1, lp_goal = ''g'', lp_budget = 15, lp_objectives = [''o''],
       lp_activities = [''a''], lp_planner = planner_version, lp_learner_state = 0, lp_graph = ''kg'', lp_reviews = None,
       lp_reasons = [''r''], lp_status = PLAN_ACTIVE\<rparr>,
     pd_activities = [\<lparr>la_id = ''a'', la_plan = ''p'', la_plan_version = 1, la_objective = ''o'', la_type = LEARN_NEW,
       la_units = [''t''], la_minutes = 15, la_priority = 0, la_reasons = [''r''], la_status = PLANNED\<rparr>],
     pd_trace = []\<rparr>"

definition life_db :: activity_db where
  "life_db = \<lparr>ab_goals = [\<lparr>sw_id = ''g'', sw_version = 1, sw_key = ''k'', sw_payload = life_goal\<rparr>], ab_goal_states = [],
     ab_tables = \<lparr>tp_plans = [], tp_activities = [], tp_states = []\<rparr>, ab_receipts = [], ab_events = [], ab_outbox = [],
     ab_turns = [\<lparr>tt_user = ''u'', tt_activity = ''a'', tt_turn = ''turn'', tt_number = 1\<rparr>]\<rparr>"

definition life_call :: "string \<Rightarrow> activity_call" where
  "life_call i = \<lparr>ak_user = ''u'', ak_owner = ''u'', ak_correlation = ''c'', ak_now = 0, ak_fresh = (\<lambda>n. i @ (if n = 0 then ''0'' else ''1''))\<rparr>"

definition life_planned :: activity_db where
  "life_planned = life_db\<lparr>ab_tables := fst (projr (save_plan plain_env (ab_tables life_db) life_decision ''k1'' 0))\<rparr>"

definition life_selected :: activity_db where
  "life_selected = fst (projr (select_next plain_env (\<lambda>_. []) life_planned life_planned [] (life_call ''s'') ''g'' ''k2''))"

definition life_start :: start_command where
  "life_start = \<lparr>sc_activity = ''a'', sc_expected = 2, sc_key = ''k3''\<rparr>"

definition life_started :: activity_db where
  "life_started = fst (projr (start_activity plain_env (\<lambda>_. []) life_selected life_selected [] (life_call ''t'') life_start))"

definition life_finish :: complete_command where
  "life_finish = \<lparr>cc_activity = ''a'', cc_expected = 3, cc_refs = [mk_ref ''BookLearningTranscriptTurn'' ''turn'' (VerS ''1'')], cc_key = ''k4''\<rparr>"

definition life_done :: activity_db where
  "life_done = fst (projr (complete_activity plain_env (\<lambda>_. []) no_pending life_started life_started [] (life_call ''v'') life_finish))"

lemma isr_projr: "\<not> isl x \<Longrightarrow> x = Inr (fst (projr x), snd (projr x))"
  by (cases x) auto

lemma life_plans: "\<not> isl (save_plan plain_env (ab_tables life_db) life_decision ''k1'' 0)"
  by code_simp

lemma life_selects: "\<not> isl (select_next plain_env (\<lambda>_. []) life_planned life_planned [] (life_call ''s'') ''g'' ''k2'')"
  by code_simp

lemma life_starts: "\<not> isl (start_activity plain_env (\<lambda>_. []) life_selected life_selected [] (life_call ''t'') life_start)"
  by code_simp

lemma life_completes: "\<not> isl (complete_activity plain_env (\<lambda>_. []) no_pending life_started life_started [] (life_call ''v'') life_finish)"
  by code_simp

lemmas life_runs = life_plans [THEN isr_projr, folded life_planned_def] life_selects [THEN isr_projr, folded life_selected_def]
  life_starts [THEN isr_projr, folded life_started_def] life_completes [THEN isr_projr, folded life_done_def]

lemma life_sizes: "length (ab_receipts life_selected) = 1" "length (ab_receipts life_started) = 2" "length (ab_receipts life_done) = 3"
  by code_simp+

lemma life_log: "activity_log plain_env (\<lambda>_. []) [life_done, life_started, life_selected, life_planned, life_db]"
proof -
  have "activity_log plain_env (\<lambda>_. []) [life_db]" by (rule log_begin) (simp_all add: life_db_def)
  moreover have "decision_wf life_decision" by code_simp
  ultimately have "activity_log plain_env (\<lambda>_. []) [life_planned, life_db]"
    unfolding life_planned_def by (rule log_plan) (rule life_plans [THEN isr_projr])
  then have "activity_log plain_env (\<lambda>_. []) [life_selected, life_planned, life_db]" by (rule log_select) (rule life_runs)
  then have "activity_log plain_env (\<lambda>_. []) [life_started, life_selected, life_planned, life_db]"
    by (rule log_start [OF _ _ life_runs(3)]) simp
  then show ?thesis by (rule log_complete [OF _ _ life_runs(4)]) simp
qed

theorem activity_machine_witness:
  "history_ok (moves (tp_states (ab_tables life_done)) ''a'') \<and> length (moves (tp_states (ab_tables life_done)) ''a'') = 4"
proof
  show "history_ok (moves (tp_states (ab_tables life_done)) ''a'')" using activity_machine [OF life_log] by blast
  show "length (moves (tp_states (ab_tables life_done)) ''a'') = 4" by code_simp
qed

lemma life_log_started: "activity_log plain_env (\<lambda>_. []) [life_started, life_selected, life_planned, life_db]"
  using life_log by (cases rule: activity_log.cases) (auto elim: log_nil)

theorem activity_progress_witness:
  "\<exists>c. activity_context_of life_started ''u'' ''a'' = Inr c \<and> advanced life_done (xc_plan c) ''a'' None"
proof -
  have k: "ak_owner (life_call ''v'') = ''u''" "cc_activity life_finish = ''a''" by (simp_all add: life_call_def life_finish_def)
  have n: "rz_next (snd (projr (complete_activity plain_env (\<lambda>_. []) no_pending life_started life_started [] (life_call ''v'') life_finish))) = None"
    by code_simp
  have "life_done \<noteq> life_started" using life_sizes by auto
  with activity_progress [OF life_log_started _ life_runs(4)] show ?thesis unfolding k n by simp
qed

theorem activity_evidence_witness:
  "\<exists>c. activity_context_of life_started ''u'' ''a'' = Inr c \<and> la_type (xc_activity c) \<notin> {DIAGNOSTIC, DELAYED_REVIEW, TRANSFER_CHECK} \<and>
    (\<exists>t \<in> set (ab_turns life_started). tt_turn t = ''turn'' \<and> tt_number t = 1)"
proof -
  have k: "ak_owner (life_call ''v'') = ''u''" "cc_activity life_finish = ''a''" by (simp_all add: life_call_def life_finish_def)
  have "life_done \<noteq> life_started" using life_sizes by auto
  note e = activity_evidence [OF life_runs(4) this]
  have "ref_number (VerS ''1'') = Some 1" by code_simp
  moreover have "cc_refs life_finish = [mk_ref ''BookLearningTranscriptTurn'' ''turn'' (VerS ''1'')]" by (simp add: life_finish_def)
  ultimately show ?thesis using e unfolding k by auto
qed

theorem activity_retry_witness:
  "\<exists>r. complete_activity plain_env (\<lambda>_. []) no_pending life_done life_done [] (life_call ''w'') life_finish = Inr (life_done, r)"
proof -
  have "life_done \<noteq> life_started" using life_sizes by auto
  from activity_retry [OF life_runs(4) this, where rest = "[]" and ?db2.0 = life_done and ?cmd2.0 = life_finish and ?k2.0 = "life_call ''w''"]
  show ?thesis by (auto simp: life_call_def)
qed

theorem activity_race_witness:
  "start_activity plain_env (\<lambda>_. []) life_selected life_started [] (life_call ''w'') (life_start\<lparr>sc_key := ''k5''\<rparr>) =
    Inl ACTIVITY_STATE_VERSION_CONFLICT"
proof -
  have "life_started \<noteq> life_selected" using life_sizes by auto
  moreover have "replay_receipt life_selected ''u'' ''k5'' [] = Inr None" by code_simp
  ultimately show ?thesis
    by (intro activity_race [OF life_runs(3)]) (simp_all add: life_call_def life_start_def)
qed

end
