(* ===== verification/GoalKnowledge.thy ===== *)
theory GoalKnowledge
  imports PlanningRecords
begin

text \<open>
  The published knowledge a goal may be mapped to: \<open>GoalKnowledgeQueryService.load_scope\<close> of
  \<open>app/queries/goal_knowledge.py\<close> over the document rows of \<open>app/models/document.py\<close>. The content record
  in a row's \<open>moderation_details\<close> is the typed record of the keys the query reads; a key the query reads with
  a default holds the default when it is missing.
\<close>

section \<open>Documents\<close>

datatype processing_status = PROC_PENDING | PROC_PROCESSING | PROC_COMPLETED | PROC_FAILED | PROC_REJECTED | PROC_QUARANTINED
datatype moderation_status = MOD_PENDING | MOD_APPROVED | MOD_REJECTED | MOD_REQUIRES_REVIEW
datatype material_lifecycle = MATERIAL_ACTIVE | MATERIAL_TRASH | MATERIAL_DELETED

record content_span =
  cn_span :: uuid
  cn_node :: "uuid option"
  cn_text :: string

record content_node =
  cn_id :: uuid
  cn_heading :: "string option"

record unit_entry =
  ue_id :: uuid
  ue_status :: string
  ue_name :: string
  ue_description :: string
  ue_kind :: string
  ue_spans :: "uuid list"
  ue_revision :: int

record relation_entry =
  re_id :: uuid
  re_status :: string
  re_prerequisite :: uuid
  re_target :: uuid
  re_strength :: string
  re_spans :: "uuid list"
  re_revision :: int

record candidate_entry =
  cd_status :: string
  cd_name :: string
  cd_description :: string
  cd_spans :: "uuid list"

record content_revision =
  cr_id :: uuid
  cr_decision :: "uuid option"
  cr_unit_refs :: "string list"
  cr_relation_refs :: "string list"
  cr_spans :: "content_span list"
  cr_nodes :: "content_node list"
  cr_units :: "unit_entry list"
  cr_relations :: "relation_entry list"
  cr_candidates :: "candidate_entry list"

record document_row =
  dc_id :: uuid
  dc_owner :: string
  dc_filename :: string
  dc_title :: "string option"
  dc_processing :: processing_status
  dc_moderation :: moderation_status
  dc_lifecycle :: material_lifecycle
  dc_revisions :: "content_revision list"
  dc_current :: "uuid option"

definition document_active :: "document_row \<Rightarrow> bool" where
  "document_active d \<longleftrightarrow> dc_lifecycle d = MATERIAL_ACTIVE"

definition document_available :: "document_row \<Rightarrow> bool" where
  "document_available d \<longleftrightarrow> dc_processing d = PROC_COMPLETED \<and> dc_moderation d = MOD_APPROVED \<and> document_active d"

definition current_revision :: "document_row \<Rightarrow> content_revision option" where
  "current_revision d = find (\<lambda>r. Some (cr_id r) = dc_current d) (dc_revisions d)"

section \<open>The view\<close>

record unit_view =
  uw_id :: uuid
  uw_ref :: string
  uw_document :: uuid
  uw_revision :: uuid
  uw_name :: string
  uw_description :: string
  uw_kind :: string
  uw_spans :: "uuid list"
  uw_labels :: "string list"

record relation_view =
  rw_id :: uuid
  rw_ref :: string
  rw_document :: uuid
  rw_revision :: uuid
  rw_prerequisite :: uuid
  rw_target :: uuid
  rw_strength :: string
  rw_spans :: "uuid list"

record goal_scope =
  gk_requested :: "uuid list"
  gk_authorized :: "uuid list"
  gk_missing :: "uuid list"
  gk_graphs :: "string list"
  gk_units :: "unit_view list"
  gk_relations :: "relation_view list"
  gk_terms :: "string list"

datatype knowledge_error = REF_INDEX_ERROR

text \<open>\<open>s.split(":")\<close>.\<close>

fun split_colon :: "string \<Rightarrow> string \<Rightarrow> string list" where
  "split_colon acc [] = [acc]"
| "split_colon acc (c # s) = (if c = CHR '':'' then acc # split_colon [] s else split_colon (acc @ [c]) s)"

text \<open>\<open>{ref.split(":")[1]: ref for ref in refs}\<close>, of which the last entry of a key counts.\<close>

definition refs_by_id :: "string list \<Rightarrow> knowledge_error + (uuid, string) dict" where
  "refs_by_id refs =
     map_res (\<lambda>r. case split_colon [] r of _ # i # _ \<Rightarrow> Inr (i, r) | _ \<Rightarrow> Inl REF_INDEX_ERROR) (rev refs)"

definition ref_or :: "(uuid, string) dict \<Rightarrow> uuid \<Rightarrow> string \<Rightarrow> string" where
  "ref_or refs i d = (case dict_get refs i of None \<Rightarrow> d | Some r \<Rightarrow> r)"

definition span_of :: "content_revision \<Rightarrow> uuid \<Rightarrow> content_span option" where
  "span_of r i = find (\<lambda>s. cn_span s = i) (rev (cr_spans r))"

definition node_of :: "content_revision \<Rightarrow> uuid \<Rightarrow> content_node option" where
  "node_of r i = find (\<lambda>n. cn_id n = i) (rev (cr_nodes r))"

definition sorted_set :: "'a::linorder list \<Rightarrow> 'a list" where
  "sorted_set xs = sort (remdups xs)"

definition heading_of :: "content_revision \<Rightarrow> uuid \<Rightarrow> string option" where
  "heading_of r i =
     (case span_of r i of None \<Rightarrow> None | Some s \<Rightarrow>
      case cn_node s of None \<Rightarrow> None | Some n \<Rightarrow>
      case node_of r n of None \<Rightarrow> None | Some m \<Rightarrow> if cn_heading m = Some [] then None else cn_heading m)"

definition unit_view_of :: "document_row \<Rightarrow> content_revision \<Rightarrow> (uuid, string) dict \<Rightarrow> unit_entry \<Rightarrow> unit_view" where
  "unit_view_of d r refs u =
    \<lparr>uw_id = ue_id u,
     uw_ref = ref_or refs (ue_id u) (''knowledge_unit:'' @ ue_id u @ '':v'' @ int_str (ue_revision u)),
     uw_document = dc_id d, uw_revision = cr_id r, uw_name = ue_name u, uw_description = ue_description u,
     uw_kind = ue_kind u, uw_spans = ue_spans u,
     uw_labels = sorted_set (List.map_filter (heading_of r) (ue_spans u))\<rparr>"

definition relation_view_of :: "document_row \<Rightarrow> content_revision \<Rightarrow> (uuid, string) dict \<Rightarrow> relation_entry \<Rightarrow> relation_view" where
  "relation_view_of d r refs x =
    \<lparr>rw_id = re_id x,
     rw_ref = ref_or refs (re_id x) (''knowledge_relation:'' @ re_id x @ '':v'' @ int_str (re_revision x)),
     rw_document = dc_id d, rw_revision = cr_id r, rw_prerequisite = re_prerequisite x, rw_target = re_target x,
     rw_strength = re_strength x, rw_spans = re_spans x\<rparr>"

text \<open>The names, descriptions and source texts of what is not published yet.\<close>

definition candidate_terms :: "content_revision \<Rightarrow> candidate_entry \<Rightarrow> string list" where
  "candidate_terms r c =
     filter (\<lambda>t. t \<noteq> []) (cd_name c # cd_description c # List.map_filter (\<lambda>i. map_option cn_text (span_of r i)) (cd_spans c))"

definition incomplete_terms :: "content_revision \<Rightarrow> string list" where
  "incomplete_terms r = concat (map (candidate_terms r)
     (filter (\<lambda>c. cd_status c \<in> {''candidate'', ''verified'', ''review_required''}) (cr_candidates r)))"

definition graph_version :: "document_row \<Rightarrow> content_revision \<Rightarrow> string" where
  "graph_version d r = ''document:'' @ dc_id d @ '':revision:'' @ cr_id r @ '':publication:'' @
     (case cr_decision r of None \<Rightarrow> ''None'' | Some i \<Rightarrow> i)"

definition revision_views :: "document_row \<Rightarrow> content_revision \<Rightarrow> knowledge_error + unit_view list \<times> relation_view list" where
  "revision_views d r =
     bind_res (refs_by_id (cr_unit_refs r)) (\<lambda>us.
     bind_res (refs_by_id (cr_relation_refs r)) (\<lambda>rs.
     Inr (map (unit_view_of d r us) (filter (\<lambda>u. ue_status u = ''published'') (cr_units r)),
          map (relation_view_of d r rs) (filter (\<lambda>x. re_status x = ''published'') (cr_relations r)))))"

definition load_scope :: "document_row list \<Rightarrow> string \<Rightarrow> uuid list \<Rightarrow> knowledge_error + goal_scope" where
  "load_scope rows owner ids =
     (let requested = sorted_set ids;
          docs = sort_key dc_id (filter (\<lambda>d. dc_id d \<in> set requested \<and> dc_owner d = owner \<and> document_available d) rows);
          authorized = map dc_id docs;
          revs = List.map_filter (\<lambda>d. map_option (\<lambda>r. (d, r)) (current_revision d)) docs
      in bind_res (map_res (\<lambda>(d, r). revision_views d r) revs) (\<lambda>views.
         Inr \<lparr>gk_requested = requested, gk_authorized = authorized,
              gk_missing = filter (\<lambda>i. i \<notin> set authorized) requested,
              gk_graphs = sort (map (\<lambda>(d, r). graph_version d r) revs),
              gk_units = sort_key uw_id (concat (map fst views)),
              gk_relations = sort_key rw_id (concat (map snd views)),
              gk_terms = sorted_set (concat (map (\<lambda>(d, r). incomplete_terms r) revs))\<rparr>))"

section \<open>What the scope holds\<close>

lemma set_sorted_set [simp]: "set (sorted_set xs) = set xs"
  by (simp add: sorted_set_def)

lemma distinct_sorted_set [simp]: "distinct (sorted_set xs)"
  by (simp add: sorted_set_def)

lemma map_filter_mem: "y \<in> set (List.map_filter f xs) \<longleftrightarrow> (\<exists>x \<in> set xs. f x = Some y)"
  by (force simp: List.map_filter_def)

text \<open>Everything in the scope is published knowledge of the current revision of an available document of the
  owner that was asked for; nothing else is visible to a goal.\<close>

lemma scope_units:
  assumes s: "load_scope rows owner ids = Inr s" and u: "u \<in> set (gk_units s)"
  shows "\<exists>d \<in> set rows. \<exists>r e. dc_owner d = owner \<and> dc_id d \<in> set ids \<and> document_available d \<and>
    current_revision d = Some r \<and> e \<in> set (cr_units r) \<and> ue_status e = ''published'' \<and>
    uw_id u = ue_id e \<and> uw_document u = dc_id d \<and> uw_revision u = cr_id r \<and> uw_document u \<in> set (gk_authorized s)"
proof -
  let ?docs = "sort_key dc_id (filter (\<lambda>d. dc_id d \<in> set (sorted_set ids) \<and> dc_owner d = owner \<and> document_available d) rows)"
  let ?revs = "List.map_filter (\<lambda>d. map_option (\<lambda>r. (d, r)) (current_revision d)) ?docs"
  obtain views where v: "map_res (\<lambda>(d, r). revision_views d r) ?revs = Inr views"
    and us: "gk_units s = sort_key uw_id (concat (map fst views))" and au: "gk_authorized s = map dc_id ?docs"
    using s by (auto simp: load_scope_def Let_def bind_res_Inr_iff)
  from u us obtain w where w: "w \<in> set views" "u \<in> set (fst w)" by auto
  from v have "list_all2 (\<lambda>x y. (case x of (d, r) \<Rightarrow> revision_views d r) = Inr y) ?revs views" unfolding map_res_Inr_iff .
  from list_all2_right [OF this w(1)] obtain d r where dr: "(d, r) \<in> set ?revs" "revision_views d r = Inr w" by auto
  from dr(1) have d: "d \<in> set ?docs" "current_revision d = Some r" by (auto simp: map_filter_mem)
  from dr(2) w(2) obtain e us' where "e \<in> set (cr_units r)" "ue_status e = ''published''" "u = unit_view_of d r us' e"
    by (auto simp: revision_views_def bind_res_Inr_iff)
  moreover have "dc_id d \<in> set (gk_authorized s)" using d(1) au by auto
  ultimately show ?thesis using d by (intro bexI [of _ d] exI [of _ r] exI [of _ e]) (auto simp: unit_view_of_def)
qed

end
