(* ===== verification/GoalMapping.thy ===== *)
theory GoalMapping
  imports GoalKnowledge Retrieval
begin

text \<open>
  \<open>app/domains/learning_planner/goal_mapping.py\<close>: \<open>GoalKnowledgeMapper\<close> maps a goal to the published
  knowledge units of its scope and closes the chosen targets under hard prerequisites.

  Case folding yields code points, so the Chinese markers are the source's code points and the micro sign and
  sharp s fold as in Python. The Chinese sentences the mapper asks or writes, and \<open>uuid5\<close> in the name space of
  another id, are fields of \<open>mapper_env\<close>. A unit a semantic score names but the scope does not hold is a
  \<open>KeyError\<close>; when several candidates fail, the source's exception is that of the first one its set
  iteration meets, which the model does not fix.
\<close>

section \<open>Text\<close>

definition fold_char :: "char \<Rightarrow> nat list" where
  "fold_char c = (let n = of_char c :: nat in
     if n = 0xB5 then [0x3BC] else if n = 0xDF then [115, 115] else [of_char (lower_char c)])"

definition casefold :: "string \<Rightarrow> nat list" where
  "casefold s = concat (map fold_char s)"

text \<open>The code points of an ASCII literal.\<close>

definition code_points :: "string \<Rightarrow> nat list" where
  "code_points s = map of_char s"

fun occurs :: "'a list \<Rightarrow> 'a list \<Rightarrow> bool" where
  "occurs p [] = (p = [])"
| "occurs p (c # s) = (prefix p (c # s) \<or> occurs p s)"

definition any_marker :: "nat list list \<Rightarrow> nat list \<Rightarrow> bool" where
  "any_marker ms s = list_ex (\<lambda>m. occurs m s) ms"

definition broad_markers :: "nat list list" where
  "broad_markers = [[0x5168, 0x4E66], [0x6574, 0x672C], [0x6838, 0x5FC3, 0x601D, 0x60F3],
     code_points ''whole book'', code_points ''core idea'', code_points ''overview'']"

definition unmeasurable_markers :: "nat list list" where
  "unmeasurable_markers = [[0x4E86, 0x89E3], [0x719F, 0x6089], [0x770B, 0x5B8C],
     code_points ''understand'', code_points ''familiar'', code_points ''read'']"

record mapper_env =
  mt_uuid5 :: "uuid \<Rightarrow> string \<Rightarrow> uuid"
  mt_select :: string
  mt_reselect :: string
  mt_narrow :: string
  mt_clarify :: "string list \<Rightarrow> string"
  mt_rewritten :: "string \<Rightarrow> string"
  mt_baseline :: "string \<Rightarrow> string"

definition measurable_success_criterion :: "mapper_env \<Rightarrow> string \<Rightarrow> string \<Rightarrow> string \<times> string list" where
  "measurable_success_criterion me topic intent =
     (if any_marker unmeasurable_markers (casefold intent)
      then (mt_rewritten me topic, [''SUCCESS_CRITERIA_REWRITTEN_MEASURABLE''])
      else (mt_baseline me topic, [''SUCCESS_CRITERIA_MEASURABLE_BASELINE'']))"

section \<open>Scores\<close>

definition token_counts :: "string \<Rightarrow> (nat list, nat) dict" where
  "token_counts s = counter (tokens (casefold s))"

definition count_of :: "(nat list, nat) dict \<Rightarrow> nat list \<Rightarrow> nat" where
  "count_of d t = (case dict_get d t of None \<Rightarrow> 0 | Some n \<Rightarrow> n)"

definition overlap_score :: "string \<Rightarrow> string \<Rightarrow> float64" where
  "overlap_score l r =
     (let lt = token_counts l; rt = token_counts r in
      if lt = [] \<or> rt = [] then 0
      else fl (of_nat (sum_list (map (\<lambda>(t, n). min n (count_of rt t)) lt)) / of_nat (sum_list (map snd lt))))"

definition capability_fit :: "string \<Rightarrow> unit_view \<Rightarrow> float64" where
  "capability_fit query u =
     (let lowered = casefold query; description = casefold (uw_description u);
          s1 = (if any_marker [[0x89E3, 0x91CA], code_points ''explain'', [0x7406, 0x89E3], code_points ''understand''] lowered \<and>
                   (uw_kind u = ''concept'' \<or> any_marker [code_points ''definition'', [0x5B9A, 0x4E49]] description)
                then fadd 0 1 else 0)
      in if any_marker [[0x5E94, 0x7528], code_points ''apply'', [0x89E3, 0x51B3], code_points ''solve''] lowered
         then fadd s1 (if any_marker [code_points ''procedure'', code_points ''example'', [0x6B65, 0x9AA4], [0x4F8B]] description
                       then 1 else fl (25 / 100))
         else s1)"

definition score_units :: "(unit_view \<Rightarrow> float64) \<Rightarrow> unit_view list \<Rightarrow> (uuid, float64) dict" where
  "score_units f us = foldl (\<lambda>d u. dict_set (uw_id u) (f u) d) [] us"

definition positive_rank :: "(uuid, float64) dict \<Rightarrow> (uuid, nat) dict" where
  "positive_rank scores =
     map (\<lambda>(n, i, s). (i, n)) (filter (\<lambda>(n, i, s). s > 0)
       (enumerate 1 (sort_key (\<lambda>(i, s). (- s, i)) scores)))"

section \<open>Ranking\<close>

datatype goal_mapping_error = MAP_KEY_ERROR | MAP_CONTRACT | GOAL_MAPPING_NOT_CONFIRMED | GOAL_SUBGRAPH_RELATION_REF_INVALID

definition unit_by_id :: "unit_view list \<Rightarrow> uuid \<Rightarrow> unit_view option" where
  "unit_by_id us i = find (\<lambda>u. uw_id u = i) (rev us)"

type_synonym rankings = "(string, (uuid, nat) dict) dict"

definition positions_of :: "rankings \<Rightarrow> uuid \<Rightarrow> (string, nat) dict" where
  "positions_of rks i = List.map_filter (\<lambda>(name, rank). map_option (\<lambda>n. (name, n)) (dict_get rank i)) rks"

definition match_reasons :: "(string, nat) dict \<Rightarrow> string list" where
  "match_reasons ps = [''GOAL_SCOPE_ALLOWED'', ''GOAL_RRF_CANDIDATE''] @
     (if ''lexical'' \<in> fst ` set ps then [''GOAL_LEXICAL_MATCH''] else []) @
     (if ''semantic'' \<in> fst ` set ps then [''GOAL_PERSISTED_SEMANTIC_MATCH''] else []) @
     (if ''hierarchy'' \<in> fst ` set ps then [''GOAL_HIERARCHY_MATCH''] else []) @
     (if ''capability'' \<in> fst ` set ps then [''GOAL_CAPABILITY_KIND_FIT''] else [])"

definition fusion_of :: "(string, nat) dict \<Rightarrow> float64" where
  "fusion_of ps = fsum (map (\<lambda>(_, n). fl (1 / of_nat_f (60 + n))) ps)"

definition target_evidence_of :: "rankings \<Rightarrow> unit_view list \<Rightarrow> uuid \<Rightarrow> goal_mapping_error + target_evidence" where
  "target_evidence_of rks us i =
     (case unit_by_id us i of None \<Rightarrow> Inl MAP_KEY_ERROR | Some u \<Rightarrow>
       (let ps = positions_of rks i;
            e = \<lparr>te_unit = i, te_unit_ref = uw_ref u, te_document = uw_document u, te_revision = uw_revision u,
                 te_spans = uw_spans u, te_ranks = map (\<lambda>(name, n). (name, int n)) ps, te_score = fusion_of ps,
                 te_reasons = match_reasons ps\<rparr>
        in if valid_target_evidence e then Inr e else Inl MAP_CONTRACT))"

definition unit_rankings :: "string \<Rightarrow> unit_view list \<Rightarrow> bool \<Rightarrow> (uuid, float64) dict \<Rightarrow> rankings" where
  "unit_rankings query us broad semantic =
     [(''lexical'', positive_rank (score_units
         (\<lambda>u. if broad then 1 else overlap_score query (str_join '' '' [uw_name u, uw_description u])) us)),
      (''semantic'', positive_rank semantic),
      (''hierarchy'', positive_rank (score_units (\<lambda>u. overlap_score query (str_join '' '' (uw_labels u))) us)),
      (''capability'', positive_rank (score_units (capability_fit query) us))]"

definition rank_units :: "string \<Rightarrow> unit_view list \<Rightarrow> bool \<Rightarrow> (uuid, float64) dict \<Rightarrow> goal_mapping_error + target_evidence list" where
  "rank_units query us broad semantic =
     (let rks = unit_rankings query us broad semantic
      in bind_res (map_res (target_evidence_of rks us) (remdups (concat (map (\<lambda>(_, rank). map fst rank) rks))))
           (\<lambda>es. Inr (sort_key (\<lambda>e. (- te_score e, te_unit e)) es)))"

section \<open>Selection\<close>

definition broad_goal :: "string \<Rightarrow> bool" where
  "broad_goal query = any_marker broad_markers (casefold query)"

definition unit_name :: "unit_view list \<Rightarrow> uuid \<Rightarrow> string" where
  "unit_name us i = (case unit_by_id us i of None \<Rightarrow> [] | Some u \<Rightarrow> uw_name u)"

definition named_in :: "string \<Rightarrow> unit_view list \<Rightarrow> target_evidence \<Rightarrow> bool" where
  "named_in query us e = occurs (casefold (unit_name us (te_unit e))) (casefold query)"

definition blocking_ambiguity :: "string \<Rightarrow> target_evidence list \<Rightarrow> unit_view list \<Rightarrow> bool" where
  "blocking_ambiguity query es us =
     (if broad_goal query then False
      else case es of
             e1 # e2 # _ \<Rightarrow>
               if \<bar>fsub (te_score e1) (te_score e2)\<bar> > fl (1 / 1000) then False
               else \<not> list_all (named_in query us) (take 2 es)
           | _ \<Rightarrow> False)"

definition ambiguity_question :: "mapper_env \<Rightarrow> target_evidence list \<Rightarrow> unit_view list \<Rightarrow> string" where
  "ambiguity_question me es us = mt_clarify me (map (\<lambda>e. unit_name us (te_unit e)) (take 2 es))"

definition mapping_confidence :: "target_evidence list \<Rightarrow> float64" where
  "mapping_confidence es =
     (case es of
        e1 # e2 # _ \<Rightarrow> max 0 (min 1 (case fdiv (fsub (te_score e1) (te_score e2)) (te_score e1) of None \<Rightarrow> 0 | Some x \<Rightarrow> x))
      | _ \<Rightarrow> 1)"

definition incomplete_match :: "string \<Rightarrow> string list \<Rightarrow> bool" where
  "incomplete_match query terms = list_ex (\<lambda>t. overlap_score query t > 0) terms"

text \<open>\<open>" ".join(name.split())\<close> over code points.\<close>

definition code_space :: "nat \<Rightarrow> bool" where
  "code_space n \<longleftrightarrow> n \<in> {9, 10, 11, 12, 13, 28, 29, 30, 31, 32, 133, 160}"

fun squeeze :: "nat list \<Rightarrow> nat list \<Rightarrow> nat list list" where
  "squeeze w [] = (if w = [] then [] else [w])"
| "squeeze w (n # ns) =
     (if code_space n then (if w = [] then [] else [w]) @ squeeze [] ns else squeeze (w @ [n]) ns)"

definition normalized_name :: "unit_view list \<Rightarrow> uuid \<Rightarrow> nat list list" where
  "normalized_name us i = squeeze [] (casefold (unit_name us i))"

definition target_count :: "string \<Rightarrow> target_evidence list \<Rightarrow> unit_view list \<Rightarrow> nat" where
  "target_count query es us =
     (if broad_goal query then min 3 (length es)
      else min (length es) (max 1 (length (filter (named_in query us) (take 2 es)))))"

fun select_targets :: "(uuid \<Rightarrow> nat list list) \<Rightarrow> nat \<Rightarrow> nat list list list \<Rightarrow> target_evidence list \<Rightarrow> target_evidence list" where
  "select_targets name n seen [] = []"
| "select_targets name n seen (e # es) =
     (if name (te_unit e) \<in> set seen then select_targets name n seen es
      else e # (if n \<le> 1 then [] else select_targets name (n - 1) (name (te_unit e) # seen) es))"

section \<open>The prerequisite closure\<close>

record closure_state =
  cl_closure :: "uuid list"
  cl_included :: "uuid list"
  cl_relations :: "relation_view list"

definition usable :: "uuid list \<Rightarrow> uuid list \<Rightarrow> relation_view \<Rightarrow> bool" where
  "usable units closure r \<longleftrightarrow> rw_strength r = ''hard'' \<and> rw_target r \<in> set closure \<and> rw_prerequisite r \<in> set units"

definition closure_visit :: "uuid list \<Rightarrow> closure_state \<times> bool \<Rightarrow> relation_view \<Rightarrow> closure_state \<times> bool" where
  "closure_visit units sc r =
     (let (s, changed) = sc in
      if \<not> usable units (cl_closure s) r then (s, changed)
      else let s1 = (if rw_id r \<in> rw_id ` set (cl_relations s) then s else s\<lparr>cl_relations := cl_relations s @ [r]\<rparr>)
           in if rw_prerequisite r \<in> set (cl_closure s) then (s1, changed)
              else (s1\<lparr>cl_closure := rw_prerequisite r # cl_closure s, cl_included := rw_prerequisite r # cl_included s\<rparr>, True))"

definition closure_pass :: "uuid list \<Rightarrow> relation_view list \<Rightarrow> closure_state \<Rightarrow> closure_state \<times> bool" where
  "closure_pass units rs s = foldl (closure_visit units) (s, False) rs"

text \<open>What a pass keeps: the closure only grows, and by a unit of the scope when it reports a change.\<close>

lemma closure_visit_mono:
  "set (cl_closure (fst sc)) \<subseteq> set (cl_closure (fst (closure_visit units sc r)))"
  by (auto simp: closure_visit_def Let_def split: prod.splits)

lemma closure_visit_strict:
  assumes "snd (closure_visit units sc r)"
  shows "snd sc \<or> (\<exists>p \<in> set units. p \<notin> set (cl_closure (fst sc)) \<and> p \<in> set (cl_closure (fst (closure_visit units sc r))))"
  using assms by (auto simp: closure_visit_def usable_def Let_def split: prod.splits if_splits)

lemma closure_foldl_strict:
  "set (cl_closure (fst sc)) \<subseteq> set (cl_closure (fst (foldl (closure_visit units) sc rs))) \<and>
   (snd (foldl (closure_visit units) sc rs) \<longrightarrow> snd sc \<or> (\<exists>p \<in> set units. p \<notin> set (cl_closure (fst sc)) \<and>
      p \<in> set (cl_closure (fst (foldl (closure_visit units) sc rs)))))"
proof (induction rs arbitrary: sc)
  case (Cons r rs)
  let ?d = "closure_visit units sc r"
  from Cons.IH [of ?d] closure_visit_mono [of sc units r] closure_visit_strict [of units sc r] show ?case
    unfolding foldl_Cons by blast
qed simp

lemma closure_pass_decreases:
  assumes "closure_pass units rs s = (s', True)"
  shows "card (set units - set (cl_closure s')) < card (set units - set (cl_closure s))"
proof -
  from closure_foldl_strict [of "(s, False)" units rs] assms
  have "set (cl_closure s) \<subseteq> set (cl_closure s')" "\<exists>p \<in> set units. p \<notin> set (cl_closure s) \<and> p \<in> set (cl_closure s')"
    by (auto simp: closure_pass_def)
  then have "set units - set (cl_closure s') \<subset> set units - set (cl_closure s)" by blast
  then show ?thesis by (intro psubset_card_mono) auto
qed

function closure_loop :: "uuid list \<Rightarrow> relation_view list \<Rightarrow> closure_state \<Rightarrow> closure_state" where
  "closure_loop units rs s = (let (s', changed) = closure_pass units rs s in if changed then closure_loop units rs s' else s')"
  by pat_completeness auto
termination
  by (relation "measure (\<lambda>(units, rs, s). card (set units - set (cl_closure s)))")
    (auto intro: closure_pass_decreases [OF sym])

declare closure_loop.simps [simp del]

definition prerequisite_closure :: "uuid list \<Rightarrow> goal_scope \<Rightarrow> closure_state" where
  "prerequisite_closure targets s = closure_loop (map uw_id (gk_units s)) (gk_relations s)
     \<lparr>cl_closure = targets, cl_included = [], cl_relations = []\<rparr>"

definition remove_v :: "string \<Rightarrow> string" where
  "remove_v s = (if take 1 s = ''v'' then tl s else s)"

definition versioned_relation_ref :: "string \<Rightarrow> goal_mapping_error + versioned_ref" where
  "versioned_relation_ref s =
     (case split_colon [] s of
        [_, i, v] \<Rightarrow> (let r = mk_ref ''knowledge_relation'' i (VerS (remove_v v)) in if valid_ref r then Inr r else Inl MAP_CONTRACT)
      | _ \<Rightarrow> Inl GOAL_SUBGRAPH_RELATION_REF_INVALID)"

definition build_subgraph :: "mapper_env \<Rightarrow> goal_mapping \<Rightarrow> goal_scope \<Rightarrow> time \<Rightarrow> goal_mapping_error + goal_subgraph" where
  "build_subgraph me m s now =
     (if gm_status m \<noteq> MAP_CONFIRMED then Inl GOAL_MAPPING_NOT_CONFIRMED
      else let c = prerequisite_closure (gm_selected m) s
           in bind_res (map_res (\<lambda>r. versioned_relation_ref (rw_ref r)) (sort_key rw_id (cl_relations c))) (\<lambda>refs.
              let g = \<lparr>gs_id = mt_uuid5 me (gm_id m) ''goal-specific-knowledge-subgraph'', gs_schema = ''1.0'',
                       gs_version = gm_version m,
                       gs_mapping = mk_ref ''goal_knowledge_mapping'' (gm_id m) (VerS (int_str (gm_version m))),
                       gs_targets = gm_selected m, gs_prerequisites = sort (cl_included c), gs_relations = refs,
                       gs_graphs = gm_graphs m, gs_closure = ''published-hard-prerequisite-closure-v1'',
                       gs_reasons = [''PUBLISHED_HARD_PREREQUISITE_CLOSURE_BUILT''], gs_created = now\<rparr>
              in if valid_subgraph g then Inr g else Inl MAP_CONTRACT))"

section \<open>The mapper\<close>

record mapping_decision =
  mo_mapping :: goal_mapping
  mo_subgraph :: "goal_subgraph option"
  mo_goal :: "confirmed_goal option"

text \<open>A mapping of the goal over the scope, with what every branch of \<open>map\<close> sets alike.\<close>

definition mapping_of :: "mapper_env \<Rightarrow> learning_goal \<Rightarrow> goal_scope \<Rightarrow> int \<Rightarrow> time \<Rightarrow> mapping_status \<Rightarrow> target_evidence list \<Rightarrow>
    uuid list \<Rightarrow> float64 option \<Rightarrow> string list \<Rightarrow> string option \<Rightarrow> goal_mapping" where
  "mapping_of me g s v now status es selected confidence reasons question =
    \<lparr>gm_id = mt_uuid5 me (lg_id g) ''goal-knowledge-mapping'', gm_schema = ''1.0'', gm_version = v, gm_goal = lg_id g,
     gm_goal_version = lg_version g, gm_documents = gk_authorized s, gm_graphs = gk_graphs s,
     gm_candidates = map te_unit es, gm_selected = selected,
     gm_excluded = filter (\<lambda>i. i \<notin> set selected) (map te_unit es), gm_evidence = es, gm_confidence = confidence,
     gm_reasons = reasons, gm_mapper = ''goal-knowledge-rrf-v1'', gm_inferences = lg_inferences g, gm_status = status,
     gm_question = question, gm_created = now\<rparr>"

definition checked_mapping :: "goal_mapping \<Rightarrow> goal_mapping_error + goal_mapping" where
  "checked_mapping m = (if valid_mapping m then Inr m else Inl MAP_CONTRACT)"

definition unmapped :: "goal_mapping \<Rightarrow> goal_mapping_error + mapping_decision" where
  "unmapped m = bind_res (checked_mapping m) (\<lambda>m. Inr \<lparr>mo_mapping = m, mo_subgraph = None, mo_goal = None\<rparr>)"

definition blocked_mapping :: "mapper_env \<Rightarrow> learning_goal \<Rightarrow> goal_scope \<Rightarrow> int \<Rightarrow> time \<Rightarrow> string list \<Rightarrow> string \<Rightarrow>
    goal_mapping_error + mapping_decision" where
  "blocked_mapping me g s v now reasons question =
     unmapped (mapping_of me g s v now MAP_BLOCKED [] [] None reasons (Some question))"

definition goal_query :: "learning_goal \<Rightarrow> string" where
  "goal_query g = str_join '' '' (lg_title g # lg_topic g # lg_capabilities g @
     (case lg_context g of None \<Rightarrow> [] | Some c \<Rightarrow> c) # lg_criteria g)"

definition selection_reasons :: "string list \<Rightarrow> bool \<Rightarrow> nat \<Rightarrow> nat \<Rightarrow> nat \<Rightarrow> string list" where
  "selection_reasons base broad chosen wanted available = base @ [''GOAL_TARGETS_DETERMINISTIC_RRF_SELECTED''] @
     (if broad then [''GOAL_BROAD_SCOPE_LIMITED_TARGET_SET''] else []) @
     (if chosen < min wanted available then [''GOAL_REDUNDANCY_REPAIRED''] else [])"

definition planner_goal_of :: "pyenv \<Rightarrow> learning_goal \<Rightarrow> int \<Rightarrow> uuid list \<Rightarrow> confirmed_goal" where
  "planner_goal_of env g v targets =
    \<lparr>cg_id = lg_id g,
     cg_objective = uuid5 env (''askora:objective:'' @ lg_id g @ '':v'' @ int_str (lg_version g) @ '':mapping:'' @ int_str v),
     cg_targets = targets, cg_confirmed = (case lg_confirmed_at g of None \<Rightarrow> lg_created g | Some t \<Rightarrow> t)\<rparr>"

definition selected_mapping :: "mapper_env \<Rightarrow> learning_goal \<Rightarrow> goal_scope \<Rightarrow> int \<Rightarrow> time \<Rightarrow> string list \<Rightarrow> target_evidence list \<Rightarrow> goal_mapping" where
  "selected_mapping me g s v now base es =
     (let query = goal_query g; wanted = target_count query es (gk_units s);
          chosen = select_targets (normalized_name (gk_units s)) wanted [] es
      in mapping_of me g s v now (if lg_status g \<in> {GOAL_CONFIRMED, GOAL_ACTIVE} then MAP_CONFIRMED else MAP_CANDIDATE) es
           (map te_unit chosen) (Some (mapping_confidence es))
           (selection_reasons base (broad_goal query) (length chosen) wanted (length es)) None)"

definition map_goal :: "pyenv \<Rightarrow> mapper_env \<Rightarrow> learning_goal \<Rightarrow> goal_scope \<Rightarrow> int \<Rightarrow> time \<Rightarrow> (uuid, float64) dict \<Rightarrow> string list \<Rightarrow>
    goal_mapping_error + mapping_decision" where
  "map_goal env me g s v now semantic base =
     (let query = goal_query g in
      if lg_documents g = [] \<or> gk_authorized s = []
      then blocked_mapping me g s v now (base @ [''SOURCE_SCOPE_EMPTY'']) (mt_select me)
      else if gk_missing s \<noteq> []
      then blocked_mapping me g s v now (base @ [''SOURCE_SCOPE_UNAUTHORIZED_OR_UNAVAILABLE'']) (mt_reselect me)
      else bind_res (rank_units query (gk_units s) (broad_goal query) semantic) (\<lambda>es.
        if es = []
        then blocked_mapping me g s v now (base @ [''NO_PUBLISHED_TARGET_MATCH''] @
               (if incomplete_match query (gk_terms s) then [''CONTENT_MODEL_INCOMPLETE''] else [])) (mt_narrow me)
        else if blocking_ambiguity query es (gk_units s)
        then unmapped (mapping_of me g s v now MAP_BLOCKED es [] None (base @ [''AMBIGUOUS_GOAL_MAPPING''])
               (Some (ambiguity_question me es (gk_units s))))
        else bind_res (checked_mapping (selected_mapping me g s v now base es)) (\<lambda>m.
          if gm_status m \<noteq> MAP_CONFIRMED then Inr \<lparr>mo_mapping = m, mo_subgraph = None, mo_goal = None\<rparr>
          else bind_res (build_subgraph me m s now) (\<lambda>sub.
            Inr \<lparr>mo_mapping = m, mo_subgraph = Some sub, mo_goal = Some (planner_goal_of env g v (gm_selected m))\<rparr>))))"

section \<open>The closure is the hard prerequisites that can be reached\<close>

text \<open>\<open>p\<close> is a hard prerequisite of \<open>t\<close> by a published relation of the scope.\<close>

definition hard_edge :: "uuid list \<Rightarrow> relation_view list \<Rightarrow> uuid \<Rightarrow> uuid \<Rightarrow> bool" where
  "hard_edge units rs t p \<longleftrightarrow>
     (\<exists>r \<in> set rs. rw_strength r = ''hard'' \<and> rw_target r = t \<and> rw_prerequisite r = p \<and> p \<in> set units)"

definition hard_reachable :: "uuid list \<Rightarrow> relation_view list \<Rightarrow> uuid list \<Rightarrow> uuid set" where
  "hard_reachable units rs ts = {p. \<exists>t \<in> set ts. (hard_edge units rs)\<^sup>*\<^sup>* t p}"

text \<open>What the loop keeps. A relation is recorded once, and only if its target is in the closure.\<close>

definition closure_inv :: "uuid list \<Rightarrow> relation_view list \<Rightarrow> uuid list \<Rightarrow> closure_state \<Rightarrow> bool" where
  "closure_inv units rs ts s \<longleftrightarrow>
     set ts \<subseteq> set (cl_closure s) \<and> set (cl_closure s) \<subseteq> hard_reachable units rs ts \<and>
     set (cl_included s) = set (cl_closure s) - set ts \<and> distinct (cl_included s) \<and>
     distinct (map rw_id (cl_relations s)) \<and>
     set (cl_relations s) \<subseteq> set rs \<and> list_all (usable units (cl_closure s)) (cl_relations s)"

lemma usable_mono: "usable units c r \<Longrightarrow> set c \<subseteq> set c' \<Longrightarrow> usable units c' r"
  by (auto simp: usable_def)

lemma hard_reachable_step:
  "t \<in> hard_reachable units rs ts \<Longrightarrow> hard_edge units rs t p \<Longrightarrow> p \<in> hard_reachable units rs ts"
  unfolding hard_reachable_def by (auto intro: rtranclp.rtrancl_into_rtrancl)

lemma closure_visit_inv:
  assumes inv: "closure_inv units rs ts (fst sc)" and r: "r \<in> set rs"
  shows "closure_inv units rs ts (fst (closure_visit units sc r))"
proof (cases "usable units (cl_closure (fst sc)) r")
  case True
  let ?s = "fst sc"
  have e: "hard_edge units rs (rw_target r) (rw_prerequisite r)" using True r by (auto simp: hard_edge_def usable_def)
  have p: "rw_prerequisite r \<in> hard_reachable units rs ts"
    using True inv e by (auto simp: usable_def closure_inv_def intro: hard_reachable_step)
  have u: "list_all (usable units (cl_closure ?s)) (cl_relations ?s)" using inv by (simp add: closure_inv_def)
  have u': "list_all (usable units (x # cl_closure ?s)) xs" if "list_all (usable units (cl_closure ?s)) xs" for x xs
    using that by (auto simp: list_all_iff intro: usable_mono)
  show ?thesis
    using True inv r p u u' [OF u] u' [of "cl_relations ?s @ [r]" "rw_prerequisite r"]
    by (auto simp: closure_visit_def closure_inv_def Let_def image_iff split: prod.splits)
qed (use inv in \<open>auto simp: closure_visit_def split: prod.splits\<close>)

lemma closure_pass_inv:
  "closure_inv units rs ts (fst sc) \<Longrightarrow> set xs \<subseteq> set rs \<Longrightarrow> closure_inv units rs ts (fst (foldl (closure_visit units) sc xs))"
proof (induction xs arbitrary: sc)
  case (Cons x xs)
  with Cons.IH [of "closure_visit units sc x"] closure_visit_inv [of units rs ts sc x] show ?case by simp
qed simp

lemma closure_visit_changed: "snd sc \<Longrightarrow> snd (closure_visit units sc r)"
  by (auto simp: closure_visit_def Let_def split: prod.splits)

lemma closure_foldl_changed: "snd sc \<Longrightarrow> snd (foldl (closure_visit units) sc xs)"
proof (induction xs arbitrary: sc)
  case (Cons x xs)
  from Cons.IH [OF closure_visit_changed [OF Cons.prems]] show ?case by simp
qed simp

lemma closure_visit_relations: "set (cl_relations (fst sc)) \<subseteq> set (cl_relations (fst (closure_visit units sc r)))"
  by (auto simp: closure_visit_def Let_def split: prod.splits)

lemma closure_foldl_relations: "set (cl_relations (fst sc)) \<subseteq> set (cl_relations (fst (foldl (closure_visit units) sc xs)))"
proof (induction xs arbitrary: sc)
  case (Cons x xs)
  from Cons.IH [of "closure_visit units sc x"] closure_visit_relations [of sc units x] show ?case by auto
qed simp

text \<open>A pass that changes nothing has seen every usable relation with its prerequisite in the closure.\<close>

lemma closure_pass_fixpoint:
  assumes "\<not> snd (foldl (closure_visit units) (s, False) xs)"
  shows "cl_closure (fst (foldl (closure_visit units) (s, False) xs)) = cl_closure s \<and>
    (\<forall>r \<in> set xs. usable units (cl_closure s) r \<longrightarrow> rw_prerequisite r \<in> set (cl_closure s) \<and>
      rw_id r \<in> rw_id ` set (cl_relations (fst (foldl (closure_visit units) (s, False) xs))))"
  using assms
proof (induction xs arbitrary: s)
  case (Cons x xs)
  obtain s1 c where v: "closure_visit units (s, False) x = (s1, c)" by fastforce
  with Cons.prems closure_foldl_changed [of "(s1, c)" units xs] have c: "c = False" by auto
  from v c have k: "cl_closure s1 = cl_closure s"
    "usable units (cl_closure s) x \<Longrightarrow> rw_prerequisite x \<in> set (cl_closure s) \<and> rw_id x \<in> rw_id ` set (cl_relations s1)"
    by (auto simp: closure_visit_def Let_def split: if_splits)
  from Cons.IH [of s1] Cons.prems k v c closure_foldl_relations [of "(s1, False)" units xs] show ?case by auto
qed simp

lemma closure_loop_inv:
  "closure_inv units rs ts s \<Longrightarrow> closure_inv units rs ts (closure_loop units rs s)"
proof (induction units rs s rule: closure_loop.induct)
  case (1 units rs s)
  obtain s' c where p: "closure_pass units rs s = (s', c)" by fastforce
  have "closure_inv units rs ts s'" using closure_pass_inv [OF _ order.refl, of units rs ts "(s, False)"] "1.prems" p
    by (auto simp: closure_pass_def)
  with "1.IH" [OF p [symmetric] refl] p show ?case by (cases c) (auto simp: closure_loop.simps [of units rs s])
qed

lemma closure_loop_closed:
  "r \<in> set rs \<Longrightarrow> usable units (cl_closure (closure_loop units rs s)) r \<Longrightarrow>
   rw_prerequisite r \<in> set (cl_closure (closure_loop units rs s)) \<and> rw_id r \<in> rw_id ` set (cl_relations (closure_loop units rs s))"
proof (induction units rs s rule: closure_loop.induct)
  case (1 units rs s)
  obtain s' c where p: "closure_pass units rs s = (s', c)" by fastforce
  show ?case
  proof (cases c)
    case True
    with "1.IH" [OF p [symmetric] refl] "1.prems" p show ?thesis by (simp add: closure_loop.simps [of units rs s])
  next
    case False
    with closure_pass_fixpoint [of units s rs] "1.prems" p show ?thesis
      by (auto simp: closure_loop.simps [of units rs s] closure_pass_def)
  qed
qed

lemma closure_loop_reachable:
  assumes inv: "closure_inv units rs ts s"
  shows "set (cl_closure (closure_loop units rs s)) = hard_reachable units rs ts"
proof -
  let ?c = "closure_loop units rs s"
  have i: "closure_inv units rs ts ?c" using inv by (rule closure_loop_inv)
  have "p \<in> set (cl_closure ?c)" if "(hard_edge units rs)\<^sup>*\<^sup>* t p" "t \<in> set ts" for t p
    using that
  proof (induction rule: rtranclp_induct)
    case base
    then show ?case using i by (auto simp: closure_inv_def)
  next
    case (step y z)
    then show ?case using closure_loop_closed [of _ rs units s] by (auto simp: hard_edge_def usable_def)
  qed
  then show ?thesis using i by (auto simp: closure_inv_def hard_reachable_def)
qed

lemma closure_core:
  fixes ts :: "uuid list" and s :: goal_scope
  defines "c \<equiv> prerequisite_closure ts s"
  shows "set (cl_closure c) = hard_reachable (map uw_id (gk_units s)) (gk_relations s) ts"
    and "set (cl_included c) = hard_reachable (map uw_id (gk_units s)) (gk_relations s) ts - set ts"
    and "distinct (cl_included c)" and "distinct (map rw_id (cl_relations c))"
    and "rw_id ` set (cl_relations c) = rw_id ` {r \<in> set (gk_relations s). rw_strength r = ''hard'' \<and>
      rw_target r \<in> hard_reachable (map uw_id (gk_units s)) (gk_relations s) ts \<and> rw_prerequisite r \<in> uw_id ` set (gk_units s)}"
proof -
  let ?u = "map uw_id (gk_units s)" and ?rs = "gk_relations s"
    and ?s = "\<lparr>cl_closure = ts, cl_included = [], cl_relations = []\<rparr>"
  have i: "closure_inv ?u ?rs ts ?s" by (auto simp: closure_inv_def hard_reachable_def)
  have c: "c = closure_loop ?u ?rs ?s" by (simp add: c_def prerequisite_closure_def)
  have ic: "closure_inv ?u ?rs ts c" unfolding c by (rule closure_loop_inv [OF i])
  show r: "set (cl_closure c) = hard_reachable ?u ?rs ts" unfolding c by (rule closure_loop_reachable [OF i])
  show "set (cl_included c) = hard_reachable ?u ?rs ts - set ts" "distinct (cl_included c)" "distinct (map rw_id (cl_relations c))"
    using ic r by (auto simp: closure_inv_def)
  have closed: "rw_id x \<in> rw_id ` set (cl_relations c)" if "x \<in> set ?rs" "usable ?u (cl_closure c) x" for x
    using closure_loop_closed [OF that(1)] that(2) unfolding c by blast
  have used: "x \<in> set ?rs \<and> usable ?u (cl_closure c) x" if "x \<in> set (cl_relations c)" for x
    using ic that by (auto simp: closure_inv_def list_all_iff)
  show "rw_id ` set (cl_relations c) = rw_id ` {r \<in> set ?rs. rw_strength r = ''hard'' \<and>
      rw_target r \<in> hard_reachable ?u ?rs ts \<and> rw_prerequisite r \<in> uw_id ` set (gk_units s)}" (is "_ = rw_id ` ?U")
  proof -
    have U: "x \<in> ?U \<longleftrightarrow> x \<in> set ?rs \<and> usable ?u (cl_closure c) x" for x by (auto simp: usable_def r)
    show ?thesis using closed used U by blast
  qed
qed

section \<open>What the mapper chooses\<close>

lemma unit_by_id_Some: "unit_by_id us i = Some u \<Longrightarrow> u \<in> set us \<and> uw_id u = i"
  unfolding unit_by_id_def find_Some_iff by (metis length_rev nth_mem set_rev)

lemma target_evidence_of_Inr:
  "target_evidence_of rks us i = Inr e \<Longrightarrow> te_unit e = i \<and> i \<in> uw_id ` set us \<and> valid_target_evidence e"
  by (auto simp: target_evidence_of_def Let_def split: option.splits if_splits dest!: unit_by_id_Some)

lemma rank_units_facts:
  assumes "rank_units query us broad semantic = Inr es"
  shows "te_unit ` set es \<subseteq> uw_id ` set us" and "distinct (map te_unit es)" and "list_all valid_target_evidence es"
    and "sorted (map (\<lambda>e. (- te_score e, te_unit e)) es)"
proof -
  define rks where "rks = unit_rankings query us broad semantic"
  define ids where "ids = remdups (concat (map (\<lambda>(_, rank). map fst rank) rks))"
  from assms obtain xs where xs: "map_res (target_evidence_of rks us) ids = Inr xs"
    and es: "es = sort_key (\<lambda>e. (- te_score e, te_unit e)) xs"
    by (auto simp: rank_units_def rks_def ids_def Let_def bind_res_Inr_iff)
  have a: "list_all2 (\<lambda>i e. target_evidence_of rks us i = Inr e) ids xs" using xs unfolding map_res_Inr_iff .
  then have "map te_unit xs = ids"
    by (induction rule: list_all2_induct) (auto dest: target_evidence_of_Inr)
  moreover have "distinct ids" by (simp add: ids_def)
  ultimately have "distinct (map te_unit xs)" by simp
  then show "distinct (map te_unit es)" unfolding es by (simp add: distinct_map)
  have v: "te_unit e \<in> uw_id ` set us \<and> valid_target_evidence e" if "e \<in> set xs" for e
    using list_all2_right [OF a that] by (auto dest: target_evidence_of_Inr)
  then show "te_unit ` set es \<subseteq> uw_id ` set us" "list_all valid_target_evidence es"
    by (auto simp: es list_all_iff)
  show "sorted (map (\<lambda>e. (- te_score e, te_unit e)) es)" unfolding es by (rule sorted_sort_key)
qed

lemma select_targets_facts:
  "set (select_targets name n seen es) \<subseteq> set es"
  "length (select_targets name n seen es) \<le> max 1 n"
  "distinct (map (\<lambda>e. name (te_unit e)) (select_targets name n seen es)) \<and>
   set seen \<inter> (\<lambda>e. name (te_unit e)) ` set (select_targets name n seen es) = {}"
  by (induction name n seen es rule: select_targets.induct) auto

lemma select_targets_nonempty: "es \<noteq> [] \<Longrightarrow> select_targets name n [] es \<noteq> []"
  by (cases es) auto

text \<open>The chosen targets are a prefix of the candidates up to candidates whose name was chosen already.\<close>

lemma select_targets_greedy:
  "e \<in> set (takeWhile (\<lambda>x. x \<noteq> e') es) \<Longrightarrow> e' \<in> set (select_targets name n seen es) \<Longrightarrow>
   e \<in> set (select_targets name n seen es) \<or> name (te_unit e) \<in> set seen \<or>
   (\<exists>x \<in> set (select_targets name n seen es). name (te_unit x) = name (te_unit e))"
  by (induction name n seen es rule: select_targets.induct) (auto split: if_splits)

lemma target_count_le: "target_count query es us \<le> 3"
proof -
  have "length (filter (named_in query us) (take 2 es)) \<le> 2" by (rule order.trans [OF length_filter_le]) simp
  then show ?thesis by (auto simp: target_count_def)
qed

definition published_unit :: "document_row list \<Rightarrow> string \<Rightarrow> uuid list \<Rightarrow> uuid \<Rightarrow> bool" where
  "published_unit rows owner ids u \<longleftrightarrow> (\<exists>d \<in> set rows. \<exists>r e. dc_owner d = owner \<and> dc_id d \<in> set ids \<and>
     document_available d \<and> current_revision d = Some r \<and> e \<in> set (cr_units r) \<and> ue_status e = ''published'' \<and> ue_id e = u)"

lemma scope_published: "load_scope rows owner ids = Inr s \<Longrightarrow> u \<in> uw_id ` set (gk_units s) \<Longrightarrow> published_unit rows owner ids u"
  by (auto simp: published_unit_def) (drule (1) scope_units, fastforce)

text \<open>The five ways a goal is mapped.\<close>

lemma unmapped_Inr: "unmapped m = Inr d \<longleftrightarrow> valid_mapping m \<and> d = \<lparr>mo_mapping = m, mo_subgraph = None, mo_goal = None\<rparr>"
  by (auto simp: unmapped_def checked_mapping_def)

lemma build_subgraph_Inr:
  assumes "build_subgraph me m s now = Inr g"
  shows "gm_status m = MAP_CONFIRMED" and "gs_targets g = gm_selected m"
    and "gs_prerequisites g = sort (cl_included (prerequisite_closure (gm_selected m) s))"
    and "list_all2 (\<lambda>r x. versioned_relation_ref (rw_ref r) = Inr x)
      (sort_key rw_id (cl_relations (prerequisite_closure (gm_selected m) s))) (gs_relations g)"
    and "valid_subgraph g" and "gs_graphs g = gm_graphs m"
  using assms by (auto simp: build_subgraph_def Let_def bind_res_Inr_iff map_res_Inr_iff split: if_splits)

lemma map_goal_cases:
  assumes "map_goal env me g s v now semantic base = Inr d"
  obtains (blocked) "gm_status (mo_mapping d) = MAP_BLOCKED" "gm_selected (mo_mapping d) = []" "mo_subgraph d = None"
      "mo_goal d = None" "valid_mapping (mo_mapping d)" "te_unit ` set (gm_evidence (mo_mapping d)) \<subseteq> uw_id ` set (gk_units s)"
  | (mapped) es m where "rank_units (goal_query g) (gk_units s) (broad_goal (goal_query g)) semantic = Inr es" "es \<noteq> []"
      "gk_missing s = []" "\<not> blocking_ambiguity (goal_query g) es (gk_units s)"
      "m = selected_mapping me g s v now base es" "mo_mapping d = m" "valid_mapping m"
      "if gm_status m = MAP_CONFIRMED
       then (\<exists>sub. build_subgraph me m s now = Inr sub \<and> mo_subgraph d = Some sub) \<and>
            mo_goal d = Some (planner_goal_of env g v (gm_selected m))
       else mo_subgraph d = None \<and> mo_goal d = None"
proof -
  let ?q = "goal_query g"
  have none: thesis if "blocked_mapping me g s v now rs q = Inr d" for rs q
    using that by (intro blocked) (auto simp: blocked_mapping_def unmapped_Inr mapping_of_def)
  show thesis
  proof (cases "lg_documents g = [] \<or> gk_authorized s = [] \<or> gk_missing s \<noteq> []")
    case True
    with assms have "blocked_mapping me g s v now (base @ [''SOURCE_SCOPE_EMPTY'']) (mt_select me) = Inr d \<or>
        blocked_mapping me g s v now (base @ [''SOURCE_SCOPE_UNAUTHORIZED_OR_UNAVAILABLE'']) (mt_reselect me) = Inr d"
      by (auto simp: map_goal_def Let_def split: if_splits)
    then show thesis using none by blast
  next
    case False
    then have head: "lg_documents g \<noteq> []" "gk_authorized s \<noteq> []" "gk_missing s = []" by auto
    from assms head obtain es where es: "rank_units ?q (gk_units s) (broad_goal ?q) semantic = Inr es"
      by (auto simp: map_goal_def Let_def bind_res_Inr_iff)
    consider "es = []" | "es \<noteq> []" "blocking_ambiguity ?q es (gk_units s)" | "es \<noteq> []" "\<not> blocking_ambiguity ?q es (gk_units s)"
      by auto
    then show thesis
    proof cases
      case 1
      with assms head es show thesis by (auto simp: map_goal_def Let_def intro: none)
    next
      case 2
      with assms head es have "unmapped (mapping_of me g s v now MAP_BLOCKED es [] None (base @ [''AMBIGUOUS_GOAL_MAPPING''])
          (Some (ambiguity_question me es (gk_units s)))) = Inr d"
        by (simp add: map_goal_def Let_def)
      with rank_units_facts(1) [OF es] show thesis by (intro blocked) (auto simp: unmapped_Inr mapping_of_def)
    next
      case 3
      let ?m = "selected_mapping me g s v now base es"
      from assms head es 3 have r: "bind_res (checked_mapping ?m) (\<lambda>m.
          if gm_status m \<noteq> MAP_CONFIRMED then Inr \<lparr>mo_mapping = m, mo_subgraph = None, mo_goal = None\<rparr>
          else bind_res (build_subgraph me m s now) (\<lambda>sub.
            Inr \<lparr>mo_mapping = m, mo_subgraph = Some sub, mo_goal = Some (planner_goal_of env g v (gm_selected m))\<rparr>)) = Inr d"
        by (simp add: map_goal_def Let_def)
      then have valid: "valid_mapping ?m" by (auto simp: checked_mapping_def bind_res_Inr_iff split: if_splits)
      with r have r': "(if gm_status ?m \<noteq> MAP_CONFIRMED then Inr \<lparr>mo_mapping = ?m, mo_subgraph = None, mo_goal = None\<rparr>
          else bind_res (build_subgraph me ?m s now) (\<lambda>sub.
            Inr \<lparr>mo_mapping = ?m, mo_subgraph = Some sub, mo_goal = Some (planner_goal_of env g v (gm_selected ?m))\<rparr>)) = Inr d"
        by (simp add: checked_mapping_def)
      show thesis
        by (rule mapped [OF es 3(1) head(3) 3(2) refl _ valid])
          (use r' in \<open>auto simp: bind_res_Inr_iff split: if_splits\<close>)
    qed
  qed
qed

lemma selected_mapping_facts:
  assumes es: "rank_units (goal_query g) (gk_units s) (broad_goal (goal_query g)) semantic = Inr es" and ne: "es \<noteq> []"
    and mdef: "m = selected_mapping me g s v now base es"
  shows "gm_selected m \<noteq> []" and "set (gm_selected m) \<subseteq> uw_id ` set (gk_units s)" and "length (gm_selected m) \<le> 3"
    and "distinct (map (normalized_name (gk_units s)) (gm_selected m))"
    and "gm_status m = MAP_CONFIRMED \<longleftrightarrow> lg_status g \<in> {GOAL_CONFIRMED, GOAL_ACTIVE}"
    and "gm_status m \<noteq> MAP_BLOCKED"
proof -
  let ?sel = "select_targets (normalized_name (gk_units s)) (target_count (goal_query g) es (gk_units s)) [] es"
  have m: "gm_selected m = map te_unit ?sel"
    "gm_status m = (if lg_status g \<in> {GOAL_CONFIRMED, GOAL_ACTIVE} then MAP_CONFIRMED else MAP_CANDIDATE)"
    by (simp_all add: mdef selected_mapping_def Let_def mapping_of_def)
  show "gm_selected m \<noteq> []" using select_targets_nonempty [OF ne] by (simp add: m)
  show "set (gm_selected m) \<subseteq> uw_id ` set (gk_units s)"
    using rank_units_facts(1) [OF es] select_targets_facts(1) by (fastforce simp: m)
  have "length ?sel \<le> max 1 (target_count (goal_query g) es (gk_units s))" by (rule select_targets_facts(2))
  with target_count_le [of "goal_query g" es "gk_units s"] show "length (gm_selected m) \<le> 3" by (simp add: m)
  show "distinct (map (normalized_name (gk_units s)) (gm_selected m))"
    using select_targets_facts(3) [of "normalized_name (gk_units s)" "target_count (goal_query g) es (gk_units s)" "[]" es]
    by (simp add: m comp_def)
  show "gm_status m = MAP_CONFIRMED \<longleftrightarrow> lg_status g \<in> {GOAL_CONFIRMED, GOAL_ACTIVE}" "gm_status m \<noteq> MAP_BLOCKED"
    by (auto simp: m)
qed

section \<open>Properties\<close>

text \<open>C25: The subgraph of a confirmed mapping is the closure of its targets under hard prerequisites: targets
  and included prerequisites together are exactly the units that can be reached from a target over published hard
  relations whose prerequisite is in scope, the prerequisites are listed once, in order and without the targets, and there is
  one reference for every such relation id into the closure. The loop that computes it always ends.\<close>

theorem subgraph_closure:
  assumes "build_subgraph me m s now = Inr g"
  defines "units \<equiv> map uw_id (gk_units s)"
  shows "set (gs_prerequisites g) = hard_reachable units (gk_relations s) (gm_selected m) - set (gm_selected m) \<and>
    gs_targets g = gm_selected m \<and> set (gm_selected m) \<subseteq> hard_reachable units (gk_relations s) (gm_selected m) \<and>
    sorted (gs_prerequisites g) \<and> distinct (gs_prerequisites g) \<and>
    length (gs_relations g) = card (rw_id ` {r \<in> set (gk_relations s). rw_strength r = ''hard'' \<and>
      rw_target r \<in> hard_reachable units (gk_relations s) (gm_selected m) \<and> rw_prerequisite r \<in> set units})"
proof -
  let ?c = "prerequisite_closure (gm_selected m) s"
  note b = build_subgraph_Inr [OF assms(1)] and c = closure_core [of "gm_selected m" s]
  have "length (gs_relations g) = length (map rw_id (cl_relations ?c))" using list_all2_lengthD [OF b(4)] by simp
  also have "\<dots> = card (rw_id ` set (cl_relations ?c))" using distinct_card [OF c(4)] by simp
  finally have l: "length (gs_relations g) = card (rw_id ` set (cl_relations ?c))" .
  have "set (gm_selected m) \<subseteq> hard_reachable units (gk_relations s) (gm_selected m)" by (auto simp: hard_reachable_def)
  then show ?thesis using b(2,3) c l by (simp add: units_def)
qed

text \<open>C24: A goal is mapped to published knowledge of the learner's own, available material only. A blocked mapping
  selects nothing, asks a question and leads to no subgraph and no planner goal. A planner goal and a subgraph come together,
  exactly for a confirmed mapping of a goal the learner confirmed or that is active; then every requested document was
  available, there are one to three targets with different names, the planner gets exactly these targets, and every
  prerequisite of the subgraph is published knowledge of the same material too.\<close>

definition mapping_outcome_ok :: "document_row list \<Rightarrow> string \<Rightarrow> uuid list \<Rightarrow> learning_goal \<Rightarrow> goal_scope \<Rightarrow> mapping_decision \<Rightarrow> bool" where
  "mapping_outcome_ok rows owner ids g s d \<longleftrightarrow>
     (let m = mo_mapping d in
      valid_mapping m \<and> list_all (published_unit rows owner ids) (gm_selected m) \<and>
      (gm_status m = MAP_BLOCKED \<longrightarrow> gm_selected m = [] \<and> gm_question m \<notin> {None, Some []}) \<and>
      (case (mo_goal d, mo_subgraph d) of
         (Some pg, Some sub) \<Rightarrow> gm_status m = MAP_CONFIRMED \<and> lg_status g \<in> {GOAL_CONFIRMED, GOAL_ACTIVE} \<and> gk_missing s = [] \<and>
           cg_id pg = lg_id g \<and> cg_targets pg = gm_selected m \<and> gs_targets sub = gm_selected m \<and>
           gm_selected m \<noteq> [] \<and> length (gm_selected m) \<le> 3 \<and> distinct (map (normalized_name (gk_units s)) (gm_selected m)) \<and>
           list_all (published_unit rows owner ids) (gs_prerequisites sub)
       | (None, None) \<Rightarrow> gm_status m \<noteq> MAP_CONFIRMED
       | _ \<Rightarrow> False))"

theorem mapping_safe:
  assumes scope: "load_scope rows owner ids = Inr s" and d: "map_goal env me g s v now semantic base = Inr d"
  shows "mapping_outcome_ok rows owner ids g s d"
  using d
proof (cases rule: map_goal_cases)
  case blocked
  then show ?thesis by (auto simp: mapping_outcome_ok_def valid_mapping_def executable_mapping_def)
next
  case (mapped es m)
  note f = selected_mapping_facts [OF mapped(1,2,5)]
  have pub: "published_unit rows owner ids u" if "u \<in> uw_id ` set (gk_units s)" for u using scope that by (rule scope_published)
  have sel: "list_all (published_unit rows owner ids) (gm_selected m)" using f(2) pub by (auto simp: list_all_iff)
  show ?thesis
  proof (cases "gm_status m = MAP_CONFIRMED")
    case True
    with mapped(8) obtain sub where sub: "build_subgraph me m s now = Inr sub" "mo_subgraph d = Some sub"
      "mo_goal d = Some (planner_goal_of env g v (gm_selected m))" by auto
    note b = build_subgraph_Inr [OF sub(1)]
    have "t \<in> uw_id ` set (gk_units s)"
      if "(hard_edge (map uw_id (gk_units s)) (gk_relations s))\<^sup>*\<^sup>* x t" "x \<in> set (gm_selected m)" for x t
      using that f(2) by (induction rule: rtranclp_induct) (auto simp: hard_edge_def)
    then have "list_all (published_unit rows owner ids) (gs_prerequisites sub)"
      using pub closure_core(2) [of "gm_selected m" s] by (auto simp: b(3) list_all_iff hard_reachable_def)
    then show ?thesis
      using True mapped(3,6,7) f sel sub b(2) by (simp add: mapping_outcome_ok_def planner_goal_of_def)
  next
    case False
    then show ?thesis using mapped(6,7,8) f(6) sel by (simp add: mapping_outcome_ok_def)
  qed
qed

section \<open>A goal over a small book\<close>

definition book_unit :: "uuid \<Rightarrow> string \<Rightarrow> string \<Rightarrow> unit_entry" where
  "book_unit i name description = \<lparr>ue_id = i, ue_status = ''published'', ue_name = name, ue_description = description,
     ue_kind = ''concept'', ue_spans = [''s''], ue_revision = 1\<rparr>"

definition book_relation :: "uuid \<Rightarrow> uuid \<Rightarrow> uuid \<Rightarrow> string \<Rightarrow> relation_entry" where
  "book_relation i p t strength = \<lparr>re_id = i, re_status = ''published'', re_prerequisite = p, re_target = t,
     re_strength = strength, re_spans = [''s''], re_revision = 1\<rparr>"

definition book :: document_row where
  "book = \<lparr>dc_id = ''d1'', dc_owner = ''user-1'', dc_filename = ''b.pdf'', dc_title = None, dc_processing = PROC_COMPLETED,
     dc_moderation = MOD_APPROVED, dc_lifecycle = MATERIAL_ACTIVE,
     dc_revisions = [\<lparr>cr_id = ''r1'', cr_decision = None, cr_unit_refs = [], cr_relation_refs = [],
       cr_spans = [\<lparr>cn_span = ''s'', cn_node = None, cn_text = ''text''\<rparr>], cr_nodes = [],
       cr_units = [book_unit ''k1'' ''alpha'' ''alpha alpha alpha'', book_unit ''k2'' ''beta'' ''b'', book_unit ''k3'' ''gamma'' ''c''],
       cr_relations = [book_relation ''e1'' ''k3'' ''k2'' ''hard'', book_relation ''e2'' ''k2'' ''k1'' ''hard'',
         book_relation ''e3'' ''k9'' ''k1'' ''hard''], cr_candidates = []\<rparr>], dc_current = Some ''r1''\<rparr>"

definition book_goal :: learning_goal where
  "book_goal = \<lparr>lg_id = ''g1'', lg_schema = ''1.0'', lg_version = 1, lg_user = ''user-1'', lg_title = ''alpha'', lg_topic = ''alpha'',
     lg_capabilities = [''alpha''], lg_context = None, lg_criteria = [''alpha''], lg_documents = [''d1''], lg_deadline = None,
     lg_weekly_minutes = None, lg_status = GOAL_ACTIVE, lg_confirmed_by_user = True, lg_created = 5, lg_confirmed_at = Some 5,
     lg_supersedes = None, lg_inferences = [], lg_reasons = [''OK'']\<rparr>"

definition book_mapper :: mapper_env where
  "book_mapper = \<lparr>mt_uuid5 = (\<lambda>n s. n @ s), mt_select = ''select'', mt_reselect = ''reselect'', mt_narrow = ''narrow'',
     mt_clarify = (\<lambda>_. ''which''), mt_rewritten = id, mt_baseline = id\<rparr>"

definition book_view :: "uuid \<Rightarrow> string \<Rightarrow> string \<Rightarrow> unit_view" where
  "book_view i name description = \<lparr>uw_id = i, uw_ref = ''knowledge_unit:'' @ i @ '':v1'', uw_document = ''d1'', uw_revision = ''r1'',
     uw_name = name, uw_description = description, uw_kind = ''concept'', uw_spans = [''s''], uw_labels = []\<rparr>"

definition book_edge :: "uuid \<Rightarrow> uuid \<Rightarrow> uuid \<Rightarrow> relation_view" where
  "book_edge i p t = \<lparr>rw_id = i, rw_ref = ''knowledge_relation:'' @ i @ '':v1'', rw_document = ''d1'', rw_revision = ''r1'',
     rw_prerequisite = p, rw_target = t, rw_strength = ''hard'', rw_spans = [''s'']\<rparr>"

definition book_scope :: goal_scope where
  "book_scope = \<lparr>gk_requested = [''d1''], gk_authorized = [''d1''], gk_missing = [],
     gk_graphs = [''document:d1:revision:r1:publication:None''],
     gk_units = [book_view ''k1'' ''alpha'' ''alpha alpha alpha'', book_view ''k2'' ''beta'' ''b'', book_view ''k3'' ''gamma'' ''c''],
     gk_relations = [book_edge ''e1'' ''k3'' ''k2'', book_edge ''e2'' ''k2'' ''k1'', book_edge ''e3'' ''k9'' ''k1''], gk_terms = []\<rparr>"

lemma book_scope_loads: "load_scope [book] ''user-1'' [''d1''] = Inr book_scope"
  by code_simp

lemma book_query: "goal_query book_goal = ''alpha alpha alpha  alpha''"
  by (simp add: goal_query_def book_goal_def)

lemmas folding = casefold_def fold_char_def lower_char_def any_marker_def code_points_def

lemma query_folded: "casefold ''alpha alpha alpha  alpha'' =
    [97,108,112,104,97,32,97,108,112,104,97,32,97,108,112,104,97,32,32,97,108,112,104,97]"
  by (simp add: folding)

lemma query_tokens: "token_counts ''alpha alpha alpha  alpha'' = [([97,108,112,104,97], 4)]"
  by (simp add: token_counts_def query_folded tokens_def is_alnum_def is_cjk_def counter_def)

lemma query_narrow: "\<not> broad_goal ''alpha alpha alpha  alpha''"
  by (simp add: broad_goal_def query_folded broad_markers_def any_marker_def code_points_def)

lemma book_scores:
  "overlap_score ''alpha alpha alpha  alpha'' ''alpha alpha alpha alpha'' = 1"
  "overlap_score ''alpha alpha alpha  alpha'' ''beta b'' = 0"
  "overlap_score ''alpha alpha alpha  alpha'' ''gamma c'' = 0"
  "overlap_score ''alpha alpha alpha  alpha'' [] = 0"
  by (simp_all add: overlap_score_def query_tokens) (simp_all add: token_counts_def folding tokens_def is_alnum_def
      is_cjk_def counter_def count_of_def dict_get_def)

lemma book_fit: "capability_fit ''alpha alpha alpha  alpha'' u = 0"
  by (simp add: capability_fit_def query_folded any_marker_def code_points_def)

lemma book_rankings:
  "unit_rankings ''alpha alpha alpha  alpha'' (gk_units book_scope) False [] =
     [(''lexical'', [(''k1'', 1)]), (''semantic'', []), (''hierarchy'', []), (''capability'', [])]"
  by (simp add: unit_rankings_def book_scope_def book_view_def score_units_def book_scores book_fit positive_rank_def)

definition book_evidence :: target_evidence where
  "book_evidence = \<lparr>te_unit = ''k1'', te_unit_ref = ''knowledge_unit:k1:v1'', te_document = ''d1'', te_revision = ''r1'',
     te_spans = [''s''], te_ranks = [(''lexical'', 1)], te_score = fusion_of [(''lexical'', 1)],
     te_reasons = [''GOAL_SCOPE_ALLOWED'', ''GOAL_RRF_CANDIDATE'', ''GOAL_LEXICAL_MATCH'']\<rparr>"

lemma fusion_nonneg: "0 \<le> fusion_of ps"
  by (auto simp: fusion_of_def of_nat_f_def intro!: fsum_nonneg fl_nonneg)

lemma book_evidence_valid: "valid_target_evidence book_evidence"
  by (simp add: valid_target_evidence_def book_evidence_def fusion_nonneg)

lemma book_ranked: "rank_units ''alpha alpha alpha  alpha'' (gk_units book_scope) False [] = Inr [book_evidence]"
proof -
  have "target_evidence_of [(''lexical'', [(''k1'', 1)]), (''semantic'', []), (''hierarchy'', []), (''capability'', [])]
      (gk_units book_scope) ''k1'' = Inr book_evidence"
    using book_evidence_valid
    by (simp add: target_evidence_of_def unit_by_id_def book_scope_def book_view_def positions_of_def List.map_filter_def
        dict_get_def match_reasons_def book_evidence_def)
  then show ?thesis by (simp add: rank_units_def book_rankings)
qed

lemma book_selected: "select_targets name 1 [] [book_evidence] = [book_evidence]"
  by simp

lemma book_mapping_valid: "valid_mapping (selected_mapping book_mapper book_goal book_scope 1 9 [] [book_evidence])"
  using book_evidence_valid
  by (simp add: selected_mapping_def book_query target_count_def query_narrow Let_def mapping_of_def valid_mapping_def
      mapping_fields_ok_def executable_mapping_def schema_one_def book_goal_def selection_reasons_def
      mapping_confidence_def unit_range_def)

definition book_mapping :: goal_mapping where
  "book_mapping = selected_mapping book_mapper book_goal book_scope 1 9 [] [book_evidence]"

lemma book_mapping_facts: "gm_selected book_mapping = [''k1'']" "gm_status book_mapping = MAP_CONFIRMED" "gm_version book_mapping = 1"
  by (simp_all add: book_mapping_def selected_mapping_def book_query target_count_def query_narrow Let_def mapping_of_def
      book_goal_def book_evidence_def)

lemma book_closure: "prerequisite_closure [''k1''] book_scope =
    \<lparr>cl_closure = [''k3'', ''k2'', ''k1''], cl_included = [''k3'', ''k2''],
     cl_relations = [book_edge ''e2'' ''k2'' ''k1'', book_edge ''e1'' ''k3'' ''k2'']\<rparr>"
  by code_simp

lemma book_subgraph: "\<exists>sub. build_subgraph book_mapper book_mapping book_scope 9 = Inr sub \<and> gs_prerequisites sub = [''k2'', ''k3'']"
proof -
  have "versioned_relation_ref (rw_ref (book_edge i p t)) = Inr (mk_ref ''knowledge_relation'' i (VerS ''1''))"
    if "i \<in> {''e1'', ''e2''}" for i p t
    using that by (auto simp: book_edge_def versioned_relation_ref_def remove_v_def valid_ref_def)
  moreover have "sort_key rw_id [book_edge ''e2'' ''k2'' ''k1'', book_edge ''e1'' ''k3'' ''k2''] =
      [book_edge ''e1'' ''k3'' ''k2'', book_edge ''e2'' ''k2'' ''k1'']" by code_simp
  moreover have "sort [''k3'', ''k2''] = [''k2'', ''k3'']" by code_simp
  ultimately show ?thesis
    by (simp add: build_subgraph_def book_mapping_facts book_closure Let_def valid_subgraph_def schema_one_def)
qed

lemma book_mapped: "\<exists>d. map_goal plain_env book_mapper book_goal book_scope 1 9 [] [] = Inr d \<and> mo_goal d \<noteq> None \<and>
    gm_selected (mo_mapping d) = [''k1'']"
proof -
  obtain sub where "build_subgraph book_mapper book_mapping book_scope 9 = Inr sub" using book_subgraph by blast
  moreover have "lg_documents book_goal \<noteq> []" "gk_authorized book_scope \<noteq> []" "gk_missing book_scope = []"
    by (simp_all add: book_goal_def book_scope_def)
  moreover have "\<not> blocking_ambiguity ''alpha alpha alpha  alpha'' [book_evidence] (gk_units book_scope)"
    by (simp add: blocking_ambiguity_def)
  ultimately show ?thesis
    using book_mapping_valid
    by (simp add: map_goal_def book_query query_narrow book_ranked checked_mapping_def Let_def book_mapping_facts
        flip: book_mapping_def)
qed

theorem subgraph_closure_witness:
  "\<exists>g. build_subgraph book_mapper book_mapping book_scope 9 = Inr g \<and> gs_prerequisites g = [''k2'', ''k3''] \<and>
     {''k2'', ''k3''} = hard_reachable [''k1'', ''k2'', ''k3''] (gk_relations book_scope) [''k1''] - {''k1''}"
proof -
  obtain g where g: "build_subgraph book_mapper book_mapping book_scope 9 = Inr g" "gs_prerequisites g = [''k2'', ''k3'']"
    using book_subgraph by blast
  have "map uw_id (gk_units book_scope) = [''k1'', ''k2'', ''k3'']" by (simp add: book_scope_def book_view_def)
  with subgraph_closure [OF g(1)] g show ?thesis by (intro exI [of _ g]) (simp add: book_mapping_facts)
qed

theorem mapping_safe_witness:
  "\<exists>d. map_goal plain_env book_mapper book_goal book_scope 1 9 [] [] = Inr d \<and> mo_goal d \<noteq> None \<and>
     mapping_outcome_ok [book] ''user-1'' [''d1''] book_goal book_scope d"
proof -
  obtain d where "map_goal plain_env book_mapper book_goal book_scope 1 9 [] [] = Inr d" "mo_goal d \<noteq> None"
    using book_mapped by blast
  with mapping_safe [OF book_scope_loads this(1)] show ?thesis by blast
qed

end
