(* ===== verification/GoalRecords.thy ===== *)
theory GoalRecords
  imports GoalMapping ActivityFlow LearnerRecords
begin

text \<open>
  The contracts of goal management (\<open>app/contracts/goal_management.py\<close>) and
  \<open>GoalManagementRepository\<close> (\<open>app/infrastructure/goal_management.py\<close>). The tables extend the database of
  the activity lifecycle, so that a goal command and the activity commands it calls work on one state. A row
  is its payload with the owner where the payload does not name one; the other columns are copies of payload
  fields. The ids of receipts (\<open>uuid4\<close>) are left out. The outbox of the learner projector is the one inside
  \<open>gd_learner\<close>: its keys differ from those of the planning tasks.

  A payload that was validated when it was made is read back as it is; \<open>model_copy\<close> does not validate, so a
  draft is validated when it is read. A command arrives validated by the interface; the bound on the length of
  a SHA-256 digest always holds.
\<close>

section \<open>Goals\<close>

datatype cognitive_process = COG_RECALL | COG_UNDERSTAND | COG_EXPLAIN | COG_APPLY | COG_TRANSFER

record criterion_input =
  ci_id :: uuid
  ci_process :: cognitive_process
  ci_statement :: string
  ci_requirements :: "string list"

record success_criterion = criterion_input +
  ci_targets :: "versioned_ref list"

record goal_definition =
  gd_goal :: uuid
  gd_version :: int
  gd_user :: uuid
  gd_title :: string
  gd_topic :: string
  gd_capabilities :: "string list"
  gd_context :: "string option"
  gd_criteria :: "success_criterion list"
  gd_sources :: "uuid list"
  gd_deadline :: "time option"
  gd_weekly :: "int option"
  gd_fingerprint :: string
  gd_created :: time
  gd_supersedes :: "int option"
  gd_reasons :: "string list"

record plan_lifecycle =
  gp_plan :: uuid
  gp_version :: int
  gp_state :: int
  gp_status :: plan_status
  gp_previous :: "plan_status option"
  gp_reasons :: "string list"
  gp_correlation :: uuid
  gp_created :: time

record focus_state =
  fo_user :: uuid
  fo_version :: int
  fo_goal :: "uuid option"
  fo_reasons :: "string list"
  fo_correlation :: uuid
  fo_created :: time

section \<open>Drafts and previews\<close>

datatype draft_status =
    DRAFT_OPEN | PREVIEW_READY | APPROVED_PENDING_BOUNDARY | DRAFT_APPLYING | DRAFT_APPLIED | DRAFT_BLOCKED | DRAFT_CANCELLED

record goal_draft =
  dr_id :: uuid
  dr_version :: int
  dr_user :: uuid
  dr_goal :: uuid
  dr_base :: "int option"
  dr_status :: draft_status
  dr_title :: string
  dr_topic :: string
  dr_capabilities :: "string list"
  dr_context :: "string option"
  dr_deadline :: "time option"
  dr_weekly :: "int option"
  dr_criteria :: "criterion_input list"
  dr_sources :: "uuid list"
  dr_selected :: "uuid list"
  dr_confirmed :: bool
  dr_preview :: "uuid option"
  dr_blocks :: "string list"
  dr_created :: time

datatype source_status = SOURCE_EXECUTABLE | SOURCE_WAITING | SOURCE_BLOCKED

record source_view =
  so_document :: uuid
  so_name :: string
  so_status :: source_status
  so_reasons :: "string list"
  so_revision :: "versioned_ref option"

record target_card =
  tg_id :: uuid
  tg_ref :: versioned_ref
  tg_name :: string
  tg_source :: string
  tg_excerpt :: string
  tg_reason :: string

record field_diff =
  gf_field :: string
  gf_before :: pyval
  gf_after :: pyval

record goal_preview =
  gw_id :: uuid
  gw_version :: int
  gw_draft :: uuid
  gw_draft_version :: int
  gw_goal :: uuid
  gw_inputs :: "versioned_ref list"
  gw_diffs :: "field_diff list"
  gw_sources :: "source_view list"
  gw_cards :: "target_card list"
  gw_selected :: "uuid list"
  gw_at_boundary :: bool
  gw_activity :: "versioned_ref option"
  gw_expires :: time
  gw_created :: time

datatype apply_status = APPLY_PENDING | APPLY_DONE

record apply_result =
  gr_draft :: uuid
  gr_version :: int
  gr_goal :: uuid
  gr_status :: apply_status
  gr_definition :: "versioned_ref option"
  gr_mapping :: "versioned_ref option"
  gr_plan :: "versioned_ref option"
  gr_activity :: "versioned_ref option"
  gr_reasons :: "string list"

section \<open>Achievement\<close>

record achievement_policy =
  go_id :: uuid
  go_version :: int
  go_name :: string
  go_delays :: "(cognitive_process, int) dict"
  go_minimum :: float64
  go_confidence :: float64
  go_disagreement :: float64
  go_novelty :: "(string, string) dict"
  go_rubric :: string
  go_schema :: string
  go_reviewer :: bool
  go_created :: time

record goal_objective =
  gb_id :: uuid
  gb_version :: int
  gb_goal :: uuid
  gb_definition :: int
  gb_criterion :: uuid
  gb_process :: cognitive_process
  gb_targets :: "versioned_ref list"
  gb_requirements :: "string list"
  gb_policy :: versioned_ref
  gb_created :: time

datatype goal_assessment_status =
    GA_SCHEDULED | GA_AVAILABLE | GA_SUBMITTED | GA_ACCEPTED | GA_NEEDS_REVIEW | GA_SCORING_FAILED | GA_CANCELLED

datatype scoring_method = STRUCTURED | OPEN_RESPONSE

record goal_assessment =
  ga_id :: uuid
  ga_version :: int
  ga_user :: uuid
  ga_goal :: uuid
  ga_definition :: int
  ga_objective :: versioned_ref
  ga_criterion :: uuid
  ga_process :: cognitive_process
  ga_method :: scoring_method
  ga_prompt :: string
  ga_status :: goal_assessment_status
  ga_policy :: versioned_ref
  ga_not_before :: time
  ga_result :: "versioned_ref option"
  ga_evidence :: "versioned_ref option"
  ga_reasons :: "string list"
  ga_created :: time

record grader_payload =
  gy_terms :: "string list"
  gy_topic :: string
  gy_statement :: string
  gy_process :: cognitive_process
  gy_requirements :: "string list"
  gy_evidence :: string

record criterion_evaluation =
  gc_criterion :: uuid
  gc_satisfied :: bool
  gc_results :: "versioned_ref list"
  gc_evidence :: "versioned_ref list"
  gc_reasons :: "string list"

record goal_evaluation =
  gx_id :: uuid
  gx_version :: int
  gx_user :: uuid
  gx_goal :: uuid
  gx_definition :: int
  gx_policy :: versioned_ref
  gx_criteria :: "criterion_evaluation list"
  gx_obligations :: "versioned_ref list"
  gx_misconceptions :: "versioned_ref list"
  gx_eligible :: bool
  gx_reasons :: "string list"
  gx_created :: time

record lifecycle_result =
  gl_state :: goal_state
  gl_plan :: "plan_lifecycle option"
  gl_draft :: "goal_draft option"
  gl_reasons :: "string list"

record achievement_workspace =
  gh_policy :: achievement_policy
  gh_objectives :: "goal_objective list"
  gh_assessments :: "goal_assessment list"
  gh_evaluation :: "goal_evaluation option"

section \<open>Validation\<close>

definition count_between :: "nat \<Rightarrow> nat \<Rightarrow> 'a list \<Rightarrow> bool" where
  "count_between a b xs \<longleftrightarrow> a \<le> length xs \<and> length xs \<le> b"

definition valid_criterion :: "('m) criterion_input_scheme \<Rightarrow> bool" where
  "valid_criterion c \<longleftrightarrow> text_between 1 500 (ci_statement c) \<and> count_between 1 8 (ci_requirements c)"

definition valid_weekly :: "int option \<Rightarrow> bool" where
  "valid_weekly w = (case w of None \<Rightarrow> True | Some n \<Rightarrow> 1 \<le> n \<and> n \<le> 10080)"

definition valid_context :: "string option \<Rightarrow> bool" where
  "valid_context c = (case c of None \<Rightarrow> True | Some t \<Rightarrow> length t \<le> 500)"

definition valid_definition :: "goal_definition \<Rightarrow> bool" where
  "valid_definition d \<longleftrightarrow> 1 \<le> gd_version d \<and> text_between 1 200 (gd_title d) \<and> text_between 1 200 (gd_topic d) \<and>
     count_between 1 12 (gd_capabilities d) \<and> valid_context (gd_context d) \<and> count_between 1 12 (gd_criteria d) \<and>
     list_all valid_criterion (gd_criteria d) \<and> count_between 1 100 (gd_sources d) \<and> valid_weekly (gd_weekly d) \<and>
     at_least 1 (gd_supersedes d) \<and> gd_reasons d \<noteq> []"

definition draft_fields_ok :: "goal_draft \<Rightarrow> bool" where
  "draft_fields_ok d \<longleftrightarrow> 1 \<le> dr_version d \<and> at_least 1 (dr_base d) \<and> text_between 1 200 (dr_title d) \<and>
     text_between 1 200 (dr_topic d) \<and> count_between 1 12 (dr_capabilities d) \<and> valid_context (dr_context d) \<and>
     valid_weekly (dr_weekly d) \<and> count_between 1 12 (dr_criteria d) \<and> list_all valid_criterion (dr_criteria d) \<and>
     count_between 1 100 (dr_sources d)"

definition valid_draft :: "goal_draft \<Rightarrow> bool" where
  "valid_draft d \<longleftrightarrow> draft_fields_ok d \<and> (dr_confirmed d \<longrightarrow> dr_selected d \<noteq> [])"

definition valid_preview :: "goal_preview \<Rightarrow> bool" where
  "valid_preview p \<longleftrightarrow> 1 \<le> gw_version p \<and> 1 \<le> gw_draft_version p \<and> gw_inputs p \<noteq> [] \<and> gw_selected p \<noteq> []"

definition valid_objective :: "goal_objective \<Rightarrow> bool" where
  "valid_objective o' \<longleftrightarrow> 1 \<le> gb_version o' \<and> 1 \<le> gb_definition o' \<and> gb_targets o' \<noteq> [] \<and> gb_requirements o' \<noteq> []"

definition valid_assessment :: "goal_assessment \<Rightarrow> bool" where
  "valid_assessment a \<longleftrightarrow> 1 \<le> ga_version a \<and> 1 \<le> ga_definition a \<and> text_between 1 2000 (ga_prompt a) \<and> ga_reasons a \<noteq> []"

definition valid_evaluation :: "goal_evaluation \<Rightarrow> bool" where
  "valid_evaluation e \<longleftrightarrow> 1 \<le> gx_version e \<and> 1 \<le> gx_definition e \<and> gx_criteria e \<noteq> [] \<and> gx_reasons e \<noteq> []"

section \<open>Commands\<close>

record create_draft_command =
  cq_sources :: "uuid list"
  cq_title :: string
  cq_topic :: string
  cq_capabilities :: "string list"
  cq_context :: "string option"
  cq_deadline :: "time option"
  cq_weekly :: "int option"
  cq_criteria :: "criterion_input list"
  cq_key :: string

text \<open>A field of an update is absent, given as null, or given with a value.\<close>

record update_draft_command =
  uq_expected :: int
  uq_sources :: "uuid list option option"
  uq_title :: "string option option"
  uq_topic :: "string option option"
  uq_capabilities :: "string list option option"
  uq_context :: "string option option"
  uq_deadline :: "time option option"
  uq_weekly :: "int option option"
  uq_criteria :: "criterion_input list option option"
  uq_selected :: "uuid list option option"
  uq_confirmed :: "bool option option"
  uq_key :: string

record versioned_command =
  vq_expected :: int
  vq_key :: string

record lifecycle_command = versioned_command +
  vq_plan :: "int option"

record confirm_command = lifecycle_command +
  vq_evaluation :: uuid
  vq_evaluation_version :: int

datatype boundary_mode = NORMAL_BOUNDARY | SUPERSEDE_ACTIVE

record apply_command =
  yq_expected :: int
  yq_preview_version :: int
  yq_preview :: uuid
  yq_mode :: boundary_mode
  yq_focused :: bool
  yq_key :: string

record submit_command =
  sq_expected :: int
  sq_activity :: int
  sq_response :: string
  sq_key :: string

section \<open>The database\<close>

datatype goal_response =
    DraftResponse goal_draft | PreviewResponse goal_preview | ApplyResponse apply_result | LifecycleResponse lifecycle_result
  | WorkspaceResponse achievement_workspace | AssessmentResponse goal_assessment | EvaluationResponse goal_evaluation

record goal_receipt =
  gq_user :: uuid
  gq_command :: string
  gq_key :: string
  gq_digest :: string
  gq_response :: goal_response

record preview_row =
  pw_user :: uuid
  pw_preview :: goal_preview

record objective_row =
  ow_user :: uuid
  ow_objective :: goal_objective

record assessment_row =
  as_activity :: goal_assessment
  as_grader :: grader_payload

record goal_db = activity_db +
  gd_definitions :: "goal_definition list"
  gd_drafts :: "goal_draft list"
  gd_previews :: "preview_row list"
  gd_plan_states :: "plan_lifecycle list"
  gd_focus :: "focus_state list"
  gd_receipts :: "goal_receipt list"
  gd_policies :: "achievement_policy list"
  gd_objectives :: "objective_row list"
  gd_assessments :: "assessment_row list"
  gd_evaluations :: "goal_evaluation list"
  gd_mappings :: mapping_table
  gd_subgraphs :: "goal_subgraph list"
  gd_documents :: "document_row list"
  gd_learner :: learner_db

datatype goal_error =
    GOAL_NOT_FOUND | GOAL_IDEMPOTENCY_CONFLICT | GOAL_VERSION_CONFLICT | GOAL_CRITERION_UNMEASURABLE
  | GOAL_SOURCE_NOT_EXECUTABLE | GOAL_TARGET_CONFIRMATION_REQUIRED | GOAL_PREVIEW_STALE | GOAL_REPLAN_REQUIRED
  | GOAL_MEASUREMENT_UNAVAILABLE | GOAL_EVIDENCE_INSUFFICIENT | GOAL_VALIDATION | GOAL_INTEGRITY | GOAL_INDEX_ERROR
  | GOAL_KEY_ERROR | GOAL_VALUE_ERROR | GOAL_SCOPE knowledge_error | GOAL_PLAN plan_error | GOAL_PLAN_STORE plan_store_error
  | GOAL_ACTIVITY activity_error | GOAL_LEARNER learner_error

text \<open>An insert that violates a unique key, or a payload that violates its contract, is an exception.\<close>

definition insert_row :: "('r \<Rightarrow> 'k) \<Rightarrow> 'r list \<Rightarrow> 'r \<Rightarrow> goal_error + 'r list" where
  "insert_row key rows r = (if key r \<in> key ` set rows then Inl GOAL_INTEGRITY else Inr (rows @ [r]))"

definition validated :: "('a \<Rightarrow> bool) \<Rightarrow> 'a \<Rightarrow> goal_error + 'a" where
  "validated ok x = (if ok x then Inr x else Inl GOAL_VALIDATION)"

definition found :: "goal_error \<Rightarrow> 'a option \<Rightarrow> goal_error + 'a" where
  "found e x = (case x of None \<Rightarrow> Inl e | Some a \<Rightarrow> Inr a)"

definition require :: "bool \<Rightarrow> goal_error \<Rightarrow> goal_error + unit" where
  "require b e = (if b then Inr () else Inl e)"

section \<open>Receipts\<close>

fun draft_response :: "goal_response \<Rightarrow> goal_draft option" where
  "draft_response (DraftResponse d) = (if valid_draft d then Some d else None)"
| "draft_response _ = None"

fun preview_response :: "goal_response \<Rightarrow> goal_preview option" where
  "preview_response (PreviewResponse p) = Some p"
| "preview_response _ = None"

fun apply_response :: "goal_response \<Rightarrow> apply_result option" where
  "apply_response (ApplyResponse r) = Some r"
| "apply_response _ = None"

fun lifecycle_response :: "goal_response \<Rightarrow> lifecycle_result option" where
  "lifecycle_response (LifecycleResponse r) = Some r"
| "lifecycle_response _ = None"

fun workspace_response :: "goal_response \<Rightarrow> achievement_workspace option" where
  "workspace_response (WorkspaceResponse w) = Some w"
| "workspace_response _ = None"

fun assessment_response :: "goal_response \<Rightarrow> goal_assessment option" where
  "assessment_response (AssessmentResponse a) = Some a"
| "assessment_response _ = None"

fun evaluation_response :: "goal_response \<Rightarrow> goal_evaluation option" where
  "evaluation_response (EvaluationResponse e) = Some e"
| "evaluation_response _ = None"

definition goal_receipt_of :: "goal_db \<Rightarrow> uuid \<Rightarrow> string \<Rightarrow> goal_receipt option" where
  "goal_receipt_of db user k = find (\<lambda>r. gq_user r = user \<and> gq_key r = k) (gd_receipts db)"

text \<open>\<open>replay\<close>: a receipt of another content is a conflict; one whose response is of another model (or no
  longer valid) fails validation.\<close>

definition goal_replay :: "(goal_response \<Rightarrow> 'a option) \<Rightarrow> goal_db \<Rightarrow> uuid \<Rightarrow> string \<Rightarrow> string \<Rightarrow> goal_error + 'a option" where
  "goal_replay as db user k digest =
     (case goal_receipt_of db user k of
        None \<Rightarrow> Inr None
      | Some r \<Rightarrow> if gq_digest r \<noteq> digest then Inl GOAL_IDEMPOTENCY_CONFLICT
                  else (case as (gq_response r) of None \<Rightarrow> Inl GOAL_VALIDATION | Some x \<Rightarrow> Inr (Some x)))"

definition write_goal_receipt :: "goal_db \<Rightarrow> uuid \<Rightarrow> string \<Rightarrow> string \<Rightarrow> string \<Rightarrow> goal_response \<Rightarrow> goal_error + goal_db" where
  "write_goal_receipt db user command k digest r =
     bind_res (insert_row (\<lambda>x. (gq_user x, gq_key x)) (gd_receipts db)
         \<lparr>gq_user = user, gq_command = command, gq_key = k, gq_digest = digest, gq_response = r\<rparr>)
       (\<lambda>rows. Inr (db\<lparr>gd_receipts := rows\<rparr>))"

section \<open>Reads and writes\<close>

definition latest_draft :: "goal_db \<Rightarrow> uuid \<Rightarrow> uuid \<Rightarrow> goal_error + goal_draft option" where
  "latest_draft db i user =
     (case latest_by dr_version (filter (\<lambda>d. dr_id d = i \<and> dr_user d = user) (gd_drafts db)) of
        None \<Rightarrow> Inr None
      | Some d \<Rightarrow> bind_res (validated valid_draft d) (\<lambda>d. Inr (Some d)))"

definition save_draft :: "goal_db \<Rightarrow> goal_draft \<Rightarrow> goal_error + goal_db" where
  "save_draft db d = bind_res (insert_row (\<lambda>x. (dr_id x, dr_version x)) (gd_drafts db) d)
     (\<lambda>rows. Inr (db\<lparr>gd_drafts := rows\<rparr>))"

definition latest_pending_draft :: "goal_db \<Rightarrow> uuid \<Rightarrow> uuid \<Rightarrow> goal_error + goal_draft option" where
  "latest_pending_draft db goal user =
     (case latest_by dr_version (filter (\<lambda>d. dr_goal d = goal \<and> dr_user d = user \<and> dr_status d = APPROVED_PENDING_BOUNDARY)
         (gd_drafts db)) of
        None \<Rightarrow> Inr None
      | Some d \<Rightarrow> bind_res (validated valid_draft d) (\<lambda>d. Inr (Some d)))"

definition get_preview :: "goal_db \<Rightarrow> uuid \<Rightarrow> int \<Rightarrow> uuid \<Rightarrow> goal_preview option" where
  "get_preview db i v user = map_option pw_preview
     (find (\<lambda>r. gw_id (pw_preview r) = i \<and> gw_version (pw_preview r) = v \<and> pw_user r = user) (gd_previews db))"

definition save_preview :: "goal_db \<Rightarrow> goal_preview \<Rightarrow> uuid \<Rightarrow> goal_error + goal_db" where
  "save_preview db p user = bind_res (insert_row (\<lambda>x. (gw_id (pw_preview x), gw_version (pw_preview x))) (gd_previews db)
       \<lparr>pw_user = user, pw_preview = p\<rparr>) (\<lambda>rows. Inr (db\<lparr>gd_previews := rows\<rparr>))"

definition next_definition_version :: "goal_db \<Rightarrow> uuid \<Rightarrow> int" where
  "next_definition_version db goal = version_after gd_version (filter (\<lambda>d. gd_goal d = goal) (gd_definitions db))"

definition latest_definition :: "goal_db \<Rightarrow> uuid \<Rightarrow> uuid \<Rightarrow> goal_definition option" where
  "latest_definition db goal user =
     latest_by gd_version (filter (\<lambda>d. gd_goal d = goal \<and> gd_user d = user) (gd_definitions db))"

definition save_definition :: "goal_db \<Rightarrow> goal_definition \<Rightarrow> goal_error + goal_db" where
  "save_definition db d = bind_res (insert_row (\<lambda>x. (gd_goal x, gd_version x)) (gd_definitions db) d)
     (\<lambda>rows. Inr (db\<lparr>gd_definitions := rows\<rparr>))"

definition save_goal_state :: "goal_db \<Rightarrow> goal_state \<Rightarrow> uuid \<Rightarrow> goal_error + goal_db" where
  "save_goal_state db s user = bind_res (insert_row (\<lambda>x. (gv_goal (gv_state x), gv_version (gv_state x))) (ab_goal_states db)
       \<lparr>gv_user = user, gv_state = s\<rparr>) (\<lambda>rows. Inr (db\<lparr>ab_goal_states := rows\<rparr>))"

definition save_plan_state :: "goal_db \<Rightarrow> plan_lifecycle \<Rightarrow> goal_error + goal_db" where
  "save_plan_state db s = bind_res (insert_row (\<lambda>x. (gp_plan x, gp_version x, gp_state x)) (gd_plan_states db) s)
     (\<lambda>rows. Inr (db\<lparr>gd_plan_states := rows\<rparr>))"

definition latest_plan_state :: "goal_db \<Rightarrow> uuid \<Rightarrow> int \<Rightarrow> plan_lifecycle option" where
  "latest_plan_state db p v = latest_by gp_state (filter (\<lambda>s. gp_plan s = p \<and> gp_version s = v) (gd_plan_states db))"

definition latest_focus :: "goal_db \<Rightarrow> uuid \<Rightarrow> focus_state option" where
  "latest_focus db user = latest_by fo_version (filter (\<lambda>f. fo_user f = user) (gd_focus db))"

definition save_focus :: "goal_db \<Rightarrow> focus_state \<Rightarrow> goal_error + goal_db" where
  "save_focus db f = bind_res (insert_row (\<lambda>x. (fo_user x, fo_version x)) (gd_focus db) f)
     (\<lambda>rows. Inr (db\<lparr>gd_focus := rows\<rparr>))"

definition get_policy :: "goal_db \<Rightarrow> uuid \<Rightarrow> int \<Rightarrow> achievement_policy option" where
  "get_policy db i v = find (\<lambda>p. go_id p = i \<and> go_version p = v) (gd_policies db)"

definition save_policy :: "goal_db \<Rightarrow> achievement_policy \<Rightarrow> goal_error + goal_db" where
  "save_policy db p = bind_res (insert_row (\<lambda>x. (go_id x, go_version x)) (gd_policies db) p)
     (\<lambda>rows. Inr (db\<lparr>gd_policies := rows\<rparr>))"

definition save_objective :: "goal_db \<Rightarrow> goal_objective \<Rightarrow> uuid \<Rightarrow> goal_error + goal_db" where
  "save_objective db b user = bind_res (insert_row (\<lambda>x. (gb_id (ow_objective x), gb_version (ow_objective x))) (gd_objectives db)
       \<lparr>ow_user = user, ow_objective = b\<rparr>) (\<lambda>rows. Inr (db\<lparr>gd_objectives := rows\<rparr>))"

text \<open>The latest version of each criterion's objective among those of the definition version.\<close>

definition list_objectives :: "goal_db \<Rightarrow> uuid \<Rightarrow> uuid \<Rightarrow> int \<Rightarrow> goal_objective list" where
  "list_objectives db goal user v =
     setdefault_by gb_criterion [] (filter (\<lambda>b. gb_definition b = v)
       (sort_key (\<lambda>b. (gb_criterion b, - gb_version b))
         (map ow_objective (filter (\<lambda>r. gb_goal (ow_objective r) = goal \<and> ow_user r = user) (gd_objectives db)))))"

definition save_goal_assessment :: "goal_db \<Rightarrow> goal_assessment \<Rightarrow> grader_payload \<Rightarrow> goal_error + goal_db" where
  "save_goal_assessment db a g = bind_res (insert_row (\<lambda>x. (ga_id (as_activity x), ga_version (as_activity x))) (gd_assessments db)
       \<lparr>as_activity = a, as_grader = g\<rparr>) (\<lambda>rows. Inr (db\<lparr>gd_assessments := rows\<rparr>))"

definition latest_goal_assessment :: "goal_db \<Rightarrow> uuid \<Rightarrow> uuid \<Rightarrow> assessment_row option" where
  "latest_goal_assessment db i user = latest_by (ga_version \<circ> as_activity)
     (filter (\<lambda>r. ga_id (as_activity r) = i \<and> ga_user (as_activity r) = user) (gd_assessments db))"

definition list_assessments :: "goal_db \<Rightarrow> uuid \<Rightarrow> uuid \<Rightarrow> int \<Rightarrow> goal_assessment list" where
  "list_assessments db goal user v =
     setdefault_by ga_id [] (filter (\<lambda>a. ga_definition a = v)
       (sort_key (\<lambda>a. (ga_id a, - ga_version a))
         (filter (\<lambda>a. ga_goal a = goal \<and> ga_user a = user) (map as_activity (gd_assessments db)))))"

definition save_evaluation :: "goal_db \<Rightarrow> goal_evaluation \<Rightarrow> goal_error + goal_db" where
  "save_evaluation db e = bind_res (insert_row (\<lambda>x. (gx_id x, gx_version x)) (gd_evaluations db) e)
     (\<lambda>rows. Inr (db\<lparr>gd_evaluations := rows\<rparr>))"

definition latest_evaluation :: "goal_db \<Rightarrow> uuid \<Rightarrow> uuid \<Rightarrow> goal_evaluation option" where
  "latest_evaluation db goal user =
     latest_by gx_version (filter (\<lambda>e. gx_goal e = goal \<and> gx_user e = user) (gd_evaluations db))"

section \<open>What a write does\<close>

named_theorems goal_writes "when a write of the repository succeeds, and what it stores"

lemma insert_row_Inr [goal_writes]: "insert_row key rows r = Inr rows' \<longleftrightarrow> key r \<notin> key ` set rows \<and> rows' = rows @ [r]"
  by (auto simp: insert_row_def)

lemma validated_Inr [goal_writes]: "validated ok x = Inr y \<longleftrightarrow> ok x \<and> y = x"
  by (auto simp: validated_def)

lemma found_Inr [goal_writes]: "found e x = Inr y \<longleftrightarrow> x = Some y"
  by (auto simp: found_def split: option.splits)

lemma require_Inr [goal_writes]: "require b e = Inr u \<longleftrightarrow> b"
  by (auto simp: require_def)

lemmas goal_saves = write_goal_receipt_def save_draft_def save_preview_def save_definition_def save_goal_state_def
  save_plan_state_def save_focus_def save_policy_def save_objective_def save_goal_assessment_def save_evaluation_def

end
