(* ===== verification/GoalFlow.thy ===== *)
theory GoalFlow
  imports GoalRecords
begin

text \<open>
  \<open>GoalManagementService\<close> (\<open>app/services/goal_management.py\<close>): drafts, previews, the application of a draft,
  and what completing an activity applies at its boundary. Each command maps a database to a database and its
  response; an exception leaves no trace, since the caller's transaction is rolled back. The commands of one
  learner are taken one after the other.

  \<open>goal_lib\<close> holds what is not program logic or has no string of the model: SHA-256 over canonical JSON,
  \<open>uuid5\<close> in the name space of another id, the Chinese sentences, and the language model that grades. The
  owner's workspace comes with the call.
\<close>

section \<open>Calls, texts and references\<close>

record open_grade =
  og_score :: float64
  og_confidence :: float64
  og_rubric :: "(string, float64) dict"
  og_quotes :: "string list"
  og_reasons :: "string list"

record goal_lib = mapper_env +
  gt_hash :: "pyval \<Rightarrow> string"
  gt_template :: "cognitive_process \<Rightarrow> string \<Rightarrow> string"
  gt_copy_suffix :: string
  gt_recommended :: string
  gt_excerpt :: string
  gt_casefold :: "string \<Rightarrow> string"
  gt_grade :: "string \<Rightarrow> string \<Rightarrow> grader_payload \<Rightarrow> open_grade option"

record goal_call =
  kq_call :: activity_call
  kq_pseudonym :: string
  kq_workspace :: uuid

abbreviation owner_of :: "goal_call \<Rightarrow> uuid" where
  "owner_of k \<equiv> ak_owner (kq_call k)"

abbreviation now_of :: "goal_call \<Rightarrow> time" where
  "now_of k \<equiv> ak_now (kq_call k)"

abbreviation correlation_of :: "goal_call \<Rightarrow> uuid" where
  "correlation_of k \<equiv> ak_correlation (kq_call k)"

definition namespaced :: "goal_lib \<Rightarrow> uuid \<Rightarrow> string \<Rightarrow> uuid" where
  "namespaced lib n s = mt_uuid5 (mapper_env.truncate lib) n s"

fun process_name :: "cognitive_process \<Rightarrow> string" where
  "process_name COG_RECALL = ''recall''"
| "process_name COG_UNDERSTAND = ''understand''"
| "process_name COG_EXPLAIN = ''explain''"
| "process_name COG_APPLY = ''apply''"
| "process_name COG_TRANSFER = ''transfer''"

definition checked_ref :: "string \<Rightarrow> string \<Rightarrow> ver \<Rightarrow> goal_error + versioned_ref" where
  "checked_ref t i v = validated valid_ref (mk_ref t i v)"

text \<open>\<open>s.rsplit(p, 1)[1]\<close>, when \<open>p\<close> occurs.\<close>

fun after_last :: "string \<Rightarrow> string \<Rightarrow> string option" where
  "after_last p [] = None"
| "after_last p (c # s) =
     (case after_last p s of Some r \<Rightarrow> Some r | None \<Rightarrow> if prefix p (c # s) then Some (drop (length p) (c # s)) else None)"

definition ascii_digit :: "char \<Rightarrow> bool" where
  "ascii_digit c \<longleftrightarrow> 48 \<le> (of_char c :: nat) \<and> (of_char c :: nat) < 58"

text \<open>\<open>str.isdigit\<close> also holds for superscript digits, which \<open>int\<close> refuses.\<close>

definition py_isdigit :: "string \<Rightarrow> bool" where
  "py_isdigit s \<longleftrightarrow> s \<noteq> [] \<and> list_all (\<lambda>c. ascii_digit c \<or> (of_char c :: nat) \<in> {178, 179, 185}) s"

definition raw_version :: "string \<Rightarrow> goal_error + ver" where
  "raw_version s =
     (case after_last '':v'' s of
        None \<Rightarrow> Inr (VerI 1)
      | Some v \<Rightarrow> if \<not> py_isdigit v then Inr (VerS v)
                  else if list_all ascii_digit v then Inr (VerI (digits_val v)) else Inl GOAL_VALUE_ERROR)"

definition unit_ref :: "string \<Rightarrow> uuid \<Rightarrow> goal_error + versioned_ref" where
  "unit_ref s i = bind_res (raw_version s) (checked_ref ''KnowledgeUnit'' i)"

definition relation_ref :: "string \<Rightarrow> uuid \<Rightarrow> goal_error + versioned_ref" where
  "relation_ref s i = bind_res (raw_version s) (checked_ref ''KnowledgeRelation'' i)"

text \<open>\<open>int(ref.version)\<close>.\<close>

definition ref_int :: "versioned_ref \<Rightarrow> goal_error + int" where
  "ref_int r = found GOAL_VALUE_ERROR (ref_number (vr_version r))"

definition unique_ids :: "uuid list \<Rightarrow> uuid list" where
  "unique_ids xs = rev (remdups (rev xs))"

section \<open>Digests\<close>

definition strs_json :: "string list \<Rightarrow> pyval" where
  "strs_json xs = VList (map VStr xs)"

definition criterion_json :: "('m) criterion_input_scheme \<Rightarrow> pyval" where
  "criterion_json c = VDict [(''criterion_id'', VStr (ci_id c)), (''cognitive_process'', VStr (process_name (ci_process c))),
     (''statement'', VStr (ci_statement c)), (''evidence_requirements'', strs_json (ci_requirements c))]"

definition create_json :: "create_draft_command \<Rightarrow> pyval" where
  "create_json c = VDict [(''source_document_ids'', strs_json (cq_sources c)), (''title'', VStr (cq_title c)),
     (''topic'', VStr (cq_topic c)), (''target_capabilities'', strs_json (cq_capabilities c)),
     (''application_context'', opt_json VStr (cq_context c)), (''deadline_at'', opt_json time_json (cq_deadline c)),
     (''weekly_time_budget_minutes'', opt_json VInt (cq_weekly c)),
     (''success_criteria'', VList (map criterion_json (cq_criteria c))), (''idempotency_key'', VStr (cq_key c))]"

text \<open>An absent field and a null field are both null in the digest.\<close>

definition given_json :: "('a \<Rightarrow> pyval) \<Rightarrow> 'a option option \<Rightarrow> pyval" where
  "given_json f v = (case v of Some (Some x) \<Rightarrow> f x | _ \<Rightarrow> VNone)"

definition update_json :: "uuid \<Rightarrow> update_draft_command \<Rightarrow> pyval" where
  "update_json i c = VDict [(''draft_id'', VStr i), (''expected_draft_version'', VInt (uq_expected c)),
     (''source_document_ids'', given_json strs_json (uq_sources c)), (''title'', given_json VStr (uq_title c)),
     (''topic'', given_json VStr (uq_topic c)), (''target_capabilities'', given_json strs_json (uq_capabilities c)),
     (''application_context'', given_json VStr (uq_context c)), (''deadline_at'', given_json time_json (uq_deadline c)),
     (''weekly_time_budget_minutes'', given_json VInt (uq_weekly c)),
     (''success_criteria'', given_json (\<lambda>xs. VList (map criterion_json xs)) (uq_criteria c)),
     (''selected_target_ids'', given_json strs_json (uq_selected c)), (''targets_confirmed'', given_json VBool (uq_confirmed c)),
     (''idempotency_key'', VStr (uq_key c))]"

definition versioned_json :: "uuid \<Rightarrow> versioned_command \<Rightarrow> pyval" where
  "versioned_json goal c = VDict [(''goal_id'', VStr goal), (''expected_state_version'', VInt (vq_expected c)),
     (''idempotency_key'', VStr (vq_key c))]"

definition preview_json :: "uuid \<Rightarrow> versioned_command \<Rightarrow> pyval" where
  "preview_json i c = VDict [(''draft_id'', VStr i), (''expected_draft_version'', VInt (vq_expected c)),
     (''idempotency_key'', VStr (vq_key c))]"

fun mode_name :: "boundary_mode \<Rightarrow> string" where
  "mode_name NORMAL_BOUNDARY = ''normal_boundary''"
| "mode_name SUPERSEDE_ACTIVE = ''supersede_active''"

definition apply_json :: "uuid \<Rightarrow> apply_command \<Rightarrow> pyval" where
  "apply_json i c = VDict [(''draft_id'', VStr i), (''expected_draft_version'', VInt (yq_expected c)),
     (''expected_preview_version'', VInt (yq_preview_version c)), (''preview_id'', VStr (yq_preview c)),
     (''boundary_mode'', VStr (mode_name (yq_mode c))), (''set_focused'', VBool (yq_focused c)),
     (''idempotency_key'', VStr (yq_key c))]"

section \<open>Documents\<close>

definition owned_documents :: "goal_db \<Rightarrow> string \<Rightarrow> uuid list \<Rightarrow> goal_error + document_row list" where
  "owned_documents db owner ids =
     (let wanted = unique_ids ids; docs = filter (\<lambda>d. dc_id d \<in> set wanted \<and> dc_owner d = owner) (gd_documents db)
      in if length docs \<noteq> length wanted then Inl GOAL_NOT_FOUND else Inr docs)"

definition scope_of :: "goal_db \<Rightarrow> string \<Rightarrow> uuid list \<Rightarrow> goal_error + goal_scope" where
  "scope_of db owner ids = map_sum GOAL_SCOPE id (load_scope (gd_documents db) owner ids)"

definition display_name :: "document_row \<Rightarrow> string" where
  "display_name d = (if dc_title d \<in> {None, Some []} then dc_filename d else the (dc_title d))"

definition source_view_of :: "goal_scope \<Rightarrow> document_row \<Rightarrow> source_view" where
  "source_view_of s d =
     (let (status, reason) =
        (if \<not> document_active d then (SOURCE_BLOCKED, ''GOAL_SOURCE_ARCHIVED'')
         else if dc_moderation d \<in> {MOD_REJECTED, MOD_REQUIRES_REVIEW} then (SOURCE_BLOCKED, ''GOAL_SOURCE_MODERATION_BLOCKED'')
         else if dc_processing d \<in> {PROC_PENDING, PROC_PROCESSING} then (SOURCE_WAITING, ''GOAL_SOURCE_PROCESSING'')
         else if dc_processing d \<noteq> PROC_COMPLETED then (SOURCE_BLOCKED, ''GOAL_SOURCE_PROCESSING_FAILED'')
         else if dc_id d \<notin> set (gk_authorized s) \<or> \<not> list_ex (\<lambda>u. uw_document u = dc_id d) (gk_units s)
         then (SOURCE_WAITING, ''GOAL_SOURCE_NO_PUBLISHED_KNOWLEDGE'')
         else (SOURCE_EXECUTABLE, ''GOAL_SOURCE_EXECUTABLE''))
      in \<lparr>so_document = dc_id d, so_name = display_name d, so_status = status, so_reasons = [reason],
          so_revision = map_option (\<lambda>i. mk_ref ''MaterialRevision'' i (VerS i)) (dc_current d)\<rparr>)"

definition source_scope :: "goal_db \<Rightarrow> string \<Rightarrow> uuid list \<Rightarrow> goal_error + source_view list \<times> goal_scope" where
  "source_scope db owner ids =
     bind_res (owned_documents db owner ids) (\<lambda>docs.
     bind_res (scope_of db owner ids) (\<lambda>s.
     Inr (map (source_view_of s) (sort_key dc_id docs), s)))"

definition evidence_excerpt :: "goal_lib \<Rightarrow> document_row \<Rightarrow> uuid list \<Rightarrow> string" where
  "evidence_excerpt lib d spans =
     (case current_revision d of
        None \<Rightarrow> gt_excerpt lib
      | Some r \<Rightarrow>
         (let text = str_join '' '' (map cn_text (filter (\<lambda>s. cn_span s \<in> set spans) (cr_spans r)));
              short = take 240 (str_join '' '' (split_words [] text))
          in if short = [] then gt_excerpt lib else short))"

definition card_of :: "goal_lib \<Rightarrow> document_row list \<Rightarrow> unit_view \<Rightarrow> goal_error + target_card" where
  "card_of lib docs u =
     bind_res (found GOAL_KEY_ERROR (find (\<lambda>d. dc_id d = uw_document u) docs)) (\<lambda>d.
     bind_res (unit_ref (uw_ref u) (uw_id u)) (\<lambda>r.
     Inr \<lparr>tg_id = uw_id u, tg_ref = r, tg_name = uw_name u, tg_source = display_name d,
          tg_excerpt = evidence_excerpt lib d (uw_spans u), tg_reason = gt_recommended lib\<rparr>))"

section \<open>Drafts\<close>

definition get_draft :: "goal_db \<Rightarrow> uuid \<Rightarrow> uuid \<Rightarrow> goal_error + goal_draft" where
  "get_draft db user i = bind_res (latest_draft db i user) (found GOAL_NOT_FOUND)"

definition suggest_targets :: "goal_lib \<Rightarrow> goal_db \<Rightarrow> goal_call \<Rightarrow> uuid \<Rightarrow> goal_error + target_card list" where
  "suggest_targets lib db k i =
     bind_res (get_draft db (owner_of k) i) (\<lambda>d.
     bind_res (scope_of db (kq_pseudonym k) (dr_sources d)) (\<lambda>s.
     bind_res (owned_documents db (kq_pseudonym k) (dr_sources d)) (\<lambda>docs.
     map_res (card_of lib docs) (gk_units s))))"

text \<open>The end of every command that answers with a draft: the draft is stored, and the answer with its receipt.\<close>

definition answer_draft :: "goal_db \<Rightarrow> goal_draft \<Rightarrow> uuid \<Rightarrow> string \<Rightarrow> string \<Rightarrow> string \<Rightarrow> goal_error + goal_db \<times> goal_draft" where
  "answer_draft db d user command key digest =
     bind_res (save_draft db d) (\<lambda>db1.
     bind_res (write_goal_receipt db1 user command key digest (DraftResponse d)) (\<lambda>db2. Inr (db2, d)))"

definition create_draft :: "pyenv \<Rightarrow> goal_lib \<Rightarrow> goal_db \<Rightarrow> goal_call \<Rightarrow> create_draft_command \<Rightarrow> goal_error + goal_db \<times> goal_draft" where
  "create_draft env lib db k c =
     (let owner = owner_of k; digest = gt_hash lib (create_json c) in
      bind_res (goal_replay draft_response db owner (cq_key c) digest) (\<lambda>known.
      case known of Some d \<Rightarrow> Inr (db, d) | None \<Rightarrow>
      bind_res (owned_documents db (kq_pseudonym k) (cq_sources c)) (\<lambda>_.
      let goal = uuid5 env (''askora:goal-v2:'' @ owner @ '':'' @ cq_key c) in
      bind_res (validated valid_draft
        \<lparr>dr_id = namespaced lib goal ''draft'', dr_version = 1, dr_user = owner, dr_goal = goal, dr_base = None,
         dr_status = DRAFT_OPEN, dr_title = cq_title c, dr_topic = cq_topic c, dr_capabilities = cq_capabilities c,
         dr_context = cq_context c, dr_deadline = cq_deadline c, dr_weekly = cq_weekly c, dr_criteria = cq_criteria c,
         dr_sources = unique_ids (cq_sources c), dr_selected = [], dr_confirmed = False, dr_preview = None,
         dr_blocks = [], dr_created = now_of k\<rparr>) (\<lambda>d.
      answer_draft db d owner ''CreateGoalDraftV1'' (cq_key c) digest))))"

text \<open>The goal's definition as a draft again.\<close>

definition draft_of_definition :: "goal_definition \<Rightarrow> uuid \<Rightarrow> uuid \<Rightarrow> int option \<Rightarrow> string \<Rightarrow> time option \<Rightarrow> uuid list \<Rightarrow> time \<Rightarrow> goal_draft" where
  "draft_of_definition d i goal base title deadline selected now =
    \<lparr>dr_id = i, dr_version = 1, dr_user = gd_user d, dr_goal = goal, dr_base = base, dr_status = DRAFT_OPEN,
     dr_title = title, dr_topic = gd_topic d, dr_capabilities = gd_capabilities d, dr_context = gd_context d,
     dr_deadline = deadline, dr_weekly = gd_weekly d, dr_criteria = map criterion_input.truncate (gd_criteria d),
     dr_sources = gd_sources d, dr_selected = selected, dr_confirmed = (selected \<noteq> []), dr_preview = None, dr_blocks = [],
     dr_created = now\<rparr>"

definition create_edit_draft :: "goal_lib \<Rightarrow> goal_db \<Rightarrow> goal_call \<Rightarrow> uuid \<Rightarrow> versioned_command \<Rightarrow> goal_error + goal_db \<times> goal_draft" where
  "create_edit_draft lib db k goal c =
     (let owner = owner_of k; digest = gt_hash lib (versioned_json goal c) in
      bind_res (goal_replay draft_response db owner (vq_key c) digest) (\<lambda>known.
      case known of Some d \<Rightarrow> Inr (db, d) | None \<Rightarrow>
      bind_res (found GOAL_NOT_FOUND (latest_definition db goal owner)) (\<lambda>d.
      bind_res (found GOAL_NOT_FOUND (goal_state_of db goal owner)) (\<lambda>s.
      bind_res (require (gv_version s = vq_expected c) GOAL_VERSION_CONFLICT) (\<lambda>_.
      bind_res (case gv_mapping s of None \<Rightarrow> Inr None
                | Some r \<Rightarrow> bind_res (ref_int r) (\<lambda>v. Inr (get_mapping_version (gd_mappings db) (vr_id r) v))) (\<lambda>m.
      let selected = (case m of None \<Rightarrow> [] | Some m \<Rightarrow> gm_selected m) in
      bind_res (validated valid_draft (draft_of_definition d (namespaced lib goal (''edit-draft:'' @ vq_key c)) goal
          (Some (gd_version d)) (gd_title d) (gd_deadline d) selected (now_of k))) (\<lambda>x.
      answer_draft db x owner ''CreateEditGoalDraftV1'' (vq_key c) digest)))))))"

record goal_detail =
  gz_definition :: goal_definition
  gz_state :: goal_state
  gz_plan :: "plan_lifecycle option"
  gz_focused :: bool

definition focused_on :: "goal_db \<Rightarrow> uuid \<Rightarrow> uuid \<Rightarrow> bool" where
  "focused_on db user goal \<longleftrightarrow> (case latest_focus db user of None \<Rightarrow> False | Some f \<Rightarrow> fo_goal f = Some goal)"

definition get_goal_detail :: "goal_db \<Rightarrow> uuid \<Rightarrow> uuid \<Rightarrow> goal_error + goal_detail" where
  "get_goal_detail db owner goal =
     bind_res (found GOAL_NOT_FOUND (latest_definition db goal owner)) (\<lambda>d.
     bind_res (found GOAL_NOT_FOUND (goal_state_of db goal owner)) (\<lambda>s.
     bind_res (case gv_plan s of None \<Rightarrow> Inr None
               | Some r \<Rightarrow> bind_res (ref_int r) (\<lambda>v. Inr (latest_plan_state db (vr_id r) v))) (\<lambda>p.
     Inr \<lparr>gz_definition = d, gz_state = s, gz_plan = p, gz_focused = focused_on db owner goal\<rparr>)))"

fun template_requirements :: "cognitive_process \<Rightarrow> string list" where
  "template_requirements COG_RECALL = [''delayed_independent_recall'']"
| "template_requirements COG_UNDERSTAND = [''independent_explanation'', ''delayed_independent'']"
| "template_requirements COG_EXPLAIN = [''independent_explanation'', ''delayed_independent'']"
| "template_requirements COG_APPLY = [''independent_application'', ''novel_context'']"
| "template_requirements COG_TRANSFER = [''independent_transfer'', ''novel_context'']"

definition suggest_criteria :: "pyenv \<Rightarrow> goal_lib \<Rightarrow> string \<Rightarrow> cognitive_process list \<Rightarrow> goal_error + criterion_input list" where
  "suggest_criteria env lib topic ps = map_res (\<lambda>p. validated valid_criterion
     \<lparr>ci_id = uuid5 env (''goal-criterion:'' @ topic @ '':'' @ process_name p), ci_process = p,
      ci_statement = gt_template lib p topic, ci_requirements = template_requirements p\<rparr>) ps"

section \<open>Editing a draft\<close>

definition given :: "'a option option \<Rightarrow> 'a \<Rightarrow> 'a" where
  "given v x = (case v of Some (Some y) \<Rightarrow> y | _ \<Rightarrow> x)"

definition given_or_null :: "'a option option \<Rightarrow> 'a option \<Rightarrow> 'a option" where
  "given_or_null v x = (case v of None \<Rightarrow> x | Some y \<Rightarrow> y)"

text \<open>Other sources drop the selection, other criteria or capabilities its confirmation, unless the command
  speaks about the selection itself.\<close>

definition edited_draft :: "goal_draft \<Rightarrow> update_draft_command \<Rightarrow> time \<Rightarrow> goal_draft" where
  "edited_draft d c now =
     (let resourced = (case uq_sources c of Some (Some _) \<Rightarrow> uq_selected c = None | _ \<Rightarrow> False);
          reworded = ((uq_criteria c \<noteq> None \<or> uq_capabilities c \<noteq> None) \<and> uq_selected c = None)
      in d\<lparr>dr_version := dr_version d + 1, dr_status := DRAFT_OPEN, dr_title := given (uq_title c) (dr_title d),
           dr_topic := given (uq_topic c) (dr_topic d), dr_capabilities := given (uq_capabilities c) (dr_capabilities d),
           dr_context := given_or_null (uq_context c) (dr_context d),
           dr_deadline := given_or_null (uq_deadline c) (dr_deadline d),
           dr_weekly := given_or_null (uq_weekly c) (dr_weekly d), dr_criteria := given (uq_criteria c) (dr_criteria d),
           dr_sources := (case uq_sources c of Some (Some xs) \<Rightarrow> unique_ids xs | _ \<Rightarrow> dr_sources d),
           dr_selected := (if resourced then [] else given (uq_selected c) (dr_selected d)),
           dr_confirmed := (if resourced \<or> reworded then False else given (uq_confirmed c) (dr_confirmed d)),
           dr_preview := None, dr_blocks := [], dr_created := now\<rparr>)"

definition update_draft :: "goal_lib \<Rightarrow> goal_db \<Rightarrow> goal_call \<Rightarrow> uuid \<Rightarrow> update_draft_command \<Rightarrow> goal_error + goal_db \<times> goal_draft" where
  "update_draft lib db k i c =
     (let owner = owner_of k; digest = gt_hash lib (update_json i c) in
      bind_res (goal_replay draft_response db owner (uq_key c) digest) (\<lambda>known.
      case known of Some d \<Rightarrow> Inr (db, d) | None \<Rightarrow>
      bind_res (get_draft db owner i) (\<lambda>d.
      bind_res (require (dr_version d = uq_expected c) GOAL_VERSION_CONFLICT) (\<lambda>_.
      bind_res (require (dr_status d \<notin> {DRAFT_APPLIED, DRAFT_CANCELLED}) GOAL_VERSION_CONFLICT) (\<lambda>_.
      bind_res (case uq_sources c of Some (Some xs) \<Rightarrow> owned_documents db (kq_pseudonym k) (unique_ids xs) | _ \<Rightarrow> Inr []) (\<lambda>_.
      answer_draft db (edited_draft d c (now_of k)) owner ''UpdateGoalDraftV1'' (uq_key c) digest))))))"

section \<open>Active activity\<close>

definition active_activity_ref :: "goal_db \<Rightarrow> uuid \<Rightarrow> versioned_ref option" where
  "active_activity_ref db goal =
     (case active_plan_of db goal of None \<Rightarrow> None | Some row \<Rightarrow>
       (let p = pr_plan row; rows = tp_states (ab_tables db)
        in map_option (\<lambda>s. mk_ref ''LearningActivityState'' (st_activity s) (VerI (st_version s)))
             (find (\<lambda>s. st_status s = ACTIVE)
               (List.map_filter (plan_state rows (lp_id p) (lp_version p)) (states_of_plan rows (lp_id p) (lp_version p))))))"

definition superseded_state :: "activity_state \<Rightarrow> string \<Rightarrow> uuid \<Rightarrow> time \<Rightarrow> activity_state" where
  "superseded_state s reason correlation now =
     s\<lparr>st_version := st_version s + 1, st_status := ACTIVITY_SUPERSEDED, st_previous := Some ACTIVE, st_reason := reason,
       st_actor := LEARNER_ACTOR, st_correlation := correlation, st_created := now, st_completed := None\<rparr>"

definition supersede_active_activity :: "goal_db \<Rightarrow> goal_call \<Rightarrow> versioned_ref \<Rightarrow> string \<Rightarrow> goal_error + goal_db" where
  "supersede_active_activity db k r reason =
     (case latest_state (tp_states (ab_tables db)) (vr_id r) of
        None \<Rightarrow> Inl GOAL_PREVIEW_STALE
      | Some s \<Rightarrow>
          if VerI (st_version s) \<noteq> vr_version r \<or> st_status s \<noteq> ACTIVE then Inl GOAL_PREVIEW_STALE
          else (case append_state (tp_states (ab_tables db)) (superseded_state s reason (correlation_of k) (now_of k)) of
                  None \<Rightarrow> Inl GOAL_INTEGRITY
                | Some rows \<Rightarrow> Inr (with_states db rows)))"

section \<open>Previews\<close>

definition vague_markers :: "nat list list" where
  "vague_markers = [[0x4E86, 0x89E3], [0x7406, 0x89E3], [0x719F, 0x6089], [0x770B, 0x5B8C], [0x8BFB, 0x5B8C],
     code_points ''understand'', code_points ''familiar'', code_points ''read'']"

definition measurable :: "('m) criterion_input_scheme \<Rightarrow> bool" where
  "measurable c \<longleftrightarrow> \<not> any_marker vague_markers (casefold (ci_statement c))"

text \<open>\<open>value.split(":revision:")[1].split(":")[0]\<close>.\<close>

fun before_sub :: "string \<Rightarrow> string \<Rightarrow> string" where
  "before_sub p [] = []"
| "before_sub p (c # s) = (if prefix p (c # s) then [] else c # before_sub p s)"

fun after_first :: "string \<Rightarrow> string \<Rightarrow> string option" where
  "after_first p [] = None"
| "after_first p (c # s) = (if prefix p (c # s) then Some (drop (length p) (c # s)) else after_first p s)"

definition revision_input :: "string \<Rightarrow> goal_error + versioned_ref" where
  "revision_input v =
     bind_res (found GOAL_INDEX_ERROR (after_first '':revision:'' v)) (\<lambda>rest.
     checked_ref ''MaterialRevision'' (takeWhile (\<lambda>c. c \<noteq> CHR '':'') (before_sub '':revision:'' rest)) (VerS v))"

definition target_criterion_json :: "success_criterion \<Rightarrow> pyval" where
  "target_criterion_json c = VDict [(''criterion_id'', VStr (ci_id c)), (''cognitive_process'', VStr (process_name (ci_process c))),
     (''statement'', VStr (ci_statement c)), (''evidence_requirements'', strs_json (ci_requirements c)),
     (''target_refs'', VList (map ref_json (ci_targets c)))]"

text \<open>A field of the definition as JSON, against the draft's value: a tuple never equals a JSON list, nor a
  datetime its text, so those fields always differ from an existing definition.\<close>

definition field_of :: "string \<Rightarrow> goal_definition option \<Rightarrow> (goal_definition \<Rightarrow> pyval) \<Rightarrow> pyval \<Rightarrow> bool \<Rightarrow> field_diff option" where
  "field_of name d before after comparable =
     (case d of
        None \<Rightarrow> if after = VNone then None else Some \<lparr>gf_field = name, gf_before = VNone, gf_after = after\<rparr>
      | Some x \<Rightarrow> if before x = after \<and> (comparable \<or> after = VNone) then None
                  else Some \<lparr>gf_field = name, gf_before = before x, gf_after = after\<rparr>)"

definition field_diffs :: "goal_definition option \<Rightarrow> goal_draft \<Rightarrow> field_diff list" where
  "field_diffs d x = List.map_filter id
    [field_of ''title'' d (VStr \<circ> gd_title) (VStr (dr_title x)) True,
     field_of ''topic'' d (VStr \<circ> gd_topic) (VStr (dr_topic x)) True,
     field_of ''target_capabilities'' d (strs_json \<circ> gd_capabilities) (strs_json (dr_capabilities x)) False,
     field_of ''application_context'' d (opt_json VStr \<circ> gd_context) (opt_json VStr (dr_context x)) True,
     field_of ''deadline_at'' d (opt_json time_json \<circ> gd_deadline) (opt_json time_json (dr_deadline x)) False,
     field_of ''weekly_time_budget_minutes'' d (opt_json VInt \<circ> gd_weekly) (opt_json VInt (dr_weekly x)) True,
     field_of ''success_criteria'' d (\<lambda>d. VList (map target_criterion_json (gd_criteria d)))
       (VList (map criterion_json (dr_criteria x))) True,
     field_of ''source_document_ids'' d (strs_json \<circ> gd_sources) (strs_json (dr_sources x)) False,
     field_of ''selected_target_ids'' d (\<lambda>_. VNone) (strs_json (dr_selected x)) True]"

definition preview_inputs :: "goal_scope \<Rightarrow> goal_draft \<Rightarrow> goal_definition option \<Rightarrow> goal_state option \<Rightarrow> versioned_ref option \<Rightarrow>
    goal_error + versioned_ref list" where
  "preview_inputs s x d st act =
     bind_res (map_res revision_input (gk_graphs s)) (\<lambda>revisions.
     Inr (revisions @
       (case d of None \<Rightarrow> [] | Some d \<Rightarrow> [mk_ref ''LearningGoalDefinition'' (dr_goal x) (VerI (gd_version d))]) @
       (case st of None \<Rightarrow> []
        | Some t \<Rightarrow> mk_ref ''LearningGoalState'' (dr_goal x) (VerI (gv_version t)) #
            (case gv_mapping t of None \<Rightarrow> [] | Some r \<Rightarrow> [r]) @ (case gv_plan t of None \<Rightarrow> [] | Some r \<Rightarrow> [r])) @
       (case act of None \<Rightarrow> [] | Some r \<Rightarrow> [r])))"

definition day_us :: int where
  "day_us = 24 * 60 * 60 * 1000000"

definition make_preview :: "goal_lib \<Rightarrow> goal_draft \<Rightarrow> versioned_ref list \<Rightarrow> goal_definition option \<Rightarrow> source_view list \<Rightarrow> target_card list \<Rightarrow>
    versioned_ref option \<Rightarrow> time \<Rightarrow> goal_preview" where
  "make_preview lib x inputs d views cards act now =
    \<lparr>gw_id = namespaced lib (dr_id x) (''preview:'' @ int_str (dr_version x)), gw_version = 1, gw_draft = dr_id x,
     gw_draft_version = dr_version x, gw_goal = dr_goal x, gw_inputs = inputs, gw_diffs = field_diffs d x,
     gw_sources = views, gw_cards = filter (\<lambda>c. tg_id c \<in> set (dr_selected x)) cards, gw_selected = dr_selected x,
     gw_at_boundary = (act \<noteq> None), gw_activity = act, gw_expires = now + day_us, gw_created = now\<rparr>"

definition preview_draft :: "goal_lib \<Rightarrow> goal_db \<Rightarrow> goal_call \<Rightarrow> uuid \<Rightarrow> versioned_command \<Rightarrow> goal_error + goal_db \<times> goal_preview" where
  "preview_draft lib db k i c =
     (let owner = owner_of k; now = now_of k; digest = gt_hash lib (preview_json i c) in
      bind_res (goal_replay preview_response db owner (vq_key c) digest) (\<lambda>known.
      case known of Some p \<Rightarrow> Inr (db, p) | None \<Rightarrow>
      bind_res (get_draft db owner i) (\<lambda>x.
      bind_res (require (dr_version x = vq_expected c) GOAL_VERSION_CONFLICT) (\<lambda>_.
      bind_res (require (list_all measurable (dr_criteria x)) GOAL_CRITERION_UNMEASURABLE) (\<lambda>_.
      bind_res (source_scope db (kq_pseudonym k) (dr_sources x)) (\<lambda>(views, s).
      bind_res (require (list_all (\<lambda>v. so_status v = SOURCE_EXECUTABLE) views) GOAL_SOURCE_NOT_EXECUTABLE) (\<lambda>_.
      bind_res (suggest_targets lib db k i) (\<lambda>cards.
      bind_res (require (dr_confirmed x \<and> dr_selected x \<noteq> [] \<and> set (dr_selected x) \<subseteq> tg_id ` set cards)
        GOAL_TARGET_CONFIRMATION_REQUIRED) (\<lambda>_.
      let d = latest_definition db (dr_goal x) owner; act = active_activity_ref db (dr_goal x) in
      bind_res (preview_inputs s x d (goal_state_of db (dr_goal x) owner) act) (\<lambda>inputs.
      bind_res (validated valid_preview (make_preview lib x inputs d views cards act now)) (\<lambda>p.
      bind_res (save_preview db p owner) (\<lambda>db1.
      bind_res (save_draft db1 (x\<lparr>dr_version := dr_version x + 1, dr_status := PREVIEW_READY, dr_preview := Some (gw_id p),
        dr_created := now\<rparr>)) (\<lambda>db2.
      bind_res (write_goal_receipt db2 owner ''PreviewGoalDraftV1'' (vq_key c) digest (PreviewResponse p)) (\<lambda>db3.
      Inr (db3, p)))))))))))))))"

section \<open>Applying a draft\<close>

definition definition_json :: "goal_draft \<Rightarrow> pyval" where
  "definition_json x = VDict [(''title'', VStr (dr_title x)), (''topic'', VStr (dr_topic x)),
     (''target_capabilities'', strs_json (dr_capabilities x)), (''application_context'', opt_json VStr (dr_context x)),
     (''success_criteria'', VList (map criterion_json (dr_criteria x))), (''source_document_ids'', strs_json (dr_sources x)),
     (''deadline_at'', opt_json time_json (dr_deadline x)), (''weekly_time_budget_minutes'', opt_json VInt (dr_weekly x)),
     (''selected_target_ids'', strs_json (dr_selected x))]"

definition definition_of :: "goal_lib \<Rightarrow> goal_draft \<Rightarrow> uuid \<Rightarrow> int \<Rightarrow> versioned_ref list \<Rightarrow> time \<Rightarrow> goal_definition" where
  "definition_of lib x owner v targets now =
    \<lparr>gd_goal = dr_goal x, gd_version = v, gd_user = owner, gd_title = dr_title x, gd_topic = dr_topic x,
     gd_capabilities = dr_capabilities x, gd_context = dr_context x,
     gd_criteria = map (\<lambda>c. criterion_input.extend c \<lparr>ci_targets = targets\<rparr>) (dr_criteria x), gd_sources = dr_sources x,
     gd_deadline = dr_deadline x, gd_weekly = dr_weekly x, gd_fingerprint = gt_hash lib (definition_json x),
     gd_created = now, gd_supersedes = dr_base x, gd_reasons = [''GOAL_DRAFT_APPLIED'']\<rparr>"

definition compatibility_goal :: "goal_draft \<Rightarrow> uuid \<Rightarrow> int \<Rightarrow> time \<Rightarrow> learning_goal" where
  "compatibility_goal x owner v now =
    \<lparr>lg_id = dr_goal x, lg_schema = ''1.0'', lg_version = v, lg_user = owner, lg_title = dr_title x, lg_topic = dr_topic x,
     lg_capabilities = dr_capabilities x, lg_context = dr_context x, lg_criteria = map ci_statement (dr_criteria x),
     lg_documents = dr_sources x, lg_deadline = dr_deadline x, lg_weekly_minutes = dr_weekly x, lg_status = GOAL_ACTIVE,
     lg_confirmed_by_user = True, lg_created = now, lg_confirmed_at = Some now,
     lg_supersedes = (if 1 < v then Some (v - 1) else None), lg_inferences = [],
     lg_reasons = [''GOAL_V2_COMPATIBILITY_SNAPSHOT'']\<rparr>"

definition explicit_evidence :: "goal_scope \<Rightarrow> nat \<times> uuid \<Rightarrow> goal_error + target_evidence" where
  "explicit_evidence s ni =
     (case ni of (n, i) \<Rightarrow>
       bind_res (found GOAL_KEY_ERROR (unit_by_id (gk_units s) i)) (\<lambda>u.
       validated valid_target_evidence
        \<lparr>te_unit = i, te_unit_ref = uw_ref u, te_document = uw_document u, te_revision = uw_revision u, te_spans = uw_spans u,
         te_ranks = [(''explicit_user_selection'', int n + 1)], te_score = 1, te_reasons = [''GOAL_TARGET_EXPLICITLY_CONFIRMED'']\<rparr>))"

definition explicit_mapping :: "goal_draft \<Rightarrow> goal_scope \<Rightarrow> uuid \<Rightarrow> int \<Rightarrow> int \<Rightarrow> target_evidence list \<Rightarrow> time \<Rightarrow> goal_mapping" where
  "explicit_mapping x s i v goal_version es now =
    \<lparr>gm_id = i, gm_schema = ''1.0'', gm_version = v, gm_goal = dr_goal x, gm_goal_version = goal_version,
     gm_documents = gk_authorized s, gm_graphs = gk_graphs s, gm_candidates = dr_selected x, gm_selected = dr_selected x,
     gm_excluded = [], gm_evidence = es, gm_confidence = None, gm_reasons = [''GOAL_TARGET_EXPLICITLY_CONFIRMED''],
     gm_mapper = ''goal-knowledge-rrf-v1+explicit-target-v1'', gm_inferences = [], gm_status = MAP_CONFIRMED,
     gm_question = None, gm_created = now\<rparr>"

text \<open>The relations into a selected target, of any strength.\<close>

definition direct_relations :: "goal_draft \<Rightarrow> goal_scope \<Rightarrow> relation_view list" where
  "direct_relations x s = filter (\<lambda>r. rw_target r \<in> set (dr_selected x)) (gk_relations s)"

definition direct_prerequisites :: "goal_draft \<Rightarrow> goal_scope \<Rightarrow> uuid list" where
  "direct_prerequisites x s = sorted_set (map rw_prerequisite (direct_relations x s))"

definition direct_subgraph :: "goal_lib \<Rightarrow> goal_draft \<Rightarrow> goal_scope \<Rightarrow> uuid \<Rightarrow> int \<Rightarrow> versioned_ref list \<Rightarrow> time \<Rightarrow> goal_subgraph" where
  "direct_subgraph lib x s m v refs now =
    \<lparr>gs_id = namespaced lib m ''goal-subgraph'', gs_schema = ''1.0'', gs_version = v,
     gs_mapping = mk_ref ''GoalKnowledgeMapping'' m (VerI v), gs_targets = dr_selected x,
     gs_prerequisites = direct_prerequisites x s, gs_relations = refs, gs_graphs = gk_graphs s,
     gs_closure = ''published-hard-prerequisite-closure-v1'', gs_reasons = [''GOAL_EXPLICIT_TARGET_CLOSURE''], gs_created = now\<rparr>"

definition prerequisite_table :: "goal_scope \<Rightarrow> prerequisite_map" where
  "prerequisite_table s = foldl (\<lambda>d r. dict_set (rw_target r)
     ((case dict_get d (rw_target r) of None \<Rightarrow> [] | Some ps \<Rightarrow> ps) @ [rw_prerequisite r]) d) [] (gk_relations s)"

definition daily_budget :: "int option \<Rightarrow> int" where
  "daily_budget w = max 5 ((case w of None \<Rightarrow> 70 | Some n \<Rightarrow> if n = 0 then 70 else n) div 7)"

definition activated_state :: "goal_draft \<Rightarrow> int \<Rightarrow> goal_state_status \<Rightarrow> goal_state_status option \<Rightarrow> int \<Rightarrow> versioned_ref \<Rightarrow> versioned_ref \<Rightarrow>
    string \<Rightarrow> goal_call \<Rightarrow> goal_state" where
  "activated_state x v status previous definition_version m p reason k =
    \<lparr>gv_goal = dr_goal x, gv_version = v, gv_status = status, gv_definition = definition_version, gv_mapping = Some m,
     gv_plan = Some p, gv_previous = previous, gv_reasons = [reason], gv_correlation = correlation_of k, gv_created = now_of k\<rparr>"

text \<open>A goal that is applied for the first time is confirmed and then active; otherwise it becomes active from
  whatever state it is in.\<close>

definition activate_goal :: "goal_db \<Rightarrow> goal_call \<Rightarrow> goal_draft \<Rightarrow> int \<Rightarrow> versioned_ref \<Rightarrow> versioned_ref \<Rightarrow> goal_error + goal_db" where
  "activate_goal db k x dv m p =
     (case goal_state_of db (dr_goal x) (owner_of k) of
        None \<Rightarrow>
          bind_res (save_goal_state db (activated_state x 1 GS_CONFIRMED None dv m p ''GOAL_CONFIRMED_BY_APPLY'' k) (owner_of k)) (\<lambda>db1.
          save_goal_state db1 (activated_state x 2 GS_ACTIVE (Some GS_CONFIRMED) dv m p ''GOAL_PLAN_ACTIVATED'' k) (owner_of k))
      | Some s \<Rightarrow>
          save_goal_state db (activated_state x (gv_version s + 1) GS_ACTIVE (Some (gv_status s)) dv m p ''GOAL_PLAN_ACTIVATED'' k)
            (owner_of k))"

definition first_plan_state :: "learning_plan \<Rightarrow> goal_call \<Rightarrow> plan_lifecycle" where
  "first_plan_state p k = \<lparr>gp_plan = lp_id p, gp_version = lp_version p, gp_state = 1, gp_status = PLAN_ACTIVE, gp_previous = None,
     gp_reasons = [''GOAL_PLAN_ACTIVATED''], gp_correlation = correlation_of k, gp_created = now_of k\<rparr>"

definition set_focus :: "goal_db \<Rightarrow> goal_call \<Rightarrow> uuid option \<Rightarrow> string \<Rightarrow> goal_error + goal_db" where
  "set_focus db k goal reason = save_focus db
    \<lparr>fo_user = owner_of k, fo_version = (case latest_focus db (owner_of k) of None \<Rightarrow> 0 | Some f \<Rightarrow> fo_version f) + 1,
     fo_goal = goal, fo_reasons = [reason], fo_correlation = correlation_of k, fo_created = now_of k\<rparr>"

text \<open>The knowledge part of an application: the definition, the compatibility goal, the mapping of the selected
  targets and their subgraph.\<close>

record applied_knowledge =
  aq_definition :: int
  aq_goal :: int
  aq_mapping :: int
  aq_mapping_id :: uuid

definition apply_knowledge :: "goal_lib \<Rightarrow> goal_db \<Rightarrow> goal_call \<Rightarrow> goal_draft \<Rightarrow> goal_scope \<Rightarrow> string \<Rightarrow>
    goal_error + goal_db \<times> applied_knowledge" where
  "apply_knowledge lib db k x s key =
     (let owner = owner_of k; now = now_of k; goal = dr_goal x; dv = next_definition_version db goal in
      bind_res (map_res (\<lambda>i. bind_res (found GOAL_KEY_ERROR (unit_by_id (gk_units s) i)) (\<lambda>u. unit_ref (uw_ref u) i))
        (dr_selected x)) (\<lambda>targets.
      bind_res (validated valid_definition (definition_of lib x owner dv targets now)) (\<lambda>d.
      bind_res (save_definition db d) (\<lambda>db1.
      let gv = next_goal_version (ab_goals db1) goal in
      bind_res (validated valid_goal (compatibility_goal x owner gv now)) (\<lambda>g.
      let db2 = db1\<lparr>ab_goals := fst (save_goal (ab_goals db1) g (''goal-v2-legacy:'' @ key))\<rparr>;
          mv = next_mapping_version (gd_mappings db2) goal; mi = namespaced lib goal ''goal-knowledge-mapping'' in
      bind_res (map_res (explicit_evidence s) (enumerate 0 (dr_selected x))) (\<lambda>es.
      bind_res (validated valid_mapping (explicit_mapping x s mi mv gv es now)) (\<lambda>m.
      let db3 = db2\<lparr>gd_mappings := fst (save_mapping (gd_mappings db2) m (''goal-v2-mapping:'' @ key))\<rparr> in
      bind_res (map_res (\<lambda>r. relation_ref (rw_ref r) (rw_id r)) (direct_relations x s)) (\<lambda>refs.
      bind_res (validated valid_subgraph (direct_subgraph lib x s mi mv refs now)) (\<lambda>g.
      let db4 = db3\<lparr>gd_subgraphs := fst (save_subgraph (gd_subgraphs db3) g)\<rparr> in
      Inr (db4, \<lparr>aq_definition = dv, aq_goal = gv, aq_mapping = mv, aq_mapping_id = mi\<rparr>))))))))))"

text \<open>The plan over the selected targets, and its first activity.\<close>

definition apply_plan :: "pyenv \<Rightarrow> goal_lib \<Rightarrow> goal_db \<Rightarrow> goal_call \<Rightarrow> goal_draft \<Rightarrow> goal_scope \<Rightarrow> int \<Rightarrow> string \<Rightarrow>
    goal_error + goal_db \<times> learning_plan \<times> activity_response" where
  "apply_plan env lib db k x s dv key =
     (let goal = dr_goal x; now = now_of k; v = next_plan_version (tp_plans (ab_tables db)) goal;
          planner_goal = \<lparr>cg_id = goal, cg_objective = namespaced lib goal (''objective:'' @ int_str dv),
            cg_targets = dr_selected x, cg_confirmed = now\<rparr>;
          mastery = map (\<lambda>i. (i, None)) (dr_selected x @ direct_prerequisites x s) in
      bind_res (map_sum GOAL_PLAN id (generate_plan env planner_goal (prerequisite_table s) mastery [] (daily_budget (dr_weekly x)) 1
        (str_join '','' (gk_graphs s)) v [''GOAL_DEFINITION_APPLIED''])) (\<lambda>d.
      bind_res (map_sum GOAL_PLAN_STORE id (save_plan env (ab_tables db) d (''goal-v2-plan:'' @ key) now)) (\<lambda>(tables, p).
      let db1 = db\<lparr>ab_tables := tables\<rparr> in
      bind_res (map_sum GOAL_ACTIVITY id (select_next env (gt_hash lib) db1 db1 [] (kq_call k) goal (''goal-v2-select:'' @ key)))
        (\<lambda>(db2, r). Inr (db2, p, r)))))"

definition apply_now :: "pyenv \<Rightarrow> goal_lib \<Rightarrow> goal_db \<Rightarrow> goal_call \<Rightarrow> goal_draft \<Rightarrow> bool \<Rightarrow> string \<Rightarrow>
    goal_error + goal_db \<times> apply_result" where
  "apply_now env lib db k x focus key =
     bind_res (scope_of db (kq_pseudonym k) (dr_sources x)) (\<lambda>s.
     bind_res (require (set (dr_selected x) \<subseteq> uw_id ` set (gk_units s)) GOAL_PREVIEW_STALE) (\<lambda>_.
     bind_res (apply_knowledge lib db k x s key) (\<lambda>(db1, a).
     bind_res (apply_plan env lib db1 k x s (aq_definition a) key) (\<lambda>(db2, p, r).
     let m = mk_ref ''GoalKnowledgeMapping'' (aq_mapping_id a) (VerI (aq_mapping a));
         pr = mk_ref ''LearningPlan'' (lp_id p) (VerI (lp_version p)) in
     bind_res (activate_goal db2 k x (aq_definition a) m pr) (\<lambda>db3.
     bind_res (save_plan_state db3 (first_plan_state p k)) (\<lambda>db4.
     bind_res (if focus then set_focus db4 k (Some (dr_goal x)) ''GOAL_FOCUS_EXPLICITLY_SET'' else Inr db4) (\<lambda>db5.
     bind_res (save_draft db5 (x\<lparr>dr_version := dr_version x + 1, dr_status := DRAFT_APPLIED, dr_created := now_of k\<rparr>)) (\<lambda>db6.
     Inr (db6, \<lparr>gr_draft = dr_id x, gr_version = dr_version x + 1, gr_goal = dr_goal x, gr_status = APPLY_DONE,
       gr_definition = Some (mk_ref ''LearningGoalDefinition'' (dr_goal x) (VerI (aq_definition a))), gr_mapping = Some m,
       gr_plan = Some pr,
       gr_activity = Some (mk_ref ''LearningActivity'' (st_activity (rz_state r)) (VerI (st_plan_version (rz_state r)))),
       gr_reasons = [''GOAL_CHANGE_APPLIED'']\<rparr>)))))))))"

definition preview_fits :: "goal_draft \<Rightarrow> goal_preview \<Rightarrow> apply_command \<Rightarrow> time \<Rightarrow> bool" where
  "preview_fits x p c now \<longleftrightarrow> gw_draft_version p = yq_expected c \<and> dr_version x = yq_expected c + 1 \<and>
     dr_preview x = Some (gw_id p) \<and> dr_status x = PREVIEW_READY \<and> now < gw_expires p"

definition pending_result :: "goal_draft \<Rightarrow> versioned_ref option \<Rightarrow> apply_result" where
  "pending_result x act = \<lparr>gr_draft = dr_id x, gr_version = dr_version x + 1, gr_goal = dr_goal x, gr_status = APPLY_PENDING,
     gr_definition = None, gr_mapping = None, gr_plan = None, gr_activity = act, gr_reasons = [''GOAL_WAITING_ACTIVITY_BOUNDARY'']\<rparr>"

definition apply_draft :: "pyenv \<Rightarrow> goal_lib \<Rightarrow> goal_db \<Rightarrow> goal_call \<Rightarrow> uuid \<Rightarrow> apply_command \<Rightarrow> goal_error + goal_db \<times> apply_result" where
  "apply_draft env lib db k i c =
     (let owner = owner_of k; now = now_of k; digest = gt_hash lib (apply_json i c) in
      bind_res (goal_replay apply_response db owner (yq_key c) digest) (\<lambda>known.
      case known of Some r \<Rightarrow> Inr (db, r) | None \<Rightarrow>
      bind_res (get_draft db owner i) (\<lambda>x.
      bind_res (found GOAL_PREVIEW_STALE (get_preview db (yq_preview c) (yq_preview_version c) owner)) (\<lambda>p.
      bind_res (require (gw_draft p = i \<and> preview_fits x p c now) GOAL_PREVIEW_STALE) (\<lambda>_.
      let act = active_activity_ref db (dr_goal x) in
      bind_res (require (act = gw_activity p) GOAL_PREVIEW_STALE) (\<lambda>_.
      bind_res (if act \<noteq> None \<and> yq_mode c = NORMAL_BOUNDARY
                then bind_res (save_draft db (x\<lparr>dr_version := dr_version x + 1, dr_status := APPROVED_PENDING_BOUNDARY, dr_created := now\<rparr>))
                       (\<lambda>db1. Inr (db1, pending_result x act))
                else bind_res (case act of None \<Rightarrow> Inr db
                               | Some r \<Rightarrow> supersede_active_activity db k r ''GOAL_REPLAN_EXPLICIT_SWITCH'')
                       (\<lambda>db1. apply_now env lib db1 k x (yq_focused c) (yq_key c))) (\<lambda>(db2, r).
      bind_res (write_goal_receipt db2 owner ''ApplyGoalDraftV1'' (yq_key c) digest (ApplyResponse r)) (\<lambda>db3.
      Inr (db3, r)))))))))"

section \<open>The boundary of an activity\<close>

definition boundary_key :: "goal_draft \<Rightarrow> uuid \<Rightarrow> string" where
  "boundary_key x i = ''goal-boundary:'' @ dr_id x @ '':v'' @ int_str (dr_version x) @ '':'' @ i"

definition apply_pending_at_boundary :: "pyenv \<Rightarrow> goal_lib \<Rightarrow> goal_db \<Rightarrow> goal_call \<Rightarrow> uuid \<Rightarrow>
    goal_error + goal_db \<times> versioned_ref option" where
  "apply_pending_at_boundary env lib db k i =
     (case activity_by_id db i of None \<Rightarrow> Inr (db, None) | Some a \<Rightarrow>
      case plan_row_at db (la_plan a) (la_plan_version a) of None \<Rightarrow> Inr (db, None) | Some row \<Rightarrow>
      bind_res (latest_pending_draft db (lp_goal (pr_plan row)) (owner_of k)) (\<lambda>pending.
      case pending of None \<Rightarrow> Inr (db, None) | Some x \<Rightarrow>
      case dr_preview x of None \<Rightarrow> Inr (db, None) | Some pid \<Rightarrow>
      case get_preview db pid 1 (owner_of k) of None \<Rightarrow> Inr (db, None) | Some p \<Rightarrow>
      bind_res (apply_now env lib db k x False (boundary_key x i)) (\<lambda>(db1, r).
      Inr (db1, gr_activity r))))"

fun error_code :: "goal_error \<Rightarrow> string" where
  "error_code GOAL_PREVIEW_STALE = ''GOAL_PREVIEW_STALE''"
| "error_code GOAL_INTEGRITY = ''IntegrityError''"
| "error_code (GOAL_PLAN_STORE _) = ''IntegrityError''"
| "error_code GOAL_VALIDATION = ''ValidationError''"
| "error_code _ = ''error''"

text \<open>The outbox rows the boundary may create follow those of the completion itself.\<close>

definition after_completion :: "activity_call \<Rightarrow> activity_call" where
  "after_completion k = k\<lparr>ak_fresh := (\<lambda>n. ak_fresh k (n + 2))\<rparr>"

definition goal_boundary :: "pyenv \<Rightarrow> goal_lib \<Rightarrow> string \<Rightarrow> uuid \<Rightarrow> activity_call \<Rightarrow> uuid \<Rightarrow> goal_db \<Rightarrow>
    activity_error + goal_db \<times> versioned_ref option" where
  "goal_boundary env lib pseudonym workspace k i db =
     map_sum (BOUNDARY_ERROR \<circ> error_code) id (apply_pending_at_boundary env lib db
       \<lparr>kq_call = after_completion k, kq_pseudonym = pseudonym, kq_workspace = workspace\<rparr> i)"

definition complete_goal_activity :: "pyenv \<Rightarrow> goal_lib \<Rightarrow> goal_db \<Rightarrow> goal_call \<Rightarrow> complete_command \<Rightarrow>
    activity_error + goal_db \<times> activity_response" where
  "complete_goal_activity env lib db k c =
     complete_activity env (gt_hash lib) (goal_boundary env lib (kq_pseudonym k) (kq_workspace k)) db db [] (kq_call k) c"

definition get_focused_goal :: "goal_lib \<Rightarrow> goal_db \<Rightarrow> goal_call \<Rightarrow> focus_state" where
  "get_focused_goal lib db k =
     (case latest_focus db (owner_of k) of
        Some f \<Rightarrow> f
      | None \<Rightarrow> \<lparr>fo_user = owner_of k, fo_version = 1, fo_goal = None, fo_reasons = [''GOAL_FOCUS_NOT_SET''],
                 fo_correlation = namespaced lib (owner_of k) ''focus-not-set'', fo_created = now_of k\<rparr>)"

end
