(* ===== verification/GoalLifecycle.thy ===== *)
theory GoalLifecycle
  imports GoalFlow
begin

text \<open>
  The lifecycle of an applied goal in \<open>app/services/goal_management.py\<close>: pause, resume, archive, copy, the
  verification of its success criteria, the evaluation of the evidence and the confirmation of achievement;
  and the scoring of an answer, \<open>app/services/assessment/goal_achievement.py\<close>.

  The grader is the argument \<open>gt_grade\<close> of \<open>goal_lib\<close>: \<open>None\<close> is any failure of the call, of its
  parsing or of its schema. The expression of the injection filter is written out for the code points a text
  of the model can hold. No code records a misconception hypothesis in a learner state, so the list the
  evaluation reads there is empty.
\<close>

section \<open>State changes\<close>

fun goal_status_name :: "goal_state_status \<Rightarrow> string" where
  "goal_status_name GS_CONFIRMED = ''confirmed''"
| "goal_status_name GS_ACTIVE = ''active''"
| "goal_status_name GS_PAUSED = ''paused''"
| "goal_status_name GS_ACHIEVED = ''achieved''"
| "goal_status_name GS_ARCHIVED = ''archived''"

definition lifecycle_json :: "('m) lifecycle_command_scheme \<Rightarrow> (string \<times> pyval) list" where
  "lifecycle_json c = [(''expected_state_version'', VInt (vq_expected c)),
     (''expected_plan_state_version'', opt_json VInt (vq_plan c)), (''idempotency_key'', VStr (vq_key c))]"

definition confirm_json :: "confirm_command \<Rightarrow> (string \<times> pyval) list" where
  "confirm_json c = lifecycle_json c @ [(''evaluation_id'', VStr (vq_evaluation c)),
     (''expected_evaluation_version'', VInt (vq_evaluation_version c))]"

definition transition_json :: "uuid \<Rightarrow> goal_state_status \<Rightarrow> (string \<times> pyval) list \<Rightarrow> pyval" where
  "transition_json goal target dump =
     VDict ([(''goal_id'', VStr goal), (''target_status'', VStr (goal_status_name target))] @ dump)"

definition checked_state :: "goal_db \<Rightarrow> uuid \<Rightarrow> uuid \<Rightarrow> int \<Rightarrow> goal_error + goal_state" where
  "checked_state db goal user v =
     bind_res (found GOAL_NOT_FOUND (goal_state_of db goal user)) (\<lambda>s.
     bind_res (require (gv_version s = v) GOAL_VERSION_CONFLICT) (\<lambda>_. Inr s))"

definition moved_state :: "goal_state \<Rightarrow> goal_state_status \<Rightarrow> string \<Rightarrow> goal_call \<Rightarrow> goal_state" where
  "moved_state s target reason k = s\<lparr>gv_version := gv_version s + 1, gv_status := target, gv_previous := Some (gv_status s),
     gv_reasons := [reason], gv_correlation := correlation_of k, gv_created := now_of k\<rparr>"

definition moved_plan :: "plan_lifecycle \<Rightarrow> plan_status \<Rightarrow> string \<Rightarrow> goal_call \<Rightarrow> plan_lifecycle" where
  "moved_plan p target reason k = p\<lparr>gp_state := gp_state p + 1, gp_status := target, gp_previous := Some (gp_status p),
     gp_reasons := [reason], gp_correlation := correlation_of k, gp_created := now_of k\<rparr>"

definition transition_plan :: "goal_db \<Rightarrow> goal_call \<Rightarrow> versioned_ref option \<Rightarrow> int option \<Rightarrow> plan_status \<Rightarrow> string \<Rightarrow>
    goal_error + goal_db \<times> plan_lifecycle option" where
  "transition_plan db k plan expected target reason =
     (case plan of None \<Rightarrow> Inr (db, None) | Some r \<Rightarrow>
       bind_res (ref_int r) (\<lambda>v.
       bind_res (found GOAL_VERSION_CONFLICT (latest_plan_state db (vr_id r) v)) (\<lambda>p.
       bind_res (require (expected = Some (gp_state p)) GOAL_VERSION_CONFLICT) (\<lambda>_.
       bind_res (save_plan_state db (moved_plan p target reason k)) (\<lambda>db1.
       Inr (db1, Some (moved_plan p target reason k)))))))"

definition clear_focus :: "goal_db \<Rightarrow> goal_call \<Rightarrow> uuid \<Rightarrow> goal_error + goal_db" where
  "clear_focus db k goal =
     (if focused_on db (owner_of k) goal then set_focus db k None ''GOAL_FOCUS_CLEARED_BY_LIFECYCLE'' else Inr db)"

definition transition_goal :: "goal_lib \<Rightarrow> goal_db \<Rightarrow> goal_call \<Rightarrow> uuid \<Rightarrow> ('m) lifecycle_command_scheme \<Rightarrow>
    (string \<times> pyval) list \<Rightarrow> goal_state_status \<Rightarrow> goal_state_status list \<Rightarrow> plan_status \<Rightarrow> string \<Rightarrow>
    goal_error + goal_db \<times> lifecycle_result" where
  "transition_goal lib db k goal c dump target allowed plan_target reason =
     (let owner = owner_of k; digest = gt_hash lib (transition_json goal target dump) in
      bind_res (goal_replay lifecycle_response db owner (vq_key c) digest) (\<lambda>known.
      case known of Some r \<Rightarrow> Inr (db, r) | None \<Rightarrow>
      bind_res (checked_state db goal owner (vq_expected c)) (\<lambda>s.
      bind_res (require (gv_status s \<in> set allowed) GOAL_VERSION_CONFLICT) (\<lambda>_.
      bind_res (save_goal_state db (moved_state s target reason k) owner) (\<lambda>db1.
      bind_res (transition_plan db1 k (gv_plan s) (vq_plan c) plan_target reason) (\<lambda>(db2, p).
      bind_res (if target \<in> {GS_PAUSED, GS_ARCHIVED, GS_ACHIEVED} then clear_focus db2 k goal else Inr db2) (\<lambda>db3.
      let r = \<lparr>gl_state = moved_state s target reason k, gl_plan = p, gl_draft = None, gl_reasons = [reason]\<rparr> in
      bind_res (write_goal_receipt db3 owner (''GoalLifecycle:'' @ goal_status_name target) (vq_key c) digest
        (LifecycleResponse r)) (\<lambda>db4. Inr (db4, r)))))))))"

definition pause_goal :: "goal_lib \<Rightarrow> goal_db \<Rightarrow> goal_call \<Rightarrow> uuid \<Rightarrow> lifecycle_command \<Rightarrow> goal_error + goal_db \<times> lifecycle_result" where
  "pause_goal lib db k goal c =
     transition_goal lib db k goal c (lifecycle_json c) GS_PAUSED [GS_ACTIVE] PLAN_PAUSED ''GOAL_PAUSED_BY_USER''"

definition same_knowledge :: "goal_db \<Rightarrow> goal_scope \<Rightarrow> versioned_ref option \<Rightarrow> goal_error + unit" where
  "same_knowledge db s mapping =
     (case mapping of None \<Rightarrow> Inr () | Some r \<Rightarrow>
       bind_res (ref_int r) (\<lambda>v. require
         (case get_mapping_version (gd_mappings db) (vr_id r) v of None \<Rightarrow> False | Some m \<Rightarrow> gm_graphs m = gk_graphs s)
         GOAL_REPLAN_REQUIRED))"

definition resume_goal :: "goal_lib \<Rightarrow> goal_db \<Rightarrow> goal_call \<Rightarrow> uuid \<Rightarrow> lifecycle_command \<Rightarrow> goal_error + goal_db \<times> lifecycle_result" where
  "resume_goal lib db k goal c =
     bind_res (checked_state db goal (owner_of k) (vq_expected c)) (\<lambda>s.
     bind_res (require (gv_status s = GS_PAUSED) GOAL_VERSION_CONFLICT) (\<lambda>_.
     bind_res (found GOAL_REPLAN_REQUIRED (latest_definition db goal (owner_of k))) (\<lambda>d.
     bind_res (require (gd_version d = gv_definition s) GOAL_REPLAN_REQUIRED) (\<lambda>_.
     bind_res (source_scope db (kq_pseudonym k) (gd_sources d)) (\<lambda>(views, scope).
     bind_res (require (list_all (\<lambda>v. so_status v = SOURCE_EXECUTABLE) views) GOAL_REPLAN_REQUIRED) (\<lambda>_.
     bind_res (same_knowledge db scope (gv_mapping s)) (\<lambda>_.
     transition_goal lib db k goal c (lifecycle_json c) GS_ACTIVE [GS_PAUSED] PLAN_ACTIVE ''GOAL_RESUMED_EXACT_PLAN'')))))))"

definition archivable :: "goal_state_status list" where
  "archivable = [GS_CONFIRMED, GS_ACTIVE, GS_PAUSED]"

definition close_activity :: "goal_db \<Rightarrow> goal_call \<Rightarrow> uuid \<Rightarrow> string \<Rightarrow> goal_error + goal_db" where
  "close_activity db k goal reason =
     (case active_activity_ref db goal of None \<Rightarrow> Inr db | Some r \<Rightarrow> supersede_active_activity db k r reason)"

definition archive_goal :: "goal_lib \<Rightarrow> goal_db \<Rightarrow> goal_call \<Rightarrow> uuid \<Rightarrow> lifecycle_command \<Rightarrow> goal_error + goal_db \<times> lifecycle_result" where
  "archive_goal lib db k goal c =
     bind_res (checked_state db goal (owner_of k) (vq_expected c)) (\<lambda>s.
     bind_res (require (gv_status s \<in> set archivable) GOAL_VERSION_CONFLICT) (\<lambda>_.
     bind_res (close_activity db k goal ''GOAL_ARCHIVED_BY_USER'') (\<lambda>db1.
     transition_goal lib db1 k goal c (lifecycle_json c) GS_ARCHIVED archivable PLAN_SUPERSEDED ''GOAL_ARCHIVED_BY_USER'')))"

definition copy_archived_goal :: "goal_lib \<Rightarrow> goal_db \<Rightarrow> goal_call \<Rightarrow> uuid \<Rightarrow> lifecycle_command \<Rightarrow>
    goal_error + goal_db \<times> lifecycle_result" where
  "copy_archived_goal lib db k goal c =
     (let owner = owner_of k; digest = gt_hash lib (VDict ((''goal_id'', VStr goal) # lifecycle_json c)) in
      bind_res (goal_replay lifecycle_response db owner (vq_key c) digest) (\<lambda>known.
      case known of Some r \<Rightarrow> Inr (db, r) | None \<Rightarrow>
      bind_res (checked_state db goal owner (vq_expected c)) (\<lambda>s.
      bind_res (require (gv_status s = GS_ARCHIVED) GOAL_VERSION_CONFLICT) (\<lambda>_.
      bind_res (found GOAL_NOT_FOUND (latest_definition db goal owner)) (\<lambda>d.
      let copy = namespaced lib goal (''copy:'' @ vq_key c) in
      bind_res (validated valid_draft (draft_of_definition d (namespaced lib copy ''draft'') copy None
          (gd_title d @ gt_copy_suffix lib) None [] (now_of k))) (\<lambda>x.
      bind_res (save_draft db x) (\<lambda>db1.
      let r = \<lparr>gl_state = s, gl_plan = None, gl_draft = Some x, gl_reasons = [''GOAL_ARCHIVED_COPIED_TO_NEW_DRAFT'']\<rparr> in
      bind_res (write_goal_receipt db1 owner ''CopyArchivedGoalV1'' (vq_key c) digest (LifecycleResponse r)) (\<lambda>db2.
      Inr (db2, r)))))))))"

section \<open>Scheduling the verification\<close>

definition default_policy_id :: "pyenv \<Rightarrow> uuid" where
  "default_policy_id env = uuid5 env ''askora:goal-achievement-policy:default''"

definition default_policy :: "pyenv \<Rightarrow> time \<Rightarrow> achievement_policy" where
  "default_policy env now =
    \<lparr>go_id = default_policy_id env, go_version = 1,
     go_name = ''Askora default criterion measurement'',
     go_delays = [(COG_RECALL, 86400), (COG_UNDERSTAND, 86400), (COG_EXPLAIN, 86400), (COG_APPLY, 0), (COG_TRANSFER, 0)],
     go_minimum = fl (8 / 10), go_confidence = fl (75 / 100), go_disagreement = fl (15 / 100),
     go_novelty = [(''apply'', ''new_context_required''), (''transfer'', ''sufficiently_novel_context_required'')],
     go_rubric = ''goal-rubric/1.0'', go_schema = ''goal-open-grade/1.0'', go_reviewer = True, go_created = now\<rparr>"

definition achievement_policy_of :: "pyenv \<Rightarrow> goal_db \<Rightarrow> time \<Rightarrow> bool \<Rightarrow> goal_error + goal_db \<times> achievement_policy" where
  "achievement_policy_of env db now persist =
     (case get_policy db (default_policy_id env) 1 of
        Some p \<Rightarrow> Inr (db, p)
      | None \<Rightarrow> bind_res (if persist then save_policy db (default_policy env now) else Inr db)
          (\<lambda>db1. Inr (db1, default_policy env now)))"

definition policy_ref :: "achievement_policy \<Rightarrow> versioned_ref" where
  "policy_ref p = mk_ref ''GoalAchievementPolicy'' (go_id p) (VerI (go_version p))"

definition objective_of :: "goal_lib \<Rightarrow> uuid \<Rightarrow> goal_definition \<Rightarrow> achievement_policy \<Rightarrow> time \<Rightarrow> success_criterion \<Rightarrow> goal_objective" where
  "objective_of lib goal d p now c =
    \<lparr>gb_id = namespaced lib goal (''objective:'' @ int_str (gd_version d) @ '':'' @ ci_id c), gb_version = 1, gb_goal = goal,
     gb_definition = gd_version d, gb_criterion = ci_id c, gb_process = ci_process c, gb_targets = ci_targets c,
     gb_requirements = ci_requirements c, gb_policy = policy_ref p, gb_created = now\<rparr>"

definition seconds_us :: "int \<Rightarrow> int" where
  "seconds_us n = n * 1000000"

definition verification_of :: "goal_lib \<Rightarrow> uuid \<Rightarrow> goal_objective \<Rightarrow> string \<Rightarrow> int \<Rightarrow> time \<Rightarrow> goal_assessment" where
  "verification_of lib owner b prompt delay now =
    \<lparr>ga_id = namespaced lib (gb_id b) ''criterion-assessment'', ga_version = 1, ga_user = owner, ga_goal = gb_goal b,
     ga_definition = gb_definition b, ga_objective = mk_ref ''LearningObjective'' (gb_id b) (VerI 1),
     ga_criterion = gb_criterion b, ga_process = gb_process b,
     ga_method = (if gb_process b = COG_RECALL then STRUCTURED else OPEN_RESPONSE), ga_prompt = prompt,
     ga_status = (if delay = 0 then GA_AVAILABLE else GA_SCHEDULED), ga_policy = gb_policy b,
     ga_not_before = now + seconds_us delay, ga_result = None, ga_evidence = None,
     ga_reasons = [''GOAL_CRITERION_ASSESSMENT_SCHEDULED''], ga_created = now\<rparr>"

definition schedule_criterion :: "goal_lib \<Rightarrow> goal_call \<Rightarrow> uuid \<Rightarrow> goal_definition \<Rightarrow> achievement_policy \<Rightarrow> unit_view list \<Rightarrow> goal_db \<Rightarrow>
    success_criterion \<Rightarrow> goal_error + goal_db \<times> goal_objective \<times> goal_assessment" where
  "schedule_criterion lib k goal d p units db c =
     bind_res (validated valid_objective (objective_of lib goal d p (now_of k) c)) (\<lambda>b.
     bind_res (save_objective db b (owner_of k)) (\<lambda>db1.
     bind_res (found GOAL_KEY_ERROR (dict_get (go_delays p) (ci_process c))) (\<lambda>delay.
     bind_res (validated valid_assessment (verification_of lib (owner_of k) b (ci_statement c) delay (now_of k))) (\<lambda>a.
     bind_res (save_goal_assessment db1 a
       \<lparr>gy_terms = map uw_name units, gy_topic = gd_topic d, gy_statement = ci_statement c, gy_process = ci_process c,
        gy_requirements = ci_requirements c,
        gy_evidence = str_join [CHR 0x0A] (map (\<lambda>u. uw_name u @ '': '' @ uw_ref u) units)\<rparr>) (\<lambda>db2.
     Inr (db2, b, a))))))"

fun schedule_criteria :: "goal_lib \<Rightarrow> goal_call \<Rightarrow> uuid \<Rightarrow> goal_definition \<Rightarrow> achievement_policy \<Rightarrow> unit_view list \<Rightarrow> goal_db \<Rightarrow>
    success_criterion list \<Rightarrow> goal_error + goal_db \<times> (goal_objective \<times> goal_assessment) list" where
  "schedule_criteria lib k goal d p units db [] = Inr (db, [])"
| "schedule_criteria lib k goal d p units db (c # cs) =
     bind_res (schedule_criterion lib k goal d p units db c) (\<lambda>(db1, x).
     bind_res (schedule_criteria lib k goal d p units db1 cs) (\<lambda>(db2, xs). Inr (db2, x # xs)))"

definition get_achievement_workspace :: "pyenv \<Rightarrow> goal_db \<Rightarrow> goal_call \<Rightarrow> uuid \<Rightarrow> goal_error + achievement_workspace" where
  "get_achievement_workspace env db k goal =
     bind_res (found GOAL_NOT_FOUND (goal_state_of db goal (owner_of k))) (\<lambda>s.
     bind_res (achievement_policy_of env db (now_of k) False) (\<lambda>(_, p).
     Inr \<lparr>gh_policy = p, gh_objectives = list_objectives db goal (owner_of k) (gv_definition s),
          gh_assessments = list_assessments db goal (owner_of k) (gv_definition s),
          gh_evaluation = latest_evaluation db goal (owner_of k)\<rparr>))"

definition schedule_goal_assessments :: "pyenv \<Rightarrow> goal_lib \<Rightarrow> goal_db \<Rightarrow> goal_call \<Rightarrow> uuid \<Rightarrow> versioned_command \<Rightarrow>
    goal_error + goal_db \<times> achievement_workspace" where
  "schedule_goal_assessments env lib db k goal c =
     (let owner = owner_of k; digest = gt_hash lib (versioned_json goal c) in
      bind_res (goal_replay workspace_response db owner (vq_key c) digest) (\<lambda>known.
      case known of Some w \<Rightarrow> Inr (db, w) | None \<Rightarrow>
      bind_res (checked_state db goal owner (vq_expected c)) (\<lambda>s.
      bind_res (require (gv_status s = GS_ACTIVE) GOAL_MEASUREMENT_UNAVAILABLE) (\<lambda>_.
      bind_res (found GOAL_REPLAN_REQUIRED (latest_definition db goal owner)) (\<lambda>d.
      bind_res (require (gd_version d = gv_definition s) GOAL_REPLAN_REQUIRED) (\<lambda>_.
      bind_res (achievement_policy_of env db (now_of k) True) (\<lambda>(db1, p).
      if list_assessments db1 goal owner (gd_version d) \<noteq> []
      then bind_res (get_achievement_workspace env db1 k goal) (\<lambda>w. Inr (db1, w))
      else
      bind_res (scope_of db1 (kq_pseudonym k) (gd_sources d)) (\<lambda>scope.
      let wanted = map vr_id (ci_targets (hd (gd_criteria d)));
          units = filter (\<lambda>u. uw_id u \<in> set wanted) (gk_units scope) in
      bind_res (schedule_criteria lib k goal d p units db1 (gd_criteria d)) (\<lambda>(db2, xs).
      let w = \<lparr>gh_policy = p, gh_objectives = map fst xs, gh_assessments = map snd xs, gh_evaluation = None\<rparr> in
      bind_res (write_goal_receipt db2 owner ''ScheduleGoalAssessmentsV1'' (vq_key c) digest (WorkspaceResponse w)) (\<lambda>db3.
      Inr (db3, w)))))))))))"

section \<open>Scoring an answer\<close>

text \<open>\<open>ignore\s+(all\s+)?previous|system\s+prompt\<close>, ignoring case.\<close>

definition after_word :: "string \<Rightarrow> string option \<Rightarrow> string option" where
  "after_word w s = (case s of None \<Rightarrow> None | Some t \<Rightarrow> if prefix w t then Some (drop (length w) t) else None)"

definition after_spaces :: "string option \<Rightarrow> string option" where
  "after_spaces s = (case s of Some (c # t) \<Rightarrow> if is_space c then Some (dropWhile is_space t) else None | _ \<Rightarrow> None)"

definition injection_at :: "string \<Rightarrow> bool" where
  "injection_at s \<longleftrightarrow>
     (let ignored = after_spaces (after_word ''ignore'' (Some s)) in
      after_word ''previous'' ignored \<noteq> None \<or> after_word ''previous'' (after_spaces (after_word ''all'' ignored)) \<noteq> None \<or>
      after_word ''prompt'' (after_spaces (after_word ''system'' (Some s))) \<noteq> None)"

definition injection_risk :: "string \<Rightarrow> bool" where
  "injection_risk s = list_ex injection_at (suffixes (str_lower s))"

definition folded_words :: "goal_lib \<Rightarrow> string \<Rightarrow> string" where
  "folded_words lib s = gt_casefold lib (str_join '' '' (split_words [] s))"

definition goal_attempt :: "pyenv \<Rightarrow> goal_lib \<Rightarrow> uuid \<Rightarrow> uuid \<Rightarrow> string \<Rightarrow> string \<Rightarrow> string \<Rightarrow> time \<Rightarrow> attempt_v1" where
  "goal_attempt env lib user item item_version response key now =
    \<lparr>t1_id = uuid5 env (''askora:goal-assessment:'' @ user @ '':'' @ key), t1_user = user, t1_item = item,
     t1_item_version = item_version, t1_raw = VStr response, t1_normalized = folded_words lib response,
     t1_revisions = [\<lparr>rv_revision = 1, rv_raw = VStr response, rv_normalized = folded_words lib response, rv_submitted = now\<rparr>],
     t1_assistance = \<lparr>a1_hint_level = 0, a1_class = AC_NONE, a1_source_visible = False, a1_answer_visible = False,
       a1_revision = 1, a1_response_ms = 0\<rparr>,
     t1_status = SUBMITTED, t1_submitted = now, t1_idempotency_key = key\<rparr>"

definition result_id_of :: "pyenv \<Rightarrow> attempt_v1 \<Rightarrow> uuid" where
  "result_id_of env t = uuid5 env (''askora:goal-result:'' @ t1_id t @ '':1'')"

definition term_coverage :: "goal_lib \<Rightarrow> attempt_v1 \<Rightarrow> string list \<Rightarrow> float64" where
  "term_coverage lib t terms =
     (if terms = [] then 0
      else fl (of_nat (length (filter (\<lambda>x. contains (folded_words lib x) (t1_normalized t)) terms)) / of_nat (length terms)))"

definition graded_correctness :: "bool \<Rightarrow> float64 \<Rightarrow> correctness" where
  "graded_correctness passed score = (if passed then CORRECT else if score \<noteq> 0 then PARTIAL else INCORRECT)"

definition score_structured :: "pyenv \<Rightarrow> goal_lib \<Rightarrow> attempt_v1 \<Rightarrow> string list \<Rightarrow> achievement_policy \<Rightarrow> time \<Rightarrow> result_v1" where
  "score_structured env lib t terms p now =
     (let score = term_coverage lib t terms; passed = (terms \<noteq> [] \<and> go_minimum p \<le> score) in
     \<lparr>r1_id = result_id_of env t, r1_version = 1, r1_attempt = t1_id t, r1_item = t1_item t, r1_item_version = t1_item_version t,
      r1_score = score, r1_passed = Some passed, r1_correctness = graded_correctness passed score,
      r1_rubric = [(''required_term_coverage'', VFloat score)],
      r1_error_type = (if passed then None else Some ''retrieval_failure''), r1_misconceptions = [],
      r1_independence = IND_INDEPENDENT, r1_confidence = 1, r1_evaluators = [''goal-structured-deterministic/1.0''],
      r1_reason_codes = [''GOAL_DETERMINISTIC_STRUCTURED''], r1_reviewer = ACCEPTED, r1_created = now, r1_supersedes = None\<rparr>)"

definition valid_grade :: "open_grade \<Rightarrow> bool" where
  "valid_grade g \<longleftrightarrow> 0 \<le> og_score g \<and> og_score g \<le> 1 \<and> 0 \<le> og_confidence g \<and> og_confidence g \<le> 1 \<and> og_reasons g \<noteq> []"

definition call_grader :: "goal_lib \<Rightarrow> string \<Rightarrow> string \<Rightarrow> grader_payload \<Rightarrow> open_grade option" where
  "call_grader lib version response g =
     (case gt_grade lib version response g of None \<Rightarrow> None | Some x \<Rightarrow> if valid_grade x then Some x else None)"

definition grade_json :: "open_grade \<Rightarrow> pyval" where
  "grade_json g = VDict [(''score'', VFloat (og_score g)), (''confidence'', VFloat (og_confidence g)),
     (''rubric_scores'', VDict (map (\<lambda>(n, x). (n, VFloat x)) (og_rubric g))), (''evidence_quotes'', strs_json (og_quotes g)),
     (''reason_codes'', strs_json (og_reasons g))]"

definition graders_agree :: "achievement_policy \<Rightarrow> open_grade \<Rightarrow> open_grade \<Rightarrow> bool" where
  "graders_agree p a b \<longleftrightarrow> go_confidence p \<le> min (og_confidence a) (og_confidence b) \<and>
     \<bar>fsub (og_score a) (og_score b)\<bar> \<le> go_disagreement p"

definition open_reason :: "bool \<Rightarrow> string" where
  "open_reason accepted = (if accepted then ''GOAL_OPEN_DOUBLE_GRADED'' else ''GOAL_OPEN_REVIEW_REQUIRED'')"

definition open_result :: "pyenv \<Rightarrow> attempt_v1 \<Rightarrow> achievement_policy \<Rightarrow> open_grade \<Rightarrow> open_grade \<Rightarrow> time \<Rightarrow> result_v1" where
  "open_result env t p a b now =
     (let accepted = graders_agree p a b; score = fl (fadd (og_score a) (og_score b) / 2); passed = (go_minimum p \<le> score) in
     \<lparr>r1_id = result_id_of env t, r1_version = 1, r1_attempt = t1_id t, r1_item = t1_item t, r1_item_version = t1_item_version t,
      r1_score = score, r1_passed = (if accepted then Some passed else None),
      r1_correctness = (if \<not> accepted then UNSCORABLE else graded_correctness passed score),
      r1_rubric = [(''primary'', grade_json a), (''reviewer'', grade_json b),
        (''grader_disagreement'', VFloat \<bar>fsub (og_score a) (og_score b)\<bar>)],
      r1_error_type = (if accepted \<and> passed then None else Some ''unknown''), r1_misconceptions = [],
      r1_independence = IND_INDEPENDENT, r1_confidence = min (og_confidence a) (og_confidence b),
      r1_evaluators = [''goal-open-grader/1.0'', ''goal-open-reviewer/1.0''], r1_reason_codes = [open_reason accepted],
      r1_reviewer = (if accepted then ACCEPTED else NEEDS_REVIEW), r1_created = now, r1_supersedes = None\<rparr>)"

record score_outcome =
  oc_attempt :: attempt_v1
  oc_result :: "result_v1 option"
  oc_status :: goal_assessment_status
  oc_reasons :: "string list"

definition score_open :: "pyenv \<Rightarrow> goal_lib \<Rightarrow> learner_db \<Rightarrow> attempt_v1 \<Rightarrow> uuid \<Rightarrow> string \<Rightarrow> grader_payload \<Rightarrow> achievement_policy \<Rightarrow> time \<Rightarrow>
    learner_error + learner_db \<times> score_outcome" where
  "score_open env lib db t w response g p now =
     (case (call_grader lib ''goal-open-grader/1.0'' response g, call_grader lib ''goal-open-reviewer/1.0'' response g) of
        (Some a, Some b) \<Rightarrow>
          bind_res (save_result_v1 db (open_result env t p a b now) w) (\<lambda>(db1, r).
          Inr (db1, \<lparr>oc_attempt = t, oc_result = Some r,
            oc_status = (if graders_agree p a b then GA_ACCEPTED else GA_NEEDS_REVIEW),
            oc_reasons = [open_reason (graders_agree p a b)]\<rparr>))
      | _ \<Rightarrow> Inr (db, \<lparr>oc_attempt = t, oc_result = None, oc_status = GA_SCORING_FAILED,
               oc_reasons = [''GOAL_OPEN_GRADER_UNAVAILABLE'']\<rparr>))"

definition score_answer :: "pyenv \<Rightarrow> goal_lib \<Rightarrow> learner_db \<Rightarrow> goal_call \<Rightarrow> uuid \<Rightarrow> string \<Rightarrow> string \<Rightarrow> scoring_method \<Rightarrow> grader_payload \<Rightarrow>
    achievement_policy \<Rightarrow> string \<Rightarrow> learner_error + learner_db \<times> score_outcome" where
  "score_answer env lib db k item item_version response kind g p key =
     bind_res (save_attempt_v1 db (goal_attempt env lib (owner_of k) item item_version response key (now_of k)) (kq_workspace k)) (\<lambda>(db1, t).
     if injection_risk response
     then Inr (db1, \<lparr>oc_attempt = t, oc_result = None, oc_status = GA_NEEDS_REVIEW, oc_reasons = [''GOAL_PROMPT_INJECTION_RISK'']\<rparr>)
     else if kind = STRUCTURED
     then bind_res (save_result_v1 db1 (score_structured env lib t (gy_terms g) p (now_of k)) (kq_workspace k)) (\<lambda>(db2, r).
            Inr (db2, \<lparr>oc_attempt = t, oc_result = Some r, oc_status = GA_ACCEPTED,
              oc_reasons = [''GOAL_DETERMINISTIC_STRUCTURED_ACCEPTED'']\<rparr>))
     else score_open env lib db1 t (kq_workspace k) response g p (now_of k))"

section \<open>Submitting an answer\<close>

fun process_dimension :: "cognitive_process \<Rightarrow> dimension" where
  "process_dimension COG_RECALL = RECALL"
| "process_dimension COG_UNDERSTAND = EXPLANATION"
| "process_dimension COG_EXPLAIN = EXPLANATION"
| "process_dimension COG_APPLY = ROUTINE_APPLICATION"
| "process_dimension COG_TRANSFER = TRANSFER"

definition process_novelty :: "cognitive_process \<Rightarrow> novelty" where
  "process_novelty c = (if c \<in> {COG_APPLY, COG_TRANSFER} then FAR_VARIANT else NEAR_VARIANT)"

text \<open>The evidence of an accepted result: it is projected for the first target of the objective, and its row is
  looked up by the result.\<close>

definition project_outcome :: "pyenv \<Rightarrow> goal_db \<Rightarrow> learner_db \<Rightarrow> goal_call \<Rightarrow> uuid \<Rightarrow> goal_assessment \<Rightarrow> attempt_v1 \<Rightarrow> result_v1 \<Rightarrow>
    goal_error + learner_db \<times> versioned_ref option" where
  "project_outcome env db ldb k goal a t r =
     (if r1_reviewer r \<noteq> ACCEPTED then Inr (ldb, None)
      else bind_res (found GOAL_MEASUREMENT_UNAVAILABLE
          (find (\<lambda>b. gb_id b = vr_id (ga_objective a)) (list_objectives db goal (owner_of k) (ga_definition a)))) (\<lambda>b.
        case gb_targets b of [] \<Rightarrow> Inl GOAL_MEASUREMENT_UNAVAILABLE | target # _ \<Rightarrow>
        bind_res (map_sum GOAL_LEARNER id (project_assessment env \<lparr>ca_now = now_of k, ca_task = ak_fresh (kq_call k) 0\<rparr>
          \<lparr>pj_result = r, pj_attempt = t, pj_unit = vr_id target, pj_workspace = kq_workspace k, pj_events = [correlation_of k],
           pj_dimension = process_dimension (ga_process a), pj_novelty = process_novelty (ga_process a),
           pj_delay = max 0 ((now_of k - ga_created a) div 1000000), pj_difficulty = None,
           pj_correlation = correlation_of k\<rparr> ldb)) (\<lambda>(ldb1, _).
        Inr (ldb1, map_option (\<lambda>x. mk_ref ''LearnerEvidence'' (vx_id x) (VerI 1))
          (find (\<lambda>x. vx_result x = r1_id r \<and> vx_workspace x = kq_workspace k \<and> accepted_body (vx_body x) \<noteq> None)
            (ln_evidence ldb1))))))"

definition submit_json :: "uuid \<Rightarrow> uuid \<Rightarrow> submit_command \<Rightarrow> pyval" where
  "submit_json goal i c = VDict [(''goal_id'', VStr goal), (''activity_id'', VStr i),
     (''expected_state_version'', VInt (sq_expected c)), (''expected_activity_version'', VInt (sq_activity c)),
     (''response'', VStr (sq_response c)), (''idempotency_key'', VStr (sq_key c))]"

definition answerable :: "goal_assessment_status \<Rightarrow> bool" where
  "answerable s \<longleftrightarrow> s \<in> {GA_SCHEDULED, GA_AVAILABLE, GA_NEEDS_REVIEW, GA_SCORING_FAILED}"

definition item_version_of :: "uuid \<Rightarrow> goal_assessment \<Rightarrow> string" where
  "item_version_of goal a = ''goal:'' @ goal @ '':definition:'' @ int_str (ga_definition a) @ '':activity:'' @ int_str (ga_version a)"

definition scored_activity :: "goal_assessment \<Rightarrow> score_outcome \<Rightarrow> versioned_ref option \<Rightarrow> time \<Rightarrow> goal_assessment" where
  "scored_activity a oc evidence now = a\<lparr>ga_version := ga_version a + 1, ga_status := oc_status oc,
     ga_result := map_option (\<lambda>r. mk_ref ''AssessmentResult'' (r1_id r) (VerI (r1_version r))) (oc_result oc),
     ga_evidence := evidence, ga_reasons := oc_reasons oc, ga_created := now\<rparr>"

definition submit_goal_assessment :: "pyenv \<Rightarrow> goal_lib \<Rightarrow> goal_db \<Rightarrow> goal_call \<Rightarrow> uuid \<Rightarrow> uuid \<Rightarrow> submit_command \<Rightarrow>
    goal_error + goal_db \<times> goal_assessment" where
  "submit_goal_assessment env lib db k goal i c =
     (let owner = owner_of k; now = now_of k; digest = gt_hash lib (submit_json goal i c) in
      bind_res (goal_replay assessment_response db owner (sq_key c) digest) (\<lambda>known.
      case known of Some a \<Rightarrow> Inr (db, a) | None \<Rightarrow>
      bind_res (checked_state db goal owner (sq_expected c)) (\<lambda>s.
      bind_res (require (gv_status s = GS_ACTIVE) GOAL_MEASUREMENT_UNAVAILABLE) (\<lambda>_.
      bind_res (found GOAL_NOT_FOUND (latest_goal_assessment db i owner)) (\<lambda>row.
      let a = as_activity row in
      bind_res (require (ga_goal a = goal) GOAL_NOT_FOUND) (\<lambda>_.
      bind_res (require (ga_version a = sq_activity c \<and> answerable (ga_status a)) GOAL_VERSION_CONFLICT) (\<lambda>_.
      bind_res (require (ga_not_before a \<le> now) GOAL_MEASUREMENT_UNAVAILABLE) (\<lambda>_.
      bind_res (ref_int (ga_policy a)) (\<lambda>pv.
      bind_res (found GOAL_MEASUREMENT_UNAVAILABLE (get_policy db (vr_id (ga_policy a)) pv)) (\<lambda>p.
      bind_res (map_sum GOAL_LEARNER id (score_answer env lib (gd_learner db) k i (item_version_of goal a) (sq_response c) (ga_method a)
        (as_grader row) p (sq_key c))) (\<lambda>(ldb, oc).
      bind_res (case oc_result oc of None \<Rightarrow> Inr (ldb, None)
                | Some r \<Rightarrow> project_outcome env db ldb k goal a (oc_attempt oc) r) (\<lambda>(ldb1, evidence).
      let b = scored_activity a oc evidence now in
      bind_res (save_goal_assessment (db\<lparr>gd_learner := ldb1\<rparr>) b (as_grader row)) (\<lambda>db1.
      bind_res (write_goal_receipt db1 owner ''SubmitGoalAssessmentV1'' (sq_key c) digest (AssessmentResponse b)) (\<lambda>db2.
      Inr (db2, b)))))))))))))))"

section \<open>Evaluating and confirming\<close>

text \<open>What the stored result says: accepted by the reviewer, passed, and at least the minimum score.\<close>

definition payload_passes :: "float64 \<Rightarrow> result_payload \<Rightarrow> bool" where
  "payload_passes m x = (case x of
       ResultV1 r \<Rightarrow> r1_reviewer r = ACCEPTED \<and> r1_passed r = Some True \<and> m \<le> r1_score r
     | ResultV3 r \<Rightarrow> rs_reviewer r = ACCEPTED \<and> rs_passed r = Some True \<and> m \<le> rs_score r)"

definition counted_refs :: "goal_db \<Rightarrow> float64 \<Rightarrow> goal_assessment \<Rightarrow> (versioned_ref \<times> versioned_ref) option" where
  "counted_refs db m a =
     (case (ga_result a, ga_evidence a) of
        (Some r, Some e) \<Rightarrow>
          (case by_id rx_id (ln_results (gd_learner db)) (vr_id r) of
             None \<Rightarrow> None
           | Some x \<Rightarrow> if payload_passes m (rx_payload x) then Some (r, e) else None)
      | _ \<Rightarrow> None)"

definition evaluate_criterion :: "goal_db \<Rightarrow> float64 \<Rightarrow> goal_assessment list \<Rightarrow> success_criterion \<Rightarrow>
    criterion_evaluation \<times> versioned_ref list" where
  "evaluate_criterion db m assessments c =
     (let candidates = filter (\<lambda>a. ga_criterion a = ci_id c) assessments;
          counted = List.map_filter (counted_refs db m) candidates; ok = (counted \<noteq> [])
      in (\<lparr>gc_criterion = ci_id c, gc_satisfied = ok, gc_results = map fst counted, gc_evidence = map snd counted,
           gc_reasons = [if ok then ''GOAL_CRITERION_EVIDENCE_ACCEPTED'' else ''GOAL_CRITERION_EVIDENCE_MISSING'']\<rparr>,
          if ok then [] else map (\<lambda>a. mk_ref ''GoalAssessmentActivity'' (ga_id a) (VerI (ga_version a)))
            (filter (\<lambda>a. ga_status a \<noteq> GA_ACCEPTED) candidates)))"

text \<open>The hypotheses of misconceptions that stand against an achievement: those of the latest learner state that
  are active, which a missing status counts as, that have an id, and that concern a target of the definition or no
  particular unit. A version that is neither a string nor an integer fails the contract of the reference.\<close>

definition hypothesis_blocks :: "pyenv \<Rightarrow> uuid list \<Rightarrow> (string, pyval) dict \<Rightarrow> bool" where
  "hypothesis_blocks env targets h \<longleftrightarrow>
     (case dict_get h ''status'' of None \<Rightarrow> True | Some v \<Rightarrow> v = VStr ''active'') \<and>
     (case dict_get h ''hypothesis_id'' of None \<Rightarrow> False | Some v \<Rightarrow> truthy v) \<and>
     (case dict_get h ''knowledge_unit_id'' of None \<Rightarrow> True | Some v \<Rightarrow> v = VNone \<or> py_str env v \<in> set targets)"

fun exact_version :: "pyval \<Rightarrow> ver option" where
  "exact_version (VStr s) = Some (VerS s)"
| "exact_version (VInt n) = Some (VerI n)"
| "exact_version (VBool b) = Some (VerI (if b then 1 else 0))"
| "exact_version (VFloat x) = (if of_int \<lfloor>x\<rfloor> = x then Some (VerI \<lfloor>x\<rfloor>) else None)"
| "exact_version _ = None"

definition hypothesis_ref :: "pyenv \<Rightarrow> (string, pyval) dict \<Rightarrow> goal_error + versioned_ref" where
  "hypothesis_ref env h =
     bind_res (found GOAL_KEY_ERROR (dict_get h ''hypothesis_id'')) (\<lambda>i.
     bind_res (found GOAL_VALIDATION (exact_version (case dict_get h ''version'' of None \<Rightarrow> VInt 1 | Some v \<Rightarrow> v))) (\<lambda>v.
     validated valid_ref (mk_ref ''MisconceptionHypothesis'' (py_str env i) v)))"

definition active_misconceptions :: "pyenv \<Rightarrow> learner_state option \<Rightarrow> uuid list \<Rightarrow> goal_error + versioned_ref list" where
  "active_misconceptions env s targets =
     map_res (hypothesis_ref env) (filter (hypothesis_blocks env targets)
       (case s of None \<Rightarrow> [] | Some s \<Rightarrow> ls_hypotheses s))"

definition target_ids :: "goal_definition \<Rightarrow> uuid list" where
  "target_ids d = concat (map (\<lambda>c. map vr_id (ci_targets c)) (gd_criteria d))"

definition evaluate_goal :: "pyenv \<Rightarrow> goal_lib \<Rightarrow> goal_db \<Rightarrow> goal_call \<Rightarrow> uuid \<Rightarrow> goal_definition \<Rightarrow> achievement_policy \<Rightarrow>
    versioned_ref list \<Rightarrow> goal_evaluation" where
  "evaluate_goal env lib db k goal d p misconceptions =
     (let results = map (evaluate_criterion db (go_minimum p) (list_assessments db goal (owner_of k) (gd_version d))) (gd_criteria d);
          criteria = map fst results; obligations = concat (map snd results);
          eligible = (list_all gc_satisfied criteria \<and> obligations = [] \<and> misconceptions = [])
      in \<lparr>gx_id = namespaced lib goal (''achievement:'' @ int_str (gd_version d)),
          gx_version = (case latest_evaluation db goal (owner_of k) of None \<Rightarrow> 0 | Some e \<Rightarrow> gx_version e) + 1,
          gx_user = owner_of k, gx_goal = goal, gx_definition = gd_version d, gx_policy = policy_ref p, gx_criteria = criteria,
          gx_obligations = obligations, gx_misconceptions = misconceptions, gx_eligible = eligible,
          gx_reasons = [if eligible then ''GOAL_ACHIEVEMENT_ELIGIBLE'' else ''GOAL_EVIDENCE_INSUFFICIENT''],
          gx_created = now_of k\<rparr>)"

definition evaluate_goal_achievement :: "pyenv \<Rightarrow> goal_lib \<Rightarrow> goal_db \<Rightarrow> goal_call \<Rightarrow> uuid \<Rightarrow> versioned_command \<Rightarrow>
    goal_error + goal_db \<times> goal_evaluation" where
  "evaluate_goal_achievement env lib db k goal c =
     (let owner = owner_of k; digest = gt_hash lib (versioned_json goal c) in
      bind_res (goal_replay evaluation_response db owner (vq_key c) digest) (\<lambda>known.
      case known of Some e \<Rightarrow> Inr (db, e) | None \<Rightarrow>
      bind_res (checked_state db goal owner (vq_expected c)) (\<lambda>s.
      bind_res (require (gv_status s = GS_ACTIVE) GOAL_EVIDENCE_INSUFFICIENT) (\<lambda>_.
      bind_res (found GOAL_NOT_FOUND (latest_definition db goal owner)) (\<lambda>d.
      bind_res (achievement_policy_of env db (now_of k) False) (\<lambda>(_, p).
      bind_res (active_misconceptions env (latest_learner_state (gd_learner db) owner (kq_workspace k)) (target_ids d)) (\<lambda>ms.
      bind_res (validated valid_evaluation (evaluate_goal env lib db k goal d p ms)) (\<lambda>e.
      bind_res (save_evaluation db e) (\<lambda>db1.
      bind_res (write_goal_receipt db1 owner ''EvaluateGoalAchievementV1'' (vq_key c) digest (EvaluationResponse e)) (\<lambda>db2.
      Inr (db2, e)))))))))))"

definition confirm_goal_achievement :: "goal_lib \<Rightarrow> goal_db \<Rightarrow> goal_call \<Rightarrow> uuid \<Rightarrow> confirm_command \<Rightarrow>
    goal_error + goal_db \<times> lifecycle_result" where
  "confirm_goal_achievement lib db k goal c =
     bind_res (found GOAL_EVIDENCE_INSUFFICIENT (latest_evaluation db goal (owner_of k))) (\<lambda>e.
     bind_res (require (gx_id e = vq_evaluation c \<and> gx_version e = vq_evaluation_version c \<and> gx_eligible e)
       GOAL_EVIDENCE_INSUFFICIENT) (\<lambda>_.
     bind_res (close_activity db k goal ''GOAL_ACHIEVEMENT_CONFIRMED_BY_USER'') (\<lambda>db1.
     transition_goal lib db1 k goal c (confirm_json c) GS_ACHIEVED [GS_ACTIVE] PLAN_COMPLETED
       ''GOAL_ACHIEVEMENT_CONFIRMED_BY_USER'')))"

end
