(* ===== verification/GoalLaws.thy ===== *)
theory GoalLaws
  imports GoalLifecycle ActivityLaws
begin

text \<open>
  Properties of goal management. The steps of the system are the goal commands, the activity commands with the
  boundary of \<open>GoalFlow\<close>, and whatever other parts do to documents, transcripts, the outbox and the learner
  records, of which only stored results are relied on.
\<close>

section \<open>Frames\<close>

text \<open>What the goal's lifecycle rests on: its states, its evaluations and the stored results.\<close>

definition goal_core :: "goal_db \<Rightarrow> goal_state_row list \<times> goal_evaluation list \<times> result_row list" where
  "goal_core db = (ab_goal_states db, gd_evaluations db, ln_results (gd_learner db))"

lemma goal_core_simps [simp]:
  "goal_core (db\<lparr>gd_drafts := a\<rparr>) = goal_core db" "goal_core (db\<lparr>gd_receipts := b\<rparr>) = goal_core db"
  "goal_core (db\<lparr>gd_previews := c\<rparr>) = goal_core db" "goal_core (db\<lparr>gd_definitions := d\<rparr>) = goal_core db"
  "goal_core (db\<lparr>gd_plan_states := e\<rparr>) = goal_core db" "goal_core (db\<lparr>gd_focus := f\<rparr>) = goal_core db"
  "goal_core (db\<lparr>gd_policies := g\<rparr>) = goal_core db" "goal_core (db\<lparr>gd_objectives := h\<rparr>) = goal_core db"
  "goal_core (db\<lparr>gd_assessments := i\<rparr>) = goal_core db" "goal_core (db\<lparr>gd_mappings := j\<rparr>) = goal_core db"
  "goal_core (db\<lparr>gd_subgraphs := l\<rparr>) = goal_core db" "goal_core (db\<lparr>ab_goals := m\<rparr>) = goal_core db"
  "goal_core (db\<lparr>ab_tables := n\<rparr>) = goal_core db" "goal_core (db\<lparr>ab_events := o'\<rparr>) = goal_core db"
  "goal_core (db\<lparr>ab_outbox := p\<rparr>) = goal_core db" "goal_core (db\<lparr>ab_receipts := q\<rparr>) = goal_core db"
  by (simp_all add: goal_core_def)

text \<open>An activity command changes the tables of the activity lifecycle only.\<close>

lemma select_core: "select_next env hsh seen db later k goal key = Inr (db', r) \<Longrightarrow> goal_core db' = goal_core db"
  by (erule select_elim) simp_all

lemma start_core: "start_activity env hsh seen db later k c = Inr (db', r) \<Longrightarrow> goal_core db' = goal_core db"
  by (erule start_elim) simp_all

lemma advance_core: "advance_plan env k c s db = Inr (db', c', nref) \<Longrightarrow> goal_core db' = goal_core db"
  by (erule advance_elim) (simp_all add: set_plan_status_def)

lemma answer_draft_core: "answer_draft db d user command key digest = Inr (db', x) \<Longrightarrow> goal_core db' = goal_core db"
  by (auto simp: answer_draft_def goal_saves bind_res_Inr_iff)

lemma create_draft_core: "create_draft env lib db k c = Inr (db', d) \<Longrightarrow> goal_core db' = goal_core db"
  by (auto simp: create_draft_def Let_def bind_res_Inr_iff dest: answer_draft_core split: option.splits)

lemma create_edit_core: "create_edit_draft lib db k goal c = Inr (db', d) \<Longrightarrow> goal_core db' = goal_core db"
  by (auto simp: create_edit_draft_def Let_def bind_res_Inr_iff dest: answer_draft_core split: option.splits)

lemma update_draft_core: "update_draft lib db k i c = Inr (db', d) \<Longrightarrow> goal_core db' = goal_core db"
  by (auto simp: update_draft_def Let_def bind_res_Inr_iff dest: answer_draft_core split: option.splits)

lemma preview_draft_core: "preview_draft lib db k i c = Inr (db', p) \<Longrightarrow> goal_core db' = goal_core db"
  by (auto simp: preview_draft_def Let_def bind_res_Inr_iff goal_saves split: option.splits prod.splits)

lemma copy_core: "copy_archived_goal lib db k goal c = Inr (db', r) \<Longrightarrow> goal_core db' = goal_core db"
  by (auto simp: copy_archived_goal_def Let_def bind_res_Inr_iff goal_saves split: option.splits)

lemma policy_core: "achievement_policy_of env db now persist = Inr (db', p) \<Longrightarrow> goal_core db' = goal_core db"
  by (auto simp: achievement_policy_of_def bind_res_Inr_iff goal_saves split: option.splits if_splits)

lemma schedule_criterion_core: "schedule_criterion lib k goal d p units db c = Inr (db', x) \<Longrightarrow> goal_core db' = goal_core db"
  by (auto simp: schedule_criterion_def bind_res_Inr_iff goal_saves)

lemma schedule_criteria_core: "schedule_criteria lib k goal d p units db cs = Inr (db', xs) \<Longrightarrow> goal_core db' = goal_core db"
  by (induction cs arbitrary: db xs) (fastforce simp: bind_res_Inr_iff dest: schedule_criterion_core)+

lemma schedule_core: "schedule_goal_assessments env lib db k goal c = Inr (db', w) \<Longrightarrow> goal_core db' = goal_core db"
  by (auto simp: schedule_goal_assessments_def Let_def bind_res_Inr_iff goal_saves
      dest!: policy_core schedule_criteria_core split: option.splits if_splits prod.splits)

lemma supersede_core: "supersede_active_activity db k r reason = Inr db' \<Longrightarrow> goal_core db' = goal_core db"
  by (auto simp: supersede_active_activity_def split: option.splits if_splits)

lemma close_core: "close_activity db k goal reason = Inr db' \<Longrightarrow> goal_core db' = goal_core db"
  by (auto simp: close_activity_def dest: supersede_core split: option.splits)

lemma set_focus_core: "set_focus db k g reason = Inr db' \<Longrightarrow> goal_core db' = goal_core db"
  by (auto simp: set_focus_def goal_saves bind_res_Inr_iff)

lemma clear_focus_core: "clear_focus db k goal = Inr db' \<Longrightarrow> goal_core db' = goal_core db"
  by (auto simp: clear_focus_def dest: set_focus_core split: if_splits)

lemma transition_plan_core: "transition_plan db k p v target reason = Inr (db', x) \<Longrightarrow> goal_core db' = goal_core db"
  by (auto simp: transition_plan_def goal_saves bind_res_Inr_iff split: option.splits)

lemma map_sum_id_Inr: "map_sum f id m = Inr x \<longleftrightarrow> m = Inr x"
  by (cases m) auto

lemma apply_knowledge_core: "apply_knowledge lib db k x s key = Inr (db', a) \<Longrightarrow> goal_core db' = goal_core db"
  by (auto simp: apply_knowledge_def Let_def goal_saves bind_res_Inr_iff)

lemma apply_plan_core: "apply_plan env lib db k x s dv key = Inr (db', p, r) \<Longrightarrow> goal_core db' = goal_core db"
  by (auto simp: apply_plan_def Let_def bind_res_Inr_iff map_sum_id_Inr dest: select_core split: prod.splits)

section \<open>Appending a state\<close>

definition goal_edge :: "goal_state_status \<Rightarrow> goal_state_status \<Rightarrow> bool" where
  "goal_edge a b \<longleftrightarrow> (a, b) \<in> {(GS_CONFIRMED, GS_ACTIVE), (GS_ACTIVE, GS_ACTIVE), (GS_ACTIVE, GS_PAUSED), (GS_PAUSED, GS_ACTIVE),
     (GS_CONFIRMED, GS_ARCHIVED), (GS_ACTIVE, GS_ARCHIVED), (GS_PAUSED, GS_ARCHIVED), (GS_ACTIVE, GS_ACHIEVED)}"

definition goal_history :: "goal_state_row list \<Rightarrow> uuid \<Rightarrow> uuid \<Rightarrow> goal_state list" where
  "goal_history rows goal user = map gv_state (filter (\<lambda>r. gv_goal (gv_state r) = goal \<and> gv_user r = user) rows)"

text \<open>A state of a goal follows the latest one on an edge of the machine, or is the first.\<close>

definition state_follows :: "goal_state option \<Rightarrow> goal_state \<Rightarrow> bool" where
  "state_follows prior s = (case prior of
       None \<Rightarrow> gv_version s = 1 \<and> gv_status s = GS_CONFIRMED \<and> gv_previous s = None
     | Some p \<Rightarrow> gv_version s = gv_version p + 1 \<and> goal_edge (gv_status p) (gv_status s) \<and> gv_previous s = Some (gv_status p))"

inductive state_append :: "goal_state_status set \<Rightarrow> goal_state_row list \<Rightarrow> goal_state_row list \<Rightarrow> bool" for T where
  "state_follows (latest_by gv_version (goal_history rows (gv_goal s) u)) s \<Longrightarrow> gv_status s \<in> T \<Longrightarrow>
   state_append T rows (rows @ [\<lparr>gv_user = u, gv_state = s\<rparr>])"

lemma goal_state_of_history: "goal_state_of db goal user = latest_by gv_version (goal_history (ab_goal_states db) goal user)"
  by (simp add: goal_state_of_def goal_history_def)

lemma save_goal_state_core:
  "save_goal_state db s u = Inr db' \<Longrightarrow> goal_core db' = (ab_goal_states db @ [\<lparr>gv_user = u, gv_state = s\<rparr>], gd_evaluations db, ln_results (gd_learner db))"
  by (auto simp: save_goal_state_def bind_res_Inr_iff insert_row_Inr goal_core_def)

lemma save_goal_state_append:
  assumes "save_goal_state db s u = Inr db'" and "state_follows (goal_state_of db (gv_goal s) u) s" and "gv_status s \<in> T"
  shows "state_append T (ab_goal_states db) (ab_goal_states db')"
  using assms state_append.intros [of "ab_goal_states db" s u T] save_goal_state_core [OF assms(1)]
  by (simp add: goal_state_of_history goal_core_def)

text \<open>What follows the states, evaluations and results of a step.\<close>

lemma core_states: "goal_core db' = goal_core db \<Longrightarrow> ab_goal_states db' = ab_goal_states db \<and> gd_evaluations db' = gd_evaluations db \<and>
    ln_results (gd_learner db') = ln_results (gd_learner db)"
  by (simp add: goal_core_def)

definition states_step :: "goal_state_status set \<Rightarrow> goal_db \<Rightarrow> goal_db \<Rightarrow> bool" where
  "states_step T db db' \<longleftrightarrow> (state_append T)\<^sup>*\<^sup>* (ab_goal_states db) (ab_goal_states db') \<and>
     gd_evaluations db' = gd_evaluations db \<and> ln_results (gd_learner db') = ln_results (gd_learner db)"

lemma states_step_core: "goal_core db' = goal_core db \<Longrightarrow> states_step T db db'"
  by (simp add: states_step_def goal_core_def)

lemma states_step_trans: "states_step T a b \<Longrightarrow> states_step T b c \<Longrightarrow> states_step T a c"
  by (auto simp: states_step_def)

lemma states_step_save:
  "save_goal_state db s u = Inr db' \<Longrightarrow> state_follows (goal_state_of db (gv_goal s) u) s \<Longrightarrow> gv_status s \<in> T \<Longrightarrow> states_step T db db'"
  using save_goal_state_append [of db s u db' T] save_goal_state_core [of db s u db']
  by (auto simp: states_step_def goal_core_def)

section \<open>Transitions\<close>

lemma transition_elim:
  assumes "transition_goal lib db k goal c dump target allowed pt reason = Inr (db', r)"
  obtains (replayed) "db' = db" "goal_replay lifecycle_response db (owner_of k) (vq_key c)
        (gt_hash lib (transition_json goal target dump)) = Inr (Some r)"
  | (moved) s db1 where "goal_replay lifecycle_response db (owner_of k) (vq_key c) (gt_hash lib (transition_json goal target dump)) = Inr None"
      "goal_state_of db goal (owner_of k) = Some s" "gv_version s = vq_expected c" "gv_status s \<in> set allowed"
      "save_goal_state db (moved_state s target reason k) (owner_of k) = Inr db1" "goal_core db' = goal_core db1"
      "gl_state r = moved_state s target reason k"
proof -
  let ?g = "goal_replay lifecycle_response db (owner_of k) (vq_key c) (gt_hash lib (transition_json goal target dump))"
  from assms obtain known where known: "?g = Inr known" by (auto simp: transition_goal_def Let_def bind_res_Inr_iff)
  show ?thesis
  proof (cases known)
    case (Some x)
    with assms known have "db' = db" "x = r" by (simp_all add: transition_goal_def Let_def)
    with known Some show ?thesis by (intro replayed) simp_all
  next
    case None
    note k = known [unfolded None]
    from assms [unfolded transition_goal_def Let_def k] obtain s db1 db2 p db3 where
      s: "checked_state db goal (owner_of k) (vq_expected c) = Inr s" "gv_status s \<in> set allowed"
      and w: "save_goal_state db (moved_state s target reason k) (owner_of k) = Inr db1"
        "transition_plan db1 k (gv_plan s) (vq_plan c) pt reason = Inr (db2, p)"
        "(if target \<in> {GS_PAUSED, GS_ARCHIVED, GS_ACHIEVED} then clear_focus db2 k goal else Inr db2) = Inr db3"
      and e: "write_goal_receipt db3 (owner_of k) (''GoalLifecycle:'' @ goal_status_name target) (vq_key c)
          (gt_hash lib (transition_json goal target dump)) (LifecycleResponse r) = Inr db'"
        "gl_state r = moved_state s target reason k"
      by (auto simp: bind_res_Inr_iff require_Inr)
    have "goal_core db2 = goal_core db1" using w(2) by (rule transition_plan_core)
    moreover have "goal_core db3 = goal_core db2" using w(3) by (auto split: if_splits dest: clear_focus_core)
    moreover have "goal_core db' = goal_core db3" using e by (auto simp: goal_saves bind_res_Inr_iff)
    ultimately show ?thesis
      using s w(1) e(2) by (intro moved [OF k]) (auto simp: checked_state_def bind_res_Inr_iff found_Inr require_Inr)
  qed
qed

lemma goal_state_goal: "goal_state_of db goal user = Some s \<Longrightarrow> gv_goal s = goal"
  using latest_by_Some [of gv_version "goal_history (ab_goal_states db) goal user" s]
  by (auto simp: goal_state_of_history goal_history_def)

lemma transition_step:
  assumes t: "transition_goal lib db k goal c dump target allowed pt reason = Inr (db', r)"
    and e: "\<And>a. a \<in> set allowed \<Longrightarrow> goal_edge a target"
  shows "states_step {target} db db'"
  using t
proof (cases rule: transition_elim)
  case replayed
  then show ?thesis by (intro states_step_core) simp
next
  case (moved s db1)
  have "states_step {target} db db1"
    using moved e by (intro states_step_save [OF moved(5)]) (simp_all add: moved_state_def state_follows_def goal_state_goal [OF moved(2)])
  then show ?thesis using states_step_core [OF moved(6)] by (rule states_step_trans)
qed

section \<open>Activation\<close>

lemma select_guard:
  assumes "select_next env hsh db db1 later k goal key = Inr (db', r)"
    and "goal_state_of db goal (ak_owner k) = Some s" and "replay_receipt db (ak_owner k) key (hsh (select_json goal)) = Inr None"
  shows "gv_status s = GS_ACTIVE"
  using assms by (auto simp: select_next_def Let_def bind_res_Inr_iff require_goal_active_def split: option.splits if_splits)

text \<open>The key an application passes to the activity service has not been used there: clients keep out of the
  reserved name space. Otherwise the selection is replayed, and does not look at the state of the goal.\<close>

definition select_key_fresh :: "goal_db \<Rightarrow> uuid \<Rightarrow> string \<Rightarrow> bool" where
  "select_key_fresh db user key \<longleftrightarrow> get_receipt (ab_receipts db) user (''goal-v2-select:'' @ key) = None"

lemma select_replay_ignores_state:
  "replay_receipt seen (ak_owner k) key (hsh (select_json goal)) = Inr (Some r) \<Longrightarrow>
   select_next env hsh seen db later k goal key = Inr (db, r)"
  by (simp add: select_next_def Let_def)

lemma apply_knowledge_receipts: "apply_knowledge lib db k x s key = Inr (db', a) \<Longrightarrow> ab_receipts db' = ab_receipts db"
  by (auto simp: apply_knowledge_def Let_def goal_saves bind_res_Inr_iff)

lemma apply_plan_guard:
  assumes a: "apply_plan env lib db k x s dv key = Inr (db', p, r)" and fresh: "select_key_fresh db (owner_of k) key"
    and st: "goal_state_of db (dr_goal x) (owner_of k) = Some t"
  shows "gv_status t = GS_ACTIVE"
proof -
  from a obtain tables where "select_next env (gt_hash lib) (db\<lparr>ab_tables := tables\<rparr>) (db\<lparr>ab_tables := tables\<rparr>) [] (kq_call k) (dr_goal x)
      (''goal-v2-select:'' @ key) = Inr (db', r)"
    by (auto simp: apply_plan_def Let_def bind_res_Inr_iff map_sum_id_Inr split: prod.splits)
  then show ?thesis
    by (rule select_guard) (use st fresh in \<open>simp_all add: goal_state_of_def replay_receipt_def select_key_fresh_def\<close>)
qed

lemma goal_state_core: "goal_core db' = goal_core db \<Longrightarrow> goal_state_of db' goal user = goal_state_of db goal user"
  by (simp add: goal_state_of_def goal_core_def)

lemma latest_single: "latest_by v [x] = Some x"
  by (simp add: latest_by_def)

lemma history_snoc:
  "goal_history (rows @ [\<lparr>gv_user = u, gv_state = s\<rparr>]) goal user =
   goal_history rows goal user @ (if gv_goal s = goal \<and> u = user then [s] else [])"
  by (simp add: goal_history_def)

lemma activate_step:
  assumes a: "activate_goal db k x dv m p = Inr db'"
    and g: "\<And>t. goal_state_of db (dr_goal x) (owner_of k) = Some t \<Longrightarrow> gv_status t = GS_ACTIVE"
  shows "states_step {GS_CONFIRMED, GS_ACTIVE} db db'"
proof (cases "goal_state_of db (dr_goal x) (owner_of k)")
  case None
  let ?s1 = "activated_state x 1 GS_CONFIRMED None dv m p ''GOAL_CONFIRMED_BY_APPLY'' k"
  let ?s2 = "activated_state x 2 GS_ACTIVE (Some GS_CONFIRMED) dv m p ''GOAL_PLAN_ACTIVATED'' k"
  from a None obtain db1 where w: "save_goal_state db ?s1 (owner_of k) = Inr db1" "save_goal_state db1 ?s2 (owner_of k) = Inr db'"
    by (auto simp: activate_goal_def bind_res_Inr_iff)
  have "goal_history (ab_goal_states db) (dr_goal x) (owner_of k) = []" using None by (simp add: goal_state_of_history)
  then have "goal_state_of db1 (dr_goal x) (owner_of k) = Some ?s1"
    using save_goal_state_core [OF w(1)]
    by (simp add: goal_state_of_history goal_core_def history_snoc activated_state_def latest_single)
  then have "states_step {GS_CONFIRMED, GS_ACTIVE} db1 db'"
    by (intro states_step_save [OF w(2)]) (simp_all add: activated_state_def state_follows_def goal_edge_def)
  moreover have "states_step {GS_CONFIRMED, GS_ACTIVE} db db1"
    using None by (intro states_step_save [OF w(1)]) (simp_all add: activated_state_def state_follows_def)
  ultimately show ?thesis using states_step_trans by blast
next
  case (Some t)
  with a g [OF Some] show ?thesis
    by (intro states_step_save [of db _ "owner_of k"]) (simp_all add: activate_goal_def, simp_all add: activated_state_def state_follows_def goal_edge_def)
qed

lemma apply_now_elim:
  assumes "apply_now env lib db k x focus key = Inr (db', r)"
  obtains s db1 a db2 p q db3 m pr where
    "scope_of db (kq_pseudonym k) (dr_sources x) = Inr s" "set (dr_selected x) \<subseteq> uw_id ` set (gk_units s)"
    "apply_knowledge lib db k x s key = Inr (db1, a)" "apply_plan env lib db1 k x s (aq_definition a) key = Inr (db2, p, q)"
    "activate_goal db2 k x (aq_definition a) m pr = Inr db3" "goal_core db' = goal_core db3"
    "m = mk_ref ''GoalKnowledgeMapping'' (aq_mapping_id a) (VerI (aq_mapping a))" "pr = mk_ref ''LearningPlan'' (lp_id p) (VerI (lp_version p))"
    "(dr_id x, dr_version x + 1) \<notin> (\<lambda>d. (dr_id d, dr_version d)) ` set (gd_drafts db)"
    "gd_drafts db' = gd_drafts db @ [x\<lparr>dr_version := dr_version x + 1, dr_status := DRAFT_APPLIED, dr_created := now_of k\<rparr>]"
    "gr_definition r = Some (mk_ref ''LearningGoalDefinition'' (dr_goal x) (VerI (aq_definition a)))" "gr_status r = APPLY_DONE"
    "gr_activity r \<noteq> None" "gd_previews db' = gd_previews db"
proof -
  let ?m = "\<lambda>a. mk_ref ''GoalKnowledgeMapping'' (aq_mapping_id a) (VerI (aq_mapping a))"
    and ?pr = "\<lambda>p. mk_ref ''LearningPlan'' (lp_id p) (VerI (lp_version p))"
    and ?x = "x\<lparr>dr_version := dr_version x + 1, dr_status := DRAFT_APPLIED, dr_created := now_of k\<rparr>"
  from assms obtain s db1 a db2 p q db3 db4 db5 where
    e: "scope_of db (kq_pseudonym k) (dr_sources x) = Inr s" "set (dr_selected x) \<subseteq> uw_id ` set (gk_units s)"
      "apply_knowledge lib db k x s key = Inr (db1, a)" "apply_plan env lib db1 k x s (aq_definition a) key = Inr (db2, p, q)"
      "activate_goal db2 k x (aq_definition a) (?m a) (?pr p) = Inr db3"
    and w: "save_plan_state db3 (first_plan_state p k) = Inr db4"
      "(if focus then set_focus db4 k (Some (dr_goal x)) ''GOAL_FOCUS_EXPLICITLY_SET'' else Inr db4) = Inr db5"
      "save_draft db5 ?x = Inr db'"
    and r: "gr_definition r = Some (mk_ref ''LearningGoalDefinition'' (dr_goal x) (VerI (aq_definition a)))" "gr_status r = APPLY_DONE"
      "gr_activity r \<noteq> None"
    by (auto simp: apply_now_def Let_def bind_res_Inr_iff require_Inr)
  have c: "goal_core db' = goal_core db3"
    using w by (auto simp: goal_saves bind_res_Inr_iff split: if_splits dest!: set_focus_core)
  have d1: "gd_drafts db1 = gd_drafts db \<and> gd_previews db1 = gd_previews db" using e(3) by (auto simp: apply_knowledge_def Let_def goal_saves bind_res_Inr_iff)
  have d2: "gd_drafts db2 = gd_drafts db1 \<and> gd_previews db2 = gd_previews db1"
    using e(4) by (auto simp: apply_plan_def Let_def bind_res_Inr_iff map_sum_id_Inr split: prod.splits elim!: select_elim)
  have d3: "gd_drafts db3 = gd_drafts db2 \<and> gd_previews db3 = gd_previews db2"
    using e(5) by (auto simp: activate_goal_def goal_saves bind_res_Inr_iff split: option.splits)
  have d5: "gd_drafts db5 = gd_drafts db3 \<and> gd_previews db5 = gd_previews db3"
    using w(1,2) by (auto simp: set_focus_def goal_saves bind_res_Inr_iff split: if_splits)
  from w(3) have "(dr_id ?x, dr_version ?x) \<notin> (\<lambda>d. (dr_id d, dr_version d)) ` set (gd_drafts db5)" "gd_drafts db' = gd_drafts db5 @ [?x]"
      "gd_previews db' = gd_previews db5"
    by (auto simp: save_draft_def bind_res_Inr_iff insert_row_Inr)
  then show ?thesis using that [OF e c refl refl _ _ r] d1 d2 d3 d5 by simp
qed

lemma apply_now_step:
  assumes a: "apply_now env lib db k x focus key = Inr (db', r)" and fresh: "select_key_fresh db (owner_of k) key"
  shows "states_step {GS_CONFIRMED, GS_ACTIVE} db db'"
proof -
  from a obtain s db1 a db2 p q db3 m pr where
    e: "apply_knowledge lib db k x s key = Inr (db1, a)" "apply_plan env lib db1 k x s (aq_definition a) key = Inr (db2, p, q)"
      "activate_goal db2 k x (aq_definition a) m pr = Inr db3" "goal_core db' = goal_core db3"
    by (rule apply_now_elim)
  have c1: "goal_core db1 = goal_core db" and c2: "goal_core db2 = goal_core db1"
    using apply_knowledge_core [OF e(1)] apply_plan_core [OF e(2)] by simp_all
  have f1: "select_key_fresh db1 (owner_of k) key"
    using fresh apply_knowledge_receipts [OF e(1)] by (simp add: select_key_fresh_def)
  have "states_step {GS_CONFIRMED, GS_ACTIVE} db2 db3"
    using e(3) apply_plan_guard [OF e(2) f1] goal_state_core [OF c2] by (intro activate_step [OF e(3)]) simp
  then show ?thesis
    using states_step_core [OF c1] states_step_core [OF c2] states_step_core [OF e(4)] states_step_trans by blast
qed

end
