(* ===== verification/GoalMachine.thy ===== *)
theory GoalMachine
  imports GoalLaws
begin

text \<open>
  The machine of a goal, and what its achievement rests on. A run of the system takes the goal commands, the
  activity commands and, as one step of their own, whatever other parts do: those write no state of a goal and
  no evaluation, and they add stored results only.
\<close>

section \<open>Answers and evaluations\<close>

lemma save_attempt_results: "save_attempt_v1 db a w = Inr (db', x) \<Longrightarrow> ln_results db' = ln_results db"
  by (auto simp: save_attempt_v1_def split: option.splits attempt_payload.splits if_splits)

lemma save_result_grows: "save_result_v1 db r w = Inr (db', x) \<Longrightarrow> prefix (ln_results db) (ln_results db')"
  by (auto simp: save_result_v1_def split: option.splits result_payload.splits if_splits)

lemma save_evidence_results: "save_evidence db e w now = Inr (db', x) \<Longrightarrow> ln_results db' = ln_results db"
  by (auto simp: save_evidence_def insert_evidence_def bind_res_Inr_iff split: option.splits evidence_body.splits if_splits)

lemma save_rejection_results: "save_rejection env db r a u w reasons now = Inr db' \<Longrightarrow> ln_results db' = ln_results db"
  by (auto simp: save_rejection_def insert_evidence_def split: option.splits if_splits)

lemma project_stream_results: "project_stream env db user u w = Inr (db', m) \<Longrightarrow> ln_results db' = ln_results db"
  by (auto simp: project_stream_def save_mastery_def bind_res_Inr_iff split: sum.splits option.splits if_splits)

lemma learner_enqueue_results: "learner_enqueue c q db = Inr db' \<Longrightarrow> ln_results db' = ln_results db"
  by (auto simp: learner_enqueue_def split: sum.splits)

lemma project_assessment_results: "project_assessment env c q db = Inr (db', m) \<Longrightarrow> ln_results db' = ln_results db"
  by (auto simp: project_assessment_def Let_def bind_res_Inr_iff split: option.splits sum.splits
      dest!: save_evidence_results save_rejection_results project_stream_results learner_enqueue_results)

lemma list_case_Inr: "(case xs of [] \<Rightarrow> Inl e | x # _ \<Rightarrow> f x) = Inr y \<longleftrightarrow> (\<exists>x ys. xs = x # ys \<and> f x = Inr y)"
  by (cases xs) auto

lemma score_answer_grows:
  assumes "score_answer env lib db k i v response kind g p key = Inr (db', oc)"
  shows "prefix (ln_results db) (ln_results db')"
  using assms by (auto simp: score_answer_def score_open_def bind_res_Inr_iff split: if_splits option.splits
      dest!: save_attempt_results save_result_grows)

lemma project_outcome_results: "project_outcome env db ldb k goal a t r = Inr (ldb', e) \<Longrightarrow> ln_results ldb' = ln_results ldb"
  by (cases "r1_reviewer r = ACCEPTED")
    (auto simp: project_outcome_def bind_res_Inr_iff map_sum_id_Inr list_case_Inr dest!: project_assessment_results)

text \<open>What others may do between two commands.\<close>

definition elsewhere :: "goal_db \<Rightarrow> goal_db \<Rightarrow> bool" where
  "elsewhere db db' \<longleftrightarrow> ab_goal_states db' = ab_goal_states db \<and> gd_evaluations db' = gd_evaluations db \<and>
     prefix (ln_results (gd_learner db)) (ln_results (gd_learner db'))"

lemma submit_elsewhere:
  assumes "submit_goal_assessment env lib db k goal i c = Inr (db', a)"
  shows "elsewhere db db'"
proof (cases "goal_replay assessment_response db (owner_of k) (sq_key c) (gt_hash lib (submit_json goal i c))")
  case (Inl e)
  then show ?thesis using assms by (simp add: submit_goal_assessment_def Let_def)
next
  case (Inr known)
  show ?thesis
  proof (cases known)
    case (Some r)
    then show ?thesis using assms Inr by (simp add: submit_goal_assessment_def Let_def elsewhere_def)
  next
    case None
    note r = Inr [unfolded None]
    from assms [unfolded submit_goal_assessment_def Let_def r] obtain row :: assessment_row and p ldb oc ldb1 ev where
      s: "score_answer env lib (gd_learner db) k i (item_version_of goal (as_activity row)) (sq_response c)
        (ga_method (as_activity row)) (as_grader row) p (sq_key c) = Inr (ldb, oc)"
      and o: "(case oc_result oc of None \<Rightarrow> Inr (ldb, None)
          | Some r \<Rightarrow> project_outcome env db ldb k goal (as_activity row) (oc_attempt oc) r) = Inr (ldb1, ev)"
      and w: "ab_goal_states db' = ab_goal_states db" "gd_evaluations db' = gd_evaluations db" "gd_learner db' = ldb1"
      by (auto simp: bind_res_Inr_iff map_sum_id_Inr goal_saves)
    have "ln_results ldb1 = ln_results ldb" using o by (auto split: option.splits dest: project_outcome_results)
    then show ?thesis using score_answer_grows [OF s] w by (simp add: elsewhere_def)
  qed
qed

lemma evaluate_elim:
  assumes "evaluate_goal_achievement env lib db k goal c = Inr (db', e)"
  obtains (replayed) "db' = db"
  | (evaluated) s d p ms where "goal_state_of db goal (owner_of k) = Some s" "gv_status s = GS_ACTIVE" "gv_version s = vq_expected c"
      "latest_definition db goal (owner_of k) = Some d" "e = evaluate_goal env lib db k goal d p ms"
      "active_misconceptions env (latest_learner_state (gd_learner db) (owner_of k) (kq_workspace k)) (target_ids d) = Inr ms"
      "achievement_policy_of env db (now_of k) False = Inr (db, p)" "valid_evaluation e"
      "ab_goal_states db' = ab_goal_states db" "gd_evaluations db' = gd_evaluations db @ [e]" "gd_learner db' = gd_learner db"
proof (cases "goal_replay evaluation_response db (owner_of k) (vq_key c) (gt_hash lib (versioned_json goal c))")
  case (Inl x)
  then show ?thesis using assms by (simp add: evaluate_goal_achievement_def Let_def)
next
  case (Inr known)
  show ?thesis
  proof (cases known)
    case (Some r)
    then show ?thesis using assms Inr by (intro replayed) (simp add: evaluate_goal_achievement_def Let_def)
  next
    case None
    note r = Inr [unfolded None]
    from assms [unfolded evaluate_goal_achievement_def Let_def r] obtain s d p db0 ms where
      "checked_state db goal (owner_of k) (vq_expected c) = Inr s" "gv_status s = GS_ACTIVE"
      "latest_definition db goal (owner_of k) = Some d" "achievement_policy_of env db (now_of k) False = Inr (db0, p)"
      "e = evaluate_goal env lib db k goal d p ms" "valid_evaluation e"
      "active_misconceptions env (latest_learner_state (gd_learner db) (owner_of k) (kq_workspace k)) (target_ids d) = Inr ms"
      "ab_goal_states db' = ab_goal_states db" "gd_evaluations db' = gd_evaluations db @ [e]" "gd_learner db' = gd_learner db"
      by (auto simp: bind_res_Inr_iff goal_saves goal_writes)
    moreover from this(4) have "db0 = db" by (auto simp: achievement_policy_of_def split: option.splits)
    ultimately show ?thesis
      by (intro evaluated) (auto simp: checked_state_def bind_res_Inr_iff goal_writes)
  qed
qed

lemma confirm_elim:
  assumes "confirm_goal_achievement lib db k goal c = Inr (db', r)"
  obtains e db1 where "latest_evaluation db goal (owner_of k) = Some e" "gx_id e = vq_evaluation c"
    "gx_version e = vq_evaluation_version c" "gx_eligible e" "goal_core db1 = goal_core db" "gd_receipts db1 = gd_receipts db"
    "transition_goal lib db1 k goal c (confirm_json c) GS_ACHIEVED [GS_ACTIVE] PLAN_COMPLETED ''GOAL_ACHIEVEMENT_CONFIRMED_BY_USER'' = Inr (db', r)"
proof -
  from assms obtain e db1 where e: "latest_evaluation db goal (owner_of k) = Some e" "gx_id e = vq_evaluation c"
      "gx_version e = vq_evaluation_version c" "gx_eligible e"
    and c: "close_activity db k goal ''GOAL_ACHIEVEMENT_CONFIRMED_BY_USER'' = Inr db1"
    and t: "transition_goal lib db1 k goal c (confirm_json c) GS_ACHIEVED [GS_ACTIVE] PLAN_COMPLETED
      ''GOAL_ACHIEVEMENT_CONFIRMED_BY_USER'' = Inr (db', r)"
    by (auto simp: confirm_goal_achievement_def bind_res_Inr_iff goal_writes)
  have "gd_receipts db1 = gd_receipts db"
    using c by (auto simp: close_activity_def supersede_active_activity_def split: option.splits if_splits)
  with that e c t close_core [OF c] show ?thesis by blast
qed

section \<open>Steps\<close>

lemma apply_pending_elim:
  assumes "apply_pending_at_boundary env lib db k i = Inr (db', nref)"
  obtains (nothing) "db' = db" "nref = None"
  | (applied) a row x r pid p where "activity_by_id db i = Some a" "plan_row_at db (la_plan a) (la_plan_version a) = Some row"
      "latest_pending_draft db (lp_goal (pr_plan row)) (owner_of k) = Inr (Some x)"
      "apply_now env lib db k x False (boundary_key x i) = Inr (db', r)"
      "nref = gr_activity r" "dr_preview x = Some pid" "get_preview db pid 1 (owner_of k) = Some p"
proof (cases "activity_by_id db i")
  case (Some a)
  note a = Some
  show ?thesis
  proof (cases "plan_row_at db (la_plan a) (la_plan_version a)")
    case (Some row)
    with assms a obtain pending where pd: "latest_pending_draft db (lp_goal (pr_plan row)) (owner_of k) = Inr pending"
      by (auto simp: apply_pending_at_boundary_def bind_res_Inr_iff)
    show ?thesis
    proof (cases "\<exists>x pid p. pending = Some x \<and> dr_preview x = Some pid \<and> get_preview db pid 1 (owner_of k) = Some p")
      case True
      with assms a Some pd that(2) show ?thesis by (auto simp: apply_pending_at_boundary_def bind_res_Inr_iff)
    next
      case False
      with assms a Some pd have "(db, None) = (db', nref)"
        by (auto simp: apply_pending_at_boundary_def split: option.split_asm)
      with that(1) show ?thesis by simp
    qed
  qed (use assms that(1) a in \<open>simp_all add: apply_pending_at_boundary_def\<close>)
qed (use assms that(1) in \<open>simp_all add: apply_pending_at_boundary_def\<close>)

lemma complete_goal_step:
  assumes c: "complete_goal_activity env lib db k c = Inr (db', r)"
    and fresh: "\<And>x. select_key_fresh db (owner_of k) (boundary_key x (cc_activity c))"
  shows "states_step {GS_CONFIRMED, GS_ACTIVE} db db'"
  using c unfolding complete_goal_activity_def
proof (cases rule: complete_elim)
  case replayed
  then show ?thesis by (intro states_step_core) simp
next
  case (completed c' prior evs tab db3 replanned db4 c'' nref)
  let ?db = "(with_states db (tp_states (ab_tables db) @ [completing (kq_call k) (cc_refs c) prior]))\<lparr>ab_events := evs, ab_outbox := tab\<rparr>"
    and ?k = "\<lparr>kq_call = after_completion (kq_call k), kq_pseudonym = kq_pseudonym k, kq_workspace = kq_workspace k\<rparr>"
  from completed(11) have "apply_pending_at_boundary env lib ?db ?k (cc_activity c) = Inr (db3, replanned)"
    by (simp add: goal_boundary_def map_sum_id_Inr)
  then have "states_step {GS_CONFIRMED, GS_ACTIVE} ?db db3"
  proof (cases rule: apply_pending_elim)
    case nothing
    then show ?thesis by (intro states_step_core) simp
  next
    case (applied a row x r pid p)
    show ?thesis
      by (rule apply_now_step [OF applied(4)]) (use fresh [of x] in \<open>simp add: select_key_fresh_def after_completion_def\<close>)
  qed
  moreover have "goal_core ?db = goal_core db" by simp
  moreover have "goal_core db4 = goal_core db3"
    using completed(12) by (auto split: option.splits dest: advance_core)
  moreover have "goal_core db' = goal_core db4" using completed(13) by simp
  ultimately show ?thesis using states_step_core states_step_trans by blast
qed

lemma apply_draft_step:
  assumes a: "apply_draft env lib db k i c = Inr (db', r)" and fresh: "select_key_fresh db (owner_of k) (yq_key c)"
  shows "states_step {GS_CONFIRMED, GS_ACTIVE} db db'"
proof (cases "goal_replay apply_response db (owner_of k) (yq_key c) (gt_hash lib (apply_json i c))")
  case (Inl x)
  then show ?thesis using a by (simp add: apply_draft_def Let_def)
next
  case (Inr known)
  show ?thesis
  proof (cases known)
    case (Some r)
    then show ?thesis using a Inr by (simp add: apply_draft_def Let_def states_step_core)
  next
    case None
    note r = Inr [unfolded None]
    from a [unfolded apply_draft_def Let_def r] obtain x act db2 q where
      b: "(if act \<noteq> None \<and> yq_mode c = NORMAL_BOUNDARY
            then bind_res (save_draft db (x\<lparr>dr_version := dr_version x + 1, dr_status := APPROVED_PENDING_BOUNDARY, dr_created := now_of k\<rparr>))
                   (\<lambda>db1. Inr (db1, pending_result x act))
            else bind_res (case act of None \<Rightarrow> Inr db | Some r \<Rightarrow> supersede_active_activity db k r ''GOAL_REPLAN_EXPLICIT_SWITCH'')
                   (\<lambda>db1. apply_now env lib db1 k x (yq_focused c) (yq_key c))) = Inr (db2, q)"
      and w: "goal_core db' = goal_core db2"
      by (auto simp: bind_res_Inr_iff goal_saves)
    have "states_step {GS_CONFIRMED, GS_ACTIVE} db db2"
    proof (cases "act \<noteq> None \<and> yq_mode c = NORMAL_BOUNDARY")
      case True
      with b have "goal_core db2 = goal_core db" by (auto simp: bind_res_Inr_iff goal_saves)
      then show ?thesis by (rule states_step_core)
    next
      case False
      with b obtain db1 where s: "(case act of None \<Rightarrow> Inr db | Some r \<Rightarrow> supersede_active_activity db k r ''GOAL_REPLAN_EXPLICIT_SWITCH'') = Inr db1"
        and n: "apply_now env lib db1 k x (yq_focused c) (yq_key c) = Inr (db2, q)"
        by (auto simp: bind_res_Inr_iff simp del: not_None_eq split: if_splits)
      have "goal_core db1 = goal_core db" using s by (auto split: option.splits dest: supersede_core)
      moreover have "select_key_fresh db1 (owner_of k) (yq_key c)"
        using s fresh by (auto simp: select_key_fresh_def supersede_active_activity_def split: option.splits if_splits)
      ultimately show ?thesis using apply_now_step [OF n] states_step_core states_step_trans by blast
    qed
    then show ?thesis using states_step_core [OF w] by (rule states_step_trans)
  qed
qed

lemma resume_step:
  assumes "resume_goal lib db k goal c = Inr (db', r)"
  shows "states_step {GS_ACTIVE} db db'"
proof -
  from assms have "transition_goal lib db k goal c (lifecycle_json c) GS_ACTIVE [GS_PAUSED] PLAN_ACTIVE ''GOAL_RESUMED_EXACT_PLAN'' = Inr (db', r)"
    by (auto simp: resume_goal_def bind_res_Inr_iff split: prod.splits)
  then show ?thesis by (rule transition_step) (simp add: goal_edge_def)
qed

lemma archive_elim:
  assumes "archive_goal lib db k goal c = Inr (db', r)"
  obtains s db1 where "goal_state_of db goal (owner_of k) = Some s" "gv_version s = vq_expected c" "gv_status s \<in> set archivable"
    "goal_core db1 = goal_core db"
    "transition_goal lib db1 k goal c (lifecycle_json c) GS_ARCHIVED archivable PLAN_SUPERSEDED ''GOAL_ARCHIVED_BY_USER'' = Inr (db', r)"
  using assms by (auto simp: archive_goal_def checked_state_def bind_res_Inr_iff goal_writes dest: close_core)

lemma archive_step:
  assumes "archive_goal lib db k goal c = Inr (db', r)"
  shows "states_step {GS_ARCHIVED} db db'"
  using assms
proof (cases rule: archive_elim)
  case (1 s db1)
  have "states_step {GS_ARCHIVED} db1 db'"
    by (rule transition_step [OF 1(5)]) (auto simp: goal_edge_def archivable_def)
  with states_step_core [OF 1(4)] show ?thesis by (rule states_step_trans)
qed

lemma confirm_step:
  assumes "confirm_goal_achievement lib db k goal c = Inr (db', r)"
  shows "states_step {GS_ACHIEVED} db db'"
  using assms
proof (cases rule: confirm_elim)
  case (1 e db1)
  have "states_step {GS_ACHIEVED} db1 db'" by (rule transition_step [OF 1(7)]) (simp add: goal_edge_def)
  with states_step_core [OF 1(5)] show ?thesis by (rule states_step_trans)
qed

text \<open>One step of the system. A goal key the boundary or an application derives is not among the keys clients used
  with the activity service.\<close>

inductive goal_step :: "pyenv \<Rightarrow> goal_lib \<Rightarrow> goal_db \<Rightarrow> goal_db \<Rightarrow> bool" for env lib where
  gs_create: "create_draft env lib db k c = Inr (db', d) \<Longrightarrow> goal_step env lib db db'"
| gs_edit: "create_edit_draft lib db k goal vc = Inr (db', d) \<Longrightarrow> goal_step env lib db db'"
| gs_update: "update_draft lib db k i uc = Inr (db', d) \<Longrightarrow> goal_step env lib db db'"
| gs_preview: "preview_draft lib db k i vc = Inr (db', p) \<Longrightarrow> goal_step env lib db db'"
| gs_apply: "apply_draft env lib db k i ac = Inr (db', ar) \<Longrightarrow> select_key_fresh db (owner_of k) (yq_key ac) \<Longrightarrow> goal_step env lib db db'"
| gs_pause: "pause_goal lib db k goal lc = Inr (db', r) \<Longrightarrow> goal_step env lib db db'"
| gs_resume: "resume_goal lib db k goal lc = Inr (db', r) \<Longrightarrow> goal_step env lib db db'"
| gs_archive: "archive_goal lib db k goal lc = Inr (db', r) \<Longrightarrow> goal_step env lib db db'"
| gs_copy: "copy_archived_goal lib db k goal lc = Inr (db', r) \<Longrightarrow> goal_step env lib db db'"
| gs_schedule: "schedule_goal_assessments env lib db k goal vc = Inr (db', w) \<Longrightarrow> goal_step env lib db db'"
| gs_submit: "submit_goal_assessment env lib db k goal i sc = Inr (db', a) \<Longrightarrow> goal_step env lib db db'"
| gs_evaluate: "evaluate_goal_achievement env lib db k goal vc = Inr (db', e) \<Longrightarrow> goal_step env lib db db'"
| gs_confirm: "confirm_goal_achievement lib db k goal cc = Inr (db', r) \<Longrightarrow> goal_step env lib db db'"
| gs_select: "select_next env (gt_hash lib) db db later ak goal key = Inr (db', q) \<Longrightarrow> goal_step env lib db db'"
| gs_start: "start_activity env (gt_hash lib) db db later ak st = Inr (db', q) \<Longrightarrow> goal_step env lib db db'"
| gs_complete: "complete_goal_activity env lib db k co = Inr (db', q) \<Longrightarrow>
    (\<And>x. select_key_fresh db (owner_of k) (boundary_key x (cc_activity co))) \<Longrightarrow> goal_step env lib db db'"
| gs_elsewhere: "elsewhere db db' \<Longrightarrow> goal_step env lib db db'"

lemma states_step_mono: "states_step T db db' \<Longrightarrow> T \<subseteq> U \<Longrightarrow> states_step U db db'"
proof -
  assume a: "states_step T db db'" and b: "T \<subseteq> U"
  have "state_append T \<le> state_append U" using b by (auto elim!: state_append.cases intro!: state_append.intros)
  then have "(state_append T)\<^sup>*\<^sup>* \<le> (state_append U)\<^sup>*\<^sup>*" by (rule rtranclp_mono)
  with a show ?thesis by (auto simp: states_step_def)
qed

text \<open>Only a confirmation makes a goal achieved; only an evaluation is stored as one.\<close>

lemma goal_step_elim:
  assumes "goal_step env lib db db'"
  obtains (moved) "states_step (- {GS_ACHIEVED}) db db'"
  | (elsewhere) "elsewhere db db'"
  | (evaluated) k goal vc e where "evaluate_goal_achievement env lib db k goal vc = Inr (db', e)"
  | (confirmed) k goal cc r where "confirm_goal_achievement lib db k goal cc = Inr (db', r)"
proof -
  have core: thesis if "goal_core db' = goal_core db" using that moved by (blast intro: states_step_core)
  have step: thesis if "states_step T db db'" "T \<subseteq> - {GS_ACHIEVED}" for T using that moved by (blast intro: states_step_mono)
  from assms show thesis
  proof cases
    case gs_create then show thesis by (intro core create_draft_core)
  next
    case gs_edit then show thesis by (intro core create_edit_core)
  next
    case gs_update then show thesis by (intro core update_draft_core)
  next
    case gs_preview then show thesis by (intro core preview_draft_core)
  next
    case gs_apply then show thesis by (intro step [OF apply_draft_step]) auto
  next
    case (gs_pause k goal lc r)
    then show thesis by (intro step [OF transition_step]) (auto simp: pause_goal_def goal_edge_def)
  next
    case gs_resume then show thesis by (intro step [OF resume_step]) auto
  next
    case gs_archive then show thesis by (intro step [OF archive_step]) auto
  next
    case gs_copy then show thesis by (intro core copy_core)
  next
    case gs_schedule then show thesis by (intro core schedule_core)
  next
    case gs_submit then show thesis by (intro elsewhere submit_elsewhere)
  next
    case gs_evaluate then show thesis by (rule evaluated)
  next
    case gs_confirm then show thesis by (rule confirmed)
  next
    case gs_select then show thesis by (intro core select_core)
  next
    case gs_start then show thesis by (intro core start_core)
  next
    case gs_complete then show thesis by (intro step [OF complete_goal_step]) auto
  next
    case gs_elsewhere then show thesis by (rule elsewhere)
  qed
qed

section \<open>The history of a goal\<close>

definition goal_lawful :: "goal_state list \<Rightarrow> bool" where
  "goal_lawful h \<longleftrightarrow> (\<forall>i < length h. gv_version (h ! i) = int i + 1 \<and>
     (if i = 0 then gv_status (h ! i) = GS_CONFIRMED \<and> gv_previous (h ! i) = None
      else goal_edge (gv_status (h ! (i - 1))) (gv_status (h ! i)) \<and> gv_previous (h ! i) = Some (gv_status (h ! (i - 1)))))"

lemma lawful_latest: "goal_lawful h \<Longrightarrow> h \<noteq> [] \<Longrightarrow> latest_by gv_version h = Some (last h)"
proof (cases h rule: rev_cases)
  case (snoc h' s)
  assume l: "goal_lawful h"
  have "gv_version x < gv_version s" if "x \<in> set h'" for x
  proof -
    from that obtain i where i: "i < length h'" "x = h' ! i" by (auto simp: in_set_conv_nth)
    have "gv_version (h ! i) = int i + 1" "gv_version (h ! length h') = int (length h') + 1"
      using l i by (auto simp: goal_lawful_def snoc)
    with i show ?thesis by (simp add: snoc nth_append)
  qed
  then show ?thesis using latest_by_snoc [of h' gv_version s] by (simp add: snoc)
qed simp

lemma lawful_snoc:
  assumes l: "goal_lawful h" and f: "state_follows (latest_by gv_version h) s"
  shows "goal_lawful (h @ [s])"
proof (cases "h = []")
  case True
  with f show ?thesis by (simp add: goal_lawful_def state_follows_def latest_by_def)
next
  case False
  with f l have s: "gv_version s = gv_version (last h) + 1" "goal_edge (gv_status (last h)) (gv_status s)"
      "gv_previous s = Some (gv_status (last h))"
    by (simp_all add: lawful_latest state_follows_def)
  have "last h = h ! (length h - 1)" using False by (simp add: last_conv_nth)
  moreover have "gv_version (h ! (length h - 1)) = int (length h - 1) + 1" using l False by (simp add: goal_lawful_def)
  ultimately have v: "gv_version s = int (length h) + 1" "last h = h ! (length h - 1)"
    using s(1) False by (cases h, simp_all)
  show ?thesis unfolding goal_lawful_def
  proof (intro allI impI)
    fix i assume "i < length (h @ [s])"
    then consider "i < length h" | "i = length h" by fastforce
    then show "gv_version ((h @ [s]) ! i) = int i + 1 \<and>
        (if i = 0 then gv_status ((h @ [s]) ! i) = GS_CONFIRMED \<and> gv_previous ((h @ [s]) ! i) = None
         else goal_edge (gv_status ((h @ [s]) ! (i - 1))) (gv_status ((h @ [s]) ! i)) \<and>
           gv_previous ((h @ [s]) ! i) = Some (gv_status ((h @ [s]) ! (i - 1))))"
    proof cases
      case 1
      with l show ?thesis by (auto simp: goal_lawful_def nth_append)
    next
      case 2
      with False s v show ?thesis by (simp add: nth_append)
    qed
  qed
qed

lemma append_lawful:
  assumes "(state_append T)\<^sup>*\<^sup>* rows rows'" and "\<And>goal user. goal_lawful (goal_history rows goal user)"
  shows "goal_lawful (goal_history rows' goal user)"
  using assms
proof (induction arbitrary: goal user rule: rtranclp_induct)
  case (step ys zs)
  from step.hyps(2) show ?case
  proof cases
    case (1 s u)
    have "goal_lawful (goal_history ys (gv_goal s) u @ [s])" using step.IH step.prems 1 by (intro lawful_snoc) auto
    with step 1 show ?thesis by (auto simp: history_snoc)
  qed
qed

lemma states_lawful:
  assumes "states_step T db db'" and "\<And>goal user. goal_lawful (goal_history (ab_goal_states db) goal user)"
  shows "goal_lawful (goal_history (ab_goal_states db') goal user)"
  using assms(1) [unfolded states_step_def, THEN conjunct1] assms(2) by (rule append_lawful)

lemma goal_step_lawful:
  assumes "goal_step env lib db db'" and "\<And>goal user. goal_lawful (goal_history (ab_goal_states db) goal user)"
  shows "goal_lawful (goal_history (ab_goal_states db') goal user)"
  using assms(1)
proof (cases rule: goal_step_elim)
  case moved
  then show ?thesis using assms(2) by (rule states_lawful)
next
  case elsewhere
  then show ?thesis using assms(2) by (simp add: elsewhere_def)
next
  case (evaluated k goal' vc e)
  then show ?thesis using assms(2) by (auto elim!: evaluate_elim)
next
  case (confirmed k goal' cc r)
  from confirm_step [OF this] assms(2) show ?thesis by (rule states_lawful)
qed

lemma run_lawful:
  assumes "(goal_step env lib)\<^sup>*\<^sup>* db db'" and "\<And>goal user. goal_lawful (goal_history (ab_goal_states db) goal user)"
  shows "goal_lawful (goal_history (ab_goal_states db') goal user)"
  using assms
proof (induction arbitrary: goal user rule: rtranclp_induct)
  case (step y z)
  then show ?case using goal_step_lawful by blast
qed

lemma no_states_lawful: "ab_goal_states db = [] \<Longrightarrow> goal_lawful (goal_history (ab_goal_states db) goal user)"
  by (simp add: goal_lawful_def goal_history_def)

text \<open>C18: However the commands interleave, from no goals at all or from goals that keep the law, the
  stored states of every goal of every user are a path of the machine: versions count up from 1, the first state is
  confirmed, each later one leaves its predecessor on an edge of the machine and names it, and nothing follows an
  achieved or archived state. One thing is asked of the clients: that the key an application selects under, its own or
  the one a completion derives, was not used with the activity service before. A used key selects whatever the state
  is, an archived goal included (\<open>select_replay_ignores_state\<close>).\<close>

theorem goal_machine:
  assumes "(goal_step env lib)\<^sup>*\<^sup>* db db'" and "\<And>g u. goal_lawful (goal_history (ab_goal_states db) g u)"
    and "h = goal_history (ab_goal_states db') goal user"
  shows "map gv_version h = map (\<lambda>i. int i + 1) [0..<length h] \<and>
    (h \<noteq> [] \<longrightarrow> gv_status (hd h) = GS_CONFIRMED \<and> gv_previous (hd h) = None) \<and>
    (\<forall>i. Suc i < length h \<longrightarrow> goal_edge (gv_status (h ! i)) (gv_status (h ! Suc i)) \<and>
       gv_previous (h ! Suc i) = Some (gv_status (h ! i))) \<and>
    (\<forall>i. i < length h \<and> gv_status (h ! i) \<in> {GS_ACHIEVED, GS_ARCHIVED} \<longrightarrow> Suc i = length h)"
proof (intro conjI)
  have l: "goal_lawful h" unfolding assms(3) using assms(1,2) by (rule run_lawful)
  show "map gv_version h = map (\<lambda>i. int i + 1) [0..<length h]"
    by (rule nth_equalityI) (use l in \<open>auto simp: goal_lawful_def\<close>)
  show "h \<noteq> [] \<longrightarrow> gv_status (hd h) = GS_CONFIRMED \<and> gv_previous (hd h) = None"
    using l by (auto simp: goal_lawful_def hd_conv_nth dest: spec [of _ 0])
  show e: "\<forall>i. Suc i < length h \<longrightarrow> goal_edge (gv_status (h ! i)) (gv_status (h ! Suc i)) \<and>
      gv_previous (h ! Suc i) = Some (gv_status (h ! i))"
    using l by (auto simp: goal_lawful_def dest: spec [of _ "Suc _"])
  show "\<forall>i. i < length h \<and> gv_status (h ! i) \<in> {GS_ACHIEVED, GS_ARCHIVED} \<longrightarrow> Suc i = length h"
    using e by (fastforce simp: goal_edge_def intro: Suc_lessI)
qed

section \<open>What an achieved goal rests on\<close>

definition accepted_payload :: "result_payload \<Rightarrow> bool" where
  "accepted_payload x = (case x of
       ResultV1 r \<Rightarrow> r1_reviewer r = ACCEPTED \<and> r1_passed r = Some True
     | ResultV3 r \<Rightarrow> rs_reviewer r = ACCEPTED \<and> rs_passed r = Some True)"

lemma passes_accepted: "payload_passes m x \<Longrightarrow> accepted_payload x"
  by (auto simp: payload_passes_def accepted_payload_def split: result_payload.splits)

definition criterion_earned :: "learner_db \<Rightarrow> criterion_evaluation \<Rightarrow> bool" where
  "criterion_earned led c \<longleftrightarrow> (\<exists>r \<in> set (gc_results c). \<exists>x. by_id rx_id (ln_results led) (vr_id r) = Some x \<and> accepted_payload (rx_payload x))"

definition evaluation_earned :: "learner_db \<Rightarrow> goal_evaluation \<Rightarrow> bool" where
  "evaluation_earned led e \<longleftrightarrow> gx_criteria e \<noteq> [] \<and> (\<forall>c \<in> set (gx_criteria e). criterion_earned led c)"

lemma counted_refs_Some: "counted_refs db m a = Some (r, e) \<longleftrightarrow> ga_result a = Some r \<and> ga_evidence a = Some e \<and>
    (\<exists>x. by_id rx_id (ln_results (gd_learner db)) (vr_id r) = Some x \<and> payload_passes m (rx_payload x))"
  by (auto simp: counted_refs_def split: option.splits if_splits)

lemma criterion_counted:
  assumes "gc_satisfied (fst (evaluate_criterion db m as c))"
  shows "criterion_earned (gd_learner db) (fst (evaluate_criterion db m as c))"
proof -
  let ?xs = "List.map_filter (counted_refs db m) (filter (\<lambda>a. ga_criterion a = ci_id c) as)"
  from assms have "?xs \<noteq> []" by (simp add: evaluate_criterion_def Let_def)
  then obtain r e where "(r, e) \<in> set ?xs" by (cases ?xs) auto
  moreover from this obtain a where "counted_refs db m a = Some (r, e)" by (auto simp: List.map_filter_def)
  ultimately show ?thesis
    unfolding criterion_earned_def counted_refs_Some
    by (intro bexI [of _ r]) (force simp: evaluate_criterion_def Let_def intro: passes_accepted)+
qed

lemma evaluation_counted:
  assumes "gx_eligible (evaluate_goal env lib db k goal d p ms)" and "valid_evaluation (evaluate_goal env lib db k goal d p ms)"
  shows "evaluation_earned (gd_learner db) (evaluate_goal env lib db k goal d p ms)"
  using assms unfolding evaluation_earned_def
  by (auto simp: evaluate_goal_def Let_def valid_evaluation_def list_all_iff intro!: criterion_counted)

lemma earned_grows: "evaluation_earned led e \<Longrightarrow> prefix (ln_results led) (ln_results led') \<Longrightarrow> evaluation_earned led' e"
  unfolding evaluation_earned_def criterion_earned_def by (blast intro: by_id_prefix)

definition goals_earned :: "goal_db \<Rightarrow> bool" where
  "goals_earned db \<longleftrightarrow> (\<forall>e \<in> set (gd_evaluations db). gx_eligible e \<longrightarrow> evaluation_earned (gd_learner db) e) \<and>
     (\<forall>r \<in> set (ab_goal_states db). gv_status (gv_state r) = GS_ACHIEVED \<longrightarrow>
        (\<exists>e \<in> set (gd_evaluations db). gx_goal e = gv_goal (gv_state r) \<and> gx_user e = gv_user r \<and> gx_eligible e))"

lemma states_step_unachieved:
  assumes "states_step (- {GS_ACHIEVED}) db db'" and "r \<in> set (ab_goal_states db')" and "gv_status (gv_state r) = GS_ACHIEVED"
  shows "r \<in> set (ab_goal_states db)"
proof -
  have "r \<in> set rows" if "(state_append (- {GS_ACHIEVED}))\<^sup>*\<^sup>* rows rows'" "r \<in> set rows'" for rows rows'
    using that by (induction rule: rtranclp_induct) (use assms(3) in \<open>auto elim!: state_append.cases\<close>)
  with assms show ?thesis by (auto simp: states_step_def)
qed

lemma goal_evaluation_names: "gx_goal (evaluate_goal env lib db k goal d p ms) = goal" "gx_user (evaluate_goal env lib db k goal d p ms) = owner_of k"
  by (simp_all add: evaluate_goal_def Let_def)

lemma confirm_earned:
  assumes c: "confirm_goal_achievement lib db k goal cc = Inr (db', r)" and ok: "goals_earned db"
  shows "goals_earned db'"
  using c
proof (cases rule: confirm_elim)
  case (1 e db1)
  have e: "e \<in> set (gd_evaluations db)" "gx_goal e = goal" "gx_user e = owner_of k"
    using latest_by_Some [OF 1(1) [unfolded latest_evaluation_def]] by auto
  have k1: "ab_goal_states db1 = ab_goal_states db" "gd_evaluations db1 = gd_evaluations db"
      "ln_results (gd_learner db1) = ln_results (gd_learner db)"
    using core_states [OF 1(5)] by auto
  from 1(7) show ?thesis
  proof (cases rule: transition_elim)
    case replayed
    with ok k1 show ?thesis by (simp add: goals_earned_def evaluation_earned_def criterion_earned_def)
  next
    case (moved s db2)
    have "ab_goal_states db' = ab_goal_states db @ [\<lparr>gv_user = owner_of k, gv_state = moved_state s GS_ACHIEVED ''GOAL_ACHIEVEMENT_CONFIRMED_BY_USER'' k\<rparr>]"
      "gd_evaluations db' = gd_evaluations db" "ln_results (gd_learner db') = ln_results (gd_learner db)"
      using save_goal_state_core [OF moved(5)] moved(6) k1 by (auto simp: goal_core_def)
    moreover have "gv_goal s = goal" using moved(2) by (rule goal_state_goal)
    ultimately show ?thesis
      using ok e 1(4) by (auto simp: goals_earned_def evaluation_earned_def criterion_earned_def moved_state_def)
  qed
qed

lemma goal_step_earned:
  assumes "goal_step env lib db db'" and ok: "goals_earned db"
  shows "goals_earned db'"
  using assms(1)
proof (cases rule: goal_step_elim)
  case moved
  then have "gd_evaluations db' = gd_evaluations db" "ln_results (gd_learner db') = ln_results (gd_learner db)"
    by (simp_all add: states_step_def)
  with ok states_step_unachieved [OF moved] show ?thesis
    unfolding goals_earned_def evaluation_earned_def criterion_earned_def by auto
next
  case elsewhere
  with ok show ?thesis unfolding goals_earned_def elsewhere_def by (auto intro: earned_grows)
next
  case (evaluated k goal vc e)
  then show ?thesis
  proof (cases rule: evaluate_elim)
    case replayed
    with ok show ?thesis by simp
  next
    case (evaluated s d p ms)
    have "gx_eligible e \<Longrightarrow> evaluation_earned (gd_learner db) e"
      using evaluation_counted evaluated(5,8) by simp
    with ok evaluated show ?thesis by (auto simp: goals_earned_def)
  qed
next
  case (confirmed k goal cc r)
  then show ?thesis using ok by (rule confirm_earned)
qed

lemma run_earned: "(goal_step env lib)\<^sup>*\<^sup>* db db' \<Longrightarrow> goals_earned db \<Longrightarrow> goals_earned db'"
  by (induction rule: rtranclp_induct) (auto intro: goal_step_earned)

lemma no_states_earned: "ab_goal_states db = [] \<Longrightarrow> gd_evaluations db = [] \<Longrightarrow> goals_earned db"
  by (simp add: goals_earned_def)

text \<open>C19: An achieved goal was earned: at all times some eligible evaluation of that goal and that
  user is stored, it names at least one criterion, and for each of its criteria a stored result that the reviewer
  accepted and that passed.\<close>

theorem achieved_earned:
  assumes "(goal_step env lib)\<^sup>*\<^sup>* db db'" and "goals_earned db"
    and "r \<in> set (ab_goal_states db')" and "gv_status (gv_state r) = GS_ACHIEVED"
  shows "\<exists>e \<in> set (gd_evaluations db'). gx_goal e = gv_goal (gv_state r) \<and> gx_user e = gv_user r \<and> gx_eligible e \<and>
    gx_criteria e \<noteq> [] \<and> (\<forall>c \<in> set (gx_criteria e). criterion_earned (gd_learner db') c)"
  using run_earned [OF assms(1,2)] assms(3,4) unfolding goals_earned_def evaluation_earned_def by blast

section \<open>A goal that is achieved\<close>

definition trip_criterion :: success_criterion where
  "trip_criterion = \<lparr>ci_id = ''c1'', ci_process = COG_RECALL, ci_statement = ''name the parts'', ci_requirements = [''recall''],
     ci_targets = [mk_ref ''KnowledgeUnit'' ''k1'' (VerI 1)]\<rparr>"

definition trip_definition :: goal_definition where
  "trip_definition = \<lparr>gd_goal = ''g1'', gd_version = 1, gd_user = ''u1'', gd_title = ''t'', gd_topic = ''t'', gd_capabilities = [''t''],
     gd_context = None, gd_criteria = [trip_criterion], gd_sources = [''d1''], gd_deadline = None, gd_weekly = None,
     gd_fingerprint = '''', gd_created = 0, gd_supersedes = None, gd_reasons = [''R'']\<rparr>"

definition trip_state :: "int \<Rightarrow> goal_state_status \<Rightarrow> goal_state_status option \<Rightarrow> goal_state_row" where
  "trip_state v s p = \<lparr>gv_user = ''u1'', gv_state = \<lparr>gv_goal = ''g1'', gv_version = v, gv_status = s, gv_definition = 1,
     gv_mapping = None, gv_plan = None, gv_previous = p, gv_reasons = [''R''], gv_correlation = ''e'', gv_created = 0\<rparr>\<rparr>"

definition trip_policy :: achievement_policy where
  "trip_policy = \<lparr>go_id = ''askora:goal-achievement-policy:default'', go_version = 1, go_name = ''n'', go_delays = [(COG_RECALL, 0)],
     go_minimum = 1, go_confidence = 1, go_disagreement = 0, go_novelty = [], go_rubric = ''r'', go_schema = ''s'',
     go_reviewer = True, go_created = 0\<rparr>"

definition trip_answer :: goal_assessment where
  "trip_answer = \<lparr>ga_id = ''a1'', ga_version = 2, ga_user = ''u1'', ga_goal = ''g1'', ga_definition = 1,
     ga_objective = mk_ref ''LearningObjective'' ''o1'' (VerI 1), ga_criterion = ''c1'', ga_process = COG_RECALL,
     ga_method = STRUCTURED, ga_prompt = ''name the parts'', ga_status = GA_ACCEPTED,
     ga_policy = mk_ref ''GoalAchievementPolicy'' ''askora:goal-achievement-policy:default'' (VerI 1), ga_not_before = 0,
     ga_result = Some (mk_ref ''AssessmentResult'' ''r1'' (VerI 1)), ga_evidence = Some (mk_ref ''LearnerEvidence'' ''x1'' (VerI 1)),
     ga_reasons = [''R''], ga_created = 0\<rparr>"

definition trip_result :: result_v1 where
  "trip_result = \<lparr>r1_id = ''r1'', r1_version = 1, r1_attempt = ''t1'', r1_item = ''a1'', r1_item_version = ''v1'', r1_score = 1,
     r1_passed = Some True, r1_correctness = CORRECT, r1_rubric = [], r1_error_type = None, r1_misconceptions = [],
     r1_independence = IND_INDEPENDENT, r1_confidence = 1, r1_evaluators = [''e''], r1_reason_codes = [''R''],
     r1_reviewer = ACCEPTED, r1_created = 0, r1_supersedes = None\<rparr>"

definition trip_db :: goal_db where
  "trip_db = \<lparr>ab_goals = [], ab_goal_states = [trip_state 1 GS_CONFIRMED None, trip_state 2 GS_ACTIVE (Some GS_CONFIRMED)],
     ab_tables = \<lparr>tp_plans = [], tp_activities = [], tp_states = []\<rparr>, ab_receipts = [], ab_events = [], ab_outbox = [], ab_turns = [],
     gd_definitions = [trip_definition], gd_drafts = [], gd_previews = [], gd_plan_states = [], gd_focus = [], gd_receipts = [],
     gd_policies = [trip_policy], gd_objectives = [],
     gd_assessments = [\<lparr>as_activity = trip_answer, as_grader = \<lparr>gy_terms = [], gy_topic = '''', gy_statement = '''',
       gy_process = COG_RECALL, gy_requirements = [], gy_evidence = ''''\<rparr>\<rparr>],
     gd_evaluations = [], gd_mappings = [], gd_subgraphs = [], gd_documents = [],
     gd_learner = \<lparr>ln_attempts = [], ln_results = [\<lparr>rx_id = ''r1'', rx_attempt = ''t1'', rx_workspace = Some ''w'', rx_version = 1,
       rx_supersedes = None, rx_payload = ResultV1 trip_result\<rparr>], ln_evidence = [], ln_mastery = [], ln_states = [],
       ln_dialogs = [], ln_outbox = []\<rparr>\<rparr>"

definition trip_lib :: goal_lib where
  "trip_lib = mapper_env.extend book_mapper \<lparr>gt_hash = (\<lambda>_. ''h''), gt_template = (\<lambda>_ t. t), gt_copy_suffix = ''copy'',
     gt_recommended = ''r'', gt_excerpt = ''x'', gt_casefold = id, gt_grade = (\<lambda>_ _ _. None)\<rparr>"

definition trip_call :: "string \<Rightarrow> goal_call" where
  "trip_call i = \<lparr>kq_call = \<lparr>ak_user = ''u1'', ak_owner = ''u1'', ak_correlation = i, ak_now = 5, ak_fresh = (\<lambda>n. i)\<rparr>,
     kq_pseudonym = ''user-1'', kq_workspace = ''w''\<rparr>"

definition trip_evaluate :: versioned_command where
  "trip_evaluate = \<lparr>vq_expected = 2, vq_key = ''k1''\<rparr>"

definition trip_confirm :: confirm_command where
  "trip_confirm = \<lparr>vq_expected = 2, vq_key = ''k2'', vq_plan = None, vq_evaluation = ''g1achievement:1'', vq_evaluation_version = 1\<rparr>"

definition trip_evaluated :: goal_db where
  "trip_evaluated = fst (projr (evaluate_goal_achievement plain_env trip_lib trip_db (trip_call ''e1'') ''g1'' trip_evaluate))"

definition trip_achieved :: goal_db where
  "trip_achieved = fst (projr (confirm_goal_achievement trip_lib trip_evaluated (trip_call ''e2'') ''g1'' trip_confirm))"

lemma trip_evaluates: "\<not> isl (evaluate_goal_achievement plain_env trip_lib trip_db (trip_call ''e1'') ''g1'' trip_evaluate)"
  by code_simp

lemma trip_confirms: "\<not> isl (confirm_goal_achievement trip_lib trip_evaluated (trip_call ''e2'') ''g1'' trip_confirm)"
  by code_simp

lemma trip_run: "(goal_step plain_env trip_lib)\<^sup>*\<^sup>* trip_db trip_achieved"
proof -
  have "goal_step plain_env trip_lib trip_db trip_evaluated"
    unfolding trip_evaluated_def by (rule gs_evaluate) (rule isr_projr [OF trip_evaluates])
  moreover have "goal_step plain_env trip_lib trip_evaluated trip_achieved"
    unfolding trip_achieved_def by (rule gs_confirm) (rule isr_projr [OF trip_confirms])
  ultimately show ?thesis by auto
qed

lemma trip_lawful: "goal_lawful (goal_history (ab_goal_states trip_db) g u)"
  by (auto simp: goal_history_def trip_db_def trip_state_def goal_lawful_def goal_edge_def less_Suc_eq)

lemma trip_statuses: "map gv_status (goal_history (ab_goal_states trip_achieved) ''g1'' ''u1'') = [GS_CONFIRMED, GS_ACTIVE, GS_ACHIEVED]"
  by code_simp

lemma trip_length: "length (goal_history (ab_goal_states trip_achieved) ''g1'' ''u1'') = 3"
  using arg_cong [OF trip_statuses, of length] by simp

theorem goal_machine_witness:
  "map gv_version (goal_history (ab_goal_states trip_achieved) ''g1'' ''u1'') = [1, 2, 3]"
  using goal_machine [OF trip_run trip_lawful refl, of "''g1''" "''u1''"] by (simp add: trip_length numeral_3_eq_3)

lemma trip_last:
  "last (ab_goal_states trip_achieved) \<in> set (ab_goal_states trip_achieved)"
  "gv_status (gv_state (last (ab_goal_states trip_achieved))) = GS_ACHIEVED"
  "gv_goal (gv_state (last (ab_goal_states trip_achieved))) = ''g1''"
  by code_simp+

lemma trip_earned: "goals_earned trip_db"
  by (auto simp: goals_earned_def trip_db_def trip_state_def)

theorem achieved_earned_witness:
  "\<exists>e \<in> set (gd_evaluations trip_achieved). gx_goal e = ''g1'' \<and> gx_eligible e"
  using achieved_earned [OF trip_run trip_earned trip_last(1,2)] unfolding trip_last(3) by blast

end
