(* ===== verification/GoalFormation.thy ===== *)
theory GoalFormation
  imports GoalMapping Ledger
begin

text \<open>
  \<open>app/services/learning_goals.py\<close>: \<open>LearningGoalService\<close> forms, revises, confirms, adopts and maps
  the goals of the first version, over the goal repository (\<open>PlanningRecords\<close>), the mapper
  (\<open>GoalMapping\<close>) and the two ledgers (\<open>Ledger\<close>), and \<open>services/owner/canonical_identity.py\<close>.

  A command returns the new database and its result, or the exception it ends with; the caller then rolls the
  transaction back, so a failed command has no effect. The session reads the ledger it writes to. The model
  provider is \<open>ft_port\<close>: \<open>None\<close> when the service has none, and a call of it that yields \<open>None\<close> is one that
  raises; the two version texts it is also given are constants. SHA-256 over canonical JSON, \<open>UUID(s)\<close> and
  \<open>float(s)\<close> of a text, the column \<open>created_at\<close> that the database fills, and the Chinese sentences are fields of
  \<open>formation_env\<close> too. A text that \<open>float\<close> reads as no finite number is as one it refuses: neither is a score.
  Python's \<open>tuple\<close> does not occur in what JSON yields.
\<close>

section \<open>State\<close>

record formation_db =
  fm_goals :: goal_table
  fm_mappings :: mapping_table
  fm_subgraphs :: "goal_subgraph list"
  fm_inferences :: "goal_inference list"
  fm_events :: "event_row list"
  fm_ledger :: decision_ledger
  fm_documents :: "document_row list"

record port_result =
  pm_provider :: string
  pm_model :: string
  pm_snapshot :: "string option"
  pm_result :: pyval

record formation_env =
  ft_py :: pyenv
  ft_mapper :: mapper_env
  ft_hash :: "pyval \<Rightarrow> string"
  ft_uuid :: "string \<Rightarrow> uuid option"
  ft_float :: "string \<Rightarrow> float64 option"
  ft_stamp :: "learning_goal stream_row \<Rightarrow> time"
  ft_title :: "string \<Rightarrow> string"
  ft_capability :: "string \<Rightarrow> string"
  ft_adoption :: "string \<Rightarrow> string"
  ft_untitled :: string
  ft_port :: "(string \<Rightarrow> uuid list \<Rightarrow> port_result option) option"

record formation_call =
  fc_user :: string
  fc_pseudonym :: string
  fc_key :: string
  fc_correlation :: uuid
  fc_now :: time

record candidate_input =
  in_intent :: string
  in_documents :: "uuid list"
  in_context :: "string option"
  in_deadline :: "time option"
  in_weekly :: "int option"

datatype formation_error =
    LEARNING_GOAL_NOT_FOUND | LEARNING_GOAL_USER_CONFIRMATION_REQUIRED | LEARNING_GOAL_NOT_CONFIRMABLE
  | LEARNING_GOAL_INTENT_EMPTY | GOAL_MAPPING_REPLAY_MISMATCH | GOAL_MAPPING_KNOWLEDGE_GRAPH_VERSION_INVALID
  | FORMATION_CONTRACT | FLOAT_OVERFLOW | FORMATION_LEDGER ledger_error | FORMATION_SCOPE knowledge_error
  | FORMATION_MAPPING goal_mapping_error

definition GOAL_FORMATION_PROMPT_VERSION :: string where
  "GOAL_FORMATION_PROMPT_VERSION = ''goal-formation-bounded-v1''"

definition GOAL_FORMATION_OUTPUT_SCHEMA_VERSION :: string where
  "GOAL_FORMATION_OUTPUT_SCHEMA_VERSION = ''1.0''"

definition canonical_user_id :: "formation_env \<Rightarrow> string \<Rightarrow> uuid" where
  "canonical_user_id fe s =
     (case ft_uuid fe s of Some u \<Rightarrow> u | None \<Rightarrow> uuid5 (ft_py fe) (''askora:legacy-user:'' @ s))"

abbreviation caller :: "formation_env \<Rightarrow> formation_call \<Rightarrow> uuid" where
  "caller fe k \<equiv> canonical_user_id fe (fc_user k)"

section \<open>Text\<close>

text \<open>\<open>" ".join(s.split())\<close> and \<open>tuple(dict.fromkeys(xs))\<close>.\<close>

definition one_spaced :: "string \<Rightarrow> string" where
  "one_spaced s = str_join '' '' (split_words [] s)"

definition keep_first :: "'a list \<Rightarrow> 'a list" where
  "keep_first xs = rev (remdups (rev xs))"

definition bounded_text :: "pyval \<Rightarrow> string \<Rightarrow> nat \<Rightarrow> string" where
  "bounded_text v fallback limit =
     (case v of
        VStr s \<Rightarrow> if \<not> list_all is_space s then take limit (one_spaced s) else take limit fallback
      | _ \<Rightarrow> take limit fallback)"

fun bounded_item :: "pyval \<Rightarrow> string option" where
  "bounded_item (VStr s) = (let t = take 500 (one_spaced s) in if t = [] then None else Some t)"
| "bounded_item _ = None"

definition bounded_strings :: "pyval \<Rightarrow> nat \<Rightarrow> string list" where
  "bounded_strings v limit = (case v of VList xs \<Rightarrow> List.map_filter bounded_item (take limit xs) | _ \<Rightarrow> [])"

definition ascii_letter :: "char \<Rightarrow> bool" where
  "ascii_letter c = (let n = of_char c :: nat in 65 \<le> n \<and> n \<le> 90 \<or> 97 \<le> n \<and> n \<le> 122)"

definition topic_char :: "char \<Rightarrow> bool" where
  "topic_char c \<longleftrightarrow> ascii_letter c \<or> (let n = of_char c :: nat in 48 \<le> n \<and> n \<le> 57 \<or> n = 95 \<or> n = 45)"

text \<open>\<open>re.findall(r"[A-Za-z][A-Za-z0-9_-]*", s)\<close>: \<open>w\<close> is the match that is open.\<close>

fun latin_words :: "string \<Rightarrow> string \<Rightarrow> string list" where
  "latin_words w [] = (if w = [] then [] else [w])"
| "latin_words w (c # s) =
     (if w = [] \<and> ascii_letter c \<or> w \<noteq> [] \<and> topic_char c then latin_words (w @ [c]) s
      else (if w = [] then [] else [w]) @ latin_words [] s)"

text \<open>\<open>s.replace(m, " ")\<close> and what follows it, over code points.\<close>

fun blank_out :: "nat list \<Rightarrow> nat list \<Rightarrow> nat list" where
  "blank_out m [] = []"
| "blank_out m (n # ns) =
     (if prefix m (n # ns) then 32 # blank_out m (drop (length m - 1) ns) else n # blank_out m ns)"

definition topic_markers :: "nat list list" where
  "topic_markers = [[0x6211, 0x60F3], [0x5E0C, 0x671B], [0x4E86, 0x89E3], [0x719F, 0x6089], [0x770B, 0x5B8C],
     [0x80FD, 0x591F], [0x80FD], [0x5B66, 0x4E60], [0x638C, 0x63E1]]"

definition edge_mark :: "nat \<Rightarrow> bool" where
  "edge_mark n \<longleftrightarrow> n \<in> {0xFF0C, 0x3002, 0xFF1B, 0x3001, 32}"

definition join_points :: "nat list list \<Rightarrow> nat list" where
  "join_points ws = tl (concat (map (\<lambda>w. 32 # w) ws))"

definition bare_topic :: "nat list \<Rightarrow> nat list" where
  "bare_topic s =
     (let t = join_points (squeeze [] (foldl (\<lambda>t m. blank_out m t) s topic_markers))
      in rev (dropWhile edge_mark (rev (dropWhile edge_mark t))))"

definition topic_from_intent :: "string \<Rightarrow> string" where
  "topic_from_intent intent =
     (let ws = keep_first (latin_words [] intent)
      in if ws \<noteq> [] then take 200 (str_join '' '' ws)
         else let t = map char_of (bare_topic (code_points intent)) in take 200 (if t = [] then intent else t))"

section \<open>Repository\<close>

text \<open>\<open>latest_goal_for_document\<close>: the newest row of every goal of the user, the newest goal first, of which the
  first that reads the document counts.\<close>

definition latest_goal_for_document :: "formation_env \<Rightarrow> goal_table \<Rightarrow> uuid \<Rightarrow> uuid \<Rightarrow> learning_goal option" where
  "latest_goal_for_document fe rows user document =
     find (\<lambda>g. document \<in> set (lg_documents g))
       (map sw_payload (first_per sw_id
         (sort_key (\<lambda>r. (- ft_stamp fe r, - sw_version r)) (owned lg_user user rows))))"

section \<open>Forming a candidate\<close>

definition inference_input :: "string \<Rightarrow> uuid list \<Rightarrow> pyval" where
  "inference_input intent docs = VDict [(''intent'', VStr intent), (''source_document_ids'', VList (map VStr (sort docs)))]"

definition inference_id_of :: "formation_env \<Rightarrow> uuid \<Rightarrow> string \<Rightarrow> uuid list \<Rightarrow> uuid" where
  "inference_id_of fe goal intent docs = mt_uuid5 (ft_mapper fe) goal
     (''goal-formation:'' @ ft_hash fe (inference_input intent docs) @ '':'' @ GOAL_FORMATION_PROMPT_VERSION)"

definition inference_of :: "formation_env \<Rightarrow> uuid \<Rightarrow> string \<Rightarrow> uuid list \<Rightarrow> time \<Rightarrow> inference_status \<Rightarrow> string \<Rightarrow> goal_inference" where
  "inference_of fe goal intent docs now status reason =
    \<lparr>gi_id = inference_id_of fe goal intent docs, gi_schema = ''1.0'', gi_goal = goal,
     gi_digest = ft_hash fe (inference_input intent docs), gi_provider = None, gi_model = None, gi_snapshot = None,
     gi_prompt = GOAL_FORMATION_PROMPT_VERSION, gi_output_schema = GOAL_FORMATION_OUTPUT_SCHEMA_VERSION,
     gi_result = None, gi_status = status, gi_reasons = [reason], gi_created = now\<rparr>"

definition answered_by :: "port_result \<Rightarrow> goal_inference \<Rightarrow> goal_inference" where
  "answered_by r i = i\<lparr>gi_provider := Some (pm_provider r), gi_model := Some (pm_model r), gi_snapshot := pm_snapshot r\<rparr>"

definition run_model_candidate :: "formation_env \<Rightarrow> (string \<Rightarrow> uuid list \<Rightarrow> port_result option) \<Rightarrow> uuid \<Rightarrow> string \<Rightarrow>
    uuid list \<Rightarrow> time \<Rightarrow> goal_inference" where
  "run_model_candidate fe port goal intent docs now =
     (case port intent docs of
        None \<Rightarrow> inference_of fe goal intent docs now INF_UNAVAILABLE ''MAPPING_MODEL_UNAVAILABLE''
      | Some r \<Rightarrow>
          (case pm_result r of
             VDict d \<Rightarrow> (answered_by r (inference_of fe goal intent docs now INF_SUCCEEDED
                         ''GOAL_MODEL_OUTPUT_SCHEMA_ACCEPTED_AS_CANDIDATE''))\<lparr>gi_result := Some (VDict d)\<rparr>
           | _ \<Rightarrow> answered_by r (inference_of fe goal intent docs now INF_INVALID ''GOAL_MODEL_OUTPUT_INVALID'')))"

text \<open>What the model contributes: its proposal, the inference the goal names, and the reasons so far.\<close>

record model_part =
  mp_proposal :: "(string, pyval) dict"
  mp_refs :: "uuid list"
  mp_reasons :: "string list"

definition model_part :: "formation_env \<Rightarrow> goal_inference list \<Rightarrow> uuid \<Rightarrow> string \<Rightarrow> uuid list \<Rightarrow> time \<Rightarrow>
    goal_inference list \<times> model_part" where
  "model_part fe infs goal intent docs now =
     (let base = [''GOAL_FORMATION_DETERMINISTIC_FALLBACK''] in
      case ft_port fe of
        None \<Rightarrow> (infs, \<lparr>mp_proposal = [], mp_refs = [], mp_reasons = base\<rparr>)
      | Some port \<Rightarrow>
          (let (infs', i) = save_inference infs (run_model_candidate fe port goal intent docs now);
               d = (case gi_result i of Some (VDict d) \<Rightarrow> d | _ \<Rightarrow> [])
           in if gi_status i = INF_SUCCEEDED \<and> d \<noteq> []
              then (infs', \<lparr>mp_proposal = d, mp_refs = [gi_id i],
                     mp_reasons = base @ gi_reasons i @ [''GOAL_MODEL_CANDIDATE_BOUNDED_AND_PERSISTED'']\<rparr>)
              else (infs', \<lparr>mp_proposal = [], mp_refs = [gi_id i], mp_reasons = base @ gi_reasons i\<rparr>)))"

definition proposed :: "(string, pyval) dict \<Rightarrow> string \<Rightarrow> pyval" where
  "proposed d name = (case dict_get d name of None \<Rightarrow> VNone | Some v \<Rightarrow> v)"

definition loose_markers :: "nat list list" where
  "loose_markers = [[0x4E86, 0x89E3], [0x719F, 0x6089], [0x770B, 0x5B8C], code_points ''understand'']"

definition vague :: "string \<Rightarrow> bool" where
  "vague s = any_marker loose_markers (casefold s)"

text \<open>The criteria of the proposal, or the measurable one when it has none or all are vague.\<close>

definition criteria_of :: "formation_env \<Rightarrow> (string, pyval) dict \<Rightarrow> string \<Rightarrow> string \<Rightarrow> string list \<times> string list" where
  "criteria_of fe d topic intent =
     (let cs = bounded_strings (proposed d ''success_criteria'') 5
      in if cs = [] \<or> list_all vague cs
         then let (c, rs) = measurable_success_criterion (ft_mapper fe) topic intent in ([c], rs)
         else (cs, []))"

definition candidate_goal :: "formation_env \<Rightarrow> uuid \<Rightarrow> int \<Rightarrow> uuid \<Rightarrow> candidate_input \<Rightarrow> string \<Rightarrow> time \<Rightarrow> int option \<Rightarrow>
    model_part \<Rightarrow> learning_goal" where
  "candidate_goal fe goal version user inp intent now supersedes p =
     (let d = mp_proposal p;
          topic = bounded_text (proposed d ''topic'') (topic_from_intent intent) 200;
          capabilities = bounded_strings (proposed d ''target_capabilities'') 5;
          (criteria, reasons) = criteria_of fe d topic intent
      in \<lparr>lg_id = goal, lg_schema = ''1.0'', lg_version = version, lg_user = user,
          lg_title = bounded_text (proposed d ''title'') (ft_title fe topic) 200, lg_topic = topic,
          lg_capabilities = (if capabilities = [] then [ft_capability fe topic] else capabilities),
          lg_context = in_context inp, lg_criteria = criteria, lg_documents = sorted_set (in_documents inp),
          lg_deadline = in_deadline inp, lg_weekly_minutes = in_weekly inp, lg_status = GOAL_CANDIDATE,
          lg_confirmed_by_user = False, lg_created = now, lg_confirmed_at = None, lg_supersedes = supersedes,
          lg_inferences = mp_refs p,
          lg_reasons = keep_first (mp_reasons p @ reasons @
            (if proposed d ''source_document_ids'' \<noteq> VNone then [''GOAL_MODEL_SOURCE_SCOPE_IGNORED''] else []))\<rparr>)"

definition form_candidate :: "formation_env \<Rightarrow> goal_inference list \<Rightarrow> uuid \<Rightarrow> int \<Rightarrow> uuid \<Rightarrow> candidate_input \<Rightarrow> time \<Rightarrow>
    int option \<Rightarrow> formation_error + goal_inference list \<times> learning_goal" where
  "form_candidate fe infs goal version user inp now supersedes =
     (let intent = one_spaced (in_intent inp) in
      if intent = [] then Inl LEARNING_GOAL_INTENT_EMPTY
      else let (infs', p) = model_part fe infs goal intent (in_documents inp) now;
               g = candidate_goal fe goal version user inp intent now supersedes p
           in if valid_goal g then Inr (infs', g) else Inl FORMATION_CONTRACT)"

section \<open>Events and goal commands\<close>

fun v1_status_name :: "goal_status \<Rightarrow> string" where
  "v1_status_name GOAL_CANDIDATE = ''candidate''"
| "v1_status_name GOAL_CONFIRMED = ''confirmed''"
| "v1_status_name GOAL_ACTIVE = ''active''"
| "v1_status_name GOAL_ACHIEVED = ''achieved''"
| "v1_status_name GOAL_PAUSED = ''paused''"
| "v1_status_name GOAL_ARCHIVED = ''archived''"

definition confirmed_or_created :: "learning_goal \<Rightarrow> time" where
  "confirmed_or_created g = (case lg_confirmed_at g of None \<Rightarrow> lg_created g | Some t \<Rightarrow> t)"

definition goal_version_text :: "learning_goal \<Rightarrow> string" where
  "goal_version_text g = lg_id g @ '':v'' @ int_str (lg_version g)"

definition goal_event :: "formation_env \<Rightarrow> learning_goal \<Rightarrow> string \<Rightarrow> uuid \<Rightarrow> string \<Rightarrow> event_v1" where
  "goal_event fe g etype correlation key =
    \<lparr>lv_id = mt_uuid5 (ft_mapper fe) (lg_id g) (etype @ '':v'' @ int_str (lg_version g)), lv_type = etype,
     lv_aggregate_type = ''LearningGoal'', lv_aggregate_id = lg_id g, lv_aggregate_version = lg_version g,
     lv_sequence = lg_version g, lv_occurred = confirmed_or_created g, lv_recorded = confirmed_or_created g,
     lv_key = key, lv_correlation = correlation, lv_causation = None,
     lv_actor = \<lparr>ac_type = ACTOR_LEARNER, ac_id = lg_user g, ac_device = None\<rparr>,
     lv_context = \<lparr>ec_user = lg_user g, ec_session = None, ec_goal = Some (lg_id g), ec_units = [],
       ec_attempt = None, ec_contents = []\<rparr>,
     lv_payload = VDict [(''goal_ref'', VStr (''learning_goal:'' @ goal_version_text g)),
       (''status'', VStr (v1_status_name (lg_status g))), (''confirmed_by_user'', VBool (lg_confirmed_by_user g)),
       (''source_document_ids'', VList (map VStr (lg_documents g))), (''reason_codes'', VList (map VStr (lg_reasons g)))],
     lv_provenance = \<lparr>ev_source = SRC_DOMAIN, ev_provider = None, ev_model = None, ev_snapshot = None, ev_prompt = None,
       ev_prompt_version = None, ev_policy = None, ev_projection = None, ev_algorithm = Some ''goal-formation-v1''\<rparr>,
     lv_trace = \<lparr>tx_trace = ''learning-goal:'' @ goal_version_text g, tx_span = None\<rparr>,
     lv_privacy = \<lparr>px_class = CLASS_PERSONAL, px_external = (lg_inferences g \<noteq> []), px_retention = RETAIN_CORE\<rparr>\<rparr>"

definition append_goal_event :: "formation_env \<Rightarrow> formation_db \<Rightarrow> learning_goal \<Rightarrow> string \<Rightarrow> uuid \<Rightarrow> string \<Rightarrow>
    formation_error + formation_db" where
  "append_goal_event fe db g etype correlation key =
     map_sum FORMATION_LEDGER (\<lambda>(tab, _). db\<lparr>fm_events := tab\<rparr>)
       (append_event (fm_events db) (fm_events db) (goal_event fe g etype correlation key))"

text \<open>A goal version is saved under the key, then its event is appended.\<close>

definition publish_goal :: "formation_env \<Rightarrow> formation_db \<Rightarrow> formation_call \<Rightarrow> learning_goal \<Rightarrow> string \<Rightarrow> string \<Rightarrow>
    formation_error + formation_db \<times> learning_goal" where
  "publish_goal fe db k g etype tag =
     (let (rows, saved) = save_goal (fm_goals db) g (fc_key k) in
      bind_res (append_goal_event fe (db\<lparr>fm_goals := rows\<rparr>) saved etype (fc_correlation k) (tag @ fc_key k))
        (\<lambda>db'. Inr (db', saved)))"

definition publish_candidate :: "formation_env \<Rightarrow> formation_db \<Rightarrow> formation_call \<Rightarrow> uuid \<Rightarrow> int \<Rightarrow> candidate_input \<Rightarrow>
    int option \<Rightarrow> string \<Rightarrow> formation_error + formation_db \<times> learning_goal" where
  "publish_candidate fe db k goal version inp supersedes tag =
     bind_res (form_candidate fe (fm_inferences db) goal version (caller fe k) inp (fc_now k) supersedes)
       (\<lambda>(infs, g). publish_goal fe (db\<lparr>fm_inferences := infs\<rparr>) k g ''GoalCreated'' tag)"

definition create_candidate :: "formation_env \<Rightarrow> formation_db \<Rightarrow> formation_call \<Rightarrow> candidate_input \<Rightarrow>
    formation_error + formation_db \<times> learning_goal" where
  "create_candidate fe db k inp =
     (case find_goal_by_idempotency (fm_goals db) (fc_key k) of
        Some g \<Rightarrow> Inr (db, g)
      | None \<Rightarrow>
          publish_candidate fe db k (uuid5 (ft_py fe) (''askora:learning-goal:'' @ fc_user k @ '':'' @ fc_key k)) 1 inp None
            ''goal-created:'')"

definition revise_candidate :: "formation_env \<Rightarrow> formation_db \<Rightarrow> formation_call \<Rightarrow> uuid \<Rightarrow> candidate_input \<Rightarrow>
    formation_error + formation_db \<times> learning_goal" where
  "revise_candidate fe db k goal inp =
     (case find_goal_by_idempotency (fm_goals db) (fc_key k) of
        Some g \<Rightarrow> Inr (db, g)
      | None \<Rightarrow>
          (case latest_goal (fm_goals db) goal (caller fe k) of
             None \<Rightarrow> Inl LEARNING_GOAL_NOT_FOUND
           | Some prior \<Rightarrow>
               publish_candidate fe db k goal (next_goal_version (fm_goals db) goal) inp (Some (lg_version prior))
                 ''goal-revised:''))"

text \<open>\<open>model_copy\<close> of the latest version with the next one, which does not validate.\<close>

definition promoted :: "formation_db \<Rightarrow> formation_call \<Rightarrow> learning_goal \<Rightarrow> goal_status \<Rightarrow> bool \<Rightarrow> string \<Rightarrow> learning_goal" where
  "promoted db k g status by_user reason =
     g\<lparr>lg_version := next_goal_version (fm_goals db) (lg_id g), lg_status := status, lg_confirmed_by_user := by_user,
       lg_confirmed_at := Some (fc_now k), lg_created := fc_now k, lg_supersedes := Some (lg_version g),
       lg_reasons := lg_reasons g @ [reason]\<rparr>"

definition confirm_goal :: "formation_env \<Rightarrow> formation_db \<Rightarrow> formation_call \<Rightarrow> uuid \<Rightarrow> bool \<Rightarrow>
    formation_error + formation_db \<times> learning_goal" where
  "confirm_goal fe db k goal by_user =
     (if \<not> by_user then Inl LEARNING_GOAL_USER_CONFIRMATION_REQUIRED
      else case find_goal_by_idempotency (fm_goals db) (fc_key k) of
        Some g \<Rightarrow> Inr (db, g)
      | None \<Rightarrow>
          (case latest_goal (fm_goals db) goal (caller fe k) of
             None \<Rightarrow> Inl LEARNING_GOAL_NOT_FOUND
           | Some g \<Rightarrow>
               if lg_status g \<noteq> GOAL_CANDIDATE then Inl LEARNING_GOAL_NOT_CONFIRMABLE
               else publish_goal fe db k (promoted db k g GOAL_CONFIRMED True ''GOAL_EXPLICITLY_CONFIRMED_BY_USER'')
                 ''GoalConfirmed'' ''goal-confirmed:''))"

definition material_input :: "formation_env \<Rightarrow> uuid \<Rightarrow> string \<Rightarrow> candidate_input" where
  "material_input fe document title =
     (let words = one_spaced (if title = [] then ft_untitled fe else title);
          topic = (if words = [] then ft_untitled fe else words)
      in \<lparr>in_intent = ft_adoption fe topic, in_documents = [document], in_context = None, in_deadline = None,
          in_weekly = None\<rparr>)"

definition adopt_from_material :: "formation_env \<Rightarrow> formation_db \<Rightarrow> formation_call \<Rightarrow> uuid \<Rightarrow> string \<Rightarrow>
    formation_error + formation_db \<times> learning_goal" where
  "adopt_from_material fe db k document title =
     (case find_goal_by_idempotency (fm_goals db) (fc_key k) of
        Some g \<Rightarrow> Inr (db, g)
      | None \<Rightarrow>
          bind_res (case latest_goal_for_document fe (fm_goals db) (caller fe k) document of
                      Some g \<Rightarrow> Inr (db, g)
                    | None \<Rightarrow> create_candidate fe db (k\<lparr>fc_key := fc_key k @ '':candidate''\<rparr>) (material_input fe document title))
            (\<lambda>(db, g). if lg_status g \<noteq> GOAL_CANDIDATE then Inr (db, g)
               else publish_goal fe db k (promoted db k g GOAL_ACTIVE False ''GOAL_SYSTEM_ADOPTED_FROM_MATERIAL'')
                 ''GoalConfirmed'' ''goal-adopted:''))"

section \<open>Mapping a goal\<close>

text \<open>\<open>float\<close> of an integer that has no finite double raises an \<open>OverflowError\<close>, which is not caught.\<close>

definition python_float :: "formation_env \<Rightarrow> pyval \<Rightarrow> formation_error + float64 option" where
  "python_float fe v =
     (case v of
        VBool b \<Rightarrow> Inr (Some (of_bool b))
      | VInt n \<Rightarrow> if 2 ^ 1024 - 2 ^ 970 \<le> \<bar>n\<bar> then Inl FLOAT_OVERFLOW else Inr (Some (fl (of_int n)))
      | VFloat x \<Rightarrow> Inr (Some x)
      | VStr s \<Rightarrow> Inr (ft_float fe s)
      | _ \<Rightarrow> Inr None)"

definition add_score :: "formation_env \<Rightarrow> uuid list \<Rightarrow> (uuid, float64) dict \<Rightarrow> string \<times> pyval \<Rightarrow>
    formation_error + (uuid, float64) dict" where
  "add_score fe allowed d kv =
     (case ft_uuid fe (fst kv) of
        None \<Rightarrow> Inr d
      | Some i \<Rightarrow>
          bind_res (python_float fe (snd kv)) (\<lambda>x.
            case x of None \<Rightarrow> Inr d
            | Some s \<Rightarrow> Inr (if i \<in> set allowed \<and> 0 \<le> s \<and> s \<le> 1 then dict_set i s d else d)))"

fun add_scores :: "formation_env \<Rightarrow> uuid list \<Rightarrow> (uuid, float64) dict \<Rightarrow> (string \<times> pyval) list \<Rightarrow>
    formation_error + (uuid, float64) dict" where
  "add_scores fe allowed d [] = Inr d"
| "add_scores fe allowed d (kv # kvs) = bind_res (add_score fe allowed d kv) (\<lambda>d'. add_scores fe allowed d' kvs)"

definition raw_scores :: "goal_inference list \<Rightarrow> uuid \<Rightarrow> (string \<times> pyval) list" where
  "raw_scores infs i =
     (case get_inference infs i of
        None \<Rightarrow> []
      | Some x \<Rightarrow>
          (case gi_result x of
             Some (VDict d) \<Rightarrow> (case dict_get d ''semantic_scores'' of Some (VDict s) \<Rightarrow> s | _ \<Rightarrow> [])
           | _ \<Rightarrow> []))"

definition semantic_scores :: "formation_env \<Rightarrow> goal_inference list \<Rightarrow> learning_goal \<Rightarrow> goal_scope \<Rightarrow>
    formation_error + (uuid, float64) dict" where
  "semantic_scores fe infs g s =
     add_scores fe (map uw_id (gk_units s)) [] (concat (map (raw_scores infs) (lg_inferences g)))"

definition failure_reasons :: "goal_inference list \<Rightarrow> uuid \<Rightarrow> string list" where
  "failure_reasons infs i =
     (case get_inference infs i of
        None \<Rightarrow> []
      | Some x \<Rightarrow> if gi_status x \<noteq> INF_SUCCEEDED then gi_reasons x else [])"

definition model_mapping_reasons :: "goal_inference list \<Rightarrow> learning_goal \<Rightarrow> string list" where
  "model_mapping_reasons infs g = keep_first (concat (map (failure_reasons infs) (lg_inferences g)))"

definition run_mapper :: "formation_env \<Rightarrow> goal_inference list \<Rightarrow> learning_goal \<Rightarrow> goal_scope \<Rightarrow> int \<Rightarrow> time \<Rightarrow>
    formation_error + mapping_decision" where
  "run_mapper fe infs g s version now =
     bind_res (semantic_scores fe infs g s) (\<lambda>scores.
       map_sum FORMATION_MAPPING id
         (map_goal (ft_py fe) (ft_mapper fe) g s version now scores (model_mapping_reasons infs g)))"

definition knowledge_graph_snapshot_input :: "formation_env \<Rightarrow> string \<Rightarrow> formation_error + decision_input" where
  "knowledge_graph_snapshot_input fe s =
     (case split_colon [] s of
        [a, d, b, r, c, p] \<Rightarrow>
          if [a, b, c] \<noteq> [''document'', ''revision'', ''publication'']
          then Inl GOAL_MAPPING_KNOWLEDGE_GRAPH_VERSION_INVALID
          else (case (ft_uuid fe d, ft_uuid fe r, ft_uuid fe p) of
                  (Some document, Some revision, Some publication) \<Rightarrow>
                    Inr \<lparr>di_type = ''KnowledgeGraphSnapshot'', di_id = document,
                         di_version = Some (VerS (''revision:'' @ revision @ '':publication:'' @ publication))\<rparr>
                | _ \<Rightarrow> Inl GOAL_MAPPING_KNOWLEDGE_GRAPH_VERSION_INVALID)
      | _ \<Rightarrow> Inl GOAL_MAPPING_KNOWLEDGE_GRAPH_VERSION_INVALID)"

definition evidence_json :: "target_evidence \<Rightarrow> (string, pyval) dict" where
  "evidence_json e = [(''knowledge_unit_id'', VStr (te_unit e)), (''knowledge_unit_ref'', VStr (te_unit_ref e)),
     (''source_document_id'', VStr (te_document e)), (''material_revision_id'', VStr (te_revision e)),
     (''source_span_ids'', VList (map VStr (te_spans e))),
     (''rank_positions'', VDict (map (\<lambda>(name, n). (name, VInt n)) (te_ranks e))),
     (''fusion_score'', VFloat (te_score e)), (''reason_codes'', VList (map VStr (te_reasons e)))]"

fun mapping_status_name :: "mapping_status \<Rightarrow> string" where
  "mapping_status_name MAP_CANDIDATE = ''candidate''"
| "mapping_status_name MAP_CONFIRMED = ''confirmed''"
| "mapping_status_name MAP_BLOCKED = ''blocked''"
| "mapping_status_name MAP_SUPERSEDED = ''superseded''"

definition mapping_version_text :: "goal_mapping \<Rightarrow> string" where
  "mapping_version_text m = gm_id m @ '':v'' @ int_str (gm_version m)"

definition mapping_trace :: "formation_env \<Rightarrow> goal_mapping \<Rightarrow> uuid \<Rightarrow> formation_error + trace_v1" where
  "mapping_trace fe m correlation =
     bind_res (map_res (knowledge_graph_snapshot_input fe) (gm_graphs m)) (\<lambda>graphs.
       let t = \<lparr>d1_id = mt_uuid5 (ft_mapper fe) (gm_id m) (''goal-mapping-decision:v'' @ int_str (gm_version m)),
         d1_type = ''goal_knowledge_mapping'', d1_owner = LEARNING_PLANNER,
         d1_inputs = \<lparr>di_type = ''LearningGoal'', di_id = gm_goal m, di_version = Some (VerI (gm_goal_version m))\<rparr> # graphs,
         d1_candidates = map evidence_json (gm_evidence m),
         d1_selected = [(''mapping_ref'', VStr (''goal_knowledge_mapping:'' @ mapping_version_text m)),
           (''target_ids'', VList (map VStr (gm_selected m))), (''status'', VStr (mapping_status_name (gm_status m)))],
         d1_constraints =
           [[(''constraint'', VStr ''hard_source_scope''),
             (''passed'', VBool (\<not> list_ex (\<lambda>c. c \<in> set (gm_reasons m))
               [''SOURCE_SCOPE_EMPTY'', ''SOURCE_SCOPE_UNAUTHORIZED_OR_UNAVAILABLE'']))],
            [(''constraint'', VStr ''published_knowledge_only''),
             (''passed'', VBool (''CONTENT_MODEL_INCOMPLETE'' \<notin> set (gm_reasons m)))]],
         d1_reasons = gm_reasons m, d1_confidence = gm_confidence m,
         d1_algorithm = \<lparr>ag_id = ''goal_knowledge_mapper'', ag_version = gm_mapper m, ag_inferences = gm_inferences m,
           ag_prompts = (if gm_inferences m \<noteq> [] then [GOAL_FORMATION_PROMPT_VERSION] else [])\<rparr>,
         d1_experiment = \<lparr>ex_id = None, ex_variant = None, ex_propensity = None\<rparr>, d1_created = gm_created m,
         d1_correlation = correlation, d1_trace = ''goal-mapping:'' @ mapping_version_text m\<rparr>
       in if valid_trace_v1 t then Inr t else Inl FORMATION_CONTRACT)"

definition scope_for :: "formation_db \<Rightarrow> formation_call \<Rightarrow> learning_goal \<Rightarrow> formation_error + goal_scope" where
  "scope_for db k g = map_sum FORMATION_SCOPE id (load_scope (fm_documents db) (fc_pseudonym k) (lg_documents g))"

definition record_mapping :: "formation_env \<Rightarrow> formation_db \<Rightarrow> formation_call \<Rightarrow> mapping_decision \<Rightarrow>
    formation_error + formation_db \<times> mapping_decision" where
  "record_mapping fe db k d =
     (let rows = fst (save_mapping (fm_mappings db) (mo_mapping d) (fc_key k));
          subs = (case mo_subgraph d of None \<Rightarrow> fm_subgraphs db | Some g \<Rightarrow> fst (save_subgraph (fm_subgraphs db) g))
      in bind_res (mapping_trace fe (mo_mapping d) (fc_correlation k)) (\<lambda>t.
         bind_res (map_sum FORMATION_LEDGER fst (append_decision (dl_rows (fm_ledger db)) (fm_ledger db) t)) (\<lambda>ledger.
         Inr (db\<lparr>fm_mappings := rows, fm_subgraphs := subs, fm_ledger := ledger\<rparr>, d))))"

definition map_learning_goal :: "formation_env \<Rightarrow> formation_db \<Rightarrow> formation_call \<Rightarrow> uuid \<Rightarrow>
    formation_error + formation_db \<times> mapping_decision" where
  "map_learning_goal fe db k goal =
     (case find_mapping_by_idempotency (fm_mappings db) (fc_key k) of
        Some m \<Rightarrow>
          (case get_goal_version (fm_goals db) goal (gm_goal_version m) (caller fe k) of
             None \<Rightarrow> Inl LEARNING_GOAL_NOT_FOUND
           | Some g \<Rightarrow>
               bind_res (scope_for db k g) (\<lambda>s.
               bind_res (run_mapper fe (fm_inferences db) g s (gm_version m) (gm_created m)) (\<lambda>d.
               if mo_mapping d \<noteq> m then Inl GOAL_MAPPING_REPLAY_MISMATCH else Inr (db, d))))
      | None \<Rightarrow>
          (case latest_goal (fm_goals db) goal (caller fe k) of
             None \<Rightarrow> Inl LEARNING_GOAL_NOT_FOUND
           | Some g \<Rightarrow>
               bind_res (scope_for db k g) (\<lambda>s.
               bind_res (run_mapper fe (fm_inferences db) g s (next_mapping_version (fm_mappings db) (lg_id g)) (fc_now k))
                 (record_mapping fe db k))))"

end
