(* ===== verification/FormationLaws.thy ===== *)
theory FormationLaws
  imports GoalFormation
begin

text \<open>
  What the goal service of the first version keeps over every sequence of its commands: the history of every
  goal, its agreement with the event ledger, and the replay of a mapping.
\<close>

section \<open>The commands as steps\<close>

text \<open>The provider is anything at every step.\<close>

inductive formation_step :: "formation_env \<Rightarrow> formation_db \<Rightarrow> formation_db \<Rightarrow> bool" for fe where
  create: "create_candidate (fe\<lparr>ft_port := p\<rparr>) db k inp = Inr (db', g) \<Longrightarrow> formation_step fe db db'"
| revise: "revise_candidate (fe\<lparr>ft_port := p\<rparr>) db k goal inp = Inr (db', g) \<Longrightarrow> formation_step fe db db'"
| confirm: "confirm_goal (fe\<lparr>ft_port := p\<rparr>) db k goal by_user = Inr (db', g) \<Longrightarrow> formation_step fe db db'"
| adopt: "adopt_from_material (fe\<lparr>ft_port := p\<rparr>) db k document title = Inr (db', g) \<Longrightarrow> formation_step fe db db'"
| map_goal: "map_learning_goal (fe\<lparr>ft_port := p\<rparr>) db k goal = Inr (db', d) \<Longrightarrow> formation_step fe db db'"

definition formation_start :: "document_row list \<Rightarrow> formation_db" where
  "formation_start docs = \<lparr>fm_goals = [], fm_mappings = [], fm_subgraphs = [], fm_inferences = [], fm_events = [],
     fm_ledger = \<lparr>dl_rows = [], dl_inputs = []\<rparr>, fm_documents = docs\<rparr>"

lemma canonical_port [simp]: "canonical_user_id (fe\<lparr>ft_port := p\<rparr>) s = canonical_user_id fe s"
  by (cases "ft_uuid fe s") (simp_all add: canonical_user_id_def)

lemma goal_event_port [simp]: "goal_event (fe\<lparr>ft_port := p\<rparr>) g etype c key = goal_event fe g etype c key"
  by (simp add: goal_event_def)

lemma append_goal_event_port [simp]:
  "append_goal_event (fe\<lparr>ft_port := p\<rparr>) db g etype c key = append_goal_event fe db g etype c key"
  by (simp add: append_goal_event_def)

lemma publish_goal_port [simp]: "publish_goal (fe\<lparr>ft_port := p\<rparr>) db k g etype tag = publish_goal fe db k g etype tag"
  by (simp add: publish_goal_def)

section \<open>The history of a goal\<close>

text \<open>What a candidate may become: confirmed by its user, or adopted by the system, with nothing else changed.\<close>

definition promotion :: "learning_goal \<Rightarrow> learning_goal \<Rightarrow> bool" where
  "promotion p g \<longleftrightarrow> lg_status p = GOAL_CANDIDATE \<and>
     (\<exists>t status by_user reason.
        (status, by_user, reason) \<in> {(GOAL_CONFIRMED, True, ''GOAL_EXPLICITLY_CONFIRMED_BY_USER''),
          (GOAL_ACTIVE, False, ''GOAL_SYSTEM_ADOPTED_FROM_MATERIAL'')} \<and>
        g = p\<lparr>lg_version := lg_version g, lg_status := status, lg_confirmed_by_user := by_user,
          lg_confirmed_at := Some t, lg_created := t, lg_supersedes := Some (lg_version p),
          lg_reasons := lg_reasons p @ [reason]\<rparr>)"

text \<open>A new version is the next of its goal. The first is a candidate; a later one succeeds_stored a stored version
  of the same user, and is a candidate again or a promotion of it.\<close>

definition succeeds_stored :: "goal_table \<Rightarrow> learning_goal \<Rightarrow> bool" where
  "succeeds_stored pre g \<longleftrightarrow> (\<exists>r \<in> set pre. sw_id r = lg_id g \<and> lg_supersedes g = Some (lg_version (sw_payload r)) \<and>
     lg_user g = lg_user (sw_payload r) \<and> (lg_status g = GOAL_CANDIDATE \<or> promotion (sw_payload r) g))"

definition goal_growth :: "goal_table \<Rightarrow> learning_goal \<Rightarrow> bool" where
  "goal_growth pre g \<longleftrightarrow> lg_version g = stream_next pre (lg_id g) \<and>
     (if lg_id g \<in> sw_id ` set pre then succeeds_stored pre g
      else lg_supersedes g = None \<and> lg_status g = GOAL_CANDIDATE)"

definition each_grown :: "('r list \<Rightarrow> 'r \<Rightarrow> bool) \<Rightarrow> 'r list \<Rightarrow> bool" where
  "each_grown G rows \<longleftrightarrow> (\<forall>i < length rows. G (take i rows) (rows ! i))"

lemma each_grown_snoc: "each_grown G (rows @ [r]) \<longleftrightarrow> each_grown G rows \<and> G rows r"
  by (auto simp: each_grown_def nth_append less_Suc_eq)

lemma each_grown_Nil [simp]: "each_grown G []"
  by (simp add: each_grown_def)

text \<open>The event of a version: its type and its key come from one command.\<close>

definition event_tags :: "(string \<times> string) list" where
  "event_tags = [(''GoalCreated'', ''goal-created:''), (''GoalCreated'', ''goal-revised:''),
     (''GoalConfirmed'', ''goal-confirmed:''), (''GoalConfirmed'', ''goal-adopted:'')]"

definition row_event :: "formation_env \<Rightarrow> learning_goal stream_row \<Rightarrow> event_row \<Rightarrow> bool" where
  "row_event fe r e \<longleftrightarrow> (\<exists>(etype, tag) \<in> set event_tags. \<exists>c. e = EventV1 (goal_event fe (sw_payload r) etype c (tag @ sw_key r)))"

definition goals_ok :: "formation_env \<Rightarrow> formation_db \<Rightarrow> bool" where
  "goals_ok fe db \<longleftrightarrow> stream_ok lg_id lg_version (fm_goals db) \<and> distinct (map sw_key (fm_goals db)) \<and>
     distinct (map (\<lambda>r. (sw_id r, sw_version r)) (fm_goals db)) \<and>
     (\<forall>r \<in> set (fm_goals db). valid_goal (sw_payload r)) \<and>
     each_grown (\<lambda>pre r. goal_growth pre (sw_payload r)) (fm_goals db) \<and>
     list_all2 (row_event fe) (fm_goals db) (fm_events db)"

definition one_owner :: "goal_table \<Rightarrow> bool" where
  "one_owner rows \<longleftrightarrow> (\<forall>r \<in> set rows. \<forall>s \<in> set rows. sw_id r = sw_id s \<longrightarrow> lg_user (sw_payload r) = lg_user (sw_payload s))"

definition refs_in :: "goal_table \<Rightarrow> goal_inference list \<Rightarrow> bool" where
  "refs_in rows infs \<longleftrightarrow> (\<forall>r \<in> set rows. set (lg_inferences (sw_payload r)) \<subseteq> gi_id ` set infs)"

lemma one_owner_D:
  "one_owner rows \<Longrightarrow> r \<in> set rows \<Longrightarrow> s \<in> set rows \<Longrightarrow> sw_id r = sw_id s \<Longrightarrow> lg_user (sw_payload r) = lg_user (sw_payload s)"
  unfolding one_owner_def by blast

lemma one_owner_snoc:
  assumes "one_owner rows" and "\<And>r. r \<in> set rows \<Longrightarrow> sw_id r = sw_id x \<Longrightarrow> lg_user (sw_payload r) = lg_user (sw_payload x)"
  shows "one_owner (rows @ [x])"
  unfolding one_owner_def
proof (intro ballI impI)
  fix r s
  assume "r \<in> set (rows @ [x])" "s \<in> set (rows @ [x])" and e: "sw_id r = sw_id s"
  then have "(r \<in> set rows \<or> r = x) \<and> (s \<in> set rows \<or> s = x)" by auto
  then consider "r \<in> set rows" "s \<in> set rows" | "r \<in> set rows" "s = x" | "r = x" "s \<in> set rows" | "r = x" "s = x" by blast
  then show "lg_user (sw_payload r) = lg_user (sw_payload s)"
  proof cases
    case 1
    with one_owner_D [OF assms(1)] e show ?thesis by blast
  next
    case 2
    with assms(2) e show ?thesis by blast
  next
    case 3
    with assms(2) [of s] e show ?thesis by metis
  qed simp
qed

lemma refs_in_more: "refs_in rows infs \<Longrightarrow> prefix infs infs' \<Longrightarrow> refs_in rows infs'"
  unfolding refs_in_def by (meson image_mono set_mono_prefix subset_trans)

definition mappings_ok :: "formation_env \<Rightarrow> formation_db \<Rightarrow> bool" where
  "mappings_ok fe db \<longleftrightarrow> stream_ok gm_id gm_version (fm_mappings db) \<and>
     (\<forall>r \<in> set (fm_mappings db). gm_id (sw_payload r) = mt_uuid5 (ft_mapper fe) (gm_goal (sw_payload r)) ''goal-knowledge-mapping'')"

definition formation_ok :: "formation_env \<Rightarrow> formation_db \<Rightarrow> bool" where
  "formation_ok fe db \<longleftrightarrow> goals_ok fe db \<and> one_owner (fm_goals db) \<and> refs_in (fm_goals db) (fm_inferences db) \<and> mappings_ok fe db"

text \<open>What a command may do to the tables.\<close>

definition grows :: "formation_db \<Rightarrow> formation_db \<Rightarrow> bool" where
  "grows db db' \<longleftrightarrow> fm_documents db' = fm_documents db \<and> prefix (fm_goals db) (fm_goals db') \<and>
     prefix (fm_inferences db) (fm_inferences db') \<and> prefix (fm_mappings db) (fm_mappings db')"

lemma grows_refl [simp]: "grows db db"
  by (simp add: grows_def)

lemma grows_trans: "grows a b \<Longrightarrow> grows b c \<Longrightarrow> grows a c"
  by (auto simp: grows_def intro: prefix_order.trans)

subsection \<open>Publishing a version\<close>

lemma tag_key_eq: "(e, tag) \<in> set event_tags \<Longrightarrow> (e', tag') \<in> set event_tags \<Longrightarrow> tag @ s = tag' @ s' \<Longrightarrow> s = s'"
  by (auto simp: event_tags_def)

lemma row_event_facts:
  assumes "row_event fe r e"
  shows "row_aggregate e = (''LearningGoal'', lg_id (sw_payload r), lg_version (sw_payload r))"
    and "\<exists>(etype, tag) \<in> set event_tags. row_event_key e = tag @ sw_key r"
proof -
  obtain etype tag c where t: "(etype, tag) \<in> set event_tags"
    and e: "e = EventV1 (goal_event fe (sw_payload r) etype c (tag @ sw_key r))"
    using assms by (auto simp: row_event_def)
  show "row_aggregate e = (''LearningGoal'', lg_id (sw_payload r), lg_version (sw_payload r))"
    by (simp add: e goal_event_def)
  have "row_event_key e = tag @ sw_key r" by (simp add: e goal_event_def)
  with t show "\<exists>(etype, tag) \<in> set event_tags. row_event_key e = tag @ sw_key r" by blast
qed

lemma event_key_unused:
  assumes ev: "list_all2 (row_event fe) rows tab" and free: "stream_by_key rows k = None" and tag: "(etype, tag) \<in> set event_tags"
  shows "event_by_key tab (tag @ k) = None"
proof -
  have "row_event_key e \<noteq> tag @ k" if e: "e \<in> set tab" for e
  proof
    assume k: "row_event_key e = tag @ k"
    from list_all2_right [OF ev e] obtain r where r: "r \<in> set rows" "row_event fe r e" by blast
    from row_event_facts(2) [OF r(2)] obtain et tg where "(et, tg) \<in> set event_tags" "row_event_key e = tg @ sw_key r" by blast
    with k tag tag_key_eq have "sw_key r = k" by metis
    with r(1) free show False unfolding stream_by_key_def find_map_None by blast
  qed
  then show ?thesis by (force simp: event_by_key_def find_None_iff map_filter_mem elim!: as_event_v1.elims)
qed

lemma stream_at_Some: "stream_at rows i v = Some q \<Longrightarrow> \<exists>r \<in> set rows. sw_id r = i \<and> sw_version r = v \<and> sw_payload r = q"
  by (auto simp: stream_at_def find_Some_iff)

lemma map_sum_result: "map_sum f g m = Inr y \<longleftrightarrow> (\<exists>x. m = Inr x \<and> y = g x)"
  by (cases m) auto

lemma publish_goal_Inr:
  assumes ev: "list_all2 (row_event fe) (fm_goals db) (fm_events db)" and rows: "stream_ok lg_id lg_version (fm_goals db)"
    and free: "find_goal_by_idempotency (fm_goals db) (fc_key k) = None"
    and tag: "(etype, tag) \<in> set event_tags" and p: "publish_goal fe db k g etype tag = Inr (db', saved)"
  shows "saved = g \<and> stream_at (fm_goals db) (lg_id g) (lg_version g) = None \<and>
    db' = db\<lparr>fm_goals := fm_goals db @ [\<lparr>sw_id = lg_id g, sw_version = lg_version g, sw_key = fc_key k, sw_payload = g\<rparr>],
      fm_events := fm_events db @ [EventV1 (goal_event fe g etype (fc_correlation k) (tag @ fc_key k))]\<rparr>"
proof -
  have k: "stream_by_key (fm_goals db) (fc_key k) = None" using free by (simp add: find_goal_by_idempotency_def)
  obtain rows' where s: "save_goal (fm_goals db) g (fc_key k) = (rows', saved)"
    using p by (auto simp: publish_goal_def bind_res_Inr_iff split: prod.splits)
  let ?e = "goal_event fe saved etype (fc_correlation k) (tag @ fc_key k)"
  have key: "event_by_key (fm_events db) (lv_key ?e) = None"
    using event_key_unused [OF ev k tag] by (simp add: goal_event_def)
  from p s obtain tab x where a: "append_event (fm_events db) (fm_events db) ?e = Inr (tab, x)"
    and db': "db' = db\<lparr>fm_goals := rows', fm_events := tab\<rparr>"
    by (auto simp: publish_goal_def append_goal_event_def bind_res_Inr_iff map_sum_result)
  from a key have ins: "insert_event (fm_events db) (EventV1 ?e) = Some tab"
    by (auto simp: append_event_def split: option.splits)
  have new: "stream_at (fm_goals db) (lg_id g) (lg_version g) = None"
  proof (rule ccontr)
    assume "stream_at (fm_goals db) (lg_id g) (lg_version g) \<noteq> None"
    then obtain q where q: "stream_at (fm_goals db) (lg_id g) (lg_version g) = Some q" by blast
    with s k have "saved = q" by (simp add: save_goal_def stream_write_def stream_save_def)
    from stream_at_Some [OF q] obtain r where r: "r \<in> set (fm_goals db)" "sw_payload r = q" by blast
    from list_all2_left [OF ev r(1)] obtain y where y: "y \<in> set (fm_events db)" "row_event fe r y" by blast
    from row_event_facts(1) [OF y(2)] r(2) \<open>saved = q\<close> have "row_aggregate y = row_aggregate (EventV1 ?e)"
      by (simp add: goal_event_def)
    with y(1) ins show False by (auto simp: insert_event_def list_ex_iff event_clash_def split: if_splits)
  qed
  from ins have "tab = fm_events db @ [EventV1 ?e]" by (auto simp: insert_event_def split: if_splits)
  with s k new db' show ?thesis
    by (auto simp: save_goal_def stream_write_def stream_save_def)
qed

text \<open>The versions of a goal are 1, 2, 3 and so on, in the order of the table.\<close>

definition versions_of :: "goal_table \<Rightarrow> uuid \<Rightarrow> int list" where
  "versions_of rows i = map sw_version (filter (\<lambda>r. sw_id r = i) rows)"

lemma stream_next_versions:
  assumes "versions_of rows i = map (\<lambda>j. int j + 1) [0..<n]"
  shows "stream_next rows i = int n + 1"
proof -
  have set: "sw_version ` set (filter (\<lambda>r. sw_id r = i) rows) = (\<lambda>j. int j + 1) ` {0..<n}"
    using arg_cong [OF assms, of set] by (simp add: versions_of_def)
  have len: "length (filter (\<lambda>r. sw_id r = i) rows) = n" using arg_cong [OF assms, of length] by (simp add: versions_of_def)
  show ?thesis
  proof (cases n)
    case 0
    with len show ?thesis by (simp add: stream_next_def version_after_def)
  next
    case (Suc m)
    with len have "filter (\<lambda>r. sw_id r = i) rows \<noteq> []" by auto
    moreover have "Max ((\<lambda>j. int j + 1) ` {0..<n}) = int n" using Suc by (intro Max_eqI) auto
    ultimately show ?thesis by (simp only: stream_next_def version_after_def set if_False)
  qed
qed

lemma versions_consecutive:
  "stream_ok lg_id lg_version rows \<Longrightarrow> each_grown (\<lambda>pre r. goal_growth pre (sw_payload r)) rows \<Longrightarrow>
   \<exists>n. versions_of rows i = map (\<lambda>j. int j + 1) [0..<n]"
proof (induction rows rule: rev_induct)
  case Nil
  show ?case by (intro exI [of _ 0]) (simp add: versions_of_def)
next
  case (snoc r rows)
  from snoc.prems(1) have ok: "stream_ok lg_id lg_version rows" and r: "sw_id r = lg_id (sw_payload r)" "sw_version r = lg_version (sw_payload r)"
    by (auto simp: stream_ok_def)
  from snoc.prems(2) have g: "each_grown (\<lambda>pre r. goal_growth pre (sw_payload r)) rows" "goal_growth rows (sw_payload r)"
    by (auto simp: each_grown_snoc)
  from snoc.IH [OF ok g(1)] obtain n where n: "versions_of rows i = map (\<lambda>j. int j + 1) [0..<n]" by blast
  show ?case
  proof (cases "sw_id r = i")
    case True
    with g(2) r stream_next_versions [OF n] have "sw_version r = int n + 1" by (simp add: goal_growth_def)
    with True n show ?thesis by (intro exI [of _ "Suc n"]) (simp add: versions_of_def)
  next
    case False
    with n show ?thesis by (intro exI [of _ n]) (simp add: versions_of_def)
  qed
qed

lemma first_version_stored:
  assumes "goals_ok fe db" and "i \<in> sw_id ` set (fm_goals db)"
  shows "stream_at (fm_goals db) i 1 \<noteq> None"
proof -
  from assms(1) versions_consecutive obtain n where n: "versions_of (fm_goals db) i = map (\<lambda>j. int j + 1) [0..<n]"
    unfolding goals_ok_def by blast
  from assms(2) have "versions_of (fm_goals db) i \<noteq> []" by (auto simp: versions_of_def filter_empty_conv)
  with n have "0 < n" by auto
  then have "(\<lambda>j. int j + 1) 0 \<in> (\<lambda>j. int j + 1) ` {0..<n}" by (intro imageI) simp
  then have "(1::int) \<in> set (versions_of (fm_goals db) i)" unfolding n set_map set_upt by simp
  then obtain r where "r \<in> set (fm_goals db)" "sw_id r = i" "sw_version r = 1" by (auto simp: versions_of_def)
  then show ?thesis unfolding stream_at_def find_map_None by blast
qed

text \<open>One row, under the key, was added.\<close>

definition added :: "string \<Rightarrow> formation_db \<Rightarrow> formation_db \<Rightarrow> bool" where
  "added key db db' \<longleftrightarrow> (\<exists>r. sw_key r = key \<and> fm_goals db' = fm_goals db @ [r])"

lemma added_free:
  "added key db db' \<Longrightarrow> key \<noteq> key' \<Longrightarrow> find_goal_by_idempotency (fm_goals db) key' = None \<Longrightarrow>
   find_goal_by_idempotency (fm_goals db') key' = None"
  by (auto simp: added_def find_goal_by_idempotency_def stream_by_key_def find_snoc)

lemma publish_goal_ok:
  assumes ok: "formation_ok fe db" and free: "find_goal_by_idempotency (fm_goals db) (fc_key k) = None"
    and tag: "(etype, tag) \<in> set event_tags" and p: "publish_goal fe db k g etype tag = Inr (db', saved)"
    and valid: "valid_goal g" and growth: "goal_growth (fm_goals db) g"
    and refs: "set (lg_inferences g) \<subseteq> gi_id ` set (fm_inferences db)"
  shows "formation_ok fe db' \<and> grows db db' \<and> saved = g \<and> added (fc_key k) db db'"
proof -
  let ?r = "\<lparr>sw_id = lg_id g, sw_version = lg_version g, sw_key = fc_key k, sw_payload = g\<rparr>"
  have g: "goals_ok fe db" and o: "one_owner (fm_goals db)" and f: "refs_in (fm_goals db) (fm_inferences db)" and m: "mappings_ok fe db"
    using ok by (auto simp: formation_ok_def)
  from publish_goal_Inr [OF _ _ free tag p] g
  have s: "saved = g" and new: "stream_at (fm_goals db) (lg_id g) (lg_version g) = None"
    and db': "fm_goals db' = fm_goals db @ [?r]" "fm_inferences db' = fm_inferences db" "fm_mappings db' = fm_mappings db"
      "fm_documents db' = fm_documents db"
      "fm_events db' = fm_events db @ [EventV1 (goal_event fe g etype (fc_correlation k) (tag @ fc_key k))]"
    by (auto simp: goals_ok_def)
  have "fc_key k \<notin> sw_key ` set (fm_goals db)"
    using free unfolding find_goal_by_idempotency_def stream_by_key_def find_map_None by auto
  moreover have "(lg_id g, lg_version g) \<notin> (\<lambda>r. (sw_id r, sw_version r)) ` set (fm_goals db)"
    using new unfolding stream_at_def find_map_None by auto
  moreover have "row_event fe ?r (EventV1 (goal_event fe g etype (fc_correlation k) (tag @ fc_key k)))"
    using tag by (auto simp: row_event_def)
  ultimately have "goals_ok fe db'" using g valid growth
    by (auto simp: goals_ok_def db' each_grown_snoc stream_ok_def list_all2_appendI)
  moreover have "one_owner (fm_goals db')" unfolding db'
  proof (rule one_owner_snoc [OF o])
    fix r
    assume r: "r \<in> set (fm_goals db)" "sw_id r = sw_id ?r"
    then have "lg_id g \<in> sw_id ` set (fm_goals db)" by (metis image_eqI stream_row.select_convs(1))
    with growth have "succeeds_stored (fm_goals db) g" by (simp add: goal_growth_def)
    then obtain x where x: "x \<in> set (fm_goals db)" "sw_id x = lg_id g" "lg_user g = lg_user (sw_payload x)"
      by (auto simp: succeeds_stored_def)
    with one_owner_D [OF o r(1) x(1)] r(2) show "lg_user (sw_payload r) = lg_user (sw_payload ?r)" by simp
  qed
  moreover have "refs_in (fm_goals db') (fm_inferences db')" using f refs by (auto simp: refs_in_def db')
  moreover have "mappings_ok fe db'" using m by (simp add: mappings_ok_def db')
  ultimately show ?thesis by (simp add: formation_ok_def grows_def db' s added_def)
qed


subsection \<open>What the commands publish\<close>

lemma save_inference_facts:
  assumes "save_inference infs i = (infs', j)"
  shows "prefix infs infs'" and "j \<in> set infs'" and "gi_id j = gi_id i"
  using assms by (auto simp: save_inference_def find_Some_iff split: option.splits)

lemma model_part_facts:
  assumes "model_part fe infs goal intent docs now = (infs', p)"
  shows "prefix infs infs'" and "set (mp_refs p) \<subseteq> gi_id ` set infs'"
proof -
  have "prefix infs infs' \<and> set (mp_refs p) \<subseteq> gi_id ` set infs'"
  proof (cases "ft_port fe")
    case None
    with assms show ?thesis by (auto simp: model_part_def Let_def)
  next
    case (Some port)
    obtain infs1 i where s: "save_inference infs (run_model_candidate fe port goal intent docs now) = (infs1, i)" by fastforce
    from save_inference_facts(1,2) [OF s] assms s Some show ?thesis
      by (auto simp: model_part_def Let_def split: if_splits)
  qed
  then show "prefix infs infs'" "set (mp_refs p) \<subseteq> gi_id ` set infs'" by auto
qed

lemma form_candidate_Inr:
  assumes "form_candidate fe infs goal version user inp now supersedes = Inr (infs', g)"
  obtains p where "one_spaced (in_intent inp) \<noteq> []"
    and "model_part fe infs goal (one_spaced (in_intent inp)) (in_documents inp) now = (infs', p)"
    and "g = candidate_goal fe goal version user inp (one_spaced (in_intent inp)) now supersedes p" and "valid_goal g"
  using assms by (auto simp: form_candidate_def Let_def split: if_splits prod.splits)

lemma candidate_goal_facts:
  "lg_id (candidate_goal fe goal version user inp intent now supersedes p) = goal"
  "lg_version (candidate_goal fe goal version user inp intent now supersedes p) = version"
  "lg_user (candidate_goal fe goal version user inp intent now supersedes p) = user"
  "lg_status (candidate_goal fe goal version user inp intent now supersedes p) = GOAL_CANDIDATE"
  "lg_supersedes (candidate_goal fe goal version user inp intent now supersedes p) = supersedes"
  "lg_inferences (candidate_goal fe goal version user inp intent now supersedes p) = mp_refs p"
  "lg_documents (candidate_goal fe goal version user inp intent now supersedes p) = sorted_set (in_documents inp)"
  by (simp_all add: candidate_goal_def Let_def split: prod.splits)

lemma more_inferences:
  assumes "formation_ok fe db" and "prefix (fm_inferences db) infs"
  shows "formation_ok fe (db\<lparr>fm_inferences := infs\<rparr>)" and "grows db (db\<lparr>fm_inferences := infs\<rparr>)"
proof -
  from assms show "formation_ok fe (db\<lparr>fm_inferences := infs\<rparr>)"
    by (auto simp: formation_ok_def goals_ok_def mappings_ok_def intro: refs_in_more)
  show "grows db (db\<lparr>fm_inferences := infs\<rparr>)" using assms(2) by (simp add: grows_def)
qed

lemma publish_candidate_ok:
  assumes ok: "formation_ok fe db" and free: "find_goal_by_idempotency (fm_goals db) (fc_key k) = None"
    and tag: "(''GoalCreated'', tag) \<in> set event_tags"
    and p: "publish_candidate (fe\<lparr>ft_port := port\<rparr>) db k goal version inp supersedes tag = Inr (db', saved)"
    and growth: "\<And>g. lg_id g = goal \<Longrightarrow> lg_version g = version \<Longrightarrow> lg_user g = caller fe k \<Longrightarrow> lg_status g = GOAL_CANDIDATE \<Longrightarrow>
      lg_supersedes g = supersedes \<Longrightarrow> stream_at (fm_goals db) goal version = None \<Longrightarrow> goal_growth (fm_goals db) g"
  shows "formation_ok fe db' \<and> grows db db' \<and> (\<exists>r \<in> set (fm_goals db'). sw_payload r = saved) \<and> added (fc_key k) db db'"
proof -
  from p obtain infs g where f: "form_candidate (fe\<lparr>ft_port := port\<rparr>) (fm_inferences db) goal version (caller fe k) inp (fc_now k) supersedes = Inr (infs, g)"
    and q: "publish_goal fe (db\<lparr>fm_inferences := infs\<rparr>) k g ''GoalCreated'' tag = Inr (db', saved)"
    by (auto simp: publish_candidate_def bind_res_Inr_iff)
  from form_candidate_Inr [OF f] obtain p where mp: "model_part (fe\<lparr>ft_port := port\<rparr>) (fm_inferences db) goal (one_spaced (in_intent inp)) (in_documents inp) (fc_now k) = (infs, p)"
    and g: "g = candidate_goal (fe\<lparr>ft_port := port\<rparr>) goal version (caller fe k) inp (one_spaced (in_intent inp)) (fc_now k) supersedes p"
    and v: "valid_goal g" by metis
  note mp = model_part_facts [OF mp]
  note ok1 = more_inferences [OF ok mp(1)]
  have gf: "lg_id g = goal" "lg_version g = version" "lg_user g = caller fe k" "lg_status g = GOAL_CANDIDATE"
    "lg_supersedes g = supersedes" "lg_inferences g = mp_refs p"
    by (simp_all add: g candidate_goal_facts)
  have free1: "find_goal_by_idempotency (fm_goals (db\<lparr>fm_inferences := infs\<rparr>)) (fc_key k) = None" using free by simp
  from ok1(1) have ev: "list_all2 (row_event fe) (fm_goals (db\<lparr>fm_inferences := infs\<rparr>)) (fm_events (db\<lparr>fm_inferences := infs\<rparr>))"
    "stream_ok lg_id lg_version (fm_goals (db\<lparr>fm_inferences := infs\<rparr>))"
    by (simp_all add: formation_ok_def goals_ok_def)
  from publish_goal_Inr [OF ev free1 tag q] gf have new: "stream_at (fm_goals db) goal version = None"
    and rows: "saved = g" "\<exists>r \<in> set (fm_goals db'). sw_payload r = g"
    by auto
  have "goal_growth (fm_goals (db\<lparr>fm_inferences := infs\<rparr>)) g" using growth [OF gf(1-5) new] by simp
  from publish_goal_ok [OF ok1(1) free1 tag q v this] mp(2) gf(6) have "formation_ok fe db' \<and> grows (db\<lparr>fm_inferences := infs\<rparr>) db' \<and> added (fc_key k) db db'"
    by (simp add: added_def)
  with grows_trans [OF ok1(2)] rows show ?thesis by blast
qed

lemma find_goal_stored: "find_goal_by_idempotency rows key = Some g \<Longrightarrow> \<exists>r \<in> set rows. sw_payload r = g"
  by (auto simp: find_goal_by_idempotency_def stream_by_key_def find_Some_iff)

lemma stream_next_fresh: "i \<notin> sw_id ` set rows \<Longrightarrow> stream_next rows i = 1"
proof -
  assume "i \<notin> sw_id ` set rows"
  then have "filter (\<lambda>r. sw_id r = i) rows = []" by (metis (mono_tags, lifting) filter_False image_eqI)
  then show ?thesis by (simp add: stream_next_def version_after_def)
qed

lemma create_candidate_ok:
  assumes ok: "formation_ok fe db" and c: "create_candidate (fe\<lparr>ft_port := port\<rparr>) db k inp = Inr (db', g)"
  shows "formation_ok fe db' \<and> grows db db' \<and> (\<exists>r \<in> set (fm_goals db'). sw_payload r = g) \<and>
    (db' = db \<or> added (fc_key k) db db')"
proof (cases "find_goal_by_idempotency (fm_goals db) (fc_key k)")
  case (Some x)
  with c ok find_goal_stored show ?thesis by (auto simp: create_candidate_def)
next
  case None
  let ?i = "uuid5 (ft_py fe) (''askora:learning-goal:'' @ fc_user k @ '':'' @ fc_key k)"
  from c None have p: "publish_candidate (fe\<lparr>ft_port := port\<rparr>) db k ?i 1 inp None ''goal-created:'' = Inr (db', g)"
    by (simp add: create_candidate_def)
  have ok': "goals_ok fe db" using ok by (simp add: formation_ok_def)
  have "goal_growth (fm_goals db) x" if "lg_id x = ?i" "lg_version x = 1" "lg_status x = GOAL_CANDIDATE"
      "lg_supersedes x = None" "stream_at (fm_goals db) ?i 1 = None" for x
  proof -
    from first_version_stored [OF ok', of ?i] that(5) have "?i \<notin> sw_id ` set (fm_goals db)" by blast
    with stream_next_fresh [OF this] that show ?thesis by (simp add: goal_growth_def)
  qed
  with publish_candidate_ok [OF ok None _ p] show ?thesis by (simp add: event_tags_def)
qed

lemma latest_goal_row:
  assumes "latest_goal rows goal user = Some p"
  shows "\<exists>r \<in> set rows. sw_id r = goal \<and> sw_payload r = p \<and> lg_user p = user"
  using assms by (auto simp: latest_goal_def stream_latest_def owned_def dest!: latest_by_Some)

lemma revise_candidate_ok:
  assumes ok: "formation_ok fe db" and c: "revise_candidate (fe\<lparr>ft_port := port\<rparr>) db k goal inp = Inr (db', g)"
  shows "formation_ok fe db' \<and> grows db db' \<and> (\<exists>r \<in> set (fm_goals db'). sw_payload r = g) \<and>
    (db' = db \<or> added (fc_key k) db db')"
proof (cases "find_goal_by_idempotency (fm_goals db) (fc_key k)")
  case (Some x)
  with c ok find_goal_stored show ?thesis by (auto simp: revise_candidate_def)
next
  case None
  with c obtain prior where l: "latest_goal (fm_goals db) goal (caller fe k) = Some prior"
    and p: "publish_candidate (fe\<lparr>ft_port := port\<rparr>) db k goal (next_goal_version (fm_goals db) goal) inp
      (Some (lg_version prior)) ''goal-revised:'' = Inr (db', g)"
    by (auto simp: revise_candidate_def split: option.splits)
  from latest_goal_row [OF l] obtain r where r: "r \<in> set (fm_goals db)" "sw_id r = goal" "sw_payload r = prior" "lg_user prior = caller fe k"
    by blast
  have "goal_growth (fm_goals db) x" if "lg_id x = goal" "lg_version x = next_goal_version (fm_goals db) goal"
      "lg_user x = caller fe k" "lg_status x = GOAL_CANDIDATE" "lg_supersedes x = Some (lg_version prior)" for x
  proof -
    have "succeeds_stored (fm_goals db) x" unfolding succeeds_stored_def using that r by (intro bexI [of _ r]) auto
    moreover have "lg_id x \<in> sw_id ` set (fm_goals db)" using that(1) r(1,2) by (metis image_eqI)
    ultimately show ?thesis using that by (simp add: goal_growth_def next_goal_version_def)
  qed
  with publish_candidate_ok [OF ok None _ p] show ?thesis by (simp add: event_tags_def)
qed

definition promotes :: "goal_status \<Rightarrow> bool \<Rightarrow> string \<Rightarrow> bool" where
  "promotes status by_user reason \<longleftrightarrow> (status, by_user, reason) \<in>
     {(GOAL_CONFIRMED, True, ''GOAL_EXPLICITLY_CONFIRMED_BY_USER''), (GOAL_ACTIVE, False, ''GOAL_SYSTEM_ADOPTED_FROM_MATERIAL'')}"

lemma promoted_facts:
  "lg_id (promoted db k g status by_user reason) = lg_id g"
  "lg_version (promoted db k g status by_user reason) = next_goal_version (fm_goals db) (lg_id g)"
  "lg_user (promoted db k g status by_user reason) = lg_user g"
  "lg_supersedes (promoted db k g status by_user reason) = Some (lg_version g)"
  "lg_inferences (promoted db k g status by_user reason) = lg_inferences g"
  by (simp_all add: promoted_def)

lemma promoted_promotion:
  assumes "lg_status g = GOAL_CANDIDATE" and "promotes status by_user reason"
  shows "promotion g (promoted db k g status by_user reason)"
  unfolding promotion_def
  using assms by (intro conjI exI [of _ "fc_now k"] exI [of _ status] exI [of _ by_user] exI [of _ reason])
    (simp_all add: promotes_def promoted_def)

lemma promoted_valid:
  assumes "valid_goal g" and "promotes status by_user reason" and "1 \<le> next_goal_version (fm_goals db) (lg_id g)"
  shows "valid_goal (promoted db k g status by_user reason)"
  using assms by (auto simp: valid_goal_def goal_fields_ok_def confirmation_ok_def promoted_def promotes_def at_least_def)

lemma next_goal_version_positive:
  assumes "goals_ok fe db"
  shows "1 \<le> next_goal_version (fm_goals db) i"
proof -
  from assms versions_consecutive obtain n where "versions_of (fm_goals db) i = map (\<lambda>j. int j + 1) [0..<n]"
    unfolding goals_ok_def by blast
  from stream_next_versions [OF this] show ?thesis by (simp add: next_goal_version_def)
qed

lemma publish_promoted_ok:
  assumes ok: "formation_ok fe db" and free: "find_goal_by_idempotency (fm_goals db) (fc_key k) = None"
    and tag: "(etype, tag) \<in> set event_tags" and r: "r \<in> set (fm_goals db)" "sw_payload r = g"
    and g: "lg_status g = GOAL_CANDIDATE" "promotes status by_user reason"
    and p: "publish_goal fe db k (promoted db k g status by_user reason) etype tag = Inr (db', saved)"
  shows "formation_ok fe db' \<and> grows db db'"
proof -
  let ?g = "promoted db k g status by_user reason"
  have gok: "goals_ok fe db" "refs_in (fm_goals db) (fm_inferences db)" using ok by (auto simp: formation_ok_def)
  have i: "sw_id r = lg_id g" using gok(1) r by (auto simp: goals_ok_def stream_ok_def)
  have "succeeds_stored (fm_goals db) ?g" unfolding succeeds_stored_def
    using r i promoted_promotion [OF g] by (intro bexI [of _ r]) (simp_all add: promoted_facts)
  moreover have "lg_id ?g \<in> sw_id ` set (fm_goals db)" using r i by (metis image_eqI promoted_facts(1))
  ultimately have "goal_growth (fm_goals db) ?g" by (simp add: goal_growth_def promoted_facts next_goal_version_def)
  moreover have "valid_goal ?g" using gok r next_goal_version_positive [OF gok(1)]
    by (intro promoted_valid g(2)) (auto simp: goals_ok_def)
  moreover have "set (lg_inferences ?g) \<subseteq> gi_id ` set (fm_inferences db)"
    using gok(2) r by (auto simp: refs_in_def promoted_facts)
  ultimately show ?thesis using publish_goal_ok [OF ok free tag p] by blast
qed

lemma confirm_goal_ok:
  assumes ok: "formation_ok fe db" and c: "confirm_goal (fe\<lparr>ft_port := port\<rparr>) db k goal by_user = Inr (db', g)"
  shows "formation_ok fe db' \<and> grows db db'"
proof (cases "find_goal_by_idempotency (fm_goals db) (fc_key k)")
  case (Some x)
  with c ok show ?thesis by (auto simp: confirm_goal_def split: if_splits)
next
  case None
  with c obtain x where l: "latest_goal (fm_goals db) goal (caller fe k) = Some x" and st: "lg_status x = GOAL_CANDIDATE"
    and p: "publish_goal fe db k (promoted db k x GOAL_CONFIRMED True ''GOAL_EXPLICITLY_CONFIRMED_BY_USER'')
      ''GoalConfirmed'' ''goal-confirmed:'' = Inr (db', g)"
    by (auto simp: confirm_goal_def split: option.splits if_splits)
  from latest_goal_row [OF l] obtain r where r: "r \<in> set (fm_goals db)" "sw_payload r = x" by blast
  from publish_promoted_ok [OF ok None _ r st _ p] show ?thesis by (simp add: event_tags_def promotes_def)
qed

lemma first_per_mem: "r \<in> set (first_per k xs) \<Longrightarrow> r \<in> set xs"
  by (induction k xs rule: first_per.induct) auto

lemma latest_goal_for_document_row:
  assumes "latest_goal_for_document fe rows user document = Some g"
  shows "\<exists>r \<in> set rows. sw_payload r = g \<and> lg_user g = user"
proof -
  let ?rs = "first_per sw_id (sort_key (\<lambda>r. (- ft_stamp fe r, - sw_version r)) (owned lg_user user rows))"
  from assms have "g \<in> set (map sw_payload ?rs)" unfolding latest_goal_for_document_def by (blast dest: first_match_Some [unfolded first_match_def])
  then obtain r where r: "r \<in> set ?rs" "g = sw_payload r" unfolding set_map by blast
  from first_per_mem [OF r(1)] r(2) show ?thesis by (auto simp: owned_def)
qed

lemma adopt_from_material_ok:
  assumes ok: "formation_ok fe db" and c: "adopt_from_material (fe\<lparr>ft_port := port\<rparr>) db k document title = Inr (db', g)"
  shows "formation_ok fe db' \<and> grows db db'"
proof (cases "find_goal_by_idempotency (fm_goals db) (fc_key k)")
  case (Some x)
  with c ok show ?thesis by (auto simp: adopt_from_material_def)
next
  case None
  let ?k = "k\<lparr>fc_key := fc_key k @ '':candidate''\<rparr>"
  let ?first = "case latest_goal_for_document (fe\<lparr>ft_port := port\<rparr>) (fm_goals db) (caller fe k) document of
      Some g \<Rightarrow> Inr (db, g)
    | None \<Rightarrow> create_candidate (fe\<lparr>ft_port := port\<rparr>) db ?k (material_input (fe\<lparr>ft_port := port\<rparr>) document title)"
  from c None obtain db1 x where f: "?first = Inr (db1, x)"
    and rest: "(if lg_status x \<noteq> GOAL_CANDIDATE then Inr (db1, x)
      else publish_goal (fe\<lparr>ft_port := port\<rparr>) db1 k (promoted db1 k x GOAL_ACTIVE False ''GOAL_SYSTEM_ADOPTED_FROM_MATERIAL'')
        ''GoalConfirmed'' ''goal-adopted:'') = Inr (db', g)"
    by (auto simp: adopt_from_material_def bind_res_Inr_iff)
  have db1: "formation_ok fe db1 \<and> grows db db1 \<and> (\<exists>r \<in> set (fm_goals db1). sw_payload r = x) \<and>
      find_goal_by_idempotency (fm_goals db1) (fc_key k) = None"
  proof (cases "latest_goal_for_document (fe\<lparr>ft_port := port\<rparr>) (fm_goals db) (caller fe k) document")
    case (Some y)
    with f ok None latest_goal_for_document_row [OF Some] show ?thesis by auto
  next
    case n: None
    with f have "create_candidate (fe\<lparr>ft_port := port\<rparr>) db ?k (material_input (fe\<lparr>ft_port := port\<rparr>) document title) = Inr (db1, x)"
      by simp
    from create_candidate_ok [OF ok this] added_free [of "fc_key ?k" db db1 "fc_key k"] None show ?thesis by auto
  qed
  then obtain r where r: "r \<in> set (fm_goals db1)" "sw_payload r = x" by blast
  show ?thesis
  proof (cases "lg_status x = GOAL_CANDIDATE")
    case True
    with rest have p: "publish_goal fe db1 k (promoted db1 k x GOAL_ACTIVE False ''GOAL_SYSTEM_ADOPTED_FROM_MATERIAL'')
        ''GoalConfirmed'' ''goal-adopted:'' = Inr (db', g)" by simp
    from db1 have ok1: "formation_ok fe db1" and n: "find_goal_by_idempotency (fm_goals db1) (fc_key k) = None" by auto
    from publish_promoted_ok [OF ok1 n _ r True _ p] db1 show ?thesis
      by (auto simp: event_tags_def promotes_def intro: grows_trans)
  next
    case False
    with rest db1 show ?thesis by simp
  qed
qed

subsection \<open>Mappings\<close>

text \<open>What every branch of the mapper sets alike.\<close>

definition mapping_head :: "mapper_env \<Rightarrow> learning_goal \<Rightarrow> goal_scope \<Rightarrow> int \<Rightarrow> time \<Rightarrow> goal_mapping \<Rightarrow> bool" where
  "mapping_head me g s v now m \<longleftrightarrow> gm_id m = mt_uuid5 me (lg_id g) ''goal-knowledge-mapping'' \<and> gm_version m = v \<and>
     gm_goal m = lg_id g \<and> gm_goal_version m = lg_version g \<and> gm_created m = now \<and> gm_graphs m = gk_graphs s"

lemma mapping_of_head: "mapping_head me g s v now (mapping_of me g s v now st es sel c rs q)"
  by (simp add: mapping_head_def mapping_of_def)

lemma blocked_mapping_head: "blocked_mapping me g s v now rs q = Inr d \<Longrightarrow> mapping_head me g s v now (mo_mapping d)"
  by (auto simp: blocked_mapping_def unmapped_Inr mapping_of_head)

lemma map_goal_head:
  assumes "map_goal env me g s v now semantic base = Inr d"
  shows "mapping_head me g s v now (mo_mapping d)"
proof (cases "lg_documents g = [] \<or> gk_authorized s = [] \<or> gk_missing s \<noteq> []")
  case True
  with assms show ?thesis by (auto simp: map_goal_def Let_def intro: blocked_mapping_head split: if_splits)
next
  case False
  then have f: "lg_documents g \<noteq> []" "gk_authorized s \<noteq> []" "gk_missing s = []" by auto
  have sel: "mapping_head me g s v now (selected_mapping me g s v now base es)" for es
    by (simp add: selected_mapping_def Let_def mapping_of_head)
  from assms f show ?thesis
    by (auto simp: map_goal_def Let_def bind_res_Inr_iff unmapped_Inr checked_mapping_def mapping_of_head sel
        intro: blocked_mapping_head split: if_splits)
qed

lemma run_mapper_head:
  "run_mapper fe infs g s v now = Inr d \<Longrightarrow> mapping_head (ft_mapper fe) g s v now (mo_mapping d)"
  by (auto simp: run_mapper_def bind_res_Inr_iff map_sum_result intro: map_goal_head)

text \<open>The mapper depends on the inferences the goal names only, and not on the provider.\<close>

lemma python_float_port [simp]: "python_float (fe\<lparr>ft_port := p\<rparr>) v = python_float fe v"
  by (cases v) (simp_all add: python_float_def)

lemma add_score_port [simp]: "add_score (fe\<lparr>ft_port := p\<rparr>) allowed d kv = add_score fe allowed d kv"
  by (cases "ft_uuid fe (fst kv)") (simp_all add: add_score_def)

lemma add_scores_port [simp]: "add_scores (fe\<lparr>ft_port := p\<rparr>) allowed d kvs = add_scores fe allowed d kvs"
  by (induction kvs arbitrary: d) simp_all

lemma run_mapper_port [simp]: "run_mapper (fe\<lparr>ft_port := p\<rparr>) infs g s v now = run_mapper fe infs g s v now"
  by (simp add: run_mapper_def semantic_scores_def)

lemma run_mapper_inferences:
  assumes "\<And>i. i \<in> set (lg_inferences g) \<Longrightarrow> get_inference infs' i = get_inference infs i"
  shows "run_mapper fe infs' g s v now = run_mapper fe infs g s v now"
proof -
  have "map (raw_scores infs') (lg_inferences g) = map (raw_scores infs) (lg_inferences g)"
    "map (failure_reasons infs') (lg_inferences g) = map (failure_reasons infs) (lg_inferences g)"
    using assms by (simp_all add: raw_scores_def failure_reasons_def)
  then show ?thesis by (simp only: run_mapper_def semantic_scores_def model_mapping_reasons_def)
qed

lemma find_prefix: "prefix xs ys \<Longrightarrow> find P xs = Some x \<Longrightarrow> find P ys = Some x"
proof (elim prefixE)
  fix zs
  assume "find P xs = Some x" "ys = xs @ zs"
  then show ?thesis by (induction xs arbitrary: ys) (auto split: if_splits)
qed

lemma get_inference_prefix:
  "prefix infs infs' \<Longrightarrow> i \<in> gi_id ` set infs \<Longrightarrow> get_inference infs' i = get_inference infs i"
  unfolding get_inference_def by (cases "find (\<lambda>r. gi_id r = i) infs") (auto simp: find_None_iff dest: find_prefix)

lemma snapshot_input_port [simp]: "knowledge_graph_snapshot_input (fe\<lparr>ft_port := p\<rparr>) = knowledge_graph_snapshot_input fe"
proof
  fix s
  have "ft_uuid (fe\<lparr>ft_port := p\<rparr>) = ft_uuid fe" by simp
  then show "knowledge_graph_snapshot_input (fe\<lparr>ft_port := p\<rparr>) s = knowledge_graph_snapshot_input fe s"
    unfolding knowledge_graph_snapshot_input_def by (rule arg_cong)
qed

lemma record_mapping_port [simp]: "record_mapping (fe\<lparr>ft_port := p\<rparr>) db k = record_mapping fe db k"
  by (simp add: record_mapping_def mapping_trace_def fun_eq_iff)

lemma map_learning_goal_port [simp]: "map_learning_goal (fe\<lparr>ft_port := p\<rparr>) db k goal = map_learning_goal fe db k goal"
  by (simp add: map_learning_goal_def cong: option.case_cong)

text \<open>A decision the key replays.\<close>

definition replays :: "formation_env \<Rightarrow> formation_db \<Rightarrow> string \<Rightarrow> string \<Rightarrow> string \<Rightarrow> uuid \<Rightarrow> mapping_decision \<Rightarrow> bool" where
  "replays fe db user pseudonym key goal d \<longleftrightarrow> (\<exists>g s.
     find_mapping_by_idempotency (fm_mappings db) key = Some (mo_mapping d) \<and>
     get_goal_version (fm_goals db) goal (gm_goal_version (mo_mapping d)) (canonical_user_id fe user) = Some g \<and>
     set (lg_inferences g) \<subseteq> gi_id ` set (fm_inferences db) \<and>
     load_scope (fm_documents db) pseudonym (lg_documents g) = Inr s \<and>
     run_mapper fe (fm_inferences db) g s (gm_version (mo_mapping d)) (gm_created (mo_mapping d)) = Inr d)"

lemma replays_map:
  "replays fe db (fc_user k) (fc_pseudonym k) (fc_key k) goal d \<Longrightarrow> map_learning_goal fe db k goal = Inr (db, d)"
  by (auto simp: replays_def map_learning_goal_def scope_for_def)

lemma owned_prefix: "prefix rows rows' \<Longrightarrow> prefix (owned f u rows) (owned f u rows')"
  by (auto simp: owned_def elim!: prefixE)

lemma replays_grows:
  assumes r: "replays fe db user pseudonym key goal d" and g: "grows db db'"
  shows "replays fe db' user pseudonym key goal d"
proof -
  from r obtain g s where a: "find_mapping_by_idempotency (fm_mappings db) key = Some (mo_mapping d)"
    "get_goal_version (fm_goals db) goal (gm_goal_version (mo_mapping d)) (canonical_user_id fe user) = Some g"
    "set (lg_inferences g) \<subseteq> gi_id ` set (fm_inferences db)" "load_scope (fm_documents db) pseudonym (lg_documents g) = Inr s"
    "run_mapper fe (fm_inferences db) g s (gm_version (mo_mapping d)) (gm_created (mo_mapping d)) = Inr d"
    by (auto simp: replays_def)
  from g have p: "prefix (fm_goals db) (fm_goals db')" "prefix (fm_inferences db) (fm_inferences db')"
    "prefix (fm_mappings db) (fm_mappings db')" "fm_documents db' = fm_documents db"
    by (auto simp: grows_def)
  have "find_mapping_by_idempotency (fm_mappings db') key = Some (mo_mapping d)"
    using a(1) find_prefix [OF p(3)] by (auto simp: find_mapping_by_idempotency_def stream_by_key_def)
  moreover have "get_goal_version (fm_goals db') goal (gm_goal_version (mo_mapping d)) (canonical_user_id fe user) = Some g"
    using a(2) find_prefix [OF owned_prefix [OF p(1)]] by (auto simp: get_goal_version_def stream_at_def)
  moreover have "set (lg_inferences g) \<subseteq> gi_id ` set (fm_inferences db')"
    using a(3) set_mono_prefix [OF p(2)] by blast
  moreover have "run_mapper fe (fm_inferences db') g s (gm_version (mo_mapping d)) (gm_created (mo_mapping d)) = Inr d"
    using a(3,5) get_inference_prefix [OF p(2)] by (subst run_mapper_inferences [where infs = "fm_inferences db"]) auto
  ultimately show ?thesis using a(4) by (auto simp: replays_def p(4))
qed

lemma get_goal_version_row:
  assumes ok: "goals_ok fe db" and r: "r \<in> set (fm_goals db)" "lg_user (sw_payload r) = user"
  shows "get_goal_version (fm_goals db) (sw_id r) (sw_version r) user = Some (sw_payload r)"
proof -
  let ?P = "\<lambda>x. sw_id x = sw_id r \<and> sw_version x = sw_version r"
  have "r \<in> set (owned lg_user user (fm_goals db))" using r by (simp add: owned_def)
  then obtain x where x: "find ?P (owned lg_user user (fm_goals db)) = Some x"
    by (metis (mono_tags, lifting) find_None_iff not_None_eq)
  from first_match_Some [unfolded first_match_def, OF x] have "x \<in> set (fm_goals db)" "?P x" by (auto simp: owned_def)
  with ok r(1) have "x = r" unfolding goals_ok_def distinct_map by (auto dest: inj_onD)
  with x show ?thesis by (simp add: get_goal_version_def stream_at_def)
qed

text \<open>The database numbers the mappings of a goal; the mapping's id is derived from the goal's.\<close>

abbreviation mapping_ids_differ :: "formation_env \<Rightarrow> bool" where
  "mapping_ids_differ fe \<equiv> inj (\<lambda>goal. mt_uuid5 (ft_mapper fe) goal ''goal-knowledge-mapping'')"

lemma mapping_version_free:
  assumes ids: "mapping_ids_differ fe" and ok: "mappings_ok fe db"
  shows "stream_at (fm_mappings db) (mt_uuid5 (ft_mapper fe) goal ''goal-knowledge-mapping'')
    (next_mapping_version (fm_mappings db) goal) = None"
proof -
  have "sw_version r < next_mapping_version (fm_mappings db) goal"
    if r: "r \<in> set (fm_mappings db)" "sw_id r = mt_uuid5 (ft_mapper fe) goal ''goal-knowledge-mapping''" for r
  proof -
    from ok r(1) have "sw_id r = gm_id (sw_payload r)"
      "gm_id (sw_payload r) = mt_uuid5 (ft_mapper fe) (gm_goal (sw_payload r)) ''goal-knowledge-mapping''"
      unfolding mappings_ok_def stream_ok_def by blast+
    with r(2) have "mt_uuid5 (ft_mapper fe) (gm_goal (sw_payload r)) ''goal-knowledge-mapping'' =
        mt_uuid5 (ft_mapper fe) goal ''goal-knowledge-mapping''" by (simp only:)
    with ids have "gm_goal (sw_payload r) = goal" by (auto dest: injD)
    with r(1) show ?thesis unfolding next_mapping_version_def by (intro version_after_above) simp
  qed
  then show ?thesis unfolding stream_at_def find_map_None by fastforce
qed

lemma record_mapping_Inr:
  assumes "record_mapping fe db k d = Inr (db', d')"
  shows "d' = d" and "fm_goals db' = fm_goals db" and "fm_inferences db' = fm_inferences db"
    and "fm_documents db' = fm_documents db" and "fm_events db' = fm_events db"
    and "fm_mappings db' = fst (save_mapping (fm_mappings db) (mo_mapping d) (fc_key k))"
  using assms by (auto simp: record_mapping_def Let_def bind_res_Inr_iff)

lemma save_mapping_prefix: "prefix rows (fst (save_mapping rows m key))"
  by (auto simp: save_mapping_def stream_write_def stream_save_def split: option.splits)

lemma map_learning_goal_ok:
  assumes ok: "formation_ok fe db" and c: "map_learning_goal fe db k goal = Inr (db', d)"
  shows "formation_ok fe db' \<and> grows db db'"
proof (cases "find_mapping_by_idempotency (fm_mappings db) (fc_key k)")
  case (Some m)
  with c have "db' = db" by (auto simp: map_learning_goal_def bind_res_Inr_iff split: option.splits if_splits)
  with ok show ?thesis by simp
next
  case None
  with c obtain g s d0 where run: "run_mapper fe (fm_inferences db) g s (next_mapping_version (fm_mappings db) (lg_id g)) (fc_now k) = Inr d0"
    and rec: "record_mapping fe db k d0 = Inr (db', d)"
    by (auto simp: map_learning_goal_def bind_res_Inr_iff split: option.splits)
  note r = record_mapping_Inr [OF rec]
  from run_mapper_head [OF run] have head: "gm_id (mo_mapping d0) = mt_uuid5 (ft_mapper fe) (gm_goal (mo_mapping d0)) ''goal-knowledge-mapping''"
    by (simp add: mapping_head_def)
  have "stream_ok gm_id gm_version (fm_mappings db')" unfolding r(6) save_mapping_def
    using ok by (intro stream_ok_write) (simp add: formation_ok_def mappings_ok_def)
  moreover have "set (fm_mappings db') \<subseteq> insert \<lparr>sw_id = gm_id (mo_mapping d0), sw_version = gm_version (mo_mapping d0),
      sw_key = fc_key k, sw_payload = mo_mapping d0\<rparr> (set (fm_mappings db))"
    unfolding r(6) by (auto simp: save_mapping_def stream_write_def stream_save_def split: option.splits)
  ultimately have "mappings_ok fe db'" using ok head by (auto simp: formation_ok_def mappings_ok_def)
  with ok show ?thesis using r(2-5) save_mapping_prefix [of "fm_mappings db" "mo_mapping d0" "fc_key k"]
    by (simp add: formation_ok_def goals_ok_def grows_def r(6))
qed

lemma map_learning_goal_replays:
  assumes ids: "mapping_ids_differ fe" and ok: "formation_ok fe db" and c: "map_learning_goal fe db k goal = Inr (db', d)"
  shows "replays fe db' (fc_user k) (fc_pseudonym k) (fc_key k) goal d \<and> gm_goal (mo_mapping d) = goal"
proof -
  have g: "goals_ok fe db" and refs: "refs_in (fm_goals db) (fm_inferences db)" and m: "mappings_ok fe db"
    using ok by (auto simp: formation_ok_def)
  have ident: "sw_id r = lg_id (sw_payload r)" "sw_version r = lg_version (sw_payload r)" if "r \<in> set (fm_goals db)" for r
    using g that by (auto simp: goals_ok_def stream_ok_def)
  show ?thesis
  proof (cases "find_mapping_by_idempotency (fm_mappings db) (fc_key k)")
    case (Some x)
    with c obtain y where gv: "get_goal_version (fm_goals db) goal (gm_goal_version x) (caller fe k) = Some y"
      and rest: "bind_res (scope_for db k y) (\<lambda>s.
        bind_res (run_mapper fe (fm_inferences db) y s (gm_version x) (gm_created x)) (\<lambda>d.
        if mo_mapping d \<noteq> x then Inl GOAL_MAPPING_REPLAY_MISMATCH else Inr (db, d))) = Inr (db', d)"
      by (auto simp: map_learning_goal_def split: option.splits)
    from rest obtain s d1 where s: "scope_for db k y = Inr s"
      and run1: "run_mapper fe (fm_inferences db) y s (gm_version x) (gm_created x) = Inr d1"
      and e: "(if mo_mapping d1 \<noteq> x then Inl GOAL_MAPPING_REPLAY_MISMATCH else Inr (db, d1)) = Inr (db', d)"
      unfolding bind_res_Inr_iff by blast
    from e have x: "x = mo_mapping d" and db': "db' = db" and "d1 = d" by (auto split: if_splits)
    from run1 \<open>d1 = d\<close> have run: "run_mapper fe (fm_inferences db) y s (gm_version x) (gm_created x) = Inr d" by simp
    from gv obtain r where r: "r \<in> set (fm_goals db)" "sw_id r = goal" "sw_payload r = y"
      by (auto simp: get_goal_version_def owned_def dest!: stream_at_Some)
    with refs have "set (lg_inferences y) \<subseteq> gi_id ` set (fm_inferences db)" by (auto simp: refs_in_def)
    moreover have "load_scope (fm_documents db) (fc_pseudonym k) (lg_documents y) = Inr s"
      using s by (simp add: scope_for_def map_sum_result)
    ultimately have "replays fe db' (fc_user k) (fc_pseudonym k) (fc_key k) goal d"
      using Some gv run unfolding replays_def db' x by blast
    moreover have "gm_goal (mo_mapping d) = goal"
      using run_mapper_head [OF run] ident [OF r(1)] r by (simp add: mapping_head_def)
    ultimately show ?thesis by blast
  next
    case None
    with c obtain y s d0 where l: "latest_goal (fm_goals db) goal (caller fe k) = Some y" and s: "scope_for db k y = Inr s"
      and run: "run_mapper fe (fm_inferences db) y s (next_mapping_version (fm_mappings db) (lg_id y)) (fc_now k) = Inr d0"
      and rec: "record_mapping fe db k d0 = Inr (db', d)"
      by (auto simp: map_learning_goal_def bind_res_Inr_iff split: option.splits)
    note r = record_mapping_Inr [OF rec]
    from latest_goal_row [OF l] obtain w where w: "w \<in> set (fm_goals db)" "sw_id w = goal" "sw_payload w = y" "lg_user y = caller fe k"
      by blast
    have head: "mapping_head (ft_mapper fe) y s (next_mapping_version (fm_mappings db) (lg_id y)) (fc_now k) (mo_mapping d)"
      using run_mapper_head [OF run] by (simp add: r(1))
    have "stream_at (fm_mappings db) (gm_id (mo_mapping d)) (gm_version (mo_mapping d)) = None"
      using mapping_version_free [OF ids m] head by (simp add: mapping_head_def)
    with None have "find_mapping_by_idempotency (fm_mappings db') (fc_key k) = Some (mo_mapping d)"
      by (simp add: r(1,6) find_mapping_by_idempotency_def save_mapping_def stream_write_def stream_save_def)
        (simp add: stream_by_key_def find_snoc)
    moreover have "get_goal_version (fm_goals db') goal (gm_goal_version (mo_mapping d)) (caller fe k) = Some y"
      using get_goal_version_row [OF g w(1), of "caller fe k"] w head ident [OF w(1)] by (simp add: r(2) mapping_head_def)
    moreover have "set (lg_inferences y) \<subseteq> gi_id ` set (fm_inferences db')" using refs w by (auto simp: refs_in_def r(3))
    moreover have "load_scope (fm_documents db') (fc_pseudonym k) (lg_documents y) = Inr s"
      using s by (simp add: r(4) scope_for_def map_sum_result)
    moreover have "run_mapper fe (fm_inferences db') y s (gm_version (mo_mapping d)) (gm_created (mo_mapping d)) = Inr d"
      using run head by (simp add: r(1,3) mapping_head_def)
    ultimately show ?thesis using head w ident [OF w(1)] by (auto simp: replays_def mapping_head_def)
  qed
qed

section \<open>Every sequence of commands\<close>

lemma formation_step_ok: "formation_step fe db db' \<Longrightarrow> formation_ok fe db \<Longrightarrow> formation_ok fe db' \<and> grows db db'"
proof (erule formation_step.cases, goal_cases)
  case 1
  then show ?case using create_candidate_ok by blast
next
  case 2
  then show ?case using revise_candidate_ok by blast
next
  case 3
  then show ?case using confirm_goal_ok by blast
next
  case 4
  then show ?case using adopt_from_material_ok by blast
next
  case 5
  then show ?case using map_learning_goal_ok by (simp only: map_learning_goal_port)
qed

lemma formation_reach_ok:
  "(formation_step fe)\<^sup>*\<^sup>* db db' \<Longrightarrow> formation_ok fe db \<Longrightarrow> formation_ok fe db' \<and> grows db db'"
proof (induction rule: rtranclp_induct)
  case (step a b)
  with formation_step_ok [of fe a b] show ?case by (blast intro: grows_trans)
qed simp

lemma formation_start_ok: "formation_ok fe (formation_start docs)"
  by (simp add: formation_ok_def goals_ok_def mappings_ok_def one_owner_def refs_in_def stream_ok_def formation_start_def)

section \<open>Properties\<close>

text \<open>C26: In every database that the commands of the goal service can reach from an empty one, whatever
  the model provider answers: the versions of a goal are 1, 2, 3 and so on and have one owner, every stored version meets
  its contract, the first is a candidate and each later one is a candidate or a promotion of a stored version, no key is
  used twice, and the ledger holds exactly one event for each version, in the same order.\<close>

theorem formation_history:
  assumes "(formation_step fe)\<^sup>*\<^sup>* (formation_start docs) db"
  shows "(\<exists>n. versions_of (fm_goals db) i = map (\<lambda>j. int j + 1) [0..<n]) \<and> one_owner (fm_goals db) \<and>
    (\<forall>r \<in> set (fm_goals db). valid_goal (sw_payload r)) \<and>
    each_grown (\<lambda>pre r. goal_growth pre (sw_payload r)) (fm_goals db) \<and>
    distinct (map sw_key (fm_goals db)) \<and> list_all2 (row_event fe) (fm_goals db) (fm_events db)"
  using formation_reach_ok [OF assms formation_start_ok] versions_consecutive [of "fm_goals db" i]
  by (simp add: formation_ok_def goals_ok_def)

lemma each_grown_split: "each_grown G (pre @ r # post) \<Longrightarrow> G pre r"
  by (auto simp: each_grown_def dest: spec [of _ "length pre"])

text \<open>C27: In every table that the commands of the goal service alone can reach from an empty one, a goal
  version that is not a candidate was made from an earlier candidate version of the same goal and owner by the
  confirmation of the user or by the adoption of material, and differs from it in nothing but version, status, times and
  one more reason; a version is confirmed exactly if the user confirmed it, and no version has another status. (Goal
  management stores active first versions of its own, \<open>compatibility_goal\<close>; they are not in these runs.)\<close>

theorem goal_consent:
  assumes reach: "(formation_step fe)\<^sup>*\<^sup>* (formation_start docs) db" and r: "r \<in> set (fm_goals db)"
    and st: "lg_status (sw_payload r) \<noteq> GOAL_CANDIDATE"
  shows "(\<exists>p \<in> set (fm_goals db). sw_id p = sw_id r \<and> sw_version p < sw_version r \<and>
      lg_user (sw_payload p) = lg_user (sw_payload r) \<and> promotion (sw_payload p) (sw_payload r)) \<and>
    lg_status (sw_payload r) \<in> {GOAL_CONFIRMED, GOAL_ACTIVE} \<and>
    (lg_confirmed_by_user (sw_payload r) \<longleftrightarrow> lg_status (sw_payload r) = GOAL_CONFIRMED)"
proof -
  from formation_reach_ok [OF reach formation_start_ok] have ok: "goals_ok fe db" by (simp add: formation_ok_def)
  from split_list [OF r] obtain pre post where rows: "fm_goals db = pre @ r # post" by blast
  with ok have "goal_growth pre (sw_payload r)" and i: "sw_id r = lg_id (sw_payload r)" "sw_version r = lg_version (sw_payload r)"
    using each_grown_split [of "\<lambda>pre r. goal_growth pre (sw_payload r)" pre r post] by (auto simp: goals_ok_def stream_ok_def)
  with st have f: "succeeds_stored pre (sw_payload r)" and v: "sw_version r = stream_next pre (sw_id r)"
    by (auto simp: goal_growth_def split: if_splits)
  from f st obtain p where p: "p \<in> set pre" "sw_id p = lg_id (sw_payload r)" "lg_user (sw_payload r) = lg_user (sw_payload p)"
    "promotion (sw_payload p) (sw_payload r)" by (auto simp: succeeds_stored_def)
  have "sw_version p < sw_version r"
    unfolding v stream_next_def using p i by (intro version_after_above) simp
  moreover from p(4) have "lg_status (sw_payload r) \<in> {GOAL_CONFIRMED, GOAL_ACTIVE} \<and>
      (lg_confirmed_by_user (sw_payload r) \<longleftrightarrow> lg_status (sw_payload r) = GOAL_CONFIRMED)"
  proof -
    from p(4) obtain t st by_user rs where d: "promotes st by_user rs"
      and e: "sw_payload r = (sw_payload p)\<lparr>lg_version := lg_version (sw_payload r), lg_status := st, lg_confirmed_by_user := by_user,
        lg_confirmed_at := Some t, lg_created := t, lg_supersedes := Some (lg_version (sw_payload p)), lg_reasons := lg_reasons (sw_payload p) @ [rs]\<rparr>"
      by (auto simp: promotion_def promotes_def)
    have "lg_status (sw_payload r) = st" "lg_confirmed_by_user (sw_payload r) = by_user" by (subst e, simp)+
    with d show ?thesis by (auto simp: promotes_def)
  qed
  ultimately show ?thesis using p i rows by (intro conjI bexI [of _ p]) auto
qed

text \<open>C28: A goal that was mapped under a key is mapped again to the same decision by every later command
  with that key of the same user, and the command changes nothing, as long as the documents are what they were: whatever
  goal commands come in between, whatever the provider answers, at whatever time. A key never returns the mapping of
  another goal.\<close>

theorem mapping_replay:
  assumes ids: "mapping_ids_differ fe" and before: "(formation_step fe)\<^sup>*\<^sup>* (formation_start docs) db"
    and mapped: "map_learning_goal fe db k goal = Inr (db', d)" and after: "(formation_step fe)\<^sup>*\<^sup>* db' db''"
    and same: "fc_user k' = fc_user k" "fc_pseudonym k' = fc_pseudonym k" "fc_key k' = fc_key k"
  shows "map_learning_goal (fe\<lparr>ft_port := p\<rparr>) db'' k' goal = Inr (db'', d) \<and> gm_goal (mo_mapping d) = goal"
proof -
  from formation_reach_ok [OF before formation_start_ok] have ok: "formation_ok fe db" by simp
  from map_learning_goal_ok [OF ok mapped] have "formation_ok fe db'" by simp
  from formation_reach_ok [OF after this] have g: "grows db' db''" by simp
  note m = map_learning_goal_replays [OF ids ok mapped]
  with replays_grows [OF conjunct1 [OF m] g] same have "replays fe db'' (fc_user k') (fc_pseudonym k') (fc_key k') goal d" by simp
  from replays_map [OF this] m show ?thesis by simp
qed

section \<open>What the model may decide\<close>

lemma bounded_strings_facts:
  "length (bounded_strings v n) \<le> n" "s \<in> set (bounded_strings v n) \<Longrightarrow> s \<noteq> [] \<and> length s \<le> 500"
proof -
  have "length (List.map_filter f xs) \<le> length xs" for f :: "pyval \<Rightarrow> string option" and xs
    by (induction xs) (auto simp: List.map_filter_simps split: option.splits)
  from this [of bounded_item "take n (case v of VList xs \<Rightarrow> xs | _ \<Rightarrow> [])"] show "length (bounded_strings v n) \<le> n"
    by (cases v) (simp_all add: bounded_strings_def)
  have "t \<noteq> [] \<and> length t \<le> 500" if "bounded_item x = Some t" for x t
    using that by (cases x) (auto simp: Let_def split: if_splits)
  then show "s \<in> set (bounded_strings v n) \<Longrightarrow> s \<noteq> [] \<and> length s \<le> 500"
    by (auto simp: bounded_strings_def map_filter_mem split: pyval.splits)
qed

lemma criteria_of_facts:
  assumes "criteria_of fe d topic intent = (cs, rs)"
  shows "cs = [fst (measurable_success_criterion (ft_mapper fe) topic intent)] \<or>
    (length cs \<le> 5 \<and> (\<forall>c \<in> set cs. length c \<le> 500) \<and> (\<exists>c \<in> set cs. \<not> vague c))"
  using assms bounded_strings_facts(1) [of "proposed d ''success_criteria''" 5] bounded_strings_facts(2) [of _ "proposed d ''success_criteria''" 5]
  by (auto simp: criteria_of_def Let_def list_all_iff split: if_splits prod.splits)

text \<open>Whatever the model answers, the candidate that is formed reads exactly the documents the caller
  named, belongs to the caller and is an unconfirmed candidate; its title and topic have between 1 and 200 characters, it
  has at most five capabilities of at most 500 characters unless the default one takes their place, at least one of its
  at most five criteria is not vague or the measurable one replaces them all, and it names at most one inference, which is
  stored.\<close>

theorem proposal_bounded:
  assumes "form_candidate fe infs goal version user inp now supersedes = Inr (infs', g)"
  shows "lg_documents g = sorted_set (in_documents inp) \<and> lg_user g = user \<and> lg_status g = GOAL_CANDIDATE \<and>
    \<not> lg_confirmed_by_user g \<and> text_between 1 200 (lg_title g) \<and> text_between 1 200 (lg_topic g) \<and>
    (lg_capabilities g = [ft_capability fe (lg_topic g)] \<or>
      (length (lg_capabilities g) \<in> {1..5} \<and> (\<forall>c \<in> set (lg_capabilities g). length c \<le> 500))) \<and>
    (lg_criteria g = [fst (measurable_success_criterion (ft_mapper fe) (lg_topic g) (one_spaced (in_intent inp)))] \<or>
      (length (lg_criteria g) \<le> 5 \<and> (\<forall>c \<in> set (lg_criteria g). length c \<le> 500) \<and> (\<exists>c \<in> set (lg_criteria g). \<not> vague c))) \<and>
    length (lg_inferences g) \<le> 1 \<and> set (lg_inferences g) \<subseteq> gi_id ` set infs' \<and> prefix infs infs'"
proof -
  from form_candidate_Inr [OF assms] obtain p
    where mp: "model_part fe infs goal (one_spaced (in_intent inp)) (in_documents inp) now = (infs', p)"
      and g: "g = candidate_goal fe goal version user inp (one_spaced (in_intent inp)) now supersedes p" and v: "valid_goal g"
    by blast
  let ?intent = "one_spaced (in_intent inp)" and ?d = "mp_proposal p"
  have topic: "lg_topic g = bounded_text (proposed ?d ''topic'') (topic_from_intent ?intent) 200"
    and caps: "lg_capabilities g = (let cs = bounded_strings (proposed ?d ''target_capabilities'') 5 in
      if cs = [] then [ft_capability fe (lg_topic g)] else cs)"
    and crit: "\<exists>rs. criteria_of fe ?d (lg_topic g) ?intent = (lg_criteria g, rs)"
    and conf: "\<not> lg_confirmed_by_user g"
    by (auto simp: g candidate_goal_def Let_def split: prod.splits)
  from v have t: "text_between 1 200 (lg_title g)" "text_between 1 200 (lg_topic g)"
    by (auto simp: valid_goal_def goal_fields_ok_def)
  have caps': "lg_capabilities g = [ft_capability fe (lg_topic g)] \<or>
      (length (lg_capabilities g) \<in> {1..5} \<and> (\<forall>c \<in> set (lg_capabilities g). length c \<le> 500))"
    using bounded_strings_facts(1) [of "proposed ?d ''target_capabilities''" 5] bounded_strings_facts(2) [of _ "proposed ?d ''target_capabilities''" 5]
    by (cases "bounded_strings (proposed ?d ''target_capabilities'') 5 = []") (auto simp: caps Let_def Suc_le_eq)
  have "length (mp_refs p) \<le> 1" using mp by (auto simp: model_part_def Let_def split: option.splits prod.splits if_splits)
  then have "length (lg_inferences g) \<le> 1" "set (lg_inferences g) \<subseteq> gi_id ` set infs'" "lg_documents g = sorted_set (in_documents inp)"
    "lg_user g = user" "lg_status g = GOAL_CANDIDATE"
    using model_part_facts(2) [OF mp] by (simp_all add: g candidate_goal_facts)
  moreover obtain rs where "criteria_of fe ?d (lg_topic g) ?intent = (lg_criteria g, rs)" using crit by blast
  note criteria_of_facts [OF this]
  ultimately show ?thesis using model_part_facts(1) [OF mp] caps' t conf by blast
qed

text \<open>Once an inference is stored for a goal, an intent and its documents, failure included, the answer
  of the provider to the same question no longer counts: the candidate that is formed is the same for every provider.\<close>

theorem inference_kept:
  assumes "get_inference infs (inference_id_of fe goal (one_spaced (in_intent inp)) (in_documents inp)) \<noteq> None"
  shows "form_candidate (fe\<lparr>ft_port := Some p\<rparr>) infs goal version user inp now supersedes =
    form_candidate (fe\<lparr>ft_port := Some q\<rparr>) infs goal version user inp now supersedes"
proof -
  let ?intent = "one_spaced (in_intent inp)"
  have i: "gi_id (run_model_candidate (fe\<lparr>ft_port := Some x\<rparr>) x goal ?intent (in_documents inp) now) =
      inference_id_of fe goal ?intent (in_documents inp)" for x
    by (simp add: run_model_candidate_def inference_of_def answered_by_def inference_id_of_def split: option.splits pyval.splits)
  from assms obtain j where j: "find (\<lambda>r. gi_id r = inference_id_of fe goal ?intent (in_documents inp)) infs = Some j"
    by (auto simp: get_inference_def)
  have "save_inference infs (run_model_candidate (fe\<lparr>ft_port := Some x\<rparr>) x goal ?intent (in_documents inp) now) = (infs, j)" for x
    unfolding save_inference_def i j by simp
  then have m: "model_part (fe\<lparr>ft_port := Some p\<rparr>) infs goal ?intent (in_documents inp) now =
      model_part (fe\<lparr>ft_port := Some q\<rparr>) infs goal ?intent (in_documents inp) now"
    by (simp add: model_part_def)
  have port: "ft_mapper (fe\<lparr>ft_port := x\<rparr>) = ft_mapper fe" "ft_title (fe\<lparr>ft_port := x\<rparr>) = ft_title fe"
    "ft_capability (fe\<lparr>ft_port := x\<rparr>) = ft_capability fe" for x by simp_all
  have c: "candidate_goal (fe\<lparr>ft_port := Some p\<rparr>) goal version user inp ?intent now supersedes x =
      candidate_goal (fe\<lparr>ft_port := Some q\<rparr>) goal version user inp ?intent now supersedes x" for x
    unfolding candidate_goal_def criteria_of_def port by (rule refl)
  show ?thesis unfolding form_candidate_def Let_def m c by (rule refl)
qed

end
