(* ===== verification/FormationEnds.thy ===== *)
theory FormationEnds
  imports FormationLaws
begin

text \<open>
  What the goal service of the first version does at its ends, a key that names something else and a material
  without a publication decision, and a concrete run of its commands.
\<close>

section \<open>A key that is known\<close>

text \<open>Confirming a goal under the key that created one confirms nothing: the command succeeds with the candidate, of
  whichever user and goal.\<close>

theorem same_key_confirms_nothing:
  assumes ok: "formation_ok fe db" and free: "find_goal_by_idempotency (fm_goals db) (fc_key k) = None"
    and c: "create_candidate fe db k inp = Inr (db', g)" and same: "fc_key k' = fc_key k"
  shows "confirm_goal fe db' k' goal True = Inr (db', g) \<and> lg_status g = GOAL_CANDIDATE \<and> lg_user g = caller fe k"
proof -
  from c free obtain infs x i where f: "form_candidate fe (fm_inferences db) i 1 (caller fe k) inp (fc_now k) None = Inr (infs, x)"
    and p: "publish_goal fe (db\<lparr>fm_inferences := infs\<rparr>) k x ''GoalCreated'' ''goal-created:'' = Inr (db', g)"
    by (auto simp: create_candidate_def publish_candidate_def bind_res_Inr_iff)
  let ?db = "db\<lparr>fm_inferences := infs\<rparr>"
  have "list_all2 (row_event fe) (fm_goals ?db) (fm_events ?db)" "stream_ok lg_id lg_version (fm_goals ?db)"
    "find_goal_by_idempotency (fm_goals ?db) (fc_key k) = None"
    using ok free by (auto simp: formation_ok_def goals_ok_def)
  from publish_goal_Inr [OF this _ p] have g: "g = x"
    and rows: "fm_goals db' = fm_goals db @ [\<lparr>sw_id = lg_id x, sw_version = lg_version x, sw_key = fc_key k, sw_payload = x\<rparr>]"
    by (auto simp: event_tags_def)
  have "find_goal_by_idempotency (fm_goals db') (fc_key k') = Some g"
    using free by (simp add: rows same g find_goal_by_idempotency_def stream_by_key_def find_snoc)
  moreover from form_candidate_Inr [OF f] have "lg_status x = GOAL_CANDIDATE \<and> lg_user x = caller fe k"
    by (metis candidate_goal_facts(3,4))
  ultimately show ?thesis by (simp add: confirm_goal_def g)
qed

section \<open>A material without a publication decision\<close>

lemma split_colon_append: "split_colon acc (s @ CHR '':'' # t) = split_colon acc s @ split_colon [] t"
  by (induction s arbitrary: acc) auto

lemma graph_version_split:
  assumes "cr_decision r = None"
  shows "\<exists>parts. split_colon [] (graph_version d r) = parts @ [''None'']"
proof -
  have "graph_version d r = (''document:'' @ dc_id d @ '':revision:'' @ cr_id r @ '':publication'') @ CHR '':'' # ''None''"
    by (simp add: graph_version_def assms)
  then have "split_colon [] (graph_version d r) =
      split_colon [] (''document:'' @ dc_id d @ '':revision:'' @ cr_id r @ '':publication'') @ split_colon [] ''None''"
    by (simp only: split_colon_append)
  moreover have "split_colon [] ''None'' = [''None'']" by simp
  ultimately show ?thesis by (simp only:) blast
qed

lemma unpublished_snapshot:
  assumes "cr_decision r = None" and "ft_uuid fe ''None'' = None"
  shows "knowledge_graph_snapshot_input fe (graph_version d r) = Inl GOAL_MAPPING_KNOWLEDGE_GRAPH_VERSION_INVALID"
proof -
  from graph_version_split [OF assms(1)] obtain parts where p: "split_colon [] (graph_version d r) = parts @ [''None'']" by blast
  show ?thesis
  proof (cases "length parts = 5")
    case True
    then obtain a b c x y where "parts = [a, b, c, x, y]" by (auto simp: length_Suc_conv numeral_eq_Suc)
    with p assms(2) show ?thesis by (simp add: knowledge_graph_snapshot_input_def split: option.splits)
  next
    case False
    then have "length (split_colon [] (graph_version d r)) \<noteq> 6" using p by simp
    then show ?thesis unfolding knowledge_graph_snapshot_input_def
      by (auto split: list.splits)
  qed
qed

lemma map_res_Inl_mem: "x \<in> set xs \<Longrightarrow> f x = Inl e \<Longrightarrow> map_res f xs \<noteq> Inr ys"
proof
  assume "x \<in> set xs" "f x = Inl e" "map_res f xs = Inr ys"
  then show False unfolding map_res_Inr_iff by (auto dest: list_all2_left)
qed

text \<open>C29: A goal that reads an available material whose current revision has no publication decision
  cannot be mapped: where the mapper answers, also with a question that blocks, the command fails because the trace cannot
  name the version of the knowledge graph, and nothing is recorded.\<close>

theorem unpublished_unmappable:
  assumes new: "find_mapping_by_idempotency (fm_mappings db) (fc_key k) = None"
    and goal: "latest_goal (fm_goals db) goal (caller fe k) = Some g"
    and d: "d \<in> set (fm_documents db)" "dc_owner d = fc_pseudonym k" "dc_id d \<in> set (lg_documents g)" "document_available d"
    and r: "current_revision d = Some r" "cr_decision r = None" and none: "ft_uuid fe ''None'' = None"
  shows "isl (map_learning_goal fe db k goal)"
proof (rule ccontr)
  assume "\<not> isl (map_learning_goal fe db k goal)"
  then obtain db' o' where "map_learning_goal fe db k goal = Inr (db', o')" by (cases "map_learning_goal fe db k goal") auto
  with new goal obtain s x where s: "scope_for db k g = Inr s"
    and run: "run_mapper fe (fm_inferences db) g s (next_mapping_version (fm_mappings db) (lg_id g)) (fc_now k) = Inr x"
    and rec: "record_mapping fe db k x = Inr (db', o')"
    by (auto simp: map_learning_goal_def bind_res_Inr_iff)
  have "graph_version d r \<in> set (gk_graphs s)"
    using s d r by (force simp: scope_for_def map_sum_result load_scope_def Let_def bind_res_Inr_iff map_filter_mem)
  with run_mapper_head [OF run] have "graph_version d r \<in> set (gm_graphs (mo_mapping x))" by (simp add: mapping_head_def)
  from map_res_Inl_mem [of _ _ "knowledge_graph_snapshot_input fe", OF this unpublished_snapshot [OF r(2) none]] rec show False
    by (auto simp: record_mapping_def mapping_trace_def Let_def bind_res_Inr_iff)
qed

section \<open>A concrete run\<close>

definition form_env :: formation_env where
  "form_env = \<lparr>ft_py = plain_env, ft_mapper = book_mapper, ft_hash = (\<lambda>_. ''h''),
     ft_uuid = (\<lambda>s. if s = ''None'' then None else Some s), ft_float = (\<lambda>_. None), ft_stamp = (\<lambda>_. 0), ft_title = id,
     ft_capability = id, ft_adoption = id, ft_untitled = ''t'', ft_port = None\<rparr>"

definition form_call :: "string \<Rightarrow> formation_call" where
  "form_call key = \<lparr>fc_user = ''u'', fc_pseudonym = ''p'', fc_key = key, fc_correlation = ''c'', fc_now = 7\<rparr>"

definition form_input :: candidate_input where
  "form_input = \<lparr>in_intent = ''a b'', in_documents = [''d1''], in_context = None, in_deadline = None, in_weekly = None\<rparr>"

definition form_id :: uuid where
  "form_id = ''askora:learning-goal:u:k''"

definition form_goal :: learning_goal where
  "form_goal = \<lparr>lg_id = form_id, lg_schema = ''1.0'', lg_version = 1, lg_user = ''u'', lg_title = ''a b'', lg_topic = ''a b'',
     lg_capabilities = [''a b''], lg_context = None, lg_criteria = [''a b''], lg_documents = [''d1''], lg_deadline = None,
     lg_weekly_minutes = None, lg_status = GOAL_CANDIDATE, lg_confirmed_by_user = False, lg_created = 7, lg_confirmed_at = None,
     lg_supersedes = None, lg_inferences = [],
     lg_reasons = [''GOAL_FORMATION_DETERMINISTIC_FALLBACK'', ''SUCCESS_CRITERIA_MEASURABLE_BASELINE'']\<rparr>"

definition form_created :: formation_db where
  "form_created = (formation_start [])\<lparr>
     fm_goals := [\<lparr>sw_id = form_id, sw_version = 1, sw_key = ''k'', sw_payload = form_goal\<rparr>],
     fm_events := [EventV1 (goal_event form_env form_goal ''GoalCreated'' ''c'' ''goal-created:k'')]\<rparr>"

lemma form_folded: "casefold ''a b'' = [97, 32, 98]"
  by (simp add: folding)

lemma form_criterion: "measurable_success_criterion book_mapper ''a b'' ''a b'' = (''a b'', [''SUCCESS_CRITERIA_MEASURABLE_BASELINE''])"
  by (simp add: measurable_success_criterion_def form_folded any_marker_def unmeasurable_markers_def code_points_def book_mapper_def)

lemma form_intent: "one_spaced ''a b'' = ''a b''" "topic_from_intent ''a b'' = ''a b''"
  by code_simp+

lemma form_valid: "valid_goal form_goal"
  by code_simp

lemma form_candidate_value: "form_candidate form_env [] form_id 1 ''u'' form_input 7 None = Inr ([], form_goal)"
proof -
  have p: "ft_port form_env = None" "ft_mapper form_env = book_mapper" "ft_title form_env = id" "ft_capability form_env = id"
    by (simp_all add: form_env_def)
  have g: "candidate_goal form_env form_id 1 ''u'' form_input ''a b'' 7 None
      \<lparr>mp_proposal = [], mp_refs = [], mp_reasons = [''GOAL_FORMATION_DETERMINISTIC_FALLBACK'']\<rparr> = form_goal"
    by (simp add: candidate_goal_def Let_def proposed_def dict_get_def bounded_text_def bounded_strings_def criteria_of_def form_criterion
        form_intent form_input_def form_goal_def p sorted_set_def keep_first_def)
  have "in_intent form_input = ''a b''" by (simp add: form_input_def)
  with g form_valid show ?thesis
    by (simp add: form_candidate_def form_intent model_part_def p)
qed

lemma form_creates: "create_candidate form_env (formation_start []) (form_call ''k'') form_input = Inr (form_created, form_goal)"
proof -
  have c: "canonical_user_id form_env ''u'' = ''u''" "uuid5 (ft_py form_env) = (\<lambda>s. s)"
    by (simp_all add: canonical_user_id_def form_env_def plain_env_def)
  have "publish_goal form_env ((formation_start [])\<lparr>fm_inferences := []\<rparr>) (form_call ''k'') form_goal ''GoalCreated'' ''goal-created:'' =
      Inr (form_created, form_goal)"
    by (simp add: publish_goal_def save_goal_def stream_write_def stream_save_def formation_start_def stream_by_key_def stream_at_def
        append_goal_event_def append_event_def event_by_key_def insert_event_def form_call_def form_created_def form_goal_def
        List.map_filter_simps)
  with form_candidate_value show ?thesis
    by (simp add: create_candidate_def publish_candidate_def c form_call_def formation_start_def find_goal_by_idempotency_def
        stream_by_key_def form_id_def)
qed

definition form_confirmed :: formation_db where
  "form_confirmed = fst (projr (confirm_goal form_env form_created (form_call ''c'') form_id True))"

definition form_mapped :: formation_db where
  "form_mapped = fst (projr (map_learning_goal form_env form_confirmed (form_call ''m'') form_id))"

definition form_decision :: mapping_decision where
  "form_decision = snd (projr (map_learning_goal form_env form_confirmed (form_call ''m'') form_id))"

definition form_again :: formation_db where
  "form_again = fst (projr (map_learning_goal form_env form_mapped (form_call ''n'') form_id))"

lemma form_runs:
  "\<not> isl (confirm_goal form_env form_created (form_call ''c'') form_id True)"
  "\<not> isl (map_learning_goal form_env form_confirmed (form_call ''m'') form_id)"
  "\<not> isl (map_learning_goal form_env form_mapped (form_call ''n'') form_id)"
  by code_simp+

lemma no_port: "form_env\<lparr>ft_port := None\<rparr> = form_env"
  by (simp add: form_env_def)

lemma form_steps:
  "formation_step form_env (formation_start []) form_created"
  "formation_step form_env form_created form_confirmed"
  "formation_step form_env form_mapped form_again"
proof -
  have r: "m = Inr (fst (projr m), snd (projr m))" if "\<not> isl m" for m :: "formation_error + formation_db \<times> 'z"
    using that by (cases m) auto
  show "formation_step form_env (formation_start []) form_created"
    using formation_step.create [where fe = form_env and p = None] form_creates unfolding no_port by blast
  show "formation_step form_env form_created form_confirmed"
    using formation_step.confirm [where fe = form_env and p = None] r [OF form_runs(1)] unfolding no_port form_confirmed_def by blast
  show "formation_step form_env form_mapped form_again"
    using formation_step.map_goal [where fe = form_env and p = None] r [OF form_runs(3)] unfolding no_port form_again_def by blast
qed

lemma form_reach: "(formation_step form_env)\<^sup>*\<^sup>* (formation_start []) form_confirmed"
  using form_steps(1,2) by auto

lemma form_mapping: "map_learning_goal form_env form_confirmed (form_call ''m'') form_id = Inr (form_mapped, form_decision)"
  using form_runs(2) unfolding form_mapped_def form_decision_def
  by (cases "map_learning_goal form_env form_confirmed (form_call ''m'') form_id") auto

theorem formation_history_witness:
  "one_owner (fm_goals form_confirmed) \<and> list_all2 (row_event form_env) (fm_goals form_confirmed) (fm_events form_confirmed)"
  using formation_history [OF form_reach] by blast

lemma form_rows: "map sw_version (fm_goals form_confirmed) = [1, 2]"
    "fm_goals form_confirmed ! 1 \<in> set (fm_goals form_confirmed)"
    "lg_status (sw_payload (fm_goals form_confirmed ! 1)) = GOAL_CONFIRMED"
  by code_simp+

theorem goal_consent_witness:
  "\<exists>p \<in> set (fm_goals form_confirmed). promotion (sw_payload p) (sw_payload (fm_goals form_confirmed ! 1)) \<and>
     lg_confirmed_by_user (sw_payload (fm_goals form_confirmed ! 1))"
  using goal_consent [OF form_reach form_rows(2)] form_rows(3) by auto

lemma form_ids: "mapping_ids_differ form_env"
  by (auto simp: inj_def form_env_def book_mapper_def)

theorem mapping_replay_witness:
  "map_learning_goal (form_env\<lparr>ft_port := Some (\<lambda>_ _. None)\<rparr>) form_again ((form_call ''m'')\<lparr>fc_now := 9\<rparr>) form_id =
     Inr (form_again, form_decision) \<and> length (fm_mappings form_again) = 2"
proof -
  have "length (fm_mappings form_again) = 2" by code_simp
  moreover have "(formation_step form_env)\<^sup>*\<^sup>* form_mapped form_again" using form_steps(3) by blast
  ultimately show ?thesis
    using mapping_replay [OF form_ids form_reach form_mapping, of form_again "(form_call ''m'')\<lparr>fc_now := 9\<rparr>" "Some (\<lambda>_ _. None)"]
    by simp
qed

theorem proposal_bounded_witness:
  "form_candidate form_env [] form_id 1 ''u'' form_input 7 None = Inr ([], form_goal) \<and> lg_documents form_goal = [''d1''] \<and>
     text_between 1 200 (lg_topic form_goal)"
  using proposal_bounded [OF form_candidate_value] form_candidate_value by (simp add: form_input_def sorted_set_def)

definition form_failure :: goal_inference where
  "form_failure = inference_of form_env ''g'' ''a b'' [''d1''] 3 INF_UNAVAILABLE ''MAPPING_MODEL_UNAVAILABLE''"

definition form_answer :: port_result where
  "form_answer = \<lparr>pm_provider = ''p'', pm_model = ''m'', pm_snapshot = None, pm_result = VDict [(''topic'', VStr ''other'')]\<rparr>"

theorem inference_kept_witness:
  "form_candidate (form_env\<lparr>ft_port := Some (\<lambda>_ _. Some form_answer)\<rparr>) [form_failure] ''g'' 2 ''u'' form_input 9 (Some 1) =
   form_candidate (form_env\<lparr>ft_port := Some (\<lambda>_ _. None)\<rparr>) [form_failure] ''g'' 2 ''u'' form_input 9 (Some 1)"
proof (rule inference_kept)
  show "get_inference [form_failure] (inference_id_of form_env ''g'' (one_spaced (in_intent form_input)) (in_documents form_input)) \<noteq> None"
    by code_simp
qed

definition form_book_db :: formation_db where
  "form_book_db = form_created\<lparr>fm_documents := [book\<lparr>dc_owner := ''p''\<rparr>]\<rparr>"

theorem unpublished_unmappable_witness: "isl (map_learning_goal form_env form_book_db (form_call ''m'') form_id)"
proof (rule unpublished_unmappable)
  show "find_mapping_by_idempotency (fm_mappings form_book_db) (fc_key (form_call ''m'')) = None" by code_simp
  show "latest_goal (fm_goals form_book_db) form_id (caller form_env (form_call ''m'')) = Some form_goal" by code_simp
  show "book\<lparr>dc_owner := ''p''\<rparr> \<in> set (fm_documents form_book_db)" by (simp add: form_book_db_def)
  show "dc_owner (book\<lparr>dc_owner := ''p''\<rparr>) = fc_pseudonym (form_call ''m'')" by code_simp
  show "dc_id (book\<lparr>dc_owner := ''p''\<rparr>) \<in> set (lg_documents form_goal)" by code_simp
  show "document_available (book\<lparr>dc_owner := ''p''\<rparr>)" by code_simp
  show "current_revision (book\<lparr>dc_owner := ''p''\<rparr>) = Some (hd (dc_revisions book))" by code_simp
  show "cr_decision (hd (dc_revisions book)) = None" by code_simp
  show "ft_uuid form_env ''None'' = None" by (simp add: form_env_def)
qed

theorem same_key_confirms_nothing_witness:
  "confirm_goal form_env form_created ((form_call ''k'')\<lparr>fc_user := ''v''\<rparr>) ''another'' True = Inr (form_created, form_goal)"
proof -
  have "find_goal_by_idempotency (fm_goals (formation_start [])) (fc_key (form_call ''k'')) = None" by code_simp
  from same_key_confirms_nothing [OF formation_start_ok this form_creates, of "(form_call ''k'')\<lparr>fc_user := ''v''\<rparr>" "''another''"]
  show ?thesis by simp
qed

end
