(* ===== verification/Spec2Isabelle.thy ===== *)
theory Spec2Isabelle
  imports Continuity Outcome Ranking LearnerTruth ActivityLaws GoalEnds FormationEnds
begin

text \<open>
  A verification development for the adaptive learning core of Askora, the Python backend under
  \<open>src/apps/backend/app\<close>. Paths below are relative to it.

  \<^bold>\<open>The program.\<close> Askora teaches one learner at a time. For each turn a policy kernel decides a
  teaching action from an immutable context snapshot: it validates the pinned versions, derives a
  teaching stage, applies eleven families of hard constraints to a closed table of candidates,
  scores what is left and selects one with its decision trace. A sequential layer holds or switches
  that decision across turns on material evidence. Evidence for the action is retrieved under scope,
  revision and exposure limits; an execution service delivers a renderer's proposal only inside the
  envelope of the action and records the assistance that was really given. Answers are graded
  deterministically, an obligation machine asks for an independent validation after an assisted
  success, the learner model turns accepted results into weighted evidence and a mastery estimate,
  and outcome attribution is gated. Around the turn, a scheduler computes when a unit is due for
  review, a planner turns a goal, the mastery and the due reviews into a budgeted plan, and a
  diagnostic planner decides which unknown prerequisite to ask about. The review and planning
  workflow stores observations, schedules and plans and puts tasks on a transactional outbox, which
  a worker drains with retries, dead letters and recovery of stale claims.

  \<^bold>\<open>Theories and sources.\<close>
  \<^item> \<open>Prelude\<close>, \<open>PyText\<close>, \<open>Float64\<close>: results as sums, dictionaries as association lists, Python
    values, string functions (\<open>lower\<close>, \<open>split\<close>, \<open>join\<close>, \<open>str\<close> of an int) and binary64 arithmetic,
    rounding every exact rational result to the nearest double.
  \<^item> \<open>Contracts\<close>, \<open>PolicyModels\<close>: the records and validators of \<open>contracts/adaptive.py\<close>,
    \<open>contracts/decisions.py\<close> and \<open>domains/teaching_policy/models.py\<close>, with the shipped profile.
  \<^item> \<open>Candidates\<close>, \<open>Stages\<close>, \<open>Constraints\<close>, \<open>Features\<close>, \<open>Scoring\<close>, \<open>Kernel\<close>: the files of the same
    names under \<open>domains/teaching_policy\<close> and \<open>validation.py\<close>; \<open>Decisions\<close> holds the properties
    of \<open>TeachingPolicyKernel.decide\<close>.
  \<^item> \<open>Evidence\<close>, \<open>Sequential\<close>: \<open>evidence.py\<close>, \<open>sequential.py\<close>; \<open>Turns\<close> and \<open>Continuity\<close> hold the
    properties of a turn and of runs; \<open>Facade\<close> models the routing and the reconstruction of the
    state in \<open>orchestration/learning_facade.py\<close>; \<open>Obligation\<close> and \<open>Outcome\<close> model
    \<open>validation_obligation.py\<close>, \<open>outcome_evaluation.py\<close> and \<open>opve.py\<close>.
  \<^item> \<open>Ranking\<close>, \<open>Retrieval\<close>: \<open>domains/retrieval\<close>; \<open>Execution\<close>: \<open>orchestration/adaptive_execution.py\<close>;
    \<open>Assessment\<close>: \<open>domains/assessment\<close>.
  \<^item> \<open>Learner\<close>: \<open>domains/learner_model\<close> (\<open>adaptive_eligibility.py\<close>, \<open>projector.py\<close>,
    \<open>state_projector.py\<close>); \<open>Scheduler\<close>: \<open>domains/review_scheduler/scheduler.py\<close>; \<open>Planner\<close>,
    \<open>Diagnostic\<close>: \<open>planner.py\<close> and \<open>diagnostic.py\<close> of \<open>domains/learning_planner\<close>.
  \<^item> \<open>Outbox\<close>: \<open>infrastructure/outbox.py\<close>; \<open>Streams\<close> and \<open>PlanningRecords\<close>:
    \<open>infrastructure/planning_records.py\<close> and the part of \<open>infrastructure/activity_lifecycle.py\<close>
    it calls; \<open>ReviewFlow\<close>, \<open>PlanFlow\<close>: \<open>orchestration/review_planning.py\<close>.
  \<^item> \<open>Ledger\<close>: \<open>contracts/events.py\<close>, \<open>infrastructure/ledger.py\<close> and the v0.3 ledgers of
    \<open>infrastructure/adaptive_records.py\<close>, whose other repositories are in \<open>AdaptiveRecords\<close>;
    \<open>LearnerRecords\<close>: \<open>infrastructure/learning_records.py\<close>, \<open>services/kt/canonical_projector.py\<close> and
    \<open>domains/learner_model/diagnostic_state.py\<close>, with their properties in \<open>LearnerTruth\<close>.
  \<^item> \<open>ActivityFlow\<close>: \<open>services/activity_lifecycle.py\<close> with its repository and contracts; \<open>ActivityLaws\<close>
    holds its properties.
  \<^item> \<open>GoalKnowledge\<close>: \<open>queries/goal_knowledge.py\<close> over the rows of \<open>models/document.py\<close>; \<open>GoalMapping\<close>:
    \<open>domains/learning_planner/goal_mapping.py\<close>. \<open>GoalRecords\<close>: \<open>contracts/goal_management.py\<close> and
    \<open>infrastructure/goal_management.py\<close>; \<open>GoalFlow\<close> and \<open>GoalLifecycle\<close>: \<open>services/goal_management.py\<close> and
    \<open>services/assessment/goal_achievement.py\<close>; \<open>GoalLaws\<close>, \<open>GoalMachine\<close> and \<open>GoalEnds\<close> hold their
    properties. \<open>GoalFormation\<close>: \<open>services/learning_goals.py\<close> and \<open>services/owner/canonical_identity.py\<close>, with their
    properties in \<open>FormationLaws\<close> and \<open>FormationEnds\<close>.

  \<^bold>\<open>How state and operations correspond.\<close> Pydantic models and dataclasses are records, their
  validators predicates or fallible constructors, enumerations datatypes. Instants are integers of
  microseconds, UUIDs and texts are strings, and \<open>uuid5\<close>, \<open>datetime.fromisoformat\<close>,
  \<open>str.casefold\<close>, \<open>math.log\<close> and \<open>math.exp\<close> are parameters. A database table is a list of rows
  with its uniqueness constraints; a repository method maps a table to a table and a result, and
  a raised exception is a value of a sum type whose transaction leaves no trace. A worker's claim may
  select from an older snapshot than the one it updates, and \<open>outbox_reach\<close> interleaves producers,
  claims, reports, crashes and recoveries. A protocol class (\<open>ReviewRepositoryPort\<close>,
  \<open>PlanRepositoryPort\<close>, \<open>OutboxPort\<close>) is a record of functions, so the workflows are modelled
  against any port.

  \<^bold>\<open>Interfaces.\<close> \<open>ranked_choice\<close> (stable selection), \<open>absorbing_machine\<close> (obligations),
  \<open>version_store\<close> (repositories of versioned entities, given by the streams, the goals and the needs),
  \<open>review_store\<close> (what the workflow needs of its repositories, given by the modelled tables)
  and \<open>append_only\<close> (a table that only grows and keeps its keys unique, given by the ledgers and the
  adaptive records) are locales; each is interpreted on the definitions of the model.

  \<^bold>\<open>What the lemmas show.\<close> Decisions are legal, traced, fail closed, and their existence is
  characterised. A turn switches of its own accord only on material evidence, and the switches of a run are bounded by
  the opportunities its turns count, which begin anew after each switch. While no obligation is satisfied, help in a
  delivered response leaves an obligation required and its trace in the evidence, and none is given in an
  assessment (the two theorems of this theory); a satisfied obligation absorbs later help. Mastery is a bounded,
  replayable function of the accepted evidence; a schedule is the replay of its observations in the order they were
  applied, applying one is idempotent, and invalidating one undoes it when everything came in order; plans respect
  prerequisites, budget and a single open version; the diagnostic search meets its reachability specification; the
  outbox keeps its keys unique, bounds the starts of a task while no claim is recovered, and comes to rest. The ledgers
  and the records of the adaptive contracts never lose or change a row; where a stream has valid evidence its latest
  mastery is the projection of it, and no command of one workspace touches another's. Without drafts at the boundary and
  supersedings by goal management, an activity runs through its lifecycle one version at a time and a plan is worked
  through in its order, whatever stale readings the commands act on. A goal is mapped to published knowledge of the
  learner's own material, and its subgraph is the closure of the targets under hard prerequisites. In the runs of the
  first-version goal service, the versions of a goal agree with the event ledger, only a confirmation or an adoption
  promotes a candidate, and mapping under a known key replays the stored decision. While no client uses a derived
  selection key, the states of a goal are a path of its machine, and an achieved goal rests on accepted results for each
  of its criteria. Some theorems show where the code falls short: dead ends
  after an independent success, the dwell lost in the reconstruction, schedules that overflow,
  completed tasks that run again, poison tasks that run without limit, a recall that cannot be repeated, an approved
  change of a goal that blocks its activities, and a material without a publication decision that no goal can be mapped to.

  \<^bold>\<open>Bounds.\<close> No definition uses fuel. The diagnostic worklist ends because every unit in its queue is
  unmet and visited once; the prerequisite closure ends because each repeated pass adds a unit of the scope; the worker ends because each run uses up an attempt. The
  overflow of a schedule takes thirty successes since the stability then exceeds \<open>1.8 ^ 30\<close> days,
  bounded from below by the integers of \<open>grow_64\<close> in units of a sixty-fourth. Floats are exact
  rationals rounded to binary64 without overflow to infinity, which the ranges here do not reach.

  \<^bold>\<open>Not modelled.\<close> The HTTP interface, model clients, queries and DTO assembly, the document
  pipeline and the earlier dialog engines are I/O or glue. The publication of content
  and the sessions of the assessment service around the graders are left out: what they add to the modelled parts
  are sessions, prompts and the assembly of responses. The goal service of the first version is modelled one session at a time. Erasure and
  export are sequences of SQL statements and file operations. Fixed Chinese texts are constructors.
\<close>

section \<open>A decided assessment, executed\<close>

text \<open>C1: when the policy decides a turn of an independent assessment and the execution
  service answers it, then whatever the renderer proposes the learner receives no scaffold, no hint
  and nothing of the answer, no evidence that exposes anything is used, and the assistance on record
  is INDEPENDENT.\<close>

theorem assessment_stays_independent:
  assumes "decide env ctx b p asg = Inr d" and "is_independent_assessment env ctx"
    and "execute env' tools render rq = Inr r" and "rq_action rq = pd_action d"
  shows "as_scaffold (er_assistance r) = SC_NONE \<and> as_hint (er_assistance r) = HS_NONE
    \<and> as_exposure (er_assistance r) = AE_NONE \<and> as_state (er_assistance r) = INDEPENDENT
    \<and> (\<forall>i \<in> set (er_used r). \<exists>e. item_by_id (eb_items (rq_bundle rq)) i = Some e \<and> ei_exposure e = AE_NONE)"
proof -
  have a: "ta_hint (rq_action rq) = HS_NONE" "ta_exposure (rq_action rq) = AE_NONE"
    "ta_scaffold (rq_action rq) = SC_NONE"
    using assessment_integrity [OF assms(1,2)] by (simp_all add: assms(4))
  note t = execute_tight [OF assms(3)]
  have "scaffold_order (as_scaffold (er_assistance r)) = 0" "hint_order (as_hint (er_assistance r)) = 0"
    "exposure_rank (as_exposure (er_assistance r)) = 0"
    using t a by (simp_all add: within_envelope_def)
  moreover have "scaffold_order x = 0 \<longleftrightarrow> x = SC_NONE" for x by (cases x) simp_all
  moreover have "hint_order y = 0 \<longleftrightarrow> y = HS_NONE" for y by (cases y) simp_all
  moreover have "exposure_rank z = 0 \<longleftrightarrow> z = AE_NONE" for z by (cases z) simp_all
  ultimately have none: "as_scaffold (er_assistance r) = SC_NONE" "as_hint (er_assistance r) = HS_NONE"
    "as_exposure (er_assistance r) = AE_NONE" by simp_all
  moreover have "as_state (er_assistance r) = INDEPENDENT"
    using t none by (simp add: valid_snapshot_def expected_assistance_def)
  moreover have "exposure_rank x \<le> exposure_rank AE_NONE \<longleftrightarrow> x = AE_NONE" for x by (cases x) simp_all
  ultimately show ?thesis using t by auto
qed

definition exam_request :: "policy_decision \<Rightarrow> render_request" where
  "exam_request d = \<lparr>rq_text = ''just tell me'', rq_action = pd_action d,
     rq_bundle = make_bundle plain_env ''req'' (pd_action d) [] [] [] [],
     rq_subject = ''general'', rq_capability = None, rq_inference = None\<rparr>"

theorem assessment_stays_independent_witness:
  "\<exists>d r. decide demo_env exam_ctx demo_bundle default_profile None = Inr d
    \<and> execute plain_env {} pushy (exam_request d) = Inr r \<and> as_state (er_assistance r) = INDEPENDENT"
proof -
  obtain d where d: "decide demo_env exam_ctx demo_bundle default_profile None = Inr d"
    using exam_decides by blast
  have q: "rq_action (exam_request d) = pd_action d" by (simp add: exam_request_def)
  have "ta_exposure (pd_action d) = AE_NONE" using assessment_integrity [OF d exam_assessment] by simp
  then have "\<not> conforms {} (rq_action (exam_request d)) (rq_bundle (exam_request d))
      (projr (pushy (exam_request d)))"
    by (simp add: conforms_def pushy_def q)
  moreover have "pushy (exam_request d) = Inr (projr (pushy (exam_request d)))" by (simp add: pushy_def)
  moreover have "vr_id (eb_action_ref (rq_bundle (exam_request d))) = ta_id (rq_action (exam_request d))"
    by (simp add: exam_request_def make_bundle_def Let_def teaching_action_ref_def)
  ultimately obtain r where r: "execute plain_env {} pushy (exam_request d) = Inr r"
    using execute_returns by blast
  from assessment_stays_independent [OF d exam_assessment r q] d r show ?thesis by blast
qed

section \<open>Help given is help accounted for\<close>

text \<open>C12: help follows the learner through four components. When a delivered response
  helped and the learner's correct answer is graded with that assistance, and no obligation is on record or
  one that is still required, then afterwards an obligation of independent validation is required: the one
  on record unchanged, or a new one that names the help. Any evidence the learner model accepts of these
  facts carries the same help, with no weight at all when the answer had been exposed. An obligation already
  satisfied is outside the claim: it stays satisfied (\<open>obligation_never_lost\<close>).\<close>

theorem help_is_accounted_for:
  assumes "execute env tools render rq = Inr r"
    and "assess_exact env cfold i = Inr rec" and "in_assistance i = er_assistance r"
    and "answers_match env cfold i" and "as_state (er_assistance r) \<noteq> INDEPENDENT"
    and "valid_eligibility p" and "decide_eligibility env p eg = Inr k" and "ed_evidence k = Some e"
    and "eg_result eg = ar_result rec" and "eg_attempt eg = ar_attempt rec"
    and "eg_actual eg = Some (av_assistance (er_event r))"
    and "obl = None \<or> (\<exists>c. obl = Some c \<and> iv_status c = REQUIRED)"
  shows "(\<exists>c. advance_validation_obligation env obl (ar_attempt rec) (ar_result rec) = Some c
      \<and> iv_status c = REQUIRED \<and> (obl = Some c \<or> obl = None \<and> iv_assistance c = as_state (er_assistance r)))
    \<and> le_state e = as_state (er_assistance r)
    \<and> (as_exposure (er_assistance r) = AE_COMPLETE \<longrightarrow> le_weight e = 0)"
proof -
  let ?s = "as_state (er_assistance r)"
  have rec: "ar_attempt rec = make_attempt env cfold i" "ar_result rec = make_result env cfold i"
    using assess_facts [OF assms(2)] by simp_all
  have s: "at_assistance (ar_attempt rec) = er_assistance r" "rs_assistance (ar_result rec) = er_assistance r"
    unfolding rec by (simp_all add: make_attempt_def make_result_def Let_def assms(3))
  have "exposed_success (ar_attempt rec) (ar_result rec)" "rs_attempt (ar_result rec) = at_id (ar_attempt rec)"
    using assms(3-5) by (simp_all add: rec made_success)
  then have "advance_validation_obligation env None (ar_attempt rec) (ar_result rec)
      = Some (required_record env (ar_attempt rec) (ar_result rec))"
    by (simp add: advance_validation_obligation_def)
  moreover have "iv_assistance (required_record env (ar_attempt rec) (ar_result rec)) = ?s"
    using assms(5) by (cases ?s) (simp_all add: required_record_def experienced_def s Let_def)
  ultimately have fresh: "\<exists>c. advance_validation_obligation env None (ar_attempt rec) (ar_result rec) = Some c
      \<and> iv_status c = REQUIRED \<and> iv_assistance c = ?s"
    by (simp add: required_record_def Let_def)
  have "\<not> independent_success (ar_attempt rec) (ar_result rec)"
    using assms(5) by (auto simp: independent_success_def s)
  then have "advance_validation_obligation env (Some c) (ar_attempt rec) (ar_result rec) = Some c" for c
    by (simp add: advance_validation_obligation_def)
  with fresh assms(12) have oblig: "\<exists>c. advance_validation_obligation env obl (ar_attempt rec) (ar_result rec) = Some c
      \<and> iv_status c = REQUIRED \<and> (obl = Some c \<or> obl = None \<and> iv_assistance c = ?s)" by auto
  have t: "av_assistance (er_event r) = er_assistance r" "valid_snapshot (er_assistance r)"
    using execute_tight [OF assms(1)] by simp_all
  have eff: "effective_state eg (er_assistance r) = ?s"
    using effective_state_facts(1) [of eg "er_assistance r"] assms(9,10) s
    by (auto simp: states_of_def)
  from assms(7,8) have "le_state e = ?s \<and> (?s = ANSWER_EXPOSED \<longrightarrow> le_weight e = 0)"
    by (rule eligibility_accepted)
      (use assms(11) t(1) eff exposed_weight_zero [OF assms(6)] in auto)
  moreover have "as_exposure (er_assistance r) = AE_COMPLETE \<Longrightarrow> ?s = ANSWER_EXPOSED"
    using t(2) by (simp add: valid_snapshot_def expected_assistance_def)
  ultimately show ?thesis using oblig by blast
qed

text \<open>A witness: the complete answer is shown, the learner then repeats it.\<close>

definition told_request :: render_request where
  "told_request = \<lparr>rq_text = ''tell me'', rq_action = lesson AE_COMPLETE,
     rq_bundle = make_bundle plain_env ''req'' (lesson AE_COMPLETE) [] [] [] [],
     rq_subject = ''general'', rq_capability = None, rq_inference = None\<rparr>"

definition told_answer :: "assistance_snapshot \<Rightarrow> assessment_input" where
  "told_answer s = \<lparr>in_user = ''ann'', in_session = ''s'', in_item = ''item'', in_item_version = ''1'',
     in_type = AT_FORMATIVE, in_response = VStr ''42'', in_expected = VStr ''42'', in_action = lesson AE_COMPLETE,
     in_assistance = s, in_action_ref = teaching_action_ref (lesson AE_COMPLETE),
     in_response_ref = mk_ref ''rendered_response'' ''r1'' (VerI 1), in_started = 0, in_submitted = 7000000,
     in_key = ''k'', in_confidence = 1, in_error_type = ET_UNKNOWN, in_diagnostic_confidence = None,
     in_obligation_id = None\<rparr>"

definition told_evidence :: "assistance_snapshot \<Rightarrow> eligibility_input" where
  "told_evidence s = \<lparr>eg_result = make_result plain_env str_lower (told_answer s),
     eg_attempt = make_attempt plain_env str_lower (told_answer s), eg_actual = Some s,
     eg_unit = ''unit'', eg_dimension = RECALL, eg_novelty = FAR_VARIANT, eg_delay = 0,
     eg_events = [mk_ref ''event'' ''e1'' (VerI 1)], eg_difficulty = None\<rparr>"

lemma told_executed:
  obtains r where "execute plain_env {} pushy told_request = Inr r"
    and "as_state (er_assistance r) = ANSWER_EXPOSED" and "as_exposure (er_assistance r) = AE_COMPLETE"
proof -
  let ?b = "make_bundle plain_env ''req'' (lesson AE_COMPLETE) [] [] [] []"
  define p where "p = projr (pushy told_request)"
  have p: "pushy told_request = Inr p" by (simp add: p_def pushy_def)
  have "template_content told_request \<in> {(MISSING_SOURCE_TEXT, AE_NONE, [], SC_NONE), (TRY_FIRST_TEXT, AE_NONE, [], SC_NONE)}"
    by (auto simp: template_content_def told_request_def make_bundle_def Let_def)
  then have c: "conforms {} (lesson AE_COMPLETE) ?b p"
    by (auto simp: p_def pushy_def conforms_def template_render_def lesson_def told_request_def
        expected_assistance_def Let_def split: prod.splits)
  have "\<not> list_all is_space template_version" by code_simp
  then have "\<not> list_all is_space (rp_version p)"
    by (simp add: p_def pushy_def template_render_def Let_def split: prod.splits)
  moreover have "vr_id (eb_action_ref ?b) = ta_id (lesson AE_COMPLETE)"
    by (simp add: make_bundle_def Let_def teaching_action_ref_def)
  ultimately obtain r where r: "execute plain_env {} pushy told_request = Inr r"
    using execute_returns [of plain_env "{}" pushy told_request] p by (auto simp: told_request_def)
  have q: "rq_action told_request = lesson AE_COMPLETE" "rq_bundle told_request = ?b"
    by (simp_all add: told_request_def)
  have "\<not> er_fallback r" using execute_cases_lemma(1) [OF p r] c by (simp add: q)
  then have x: "as_exposure (er_assistance r) = AE_COMPLETE"
    using execute_cases_lemma(2) [OF p r] by (simp add: p_def pushy_def)
  then have "as_state (er_assistance r) = ANSWER_EXPOSED"
    using execute_tight [OF r] by (simp add: valid_snapshot_def expected_assistance_def)
  with r x show ?thesis using that by blast
qed

lemma told_accepted:
  assumes "as_state s = ANSWER_EXPOSED"
  shows "\<exists>k e. decide_eligibility plain_env school_profile (told_evidence s) = Inr k \<and> ed_evidence k = Some e"
proof -
  have s: "effective_state (told_evidence s) s = ANSWER_EXPOSED"
    by (simp add: effective_state_def states_of_def told_evidence_def told_answer_def make_attempt_def
        make_result_def Let_def assms)
  show ?thesis
    using s by (simp add: decide_eligibility_def told_evidence_def told_answer_def make_attempt_def make_result_def
        school_profile_def dict_get_def fmul_def valid_evidence_def make_evidence_def Let_def
        eligibility_reasons_def answers_match_def mark_def)
qed

theorem help_is_accounted_for_witness:
  "\<exists>r k e. execute plain_env {} pushy told_request = Inr r
    \<and> decide_eligibility plain_env school_profile (told_evidence (er_assistance r)) = Inr k
    \<and> ed_evidence k = Some e \<and> le_state e = ANSWER_EXPOSED \<and> le_weight e = 0
    \<and> (\<exists>c rec. assess_exact plain_env str_lower (told_answer (er_assistance r)) = Inr rec
      \<and> advance_validation_obligation plain_env None (ar_attempt rec) (ar_result rec) = Some c
      \<and> iv_status c = REQUIRED \<and> iv_assistance c = ANSWER_EXPOSED)"
proof -
  obtain r where r: "execute plain_env {} pushy told_request = Inr r"
    and s: "as_state (er_assistance r) = ANSWER_EXPOSED" and x: "as_exposure (er_assistance r) = AE_COMPLETE"
    by (rule told_executed)
  let ?i = "told_answer (er_assistance r)"
  have "vr_id (in_action_ref ?i) = ta_id (in_action ?i)" "valid_input ?i"
    by (simp_all add: told_answer_def teaching_action_ref_def valid_input_def unit_range_def)
  then obtain rec where rec: "assess_exact plain_env str_lower ?i = Inr rec"
    by (auto simp: assess_exact_def)
  obtain k e where k: "decide_eligibility plain_env school_profile (told_evidence (er_assistance r)) = Inr k"
    and e: "ed_evidence k = Some e" using told_accepted [OF s] by blast
  have a: "in_assistance ?i = er_assistance r" "answers_match plain_env str_lower ?i"
    by (simp_all add: told_answer_def answers_match_def)
  have g: "eg_result (told_evidence (er_assistance r)) = ar_result rec"
    "eg_attempt (told_evidence (er_assistance r)) = ar_attempt rec"
    "eg_actual (told_evidence (er_assistance r)) = Some (av_assistance (er_event r))"
    using assess_facts [OF rec] execute_tight [OF r] by (simp_all add: told_evidence_def)
  have "as_state (er_assistance r) \<noteq> INDEPENDENT" by (simp add: s)
  from help_is_accounted_for [OF r rec a this school_valid k e g, of None] r k e s x rec
  show ?thesis by auto
qed

end
